(* ===== verification/Prelude.thy ===== *)
theory Prelude
  imports Main "HOL-Library.Multiset" "HOL-Library.List_Lexorder" "HOL-Library.Char_ord"
begin

text \<open>
  Shared vocabulary of the development.

  \<^item> A TypeScript function that returns nothing and may throw is a value of type
    \<open>checked\<close>: \<open>None\<close> when it returns, \<open>Some msg\<close> when it throws \<open>Error(msg)\<close>.
    A body that is a sequence of such statements is \<open>first_throw\<close> of the list of its
    statements, in the order of the source.
  \<^item> A function that returns a value or throws is of type \<open>'a throws\<close>, the sum of the
    message thrown and the value returned.
  \<^item> A JavaScript string is a list of characters, one per UTF-16 code unit; the model
    ranges over the strings whose code units are below 256.  JavaScript compares strings
    with \<open><\<close> by code units, which is the lexicographic order that
    \<open>HOL-Library.List_Lexorder\<close> and \<open>Char_ord\<close> put on \<open>string\<close>.
\<close>

named_theorems throws_simps "what a sequence of checks accepts"
named_theorems js_defs "unfolding of the small JavaScript library functions"

type_synonym checked = "string option"
type_synonym 'a throws = "string + 'a"

abbreviation (input) returns :: checked where
  "returns \<equiv> None"

abbreviation (input) throws :: "string \<Rightarrow> checked" where
  "throws msg \<equiv> Some msg"

definition throw_if :: "bool \<Rightarrow> string \<Rightarrow> checked" where
  "throw_if c msg = (if c then throws msg else returns)"

fun first_throw :: "checked list \<Rightarrow> checked" where
  "first_throw [] = returns"
| "first_throw (None # cs) = first_throw cs"
| "first_throw (Some msg # cs) = throws msg"

text \<open>A statement sequence followed by a \<open>return\<close>.\<close>

definition and_return :: "checked \<Rightarrow> 'a \<Rightarrow> 'a throws" where
  "and_return c v = (case c of None \<Rightarrow> Inr v | Some msg \<Rightarrow> Inl msg)"

text \<open>A statement sequence followed by a computation that may throw itself.\<close>

definition and_then :: "checked \<Rightarrow> 'a throws \<Rightarrow> 'a throws" where
  "and_then c r = (case c of None \<Rightarrow> r | Some msg \<Rightarrow> Inl msg)"

definition bind_throws :: "'a throws \<Rightarrow> ('a \<Rightarrow> 'b throws) \<Rightarrow> 'b throws" where
  "bind_throws r f = (case r of Inl msg \<Rightarrow> Inl msg | Inr v \<Rightarrow> f v)"

text \<open>A loop over an array whose body may throw; the index is passed to the body.\<close>

fun check_each :: "(nat \<Rightarrow> 'a \<Rightarrow> checked) \<Rightarrow> nat \<Rightarrow> 'a list \<Rightarrow> checked" where
  "check_each body i [] = returns"
| "check_each body i (x # xs) =
     (case body i x of Some msg \<Rightarrow> throws msg | None \<Rightarrow> check_each body (Suc i) xs)"

lemma throw_if_returns [simp, throws_simps]: "throw_if c msg = None \<longleftrightarrow> \<not> c"
  by (simp add: throw_if_def)

lemma throw_if_throws [simp]: "throw_if c msg = Some m \<longleftrightarrow> c \<and> m = msg"
  by (auto simp: throw_if_def)

lemma throw_if_True [simp]: "throw_if True msg = Some msg"
  by (simp add: throw_if_def)

lemma throw_if_False [simp]: "throw_if False msg = None"
  by (simp add: throw_if_def)

lemma first_throw_returns: "first_throw cs = None \<longleftrightarrow> (\<forall>c \<in> set cs. c = None)"
  by (induction cs rule: first_throw.induct) auto

lemma first_throw_Cons_returns [simp, throws_simps]:
  "first_throw (c # cs) = None \<longleftrightarrow> c = None \<and> first_throw cs = None"
  by (cases c) auto

lemma first_throw_throws:
  "first_throw cs = Some msg \<Longrightarrow> \<exists>pre post. cs = pre @ Some msg # post \<and> (\<forall>c \<in> set pre. c = None)"
proof (induction cs rule: first_throw.induct)
  case (2 cs)
  then obtain pre post where "cs = pre @ Some msg # post" "\<forall>c \<in> set pre. c = None"
    by auto
  then have "None # cs = (None # pre) @ Some msg # post \<and> (\<forall>c \<in> set (None # pre). c = None)"
    by simp
  then show ?case by blast
next
  case (3 m cs)
  then have "Some m # cs = [] @ Some msg # cs \<and> (\<forall>c \<in> set []. c = None)"
    by simp
  then show ?case by blast
qed simp

lemma first_throw_append:
  "first_throw (xs @ ys) = (case first_throw xs of None \<Rightarrow> first_throw ys | Some m \<Rightarrow> Some m)"
  by (induction xs rule: first_throw.induct) auto

lemma first_throw_mem: "first_throw cs = Some msg \<Longrightarrow> Some msg \<in> set cs"
  by (induction cs rule: first_throw.induct) auto

lemma and_return_Inr [simp, throws_simps]: "and_return c v = Inr w \<longleftrightarrow> c = None \<and> w = v"
  by (auto simp: and_return_def split: option.splits)

lemma and_return_Inl [simp]: "and_return c v = Inl m \<longleftrightarrow> c = Some m"
  by (auto simp: and_return_def split: option.splits)

lemma and_return_simps [simp]: "and_return None v = Inr v" "and_return (Some m) v = Inl m"
  by simp_all

lemma and_then_Inr [simp, throws_simps]: "and_then c r = Inr w \<longleftrightarrow> c = None \<and> r = Inr w"
  by (auto simp: and_then_def split: option.splits)

lemma and_then_None [simp]: "and_then None r = r"
  by (simp add: and_then_def)

lemma and_then_Some [simp]: "and_then (Some m) r = Inl m"
  by (simp add: and_then_def)

lemma bind_throws_Inr [simp, throws_simps]:
  "bind_throws r f = Inr w \<longleftrightarrow> (\<exists>v. r = Inr v \<and> f v = Inr w)"
  by (auto simp: bind_throws_def split: sum.splits)

lemma bind_throws_Inr_left [simp]: "bind_throws (Inr v) f = f v"
  by (simp add: bind_throws_def)

lemma bind_throws_Inl_left [simp]: "bind_throws (Inl m) f = Inl m"
  by (simp add: bind_throws_def)

lemma check_each_returns:
  "check_each body i xs = None \<longleftrightarrow> (\<forall>k < length xs. body (i + k) (xs ! k) = None)"
proof (induction body i xs rule: check_each.induct)
  case (2 body i x xs)
  have "(\<forall>k < length (x # xs). body (i + k) ((x # xs) ! k) = None) \<longleftrightarrow>
        body i x = None \<and> (\<forall>k < length xs. body (Suc i + k) (xs ! k) = None)"
    by (auto simp: less_Suc_eq_0_disj nth_Cons')
  with 2 show ?case by (auto split: option.splits)
qed simp

lemma check_each_indep [throws_simps]:
  assumes "\<And>j x. body j x = None \<longleftrightarrow> P x"
  shows "check_each body i xs = None \<longleftrightarrow> (\<forall>x \<in> set xs. P x)"
  by (simp add: check_each_returns assms all_set_conv_all_nth)

subsection \<open>Sorting by a comparator\<close>

text \<open>
  \<open>xs.sort(cmp)\<close>: a stable sort; a result of \<open>cmp\<close> that is not positive keeps the first argument
  first.
\<close>

fun insort_by :: "('a \<Rightarrow> 'a \<Rightarrow> int) \<Rightarrow> 'a \<Rightarrow> 'a list \<Rightarrow> 'a list" where
  "insort_by cmp x [] = [x]"
| "insort_by cmp x (y # ys) = (if cmp x y \<le> 0 then x # y # ys else y # insort_by cmp x ys)"

definition sort_by :: "('a \<Rightarrow> 'a \<Rightarrow> int) \<Rightarrow> 'a list \<Rightarrow> 'a list" where
  "sort_by cmp xs = foldr (insort_by cmp) xs []"

definition total_on_by :: "('a \<Rightarrow> 'a \<Rightarrow> int) \<Rightarrow> 'a set \<Rightarrow> bool" where
  "total_on_by cmp A \<longleftrightarrow>
     (\<forall>x \<in> A. \<forall>y \<in> A. (cmp x y \<le> 0 \<or> cmp y x \<le> 0) \<and> (cmp x y \<le> 0 \<and> cmp y x \<le> 0 \<longrightarrow> x = y)) \<and>
     (\<forall>x \<in> A. \<forall>y \<in> A. \<forall>z \<in> A. cmp x y \<le> 0 \<and> cmp y z \<le> 0 \<longrightarrow> cmp x z \<le> 0)"

lemma mset_insort_by [simp]: "mset (insort_by cmp x ys) = add_mset x (mset ys)"
  by (induction ys) auto

lemma mset_sort_by [simp]: "mset (sort_by cmp xs) = mset xs"
  by (induction xs) (simp_all add: sort_by_def)

lemma set_sort_by [simp]: "set (sort_by cmp xs) = set xs"
  using mset_sort_by by (metis set_mset_mset)

lemma length_sort_by [simp]: "length (sort_by cmp xs) = length xs"
  using mset_sort_by by (metis size_mset)

lemma insort_by_sorted:
  assumes "sorted_wrt (\<lambda>a b. cmp a b \<le> 0) ys" "total_on_by cmp A" "insert x (set ys) \<subseteq> A"
  shows "sorted_wrt (\<lambda>a b. cmp a b \<le> 0) (insort_by cmp x ys)"
  using assms
proof (induction ys)
  case (Cons y ys)
  have A: "x \<in> A" "y \<in> A" "set ys \<subseteq> A" using Cons.prems by auto
  have set: "set (insort_by cmp x ys) = insert x (set ys)"
    using mset_insort_by [of cmp x ys] by (metis set_mset_add_mset_insert set_mset_mset)
  show ?case
  proof (cases "cmp x y \<le> 0")
    case True
    then have "\<forall>z \<in> set ys. cmp x z \<le> 0"
      using Cons.prems(1,2) A unfolding total_on_by_def by (metis subsetD sorted_wrt.simps(2))
    with True Cons.prems show ?thesis by simp
  next
    case False
    then have "cmp y x \<le> 0" using Cons.prems(2) A unfolding total_on_by_def by blast
    with False Cons show ?thesis by (simp add: set)
  qed
qed simp

lemma sort_by_sorted: "total_on_by cmp (set xs) \<Longrightarrow> sorted_wrt (\<lambda>a b. cmp a b \<le> 0) (sort_by cmp xs)"
proof -
  assume t: "total_on_by cmp (set xs)"
  have "set ys \<subseteq> set xs \<Longrightarrow> sorted_wrt (\<lambda>a b. cmp a b \<le> 0) (sort_by cmp ys)" for ys
  proof (induction ys)
    case (Cons y ys)
    have "set (foldr (insort_by cmp) ys []) = set ys"
      using set_sort_by [of cmp ys] by (simp add: sort_by_def)
    with Cons show ?case
      using insort_by_sorted [OF _ t, of "sort_by cmp ys" y] by (simp add: sort_by_def)
  qed (simp add: sort_by_def)
  then show ?thesis by simp
qed

lemma sorted_wrt_unique:
  assumes "sorted_wrt R xs" "sorted_wrt R ys" "mset xs = mset ys"
    "\<And>a b. a \<in> set xs \<Longrightarrow> b \<in> set xs \<Longrightarrow> R a b \<Longrightarrow> R b a \<Longrightarrow> a = b"
  shows "xs = ys"
  using assms
proof (induction xs arbitrary: ys)
  case (Cons x xs)
  then obtain y zs where ys: "ys = y # zs" by (cases ys) auto
  have set: "set (x # xs) = set (y # zs)" using Cons.prems(3) ys by (metis set_mset_mset)
  have "x = y"
  proof (rule ccontr)
    assume "x \<noteq> y"
    with set have "x \<in> set zs" "y \<in> set xs" by auto
    with Cons.prems(1,2) ys have "R x y" "R y x" by auto
    with Cons.prems(4) \<open>y \<in> set xs\<close> \<open>x \<noteq> y\<close> show False by auto
  qed
  with Cons ys show ?case by simp
qed simp

text \<open>The order of the input does not matter when the comparator is a total order on its elements.\<close>

lemma sort_by_perm:
  assumes "mset xs = mset ys" "total_on_by cmp (set xs)"
  shows "sort_by cmp xs = sort_by cmp ys"
proof (rule sorted_wrt_unique)
  have "set xs = set ys" using assms(1) by (metis set_mset_mset)
  then show "sorted_wrt (\<lambda>a b. cmp a b \<le> 0) (sort_by cmp ys)"
    "sorted_wrt (\<lambda>a b. cmp a b \<le> 0) (sort_by cmp xs)"
    using assms(2) by (simp_all add: sort_by_sorted)
  show "mset (sort_by cmp xs) = mset (sort_by cmp ys)" using assms(1) by simp
  show "\<And>a b. a \<in> set (sort_by cmp xs) \<Longrightarrow> b \<in> set (sort_by cmp xs) \<Longrightarrow> cmp a b \<le> 0 \<Longrightarrow> cmp b a \<le> 0 \<Longrightarrow> a = b"
    using assms(2) unfolding total_on_by_def set_sort_by by blast
qed

end
