(* ===== verification/JsText.thy ===== *)
theory JsText
  imports Prelude
begin

text \<open>
  The string library of the language as far as the sources use it: \<open>trim\<close>,
  \<open>toLowerCase\<close>, \<open>split\<close> and \<open>join\<close> on one separator, \<open>includes\<close>, the decimal rendering
  of indices in template literals, UTF-8 encoding, and one predicate for every regular
  expression of the sources.  All these expressions are anchored and none has the \<open>m\<close>
  flag, so a predicate is over the whole string.
\<close>

subsection \<open>Character classes\<close>

definition char_code :: "char \<Rightarrow> nat" where
  "char_code c = of_char c"

definition is_lower :: "char \<Rightarrow> bool" where
  "is_lower c \<longleftrightarrow> 97 \<le> char_code c \<and> char_code c \<le> 122"

definition is_upper :: "char \<Rightarrow> bool" where
  "is_upper c \<longleftrightarrow> 65 \<le> char_code c \<and> char_code c \<le> 90"

definition is_digit :: "char \<Rightarrow> bool" where
  "is_digit c \<longleftrightarrow> 48 \<le> char_code c \<and> char_code c \<le> 57"

definition is_hex :: "char \<Rightarrow> bool" where
  "is_hex c \<longleftrightarrow> is_digit c \<or> (97 \<le> char_code c \<and> char_code c \<le> 102)"

definition is_space :: "char \<Rightarrow> bool" where
  "is_space c \<longleftrightarrow> char_code c \<in> {9, 10, 11, 12, 13, 32, 160}"

lemma char_code_inj: "char_code a = char_code b \<longleftrightarrow> a = b"
  by (simp add: char_code_def)

lemma char_code_less: "a < b \<longleftrightarrow> char_code a < char_code b"
  by (simp add: less_char_def char_code_def)

lemma char_code_bound: "char_code c < 256"
  by (simp add: char_code_def)

subsection \<open>trim, toLowerCase, includes, startsWith, endsWith\<close>

definition trim_start :: "string \<Rightarrow> string" where
  "trim_start s = dropWhile is_space s"

definition trim :: "string \<Rightarrow> string" where
  "trim s = rev (trim_start (rev (trim_start s)))"

definition lower_char :: "char \<Rightarrow> char" where
  "lower_char c = (let n = char_code c in
     if (65 \<le> n \<and> n \<le> 90) \<or> (192 \<le> n \<and> n \<le> 222 \<and> n \<noteq> 215) then char_of (n + 32) else c)"

definition to_lower :: "string \<Rightarrow> string" where
  "to_lower s = map lower_char s"

fun starts_with :: "string \<Rightarrow> string \<Rightarrow> bool" where
  "starts_with s [] = True"
| "starts_with [] (p # ps) = False"
| "starts_with (c # s) (p # ps) = (c = p \<and> starts_with s ps)"

definition ends_with :: "string \<Rightarrow> string \<Rightarrow> bool" where
  "ends_with s p = starts_with (rev s) (rev p)"

fun str_includes :: "string \<Rightarrow> string \<Rightarrow> bool" where
  "str_includes [] p = (p = [])"
| "str_includes (c # s) p = (starts_with (c # s) p \<or> str_includes s p)"

subsection \<open>split and join on one separator\<close>

fun split_on :: "char \<Rightarrow> string \<Rightarrow> string list" where
  "split_on sep [] = [[]]"
| "split_on sep (c # s) =
     (if c = sep then [] # split_on sep s
      else (case split_on sep s of [] \<Rightarrow> [[c]] | w # ws \<Rightarrow> (c # w) # ws))"

fun join_with :: "char \<Rightarrow> string list \<Rightarrow> string" where
  "join_with sep [] = []"
| "join_with sep [w] = w"
| "join_with sep (w # ws) = w @ sep # join_with sep ws"

text \<open>The decimal rendering of a natural number in a template literal.\<close>

definition digit_char :: "nat \<Rightarrow> char" where
  "digit_char d = char_of (48 + d)"

fun show_nat :: "nat \<Rightarrow> string" where
  "show_nat n = (if n < 10 then [digit_char n] else show_nat (n div 10) @ [digit_char (n mod 10)])"

declare show_nat.simps [simp del]

text \<open>A number rendered with leading zeros to a fixed width, as the date formats are.\<close>

fun pad_nat :: "nat \<Rightarrow> nat \<Rightarrow> string" where
  "pad_nat 0 n = []"
| "pad_nat (Suc w) n = pad_nat w (n div 10) @ [digit_char (n mod 10)]"

definition digit_val :: "char \<Rightarrow> nat" where
  "digit_val c = char_code c - 48"

definition nat_of_digits :: "string \<Rightarrow> nat" where
  "nat_of_digits s = foldl (\<lambda>n c. 10 * n + digit_val c) 0 s"

subsection \<open>The regular expressions of the sources\<close>

text \<open>\<^verbatim>\<open>/^[a-f0-9]{64}$/\<close>, written \<^verbatim>\<open>/^[0-9a-f]{64}$/\<close> in some files.\<close>

definition HASH_HEX_PATTERN :: "string \<Rightarrow> bool" where
  "HASH_HEX_PATTERN s \<longleftrightarrow> length s = 64 \<and> list_all is_hex s"

text \<open>\<^verbatim>\<open>/^[0-9]+\.[0-9]+$/\<close>\<close>

definition VERSION_PATTERN :: "string \<Rightarrow> bool" where
  "VERSION_PATTERN s \<longleftrightarrow>
     (case split_on CHR ''.'' s of
        [major, minor] \<Rightarrow> major \<noteq> [] \<and> minor \<noteq> [] \<and> list_all is_digit major \<and> list_all is_digit minor
      | _ \<Rightarrow> False)"

text \<open>\<^verbatim>\<open>/^did:[a-z0-9]+:[a-zA-Z0-9._%-]+$/\<close>; neither class holds a colon.\<close>

definition did_method_char :: "char \<Rightarrow> bool" where
  "did_method_char c \<longleftrightarrow> is_lower c \<or> is_digit c"

definition did_id_char :: "char \<Rightarrow> bool" where
  "did_id_char c \<longleftrightarrow> is_lower c \<or> is_upper c \<or> is_digit c \<or> c \<in> set ''._%-''"

definition DID_PATTERN :: "string \<Rightarrow> bool" where
  "DID_PATTERN s \<longleftrightarrow>
     (case split_on CHR '':'' s of
        [scheme, meth, ident] \<Rightarrow>
          scheme = ''did'' \<and> meth \<noteq> [] \<and> ident \<noteq> [] \<and>
          list_all did_method_char meth \<and> list_all did_id_char ident
      | _ \<Rightarrow> False)"

text \<open>\<^verbatim>\<open>/^[a-z][a-z0-9-]*$/\<close>: SDL segments and capability actions.\<close>

definition kebab_char :: "char \<Rightarrow> bool" where
  "kebab_char c \<longleftrightarrow> is_lower c \<or> is_digit c \<or> c = CHR ''-''"

fun SEGMENT_PATTERN :: "string \<Rightarrow> bool" where
  "SEGMENT_PATTERN [] = False"
| "SEGMENT_PATTERN (c # s) = (is_lower c \<and> list_all kebab_char s)"

text \<open>\<^verbatim>\<open>/^[a-z0-9][a-z0-9._-]{0,127}$/\<close>\<close>

definition mm_head_char :: "char \<Rightarrow> bool" where
  "mm_head_char c \<longleftrightarrow> is_lower c \<or> is_digit c"

definition mm_tail_char :: "char \<Rightarrow> bool" where
  "mm_tail_char c \<longleftrightarrow> is_lower c \<or> is_digit c \<or> c \<in> set ''._-''"

fun MARKET_MAKER_ID_PATTERN :: "string \<Rightarrow> bool" where
  "MARKET_MAKER_ID_PATTERN [] = False"
| "MARKET_MAKER_ID_PATTERN (c # s) =
     (mm_head_char c \<and> length s \<le> 127 \<and> list_all mm_tail_char s)"

text \<open>\<^verbatim>\<open>/^[a-z][a-z0-9]*(-[a-z0-9]+)*$/\<close>: hyphen-separated storage backends.\<close>

definition alnum_char :: "char \<Rightarrow> bool" where
  "alnum_char c \<longleftrightarrow> is_lower c \<or> is_digit c"

definition BACKEND_PATTERN :: "string \<Rightarrow> bool" where
  "BACKEND_PATTERN s \<longleftrightarrow>
     (case split_on CHR ''-'' s of
        (c # w) # ws \<Rightarrow> is_lower c \<and> list_all alnum_char w \<and>
                        list_all (\<lambda>v. v \<noteq> [] \<and> list_all alnum_char v) ws
      | _ \<Rightarrow> False)"

text \<open>\<^verbatim>\<open>/^[a-z][a-z0-9_-]*$/\<close>: field identifiers of a pack.\<close>

fun FIELD_ID_PATTERN :: "string \<Rightarrow> bool" where
  "FIELD_ID_PATTERN [] = False"
| "FIELD_ID_PATTERN (c # s) = (is_lower c \<and> list_all (\<lambda>d. kebab_char d \<or> d = CHR ''_'') s)"

text \<open>\<^verbatim>\<open>/^[a-z][a-z0-9-]*(\.[a-z][a-z0-9-]*)+$/\<close>: the vault's SDL paths.\<close>

definition SDL_PATH_PATTERN :: "string \<Rightarrow> bool" where
  "SDL_PATH_PATTERN s \<longleftrightarrow>
     (let ws = split_on CHR ''.'' s in 2 \<le> length ws \<and> list_all SEGMENT_PATTERN ws)"

text \<open>
  \<^verbatim>\<open>/^[0-9]{4}-[0-9]{2}-[0-9]{2}T[0-9]{2}:[0-9]{2}:[0-9]{2}Z$/\<close>: one shape
  per position, so ranges of the fields are not checked.
\<close>

definition ISO_SHAPE :: string where
  "ISO_SHAPE = ''dddd-dd-ddTdd:dd:ddZ''"

definition ISO8601_UTC_PATTERN :: "string \<Rightarrow> bool" where
  "ISO8601_UTC_PATTERN s \<longleftrightarrow>
     list_all2 (\<lambda>c k. if k = CHR ''d'' then is_digit c else c = k) s ISO_SHAPE"

subsection \<open>TextEncoder\<close>

text \<open>UTF-8 of one code unit below 256: one byte below 128, two bytes above.\<close>

definition utf8_char :: "char \<Rightarrow> string" where
  "utf8_char c = (let n = char_code c in
     if n < 128 then [c] else [char_of (192 + n div 64), char_of (128 + n mod 64)])"

definition utf8_encode :: "string \<Rightarrow> string" where
  "utf8_encode s = concat (map utf8_char s)"

subsection \<open>Lemmas: split, join, trim\<close>

lemma split_on_nonempty [simp]: "split_on sep s \<noteq> []"
  by (induction s) (auto split: list.splits)

lemma join_Cons: "ws \<noteq> [] \<Longrightarrow> join_with sep (w # ws) = w @ sep # join_with sep ws"
  by (cases ws) auto

lemma join_Cons_Cons: "join_with sep ((c # w) # ws) = c # join_with sep (w # ws)"
  by (cases ws) auto

theorem join_split [simp]: "join_with sep (split_on sep s) = s"
proof (induction s)
  case (Cons c s)
  then show ?case
    by (cases "split_on sep s") (auto simp: join_Cons join_Cons_Cons)
qed simp

lemma split_on_free: "w \<in> set (split_on sep s) \<Longrightarrow> sep \<notin> set w"
proof (induction s arbitrary: w)
  case (Cons c s)
  then show ?case
    by (cases "split_on sep s") (auto split: if_splits)
qed simp

lemma split_on_prefix:
  "sep \<notin> set w \<Longrightarrow> split_on sep (w @ sep # s) = w # split_on sep s"
  by (induction w) auto

lemma split_on_single: "sep \<notin> set w \<Longrightarrow> split_on sep w = [w]"
  by (induction w) auto

lemma split_join:
  "ws \<noteq> [] \<Longrightarrow> \<forall>w \<in> set ws. sep \<notin> set w \<Longrightarrow> split_on sep (join_with sep ws) = ws"
proof (induction ws rule: join_with.induct)
  case (3 sep w v ws)
  then show ?case by (simp add: split_on_prefix)
qed (auto simp: split_on_single)

lemma split_on_length_1: "length (split_on sep s) = 1 \<longleftrightarrow> sep \<notin> set s"
proof
  assume "length (split_on sep s) = 1"
  then obtain w where w: "split_on sep s = [w]" by (auto simp: length_Suc_conv)
  then have "w = s" using join_split [of sep s] by simp
  with w show "sep \<notin> set s" using split_on_free [of w sep s] by simp
qed (simp add: split_on_single)

lemma set_split_on: "w \<in> set (split_on sep s) \<Longrightarrow> set w \<subseteq> set s"
proof (induction s arbitrary: w)
  case (Cons c s)
  then show ?case
    by (cases "split_on sep s") (force split: if_splits)+
qed simp

lemma dropWhile_nil: "dropWhile P xs = [] \<longleftrightarrow> list_all P xs"
  by (simp add: list_all_iff)

lemma dropWhile_id: "xs = [] \<or> \<not> P (hd xs) \<Longrightarrow> dropWhile P xs = xs"
  by (cases xs) auto

lemma trim_nil: "trim s = [] \<longleftrightarrow> list_all is_space s"
proof -
  have "list_all is_space (dropWhile is_space s) \<longleftrightarrow> list_all is_space s"
    by (induction s) auto
  then show ?thesis
    by (simp add: trim_def trim_start_def list_all_iff)
qed

text \<open>A string that neither starts nor ends with white space is unchanged by \<open>trim\<close>.\<close>

lemma trim_id: "s = [] \<or> \<not> is_space (hd s) \<and> \<not> is_space (last s) \<Longrightarrow> trim s = s"
  by (auto simp: trim_def trim_start_def dropWhile_id hd_rev)

lemma trim_ends:
  assumes "trim s \<noteq> []"
  shows "\<not> is_space (hd (trim s)) \<and> \<not> is_space (last (trim s))"
proof -
  define a where "a = dropWhile is_space s"
  have t: "trim s = rev (dropWhile is_space (rev a))"
    by (simp add: trim_def trim_start_def a_def)
  with assms have ne: "dropWhile is_space (rev a) \<noteq> []" by simp
  then have "\<not> is_space (hd (dropWhile is_space (rev a)))" by (rule hd_dropWhile)
  then have last: "\<not> is_space (last (trim s))" using ne by (simp add: t last_rev)
  have "a \<noteq> []" using ne by auto
  then have "\<not> is_space (hd a)" unfolding a_def by (rule hd_dropWhile)
  moreover have "hd (trim s) = hd a"
  proof -
    have "rev a = takeWhile is_space (rev a) @ dropWhile is_space (rev a)" by simp
    then have "a = trim s @ rev (takeWhile is_space (rev a))"
      unfolding t by (metis rev_append rev_rev_ident)
    then show ?thesis using assms by (metis hd_append2)
  qed
  ultimately show ?thesis using last by simp
qed

lemma trim_idem [simp]: "trim (trim s) = trim s"
  using trim_ends [of s] by (intro trim_id) auto

lemma set_trim: "set (trim s) \<subseteq> set s"
  unfolding trim_def trim_start_def
  by (auto dest!: set_dropWhileD)

lemma list_all_not_space_trim: "list_all (\<lambda>c. \<not> is_space c) s \<Longrightarrow> trim s = s"
  by (intro trim_id) (auto simp: list_all_iff)

lemma starts_with_append: "starts_with s p \<longleftrightarrow> (\<exists>t. s = p @ t)"
  by (induction s p rule: starts_with.induct) auto

lemma str_includes_append: "str_includes s p \<longleftrightarrow> (\<exists>a b. s = a @ p @ b)"
proof (induction s)
  case (Cons c s)
  have "(\<exists>a b. c # s = a @ p @ b) \<longleftrightarrow> (\<exists>b. c # s = p @ b) \<or> (\<exists>a b. s = a @ p @ b)"
    by (metis append_Cons append_Nil list.exhaust list.inject)
  with Cons show ?case by (simp add: starts_with_append)
qed simp

subsection \<open>Lemmas: decimal digits\<close>

lemma char_code_digit_char [simp]: "d < 10 \<Longrightarrow> char_code (digit_char d) = 48 + d"
  by (simp add: char_code_def digit_char_def)

lemma digit_val_char [simp]: "d < 10 \<Longrightarrow> digit_val (digit_char d) = d"
  by (simp add: digit_val_def)

lemma is_digit_char [simp]: "d < 10 \<Longrightarrow> is_digit (digit_char d)"
  by (simp add: is_digit_def)

lemma is_digit_conv: "is_digit c \<longleftrightarrow> (\<exists>d < 10. c = digit_char d)"
proof
  assume c: "is_digit c"
  have "c = digit_char (char_code c - 48)"
    using c by (simp add: is_digit_def digit_char_def char_code_def)
  then show "\<exists>d < 10. c = digit_char d"
    using c by (intro exI [of _ "char_code c - 48"]) (auto simp: is_digit_def)
qed auto

lemma digit_val_less: "is_digit c \<Longrightarrow> digit_val c < 10"
  by (auto simp: is_digit_conv)

lemma digit_char_val: "is_digit c \<Longrightarrow> digit_char (digit_val c) = c"
  by (auto simp: is_digit_conv)

lemma nat_of_digits_snoc [simp]: "nat_of_digits (s @ [c]) = 10 * nat_of_digits s + digit_val c"
  by (simp add: nat_of_digits_def)

lemma nat_of_digits_Nil [simp]: "nat_of_digits [] = 0"
  by (simp add: nat_of_digits_def)

lemma nat_of_digits_append:
  "nat_of_digits (s @ t) = nat_of_digits s * 10 ^ length t + nat_of_digits t"
  by (induction t rule: rev_induct) (simp_all add: append_assoc [symmetric] algebra_simps del: append_assoc)

lemma nat_of_digits_replicate_0 [simp]: "nat_of_digits (replicate n CHR ''0'') = 0"
proof (induction n)
  case (Suc n)
  have "replicate (Suc n) CHR ''0'' = replicate n CHR ''0'' @ [CHR ''0'']"
    by (simp add: replicate_append_same)
  moreover have "digit_val CHR ''0'' = 0" by (simp add: digit_val_def char_code_def)
  ultimately show ?case using Suc by (simp only: nat_of_digits_snoc)
qed simp

theorem nat_of_digits_show [simp]: "nat_of_digits (show_nat n) = n"
proof (induction n rule: show_nat.induct)
  case (1 n)
  show ?case
  proof (cases "n < 10")
    case True
    then show ?thesis
      using nat_of_digits_snoc [of "[]" "digit_char n"] by (simp add: show_nat.simps)
  next
    case False
    with 1 show ?thesis by (subst show_nat.simps) simp
  qed
qed

lemma show_nat_inj [simp]: "show_nat m = show_nat n \<longleftrightarrow> m = n"
  by (metis nat_of_digits_show)

lemma show_nat_digits: "list_all is_digit (show_nat n)"
proof (induction n rule: show_nat.induct)
  case (1 n)
  then show ?case by (subst show_nat.simps) auto
qed

lemma show_nat_nonempty [simp]: "show_nat n \<noteq> []"
  by (subst show_nat.simps) auto

lemma length_pad_nat [simp]: "length (pad_nat w n) = w"
  by (induction w arbitrary: n) auto

lemma pad_nat_digits [simp]: "list_all is_digit (pad_nat w n)"
  by (induction w arbitrary: n) auto

lemma nat_of_pad: "nat_of_digits (pad_nat w n) = n mod 10 ^ w"
proof (induction w arbitrary: n)
  case (Suc w)
  have "n mod 10 ^ Suc w = 10 * (n div 10 mod 10 ^ w) + n mod 10"
    using mod_mult2_eq [of n 10 "10 ^ w"] by simp
  with Suc show ?case by simp
qed simp

lemma nat_of_pad_bounded [simp]: "n < 10 ^ w \<Longrightarrow> nat_of_digits (pad_nat w n) = n"
  by (simp add: nat_of_pad)

lemma pad_nat_of_digits:
  "list_all is_digit s \<Longrightarrow> pad_nat (length s) (nat_of_digits s) = s"
proof (induction s rule: rev_induct)
  case (snoc c s)
  then have d: "digit_val c < 10" by (simp add: digit_val_less)
  with snoc show ?case by (simp add: digit_char_val)
qed simp

lemma nat_of_digits_less: "list_all is_digit s \<Longrightarrow> nat_of_digits s < 10 ^ length s"
proof (induction s rule: rev_induct)
  case (snoc c s)
  then have "nat_of_digits s + 1 \<le> 10 ^ length s" "digit_val c < 10"
    by (auto simp: digit_val_less)
  then have "10 * nat_of_digits s + digit_val c < 10 * 10 ^ length s" by linarith
  then show ?case by simp
qed simp

subsection \<open>Lemmas: comparison by code units\<close>

text \<open>Strings of equal length compare component by component.\<close>

lemma less_append_same_length:
  fixes a b c d :: string
  assumes "length a = length b"
  shows "a @ c < b @ d \<longleftrightarrow> a < b \<or> (a = b \<and> c < d)"
  using assms
proof (induction a b rule: list_induct2)
  case (Cons x xs y ys)
  then show ?case by auto
qed simp

lemma digit_char_less: "d < 10 \<Longrightarrow> e < 10 \<Longrightarrow> digit_char d < digit_char e \<longleftrightarrow> d < e"
  by (simp add: char_code_less)

lemma pad_nat_less:
  "m < 10 ^ w \<Longrightarrow> n < 10 ^ w \<Longrightarrow> pad_nat w m < pad_nat w n \<longleftrightarrow> m < n"
proof (induction w arbitrary: m n)
  case (Suc w)
  have dm: "m div 10 < 10 ^ w" "n div 10 < 10 ^ w"
    using Suc.prems by auto
  have eq: "pad_nat w (m div 10) = pad_nat w (n div 10) \<longleftrightarrow> m div 10 = n div 10"
    using dm by (metis nat_of_pad_bounded)
  have "pad_nat (Suc w) m < pad_nat (Suc w) n \<longleftrightarrow>
        m div 10 < n div 10 \<or> (m div 10 = n div 10 \<and> m mod 10 < n mod 10)"
    by (simp add: less_append_same_length Suc.IH [OF dm] eq digit_char_less)
  also have "\<dots> \<longleftrightarrow> m < n"
  proof -
    have "m = 10 * (m div 10) + m mod 10" "n = 10 * (n div 10) + n mod 10" by simp_all
    moreover have "m mod 10 < 10" "n mod 10 < 10" by simp_all
    ultimately show ?thesis by linarith
  qed
  finally show ?case .
qed simp

lemma pad_nat_eq: "m < 10 ^ w \<Longrightarrow> n < 10 ^ w \<Longrightarrow> pad_nat w m = pad_nat w n \<longleftrightarrow> m = n"
  by (metis nat_of_pad_bounded)

subsection \<open>Lemmas: UTF-8\<close>

lemma char_of_eq: "a < 256 \<Longrightarrow> b < 256 \<Longrightarrow> (char_of a :: char) = char_of b \<longleftrightarrow> a = (b :: nat)"
  by (metis of_char_of mod_less)

lemma utf8_char_cancel:
  assumes "utf8_char c @ s = utf8_char d @ t"
  shows "c = d \<and> s = t"
proof -
  have b: "char_code c < 256" "char_code d < 256" by (simp_all add: char_code_bound)
  have cc: "c = char_of (char_code c)" "d = char_of (char_code d)" by (simp_all add: char_code_def)
  have hi: "\<not> char_code e < 128 \<Longrightarrow> char_code (char_of (192 + char_code e div 64)) \<ge> 128" for e
  proof -
    have "192 + char_code e div 64 < 256" using char_code_bound [of e] by (simp add: less_mult_imp_div_less)
    then show ?thesis by (simp add: char_code_def)
  qed
  show ?thesis
  proof (cases "char_code c < 128 \<longleftrightarrow> char_code d < 128")
    case True
    show ?thesis
    proof (cases "char_code c < 128")
      case False
      with True assms b have "192 + char_code c div 64 = 192 + char_code d div 64"
        "128 + char_code c mod 64 = 128 + char_code d mod 64"
        by (auto simp: utf8_char_def Let_def char_of_eq)
      then have "char_code c = char_code d"
        by (metis add_left_cancel div_mult_mod_eq)
      with False True assms show ?thesis by (auto simp: utf8_char_def Let_def char_code_inj)
    qed (use True assms in \<open>auto simp: utf8_char_def Let_def\<close>)
  next
    case False
    then have "char_code c < 128 \<and> \<not> char_code d < 128 \<or> \<not> char_code c < 128 \<and> char_code d < 128"
      by blast
    then show ?thesis
    proof (elim disjE conjE)
      assume "char_code c < 128" "\<not> char_code d < 128"
      with assms have "c = char_of (192 + char_code d div 64)" by (simp add: utf8_char_def Let_def)
      with hi [OF \<open>\<not> char_code d < 128\<close>] \<open>char_code c < 128\<close> show ?thesis by simp
    next
      assume "\<not> char_code c < 128" "char_code d < 128"
      with assms have "char_of (192 + char_code c div 64) = d" by (simp add: utf8_char_def Let_def)
      with hi [OF \<open>\<not> char_code c < 128\<close>] \<open>char_code d < 128\<close> show ?thesis by force
    qed
  qed
qed

lemma utf8_char_nonempty [simp]: "utf8_char c \<noteq> []"
  by (simp add: utf8_char_def Let_def)

theorem utf8_encode_inj: "utf8_encode s = utf8_encode t \<longleftrightarrow> s = t"
proof
  assume "utf8_encode s = utf8_encode t"
  then show "s = t"
  proof (induction s arbitrary: t)
    case Nil
    then show ?case by (cases t) (auto simp: utf8_encode_def)
  next
    case (Cons c s)
    then obtain d t' where t: "t = d # t'"
      by (cases t) (auto simp: utf8_encode_def)
    with Cons.prems have "utf8_char c @ utf8_encode s = utf8_char d @ utf8_encode t'"
      by (simp add: utf8_encode_def)
    from utf8_char_cancel [OF this] Cons.IH t show ?case by simp
  qed
qed simp

end
