(* ===== verification/Shared.thy ===== *)
theory Shared
  imports JsText "HOL-Library.AList"
begin

text \<open>
  The modules of \<open>shared/\<close>: the canonical capability actions
  (\<open>capabilityActions.ts\<close>), the market maker identifiers (\<open>marketMakerId.ts\<close>) and the
  registry of market makers (\<open>marketMakerRegistry.ts\<close>).

  A JavaScript \<open>Map\<close> is an association list in insertion order: \<open>get\<close> is
  \<^const>\<open>map_of\<close>, \<open>set\<close> is \<^const>\<open>AList.update\<close>, which overwrites a key in place and
  appends a new one, and \<open>delete\<close> is \<^const>\<open>AList.delete\<close>.
\<close>

subsection \<open>Canonical capability actions\<close>

definition canonicalCapabilityActions :: "string list" where
  "canonicalCapabilityActions = [''read'', ''store'', ''share'', ''derive'', ''aggregate'']"

definition isCanonicalCapabilityAction :: "string \<Rightarrow> bool" where
  "isCanonicalCapabilityAction action \<longleftrightarrow> action \<in> set canonicalCapabilityActions"

fun join_comma :: "string list \<Rightarrow> string" where
  "join_comma [] = []"
| "join_comma [s] = s"
| "join_comma (s # t # ts) = s @ '', '' @ join_comma (t # ts)"

text \<open>\<open>ACTION_PATTERN = /^[a-z][a-z0-9-]*$/\<close>\<close>

definition ACTION_PATTERN :: "string \<Rightarrow> bool" where
  "ACTION_PATTERN s \<longleftrightarrow> (case s of [] \<Rightarrow> False | c # t \<Rightarrow> is_lower c \<and> list_all kebab_char t)"

definition validateCapabilityAction :: "string \<Rightarrow> string \<Rightarrow> checked" where
  "validateCapabilityAction action ctx =
     first_throw
       [throw_if (\<not> ACTION_PATTERN action)
          (ctx @ '': must be lowercase alphanumeric with hyphens.''),
        throw_if (\<not> isCanonicalCapabilityAction action)
          (ctx @ '' must be one of: '' @ join_comma canonicalCapabilityActions @ ''.'')]"

record action_options =
  containerLabel :: string
  itemLabel :: string
  emptyMessage :: string
  maxEntries :: nat

text \<open>The loop over the actions, with the set \<open>seen\<close> it fills.\<close>

fun validate_actions_from :: "action_options \<Rightarrow> nat \<Rightarrow> string set \<Rightarrow> string list \<Rightarrow> checked" where
  "validate_actions_from opts i seen [] = returns"
| "validate_actions_from opts i seen (a # as) =
     first_throw
       [validateCapabilityAction a (itemLabel opts @ '' '' @ show_nat i),
        throw_if (a \<in> seen) (containerLabel opts @ '' contain duplicate: \"'' @ a @ ''\".''),
        validate_actions_from opts (Suc i) (insert a seen) as]"

definition validateCapabilityActions :: "string list \<Rightarrow> action_options \<Rightarrow> checked" where
  "validateCapabilityActions actions opts =
     first_throw
       [throw_if (actions = []) (emptyMessage opts),
        throw_if (length actions > maxEntries opts)
          (containerLabel opts @ '' must not exceed '' @ show_nat (maxEntries opts) @ '' entries.''),
        validate_actions_from opts 0 {} actions]"

lemma canonical_action_pattern: "isCanonicalCapabilityAction a \<Longrightarrow> ACTION_PATTERN a"
  by (auto simp: isCanonicalCapabilityAction_def canonicalCapabilityActions_def ACTION_PATTERN_def
      is_lower_def kebab_char_def is_digit_def char_code_def)

lemma validateCapabilityAction_returns [simp, throws_simps]:
  "validateCapabilityAction a ctx = None \<longleftrightarrow> isCanonicalCapabilityAction a"
  using canonical_action_pattern by (auto simp: validateCapabilityAction_def)

lemma validate_actions_from_returns:
  "validate_actions_from opts i seen as = None \<longleftrightarrow>
     (\<forall>a \<in> set as. isCanonicalCapabilityAction a) \<and> distinct as \<and> set as \<inter> seen = {}"
  by (induction as arbitrary: i seen) auto

lemma validateCapabilityActions_returns [throws_simps]:
  "validateCapabilityActions actions opts = None \<longleftrightarrow>
     actions \<noteq> [] \<and> length actions \<le> maxEntries opts \<and> distinct actions \<and>
     (\<forall>a \<in> set actions. isCanonicalCapabilityAction a)"
  by (auto simp: validateCapabilityActions_def validate_actions_from_returns)

subsection \<open>Market maker identifiers\<close>

definition validateMarketMakerId :: "string option \<Rightarrow> string \<Rightarrow> checked" where
  "validateMarketMakerId marketMakerId fieldName =
     (case marketMakerId of
        None \<Rightarrow> returns
      | Some s \<Rightarrow>
          first_throw
            [throw_if (trim s = []) (fieldName @ '' must be a non-empty string when provided.''),
             throw_if (\<not> MARKET_MAKER_ID_PATTERN s)
               (fieldName @ '' must contain only lowercase letters, numbers, dots, underscores, or hyphens and be at most 128 characters.'')])"

lemma mm_tail_not_space: "mm_tail_char c \<Longrightarrow> \<not> is_space c"
  by (auto simp: mm_tail_char_def mm_head_char_def is_lower_def is_digit_def is_space_def char_code_def)

lemma mm_head_not_space: "mm_head_char c \<Longrightarrow> \<not> is_space c"
  by (auto simp: mm_head_char_def is_lower_def is_digit_def is_space_def char_code_def)

lemma market_maker_id_trim: "MARKET_MAKER_ID_PATTERN s \<Longrightarrow> trim s = s \<and> s \<noteq> []"
  by (cases s) (auto intro!: list_all_not_space_trim simp: list_all_iff mm_head_not_space mm_tail_not_space)

lemma validateMarketMakerId_returns [simp, throws_simps]:
  "validateMarketMakerId m f = None \<longleftrightarrow> (\<forall>s. m = Some s \<longrightarrow> MARKET_MAKER_ID_PATTERN s)"
  using market_maker_id_trim by (auto simp: validateMarketMakerId_def split: option.splits)

subsection \<open>The market maker registry\<close>

text \<open>
  The status is the string the caller gave: \<open>validateMarketMaker\<close> checks it against the
  three statuses of the type.
\<close>

record MarketMaker =
  mm_id :: string
  mm_name :: string
  mm_version :: string
  mm_capabilities :: "string list"
  mm_endpoint :: "string option"
  mm_publicKey :: "string option"
  mm_status :: string
  mm_created_at :: string

definition blank :: "string \<Rightarrow> bool" where
  "blank s \<longleftrightarrow> trim s = []"

definition validateMarketMaker :: "MarketMaker \<Rightarrow> checked" where
  "validateMarketMaker m =
     first_throw
       [validateMarketMakerId (Some (mm_id m)) ''Market maker id'',
        throw_if (blank (mm_name m)) ''Market maker name must be a non-empty string.'',
        throw_if (blank (mm_version m)) ''Market maker version must be a non-empty string.'',
        throw_if (mm_capabilities m = [] \<or> list_ex blank (mm_capabilities m))
          ''Market maker capabilities must be a non-empty array of strings.'',
        throw_if (case mm_endpoint m of None \<Rightarrow> False | Some e \<Rightarrow> blank e)
          ''Market maker endpoint must be a non-empty string when provided.'',
        throw_if (case mm_publicKey m of None \<Rightarrow> False | Some e \<Rightarrow> blank e)
          ''Market maker publicKey must be a non-empty string when provided.'',
        throw_if (mm_status m \<notin> {''active'', ''deprecated'', ''revoked''})
          ''Market maker status must be active, deprecated, or revoked.'',
        throw_if (\<not> ISO8601_UTC_PATTERN (mm_created_at m))
          ''Market maker created_at must be ISO 8601 UTC format.'']"

type_synonym MarketMakerRegistry = "(string \<times> MarketMaker) list"

definition mm_empty :: MarketMakerRegistry where
  "mm_empty = []"

definition mm_register :: "MarketMakerRegistry \<Rightarrow> MarketMaker \<Rightarrow> MarketMakerRegistry throws" where
  "mm_register records m =
     and_return
       (first_throw
         [validateMarketMaker m,
          throw_if (map_of records (mm_id m) \<noteq> None)
            (''Market maker '' @ mm_id m @ '' is already registered.'')])
       (AList.update (mm_id m) m records)"

definition mm_get :: "MarketMakerRegistry \<Rightarrow> string \<Rightarrow> MarketMaker option" where
  "mm_get records i = map_of records i"

definition mm_exists :: "MarketMakerRegistry \<Rightarrow> string \<Rightarrow> bool" where
  "mm_exists records i \<longleftrightarrow> map_of records i \<noteq> None"

definition mm_getStatus :: "MarketMakerRegistry \<Rightarrow> string \<Rightarrow> string option" where
  "mm_getStatus records i = map_option mm_status (map_of records i)"

definition mm_isTrusted :: "MarketMakerRegistry \<Rightarrow> string \<Rightarrow> bool" where
  "mm_isTrusted records i =
     (let status = mm_getStatus records i in
      status \<noteq> None \<and> the status \<in> {''active''})"

definition mm_list :: "MarketMakerRegistry \<Rightarrow> MarketMaker list" where
  "mm_list records = map snd records"

text \<open>Every entry passed \<open>validateMarketMaker\<close> and is stored under its own identifier.\<close>

definition mm_inv :: "MarketMakerRegistry \<Rightarrow> bool" where
  "mm_inv records \<longleftrightarrow> distinct (map fst records) \<and>
     (\<forall>(i, m) \<in> set records. i = mm_id m \<and> validateMarketMaker m = None)"

lemma update_new: "map_of al k = None \<Longrightarrow> AList.update k v al = al @ [(k, v)]"
  by (induction al) (auto split: if_splits)

lemma mm_inv_empty: "mm_inv mm_empty"
  by (simp add: mm_inv_def mm_empty_def)

lemma mm_register_Inr:
  "mm_register records m = Inr records' \<longleftrightarrow>
     validateMarketMaker m = None \<and> \<not> mm_exists records (mm_id m) \<and>
     records' = records @ [(mm_id m, m)]"
  by (auto simp: mm_register_def mm_exists_def update_new)

lemma mm_register_inv: "mm_inv records \<Longrightarrow> mm_register records m = Inr records' \<Longrightarrow> mm_inv records'"
  by (auto simp: mm_register_Inr mm_inv_def mm_exists_def map_of_eq_None_iff)

text \<open>
  What the decision code relies on when it is given a registry: a status for exactly the
  registered identifiers.
\<close>

locale market_maker_view =
  fixes exists_in :: "'r \<Rightarrow> string \<Rightarrow> bool"
    and status_in :: "'r \<Rightarrow> string \<Rightarrow> string option"
    and trusted_in :: "'r \<Rightarrow> string \<Rightarrow> bool"
  assumes status_exists: "exists_in r i \<longleftrightarrow> status_in r i \<noteq> None"
    and trusted_status: "trusted_in r i \<longleftrightarrow> status_in r i = Some ''active''"
begin

lemma trusted_exists: "trusted_in r i \<Longrightarrow> exists_in r i"
  by (simp add: trusted_status status_exists)

lemma revoked_not_trusted: "status_in r i = Some ''revoked'' \<Longrightarrow> \<not> trusted_in r i"
  by (simp add: trusted_status)

end

interpretation mm: market_maker_view mm_exists mm_getStatus mm_isTrusted
  by unfold_locales (auto simp: mm_exists_def mm_getStatus_def mm_isTrusted_def Let_def)

text \<open>
  A sequence of registrations, failed ones included, as the program's callers make them.
\<close>

definition mm_register_all :: "MarketMaker list \<Rightarrow> MarketMakerRegistry" where
  "mm_register_all ms =
     foldl (\<lambda>r m. case mm_register r m of Inl _ \<Rightarrow> r | Inr r' \<Rightarrow> r') mm_empty ms"

lemma mm_register_all_snoc:
  "mm_register_all (ms @ [m]) =
     (case mm_register (mm_register_all ms) m of Inl _ \<Rightarrow> mm_register_all ms | Inr r' \<Rightarrow> r')"
  unfolding mm_register_all_def foldl_append foldl.simps ..

lemma mm_register_all_inv: "mm_inv (mm_register_all ms)"
proof (induction ms rule: rev_induct)
  case Nil
  then show ?case by (simp add: mm_register_all_def mm_inv_empty)
next
  case (snoc m ms)
  then show ?case by (auto simp: mm_register_all_snoc mm_register_inv split: sum.splits)
qed

lemma mm_trusted_entry:
  assumes "mm_inv r" "mm_isTrusted r i"
  shows "\<exists>m. (i, m) \<in> set r \<and> mm_id m = i \<and> mm_status m = ''active'' \<and> validateMarketMaker m = None"
  using assms by (auto simp: mm_inv_def mm.trusted_status mm_getStatus_def dest!: map_of_SomeD)

lemma mm_register_all_origin: "(i, m) \<in> set (mm_register_all ms) \<Longrightarrow> m \<in> set ms"
proof (induction ms rule: rev_induct)
  case Nil
  then show ?case by (simp add: mm_register_all_def mm_empty_def)
next
  case (snoc x ms)
  then show ?case by (auto simp: mm_register_all_snoc mm_register_Inr split: sum.splits)
qed

text \<open>
  The first valid registration of an identifier decides its entry: later ones are refused
  and leave it in place.
\<close>

lemma mm_register_keeps:
  assumes "map_of (mm_register_all ms) i = Some m"
  shows "map_of (mm_register_all (ms @ ns)) i = Some m"
proof (induction ns rule: rev_induct)
  case (snoc n ns)
  then show ?case
    by (auto simp: mm_register_all_snoc [of "ms @ ns", simplified] mm_register_Inr map_of_append
        mm_exists_def split: sum.splits option.splits)
qed (use assms in simp)

end
