(* ===== verification/Canonical.thy ===== *)
theory Canonical
  imports JsText
begin

text \<open>
  Canonical JSON, profile \<open>aoc-canonical-json/1\<close>: \<open>canonicalizeJSON\<close> of
  \<^verbatim>\<open>packages/protocol/src/canonical/canonicalize.ts\<close>, which \<^verbatim>\<open>canonicalize.ts\<close> and
  \<^verbatim>\<open>crypto/canonicalize.ts\<close> re-export, and \<open>computeContentHash\<close> and \<open>buildAOCId\<close> of
  \<^verbatim>\<open>aocId.ts\<close>.

  A finite JavaScript number is given by its shortest decimal, the mantissa and the exponent of
  ECMA-262's \<open>Number::toString\<close>: \<open>Dec m e\<close> is \<open>m * 10 ^ e\<close> with a mantissa that does not end
  in 0, and \<open>NegZero\<close> is the zero with a sign, whose text is that of zero.  \<open>num_text\<close> is the case
  distinction of that algorithm; \<open>Number\<close> reads a text back.

  Proved: a number's text reads back as the number, the sign of a zero apart; the canonical text of a
  value determines the value up to the order of the keys of its objects and the signs of its zeros; what
  is refused (undefined, NaN, infinities).
\<close>

subsection \<open>Numbers\<close>

datatype js_num = NaN | Infinity | NegInfinity | NegZero | Dec int int

definition isFinite :: "js_num \<Rightarrow> bool" where
  "isFinite x = (case x of Dec m e \<Rightarrow> True | NegZero \<Rightarrow> True | _ \<Rightarrow> False)"

definition canonical_num :: "js_num \<Rightarrow> bool" where
  "canonical_num x = (case x of Dec m e \<Rightarrow> (if m = 0 then e = 0 else \<not> 10 dvd m) | _ \<Rightarrow> True)"

text \<open>The same number with a zero that has no sign.\<close>

definition unsigned_zero :: "js_num \<Rightarrow> js_num" where
  "unsigned_zero x = (case x of NegZero \<Rightarrow> Dec 0 0 | _ \<Rightarrow> x)"

definition isInteger :: "js_num \<Rightarrow> bool" where
  "isInteger x = (case x of Dec m e \<Rightarrow> 0 \<le> e | NegZero \<Rightarrow> True | _ \<Rightarrow> False)"

text \<open>\<open>x <= 0\<close>; false on NaN.\<close>

definition num_le_zero :: "js_num \<Rightarrow> bool" where
  "num_le_zero x = (case x of Dec m e \<Rightarrow> m \<le> 0 | NegZero \<Rightarrow> True | NegInfinity \<Rightarrow> True | _ \<Rightarrow> False)"

function normalize_dec :: "int \<Rightarrow> int \<Rightarrow> js_num" where
  "normalize_dec m e =
     (if m = 0 then Dec 0 0 else if 10 dvd m then normalize_dec (m div 10) (e + 1) else Dec m e)"
  by pat_completeness auto
termination
  by (relation "measure (\<lambda>(m, e). nat \<bar>m\<bar>)") (auto simp: dvd_def)

declare normalize_dec.simps [simp del]

definition num_of_int :: "int \<Rightarrow> js_num" where
  "num_of_int i = normalize_dec i 0"

definition decimal_layout :: "string \<Rightarrow> int \<Rightarrow> string" where
  "decimal_layout ds n =
     (let k = int (length ds) in
      if k \<le> n \<and> n \<le> 21 then ds @ replicate (nat (n - k)) CHR ''0''
      else if 0 < n \<and> n \<le> 21 then take (nat n) ds @ ''.'' @ drop (nat n) ds
      else if - 6 < n \<and> n \<le> 0 then ''0.'' @ replicate (nat (- n)) CHR ''0'' @ ds
      else take 1 ds @ (if k = 1 then [] else ''.'' @ drop 1 ds) @ ''e'' @
           (if 0 < n then ''+'' else ''-'') @ show_nat (nat \<bar>n - 1\<bar>))"

definition num_text :: "js_num \<Rightarrow> string" where
  "num_text x =
     (case x of
        NaN \<Rightarrow> ''NaN'' | Infinity \<Rightarrow> ''Infinity'' | NegInfinity \<Rightarrow> ''-Infinity'' | NegZero \<Rightarrow> ''0''
      | Dec m e \<Rightarrow>
          if m = 0 then ''0''
          else (if m < 0 then ''-'' else []) @
               (let ds = show_nat (nat \<bar>m\<bar>) in decimal_layout ds (e + int (length ds))))"

text \<open>\<open>Number(text)\<close> on decimal texts.\<close>

definition after :: "char \<Rightarrow> string \<Rightarrow> string" where
  "after c s = drop 1 (dropWhile (\<lambda>d. d \<noteq> c) s)"

definition read_exponent :: "string \<Rightarrow> int" where
  "read_exponent s =
     (case s of
        [] \<Rightarrow> 0
      | c # ds \<Rightarrow> if c = CHR ''-'' then - int (nat_of_digits ds) else int (nat_of_digits ds))"

definition read_unsigned :: "int \<Rightarrow> string \<Rightarrow> js_num" where
  "read_unsigned sg s =
     (let mant = takeWhile (\<lambda>d. d \<noteq> CHR ''e'') s;
          int_part = takeWhile (\<lambda>d. d \<noteq> CHR ''.'') mant;
          frac = after CHR ''.'' mant
      in normalize_dec (sg * int (nat_of_digits (int_part @ frac)))
           (read_exponent (after CHR ''e'' s) - int (length frac)))"

definition Number :: "string \<Rightarrow> js_num" where
  "Number s =
     (case s of
        CHR ''-'' # t \<Rightarrow> (case read_unsigned (- 1) t of Dec m e \<Rightarrow> if m = 0 then NegZero else Dec m e | x \<Rightarrow> x)
      | _ \<Rightarrow> read_unsigned 1 s)"

subsection \<open>JSON text\<close>

datatype js =
    JUndefined
  | JNull
  | JBool bool
  | JNum js_num
  | JStr string
  | JArr "js list"
  | JObj "(string \<times> js) list"

definition hex_char :: "nat \<Rightarrow> char" where
  "hex_char d = (if d < 10 then digit_char d else char_of (87 + d))"

text \<open>\<open>JSON.stringify\<close> of a string.\<close>

definition escape_char :: "char \<Rightarrow> string" where
  "escape_char c = (let n = char_code c in
     if n = 34 then [CHR 0x5C, CHR 0x22]
     else if n = 92 then [CHR 0x5C, CHR 0x5C]
     else if n = 8 then CHR 0x5C # ''b''
     else if n = 9 then CHR 0x5C # ''t''
     else if n = 10 then CHR 0x5C # ''n''
     else if n = 12 then CHR 0x5C # ''f''
     else if n = 13 then CHR 0x5C # ''r''
     else if n < 32 then CHR 0x5C # ''u00'' @ [hex_char (n div 16), hex_char (n mod 16)]
     else [c])"

definition json_string :: "string \<Rightarrow> string" where
  "json_string s = CHR 0x22 # concat (map escape_char s) @ [CHR 0x22]"

text \<open>A \<open>map\<close> whose callback may throw: the first throw in array order.\<close>

fun collect :: "'a throws list \<Rightarrow> 'a list throws" where
  "collect [] = Inr []"
| "collect (r # rs) =
     (case r of Inl m \<Rightarrow> Inl m
      | Inr x \<Rightarrow> (case collect rs of Inl m \<Rightarrow> Inl m | Inr xs \<Rightarrow> Inr (x # xs)))"

definition pair_text :: "string \<times> string throws \<Rightarrow> string throws" where
  "pair_text p = bind_throws (snd p) (\<lambda>t. Inr (json_string (fst p) @ '':'' @ t))"

definition wrap :: "char \<Rightarrow> char \<Rightarrow> string list throws \<Rightarrow> string throws" where
  "wrap l r items = bind_throws items (\<lambda>ts. Inr (l # join_with CHR '','' ts @ [r]))"

fun canonicalizeJSON :: "js \<Rightarrow> string throws" where
  "canonicalizeJSON JNull = Inr ''null''"
| "canonicalizeJSON (JStr s) = Inr (json_string s)"
| "canonicalizeJSON (JNum x) =
     (if \<not> isFinite x then Inl ''Non-finite numbers are not supported in canonical JSON''
      else Inr (num_text x))"
| "canonicalizeJSON (JBool b) = Inr (if b then ''true'' else ''false'')"
| "canonicalizeJSON (JArr vs) = wrap CHR ''['' CHR '']'' (collect (map canonicalizeJSON vs))"
| "canonicalizeJSON (JObj kvs) =
     wrap CHR ''{'' CHR ''}''
       (collect (map pair_text (sort_key fst (map (\<lambda>p. (fst p, canonicalizeJSON (snd p))) kvs))))"
| "canonicalizeJSON JUndefined = Inl ''Unsupported type in canonical JSON: undefined''"

text \<open>
  The hash function is not code of the repository: a parameter \<open>sha256Hex\<close> from byte strings to
  hexadecimal digests.
\<close>

definition canonical_bytes :: "js \<Rightarrow> string throws" where
  "canonical_bytes v = bind_throws (canonicalizeJSON v) (\<lambda>t. Inr (utf8_encode t))"

definition aoc_computeContentHash :: "(string \<Rightarrow> string) \<Rightarrow> js \<Rightarrow> string throws" where
  "aoc_computeContentHash sha256Hex v = bind_throws (canonical_bytes v) (\<lambda>bytes. Inr (sha256Hex bytes))"

definition buildAOCId ::
  "(string \<Rightarrow> string) \<Rightarrow> string \<Rightarrow> string \<Rightarrow> string \<Rightarrow> string \<Rightarrow> js \<Rightarrow> string throws" where
  "buildAOCId sha256Hex domain type schema version v =
     bind_throws (aoc_computeContentHash sha256Hex v) (\<lambda>h.
       Inr (''aoc://'' @ domain @ ''/'' @ type @ ''/'' @ schema @ ''/'' @ version @ ''/0x'' @ h))"

subsection \<open>Numbers read back\<close>

lemma normalize_dec_0 [simp]: "normalize_dec 0 e = Dec 0 0"
  by (simp add: normalize_dec.simps)

lemma normalize_dec_canonical: "m \<noteq> 0 \<Longrightarrow> \<not> 10 dvd m \<Longrightarrow> normalize_dec m e = Dec m e"
  by (simp add: normalize_dec.simps)

lemma normalize_dec_shift: "m \<noteq> 0 \<Longrightarrow> normalize_dec (m * 10 ^ j) e = normalize_dec m (e + int j)"
proof (induction j arbitrary: e)
  case (Suc j)
  have "normalize_dec (m * 10 ^ Suc j) e = normalize_dec (m * 10 ^ j) (e + 1)"
    using Suc.prems by (subst normalize_dec.simps) simp
  with Suc show ?case by (simp add: algebra_simps)
qed simp

lemma digit_text_free:
  assumes "list_all is_digit ds"
  shows "CHR ''.'' \<notin> set ds" "CHR ''e'' \<notin> set ds" "CHR ''-'' \<notin> set ds" "CHR ''+'' \<notin> set ds"
  using assms by (auto simp: list_all_iff is_digit_def char_code_def)

text \<open>Cutting a text at its first separator.\<close>

lemma before_free: "c \<notin> set s \<Longrightarrow> takeWhile (\<lambda>d. d \<noteq> c) s = s"
  by (induction s) auto

lemma before_sep: "c \<notin> set s \<Longrightarrow> takeWhile (\<lambda>d. d \<noteq> c) (s @ c # t) = s"
  by (induction s) auto

lemma after_free: "c \<notin> set s \<Longrightarrow> after c s = []"
  by (induction s) (auto simp: after_def)

lemma after_sep: "c \<notin> set s \<Longrightarrow> after c (s @ c # t) = t"
  by (induction s) (auto simp: after_def)

lemmas cut_at = before_free before_sep after_free after_sep

text \<open>The three parts a number text is cut into, for the layouts without and with an exponent.\<close>

lemma read_plain:
  assumes "list_all is_digit ip"
  shows "read_unsigned sg ip = normalize_dec (sg * int (nat_of_digits ip)) 0"
  using digit_text_free [OF assms]
  by (simp add: read_unsigned_def Let_def read_exponent_def cut_at)

lemma read_point:
  assumes "list_all is_digit ip" "list_all is_digit fp"
  shows "read_unsigned sg (ip @ CHR ''.'' # fp) =
    normalize_dec (sg * int (nat_of_digits (ip @ fp))) (- int (length fp))"
proof -
  have no_e: "CHR ''e'' \<notin> set (ip @ CHR ''.'' # fp)"
    using digit_text_free [OF assms(1)] digit_text_free [OF assms(2)] by simp
  show ?thesis
    unfolding read_unsigned_def Let_def read_exponent_def before_free [OF no_e] after_free [OF no_e]
    using digit_text_free [OF assms(1)] by (simp add: cut_at)
qed

lemma read_exp:
  assumes "CHR ''e'' \<notin> set mant" "sc \<in> {CHR ''+'', CHR ''-''}"
  shows "read_unsigned sg (mant @ CHR ''e'' # sc # ds) =
    (let ip = takeWhile (\<lambda>d. d \<noteq> CHR ''.'') mant; fp = after CHR ''.'' mant
     in normalize_dec (sg * int (nat_of_digits (ip @ fp)))
          ((if sc = CHR ''-'' then - 1 else 1) * int (nat_of_digits ds) - int (length fp)))"
  using assms by (auto simp: read_unsigned_def Let_def read_exponent_def cut_at)

lemma list_all_take_drop: "list_all P xs \<Longrightarrow> list_all P (take n xs) \<and> list_all P (drop n xs)"
  by (auto simp: list_all_iff dest: in_set_takeD in_set_dropD)

lemma digits_zero_prefix: "nat_of_digits (replicate j CHR ''0'' @ ds) = nat_of_digits ds"
  by (simp add: nat_of_digits_append)

lemma list_all_zeros: "list_all is_digit (replicate j CHR ''0'')"
  by (simp add: list_all_iff is_digit_def char_code_def)

lemma read_layout:
  assumes ds: "list_all is_digit ds" "ds \<noteq> []" and m: "nat_of_digits ds \<noteq> 0" and sg: "sg \<noteq> 0"
  shows "read_unsigned sg (decimal_layout ds n) = normalize_dec (sg * int (nat_of_digits ds)) (n - int (length ds))"
proof -
  let ?k = "int (length ds)"
  have nz: "sg * int (nat_of_digits ds) \<noteq> 0" using m sg by simp
  consider (int) "?k \<le> n" "n \<le> 21" | (point) "n < ?k" "0 < n" "n \<le> 21"
    | (lead) "\<not> (?k \<le> n \<and> n \<le> 21)" "- 6 < n" "n \<le> 0"
    | (exp) "\<not> (?k \<le> n \<and> n \<le> 21)" "\<not> (0 < n \<and> n \<le> 21)" "\<not> (- 6 < n \<and> n \<le> 0)"
    by linarith
  then show ?thesis
  proof cases
    case int
    let ?z = "replicate (nat (n - ?k)) CHR ''0''"
    have "decimal_layout ds n = ds @ ?z" using int by (simp add: decimal_layout_def Let_def)
    moreover have "list_all is_digit (ds @ ?z)" using ds list_all_zeros by simp
    moreover have "int (nat_of_digits (ds @ ?z)) = int (nat_of_digits ds) * 10 ^ nat (n - ?k)"
      by (simp add: nat_of_digits_append)
    ultimately show ?thesis
      using int normalize_dec_shift [OF nz, of "nat (n - ?k)" 0] by (simp add: read_plain mult.assoc)
  next
    case point
    have "decimal_layout ds n = take (nat n) ds @ CHR ''.'' # drop (nat n) ds"
      using point by (simp add: decimal_layout_def Let_def)
    moreover have "int (length (drop (nat n) ds)) = ?k - n" using point by simp
    ultimately show ?thesis using list_all_take_drop [OF ds(1), of "nat n"]
      by (simp add: read_point del: length_drop)
  next
    case lead
    let ?fp = "replicate (nat (- n)) CHR ''0'' @ ds"
    have "?k > 0" using ds by simp
    then have "decimal_layout ds n = ''0'' @ CHR ''.'' # ?fp"
      using lead by (auto simp: decimal_layout_def Let_def)
    moreover have "list_all is_digit ''0''" "list_all is_digit ?fp"
      using ds list_all_zeros [of 1] list_all_zeros by simp_all
    moreover have "nat_of_digits (''0'' @ ?fp) = nat_of_digits ds"
      using digits_zero_prefix [of "Suc (nat (- n))" ds] by simp
    ultimately show ?thesis using lead read_point [of "''0''" ?fp sg] by simp
  next
    case exp
    define mant where "mant = take 1 ds @ (if ?k = 1 then [] else CHR ''.'' # drop 1 ds)"
    define sc where "sc = (if 0 < n then CHR ''+'' else CHR ''-'')"
    have lay: "decimal_layout ds n = mant @ CHR ''e'' # sc # show_nat (nat \<bar>n - 1\<bar>)"
      using exp by (auto simp: decimal_layout_def Let_def mant_def sc_def)
    note td = list_all_take_drop [OF ds(1), of 1]
    note free = digit_text_free [OF conjunct1 [OF td]] digit_text_free [OF conjunct2 [OF td]]
    have mant: "CHR ''e'' \<notin> set mant" using free by (auto simp: mant_def)
    have parts: "takeWhile (\<lambda>d. d \<noteq> CHR ''.'') mant = take 1 ds" "after CHR ''.'' mant = drop 1 ds"
      unfolding mant_def using free by (cases "?k = 1"; simp add: cut_at)+
    have sgn: "(if sc = CHR ''-'' then - 1 else 1) * int (nat \<bar>n - 1\<bar>) = n - 1"
      by (simp add: sc_def)
    have len: "int (length (drop 1 ds)) = ?k - 1" using ds(2) by (cases ds) simp_all
    have "sc \<in> {CHR ''+'', CHR ''-''}" by (simp add: sc_def)
    from read_exp [OF mant this, of sg "show_nat (nat \<bar>n - 1\<bar>)"]
    show ?thesis unfolding lay by (simp only: parts Let_def nat_of_digits_show sgn append_take_drop_id len) simp
  qed
qed

lemma layout_head: "list_all is_digit ds \<Longrightarrow> ds \<noteq> [] \<Longrightarrow> \<exists>c t. decimal_layout ds n = c # t \<and> c \<noteq> CHR ''-''"
proof -
  assume ds: "list_all is_digit ds" "ds \<noteq> []"
  then obtain c t where c: "ds = c # t" by (cases ds) auto
  then have c': "c \<noteq> CHR ''-''" using digit_text_free [OF ds(1)] by auto
  show ?thesis
    unfolding decimal_layout_def Let_def c using c' by (cases "nat n") auto
qed

lemma Number_minus: "read_unsigned (- 1) s = Dec m e \<Longrightarrow> m \<noteq> 0 \<Longrightarrow> Number (CHR ''-'' # s) = Dec m e"
  by (simp add: Number_def)

lemma Number_plus: "c \<noteq> CHR ''-'' \<Longrightarrow> Number (c # s) = read_unsigned 1 (c # s)"
  by (simp add: Number_def split: char.splits bool.splits)

lemma Number_zero: "Number ''0'' = Dec 0 0"
  using Number_plus [of "CHR ''0''" "[]"] read_plain [of "''0''" 1] list_all_zeros [of 1] nat_of_digits_replicate_0 [of 1] by simp

lemma Number_Dec:
  assumes "canonical_num (Dec m e)"
  shows "Number (num_text (Dec m e)) = Dec m e"
proof (cases "m = 0")
  case True
  then show ?thesis using assms Number_zero by (simp add: num_text_def canonical_num_def)
next
  case False
  define ds where "ds = show_nat (nat \<bar>m\<bar>)"
  have ds: "list_all is_digit ds" "ds \<noteq> []" "nat_of_digits ds = nat \<bar>m\<bar>" "nat_of_digits ds \<noteq> 0"
    using False by (simp_all add: ds_def show_nat_digits)
  have nd: "\<not> 10 dvd m" using assms False by (simp add: canonical_num_def)
  obtain c t where ct: "decimal_layout ds (e + int (length ds)) = c # t" "c \<noteq> CHR ''-''"
    using layout_head [OF ds(1,2)] by blast
  show ?thesis
  proof (cases "m < 0")
    case True
    then have shape: "num_text (Dec m e) = CHR ''-'' # decimal_layout ds (e + int (length ds))"
      by (simp add: num_text_def ds_def Let_def)
    have "read_unsigned (- 1) (decimal_layout ds (e + int (length ds))) = Dec m e"
      using True False nd by (simp add: read_layout [OF ds(1,2,4)] ds(3) normalize_dec_canonical)
    then show ?thesis unfolding shape by (rule Number_minus) (rule False)
  next
    case neg: False
    then have "num_text (Dec m e) = decimal_layout ds (e + int (length ds))"
      using False by (simp add: num_text_def ds_def Let_def)
    with neg False nd show ?thesis
      using Number_plus [OF ct(2), of t] read_layout [OF ds(1,2,4), of 1 "e + int (length ds)"]
      by (simp add: ct(1) ds(3) normalize_dec_canonical)
  qed
qed

theorem Number_num_text:
  assumes "isFinite x" "canonical_num x"
  shows "Number (num_text x) = unsigned_zero x"
  using assms Number_Dec Number_zero
  by (cases x) (simp_all add: isFinite_def unsigned_zero_def, simp add: num_text_def)

subsection \<open>The canonical text determines the value\<close>

text \<open>What \<open>canonicalizeJSON\<close> prints: the value with the keys of every object in order and no sign on zero.\<close>

fun json_norm :: "js \<Rightarrow> js" where
  "json_norm (JArr vs) = JArr (map json_norm vs)"
| "json_norm (JObj kvs) = JObj (sort_key fst (map (\<lambda>p. (fst p, json_norm (snd p))) kvs))"
| "json_norm (JNum x) = JNum (unsigned_zero x)"
| "json_norm v = v"

fun json_print :: "js \<Rightarrow> string" where
  "json_print JUndefined = []"
| "json_print JNull = ''null''"
| "json_print (JBool b) = (if b then ''true'' else ''false'')"
| "json_print (JNum x) = num_text x"
| "json_print (JStr s) = json_string s"
| "json_print (JArr vs) = CHR ''['' # join_with CHR '','' (map json_print vs) @ '']''"
| "json_print (JObj kvs) =
     CHR ''{'' # join_with CHR '','' (map (\<lambda>p. json_string (fst p) @ CHR '':'' # json_print (snd p)) kvs) @ ''}''"

text \<open>The values \<open>canonicalizeJSON\<close> accepts.\<close>

fun json_ok :: "js \<Rightarrow> bool" where
  "json_ok JUndefined = False"
| "json_ok (JNum x) = isFinite x"
| "json_ok (JArr vs) = list_all json_ok vs"
| "json_ok (JObj kvs) = list_all (\<lambda>p. json_ok (snd p)) kvs"
| "json_ok v = True"

text \<open>Every number is its shortest decimal, as every JavaScript number is.\<close>

fun json_nums :: "js \<Rightarrow> bool" where
  "json_nums (JNum x) = canonical_num x"
| "json_nums (JArr vs) = list_all json_nums vs"
| "json_nums (JObj kvs) = list_all (\<lambda>p. json_nums (snd p)) kvs"
| "json_nums v = True"

lemma num_text_unsigned [simp]: "num_text (unsigned_zero x) = num_text x"
  by (cases x) (simp_all add: unsigned_zero_def num_text_def)

lemma unsigned_zero_kept [simp]:
  "isFinite (unsigned_zero x) \<longleftrightarrow> isFinite x" "canonical_num x \<Longrightarrow> canonical_num (unsigned_zero x)" "unsigned_zero x \<noteq> NegZero"
  "unsigned_zero (Dec m e) = Dec m e"
  by (cases x; simp add: unsigned_zero_def isFinite_def canonical_num_def)+

lemma collect_Cons_Inr: "collect (r # rs) = Inr xs \<longleftrightarrow> (\<exists>y ys. r = Inr y \<and> collect rs = Inr ys \<and> xs = y # ys)"
  by (cases r; cases "collect rs") auto

lemma collect_Inr: "collect rs = Inr xs \<longleftrightarrow> rs = map Inr xs"
  by (induction rs arbitrary: xs) (auto simp: collect_Cons_Inr simp del: collect.simps(2))

lemma collect_map: "collect (map f vs) = Inr xs \<longleftrightarrow> list_all2 (\<lambda>v x. f v = Inr x) vs xs"
  by (auto simp: collect_Inr list_all2_conv_all_nth list_eq_iff_nth_eq)

lemma pair_text_Inr: "pair_text (k, r) = Inr t \<longleftrightarrow> (\<exists>u. r = Inr u \<and> t = json_string k @ CHR '':'' # u)"
  by (auto simp: pair_text_def)

lemma sort_key_map_fst:
  fixes kvs :: "('a::linorder \<times> 'c) list" and f :: "'c \<Rightarrow> 'b"
  shows "sort_key fst (map (\<lambda>p. (fst p, f (snd p))) kvs) =
    map (\<lambda>p. (fst p, f (snd p))) (sort_key fst kvs)"
proof -
  have "insort_key fst (fst p, f (snd p)) (map (\<lambda>p. (fst p, f (snd p))) xs) =
      map (\<lambda>p. (fst p, f (snd p))) (insort_key fst p xs)" for p and xs
    by (induction xs) auto
  note insort = this
  show ?thesis by (induction kvs) (simp_all add: sort_key_def insort)
qed

lemma collect_prints:
  assumes "\<And>v t. v \<in> set vs \<Longrightarrow> f v = Inr t \<Longrightarrow> g v = t" "collect (map f vs) = Inr ts"
  shows "ts = map g vs"
proof -
  have "list_all2 (\<lambda>v x. f v = Inr x) vs ts" using assms(2) by (simp add: collect_map)
  then show ?thesis using assms(1)
    by (auto simp: list_all2_conv_all_nth list_eq_iff_nth_eq)
qed

lemma canonicalizeJSON_print: "canonicalizeJSON v = Inr s \<Longrightarrow> json_print (json_norm v) = s"
proof (induction v arbitrary: s rule: canonicalizeJSON.induct)
  case (5 vs)
  then obtain ts where ts: "collect (map canonicalizeJSON vs) = Inr ts"
    "s = CHR ''['' # join_with CHR '','' ts @ '']''" by (auto simp: wrap_def)
  have "ts = map (\<lambda>v. json_print (json_norm v)) vs"
    by (rule collect_prints [OF _ ts(1)]) (use 5 in auto)
  with ts(2) show ?case by (simp add: comp_def)
next
  case (6 kvs)
  let ?f = "\<lambda>p. pair_text (fst p, canonicalizeJSON (snd p))"
  obtain ts where ts: "collect (map ?f (sort_key fst kvs)) = Inr ts"
    "s = CHR ''{'' # join_with CHR '','' ts @ ''}''"
    using "6.prems" by (auto simp: wrap_def sort_key_map_fst comp_def)
  have "ts = map (\<lambda>p. json_string (fst p) @ CHR '':'' # json_print (json_norm (snd p))) (sort_key fst kvs)"
    by (rule collect_prints [OF _ ts(1)]) (use "6.IH" in \<open>auto simp: pair_text_Inr\<close>)
  with ts(2) show ?case by (simp add: sort_key_map_fst comp_def)
qed (auto split: if_splits)

lemma collect_total: "(\<exists>ts. collect (map f vs) = Inr ts) \<longleftrightarrow> (\<forall>v \<in> set vs. \<exists>t. f v = Inr t)"
proof (induction vs)
  case (Cons v vs)
  then show ?case by (cases "f v"; cases "collect (map f vs)") auto
qed simp

theorem canonicalizeJSON_accepts: "(\<exists>s. canonicalizeJSON v = Inr s) \<longleftrightarrow> json_ok v"
proof (induction v rule: canonicalizeJSON.induct)
  case (5 vs)
  have "(\<exists>s. canonicalizeJSON (JArr vs) = Inr s) \<longleftrightarrow> (\<exists>ts. collect (map canonicalizeJSON vs) = Inr ts)"
    by (auto simp: wrap_def)
  with 5 show ?case by (simp add: collect_total list_all_iff)
next
  case (6 kvs)
  have "(\<exists>s. canonicalizeJSON (JObj kvs) = Inr s) \<longleftrightarrow>
      (\<exists>ts. collect (map (\<lambda>p. pair_text (fst p, canonicalizeJSON (snd p))) (sort_key fst kvs)) = Inr ts)"
    by (auto simp: wrap_def sort_key_map_fst comp_def)
  with 6 show ?case by (auto simp: collect_total list_all_iff pair_text_Inr)
qed auto

text \<open>A character can be cut off the front of an escaped text.\<close>

definition hex_val :: "char \<Rightarrow> nat" where
  "hex_val c = (if is_digit c then digit_val c else char_code c - 87)"

definition unescape :: "string \<Rightarrow> char \<times> string" where
  "unescape s =
     (if s ! 0 \<noteq> CHR 0x5C then (s ! 0, drop 1 s)
      else if s ! 1 = CHR ''u'' then (char_of (16 * hex_val (s ! 4) + hex_val (s ! 5)), drop 6 s)
      else (if s ! 1 = CHR ''b'' then char_of (8::nat) else if s ! 1 = CHR ''t'' then char_of (9::nat)
            else if s ! 1 = CHR ''n'' then char_of (10::nat) else if s ! 1 = CHR ''f'' then char_of (12::nat)
            else if s ! 1 = CHR ''r'' then char_of (13::nat) else s ! 1, drop 2 s))"

lemma hex_val_char: "d < 16 \<Longrightarrow> hex_val (hex_char d) = d"
  by (auto simp: hex_val_def hex_char_def is_digit_def char_code_def digit_val_def digit_char_def)

lemma char_of_code: "char_of (char_code c) = c"
  by (simp add: char_code_def)

lemma unescape_escape: "unescape (escape_char c @ x) = (c, x)"
proof -
  have bs: "char_code CHR 0x5C = 92" "char_code CHR 0x22 = 34" by (simp_all add: char_code_def)
  have u: "char_code c < 32 \<Longrightarrow>
      char_of (16 * hex_val (hex_char (char_code c div 16)) + hex_val (hex_char (char_code c mod 16))) = c"
    by (simp add: hex_val_char less_mult_imp_div_less char_of_code)
  have eq: "c = d \<longleftrightarrow> char_code c = char_code d" for d by (simp add: char_code_inj)
  have eq': "d = c \<longleftrightarrow> char_code c = char_code d" for d using eq by (metis (no_types))
  have co: "char_code c = n \<Longrightarrow> char_of n = c" for n using char_of_code by auto
  show ?thesis
    unfolding escape_char_def Let_def
    by (simp add: unescape_def bs u co eq [of "CHR 0x5C"] eq [of "CHR 0x22"] eq' [of "CHR 0x5C"] eq' [of "CHR 0x22"])
qed

lemma escape_head: "\<exists>e t. escape_char c = e # t \<and> e \<noteq> CHR 0x22"
proof -
  have "char_code CHR 0x22 = 34" by (simp add: char_code_def)
  then have "char_code c \<noteq> 34 \<Longrightarrow> c \<noteq> CHR 0x22" by auto
  then show ?thesis by (auto simp: escape_char_def Let_def)
qed

lemma json_string_cancel: "json_string s @ r = json_string t @ q \<Longrightarrow> s = t \<and> r = q"
proof -
  have "concat (map escape_char s) @ CHR 0x22 # r = concat (map escape_char t) @ CHR 0x22 # q \<Longrightarrow> s = t \<and> r = q"
  proof (induction s arbitrary: t)
    case Nil
    then show ?case using escape_head by (cases t) (auto, metis append_Cons list.inject)
  next
    case (Cons c s)
    obtain e u where e: "escape_char c = e # u" "e \<noteq> CHR 0x22" using escape_head by blast
    then obtain d t' where t: "t = d # t'" using Cons.prems by (cases t) auto
    let ?x = "concat (map escape_char s) @ CHR 0x22 # r" and ?y = "concat (map escape_char t') @ CHR 0x22 # q"
    have "escape_char c @ ?x = escape_char d @ ?y" using Cons.prems by (simp add: t)
    then have "(c, ?x) = (d, ?y)" by (metis unescape_escape)
    with Cons.IH [of t'] t show ?case by simp
  qed
  then show "json_string s @ r = json_string t @ q \<Longrightarrow> s = t \<and> r = q"
    by (simp add: json_string_def)
qed

text \<open>
  A printed value followed by a text that does not go on with a character of a number can be
  cut off, so that the printed text determines the value.
\<close>

definition num_char :: "char \<Rightarrow> bool" where
  "num_char c \<longleftrightarrow> is_digit c \<or> c \<in> set ''+-.e''"

definition stop :: "string \<Rightarrow> bool" where
  "stop r \<longleftrightarrow> (case r of [] \<Rightarrow> True | c # _ \<Rightarrow> \<not> num_char c)"

lemma stop_simps [simp]: "stop []" "stop (CHR '','' # r)" "stop (CHR '']'' # r)" "stop (CHR ''}'' # r)"
  by (simp_all add: stop_def num_char_def is_digit_def char_code_def)

lemma takeWhile_stop:
  "list_all P s \<Longrightarrow> (case r of [] \<Rightarrow> True | c # _ \<Rightarrow> \<not> P c) \<Longrightarrow> takeWhile P (s @ r) = s"
  by (cases r) (auto simp: list_all_iff takeWhile_append2)

lemma span_cancel:
  assumes "list_all P s" "list_all P t" "s @ r = t @ q"
    "case r of [] \<Rightarrow> True | c # _ \<Rightarrow> \<not> P c" "case q of [] \<Rightarrow> True | c # _ \<Rightarrow> \<not> P c"
  shows "s = t \<and> r = q"
proof -
  have "s = t" using takeWhile_stop [OF assms(1,4)] takeWhile_stop [OF assms(2,5)] assms(3) by metis
  with assms(3) show ?thesis by simp
qed

lemma digits_num_chars: "list_all is_digit ds \<Longrightarrow> list_all num_char ds"
  by (auto simp: list_all_iff num_char_def)

lemma num_text_chars:
  assumes "isFinite x"
  shows "list_all num_char (num_text x) \<and> (\<exists>c t. num_text x = c # t)"
proof -
  obtain m e where x: "unsigned_zero x = Dec m e" using assms by (cases x) (auto simp: isFinite_def unsigned_zero_def)
  define ds where "ds = show_nat (nat \<bar>m\<bar>)"
  have d: "list_all is_digit ds" "ds \<noteq> []" by (simp_all add: ds_def show_nat_digits)
  have n: "list_all num_char (show_nat k)" for k using digits_num_chars show_nat_digits by blast
  have z: "num_char CHR ''0''" "num_char CHR ''-''" "num_char CHR ''.''" "num_char CHR ''e''" "num_char CHR ''+''"
    by (simp_all add: num_char_def is_digit_def char_code_def)
  have ds: "list_all num_char ds" using d digits_num_chars by blast
  then have tk: "list_all num_char (take k ds)" "list_all num_char (drop k ds)" for k
    by (auto simp: list_all_iff dest: in_set_takeD in_set_dropD)
  have l: "list_all num_char (decimal_layout ds k)" for k
    unfolding decimal_layout_def Let_def using ds tk n z by (auto simp: list_all_iff split: list.splits)
  have ne: "decimal_layout ds k \<noteq> []" for k using layout_head [OF d] by (metis list.distinct(1))
  have "list_all num_char (num_text (Dec m e))"
    unfolding num_text_def Let_def js_num.case ds_def [symmetric] using l z by simp
  moreover have "num_text (Dec m e) \<noteq> []"
    unfolding num_text_def Let_def js_num.case ds_def [symmetric] using ne by simp
  moreover have "num_text (Dec m e) = num_text x" using num_text_unsigned [of x] by (simp only: x)
  ultimately show ?thesis by (simp add: neq_Nil_conv)
qed

lemma head_cancel: "c \<noteq> d \<Longrightarrow> c # s = d # t \<Longrightarrow> P"
  by simp

text \<open>The first character of a printed value tells its constructor.\<close>

fun json_head :: "js \<Rightarrow> char \<Rightarrow> bool" where
  "json_head JUndefined c = False"
| "json_head JNull c = (c = CHR ''n'')"
| "json_head (JBool b) c = (c = (if b then CHR ''t'' else CHR ''f''))"
| "json_head (JNum x) c = num_char c"
| "json_head (JStr s) c = (c = CHR 0x22)"
| "json_head (JArr vs) c = (c = CHR ''['')"
| "json_head (JObj kvs) c = (c = CHR ''{'')"

lemma json_print_head: "json_ok v \<Longrightarrow> \<exists>c t. json_print v = c # t \<and> json_head v c"
proof (cases v)
  case (JNum x)
  assume "json_ok v"
  with JNum num_text_chars [of x] show ?thesis by (auto simp: list_all_iff)
qed (auto simp: json_string_def)

lemma json_head_cases:
  assumes "json_head v c" "json_head w c"
  shows "(\<exists>x y. v = JNum x \<and> w = JNum y) \<or> (v = JNull \<and> w = JNull) \<or> (\<exists>b. v = JBool b \<and> w = JBool b) \<or>
    (\<exists>s t. v = JStr s \<and> w = JStr t) \<or> (\<exists>vs ws. v = JArr vs \<and> w = JArr ws) \<or>
    (\<exists>vs ws. v = JObj vs \<and> w = JObj ws)"
  using assms by (cases v; cases w) (auto simp: num_char_def is_digit_def char_code_def split: if_splits)

lemma join_Cons2: "join_with c (x # xs) = x @ (case xs of [] \<Rightarrow> [] | _ \<Rightarrow> c # join_with c xs)"
  by (cases xs) simp_all

lemma join_cancel:
  assumes "\<And>x y r q. x \<in> set xs \<Longrightarrow> y \<in> set ys \<Longrightarrow> stop r \<Longrightarrow> stop q \<Longrightarrow> f x @ r = f y @ q \<Longrightarrow> x = y \<and> r = q"
    "\<And>x. x \<in> set xs \<union> set ys \<Longrightarrow> \<exists>e t. f x = e # t \<and> e \<noteq> c"
    "c \<in> {CHR '']'', CHR ''}''}"
    "join_with CHR '','' (map f xs) @ c # r = join_with CHR '','' (map f ys) @ c # q"
  shows "xs = ys \<and> r = q"
  using assms
proof (induction xs arbitrary: ys)
  case Nil
  then show ?case by (cases ys) (fastforce simp: join_Cons2)+
next
  case (Cons x xs)
  obtain e t where e: "f x = e # t" "e \<noteq> c" using Cons.prems(2) [of x] by auto
  obtain y zs where ys: "ys = y # zs"
    using Cons.prems(4) e by (cases ys) (auto simp: join_Cons2)
  define tail where "tail = (\<lambda>us s. (case map f us of [] \<Rightarrow> [] | _ \<Rightarrow> CHR '','' # join_with CHR '','' (map f us)) @ c # s)"
  have st: "stop (tail us s)" for us s
    using Cons.prems(3) by (auto simp: tail_def split: list.splits)
  have "f x @ tail xs r = f y @ tail zs q"
    using Cons.prems(4) by (simp add: ys join_Cons2 tail_def)
  from Cons.prems(1) [OF _ _ st st this] have xy: "x = y" "tail xs r = tail zs q" by (simp_all add: ys)
  have cc: "c \<noteq> CHR '',''" using Cons.prems(3) by auto
  have "xs = zs \<and> r = q"
  proof (cases "xs = [] \<or> zs = []")
    case True
    then show ?thesis using xy(2) cc by (cases xs; cases zs) (auto simp: tail_def)
  next
    case False
    then have "join_with CHR '','' (map f xs) @ c # r = join_with CHR '','' (map f zs) @ c # q"
      using xy(2) by (cases xs; cases zs) (auto simp: tail_def)
    then show ?thesis by (intro Cons.IH Cons.prems) (use Cons.prems ys in auto)
  qed
  with xy ys show ?case by simp
qed

lemma num_text_inj: "isFinite x \<Longrightarrow> isFinite y \<Longrightarrow> canonical_num x \<Longrightarrow> canonical_num y \<Longrightarrow>
    num_text x = num_text y \<Longrightarrow> unsigned_zero x = unsigned_zero y"
  by (metis Number_num_text)

text \<open>Finite shortest decimals throughout, and no signed zero.\<close>

fun no_signed_zero :: "js \<Rightarrow> bool" where
  "no_signed_zero (JNum x) \<longleftrightarrow> x \<noteq> NegZero"
| "no_signed_zero (JArr vs) \<longleftrightarrow> list_all no_signed_zero vs"
| "no_signed_zero (JObj kvs) \<longleftrightarrow> list_all (\<lambda>p. no_signed_zero (snd p)) kvs"
| "no_signed_zero v \<longleftrightarrow> True"

definition json_good :: "js \<Rightarrow> bool" where
  "json_good v \<longleftrightarrow> json_ok v \<and> json_nums v \<and> no_signed_zero v"

lemma json_good_simps [simp]:
  "json_good (JArr vs) \<longleftrightarrow> list_all json_good vs"
  "json_good (JObj kvs) \<longleftrightarrow> list_all (\<lambda>p. json_good (snd p)) kvs"
  "json_good (JNum x) \<longleftrightarrow> isFinite x \<and> canonical_num x \<and> x \<noteq> NegZero"
  "json_good (JStr s)" "json_good JNull" "json_good (JBool b)"
  by (auto simp: json_good_def list_all_iff)

lemma member_text_cancel:
  assumes "json_string (fst p) @ CHR '':'' # t @ r = json_string (fst p') @ CHR '':'' # t' @ q"
  shows "fst p = fst p' \<and> t @ r = t' @ q"
  using json_string_cancel [of "fst p" "CHR '':'' # t @ r" "fst p'" "CHR '':'' # t' @ q"] assms by simp

lemma json_print_nonempty: "json_good v \<Longrightarrow> c \<in> {CHR '']'', CHR ''}''} \<Longrightarrow> \<exists>e t. json_print v = e # t \<and> e \<noteq> c"
  using json_print_head [of v] by (cases v) (fastforce simp: json_good_def num_char_def is_digit_def char_code_def)+

lemma json_print_cancel:
  assumes "json_good v" "json_good w" "stop r" "stop q" "json_print v @ r = json_print w @ q"
  shows "v = w \<and> r = q"
  using assms
proof (induction v arbitrary: w r q rule: json_print.induct)
  case (1 w)
  then show ?case by (simp add: json_good_def)
next
  case (2 w)
  then show ?case using json_print_head [of w] json_head_cases [of JNull "CHR ''n''" w]
    by (auto simp: json_good_def)
next
  case (3 b w)
  then show ?case using json_print_head [of w] json_head_cases [of "JBool b" "if b then CHR ''t'' else CHR ''f''" w]
    by (auto simp: json_good_def split: if_splits)
next
  case (4 x w)
  obtain c t where c: "num_text x = c # t" "num_char c"
    using num_text_chars [of x] "4.prems"(1) by (auto simp: list_all_iff)
  then obtain y where y: "w = JNum y"
    using json_print_head [of w] json_head_cases [of "JNum x" c w] "4.prems" by (auto simp: json_good_def)
  have "num_text x = num_text y \<and> r = q"
    using "4.prems" y num_text_chars [of x] num_text_chars [of y]
    by (intro span_cancel [of num_char]) (auto simp: stop_def)
  moreover have "unsigned_zero z = z" if "z \<noteq> NegZero" for z using that by (cases z) (simp_all add: unsigned_zero_def)
  ultimately show ?case using num_text_inj [of x y] "4.prems" y by simp
next
  case (5 s w)
  then obtain t where "w = JStr t"
    using json_print_head [of w] json_head_cases [of "JStr s" "CHR 0x22" w]
    by (auto simp: json_good_def json_string_def)
  with 5 json_string_cancel [of s r t q] show ?case by simp
next
  case (6 vs w)
  then obtain ws where w: "w = JArr ws"
    using json_print_head [of w] json_head_cases [of "JArr vs" "CHR ''[''" w] by (auto simp: json_good_def)
  have "vs = ws \<and> r = q"
    using "6.prems" w json_print_nonempty
    by (intro join_cancel [of vs ws json_print "CHR '']''"] "6.IH") (auto simp: list_all_iff)
  with w show ?case by simp
next
  case (7 kvs w)
  then obtain ws where w: "w = JObj ws"
    using json_print_head [of w] json_head_cases [of "JObj kvs" "CHR ''{''" w] by (auto simp: json_good_def)
  let ?f = "\<lambda>p. json_string (fst p) @ CHR '':'' # json_print (snd p)"
  have "kvs = ws \<and> r = q"
  proof (rule join_cancel [of kvs ws ?f "CHR ''}''"])
    fix p p' a b
    assume p: "p \<in> set kvs" "p' \<in> set ws" "stop a" "stop b" "?f p @ a = ?f p' @ b"
    then have "fst p = fst p'" and "json_print (snd p) @ a = json_print (snd p') @ b"
      using member_text_cancel [of p "json_print (snd p)" a p' "json_print (snd p')" b] by simp_all
    then show "p = p' \<and> a = b"
      using "7.IH" [of p "snd p'" a b] p "7.prems"(1,2) w by (auto simp: list_all_iff prod_eq_iff)
  qed (use "7.prems" w in \<open>auto simp: json_string_def\<close>)
  with w show ?case by simp
qed

lemma json_norm_good: "json_ok v \<Longrightarrow> json_nums v \<Longrightarrow> json_good (json_norm v)"
  by (induction v rule: json_norm.induct) (auto simp: list_all_iff)

lemma canonicalizeJSON_inj:
  assumes "canonicalizeJSON v = Inr s" "canonicalizeJSON w = Inr s" "json_nums v" "json_nums w"
  shows "json_norm v = json_norm w"
proof -
  have "json_ok v" "json_ok w" using assms(1,2) canonicalizeJSON_accepts by blast+
  then show ?thesis
    using json_print_cancel [of "json_norm v" "json_norm w" "[]" "[]"] json_norm_good assms(3,4)
      canonicalizeJSON_print [OF assms(1)] canonicalizeJSON_print [OF assms(2)] by simp
qed

lemma json_norm_ok: "json_ok (json_norm v) \<longleftrightarrow> json_ok v"
  by (induction v rule: json_norm.induct) (auto simp: list_all_iff)

text \<open>Two values have the same text exactly when they are printed alike.\<close>

lemma canonicalizeJSON_same:
  assumes "canonicalizeJSON v = Inr s" "json_nums v" "json_nums w"
  shows "canonicalizeJSON w = Inr s \<longleftrightarrow> json_norm w = json_norm v"
proof
  assume "canonicalizeJSON w = Inr s"
  from canonicalizeJSON_inj [OF this assms(1,3,2)] show "json_norm w = json_norm v" .
next
  assume same: "json_norm w = json_norm v"
  have "json_ok v" using assms(1) canonicalizeJSON_accepts by blast
  then have "json_ok (json_norm w)" unfolding same json_norm_ok .
  then obtain t where t: "canonicalizeJSON w = Inr t" using canonicalizeJSON_accepts json_norm_ok by blast
  then show "canonicalizeJSON w = Inr s"
    using canonicalizeJSON_print [OF t] canonicalizeJSON_print [OF assms(1)] by (simp only: same)
qed

lemma map_of_sort_key: "distinct (map fst xs) \<Longrightarrow> map_of (sort_key fst xs) = map_of xs"
proof -
  assume d: "distinct (map fst xs)"
  have m: "mset (map fst (sort_key fst xs)) = mset (map fst xs)" by simp
  have d': "distinct (map fst (sort_key fst xs))"
    using d m by (metis mset_eq_imp_distinct_iff)
  show "map_of (sort_key fst xs) = map_of xs"
    using map_of_inject_set [OF d' d] by simp
qed

lemma map_of_map_snd: "map_of (map (\<lambda>p. (fst p, f (snd p))) xs) k = map_option f (map_of xs k)"
  by (induction xs) auto

text \<open>Two objects printed alike have the same members.\<close>

lemma json_norm_field:
  assumes "json_norm (JObj a) = json_norm (JObj b)" "distinct (map fst a)" "distinct (map fst b)"
  shows "map_option json_norm (map_of a k) = map_option json_norm (map_of b k)"
proof -
  have "map_of (sort_key fst (map (\<lambda>p. (fst p, json_norm (snd p))) a)) k =
      map_of (sort_key fst (map (\<lambda>p. (fst p, json_norm (snd p))) b)) k"
    using assms(1) by simp
  then show ?thesis using assms(2,3) by (simp add: map_of_sort_key map_of_map_snd comp_def)
qed

end
