(* ===== verification/JsDate.thy ===== *)
theory JsDate
  imports JsText
begin

text \<open>
  The \<open>Date\<close> of the language as the sources use it.  A date is its time value in
  milliseconds since the epoch, \<open>None\<close> for an invalid date (time value NaN).  The
  calendar is ECMA-262's: \<open>DayFromYear\<close> is its formula, the year of a day is the last
  year that starts on or before it.  \<open>date_parse\<close> reads the two ISO forms the sources
  produce the way Node's V8 does (months 1 to 12, days 1 to 31, a day past the end of its
  month runs into the next one); every other string goes to the host's own parser, a
  parameter.
\<close>

type_synonym js_date = "int option"

definition leap_year :: "int \<Rightarrow> bool" where
  "leap_year y \<longleftrightarrow> y mod 4 = 0 \<and> (y mod 100 \<noteq> 0 \<or> y mod 400 = 0)"

definition DayFromYear :: "int \<Rightarrow> int" where
  "DayFromYear y = 365 * (y - 1970) + (y - 1969) div 4 - (y - 1901) div 100 + (y - 1601) div 400"

text \<open>Days of the year before the first of month \<open>m\<close> (months count from 0).\<close>

definition month_start :: "bool \<Rightarrow> nat \<Rightarrow> int" where
  "month_start lp m =
     (if lp then [0, 31, 60, 91, 121, 152, 182, 213, 244, 274, 305, 335, 366]
      else [0, 31, 59, 90, 120, 151, 181, 212, 243, 273, 304, 334, 365]) ! m"

definition month_from_day :: "bool \<Rightarrow> int \<Rightarrow> nat" where
  "month_from_day lp d =
     (if d < month_start lp 1 then 0 else if d < month_start lp 2 then 1
      else if d < month_start lp 3 then 2 else if d < month_start lp 4 then 3
      else if d < month_start lp 5 then 4 else if d < month_start lp 6 then 5
      else if d < month_start lp 7 then 6 else if d < month_start lp 8 then 7
      else if d < month_start lp 9 then 8 else if d < month_start lp 10 then 9
      else if d < month_start lp 11 then 10 else 11)"

lemma less_mult_div_Suc:
  fixes x m :: int
  assumes "0 < m"
  shows "x < m * (x div m + 1)"
proof -
  have "x = m * (x div m) + x mod m" by simp
  moreover have "x mod m < m" using assms by simp
  moreover have "m * (x div m + 1) = m * (x div m) + m" by (simp add: distrib_left)
  ultimately show ?thesis by linarith
qed

lemma div_Suc_int:
  fixes x m :: int
  assumes "0 < m"
  shows "(x + 1) div m = x div m + (if m dvd x + 1 then 1 else 0)"
proof -
  have x: "x = m * (x div m) + x mod m" by simp
  have r: "0 \<le> x mod m" "x mod m < m" using assms by simp_all
  show ?thesis
  proof (cases "x mod m = m - 1")
    case True
    with x have "x + 1 = m * (x div m + 1)" by (simp add: algebra_simps)
    with assms show ?thesis by (metis dvd_triv_left nonzero_mult_div_cancel_left order_less_irrefl)
  next
    case False
    with r have r': "0 \<le> x mod m + 1" "x mod m + 1 < m" by simp_all
    have e: "x + 1 = m * (x div m) + (x mod m + 1)" using x by simp
    have "(x + 1) div m = x div m"
      by (rule int_div_pos_eq [OF e r'])
    moreover have "(x + 1) mod m = x mod m + 1"
      by (rule int_mod_pos_eq [OF e r'])
    ultimately show ?thesis using r by (auto simp: dvd_eq_mod_eq_0)
  qed
qed

lemma DayFromYear_Suc: "DayFromYear (y + 1) = DayFromYear y + (if leap_year y then 366 else 365)"
proof -
  have a: "(y + 1 - 1969) div 4 = (y - 1969) div 4 + (if 4 dvd y then 1 else 0)"
    using div_Suc_int [of 4 "y - 1969"] dvd_diff_left_iff [of 4 "1968" y] by (simp add: algebra_simps)
  have b: "(y + 1 - 1901) div 100 = (y - 1901) div 100 + (if 100 dvd y then 1 else 0)"
    using div_Suc_int [of 100 "y - 1901"] dvd_diff_left_iff [of 100 "1900" y] by (simp add: algebra_simps)
  have c: "(y + 1 - 1601) div 400 = (y - 1601) div 400 + (if 400 dvd y then 1 else 0)"
    using div_Suc_int [of 400 "y - 1601"] dvd_diff_left_iff [of 400 "1600" y] by (simp add: algebra_simps)
  have d: "400 dvd y \<Longrightarrow> 100 dvd y" "100 dvd y \<Longrightarrow> 4 dvd y"
    using dvd_trans [of 100 400 y] dvd_trans [of 4 100 y] by simp_all
  have leap: "leap_year y \<longleftrightarrow> 4 dvd y \<and> (\<not> 100 dvd y \<or> 400 dvd y)"
    by (simp add: leap_year_def dvd_eq_mod_eq_0)
  have e: "365 * (y + 1 - 1970) = 365 * (y - 1970) + 365" by simp
  show ?thesis
    unfolding DayFromYear_def a b c e leap using d
    by (cases "4 dvd y"; cases "100 dvd y"; cases "400 dvd y") simp_all
qed

lemma DayFromYear_step: "DayFromYear y + 365 \<le> DayFromYear (y + 1)"
  by (simp add: DayFromYear_Suc)

lemma DayFromYear_less_nat: "DayFromYear y < DayFromYear (y + 1 + int n)"
proof (induction n)
  case 0
  show ?case using DayFromYear_step [of y] by simp
next
  case (Suc n)
  have "y + 1 + int (Suc n) = (y + 1 + int n) + 1" by simp
  with Suc DayFromYear_step [of "y + 1 + int n"] show ?case by simp
qed

lemma DayFromYear_mono: "y < z \<Longrightarrow> DayFromYear y < DayFromYear z"
  using DayFromYear_less_nat [of y "nat (z - y - 1)"] by simp

lemma DayFromYear_less_iff: "DayFromYear y < DayFromYear z \<longleftrightarrow> y < z"
  by (metis DayFromYear_mono linorder_neqE_linordered_idom order_less_asym)

lemma DayFromYear_le_iff: "DayFromYear y \<le> DayFromYear z \<longleftrightarrow> y \<le> z"
  by (metis DayFromYear_less_iff linorder_not_less)

function year_search :: "int \<Rightarrow> int \<Rightarrow> int" where
  "year_search y d = (if DayFromYear y \<le> d then y else year_search (y - 1) d)"
  by pat_completeness auto
termination
proof (relation "measure (\<lambda>(y, d). nat (DayFromYear y - d))")
  fix y d :: int
  assume "\<not> DayFromYear y \<le> d"
  moreover have "DayFromYear (y - 1) < DayFromYear y" by (simp add: DayFromYear_mono)
  ultimately show "((y - 1, d), y, d) \<in> measure (\<lambda>(y, d). nat (DayFromYear y - d))"
    by simp
qed simp

declare year_search.simps [simp del]

text \<open>A year never before the year of the day, from which the search goes down.\<close>

definition year_guess :: "int \<Rightarrow> int" where
  "year_guess d = 1970 + (if 0 \<le> d then d div 365 else d div 366)"

definition YearFromDay :: "int \<Rightarrow> int" where
  "YearFromDay d = year_search (year_guess d) d"

lemma year_search_spec:
  "d < DayFromYear (y + 1) \<Longrightarrow>
   DayFromYear (year_search y d) \<le> d \<and> d < DayFromYear (year_search y d + 1)"
proof (induction y d rule: year_search.induct)
  case (1 y d)
  show ?case
  proof (cases "DayFromYear y \<le> d")
    case True
    with "1.prems" show ?thesis by (simp add: year_search.simps)
  next
    case False
    with "1.IH" have "DayFromYear (year_search (y - 1) d) \<le> d \<and> d < DayFromYear (year_search (y - 1) d + 1)"
      by simp
    with False show ?thesis by (simp add: year_search.simps [of y d])
  qed
qed

lemma DayFromYear_after_epoch: "365 * int n \<le> DayFromYear (1970 + int n)"
proof (induction n)
  case (Suc n)
  then show ?case using DayFromYear_step [of "1970 + int n"] by (simp add: algebra_simps)
qed (simp add: DayFromYear_def)

lemma DayFromYear_before_epoch: "- 366 * int n \<le> DayFromYear (1970 - int n)"
proof (induction n)
  case (Suc n)
  then show ?case using DayFromYear_Suc [of "1970 - int n - 1"] by (simp add: algebra_simps split: if_splits)
qed (simp add: DayFromYear_def)

lemma year_guess_upper: "d < DayFromYear (year_guess d + 1)"
proof (cases "0 \<le> d")
  case True
  define n where "n = nat (d div 365)"
  have n: "int n = d div 365" using True by (simp add: n_def pos_imp_zdiv_nonneg_iff)
  have "d < 365 * (d div 365 + 1)"
    by (rule less_mult_div_Suc) simp
  also have "\<dots> = 365 * int (Suc n)" by (simp add: n)
  also have "\<dots> \<le> DayFromYear (1970 + int (Suc n))" by (rule DayFromYear_after_epoch)
  finally show ?thesis using True by (simp add: year_guess_def n [symmetric] algebra_simps)
next
  case False
  define n where "n = nat (- (d div 366) - 1)"
  have "d div 366 < 0" using False by (simp add: neg_imp_zdiv_neg_iff)
  then have n: "int n = - (d div 366) - 1" by (simp add: n_def)
  have "d < 366 * (d div 366 + 1)"
    by (rule less_mult_div_Suc) simp
  also have "\<dots> = - 366 * int n" by (simp add: n algebra_simps)
  also have "\<dots> \<le> DayFromYear (1970 - int n)" by (rule DayFromYear_before_epoch)
  finally show ?thesis using False n by (simp add: year_guess_def algebra_simps)
qed

theorem YearFromDay_spec:
  "DayFromYear (YearFromDay d) \<le> d \<and> d < DayFromYear (YearFromDay d + 1)"
  unfolding YearFromDay_def by (rule year_search_spec) (rule year_guess_upper)

lemma YearFromDay_eq:
  assumes "DayFromYear y \<le> d" "d < DayFromYear (y + 1)"
  shows "YearFromDay d = y"
proof -
  have "DayFromYear y < DayFromYear (YearFromDay d + 1)"
    using assms(1) YearFromDay_spec [of d] by linarith
  moreover have "DayFromYear (YearFromDay d) < DayFromYear (y + 1)"
    using assms(2) YearFromDay_spec [of d] by linarith
  ultimately show ?thesis by (simp add: DayFromYear_less_iff)
qed

subsection \<open>Fields of a day and of a second\<close>

definition day_in_year :: "int \<Rightarrow> int" where
  "day_in_year d = d - DayFromYear (YearFromDay d)"

definition MonthFromDay :: "int \<Rightarrow> nat" where
  "MonthFromDay d = month_from_day (leap_year (YearFromDay d)) (day_in_year d)"

definition DateFromDay :: "int \<Rightarrow> nat" where
  "DateFromDay d = nat (day_in_year d - month_start (leap_year (YearFromDay d)) (MonthFromDay d) + 1)"

text \<open>\<open>MakeDay\<close>: the day number of a year, a month (from 0) and a day of the month (from 1).\<close>

definition MakeDay :: "int \<Rightarrow> nat \<Rightarrow> int \<Rightarrow> int" where
  "MakeDay y m d = DayFromYear y + month_start (leap_year y) m + (d - 1)"

definition month_len :: "bool \<Rightarrow> nat \<Rightarrow> int" where
  "month_len lp m = month_start lp (Suc m) - month_start lp m"

subsection \<open>toISOString and Date.parse\<close>

definition year_text :: "int \<Rightarrow> string" where
  "year_text y =
     (if 0 \<le> y \<and> y \<le> 9999 then pad_nat 4 (nat y)
      else (if 0 \<le> y then ''+'' else ''-'') @ pad_nat 6 (nat \<bar>y\<bar>))"

definition day_text :: "int \<Rightarrow> string" where
  "day_text d = year_text (YearFromDay d) @ ''-'' @ pad_nat 2 (MonthFromDay d + 1) @ ''-'' @
                pad_nat 2 (DateFromDay d)"

definition clock_text :: "int \<Rightarrow> string" where
  "clock_text s = pad_nat 2 (nat (s div 3600)) @ '':'' @ pad_nat 2 (nat (s div 60 mod 60)) @ '':'' @
                  pad_nat 2 (nat (s mod 60))"

definition iso_millis :: "int \<Rightarrow> string" where
  "iso_millis t = day_text (t div 86400000) @ ''T'' @ clock_text (t mod 86400000 div 1000) @ ''.'' @
                  pad_nat 3 (nat (t mod 1000)) @ ''Z''"

text \<open>\<open>toISOString\<close> throws a \<open>RangeError\<close> on an invalid date.\<close>

definition toISOString :: "js_date \<Rightarrow> string throws" where
  "toISOString d = (case d of None \<Rightarrow> Inl ''Invalid time value'' | Some t \<Rightarrow> Inr (iso_millis t))"

text \<open>\<^verbatim>\<open>.replace(/\.\d{3}Z$/, 'Z')\<close>\<close>

definition strip_millis :: "string \<Rightarrow> string" where
  "strip_millis s =
     (let n = length s; t = drop (n - 5) s in
      if 5 \<le> n \<and> t ! 0 = CHR ''.'' \<and> is_digit (t ! 1) \<and> is_digit (t ! 2) \<and> is_digit (t ! 3) \<and> t ! 4 = CHR ''Z''
      then take (n - 5) s @ ''Z'' else s)"

definition iso_seconds :: "int \<Rightarrow> string" where
  "iso_seconds t = strip_millis (iso_millis t)"

definition iso_now :: "js_date \<Rightarrow> string throws" where
  "iso_now d = (case toISOString d of Inl m \<Rightarrow> Inl m | Inr s \<Rightarrow> Inr (strip_millis s))"

definition digits_at :: "string \<Rightarrow> nat \<Rightarrow> nat \<Rightarrow> nat" where
  "digits_at s i n = nat_of_digits (take n (drop i s))"

definition parse_fields :: "nat \<Rightarrow> nat \<Rightarrow> nat \<Rightarrow> nat \<Rightarrow> nat \<Rightarrow> nat \<Rightarrow> js_date" where
  "parse_fields y mo d h mi se =
     (if 1 \<le> mo \<and> mo \<le> 12 \<and> 1 \<le> d \<and> d \<le> 31 \<and> mi \<le> 59 \<and> se \<le> 59 \<and>
         (h \<le> 23 \<or> (h = 24 \<and> mi = 0 \<and> se = 0))
      then Some (1000 * (86400 * MakeDay (int y) (mo - 1) (int d) + 3600 * int h + 60 * int mi + int se))
      else None)"

definition parse_iso_seconds :: "string \<Rightarrow> js_date" where
  "parse_iso_seconds s = parse_fields (digits_at s 0 4) (digits_at s 5 2) (digits_at s 8 2)
                           (digits_at s 11 2) (digits_at s 14 2) (digits_at s 17 2)"

definition ISO_MILLIS_PATTERN :: "string \<Rightarrow> bool" where
  "ISO_MILLIS_PATTERN s \<longleftrightarrow> length s = 24 \<and> ISO8601_UTC_PATTERN (take 19 s @ ''Z'') \<and>
     s ! 19 = CHR ''.'' \<and> is_digit (s ! 20) \<and> is_digit (s ! 21) \<and> is_digit (s ! 22) \<and> s ! 23 = CHR ''Z''"

definition date_parse :: "(string \<Rightarrow> js_date) \<Rightarrow> string \<Rightarrow> js_date" where
  "date_parse host s =
     (if ISO8601_UTC_PATTERN s then parse_iso_seconds s
      else if ISO_MILLIS_PATTERN s
      then map_option (\<lambda>t. t + int (digits_at s 20 3)) (parse_iso_seconds (take 19 s @ ''Z''))
      else host s)"

text \<open>
  The values the sources compare as numbers: a comparison with NaN on either side is false.
\<close>

definition date_le :: "js_date \<Rightarrow> js_date \<Rightarrow> bool" where
  "date_le a b = (case (a, b) of (Some x, Some y) \<Rightarrow> x \<le> y | _ \<Rightarrow> False)"

definition date_gt :: "js_date \<Rightarrow> js_date \<Rightarrow> bool" where
  "date_gt a b = (case (a, b) of (Some x, Some y) \<Rightarrow> x > y | _ \<Rightarrow> False)"

lemma date_cmp_invalid [simp]:
  "\<not> date_le None b" "\<not> date_le a None" "\<not> date_gt None b" "\<not> date_gt a None"
  by (simp_all add: date_le_def date_gt_def split: option.splits)

lemma date_cmp_valid [simp]: "date_le (Some x) (Some y) \<longleftrightarrow> x \<le> y" "date_gt (Some x) (Some y) \<longleftrightarrow> x > y"
  by (simp_all add: date_le_def date_gt_def)

subsection \<open>The calendar is consistent\<close>

definition year_days :: "bool \<Rightarrow> int" where
  "year_days lp = (if lp then 366 else 365)"

lemma month_start_table:
  "month_start lp 0 = 0" "month_start lp (Suc 0) = 31" "month_start lp 1 = 31"
  "month_start lp 2 = (if lp then 60 else 59)" "month_start lp (Suc (Suc 0)) = (if lp then 60 else 59)"
  "month_start lp 3 = (if lp then 91 else 90)"
  "month_start lp 4 = (if lp then 121 else 120)" "month_start lp 5 = (if lp then 152 else 151)"
  "month_start lp 6 = (if lp then 182 else 181)" "month_start lp 7 = (if lp then 213 else 212)"
  "month_start lp 8 = (if lp then 244 else 243)" "month_start lp 9 = (if lp then 274 else 273)"
  "month_start lp 10 = (if lp then 305 else 304)" "month_start lp 11 = (if lp then 335 else 334)"
  "month_start lp 12 = (if lp then 366 else 365)"
  by (simp_all add: month_start_def)

lemma month_from_day_le: "month_from_day lp d \<le> 11"
  by (simp add: month_from_day_def)

lemma month_from_day_bounds:
  assumes "0 \<le> d" "d < year_days lp"
  shows "month_start lp (month_from_day lp d) \<le> d \<and> d < month_start lp (Suc (month_from_day lp d))"
  using assms
  by (cases lp) (auto simp: month_from_day_def month_start_table year_days_def)

lemma less_12_cases: "m < (12::nat) \<Longrightarrow> m \<in> {0, 1, 2, 3, 4, 5, 6, 7, 8, 9, 10, 11}"
  by (auto simp: eval_nat_numeral less_Suc_eq)

lemma month_start_step: "m < 12 \<Longrightarrow> month_start lp m + 28 \<le> month_start lp (Suc m) \<and>
    month_start lp (Suc m) \<le> month_start lp m + 31"
  by (drule less_12_cases, cases lp) (auto simp: month_start_table)

lemma month_start_mono: "m < k \<Longrightarrow> k \<le> 12 \<Longrightarrow> month_start lp (Suc m) \<le> month_start lp k"
proof (induction k)
  case (Suc k)
  then show ?case using month_start_step [of k lp] by (cases "m = k") auto
qed simp

lemma day_in_year_bounds: "0 \<le> day_in_year d \<and> day_in_year d < year_days (leap_year (YearFromDay d))"
  using YearFromDay_spec [of d] by (simp add: day_in_year_def year_days_def DayFromYear_Suc)

lemmas day_month_bounds =
  month_from_day_bounds [OF conjunct1 [OF day_in_year_bounds] conjunct2 [OF day_in_year_bounds],
    folded MonthFromDay_def]

lemma MonthFromDay_le: "MonthFromDay d \<le> 11"
  by (simp add: MonthFromDay_def month_from_day_le)

lemma DateFromDay_int:
  "int (DateFromDay d) = day_in_year d - month_start (leap_year (YearFromDay d)) (MonthFromDay d) + 1"
  using day_month_bounds [of d] by (simp add: DateFromDay_def)

lemma DateFromDay_bounds: "1 \<le> DateFromDay d \<and> DateFromDay d \<le> 31"
  using DateFromDay_int [of d] day_month_bounds [of d]
    month_start_step [of "MonthFromDay d" "leap_year (YearFromDay d)"] MonthFromDay_le [of d]
  by auto

theorem MakeDay_fields: "MakeDay (YearFromDay d) (MonthFromDay d) (int (DateFromDay d)) = d"
  by (simp add: MakeDay_def DateFromDay_int) (simp add: day_in_year_def)

lemma YearFromDay_mono:
  assumes "d \<le> e"
  shows "YearFromDay d \<le> YearFromDay e"
proof -
  have "DayFromYear (YearFromDay d) < DayFromYear (YearFromDay e + 1)"
    using assms YearFromDay_spec [of d] YearFromDay_spec [of e] by linarith
  then show ?thesis by (simp add: DayFromYear_less_iff)
qed

lemma day_fields_less:
  assumes "d < e"
  shows "YearFromDay d < YearFromDay e \<or> YearFromDay d = YearFromDay e \<and>
    (MonthFromDay d < MonthFromDay e \<or> MonthFromDay d = MonthFromDay e \<and> DateFromDay d < DateFromDay e)"
proof (cases "YearFromDay d = YearFromDay e")
  case True
  then have dy: "day_in_year d < day_in_year e" using assms by (simp add: day_in_year_def)
  have "\<not> MonthFromDay e < MonthFromDay d"
  proof
    assume "MonthFromDay e < MonthFromDay d"
    then have "month_start (leap_year (YearFromDay d)) (Suc (MonthFromDay e)) \<le>
        month_start (leap_year (YearFromDay d)) (MonthFromDay d)"
      using MonthFromDay_le [of d] by (intro month_start_mono) auto
    with day_month_bounds [of d] day_month_bounds [of e] dy True show False by simp
  qed
  moreover have "MonthFromDay d = MonthFromDay e \<Longrightarrow> DateFromDay d < DateFromDay e"
    using DateFromDay_int [of d] DateFromDay_int [of e] dy True by simp
  ultimately show ?thesis using True by linarith
next
  case False
  with YearFromDay_mono [of d e] assms show ?thesis by simp
qed

text \<open>The days whose year has four digits.\<close>

definition iso_day :: "int \<Rightarrow> bool" where
  "iso_day d \<longleftrightarrow> - 719528 \<le> d \<and> d < 2932897"

lemma iso_day_year: "iso_day d \<Longrightarrow> 0 \<le> YearFromDay d \<and> YearFromDay d \<le> 9999"
proof -
  assume d: "iso_day d"
  have z: "DayFromYear 0 = - 719528" "DayFromYear 10000 = 2932897"
    by (simp_all add: DayFromYear_def)
  have "DayFromYear 0 < DayFromYear (YearFromDay d + 1)"
    using YearFromDay_spec [of d] d by (simp add: iso_day_def z)
  moreover have "DayFromYear (YearFromDay d) < DayFromYear 10000"
    using YearFromDay_spec [of d] d by (simp add: iso_day_def z)
  ultimately show ?thesis by (simp add: DayFromYear_less_iff)
qed

lemma day_text_iso:
  "iso_day d \<Longrightarrow> day_text d = pad_nat 4 (nat (YearFromDay d)) @ ''-'' @ pad_nat 2 (MonthFromDay d + 1) @ ''-'' @
    pad_nat 2 (DateFromDay d)"
  using iso_day_year [of d] by (simp add: day_text_def year_text_def)

lemma length_day_text: "iso_day d \<Longrightarrow> length (day_text d) = 10"
  by (simp add: day_text_iso)

lemma day_text_mono:
  assumes "iso_day d" "iso_day e" "d < e"
  shows "day_text d < day_text e"
proof -
  have y: "nat (YearFromDay d) < 10 ^ 4" "nat (YearFromDay e) < 10 ^ 4"
    "0 \<le> YearFromDay d" "0 \<le> YearFromDay e"
    using iso_day_year [OF assms(1)] iso_day_year [OF assms(2)] by auto
  have m: "MonthFromDay d + 1 < 10 ^ 2" "MonthFromDay e + 1 < 10 ^ 2"
    using MonthFromDay_le [of d] MonthFromDay_le [of e] by simp_all
  have dd: "DateFromDay d < 10 ^ 2" "DateFromDay e < 10 ^ 2"
    using DateFromDay_bounds [of d] DateFromDay_bounds [of e] by simp_all
  have ye: "nat (YearFromDay d) < nat (YearFromDay e) \<longleftrightarrow> YearFromDay d < YearFromDay e"
    "nat (YearFromDay d) = nat (YearFromDay e) \<longleftrightarrow> YearFromDay d = YearFromDay e"
    using y by auto
  show ?thesis
    using day_fields_less [OF assms(3)]
    by (simp only: day_text_iso [OF assms(1)] day_text_iso [OF assms(2)] append_Cons append_Nil
        less_append_same_length length_pad_nat Cons_less_Cons
        pad_nat_less [OF y(1) y(2)] pad_nat_less [OF m] pad_nat_less [OF dd]
        pad_nat_eq [OF y(1) y(2)] pad_nat_eq [OF m] pad_nat_eq [OF dd] ye) auto
qed

subsection \<open>Timestamps compare as times\<close>

lemma less_by_divmod_pos:
  fixes x y m :: int
  assumes "0 < m"
  shows "x < y \<longleftrightarrow> x div m < y div m \<or> x div m = y div m \<and> x mod m < y mod m"
proof
  assume "x < y"
  moreover from this have "x div m \<le> y div m" using assms by (simp add: zdiv_mono1)
  moreover have "x mod m < y mod m" if "x div m = y div m"
  proof -
    have "x = m * (x div m) + x mod m" by (rule mult_div_mod_eq [symmetric])
    moreover have "y = m * (x div m) + y mod m" unfolding that by (rule mult_div_mod_eq [symmetric])
    ultimately show ?thesis using \<open>x < y\<close> by linarith
  qed
  ultimately show "x div m < y div m \<or> x div m = y div m \<and> x mod m < y mod m"
    by linarith
next
  assume "x div m < y div m \<or> x div m = y div m \<and> x mod m < y mod m"
  then show "x < y"
  proof
    assume "x div m < y div m"
    then show ?thesis using assms by (metis linorder_not_less zdiv_mono1)
  next
    assume "x div m = y div m \<and> x mod m < y mod m"
    then show ?thesis by (metis add_less_cancel_left mult_div_mod_eq)
  qed
qed

lemmas less_by_divmod = less_by_divmod_pos [OF zero_less_numeral]

lemma clock_fields_less:
  fixes s u :: int
  assumes "s < u"
  shows "s div 3600 < u div 3600 \<or> s div 3600 = u div 3600 \<and>
    (s div 60 mod 60 < u div 60 mod 60 \<or> s div 60 mod 60 = u div 60 mod 60 \<and> s mod 60 < u mod 60)"
proof -
  have h: "x div 3600 = x div 60 div 60" for x :: int
    using zdiv_zmult2_eq [of 60 x 60] by simp
  have "s div 60 < u div 60 \<or> s div 60 = u div 60 \<and> s mod 60 < u mod 60"
    using assms less_by_divmod [of s u] by blast
  moreover have "s div 60 < u div 60 \<Longrightarrow> s div 60 div 60 < u div 60 div 60 \<or>
      s div 60 div 60 = u div 60 div 60 \<and> s div 60 mod 60 < u div 60 mod 60"
    using less_by_divmod [of "s div 60" "u div 60"] by blast
  ultimately show ?thesis unfolding h by metis
qed

definition day_second :: "int \<Rightarrow> bool" where
  "day_second s \<longleftrightarrow> 0 \<le> s \<and> s < 86400"

lemma day_second_fields:
  assumes "day_second s"
  shows "nat (s div 3600) < 10 ^ 2" "nat (s div 60 mod 60) < 10 ^ 2" "nat (s mod 60) < 10 ^ 2"
    "0 \<le> s div 3600" "s div 3600 < 24"
proof -
  have "s div 3600 \<le> 86399 div 3600" using assms by (intro zdiv_mono1) (simp_all add: day_second_def)
  then have "s div 3600 < 24" by simp
  moreover have "s div 60 mod 60 < 60" "s mod 60 < 60" by simp_all
  ultimately show "nat (s div 3600) < 10 ^ 2" "nat (s div 60 mod 60) < 10 ^ 2" "nat (s mod 60) < 10 ^ 2"
    "s div 3600 < 24" by simp_all
  show "0 \<le> s div 3600" using assms by (simp add: day_second_def pos_imp_zdiv_nonneg_iff)
qed

lemma length_clock_text [simp]: "length (clock_text s) = 8"
  by (simp add: clock_text_def)

lemma clock_text_mono:
  assumes "day_second s" "day_second u" "s < u"
  shows "clock_text s < clock_text u"
proof -
  note fs = day_second_fields [OF assms(1)] and fu = day_second_fields [OF assms(2)]
  have n: "nat (s div 3600) < nat (u div 3600) \<longleftrightarrow> s div 3600 < u div 3600"
    "nat (s div 3600) = nat (u div 3600) \<longleftrightarrow> s div 3600 = u div 3600"
    using fs(4) fu(4) by auto
  have n': "nat (s div 60 mod 60) < nat (u div 60 mod 60) \<longleftrightarrow> s div 60 mod 60 < u div 60 mod 60"
    "nat (s div 60 mod 60) = nat (u div 60 mod 60) \<longleftrightarrow> s div 60 mod 60 = u div 60 mod 60"
    "nat (s mod 60) < nat (u mod 60) \<longleftrightarrow> s mod 60 < u mod 60"
    by (simp_all only: nat_less_eq_zless eq_nat_nat_iff pos_mod_sign zero_less_numeral)
  show ?thesis
    using clock_fields_less [OF assms(3)]
    by (simp only: clock_text_def append_Cons append_Nil less_append_same_length length_pad_nat
        Cons_less_Cons pad_nat_less [OF fs(1) fu(1)] pad_nat_less [OF fs(2) fu(2)]
        pad_nat_less [OF fs(3) fu(3)] pad_nat_eq [OF fs(1) fu(1)] pad_nat_eq [OF fs(2) fu(2)] n n') auto
qed

lemma strip_millis_text: "strip_millis (p @ ''.'' @ pad_nat 3 k @ ''Z'') = p @ ''Z''"
proof -
  obtain a b c where abc: "pad_nat 3 k = [a, b, c]"
    using length_pad_nat [of 3 k] unfolding numeral_3_eq_3 by (auto simp: length_Suc_conv)
  then have "is_digit a" "is_digit b" "is_digit c" using pad_nat_digits [of 3 k] by auto
  then show ?thesis by (simp add: strip_millis_def abc Let_def)
qed

lemma iso_seconds_text:
  "iso_seconds t = day_text (t div 86400000) @ ''T'' @ clock_text (t mod 86400000 div 1000) @ ''Z''"
  using strip_millis_text [of "day_text (t div 86400000) @ ''T'' @ clock_text (t mod 86400000 div 1000)"]
  by (simp add: iso_seconds_def iso_millis_def)

text \<open>The instants whose year has four digits: 0000-01-01 to 9999-12-31.\<close>

definition iso_range :: "int \<Rightarrow> bool" where
  "iso_range t \<longleftrightarrow> - 62167219200000 \<le> t \<and> t < 253402300800000"

lemma iso_range_day:
  assumes "iso_range t"
  shows "iso_day (t div 86400000)"
proof -
  have "- 62167219200000 div 86400000 \<le> t div 86400000"
    using assms by (intro zdiv_mono1) (simp_all add: iso_range_def)
  moreover have "t div 86400000 \<le> 253402300799999 div 86400000"
    using assms by (intro zdiv_mono1) (simp_all add: iso_range_def)
  ultimately show ?thesis by (simp add: iso_day_def)
qed

lemma day_second_of: "day_second (t mod 86400000 div 1000)"
proof -
  have "t mod 86400000 div 1000 \<le> 86399999 div 1000"
    by (intro zdiv_mono1) (use pos_mod_bound [of 86400000 t] in simp_all)
  moreover have "0 \<le> t mod 86400000 div 1000" by (simp add: pos_imp_zdiv_nonneg_iff)
  ultimately show ?thesis by (simp add: day_second_def)
qed

lemma seconds_split:
  fixes t :: int
  shows "t div 1000 = 86400 * (t div 86400000) + t mod 86400000 div 1000"
proof -
  have "t = t mod 86400000 + 1000 * (86400 * (t div 86400000))"
    using mult_div_mod_eq [of 86400000 t] by simp
  then have "t div 1000 = (t mod 86400000 + 1000 * (86400 * (t div 86400000))) div 1000" by simp
  also have "\<dots> = 86400 * (t div 86400000) + t mod 86400000 div 1000" by (rule div_mult_self2) simp
  finally show ?thesis .
qed

lemma day_second_less:
  "86400 * d + s < 86400 * e + r \<Longrightarrow> day_second s \<Longrightarrow> day_second r \<Longrightarrow> d < e \<or> d = e \<and> s < r"
  unfolding day_second_def by linarith

lemma iso_seconds_mono:
  assumes "iso_range t" "iso_range u" "t div 1000 < u div 1000"
  shows "iso_seconds t < iso_seconds u"
proof -
  let ?d = "t div 86400000" and ?e = "u div 86400000"
  let ?s = "t mod 86400000 div 1000" and ?r = "u mod 86400000 div 1000"
  note sec = day_second_of [of t] day_second_of [of u]
  note day = iso_range_day [OF assms(1)] iso_range_day [OF assms(2)]
  have len: "length (day_text ?d) = length (day_text ?e)" by (simp add: length_day_text day)
  have "?d < ?e \<or> ?d = ?e \<and> ?s < ?r"
    using assms(3) sec unfolding seconds_split [of t] seconds_split [of u] by (rule day_second_less)
  then show ?thesis
  proof
    assume "?d < ?e"
    then have "day_text ?d < day_text ?e" by (rule day_text_mono [OF day])
    then show ?thesis by (simp add: iso_seconds_text less_append_same_length [OF len])
  next
    assume "?d = ?e \<and> ?s < ?r"
    then show ?thesis using clock_text_mono [OF sec]
      by (simp add: iso_seconds_text less_append_same_length)
  qed
qed

theorem iso_seconds_less_iff:
  assumes "iso_range t" "iso_range u"
  shows "iso_seconds t < iso_seconds u \<longleftrightarrow> t div 1000 < u div 1000"
proof -
  have "t div 1000 = u div 1000 \<Longrightarrow> iso_seconds t = iso_seconds u"
  proof -
    assume e: "t div 1000 = u div 1000"
    have "x div 86400000 = x div 1000 div 86400" for x :: int
      using zdiv_zmult2_eq [of 86400 x 1000] by simp
    then have "t div 86400000 = u div 86400000" using e by simp
    with e show ?thesis using seconds_split [of t] seconds_split [of u]
      by (simp add: iso_seconds_text)
  qed
  with iso_seconds_mono [OF assms] iso_seconds_mono [OF assms(2,1)] show ?thesis
    by (metis linorder_neqE_linordered_idom order_less_asym order_less_irrefl)
qed

subsection \<open>Reading back what toISOString wrote\<close>

lemma pad_nat_2: "pad_nat 2 n = [digit_char (n div 10 mod 10), digit_char (n mod 10)]"
  by (simp add: numeral_2_eq_2)

lemma pad_nat_4: "pad_nat 4 n = [digit_char (n div 10 div 10 div 10 mod 10), digit_char (n div 10 div 10 mod 10),
    digit_char (n div 10 mod 10), digit_char (n mod 10)]"
proof -
  have four: "(4::nat) = Suc (Suc (Suc (Suc 0)))" by simp
  show ?thesis unfolding four by simp
qed

lemma iso_seconds_fields:
  assumes "iso_range t"
  defines "d \<equiv> t div 86400000" and "s \<equiv> t mod 86400000 div 1000"
  shows "iso_seconds t = pad_nat 4 (nat (YearFromDay d)) @ ''-'' @ pad_nat 2 (MonthFromDay d + 1) @ ''-'' @
    pad_nat 2 (DateFromDay d) @ ''T'' @ pad_nat 2 (nat (s div 3600)) @ '':'' @
    pad_nat 2 (nat (s div 60 mod 60)) @ '':'' @ pad_nat 2 (nat (s mod 60)) @ ''Z''"
  using day_text_iso [OF iso_range_day [OF assms(1)]]
  by (simp add: iso_seconds_text clock_text_def d_def s_def)

lemma iso_shape_fields:
  "ISO8601_UTC_PATTERN (pad_nat 4 y @ ''-'' @ pad_nat 2 mo @ ''-'' @ pad_nat 2 d @ ''T'' @
     pad_nat 2 h @ '':'' @ pad_nat 2 mi @ '':'' @ pad_nat 2 s @ ''Z'')"
  by (simp add: ISO8601_UTC_PATTERN_def ISO_SHAPE_def pad_nat_2 pad_nat_4)

lemma parse_iso_fields:
  "parse_iso_seconds (pad_nat 4 y @ ''-'' @ pad_nat 2 mo @ ''-'' @ pad_nat 2 d @ ''T'' @
     pad_nat 2 h @ '':'' @ pad_nat 2 mi @ '':'' @ pad_nat 2 s @ ''Z'') =
   parse_fields (y mod 10 ^ 4) (mo mod 10 ^ 2) (d mod 10 ^ 2) (h mod 10 ^ 2) (mi mod 10 ^ 2) (s mod 10 ^ 2)"
  by (simp add: parse_iso_seconds_def digits_at_def nat_of_pad)

theorem iso_seconds_pattern: "iso_range t \<Longrightarrow> ISO8601_UTC_PATTERN (iso_seconds t)"
  by (simp only: iso_seconds_fields iso_shape_fields)

lemma clock_fields_sum:
  fixes s :: int
  shows "3600 * (s div 3600) + 60 * (s div 60 mod 60) + s mod 60 = s"
proof -
  have h: "s div 3600 = s div 60 div 60" using zdiv_zmult2_eq [of 60 s 60] by simp
  have "s = 60 * (s div 60) + s mod 60" by (rule mult_div_mod_eq [symmetric])
  moreover have "s div 60 = 60 * (s div 60 div 60) + s div 60 mod 60" by (rule mult_div_mod_eq [symmetric])
  ultimately show ?thesis unfolding h by linarith
qed

theorem parse_iso_seconds_roundtrip:
  assumes "iso_range t"
  shows "parse_iso_seconds (iso_seconds t) = Some (1000 * (t div 1000))"
proof -
  define d where "d = t div 86400000"
  define s where "s = t mod 86400000 div 1000"
  have d: "iso_day d" unfolding d_def by (rule iso_range_day [OF assms])
  have s: "day_second s" unfolding s_def by (rule day_second_of)
  note f = day_second_fields [OF s]
  have "nat (YearFromDay d) < 10 ^ 4" using iso_day_year [OF d] by auto
  then have y: "nat (YearFromDay d) mod 10 ^ 4 = nat (YearFromDay d)" by (rule mod_less)
  have iy: "int (nat (YearFromDay d)) = YearFromDay d" using iso_day_year [OF d] by simp
  have m: "(MonthFromDay d + 1) mod 10 ^ 2 = MonthFromDay d + 1" using MonthFromDay_le [of d] by simp
  have dd: "DateFromDay d mod 10 ^ 2 = DateFromDay d" "1 \<le> DateFromDay d" "DateFromDay d \<le> 31"
    using DateFromDay_bounds [of d] by simp_all
  have c: "int (nat (s div 3600)) = s div 3600" "int (nat (s div 60 mod 60)) = s div 60 mod 60"
    "int (nat (s mod 60)) = s mod 60"
    by (simp_all only: nat_0_le f(4) pos_mod_sign zero_less_numeral)
  have small: "nat x \<le> 59" if "x < 60" for x using that by auto
  have r: "nat (s div 60 mod 60) \<le> 59" "nat (s mod 60) \<le> 59"
    by (rule small, rule pos_mod_bound, simp)+
  have r': "nat x \<le> 23" if "x < 24" for x using that by auto
  have "parse_iso_seconds (iso_seconds t) =
      parse_fields (nat (YearFromDay d)) (MonthFromDay d + 1) (DateFromDay d)
        (nat (s div 3600)) (nat (s div 60 mod 60)) (nat (s mod 60))"
    unfolding iso_seconds_fields [OF assms] parse_iso_fields d_def [symmetric] s_def [symmetric]
    by (simp only: y m dd mod_less [OF f(1)] mod_less [OF f(2)] mod_less [OF f(3)])
  also have "\<dots> = Some (1000 * (86400 * d + s))"
    unfolding parse_fields_def c iy
    using MonthFromDay_le [of d] dd r r' [OF f(5)] MakeDay_fields [of d] clock_fields_sum [of s] by simp
  also have "86400 * d + s = t div 1000"
    unfolding d_def s_def by (rule seconds_split [symmetric])
  finally show ?thesis .
qed

text \<open>
  A timestamp the calendar knows: the text of an instant.  On such timestamps the order of the
  strings is the order of the instants, which the sources rely on when they compare
  \<open>issued_at\<close>, \<open>not_before\<close> and \<open>expires_at\<close> as strings in one place and as dates in another.
\<close>

definition calendar_timestamp :: "string \<Rightarrow> bool" where
  "calendar_timestamp s \<longleftrightarrow>
     (case parse_iso_seconds s of None \<Rightarrow> False | Some t \<Rightarrow> iso_range t \<and> iso_seconds t = s)"

lemma calendar_timestampE:
  assumes "calendar_timestamp s"
  obtains t where "iso_range t" "iso_seconds t = s" "parse_iso_seconds s = Some t"
  using assms by (auto simp: calendar_timestamp_def split: option.splits)

lemma calendar_pattern: "calendar_timestamp s \<Longrightarrow> ISO8601_UTC_PATTERN s"
  by (metis calendar_timestampE iso_seconds_pattern)

lemma calendar_iso_seconds: "iso_range t \<Longrightarrow> calendar_timestamp (iso_seconds t)"
proof -
  assume t: "iso_range t"
  let ?u = "1000 * (t div 1000)"
  have u: "?u div 1000 = t div 1000" by simp
  have "?u \<le> t" "t - 1000 < ?u"
    using mult_div_mod_eq [of 1000 t] pos_mod_bound [of 1000 t] pos_mod_sign [of 1000 t] by simp_all
  with t have ur: "iso_range ?u"
    unfolding iso_range_def by (auto simp: dest: zdiv_mono1 [of "- 62167219200000" t 1000])
  have "\<not> iso_seconds ?u < iso_seconds t" "\<not> iso_seconds t < iso_seconds ?u"
    using iso_seconds_less_iff [OF ur t] iso_seconds_less_iff [OF t ur] u by simp_all
  then have "iso_seconds ?u = iso_seconds t" by (metis linorder_less_linear)
  with ur show ?thesis by (simp add: calendar_timestamp_def parse_iso_seconds_roundtrip [OF t])
qed

theorem timestamp_order:
  assumes "calendar_timestamp a" "calendar_timestamp b"
  shows "a < b \<longleftrightarrow> date_gt (parse_iso_seconds b) (parse_iso_seconds a)"
proof -
  obtain t where t: "iso_range t" "iso_seconds t = a" "parse_iso_seconds a = Some t"
    using assms(1) by (rule calendar_timestampE)
  obtain u where u: "iso_range u" "iso_seconds u = b" "parse_iso_seconds b = Some u"
    using assms(2) by (rule calendar_timestampE)
  have "1000 * (t div 1000) = t" "1000 * (u div 1000) = u"
    using parse_iso_seconds_roundtrip [OF t(1)] parse_iso_seconds_roundtrip [OF u(1)] t u by simp_all
  then have "t div 1000 < u div 1000 \<longleftrightarrow> t < u" by linarith
  with iso_seconds_less_iff [OF t(1) u(1)] show ?thesis by (simp add: t u date_gt_def)
qed

end
