(* ===== verification/Consent.thy ===== *)
theory Consent
  imports Shared Canonical JsDate
begin

text \<open>
  \<open>consent/\<close>: consent objects, their canonical payload and hash, their identifier, the
  builder and the validator.

  A value that the code checks at run time (the action, the type of a scope entry, the
  pricing model) is a string of the record, so that each check is a check of the model.
  An optional property is an \<open>option\<close>, absent or null being \<open>None\<close>.
\<close>

record ScopeEntry =
  se_type :: string
  se_ref :: string

record ConsentPricing =
  pr_model :: string
  pr_amount :: js_num
  pr_currency :: string

record ConsentPayload =
  c_version :: string
  c_subject :: string
  c_grantee :: string
  c_action :: string
  c_scope :: "ScopeEntry list"
  c_permissions :: "string list"
  c_pricing :: "ConsentPricing option"
  c_marketMakerId :: "string option"
  c_revoke_target :: "string option"
  c_issued_at :: string
  c_expires_at :: "string option"
  c_prior_consent :: "string option"

record ConsentObject = ConsentPayload +
  c_consent_hash :: string

subsection \<open>The canonical payload\<close>

definition opt_member :: "string \<Rightarrow> js option \<Rightarrow> (string \<times> js) list" where
  "opt_member k v = (case v of None \<Rightarrow> [] | Some j \<Rightarrow> [(k, j)])"

definition nullable :: "string option \<Rightarrow> js" where
  "nullable s = (case s of None \<Rightarrow> JNull | Some t \<Rightarrow> JStr t)"

definition canonicalizeScopeEntry :: "ScopeEntry \<Rightarrow> js" where
  "canonicalizeScopeEntry e = JObj [(''ref'', JStr (se_ref e)), (''type'', JStr (se_type e))]"

definition scope_compare :: "(string \<Rightarrow> string \<Rightarrow> int) \<Rightarrow> ScopeEntry \<Rightarrow> ScopeEntry \<Rightarrow> int" where
  "scope_compare localeCompare a b =
     (let typeCmp = localeCompare (se_type a) (se_type b) in
      if typeCmp \<noteq> 0 then typeCmp else localeCompare (se_ref a) (se_ref b))"

definition scope_json :: "(string \<Rightarrow> string \<Rightarrow> int) \<Rightarrow> ScopeEntry list \<Rightarrow> js" where
  "scope_json localeCompare es = JArr (map canonicalizeScopeEntry (sort_by (scope_compare localeCompare) es))"

definition permissions_json :: "string list \<Rightarrow> js" where
  "permissions_json ps = JArr (map JStr (sort ps))"

definition pricing_json :: "ConsentPricing \<Rightarrow> js" where
  "pricing_json p = JObj [(''amount'', JNum (pr_amount p)), (''currency'', JStr (pr_currency p)),
                          (''model'', JStr (pr_model p))]"

definition consent_json :: "(string \<Rightarrow> string \<Rightarrow> int) \<Rightarrow> 'a ConsentPayload_scheme \<Rightarrow> (string \<times> js) list" where
  "consent_json localeCompare p =
     [(''action'', JStr (c_action p)), (''expires_at'', nullable (c_expires_at p)),
      (''grantee'', JStr (c_grantee p)), (''issued_at'', JStr (c_issued_at p))] @
     opt_member ''marketMakerId'' (map_option JStr (c_marketMakerId p)) @
     [(''permissions'', permissions_json (c_permissions p))] @
     opt_member ''pricing'' (map_option pricing_json (c_pricing p)) @
     [(''prior_consent'', nullable (c_prior_consent p))] @
     opt_member ''revoke_target'' (map_option (\<lambda>h. JObj [(''capability_hash'', JStr h)]) (c_revoke_target p)) @
     [(''scope'', scope_json localeCompare (c_scope p)), (''subject'', JStr (c_subject p)),
      (''version'', JStr (c_version p))]"

definition canonicalizeConsentPayload ::
  "(string \<Rightarrow> string \<Rightarrow> int) \<Rightarrow> 'a ConsentPayload_scheme \<Rightarrow> string throws" where
  "canonicalizeConsentPayload localeCompare p = canonical_bytes (JObj (consent_json localeCompare p))"

definition computeConsentHash ::
  "(string \<Rightarrow> string) \<Rightarrow> (string \<Rightarrow> string \<Rightarrow> int) \<Rightarrow> 'a ConsentPayload_scheme \<Rightarrow> string throws" where
  "computeConsentHash sha256Hex localeCompare p =
     bind_throws (canonicalizeConsentPayload localeCompare p) (\<lambda>bytes. Inr (sha256Hex bytes))"

definition buildConsentId :: "ConsentObject \<Rightarrow> string throws" where
  "buildConsentId c =
     and_return
       (first_throw
         [throw_if (\<not> VERSION_PATTERN (c_version c)) ''Consent version must match pattern MAJOR.MINOR (e.g., \"1.0\").'',
          throw_if (\<not> HASH_HEX_PATTERN (c_consent_hash c)) ''Consent hash must be 64 lowercase hex characters.''])
       (let ws = split_on CHR ''.'' (c_version c) in
        ''aoc://consent/v'' @ ws ! 0 @ ''/'' @ ws ! 1 @ ''/0x'' @ c_consent_hash c)"

subsection \<open>Validation\<close>

text \<open>
  The validators of \<open>consentObject.ts\<close> and \<open>capabilityToken.ts\<close> differ only in the word their
  messages start with.
\<close>

definition version_check :: "string \<Rightarrow> string \<Rightarrow> checked" where
  "version_check lbl version =
     throw_if (\<not> VERSION_PATTERN version) (lbl @ '' version must match pattern MAJOR.MINOR (e.g., \"1.0\").'')"

definition did_check :: "string \<Rightarrow> string \<Rightarrow> string \<Rightarrow> checked" where
  "did_check lbl s fieldName =
     first_throw
       [throw_if (trim s = []) (lbl @ '' '' @ fieldName @ '' must be non-empty.''),
        throw_if (length s < 8) (lbl @ '' '' @ fieldName @ '' must be at least 8 characters.''),
        throw_if (length s > 2048) (lbl @ '' '' @ fieldName @ '' must be at most 2048 characters.''),
        throw_if (\<not> DID_PATTERN s) (lbl @ '' '' @ fieldName @ '' must be a valid DID.'')]"

definition scope_entry_check :: "ScopeEntry \<Rightarrow> nat \<Rightarrow> checked" where
  "scope_entry_check e i =
     first_throw
       [throw_if (se_type e \<notin> {''field'', ''content'', ''pack''})
          (''Scope entry '' @ show_nat i @ '': type must be \"field\", \"content\", or \"pack\".''),
        throw_if (\<not> HASH_HEX_PATTERN (se_ref e))
          (''Scope entry '' @ show_nat i @ '': ref must be 64 lowercase hex characters.'')]"

definition scopeKey :: "ScopeEntry \<Rightarrow> string" where
  "scopeKey e = se_type e @ '':'' @ se_ref e"

fun scope_check_from :: "string \<Rightarrow> nat \<Rightarrow> string set \<Rightarrow> ScopeEntry list \<Rightarrow> checked" where
  "scope_check_from lbl i seen [] = returns"
| "scope_check_from lbl i seen (e # es) =
     first_throw
       [scope_entry_check e i,
        throw_if (scopeKey e \<in> seen)
          (lbl @ '' scope contains duplicate entry: ('' @ se_type e @ '', '' @ se_ref e @ '').''),
        scope_check_from lbl (Suc i) (insert (scopeKey e) seen) es]"

definition scope_check :: "string \<Rightarrow> ScopeEntry list \<Rightarrow> checked" where
  "scope_check lbl es =
     first_throw
       [throw_if (es = []) (lbl @ '' scope must be a non-empty array.''),
        throw_if (length es > 10000) (lbl @ '' scope must not exceed 10000 entries.''),
        scope_check_from lbl 0 {} es]"

definition permissions_check :: "string \<Rightarrow> string list \<Rightarrow> checked" where
  "permissions_check lbl ps =
     validateCapabilityActions ps
       \<lparr>containerLabel = lbl @ '' permissions'', itemLabel = lbl @ '' permission'',
        emptyMessage = lbl @ '' permissions must be a non-empty array.'', maxEntries = 100\<rparr>"

definition consent_validateAction :: "string \<Rightarrow> checked" where
  "consent_validateAction action =
     throw_if (action \<notin> {''grant'', ''revoke''}) ''Consent action must be \"grant\" or \"revoke\".''"

definition consent_validatePricing :: "ConsentPricing option \<Rightarrow> string \<Rightarrow> checked" where
  "consent_validatePricing pricing action =
     (case pricing of
        None \<Rightarrow> returns
      | Some p \<Rightarrow>
          first_throw
            [throw_if (action \<noteq> ''grant'') ''Consent pricing is only allowed for grant actions.'',
             throw_if (pr_model p \<noteq> ''per_use'') ''Consent pricing.model must be \"per_use\".'',
             throw_if (\<not> isFinite (pr_amount p) \<or> num_le_zero (pr_amount p))
               ''Consent pricing.amount must be a positive number.'',
             throw_if (trim (pr_currency p) = []) ''Consent pricing.currency must be a non-empty string.''])"

definition consent_validateRevokeTarget :: "string option \<Rightarrow> checked" where
  "consent_validateRevokeTarget target =
     throw_if (\<not> (case target of None \<Rightarrow> False | Some h \<Rightarrow> HASH_HEX_PATTERN h))
       ''Consent revoke_target.capability_hash must be 64 lowercase hex characters for revoke actions.''"

definition consent_validateIssuedAt :: "string \<Rightarrow> checked" where
  "consent_validateIssuedAt issued_at =
     throw_if (\<not> ISO8601_UTC_PATTERN issued_at)
       ''Consent issued_at must be ISO 8601 UTC format (e.g., \"2025-01-15T14:30:00Z\").''"

definition consent_validateExpiresAt :: "string option \<Rightarrow> string \<Rightarrow> checked" where
  "consent_validateExpiresAt expires_at issued_at =
     (case expires_at of
        None \<Rightarrow> returns
      | Some e \<Rightarrow>
          first_throw
            [throw_if (\<not> ISO8601_UTC_PATTERN e) ''Consent expires_at must be ISO 8601 UTC format or null.'',
             throw_if (e \<le> issued_at) ''Consent expires_at must be after issued_at.''])"

definition consent_validatePriorConsent :: "string option \<Rightarrow> checked" where
  "consent_validatePriorConsent prior =
     throw_if (case prior of None \<Rightarrow> False | Some h \<Rightarrow> \<not> HASH_HEX_PATTERN h)
       ''Consent prior_consent must be 64 lowercase hex characters or null.''"

text \<open>The checks \<open>buildConsentObject\<close> and \<open>validateConsentObject\<close> share, in the order both have.\<close>

definition consent_structure :: "'a ConsentPayload_scheme \<Rightarrow> checked" where
  "consent_structure c =
     first_throw
       [version_check ''Consent'' (c_version c),
        did_check ''Consent'' (c_subject c) ''subject'',
        did_check ''Consent'' (c_grantee c) ''grantee'',
        consent_validateAction (c_action c),
        consent_validateIssuedAt (c_issued_at c),
        validateMarketMakerId (c_marketMakerId c) ''Consent marketMakerId'',
        consent_validatePricing (c_pricing c) (c_action c),
        (if c_action c = ''revoke''
         then first_throw
           [throw_if (c_marketMakerId c \<noteq> None) ''Consent revoke actions must not include marketMakerId.'',
            consent_validateRevokeTarget (c_revoke_target c),
            throw_if (c_scope c \<noteq> []) ''Consent scope must be empty for revoke actions.'',
            throw_if (c_permissions c \<noteq> []) ''Consent permissions must be empty for revoke actions.'',
            throw_if (c_expires_at c \<noteq> None) ''Consent expires_at must be null for revoke actions.'']
         else first_throw
           [scope_check ''Consent'' (c_scope c),
            permissions_check ''Consent'' (c_permissions c),
            consent_validateExpiresAt (c_expires_at c) (c_issued_at c)]),
        consent_validatePriorConsent (c_prior_consent c)]"

record BuildConsentOptions =
  bo_expires_at :: "string option"
  bo_prior_consent :: "string option"
  bo_revoke_target :: "string option"
  bo_marketMakerId :: "string option"
  bo_pricing :: "ConsentPricing option"

definition with_hash :: "ConsentPayload \<Rightarrow> string \<Rightarrow> ConsentObject" where
  "with_hash p h = ConsentPayload.extend p (ConsentObject.fields h)"

definition consent_payload ::
  "string \<Rightarrow> string \<Rightarrow> string \<Rightarrow> ScopeEntry list \<Rightarrow> string list \<Rightarrow> BuildConsentOptions \<Rightarrow> string \<Rightarrow> ConsentPayload" where
  "consent_payload subject grantee action scope permissions opts issued_at =
     \<lparr>c_version = ''1.0'', c_subject = subject, c_grantee = grantee, c_action = action,
      c_scope = scope, c_permissions = permissions, c_pricing = bo_pricing opts,
      c_marketMakerId = bo_marketMakerId opts, c_revoke_target = bo_revoke_target opts,
      c_issued_at = issued_at, c_expires_at = bo_expires_at opts, c_prior_consent = bo_prior_consent opts\<rparr>"

definition buildConsentObject ::
  "(string \<Rightarrow> string) \<Rightarrow> (string \<Rightarrow> string \<Rightarrow> int) \<Rightarrow> string \<Rightarrow> string \<Rightarrow> string \<Rightarrow> ScopeEntry list \<Rightarrow> string list \<Rightarrow>
   BuildConsentOptions \<Rightarrow> js_date \<Rightarrow> ConsentObject throws" where
  "buildConsentObject sha256Hex localeCompare subject grantee action scope permissions opts now =
     bind_throws (iso_now now) (\<lambda>issued_at.
       let payload = consent_payload subject grantee action scope permissions opts issued_at
       in and_then (consent_structure payload)
            (bind_throws (computeConsentHash sha256Hex localeCompare payload) (\<lambda>consent_hash.
              and_return
                (throw_if (c_prior_consent payload = Some consent_hash)
                   ''Consent must not reference itself via prior_consent.'')
                (with_hash payload consent_hash))))"

definition validateConsentObject ::
  "(string \<Rightarrow> string) \<Rightarrow> (string \<Rightarrow> string \<Rightarrow> int) \<Rightarrow> ConsentObject \<Rightarrow> checked" where
  "validateConsentObject sha256Hex localeCompare c =
     first_throw
       [consent_structure c,
        throw_if (\<not> HASH_HEX_PATTERN (c_consent_hash c)) ''Consent consent_hash must be 64 lowercase hex characters.'',
        (case computeConsentHash sha256Hex localeCompare c of
           Inl msg \<Rightarrow> throws msg
         | Inr expectedHash \<Rightarrow>
             throw_if (c_consent_hash c \<noteq> expectedHash)
               ''Consent consent_hash does not match canonical payload hash.''),
        throw_if (c_prior_consent c = Some (c_consent_hash c))
          ''Consent must not reference itself via prior_consent.'']"

subsection \<open>What the validators accept\<close>

definition valid_did :: "string \<Rightarrow> bool" where
  "valid_did s \<longleftrightarrow> DID_PATTERN s \<and> 8 \<le> length s \<and> length s \<le> 2048"

lemma did_head: "DID_PATTERN s \<Longrightarrow> trim s \<noteq> []"
proof
  assume d: "DID_PATTERN s" and "trim s = []"
  then have "list_all is_space s" by (simp add: trim_nil)
  moreover obtain a b c where "split_on CHR '':'' s = [a, b, c]" and abc: "a = ''did''"
    using d by (auto simp: DID_PATTERN_def split: list.splits)
  then have "s = a @ CHR '':'' # b @ CHR '':'' # c" using join_split [of "CHR '':''" s] by simp
  ultimately show False by (simp add: abc is_space_def char_code_def)
qed

lemma did_check_returns [simp, throws_simps]: "did_check lbl s f = None \<longleftrightarrow> valid_did s"
  using did_head by (auto simp: did_check_def valid_did_def)

lemma version_check_returns [simp, throws_simps]: "version_check lbl v = None \<longleftrightarrow> VERSION_PATTERN v"
  by (simp add: version_check_def)

definition valid_entry :: "ScopeEntry \<Rightarrow> bool" where
  "valid_entry e \<longleftrightarrow> se_type e \<in> {''field'', ''content'', ''pack''} \<and> HASH_HEX_PATTERN (se_ref e)"

lemma scope_entry_check_returns [simp]: "scope_entry_check e i = None \<longleftrightarrow> valid_entry e"
  by (auto simp: scope_entry_check_def valid_entry_def)

lemma scopeKey_inj: "valid_entry a \<Longrightarrow> valid_entry b \<Longrightarrow> scopeKey a = scopeKey b \<Longrightarrow> a = b"
  by (cases a; cases b) (auto simp: scopeKey_def valid_entry_def)

lemma scope_check_from_returns:
  "scope_check_from lbl i seen es = None \<longleftrightarrow>
     (\<forall>e \<in> set es. valid_entry e) \<and> distinct (map scopeKey es) \<and> scopeKey ` set es \<inter> seen = {}"
  by (induction es arbitrary: i seen) auto

definition valid_scope :: "ScopeEntry list \<Rightarrow> bool" where
  "valid_scope es \<longleftrightarrow> es \<noteq> [] \<and> length es \<le> 10000 \<and> (\<forall>e \<in> set es. valid_entry e) \<and> distinct es"

lemma scope_check_returns [simp, throws_simps]: "scope_check lbl es = None \<longleftrightarrow> valid_scope es"
proof -
  have "(\<forall>e \<in> set es. valid_entry e) \<Longrightarrow> distinct (map scopeKey es) \<longleftrightarrow> distinct es"
    using scopeKey_inj by (auto simp: distinct_map inj_on_def)
  then show ?thesis
    by (auto simp: scope_check_def scope_check_from_returns valid_scope_def)
qed

definition valid_permissions :: "string list \<Rightarrow> bool" where
  "valid_permissions ps \<longleftrightarrow> ps \<noteq> [] \<and> distinct ps \<and> set ps \<subseteq> set canonicalCapabilityActions"

lemma canonical_actions_bound: "distinct ps \<Longrightarrow> set ps \<subseteq> set canonicalCapabilityActions \<Longrightarrow> length ps \<le> 100"
proof -
  assume "distinct ps" "set ps \<subseteq> set canonicalCapabilityActions"
  then have "length ps \<le> card (set canonicalCapabilityActions)"
    by (metis card_mono distinct_card finite_set)
  also have "\<dots> \<le> 100" using card_length [of canonicalCapabilityActions]
    by (simp add: canonicalCapabilityActions_def)
  finally show ?thesis .
qed

lemma permissions_check_returns [simp, throws_simps]:
  "permissions_check lbl ps = None \<longleftrightarrow> valid_permissions ps"
  using canonical_actions_bound
  by (auto simp: permissions_check_def validateCapabilityActions_returns valid_permissions_def
      isCanonicalCapabilityAction_def)

text \<open>The conditions on a consent, apart from its hash.\<close>

definition valid_pricing :: "ConsentPricing \<Rightarrow> bool" where
  "valid_pricing p \<longleftrightarrow> pr_model p = ''per_use'' \<and> isFinite (pr_amount p) \<and> \<not> num_le_zero (pr_amount p) \<and>
     trim (pr_currency p) \<noteq> []"

definition valid_grant :: "'a ConsentPayload_scheme \<Rightarrow> bool" where
  "valid_grant c \<longleftrightarrow> c_action c = ''grant'' \<and> valid_scope (c_scope c) \<and> valid_permissions (c_permissions c) \<and>
     (\<forall>e. c_expires_at c = Some e \<longrightarrow> ISO8601_UTC_PATTERN e \<and> c_issued_at c < e) \<and>
     (\<forall>m. c_marketMakerId c = Some m \<longrightarrow> MARKET_MAKER_ID_PATTERN m) \<and>
     (\<forall>p. c_pricing c = Some p \<longrightarrow> valid_pricing p)"

definition valid_revocation :: "'a ConsentPayload_scheme \<Rightarrow> bool" where
  "valid_revocation c \<longleftrightarrow> c_action c = ''revoke'' \<and> c_scope c = [] \<and> c_permissions c = [] \<and> c_expires_at c = None \<and>
     c_marketMakerId c = None \<and> c_pricing c = None \<and> (\<exists>h. c_revoke_target c = Some h \<and> HASH_HEX_PATTERN h)"

definition valid_consent :: "'a ConsentPayload_scheme \<Rightarrow> bool" where
  "valid_consent c \<longleftrightarrow> VERSION_PATTERN (c_version c) \<and> valid_did (c_subject c) \<and> valid_did (c_grantee c) \<and>
     ISO8601_UTC_PATTERN (c_issued_at c) \<and> (\<forall>h. c_prior_consent c = Some h \<longrightarrow> HASH_HEX_PATTERN h) \<and>
     (valid_grant c \<or> valid_revocation c)"

lemma consent_validatePricing_returns [throws_simps]:
  "consent_validatePricing p a = None \<longleftrightarrow> p = None \<or> (a = ''grant'' \<and> (\<exists>q. p = Some q \<and> valid_pricing q))"
  by (auto simp: consent_validatePricing_def valid_pricing_def split: option.splits)

lemma consent_structure_returns: "consent_structure c = None \<longleftrightarrow> valid_consent c"
proof -
  have "consent_validateExpiresAt e i = None \<longleftrightarrow> (\<forall>x. e = Some x \<longrightarrow> ISO8601_UTC_PATTERN x \<and> i < x)" for e i
    by (auto simp: consent_validateExpiresAt_def not_le split: option.splits)
  moreover have "consent_validatePriorConsent p = None \<longleftrightarrow> (\<forall>h. p = Some h \<longrightarrow> HASH_HEX_PATTERN h)" for p
    by (auto simp: consent_validatePriorConsent_def split: option.splits)
  moreover have "consent_validateRevokeTarget t = None \<longleftrightarrow> (\<exists>h. t = Some h \<and> HASH_HEX_PATTERN h)" for t
    by (auto simp: consent_validateRevokeTarget_def split: option.splits)
  ultimately show ?thesis
    unfolding consent_structure_def consent_validateAction_def consent_validateIssuedAt_def
    by (cases "c_action c = ''revoke''"; cases "c_action c = ''grant''")
      (auto simp: valid_consent_def valid_grant_def valid_revocation_def consent_validatePricing_returns)
qed

lemma validateConsentObject_returns:
  "validateConsentObject sha cmp c = None \<longleftrightarrow>
     valid_consent c \<and> HASH_HEX_PATTERN (c_consent_hash c) \<and>
     computeConsentHash sha cmp c = Inr (c_consent_hash c) \<and> c_prior_consent c \<noteq> Some (c_consent_hash c)"
  by (auto simp: validateConsentObject_def consent_structure_returns split: sum.splits)

subsection \<open>Building and validating agree\<close>

lemma with_hash_simps [simp]:
  "c_consent_hash (with_hash p h) = h" "ConsentPayload.truncate (with_hash p h) = p"
  "c_version (with_hash p h) = c_version p" "c_subject (with_hash p h) = c_subject p"
  "c_grantee (with_hash p h) = c_grantee p" "c_action (with_hash p h) = c_action p"
  "c_scope (with_hash p h) = c_scope p" "c_permissions (with_hash p h) = c_permissions p"
  "c_pricing (with_hash p h) = c_pricing p" "c_marketMakerId (with_hash p h) = c_marketMakerId p"
  "c_revoke_target (with_hash p h) = c_revoke_target p" "c_issued_at (with_hash p h) = c_issued_at p"
  "c_expires_at (with_hash p h) = c_expires_at p" "c_prior_consent (with_hash p h) = c_prior_consent p"
  by (cases p; simp add: with_hash_def ConsentPayload.defs ConsentObject.defs)+

lemma with_hash_consent [simp]:
  "consent_json cmp (with_hash p h) = consent_json cmp p" "valid_consent (with_hash p h) = valid_consent p"
  "computeConsentHash sha cmp (with_hash p h) = computeConsentHash sha cmp p"
  by (simp_all add: consent_json_def valid_consent_def valid_grant_def valid_revocation_def
      computeConsentHash_def canonicalizeConsentPayload_def)

lemma buildConsentObject_Inr:
  "buildConsentObject sha cmp s g a es ps opts now = Inr c \<longleftrightarrow>
     (\<exists>t h. iso_now now = Inr t \<and> c = with_hash (consent_payload s g a es ps opts t) h \<and>
       valid_consent (consent_payload s g a es ps opts t) \<and>
       computeConsentHash sha cmp (consent_payload s g a es ps opts t) = Inr h \<and>
       bo_prior_consent opts \<noteq> Some h)"
  by (auto simp: buildConsentObject_def Let_def consent_structure_returns consent_payload_def)

lemma computeConsentHash_sha: "computeConsentHash sha cmp p = Inr h \<Longrightarrow> \<exists>b. h = sha b"
  by (auto simp: computeConsentHash_def)

lemma buildConsentObject_validates:
  assumes "\<And>b. HASH_HEX_PATTERN (sha b)" "buildConsentObject sha cmp s g a es ps opts now = Inr c"
  shows "validateConsentObject sha cmp c = None"
proof -
  obtain t h where c: "c = with_hash (consent_payload s g a es ps opts t) h"
    "valid_consent (consent_payload s g a es ps opts t)"
    "computeConsentHash sha cmp (consent_payload s g a es ps opts t) = Inr h" "bo_prior_consent opts \<noteq> Some h"
    using assms(2) unfolding buildConsentObject_Inr by blast
  then show ?thesis using computeConsentHash_sha [OF c(3)] assms(1)
    by (auto simp: validateConsentObject_returns consent_payload_def)
qed

subsection \<open>The hash binds the payload\<close>

lemma opt_member_keys: "fst ` set (opt_member k v) \<subseteq> {k}" "map_of (opt_member k v) k = v"
  "k' \<noteq> k \<Longrightarrow> map_of (opt_member k v) k' = None" "distinct (map fst (opt_member k v))"
  by (auto simp: opt_member_def split: option.splits)

lemma opt_member_cases: "opt_member k v = [] \<and> v = None \<or> (\<exists>j. opt_member k v = [(k, j)] \<and> v = Some j)"
  by (cases v) (auto simp: opt_member_def)

lemma consent_json_keys: "distinct (map fst (consent_json cmp p))"
  by (simp add: consent_json_def opt_member_def split: option.splits)

lemma nullable_norm [simp]: "json_norm (nullable s) = nullable s"
  by (simp add: nullable_def split: option.splits)

lemma nullable_inj [simp]: "nullable s = nullable t \<longleftrightarrow> s = t"
  by (auto simp: nullable_def split: option.splits)

lemma scope_json_norm: "json_norm (scope_json cmp es) = json_norm (scope_json cmp fs) \<Longrightarrow> set es = set fs"
proof -
  assume "json_norm (scope_json cmp es) = json_norm (scope_json cmp fs)"
  then have "map (json_norm \<circ> canonicalizeScopeEntry) (sort_by (scope_compare cmp) es) =
      map (json_norm \<circ> canonicalizeScopeEntry) (sort_by (scope_compare cmp) fs)"
    by (simp add: scope_json_def)
  moreover have "inj (json_norm \<circ> canonicalizeScopeEntry)"
  proof (rule injI)
    fix x y
    assume "(json_norm \<circ> canonicalizeScopeEntry) x = (json_norm \<circ> canonicalizeScopeEntry) y"
    then show "x = y"
      by (cases x; cases y) (auto simp: canonicalizeScopeEntry_def sort_key_def char_code_less split: if_splits)
  qed
  ultimately have "sort_by (scope_compare cmp) es = sort_by (scope_compare cmp) fs"
    by (metis map_injective)
  then show ?thesis by (metis set_sort_by)
qed

lemma permissions_json_norm: "json_norm (permissions_json ps) = json_norm (permissions_json qs) \<Longrightarrow> set ps = set qs"
proof -
  assume "json_norm (permissions_json ps) = json_norm (permissions_json qs)"
  then have "map JStr (sort ps) = map JStr (sort qs)" by (simp add: permissions_json_def comp_def)
  then have "sort ps = sort qs" by (simp add: inj_map_eq_map inj_def)
  then show ?thesis by (metis set_sort)
qed

text \<open>A price without a sign on zero.\<close>

definition unsigned_pricing :: "ConsentPricing \<Rightarrow> ConsentPricing" where
  "unsigned_pricing p = p\<lparr>pr_amount := unsigned_zero (pr_amount p)\<rparr>"

lemma pricing_json_norm:
  "json_norm (pricing_json p) = json_norm (pricing_json q) \<longleftrightarrow> unsigned_pricing p = unsigned_pricing q"
  by (cases p; cases q) (auto simp: pricing_json_def unsigned_pricing_def sort_key_def char_code_less split: if_splits)

lemma member_of_consent:
  "map_of (consent_json cmp p) ''action'' = Some (JStr (c_action p))"
  "map_of (consent_json cmp p) ''subject'' = Some (JStr (c_subject p))"
  "map_of (consent_json cmp p) ''grantee'' = Some (JStr (c_grantee p))"
  "map_of (consent_json cmp p) ''expires_at'' = Some (nullable (c_expires_at p))"
  "map_of (consent_json cmp p) ''issued_at'' = Some (JStr (c_issued_at p))"
  "map_of (consent_json cmp p) ''prior_consent'' = Some (nullable (c_prior_consent p))"
  "map_of (consent_json cmp p) ''version'' = Some (JStr (c_version p))"
  "map_of (consent_json cmp p) ''scope'' = Some (scope_json cmp (c_scope p))"
  "map_of (consent_json cmp p) ''permissions'' = Some (permissions_json (c_permissions p))"
  "map_of (consent_json cmp p) ''marketMakerId'' = map_option JStr (c_marketMakerId p)"
  "map_of (consent_json cmp p) ''pricing'' = map_option pricing_json (c_pricing p)"
  "map_of (consent_json cmp p) ''revoke_target'' =
     map_option (\<lambda>h. JObj [(''capability_hash'', JStr h)]) (c_revoke_target p)"
  by (simp_all add: consent_json_def opt_member_def split: option.splits)

definition payload_nums :: "'a ConsentPayload_scheme \<Rightarrow> bool" where
  "payload_nums p \<longleftrightarrow> (\<forall>q. c_pricing p = Some q \<longrightarrow> canonical_num (pr_amount q))"

lemma consent_json_nums: "payload_nums p \<Longrightarrow> json_nums (JObj (consent_json cmp p))"
  by (auto simp: consent_json_def opt_member_def nullable_def scope_json_def permissions_json_def pricing_json_def
      canonicalizeScopeEntry_def payload_nums_def list_all_iff split: option.splits)

text \<open>Everything a consent says, the order of its scope and of its permissions and the sign of a zero price apart.\<close>

definition same_terms :: "'a ConsentPayload_scheme \<Rightarrow> 'b ConsentPayload_scheme \<Rightarrow> bool" where
  "same_terms p q \<longleftrightarrow> c_version p = c_version q \<and> c_subject p = c_subject q \<and> c_grantee p = c_grantee q \<and>
     c_action p = c_action q \<and> set (c_scope p) = set (c_scope q) \<and> set (c_permissions p) = set (c_permissions q) \<and>
     map_option unsigned_pricing (c_pricing p) = map_option unsigned_pricing (c_pricing q) \<and> c_marketMakerId p = c_marketMakerId q \<and> c_revoke_target p = c_revoke_target q \<and>
     c_issued_at p = c_issued_at q \<and> c_expires_at p = c_expires_at q \<and> c_prior_consent p = c_prior_consent q"

lemma map_option_json_inj:
  "map_option json_norm (map_option f a) = map_option json_norm (map_option f b) \<Longrightarrow>
     (\<And>x y. json_norm (f x) = json_norm (f y) \<Longrightarrow> x = y) \<Longrightarrow> a = b"
  by (cases a; cases b) auto

lemma consent_json_same_terms:
  assumes "json_norm (JObj (consent_json cmp p)) = json_norm (JObj (consent_json cmp q))"
  shows "same_terms p q"
proof -
  have f: "map_option json_norm (map_of (consent_json cmp p) k) = map_option json_norm (map_of (consent_json cmp q) k)" for k
    by (rule json_norm_field [OF assms consent_json_keys consent_json_keys])
  note m = member_of_consent
  have "c_marketMakerId p = c_marketMakerId q"
    using f [of "''marketMakerId''"] unfolding m by (rule map_option_json_inj) simp
  moreover have "map_option unsigned_pricing (c_pricing p) = map_option unsigned_pricing (c_pricing q)"
    using f [of "''pricing''"] unfolding m by (cases "c_pricing p"; cases "c_pricing q") (simp_all add: pricing_json_norm)
  moreover have "c_revoke_target p = c_revoke_target q"
    using f [of "''revoke_target''"] unfolding m by (rule map_option_json_inj) (simp add: sort_key_def)
  moreover have "set (c_scope p) = set (c_scope q)"
    using f [of "''scope''"] unfolding m option.map option.inject by (rule scope_json_norm)
  moreover have "set (c_permissions p) = set (c_permissions q)"
    using f [of "''permissions''"] unfolding m option.map option.inject by (rule permissions_json_norm)
  moreover have "c_version p = c_version q" using f [of "''version''"] unfolding m by simp
  moreover have "c_subject p = c_subject q" using f [of "''subject''"] unfolding m by simp
  moreover have "c_grantee p = c_grantee q" using f [of "''grantee''"] unfolding m by simp
  moreover have "c_action p = c_action q" using f [of "''action''"] unfolding m by simp
  moreover have "c_issued_at p = c_issued_at q" using f [of "''issued_at''"] unfolding m by simp
  moreover have "c_expires_at p = c_expires_at q" using f [of "''expires_at''"] unfolding m by simp
  moreover have "c_prior_consent p = c_prior_consent q" using f [of "''prior_consent''"] unfolding m by simp
  ultimately show ?thesis unfolding same_terms_def by (intro conjI)
qed

text \<open>Consents that say something else are hashed over different bytes.\<close>

lemma consent_hash_binds:
  assumes "computeConsentHash sha cmp p = Inr h" "computeConsentHash sha cmp q = Inr k" "payload_nums p" "payload_nums q"
  shows "\<exists>s t. canonicalizeConsentPayload cmp p = Inr s \<and> canonicalizeConsentPayload cmp q = Inr t \<and> h = sha s \<and> k = sha t \<and>
    (s = t \<longrightarrow> same_terms p q)"
proof -
  obtain s t where s: "canonicalizeJSON (JObj (consent_json cmp p)) = Inr s" "h = sha (utf8_encode s)"
    and t: "canonicalizeJSON (JObj (consent_json cmp q)) = Inr t" "k = sha (utf8_encode t)"
    using assms(1,2) by (auto simp: computeConsentHash_def canonicalizeConsentPayload_def canonical_bytes_def
        simp del: canonicalizeJSON.simps)
  have "same_terms p q" if "utf8_encode s = utf8_encode t"
  proof -
    have "s = t" using that by (simp add: utf8_encode_inj)
    then show ?thesis
      using canonicalizeJSON_inj [OF s(1) _ consent_json_nums consent_json_nums] t(1) assms(3,4) consent_json_same_terms by blast
  qed
  then show ?thesis
    using s t by (intro exI [of _ "utf8_encode s"] exI [of _ "utf8_encode t"])
      (simp add: canonicalizeConsentPayload_def canonical_bytes_def del: canonicalizeJSON.simps)
qed

end
