(* ===== verification/Registries.thy ===== *)
theory Registries
  imports JsText JsDate "HOL-Library.AList"
begin

text \<open>
  \<open>capability/registries/\<close> and \<open>capability/revocation.ts\<close>: the interfaces \<open>NonceRegistry\<close> and
  \<open>RevocationRegistry\<close>, their in-memory implementations, and the module that picks a registry.

  A registry is an object behind an interface: the record \<open>registry_ops\<close> holds the methods,
  \<open>'n\<close> and \<open>'r\<close> the states.  The expression \<open>registries?.x ?? default\<close> is a \<open>slot\<close>: the registry
  of the caller, when there is one, and the module's own.
\<close>

record ('n, 'r) registry_ops =
  hasSeen :: "'n \<Rightarrow> string \<Rightarrow> js_date \<Rightarrow> bool"
  markSeen :: "'n \<Rightarrow> string \<Rightarrow> string \<Rightarrow> 'n"
  cleanup :: "('n \<Rightarrow> js_date \<Rightarrow> 'n) option"
  isRevoked_in :: "'r \<Rightarrow> string \<Rightarrow> bool"
  revoke_in :: "'r \<Rightarrow> string \<Rightarrow> 'r"

record 'a slot =
  supplied :: "'a option"
  module_default :: 'a

definition in_use :: "'a slot \<Rightarrow> 'a" where
  "in_use s = (case supplied s of Some r \<Rightarrow> r | None \<Rightarrow> module_default s)"

definition put_in_use :: "'a slot \<Rightarrow> 'a \<Rightarrow> 'a slot" where
  "put_in_use s r =
     (case supplied s of Some _ \<Rightarrow> s\<lparr>supplied := Some r\<rparr> | None \<Rightarrow> s\<lparr>module_default := r\<rparr>)"

lemma in_use_put [simp]: "in_use (put_in_use s r) = r"
  by (cases "supplied s") (simp_all add: in_use_def put_in_use_def)

lemma put_in_use_put [simp]: "put_in_use (put_in_use s r) r' = put_in_use s r'"
  by (cases "supplied s") (simp_all add: put_in_use_def)

record ('n, 'r) registries =
  nonces :: "'n slot"
  revocations :: "'r slot"

subsection \<open>The in-memory registries\<close>

definition mem_hasSeen :: "string set \<Rightarrow> string \<Rightarrow> js_date \<Rightarrow> bool" where
  "mem_hasSeen seen tokenId now \<longleftrightarrow> tokenId \<in> seen"

definition mem_markSeen :: "string set \<Rightarrow> string \<Rightarrow> string \<Rightarrow> string set" where
  "mem_markSeen seen tokenId expiresAt = insert tokenId seen"

definition mem_cleanup :: "string set \<Rightarrow> js_date \<Rightarrow> string set" where
  "mem_cleanup seen now = seen"

definition mem_nonce_reset :: "string set \<Rightarrow> string set" where
  "mem_nonce_reset seen = {}"

definition mem_isRevoked :: "string set \<Rightarrow> string \<Rightarrow> bool" where
  "mem_isRevoked revoked capabilityHash \<longleftrightarrow> capabilityHash \<in> revoked"

definition mem_revoke :: "string set \<Rightarrow> string \<Rightarrow> string set" where
  "mem_revoke revoked capabilityHash = insert capabilityHash revoked"

definition mem_revocation_reset :: "string set \<Rightarrow> string set" where
  "mem_revocation_reset revoked = {}"

definition mem_ops :: "(string set, string set) registry_ops" where
  "mem_ops = \<lparr>hasSeen = mem_hasSeen, markSeen = mem_markSeen, cleanup = Some mem_cleanup,
              isRevoked_in = mem_isRevoked, revoke_in = mem_revoke\<rparr>"

text \<open>The module's state before any call, and with registries given by the caller.\<close>

definition default_registries :: "(string set, string set) registries" where
  "default_registries = \<lparr>nonces = \<lparr>supplied = None, module_default = {}\<rparr>,
                         revocations = \<lparr>supplied = None, module_default = {}\<rparr>\<rparr>"

subsection \<open>\<open>revocation.ts\<close>\<close>

definition validateCapabilityHash :: "string \<Rightarrow> checked" where
  "validateCapabilityHash h =
     throw_if (\<not> HASH_HEX_PATTERN h)
       ''Revocation target must be a valid capability_hash (64 lowercase hex characters).''"

definition revokeCapabilityToken ::
  "('n, 'r) registry_ops \<Rightarrow> ('n, 'r) registries \<Rightarrow> string \<Rightarrow> ('n, 'r) registries throws" where
  "revokeCapabilityToken ops regs h =
     and_return (validateCapabilityHash h)
       (regs\<lparr>revocations := put_in_use (revocations regs) (revoke_in ops (in_use (revocations regs)) h)\<rparr>)"

definition isRevoked :: "('n, 'r) registry_ops \<Rightarrow> ('n, 'r) registries \<Rightarrow> string \<Rightarrow> bool" where
  "isRevoked ops regs h = isRevoked_in ops (in_use (revocations regs)) h"

definition resetRevocationRegistry :: "(string set, string set) registries \<Rightarrow> (string set, string set) registries" where
  "resetRevocationRegistry regs =
     regs\<lparr>revocations := (revocations regs)\<lparr>module_default := mem_revocation_reset (module_default (revocations regs))\<rparr>\<rparr>"

text \<open>Presenting a token identifier: \<open>hasSeen\<close> before, \<open>markSeen\<close> and \<open>cleanup\<close> after.\<close>

definition nonce_seen :: "('n, 'r) registry_ops \<Rightarrow> ('n, 'r) registries \<Rightarrow> string \<Rightarrow> js_date \<Rightarrow> bool" where
  "nonce_seen ops regs tokenId now = hasSeen ops (in_use (nonces regs)) tokenId now"

definition nonce_mark ::
  "('n, 'r) registry_ops \<Rightarrow> ('n, 'r) registries \<Rightarrow> string \<Rightarrow> string \<Rightarrow> js_date \<Rightarrow> ('n, 'r) registries" where
  "nonce_mark ops regs tokenId expiresAt now =
     (let n = markSeen ops (in_use (nonces regs)) tokenId expiresAt;
          n' = (case cleanup ops of None \<Rightarrow> n | Some f \<Rightarrow> f n now)
      in regs\<lparr>nonces := put_in_use (nonces regs) n'\<rparr>)"

subsection \<open>The contracts\<close>

text \<open>
  A nonce registry remembers: a token identifier that was marked stays seen through later
  marks and clean-ups.  A revocation registry never forgets a revocation.
\<close>

locale nonce_registry =
  fixes seen :: "'n \<Rightarrow> string \<Rightarrow> js_date \<Rightarrow> bool"
    and mark :: "'n \<Rightarrow> string \<Rightarrow> string \<Rightarrow> 'n"
    and tidy :: "'n \<Rightarrow> js_date \<Rightarrow> 'n"
  assumes seen_mark: "seen (mark n t e) t now"
    and seen_keeps: "seen n t now \<Longrightarrow> seen (mark n u e) t now'"
    and seen_always: "seen n t now \<Longrightarrow> seen n t now'"
    and seen_tidy: "seen n t now \<Longrightarrow> seen (tidy n now') t now''"
begin

fun presents :: "'n \<Rightarrow> (string \<times> string \<times> js_date) list \<Rightarrow> 'n" where
  "presents n [] = n"
| "presents n ((t, e, now) # ps) = presents (if seen n t now then n else tidy (mark n t e) now) ps"

lemma presents_keep: "seen n t now \<Longrightarrow> seen (presents n ps) t now"
proof (induction n ps arbitrary: now rule: presents.induct)
  case (2 n u e d ps)
  have "seen (if seen n u d then n else tidy (mark n u e) d) t now"
    using "2.prems" by (auto intro: seen_tidy [OF seen_keeps])
  from "2.IH" [OF this] show ?case by simp
qed simp

lemma presents_seen: "(t, e, d) \<in> set ps \<Longrightarrow> \<exists>now. seen (presents n ps) t now"
proof (induction n ps rule: presents.induct)
  case (2 n u f now ps)
  show ?case
  proof (cases "(t, e, d) = (u, f, now)")
    case True
    have "seen (if seen n u now then n else tidy (mark n u f) now) t now"
      using True by (auto intro: seen_tidy [OF seen_mark])
    from presents_keep [OF this] show ?thesis unfolding presents.simps by blast
  qed (use 2 in auto)
qed simp

end

interpretation mem_nonce: nonce_registry mem_hasSeen mem_markSeen mem_cleanup
  by unfold_locales (auto simp: mem_hasSeen_def mem_markSeen_def mem_cleanup_def)

locale revocation_registry =
  fixes rev :: "'r \<Rightarrow> string \<Rightarrow> bool" and rvk :: "'r \<Rightarrow> string \<Rightarrow> 'r"
  assumes rev_rvk: "rev (rvk r h) k \<longleftrightarrow> k = h \<or> rev r k"
begin

lemma rvk_all: "rev (foldl rvk r hs) k \<longleftrightarrow> k \<in> set hs \<or> rev r k"
  by (induction hs arbitrary: r) (auto simp: rev_rvk)

end

interpretation mem_rev: revocation_registry mem_isRevoked mem_revoke
  by unfold_locales (auto simp: mem_isRevoked_def mem_revoke_def)

text \<open>Both contracts for the operations of a record; a missing \<open>cleanup\<close> changes nothing.\<close>

definition tidy_of :: "('n, 'r) registry_ops \<Rightarrow> 'n \<Rightarrow> js_date \<Rightarrow> 'n" where
  "tidy_of ops n now = (case cleanup ops of None \<Rightarrow> n | Some f \<Rightarrow> f n now)"

locale lawful_registries =
  nonce: nonce_registry "hasSeen ops" "markSeen ops" "tidy_of ops" +
  revo: revocation_registry "isRevoked_in ops" "revoke_in ops"
  for ops :: "('n, 'r) registry_ops"
begin

lemma mark_seen: "nonce_seen ops (nonce_mark ops regs t e now) t now'"
  using nonce.seen_tidy [OF nonce.seen_mark]
  by (simp add: nonce_mark_def nonce_seen_def Let_def tidy_of_def [symmetric])

lemma mark_keeps: "nonce_seen ops regs t now \<Longrightarrow> nonce_seen ops (nonce_mark ops regs u e d) t now'"
  using nonce.seen_tidy [OF nonce.seen_keeps]
  by (simp add: nonce_mark_def nonce_seen_def Let_def tidy_of_def [symmetric])

lemma seen_any_time: "nonce_seen ops regs t now \<Longrightarrow> nonce_seen ops regs t now'"
  unfolding nonce_seen_def by (rule nonce.seen_always)

lemma mark_revoked [simp]: "isRevoked ops (nonce_mark ops regs t e now) h = isRevoked ops regs h"
  by (simp add: nonce_mark_def isRevoked_def Let_def)

lemma revoke_revoked:
  "revokeCapabilityToken ops regs h = Inr regs' \<Longrightarrow> isRevoked ops regs' k \<longleftrightarrow> k = h \<or> isRevoked ops regs k"
  by (auto simp: revokeCapabilityToken_def isRevoked_def revo.rev_rvk)

lemma revoke_seen:
  "revokeCapabilityToken ops regs h = Inr regs' \<Longrightarrow> nonce_seen ops regs' t now = nonce_seen ops regs t now"
  by (auto simp: revokeCapabilityToken_def nonce_seen_def)

end

lemma mem_ops_simps [simp]:
  "hasSeen mem_ops = mem_hasSeen" "markSeen mem_ops = mem_markSeen" "tidy_of mem_ops = mem_cleanup"
  "isRevoked_in mem_ops = mem_isRevoked" "revoke_in mem_ops = mem_revoke"
  by (simp_all add: mem_ops_def tidy_of_def fun_eq_iff)

interpretation mem: lawful_registries mem_ops
  by (simp add: lawful_registries_def mem_nonce.nonce_registry_axioms mem_rev.revocation_registry_axioms)

end
