(* ===== verification/Sem.thy ===== *)
theory Sem
  imports JsText
begin

text \<open>
  Protocol results of \<open>enforcement/sem.ts\<close>: the ALLOW and DENY decisions, the
  classification of a thrown capability error by its message, and the enforcement
  steps that look at presence, scope keys and storage hashes.  The step that redeems a
  capability token is with the capability layer, which it calls.
\<close>

datatype sem_verdict = ALLOW | DENY

record SemErrorObject =
  err_code :: string
  err_message :: string
  err_path :: "string option"

record SemResult =
  sem_decision :: sem_verdict
  sem_reason_codes :: "string list"
  sem_error :: "SemErrorObject option"

definition sem_allow :: SemResult where
  "sem_allow = \<lparr>sem_decision = ALLOW, sem_reason_codes = [], sem_error = None\<rparr>"

definition sem_deny :: "string \<Rightarrow> string \<Rightarrow> string option \<Rightarrow> SemResult" where
  "sem_deny code msg p =
     \<lparr>sem_decision = DENY, sem_reason_codes = [code],
      sem_error = Some \<lparr>err_code = code, err_message = msg, err_path = p\<rparr>\<rparr>"

definition classifyCapabilityError :: "string \<Rightarrow> string" where
  "classifyCapabilityError msg =
     (if str_includes msg ''expired'' then ''EXPIRED''
      else if str_includes msg ''replay'' then ''REPLAY''
      else if str_includes msg ''revoked'' then ''REVOKED''
      else if str_includes msg ''Scope escalation'' \<or> str_includes msg ''Permission escalation''
      then ''SCOPE_ESCALATION''
      else ''INVALID_CAPABILITY'')"

definition enforceConsentPresent :: "'consent option \<Rightarrow> SemResult" where
  "enforceConsentPresent consent =
     (if consent = None
      then sem_deny ''INVALID_CAPABILITY'' ''Parent consent not found for capability token.'' None
      else sem_allow)"

definition enforcePackPresent :: "bool \<Rightarrow> string \<Rightarrow> SemResult" where
  "enforcePackPresent packFound packRef =
     (if \<not> packFound then sem_deny ''PACK_NOT_FOUND'' (''Pack not found: '' @ packRef) None
      else sem_allow)"

definition enforceResolverField :: "string \<Rightarrow> 'manifest option \<Rightarrow> SemResult" where
  "enforceResolverField p manifest =
     (if manifest = None
      then sem_deny ''FIELD_NOT_FOUND'' (''No field manifest found for SDL path \"'' @ p @ ''\".'') (Some p)
      else sem_allow)"

definition enforcePathAccess :: "string set \<Rightarrow> string \<Rightarrow> string \<Rightarrow> SemResult" where
  "enforcePathAccess scopeKeys packRef contentId =
     (let packCovered = (''pack:'' @ packRef \<in> scopeKeys);
          contentCovered = (''content:'' @ contentId \<in> scopeKeys)
      in if \<not> packCovered \<and> \<not> contentCovered
         then sem_deny ''SCOPE_ESCALATION''
                (''Requested content \"'' @ contentId @ ''\" is outside capability scope for pack \"'' @
                 packRef @ ''\".'') None
         else sem_allow)"

definition enforceStorageIntegrity ::
  "(string \<Rightarrow> string) \<Rightarrow> string \<Rightarrow> string \<Rightarrow> string \<Rightarrow> SemResult" where
  "enforceStorageIntegrity sha256Hex uri hash bytes =
     (if sha256Hex bytes \<noteq> hash
      then sem_deny ''INTEGRITY_HASH_MISMATCH'' (''Storage hash mismatch for '' @ uri) None
      else sem_allow)"

lemma sem_deny_decision [simp]: "sem_decision (sem_deny c m p) = DENY" "sem_decision sem_allow = ALLOW"
  "sem_reason_codes (sem_deny c m p) = [c]" "sem_reason_codes sem_allow = []"
  by (simp_all add: sem_deny_def sem_allow_def)

lemma sem_deny_not_allow [simp]: "sem_deny c m p \<noteq> sem_allow" "sem_allow \<noteq> sem_deny c m p"
  by (simp_all add: sem_deny_def sem_allow_def)

lemma enforcePathAccess_allow:
  "enforcePathAccess keys p c = sem_allow \<longleftrightarrow> ''pack:'' @ p \<in> keys \<or> ''content:'' @ c \<in> keys"
  by (simp add: enforcePathAccess_def)

lemma enforceStorageIntegrity_allow:
  "sem_decision (enforceStorageIntegrity sha u h b) = DENY \<longleftrightarrow> sha b \<noteq> h"
  by (simp add: enforceStorageIntegrity_def)

lemma str_includes_refl: "str_includes (a @ p @ b) p"
  using str_includes_append by blast

end
