(* ===== verification/Capability.thy ===== *)
theory Capability
  imports Consent Registries Sem
begin

text \<open>
  \<open>capability/\<close>: capability tokens, their canonical payload and identifier, minting from a
  consent, structural validation, and verification against the parent consent with the
  nonce and revocation registries.  The 32 random bytes of \<open>generateTokenId\<close>, in hexadecimal,
  are an argument of \<open>mintCapabilityToken\<close>.
\<close>

record CapabilityPayload =
  t_version :: string
  t_subject :: string
  t_grantee :: string
  t_consent_ref :: string
  t_scope :: "ScopeEntry list"
  t_permissions :: "string list"
  t_marketMakerId :: "string option"
  t_issued_at :: string
  t_not_before :: "string option"
  t_expires_at :: string
  t_token_id :: string

record CapabilityToken = CapabilityPayload +
  t_capability_hash :: string

definition capability_json :: "(string \<Rightarrow> string \<Rightarrow> int) \<Rightarrow> 'a CapabilityPayload_scheme \<Rightarrow> (string \<times> js) list" where
  "capability_json localeCompare p =
     [(''consent_ref'', JStr (t_consent_ref p)), (''expires_at'', JStr (t_expires_at p)),
      (''grantee'', JStr (t_grantee p)), (''issued_at'', JStr (t_issued_at p))] @
     opt_member ''marketMakerId'' (map_option JStr (t_marketMakerId p)) @
     [(''not_before'', nullable (t_not_before p)), (''permissions'', permissions_json (t_permissions p)),
      (''scope'', scope_json localeCompare (t_scope p)), (''subject'', JStr (t_subject p)),
      (''token_id'', JStr (t_token_id p)), (''version'', JStr (t_version p))]"

definition canonicalizeCapabilityPayload ::
  "(string \<Rightarrow> string \<Rightarrow> int) \<Rightarrow> 'a CapabilityPayload_scheme \<Rightarrow> string throws" where
  "canonicalizeCapabilityPayload localeCompare p = canonical_bytes (JObj (capability_json localeCompare p))"

definition computeCapabilityHash ::
  "(string \<Rightarrow> string) \<Rightarrow> (string \<Rightarrow> string \<Rightarrow> int) \<Rightarrow> 'a CapabilityPayload_scheme \<Rightarrow> string throws" where
  "computeCapabilityHash sha256Hex localeCompare p =
     bind_throws (canonicalizeCapabilityPayload localeCompare p) (\<lambda>bytes. Inr (sha256Hex bytes))"

definition buildCapabilityId :: "CapabilityToken \<Rightarrow> string throws" where
  "buildCapabilityId t =
     and_return
       (first_throw
         [throw_if (\<not> VERSION_PATTERN (t_version t)) ''Capability version must match pattern MAJOR.MINOR (e.g., \"1.0\").'',
          throw_if (\<not> HASH_HEX_PATTERN (t_capability_hash t)) ''Capability hash must be 64 lowercase hex characters.''])
       (let ws = split_on CHR ''.'' (t_version t) in
        ''aoc://capability/v'' @ ws ! 0 @ ''/'' @ ws ! 1 @ ''/0x'' @ t_capability_hash t)"

subsection \<open>Checks\<close>

definition cap_validateConsentRef :: "string \<Rightarrow> checked" where
  "cap_validateConsentRef h =
     throw_if (\<not> HASH_HEX_PATTERN h) ''Capability consent_ref must be 64 lowercase hex characters.''"

definition cap_validateTimestamp :: "string \<Rightarrow> string \<Rightarrow> checked" where
  "cap_validateTimestamp s fieldName =
     throw_if (\<not> ISO8601_UTC_PATTERN s)
       (''Capability '' @ fieldName @ '' must be ISO 8601 UTC format (e.g., \"2025-06-15T10:00:00Z\").'')"

definition cap_validateTokenId :: "string \<Rightarrow> checked" where
  "cap_validateTokenId h =
     throw_if (\<not> HASH_HEX_PATTERN h) ''Capability token_id must be 64 lowercase hex characters.''"

definition assertScopeContainment :: "ScopeEntry list \<Rightarrow> ScopeEntry list \<Rightarrow> checked" where
  "assertScopeContainment tokenScope consentScope =
     (let allowed = scopeKey ` set consentScope in
      check_each (\<lambda>i e. throw_if (scopeKey e \<notin> allowed)
        (''Scope escalation: token scope entry ('' @ se_type e @ '', '' @ se_ref e @
         '') not found in parent consent scope.'')) 0 tokenScope)"

definition assertPermissionContainment :: "string list \<Rightarrow> string list \<Rightarrow> checked" where
  "assertPermissionContainment tokenPermissions consentPermissions =
     check_each (\<lambda>i p. throw_if (p \<notin> set consentPermissions)
       (''Permission escalation: token permission \"'' @ p @ ''\" not found in parent consent permissions.''))
       0 tokenPermissions"

definition not_before_check :: "string option \<Rightarrow> string \<Rightarrow> string \<Rightarrow> checked" where
  "not_before_check not_before issued_at expires_at =
     (case not_before of
        None \<Rightarrow> returns
      | Some n \<Rightarrow> first_throw
          [throw_if (n < issued_at) ''Capability not_before must be at or after issued_at.'',
           throw_if (n \<ge> expires_at) ''Capability not_before must be before expires_at.''])"

definition opt_timestamp :: "string option \<Rightarrow> checked" where
  "opt_timestamp not_before =
     (case not_before of None \<Rightarrow> returns | Some n \<Rightarrow> cap_validateTimestamp n ''not_before'')"

text \<open>The structural checks \<open>mintCapabilityToken\<close> and \<open>validateCapabilityToken\<close> start with.\<close>

definition token_structure :: "'a CapabilityPayload_scheme \<Rightarrow> checked" where
  "token_structure t =
     first_throw
       [version_check ''Capability'' (t_version t),
        did_check ''Capability'' (t_subject t) ''subject'',
        did_check ''Capability'' (t_grantee t) ''grantee'',
        cap_validateConsentRef (t_consent_ref t),
        scope_check ''Capability'' (t_scope t),
        permissions_check ''Capability'' (t_permissions t),
        cap_validateTimestamp (t_issued_at t) ''issued_at'',
        cap_validateTimestamp (t_expires_at t) ''expires_at'',
        cap_validateTokenId (t_token_id t)]"

definition token_times :: "'a CapabilityPayload_scheme \<Rightarrow> checked" where
  "token_times t =
     first_throw
       [throw_if (t_expires_at t \<le> t_issued_at t) ''Capability expires_at must be after issued_at.'',
        not_before_check (t_not_before t) (t_issued_at t) (t_expires_at t)]"

text \<open>The bounds a consent puts on the times of a token.\<close>

definition derivation_times :: "'a CapabilityPayload_scheme \<Rightarrow> 'b ConsentPayload_scheme \<Rightarrow> checked" where
  "derivation_times t c =
     first_throw
       [throw_if (t_issued_at t < c_issued_at c)
          ''Capability issued_at must be at or after parent consent issued_at.'',
        throw_if (case c_expires_at c of None \<Rightarrow> False | Some e \<Rightarrow> t_expires_at t > e)
          ''Capability expires_at must not exceed parent consent expires_at.'',
        throw_if (case t_not_before t of None \<Rightarrow> False | Some n \<Rightarrow> n < c_issued_at c)
          ''Capability not_before must be at or after parent consent issued_at.'']"

subsection \<open>Minting\<close>

text \<open>The market maker of a token: the parent's, which a request may repeat but not change or introduce.\<close>

definition mint_market_maker :: "string option \<Rightarrow> string option \<Rightarrow> string option throws" where
  "mint_market_maker parent requested =
     (case parent of
        Some p \<Rightarrow>
          if requested \<noteq> None \<and> requested \<noteq> Some p
          then Inl ''Capability marketMakerId must match parent consent marketMakerId.''
          else Inr (Some p)
      | None \<Rightarrow>
          if requested \<noteq> None
          then Inl ''Capability marketMakerId cannot be introduced when parent consent is unbound.''
          else Inr None)"

definition mint_payload ::
  "ConsentObject \<Rightarrow> ScopeEntry list \<Rightarrow> string list \<Rightarrow> string \<Rightarrow> string option \<Rightarrow> string option \<Rightarrow> string \<Rightarrow> string \<Rightarrow>
   CapabilityPayload" where
  "mint_payload c scope permissions expires_at not_before marketMakerId issued_at token_id =
     \<lparr>t_version = ''1.0'', t_subject = c_subject c, t_grantee = c_grantee c, t_consent_ref = c_consent_hash c,
      t_scope = scope, t_permissions = permissions, t_marketMakerId = marketMakerId,
      t_issued_at = issued_at, t_not_before = not_before, t_expires_at = expires_at, t_token_id = token_id\<rparr>"

definition with_capability_hash :: "CapabilityPayload \<Rightarrow> string \<Rightarrow> CapabilityToken" where
  "with_capability_hash p h = CapabilityPayload.extend p (CapabilityToken.fields h)"

definition mintCapabilityToken ::
  "(string \<Rightarrow> string) \<Rightarrow> (string \<Rightarrow> string \<Rightarrow> int) \<Rightarrow> ConsentObject \<Rightarrow> ScopeEntry list \<Rightarrow> string list \<Rightarrow> string \<Rightarrow>
   string option \<Rightarrow> string option \<Rightarrow> js_date \<Rightarrow> string \<Rightarrow> CapabilityToken throws" where
  "mintCapabilityToken sha256Hex localeCompare c scope permissions expires_at not_before requested now token_id =
     and_then
       (throw_if (c_action c \<noteq> ''grant'') ''Capability token can only be derived from a consent with action \"grant\".'')
       (bind_throws (iso_now now) (\<lambda>issued_at.
        let unbound = mint_payload c scope permissions expires_at not_before None issued_at token_id in
        and_then
          (first_throw
            [token_structure unbound,
             validateMarketMakerId requested ''Capability marketMakerId'',
             validateMarketMakerId (c_marketMakerId c) ''Parent consent marketMakerId'',
             opt_timestamp not_before])
          (bind_throws (mint_market_maker (c_marketMakerId c) requested) (\<lambda>marketMakerId.
           let p = mint_payload c scope permissions expires_at not_before marketMakerId issued_at token_id in
           and_then
             (first_throw
               [token_times p, derivation_times p c,
                assertScopeContainment scope (c_scope c),
                assertPermissionContainment permissions (c_permissions c)])
             (bind_throws (computeCapabilityHash sha256Hex localeCompare p) (\<lambda>capability_hash.
                Inr (with_capability_hash p capability_hash)))))))"

subsection \<open>Validation\<close>

text \<open>\<open>registered\<close> is \<open>marketMakerRegistry.exists\<close>, when a registry is passed.\<close>

definition validateCapabilityToken ::
  "(string \<Rightarrow> string) \<Rightarrow> (string \<Rightarrow> string \<Rightarrow> int) \<Rightarrow> CapabilityToken \<Rightarrow> (string \<Rightarrow> bool) option \<Rightarrow> checked" where
  "validateCapabilityToken sha256Hex localeCompare t registered =
     first_throw
       [token_structure t,
        validateMarketMakerId (t_marketMakerId t) ''Capability marketMakerId'',
        (case (t_marketMakerId t, registered) of
           (Some m, Some f) \<Rightarrow> throw_if (\<not> f m) (''Capability marketMakerId '' @ m @ '' is not registered.'')
         | _ \<Rightarrow> returns),
        opt_timestamp (t_not_before t),
        token_times t,
        throw_if (\<not> HASH_HEX_PATTERN (t_capability_hash t))
          ''Capability capability_hash must be 64 lowercase hex characters.'',
        (case computeCapabilityHash sha256Hex localeCompare t of
           Inl msg \<Rightarrow> throws msg
         | Inr expectedHash \<Rightarrow>
             throw_if (t_capability_hash t \<noteq> expectedHash)
               ''Capability capability_hash does not match canonical payload hash.'')]"

subsection \<open>Verification\<close>

definition token_derivation :: "CapabilityToken \<Rightarrow> ConsentObject \<Rightarrow> checked" where
  "token_derivation t c =
     first_throw
       [throw_if (t_consent_ref t \<noteq> c_consent_hash c)
          ''Capability consent_ref does not match parent consent consent_hash.'',
        throw_if (c_action c \<noteq> ''grant'') ''Parent consent action must be \"grant\".'',
        throw_if (t_subject t \<noteq> c_subject c) ''Capability subject does not match parent consent subject.'',
        throw_if (t_grantee t \<noteq> c_grantee c) ''Capability grantee does not match parent consent grantee.'',
        validateMarketMakerId (c_marketMakerId c) ''Parent consent marketMakerId'',
        throw_if (c_marketMakerId c \<noteq> t_marketMakerId t)
          ''Capability marketMakerId does not match parent consent marketMakerId.'',
        assertScopeContainment (t_scope t) (c_scope c),
        assertPermissionContainment (t_permissions t) (c_permissions c),
        derivation_times t c]"

definition effective_start :: "'a CapabilityPayload_scheme \<Rightarrow> string" where
  "effective_start t = (case t_not_before t of Some n \<Rightarrow> n | None \<Rightarrow> t_issued_at t)"

text \<open>The result is the registries after the call; a call that throws leaves them as they were.\<close>

definition verifyCapabilityToken ::
  "(string \<Rightarrow> string) \<Rightarrow> (string \<Rightarrow> string \<Rightarrow> int) \<Rightarrow> ('n, 'r) registry_ops \<Rightarrow> CapabilityToken \<Rightarrow> ConsentObject \<Rightarrow>
   js_date \<Rightarrow> ('n, 'r) registries \<Rightarrow> ('n, 'r) registries throws" where
  "verifyCapabilityToken sha256Hex localeCompare ops t c now regs =
     and_then
       (first_throw [validateCapabilityToken sha256Hex localeCompare t None, token_derivation t c])
       (bind_throws (iso_now now) (\<lambda>at.
        and_return
          (first_throw
            [throw_if (at > t_expires_at t) ''Capability token has expired.'',
             throw_if (at < effective_start t) ''Capability token is not yet valid (before not_before).'',
             throw_if (isRevoked ops regs (t_capability_hash t)) ''Capability token has been revoked.'',
             throw_if (nonce_seen ops regs (t_token_id t) now)
               ''Capability token_id has already been presented (replay detected).''])
          (nonce_mark ops regs (t_token_id t) (t_expires_at t) now)))"

definition resetNonceRegistry :: "(string set, string set) registries \<Rightarrow> (string set, string set) registries" where
  "resetNonceRegistry regs =
     regs\<lparr>nonces := (nonces regs)\<lparr>module_default := mem_nonce_reset (module_default (nonces regs))\<rparr>\<rparr>"

subsection \<open>What the checks accept\<close>

lemma assertScopeContainment_returns [simp, throws_simps]:
  "assertScopeContainment es fs = None \<longleftrightarrow> scopeKey ` set es \<subseteq> scopeKey ` set fs"
  by (auto simp: assertScopeContainment_def Let_def check_each_indep [where P = "\<lambda>e. scopeKey e \<in> scopeKey ` set fs"])

lemma assertPermissionContainment_returns [simp, throws_simps]:
  "assertPermissionContainment ps qs = None \<longleftrightarrow> set ps \<subseteq> set qs"
  by (auto simp: assertPermissionContainment_def check_each_indep [where P = "\<lambda>p. p \<in> set qs"])

text \<open>The keys of valid entries are those of the same entries.\<close>

lemma scope_keys_valid:
  assumes "\<forall>e \<in> set es. valid_entry e" "\<forall>e \<in> set fs. valid_entry e"
  shows "scopeKey ` set es \<subseteq> scopeKey ` set fs \<longleftrightarrow> set es \<subseteq> set fs"
proof
  assume sub: "scopeKey ` set es \<subseteq> scopeKey ` set fs"
  show "set es \<subseteq> set fs"
  proof
    fix e assume e: "e \<in> set es"
    then obtain f where "f \<in> set fs" "scopeKey e = scopeKey f" using sub by blast
    with e assms show "e \<in> set fs" using scopeKey_inj by metis
  qed
qed blast

definition valid_times :: "'a CapabilityPayload_scheme \<Rightarrow> bool" where
  "valid_times t \<longleftrightarrow> t_issued_at t < t_expires_at t \<and>
     (\<forall>n. t_not_before t = Some n \<longrightarrow> t_issued_at t \<le> n \<and> n < t_expires_at t)"

definition valid_token :: "'a CapabilityPayload_scheme \<Rightarrow> bool" where
  "valid_token t \<longleftrightarrow> VERSION_PATTERN (t_version t) \<and> valid_did (t_subject t) \<and> valid_did (t_grantee t) \<and>
     HASH_HEX_PATTERN (t_consent_ref t) \<and> valid_scope (t_scope t) \<and> valid_permissions (t_permissions t) \<and>
     ISO8601_UTC_PATTERN (t_issued_at t) \<and> ISO8601_UTC_PATTERN (t_expires_at t) \<and> HASH_HEX_PATTERN (t_token_id t) \<and>
     (\<forall>n. t_not_before t = Some n \<longrightarrow> ISO8601_UTC_PATTERN n) \<and>
     (\<forall>m. t_marketMakerId t = Some m \<longrightarrow> MARKET_MAKER_ID_PATTERN m) \<and> valid_times t"

lemma token_structure_returns [throws_simps]:
  "token_structure t = None \<longleftrightarrow> VERSION_PATTERN (t_version t) \<and> valid_did (t_subject t) \<and> valid_did (t_grantee t) \<and>
     HASH_HEX_PATTERN (t_consent_ref t) \<and> valid_scope (t_scope t) \<and> valid_permissions (t_permissions t) \<and>
     ISO8601_UTC_PATTERN (t_issued_at t) \<and> ISO8601_UTC_PATTERN (t_expires_at t) \<and> HASH_HEX_PATTERN (t_token_id t)"
  by (simp add: token_structure_def cap_validateConsentRef_def cap_validateTimestamp_def cap_validateTokenId_def)

lemma token_times_returns [throws_simps]: "token_times t = None \<longleftrightarrow> valid_times t"
  by (auto simp: token_times_def not_before_check_def valid_times_def split: option.splits)

lemma opt_timestamp_returns [throws_simps]:
  "opt_timestamp n = None \<longleftrightarrow> (\<forall>x. n = Some x \<longrightarrow> ISO8601_UTC_PATTERN x)"
  by (auto simp: opt_timestamp_def cap_validateTimestamp_def split: option.splits)

definition times_within :: "'a CapabilityPayload_scheme \<Rightarrow> 'b ConsentPayload_scheme \<Rightarrow> bool" where
  "times_within t c \<longleftrightarrow> c_issued_at c \<le> t_issued_at t \<and> (\<forall>e. c_expires_at c = Some e \<longrightarrow> t_expires_at t \<le> e) \<and>
     (\<forall>n. t_not_before t = Some n \<longrightarrow> c_issued_at c \<le> n)"

lemma derivation_times_returns [throws_simps]: "derivation_times t c = None \<longleftrightarrow> times_within t c"
  by (auto simp: derivation_times_def times_within_def split: option.splits)

lemma validateCapabilityToken_returns:
  "validateCapabilityToken sha cmp t registered = None \<longleftrightarrow>
     valid_token t \<and> HASH_HEX_PATTERN (t_capability_hash t) \<and>
     computeCapabilityHash sha cmp t = Inr (t_capability_hash t) \<and>
     (\<forall>m f. t_marketMakerId t = Some m \<longrightarrow> registered = Some f \<longrightarrow> f m)"
  by (auto simp: validateCapabilityToken_def valid_token_def throws_simps split: sum.splits option.splits)

text \<open>A token derived from a consent: bound to it, and no wider in scope, permissions or time.\<close>

definition derived_from :: "CapabilityToken \<Rightarrow> ConsentObject \<Rightarrow> bool" where
  "derived_from t c \<longleftrightarrow> t_consent_ref t = c_consent_hash c \<and> c_action c = ''grant'' \<and> t_subject t = c_subject c \<and>
     t_grantee t = c_grantee c \<and> t_marketMakerId t = c_marketMakerId c \<and>
     scopeKey ` set (t_scope t) \<subseteq> scopeKey ` set (c_scope c) \<and> set (t_permissions t) \<subseteq> set (c_permissions c) \<and>
     times_within t c"

lemma token_derivation_returns:
  "valid_token t \<Longrightarrow> token_derivation t c = None \<longleftrightarrow> derived_from t c"
  by (auto simp: token_derivation_def derived_from_def valid_token_def throws_simps)

text \<open>The whole condition under which a token is accepted, at the text \<open>at\<close> of the clock.\<close>

definition acceptable ::
  "(string \<Rightarrow> string) \<Rightarrow> (string \<Rightarrow> string \<Rightarrow> int) \<Rightarrow> ('n, 'r) registry_ops \<Rightarrow> CapabilityToken \<Rightarrow> ConsentObject \<Rightarrow>
   string \<Rightarrow> js_date \<Rightarrow> ('n, 'r) registries \<Rightarrow> bool" where
  "acceptable sha cmp ops t c at now regs \<longleftrightarrow>
     valid_token t \<and> HASH_HEX_PATTERN (t_capability_hash t) \<and>
     computeCapabilityHash sha cmp t = Inr (t_capability_hash t) \<and> derived_from t c \<and>
     at \<le> t_expires_at t \<and> effective_start t \<le> at \<and>
     \<not> isRevoked ops regs (t_capability_hash t) \<and> \<not> nonce_seen ops regs (t_token_id t) now"

lemma verifyCapabilityToken_Inr:
  "verifyCapabilityToken sha cmp ops t c now regs = Inr regs' \<longleftrightarrow>
     (\<exists>at. iso_now now = Inr at \<and> acceptable sha cmp ops t c at now regs) \<and>
     regs' = nonce_mark ops regs (t_token_id t) (t_expires_at t) now"
  by (auto simp: verifyCapabilityToken_def acceptable_def validateCapabilityToken_returns
      token_derivation_returns not_less)

subsection \<open>Minting attenuates, and what is minted verifies\<close>

lemma mint_market_maker_Inr [throws_simps]:
  "mint_market_maker p r = Inr m \<longleftrightarrow> m = p \<and> (r = None \<or> r = p)"
  by (auto simp: mint_market_maker_def split: option.splits if_splits)

lemma with_capability_hash_simps [simp]:
  "t_capability_hash (with_capability_hash p h) = h"
  "t_version (with_capability_hash p h) = t_version p" "t_subject (with_capability_hash p h) = t_subject p"
  "t_grantee (with_capability_hash p h) = t_grantee p" "t_consent_ref (with_capability_hash p h) = t_consent_ref p"
  "t_scope (with_capability_hash p h) = t_scope p" "t_permissions (with_capability_hash p h) = t_permissions p"
  "t_marketMakerId (with_capability_hash p h) = t_marketMakerId p" "t_issued_at (with_capability_hash p h) = t_issued_at p"
  "t_not_before (with_capability_hash p h) = t_not_before p" "t_expires_at (with_capability_hash p h) = t_expires_at p"
  "t_token_id (with_capability_hash p h) = t_token_id p"
  by (cases p; simp add: with_capability_hash_def CapabilityPayload.defs CapabilityToken.defs)+

lemma with_capability_hash_token [simp]:
  "capability_json cmp (with_capability_hash p h) = capability_json cmp p"
  "computeCapabilityHash sha cmp (with_capability_hash p h) = computeCapabilityHash sha cmp p"
  "valid_token (with_capability_hash p h) = valid_token p"
  "times_within (with_capability_hash p h) c = times_within p c"
  "effective_start (with_capability_hash p h) = effective_start p"
  by (simp_all add: capability_json_def computeCapabilityHash_def canonicalizeCapabilityPayload_def
      valid_token_def valid_times_def times_within_def effective_start_def split: option.splits)

lemma mint_payload_simps [simp]:
  "t_version (mint_payload c es ps e n m i tid) = ''1.0''" "t_subject (mint_payload c es ps e n m i tid) = c_subject c"
  "t_grantee (mint_payload c es ps e n m i tid) = c_grantee c"
  "t_consent_ref (mint_payload c es ps e n m i tid) = c_consent_hash c"
  "t_scope (mint_payload c es ps e n m i tid) = es" "t_permissions (mint_payload c es ps e n m i tid) = ps"
  "t_marketMakerId (mint_payload c es ps e n m i tid) = m" "t_issued_at (mint_payload c es ps e n m i tid) = i"
  "t_not_before (mint_payload c es ps e n m i tid) = n" "t_expires_at (mint_payload c es ps e n m i tid) = e"
  "t_token_id (mint_payload c es ps e n m i tid) = tid"
  by (simp_all add: mint_payload_def)

lemma valid_token_checks:
  "valid_token t \<longleftrightarrow> token_structure t = None \<and> validateMarketMakerId (t_marketMakerId t) lbl = None \<and>
     opt_timestamp (t_not_before t) = None \<and> token_times t = None"
  unfolding valid_token_def token_structure_returns opt_timestamp_returns token_times_returns
    validateMarketMakerId_returns by blast

lemma mintCapabilityToken_Inr:
  "mintCapabilityToken sha cmp c es ps e n req now tid = Inr t \<longleftrightarrow>
     (\<exists>i h. iso_now now = Inr i \<and>
       t = with_capability_hash (mint_payload c es ps e n (c_marketMakerId c) i tid) h \<and>
       computeCapabilityHash sha cmp (mint_payload c es ps e n (c_marketMakerId c) i tid) = Inr h \<and>
       valid_token (mint_payload c es ps e n (c_marketMakerId c) i tid) \<and>
       (req = None \<or> req = c_marketMakerId c) \<and> derived_from t c)"
proof -
  let ?p = "\<lambda>m i. mint_payload c es ps e n m i tid"
  have str: "token_structure (?p None i) = token_structure (?p m i)" for i m
    by (simp add: token_structure_def)
  have valid: "valid_token (?p m i) \<longleftrightarrow> token_structure (?p m i) = None \<and> validateMarketMakerId m l = None \<and>
      opt_timestamp n = None \<and> token_times (?p m i) = None" for m i l
    using valid_token_checks [of "?p m i" l] by simp
  have derived: "derived_from (with_capability_hash (?p m i) h) c \<longleftrightarrow> c_action c = ''grant'' \<and> m = c_marketMakerId c \<and>
      derivation_times (?p m i) c = None \<and> assertScopeContainment es (c_scope c) = None \<and>
      assertPermissionContainment ps (c_permissions c) = None" for m i h
    by (auto simp: derived_from_def derivation_times_returns)
  have mint: "mintCapabilityToken sha cmp c es ps e n req now tid = Inr t \<longleftrightarrow>
     c_action c = ''grant'' \<and> (\<exists>i. iso_now now = Inr i \<and> token_structure (?p None i) = None \<and>
       validateMarketMakerId req ''Capability marketMakerId'' = None \<and>
       validateMarketMakerId (c_marketMakerId c) ''Parent consent marketMakerId'' = None \<and> opt_timestamp n = None \<and>
       (\<exists>m. (m = c_marketMakerId c \<and> (req = None \<or> req = c_marketMakerId c)) \<and> token_times (?p m i) = None \<and>
         derivation_times (?p m i) c = None \<and> assertScopeContainment es (c_scope c) = None \<and>
         assertPermissionContainment ps (c_permissions c) = None \<and>
         (\<exists>h. computeCapabilityHash sha cmp (?p m i) = Inr h \<and> t = with_capability_hash (?p m i) h)))"
    unfolding mintCapabilityToken_def Let_def
    by (simp only: and_then_Inr bind_throws_Inr throw_if_returns first_throw_Cons_returns first_throw.simps
        mint_market_maker_Inr sum.inject not_not simp_thms eq_commute [of t] conj_assoc)
  show ?thesis
    unfolding mint
    by (simp only: str [where m = "c_marketMakerId c"] valid [where l = "''Parent consent marketMakerId''"])
      (auto simp: derived simp del: assertScopeContainment_returns assertPermissionContainment_returns)
qed

lemma computeCapabilityHash_sha: "computeCapabilityHash sha cmp p = Inr h \<Longrightarrow> \<exists>b. h = sha b"
  by (auto simp: computeCapabilityHash_def)

lemma mint_acceptable:
  assumes "\<And>b. HASH_HEX_PATTERN (sha b)"
    "mintCapabilityToken sha cmp c es ps e n req now tid = Inr t"
    "iso_now later = Inr at" "at \<le> e" "(case n of Some x \<Rightarrow> x | None \<Rightarrow> t_issued_at t) \<le> at"
    "\<not> isRevoked ops regs (t_capability_hash t)" "\<not> nonce_seen ops regs tid later"
  shows "acceptable sha cmp ops t c at later regs"
proof -
  obtain i h where t: "t = with_capability_hash (mint_payload c es ps e n (c_marketMakerId c) i tid) h"
    "computeCapabilityHash sha cmp (mint_payload c es ps e n (c_marketMakerId c) i tid) = Inr h"
    "valid_token (mint_payload c es ps e n (c_marketMakerId c) i tid)" "derived_from t c"
    using assms(2) unfolding mintCapabilityToken_Inr by blast
  then show ?thesis
    using assms computeCapabilityHash_sha [OF t(2)]
    by (auto simp: acceptable_def effective_start_def)
qed

subsection \<open>The hash binds the token\<close>

lemma capability_json_keys: "distinct (map fst (capability_json cmp p))"
  by (simp add: capability_json_def opt_member_def split: option.splits)

lemma capability_json_nums: "json_nums (JObj (capability_json cmp p))"
  by (auto simp: capability_json_def opt_member_def nullable_def scope_json_def permissions_json_def
      canonicalizeScopeEntry_def list_all_iff split: option.splits)

lemma member_of_capability:
  "map_of (capability_json cmp p) ''consent_ref'' = Some (JStr (t_consent_ref p))"
  "map_of (capability_json cmp p) ''expires_at'' = Some (JStr (t_expires_at p))"
  "map_of (capability_json cmp p) ''grantee'' = Some (JStr (t_grantee p))"
  "map_of (capability_json cmp p) ''issued_at'' = Some (JStr (t_issued_at p))"
  "map_of (capability_json cmp p) ''marketMakerId'' = map_option JStr (t_marketMakerId p)"
  "map_of (capability_json cmp p) ''not_before'' = Some (nullable (t_not_before p))"
  "map_of (capability_json cmp p) ''permissions'' = Some (permissions_json (t_permissions p))"
  "map_of (capability_json cmp p) ''scope'' = Some (scope_json cmp (t_scope p))"
  "map_of (capability_json cmp p) ''subject'' = Some (JStr (t_subject p))"
  "map_of (capability_json cmp p) ''token_id'' = Some (JStr (t_token_id p))"
  "map_of (capability_json cmp p) ''version'' = Some (JStr (t_version p))"
  by (simp_all add: capability_json_def opt_member_def split: option.splits)

definition same_token :: "'a CapabilityPayload_scheme \<Rightarrow> 'b CapabilityPayload_scheme \<Rightarrow> bool" where
  "same_token p q \<longleftrightarrow> t_version p = t_version q \<and> t_subject p = t_subject q \<and> t_grantee p = t_grantee q \<and>
     t_consent_ref p = t_consent_ref q \<and> set (t_scope p) = set (t_scope q) \<and>
     set (t_permissions p) = set (t_permissions q) \<and> t_marketMakerId p = t_marketMakerId q \<and>
     t_issued_at p = t_issued_at q \<and> t_not_before p = t_not_before q \<and> t_expires_at p = t_expires_at q \<and>
     t_token_id p = t_token_id q"

lemma capability_json_same_token:
  assumes "json_norm (JObj (capability_json cmp p)) = json_norm (JObj (capability_json cmp q))"
  shows "same_token p q"
proof -
  have f: "map_option json_norm (map_of (capability_json cmp p) k) = map_option json_norm (map_of (capability_json cmp q) k)" for k
    by (rule json_norm_field [OF assms capability_json_keys capability_json_keys])
  note m = member_of_capability
  have "t_marketMakerId p = t_marketMakerId q"
    using f [of "''marketMakerId''"] unfolding m by (rule map_option_json_inj) simp
  moreover have "set (t_scope p) = set (t_scope q)"
    using f [of "''scope''"] unfolding m option.map option.inject by (rule scope_json_norm)
  moreover have "set (t_permissions p) = set (t_permissions q)"
    using f [of "''permissions''"] unfolding m option.map option.inject by (rule permissions_json_norm)
  moreover have "t_version p = t_version q" using f [of "''version''"] unfolding m by simp
  moreover have "t_subject p = t_subject q" using f [of "''subject''"] unfolding m by simp
  moreover have "t_grantee p = t_grantee q" using f [of "''grantee''"] unfolding m by simp
  moreover have "t_consent_ref p = t_consent_ref q" using f [of "''consent_ref''"] unfolding m by simp
  moreover have "t_issued_at p = t_issued_at q" using f [of "''issued_at''"] unfolding m by simp
  moreover have "t_not_before p = t_not_before q" using f [of "''not_before''"] unfolding m by simp
  moreover have "t_expires_at p = t_expires_at q" using f [of "''expires_at''"] unfolding m by simp
  moreover have "t_token_id p = t_token_id q" using f [of "''token_id''"] unfolding m by simp
  ultimately show ?thesis unfolding same_token_def by (intro conjI)
qed

lemma capability_hash_binds:
  assumes "computeCapabilityHash sha cmp p = Inr h" "computeCapabilityHash sha cmp q = Inr k"
  shows "\<exists>s t. canonicalizeCapabilityPayload cmp p = Inr s \<and> canonicalizeCapabilityPayload cmp q = Inr t \<and> h = sha s \<and> k = sha t \<and>
    (s = t \<longrightarrow> same_token p q)"
proof -
  obtain s t where s: "canonicalizeJSON (JObj (capability_json cmp p)) = Inr s" "h = sha (utf8_encode s)"
    and t: "canonicalizeJSON (JObj (capability_json cmp q)) = Inr t" "k = sha (utf8_encode t)"
    using assms by (auto simp: computeCapabilityHash_def canonicalizeCapabilityPayload_def canonical_bytes_def
        simp del: canonicalizeJSON.simps)
  have "same_token p q" if "utf8_encode s = utf8_encode t"
  proof -
    have "s = t" using that by (simp add: utf8_encode_inj)
    then show ?thesis
      using canonicalizeJSON_inj [OF s(1) _ capability_json_nums capability_json_nums] t(1) capability_json_same_token by blast
  qed
  then show ?thesis
    using s t by (intro exI [of _ "utf8_encode s"] exI [of _ "utf8_encode t"])
      (simp add: canonicalizeCapabilityPayload_def canonical_bytes_def del: canonicalizeJSON.simps)
qed

subsection \<open>Redemption: \<open>enforceTokenRedemption\<close>\<close>

text \<open>The decision and the registries after the call; a thrown error becomes a DENY.\<close>

definition enforceTokenRedemption ::
  "(string \<Rightarrow> string) \<Rightarrow> (string \<Rightarrow> string \<Rightarrow> int) \<Rightarrow> ('n, 'r) registry_ops \<Rightarrow> CapabilityToken \<Rightarrow> ConsentObject \<Rightarrow>
   js_date \<Rightarrow> ('n, 'r) registries \<Rightarrow> SemResult \<times> ('n, 'r) registries" where
  "enforceTokenRedemption sha256Hex localeCompare ops t c now regs =
     (case verifyCapabilityToken sha256Hex localeCompare ops t c now regs of
        Inr regs' \<Rightarrow> (sem_allow, regs')
      | Inl msg \<Rightarrow> (sem_deny (classifyCapabilityError msg) msg None, regs))"

lemma enforceTokenRedemption_allow:
  "sem_decision (fst (enforceTokenRedemption sha cmp ops t c now regs)) = ALLOW \<longleftrightarrow>
     verifyCapabilityToken sha cmp ops t c now regs = Inr (snd (enforceTokenRedemption sha cmp ops t c now regs))"
  by (cases "verifyCapabilityToken sha cmp ops t c now regs") (simp_all add: enforceTokenRedemption_def)

subsection \<open>Sequences of presentations and revocations\<close>

text \<open>
  The module's behaviour over time: tokens presented for verification and revoked, in any order,
  each call with its own clock.
\<close>

datatype cap_event =
    Accepted CapabilityToken
  | Rejected CapabilityToken string
  | Revoked string

inductive cap_step ::
  "(string \<Rightarrow> string) \<Rightarrow> (string \<Rightarrow> string \<Rightarrow> int) \<Rightarrow> ('n, 'r) registry_ops \<Rightarrow>
   ('n, 'r) registries \<Rightarrow> cap_event \<Rightarrow> ('n, 'r) registries \<Rightarrow> bool"
  for sha256Hex localeCompare ops where
  accept: "verifyCapabilityToken sha256Hex localeCompare ops t c now regs = Inr regs' \<Longrightarrow>
     cap_step sha256Hex localeCompare ops regs (Accepted t) regs'"
| reject: "verifyCapabilityToken sha256Hex localeCompare ops t c now regs = Inl msg \<Longrightarrow>
     cap_step sha256Hex localeCompare ops regs (Rejected t msg) regs"
| revoke: "revokeCapabilityToken ops regs h = Inr regs' \<Longrightarrow>
     cap_step sha256Hex localeCompare ops regs (Revoked h) regs'"

inductive_cases cap_step_acceptE: "cap_step sha cmp ops regs (Accepted t) regs'"
inductive_cases cap_step_revokeE: "cap_step sha cmp ops regs (Revoked h) regs'"

inductive cap_run ::
  "(string \<Rightarrow> string) \<Rightarrow> (string \<Rightarrow> string \<Rightarrow> int) \<Rightarrow> ('n, 'r) registry_ops \<Rightarrow>
   ('n, 'r) registries \<Rightarrow> cap_event list \<Rightarrow> ('n, 'r) registries \<Rightarrow> bool"
  for sha256Hex localeCompare ops where
  finish: "cap_run sha256Hex localeCompare ops regs [] regs"
| step: "cap_step sha256Hex localeCompare ops regs ev regs1 \<Longrightarrow>
     cap_run sha256Hex localeCompare ops regs1 evs regs2 \<Longrightarrow>
     cap_run sha256Hex localeCompare ops regs (ev # evs) regs2"

fun accepted :: "cap_event list \<Rightarrow> CapabilityToken list" where
  "accepted [] = []"
| "accepted (Accepted t # evs) = t # accepted evs"
| "accepted (_ # evs) = accepted evs"

context lawful_registries
begin

lemma step_keeps_seen:
  "cap_step sha cmp ops regs ev regs' \<Longrightarrow> nonce_seen ops regs t now \<Longrightarrow> nonce_seen ops regs' t now'"
proof (induction rule: cap_step.induct)
  case (accept u c d regs regs')
  then show ?case by (auto simp: verifyCapabilityToken_Inr intro: mark_keeps)
next
  case (reject u c d regs msg)
  have "nonce_seen ops (nonce_mark ops regs u e d) t now'" for u e d
    using reject.prems by (rule mark_keeps)
  then show ?case using seen_any_time [OF reject.prems] by simp
next
  case (revoke regs h regs')
  then show ?case using seen_any_time by (simp add: revoke_seen)
qed

lemma step_keeps_revoked:
  "cap_step sha cmp ops regs ev regs' \<Longrightarrow> isRevoked ops regs h \<Longrightarrow> isRevoked ops regs' h"
  by (induction rule: cap_step.induct) (auto simp: verifyCapabilityToken_Inr revoke_revoked)

lemma run_seen_not_accepted:
  "cap_run sha cmp ops regs evs regs' \<Longrightarrow> (\<And>now. nonce_seen ops regs i now) \<Longrightarrow> i \<notin> t_token_id ` set (accepted evs)"
proof (induction rule: cap_run.induct)
  case (step regs ev regs1 evs regs2)
  have "nonce_seen ops regs1 i now" for now
    by (rule step_keeps_seen [OF step.hyps(1) step.prems])
  then have "i \<notin> t_token_id ` set (accepted evs)" by (rule step.IH)
  moreover have "ev = Accepted t \<Longrightarrow> t_token_id t \<noteq> i" for t
    using step.hyps(1) step.prems by (auto elim!: cap_step_acceptE simp: verifyCapabilityToken_Inr acceptable_def)
  ultimately show ?case by (cases ev) auto
qed simp

lemma run_accepts_once:
  "cap_run sha cmp ops regs evs regs' \<Longrightarrow> distinct (map t_token_id (accepted evs))"
proof (induction rule: cap_run.induct)
  case (step regs ev regs1 evs regs2)
  have "t_token_id t \<notin> t_token_id ` set (accepted evs)" if "ev = Accepted t" for t
  proof (rule run_seen_not_accepted [OF step.hyps(2)])
    fix now
    show "nonce_seen ops regs1 (t_token_id t) now"
      using step.hyps(1) that by (auto elim!: cap_step_acceptE simp: verifyCapabilityToken_Inr mark_seen)
  qed
  with step.IH show ?case by (cases ev) auto
qed simp

lemma run_revoked_not_accepted:
  "cap_run sha cmp ops regs evs regs' \<Longrightarrow> isRevoked ops regs h \<Longrightarrow> h \<notin> t_capability_hash ` set (accepted evs)"
proof (induction rule: cap_run.induct)
  case (step regs ev regs1 evs regs2)
  have "h \<notin> t_capability_hash ` set (accepted evs)"
    by (rule step.IH [OF step_keeps_revoked [OF step.hyps(1) step.prems]])
  moreover have "ev = Accepted t \<Longrightarrow> t_capability_hash t \<noteq> h" for t
    using step.hyps(1) step.prems by (auto elim!: cap_step_acceptE simp: verifyCapabilityToken_Inr acceptable_def)
  ultimately show ?case by (cases ev) auto
qed simp

lemma run_revoke_final:
  assumes "cap_run sha cmp ops regs (Revoked h # evs) regs'"
  shows "h \<notin> t_capability_hash ` set (accepted evs)"
proof -
  obtain regs1 where r: "cap_step sha cmp ops regs (Revoked h) regs1" "cap_run sha cmp ops regs1 evs regs'"
    using assms by (auto elim: cap_run.cases)
  have "isRevoked ops regs1 h" using r(1) by (auto elim!: cap_step_revokeE simp: revoke_revoked)
  then show ?thesis by (rule run_revoked_not_accepted [OF r(2)])
qed

end

end
