(* ===== verification/Access.thy ===== *)
theory Access
  imports Capability
begin

text \<open>
  \<open>aoc/capabilities/core/\<close>: the access decision.  \<open>normalize.ts\<close> checks a request and brings it to
  normal form, \<open>evaluateCapabilityAccess.ts\<close> decides it in stages (consent binding, status,
  times, action, resource, market maker, hooks).

  A stage is a function of the checks record that either returns a decision (\<open>Inl\<close>) or goes on with
  the checks as it left them (\<open>Inr\<close>).  A hook is a function of the normalized request that
  may throw.  A capability is a token with the untyped properties the code looks at besides
  (\<open>status\<close>, \<open>market_maker_id\<close>, \<open>startsAt\<close>).
\<close>

subsection \<open>Types\<close>

datatype reason_code =
    ACCESS_ALLOWED | CAPABILITY_MISSING | CAPABILITY_INVALID | CAPABILITY_INACTIVE
  | CAPABILITY_NOT_YET_VALID | CAPABILITY_EXPIRED | CONSENT_EXPIRED | EXPIRATION_MISMATCH
  | ACTION_MISSING | ACTION_NOT_ALLOWED | RESOURCE_MISSING | RESOURCE_NOT_ALLOWED
  | MARKET_MAKER_REQUIRED | MARKET_MAKER_MISMATCH | UNKNOWN_MARKET_MAKER | MARKET_MAKER_DEPRECATED
  | MARKET_MAKER_REVOKED | MARKET_MAKER_TRUST_UNVERIFIABLE | POLICY_DENIED | USAGE_DENIED
  | PAYMENT_REQUIRED | CONSENT_INVALID | CONSENT_MISMATCH | INTERNAL_EVALUATION_ERROR

datatype check_state = Pass | Fail | NotApplicable

record CapabilityAccessChecks =
  k_integrity :: check_state
  k_temporal :: check_state
  k_action :: check_state
  k_resource :: check_state
  k_marketMaker :: check_state
  k_usage :: check_state
  k_policy :: check_state

type_synonym metadata = "string \<Rightarrow> js option"

record CapabilityAccessDecision =
  d_allowed :: bool
  d_reasonCode :: reason_code
  d_reason :: string
  d_evaluatedAt :: string
  d_checks :: CapabilityAccessChecks
  d_metadata :: metadata

record RawCapability = CapabilityToken +
  rc_status :: "string option"
  rc_market_maker_id :: "string option"
  rc_startsAt :: "string option"

record NormalizedCapability =
  n_raw :: RawCapability
  n_permissions :: "string list"
  n_scope :: "ScopeEntry list"
  n_notBefore :: "string option"
  n_expiresAt :: string
  n_status :: "string option"
  n_marketMakerId :: "string option"
  n_capabilityHash :: string
  n_tokenId :: string
  n_consentRef :: string

record NormalizedRequest =
  r_capability :: NormalizedCapability
  r_consent :: "ConsentObject option"
  r_action :: string
  r_resource :: ScopeEntry
  r_marketMakerId :: "string option"
  r_evaluatedAt :: string
  r_usageContext :: "metadata option"
  r_policyContext :: "metadata option"
  r_metadata :: "metadata option"

record HookResult =
  h_allowed :: bool
  h_reasonCode :: "reason_code option"
  h_reason :: "string option"
  h_metadata :: "metadata option"

type_synonym access_hook = "NormalizedRequest \<Rightarrow> HookResult throws"

text \<open>\<open>resource\<close>: a text, an object with text fields, or anything else.\<close>

datatype resource_arg = ResourceText string | ResourceEntry ScopeEntry | ResourceOther

text \<open>\<open>now\<close>: absent, a text, or a number or \<open>Date\<close>.\<close>

datatype now_arg = NowUndefined | NowText string | NowDate js_date

record mm_view =
  mv_exists :: "string \<Rightarrow> bool"
  mv_getStatus :: "string \<Rightarrow> string option"

record AccessRequest =
  q_capability :: "RawCapability option"
  q_consent :: "ConsentObject option"
  q_action :: string
  q_resource :: resource_arg
  q_marketMakerId :: "string option"
  q_now :: now_arg
  q_usageContext :: "metadata option"
  q_policyContext :: "metadata option"
  q_metadata :: "metadata option"
  q_marketMakerRegistry :: "mm_view option"
  q_usageHook :: "access_hook option"
  q_policyHook :: "access_hook option"

text \<open>What the host provides: SHA-256, \<open>localeCompare\<close>, and \<open>Date\<close> on texts of other shapes.\<close>

record host_env =
  e_sha :: "string \<Rightarrow> string"
  e_cmp :: "string \<Rightarrow> string \<Rightarrow> int"
  e_date :: "string \<Rightarrow> js_date"

datatype js_error = InputError reason_code string | PlainError string

fun error_message :: "js_error \<Rightarrow> string" where
  "error_message (InputError c m) = m"
| "error_message (PlainError m) = m"

definition or_else :: "string \<Rightarrow> string \<Rightarrow> string" where
  "or_else msg dflt = (if msg = [] then dflt else msg)"

subsection \<open>\<open>normalize.ts\<close>\<close>

definition baseChecks :: CapabilityAccessChecks where
  "baseChecks = \<lparr>k_integrity = Fail, k_temporal = NotApplicable, k_action = Fail, k_resource = Fail,
                 k_marketMaker = NotApplicable, k_usage = NotApplicable, k_policy = NotApplicable\<rparr>"

definition denyDecision ::
  "string \<Rightarrow> reason_code \<Rightarrow> string \<Rightarrow> CapabilityAccessChecks \<Rightarrow> metadata \<Rightarrow> CapabilityAccessDecision" where
  "denyDecision evaluatedAt code msg checks meta =
     \<lparr>d_allowed = False, d_reasonCode = code, d_reason = msg, d_evaluatedAt = evaluatedAt, d_checks = checks,
      d_metadata = [''failureStage'' \<mapsto> JStr ''integrity''] ++ meta\<rparr>"

definition allowDecision ::
  "string \<Rightarrow> string \<Rightarrow> CapabilityAccessChecks \<Rightarrow> metadata \<Rightarrow> CapabilityAccessDecision" where
  "allowDecision evaluatedAt msg checks meta =
     \<lparr>d_allowed = True, d_reasonCode = ACCESS_ALLOWED, d_reason = msg, d_evaluatedAt = evaluatedAt,
      d_checks = checks, d_metadata = [''failureStage'' \<mapsto> JStr ''completed''] ++ meta\<rparr>"

text \<open>\<open>clock\<close> is \<open>new Date()\<close>.\<close>

definition now_date :: "host_env \<Rightarrow> now_arg \<Rightarrow> int \<Rightarrow> js_date" where
  "now_date env now clock =
     (case now of NowUndefined \<Rightarrow> Some clock | NowText s \<Rightarrow> date_parse (e_date env) s | NowDate d \<Rightarrow> d)"

definition normalizeEvaluationTime :: "host_env \<Rightarrow> now_arg \<Rightarrow> int \<Rightarrow> js_error + string" where
  "normalizeEvaluationTime env now clock =
     (case now_date env now clock of
        None \<Rightarrow> Inl (InputError CAPABILITY_INVALID ''Evaluation timestamp must be a valid date.'')
      | Some t \<Rightarrow> Inr (iso_seconds t))"

definition normalizeResource :: "resource_arg \<Rightarrow> js_error + ScopeEntry" where
  "normalizeResource resource =
     (case resource of
        ResourceText s \<Rightarrow>
          (case split_on CHR '':'' s of
             [ty, rf] \<Rightarrow>
               if ty = [] \<or> rf = []
               then Inl (InputError RESOURCE_MISSING ''Requested resource must be a ScopeEntry or a \"type:ref\" string.'')
               else Inr \<lparr>se_type = ty, se_ref = rf\<rparr>
           | _ \<Rightarrow> Inl (InputError RESOURCE_MISSING ''Requested resource must be a ScopeEntry or a \"type:ref\" string.''))
      | ResourceEntry e \<Rightarrow> Inr \<lparr>se_type = se_type e, se_ref = se_ref e\<rparr>
      | ResourceOther \<Rightarrow> Inl (InputError RESOURCE_MISSING ''Requested resource must include string type and ref fields.''))"

definition as_token :: "RawCapability \<Rightarrow> CapabilityToken" where
  "as_token c = CapabilityToken.truncate c"

definition normalizeCapability :: "host_env \<Rightarrow> RawCapability option \<Rightarrow> js_error + NormalizedCapability" where
  "normalizeCapability env capability =
     (case capability of
        None \<Rightarrow> Inl (InputError CAPABILITY_MISSING ''Capability is required for access evaluation.'')
      | Some c \<Rightarrow>
          (case validateCapabilityToken (e_sha env) (e_cmp env) (as_token c) None of
             Some msg \<Rightarrow> Inl (InputError CAPABILITY_INVALID (or_else msg ''Capability could not be validated safely.''))
           | None \<Rightarrow>
               (let status = map_option to_lower (rc_status c) in
                Inr \<lparr>n_raw = c, n_permissions = t_permissions c, n_scope = t_scope c,
                     n_notBefore = (case t_not_before c of Some n \<Rightarrow> Some n | None \<Rightarrow> rc_startsAt c),
                     n_expiresAt = t_expires_at c,
                     n_status = (case status of
                        Some s \<Rightarrow> if s \<in> {''active'', ''inactive'', ''revoked'', ''suspended''} then Some s else None
                      | None \<Rightarrow> None),
                     n_marketMakerId = (case t_marketMakerId c of Some m \<Rightarrow> Some m | None \<Rightarrow> rc_market_maker_id c),
                     n_capabilityHash = t_capability_hash c, n_tokenId = t_token_id c,
                     n_consentRef = t_consent_ref c\<rparr>)))"

definition validateIsoTimestamp :: "string option \<Rightarrow> string \<Rightarrow> js_error option" where
  "validateIsoTimestamp t fieldName =
     (case t of
        None \<Rightarrow> None
      | Some s \<Rightarrow> if \<not> ISO8601_UTC_PATTERN s
                  then Some (InputError CAPABILITY_INVALID (fieldName @ '' must be ISO 8601 UTC format.'')) else None)"

definition validated_consent :: "host_env \<Rightarrow> ConsentObject option \<Rightarrow> js_error option" where
  "validated_consent env consent =
     (case consent of
        None \<Rightarrow> None
      | Some c \<Rightarrow>
          (case validateConsentObject (e_sha env) (e_cmp env) c of
             Some msg \<Rightarrow> Some (InputError CONSENT_INVALID (or_else msg ''Consent could not be validated safely.''))
           | None \<Rightarrow> None))"

definition validated_action :: "string \<Rightarrow> js_error option" where
  "validated_action action =
     (if trim action = [] then Some (InputError ACTION_MISSING ''Requested action is required for access evaluation.'')
      else case validateCapabilityAction (trim action) ''Requested action'' of
             Some msg \<Rightarrow> Some (InputError CAPABILITY_INVALID
               (or_else msg ''Requested action could not be validated safely.''))
           | None \<Rightarrow> None)"

text \<open>Going on after a check, and after a computation, that may raise an error.\<close>

definition unless_error :: "'e option \<Rightarrow> 'e + 'a \<Rightarrow> 'e + 'a" where
  "unless_error c r = (case c of Some e \<Rightarrow> Inl e | None \<Rightarrow> r)"

definition bind_sum :: "'e + 'a \<Rightarrow> ('a \<Rightarrow> 'e + 'b) \<Rightarrow> 'e + 'b" where
  "bind_sum r f = (case r of Inl e \<Rightarrow> Inl e | Inr v \<Rightarrow> f v)"

definition normalizeCapabilityAccessRequest ::
  "host_env \<Rightarrow> AccessRequest \<Rightarrow> string \<Rightarrow> js_error + NormalizedRequest" where
  "normalizeCapabilityAccessRequest env input evaluatedAt =
     unless_error (validated_action (q_action input))
       (bind_sum (normalizeCapability env (q_capability input)) (\<lambda>cap.
        unless_error (validateIsoTimestamp (n_notBefore cap) ''Capability not_before'')
       (unless_error (validateIsoTimestamp (Some (n_expiresAt cap)) ''Capability expires_at'')
       (unless_error (validated_consent env (q_consent input))
       (bind_sum (normalizeResource (q_resource input)) (\<lambda>res.
        Inr \<lparr>r_capability = cap, r_consent = q_consent input, r_action = trim (q_action input),
             r_resource = res, r_marketMakerId = q_marketMakerId input, r_evaluatedAt = evaluatedAt,
             r_usageContext = q_usageContext input, r_policyContext = q_policyContext input,
             r_metadata = q_metadata input\<rparr>))))))"

definition classifyIntegrityError :: "js_error \<Rightarrow> reason_code \<times> string" where
  "classifyIntegrityError e =
     (case e of
        InputError c m \<Rightarrow> (c, m)
      | PlainError m \<Rightarrow> (CAPABILITY_INVALID, or_else m ''Capability could not be validated safely.''))"

subsection \<open>\<open>evaluateCapabilityAccess.ts\<close>\<close>

definition makeChecks :: CapabilityAccessChecks where
  "makeChecks = \<lparr>k_integrity = Fail, k_temporal = NotApplicable, k_action = Fail, k_resource = Fail,
                 k_marketMaker = NotApplicable, k_usage = NotApplicable, k_policy = NotApplicable\<rparr>"

definition opt_text :: "string option \<Rightarrow> js" where
  "opt_text s = (case s of None \<Rightarrow> JUndefined | Some t \<Rightarrow> JStr t)"

definition stage_meta :: "string \<Rightarrow> NormalizedCapability \<Rightarrow> metadata" where
  "stage_meta stage cap =
     [''failureStage'' \<mapsto> JStr stage, ''capabilityHash'' \<mapsto> JStr (n_capabilityHash cap),
      ''tokenId'' \<mapsto> JStr (n_tokenId cap), ''consentRef'' \<mapsto> JStr (n_consentRef cap)]"

definition binding_meta :: "NormalizedCapability \<Rightarrow> metadata" where
  "binding_meta cap =
     [''failureStage'' \<mapsto> JStr ''integrity'', ''capabilityHash'' \<mapsto> JStr (n_capabilityHash cap),
      ''consentRef'' \<mapsto> JStr (n_consentRef cap)]"

definition evaluateConsentBinding :: "NormalizedRequest \<Rightarrow> CapabilityAccessDecision option" where
  "evaluateConsentBinding input =
     (let cap = r_capability input; at = r_evaluatedAt input in
      case r_consent input of
        None \<Rightarrow> None
      | Some c \<Rightarrow>
          if c_action c \<noteq> ''grant''
          then Some (denyDecision at CONSENT_INVALID ''Parent consent must be an active grant for capability access.''
                 makeChecks (binding_meta cap))
          else if n_consentRef cap \<noteq> c_consent_hash c
          then Some (denyDecision at CONSENT_MISMATCH
                 ''Capability consent reference does not match the supplied parent consent.'' makeChecks (binding_meta cap))
          else if t_subject (n_raw cap) \<noteq> c_subject c
          then Some (denyDecision at CONSENT_MISMATCH
                 ''Capability subject does not match the supplied parent consent.'' makeChecks (binding_meta cap))
          else if t_grantee (n_raw cap) \<noteq> c_grantee c
          then Some (denyDecision at CONSENT_MISMATCH
                 ''Capability grantee does not match the supplied parent consent.'' makeChecks (binding_meta cap))
          else if n_marketMakerId cap \<noteq> c_marketMakerId c
          then Some (denyDecision at CONSENT_MISMATCH
                 ''Capability marketMakerId does not match the supplied parent consent.'' makeChecks
                 (binding_meta cap ++ [''boundMarketMakerId'' \<mapsto> opt_text (n_marketMakerId cap),
                                     ''consentMarketMakerId'' \<mapsto> opt_text (c_marketMakerId c)]))
          else None)"

text \<open>\<open>parseTimestampOrNull\<close>; None stands for null.\<close>

definition parseTimestampOrNull :: "host_env \<Rightarrow> string option \<Rightarrow> js_date" where
  "parseTimestampOrNull env s = (case s of None \<Rightarrow> None | Some t \<Rightarrow> date_parse (e_date env) t)"

type_synonym 'a stage = "CapabilityAccessDecision + 'a"

definition status_stage :: "NormalizedRequest \<Rightarrow> CapabilityAccessChecks \<Rightarrow> CapabilityAccessChecks stage" where
  "status_stage r checks =
     (let cap = r_capability r; checks' = checks\<lparr>k_integrity := Pass\<rparr> in
      case n_status cap of
        Some s \<Rightarrow>
          if s \<noteq> ''active''
          then Inl (denyDecision (r_evaluatedAt r) CAPABILITY_INACTIVE
                 (''Capability status '' @ s @ '' does not permit access.'') checks' (stage_meta ''integrity'' cap))
          else Inr checks'
      | None \<Rightarrow> Inr checks')"

text \<open>The reason a capability is refused for its times; the first that applies, in the order of the code.\<close>

definition temporal_reason :: "host_env \<Rightarrow> NormalizedRequest \<Rightarrow> (reason_code \<times> string) option" where
  "temporal_reason env r =
     (let cap = r_capability r; at = r_evaluatedAt r;
          expires = date_parse (e_date env) (n_expiresAt cap);
          issued = parseTimestampOrNull env (Some (t_issued_at (n_raw cap)));
          consentIssued = parseTimestampOrNull env (map_option c_issued_at (r_consent r));
          consentExpires = parseTimestampOrNull env (Option.bind (r_consent r) c_expires_at);
          atDate = date_parse (e_date env) at
      in if (case n_notBefore cap of None \<Rightarrow> False | Some n \<Rightarrow> at < n)
         then Some (CAPABILITY_NOT_YET_VALID, ''Capability is not yet valid at the requested evaluation time.'')
         else if issued \<noteq> None \<and> date_le expires issued
         then Some (EXPIRATION_MISMATCH, ''Capability expiration must be later than capability issuance.'')
         else if consentIssued \<noteq> None \<and> date_le expires consentIssued
         then Some (EXPIRATION_MISMATCH, ''Capability expiration must be later than parent consent issuance.'')
         else if consentExpires \<noteq> None \<and> date_gt expires consentExpires
         then Some (EXPIRATION_MISMATCH, ''Capability expiration exceeds parent consent expiration.'')
         else if consentExpires \<noteq> None \<and> date_gt atDate consentExpires
         then Some (CONSENT_EXPIRED, ''Parent consent has expired at the requested evaluation time.'')
         else if date_gt atDate expires
         then Some (CAPABILITY_EXPIRED, ''Capability has expired at the requested evaluation time.'')
         else None)"

definition temporal_stage ::
  "host_env \<Rightarrow> NormalizedRequest \<Rightarrow> CapabilityAccessChecks \<Rightarrow> CapabilityAccessChecks stage" where
  "temporal_stage env r checks =
     (case temporal_reason env r of
        Some (code, msg) \<Rightarrow>
          Inl (denyDecision (r_evaluatedAt r) code msg (checks\<lparr>k_temporal := Fail\<rparr>)
                 (stage_meta ''temporal'' (r_capability r)))
      | None \<Rightarrow> Inr (checks\<lparr>k_temporal := Pass\<rparr>))"

definition action_stage :: "NormalizedRequest \<Rightarrow> CapabilityAccessChecks \<Rightarrow> CapabilityAccessChecks stage" where
  "action_stage r checks =
     (if r_action r \<notin> set (n_permissions (r_capability r))
      then Inl (denyDecision (r_evaluatedAt r) ACTION_NOT_ALLOWED
             (''Capability does not allow action \"'' @ r_action r @ ''\".'') (checks\<lparr>k_action := Fail\<rparr>)
             (stage_meta ''action'' (r_capability r)))
      else Inr (checks\<lparr>k_action := Pass\<rparr>))"

definition resource_stage :: "NormalizedRequest \<Rightarrow> CapabilityAccessChecks \<Rightarrow> CapabilityAccessChecks stage" where
  "resource_stage r checks =
     (let key = scopeKey (r_resource r) in
      case find (\<lambda>e. scopeKey e = key) (n_scope (r_capability r)) of
        None \<Rightarrow> Inl (denyDecision (r_evaluatedAt r) RESOURCE_NOT_ALLOWED
                  (''Capability does not allow resource \"'' @ key @ ''\".'') (checks\<lparr>k_resource := Fail\<rparr>)
                  (stage_meta ''resource'' (r_capability r)))
      | Some e \<Rightarrow> Inr (checks\<lparr>k_resource := Pass\<rparr>))"

definition evaluateMarketMakerTrust ::
  "string \<Rightarrow> mm_view option \<Rightarrow> string \<Rightarrow> CapabilityAccessChecks \<Rightarrow> NormalizedCapability \<Rightarrow>
   CapabilityAccessDecision option" where
  "evaluateMarketMakerTrust m registry evaluatedAt checks cap =
     (let failed = checks\<lparr>k_marketMaker := Fail\<rparr>;
          meta = stage_meta ''marketMaker'' cap ++ [''boundMarketMakerId'' \<mapsto> JStr m]
      in case registry of
           None \<Rightarrow> Some (denyDecision evaluatedAt MARKET_MAKER_TRUST_UNVERIFIABLE
             ''Capability is bound to a marketMakerId but no marketMakerRegistry was provided to verify its trust status.''
             failed meta)
         | Some reg \<Rightarrow>
             if \<not> mv_exists reg m
             then Some (denyDecision evaluatedAt UNKNOWN_MARKET_MAKER
                    ''Capability marketMakerId is structurally valid but not registered.'' failed meta)
             else if mv_getStatus reg m = Some ''deprecated''
             then Some (denyDecision evaluatedAt MARKET_MAKER_DEPRECATED
                    ''Capability marketMakerId is registered but deprecated and not trusted for runtime access.''
                    failed (meta ++ [''marketMakerStatus'' \<mapsto> JStr ''deprecated'']))
             else if mv_getStatus reg m = Some ''revoked''
             then Some (denyDecision evaluatedAt MARKET_MAKER_REVOKED
                    ''Capability marketMakerId is registered but revoked and cannot operate.''
                    failed (meta ++ [''marketMakerStatus'' \<mapsto> JStr ''revoked'']))
             else None)"

definition market_stage ::
  "mm_view option \<Rightarrow> NormalizedRequest \<Rightarrow> CapabilityAccessChecks \<Rightarrow> CapabilityAccessChecks stage" where
  "market_stage registry r checks =
     (let cap = r_capability r; at = r_evaluatedAt r; failed = checks\<lparr>k_marketMaker := Fail\<rparr> in
      case n_marketMakerId cap of
        None \<Rightarrow> Inr checks
      | Some m \<Rightarrow>
          (case evaluateMarketMakerTrust m registry at checks cap of
             Some d \<Rightarrow> Inl d
           | None \<Rightarrow>
               (case r_marketMakerId r of
                  None \<Rightarrow> Inl (denyDecision at MARKET_MAKER_REQUIRED
                    ''Capability is bound to a market maker and requires marketMakerId in the request.''
                    failed (stage_meta ''marketMaker'' cap ++ [''boundMarketMakerId'' \<mapsto> JStr m]))
                | Some x \<Rightarrow>
                    if x = []
                    then Inl (denyDecision at MARKET_MAKER_REQUIRED
                      ''Capability is bound to a market maker and requires marketMakerId in the request.''
                      failed (stage_meta ''marketMaker'' cap ++ [''boundMarketMakerId'' \<mapsto> JStr m]))
                    else if x \<noteq> m
                    then Inl (denyDecision at MARKET_MAKER_MISMATCH
                      ''Requested market maker does not match the capability binding.''
                      failed (stage_meta ''marketMaker'' cap ++
                        [''marketMakerId'' \<mapsto> JStr x, ''boundMarketMakerId'' \<mapsto> JStr m]))
                    else Inr (checks\<lparr>k_marketMaker := Pass\<rparr>))))"

datatype hook_kind = Usage | Policy

definition set_check :: "hook_kind \<Rightarrow> check_state \<Rightarrow> CapabilityAccessChecks \<Rightarrow> CapabilityAccessChecks" where
  "set_check kind s checks =
     (case kind of Usage \<Rightarrow> checks\<lparr>k_usage := s\<rparr> | Policy \<Rightarrow> checks\<lparr>k_policy := s\<rparr>)"

definition kind_text :: "hook_kind \<Rightarrow> string" where
  "kind_text kind = (case kind of Usage \<Rightarrow> ''usage'' | Policy \<Rightarrow> ''policy'')"

definition evaluateHookResult ::
  "HookResult \<Rightarrow> string \<Rightarrow> CapabilityAccessChecks \<Rightarrow> hook_kind \<Rightarrow> CapabilityAccessChecks stage" where
  "evaluateHookResult res evaluatedAt checks kind =
     (if h_allowed res then Inr (set_check kind Pass checks)
      else Inl (denyDecision evaluatedAt
             (case h_reasonCode res of Some c \<Rightarrow> c
              | None \<Rightarrow> (case kind of Usage \<Rightarrow> USAGE_DENIED | Policy \<Rightarrow> POLICY_DENIED))
             (case h_reason res of Some s \<Rightarrow> s
              | None \<Rightarrow> (case kind of Usage \<Rightarrow> ''Usage'' | Policy \<Rightarrow> ''Policy'') @ '' evaluation denied access.'')
             (set_check kind Fail checks)
             ([''failureStage'' \<mapsto> JStr (kind_text kind)] ++
              (case h_metadata res of Some m \<Rightarrow> m | None \<Rightarrow> Map.empty))))"

definition invokeOptionalHook ::
  "access_hook option \<Rightarrow> NormalizedRequest \<Rightarrow> hook_kind \<Rightarrow> CapabilityAccessChecks \<Rightarrow> CapabilityAccessChecks stage" where
  "invokeOptionalHook hook r kind checks =
     (case hook of
        None \<Rightarrow> Inr checks
      | Some f \<Rightarrow>
          (case f r of
             Inr res \<Rightarrow> evaluateHookResult res (r_evaluatedAt r) checks kind
           | Inl msg \<Rightarrow> Inl (denyDecision (r_evaluatedAt r) INTERNAL_EVALUATION_ERROR
               (or_else msg ''Internal capability evaluation error.'') (set_check kind Fail checks)
               [''failureStage'' \<mapsto> JStr (kind_text kind)])))"

definition allow_stage :: "NormalizedRequest \<Rightarrow> CapabilityAccessChecks \<Rightarrow> CapabilityAccessDecision" where
  "allow_stage r checks =
     (let cap = r_capability r in
      allowDecision (r_evaluatedAt r) ''Capability explicitly authorizes the requested action on the requested resource.''
        checks
        [''capabilityHash'' \<mapsto> JStr (n_capabilityHash cap), ''tokenId'' \<mapsto> JStr (n_tokenId cap),
         ''consentRef'' \<mapsto> JStr (n_consentRef cap), ''matchedAction'' \<mapsto> JStr (r_action r),
         ''matchedResource'' \<mapsto> JStr (scopeKey (r_resource r)), ''marketMakerId'' \<mapsto> opt_text (r_marketMakerId r),
         ''boundMarketMakerId'' \<mapsto> opt_text (n_marketMakerId cap)])"

definition run_stages :: "host_env \<Rightarrow> AccessRequest \<Rightarrow> NormalizedRequest \<Rightarrow> CapabilityAccessChecks stage" where
  "run_stages env input r =
     bind_sum (status_stage r makeChecks) (\<lambda>checks.
     bind_sum (temporal_stage env r checks) (\<lambda>checks.
     bind_sum (action_stage r checks) (\<lambda>checks.
     bind_sum (resource_stage r checks) (\<lambda>checks.
     bind_sum (market_stage (q_marketMakerRegistry input) r checks) (\<lambda>checks.
     bind_sum (invokeOptionalHook (q_usageHook input) r Usage checks) (\<lambda>checks.
     invokeOptionalHook (q_policyHook input) r Policy checks))))))"

definition decide :: "host_env \<Rightarrow> AccessRequest \<Rightarrow> NormalizedRequest \<Rightarrow> CapabilityAccessDecision" where
  "decide env input r =
     (case run_stages env input r of Inl d \<Rightarrow> d | Inr checks \<Rightarrow> allow_stage r checks)"

definition evaluateCapabilityAccess :: "host_env \<Rightarrow> AccessRequest \<Rightarrow> int \<Rightarrow> CapabilityAccessDecision" where
  "evaluateCapabilityAccess env input clock =
     (case bind_sum (normalizeEvaluationTime env (q_now input) clock)
             (\<lambda>at. normalizeCapabilityAccessRequest env input at) of
        Inr r \<Rightarrow> (case evaluateConsentBinding r of Some d \<Rightarrow> d | None \<Rightarrow> decide env input r)
      | Inl e \<Rightarrow>
          (let at = (if q_now input = NowUndefined then iso_seconds clock else iso_seconds 0);
               c = classifyIntegrityError e
           in denyDecision at (fst c) (snd c) makeChecks [''failureStage'' \<mapsto> JStr ''integrity'']))"

subsection \<open>When access is allowed\<close>

lemma bind_sum_Inr [simp]: "bind_sum r f = Inr w \<longleftrightarrow> (\<exists>v. r = Inr v \<and> f v = Inr w)"
  by (auto simp: bind_sum_def split: sum.splits)

lemma bind_sum_simps [simp]: "bind_sum (Inr v) f = f v" "bind_sum (Inl e) f = Inl e"
  by (simp_all add: bind_sum_def)

lemma unless_error_Inr [simp]: "unless_error c r = Inr w \<longleftrightarrow> c = None \<and> r = Inr w"
  by (auto simp: unless_error_def split: option.splits)

lemma denyDecision_not_allowed [simp]: "\<not> d_allowed (denyDecision at c m k meta)"
  "d_reasonCode (denyDecision at c m k meta) = c" "d_evaluatedAt (denyDecision at c m k meta) = at"
  "d_checks (denyDecision at c m k meta) = k" "d_reason (denyDecision at c m k meta) = m"
  by (simp_all add: denyDecision_def)

lemma allow_stage_allowed [simp]: "d_allowed (allow_stage r k)" "d_reasonCode (allow_stage r k) = ACCESS_ALLOWED"
  "d_evaluatedAt (allow_stage r k) = r_evaluatedAt r" "d_checks (allow_stage r k) = k"
  by (simp_all add: allow_stage_def allowDecision_def Let_def)

lemma evaluateConsentBinding_denies: "evaluateConsentBinding r = Some d \<Longrightarrow> \<not> d_allowed d"
  by (auto simp: evaluateConsentBinding_def Let_def split: option.splits if_splits)

lemma evaluateMarketMakerTrust_denies: "evaluateMarketMakerTrust m reg at k cap = Some d \<Longrightarrow> \<not> d_allowed d"
  by (auto simp: evaluateMarketMakerTrust_def Let_def split: option.splits if_splits)

definition market_maker_ok :: "mm_view option \<Rightarrow> NormalizedRequest \<Rightarrow> bool" where
  "market_maker_ok registry r \<longleftrightarrow>
     (\<forall>m. n_marketMakerId (r_capability r) = Some m \<longrightarrow>
       (\<exists>reg. registry = Some reg \<and> mv_exists reg m \<and>
          mv_getStatus reg m \<notin> {Some ''deprecated'', Some ''revoked''}) \<and>
       r_marketMakerId r = Some m \<and> m \<noteq> [])"

definition hook_allows :: "access_hook option \<Rightarrow> NormalizedRequest \<Rightarrow> bool" where
  "hook_allows hook r \<longleftrightarrow> (\<forall>f. hook = Some f \<longrightarrow> (\<exists>res. f r = Inr res \<and> h_allowed res))"

lemma status_stage_Inr: "status_stage r k = Inr k' \<longleftrightarrow>
    n_status (r_capability r) \<in> {None, Some ''active''} \<and> k' = k\<lparr>k_integrity := Pass\<rparr>"
  by (auto simp: status_stage_def Let_def split: option.splits)

lemma temporal_stage_Inr: "temporal_stage env r k = Inr k' \<longleftrightarrow>
    temporal_reason env r = None \<and> k' = k\<lparr>k_temporal := Pass\<rparr>"
  by (auto simp: temporal_stage_def split: option.splits)

lemma action_stage_Inr: "action_stage r k = Inr k' \<longleftrightarrow>
    r_action r \<in> set (n_permissions (r_capability r)) \<and> k' = k\<lparr>k_action := Pass\<rparr>"
  by (auto simp: action_stage_def)

lemma resource_stage_Inr: "resource_stage r k = Inr k' \<longleftrightarrow>
    scopeKey (r_resource r) \<in> scopeKey ` set (n_scope (r_capability r)) \<and> k' = k\<lparr>k_resource := Pass\<rparr>"
proof -
  have "find (\<lambda>e. scopeKey e = x) es = None \<longleftrightarrow> x \<notin> scopeKey ` set es" for x es
    by (auto simp: find_None_iff)
  from this [of "scopeKey (r_resource r)" "n_scope (r_capability r)"] show ?thesis
    by (cases "find (\<lambda>e. scopeKey e = scopeKey (r_resource r)) (n_scope (r_capability r))")
      (auto simp: resource_stage_def Let_def)
qed

lemma evaluateMarketMakerTrust_None: "evaluateMarketMakerTrust m reg at k cap = None \<longleftrightarrow>
    (\<exists>v. reg = Some v \<and> mv_exists v m \<and> mv_getStatus v m \<notin> {Some ''deprecated'', Some ''revoked''})"
  by (auto simp: evaluateMarketMakerTrust_def Let_def split: option.splits)

definition market_checks :: "NormalizedRequest \<Rightarrow> CapabilityAccessChecks \<Rightarrow> CapabilityAccessChecks" where
  "market_checks r k = (if n_marketMakerId (r_capability r) = None then k else k\<lparr>k_marketMaker := Pass\<rparr>)"

lemma market_stage_Inr: "market_stage reg r k = Inr k' \<longleftrightarrow> market_maker_ok reg r \<and> k' = market_checks r k"
proof (cases "n_marketMakerId (r_capability r)")
  case None
  then show ?thesis by (auto simp: market_stage_def market_maker_ok_def market_checks_def Let_def)
next
  case (Some m)
  show ?thesis
  proof (cases "evaluateMarketMakerTrust m reg (r_evaluatedAt r) k (r_capability r)")
    case None
    with Some show ?thesis
      using evaluateMarketMakerTrust_None [of m reg "r_evaluatedAt r" k "r_capability r"]
      by (auto simp: market_stage_def market_maker_ok_def market_checks_def Let_def split: option.splits)
  next
    case (Some d)
    with \<open>n_marketMakerId (r_capability r) = Some m\<close> show ?thesis
      using evaluateMarketMakerTrust_None [of m reg "r_evaluatedAt r" k "r_capability r"]
      by (auto simp: market_stage_def market_maker_ok_def Let_def)
  qed
qed

definition hook_checks :: "access_hook option \<Rightarrow> hook_kind \<Rightarrow> CapabilityAccessChecks \<Rightarrow> CapabilityAccessChecks" where
  "hook_checks hook kind k = (if hook = None then k else set_check kind Pass k)"

lemma invokeOptionalHook_Inr: "invokeOptionalHook hook r kind k = Inr k' \<longleftrightarrow>
    hook_allows hook r \<and> k' = hook_checks hook kind k"
  by (auto simp: invokeOptionalHook_def evaluateHookResult_def hook_allows_def hook_checks_def
      split: option.splits sum.splits)

lemma stage_denies:
  "status_stage r k = Inl d \<Longrightarrow> \<not> d_allowed d" "temporal_stage env r k = Inl d \<Longrightarrow> \<not> d_allowed d"
  "action_stage r k = Inl d \<Longrightarrow> \<not> d_allowed d" "resource_stage r k = Inl d \<Longrightarrow> \<not> d_allowed d"
  "invokeOptionalHook hook r kind k = Inl d \<Longrightarrow> \<not> d_allowed d"
  by (auto simp: status_stage_def temporal_stage_def action_stage_def resource_stage_def invokeOptionalHook_def
      evaluateHookResult_def Let_def split: option.splits if_splits sum.splits)

lemma market_stage_denies: "market_stage reg r k = Inl d \<Longrightarrow> \<not> d_allowed d"
  using evaluateMarketMakerTrust_denies
  by (auto simp: market_stage_def Let_def split: option.splits if_splits)

definition request_authorized :: "host_env \<Rightarrow> AccessRequest \<Rightarrow> NormalizedRequest \<Rightarrow> bool" where
  "request_authorized env input r \<longleftrightarrow>
     evaluateConsentBinding r = None \<and> n_status (r_capability r) \<in> {None, Some ''active''} \<and>
     temporal_reason env r = None \<and> r_action r \<in> set (n_permissions (r_capability r)) \<and>
     scopeKey (r_resource r) \<in> scopeKey ` set (n_scope (r_capability r)) \<and>
     market_maker_ok (q_marketMakerRegistry input) r \<and>
     hook_allows (q_usageHook input) r \<and> hook_allows (q_policyHook input) r"

definition final_checks :: "AccessRequest \<Rightarrow> NormalizedRequest \<Rightarrow> CapabilityAccessChecks" where
  "final_checks input r =
     hook_checks (q_policyHook input) Policy (hook_checks (q_usageHook input) Usage (market_checks r
       \<lparr>k_integrity = Pass, k_temporal = Pass, k_action = Pass, k_resource = Pass,
        k_marketMaker = NotApplicable, k_usage = NotApplicable, k_policy = NotApplicable\<rparr>))"

lemma run_stages_Inr: "run_stages env input r = Inr k \<longleftrightarrow>
    n_status (r_capability r) \<in> {None, Some ''active''} \<and>
    temporal_reason env r = None \<and> r_action r \<in> set (n_permissions (r_capability r)) \<and>
    scopeKey (r_resource r) \<in> scopeKey ` set (n_scope (r_capability r)) \<and>
    market_maker_ok (q_marketMakerRegistry input) r \<and>
    hook_allows (q_usageHook input) r \<and> hook_allows (q_policyHook input) r \<and> k = final_checks input r"
proof -
  have "final_checks input r = hook_checks (q_policyHook input) Policy (hook_checks (q_usageHook input) Usage
      (market_checks r (makeChecks\<lparr>k_integrity := Pass, k_temporal := Pass, k_action := Pass, k_resource := Pass\<rparr>)))"
    by (simp add: final_checks_def makeChecks_def)
  then show ?thesis
    unfolding run_stages_def bind_sum_Inr status_stage_Inr temporal_stage_Inr action_stage_Inr resource_stage_Inr
      market_stage_Inr invokeOptionalHook_Inr
    by (simp only: conj_assoc simp_thms ex_simps conj_commute) auto
qed

lemma run_stages_Inl: "run_stages env input r = Inl d \<Longrightarrow> \<not> d_allowed d"
  unfolding run_stages_def bind_sum_def
  by (auto split: sum.splits dest: stage_denies market_stage_denies)

lemma decide_allowed:
  "d_allowed (decide env input r) \<longleftrightarrow> run_stages env input r = Inr (final_checks input r)"
  by (cases "run_stages env input r") (auto simp: decide_def run_stages_Inl dest: run_stages_Inr [THEN iffD1])

lemma evaluate_allowed:
  "d_allowed (evaluateCapabilityAccess env input clock) \<longleftrightarrow>
     (\<exists>at r. normalizeEvaluationTime env (q_now input) clock = Inr at \<and>
        normalizeCapabilityAccessRequest env input at = Inr r \<and> request_authorized env input r)"
proof (cases "bind_sum (normalizeEvaluationTime env (q_now input) clock) (normalizeCapabilityAccessRequest env input)")
  case (Inl e)
  then have "\<not> d_allowed (evaluateCapabilityAccess env input clock)"
    by (simp add: evaluateCapabilityAccess_def Let_def)
  with Inl show ?thesis by (auto simp: bind_sum_def split: sum.splits)
next
  case (Inr r)
  then have "d_allowed (evaluateCapabilityAccess env input clock) \<longleftrightarrow> request_authorized env input r"
    by (auto simp: evaluateCapabilityAccess_def evaluateConsentBinding_denies request_authorized_def
        decide_allowed run_stages_Inr split: option.splits)
  with Inr show ?thesis by auto
qed

lemma evaluate_allowed_decision:
  assumes "d_allowed (evaluateCapabilityAccess env input clock)"
    "normalizeEvaluationTime env (q_now input) clock = Inr at" "normalizeCapabilityAccessRequest env input at = Inr r"
  shows "evaluateCapabilityAccess env input clock = allow_stage r (final_checks input r)"
proof -
  have "evaluateConsentBinding r = None" "run_stages env input r = Inr (final_checks input r)"
    using assms unfolding evaluate_allowed request_authorized_def run_stages_Inr by auto
  with assms(2,3) show ?thesis by (simp add: evaluateCapabilityAccess_def decide_def)
qed

lemma normalizeCapability_Inr:
  "normalizeCapability env (Some c) = Inr n \<Longrightarrow>
     validateCapabilityToken (e_sha env) (e_cmp env) (as_token c) None = None \<and> n_raw n = c \<and>
     n_permissions n = t_permissions c \<and> n_scope n = t_scope c \<and> n_expiresAt n = t_expires_at c \<and>
     n_notBefore n = (case t_not_before c of Some x \<Rightarrow> Some x | None \<Rightarrow> rc_startsAt c) \<and>
     n_marketMakerId n = (case t_marketMakerId c of Some m \<Rightarrow> Some m | None \<Rightarrow> rc_market_maker_id c) \<and>
     n_capabilityHash n = t_capability_hash c \<and> n_tokenId n = t_token_id c \<and> n_consentRef n = t_consent_ref c"
  by (auto simp: normalizeCapability_def Let_def split: option.splits)

end
