(* ===== verification/SubjectIdentity.thy ===== *)
theory SubjectIdentity
  imports Access
begin

text \<open>
  \<open>packages/protocol/src/identity/*.ts\<close>: content identities, sovereign asset identifiers and references to subjects.

  The values are those of the interfaces: a member that is there has its type, an optional one may be absent.
  SHA-256 and the random UUID are arguments.
\<close>

subsection \<open>Content identities\<close>

record ContentIdentity =
  ci_algorithm :: string
  ci_digest :: string

definition Sha256_algorithm :: string where
  "Sha256_algorithm = ''sha256''"

definition computeContentIdentity :: "(string \<Rightarrow> string) \<Rightarrow> string \<Rightarrow> ContentIdentity" where
  "computeContentIdentity sha bytes = \<lparr>ci_algorithm = Sha256_algorithm, ci_digest = sha bytes\<rparr>"

definition isValidContentIdentity :: "ContentIdentity \<Rightarrow> bool" where
  "isValidContentIdentity c \<longleftrightarrow> ci_algorithm c = Sha256_algorithm \<and> HASH_HEX_PATTERN (ci_digest c)"

definition contentIdentitiesEqual :: "ContentIdentity \<Rightarrow> ContentIdentity \<Rightarrow> bool" where
  "contentIdentitiesEqual a b \<longleftrightarrow> ci_algorithm a = ci_algorithm b \<and> ci_digest a = ci_digest b"

datatype ContentMismatch = UNSUPPORTED_CONTENT_DIGEST_ALGORITHM | CONTENT_DIGEST_MISMATCH

text \<open>The result is its \<open>reason\<close>; without one it is valid.\<close>

definition verifyContentIdentity :: "(string \<Rightarrow> string) \<Rightarrow> string \<Rightarrow> ContentIdentity \<Rightarrow> ContentMismatch option" where
  "verifyContentIdentity sha bytes expected =
     (if ci_algorithm expected \<noteq> Sha256_algorithm then Some UNSUPPORTED_CONTENT_DIGEST_ALGORITHM
      else if ci_digest (computeContentIdentity sha bytes) \<noteq> ci_digest expected then Some CONTENT_DIGEST_MISMATCH
      else None)"

definition contentIdentityKey :: "ContentIdentity \<Rightarrow> string" where
  "contentIdentityKey c = ci_algorithm c @ '':'' @ ci_digest c"

subsection \<open>Sovereign asset identifiers\<close>

definition SOVEREIGN_ASSET_ID_PREFIX :: string where
  "SOVEREIGN_ASSET_ID_PREFIX = ''aoc:sovereign-asset:''"

text \<open>\<^verbatim>\<open>/^[0-9a-f]{8}-[0-9a-f]{4}-[1-8][0-9a-f]{3}-[89ab][0-9a-f]{3}-[0-9a-f]{12}$/\<close>\<close>

definition UUID_PATTERN :: "string \<Rightarrow> bool" where
  "UUID_PATTERN s \<longleftrightarrow>
     (case split_on CHR ''-'' s of
        [a, b, c, d, e] \<Rightarrow>
          list_all (list_all is_hex) [a, b, c, d, e] \<and>
          length a = 8 \<and> length b = 4 \<and> length c = 4 \<and> length d = 4 \<and> length e = 12 \<and>
          hd c \<in> set ''12345678'' \<and> hd d \<in> set ''89ab''
      | _ \<Rightarrow> False)"

definition mintSovereignAssetId :: "string \<Rightarrow> string" where
  "mintSovereignAssetId uuid = SOVEREIGN_ASSET_ID_PREFIX @ uuid"

definition isValidSovereignAssetId :: "string \<Rightarrow> bool" where
  "isValidSovereignAssetId s \<longleftrightarrow>
     starts_with s SOVEREIGN_ASSET_ID_PREFIX \<and> UUID_PATTERN (drop (length SOVEREIGN_ASSET_ID_PREFIX) s)"

definition assertValidSovereignAssetId :: "string \<Rightarrow> checked" where
  "assertValidSovereignAssetId s =
     throw_if (\<not> isValidSovereignAssetId s) (''Malformed SovereignAssetId: '' @ json_string s)"

definition parseSovereignAssetId :: "string \<Rightarrow> string throws" where
  "parseSovereignAssetId s = and_return (assertValidSovereignAssetId s) s"

subsection \<open>References\<close>

record SovereignExternalReference =
  xf_namespace :: string
  xf_id :: string
  xf_locator :: "string option"

record SovereignSubjectRef =
  sj_sovereignAssetId :: string
  sj_externalReference :: "SovereignExternalReference option"

definition isNonBlankString :: "string \<Rightarrow> bool" where
  "isNonBlankString s \<longleftrightarrow> trim s \<noteq> []"

definition validateSovereignExternalReference :: "SovereignExternalReference \<Rightarrow> string list" where
  "validateSovereignExternalReference r =
     (if isNonBlankString (xf_namespace r) then [] else [''INVALID_EXTERNAL_REFERENCE_NAMESPACE'']) @
     (if isNonBlankString (xf_id r) then [] else [''INVALID_EXTERNAL_REFERENCE_ID'']) @
     (case xf_locator r of
        None \<Rightarrow> []
      | Some l \<Rightarrow> if isNonBlankString l then [] else [''INVALID_EXTERNAL_REFERENCE_LOCATOR''])"

definition isValidSovereignExternalReference :: "SovereignExternalReference \<Rightarrow> bool" where
  "isValidSovereignExternalReference r \<longleftrightarrow> validateSovereignExternalReference r = []"

fun comma_join :: "string list \<Rightarrow> string" where
  "comma_join [] = []"
| "comma_join [x] = x"
| "comma_join (x # y # xs) = x @ '', '' @ comma_join (y # xs)"

definition buildSovereignExternalReference ::
  "string \<Rightarrow> string \<Rightarrow> string option \<Rightarrow> SovereignExternalReference throws" where
  "buildSovereignExternalReference namespace i locator =
     (let reference = \<lparr>xf_namespace = namespace, xf_id = i, xf_locator = locator\<rparr>;
          reasons = validateSovereignExternalReference reference
      in and_return (throw_if (reasons \<noteq> []) (''Invalid SovereignExternalReference: '' @ comma_join reasons)) reference)"

definition isValidSovereignSubjectRef :: "SovereignSubjectRef \<Rightarrow> bool" where
  "isValidSovereignSubjectRef r \<longleftrightarrow>
     isValidSovereignAssetId (sj_sovereignAssetId r) \<and>
     (case sj_externalReference r of None \<Rightarrow> True | Some x \<Rightarrow> isValidSovereignExternalReference x)"

definition sovereignExternalReferencesEqual ::
  "SovereignExternalReference \<Rightarrow> SovereignExternalReference \<Rightarrow> bool" where
  "sovereignExternalReferencesEqual a b \<longleftrightarrow>
     xf_namespace a = xf_namespace b \<and> xf_id a = xf_id b \<and> xf_locator a = xf_locator b"

definition toSovereignSubjectRef :: "SovereignSubjectRef \<Rightarrow> SovereignSubjectRef" where
  "toSovereignSubjectRef s =
     \<lparr>sj_sovereignAssetId = sj_sovereignAssetId s, sj_externalReference = sj_externalReference s\<rparr>"

subsection \<open>Facts\<close>

lemma minted_asset_id_valid: "isValidSovereignAssetId (mintSovereignAssetId uuid) \<longleftrightarrow> UUID_PATTERN uuid"
  by (simp add: isValidSovereignAssetId_def mintSovereignAssetId_def starts_with_append)

lemma parse_asset_id: "parseSovereignAssetId s = Inr t \<longleftrightarrow> isValidSovereignAssetId s \<and> t = s"
  by (auto simp: parseSovereignAssetId_def assertValidSovereignAssetId_def)

lemma build_external_reference:
  "buildSovereignExternalReference n i l = Inr r \<longleftrightarrow>
     r = \<lparr>xf_namespace = n, xf_id = i, xf_locator = l\<rparr> \<and> isValidSovereignExternalReference r"
  by (auto simp: buildSovereignExternalReference_def isValidSovereignExternalReference_def Let_def)

lemma content_identity_verifies:
  "verifyContentIdentity sha bytes c = None \<longleftrightarrow> contentIdentitiesEqual c (computeContentIdentity sha bytes)"
  by (auto simp: verifyContentIdentity_def contentIdentitiesEqual_def computeContentIdentity_def)

text \<open>The key of a valid content identity determines it: a digest has no colon.\<close>

lemma content_key_inj:
  assumes "isValidContentIdentity a" "isValidContentIdentity b" "contentIdentityKey a = contentIdentityKey b"
  shows "a = b"
  using assms by (simp add: isValidContentIdentity_def contentIdentityKey_def)

end
