(* ===== verification/AssetVocabulary.thy ===== *)
theory AssetVocabulary
  imports SubjectIdentity
begin

text \<open>
  \<open>packages/asset-protocolization/src\<close>: the identifiers of definitions (\<open>identifiers.ts\<close>) and of instances
  (\<open>case/case-identifiers.ts\<close>), and canonical instants (\<open>freshness.ts\<close>).
\<close>

subsection \<open>Identifiers\<close>

definition ASSET_IDENTIFIER_MAX_LENGTH :: nat where
  "ASSET_IDENTIFIER_MAX_LENGTH = 128"

text \<open>\<^verbatim>\<open>/^[a-z0-9]+(?:-[a-z0-9]+)*(?:\.[a-z0-9]+(?:-[a-z0-9]+)*)*$/\<close>\<close>

definition DOTTED_TOKEN_PATTERN :: "string \<Rightarrow> bool" where
  "DOTTED_TOKEN_PATTERN s \<longleftrightarrow>
     list_all (\<lambda>part. list_all (\<lambda>w. w \<noteq> [] \<and> list_all alnum_char w) (split_on CHR ''-'' part)) (split_on CHR ''.'' s)"

definition isDottedToken :: "string \<Rightarrow> bool" where
  "isDottedToken s \<longleftrightarrow> length s \<le> ASSET_IDENTIFIER_MAX_LENGTH \<and> DOTTED_TOKEN_PATTERN s"

definition isValidAssetProfileId :: "string \<Rightarrow> bool" where "isValidAssetProfileId s \<longleftrightarrow> isDottedToken s"
definition isValidAssetRequirementId :: "string \<Rightarrow> bool" where "isValidAssetRequirementId s \<longleftrightarrow> isDottedToken s"
definition isValidAssetCategoryId :: "string \<Rightarrow> bool" where "isValidAssetCategoryId s \<longleftrightarrow> isDottedToken s"
definition isValidAssetVerificationCheckId :: "string \<Rightarrow> bool" where
  "isValidAssetVerificationCheckId s \<longleftrightarrow> isDottedToken s"
definition isValidAssetRequirementConditionId :: "string \<Rightarrow> bool" where
  "isValidAssetRequirementConditionId s \<longleftrightarrow> isDottedToken s"

text \<open>\<^verbatim>\<open>/^\d+\.\d+\.\d+$/\<close>\<close>

definition ASSET_PROFILE_VERSION_PATTERN :: "string \<Rightarrow> bool" where
  "ASSET_PROFILE_VERSION_PATTERN s \<longleftrightarrow>
     (case split_on CHR ''.'' s of
        [a, b, c] \<Rightarrow> list_all (\<lambda>w. w \<noteq> [] \<and> list_all is_digit w) [a, b, c]
      | _ \<Rightarrow> False)"

definition isValidAssetProfileVersion :: "string \<Rightarrow> bool" where
  "isValidAssetProfileVersion s \<longleftrightarrow> length s \<le> ASSET_IDENTIFIER_MAX_LENGTH \<and> ASSET_PROFILE_VERSION_PATTERN s"

definition assetProfileVersionKey :: "string \<Rightarrow> string \<Rightarrow> string" where
  "assetProfileVersionKey profileId version = profileId @ ''@'' @ version"

text \<open>\<^verbatim>\<open>/^[A-Za-z0-9][A-Za-z0-9._:-]*$/\<close>\<close>

definition instance_head :: "char \<Rightarrow> bool" where
  "instance_head c \<longleftrightarrow> is_lower c \<or> is_upper c \<or> is_digit c"

fun INSTANCE_IDENTIFIER_PATTERN :: "string \<Rightarrow> bool" where
  "INSTANCE_IDENTIFIER_PATTERN [] = False"
| "INSTANCE_IDENTIFIER_PATTERN (c # s) = (instance_head c \<and> list_all (\<lambda>d. instance_head d \<or> d \<in> set ''._:-'') s)"

definition isProtocolizationInstanceIdentifier :: "string \<Rightarrow> bool" where
  "isProtocolizationInstanceIdentifier s \<longleftrightarrow> length s \<le> ASSET_IDENTIFIER_MAX_LENGTH \<and> INSTANCE_IDENTIFIER_PATTERN s"

definition isValidProtocolizationCaseId :: "string \<Rightarrow> bool" where
  "isValidProtocolizationCaseId s \<longleftrightarrow> isProtocolizationInstanceIdentifier s"
definition isValidProtocolizationMaterialId :: "string \<Rightarrow> bool" where
  "isValidProtocolizationMaterialId s \<longleftrightarrow> isProtocolizationInstanceIdentifier s"

text \<open>White space and the control ranges.\<close>

definition unsafe_char :: "char \<Rightarrow> bool" where
  "unsafe_char c \<longleftrightarrow> is_space c \<or> char_code c \<le> 31 \<or> (127 \<le> char_code c \<and> char_code c \<le> 159)"

definition isValidProtocolizationTenantId :: "string \<Rightarrow> bool" where
  "isValidProtocolizationTenantId s \<longleftrightarrow>
     s \<noteq> [] \<and> length s \<le> ASSET_IDENTIFIER_MAX_LENGTH \<and> list_all (\<lambda>c. \<not> unsafe_char c) s"

record ProtocolizationProfileRef =
  pr_profileId :: string
  pr_profileVersion :: string

definition isValidProtocolizationProfileRef :: "ProtocolizationProfileRef \<Rightarrow> bool" where
  "isValidProtocolizationProfileRef r \<longleftrightarrow>
     isValidAssetProfileId (pr_profileId r) \<and> isValidAssetProfileVersion (pr_profileVersion r)"

definition protocolizationProfileRefsEqual :: "ProtocolizationProfileRef \<Rightarrow> ProtocolizationProfileRef \<Rightarrow> bool" where
  "protocolizationProfileRefsEqual l r \<longleftrightarrow>
     pr_profileId l = pr_profileId r \<and> pr_profileVersion l = pr_profileVersion r"

subsection \<open>Instants\<close>

text \<open>\<^verbatim>\<open>/^\d{4}-\d{2}-\d{2}T\d{2}:\d{2}:\d{2}(?:\.\d{1,9})?Z$/\<close>\<close>

definition UTC_DATE_TIME_PATTERN :: "string \<Rightarrow> bool" where
  "UTC_DATE_TIME_PATTERN s \<longleftrightarrow>
     ISO8601_UTC_PATTERN (take 19 s @ ''Z'') \<and>
     (let r = drop 19 s; digits = butlast (tl r) in
      r = ''Z'' \<or>
      (3 \<le> length r \<and> length r \<le> 11 \<and> hd r = CHR ''.'' \<and> last r = CHR ''Z'' \<and> list_all is_digit digits))"

definition isValidUtcDateTime :: "host_env \<Rightarrow> string \<Rightarrow> bool" where
  "isValidUtcDateTime env s \<longleftrightarrow>
     UTC_DATE_TIME_PATTERN s \<and>
     (case date_parse (e_date env) s of None \<Rightarrow> False | Some t \<Rightarrow> take 19 (iso_millis t) = take 19 s)"

definition isNotBefore :: "host_env \<Rightarrow> string \<Rightarrow> string \<Rightarrow> bool" where
  "isNotBefore env later earlier \<longleftrightarrow> date_le (date_parse (e_date env) earlier) (date_parse (e_date env) later)"

lemma valid_instant: "isValidUtcDateTime env s \<Longrightarrow> \<exists>t. date_parse (e_date env) s = Some t"
  by (auto simp: isValidUtcDateTime_def split: option.splits)

lemma isNotBefore_refl: "isValidUtcDateTime env s \<Longrightarrow> isNotBefore env s s"
  using valid_instant by (fastforce simp: isNotBefore_def)

lemma isNotBefore_trans: "isNotBefore env c b \<Longrightarrow> isNotBefore env b a \<Longrightarrow> isNotBefore env c a"
  by (auto simp: isNotBefore_def date_le_def split: option.splits)

lemma tenant_no_newline: "isValidProtocolizationTenantId s \<Longrightarrow> CHR 10 \<notin> set s"
  by (auto simp: isValidProtocolizationTenantId_def list_all_iff unsafe_char_def is_space_def char_code_def)

lemma instance_no_newline: "isProtocolizationInstanceIdentifier s \<Longrightarrow> CHR 10 \<notin> set s"
  by (cases s)
     (auto simp: isProtocolizationInstanceIdentifier_def list_all_iff instance_head_def is_lower_def is_upper_def is_digit_def
        char_code_def)

subsection \<open>Separators\<close>

lemma append_sep_inj:
  assumes "c \<notin> set a" "c \<notin> set b" "a @ c # x = b @ c # y"
  shows "a = b \<and> x = y"
  using assms
proof (induction a arbitrary: b)
  case Nil
  then show ?case by (cases b) auto
next
  case (Cons h a)
  then show ?case by (cases b) auto
qed

lemma split_on_chars: "x \<in> set s \<Longrightarrow> x = c \<or> (\<exists>w \<in> set (split_on c s). x \<in> set w)"
  by (induction c s rule: split_on.induct) (auto split: list.splits)

lemma dotted_char:
  assumes "isDottedToken s" "x \<in> set s"
  shows "alnum_char x \<or> x = CHR ''-'' \<or> x = CHR ''.''"
proof (rule ccontr)
  assume other: "\<not> (alnum_char x \<or> x = CHR ''-'' \<or> x = CHR ''.'')"
  with split_on_chars [OF assms(2), of "CHR ''.''"] obtain u where u: "u \<in> set (split_on CHR ''.'' s)" "x \<in> set u" by auto
  with split_on_chars [OF u(2), of "CHR ''-''"] other obtain w where w: "w \<in> set (split_on CHR ''-'' u)" "x \<in> set w" by auto
  have "list_all alnum_char w"
    using assms(1) u(1) w(1) by (auto simp: isDottedToken_def DOTTED_TOKEN_PATTERN_def list_all_iff)
  with w(2) other show False by (auto simp: list_all_iff)
qed

lemma dotted_no_at: "isDottedToken s \<Longrightarrow> CHR ''@'' \<notin> set s"
  using dotted_char [of s "CHR ''@''"] by (auto simp: alnum_char_def is_lower_def is_digit_def char_code_def)

lemma dotted_no_newline: "isDottedToken s \<Longrightarrow> CHR 10 \<notin> set s"
  using dotted_char [of s "CHR 10"] by (auto simp: alnum_char_def is_lower_def is_digit_def char_code_def)

end
