(* ===== verification/AssetProfiles.thy ===== *)
theory AssetProfiles
  imports AssetVocabulary
begin

text \<open>
  Profiles, \<open>packages/asset-protocolization/src\<close>: jurisdictions (\<open>jurisdiction.ts\<close>), metadata (\<open>metadata.ts\<close>),
  freshness (\<open>freshness.ts\<close>), constraints (\<open>constraints.ts\<close>), requirements (\<open>requirements.ts\<close>), the document
  (\<open>profile.ts\<close>), its validation (\<open>profile-validation.ts\<close>) and its selectors (\<open>profile-selectors.ts\<close>).

  The values are those of the interfaces: the kind of a requirement is the constructor of its shape, its obligation
  is one of the four, an absent optional member is \<open>None\<close>.  The members of the other enumerations are texts, checked
  against the enumeration as in the code.  The branches on values of other types (no object, foreign members, members
  present but \<open>undefined\<close>, no arrays) have no value here.
\<close>

subsection \<open>Issues\<close>

definition report_if :: "bool \<Rightarrow> 'code \<Rightarrow> string \<Rightarrow> ('code \<times> string) list" where
  "report_if c code path = (if c then [(code, path)] else [])"

definition indexed :: "string \<Rightarrow> nat \<Rightarrow> string" where
  "indexed name i = name @ ''['' @ show_nat i @ '']''"

lemma report_if_nil [simp]: "report_if c code path = [] \<longleftrightarrow> \<not> c"
  by (simp add: report_if_def)

definition isSafeInteger :: "int \<Rightarrow> bool" where
  "isSafeInteger n \<longleftrightarrow> \<bar>n\<bar> \<le> 9007199254740991"

definition isPositiveInteger :: "int \<Rightarrow> bool" where
  "isPositiveInteger n \<longleftrightarrow> isSafeInteger n \<and> 0 < n"

subsection \<open>Jurisdictions, metadata, freshness\<close>

record JurisdictionRef =
  jd_code :: string
  jd_label :: "string option"

definition JURISDICTION_CODE_MAX_LENGTH :: nat where
  "JURISDICTION_CODE_MAX_LENGTH = 32"

definition GLOBAL_JURISDICTION_CODE :: string where
  "GLOBAL_JURISDICTION_CODE = ''GLOBAL''"

text \<open>\<^verbatim>\<open>/^[A-Z][A-Z0-9]*(?:-[A-Z0-9]+)*$/\<close>\<close>

definition JURISDICTION_CODE_PATTERN :: "string \<Rightarrow> bool" where
  "JURISDICTION_CODE_PATTERN s \<longleftrightarrow>
     s \<noteq> [] \<and> is_upper (hd s) \<and>
     list_all (\<lambda>w. w \<noteq> [] \<and> list_all (\<lambda>c. is_upper c \<or> is_digit c) w) (split_on CHR ''-'' s)"

definition isValidJurisdictionCode :: "string \<Rightarrow> bool" where
  "isValidJurisdictionCode s \<longleftrightarrow> length s \<le> JURISDICTION_CODE_MAX_LENGTH \<and> JURISDICTION_CODE_PATTERN s"

definition isValidJurisdictionRef :: "JurisdictionRef \<Rightarrow> bool" where
  "isValidJurisdictionRef r \<longleftrightarrow>
     isValidJurisdictionCode (jd_code r) \<and> (case jd_label r of None \<Rightarrow> True | Some l \<Rightarrow> trim l \<noteq> [])"

definition jurisdictionRefsEqual :: "JurisdictionRef \<Rightarrow> JurisdictionRef \<Rightarrow> bool" where
  "jurisdictionRefsEqual l r \<longleftrightarrow> jd_code l = jd_code r"

record AssetProfileMetadata =
  md_label :: "string option"
  md_description :: "string option"
  md_reason :: "string option"

definition isValidAssetProfileMetadata :: "AssetProfileMetadata \<Rightarrow> bool" where
  "isValidAssetProfileMetadata m \<longleftrightarrow>
     list_all (\<lambda>f. case f of None \<Rightarrow> True | Some t \<Rightarrow> trim t \<noteq> []) [md_label m, md_description m, md_reason m]"

record AssetFreshnessConstraint =
  fr_maxAgeSeconds :: "int option"
  fr_observedAfter :: "string option"
  fr_mustNotBeExpired :: "bool option"

definition isValidAssetFreshnessConstraint :: "host_env \<Rightarrow> AssetFreshnessConstraint \<Rightarrow> bool" where
  "isValidAssetFreshnessConstraint env f \<longleftrightarrow>
     (case fr_maxAgeSeconds f of None \<Rightarrow> True | Some n \<Rightarrow> isPositiveInteger n) \<and>
     (case fr_observedAfter f of None \<Rightarrow> True | Some t \<Rightarrow> isValidUtcDateTime env t) \<and>
     (fr_maxAgeSeconds f \<noteq> None \<or> fr_observedAfter f \<noteq> None \<or> fr_mustNotBeExpired f = Some True)"

subsection \<open>Enumerations of the protocol\<close>

definition ClaimTypes :: "string list" where
  "ClaimTypes =
     [''Identity'', ''Capability'', ''Authorization'', ''Certification'', ''Role'', ''Credential'', ''Governance'', ''Origin'',
      ''Authorship'', ''Derivation'', ''Custom'']"
definition EvidenceTypes :: "string list" where
  "EvidenceTypes =
     [''Document'', ''Contract'', ''Certification'', ''BoardResolution'', ''AuditRecord'', ''Attestation'', ''AIOutput'',
      ''SystemRecord'', ''Custom'']"
definition AttestationTypes :: "string list" where
  "AttestationTypes = [''Human'', ''Organization'', ''System'', ''AI'', ''Remote'', ''Governance'']"
definition PrincipalKinds :: "string list" where
  "PrincipalKinds =
     [''Human'', ''Organization'', ''System'', ''AI'', ''Runtime'', ''GovernanceBody'', ''MarketMaker'', ''CredentialIssuer'',
      ''Unknown'']"
definition RegistryTypes :: "string list" where
  "RegistryTypes =
     [''ClaimRegistry'', ''EvidenceRegistry'', ''AttestationRegistry'', ''ProofRegistry'', ''PrincipalRegistry'',
      ''CredentialRegistry'', ''PolicyRegistry'', ''AuthorityRegistry'', ''DecisionRegistry'', ''Custom'']"
definition RegistryEntryTypes :: "string list" where
  "RegistryEntryTypes =
     [''Claim'', ''Evidence'', ''Assertion'', ''Attestation'', ''Verification'', ''Standing'', ''Capability'', ''Authority'',
      ''Decision'', ''Principal'', ''Proof'', ''Credential'', ''Policy'', ''Custom'']"
definition RegistryAuthorityLevels :: "string list" where
  "RegistryAuthorityLevels =
     [''SelfDeclared'', ''OrganizationDeclared'', ''GovernanceDeclared'', ''ProtocolRecognized'', ''Federated'', ''External'',
      ''Unknown'']"
definition CredentialTypes :: "string list" where
  "CredentialTypes =
     [''IdentityCredential'', ''CapabilityCredential'', ''CertificationCredential'', ''AuthorizationCredential'',
      ''RoleCredential'', ''GovernanceCredential'', ''ProfessionalCredential'', ''OrganizationCredential'',
      ''SystemCredential'', ''Custom'']"
definition CredentialStatuses :: "string list" where
  "CredentialStatuses =
     [''Draft'', ''Issued'', ''Active'', ''Suspended'', ''Revoked'', ''Expired'', ''Superseded'', ''Archived'', ''Unknown'']"

subsection \<open>Constraints\<close>

definition isNonEmptyUniqueMemberList :: "string list \<Rightarrow> string list \<Rightarrow> bool" where
  "isNonEmptyUniqueMemberList xs members \<longleftrightarrow> xs \<noteq> [] \<and> list_all (\<lambda>x. x \<in> set members) xs \<and> distinct xs"

definition isNonEmptyUniqueTokenList :: "string list \<Rightarrow> bool" where
  "isNonEmptyUniqueTokenList xs \<longleftrightarrow> xs \<noteq> [] \<and> list_all (\<lambda>x. trim x \<noteq> []) xs \<and> distinct xs"

definition isNonEmptyUniqueJurisdictionList :: "JurisdictionRef list \<Rightarrow> bool" where
  "isNonEmptyUniqueJurisdictionList xs \<longleftrightarrow> xs \<noteq> [] \<and> list_all isValidJurisdictionRef xs \<and> distinct (map jd_code xs)"

definition if_present :: "('a \<Rightarrow> bool) \<Rightarrow> 'a option \<Rightarrow> bool" where
  "if_present P x \<longleftrightarrow> (case x of None \<Rightarrow> True | Some v \<Rightarrow> P v)"

record AssetRegistryConstraint =
  rc_acceptedTypes :: "string list option"
  rc_acceptedAuthorityLevels :: "string list option"
  rc_acceptedEntryTypes :: "string list option"
  rc_acceptedNamespaces :: "string list option"

definition isValidAssetRegistryConstraint :: "AssetRegistryConstraint \<Rightarrow> bool" where
  "isValidAssetRegistryConstraint r \<longleftrightarrow>
     if_present (\<lambda>xs. isNonEmptyUniqueMemberList xs RegistryTypes) (rc_acceptedTypes r) \<and>
     if_present (\<lambda>xs. isNonEmptyUniqueMemberList xs RegistryAuthorityLevels) (rc_acceptedAuthorityLevels r) \<and>
     if_present (\<lambda>xs. isNonEmptyUniqueMemberList xs RegistryEntryTypes) (rc_acceptedEntryTypes r) \<and>
     if_present isNonEmptyUniqueTokenList (rc_acceptedNamespaces r) \<and>
     (rc_acceptedTypes r \<noteq> None \<or> rc_acceptedAuthorityLevels r \<noteq> None \<or> rc_acceptedEntryTypes r \<noteq> None \<or>
      rc_acceptedNamespaces r \<noteq> None)"

record AssetCredentialConstraint =
  cc_acceptedTypes :: "string list"
  cc_acceptedStatuses :: "string list option"
  cc_acceptedIssuerNamespaces :: "string list option"
  cc_freshness :: "AssetFreshnessConstraint option"

definition isValidAssetCredentialConstraint :: "host_env \<Rightarrow> AssetCredentialConstraint \<Rightarrow> bool" where
  "isValidAssetCredentialConstraint env c \<longleftrightarrow>
     isNonEmptyUniqueMemberList (cc_acceptedTypes c) CredentialTypes \<and>
     if_present (\<lambda>xs. isNonEmptyUniqueMemberList xs CredentialStatuses) (cc_acceptedStatuses c) \<and>
     if_present isNonEmptyUniqueTokenList (cc_acceptedIssuerNamespaces c) \<and>
     if_present (isValidAssetFreshnessConstraint env) (cc_freshness c)"

record AssetAttesterConstraint =
  at_acceptedPrincipalKinds :: "string list option"
  at_credential :: "AssetCredentialConstraint option"
  at_acceptedRoles :: "string list option"
  at_jurisdictions :: "JurisdictionRef list option"

definition isValidAssetAttesterConstraint :: "host_env \<Rightarrow> AssetAttesterConstraint \<Rightarrow> bool" where
  "isValidAssetAttesterConstraint env a \<longleftrightarrow>
     if_present (\<lambda>xs. isNonEmptyUniqueMemberList xs PrincipalKinds) (at_acceptedPrincipalKinds a) \<and>
     if_present (isValidAssetCredentialConstraint env) (at_credential a) \<and>
     if_present isNonEmptyUniqueTokenList (at_acceptedRoles a) \<and>
     if_present isNonEmptyUniqueJurisdictionList (at_jurisdictions a) \<and>
     (at_acceptedPrincipalKinds a \<noteq> None \<or> at_credential a \<noteq> None \<or> at_acceptedRoles a \<noteq> None \<or> at_jurisdictions a \<noteq> None)"

subsection \<open>Requirements\<close>

datatype AssetRequirementKind =
  IdentityRequirement | DeclarationRequirement | EvidenceRequirement | VerificationRequirement | AttestationRequirement

datatype AssetRequirementObligation = Required | Optional | Conditional | NotRequired

definition AssetRequirementSatisfactions :: "string list" where
  "AssetRequirementSatisfactions = [''All'', ''Any'']"

definition AssetIdentityStrategies :: "string list" where
  "AssetIdentityStrategies = [''ContentIdentity'', ''ExternalReference'', ''RegistryEntry'']"

record AssetRequirementCondition =
  ac_conditionId :: string
  ac_dependsOn :: "string list option"

record AssetIdentityRequirement =
  ai_acceptedStrategies :: "string list"
  ai_satisfaction :: string
  ai_registry :: "AssetRegistryConstraint option"
  ai_freshness :: "AssetFreshnessConstraint option"

record AssetDeclarationRequirement =
  ad_claimType :: string
  ad_claimSubtype :: "string option"
  ad_minimumCount :: "int option"

record AssetEvidenceRequirement =
  ae_acceptedTypes :: "string list"
  ae_acceptedSubtypes :: "string list option"
  ae_minimumCount :: "int option"
  ae_registry :: "AssetRegistryConstraint option"
  ae_credential :: "AssetCredentialConstraint option"
  ae_freshness :: "AssetFreshnessConstraint option"

record AssetVerificationRequirement =
  av_checkIds :: "string list"
  av_satisfaction :: string
  av_freshness :: "AssetFreshnessConstraint option"

record AssetAttestationRequirement =
  aa_acceptedTypes :: "string list"
  aa_attester :: "AssetAttesterConstraint option"
  aa_minimumCount :: "int option"
  aa_freshness :: "AssetFreshnessConstraint option"

datatype RequirementShape =
    IdentityShape AssetIdentityRequirement
  | DeclarationShape AssetDeclarationRequirement
  | EvidenceShape AssetEvidenceRequirement
  | VerificationShape AssetVerificationRequirement
  | AttestationShape AssetAttestationRequirement

fun shape_kind :: "RequirementShape \<Rightarrow> AssetRequirementKind" where
  "shape_kind (IdentityShape r) = IdentityRequirement"
| "shape_kind (DeclarationShape r) = DeclarationRequirement"
| "shape_kind (EvidenceShape r) = EvidenceRequirement"
| "shape_kind (VerificationShape r) = VerificationRequirement"
| "shape_kind (AttestationShape r) = AttestationRequirement"

record AssetRequirement =
  ar_id :: string
  ar_obligation :: AssetRequirementObligation
  ar_condition :: "AssetRequirementCondition option"
  ar_jurisdictions :: "JurisdictionRef list option"
  ar_metadata :: "AssetProfileMetadata option"
  ar_shape :: RequirementShape

definition ar_kind :: "AssetRequirement \<Rightarrow> AssetRequirementKind" where
  "ar_kind q = shape_kind (ar_shape q)"

subsection \<open>The document\<close>

definition ASSET_PROFILE_SCHEMA_VERSION :: string where
  "ASSET_PROFILE_SCHEMA_VERSION = ''aoc-asset-profile/1''"

definition AssetProfileScopes :: "string list" where
  "AssetProfileScopes = [''Global'']"

record AssetProfile =
  ap_schemaVersion :: string
  ap_profileId :: string
  ap_version :: string
  ap_assetCategory :: string
  ap_scope :: string
  ap_jurisdictions :: "JurisdictionRef list option"
  ap_requirements :: "AssetRequirement list"
  ap_metadata :: "AssetProfileMetadata option"

definition profile_ref_of :: "AssetProfile \<Rightarrow> ProtocolizationProfileRef" where
  "profile_ref_of p = \<lparr>pr_profileId = ap_profileId p, pr_profileVersion = ap_version p\<rparr>"

subsection \<open>Validation of a requirement\<close>

datatype ProfileIssue =
    UNSUPPORTED_PROFILE_SCHEMA_VERSION | INVALID_PROFILE_ID | INVALID_PROFILE_VERSION | INVALID_ASSET_CATEGORY
  | INVALID_PROFILE_SCOPE | INVALID_PROFILE_JURISDICTIONS | INVALID_PROFILE_METADATA | EMPTY_REQUIREMENT_SET
  | INVALID_REQUIREMENT_ID | DUPLICATE_REQUIREMENT_ID | MISSING_REQUIREMENT_CONDITION | UNEXPECTED_REQUIREMENT_CONDITION
  | INVALID_REQUIREMENT_CONDITION | UNKNOWN_REQUIREMENT_REFERENCE | SELF_REFERENTIAL_REQUIREMENT_CONDITION
  | INVALID_REQUIREMENT_JURISDICTIONS | REQUIREMENT_JURISDICTION_OUTSIDE_PROFILE_SCOPE | INVALID_REQUIREMENT_METADATA
  | INVALID_IDENTITY_STRATEGIES | INVALID_REQUIREMENT_SATISFACTION | INVALID_REGISTRY_CONSTRAINT
  | UNEXPECTED_REGISTRY_CONSTRAINT | INVALID_CLAIM_TYPE | MISSING_CLAIM_SUBTYPE | INVALID_CLAIM_SUBTYPE
  | INVALID_MINIMUM_COUNT | INVALID_EVIDENCE_TYPES | INVALID_EVIDENCE_SUBTYPES | MISSING_EVIDENCE_SUBTYPES
  | INVALID_CREDENTIAL_CONSTRAINT | INVALID_FRESHNESS_CONSTRAINT | INVALID_VERIFICATION_CHECK_IDS
  | INVALID_ATTESTATION_TYPES | INVALID_ATTESTER_CONSTRAINT | CONTRADICTORY_IDENTITY_STRATEGY
  | CONTRADICTORY_OBLIGATION_MINIMUM_COUNT | CONTRADICTORY_CONDITION_DEPENDENCY

type_synonym profile_issue = "ProfileIssue \<times> string"

definition validateFreshness :: "host_env \<Rightarrow> AssetFreshnessConstraint option \<Rightarrow> string \<Rightarrow> profile_issue list" where
  "validateFreshness env f path =
     report_if (\<not> if_present (isValidAssetFreshnessConstraint env) f) INVALID_FRESHNESS_CONSTRAINT (path @ ''.freshness'')"

definition validateMinimumCount :: "int option \<Rightarrow> AssetRequirementObligation \<Rightarrow> string \<Rightarrow> profile_issue list" where
  "validateMinimumCount n obligation path =
     (case n of
        None \<Rightarrow> []
      | Some k \<Rightarrow>
          if \<not> isPositiveInteger k then [(INVALID_MINIMUM_COUNT, path @ ''.minimumCount'')]
          else report_if (obligation = NotRequired) CONTRADICTORY_OBLIGATION_MINIMUM_COUNT (path @ ''.minimumCount''))"

definition validateSatisfaction :: "string \<Rightarrow> string \<Rightarrow> profile_issue list" where
  "validateSatisfaction s path =
     report_if (s \<notin> set AssetRequirementSatisfactions) INVALID_REQUIREMENT_SATISFACTION (path @ ''.satisfaction'')"

fun validateRequirementShape ::
  "host_env \<Rightarrow> AssetRequirementObligation \<Rightarrow> RequirementShape \<Rightarrow> string \<Rightarrow> profile_issue list" where
  "validateRequirementShape env obligation (IdentityShape r) path =
     report_if (\<not> isNonEmptyUniqueMemberList (ai_acceptedStrategies r) AssetIdentityStrategies)
       INVALID_IDENTITY_STRATEGIES (path @ ''.acceptedStrategies'') @
     validateSatisfaction (ai_satisfaction r) path @
     (case ai_registry r of
        None \<Rightarrow> []
      | Some c \<Rightarrow>
          if \<not> isValidAssetRegistryConstraint c then [(INVALID_REGISTRY_CONSTRAINT, path @ ''.registry'')]
          else report_if (''RegistryEntry'' \<notin> set (ai_acceptedStrategies r)) UNEXPECTED_REGISTRY_CONSTRAINT (path @ ''.registry'')) @
     validateFreshness env (ai_freshness r) path"
| "validateRequirementShape env obligation (DeclarationShape r) path =
     report_if (ad_claimType r \<notin> set ClaimTypes) INVALID_CLAIM_TYPE (path @ ''.claimType'') @
     (case ad_claimSubtype r of
        Some t \<Rightarrow> report_if (trim t = []) INVALID_CLAIM_SUBTYPE (path @ ''.claimSubtype'')
      | None \<Rightarrow> report_if (ad_claimType r \<in> set ClaimTypes \<and> ad_claimType r = ''Custom'') MISSING_CLAIM_SUBTYPE
                  (path @ ''.claimSubtype'')) @
     validateMinimumCount (ad_minimumCount r) obligation path"
| "validateRequirementShape env obligation (EvidenceShape r) path =
     (let typesValid = isNonEmptyUniqueMemberList (ae_acceptedTypes r) EvidenceTypes in
      report_if (\<not> typesValid) INVALID_EVIDENCE_TYPES (path @ ''.acceptedTypes'') @
      (case ae_acceptedSubtypes r of
         Some ts \<Rightarrow> report_if (\<not> isNonEmptyUniqueTokenList ts) INVALID_EVIDENCE_SUBTYPES (path @ ''.acceptedSubtypes'')
       | None \<Rightarrow> report_if (typesValid \<and> ''Custom'' \<in> set (ae_acceptedTypes r)) MISSING_EVIDENCE_SUBTYPES
                   (path @ ''.acceptedSubtypes'')) @
      validateMinimumCount (ae_minimumCount r) obligation path @
      report_if (\<not> if_present isValidAssetRegistryConstraint (ae_registry r)) INVALID_REGISTRY_CONSTRAINT (path @ ''.registry'') @
      report_if (\<not> if_present (isValidAssetCredentialConstraint env) (ae_credential r)) INVALID_CREDENTIAL_CONSTRAINT
        (path @ ''.credential'') @
      validateFreshness env (ae_freshness r) path)"
| "validateRequirementShape env obligation (VerificationShape r) path =
     report_if (\<not> (av_checkIds r \<noteq> [] \<and> list_all isValidAssetVerificationCheckId (av_checkIds r) \<and> distinct (av_checkIds r)))
       INVALID_VERIFICATION_CHECK_IDS (path @ ''.checkIds'') @
     validateSatisfaction (av_satisfaction r) path @
     validateFreshness env (av_freshness r) path"
| "validateRequirementShape env obligation (AttestationShape r) path =
     report_if (\<not> isNonEmptyUniqueMemberList (aa_acceptedTypes r) AttestationTypes) INVALID_ATTESTATION_TYPES
       (path @ ''.acceptedTypes'') @
     report_if (\<not> if_present (isValidAssetAttesterConstraint env) (aa_attester r)) INVALID_ATTESTER_CONSTRAINT
       (path @ ''.attester'') @
     validateMinimumCount (aa_minimumCount r) obligation path @
     validateFreshness env (aa_freshness r) path"

definition condition_issues :: "AssetRequirement \<Rightarrow> string \<Rightarrow> profile_issue list" where
  "condition_issues q path =
     (case ar_condition q of
        Some c \<Rightarrow>
          report_if (ar_obligation q \<noteq> Conditional) UNEXPECTED_REQUIREMENT_CONDITION (path @ ''.condition'') @
          report_if (\<not> isValidAssetRequirementConditionId (ac_conditionId c)) INVALID_REQUIREMENT_CONDITION
            (path @ ''.condition.conditionId'') @
          report_if (\<not> if_present (\<lambda>ds. ds \<noteq> [] \<and> list_all isValidAssetRequirementId ds \<and> distinct ds) (ac_dependsOn c))
            INVALID_REQUIREMENT_CONDITION (path @ ''.condition.dependsOn'')
      | None \<Rightarrow> report_if (ar_obligation q = Conditional) MISSING_REQUIREMENT_CONDITION (path @ ''.condition''))"

fun requirement_issues :: "host_env \<Rightarrow> nat \<Rightarrow> string list \<Rightarrow> AssetRequirement list \<Rightarrow> profile_issue list" where
  "requirement_issues env i seen [] = []"
| "requirement_issues env i seen (q # qs) =
     (let path = indexed ''requirements'' i; named = isValidAssetRequirementId (ar_id q) in
      (if \<not> named then [(INVALID_REQUIREMENT_ID, path @ ''.id'')]
       else report_if (ar_id q \<in> set seen) DUPLICATE_REQUIREMENT_ID (path @ ''.id'')) @
      condition_issues q path @
      report_if (\<not> if_present isNonEmptyUniqueJurisdictionList (ar_jurisdictions q)) INVALID_REQUIREMENT_JURISDICTIONS
        (path @ ''.jurisdictions'') @
      report_if (\<not> if_present isValidAssetProfileMetadata (ar_metadata q)) INVALID_REQUIREMENT_METADATA (path @ ''.metadata'') @
      validateRequirementShape env (ar_obligation q) (ar_shape q) path @
      requirement_issues env (Suc i) (if named then ar_id q # seen else seen) qs)"

subsection \<open>Rules across requirements\<close>

text \<open>\<open>xs.forEach((x, index) => ...)\<close>, the issues of each element in order.\<close>

fun each_issue :: "(nat \<Rightarrow> 'a \<Rightarrow> profile_issue list) \<Rightarrow> nat \<Rightarrow> 'a list \<Rightarrow> profile_issue list" where
  "each_issue f i [] = []"
| "each_issue f i (x # xs) = f i x @ each_issue f (Suc i) xs"

definition dependencies :: "AssetRequirement \<Rightarrow> string list" where
  "dependencies q = (case ar_condition q of None \<Rightarrow> [] | Some c \<Rightarrow> (case ac_dependsOn c of None \<Rightarrow> [] | Some ds \<Rightarrow> ds))"

definition dependency_issue :: "AssetRequirement list \<Rightarrow> AssetRequirement \<Rightarrow> string \<Rightarrow> nat \<Rightarrow> string \<Rightarrow> profile_issue list" where
  "dependency_issue qs q path j reference =
     (let referencePath = path @ ''.condition.'' @ indexed ''dependsOn'' j in
      if reference = ar_id q then [(SELF_REFERENTIAL_REQUIREMENT_CONDITION, referencePath)]
      else if reference \<notin> ar_id ` set qs then [(UNKNOWN_REQUIREMENT_REFERENCE, referencePath)]
      else report_if (reference \<in> ar_id ` set (filter (\<lambda>r. ar_obligation r = NotRequired) qs))
             CONTRADICTORY_CONDITION_DEPENDENCY referencePath)"

text \<open>The strategies without which a required identity requirement cannot be satisfied.\<close>

fun mandated_by :: "AssetRequirement \<Rightarrow> string list" where
  "mandated_by q =
     (case ar_shape q of
        IdentityShape r \<Rightarrow>
          if ar_obligation q = Required \<and> (ai_satisfaction r = ''All'' \<or> length (ai_acceptedStrategies r) = 1)
          then ai_acceptedStrategies r else []
      | _ \<Rightarrow> [])"

definition mandatedStrategies :: "AssetRequirement list \<Rightarrow> string list" where
  "mandatedStrategies qs = concat (map mandated_by qs)"

definition contradictory_strategy :: "AssetRequirement list \<Rightarrow> AssetRequirement \<Rightarrow> bool" where
  "contradictory_strategy qs q \<longleftrightarrow>
     (case ar_shape q of
        IdentityShape r \<Rightarrow>
          ar_obligation q = NotRequired \<and> list_ex (\<lambda>s. s \<in> set (mandatedStrategies qs)) (ai_acceptedStrategies r)
      | _ \<Rightarrow> False)"

definition validateCrossRequirementRules :: "AssetRequirement list \<Rightarrow> profile_issue list" where
  "validateCrossRequirementRules qs =
     each_issue (\<lambda>i q. each_issue (dependency_issue qs q (indexed ''requirements'' i)) 0 (dependencies q)) 0 qs @
     each_issue (\<lambda>i q. report_if (contradictory_strategy qs q) CONTRADICTORY_IDENTITY_STRATEGY
                  (indexed ''requirements'' i @ ''.acceptedStrategies'')) 0 qs"

definition scope_issues :: "string list \<Rightarrow> nat \<Rightarrow> AssetRequirement \<Rightarrow> profile_issue list" where
  "scope_issues codes i q =
     (case ar_jurisdictions q of
        None \<Rightarrow> []
      | Some js \<Rightarrow>
          if \<not> isNonEmptyUniqueJurisdictionList js then []
          else each_issue (\<lambda>k j. report_if (jd_code j \<notin> set codes) REQUIREMENT_JURISDICTION_OUTSIDE_PROFILE_SCOPE
                 (indexed ''requirements'' i @ ''.'' @ indexed ''jurisdictions'' k)) 0 js)"

definition validateJurisdictionScope :: "JurisdictionRef list option \<Rightarrow> AssetRequirement list \<Rightarrow> profile_issue list" where
  "validateJurisdictionScope profileJurisdictions qs =
     (case profileJurisdictions of
        None \<Rightarrow> []
      | Some js \<Rightarrow>
          if \<not> isNonEmptyUniqueJurisdictionList js \<or> GLOBAL_JURISDICTION_CODE \<in> set (map jd_code js) then []
          else each_issue (scope_issues (map jd_code js)) 0 qs)"

definition validateAssetProfile :: "host_env \<Rightarrow> AssetProfile \<Rightarrow> profile_issue list" where
  "validateAssetProfile env p =
     report_if (ap_schemaVersion p \<noteq> ASSET_PROFILE_SCHEMA_VERSION) UNSUPPORTED_PROFILE_SCHEMA_VERSION ''schemaVersion'' @
     report_if (\<not> isValidAssetProfileId (ap_profileId p)) INVALID_PROFILE_ID ''profileId'' @
     report_if (\<not> isValidAssetProfileVersion (ap_version p)) INVALID_PROFILE_VERSION ''version'' @
     report_if (\<not> isValidAssetCategoryId (ap_assetCategory p)) INVALID_ASSET_CATEGORY ''assetCategory'' @
     report_if (ap_scope p \<notin> set AssetProfileScopes) INVALID_PROFILE_SCOPE ''scope'' @
     report_if (\<not> if_present isNonEmptyUniqueJurisdictionList (ap_jurisdictions p)) INVALID_PROFILE_JURISDICTIONS ''jurisdictions'' @
     report_if (\<not> if_present isValidAssetProfileMetadata (ap_metadata p)) INVALID_PROFILE_METADATA ''metadata'' @
     (if ap_requirements p = [] then [(EMPTY_REQUIREMENT_SET, ''requirements'')]
      else requirement_issues env 0 [] (ap_requirements p) @
           validateCrossRequirementRules (ap_requirements p) @
           validateJurisdictionScope (ap_jurisdictions p) (ap_requirements p))"

definition isValidAssetProfile :: "host_env \<Rightarrow> AssetProfile \<Rightarrow> bool" where
  "isValidAssetProfile env p \<longleftrightarrow> validateAssetProfile env p = []"

definition isAssetRequirementOfKind :: "AssetRequirement \<Rightarrow> AssetRequirementKind \<Rightarrow> bool" where
  "isAssetRequirementOfKind q k \<longleftrightarrow> ar_kind q = k"

subsection \<open>Selectors\<close>

record AssetRequirementFilter =
  qf_kind :: "AssetRequirementKind option"
  qf_obligation :: "AssetRequirementObligation option"
  qf_jurisdictionCode :: "string option"

definition appliesInJurisdiction :: "AssetRequirement \<Rightarrow> string \<Rightarrow> bool" where
  "appliesInJurisdiction q code \<longleftrightarrow>
     if_present (list_ex (\<lambda>j. jd_code j = code \<or> jd_code j = GLOBAL_JURISDICTION_CODE)) (ar_jurisdictions q)"

definition getAssetProfileRequirement :: "AssetProfile \<Rightarrow> string \<Rightarrow> AssetRequirement option" where
  "getAssetProfileRequirement p i = find (\<lambda>q. ar_id q = i) (ap_requirements p)"

definition hasAssetProfileRequirement :: "AssetProfile \<Rightarrow> string \<Rightarrow> bool" where
  "hasAssetProfileRequirement p i \<longleftrightarrow> getAssetProfileRequirement p i \<noteq> None"

definition listAssetProfileRequirements :: "AssetProfile \<Rightarrow> AssetRequirementFilter \<Rightarrow> AssetRequirement list" where
  "listAssetProfileRequirements p f =
     filter (\<lambda>q. if_present (\<lambda>k. ar_kind q = k) (qf_kind f) \<and> if_present (\<lambda>ob. ar_obligation q = ob) (qf_obligation f) \<and>
               if_present (appliesInJurisdiction q) (qf_jurisdictionCode f))
       (ap_requirements p)"

definition listAssetProfileReadinessRequirements :: "AssetProfile \<Rightarrow> string option \<Rightarrow> AssetRequirement list" where
  "listAssetProfileReadinessRequirements p code =
     filter (\<lambda>q. (ar_obligation q = Required \<or> ar_obligation q = Conditional) \<and> if_present (appliesInJurisdiction q) code)
       (ap_requirements p)"

subsection \<open>What validation accepts\<close>

lemma each_issue_nil:
  assumes "\<And>i x. f i x = [] \<longleftrightarrow> P x"
  shows "each_issue f i xs = [] \<longleftrightarrow> list_all P xs"
  using assms by (induction f i xs rule: each_issue.induct) simp_all

definition freshness_ok :: "host_env \<Rightarrow> AssetFreshnessConstraint option \<Rightarrow> bool" where
  "freshness_ok env f \<longleftrightarrow> if_present (isValidAssetFreshnessConstraint env) f"

definition count_ok :: "AssetRequirementObligation \<Rightarrow> int option \<Rightarrow> bool" where
  "count_ok obligation n \<longleftrightarrow> (n \<noteq> None \<longrightarrow> obligation \<noteq> NotRequired) \<and> if_present isPositiveInteger n"

fun shape_ok :: "host_env \<Rightarrow> AssetRequirementObligation \<Rightarrow> RequirementShape \<Rightarrow> bool" where
  "shape_ok env obligation (IdentityShape r) \<longleftrightarrow>
     isNonEmptyUniqueMemberList (ai_acceptedStrategies r) AssetIdentityStrategies \<and>
     ai_satisfaction r \<in> set AssetRequirementSatisfactions \<and>
     if_present isValidAssetRegistryConstraint (ai_registry r) \<and>
     (ai_registry r \<noteq> None \<longrightarrow> ''RegistryEntry'' \<in> set (ai_acceptedStrategies r)) \<and> freshness_ok env (ai_freshness r)"
| "shape_ok env obligation (DeclarationShape r) \<longleftrightarrow>
     ad_claimType r \<in> set ClaimTypes \<and> if_present (\<lambda>t. trim t \<noteq> []) (ad_claimSubtype r) \<and>
     (ad_claimType r = ''Custom'' \<longrightarrow> ad_claimSubtype r \<noteq> None) \<and> count_ok obligation (ad_minimumCount r)"
| "shape_ok env obligation (EvidenceShape r) \<longleftrightarrow>
     isNonEmptyUniqueMemberList (ae_acceptedTypes r) EvidenceTypes \<and>
     if_present isNonEmptyUniqueTokenList (ae_acceptedSubtypes r) \<and>
     (''Custom'' \<in> set (ae_acceptedTypes r) \<longrightarrow> ae_acceptedSubtypes r \<noteq> None) \<and> count_ok obligation (ae_minimumCount r) \<and>
     if_present isValidAssetRegistryConstraint (ae_registry r) \<and>
     if_present (isValidAssetCredentialConstraint env) (ae_credential r) \<and> freshness_ok env (ae_freshness r)"
| "shape_ok env obligation (VerificationShape r) \<longleftrightarrow>
     av_checkIds r \<noteq> [] \<and> list_all isValidAssetVerificationCheckId (av_checkIds r) \<and> distinct (av_checkIds r) \<and>
     av_satisfaction r \<in> set AssetRequirementSatisfactions \<and> freshness_ok env (av_freshness r)"
| "shape_ok env obligation (AttestationShape r) \<longleftrightarrow>
     isNonEmptyUniqueMemberList (aa_acceptedTypes r) AttestationTypes \<and>
     if_present (isValidAssetAttesterConstraint env) (aa_attester r) \<and> count_ok obligation (aa_minimumCount r) \<and>
     freshness_ok env (aa_freshness r)"

lemma if_present_simps [simp]: "if_present P None" "if_present P (Some v) = P v"
  by (simp_all add: if_present_def)

lemma minimum_nil [simp]: "validateMinimumCount n obligation path = [] \<longleftrightarrow> count_ok obligation n"
  by (auto simp: validateMinimumCount_def count_ok_def split: option.split)

lemma shape_nil [simp]: "validateRequirementShape env obligation shape path = [] \<longleftrightarrow> shape_ok env obligation shape"
  by (cases shape)
     (auto simp: validateFreshness_def freshness_ok_def validateSatisfaction_def Let_def split: option.splits)

text \<open>A condition is given exactly with the obligation \<open>Conditional\<close>.\<close>

definition condition_ok :: "AssetRequirement \<Rightarrow> bool" where
  "condition_ok q \<longleftrightarrow>
     (ar_condition q \<noteq> None \<longleftrightarrow> ar_obligation q = Conditional) \<and>
     if_present (\<lambda>c. isValidAssetRequirementConditionId (ac_conditionId c) \<and>
       if_present (\<lambda>ds. ds \<noteq> [] \<and> list_all isValidAssetRequirementId ds \<and> distinct ds) (ac_dependsOn c)) (ar_condition q)"

lemma condition_nil [simp]: "condition_issues q path = [] \<longleftrightarrow> condition_ok q"
  by (auto simp: condition_issues_def condition_ok_def split: option.split)

definition requirement_ok :: "host_env \<Rightarrow> AssetRequirement \<Rightarrow> bool" where
  "requirement_ok env q \<longleftrightarrow>
     isValidAssetRequirementId (ar_id q) \<and> condition_ok q \<and> if_present isNonEmptyUniqueJurisdictionList (ar_jurisdictions q) \<and>
     if_present isValidAssetProfileMetadata (ar_metadata q) \<and> shape_ok env (ar_obligation q) (ar_shape q)"

lemma requirement_issues_nil:
  "requirement_issues env i seen qs = [] \<longleftrightarrow>
     list_all (requirement_ok env) qs \<and> distinct (map ar_id qs) \<and> set seen \<inter> ar_id ` set qs = {}"
  by (induction env i seen qs rule: requirement_issues.induct) (auto simp: Let_def requirement_ok_def)

text \<open>A dependency is another requirement of the profile that may be needed.\<close>

definition depends_on_needed :: "AssetRequirement list \<Rightarrow> AssetRequirement \<Rightarrow> bool" where
  "depends_on_needed qs q \<longleftrightarrow>
     (\<forall>d \<in> set (dependencies q). d \<noteq> ar_id q \<and> (\<exists>r \<in> set qs. ar_id r = d) \<and> (\<forall>r \<in> set qs. ar_id r = d \<longrightarrow> ar_obligation r \<noteq> NotRequired))"

definition within_scope :: "JurisdictionRef list option \<Rightarrow> AssetRequirement \<Rightarrow> bool" where
  "within_scope js q \<longleftrightarrow>
     (\<forall>ps rs. js = Some ps \<longrightarrow> GLOBAL_JURISDICTION_CODE \<notin> set (map jd_code ps) \<longrightarrow> ar_jurisdictions q = Some rs \<longrightarrow>
        set (map jd_code rs) \<subseteq> set (map jd_code ps))"

definition profile_head_ok :: "AssetProfile \<Rightarrow> bool" where
  "profile_head_ok p \<longleftrightarrow>
     ap_schemaVersion p = ASSET_PROFILE_SCHEMA_VERSION \<and> isValidAssetProfileId (ap_profileId p) \<and>
     isValidAssetProfileVersion (ap_version p) \<and> isValidAssetCategoryId (ap_assetCategory p) \<and>
     ap_scope p \<in> set AssetProfileScopes \<and> if_present isNonEmptyUniqueJurisdictionList (ap_jurisdictions p) \<and>
     if_present isValidAssetProfileMetadata (ap_metadata p)"

definition profile_wf :: "host_env \<Rightarrow> AssetProfile \<Rightarrow> bool" where
  "profile_wf env p \<longleftrightarrow>
     profile_head_ok p \<and> ap_requirements p \<noteq> [] \<and> list_all (requirement_ok env) (ap_requirements p) \<and>
     distinct (map ar_id (ap_requirements p)) \<and>
     (\<forall>q \<in> set (ap_requirements p). depends_on_needed (ap_requirements p) q \<and>
        \<not> contradictory_strategy (ap_requirements p) q \<and> within_scope (ap_jurisdictions p) q)"

lemma cross_nil:
  "validateCrossRequirementRules qs = [] \<longleftrightarrow>
     (\<forall>q \<in> set qs. depends_on_needed qs q \<and> \<not> contradictory_strategy qs q)"
proof -
  have dep: "dependency_issue qs q path j d = [] \<longleftrightarrow>
      d \<noteq> ar_id q \<and> (\<exists>r \<in> set qs. ar_id r = d) \<and> (\<forall>r \<in> set qs. ar_id r = d \<longrightarrow> ar_obligation r \<noteq> NotRequired)" for q path j d
    by (auto simp: dependency_issue_def Let_def image_iff)
  have deps: "each_issue (dependency_issue qs q path) j ds = [] \<longleftrightarrow>
      (\<forall>d \<in> set ds. d \<noteq> ar_id q \<and> (\<exists>r \<in> set qs. ar_id r = d) \<and> (\<forall>r \<in> set qs. ar_id r = d \<longrightarrow> ar_obligation r \<noteq> NotRequired))"
    for q path j ds
    using each_issue_nil [OF dep] by (simp add: list_all_iff)
  have "each_issue (\<lambda>i q. each_issue (dependency_issue qs q (indexed ''requirements'' i)) 0 (dependencies q)) 0 qs = [] \<longleftrightarrow>
      list_all (depends_on_needed qs) qs"
    by (rule each_issue_nil) (simp add: deps depends_on_needed_def)
  moreover have "each_issue (\<lambda>i q. report_if (contradictory_strategy qs q) CONTRADICTORY_IDENTITY_STRATEGY
      (indexed ''requirements'' i @ ''.acceptedStrategies'')) 0 qs = [] \<longleftrightarrow> list_all (\<lambda>q. \<not> contradictory_strategy qs q) qs"
    by (rule each_issue_nil) simp
  ultimately show ?thesis
    by (auto simp: validateCrossRequirementRules_def list_all_iff)
qed

lemma scope_nil:
  assumes "if_present isNonEmptyUniqueJurisdictionList js"
    "\<forall>q \<in> set qs. if_present isNonEmptyUniqueJurisdictionList (ar_jurisdictions q)"
  shows "validateJurisdictionScope js qs = [] \<longleftrightarrow> (\<forall>q \<in> set qs. within_scope js q)"
proof (cases js)
  case (Some ps)
  have one: "scope_issues codes i q = [] \<longleftrightarrow>
      (\<forall>rs. ar_jurisdictions q = Some rs \<longrightarrow> isNonEmptyUniqueJurisdictionList rs \<longrightarrow> set (map jd_code rs) \<subseteq> set codes)" for codes i q
    using each_issue_nil [of "\<lambda>k j. report_if (jd_code j \<notin> set codes) REQUIREMENT_JURISDICTION_OUTSIDE_PROFILE_SCOPE
        (indexed ''requirements'' i @ ''.'' @ indexed ''jurisdictions'' k)" "\<lambda>j. jd_code j \<in> set codes"]
    by (auto simp: scope_issues_def list_all_iff split: option.split)
  have "each_issue (scope_issues (map jd_code ps)) 0 qs = [] \<longleftrightarrow>
      list_all (\<lambda>q. \<forall>rs. ar_jurisdictions q = Some rs \<longrightarrow> isNonEmptyUniqueJurisdictionList rs \<longrightarrow>
        set (map jd_code rs) \<subseteq> set (map jd_code ps)) qs"
    by (rule each_issue_nil) (rule one)
  moreover have "isNonEmptyUniqueJurisdictionList rs" if "q \<in> set qs" "ar_jurisdictions q = Some rs" for q rs
    using assms(2) that by force
  ultimately show ?thesis
    using assms(1) Some by (auto simp: validateJurisdictionScope_def within_scope_def list_all_iff)
qed (simp add: validateJurisdictionScope_def within_scope_def)

lemma validate_profile: "validateAssetProfile env p = [] \<longleftrightarrow> profile_wf env p"
proof (cases "profile_head_ok p \<and> list_all (requirement_ok env) (ap_requirements p)")
  case True
  then have "\<forall>q \<in> set (ap_requirements p). if_present isNonEmptyUniqueJurisdictionList (ar_jurisdictions q)"
    by (auto simp: list_all_iff requirement_ok_def)
  with scope_nil [OF _ this] True show ?thesis
    by (auto simp: validateAssetProfile_def profile_wf_def profile_head_ok_def requirement_issues_nil cross_nil)
qed (auto simp: validateAssetProfile_def profile_wf_def profile_head_ok_def requirement_issues_nil)

end
