(* ===== verification/AssetCase.thy ===== *)
theory AssetCase
  imports AssetProfiles
begin

text \<open>
  The data of \<open>packages/asset-protocolization/src/case/\<close>: the states of a case and their transitions
  (\<open>case-state.ts\<close>), material (\<open>case-material.ts\<close>), subjects (\<open>case-subject.ts\<close>), the aggregate
  (\<open>protocolization-case.ts\<close>), and its validation (\<open>case-validation.ts\<close>).

  The values are those of the interfaces: an absent optional member is \<open>None\<close>, a revision is an integer.  The
  branches of the validator on values of other types (no object, foreign members, members present but
  \<open>undefined\<close>, no arrays) have no value here.
\<close>

subsection \<open>States\<close>

datatype ProtocolizationCaseState = Draft | Active | Cancelled

datatype MaterialStatus = Pending | MaterialPresent

datatype ConditionStatus = NotApplicable | Unresolved

fun ALLOWED_TRANSITIONS :: "ProtocolizationCaseState \<Rightarrow> ProtocolizationCaseState list" where
  "ALLOWED_TRANSITIONS Draft = [Active, Cancelled]"
| "ALLOWED_TRANSITIONS Active = [Cancelled]"
| "ALLOWED_TRANSITIONS Cancelled = []"

definition INITIAL_PROTOCOLIZATION_CASE_STATE :: ProtocolizationCaseState where
  "INITIAL_PROTOCOLIZATION_CASE_STATE = Draft"

definition isAllowedProtocolizationCaseTransition :: "ProtocolizationCaseState \<Rightarrow> ProtocolizationCaseState \<Rightarrow> bool" where
  "isAllowedProtocolizationCaseTransition s t \<longleftrightarrow> t \<in> set (ALLOWED_TRANSITIONS s)"

definition acceptsProtocolizationMaterial :: "ProtocolizationCaseState \<Rightarrow> bool" where
  "acceptsProtocolizationMaterial s \<longleftrightarrow> s = Draft \<or> s = Active"

subsection \<open>Material\<close>

text \<open>Of a registry entry the members that are read: the identifiers here, the others by the verification checks.\<close>

record CanonicalRegistryEntryRef =
  rg_id :: string
  rg_registryId :: string
  rg_registryType :: string
  rg_namespace :: string
  rg_authorityLevel :: string
  rg_entryType :: string

datatype MaterialPayload =
    ContentIdentityPayload ContentIdentity
  | ExternalReferencePayload SovereignExternalReference
  | RegistryEntryPayload CanonicalRegistryEntryRef
  | DeclarationPayload string
  | EvidencePayload string
  | VerificationPayload string
  | AttestationPayload string
  | CredentialPayload string

datatype ProtocolizationMaterialKind =
    ContentIdentityMaterial | ExternalReferenceMaterial | RegistryEntryMaterial | DeclarationMaterial | EvidenceMaterial
  | VerificationMaterial | AttestationMaterial | CredentialMaterial

fun payload_kind :: "MaterialPayload \<Rightarrow> ProtocolizationMaterialKind" where
  "payload_kind (ContentIdentityPayload x) = ContentIdentityMaterial"
| "payload_kind (ExternalReferencePayload x) = ExternalReferenceMaterial"
| "payload_kind (RegistryEntryPayload x) = RegistryEntryMaterial"
| "payload_kind (DeclarationPayload x) = DeclarationMaterial"
| "payload_kind (EvidencePayload x) = EvidenceMaterial"
| "payload_kind (VerificationPayload x) = VerificationMaterial"
| "payload_kind (AttestationPayload x) = AttestationMaterial"
| "payload_kind (CredentialPayload x) = CredentialMaterial"

record CaseMaterial =
  zm_materialId :: string
  zm_requirementIds :: "string list"
  zm_addedAt :: string
  zm_correlationId :: "string option"
  zm_payload :: MaterialPayload

definition isCanonicalRecordId :: "string \<Rightarrow> bool" where
  "isCanonicalRecordId s \<longleftrightarrow> trim s \<noteq> [] \<and> length s \<le> ASSET_IDENTIFIER_MAX_LENGTH"

definition isUsableRegistryEntryRef :: "CanonicalRegistryEntryRef \<Rightarrow> bool" where
  "isUsableRegistryEntryRef r \<longleftrightarrow> isCanonicalRecordId (rg_id r) \<and> isCanonicalRecordId (rg_registryId r)"

definition isValidRequirementIdList :: "string list \<Rightarrow> bool" where
  "isValidRequirementIdList ids \<longleftrightarrow> ids \<noteq> [] \<and> list_all isValidAssetRequirementId ids \<and> distinct ids"

fun isValidMaterialPayload :: "MaterialPayload \<Rightarrow> bool" where
  "isValidMaterialPayload (ContentIdentityPayload c) = isValidContentIdentity c"
| "isValidMaterialPayload (ExternalReferencePayload r) = isValidSovereignExternalReference r"
| "isValidMaterialPayload (RegistryEntryPayload r) = isUsableRegistryEntryRef r"
| "isValidMaterialPayload (DeclarationPayload s) = isCanonicalRecordId s"
| "isValidMaterialPayload (EvidencePayload s) = isCanonicalRecordId s"
| "isValidMaterialPayload (VerificationPayload s) = isCanonicalRecordId s"
| "isValidMaterialPayload (AttestationPayload s) = isCanonicalRecordId s"
| "isValidMaterialPayload (CredentialPayload s) = isCanonicalRecordId s"

definition isValidProtocolizationCaseMaterial :: "host_env \<Rightarrow> CaseMaterial \<Rightarrow> bool" where
  "isValidProtocolizationCaseMaterial env m \<longleftrightarrow>
     isValidProtocolizationMaterialId (zm_materialId m) \<and> isValidRequirementIdList (zm_requirementIds m) \<and>
     isValidUtcDateTime env (zm_addedAt m) \<and>
     (case zm_correlationId m of None \<Rightarrow> True | Some c \<Rightarrow> isCanonicalRecordId c) \<and>
     isValidMaterialPayload (zm_payload m)"

subsection \<open>The aggregate\<close>

record ProtocolizationCaseSubject =
  su_subjectRef :: SovereignSubjectRef
  su_contentIdentity :: "ContentIdentity option"

definition isValidProtocolizationCaseSubject :: "ProtocolizationCaseSubject \<Rightarrow> bool" where
  "isValidProtocolizationCaseSubject s \<longleftrightarrow>
     isValidSovereignSubjectRef (su_subjectRef s) \<and>
     (case su_contentIdentity s of None \<Rightarrow> True | Some c \<Rightarrow> isValidContentIdentity c)"

record CaseRequirementState =
  zr_requirementId :: string
  zr_materialStatus :: MaterialStatus
  zr_materialIds :: "string list"
  zr_firstMaterialAt :: "string option"
  zr_updatedAt :: string

record ProtocolizationCase =
  zc_schemaVersion :: string
  zc_caseId :: string
  zc_tenantId :: string
  zc_profile :: ProtocolizationProfileRef
  zc_subject :: ProtocolizationCaseSubject
  zc_state :: ProtocolizationCaseState
  zc_revision :: int
  zc_requirementStates :: "CaseRequirementState list"
  zc_materials :: "CaseMaterial list"
  zc_createdAt :: string
  zc_updatedAt :: string
  zc_activatedAt :: "string option"
  zc_cancelledAt :: "string option"
  zc_cancellationReason :: "string option"
  zc_correlationId :: "string option"

definition PROTOCOLIZATION_CASE_SCHEMA_VERSION :: string where
  "PROTOCOLIZATION_CASE_SCHEMA_VERSION = ''aoc-protocolization-case/1''"

subsection \<open>Validation\<close>

datatype CaseIssue =
    UNSUPPORTED_CASE_SCHEMA_VERSION | INVALID_CASE_ID | INVALID_CASE_TENANT_ID | INVALID_CASE_PROFILE_REF
  | INVALID_CASE_SUBJECT | INVALID_CASE_REVISION | INVALID_CASE_CREATED_AT | INVALID_CASE_UPDATED_AT
  | CASE_UPDATED_BEFORE_CREATED | INVALID_CASE_ACTIVATED_AT | UNEXPECTED_CASE_ACTIVATED_AT | INVALID_CASE_CANCELLED_AT
  | MISSING_CASE_CANCELLED_AT | UNEXPECTED_CASE_CANCELLED_AT | INVALID_CASE_CANCELLATION_REASON
  | UNEXPECTED_CASE_CANCELLATION_REASON | INVALID_CASE_CORRELATION_ID | INVALID_CASE_REQUIREMENT_STATE
  | DUPLICATE_CASE_REQUIREMENT_STATE_ID | CASE_REQUIREMENT_STATUS_MISMATCH | CASE_REQUIREMENT_STATE_MATERIAL_UNKNOWN
  | CASE_REQUIREMENT_STATE_MATERIAL_NOT_CORRELATED | INVALID_CASE_MATERIAL | DUPLICATE_CASE_MATERIAL_ID
  | CASE_MATERIAL_REQUIREMENT_NOT_PROJECTED | CASE_MATERIAL_NOT_CORRELATED | CASE_MATERIAL_ADDED_BEFORE_CREATED
  | CASE_REQUIREMENT_NOT_IN_PROFILE | CASE_PROFILE_REF_MISMATCH

type_synonym issue = "CaseIssue \<times> string"

definition MAX_CANCELLATION_REASON_LENGTH :: nat where
  "MAX_CANCELLATION_REASON_LENGTH = 1024"

definition isValidRequirementStateShape :: "host_env \<Rightarrow> CaseRequirementState \<Rightarrow> bool" where
  "isValidRequirementStateShape env s \<longleftrightarrow>
     zr_requirementId s \<noteq> [] \<and> list_all (\<lambda>i. i \<noteq> []) (zr_materialIds s) \<and> distinct (zr_materialIds s) \<and>
     isValidUtcDateTime env (zr_updatedAt s) \<and>
     (case zr_firstMaterialAt s of None \<Rightarrow> True | Some t \<Rightarrow> isValidUtcDateTime env t) \<and>
     (zr_materialIds s \<noteq> [] \<longleftrightarrow> zr_firstMaterialAt s \<noteq> None)"

definition header_issues :: "host_env \<Rightarrow> ProtocolizationCase \<Rightarrow> issue list" where
  "header_issues env c =
     report_if (zc_schemaVersion c \<noteq> PROTOCOLIZATION_CASE_SCHEMA_VERSION) UNSUPPORTED_CASE_SCHEMA_VERSION ''schemaVersion'' @
     report_if (\<not> isValidProtocolizationCaseId (zc_caseId c)) INVALID_CASE_ID ''caseId'' @
     report_if (\<not> isValidProtocolizationTenantId (zc_tenantId c)) INVALID_CASE_TENANT_ID ''tenantId'' @
     report_if (\<not> isValidProtocolizationProfileRef (zc_profile c)) INVALID_CASE_PROFILE_REF ''profile'' @
     report_if (\<not> isValidProtocolizationCaseSubject (zc_subject c)) INVALID_CASE_SUBJECT ''subject'' @
     report_if (\<not> isSafeInteger (zc_revision c) \<or> zc_revision c < 1) INVALID_CASE_REVISION ''revision''"

definition time_issues :: "host_env \<Rightarrow> ProtocolizationCase \<Rightarrow> issue list" where
  "time_issues env c =
     (let createdAtValid = isValidUtcDateTime env (zc_createdAt c); updatedAtValid = isValidUtcDateTime env (zc_updatedAt c);
          cancelled = (zc_state c = Cancelled)
      in report_if (\<not> createdAtValid) INVALID_CASE_CREATED_AT ''createdAt'' @
         report_if (\<not> updatedAtValid) INVALID_CASE_UPDATED_AT ''updatedAt'' @
         report_if (createdAtValid \<and> updatedAtValid \<and> \<not> isNotBefore env (zc_updatedAt c) (zc_createdAt c))
           CASE_UPDATED_BEFORE_CREATED ''updatedAt'' @
         (case zc_activatedAt c of
            None \<Rightarrow> []
          | Some t \<Rightarrow>
              report_if (\<not> isValidUtcDateTime env t \<or> createdAtValid \<and> \<not> isNotBefore env t (zc_createdAt c))
                INVALID_CASE_ACTIVATED_AT ''activatedAt'') @
         report_if (zc_state c = Active \<and> zc_activatedAt c = None) INVALID_CASE_ACTIVATED_AT ''activatedAt'' @
         report_if (zc_state c = Draft \<and> zc_activatedAt c \<noteq> None) UNEXPECTED_CASE_ACTIVATED_AT ''activatedAt'' @
         (case zc_cancelledAt c of
            None \<Rightarrow> report_if cancelled MISSING_CASE_CANCELLED_AT ''cancelledAt''
          | Some t \<Rightarrow>
              report_if (\<not> cancelled) UNEXPECTED_CASE_CANCELLED_AT ''cancelledAt'' @
              report_if (\<not> isValidUtcDateTime env t \<or> createdAtValid \<and> \<not> isNotBefore env t (zc_createdAt c))
                INVALID_CASE_CANCELLED_AT ''cancelledAt'') @
         (case zc_cancellationReason c of
            None \<Rightarrow> []
          | Some r \<Rightarrow>
              report_if (\<not> cancelled) UNEXPECTED_CASE_CANCELLATION_REASON ''cancellationReason'' @
              report_if (trim r = [] \<or> MAX_CANCELLATION_REASON_LENGTH < length r)
                INVALID_CASE_CANCELLATION_REASON ''cancellationReason'') @
         (case zc_correlationId c of
            None \<Rightarrow> []
          | Some i \<Rightarrow> report_if (trim i = []) INVALID_CASE_CORRELATION_ID ''correlationId''))"

text \<open>The loop over the materials, with the identifiers it has met.\<close>

fun material_issues :: "host_env \<Rightarrow> string \<Rightarrow> nat \<Rightarrow> string list \<Rightarrow> CaseMaterial list \<Rightarrow> issue list" where
  "material_issues env createdAt i seen [] = []"
| "material_issues env createdAt i seen (m # ms) =
     (if \<not> isValidProtocolizationCaseMaterial env m
      then (INVALID_CASE_MATERIAL, indexed ''materials'' i) # material_issues env createdAt (Suc i) seen ms
      else report_if (zm_materialId m \<in> set seen) DUPLICATE_CASE_MATERIAL_ID (indexed ''materials'' i @ ''.materialId'') @
           report_if (isValidUtcDateTime env createdAt \<and> \<not> isNotBefore env (zm_addedAt m) createdAt)
             CASE_MATERIAL_ADDED_BEFORE_CREATED (indexed ''materials'' i @ ''.addedAt'') @
           material_issues env createdAt (Suc i) (zm_materialId m # seen) ms)"

text \<open>\<open>materialIds\<close> and \<open>materialRequirements\<close>, of the valid materials; a later one replaces an earlier one.\<close>

definition materialRequirements :: "host_env \<Rightarrow> CaseMaterial list \<Rightarrow> (string \<times> string list) list" where
  "materialRequirements env ms =
     rev (map (\<lambda>m. (zm_materialId m, zm_requirementIds m)) (filter (isValidProtocolizationCaseMaterial env) ms))"

definition link_issue :: "(string \<times> string list) list \<Rightarrow> string \<Rightarrow> string \<Rightarrow> string \<Rightarrow> issue list" where
  "link_issue reqs path requirementId materialId =
     (case map_of reqs materialId of
        None \<Rightarrow> [(CASE_REQUIREMENT_STATE_MATERIAL_UNKNOWN, path @ ''.materialIds'')]
      | Some ids \<Rightarrow>
          report_if (requirementId \<notin> set ids) CASE_REQUIREMENT_STATE_MATERIAL_NOT_CORRELATED (path @ ''.materialIds''))"

fun state_issues ::
  "host_env \<Rightarrow> (string \<times> string list) list \<Rightarrow> nat \<Rightarrow> string list \<Rightarrow> CaseRequirementState list \<Rightarrow> issue list" where
  "state_issues env reqs i seen [] = []"
| "state_issues env reqs i seen (s # ss) =
     (let path = indexed ''requirementStates'' i in
      if \<not> isValidRequirementStateShape env s
      then (INVALID_CASE_REQUIREMENT_STATE, path) # state_issues env reqs (Suc i) seen ss
      else report_if (zr_requirementId s \<in> set seen) DUPLICATE_CASE_REQUIREMENT_STATE_ID (path @ ''.requirementId'') @
           report_if (zr_materialStatus s \<noteq> (if zr_materialIds s = [] then Pending else MaterialPresent))
             CASE_REQUIREMENT_STATUS_MISMATCH (path @ ''.materialStatus'') @
           concat (map (link_issue reqs path (zr_requirementId s)) (zr_materialIds s)) @
           state_issues env reqs (Suc i) (zr_requirementId s # seen) ss)"

text \<open>The way back: every requirement of a material is projected, and its projection names the material.\<close>

definition projected_ids :: "host_env \<Rightarrow> CaseRequirementState list \<Rightarrow> string list" where
  "projected_ids env ss = map zr_requirementId (filter (isValidRequirementStateShape env) ss)"

definition back_link_issue ::
  "host_env \<Rightarrow> CaseRequirementState list \<Rightarrow> string \<Rightarrow> string \<Rightarrow> string \<Rightarrow> issue list" where
  "back_link_issue env ss path materialId requirementId =
     (if requirementId \<notin> set (projected_ids env ss)
      then [(CASE_MATERIAL_REQUIREMENT_NOT_PROJECTED, path @ ''.requirementIds'')]
      else report_if (case find (\<lambda>s. zr_requirementId s = requirementId) ss of
                        None \<Rightarrow> True | Some s \<Rightarrow> materialId \<notin> set (zr_materialIds s))
             CASE_MATERIAL_NOT_CORRELATED (path @ ''.requirementIds''))"

fun back_link_issues :: "host_env \<Rightarrow> CaseRequirementState list \<Rightarrow> nat \<Rightarrow> CaseMaterial list \<Rightarrow> issue list" where
  "back_link_issues env ss i [] = []"
| "back_link_issues env ss i (m # ms) =
     (if isValidProtocolizationCaseMaterial env m
      then concat (map (back_link_issue env ss (indexed ''materials'' i) (zm_materialId m)) (zm_requirementIds m))
      else []) @ back_link_issues env ss (Suc i) ms"

definition profile_issues :: "host_env \<Rightarrow> ProtocolizationCase \<Rightarrow> AssetProfile option \<Rightarrow> issue list" where
  "profile_issues env c profile =
     (case profile of
        None \<Rightarrow> []
      | Some p \<Rightarrow>
          if \<not> isValidProtocolizationProfileRef (zc_profile c) \<or>
             \<not> protocolizationProfileRefsEqual (zc_profile c) (profile_ref_of p)
          then [(CASE_PROFILE_REF_MISMATCH, ''profile'')]
          else concat (map (\<lambda>i. report_if (i \<notin> ar_id ` set (ap_requirements p)) CASE_REQUIREMENT_NOT_IN_PROFILE ''requirementStates'')
                 (remdups (projected_ids env (zc_requirementStates c)))))"

definition validateProtocolizationCase :: "host_env \<Rightarrow> ProtocolizationCase \<Rightarrow> AssetProfile option \<Rightarrow> issue list" where
  "validateProtocolizationCase env c profile =
     header_issues env c @ time_issues env c @
     material_issues env (zc_createdAt c) 0 [] (zc_materials c) @
     state_issues env (materialRequirements env (zc_materials c)) 0 [] (zc_requirementStates c) @
     back_link_issues env (zc_requirementStates c) 0 (zc_materials c) @
     profile_issues env c profile"

definition isValidProtocolizationCase :: "host_env \<Rightarrow> ProtocolizationCase \<Rightarrow> AssetProfile option \<Rightarrow> bool" where
  "isValidProtocolizationCase env c profile \<longleftrightarrow> validateProtocolizationCase env c profile = []"

subsection \<open>What validation accepts\<close>

definition header_ok :: "ProtocolizationCase \<Rightarrow> bool" where
  "header_ok c \<longleftrightarrow>
     zc_schemaVersion c = PROTOCOLIZATION_CASE_SCHEMA_VERSION \<and> isValidProtocolizationCaseId (zc_caseId c) \<and>
     isValidProtocolizationTenantId (zc_tenantId c) \<and> isValidProtocolizationProfileRef (zc_profile c) \<and>
     isValidProtocolizationCaseSubject (zc_subject c) \<and> isSafeInteger (zc_revision c) \<and> 1 \<le> zc_revision c"

definition times_ok :: "host_env \<Rightarrow> ProtocolizationCase \<Rightarrow> bool" where
  "times_ok env c \<longleftrightarrow>
     isValidUtcDateTime env (zc_createdAt c) \<and> isValidUtcDateTime env (zc_updatedAt c) \<and>
     isNotBefore env (zc_updatedAt c) (zc_createdAt c) \<and>
     (\<forall>t. zc_activatedAt c = Some t \<longrightarrow> isValidUtcDateTime env t \<and> isNotBefore env t (zc_createdAt c)) \<and>
     (zc_state c = Active \<longrightarrow> zc_activatedAt c \<noteq> None) \<and> (zc_state c = Draft \<longrightarrow> zc_activatedAt c = None) \<and>
     (zc_cancelledAt c \<noteq> None \<longleftrightarrow> zc_state c = Cancelled) \<and>
     (\<forall>t. zc_cancelledAt c = Some t \<longrightarrow> isValidUtcDateTime env t \<and> isNotBefore env t (zc_createdAt c)) \<and>
     (\<forall>r. zc_cancellationReason c = Some r \<longrightarrow>
        zc_state c = Cancelled \<and> trim r \<noteq> [] \<and> length r \<le> MAX_CANCELLATION_REASON_LENGTH) \<and>
     (\<forall>i. zc_correlationId c = Some i \<longrightarrow> trim i \<noteq> [])"

definition materials_ok :: "host_env \<Rightarrow> ProtocolizationCase \<Rightarrow> bool" where
  "materials_ok env c \<longleftrightarrow>
     list_all (\<lambda>m. isValidProtocolizationCaseMaterial env m \<and> isNotBefore env (zm_addedAt m) (zc_createdAt c)) (zc_materials c) \<and>
     distinct (map zm_materialId (zc_materials c))"

definition states_ok :: "host_env \<Rightarrow> ProtocolizationCase \<Rightarrow> bool" where
  "states_ok env c \<longleftrightarrow>
     list_all (\<lambda>s. isValidRequirementStateShape env s \<and> (zr_materialStatus s = Pending \<longleftrightarrow> zr_materialIds s = []))
       (zc_requirementStates c) \<and>
     distinct (map zr_requirementId (zc_requirementStates c))"

text \<open>The two views of the correlation of material and requirements agree.\<close>

definition links_agree :: "ProtocolizationCase \<Rightarrow> bool" where
  "links_agree c \<longleftrightarrow>
     (\<forall>s \<in> set (zc_requirementStates c). \<forall>i \<in> set (zr_materialIds s).
        \<exists>m \<in> set (zc_materials c). zm_materialId m = i \<and> zr_requirementId s \<in> set (zm_requirementIds m)) \<and>
     (\<forall>m \<in> set (zc_materials c). \<forall>q \<in> set (zm_requirementIds m).
        \<exists>s \<in> set (zc_requirementStates c). zr_requirementId s = q \<and> zm_materialId m \<in> set (zr_materialIds s))"

definition case_wf :: "host_env \<Rightarrow> ProtocolizationCase \<Rightarrow> bool" where
  "case_wf env c \<longleftrightarrow> header_ok c \<and> times_ok env c \<and> materials_ok env c \<and> states_ok env c \<and> links_agree c"

lemma header_issues_nil: "header_issues env c = [] \<longleftrightarrow> header_ok c"
  by (auto simp: header_issues_def header_ok_def)

lemma time_issues_nil: "time_issues env c = [] \<longleftrightarrow> times_ok env c"
  unfolding time_issues_def times_ok_def Let_def
  by (cases "zc_activatedAt c"; cases "zc_cancelledAt c"; cases "zc_cancellationReason c"; cases "zc_correlationId c")
     (auto simp: not_le not_less)

lemma material_issues_nil:
  "material_issues env createdAt i seen ms = [] \<longleftrightarrow>
     list_all (\<lambda>m. isValidProtocolizationCaseMaterial env m \<and>
       (isValidUtcDateTime env createdAt \<longrightarrow> isNotBefore env (zm_addedAt m) createdAt)) ms \<and>
     distinct (map zm_materialId ms) \<and> set seen \<inter> zm_materialId ` set ms = {}"
  by (induction env createdAt i seen ms rule: material_issues.induct) auto

lemma map_of_requirements:
  assumes "list_all (isValidProtocolizationCaseMaterial env) ms" "distinct (map zm_materialId ms)"
  shows "map_of (materialRequirements env ms) i = Some ids \<longleftrightarrow> (\<exists>m \<in> set ms. zm_materialId m = i \<and> zm_requirementIds m = ids)"
proof -
  have all: "filter (isValidProtocolizationCaseMaterial env) ms = ms"
    using assms(1) by (simp add: list_all_iff filter_True)
  have "distinct (map fst (materialRequirements env ms))"
    using assms(2) by (simp add: materialRequirements_def all comp_def rev_map [symmetric])
  then show ?thesis
    by (auto simp: materialRequirements_def all)
qed

lemma link_issue_nil:
  "link_issue reqs path q i = [] \<longleftrightarrow> (\<exists>ids. map_of reqs i = Some ids \<and> q \<in> set ids)"
  by (auto simp: link_issue_def split: option.splits)

lemma state_issues_nil:
  "state_issues env reqs i seen ss = [] \<longleftrightarrow>
     list_all (\<lambda>s. isValidRequirementStateShape env s \<and> (zr_materialStatus s = Pending \<longleftrightarrow> zr_materialIds s = []) \<and>
       (\<forall>m \<in> set (zr_materialIds s). \<exists>ids. map_of reqs m = Some ids \<and> zr_requirementId s \<in> set ids)) ss \<and>
     distinct (map zr_requirementId ss) \<and> set seen \<inter> zr_requirementId ` set ss = {}"
proof (induction env reqs i seen ss rule: state_issues.induct)
  case (2 env reqs i seen s ss)
  have status: "zr_materialStatus s = (if zr_materialIds s = [] then Pending else MaterialPresent) \<longleftrightarrow>
      (zr_materialStatus s = Pending \<longleftrightarrow> zr_materialIds s = [])"
    by (cases "zr_materialStatus s") auto
  show ?case
    using 2 by (auto simp: Let_def status link_issue_nil)
qed simp

lemma back_link_issues_nil:
  assumes "list_all (isValidProtocolizationCaseMaterial env) ms"
    "list_all (isValidRequirementStateShape env) ss" "distinct (map zr_requirementId ss)"
  shows "back_link_issues env ss i ms = [] \<longleftrightarrow>
     (\<forall>m \<in> set ms. \<forall>q \<in> set (zm_requirementIds m). \<exists>s \<in> set ss. zr_requirementId s = q \<and> zm_materialId m \<in> set (zr_materialIds s))"
proof -
  have proj: "projected_ids env ss = map zr_requirementId ss"
    using assms(2) by (simp add: projected_ids_def list_all_iff filter_True)
  have unique: "find (\<lambda>s. zr_requirementId s = zr_requirementId t) ss = Some t" if "t \<in> set ss" for t
    using that assms(3) by (induction ss) auto
  have one: "back_link_issue env ss path m q = [] \<longleftrightarrow> (\<exists>s \<in> set ss. zr_requirementId s = q \<and> m \<in> set (zr_materialIds s))" for path m q
  proof (cases "\<exists>t \<in> set ss. zr_requirementId t = q")
    case True
    then obtain t where t: "t \<in> set ss" "zr_requirementId t = q" by blast
    then have "s = t" if "s \<in> set ss" "zr_requirementId s = q" for s
      using that assms(3) by (auto simp: distinct_map inj_on_def)
    then have "(\<exists>s \<in> set ss. zr_requirementId s = q \<and> m \<in> set (zr_materialIds s)) \<longleftrightarrow> m \<in> set (zr_materialIds t)"
      using t by blast
    moreover have "q \<in> set (projected_ids env ss)" using t by (auto simp: proj)
    moreover have "find (\<lambda>s. zr_requirementId s = q) ss = Some t" using unique [OF t(1)] t(2) by simp
    ultimately show ?thesis by (simp add: back_link_issue_def)
  qed (auto simp: back_link_issue_def proj)
  show ?thesis
    using assms(1) by (induction ms arbitrary: i) (auto simp: one)
qed

lemma validate_wf: "validateProtocolizationCase env c None = [] \<longleftrightarrow> case_wf env c"
proof (cases "header_ok c \<and> times_ok env c \<and> materials_ok env c")
  case True
  then have mats: "list_all (isValidProtocolizationCaseMaterial env) (zc_materials c)" "distinct (map zm_materialId (zc_materials c))"
    by (auto simp: materials_ok_def list_all_iff)
  have m: "material_issues env (zc_createdAt c) 0 [] (zc_materials c) = []"
    using True by (auto simp: material_issues_nil materials_ok_def list_all_iff)
  have s: "state_issues env (materialRequirements env (zc_materials c)) 0 [] (zc_requirementStates c) = [] \<longleftrightarrow>
      states_ok env c \<and> (\<forall>s \<in> set (zc_requirementStates c). \<forall>i \<in> set (zr_materialIds s).
        \<exists>m \<in> set (zc_materials c). zm_materialId m = i \<and> zr_requirementId s \<in> set (zm_requirementIds m))"
  proof -
    have link: "(\<exists>ids. map_of (materialRequirements env (zc_materials c)) i = Some ids \<and> q \<in> set ids) \<longleftrightarrow>
        (\<exists>m \<in> set (zc_materials c). zm_materialId m = i \<and> q \<in> set (zm_requirementIds m))" for i q
      unfolding map_of_requirements [OF mats] by blast
    show ?thesis unfolding state_issues_nil link states_ok_def by (auto simp: list_all_iff)
  qed
  show ?thesis
  proof (cases "states_ok env c")
    case True
    then have "list_all (isValidRequirementStateShape env) (zc_requirementStates c)" "distinct (map zr_requirementId (zc_requirementStates c))"
      by (auto simp: states_ok_def list_all_iff)
    note backwards = back_link_issues_nil [OF mats(1) this]
    show ?thesis
      using \<open>header_ok c \<and> times_ok env c \<and> materials_ok env c\<close> m s backwards True
      by (simp add: validateProtocolizationCase_def profile_issues_def header_issues_nil time_issues_nil case_wf_def links_agree_def)
  next
    case False
    then show ?thesis using s by (simp add: validateProtocolizationCase_def case_wf_def)
  qed
next
  case False
  have "times_ok env c \<Longrightarrow> material_issues env (zc_createdAt c) 0 [] (zc_materials c) = [] \<longleftrightarrow> materials_ok env c"
    by (auto simp: material_issues_nil materials_ok_def times_ok_def list_all_iff)
  then show ?thesis
    using False by (auto simp: validateProtocolizationCase_def header_issues_nil time_issues_nil case_wf_def)
qed

end
