(* ===== verification/CaseOperations.thy ===== *)
theory CaseOperations
  imports AssetCase
begin

text \<open>
  \<open>packages/asset-protocolization/src/case/\<close>: the operations of a case (\<open>case-operations.ts\<close>) with their errors
  (\<open>case-errors.ts\<close>) and events (\<open>case-events.ts\<close>), and its progress (\<open>case-progress.ts\<close>).

  An operation is given the catalogue, as the function \<open>get\<close> of the interface, the acting tenant, and what the clock
  returns.  It gives the next case and its event, or the error; the text of an error's message is left out.
  \<open>deepFreeze\<close> has nothing to do on values.
\<close>

subsection \<open>Errors\<close>

datatype CaseErrorCode =
    CASE_INVALID | CASE_INVALID_TENANT | CASE_TENANT_MISMATCH | CASE_PROFILE_NOT_FOUND | CASE_PROFILE_MISMATCH
  | CASE_UNKNOWN_REQUIREMENT | CASE_DUPLICATE_MATERIAL | CASE_DUPLICATE_ASSOCIATION | CASE_UNKNOWN_MATERIAL
  | CASE_INVALID_TRANSITION | CASE_INVALID_TIMESTAMP | CASE_NOT_FOUND | CASE_ALREADY_EXISTS | CASE_REVISION_CONFLICT

datatype case_reason = Issue CaseIssue | Code CaseErrorCode

record CaseErrorDetails =
  cd_reasonCodes :: "case_reason list"
  cd_caseId :: "string option"
  cd_tenantId :: "string option"
  cd_profile :: "ProtocolizationProfileRef option"
  cd_requirementIds :: "string list option"
  cd_materialId :: "string option"
  cd_fromState :: "ProtocolizationCaseState option"
  cd_toState :: "ProtocolizationCaseState option"
  cd_expectedRevision :: "int option"
  cd_actualRevision :: "int option"

record ProtocolizationCaseError =
  ze_code :: CaseErrorCode
  ze_details :: CaseErrorDetails

definition reasons_only :: "case_reason list \<Rightarrow> CaseErrorDetails" where
  "reasons_only rs =
     \<lparr>cd_reasonCodes = rs, cd_caseId = None, cd_tenantId = None, cd_profile = None, cd_requirementIds = None,
      cd_materialId = None, cd_fromState = None, cd_toState = None, cd_expectedRevision = None, cd_actualRevision = None\<rparr>"

definition case_error :: "CaseErrorCode \<Rightarrow> CaseErrorDetails \<Rightarrow> ProtocolizationCaseError" where
  "case_error code d = \<lparr>ze_code = code, ze_details = d\<rparr>"

definition fail_if :: "bool \<Rightarrow> CaseErrorCode \<Rightarrow> CaseErrorDetails \<Rightarrow> ProtocolizationCaseError option" where
  "fail_if c code d = (if c then Some (case_error code d) else None)"

type_synonym 'a case_result = "ProtocolizationCaseError + 'a"

subsection \<open>Events\<close>

record CaseEventBase =
  ev_caseId :: string
  ev_tenantId :: string
  ev_profile :: ProtocolizationProfileRef
  ev_caseRevision :: int
  ev_occurredAt :: string
  ev_correlationId :: "string option"

datatype ProtocolizationCaseEvent =
    CaseCreatedEvent CaseEventBase SovereignSubjectRef "string list"
  | CaseActivatedEvent CaseEventBase
  | MaterialAddedEvent CaseEventBase string ProtocolizationMaterialKind "string list"
  | MaterialAssociatedEvent CaseEventBase string "string list"
  | CaseCancelledEvent CaseEventBase "string option"

fun event_base :: "ProtocolizationCaseEvent \<Rightarrow> CaseEventBase" where
  "event_base (CaseCreatedEvent b s ids) = b"
| "event_base (CaseActivatedEvent b) = b"
| "event_base (MaterialAddedEvent b i k ids) = b"
| "event_base (MaterialAssociatedEvent b i ids) = b"
| "event_base (CaseCancelledEvent b r) = b"

definition base_of :: "ProtocolizationCase \<Rightarrow> string \<Rightarrow> string option \<Rightarrow> CaseEventBase" where
  "base_of c occurredAt correlationId =
     \<lparr>ev_caseId = zc_caseId c, ev_tenantId = zc_tenantId c, ev_profile = zc_profile c, ev_caseRevision = zc_revision c,
      ev_occurredAt = occurredAt, ev_correlationId = correlationId\<rparr>"

subsection \<open>Guards\<close>

record CaseContext =
  cx_catalog :: "string \<Rightarrow> string \<Rightarrow> AssetProfile option"
  cx_now :: string
  cx_tenantId :: string

definition assertActingTenant :: "CaseContext \<Rightarrow> ProtocolizationCaseError option" where
  "assertActingTenant ctx =
     fail_if (\<not> isValidProtocolizationTenantId (cx_tenantId ctx)) CASE_INVALID_TENANT (reasons_only [Issue INVALID_CASE_TENANT_ID])"

definition invalid_case :: "host_env \<Rightarrow> ProtocolizationCase \<Rightarrow> AssetProfile option \<Rightarrow> ProtocolizationCaseError option" where
  "invalid_case env c profile =
     (let issues = validateProtocolizationCase env c profile in
      fail_if (issues \<noteq> []) CASE_INVALID (reasons_only (map (\<lambda>i. Issue (fst i)) issues)))"

definition assertOperableCase :: "host_env \<Rightarrow> CaseContext \<Rightarrow> ProtocolizationCase \<Rightarrow> ProtocolizationCase case_result" where
  "assertOperableCase env ctx c =
     unless_error (invalid_case env c None)
    (unless_error (assertActingTenant ctx)
    (unless_error (fail_if (zc_tenantId c \<noteq> cx_tenantId ctx) CASE_TENANT_MISMATCH
                     ((reasons_only [Code CASE_TENANT_MISMATCH])\<lparr>cd_caseId := Some (zc_caseId c), cd_tenantId := Some (cx_tenantId ctx)\<rparr>))
      (Inr c)))"

definition resolvePinnedProfile :: "CaseContext \<Rightarrow> ProtocolizationProfileRef \<Rightarrow> string option \<Rightarrow> AssetProfile case_result" where
  "resolvePinnedProfile ctx ref caseId =
     (case cx_catalog ctx (pr_profileId ref) (pr_profileVersion ref) of
        None \<Rightarrow> Inl (case_error CASE_PROFILE_NOT_FOUND
                  ((reasons_only [Code CASE_PROFILE_NOT_FOUND])\<lparr>cd_profile := Some ref, cd_caseId := caseId\<rparr>))
      | Some p \<Rightarrow> Inr p)"

definition readClock :: "host_env \<Rightarrow> CaseContext \<Rightarrow> string option \<Rightarrow> string case_result" where
  "readClock env ctx notBefore =
     (let bad = reasons_only [Code CASE_INVALID_TIMESTAMP] in
      unless_error (fail_if (\<not> isValidUtcDateTime env (cx_now ctx)) CASE_INVALID_TIMESTAMP bad)
     (unless_error
        (fail_if (case notBefore of
                    None \<Rightarrow> False
                  | Some t \<Rightarrow> date_gt (date_parse (e_date env) t) (date_parse (e_date env) (cx_now ctx)))
           CASE_INVALID_TIMESTAMP bad)
        (Inr (cx_now ctx))))"

definition assertKnownRequirements ::
  "string list \<Rightarrow> AssetProfile \<Rightarrow> ProtocolizationCase \<Rightarrow> ProtocolizationCaseError option" where
  "assertKnownRequirements ids profile c =
     (let declared = ar_id ` set (ap_requirements profile);
          projected = zr_requirementId ` set (zc_requirementStates c);
          unknown = filter (\<lambda>i. i \<notin> declared \<or> i \<notin> projected) ids;
          named = (\<lambda>code. (reasons_only [Code code])\<lparr>cd_caseId := Some (zc_caseId c), cd_requirementIds := Some ids\<rparr>)
      in if ids = [] then Some (case_error CASE_UNKNOWN_REQUIREMENT (named CASE_UNKNOWN_REQUIREMENT))
         else if \<not> distinct ids then Some (case_error CASE_DUPLICATE_ASSOCIATION (named CASE_DUPLICATE_ASSOCIATION))
         else fail_if (unknown \<noteq> []) CASE_UNKNOWN_REQUIREMENT
                ((reasons_only [Code CASE_UNKNOWN_REQUIREMENT])
                   \<lparr>cd_caseId := Some (zc_caseId c), cd_profile := Some (zc_profile c), cd_requirementIds := Some unknown\<rparr>))"

definition correlate_one :: "string list \<Rightarrow> string \<Rightarrow> string \<Rightarrow> CaseRequirementState \<Rightarrow> CaseRequirementState" where
  "correlate_one ids materialId at s =
     (if zr_requirementId s \<notin> set ids then s
      else \<lparr>zr_requirementId = zr_requirementId s, zr_materialStatus = MaterialPresent,
            zr_materialIds = zr_materialIds s @ [materialId],
            zr_firstMaterialAt = (case zr_firstMaterialAt s of Some t \<Rightarrow> Some t | None \<Rightarrow> Some at),
            zr_updatedAt = at\<rparr>)"

definition correlate ::
  "CaseRequirementState list \<Rightarrow> string list \<Rightarrow> string \<Rightarrow> string \<Rightarrow> CaseRequirementState list" where
  "correlate ss ids materialId at = map (correlate_one ids materialId at) ss"

definition sealed :: "host_env \<Rightarrow> ProtocolizationCase \<Rightarrow> ProtocolizationCase case_result" where
  "sealed env c = unless_error (invalid_case env c None) (Inr c)"

definition assertTransition :: "ProtocolizationCase \<Rightarrow> ProtocolizationCaseState \<Rightarrow> ProtocolizationCaseError option" where
  "assertTransition c t =
     fail_if (\<not> isAllowedProtocolizationCaseTransition (zc_state c) t) CASE_INVALID_TRANSITION
       ((reasons_only [Code CASE_INVALID_TRANSITION])
          \<lparr>cd_caseId := Some (zc_caseId c), cd_fromState := Some (zc_state c), cd_toState := Some t\<rparr>)"

definition assertAcceptsMaterial :: "ProtocolizationCase \<Rightarrow> ProtocolizationCaseError option" where
  "assertAcceptsMaterial c =
     fail_if (\<not> acceptsProtocolizationMaterial (zc_state c)) CASE_INVALID_TRANSITION
       ((reasons_only [Code CASE_INVALID_TRANSITION])\<lparr>cd_caseId := Some (zc_caseId c), cd_fromState := Some (zc_state c)\<rparr>)"

definition known_material :: "ProtocolizationCase \<Rightarrow> string \<Rightarrow> CaseErrorCode \<Rightarrow> CaseErrorDetails" where
  "known_material c i code = (reasons_only [Code code])\<lparr>cd_caseId := Some (zc_caseId c), cd_materialId := Some i\<rparr>"

subsection \<open>Operations\<close>

type_synonym case_transition = "ProtocolizationCase \<times> ProtocolizationCaseEvent"

definition transition_to ::
  "host_env \<Rightarrow> ProtocolizationCase \<Rightarrow> ProtocolizationCaseEvent \<Rightarrow> case_transition case_result" where
  "transition_to env next_case event = bind_sum (sealed env next_case) (\<lambda>c. Inr (c, event))"

record CreateCaseInput =
  ic_caseId :: string
  ic_profile :: ProtocolizationProfileRef
  ic_subject :: ProtocolizationCaseSubject
  ic_correlationId :: "string option"

definition create_reasons :: "CreateCaseInput \<Rightarrow> CaseIssue list" where
  "create_reasons i =
     (if isValidProtocolizationCaseId (ic_caseId i) then [] else [INVALID_CASE_ID]) @
     (if isValidProtocolizationProfileRef (ic_profile i) then [] else [INVALID_CASE_PROFILE_REF]) @
     (if isValidProtocolizationCaseSubject (ic_subject i) then [] else [INVALID_CASE_SUBJECT]) @
     (case ic_correlationId i of None \<Rightarrow> [] | Some c \<Rightarrow> if trim c = [] then [INVALID_CASE_CORRELATION_ID] else [])"

definition initial_state :: "string \<Rightarrow> AssetRequirement \<Rightarrow> CaseRequirementState" where
  "initial_state createdAt q =
     \<lparr>zr_requirementId = ar_id q, zr_materialStatus = Pending, zr_materialIds = [], zr_firstMaterialAt = None,
      zr_updatedAt = createdAt\<rparr>"

definition initial_case :: "CaseContext \<Rightarrow> CreateCaseInput \<Rightarrow> AssetProfile \<Rightarrow> string \<Rightarrow> ProtocolizationCase" where
  "initial_case ctx i profile createdAt =
     \<lparr>zc_schemaVersion = PROTOCOLIZATION_CASE_SCHEMA_VERSION, zc_caseId = ic_caseId i, zc_tenantId = cx_tenantId ctx,
      zc_profile = \<lparr>pr_profileId = pr_profileId (ic_profile i), pr_profileVersion = pr_profileVersion (ic_profile i)\<rparr>,
      zc_subject = ic_subject i, zc_state = INITIAL_PROTOCOLIZATION_CASE_STATE, zc_revision = 1,
      zc_requirementStates = map (initial_state createdAt) (ap_requirements profile), zc_materials = [],
      zc_createdAt = createdAt, zc_updatedAt = createdAt, zc_activatedAt = None, zc_cancelledAt = None,
      zc_cancellationReason = None, zc_correlationId = ic_correlationId i\<rparr>"

definition createProtocolizationCase :: "host_env \<Rightarrow> CaseContext \<Rightarrow> CreateCaseInput \<Rightarrow> case_transition case_result" where
  "createProtocolizationCase env ctx i =
     unless_error (assertActingTenant ctx)
    (unless_error (fail_if (create_reasons i \<noteq> []) CASE_INVALID
                     ((reasons_only (map Issue (create_reasons i)))\<lparr>cd_tenantId := Some (cx_tenantId ctx)\<rparr>))
    (bind_sum (resolvePinnedProfile ctx (ic_profile i) (Some (ic_caseId i))) (\<lambda>profile.
     bind_sum (readClock env ctx None) (\<lambda>createdAt.
       let c = initial_case ctx i profile createdAt in
       transition_to env c
         (CaseCreatedEvent (base_of c createdAt (ic_correlationId i)) (su_subjectRef (ic_subject i))
            (map zr_requirementId (zc_requirementStates c)))))))"

definition activated_case :: "ProtocolizationCase \<Rightarrow> string \<Rightarrow> ProtocolizationCase" where
  "activated_case c at =
     c\<lparr>zc_state := Active, zc_revision := zc_revision c + 1, zc_updatedAt := at, zc_activatedAt := Some at\<rparr>"

definition activateProtocolizationCase :: "host_env \<Rightarrow> CaseContext \<Rightarrow> ProtocolizationCase \<Rightarrow> case_transition case_result" where
  "activateProtocolizationCase env ctx c =
     bind_sum (assertOperableCase env ctx c) (\<lambda>current.
     unless_error (assertTransition current Active)
    (bind_sum (readClock env ctx (Some (zc_updatedAt current))) (\<lambda>occurredAt.
       let n = activated_case current occurredAt in
       transition_to env n (CaseActivatedEvent (base_of n occurredAt (zc_correlationId n))))))"

record MaterialInput =
  im_materialId :: string
  im_requirementIds :: "string list"
  im_correlationId :: "string option"
  im_payload :: MaterialPayload

definition material_of :: "MaterialInput \<Rightarrow> string \<Rightarrow> CaseMaterial" where
  "material_of i addedAt =
     \<lparr>zm_materialId = im_materialId i, zm_requirementIds = im_requirementIds i, zm_addedAt = addedAt,
      zm_correlationId = im_correlationId i, zm_payload = im_payload i\<rparr>"

definition with_material :: "ProtocolizationCase \<Rightarrow> CaseMaterial \<Rightarrow> string \<Rightarrow> ProtocolizationCase" where
  "with_material c m at =
     c\<lparr>zc_revision := zc_revision c + 1, zc_updatedAt := at, zc_materials := zc_materials c @ [m],
       zc_requirementStates := correlate (zc_requirementStates c) (zm_requirementIds m) (zm_materialId m) at\<rparr>"

definition addProtocolizationCaseMaterial ::
  "host_env \<Rightarrow> CaseContext \<Rightarrow> ProtocolizationCase \<Rightarrow> MaterialInput \<Rightarrow> case_transition case_result" where
  "addProtocolizationCaseMaterial env ctx c i =
     bind_sum (assertOperableCase env ctx c) (\<lambda>current.
     unless_error (assertAcceptsMaterial current)
    (bind_sum (resolvePinnedProfile ctx (zc_profile current) (Some (zc_caseId current))) (\<lambda>profile.
     unless_error (fail_if (list_ex (\<lambda>m. zm_materialId m = im_materialId i) (zc_materials current)) CASE_DUPLICATE_MATERIAL
                     (known_material current (im_materialId i) CASE_DUPLICATE_MATERIAL))
    (unless_error (assertKnownRequirements (im_requirementIds i) profile current)
    (bind_sum (readClock env ctx (Some (zc_updatedAt current))) (\<lambda>addedAt.
       let m = material_of i addedAt; n = with_material current m addedAt in
       unless_error (fail_if (\<not> isValidProtocolizationCaseMaterial env m) CASE_INVALID
                       ((reasons_only [Issue INVALID_CASE_MATERIAL])
                          \<lparr>cd_caseId := Some (zc_caseId current), cd_materialId := Some (im_materialId i)\<rparr>))
         (transition_to env n
            (MaterialAddedEvent (base_of n addedAt (zm_correlationId m)) (zm_materialId m) (payload_kind (zm_payload m))
               (zm_requirementIds m)))))))))"

definition associated_material :: "string \<Rightarrow> string list \<Rightarrow> CaseMaterial \<Rightarrow> CaseMaterial" where
  "associated_material i ids m =
     (if zm_materialId m = i then m\<lparr>zm_requirementIds := zm_requirementIds m @ ids\<rparr> else m)"

definition with_association :: "ProtocolizationCase \<Rightarrow> string \<Rightarrow> string list \<Rightarrow> string \<Rightarrow> ProtocolizationCase" where
  "with_association c i ids at =
     c\<lparr>zc_revision := zc_revision c + 1, zc_updatedAt := at,
       zc_materials := map (associated_material i ids) (zc_materials c),
       zc_requirementStates := correlate (zc_requirementStates c) ids i at\<rparr>"

definition associateProtocolizationCaseMaterial ::
  "host_env \<Rightarrow> CaseContext \<Rightarrow> ProtocolizationCase \<Rightarrow> string \<Rightarrow> string list \<Rightarrow> case_transition case_result" where
  "associateProtocolizationCaseMaterial env ctx c i ids =
     bind_sum (assertOperableCase env ctx c) (\<lambda>current.
     unless_error (assertAcceptsMaterial current)
    (bind_sum (resolvePinnedProfile ctx (zc_profile current) (Some (zc_caseId current))) (\<lambda>profile.
       case find (\<lambda>m. zm_materialId m = i) (zc_materials current) of
         None \<Rightarrow> Inl (case_error CASE_UNKNOWN_MATERIAL (known_material current i CASE_UNKNOWN_MATERIAL))
       | Some existing \<Rightarrow>
           unless_error (assertKnownRequirements ids profile current)
          (let already = filter (\<lambda>q. q \<in> set (zm_requirementIds existing)) ids in
           unless_error (fail_if (already \<noteq> []) CASE_DUPLICATE_ASSOCIATION
                           ((known_material current i CASE_DUPLICATE_ASSOCIATION)\<lparr>cd_requirementIds := Some already\<rparr>))
          (bind_sum (readClock env ctx (Some (zc_updatedAt current))) (\<lambda>occurredAt.
             let n = with_association current i ids occurredAt in
             transition_to env n
               (MaterialAssociatedEvent (base_of n occurredAt (zm_correlationId existing)) i ids)))))))"

definition cancelled_case :: "ProtocolizationCase \<Rightarrow> string option \<Rightarrow> string \<Rightarrow> ProtocolizationCase" where
  "cancelled_case c reason at =
     (let n = c\<lparr>zc_state := Cancelled, zc_revision := zc_revision c + 1, zc_updatedAt := at, zc_cancelledAt := Some at\<rparr>
      in case reason of None \<Rightarrow> n | Some r \<Rightarrow> n\<lparr>zc_cancellationReason := Some r\<rparr>)"

definition bad_reason :: "string option \<Rightarrow> bool" where
  "bad_reason reason \<longleftrightarrow>
     (case reason of None \<Rightarrow> False | Some r \<Rightarrow> trim r = [] \<or> MAX_CANCELLATION_REASON_LENGTH < length r)"

definition cancelProtocolizationCase ::
  "host_env \<Rightarrow> CaseContext \<Rightarrow> ProtocolizationCase \<Rightarrow> string option \<Rightarrow> case_transition case_result" where
  "cancelProtocolizationCase env ctx c reason =
     bind_sum (assertOperableCase env ctx c) (\<lambda>current.
     unless_error (assertTransition current Cancelled)
    (unless_error (fail_if (bad_reason reason) CASE_INVALID
                     ((reasons_only [Issue INVALID_CASE_CANCELLATION_REASON])\<lparr>cd_caseId := Some (zc_caseId current)\<rparr>))
    (bind_sum (readClock env ctx (Some (zc_updatedAt current))) (\<lambda>occurredAt.
       let n = cancelled_case current reason occurredAt in
       transition_to env n (CaseCancelledEvent (base_of n occurredAt (zc_correlationId n)) reason)))))"

definition reconstituteProtocolizationCase ::
  "host_env \<Rightarrow> ProtocolizationCase \<Rightarrow> AssetProfile option \<Rightarrow> ProtocolizationCase case_result" where
  "reconstituteProtocolizationCase env c profile = unless_error (invalid_case env c profile) (Inr c)"

subsection \<open>What the guards let through\<close>

definition time_ok :: "host_env \<Rightarrow> CaseContext \<Rightarrow> ProtocolizationCase \<Rightarrow> bool" where
  "time_ok env ctx c \<longleftrightarrow> isValidUtcDateTime env (cx_now ctx) \<and> isNotBefore env (cx_now ctx) (zc_updatedAt c)"

definition operable :: "host_env \<Rightarrow> CaseContext \<Rightarrow> ProtocolizationCase \<Rightarrow> bool" where
  "operable env ctx c \<longleftrightarrow> case_wf env c \<and> zc_tenantId c = cx_tenantId ctx"

definition requirements_ok :: "string list \<Rightarrow> AssetProfile \<Rightarrow> ProtocolizationCase \<Rightarrow> bool" where
  "requirements_ok ids profile c \<longleftrightarrow>
     ids \<noteq> [] \<and> distinct ids \<and>
     set ids \<subseteq> ar_id ` set (ap_requirements profile) \<inter> zr_requirementId ` set (zc_requirementStates c)"

lemma fail_if_None [simp]: "fail_if b code d = None \<longleftrightarrow> \<not> b"
  by (simp add: fail_if_def)

lemma invalid_case_None: "invalid_case env c None = None \<longleftrightarrow> case_wf env c"
  by (simp add: invalid_case_def Let_def validate_wf)

lemma wf_tenant: "case_wf env c \<Longrightarrow> isValidProtocolizationTenantId (zc_tenantId c)"
  by (simp add: case_wf_def header_ok_def)

lemma operable_Inr [simp]: "assertOperableCase env ctx c = Inr d \<longleftrightarrow> d = c \<and> operable env ctx c"
  using wf_tenant [of env c]
  by (auto simp: assertOperableCase_def invalid_case_None operable_def assertActingTenant_def)

lemma wf_times:
  assumes "case_wf env c"
  shows "isValidUtcDateTime env (zc_updatedAt c)" "isValidUtcDateTime env (zc_createdAt c)"
    "isNotBefore env (zc_updatedAt c) (zc_createdAt c)"
  using assms by (simp_all add: case_wf_def times_ok_def)

lemma readClock_later:
  assumes "case_wf env c"
  shows "readClock env ctx (Some (zc_updatedAt c)) = Inr t \<longleftrightarrow> t = cx_now ctx \<and> time_ok env ctx c"
proof -
  obtain u where u: "date_parse (e_date env) (zc_updatedAt c) = Some u"
    using valid_instant [OF wf_times(1) [OF assms]] by blast
  have "date_parse (e_date env) (cx_now ctx) = Some v \<Longrightarrow> \<not> date_gt (Some u) (Some v) \<longleftrightarrow> date_le (Some u) (Some v)" for v
    by (auto simp: date_gt_def date_le_def)
  then show ?thesis
    using valid_instant [of env "cx_now ctx"]
    by (auto simp: readClock_def Let_def time_ok_def isNotBefore_def u)
qed

lemma readClock_first: "readClock env ctx None = Inr t \<longleftrightarrow> t = cx_now ctx \<and> isValidUtcDateTime env (cx_now ctx)"
  by (auto simp: readClock_def Let_def)

lemma pinned_Inr [simp]:
  "resolvePinnedProfile ctx ref i = Inr p \<longleftrightarrow> cx_catalog ctx (pr_profileId ref) (pr_profileVersion ref) = Some p"
  by (auto simp: resolvePinnedProfile_def split: option.splits)

lemma known_None [simp]: "assertKnownRequirements ids profile c = None \<longleftrightarrow> requirements_ok ids profile c"
  by (auto simp: assertKnownRequirements_def requirements_ok_def Let_def filter_empty_conv)

lemma transition_Inr [simp]: "transition_to env n ev = Inr r \<longleftrightarrow> r = (n, ev) \<and> case_wf env n"
  by (auto simp: transition_to_def sealed_def invalid_case_None)

lemma assertTransition_None [simp]:
  "assertTransition c t = None \<longleftrightarrow> isAllowedProtocolizationCaseTransition (zc_state c) t"
  by (simp add: assertTransition_def)

lemma accepts_None [simp]: "assertAcceptsMaterial c = None \<longleftrightarrow> zc_state c \<noteq> Cancelled"
  by (cases "zc_state c") (simp_all add: assertAcceptsMaterial_def acceptsProtocolizationMaterial_def)

lemma allowed_transition [simp]:
  "isAllowedProtocolizationCaseTransition s Active \<longleftrightarrow> s = Draft"
  "isAllowedProtocolizationCaseTransition s Cancelled \<longleftrightarrow> s \<noteq> Cancelled"
  "\<not> isAllowedProtocolizationCaseTransition s Draft"
  "\<not> isAllowedProtocolizationCaseTransition Cancelled s"
  by (cases s; simp add: isAllowedProtocolizationCaseTransition_def)+

end
