(* ===== verification/CaseInvariant.thy ===== *)
theory CaseInvariant
  imports CaseOperations
begin

text \<open>
  What the operations of a case establish: each succeeds exactly when its own guards hold, its result is then well
  formed (the last gate, \<open>sealed\<close>, refuses nothing the guards let through), its times are in order, and the
  requirements it projects stay those of its first revision.
\<close>

subsection \<open>Commands\<close>

text \<open>The operations on an existing case, as one function.\<close>

datatype CaseCommand =
  ActivateCase | AddMaterial MaterialInput | AssociateMaterial string "string list" | CancelCase "string option"

fun perform :: "host_env \<Rightarrow> CaseContext \<Rightarrow> ProtocolizationCase \<Rightarrow> CaseCommand \<Rightarrow> case_transition case_result" where
  "perform env ctx c ActivateCase = activateProtocolizationCase env ctx c"
| "perform env ctx c (AddMaterial i) = addProtocolizationCaseMaterial env ctx c i"
| "perform env ctx c (AssociateMaterial i ids) = associateProtocolizationCaseMaterial env ctx c i ids"
| "perform env ctx c (CancelCase reason) = cancelProtocolizationCase env ctx c reason"

fun effect :: "ProtocolizationCase \<Rightarrow> CaseCommand \<Rightarrow> string \<Rightarrow> ProtocolizationCase" where
  "effect c ActivateCase t = activated_case c t"
| "effect c (AddMaterial i) t = with_material c (material_of i t) t"
| "effect c (AssociateMaterial i ids) t = with_association c i ids t"
| "effect c (CancelCase reason) t = cancelled_case c reason t"

definition pinned_profile :: "CaseContext \<Rightarrow> ProtocolizationCase \<Rightarrow> AssetProfile option" where
  "pinned_profile ctx c = cx_catalog ctx (pr_profileId (zc_profile c)) (pr_profileVersion (zc_profile c))"

fun permitted :: "host_env \<Rightarrow> CaseContext \<Rightarrow> ProtocolizationCase \<Rightarrow> CaseCommand \<Rightarrow> bool" where
  "permitted env ctx c ActivateCase \<longleftrightarrow> zc_state c = Draft"
| "permitted env ctx c (AddMaterial i) \<longleftrightarrow>
     zc_state c \<noteq> Cancelled \<and> im_materialId i \<notin> zm_materialId ` set (zc_materials c) \<and>
     (\<exists>p. pinned_profile ctx c = Some p \<and> requirements_ok (im_requirementIds i) p c) \<and>
     isValidProtocolizationCaseMaterial env (material_of i (cx_now ctx))"
| "permitted env ctx c (AssociateMaterial i ids) \<longleftrightarrow>
     zc_state c \<noteq> Cancelled \<and> (\<exists>p. pinned_profile ctx c = Some p \<and> requirements_ok ids p c) \<and>
     list_all isValidAssetRequirementId ids \<and>
     (\<exists>m \<in> set (zc_materials c). zm_materialId m = i \<and> set ids \<inter> set (zm_requirementIds m) = {})"
| "permitted env ctx c (CancelCase reason) \<longleftrightarrow> zc_state c \<noteq> Cancelled \<and> \<not> bad_reason reason"

text \<open>The next revision is still a safe integer.\<close>

definition revisable :: "ProtocolizationCase \<Rightarrow> bool" where
  "revisable c \<longleftrightarrow> zc_revision c < 9007199254740991"

subsection \<open>Effects\<close>

lemma effect_fields [simp]:
  "zc_revision (effect c cmd t) = zc_revision c + 1" "zc_updatedAt (effect c cmd t) = t"
  "zc_caseId (effect c cmd t) = zc_caseId c" "zc_tenantId (effect c cmd t) = zc_tenantId c"
  "zc_profile (effect c cmd t) = zc_profile c" "zc_subject (effect c cmd t) = zc_subject c"
  "zc_createdAt (effect c cmd t) = zc_createdAt c" "zc_schemaVersion (effect c cmd t) = zc_schemaVersion c"
  "zc_correlationId (effect c cmd t) = zc_correlationId c"
  by (cases cmd; simp add: activated_case_def with_material_def with_association_def cancelled_case_def Let_def
        split: option.split)+

lemma correlate_one_id [simp]: "zr_requirementId (correlate_one ids i t s) = zr_requirementId s"
  by (simp add: correlate_one_def)

lemma correlate_ids [simp]: "map zr_requirementId (correlate ss ids i t) = map zr_requirementId ss"
  by (simp add: correlate_def comp_def)

lemma projection_kept [simp]: "map zr_requirementId (zc_requirementStates (effect c cmd t)) = map zr_requirementId (zc_requirementStates c)"
  by (cases cmd) (simp_all add: activated_case_def with_material_def with_association_def cancelled_case_def Let_def
        split: option.split)

lemma correlated_materials:
  "set (zr_materialIds (correlate_one ids i t s)) =
     set (zr_materialIds s) \<union> (if zr_requirementId s \<in> set ids then {i} else {})"
  by (simp add: correlate_one_def)

lemma header_after: "header_ok c \<Longrightarrow> revisable c \<Longrightarrow> header_ok (effect c cmd t)"
  by (auto simp: header_ok_def revisable_def isSafeInteger_def)

lemma header_after_iff: "header_ok c \<Longrightarrow> header_ok (effect c cmd t) \<longleftrightarrow> revisable c"
  by (auto simp: header_ok_def revisable_def isSafeInteger_def)

lemma states_after:
  assumes "list_all (\<lambda>s. isValidRequirementStateShape env s \<and> (zr_materialStatus s = Pending \<longleftrightarrow> zr_materialIds s = [])) ss"
    "isValidUtcDateTime env t" "i \<noteq> []" "\<And>s. s \<in> set ss \<Longrightarrow> zr_requirementId s \<in> set ids \<Longrightarrow> i \<notin> set (zr_materialIds s)"
  shows "list_all (\<lambda>s. isValidRequirementStateShape env s \<and> (zr_materialStatus s = Pending \<longleftrightarrow> zr_materialIds s = []))
     (correlate ss ids i t)"
  using assms
  by (auto simp: correlate_def correlate_one_def list_all_iff isValidRequirementStateShape_def split: option.splits)

lemma valid_material_id: "isValidProtocolizationMaterialId i \<Longrightarrow> i \<noteq> []"
  by (auto simp: isValidProtocolizationMaterialId_def isProtocolizationInstanceIdentifier_def)

lemma times_after:
  assumes "case_wf env c" "isValidUtcDateTime env t" "isNotBefore env t (zc_updatedAt c)"
  shows "isNotBefore env t (zc_createdAt c)"
  using assms wf_times [OF assms(1)] isNotBefore_trans by blast

lemma activated_wf:
  assumes "case_wf env c" "zc_state c = Draft" "revisable c" "isValidUtcDateTime env t" "isNotBefore env t (zc_updatedAt c)"
  shows "case_wf env (activated_case c t)"
  using assms header_after [of c ActivateCase t] times_after [OF assms(1,4,5)]
  by (auto simp: case_wf_def times_ok_def materials_ok_def states_ok_def links_agree_def activated_case_def)

lemma cancelled_wf:
  assumes "case_wf env c" "zc_state c \<noteq> Cancelled" "\<not> bad_reason reason" "revisable c"
    "isValidUtcDateTime env t" "isNotBefore env t (zc_updatedAt c)"
  shows "case_wf env (cancelled_case c reason t)"
  using assms header_after [of c "CancelCase reason" t] times_after [OF assms(1,5,6)]
  by (cases reason)
     (auto simp: case_wf_def times_ok_def materials_ok_def states_ok_def links_agree_def cancelled_case_def bad_reason_def)

lemma wf_unlinked:
  assumes "case_wf env c" "s \<in> set (zc_requirementStates c)" "i \<in> set (zr_materialIds s)"
  obtains m where "m \<in> set (zc_materials c)" "zm_materialId m = i" "zr_requirementId s \<in> set (zm_requirementIds m)"
  using assms unfolding case_wf_def links_agree_def by blast

lemma with_material_wf:
  assumes "case_wf env c" "revisable c" "isValidUtcDateTime env t" "isNotBefore env t (zc_updatedAt c)"
    "zc_state c \<noteq> Cancelled" "zm_materialId m \<notin> zm_materialId ` set (zc_materials c)"
    "set (zm_requirementIds m) \<subseteq> zr_requirementId ` set (zc_requirementStates c)"
    "isValidProtocolizationCaseMaterial env m" "zm_addedAt m = t"
  shows "case_wf env (with_material c m t)"
proof -
  have fresh: "s \<in> set (zc_requirementStates c) \<Longrightarrow> zm_materialId m \<notin> set (zr_materialIds s)" for s
    using wf_unlinked [OF assms(1)] assms(6) by (metis imageI)
  have "header_ok (with_material c m t)"
    using assms(1,2) by (auto simp: case_wf_def header_ok_def with_material_def revisable_def isSafeInteger_def)
  moreover have "times_ok env (with_material c m t)"
    using assms(1,3,5) times_after [OF assms(1,3,4)] by (auto simp: case_wf_def times_ok_def with_material_def)
  moreover have "materials_ok env (with_material c m t)"
    using assms(1,6,8,9) times_after [OF assms(1,3,4)] by (auto simp: case_wf_def materials_ok_def with_material_def)
  moreover have "states_ok env (with_material c m t)"
    using assms(1,3) valid_material_id [of "zm_materialId m"] assms(8) fresh
      states_after [of env "zc_requirementStates c" t "zm_materialId m" "zm_requirementIds m"]
    by (auto simp: case_wf_def states_ok_def with_material_def isValidProtocolizationCaseMaterial_def)
  moreover have "links_agree (with_material c m t)"
  proof -
    have old: "links_agree c" using assms(1) by (simp add: case_wf_def)
    have new: "\<exists>s \<in> set (zc_requirementStates c). zr_requirementId s = q" if "q \<in> set (zm_requirementIds m)" for q
      using assms(7) that by blast
    show ?thesis
      using old new
      unfolding links_agree_def with_material_def correlate_def
      by (auto simp: correlated_materials split: if_splits) fastforce+
  qed
  ultimately show ?thesis by (simp add: case_wf_def)
qed

lemma find_unique:
  assumes "distinct (map f xs)" "m \<in> set xs"
  shows "find (\<lambda>x. f x = f m) xs = Some m"
  using assms by (induction xs) auto

lemma associated_fields [simp]:
  "zm_materialId (associated_material i ids m) = zm_materialId m" "zm_addedAt (associated_material i ids m) = zm_addedAt m"
  "set (zm_requirementIds (associated_material i ids m)) =
     set (zm_requirementIds m) \<union> (if zm_materialId m = i then set ids else {})"
  by (simp_all add: associated_material_def)

lemma associated_valid:
  assumes "isValidProtocolizationCaseMaterial env m" "distinct ids"
    "zm_materialId m = i \<Longrightarrow> set ids \<inter> set (zm_requirementIds m) = {}"
  shows "isValidProtocolizationCaseMaterial env (associated_material i ids m) \<longleftrightarrow>
     (zm_materialId m = i \<longrightarrow> list_all isValidAssetRequirementId ids)"
  using assms
  by (auto simp: isValidProtocolizationCaseMaterial_def isValidRequirementIdList_def associated_material_def)

lemma with_association_wf:
  assumes "case_wf env c" "revisable c" "isValidUtcDateTime env t" "isNotBefore env t (zc_updatedAt c)"
    "zc_state c \<noteq> Cancelled" "m \<in> set (zc_materials c)" "zm_materialId m = i" "set ids \<inter> set (zm_requirementIds m) = {}"
    "set ids \<subseteq> zr_requirementId ` set (zc_requirementStates c)" "distinct ids" "list_all isValidAssetRequirementId ids"
  shows "case_wf env (with_association c i ids t)"
proof -
  have unique: "n = m" if "n \<in> set (zc_materials c)" "zm_materialId n = i" for n
    using that assms(1,6,7) by (auto simp: case_wf_def materials_ok_def distinct_map inj_on_def)
  have fresh: "i \<notin> set (zr_materialIds s)" if "s \<in> set (zc_requirementStates c)" "zr_requirementId s \<in> set ids" for s
    using wf_unlinked [OF assms(1) that(1)] unique assms(8) that(2) by blast
  have valid: "list_all (\<lambda>n. isValidProtocolizationCaseMaterial env n \<and> isNotBefore env (zm_addedAt n) (zc_createdAt c)) (zc_materials c)"
    using assms(1) by (simp add: case_wf_def materials_ok_def)
  have "header_ok (with_association c i ids t)"
    using assms(1,2) by (auto simp: case_wf_def header_ok_def with_association_def revisable_def isSafeInteger_def)
  moreover have "times_ok env (with_association c i ids t)"
    using assms(1,3,5) times_after [OF assms(1,3,4)] by (auto simp: case_wf_def times_ok_def with_association_def)
  moreover have "materials_ok env (with_association c i ids t)"
  proof -
    have "isValidProtocolizationCaseMaterial env (associated_material i ids n)" if "n \<in> set (zc_materials c)" for n
      using associated_valid [of env n ids i] that valid assms(8,10,11) unique by (auto simp: list_all_iff)
    then show ?thesis
      using assms(1) by (auto simp: case_wf_def materials_ok_def with_association_def list_all_iff comp_def)
  qed
  moreover have "states_ok env (with_association c i ids t)"
  proof -
    have "i \<noteq> []"
      using valid assms(6,7) valid_material_id by (auto simp: list_all_iff isValidProtocolizationCaseMaterial_def)
    then show ?thesis
      using assms(1,3) fresh states_after [of env "zc_requirementStates c" t i ids]
      by (auto simp: case_wf_def states_ok_def with_association_def)
  qed
  moreover have "links_agree (with_association c i ids t)"
  proof -
    have old: "links_agree c" using assms(1) by (simp add: case_wf_def)
    have new: "\<exists>s \<in> set (zc_requirementStates c). zr_requirementId s = q" if "q \<in> set ids" for q
      using assms(9) that by blast
    show ?thesis
      using old new assms(6,7) unique
      unfolding links_agree_def with_association_def correlate_def
      by (auto simp: correlated_materials split: if_splits) fastforce+
  qed
  ultimately show ?thesis by (simp add: case_wf_def)
qed

subsection \<open>When an operation succeeds\<close>

text \<open>
  An operation succeeds exactly when the case is well formed and the tenant its own, the clock canonical and not
  before the case, the revision not exhausted, and the guards of the operation hold.
\<close>

lemma activate_case_Inr:
  "activateProtocolizationCase env ctx c = Inr (c', ev) \<longleftrightarrow>
     operable env ctx c \<and> time_ok env ctx c \<and> revisable c \<and> zc_state c = Draft \<and>
     c' = activated_case c (cx_now ctx) \<and> ev = CaseActivatedEvent (base_of c' (cx_now ctx) (zc_correlationId c))"
proof -
  have "case_wf env (activated_case c (cx_now ctx)) \<longleftrightarrow> revisable c"
    if "operable env ctx c" "zc_state c = Draft" "time_ok env ctx c"
    using that activated_wf [of env c "cx_now ctx"] header_after_iff [of c ActivateCase "cx_now ctx"]
    by (auto simp: operable_def time_ok_def case_wf_def)
  then show ?thesis
    by (auto simp: activateProtocolizationCase_def readClock_later operable_def Let_def activated_case_def)
qed

lemma cancel_Inr:
  "cancelProtocolizationCase env ctx c reason = Inr (c', ev) \<longleftrightarrow>
     operable env ctx c \<and> time_ok env ctx c \<and> revisable c \<and> zc_state c \<noteq> Cancelled \<and> \<not> bad_reason reason \<and>
     c' = cancelled_case c reason (cx_now ctx) \<and>
     ev = CaseCancelledEvent (base_of c' (cx_now ctx) (zc_correlationId c)) reason"
proof -
  have "case_wf env (cancelled_case c reason (cx_now ctx)) \<longleftrightarrow> revisable c"
    if "operable env ctx c" "zc_state c \<noteq> Cancelled" "\<not> bad_reason reason" "time_ok env ctx c"
    using that cancelled_wf [of env c reason "cx_now ctx"] header_after_iff [of c "CancelCase reason" "cx_now ctx"]
    by (auto simp: operable_def time_ok_def case_wf_def)
  moreover have "zc_correlationId (cancelled_case c reason (cx_now ctx)) = zc_correlationId c"
    using effect_fields(9) [of c "CancelCase reason"] by simp
  ultimately show ?thesis
    by (auto simp: cancelProtocolizationCase_def readClock_later operable_def Let_def)
qed

lemma material_of_fields [simp]:
  "zm_materialId (material_of i t) = im_materialId i" "zm_requirementIds (material_of i t) = im_requirementIds i"
  "zm_addedAt (material_of i t) = t" "zm_correlationId (material_of i t) = im_correlationId i"
  "zm_payload (material_of i t) = im_payload i"
  by (simp_all add: material_of_def)

lemma add_material_Inr:
  "addProtocolizationCaseMaterial env ctx c i = Inr (c', ev) \<longleftrightarrow>
     operable env ctx c \<and> time_ok env ctx c \<and> revisable c \<and> permitted env ctx c (AddMaterial i) \<and>
     c' = with_material c (material_of i (cx_now ctx)) (cx_now ctx) \<and>
     ev = MaterialAddedEvent (base_of c' (cx_now ctx) (im_correlationId i)) (im_materialId i) (payload_kind (im_payload i))
            (im_requirementIds i)"
proof -
  have "case_wf env (with_material c (material_of i (cx_now ctx)) (cx_now ctx)) \<longleftrightarrow> revisable c"
    if "operable env ctx c" "time_ok env ctx c" "permitted env ctx c (AddMaterial i)"
    using that with_material_wf [of env c "cx_now ctx" "material_of i (cx_now ctx)"]
      header_after_iff [of c "AddMaterial i" "cx_now ctx"]
    by (auto simp: operable_def time_ok_def case_wf_def requirements_ok_def)
  moreover have "(\<forall>m \<in> set (zc_materials c). zm_materialId m \<noteq> im_materialId i) \<longleftrightarrow> im_materialId i \<notin> zm_materialId ` set (zc_materials c)"
    by force
  ultimately show ?thesis
    using readClock_later [of env c ctx]
    by (cases "operable env ctx c")
       (simp_all add: addProtocolizationCaseMaterial_def operable_def Let_def pinned_profile_def list_ex_iff, blast+)
qed

lemma associate_Inr:
  "associateProtocolizationCaseMaterial env ctx c i ids = Inr (c', ev) \<longleftrightarrow>
     operable env ctx c \<and> time_ok env ctx c \<and> revisable c \<and> permitted env ctx c (AssociateMaterial i ids) \<and>
     c' = with_association c i ids (cx_now ctx) \<and>
     (\<exists>m \<in> set (zc_materials c). zm_materialId m = i \<and>
        ev = MaterialAssociatedEvent (base_of c' (cx_now ctx) (zm_correlationId m)) i ids)"
proof (cases "operable env ctx c \<and> time_ok env ctx c \<and> (\<exists>m \<in> set (zc_materials c). zm_materialId m = i)")
  case True
  then obtain m where m: "m \<in> set (zc_materials c)" "zm_materialId m = i" by blast
  have wf: "case_wf env c" using True by (simp add: operable_def)
  have unique: "n = m" if "n \<in> set (zc_materials c)" "zm_materialId n = i" for n
    using that wf m by (auto simp: case_wf_def materials_ok_def distinct_map inj_on_def)
  have found: "find (\<lambda>m. zm_materialId m = i) (zc_materials c) = Some m"
    using find_unique [of zm_materialId "zc_materials c" m] wf m by (simp add: case_wf_def materials_ok_def)
  let ?n = "with_association c i ids (cx_now ctx)"
  have sealed: "case_wf env ?n \<longleftrightarrow> revisable c \<and> list_all isValidAssetRequirementId ids"
    if "zc_state c \<noteq> Cancelled" "requirements_ok ids p c" "set ids \<inter> set (zm_requirementIds m) = {}" for p
  proof
    assume n: "case_wf env ?n"
    then have "isValidProtocolizationCaseMaterial env (associated_material i ids m)"
      using m(1) by (auto simp: case_wf_def materials_ok_def list_all_iff with_association_def)
    moreover have "isValidProtocolizationCaseMaterial env m"
      using wf m(1) by (auto simp: case_wf_def materials_ok_def list_all_iff)
    ultimately show "revisable c \<and> list_all isValidAssetRequirementId ids"
      using n wf header_after_iff [of c "AssociateMaterial i ids" "cx_now ctx"] associated_valid [of env m ids i] that m(2)
      by (auto simp: case_wf_def requirements_ok_def)
  next
    assume "revisable c \<and> list_all isValidAssetRequirementId ids"
    then show "case_wf env ?n"
      using with_association_wf [of env c "cx_now ctx" m i ids] that True m by (auto simp: operable_def time_ok_def requirements_ok_def)
  qed
  have ex: "(\<exists>n \<in> set (zc_materials c). zm_materialId n = i \<and> P n) \<longleftrightarrow> P m" for P
    using m unique by blast
  have already: "(\<forall>q \<in> set ids. q \<notin> set (zm_requirementIds m)) \<longleftrightarrow> set ids \<inter> set (zm_requirementIds m) = {}" by blast
  show ?thesis
    using True sealed unfolding associateProtocolizationCaseMaterial_def permitted.simps ex
    by (simp add: readClock_later wf Let_def pinned_profile_def filter_empty_conv already found) blast
next
  case False
  show ?thesis
  proof (cases "find (\<lambda>m. zm_materialId m = i) (zc_materials c)")
    case None
    then have "\<forall>m \<in> set (zc_materials c). zm_materialId m \<noteq> i" by (auto simp: find_None_iff)
    with None show ?thesis by (auto simp: associateProtocolizationCaseMaterial_def)
  next
    case (Some m)
    then have "m \<in> set (zc_materials c)" "zm_materialId m = i" by (auto simp: find_Some_iff)
    with False Some show ?thesis
      by (auto simp: associateProtocolizationCaseMaterial_def operable_def readClock_later Let_def)
  qed
qed

lemma perform_Inr:
  "(\<exists>ev. perform env ctx c cmd = Inr (c', ev)) \<longleftrightarrow>
     operable env ctx c \<and> time_ok env ctx c \<and> revisable c \<and> permitted env ctx c cmd \<and> c' = effect c cmd (cx_now ctx)"
proof (cases cmd)
  case (AddMaterial i)
  show ?thesis by (simp only: AddMaterial perform.simps add_material_Inr effect.simps) blast
next
  case (AssociateMaterial i ids)
  show ?thesis
    by (simp only: AssociateMaterial perform.simps associate_Inr effect.simps permitted.simps) blast
qed (simp_all only: perform.simps activate_case_Inr cancel_Inr permitted.simps effect.simps, blast+)

lemma perform_event:
  assumes "perform env ctx c cmd = Inr (c', ev)"
  shows "ev_caseId (event_base ev) = zc_caseId c" "ev_tenantId (event_base ev) = zc_tenantId c"
    "ev_profile (event_base ev) = zc_profile c" "ev_caseRevision (event_base ev) = zc_revision c + 1"
    "ev_occurredAt (event_base ev) = cx_now ctx"
proof -
  have c': "c' = effect c cmd (cx_now ctx)" using assms perform_Inr by blast
  have "\<exists>i. event_base ev = base_of c' (cx_now ctx) i"
    using assms
    by (cases cmd) (auto simp: activate_case_Inr cancel_Inr add_material_Inr associate_Inr simp del: permitted.simps)
  then show "ev_caseId (event_base ev) = zc_caseId c" "ev_tenantId (event_base ev) = zc_tenantId c"
    "ev_profile (event_base ev) = zc_profile c" "ev_caseRevision (event_base ev) = zc_revision c + 1"
    "ev_occurredAt (event_base ev) = cx_now ctx"
    by (auto simp: base_of_def c')
qed

lemma perform_wf: "perform env ctx c cmd = Inr (c', ev) \<Longrightarrow> case_wf env c'"
  by (cases cmd)
     (auto simp: activateProtocolizationCase_def cancelProtocolizationCase_def addProtocolizationCaseMaterial_def
        associateProtocolizationCaseMaterial_def Let_def split: option.splits)

lemma create_Inr:
  "createProtocolizationCase env ctx i = Inr (c, ev) \<longleftrightarrow>
     isValidProtocolizationTenantId (cx_tenantId ctx) \<and> create_reasons i = [] \<and> isValidUtcDateTime env (cx_now ctx) \<and>
     (\<exists>p. cx_catalog ctx (pr_profileId (ic_profile i)) (pr_profileVersion (ic_profile i)) = Some p \<and>
        c = initial_case ctx i p (cx_now ctx) \<and> case_wf env c) \<and>
     ev = CaseCreatedEvent (base_of c (cx_now ctx) (ic_correlationId i)) (su_subjectRef (ic_subject i))
            (map zr_requirementId (zc_requirementStates c))"
  by (auto simp: createProtocolizationCase_def assertActingTenant_def readClock_first Let_def)

text \<open>On a catalogued profile with distinct named requirements the last gate of a creation lets every case through.\<close>

lemma initial_wf:
  assumes "isValidProtocolizationTenantId (cx_tenantId ctx)" "create_reasons i = []" "isValidUtcDateTime env t"
    "distinct (map ar_id (ap_requirements p))" "\<And>q. q \<in> set (ap_requirements p) \<Longrightarrow> ar_id q \<noteq> []"
  shows "case_wf env (initial_case ctx i p t)"
proof -
  have "header_ok (initial_case ctx i p t)"
    using assms(1,2) by (simp add: isValidProtocolizationProfileRef_def header_ok_def initial_case_def create_reasons_def isSafeInteger_def split: if_splits)
  moreover have "times_ok env (initial_case ctx i p t)"
    using assms(2,3) isNotBefore_refl [OF assms(3)]
    by (auto simp: times_ok_def initial_case_def INITIAL_PROTOCOLIZATION_CASE_STATE_def create_reasons_def split: if_splits)
  moreover have "states_ok env (initial_case ctx i p t)"
    using assms(3-5)
    by (auto simp: states_ok_def initial_case_def initial_state_def list_all_iff isValidRequirementStateShape_def comp_def)
  ultimately show ?thesis
    by (auto simp: case_wf_def materials_ok_def links_agree_def initial_case_def initial_state_def)
qed

subsection \<open>Times in order\<close>

text \<open>
  Stronger than what is validated: nothing a case records is later than its \<open>updatedAt\<close>.
\<close>

definition in_order :: "host_env \<Rightarrow> ProtocolizationCase \<Rightarrow> bool" where
  "in_order env c \<longleftrightarrow>
     (\<forall>m \<in> set (zc_materials c). isNotBefore env (zc_updatedAt c) (zm_addedAt m)) \<and>
     (\<forall>s \<in> set (zc_requirementStates c). isNotBefore env (zc_updatedAt c) (zr_updatedAt s) \<and>
        (\<forall>t. zr_firstMaterialAt s = Some t \<longrightarrow> isNotBefore env (zr_updatedAt s) t)) \<and>
     (\<forall>t. zc_activatedAt c = Some t \<or> zc_cancelledAt c = Some t \<longrightarrow> isNotBefore env (zc_updatedAt c) t)"

lemma in_order_later:
  assumes "in_order env c" "isNotBefore env t (zc_updatedAt c)" "isValidUtcDateTime env t"
  shows "m \<in> set (zc_materials c) \<Longrightarrow> isNotBefore env t (zm_addedAt m)"
    "s \<in> set (zc_requirementStates c) \<Longrightarrow> isNotBefore env t (zr_updatedAt s)"
    "s \<in> set (zc_requirementStates c) \<Longrightarrow> zr_firstMaterialAt s = Some u \<Longrightarrow> isNotBefore env (zr_updatedAt s) u"
    "zc_activatedAt c = Some u \<or> zc_cancelledAt c = Some u \<Longrightarrow> isNotBefore env t u"
    "isNotBefore env t t"
  using assms isNotBefore_trans isNotBefore_refl unfolding in_order_def by blast+

lemma correlate_in_order:
  assumes "in_order env c" "isNotBefore env t (zc_updatedAt c)" "isValidUtcDateTime env t"
    "s \<in> set (correlate (zc_requirementStates c) ids i t)"
  shows "isNotBefore env t (zr_updatedAt s) \<and> (\<forall>u. zr_firstMaterialAt s = Some u \<longrightarrow> isNotBefore env (zr_updatedAt s) u)"
proof -
  from assms(4) obtain r where r: "r \<in> set (zc_requirementStates c)" "s = correlate_one ids i t r"
    by (auto simp: correlate_def)
  note later = in_order_later [OF assms(1-3)]
  have "isNotBefore env t u" if "zr_firstMaterialAt r = Some u" for u
    using isNotBefore_trans later(2) [OF r(1)] later(3) [OF r(1) that] by blast
  with later(2,3) [OF r(1)] later(5) show ?thesis
    by (auto simp: r(2) correlate_one_def split: option.split)
qed

lemma effect_in_order:
  assumes "in_order env c" "time_ok env ctx c"
  shows "in_order env (effect c cmd (cx_now ctx))"
proof -
  have t: "isNotBefore env (cx_now ctx) (zc_updatedAt c)" "isValidUtcDateTime env (cx_now ctx)"
    using assms(2) by (simp_all add: time_ok_def)
  note later = in_order_later [OF assms(1) t] and states = correlate_in_order [OF assms(1) t]
  show ?thesis
  proof (cases cmd)
    case (CancelCase reason)
    then show ?thesis using later by (auto simp: in_order_def cancelled_case_def Let_def split: option.split)
  qed (use later states in \<open>auto simp: in_order_def activated_case_def with_material_def with_association_def\<close>)
qed

lemma initial_in_order: "isValidUtcDateTime env t \<Longrightarrow> in_order env (initial_case ctx i p t)"
  by (auto simp: in_order_def initial_case_def initial_state_def isNotBefore_refl)

subsection \<open>The end of a case\<close>

lemma cancelled_final: "zc_state c = Cancelled \<Longrightarrow> perform env ctx c cmd \<noteq> Inr (c', ev)"
  using perform_Inr [of env ctx c cmd c'] by (cases cmd) auto

end
