(* ===== verification/CaseStore.thy ===== *)
theory CaseStore
  imports CaseInvariant
begin

text \<open>
  \<open>packages/asset-protocolization/src/case/case-repository.ts\<close>: the repository of cases, and writers that load a
  case, perform an operation on it, and save the result.

  The interface is a locale of the two operations a writer calls; the repository in memory is its instance.
\<close>

subsection \<open>The repository in memory\<close>

type_synonym case_entries = "string \<rightharpoonup> ProtocolizationCase"

definition storageKey :: "string \<Rightarrow> string \<Rightarrow> string" where
  "storageKey tenantId caseId = tenantId @ [CHR 10] @ caseId"

definition assertTenant :: "string \<Rightarrow> ProtocolizationCaseError option" where
  "assertTenant tenantId =
     fail_if (\<not> isValidProtocolizationTenantId tenantId) CASE_INVALID_TENANT (reasons_only [Code CASE_INVALID_TENANT])"

definition repository_get :: "case_entries \<Rightarrow> string \<Rightarrow> string \<Rightarrow> ProtocolizationCase option case_result" where
  "repository_get entries tenantId caseId =
     unless_error (assertTenant tenantId) (Inr (entries (storageKey tenantId caseId)))"

definition repository_exists :: "case_entries \<Rightarrow> string \<Rightarrow> string \<Rightarrow> bool case_result" where
  "repository_exists entries tenantId caseId =
     unless_error (assertTenant tenantId) (Inr (entries (storageKey tenantId caseId) \<noteq> None))"

definition saved_details :: "ProtocolizationCase \<Rightarrow> CaseErrorCode \<Rightarrow> CaseErrorDetails" where
  "saved_details c code = (reasons_only [Code code])\<lparr>cd_caseId := Some (zc_caseId c), cd_tenantId := Some (zc_tenantId c)\<rparr>"

definition revision_error :: "ProtocolizationCase option \<Rightarrow> ProtocolizationCase \<Rightarrow> ProtocolizationCaseError option" where
  "revision_error stored c =
     (case stored of
        None \<Rightarrow> fail_if (zc_revision c \<noteq> 1) CASE_NOT_FOUND
                  ((saved_details c CASE_NOT_FOUND)\<lparr>cd_expectedRevision := Some (zc_revision c - 1)\<rparr>)
      | Some d \<Rightarrow>
          if zc_revision c = 1 then Some (case_error CASE_ALREADY_EXISTS (saved_details c CASE_ALREADY_EXISTS))
          else fail_if (zc_revision c \<noteq> zc_revision d + 1) CASE_REVISION_CONFLICT
                 ((saved_details c CASE_REVISION_CONFLICT)
                    \<lparr>cd_expectedRevision := Some (zc_revision d + 1), cd_actualRevision := Some (zc_revision c)\<rparr>))"

definition repository_save :: "host_env \<Rightarrow> case_entries \<Rightarrow> ProtocolizationCase \<Rightarrow> case_entries case_result" where
  "repository_save env entries c =
     unless_error (invalid_case env c None)
    (let key = storageKey (zc_tenantId c) (zc_caseId c) in
     unless_error (revision_error (entries key) c)
       (Inr (entries(key \<mapsto> c))))"

subsection \<open>Keys\<close>

lemma storageKey_inj:
  assumes "isValidProtocolizationTenantId t" "isValidProtocolizationTenantId t'"
  shows "storageKey t i = storageKey t' i' \<longleftrightarrow> t = t' \<and> i = i'"
  using append_sep_inj [of "CHR 10" t t' i i'] tenant_no_newline assms by (auto simp: storageKey_def)

subsection \<open>The interface\<close>

definition next_revision :: "ProtocolizationCase option \<Rightarrow> ProtocolizationCase \<Rightarrow> bool" where
  "next_revision stored c \<longleftrightarrow>
     (case stored of None \<Rightarrow> zc_revision c = 1 | Some d \<Rightarrow> zc_revision c \<noteq> 1 \<and> zc_revision c = zc_revision d + 1)"

lemma revision_error_None: "revision_error stored c = None \<longleftrightarrow> next_revision stored c"
  by (simp add: revision_error_def next_revision_def split: option.split)

locale case_repository =
  fixes fetch :: "'s \<Rightarrow> string \<Rightarrow> string \<Rightarrow> ProtocolizationCase option case_result"
    and store :: "'s \<Rightarrow> ProtocolizationCase \<Rightarrow> 's case_result"
    and env :: host_env
  assumes fetch_answers: "(\<exists>r. fetch s t i = Inr r) \<longleftrightarrow> isValidProtocolizationTenantId t"
    and store_accepts: "(\<exists>s'. store s c = Inr s') \<longleftrightarrow>
      case_wf env c \<and> (\<exists>r. fetch s (zc_tenantId c) (zc_caseId c) = Inr r \<and> next_revision r c)"
    and fetch_stored: "store s c = Inr s' \<Longrightarrow> fetch s' (zc_tenantId c) (zc_caseId c) = Inr (Some c)"
    and fetch_other: "store s c = Inr s' \<Longrightarrow> isValidProtocolizationTenantId t \<Longrightarrow> (t, i) \<noteq> (zc_tenantId c, zc_caseId c) \<Longrightarrow>
      fetch s' t i = fetch s t i"
begin

text \<open>Of two writers that saw the same revision only the first is accepted.\<close>

lemma second_writer_refused:
  assumes "store s c = Inr s'" "zc_tenantId d = zc_tenantId c" "zc_caseId d = zc_caseId c" "zc_revision d = zc_revision c"
  shows "\<exists>e. store s' d = Inl e"
proof (cases "store s' d")
  case (Inr s'')
  then have "\<exists>r. fetch s' (zc_tenantId d) (zc_caseId d) = Inr r \<and> next_revision r d" using store_accepts by blast
  with fetch_stored [OF assms(1)] assms(2-4) show ?thesis by (auto simp: next_revision_def)
qed simp

text \<open>A save of one tenant changes nothing that another tenant can fetch.\<close>

lemma other_tenants_unchanged:
  assumes "store s c = Inr s'" "t \<noteq> zc_tenantId c"
  shows "isValidProtocolizationTenantId t \<Longrightarrow> fetch s' t i = fetch s t i"
  using fetch_other [OF assms(1)] assms(2) by blast

lemma refused_unless_next:
  assumes "fetch s (zc_tenantId c) (zc_caseId c) = Inr (Some d)" "zc_revision c \<noteq> zc_revision d + 1"
  shows "\<exists>e. store s c = Inl e"
proof (cases "store s c")
  case (Inr s')
  then show ?thesis using store_accepts [of s c] assms by (auto simp: next_revision_def)
qed simp

end

lemma get_Inr [simp]:
  "repository_get entries t i = Inr r \<longleftrightarrow> isValidProtocolizationTenantId t \<and> r = entries (storageKey t i)"
  by (auto simp: repository_get_def assertTenant_def)

lemma save_Inr [simp]:
  "repository_save env entries c = Inr e \<longleftrightarrow>
     case_wf env c \<and> next_revision (entries (storageKey (zc_tenantId c) (zc_caseId c))) c \<and>
     e = entries(storageKey (zc_tenantId c) (zc_caseId c) \<mapsto> c)"
  by (auto simp: repository_save_def invalid_case_None Let_def revision_error_None)

lemma get_refused: "\<not> isValidProtocolizationTenantId t \<Longrightarrow> repository_get entries t i = Inl e \<Longrightarrow> ze_code e = CASE_INVALID_TENANT"
  by (auto simp: repository_get_def assertTenant_def unless_error_def fail_if_def case_error_def)

interpretation memory: case_repository repository_get "repository_save env" env for env
proof
  fix s :: case_entries and t i
  show "(\<exists>r. repository_get s t i = Inr r) \<longleftrightarrow> isValidProtocolizationTenantId t" by simp
next
  fix s :: case_entries and c
  show "(\<exists>s'. repository_save env s c = Inr s') \<longleftrightarrow>
      case_wf env c \<and> (\<exists>r. repository_get s (zc_tenantId c) (zc_caseId c) = Inr r \<and> next_revision r c)"
    using wf_tenant [of env c] by auto
next
  fix s s' :: case_entries and c
  assume "repository_save env s c = Inr s'"
  then show "repository_get s' (zc_tenantId c) (zc_caseId c) = Inr (Some c)"
    using wf_tenant [of env c] by auto
next
  fix s s' :: case_entries and c t i
  assume s: "repository_save env s c = Inr s'" and t: "isValidProtocolizationTenantId t"
    and other: "(t, i) \<noteq> (zc_tenantId c, zc_caseId c)"
  from s have "isValidProtocolizationTenantId (zc_tenantId c)" using wf_tenant [of env c] by simp
  with t other have "storageKey t i \<noteq> storageKey (zc_tenantId c) (zc_caseId c)" by (auto simp: storageKey_inj)
  with s show "repository_get s' t i = repository_get s t i" by (simp add: repository_get_def)
qed

end
