(* ===== verification/CaseProgress.thy ===== *)
theory CaseProgress
  imports CaseInvariant
begin

text \<open>
  \<open>packages/asset-protocolization/src/case/case-progress.ts\<close>: the progress of a case against the profile it is
  pinned to.
\<close>

record ProtocolizationCaseRequirementProgress =
  gp_requirementId :: string
  gp_kind :: AssetRequirementKind
  gp_obligation :: AssetRequirementObligation
  gp_materialStatus :: MaterialStatus
  gp_conditionStatus :: ConditionStatus
  gp_materialIds :: "string list"
  gp_firstMaterialAt :: "string option"
  gp_updatedAt :: string

record ProtocolizationCaseProgressFilter =
  gf_kind :: "AssetRequirementKind option"
  gf_obligation :: "AssetRequirementObligation option"
  gf_materialStatus :: "MaterialStatus option"

definition no_filter :: ProtocolizationCaseProgressFilter where
  "no_filter = \<lparr>gf_kind = None, gf_obligation = None, gf_materialStatus = None\<rparr>"

definition assertPinnedProfile :: "ProtocolizationCase \<Rightarrow> AssetProfile \<Rightarrow> ProtocolizationCaseError option" where
  "assertPinnedProfile c profile =
     fail_if (\<not> protocolizationProfileRefsEqual (zc_profile c) (profile_ref_of profile)) CASE_PROFILE_MISMATCH
       ((reasons_only [Code CASE_PROFILE_MISMATCH])\<lparr>cd_caseId := Some (zc_caseId c), cd_profile := Some (zc_profile c)\<rparr>)"

text \<open>The map of the states by requirement; of two entries of a key the later one stays.\<close>

definition states_by_id :: "ProtocolizationCase \<Rightarrow> string \<Rightarrow> CaseRequirementState option" where
  "states_by_id c = map_of (rev (map (\<lambda>s. (zr_requirementId s, s)) (zc_requirementStates c)))"

definition progress_of :: "AssetRequirement \<Rightarrow> CaseRequirementState \<Rightarrow> ProtocolizationCaseRequirementProgress" where
  "progress_of q s =
     \<lparr>gp_requirementId = ar_id q, gp_kind = ar_kind q, gp_obligation = ar_obligation q,
      gp_materialStatus = zr_materialStatus s,
      gp_conditionStatus = (if ar_obligation q = Conditional then Unresolved else NotApplicable),
      gp_materialIds = zr_materialIds s, gp_firstMaterialAt = zr_firstMaterialAt s, gp_updatedAt = zr_updatedAt s\<rparr>"

definition requirement_progress :: "ProtocolizationCase \<Rightarrow> AssetRequirement \<Rightarrow> ProtocolizationCaseRequirementProgress list" where
  "requirement_progress c q = (case states_by_id c (ar_id q) of None \<Rightarrow> [] | Some s \<Rightarrow> [progress_of q s])"

definition passes_filter :: "ProtocolizationCaseProgressFilter \<Rightarrow> ProtocolizationCaseRequirementProgress \<Rightarrow> bool" where
  "passes_filter f p \<longleftrightarrow>
     (case gf_kind f of None \<Rightarrow> True | Some k \<Rightarrow> gp_kind p = k) \<and>
     (case gf_obligation f of None \<Rightarrow> True | Some k \<Rightarrow> gp_obligation p = k) \<and>
     (case gf_materialStatus f of None \<Rightarrow> True | Some k \<Rightarrow> gp_materialStatus p = k)"

definition listProtocolizationCaseRequirementProgress ::
  "ProtocolizationCase \<Rightarrow> AssetProfile \<Rightarrow> ProtocolizationCaseProgressFilter \<Rightarrow>
     ProtocolizationCaseRequirementProgress list case_result" where
  "listProtocolizationCaseRequirementProgress c profile f =
     unless_error (assertPinnedProfile c profile)
       (Inr (filter (passes_filter f) (concat (map (requirement_progress c) (ap_requirements profile)))))"

definition awaits_material :: "ProtocolizationCaseRequirementProgress \<Rightarrow> bool" where
  "awaits_material p \<longleftrightarrow> gp_materialStatus p = Pending \<and> (gp_obligation p = Required \<or> gp_obligation p = Conditional)"

definition listProtocolizationCasePendingMaterialRequirements ::
  "ProtocolizationCase \<Rightarrow> AssetProfile \<Rightarrow> ProtocolizationCaseRequirementProgress list case_result" where
  "listProtocolizationCasePendingMaterialRequirements c profile =
     bind_sum (listProtocolizationCaseRequirementProgress c profile no_filter) (\<lambda>ps. Inr (filter awaits_material ps))"

definition getProtocolizationCaseRequirementProgress ::
  "ProtocolizationCase \<Rightarrow> AssetProfile \<Rightarrow> string \<Rightarrow> ProtocolizationCaseRequirementProgress option case_result" where
  "getProtocolizationCaseRequirementProgress c profile requirementId =
     bind_sum (listProtocolizationCaseRequirementProgress c profile no_filter)
       (\<lambda>ps. Inr (find (\<lambda>p. gp_requirementId p = requirementId) ps))"

subsection \<open>A case projects its profile\<close>

definition projects :: "AssetProfile \<Rightarrow> ProtocolizationCase \<Rightarrow> bool" where
  "projects p c \<longleftrightarrow> zc_profile c = profile_ref_of p \<and> map zr_requirementId (zc_requirementStates c) = map ar_id (ap_requirements p)"

lemma initial_projects:
  assumes "ap_profileId p = pr_profileId (ic_profile i)" "ap_version p = pr_profileVersion (ic_profile i)"
  shows "projects p (initial_case ctx i p t)"
  using assms by (simp add: projects_def initial_case_def initial_state_def profile_ref_of_def comp_def)

lemma effect_projects: "projects p c \<Longrightarrow> projects p (effect c cmd t)"
  by (simp add: projects_def)

lemma projected_state:
  assumes "projects p c" "q \<in> set (ap_requirements p)" "case_wf env c"
  obtains s where "s \<in> set (zc_requirementStates c)" "zr_requirementId s = ar_id q" "states_by_id c (ar_id q) = Some s"
proof -
  have ids: "distinct (map zr_requirementId (zc_requirementStates c))"
    using assms(3) by (simp add: case_wf_def states_ok_def)
  have "ar_id q \<in> set (map zr_requirementId (zc_requirementStates c))"
    using assms(1,2) by (simp add: projects_def)
  then obtain s where s: "s \<in> set (zc_requirementStates c)" "zr_requirementId s = ar_id q"
    by (metis (no_types, lifting) imageE list.set_map)
  have "distinct (map fst (rev (map (\<lambda>s. (zr_requirementId s, s)) (zc_requirementStates c))))"
    using ids by (simp add: rev_map [symmetric] comp_def)
  then have "states_by_id c (ar_id q) = Some s"
    using s by (force simp: states_by_id_def)
  with s that show ?thesis by blast
qed

text \<open>The view has one entry for each requirement, in the order of the profile.\<close>

lemma progress_entries:
  assumes "projects p c" "case_wf env c"
  shows "\<exists>ps. listProtocolizationCaseRequirementProgress c p no_filter = Inr ps \<and>
    map gp_requirementId ps = map ar_id (ap_requirements p) \<and>
    (\<forall>x \<in> set ps. \<exists>q \<in> set (ap_requirements p). \<exists>s \<in> set (zc_requirementStates c).
       zr_requirementId s = ar_id q \<and> x = progress_of q s)"
proof -
  have pinned: "assertPinnedProfile c p = None"
    using assms(1) by (simp add: assertPinnedProfile_def projects_def protocolizationProfileRefsEqual_def)
  have all: "passes_filter no_filter x" for x by (simp add: passes_filter_def no_filter_def)
  have "map gp_requirementId (concat (map (requirement_progress c) qs)) = map ar_id qs \<and>
      (\<forall>x \<in> set (concat (map (requirement_progress c) qs)). \<exists>q \<in> set qs. \<exists>s \<in> set (zc_requirementStates c).
         zr_requirementId s = ar_id q \<and> x = progress_of q s)"
    if "set qs \<subseteq> set (ap_requirements p)" for qs
    using that
  proof (induction qs)
    case (Cons q qs)
    then have "q \<in> set (ap_requirements p)" by simp
    from projected_state [OF assms(1) this assms(2)]
    obtain s where "s \<in> set (zc_requirementStates c)" "zr_requirementId s = ar_id q" "states_by_id c (ar_id q) = Some s"
      by blast
    with Cons show ?case by (auto simp: requirement_progress_def progress_of_def)
  qed simp
  then show ?thesis
    by (simp add: listProtocolizationCaseRequirementProgress_def pinned all)
qed

text \<open>Nothing is awaited exactly when every required and every conditional requirement has material.\<close>

lemma pending_none:
  assumes "projects p c" "case_wf env c"
  shows "listProtocolizationCasePendingMaterialRequirements c p = Inr [] \<longleftrightarrow>
    (\<forall>q \<in> set (ap_requirements p). ar_obligation q = Required \<or> ar_obligation q = Conditional \<longrightarrow>
       (\<exists>m \<in> set (zc_materials c). ar_id q \<in> set (zm_requirementIds m)))"
proof -
  have pinned: "assertPinnedProfile c p = None"
    using assms(1) by (simp add: assertPinnedProfile_def projects_def protocolizationProfileRefsEqual_def)
  have all: "passes_filter no_filter x" for x by (simp add: passes_filter_def no_filter_def)
  have linked: "zr_materialStatus s \<noteq> Pending \<longleftrightarrow> (\<exists>m \<in> set (zc_materials c). zr_requirementId s \<in> set (zm_requirementIds m))"
    if s: "s \<in> set (zc_requirementStates c)" for s
  proof -
    have unique: "u = s" if "u \<in> set (zc_requirementStates c)" "zr_requirementId u = zr_requirementId s" for u
      using that s assms(2) by (auto simp: case_wf_def states_ok_def distinct_map inj_on_def)
    have "zr_materialStatus s \<noteq> Pending \<longleftrightarrow> (\<exists>i. i \<in> set (zr_materialIds s))"
      using assms(2) s by (auto simp: case_wf_def states_ok_def list_all_iff) (meson list.set_sel(1))
    also have "\<dots> \<longleftrightarrow> (\<exists>m \<in> set (zc_materials c). zr_requirementId s \<in> set (zm_requirementIds m))"
      using assms(2) s unique unfolding case_wf_def links_agree_def by metis
    finally show ?thesis .
  qed
  have one: "filter awaits_material (requirement_progress c q) = [] \<longleftrightarrow>
      (ar_obligation q = Required \<or> ar_obligation q = Conditional \<longrightarrow> (\<exists>m \<in> set (zc_materials c). ar_id q \<in> set (zm_requirementIds m)))"
    if q: "q \<in> set (ap_requirements p)" for q
  proof -
    obtain s where "s \<in> set (zc_requirementStates c)" "zr_requirementId s = ar_id q" "states_by_id c (ar_id q) = Some s"
      using projected_state [OF assms(1) q assms(2)] by blast
    with linked [of s] show ?thesis
      by (auto simp: requirement_progress_def awaits_material_def progress_of_def)
  qed
  show ?thesis
    using one
    by (auto simp: listProtocolizationCasePendingMaterialRequirements_def listProtocolizationCaseRequirementProgress_def
        pinned all filter_concat)
qed

end
