(* ===== verification/ProfileCatalog.thy ===== *)
theory ProfileCatalog
  imports AssetProfiles
begin

text \<open>
  \<open>packages/asset-protocolization/src/profile-catalog.ts\<close>, with \<open>compareAssetProfileVersions\<close> of \<open>identifiers.ts\<close> and
  the errors of \<open>errors.ts\<close>: profiles by identifier and version.

  The map of the catalogue is the list of its entries in the order of their insertion.  What the rest of the package
  asks of a catalogue is the locale \<open>profile_catalog\<close>; the catalogue in memory is its instance.
\<close>

subsection \<open>Versions\<close>

text \<open>
  \<open>Number\<close> of a text of digits: the nearest double, ties to even.  Below \<open>2^53\<close> it is exact.
\<close>

fun bit_size :: "nat \<Rightarrow> nat" where
  "bit_size n = (if n = 0 then 0 else Suc (bit_size (n div 2)))"

declare bit_size.simps [simp del]

definition round_double :: "nat \<Rightarrow> nat" where
  "round_double n =
     (if n < 2 ^ 53 then n
      else let k = bit_size n - 53; q = n div 2 ^ k; r = n mod 2 ^ k; half = 2 ^ (k - 1) in
           (if half < r \<or> r = half \<and> odd q then q + 1 else q) * 2 ^ k)"

definition version_fields :: "string \<Rightarrow> nat list" where
  "version_fields v = map (\<lambda>w. round_double (nat_of_digits w)) (split_on CHR ''.'' v)"

definition field_at :: "nat list \<Rightarrow> nat \<Rightarrow> nat" where
  "field_at fs i = (if i < length fs then fs ! i else 0)"

definition compareAssetProfileVersions :: "string \<Rightarrow> string \<Rightarrow> int" where
  "compareAssetProfileVersions left right =
     (let l = version_fields left; r = version_fields right in
      case find (\<lambda>i. field_at l i \<noteq> field_at r i) [0, 1, 2] of
        None \<Rightarrow> 0
      | Some i \<Rightarrow> if field_at l i < field_at r i then - 1 else 1)"

subsection \<open>The catalogue in memory\<close>

datatype AssetProfileErrorCode = ASSET_PROFILE_INVALID | ASSET_PROFILE_VERSION_ALREADY_REGISTERED

datatype profile_reason = ProfileReason ProfileIssue | ProfileErrorReason AssetProfileErrorCode

record AssetProfileError =
  pe_code :: AssetProfileErrorCode
  pe_reasonCodes :: "profile_reason list"
  pe_profileId :: string
  pe_version :: string

type_synonym catalog_entries = "(string \<times> AssetProfile) list"

definition profile_key :: "AssetProfile \<Rightarrow> string" where
  "profile_key p = assetProfileVersionKey (ap_profileId p) (ap_version p)"

definition catalog_register ::
  "host_env \<Rightarrow> catalog_entries \<Rightarrow> AssetProfile \<Rightarrow> AssetProfileError + catalog_entries" where
  "catalog_register env entries p =
     (let issues = validateAssetProfile env p in
      if issues \<noteq> []
      then Inl \<lparr>pe_code = ASSET_PROFILE_INVALID, pe_reasonCodes = map (\<lambda>i. ProfileReason (fst i)) issues,
                pe_profileId = ap_profileId p, pe_version = ap_version p\<rparr>
      else if map_of entries (profile_key p) \<noteq> None
      then Inl \<lparr>pe_code = ASSET_PROFILE_VERSION_ALREADY_REGISTERED,
                pe_reasonCodes = [ProfileErrorReason ASSET_PROFILE_VERSION_ALREADY_REGISTERED],
                pe_profileId = ap_profileId p, pe_version = ap_version p\<rparr>
      else Inr (entries @ [(profile_key p, p)]))"

definition catalog_get :: "catalog_entries \<Rightarrow> string \<Rightarrow> string \<Rightarrow> AssetProfile option" where
  "catalog_get entries profileId version = map_of entries (assetProfileVersionKey profileId version)"

definition catalog_has :: "catalog_entries \<Rightarrow> string \<Rightarrow> string \<Rightarrow> bool" where
  "catalog_has entries profileId version \<longleftrightarrow> map_of entries (assetProfileVersionKey profileId version) \<noteq> None"

record AssetProfileCatalogFilter =
  lf_profileId :: "string option"
  lf_assetCategory :: "string option"

definition compare_profiles :: "host_env \<Rightarrow> AssetProfile \<Rightarrow> AssetProfile \<Rightarrow> int" where
  "compare_profiles env l r =
     (let c = e_cmp env (ap_profileId l) (ap_profileId r) in
      if c \<noteq> 0 then c else compareAssetProfileVersions (ap_version l) (ap_version r))"

definition catalog_list :: "host_env \<Rightarrow> catalog_entries \<Rightarrow> AssetProfileCatalogFilter \<Rightarrow> AssetProfile list" where
  "catalog_list env entries f =
     sort_by (compare_profiles env)
       (filter (\<lambda>p. if_present (\<lambda>i. ap_profileId p = i) (lf_profileId f) \<and>
                  if_present (\<lambda>c. ap_assetCategory p = c) (lf_assetCategory f)) (map snd entries))"

definition catalog_versionsOf :: "host_env \<Rightarrow> catalog_entries \<Rightarrow> string \<Rightarrow> string list" where
  "catalog_versionsOf env entries profileId =
     map ap_version (catalog_list env entries \<lparr>lf_profileId = Some profileId, lf_assetCategory = None\<rparr>)"

fun register_all :: "host_env \<Rightarrow> catalog_entries \<Rightarrow> AssetProfile list \<Rightarrow> AssetProfileError + catalog_entries" where
  "register_all env entries [] = Inr entries"
| "register_all env entries (p # ps) = bind_sum (catalog_register env entries p) (\<lambda>e. register_all env e ps)"

definition createAssetProfileCatalog :: "host_env \<Rightarrow> AssetProfile list \<Rightarrow> AssetProfileError + catalog_entries" where
  "createAssetProfileCatalog env profiles = register_all env [] profiles"

subsection \<open>Keys\<close>

lemma version_key_inj:
  assumes "isValidAssetProfileId i" "isValidAssetProfileId j"
  shows "assetProfileVersionKey i v = assetProfileVersionKey j w \<longleftrightarrow> i = j \<and> v = w"
  using append_sep_inj [of "CHR ''@''" i j v w] dotted_no_at assms
  by (auto simp: assetProfileVersionKey_def isValidAssetProfileId_def)

subsection \<open>The interface\<close>

text \<open>
  What a catalogue answers is valid and the profile asked for, and a registration changes no answer but that for the
  pair it registers, which had none.
\<close>

locale profile_catalog =
  fixes lookup :: "'s \<Rightarrow> string \<Rightarrow> string \<Rightarrow> AssetProfile option"
    and register :: "'s \<Rightarrow> AssetProfile \<Rightarrow> AssetProfileError + 's"
    and env :: host_env
    and sound :: "'s \<Rightarrow> bool"
  assumes lookup_answer: "sound s \<Longrightarrow> isValidAssetProfileId i \<Longrightarrow> lookup s i v = Some p \<Longrightarrow>
      profile_wf env p \<and> ap_profileId p = i \<and> ap_version p = v"
    and register_accepts: "(\<exists>s'. register s p = Inr s') \<longleftrightarrow>
      profile_wf env p \<and> lookup s (ap_profileId p) (ap_version p) = None"
    and register_sound: "sound s \<Longrightarrow> register s p = Inr s' \<Longrightarrow> sound s'"
    and lookup_registered: "register s p = Inr s' \<Longrightarrow>
      lookup s' i v = (if assetProfileVersionKey i v = assetProfileVersionKey (ap_profileId p) (ap_version p)
                       then Some p else lookup s i v)"
begin

text \<open>A catalogued version is never replaced.\<close>

lemma version_immutable:
  assumes "lookup s i v = Some p" "register s q = Inr s'" "isValidAssetProfileId i"
  shows "lookup s' i v = Some p"
proof (cases "assetProfileVersionKey i v = assetProfileVersionKey (ap_profileId q) (ap_version q)")
  case True
  have "profile_wf env q" "lookup s (ap_profileId q) (ap_version q) = None" using assms(2) register_accepts by blast+
  moreover have "isValidAssetProfileId (ap_profileId q)"
    using \<open>profile_wf env q\<close> by (simp add: profile_wf_def profile_head_ok_def)
  ultimately show ?thesis
    using True assms(1,3) by (auto simp: version_key_inj)
qed (use lookup_registered [OF assms(2)] assms(1) in simp)

lemma twice_refused: "register s p = Inr s' \<Longrightarrow> \<exists>e. register s' p = Inl e"
  using register_accepts [of s' p] lookup_registered [of s p s' "ap_profileId p" "ap_version p"]
  by (cases "register s' p") auto

end

definition catalog_sound :: "host_env \<Rightarrow> catalog_entries \<Rightarrow> bool" where
  "catalog_sound env entries \<longleftrightarrow> (\<forall>(k, p) \<in> set entries. k = profile_key p \<and> profile_wf env p) \<and> distinct (map fst entries)"

lemma register_Inr [simp]:
  "catalog_register env entries p = Inr e \<longleftrightarrow>
     profile_wf env p \<and> map_of entries (profile_key p) = None \<and> e = entries @ [(profile_key p, p)]"
  by (auto simp: catalog_register_def Let_def validate_profile)

lemma catalogued:
  assumes "catalog_sound env entries" "isValidAssetProfileId i" "catalog_get entries i v = Some p"
  shows "profile_wf env p \<and> ap_profileId p = i \<and> ap_version p = v"
proof -
  have "(assetProfileVersionKey i v, p) \<in> set entries"
    using assms(3) by (simp add: catalog_get_def map_of_SomeD)
  with assms(1) have p: "assetProfileVersionKey i v = profile_key p" "profile_wf env p"
    by (auto simp: catalog_sound_def)
  then have "isValidAssetProfileId (ap_profileId p)" by (simp add: profile_wf_def profile_head_ok_def)
  with p assms(2) show ?thesis by (simp add: profile_key_def version_key_inj)
qed

lemma get_after_register:
  assumes "catalog_register env entries p = Inr e"
  shows "catalog_get e i v = (if assetProfileVersionKey i v = profile_key p then Some p else catalog_get entries i v)"
  using assms by (auto simp: catalog_get_def map_add_def split: option.split)

lemma catalog_sound_register: "catalog_sound env entries \<Longrightarrow> catalog_register env entries p = Inr e \<Longrightarrow> catalog_sound env e"
  by (auto simp: catalog_sound_def map_of_eq_None_iff)

interpretation catalog: profile_catalog catalog_get "catalog_register env" env "catalog_sound env" for env
proof
  fix s :: catalog_entries and p
  show "(\<exists>s'. catalog_register env s p = Inr s') \<longleftrightarrow> profile_wf env p \<and> catalog_get s (ap_profileId p) (ap_version p) = None"
    by (simp add: catalog_get_def profile_key_def)
next
  fix s s' :: catalog_entries and p i v
  assume "catalog_register env s p = Inr s'"
  from get_after_register [OF this, of i v]
  show "catalog_get s' i v = (if assetProfileVersionKey i v = assetProfileVersionKey (ap_profileId p) (ap_version p)
      then Some p else catalog_get s i v)" by (simp add: profile_key_def)
qed (use catalogued catalog_sound_register in blast)+

lemma created_sound: "createAssetProfileCatalog env ps = Inr e \<Longrightarrow> catalog_sound env e"
proof -
  have "register_all env entries ps = Inr e \<Longrightarrow> catalog_sound env entries \<Longrightarrow> catalog_sound env e" for entries
    by (induction ps arbitrary: entries) (auto intro: catalog_sound_register simp del: register_Inr)
  then show "createAssetProfileCatalog env ps = Inr e \<Longrightarrow> catalog_sound env e"
    by (simp add: createAssetProfileCatalog_def catalog_sound_def)
qed

subsection \<open>Versions in order\<close>

lemma compare_versions_zero: "compareAssetProfileVersions l r = 0 \<longleftrightarrow> (\<forall>i \<in> {0, 1, 2}. field_at (version_fields l) i = field_at (version_fields r) i)"
  by (auto simp: compareAssetProfileVersions_def Let_def split: option.split)

lemma compare_versions_antisym: "compareAssetProfileVersions r l = - compareAssetProfileVersions l r"
  by (auto simp: compareAssetProfileVersions_def Let_def split: option.split)

lemma list_members:
  "p \<in> set (catalog_list env entries f) \<longleftrightarrow>
     p \<in> snd ` set entries \<and> if_present (\<lambda>i. ap_profileId p = i) (lf_profileId f) \<and>
     if_present (\<lambda>c. ap_assetCategory p = c) (lf_assetCategory f)"
  by (auto simp: catalog_list_def)

end
