(* ===== verification/CaseRuns.thy ===== *)
theory CaseRuns
  imports CaseStore CaseProgress ProfileCatalog
begin

text \<open>
  Writers over one catalogue and one repository in memory: a writer registers a profile, creates and saves a case, or
  loads one, performs one operation on the case it holds and saves the result.  Writers interleave in any order; the
  tenant and the clock are those of each step.  \<open>ys_saved\<close> records the accepted saves for the statements, no code
  reads it.
\<close>

record CaseSystem =
  ys_catalog :: catalog_entries
  ys_entries :: case_entries
  ys_held :: "nat \<Rightarrow> ProtocolizationCase option"
  ys_saved :: "ProtocolizationCase list"

definition key_of :: "ProtocolizationCase \<Rightarrow> string" where
  "key_of c = storageKey (zc_tenantId c) (zc_caseId c)"

definition stored_by :: "CaseSystem \<Rightarrow> nat \<Rightarrow> ProtocolizationCase \<Rightarrow> case_entries \<Rightarrow> CaseSystem" where
  "stored_by s w c e = s\<lparr>ys_entries := e, ys_held := (ys_held s)(w \<mapsto> c), ys_saved := ys_saved s @ [c]\<rparr>"

inductive case_step :: "host_env \<Rightarrow> CaseSystem \<Rightarrow> CaseSystem \<Rightarrow> bool" for env where
  registered: "catalog_register env (ys_catalog s) p = Inr e \<Longrightarrow> case_step env s (s\<lparr>ys_catalog := e\<rparr>)"
| created: "cx_catalog ctx = catalog_get (ys_catalog s) \<Longrightarrow> createProtocolizationCase env ctx i = Inr (c, ev) \<Longrightarrow> repository_save env (ys_entries s) c = Inr e \<Longrightarrow>
    case_step env s (stored_by s w c e)"
| loaded: "repository_get (ys_entries s) t i = Inr (Some c) \<Longrightarrow> case_step env s (s\<lparr>ys_held := (ys_held s)(w \<mapsto> c)\<rparr>)"
| committed: "cx_catalog ctx = catalog_get (ys_catalog s) \<Longrightarrow> ys_held s w = Some c \<Longrightarrow> perform env ctx c cmd = Inr (c', ev) \<Longrightarrow>
    repository_save env (ys_entries s) c' = Inr e \<Longrightarrow> case_step env s (stored_by s w c' e)"
| dropped: "case_step env s (s\<lparr>ys_held := (ys_held s)(w := None)\<rparr>)"

definition no_cases :: CaseSystem where
  "no_cases = \<lparr>ys_catalog = [], ys_entries = Map.empty, ys_held = (\<lambda>_. None), ys_saved = []\<rparr>"

inductive case_run :: "host_env \<Rightarrow> CaseSystem \<Rightarrow> bool" for env where
  no_cases: "case_run env no_cases"
| step: "case_run env s \<Longrightarrow> case_step env s s' \<Longrightarrow> case_run env s'"

text \<open>
  A stored case is the last accepted save of its key and its revision the number of them; a writer holds only
  accepted saves, and one revision of a case was saved once.
\<close>

definition saves_of :: "CaseSystem \<Rightarrow> string \<Rightarrow> ProtocolizationCase list" where
  "saves_of s k = filter (\<lambda>c. key_of c = k) (ys_saved s)"

definition follows_profile :: "catalog_entries \<Rightarrow> ProtocolizationCase \<Rightarrow> bool" where
  "follows_profile entries c \<longleftrightarrow>
     (\<exists>p. catalog_get entries (pr_profileId (zc_profile c)) (pr_profileVersion (zc_profile c)) = Some p \<and> projects p c)"

definition consistent :: "host_env \<Rightarrow> CaseSystem \<Rightarrow> bool" where
  "consistent env s \<longleftrightarrow>
     (\<forall>c \<in> set (ys_saved s). case_wf env c \<and> in_order env c) \<and>
     (\<forall>k. map zc_revision (saves_of s k) = map (\<lambda>n. int n + 1) [0 ..< length (saves_of s k)]) \<and>
     (\<forall>k. ys_entries s k = (if saves_of s k = [] then None else Some (last (saves_of s k)))) \<and>
     (\<forall>w c. ys_held s w = Some c \<longrightarrow> c \<in> set (ys_saved s)) \<and>
     catalog_sound env (ys_catalog s) \<and> (\<forall>c \<in> set (ys_saved s). follows_profile (ys_catalog s) c)"

lemma stored_by_fields [simp]:
  "ys_entries (stored_by s w c e) = e" "ys_held (stored_by s w c e) = (ys_held s)(w \<mapsto> c)"
  "ys_saved (stored_by s w c e) = ys_saved s @ [c]" "ys_catalog (stored_by s w c e) = ys_catalog s"
  "saves_of (stored_by s w c e) k = saves_of s k @ (if key_of c = k then [c] else [])"
  by (simp_all add: saves_of_def stored_by_def)

lemma saved_revision:
  assumes "consistent env s" "c \<in> set (saves_of s k)"
  shows "zc_revision (last (saves_of s k)) = int (length (saves_of s k))" "1 \<le> zc_revision c"
    "zc_revision c \<le> int (length (saves_of s k))"
    "saves_of s k ! nat (zc_revision c - 1) = c"
proof -
  have revs: "map zc_revision (saves_of s k) = map (\<lambda>n. int n + 1) [0 ..< length (saves_of s k)]"
    using assms(1) by (simp add: consistent_def)
  have nth: "zc_revision (saves_of s k ! n) = int n + 1" if "n < length (saves_of s k)" for n
    using that arg_cong [OF revs, of "\<lambda>xs. xs ! n"] by simp
  obtain n where n: "n < length (saves_of s k)" "saves_of s k ! n = c"
    using assms(2) by (auto simp: in_set_conv_nth)
  have ne: "saves_of s k \<noteq> []" using assms(2) by auto
  show "zc_revision (last (saves_of s k)) = int (length (saves_of s k))"
    using nth [of "length (saves_of s k) - 1"] ne by (cases "length (saves_of s k)") (simp_all add: last_conv_nth)
  show "1 \<le> zc_revision c" "zc_revision c \<le> int (length (saves_of s k))" "saves_of s k ! nat (zc_revision c - 1) = c"
    using n nth [OF n(1)] by auto
qed

lemma next_revision_count:
  assumes "consistent env s" "next_revision (ys_entries s k) c"
  shows "zc_revision c = int (length (saves_of s k)) + 1"
proof (cases "saves_of s k")
  case Nil
  with assms show ?thesis by (simp add: consistent_def next_revision_def)
next
  case (Cons d ds)
  then have "ys_entries s k = Some (last (saves_of s k))" using assms(1) by (simp add: consistent_def)
  with assms(2) saved_revision(1) [OF assms(1), of d k] Cons show ?thesis by (simp add: next_revision_def)
qed

lemma consistent_save:
  assumes "consistent env s" "repository_save env (ys_entries s) c = Inr e" "in_order env c" "follows_profile (ys_catalog s) c"
  shows "consistent env (stored_by s w c e)"
proof -
  have wf: "case_wf env c" and e: "e = (ys_entries s)(key_of c \<mapsto> c)" and acc: "next_revision (ys_entries s (key_of c)) c"
    using assms(2) by (auto simp: key_of_def)
  note rev = next_revision_count [OF assms(1) acc]
  show ?thesis
    unfolding consistent_def
  proof (intro conjI)
    show "\<forall>k. map zc_revision (saves_of (stored_by s w c e) k) =
        map (\<lambda>n. int n + 1) [0 ..< length (saves_of (stored_by s w c e) k)]"
      using assms(1) rev by (auto simp: consistent_def)
    show "\<forall>k. ys_entries (stored_by s w c e) k =
        (if saves_of (stored_by s w c e) k = [] then None else Some (last (saves_of (stored_by s w c e) k)))"
      using assms(1) by (auto simp: consistent_def e)
  qed (use assms(1,3,4) wf in \<open>auto simp: consistent_def\<close>)
qed

text \<open>A case is created from the profile catalogued under its reference, and keeps to it.\<close>

lemma created_follows:
  assumes "catalog_sound env entries" "cx_catalog ctx = catalog_get entries" "createProtocolizationCase env ctx i = Inr (c, ev)"
  shows "follows_profile entries c"
proof -
  from assms(3) obtain p where p: "cx_catalog ctx (pr_profileId (ic_profile i)) (pr_profileVersion (ic_profile i)) = Some p"
    "c = initial_case ctx i p (cx_now ctx)" "create_reasons i = []"
    by (auto simp: create_Inr)
  then have "isValidAssetProfileId (pr_profileId (ic_profile i))"
    by (simp add: create_reasons_def isValidProtocolizationProfileRef_def split: if_splits)
  from catalog.lookup_answer [OF assms(1) this, of _ p] p(1) assms(2)
  have "projects p c" using initial_projects p(2) by auto
  with p(1,2) assms(2) show ?thesis by (auto simp: follows_profile_def initial_case_def)
qed

text \<open>The last gate of a creation refuses no case of a catalogued profile.\<close>

lemma create_succeeds:
  assumes "catalog_sound env entries" "cx_catalog ctx = catalog_get entries"
    "catalog_get entries (pr_profileId (ic_profile i)) (pr_profileVersion (ic_profile i)) = Some p"
    "isValidProtocolizationTenantId (cx_tenantId ctx)" "create_reasons i = []" "isValidUtcDateTime env (cx_now ctx)"
  shows "\<exists>ev. createProtocolizationCase env ctx i = Inr (initial_case ctx i p (cx_now ctx), ev)"
proof -
  have "isValidAssetProfileId (pr_profileId (ic_profile i))"
    using assms(5) by (simp add: create_reasons_def isValidProtocolizationProfileRef_def split: if_splits)
  then have "profile_wf env p" using catalog.lookup_answer assms(1,3) by blast
  then have "distinct (map ar_id (ap_requirements p))" "\<And>q. q \<in> set (ap_requirements p) \<Longrightarrow> ar_id q \<noteq> []"
    by (auto simp: profile_wf_def list_all_iff requirement_ok_def isValidAssetRequirementId_def isDottedToken_def
        DOTTED_TOKEN_PATTERN_def)
  from initial_wf [OF assms(4-6) this] assms(2-6) show ?thesis by (simp add: create_Inr)
qed

lemma follows_effect: "follows_profile entries c \<Longrightarrow> follows_profile entries (effect c cmd t)"
  using effect_projects by (fastforce simp: follows_profile_def)

lemma fetched_is_saved:
  assumes "consistent env s" "ys_entries s k = Some c"
  shows "c \<in> set (ys_saved s)" "key_of c = k" "c = last (saves_of s k)" "saves_of s k \<noteq> []"
proof -
  show ne: "saves_of s k \<noteq> []" and l: "c = last (saves_of s k)"
    using assms by (auto simp: consistent_def split: if_splits)
  have "c \<in> set (saves_of s k)" using ne l by simp
  then show "c \<in> set (ys_saved s)" "key_of c = k" by (auto simp: saves_of_def)
qed

lemma step_consistent:
  assumes "case_step env s s'" "consistent env s"
  shows "consistent env s'"
  using assms
proof (cases rule: case_step.cases)
  case (registered p e)
  have "catalog_sound env e"
    using assms(2) registered(2) catalog.register_sound unfolding consistent_def by blast
  moreover have "follows_profile e c" if c: "c \<in> set (ys_saved s)" for c
  proof -
    have "case_wf env c" "follows_profile (ys_catalog s) c" using assms(2) c by (auto simp: consistent_def)
    then show ?thesis
      using catalog.version_immutable [OF _ registered(2)]
      by (auto simp: follows_profile_def case_wf_def header_ok_def isValidProtocolizationProfileRef_def)
  qed
  ultimately show ?thesis using assms(2) registered(1) by (auto simp: consistent_def saves_of_def)
next
  case (created ctx i c ev e w)
  have "in_order env c" using created(3) initial_in_order by (auto simp: create_Inr)
  moreover have "follows_profile (ys_catalog s) c"
    using created_follows [OF _ created(2,3)] assms(2) by (simp add: consistent_def)
  ultimately show ?thesis using consistent_save [OF assms(2) created(4)] created(1) by simp
next
  case (loaded t i c w)
  have "c \<in> set (ys_saved s)" using loaded(2) fetched_is_saved(1) [OF assms(2)] by simp
  with assms(2) loaded(1) show ?thesis by (auto simp: consistent_def saves_of_def)
next
  case (committed ctx w c cmd c' ev e)
  have "in_order env c" "follows_profile (ys_catalog s) c" using assms(2) committed(3) by (auto simp: consistent_def)
  moreover have "time_ok env ctx c" "c' = effect c cmd (cx_now ctx)"
    using committed(4) perform_Inr by blast+
  ultimately show ?thesis
    using consistent_save [OF assms(2) committed(5)] effect_in_order follows_effect committed(1) by simp
next
  case (dropped w)
  with assms(2) show ?thesis by (auto simp: consistent_def saves_of_def)
qed

lemma run_consistent: "case_run env s \<Longrightarrow> consistent env s"
proof (induction rule: case_run.induct)
  case no_cases
  show ?case by (simp add: consistent_def no_cases_def saves_of_def catalog_sound_def)
next
  case (step s s')
  then show ?case using step_consistent by blast
qed

text \<open>An accepted save replaces exactly the case the writer held.\<close>

lemma save_replaces_held:
  assumes "consistent env s" "ys_held s w = Some c" "perform env ctx c cmd = Inr (c', ev)"
    "repository_save env (ys_entries s) c' = Inr e"
  shows "ys_entries s (key_of c) = Some c"
proof -
  have c': "c' = effect c cmd (cx_now ctx)" using assms(3) perform_Inr by blast
  then have key: "key_of c' = key_of c" by (simp add: key_of_def)
  have c: "c \<in> set (saves_of s (key_of c))" using assms(1,2) by (auto simp: consistent_def saves_of_def)
  have "zc_revision c' = int (length (saves_of s (key_of c))) + 1"
    using next_revision_count [OF assms(1), of "key_of c" c'] assms(4) key by (simp add: key_of_def)
  then have "zc_revision c = int (length (saves_of s (key_of c)))" by (simp add: c')
  then have "c = last (saves_of s (key_of c))"
    using saved_revision(4) [OF assms(1) c] c by (cases "saves_of s (key_of c)") (auto simp: last_conv_nth)
  with assms(1) c show ?thesis by (auto simp: consistent_def)
qed

text \<open>
  Without that discipline an update is lost: a writer that performs two operations on the case it holds may save the
  second result over the revision that another writer saved meanwhile.
\<close>

lemma unsaved_revision_replaces:
  assumes "entries (key_of c) = Some d" "zc_revision d = zc_revision c + 1"
    "perform env ctx c cmd = Inr (c1, ev1)" "perform env ctx' c1 cmd' = Inr (c2, ev2)"
  shows "repository_save env entries c2 = Inr (entries(key_of c \<mapsto> c2))"
proof -
  have c1: "c1 = effect c cmd (cx_now ctx)" and c2: "c2 = effect c1 cmd' (cx_now ctx')"
    using assms(3,4) perform_Inr by blast+
  have "1 \<le> zc_revision c"
    using assms(3) perform_Inr [of env ctx c cmd c1] by (auto simp: operable_def case_wf_def header_ok_def)
  then show ?thesis
    using assms(1,2) perform_wf [OF assms(4)] by (simp add: c1 c2 key_of_def next_revision_def)
qed

end
