(* ===== verification/EvidenceIntake.thy ===== *)
theory EvidenceIntake
  imports CaseInvariant
begin

text \<open>
  \<open>packages/asset-protocolization/src/evidence/\<close>: submissions (\<open>evidence-submission.ts\<close>), receipts
  (\<open>evidence-intake-receipt.ts\<close>), their validation (\<open>evidence-intake-validation.ts\<close>), errors and events, and the
  operation that takes evidence into a case (\<open>evidence-intake-operations.ts\<close>).

  Of a canonical evidence document and of a reference source the members the code reads are modelled.
\<close>

subsection \<open>Submissions and receipts\<close>

definition ReferenceSourceKinds :: "string list" where
  "ReferenceSourceKinds =
     [''URI'', ''DID'', ''Wallet'', ''Email'', ''Domain'', ''Registry'', ''InternalId'', ''ExternalId'', ''Document'',
      ''AuditTrace'', ''RuntimeTrace'', ''Unknown'']"

record CanonicalReferenceSource =
  rs_kind :: string
  rs_value :: string

record CanonicalEvidence =
  ce_id :: string
  ce_type :: string
  ce_createdAt :: string

datatype EvidencePayload = ReferencedEvidence string | CanonicalEvidenceDocument CanonicalEvidence

record EvidenceSubmission =
  es_intakeId :: string
  es_caseId :: string
  es_materialId :: string
  es_categoryId :: string
  es_payload :: EvidencePayload
  es_requirementIds :: "string list"
  es_observedAt :: "string option"
  es_sourceRef :: "CanonicalReferenceSource option"
  es_correlationId :: "string option"

fun submittedEvidenceRef :: "EvidencePayload \<Rightarrow> string" where
  "submittedEvidenceRef (CanonicalEvidenceDocument d) = ce_id d"
| "submittedEvidenceRef (ReferencedEvidence r) = r"

definition EVIDENCE_INTAKE_RECEIPT_SCHEMA_VERSION :: string where
  "EVIDENCE_INTAKE_RECEIPT_SCHEMA_VERSION = ''aoc-protocolization-evidence-intake/1''"

record EvidenceIntakeReceipt =
  er_schemaVersion :: string
  er_intakeId :: string
  er_tenantId :: string
  er_caseId :: string
  er_profile :: ProtocolizationProfileRef
  er_categoryId :: string
  er_evidenceRef :: string
  er_materialId :: string
  er_requirementIds :: "string list"
  er_receivedAt :: string
  er_observedAt :: "string option"
  er_sourceRef :: "CanonicalReferenceSource option"
  er_caseRevision :: int
  er_correlationId :: "string option"

record EvidenceReceivedEvent =
  ee_intakeId :: string
  ee_tenantId :: string
  ee_caseId :: string
  ee_profile :: ProtocolizationProfileRef
  ee_categoryId :: string
  ee_evidenceRef :: string
  ee_materialId :: string
  ee_requirementIds :: "string list"
  ee_occurredAt :: string
  ee_observedAt :: "string option"
  ee_caseRevision :: int
  ee_correlationId :: "string option"

subsection \<open>Validation\<close>

definition isValidEvidenceIntakeId :: "string \<Rightarrow> bool" where
  "isValidEvidenceIntakeId s \<longleftrightarrow> isProtocolizationInstanceIdentifier s"
definition isValidEvidenceIntakeCategoryId :: "string \<Rightarrow> bool" where
  "isValidEvidenceIntakeCategoryId s \<longleftrightarrow> isDottedToken s"

datatype EvidenceIntakeReason =
    EVIDENCE_INTAKE_NOT_AN_OBJECT | EVIDENCE_INTAKE_UNKNOWN_FIELD | EVIDENCE_INTAKE_PATHWAY_INVALID
  | EVIDENCE_INTAKE_SCHEMA_VERSION_INVALID | EVIDENCE_INTAKE_ID_INVALID | EVIDENCE_INTAKE_TENANT_ID_INVALID
  | EVIDENCE_INTAKE_CASE_ID_INVALID | EVIDENCE_INTAKE_MATERIAL_ID_INVALID | EVIDENCE_INTAKE_PROFILE_REF_INVALID
  | EVIDENCE_INTAKE_CATEGORY_INVALID | EVIDENCE_INTAKE_EVIDENCE_REF_INVALID | EVIDENCE_INTAKE_EVIDENCE_DOCUMENT_INVALID
  | EVIDENCE_INTAKE_REQUIREMENT_IDS_INVALID | EVIDENCE_INTAKE_RECEIVED_AT_INVALID | EVIDENCE_INTAKE_OBSERVED_AT_INVALID
  | EVIDENCE_INTAKE_SOURCE_REF_INVALID | EVIDENCE_INTAKE_CASE_REVISION_INVALID | EVIDENCE_INTAKE_CORRELATION_ID_INVALID

definition unless_ok :: "bool \<Rightarrow> 'r \<Rightarrow> 'r list" where
  "unless_ok c r = (if c then [] else [r])"

lemma unless_ok_nil [simp]: "unless_ok c r = [] \<longleftrightarrow> c"
  by (simp add: unless_ok_def)

definition isUsableReferenceSource :: "CanonicalReferenceSource \<Rightarrow> bool" where
  "isUsableReferenceSource s \<longleftrightarrow> rs_kind s \<in> set ReferenceSourceKinds \<and> trim (rs_value s) \<noteq> []"

definition isAdmissibleCanonicalEvidence :: "host_env \<Rightarrow> CanonicalEvidence \<Rightarrow> bool" where
  "isAdmissibleCanonicalEvidence env d \<longleftrightarrow>
     isCanonicalRecordId (ce_id d) \<and> ce_type d \<in> set EvidenceTypes \<and> isValidUtcDateTime env (ce_createdAt d)"

definition checkRequirementIds :: "string list \<Rightarrow> bool" where
  "checkRequirementIds ids \<longleftrightarrow> ids \<noteq> [] \<and> list_all isValidAssetRequirementId ids \<and> distinct ids"

definition payload_reasons :: "host_env \<Rightarrow> EvidencePayload \<Rightarrow> EvidenceIntakeReason list" where
  "payload_reasons env p =
     (case p of
        ReferencedEvidence r \<Rightarrow> unless_ok (isCanonicalRecordId r) EVIDENCE_INTAKE_EVIDENCE_REF_INVALID
      | CanonicalEvidenceDocument d \<Rightarrow>
          unless_ok (isAdmissibleCanonicalEvidence env d) EVIDENCE_INTAKE_EVIDENCE_DOCUMENT_INVALID)"

definition validateProtocolizationEvidenceSubmission :: "host_env \<Rightarrow> EvidenceSubmission \<Rightarrow> EvidenceIntakeReason list" where
  "validateProtocolizationEvidenceSubmission env s =
     unless_ok (isValidEvidenceIntakeId (es_intakeId s)) EVIDENCE_INTAKE_ID_INVALID @
     unless_ok (isValidProtocolizationCaseId (es_caseId s)) EVIDENCE_INTAKE_CASE_ID_INVALID @
     unless_ok (isValidProtocolizationMaterialId (es_materialId s)) EVIDENCE_INTAKE_MATERIAL_ID_INVALID @
     unless_ok (isValidEvidenceIntakeCategoryId (es_categoryId s)) EVIDENCE_INTAKE_CATEGORY_INVALID @
     unless_ok (checkRequirementIds (es_requirementIds s)) EVIDENCE_INTAKE_REQUIREMENT_IDS_INVALID @
     payload_reasons env (es_payload s) @
     unless_ok (if_present (isValidUtcDateTime env) (es_observedAt s)) EVIDENCE_INTAKE_OBSERVED_AT_INVALID @
     unless_ok (if_present isUsableReferenceSource (es_sourceRef s)) EVIDENCE_INTAKE_SOURCE_REF_INVALID @
     unless_ok (if_present isCanonicalRecordId (es_correlationId s)) EVIDENCE_INTAKE_CORRELATION_ID_INVALID"

definition validateEvidenceIntakeReceipt :: "host_env \<Rightarrow> EvidenceIntakeReceipt \<Rightarrow> EvidenceIntakeReason list" where
  "validateEvidenceIntakeReceipt env r =
     unless_ok (er_schemaVersion r = EVIDENCE_INTAKE_RECEIPT_SCHEMA_VERSION) EVIDENCE_INTAKE_SCHEMA_VERSION_INVALID @
     unless_ok (isValidEvidenceIntakeId (er_intakeId r)) EVIDENCE_INTAKE_ID_INVALID @
     unless_ok (isValidProtocolizationTenantId (er_tenantId r)) EVIDENCE_INTAKE_TENANT_ID_INVALID @
     unless_ok (isValidProtocolizationCaseId (er_caseId r)) EVIDENCE_INTAKE_CASE_ID_INVALID @
     unless_ok (isValidProtocolizationProfileRef (er_profile r)) EVIDENCE_INTAKE_PROFILE_REF_INVALID @
     unless_ok (isValidEvidenceIntakeCategoryId (er_categoryId r)) EVIDENCE_INTAKE_CATEGORY_INVALID @
     unless_ok (isCanonicalRecordId (er_evidenceRef r)) EVIDENCE_INTAKE_EVIDENCE_REF_INVALID @
     unless_ok (isValidProtocolizationMaterialId (er_materialId r)) EVIDENCE_INTAKE_MATERIAL_ID_INVALID @
     unless_ok (checkRequirementIds (er_requirementIds r)) EVIDENCE_INTAKE_REQUIREMENT_IDS_INVALID @
     unless_ok (isValidUtcDateTime env (er_receivedAt r)) EVIDENCE_INTAKE_RECEIVED_AT_INVALID @
     unless_ok (if_present (isValidUtcDateTime env) (er_observedAt r)) EVIDENCE_INTAKE_OBSERVED_AT_INVALID @
     unless_ok (if_present isUsableReferenceSource (er_sourceRef r)) EVIDENCE_INTAKE_SOURCE_REF_INVALID @
     unless_ok (isSafeInteger (er_caseRevision r) \<and> 1 \<le> er_caseRevision r) EVIDENCE_INTAKE_CASE_REVISION_INVALID @
     unless_ok (if_present isCanonicalRecordId (er_correlationId r)) EVIDENCE_INTAKE_CORRELATION_ID_INVALID"

subsection \<open>Intake\<close>

datatype EvidenceIntakeErrorCode =
    EVIDENCE_INTAKE_SUBMISSION_INVALID | EVIDENCE_INTAKE_TENANT_REQUIRED | EVIDENCE_INTAKE_TENANT_MISMATCH
  | EVIDENCE_INTAKE_CASE_MISMATCH
  | EVIDENCE_INTAKE_DUPLICATE | EVIDENCE_INTAKE_DUPLICATE_EVIDENCE | EVIDENCE_INTAKE_RECEIPT_INVALID

datatype intake_reason = IntakeReason EvidenceIntakeReason | IntakeCode EvidenceIntakeErrorCode

record EvidenceIntakeErrorDetails =
  id_reasonCodes :: "intake_reason list"
  id_intakeId :: "string option"
  id_tenantId :: "string option"
  id_caseId :: "string option"
  id_materialId :: "string option"
  id_categoryId :: "string option"
  id_evidenceRef :: "string option"

datatype intake_error =
    EvidenceIntakeError EvidenceIntakeErrorCode EvidenceIntakeErrorDetails
  | CaseError ProtocolizationCaseError

definition intake_details :: "intake_reason list \<Rightarrow> EvidenceIntakeErrorDetails" where
  "intake_details rs = \<lparr>id_reasonCodes = rs, id_intakeId = None, id_tenantId = None, id_caseId = None, id_materialId = None, id_categoryId = None,
     id_evidenceRef = None\<rparr>"

definition case_details :: "ProtocolizationCase \<Rightarrow> intake_reason list \<Rightarrow> EvidenceIntakeErrorDetails" where
  "case_details c rs = (intake_details rs)\<lparr>id_caseId := Some (zc_caseId c), id_tenantId := Some (zc_tenantId c)\<rparr>"

definition assertActingTenantOwnsCase :: "CaseContext \<Rightarrow> ProtocolizationCase \<Rightarrow> intake_error option" where
  "assertActingTenantOwnsCase ctx c =
     (if \<not> isValidProtocolizationTenantId (cx_tenantId ctx)
      then Some (EvidenceIntakeError EVIDENCE_INTAKE_TENANT_REQUIRED (intake_details [IntakeCode EVIDENCE_INTAKE_TENANT_REQUIRED]))
      else if zc_tenantId c \<noteq> cx_tenantId ctx
      then Some (CaseError (case_error CASE_TENANT_MISMATCH
             ((reasons_only [Code CASE_TENANT_MISMATCH])\<lparr>cd_caseId := Some (zc_caseId c), cd_tenantId := Some (cx_tenantId ctx)\<rparr>)))
      else None)"

definition holds_evidence :: "string \<Rightarrow> CaseMaterial \<Rightarrow> bool" where
  "holds_evidence e m \<longleftrightarrow> zm_payload m = EvidencePayload e"

definition assertEvidenceNotAlreadyInCase :: "ProtocolizationCase \<Rightarrow> string \<Rightarrow> EvidenceSubmission \<Rightarrow> intake_error option" where
  "assertEvidenceNotAlreadyInCase c e s =
     (case find (holds_evidence e) (zc_materials c) of
        None \<Rightarrow> None
      | Some existing \<Rightarrow>
          Some (EvidenceIntakeError EVIDENCE_INTAKE_DUPLICATE_EVIDENCE
            ((case_details c [IntakeCode EVIDENCE_INTAKE_DUPLICATE_EVIDENCE])
               \<lparr>id_intakeId := Some (es_intakeId s), id_materialId := Some (zm_materialId existing), id_evidenceRef := Some e\<rparr>)))"

definition evidence_material :: "EvidenceSubmission \<Rightarrow> MaterialInput" where
  "evidence_material s =
     \<lparr>im_materialId = es_materialId s, im_requirementIds = es_requirementIds s, im_correlationId = es_correlationId s,
      im_payload = EvidencePayload (submittedEvidenceRef (es_payload s))\<rparr>"

definition receipt_of :: "EvidenceSubmission \<Rightarrow> ProtocolizationCase \<Rightarrow> string \<Rightarrow> EvidenceIntakeReceipt" where
  "receipt_of s c receivedAt =
     \<lparr>er_schemaVersion = EVIDENCE_INTAKE_RECEIPT_SCHEMA_VERSION, er_intakeId = es_intakeId s, er_tenantId = zc_tenantId c,
      er_caseId = zc_caseId c, er_profile = zc_profile c, er_categoryId = es_categoryId s,
      er_evidenceRef = submittedEvidenceRef (es_payload s), er_materialId = es_materialId s,
      er_requirementIds = es_requirementIds s, er_receivedAt = receivedAt, er_observedAt = es_observedAt s,
      er_sourceRef = es_sourceRef s, er_caseRevision = zc_revision c, er_correlationId = es_correlationId s\<rparr>"

definition received_event :: "EvidenceIntakeReceipt \<Rightarrow> EvidenceReceivedEvent" where
  "received_event r =
     \<lparr>ee_intakeId = er_intakeId r, ee_tenantId = er_tenantId r, ee_caseId = er_caseId r, ee_profile = er_profile r,
      ee_categoryId = er_categoryId r, ee_evidenceRef = er_evidenceRef r, ee_materialId = er_materialId r,
      ee_requirementIds = er_requirementIds r, ee_occurredAt = er_receivedAt r, ee_observedAt = er_observedAt r,
      ee_caseRevision = er_caseRevision r, ee_correlationId = er_correlationId r\<rparr>"

record EvidenceIntakeTransition =
  it_case :: ProtocolizationCase
  it_receipt :: EvidenceIntakeReceipt
  it_caseEvent :: ProtocolizationCaseEvent
  it_intakeEvent :: EvidenceReceivedEvent

definition failing :: "bool \<Rightarrow> 'e \<Rightarrow> 'e option" where
  "failing c e = (if c then Some e else None)"

fun map_error :: "('e \<Rightarrow> 'f) \<Rightarrow> 'e + 'a \<Rightarrow> 'f + 'a" where
  "map_error f (Inl e) = Inl (f e)"
| "map_error f (Inr v) = Inr v"

definition intakeProtocolizationEvidence ::
  "host_env \<Rightarrow> CaseContext \<Rightarrow> ProtocolizationCase \<Rightarrow> EvidenceSubmission \<Rightarrow> intake_error + EvidenceIntakeTransition" where
  "intakeProtocolizationEvidence env ctx c s =
     unless_error (assertActingTenantOwnsCase ctx c)
    (let reasons = validateProtocolizationEvidenceSubmission env s in
     unless_error (failing (reasons \<noteq> [])
                     (EvidenceIntakeError EVIDENCE_INTAKE_SUBMISSION_INVALID (case_details c (map IntakeReason reasons))))
    (unless_error (failing (es_caseId s \<noteq> zc_caseId c)
                     (EvidenceIntakeError EVIDENCE_INTAKE_CASE_MISMATCH
                        ((case_details c [IntakeCode EVIDENCE_INTAKE_CASE_MISMATCH])\<lparr>id_intakeId := Some (es_intakeId s)\<rparr>)))
    (unless_error (assertEvidenceNotAlreadyInCase c (submittedEvidenceRef (es_payload s)) s)
    (bind_sum (map_error CaseError (addProtocolizationCaseMaterial env ctx c (evidence_material s))) (\<lambda>(n, caseEvent).
       let receipt = receipt_of s n (ev_occurredAt (event_base caseEvent)); bad = validateEvidenceIntakeReceipt env receipt in
       unless_error (failing (bad \<noteq> [])
                       (EvidenceIntakeError EVIDENCE_INTAKE_RECEIPT_INVALID
                          ((intake_details (map IntakeReason bad))\<lparr>id_intakeId := Some (es_intakeId s)\<rparr>)))
         (Inr \<lparr>it_case = n, it_receipt = receipt, it_caseEvent = caseEvent, it_intakeEvent = received_event receipt\<rparr>))))))"

definition reconstituteEvidenceIntakeReceipt :: "host_env \<Rightarrow> EvidenceIntakeReceipt \<Rightarrow> intake_error + EvidenceIntakeReceipt" where
  "reconstituteEvidenceIntakeReceipt env r =
     (let bad = validateEvidenceIntakeReceipt env r in
      unless_error (failing (bad \<noteq> []) (EvidenceIntakeError EVIDENCE_INTAKE_RECEIPT_INVALID (intake_details (map IntakeReason bad))))
        (Inr r))"

subsection \<open>What an intake does\<close>

text \<open>What every layer above a case gets from adding material to it.\<close>

lemma added_material:
  assumes "addProtocolizationCaseMaterial env ctx c i = Inr (n, ev)"
  shows "n = effect c (AddMaterial i) (cx_now ctx) \<and> case_wf env n \<and> ev_occurredAt (event_base ev) = cx_now ctx"
  using assms perform_wf [of env ctx c "AddMaterial i" n ev] perform_event(5) [of env ctx c "AddMaterial i" n ev]
    add_material_Inr [of env ctx c i n ev]
  by simp

text \<open>No operation removes material, or changes what it is and when it was added.\<close>

lemma performed_keeps:
  assumes "perform env ctx c cmd = Inr (c', ev)" "m \<in> set (zc_materials c)"
  obtains m' where "m' \<in> set (zc_materials c')" "zm_materialId m' = zm_materialId m" "zm_payload m' = zm_payload m"
    "zm_addedAt m' = zm_addedAt m" "set (zm_requirementIds m) \<subseteq> set (zm_requirementIds m')"
proof -
  have c': "c' = effect c cmd (cx_now ctx)" using assms(1) perform_Inr by blast
  have "\<exists>m' \<in> set (zc_materials c'). zm_materialId m' = zm_materialId m \<and> zm_payload m' = zm_payload m \<and>
      zm_addedAt m' = zm_addedAt m \<and> set (zm_requirementIds m) \<subseteq> set (zm_requirementIds m')"
  proof (cases cmd)
    case (AssociateMaterial i ids)
    then show ?thesis
      using assms(2) unfolding c'
      by (intro bexI [of _ "associated_material i ids m"]) (auto simp: with_association_def associated_material_def)
  qed (use assms(2) c' in \<open>auto simp: activated_case_def with_material_def cancelled_case_def Let_def split: option.split\<close>)
  then show ?thesis using that by blast
qed

lemma performed_header:
  assumes "perform env ctx c cmd = Inr (c', ev)"
  shows "zc_tenantId c' = zc_tenantId c \<and> zc_caseId c' = zc_caseId c \<and> zc_profile c' = zc_profile c \<and>
    zc_revision c' = zc_revision c + 1 \<and> case_wf env c'"
  using assms perform_Inr [of env ctx c cmd c'] perform_wf [OF assms] by fastforce

lemma failing_None [simp]: "failing c e = None \<longleftrightarrow> \<not> c"
  by (simp add: failing_def)

lemma map_error_Inr [simp]: "map_error f r = Inr v \<longleftrightarrow> r = Inr v"
  by (cases r) simp_all

lemma owns_None [simp]:
  "assertActingTenantOwnsCase ctx c = None \<longleftrightarrow> isValidProtocolizationTenantId (cx_tenantId ctx) \<and> zc_tenantId c = cx_tenantId ctx"
  by (simp add: assertActingTenantOwnsCase_def)

lemma not_held_None [simp]:
  "assertEvidenceNotAlreadyInCase c e s = None \<longleftrightarrow> (\<forall>m \<in> set (zc_materials c). zm_payload m \<noteq> EvidencePayload e)"
  by (auto simp: assertEvidenceNotAlreadyInCase_def holds_evidence_def find_None_iff find_Some_iff split: option.split)

text \<open>What is admitted makes a valid material and a valid receipt.\<close>

lemma admitted_material:
  assumes "validateProtocolizationEvidenceSubmission env s = []" "isValidUtcDateTime env t"
  shows "isValidProtocolizationCaseMaterial env (material_of (evidence_material s) t)"
  using assms
  by (cases "es_payload s")
     (auto simp: validateProtocolizationEvidenceSubmission_def payload_reasons_def isAdmissibleCanonicalEvidence_def
        isValidProtocolizationCaseMaterial_def isValidRequirementIdList_def checkRequirementIds_def evidence_material_def
        if_present_def split: option.splits)

lemma admitted_receipt:
  assumes "validateProtocolizationEvidenceSubmission env s = []" "isValidUtcDateTime env t" "case_wf env c"
  shows "validateEvidenceIntakeReceipt env (receipt_of s c t) = []"
  using assms
  by (cases "es_payload s")
     (auto simp: validateProtocolizationEvidenceSubmission_def payload_reasons_def isAdmissibleCanonicalEvidence_def
        validateEvidenceIntakeReceipt_def receipt_of_def case_wf_def header_ok_def)

definition intake_permitted :: "host_env \<Rightarrow> CaseContext \<Rightarrow> ProtocolizationCase \<Rightarrow> EvidenceSubmission \<Rightarrow> bool" where
  "intake_permitted env ctx c s \<longleftrightarrow>
     validateProtocolizationEvidenceSubmission env s = [] \<and> es_caseId s = zc_caseId c \<and> zc_state c \<noteq> Cancelled \<and>
     es_materialId s \<notin> zm_materialId ` set (zc_materials c) \<and>
     (\<forall>m \<in> set (zc_materials c). zm_payload m \<noteq> EvidencePayload (submittedEvidenceRef (es_payload s))) \<and>
     (\<exists>p. pinned_profile ctx c = Some p \<and> requirements_ok (es_requirementIds s) p c)"

lemma intake_Inr:
  "intakeProtocolizationEvidence env ctx c s = Inr t \<longleftrightarrow>
     operable env ctx c \<and> time_ok env ctx c \<and> revisable c \<and> intake_permitted env ctx c s \<and>
     it_case t = effect c (AddMaterial (evidence_material s)) (cx_now ctx) \<and>
     it_receipt t = receipt_of s (it_case t) (cx_now ctx) \<and> it_intakeEvent t = received_event (it_receipt t) \<and>
     addProtocolizationCaseMaterial env ctx c (evidence_material s) = Inr (it_case t, it_caseEvent t)"
proof (cases "operable env ctx c \<and> time_ok env ctx c")
  case True
  have valid: "isValidProtocolizationTenantId (cx_tenantId ctx)" "zc_tenantId c = cx_tenantId ctx"
    using True wf_tenant [of env c] by (auto simp: operable_def)
  have material: "isValidProtocolizationCaseMaterial env (material_of (evidence_material s) (cx_now ctx))"
    if "validateProtocolizationEvidenceSubmission env s = []"
    using admitted_material [OF that] True by (simp add: time_ok_def)
  have fields: "im_materialId (evidence_material s) = es_materialId s" "im_requirementIds (evidence_material s) = es_requirementIds s"
    by (simp_all add: evidence_material_def)
  note added = added_material [of env ctx c "evidence_material s"]
  have receipt: "validateEvidenceIntakeReceipt env (receipt_of s n (cx_now ctx)) = []"
    if "validateProtocolizationEvidenceSubmission env s = []" "case_wf env n" for n
    using admitted_receipt [OF that(1) _ that(2)] True by (simp add: time_ok_def)
  have iff: "intakeProtocolizationEvidence env ctx c s = Inr t \<longleftrightarrow>
      validateProtocolizationEvidenceSubmission env s = [] \<and> es_caseId s = zc_caseId c \<and>
      (\<forall>m \<in> set (zc_materials c). zm_payload m \<noteq> EvidencePayload (submittedEvidenceRef (es_payload s))) \<and>
      addProtocolizationCaseMaterial env ctx c (evidence_material s) = Inr (it_case t, it_caseEvent t) \<and>
      it_receipt t = receipt_of s (it_case t) (cx_now ctx) \<and> it_intakeEvent t = received_event (it_receipt t)"
    using added receipt
    by (auto simp: intakeProtocolizationEvidence_def valid Let_def)
  show ?thesis
    unfolding iff intake_permitted_def add_material_Inr using True material by (auto simp: fields)
next
  case False
  then have "addProtocolizationCaseMaterial env ctx c (evidence_material s) \<noteq> Inr (n, ev)" for n ev
    unfolding add_material_Inr by blast
  with False show ?thesis by (auto simp: intakeProtocolizationEvidence_def Let_def)
qed

end
