(* ===== verification/RecordStore.thy ===== *)
theory RecordStore
  imports CaseStore
begin

text \<open>
  What the append-only repositories of \<open>packages/asset-protocolization/src\<close> have in common (receipts of evidence,
  declarations, verification results, professional reviews, protocolization results): the interface as a locale, with
  what every client may rely on.  Each repository is an interpretation in its own theory.

  The map of such a repository is the list of its records in the order of insertion: a key is only ever set when it is
  absent, and it is computed from the record.
\<close>

definition record_with :: "('r \<Rightarrow> string) \<Rightarrow> 'r list \<Rightarrow> string \<Rightarrow> 'r option" where
  "record_with key rs k = find (\<lambda>r. key r = k) rs"

lemma record_with_None: "record_with key rs k = None \<longleftrightarrow> k \<notin> key ` set rs"
  by (auto simp: record_with_def find_None_iff)

lemma record_with_append [simp]:
  "record_with key (rs @ [r]) k = (case record_with key rs k of Some x \<Rightarrow> Some x | None \<Rightarrow> if key r = k then Some r else None)"
  by (induction rs) (auto simp: record_with_def)

lemma record_with_unique:
  "distinct (map key rs) \<Longrightarrow> r \<in> set rs \<Longrightarrow> record_with key rs (key r) = Some r"
  by (induction rs) (auto simp: record_with_def)

lemma record_with_Some: "record_with key rs k = Some r \<Longrightarrow> r \<in> set rs \<and> key r = k"
  by (auto simp: record_with_def find_Some_iff)

locale record_store =
  fixes fetch :: "'s \<Rightarrow> string \<Rightarrow> string \<Rightarrow> 'e + 'r option"
    and listed :: "'s \<Rightarrow> string \<Rightarrow> string \<Rightarrow> 'e + 'r list"
    and store :: "'s \<Rightarrow> 'r \<Rightarrow> 'e + 's"
    and contents :: "'s \<Rightarrow> 'r list"
    and tenant :: "'r \<Rightarrow> string"
    and case_of :: "'r \<Rightarrow> string"
    and ident :: "'r \<Rightarrow> string"
    and valid :: "'r \<Rightarrow> bool"
  assumes valid_tenant: "valid r \<Longrightarrow> isValidProtocolizationTenantId (tenant r)"
    and fetch_result: "fetch s t i = Inr x \<longleftrightarrow>
      isValidProtocolizationTenantId t \<and> x = record_with (\<lambda>r. storageKey (tenant r) (ident r)) (contents s) (storageKey t i)"
    and listed_result: "listed s t c = Inr rs \<Longrightarrow>
      isValidProtocolizationTenantId t \<and> mset rs = mset (filter (\<lambda>r. tenant r = t \<and> case_of r = c) (contents s))"
    and listed_answers: "isValidProtocolizationTenantId t \<Longrightarrow> \<exists>rs. listed s t c = Inr rs"
    and store_result: "store s r = Inr s' \<Longrightarrow>
      valid r \<and> contents s' = contents s @ [r] \<and>
      storageKey (tenant r) (ident r) \<notin> (\<lambda>r. storageKey (tenant r) (ident r)) ` set (contents s)"
begin

text \<open>The records are valid and no two have the same tenant and identifier.\<close>

definition good :: "'s \<Rightarrow> bool" where
  "good s \<longleftrightarrow> list_all valid (contents s) \<and> distinct (map (\<lambda>r. storageKey (tenant r) (ident r)) (contents s))"

lemma store_good: "good s \<Longrightarrow> store s r = Inr s' \<Longrightarrow> good s'"
  using store_result by (auto simp: good_def)

lemma recorded:
  assumes "store s r = Inr s'"
  shows "fetch s' (tenant r) (ident r) = Inr (Some r)"
proof -
  have r: "valid r" "contents s' = contents s @ [r]"
    "record_with (\<lambda>r. storageKey (tenant r) (ident r)) (contents s) (storageKey (tenant r) (ident r)) = None"
    using store_result [OF assms] by (simp_all add: record_with_None)
  then show ?thesis using valid_tenant by (simp add: fetch_result)
qed

text \<open>A record is never replaced.\<close>

lemma immutable:
  assumes "fetch s t i = Inr (Some r)" "store s q = Inr s'"
  shows "fetch s' t i = Inr (Some r)"
  using assms(1) store_result [OF assms(2)] by (auto simp: fetch_result split: option.split)

lemma duplicate_refused:
  assumes "fetch s (tenant q) (ident q) = Inr (Some r)"
  shows "\<exists>e. store s q = Inl e"
proof (cases "store s q")
  case (Inr s')
  from store_result [OF this] have "record_with (\<lambda>r. storageKey (tenant r) (ident r)) (contents s) (storageKey (tenant q) (ident q)) = None"
    by (simp add: record_with_None)
  with assms show ?thesis by (simp add: fetch_result)
qed simp

text \<open>What a tenant fetches is its own; what another tenant stores does not show in its lists.\<close>

lemma fetched_own:
  assumes "good s" "fetch s t i = Inr (Some r)"
  shows "valid r \<and> tenant r = t \<and> ident r = i"
proof -
  from assms(2) have r: "r \<in> set (contents s)" "storageKey (tenant r) (ident r) = storageKey t i" "isValidProtocolizationTenantId t"
    using record_with_Some [of "\<lambda>r. storageKey (tenant r) (ident r)" "contents s" "storageKey t i" r] by (auto simp: fetch_result)
  moreover have "valid r" using r(1) assms(1) by (auto simp: good_def list_all_iff)
  ultimately show ?thesis using valid_tenant storageKey_inj by blast
qed

lemma others_unlisted:
  assumes "store s q = Inr s'" "tenant q \<noteq> t \<or> case_of q \<noteq> c" "listed s t c = Inr rs" "listed s' t c = Inr rs'"
  shows "mset rs' = mset rs"
  using assms store_result [OF assms(1)] listed_result by auto

end

text \<open>
  A repository that also admits at most one record for each value of an attribute; \<open>in_step\<close> says that what the
  repository looks the attribute up in agrees with its records.
\<close>

locale indexed_store =
  record_store fetch listed store contents tenant case_of ident valid
  for fetch :: "'s \<Rightarrow> string \<Rightarrow> string \<Rightarrow> 'e + 'r option"
    and listed :: "'s \<Rightarrow> string \<Rightarrow> string \<Rightarrow> 'e + 'r list"
    and store :: "'s \<Rightarrow> 'r \<Rightarrow> 'e + 's"
    and contents :: "'s \<Rightarrow> 'r list"
    and tenant :: "'r \<Rightarrow> string"
    and case_of :: "'r \<Rightarrow> string"
    and ident :: "'r \<Rightarrow> string"
    and valid :: "'r \<Rightarrow> bool" +
  fixes basis :: "'r \<Rightarrow> 'b"
    and in_step :: "'s \<Rightarrow> bool"
  assumes store_in_step: "store s r = Inr s' \<Longrightarrow> in_step s \<Longrightarrow> in_step s'"
    and store_basis: "store s r = Inr s' \<Longrightarrow> in_step s \<Longrightarrow> basis r \<notin> basis ` set (contents s)"
begin

definition indexed_good :: "'s \<Rightarrow> bool" where
  "indexed_good s \<longleftrightarrow> good s \<and> in_step s \<and> distinct (map basis (contents s))"

lemma indexed_store_good: "indexed_good s \<Longrightarrow> store s r = Inr s' \<Longrightarrow> indexed_good s'"
  using store_good store_in_step store_result store_basis by (auto simp: indexed_good_def)

lemma same_basis_same_record:
  assumes "indexed_good s" "r \<in> set (contents s)" "q \<in> set (contents s)" "basis r = basis q"
  shows "r = q"
  using assms by (auto simp: indexed_good_def distinct_map inj_on_def)

text \<open>So a second record for the same attribute is refused.\<close>

lemma second_refused:
  assumes "indexed_good s" "r \<in> set (contents s)" "basis q = basis r"
  shows "\<exists>e. store s q = Inl e"
proof (cases "store s q")
  case (Inr s')
  then have "basis q \<notin> basis ` set (contents s)" using assms(1) store_basis by (auto simp: indexed_good_def)
  with assms(2,3) show ?thesis by auto
qed simp

end

end
