(* ===== verification/EvidenceStore.thy ===== *)
theory EvidenceStore
  imports EvidenceIntake RecordStore
begin

text \<open>\<open>packages/asset-protocolization/src/evidence/evidence-intake-repository.ts\<close>: the receipts of evidence.\<close>

type_synonym receipt_entries = "EvidenceIntakeReceipt list"

definition receipt_key :: "EvidenceIntakeReceipt \<Rightarrow> string" where
  "receipt_key r = storageKey (er_tenantId r) (er_intakeId r)"

definition evidence_assertTenant :: "string \<Rightarrow> intake_error option" where
  "evidence_assertTenant t =
     failing (\<not> isValidProtocolizationTenantId t)
       (EvidenceIntakeError EVIDENCE_INTAKE_TENANT_REQUIRED (intake_details [IntakeCode EVIDENCE_INTAKE_TENANT_REQUIRED]))"

definition evidence_get :: "receipt_entries \<Rightarrow> string \<Rightarrow> string \<Rightarrow> intake_error + EvidenceIntakeReceipt option" where
  "evidence_get entries t i = unless_error (evidence_assertTenant t) (Inr (record_with receipt_key entries (storageKey t i)))"

definition evidence_exists :: "receipt_entries \<Rightarrow> string \<Rightarrow> string \<Rightarrow> intake_error + bool" where
  "evidence_exists entries t i =
     unless_error (evidence_assertTenant t) (Inr (record_with receipt_key entries (storageKey t i) \<noteq> None))"

definition evidence_listByCase :: "receipt_entries \<Rightarrow> string \<Rightarrow> string \<Rightarrow> intake_error + EvidenceIntakeReceipt list" where
  "evidence_listByCase entries t c =
     unless_error (evidence_assertTenant t) (Inr (filter (\<lambda>r. er_tenantId r = t \<and> er_caseId r = c) entries))"

definition evidence_save :: "host_env \<Rightarrow> receipt_entries \<Rightarrow> EvidenceIntakeReceipt \<Rightarrow> intake_error + receipt_entries" where
  "evidence_save env entries r =
     (let bad = validateEvidenceIntakeReceipt env r in
      unless_error (failing (bad \<noteq> []) (EvidenceIntakeError EVIDENCE_INTAKE_RECEIPT_INVALID (intake_details (map IntakeReason bad))))
     (unless_error (failing (record_with receipt_key entries (receipt_key r) \<noteq> None)
                      (EvidenceIntakeError EVIDENCE_INTAKE_DUPLICATE
                         ((intake_details [IntakeCode EVIDENCE_INTAKE_DUPLICATE])
                            \<lparr>id_intakeId := Some (er_intakeId r), id_tenantId := Some (er_tenantId r), id_caseId := Some (er_caseId r)\<rparr>)))
        (Inr (entries @ [r]))))"

definition receipt_valid :: "host_env \<Rightarrow> EvidenceIntakeReceipt \<Rightarrow> bool" where
  "receipt_valid env r \<longleftrightarrow> validateEvidenceIntakeReceipt env r = []"

lemma evidence_save_Inr:
  "evidence_save env entries r = Inr e \<longleftrightarrow>
     receipt_valid env r \<and> record_with receipt_key entries (receipt_key r) = None \<and> e = entries @ [r]"
  by (auto simp: evidence_save_def Let_def receipt_valid_def)

interpretation receipts: record_store evidence_get evidence_listByCase "evidence_save env" id er_tenantId er_caseId er_intakeId
  "receipt_valid env" for env
proof
  fix r assume "receipt_valid env r"
  then show "isValidProtocolizationTenantId (er_tenantId r)"
    by (simp add: receipt_valid_def validateEvidenceIntakeReceipt_def)
next
  fix s r s' assume "evidence_save env s r = Inr s'"
  then show "receipt_valid env r \<and> id s' = id s @ [r] \<and>
      storageKey (er_tenantId r) (er_intakeId r) \<notin> (\<lambda>r. storageKey (er_tenantId r) (er_intakeId r)) ` set (id s)"
    by (simp add: evidence_save_Inr record_with_None receipt_key_def)
qed (auto simp: evidence_get_def evidence_listByCase_def evidence_assertTenant_def receipt_key_def [abs_def])

text \<open>
  A case and its receipts: every evidence of a case that came through an intake is named by exactly the receipt of that
  intake, at the revision the intake made.
\<close>

definition receipt_for :: "ProtocolizationCase \<Rightarrow> EvidenceIntakeReceipt \<Rightarrow> bool" where
  "receipt_for c r \<longleftrightarrow>
     er_tenantId r = zc_tenantId c \<and> er_caseId r = zc_caseId c \<and> er_profile r = zc_profile c \<and>
     er_caseRevision r \<le> zc_revision c \<and>
     (\<exists>m \<in> set (zc_materials c). zm_materialId m = er_materialId r \<and> zm_payload m = EvidencePayload (er_evidenceRef r) \<and>
        zm_addedAt m = er_receivedAt r \<and> set (er_requirementIds r) \<subseteq> set (zm_requirementIds m))"

lemma intake_receipt_for:
  assumes "intakeProtocolizationEvidence env ctx c s = Inr t"
  shows "receipt_for (it_case t) (it_receipt t)" "receipt_valid env (it_receipt t)" "case_wf env (it_case t)"
    "zc_revision (it_case t) = zc_revision c + 1" "er_caseRevision (it_receipt t) = zc_revision (it_case t)"
proof -
  have t: "operable env ctx c" "time_ok env ctx c" "intake_permitted env ctx c s"
    "it_case t = effect c (AddMaterial (evidence_material s)) (cx_now ctx)"
    "it_receipt t = receipt_of s (it_case t) (cx_now ctx)"
    "addProtocolizationCaseMaterial env ctx c (evidence_material s) = Inr (it_case t, it_caseEvent t)"
    using assms unfolding intake_Inr by blast+
  show wf: "case_wf env (it_case t)"
    using perform_wf [of env ctx c "AddMaterial (evidence_material s)"] t(6) by simp
  show "receipt_valid env (it_receipt t)"
    using admitted_receipt [OF _ _ wf] t(2,3,5) by (simp add: intake_permitted_def time_ok_def receipt_valid_def)
  show "zc_revision (it_case t) = zc_revision c + 1" by (simp only: t(4) effect_fields)
  show "er_caseRevision (it_receipt t) = zc_revision (it_case t)" by (simp add: t(5) receipt_of_def)
  show "receipt_for (it_case t) (it_receipt t)"
    by (simp add: receipt_for_def t(4,5) receipt_of_def with_material_def evidence_material_def)
qed

text \<open>Later operations on the case keep it so.\<close>

lemma receipt_for_kept:
  assumes "receipt_for c r" "perform env ctx c cmd = Inr (c', ev)"
  shows "receipt_for c' r"
proof -
  obtain m where m: "m \<in> set (zc_materials c)" "zm_materialId m = er_materialId r"
    "zm_payload m = EvidencePayload (er_evidenceRef r)" "zm_addedAt m = er_receivedAt r"
    "set (er_requirementIds r) \<subseteq> set (zm_requirementIds m)"
    using assms(1) by (auto simp: receipt_for_def)
  from performed_keeps [OF assms(2) m(1)] obtain m' where
    "m' \<in> set (zc_materials c')" "zm_materialId m' = zm_materialId m" "zm_payload m' = zm_payload m"
    "zm_addedAt m' = zm_addedAt m" "set (zm_requirementIds m) \<subseteq> set (zm_requirementIds m')"
    by blast
  with m show ?thesis
    using assms(1) performed_header [OF assms(2)] unfolding receipt_for_def by (intro conjI bexI [of _ m']) auto
qed

end
