(* ===== verification/Declarations.thy ===== *)
theory Declarations
  imports EvidenceIntake RecordStore
begin

text \<open>
  \<open>packages/asset-protocolization/src/declarations/\<close>: submissions, records, their validation, the operation that
  records a declaration in a case, and the repository of records.

  Of a canonical claim and a principal the members the code reads are modelled.  \<open>isUsableReferenceSource\<close>,
  \<open>checkRequirementIds\<close> and \<open>isCanonicalRecordId\<close> have the bodies of their namesakes for evidence.
\<close>

subsection \<open>Submissions and records\<close>

record CanonicalPrincipalRef =
  cp_id :: string
  cp_kind :: string

record CanonicalClaim =
  cc_id :: string
  cc_type :: string
  cc_issuedAt :: string

datatype ClaimPayload = ReferencedClaim string string | CanonicalClaimDocument CanonicalClaim

record DeclarationSubmission =
  ds_declarationId :: string
  ds_caseId :: string
  ds_materialId :: string
  ds_declarant :: CanonicalPrincipalRef
  ds_payload :: ClaimPayload
  ds_claimSubtype :: "string option"
  ds_statement :: "string option"
  ds_requirementIds :: "string list"
  ds_supportingEvidenceRefs :: "string list option"
  ds_declaredAt :: "string option"
  ds_sourceRef :: "CanonicalReferenceSource option"
  ds_correlationId :: "string option"

fun submittedClaimRef :: "ClaimPayload \<Rightarrow> string" where
  "submittedClaimRef (CanonicalClaimDocument d) = cc_id d"
| "submittedClaimRef (ReferencedClaim r t) = r"

fun submittedClaimType :: "ClaimPayload \<Rightarrow> string" where
  "submittedClaimType (CanonicalClaimDocument d) = cc_type d"
| "submittedClaimType (ReferencedClaim r t) = t"

definition PROTOCOLIZATION_DECLARATION_RECORD_SCHEMA_VERSION :: string where
  "PROTOCOLIZATION_DECLARATION_RECORD_SCHEMA_VERSION = ''aoc-protocolization-declaration/1''"

record DeclarationRecord =
  dr_schemaVersion :: string
  dr_declarationId :: string
  dr_tenantId :: string
  dr_caseId :: string
  dr_profile :: ProtocolizationProfileRef
  dr_declarant :: CanonicalPrincipalRef
  dr_claimType :: string
  dr_claimSubtype :: "string option"
  dr_claimRef :: string
  dr_materialId :: string
  dr_requirementIds :: "string list"
  dr_supportingEvidenceRefs :: "string list option"
  dr_statement :: "string option"
  dr_declaredAt :: "string option"
  dr_recordedAt :: string
  dr_sourceRef :: "CanonicalReferenceSource option"
  dr_caseRevision :: int
  dr_correlationId :: "string option"

record DeclarationRecordedEvent =
  de_declarationId :: string
  de_tenantId :: string
  de_caseId :: string
  de_profile :: ProtocolizationProfileRef
  de_declarant :: CanonicalPrincipalRef
  de_claimType :: string
  de_claimSubtype :: "string option"
  de_claimRef :: string
  de_materialId :: string
  de_requirementIds :: "string list"
  de_supportingEvidenceRefs :: "string list option"
  de_occurredAt :: string
  de_declaredAt :: "string option"
  de_caseRevision :: int
  de_correlationId :: "string option"

subsection \<open>Validation\<close>

datatype DeclarationReason =
    DECLARATION_NOT_AN_OBJECT | DECLARATION_UNKNOWN_FIELD | DECLARATION_SCHEMA_VERSION_INVALID | DECLARATION_ID_INVALID
  | DECLARATION_TENANT_ID_INVALID | DECLARATION_CASE_ID_INVALID | DECLARATION_MATERIAL_ID_INVALID
  | DECLARATION_PROFILE_REF_INVALID | DECLARATION_DECLARANT_INVALID | DECLARATION_PATHWAY_INVALID
  | DECLARATION_CLAIM_REF_INVALID | DECLARATION_CLAIM_DOCUMENT_INVALID | DECLARATION_CLAIM_TYPE_INVALID
  | DECLARATION_CLAIM_SUBTYPE_INVALID | DECLARATION_STATEMENT_INVALID | DECLARATION_REQUIREMENT_IDS_INVALID
  | DECLARATION_SUPPORTING_EVIDENCE_REFS_INVALID | DECLARATION_DECLARED_AT_INVALID | DECLARATION_RECORDED_AT_INVALID
  | DECLARATION_SOURCE_REF_INVALID | DECLARATION_CASE_REVISION_INVALID | DECLARATION_CORRELATION_ID_INVALID

definition isValidDeclarationId :: "string \<Rightarrow> bool" where
  "isValidDeclarationId s \<longleftrightarrow> isProtocolizationInstanceIdentifier s"

definition STATEMENT_MAX_LENGTH :: nat where
  "STATEMENT_MAX_LENGTH = 4096"

definition isClaimType :: "string \<Rightarrow> bool" where
  "isClaimType t \<longleftrightarrow> t \<in> set ClaimTypes"

definition isUsableDeclarantRef :: "CanonicalPrincipalRef \<Rightarrow> bool" where
  "isUsableDeclarantRef p \<longleftrightarrow> isCanonicalRecordId (cp_id p) \<and> cp_kind p \<in> set PrincipalKinds"

definition isAdmissibleCanonicalClaim :: "host_env \<Rightarrow> CanonicalClaim \<Rightarrow> bool" where
  "isAdmissibleCanonicalClaim env d \<longleftrightarrow>
     isCanonicalRecordId (cc_id d) \<and> isClaimType (cc_type d) \<and> isValidUtcDateTime env (cc_issuedAt d)"

definition isBoundedToken :: "string \<Rightarrow> bool" where
  "isBoundedToken s \<longleftrightarrow> trim s \<noteq> [] \<and> length s \<le> ASSET_IDENTIFIER_MAX_LENGTH"

definition checkStatement :: "string \<Rightarrow> bool" where
  "checkStatement s \<longleftrightarrow> trim s \<noteq> [] \<and> length s \<le> STATEMENT_MAX_LENGTH"

definition checkSupportingEvidenceRefs :: "string list \<Rightarrow> bool" where
  "checkSupportingEvidenceRefs rs \<longleftrightarrow> rs \<noteq> [] \<and> list_all isCanonicalRecordId rs \<and> distinct rs"

definition checkSharedOptionals ::
  "host_env \<Rightarrow> string option \<Rightarrow> string option \<Rightarrow> string list option \<Rightarrow> string option \<Rightarrow> CanonicalReferenceSource option \<Rightarrow>
   string option \<Rightarrow> DeclarationReason list" where
  "checkSharedOptionals env subtype statement links declaredAt source correlation =
     unless_ok (if_present isBoundedToken subtype) DECLARATION_CLAIM_SUBTYPE_INVALID @
     unless_ok (if_present checkStatement statement) DECLARATION_STATEMENT_INVALID @
     unless_ok (if_present checkSupportingEvidenceRefs links) DECLARATION_SUPPORTING_EVIDENCE_REFS_INVALID @
     unless_ok (if_present (isValidUtcDateTime env) declaredAt) DECLARATION_DECLARED_AT_INVALID @
     unless_ok (if_present isUsableReferenceSource source) DECLARATION_SOURCE_REF_INVALID @
     unless_ok (if_present isCanonicalRecordId correlation) DECLARATION_CORRELATION_ID_INVALID"

definition claim_reasons :: "host_env \<Rightarrow> ClaimPayload \<Rightarrow> DeclarationReason list" where
  "claim_reasons env p =
     (case p of
        ReferencedClaim r t \<Rightarrow>
          unless_ok (isCanonicalRecordId r) DECLARATION_CLAIM_REF_INVALID @ unless_ok (isClaimType t) DECLARATION_CLAIM_TYPE_INVALID
      | CanonicalClaimDocument d \<Rightarrow> unless_ok (isAdmissibleCanonicalClaim env d) DECLARATION_CLAIM_DOCUMENT_INVALID)"

definition validateProtocolizationDeclarationSubmission :: "host_env \<Rightarrow> DeclarationSubmission \<Rightarrow> DeclarationReason list" where
  "validateProtocolizationDeclarationSubmission env s =
     unless_ok (isValidDeclarationId (ds_declarationId s)) DECLARATION_ID_INVALID @
     unless_ok (isValidProtocolizationCaseId (ds_caseId s)) DECLARATION_CASE_ID_INVALID @
     unless_ok (isValidProtocolizationMaterialId (ds_materialId s)) DECLARATION_MATERIAL_ID_INVALID @
     unless_ok (isUsableDeclarantRef (ds_declarant s)) DECLARATION_DECLARANT_INVALID @
     unless_ok (checkRequirementIds (ds_requirementIds s)) DECLARATION_REQUIREMENT_IDS_INVALID @
     claim_reasons env (ds_payload s) @
     checkSharedOptionals env (ds_claimSubtype s) (ds_statement s) (ds_supportingEvidenceRefs s) (ds_declaredAt s)
       (ds_sourceRef s) (ds_correlationId s)"

definition validateProtocolizationDeclarationRecord :: "host_env \<Rightarrow> DeclarationRecord \<Rightarrow> DeclarationReason list" where
  "validateProtocolizationDeclarationRecord env r =
     unless_ok (dr_schemaVersion r = PROTOCOLIZATION_DECLARATION_RECORD_SCHEMA_VERSION) DECLARATION_SCHEMA_VERSION_INVALID @
     unless_ok (isValidDeclarationId (dr_declarationId r)) DECLARATION_ID_INVALID @
     unless_ok (isValidProtocolizationTenantId (dr_tenantId r)) DECLARATION_TENANT_ID_INVALID @
     unless_ok (isValidProtocolizationCaseId (dr_caseId r)) DECLARATION_CASE_ID_INVALID @
     unless_ok (isValidProtocolizationProfileRef (dr_profile r)) DECLARATION_PROFILE_REF_INVALID @
     unless_ok (isUsableDeclarantRef (dr_declarant r)) DECLARATION_DECLARANT_INVALID @
     unless_ok (isClaimType (dr_claimType r)) DECLARATION_CLAIM_TYPE_INVALID @
     unless_ok (isCanonicalRecordId (dr_claimRef r)) DECLARATION_CLAIM_REF_INVALID @
     unless_ok (isValidProtocolizationMaterialId (dr_materialId r)) DECLARATION_MATERIAL_ID_INVALID @
     unless_ok (checkRequirementIds (dr_requirementIds r)) DECLARATION_REQUIREMENT_IDS_INVALID @
     unless_ok (isValidUtcDateTime env (dr_recordedAt r)) DECLARATION_RECORDED_AT_INVALID @
     unless_ok (isSafeInteger (dr_caseRevision r) \<and> 1 \<le> dr_caseRevision r) DECLARATION_CASE_REVISION_INVALID @
     checkSharedOptionals env (dr_claimSubtype r) (dr_statement r) (dr_supportingEvidenceRefs r) (dr_declaredAt r)
       (dr_sourceRef r) (dr_correlationId r)"

subsection \<open>Errors and guards\<close>

datatype DeclarationErrorCode =
    DECLARATION_SUBMISSION_INVALID | DECLARATION_TENANT_REQUIRED | DECLARATION_TENANT_MISMATCH | DECLARATION_CASE_MISMATCH
  | DECLARATION_DUPLICATE | DECLARATION_DUPLICATE_CLAIM | DECLARATION_REQUIREMENT_INCOMPATIBLE
  | DECLARATION_CLAIM_TYPE_MISMATCH | DECLARATION_EVIDENCE_LINK_UNKNOWN | DECLARATION_RECORD_INVALID

datatype declaration_reason = DeclarationReason DeclarationReason | DeclarationCode DeclarationErrorCode

record DeclarationErrorDetails =
  dd_reasonCodes :: "declaration_reason list"
  dd_declarationId :: "string option"
  dd_tenantId :: "string option"
  dd_caseId :: "string option"
  dd_materialId :: "string option"
  dd_claimRef :: "string option"
  dd_evidenceRef :: "string option"
  dd_requirementIds :: "string list option"

datatype declaration_error =
    DeclarationError DeclarationErrorCode DeclarationErrorDetails
  | DeclarationCaseError ProtocolizationCaseError

definition declaration_details :: "declaration_reason list \<Rightarrow> DeclarationErrorDetails" where
  "declaration_details rs =
     \<lparr>dd_reasonCodes = rs, dd_declarationId = None, dd_tenantId = None, dd_caseId = None, dd_materialId = None,
      dd_claimRef = None, dd_evidenceRef = None, dd_requirementIds = None\<rparr>"

text \<open>An error that names the declaration and the case.\<close>

definition declaration_fault :: "ProtocolizationCase \<Rightarrow> DeclarationSubmission \<Rightarrow> DeclarationErrorCode \<Rightarrow> DeclarationErrorDetails" where
  "declaration_fault c s code =
     (declaration_details [DeclarationCode code])
       \<lparr>dd_declarationId := Some (ds_declarationId s), dd_caseId := Some (zc_caseId c), dd_tenantId := Some (zc_tenantId c)\<rparr>"

definition declaration_tenant_gate :: "CaseContext \<Rightarrow> ProtocolizationCase \<Rightarrow> declaration_error option" where
  "declaration_tenant_gate ctx c =
     (if \<not> isValidProtocolizationTenantId (cx_tenantId ctx)
      then Some (DeclarationError DECLARATION_TENANT_REQUIRED (declaration_details [DeclarationCode DECLARATION_TENANT_REQUIRED]))
      else if zc_tenantId c \<noteq> cx_tenantId ctx
      then Some (DeclarationCaseError (case_error CASE_TENANT_MISMATCH
             ((reasons_only [Code CASE_TENANT_MISMATCH])\<lparr>cd_caseId := Some (zc_caseId c), cd_tenantId := Some (cx_tenantId ctx)\<rparr>)))
      else None)"

definition assertClaimNotAlreadyInCase ::
  "ProtocolizationCase \<Rightarrow> string \<Rightarrow> DeclarationSubmission \<Rightarrow> declaration_error option" where
  "assertClaimNotAlreadyInCase c claim s =
     (case find (\<lambda>m. zm_payload m = DeclarationPayload claim) (zc_materials c) of
        None \<Rightarrow> None
      | Some existing \<Rightarrow>
          Some (DeclarationError DECLARATION_DUPLICATE_CLAIM
            ((declaration_fault c s DECLARATION_DUPLICATE_CLAIM)
               \<lparr>dd_materialId := Some (zm_materialId existing), dd_claimRef := Some claim\<rparr>)))"

definition admitted_evidence :: "ProtocolizationCase \<Rightarrow> string \<Rightarrow> bool" where
  "admitted_evidence c e \<longleftrightarrow> (\<exists>m \<in> set (zc_materials c). zm_payload m = EvidencePayload e)"

definition assertEvidenceLinksResolve :: "ProtocolizationCase \<Rightarrow> DeclarationSubmission \<Rightarrow> declaration_error option" where
  "assertEvidenceLinksResolve c s =
     (case ds_supportingEvidenceRefs s of
        None \<Rightarrow> None
      | Some refs \<Rightarrow>
          (case find (\<lambda>e. \<not> admitted_evidence c e) refs of
             None \<Rightarrow> None
           | Some e \<Rightarrow>
               Some (DeclarationError DECLARATION_EVIDENCE_LINK_UNKNOWN
                 ((declaration_fault c s DECLARATION_EVIDENCE_LINK_UNKNOWN)\<lparr>dd_evidenceRef := Some e\<rparr>))))"

text \<open>\<open>byId\<close> is a Map built from the requirements: of two with one identifier the last wins.\<close>

definition requirements_by_id :: "AssetProfile \<Rightarrow> string \<rightharpoonup> AssetRequirement" where
  "requirements_by_id p = map_of (rev (map (\<lambda>q. (ar_id q, q)) (ap_requirements p)))"

definition claim_mismatch :: "DeclarationSubmission \<Rightarrow> string \<Rightarrow> AssetRequirement \<Rightarrow> bool" where
  "claim_mismatch s claimType q \<longleftrightarrow>
     (case ar_shape q of
        DeclarationShape d \<Rightarrow>
          ad_claimType d \<noteq> claimType \<or> ad_claimSubtype d \<noteq> None \<and> ad_claimSubtype d \<noteq> ds_claimSubtype s
      | _ \<Rightarrow> False)"

definition assertDeclarationRequirementCompatibility ::
  "CaseContext \<Rightarrow> ProtocolizationCase \<Rightarrow> DeclarationSubmission \<Rightarrow> string \<Rightarrow> declaration_error option" where
  "assertDeclarationRequirementCompatibility ctx c s claimType =
     (case cx_catalog ctx (pr_profileId (zc_profile c)) (pr_profileVersion (zc_profile c)) of
        None \<Rightarrow>
          Some (DeclarationCaseError (case_error CASE_PROFILE_NOT_FOUND
            ((reasons_only [Code CASE_PROFILE_NOT_FOUND])\<lparr>cd_profile := Some (zc_profile c), cd_caseId := Some (zc_caseId c)\<rparr>)))
      | Some p \<Rightarrow>
          (let resolved = map (requirements_by_id p) (ds_requirementIds s) in
           if None \<in> set resolved then None
           else
             let found = map the resolved; incompatible = filter (\<lambda>q. ar_kind q \<noteq> DeclarationRequirement) found;
                 mismatched = filter (claim_mismatch s claimType) found in
             if incompatible \<noteq> []
             then Some (DeclarationError DECLARATION_REQUIREMENT_INCOMPATIBLE
                    ((declaration_fault c s DECLARATION_REQUIREMENT_INCOMPATIBLE)\<lparr>dd_requirementIds := Some (map ar_id incompatible)\<rparr>))
             else if mismatched \<noteq> []
             then Some (DeclarationError DECLARATION_CLAIM_TYPE_MISMATCH
                    ((declaration_fault c s DECLARATION_CLAIM_TYPE_MISMATCH)\<lparr>dd_requirementIds := Some (map ar_id mismatched)\<rparr>))
             else None))"

subsection \<open>Recording\<close>

definition declaration_material :: "DeclarationSubmission \<Rightarrow> MaterialInput" where
  "declaration_material s =
     \<lparr>im_materialId = ds_materialId s, im_requirementIds = ds_requirementIds s, im_correlationId = ds_correlationId s,
      im_payload = DeclarationPayload (submittedClaimRef (ds_payload s))\<rparr>"

definition record_of :: "DeclarationSubmission \<Rightarrow> ProtocolizationCase \<Rightarrow> string \<Rightarrow> DeclarationRecord" where
  "record_of s c recordedAt =
     \<lparr>dr_schemaVersion = PROTOCOLIZATION_DECLARATION_RECORD_SCHEMA_VERSION, dr_declarationId = ds_declarationId s,
      dr_tenantId = zc_tenantId c, dr_caseId = zc_caseId c, dr_profile = zc_profile c, dr_declarant = ds_declarant s,
      dr_claimType = submittedClaimType (ds_payload s), dr_claimSubtype = ds_claimSubtype s,
      dr_claimRef = submittedClaimRef (ds_payload s), dr_materialId = ds_materialId s,
      dr_requirementIds = ds_requirementIds s, dr_supportingEvidenceRefs = ds_supportingEvidenceRefs s,
      dr_statement = ds_statement s, dr_declaredAt = ds_declaredAt s, dr_recordedAt = recordedAt,
      dr_sourceRef = ds_sourceRef s, dr_caseRevision = zc_revision c, dr_correlationId = ds_correlationId s\<rparr>"

definition recorded_event :: "DeclarationRecord \<Rightarrow> DeclarationRecordedEvent" where
  "recorded_event r =
     \<lparr>de_declarationId = dr_declarationId r, de_tenantId = dr_tenantId r, de_caseId = dr_caseId r, de_profile = dr_profile r,
      de_declarant = dr_declarant r, de_claimType = dr_claimType r, de_claimSubtype = dr_claimSubtype r,
      de_claimRef = dr_claimRef r, de_materialId = dr_materialId r, de_requirementIds = dr_requirementIds r,
      de_supportingEvidenceRefs = dr_supportingEvidenceRefs r, de_occurredAt = dr_recordedAt r,
      de_declaredAt = dr_declaredAt r, de_caseRevision = dr_caseRevision r, de_correlationId = dr_correlationId r\<rparr>"

record DeclarationTransition =
  dt_case :: ProtocolizationCase
  dt_record :: DeclarationRecord
  dt_caseEvent :: ProtocolizationCaseEvent
  dt_declarationEvent :: DeclarationRecordedEvent

definition recordProtocolizationDeclaration ::
  "host_env \<Rightarrow> CaseContext \<Rightarrow> ProtocolizationCase \<Rightarrow> DeclarationSubmission \<Rightarrow> declaration_error + DeclarationTransition" where
  "recordProtocolizationDeclaration env ctx c s =
     unless_error (declaration_tenant_gate ctx c)
    (let reasons = validateProtocolizationDeclarationSubmission env s in
     unless_error (failing (reasons \<noteq> [])
                     (DeclarationError DECLARATION_SUBMISSION_INVALID
                        ((declaration_details (map DeclarationReason reasons))
                           \<lparr>dd_caseId := Some (zc_caseId c), dd_tenantId := Some (zc_tenantId c)\<rparr>)))
    (unless_error (failing (ds_caseId s \<noteq> zc_caseId c)
                     (DeclarationError DECLARATION_CASE_MISMATCH (declaration_fault c s DECLARATION_CASE_MISMATCH)))
    (unless_error (assertClaimNotAlreadyInCase c (submittedClaimRef (ds_payload s)) s)
    (unless_error (assertEvidenceLinksResolve c s)
    (unless_error (assertDeclarationRequirementCompatibility ctx c s (submittedClaimType (ds_payload s)))
    (bind_sum (map_error DeclarationCaseError (addProtocolizationCaseMaterial env ctx c (declaration_material s))) (\<lambda>(n, caseEvent).
       let r = record_of s n (ev_occurredAt (event_base caseEvent)); bad = validateProtocolizationDeclarationRecord env r in
       unless_error (failing (bad \<noteq> [])
                       (DeclarationError DECLARATION_RECORD_INVALID
                          ((declaration_details (map DeclarationReason bad))\<lparr>dd_declarationId := Some (ds_declarationId s)\<rparr>)))
         (Inr \<lparr>dt_case = n, dt_record = r, dt_caseEvent = caseEvent, dt_declarationEvent = recorded_event r\<rparr>))))))))"

definition reconstituteProtocolizationDeclarationRecord ::
  "host_env \<Rightarrow> DeclarationRecord \<Rightarrow> declaration_error + DeclarationRecord" where
  "reconstituteProtocolizationDeclarationRecord env r =
     (let bad = validateProtocolizationDeclarationRecord env r in
      unless_error (failing (bad \<noteq> []) (DeclarationError DECLARATION_RECORD_INVALID (declaration_details (map DeclarationReason bad))))
        (Inr r))"

subsection \<open>What recording does\<close>

lemma declaration_tenant_gate_None [simp]:
  "declaration_tenant_gate ctx c = None \<longleftrightarrow> isValidProtocolizationTenantId (cx_tenantId ctx) \<and> zc_tenantId c = cx_tenantId ctx"
  by (simp add: declaration_tenant_gate_def)

lemma claim_not_held_None [simp]:
  "assertClaimNotAlreadyInCase c claim s = None \<longleftrightarrow> (\<forall>m \<in> set (zc_materials c). zm_payload m \<noteq> DeclarationPayload claim)"
  by (auto simp: assertClaimNotAlreadyInCase_def find_None_iff find_Some_iff split: option.split)

definition links_resolve :: "ProtocolizationCase \<Rightarrow> string list option \<Rightarrow> bool" where
  "links_resolve c refs \<longleftrightarrow> if_present (list_all (admitted_evidence c)) refs"

lemma links_None [simp]: "assertEvidenceLinksResolve c s = None \<longleftrightarrow> links_resolve c (ds_supportingEvidenceRefs s)"
  by (auto simp: assertEvidenceLinksResolve_def links_resolve_def if_present_def find_None_iff find_Some_iff list_all_iff split: option.split)

text \<open>The declaration a requirement asks for.\<close>

definition asks_for :: "AssetRequirement \<Rightarrow> string \<Rightarrow> string option \<Rightarrow> bool" where
  "asks_for q claimType subtype \<longleftrightarrow>
     (\<exists>d. ar_shape q = DeclarationShape d \<and> ad_claimType d = claimType \<and>
          (ad_claimSubtype d = None \<or> ad_claimSubtype d = subtype))"

lemma asks_for_iff:
  "asks_for q t (ds_claimSubtype s) \<longleftrightarrow> ar_kind q = DeclarationRequirement \<and> \<not> claim_mismatch s t q"
  by (cases "ar_shape q") (auto simp: asks_for_def claim_mismatch_def ar_kind_def)

definition all_ask_for :: "AssetProfile \<Rightarrow> string list \<Rightarrow> string \<Rightarrow> string option \<Rightarrow> bool" where
  "all_ask_for p ids claimType subtype \<longleftrightarrow>
     (\<forall>i \<in> set ids. \<exists>q. requirements_by_id p i = Some q \<and> asks_for q claimType subtype)"

lemma compatibility_None:
  assumes "pinned_profile ctx c = Some p" "set (ds_requirementIds s) \<subseteq> ar_id ` set (ap_requirements p)"
  shows "assertDeclarationRequirementCompatibility ctx c s t = None \<longleftrightarrow>
    all_ask_for p (ds_requirementIds s) t (ds_claimSubtype s)"
proof -
  let ?f = "\<lambda>i. the (requirements_by_id p i)"
  have found: "requirements_by_id p i = Some (?f i)" if "i \<in> set (ds_requirementIds s)" for i
  proof -
    have "requirements_by_id p i \<noteq> None"
      using that assms(2) by (auto simp: requirements_by_id_def map_of_eq_None_iff image_image)
    then show ?thesis by simp
  qed
  then have "None \<notin> requirements_by_id p ` set (ds_requirementIds s)" by force
  then have "assertDeclarationRequirementCompatibility ctx c s t = None \<longleftrightarrow>
      (\<forall>i \<in> set (ds_requirementIds s). asks_for (?f i) t (ds_claimSubtype s))"
    using assms(1)
    by (auto simp: assertDeclarationRequirementCompatibility_def pinned_profile_def Let_def asks_for_iff filter_empty_conv)
  also have "\<dots> \<longleftrightarrow> all_ask_for p (ds_requirementIds s) t (ds_claimSubtype s)"
    using found by (auto simp: all_ask_for_def)
  finally show ?thesis .
qed

lemma compatibility_needs_profile:
  "assertDeclarationRequirementCompatibility ctx c s t = None \<Longrightarrow> \<exists>p. pinned_profile ctx c = Some p"
  by (auto simp: assertDeclarationRequirementCompatibility_def pinned_profile_def split: option.splits)

lemma admitted_declaration_material:
  assumes "validateProtocolizationDeclarationSubmission env s = []" "isValidUtcDateTime env t"
  shows "isValidProtocolizationCaseMaterial env (material_of (declaration_material s) t)"
  using assms
  by (cases "ds_payload s")
     (auto simp: validateProtocolizationDeclarationSubmission_def claim_reasons_def isAdmissibleCanonicalClaim_def
        checkSharedOptionals_def isValidProtocolizationCaseMaterial_def isValidRequirementIdList_def checkRequirementIds_def
        declaration_material_def if_present_def split: option.splits)

lemma admitted_record:
  assumes "validateProtocolizationDeclarationSubmission env s = []" "isValidUtcDateTime env t" "case_wf env c"
  shows "validateProtocolizationDeclarationRecord env (record_of s c t) = []"
  using assms
  by (cases "ds_payload s")
     (auto simp: validateProtocolizationDeclarationSubmission_def claim_reasons_def isAdmissibleCanonicalClaim_def
        validateProtocolizationDeclarationRecord_def record_of_def case_wf_def header_ok_def)

definition declaration_permitted :: "host_env \<Rightarrow> CaseContext \<Rightarrow> ProtocolizationCase \<Rightarrow> DeclarationSubmission \<Rightarrow> bool" where
  "declaration_permitted env ctx c s \<longleftrightarrow>
     validateProtocolizationDeclarationSubmission env s = [] \<and> ds_caseId s = zc_caseId c \<and> zc_state c \<noteq> Cancelled \<and>
     ds_materialId s \<notin> zm_materialId ` set (zc_materials c) \<and>
     (\<forall>m \<in> set (zc_materials c). zm_payload m \<noteq> DeclarationPayload (submittedClaimRef (ds_payload s))) \<and>
     links_resolve c (ds_supportingEvidenceRefs s) \<and>
     (\<exists>p. pinned_profile ctx c = Some p \<and> requirements_ok (ds_requirementIds s) p c \<and>
        all_ask_for p (ds_requirementIds s) (submittedClaimType (ds_payload s)) (ds_claimSubtype s))"

lemma record_declaration_Inr:
  "recordProtocolizationDeclaration env ctx c s = Inr t \<longleftrightarrow>
     operable env ctx c \<and> time_ok env ctx c \<and> revisable c \<and> declaration_permitted env ctx c s \<and>
     dt_case t = effect c (AddMaterial (declaration_material s)) (cx_now ctx) \<and>
     dt_record t = record_of s (dt_case t) (cx_now ctx) \<and> dt_declarationEvent t = recorded_event (dt_record t) \<and>
     addProtocolizationCaseMaterial env ctx c (declaration_material s) = Inr (dt_case t, dt_caseEvent t)"
proof (cases "operable env ctx c \<and> time_ok env ctx c")
  case True
  have valid: "isValidProtocolizationTenantId (cx_tenantId ctx)" "zc_tenantId c = cx_tenantId ctx"
    using True wf_tenant [of env c] by (auto simp: operable_def)
  have material: "isValidProtocolizationCaseMaterial env (material_of (declaration_material s) (cx_now ctx))"
    if "validateProtocolizationDeclarationSubmission env s = []"
    using admitted_declaration_material [OF that] True by (simp add: time_ok_def)
  have fields: "im_materialId (declaration_material s) = ds_materialId s"
    "im_requirementIds (declaration_material s) = ds_requirementIds s"
    by (simp_all add: declaration_material_def)
  note added = added_material [of env ctx c "declaration_material s"]
  have recorded: "validateProtocolizationDeclarationRecord env (record_of s n (cx_now ctx)) = []"
    if "validateProtocolizationDeclarationSubmission env s = []" "case_wf env n" for n
    using admitted_record [OF that(1) _ that(2)] True by (simp add: time_ok_def)
  have iff: "recordProtocolizationDeclaration env ctx c s = Inr t \<longleftrightarrow>
      validateProtocolizationDeclarationSubmission env s = [] \<and> ds_caseId s = zc_caseId c \<and>
      (\<forall>m \<in> set (zc_materials c). zm_payload m \<noteq> DeclarationPayload (submittedClaimRef (ds_payload s))) \<and>
      links_resolve c (ds_supportingEvidenceRefs s) \<and>
      assertDeclarationRequirementCompatibility ctx c s (submittedClaimType (ds_payload s)) = None \<and>
      addProtocolizationCaseMaterial env ctx c (declaration_material s) = Inr (dt_case t, dt_caseEvent t) \<and>
      dt_record t = record_of s (dt_case t) (cx_now ctx) \<and> dt_declarationEvent t = recorded_event (dt_record t)"
    using added recorded
    by (auto simp: recordProtocolizationDeclaration_def valid Let_def)
  have asked: "assertDeclarationRequirementCompatibility ctx c s (submittedClaimType (ds_payload s)) = None \<longleftrightarrow>
      all_ask_for p (ds_requirementIds s) (submittedClaimType (ds_payload s)) (ds_claimSubtype s)"
    if "pinned_profile ctx c = Some p" "requirements_ok (ds_requirementIds s) p c" for p
    using that by (intro compatibility_None) (auto simp: requirements_ok_def)
  show ?thesis
    unfolding iff declaration_permitted_def add_material_Inr using True material by (auto simp: fields asked)
next
  case False
  then have "addProtocolizationCaseMaterial env ctx c (declaration_material s) \<noteq> Inr (n, ev)" for n ev
    unfolding add_material_Inr by blast
  with False show ?thesis by (auto simp: recordProtocolizationDeclaration_def Let_def)
qed

end
