(* ===== verification/DeclarationStore.thy ===== *)
theory DeclarationStore
  imports Declarations
begin

text \<open>\<open>packages/asset-protocolization/src/declarations/declaration-repository.ts\<close>: the records of declarations.\<close>

type_synonym declaration_entries = "DeclarationRecord list"

definition declaration_key :: "DeclarationRecord \<Rightarrow> string" where
  "declaration_key r = storageKey (dr_tenantId r) (dr_declarationId r)"

definition declaration_assertTenant :: "string \<Rightarrow> declaration_error option" where
  "declaration_assertTenant t =
     failing (\<not> isValidProtocolizationTenantId t)
       (DeclarationError DECLARATION_TENANT_REQUIRED (declaration_details [DeclarationCode DECLARATION_TENANT_REQUIRED]))"

definition declaration_get :: "declaration_entries \<Rightarrow> string \<Rightarrow> string \<Rightarrow> declaration_error + DeclarationRecord option" where
  "declaration_get entries t i =
     unless_error (declaration_assertTenant t) (Inr (record_with declaration_key entries (storageKey t i)))"

definition declaration_exists :: "declaration_entries \<Rightarrow> string \<Rightarrow> string \<Rightarrow> declaration_error + bool" where
  "declaration_exists entries t i =
     unless_error (declaration_assertTenant t) (Inr (record_with declaration_key entries (storageKey t i) \<noteq> None))"

definition declaration_listByCase :: "declaration_entries \<Rightarrow> string \<Rightarrow> string \<Rightarrow> declaration_error + DeclarationRecord list" where
  "declaration_listByCase entries t c =
     unless_error (declaration_assertTenant t) (Inr (filter (\<lambda>r. dr_tenantId r = t \<and> dr_caseId r = c) entries))"

definition declaration_save ::
  "host_env \<Rightarrow> declaration_entries \<Rightarrow> DeclarationRecord \<Rightarrow> declaration_error + declaration_entries" where
  "declaration_save env entries r =
     (let bad = validateProtocolizationDeclarationRecord env r in
      unless_error (failing (bad \<noteq> []) (DeclarationError DECLARATION_RECORD_INVALID (declaration_details (map DeclarationReason bad))))
     (unless_error (failing (record_with declaration_key entries (declaration_key r) \<noteq> None)
                      (DeclarationError DECLARATION_DUPLICATE
                         ((declaration_details [DeclarationCode DECLARATION_DUPLICATE])
                            \<lparr>dd_declarationId := Some (dr_declarationId r), dd_tenantId := Some (dr_tenantId r),
                             dd_caseId := Some (dr_caseId r)\<rparr>)))
        (Inr (entries @ [r]))))"

definition record_valid :: "host_env \<Rightarrow> DeclarationRecord \<Rightarrow> bool" where
  "record_valid env r \<longleftrightarrow> validateProtocolizationDeclarationRecord env r = []"

lemma declaration_save_Inr:
  "declaration_save env entries r = Inr e \<longleftrightarrow>
     record_valid env r \<and> record_with declaration_key entries (declaration_key r) = None \<and> e = entries @ [r]"
  by (auto simp: declaration_save_def Let_def record_valid_def)

interpretation declarations: record_store declaration_get declaration_listByCase "declaration_save env" id dr_tenantId
  dr_caseId dr_declarationId "record_valid env" for env
proof
  fix r assume "record_valid env r"
  then show "isValidProtocolizationTenantId (dr_tenantId r)"
    by (simp add: record_valid_def validateProtocolizationDeclarationRecord_def)
next
  fix s r s' assume "declaration_save env s r = Inr s'"
  then show "record_valid env r \<and> id s' = id s @ [r] \<and>
      storageKey (dr_tenantId r) (dr_declarationId r) \<notin> (\<lambda>r. storageKey (dr_tenantId r) (dr_declarationId r)) ` set (id s)"
    by (simp add: declaration_save_Inr record_with_None declaration_key_def)
qed (auto simp: declaration_get_def declaration_listByCase_def declaration_assertTenant_def declaration_key_def [abs_def])

text \<open>
  What a case keeps of its declarations: the record names material of the case, the evidence it points at is in the
  case, and every requirement it is correlated with asks for such a declaration.
\<close>

definition declaration_for :: "AssetProfile \<Rightarrow> ProtocolizationCase \<Rightarrow> DeclarationRecord \<Rightarrow> bool" where
  "declaration_for p c r \<longleftrightarrow>
     dr_tenantId r = zc_tenantId c \<and> dr_caseId r = zc_caseId c \<and> dr_profile r = zc_profile c \<and>
     dr_caseRevision r \<le> zc_revision c \<and> links_resolve c (dr_supportingEvidenceRefs r) \<and>
     all_ask_for p (dr_requirementIds r) (dr_claimType r) (dr_claimSubtype r) \<and>
     (\<exists>m \<in> set (zc_materials c). zm_materialId m = dr_materialId r \<and> zm_payload m = DeclarationPayload (dr_claimRef r) \<and>
        zm_addedAt m = dr_recordedAt r \<and> set (dr_requirementIds r) \<subseteq> set (zm_requirementIds m))"

lemma links_kept:
  assumes "links_resolve c refs" "perform env ctx c cmd = Inr (c', ev)"
  shows "links_resolve c' refs"
proof -
  have "admitted_evidence c' e" if "admitted_evidence c e" for e
    using that performed_keeps [OF assms(2)] unfolding admitted_evidence_def by metis
  then show ?thesis using assms(1) by (auto simp: links_resolve_def if_present_def list_all_iff split: option.splits)
qed

lemma declaration_for_kept:
  assumes "declaration_for p c r" "perform env ctx c cmd = Inr (c', ev)"
  shows "declaration_for p c' r"
proof -
  obtain m where m: "m \<in> set (zc_materials c)" "zm_materialId m = dr_materialId r"
    "zm_payload m = DeclarationPayload (dr_claimRef r)" "zm_addedAt m = dr_recordedAt r"
    "set (dr_requirementIds r) \<subseteq> set (zm_requirementIds m)"
    using assms(1) by (auto simp: declaration_for_def)
  from performed_keeps [OF assms(2) m(1)] obtain m' where
    "m' \<in> set (zc_materials c')" "zm_materialId m' = zm_materialId m" "zm_payload m' = zm_payload m"
    "zm_addedAt m' = zm_addedAt m" "set (zm_requirementIds m) \<subseteq> set (zm_requirementIds m')"
    by blast
  with m show ?thesis
    using assms(1) performed_header [OF assms(2)] links_kept [OF _ assms(2)]
    unfolding declaration_for_def by (intro conjI bexI [of _ m']) auto
qed

lemma recorded_declaration_for:
  assumes "recordProtocolizationDeclaration env ctx c s = Inr t"
  obtains p where "pinned_profile ctx c = Some p" "declaration_for p (dt_case t) (dt_record t)"
    "record_valid env (dt_record t)" "case_wf env (dt_case t)" "dr_caseRevision (dt_record t) = zc_revision (dt_case t)"
    "perform env ctx c (AddMaterial (declaration_material s)) = Inr (dt_case t, dt_caseEvent t)"
proof -
  have t: "operable env ctx c" "time_ok env ctx c" "declaration_permitted env ctx c s"
    "dt_case t = effect c (AddMaterial (declaration_material s)) (cx_now ctx)"
    "dt_record t = record_of s (dt_case t) (cx_now ctx)"
    "addProtocolizationCaseMaterial env ctx c (declaration_material s) = Inr (dt_case t, dt_caseEvent t)"
    using assms unfolding record_declaration_Inr by blast+
  have wf: "case_wf env (dt_case t)" using added_material [OF t(6)] by blast
  have performed: "perform env ctx c (AddMaterial (declaration_material s)) = Inr (dt_case t, dt_caseEvent t)"
    using t(6) by (simp only: perform.simps)
  obtain p where p: "pinned_profile ctx c = Some p"
    "all_ask_for p (ds_requirementIds s) (submittedClaimType (ds_payload s)) (ds_claimSubtype s)"
    "links_resolve c (ds_supportingEvidenceRefs s)"
    using t(3) by (auto simp: declaration_permitted_def)
  have "declaration_for p (dt_case t) (dt_record t)"
    using p links_kept [OF _ performed]
    by (simp add: declaration_for_def t(5) record_of_def) (simp add: t(4) with_material_def declaration_material_def)
  moreover have "record_valid env (dt_record t)"
    using admitted_record [OF _ _ wf] t(2,3,5) by (simp add: declaration_permitted_def time_ok_def record_valid_def)
  ultimately show ?thesis
    using that [OF p(1)] wf performed t(5) by (simp add: record_of_def)
qed

end
