(* ===== verification/IntakeRuns.thy ===== *)
theory IntakeRuns
  imports EvidenceStore DeclarationStore
begin

text \<open>
  A case together with its receipts and declarations: the composition that the operations of \<open>evidence-intake-operations.ts\<close>
  and \<open>declaration-operations.ts\<close> are written for.  They return the next case and the record together; the caller commits
  both, or neither when the repository refuses the record (the comments of \<open>ProtocolizationEvidenceIntakeTransition\<close> and
  \<open>ProtocolizationDeclarationTransition\<close>).
\<close>

record IntakeSystem =
  ns_case :: ProtocolizationCase
  ns_receipts :: receipt_entries
  ns_declarations :: declaration_entries

datatype intake_action = CaseAction CaseCommand | EvidenceAction EvidenceSubmission | DeclarationAction DeclarationSubmission

text \<open>A step is an action of a tenant at a time; the catalogue is the same throughout.\<close>

record intake_request =
  nr_now :: string
  nr_tenantId :: string
  nr_action :: intake_action

definition request_context :: "(string \<Rightarrow> string \<Rightarrow> AssetProfile option) \<Rightarrow> intake_request \<Rightarrow> CaseContext" where
  "request_context cat r = \<lparr>cx_catalog = cat, cx_now = nr_now r, cx_tenantId = nr_tenantId r\<rparr>"

definition intake_step ::
  "host_env \<Rightarrow> (string \<Rightarrow> string \<Rightarrow> AssetProfile option) \<Rightarrow> intake_request \<Rightarrow> IntakeSystem \<Rightarrow> IntakeSystem" where
  "intake_step env cat r y =
     (let ctx = request_context cat r; c = ns_case y in
      case nr_action r of
        CaseAction cmd \<Rightarrow> (case perform env ctx c cmd of Inl e \<Rightarrow> y | Inr (c', ev) \<Rightarrow> y\<lparr>ns_case := c'\<rparr>)
      | EvidenceAction s \<Rightarrow>
          (case intakeProtocolizationEvidence env ctx c s of
             Inl e \<Rightarrow> y
           | Inr t \<Rightarrow>
               (case evidence_save env (ns_receipts y) (it_receipt t) of
                  Inl e \<Rightarrow> y
                | Inr rs \<Rightarrow> y\<lparr>ns_case := it_case t, ns_receipts := rs\<rparr>))
      | DeclarationAction s \<Rightarrow>
          (case recordProtocolizationDeclaration env ctx c s of
             Inl e \<Rightarrow> y
           | Inr t \<Rightarrow>
               (case declaration_save env (ns_declarations y) (dt_record t) of
                  Inl e \<Rightarrow> y
                | Inr ds \<Rightarrow> y\<lparr>ns_case := dt_case t, ns_declarations := ds\<rparr>)))"

definition intake_run ::
  "host_env \<Rightarrow> (string \<Rightarrow> string \<Rightarrow> AssetProfile option) \<Rightarrow> IntakeSystem \<Rightarrow> intake_request list \<Rightarrow> IntakeSystem" where
  "intake_run env cat = foldl (\<lambda>y r. intake_step env cat r y)"

subsection \<open>The invariant\<close>

definition declared_for :: "(string \<Rightarrow> string \<Rightarrow> AssetProfile option) \<Rightarrow> ProtocolizationCase \<Rightarrow> DeclarationRecord \<Rightarrow> bool" where
  "declared_for cat c d \<longleftrightarrow>
     (\<exists>p. cat (pr_profileId (zc_profile c)) (pr_profileVersion (zc_profile c)) = Some p \<and> declaration_for p c d)"

text \<open>The revisions that intakes and declarations made.\<close>

definition made_revisions :: "IntakeSystem \<Rightarrow> int list" where
  "made_revisions y = map er_caseRevision (ns_receipts y) @ map dr_caseRevision (ns_declarations y)"

definition intake_ok :: "host_env \<Rightarrow> (string \<Rightarrow> string \<Rightarrow> AssetProfile option) \<Rightarrow> IntakeSystem \<Rightarrow> bool" where
  "intake_ok env cat y \<longleftrightarrow>
     case_wf env (ns_case y) \<and> receipts.good env (ns_receipts y) \<and> declarations.good env (ns_declarations y) \<and>
     (\<forall>r \<in> set (ns_receipts y). receipt_for (ns_case y) r) \<and>
     (\<forall>d \<in> set (ns_declarations y). declared_for cat (ns_case y) d) \<and>
     distinct (made_revisions y) \<and> (\<forall>n \<in> set (made_revisions y). n \<le> zc_revision (ns_case y))"

lemma declared_for_kept:
  assumes "declared_for cat c d" "perform env ctx c cmd = Inr (c', ev)"
  shows "declared_for cat c' d"
  using assms(1) declaration_for_kept [OF _ assms(2)] performed_header [OF assms(2)] by (auto simp: declared_for_def)

lemma intake_okD:
  assumes "intake_ok env cat y"
  shows "case_wf env (ns_case y)" "receipts.good env (ns_receipts y)" "declarations.good env (ns_declarations y)"
    "r \<in> set (ns_receipts y) \<Longrightarrow> receipt_for (ns_case y) r" "d \<in> set (ns_declarations y) \<Longrightarrow> declared_for cat (ns_case y) d"
    "distinct (made_revisions y)" "n \<in> set (made_revisions y) \<Longrightarrow> n \<le> zc_revision (ns_case y)"
  using assms by (simp_all add: intake_ok_def)

lemma performed_ok:
  assumes "intake_ok env cat y" "perform env ctx (ns_case y) cmd = Inr (c', ev)"
  shows "intake_ok env cat (y\<lparr>ns_case := c'\<rparr>)"
proof -
  note h = performed_header [OF assms(2)] and old = intake_okD [OF assms(1)]
  have "made_revisions (y\<lparr>ns_case := c'\<rparr>) = made_revisions y" by (simp add: made_revisions_def)
  moreover have "n \<le> zc_revision c'" if "n \<in> set (made_revisions y)" for n
    using old(7) [OF that] h by linarith
  ultimately show ?thesis
    using h old(2,3,6) receipt_for_kept [OF old(4) assms(2)] declared_for_kept [OF old(5) assms(2)]
    unfolding intake_ok_def by simp
qed

lemma fresh_revision:
  assumes "intake_ok env cat y" "zc_revision (ns_case y) < n"
  shows "n \<notin> set (made_revisions y)"
  using intake_okD(7) [OF assms(1), of n] assms(2) by linarith

lemma received_ok:
  assumes "intake_ok env cat y" "intakeProtocolizationEvidence env ctx (ns_case y) s = Inr t"
    "evidence_save env (ns_receipts y) (it_receipt t) = Inr rs"
  shows "intake_ok env cat (y\<lparr>ns_case := it_case t, ns_receipts := rs\<rparr>)"
proof -
  have performed: "perform env ctx (ns_case y) (AddMaterial (evidence_material s)) = Inr (it_case t, it_caseEvent t)"
    using assms(2) unfolding intake_Inr by (simp only: perform.simps)
  note moved = intake_okD [OF performed_ok [OF assms(1) performed]] and received = intake_receipt_for [OF assms(2)]
  have rs: "rs = ns_receipts y @ [it_receipt t]" using assms(3) by (simp add: evidence_save_Inr)
  have "er_caseRevision (it_receipt t) \<notin> set (made_revisions y)"
    using fresh_revision [OF assms(1)] received(4,5) by simp
  then have "distinct (made_revisions (y\<lparr>ns_case := it_case t, ns_receipts := rs\<rparr>))"
    using intake_okD(6) [OF assms(1)] by (auto simp: made_revisions_def rs)
  moreover have "receipts.good env rs"
    using receipts.store_good [OF intake_okD(2) [OF assms(1)] assms(3)] .
  moreover have "n \<le> zc_revision (it_case t)" if "n \<in> set (made_revisions (y\<lparr>ns_case := it_case t, ns_receipts := rs\<rparr>))" for n
    using that moved(7) [of n] received(5) by (auto simp: made_revisions_def rs)
  ultimately show ?thesis
    using moved(1,3,4,5) received(1) unfolding intake_ok_def by (auto simp: rs)
qed

lemma recorded_ok:
  assumes "intake_ok env cat y" "recordProtocolizationDeclaration env ctx (ns_case y) s = Inr t"
    "declaration_save env (ns_declarations y) (dt_record t) = Inr ds" "cx_catalog ctx = cat"
  shows "intake_ok env cat (y\<lparr>ns_case := dt_case t, ns_declarations := ds\<rparr>)"
proof -
  obtain p where p: "pinned_profile ctx (ns_case y) = Some p" "declaration_for p (dt_case t) (dt_record t)"
    "dr_caseRevision (dt_record t) = zc_revision (dt_case t)"
    and performed: "perform env ctx (ns_case y) (AddMaterial (declaration_material s)) = Inr (dt_case t, dt_caseEvent t)"
    using recorded_declaration_for [OF assms(2)] by metis
  note moved = intake_okD [OF performed_ok [OF assms(1) performed]]
  have ds: "ds = ns_declarations y @ [dt_record t]" using assms(3) by (simp add: declaration_save_Inr)
  have "dr_caseRevision (dt_record t) \<notin> set (made_revisions y)"
    using fresh_revision [OF assms(1)] p(3) performed_header [OF performed] by simp
  then have "distinct (made_revisions (y\<lparr>ns_case := dt_case t, ns_declarations := ds\<rparr>))"
    using intake_okD(6) [OF assms(1)] by (auto simp: made_revisions_def ds)
  moreover have "declarations.good env ds"
    using declarations.store_good [OF intake_okD(3) [OF assms(1)] assms(3)] .
  moreover have "n \<le> zc_revision (dt_case t)" if "n \<in> set (made_revisions (y\<lparr>ns_case := dt_case t, ns_declarations := ds\<rparr>))" for n
    using that moved(7) [of n] p(3) by (auto simp: made_revisions_def ds)
  moreover have "declared_for cat (dt_case t) (dt_record t)"
    using p(1,2) performed_header [OF performed] assms(4) by (auto simp: declared_for_def pinned_profile_def)
  ultimately show ?thesis
    using moved(1,2,4,5) unfolding intake_ok_def by (auto simp: ds)
qed

lemma intake_step_ok: "intake_ok env cat y \<Longrightarrow> intake_ok env cat (intake_step env cat r y)"
  using performed_ok received_ok recorded_ok
  by (auto simp: intake_step_def Let_def request_context_def split: intake_action.split sum.split)

lemma intake_run_ok: "intake_ok env cat y \<Longrightarrow> intake_ok env cat (intake_run env cat y rs)"
  by (induction rs arbitrary: y) (auto simp: intake_run_def intake_step_ok)

lemma created_ok:
  assumes "createProtocolizationCase env ctx i = Inr (c, ev)"
  shows "intake_ok env cat \<lparr>ns_case = c, ns_receipts = [], ns_declarations = []\<rparr>"
  using iffD1 [OF create_Inr assms]
  by (auto simp: intake_ok_def made_revisions_def receipts.good_def declarations.good_def)

text \<open>The repositories only grow.\<close>

lemma intake_step_grows:
  "\<exists>rs ds. ns_receipts (intake_step env cat r y) = ns_receipts y @ rs \<and>
     ns_declarations (intake_step env cat r y) = ns_declarations y @ ds"
  by (auto simp: intake_step_def Let_def evidence_save_Inr declaration_save_Inr split: intake_action.split sum.split)

lemma intake_run_grows:
  "\<exists>rs ds. ns_receipts (intake_run env cat y qs) = ns_receipts y @ rs \<and>
     ns_declarations (intake_run env cat y qs) = ns_declarations y @ ds"
proof (induction qs arbitrary: y)
  case (Cons q qs)
  from Cons [of "intake_step env cat q y"] intake_step_grows [of env cat q y] show ?case
    by (auto simp: intake_run_def)
qed (simp add: intake_run_def)

text \<open>What is permitted and not yet recorded is recorded.\<close>

lemma evidence_step:
  assumes "nr_action r = EvidenceAction s" "ctx = request_context cat r" "operable env ctx (ns_case y)"
    "time_ok env ctx (ns_case y)" "revisable (ns_case y)" "intake_permitted env ctx (ns_case y) s"
    "storageKey (nr_tenantId r) (es_intakeId s) \<notin> receipt_key ` set (ns_receipts y)"
    "n = effect (ns_case y) (AddMaterial (evidence_material s)) (nr_now r)"
  shows "intake_step env cat r y = y\<lparr>ns_case := n, ns_receipts := ns_receipts y @ [receipt_of s n (nr_now r)]\<rparr>"
proof -
  have now: "cx_now ctx = nr_now r" and tenant: "zc_tenantId (ns_case y) = nr_tenantId r"
    using assms(2,3) by (simp_all add: request_context_def operable_def)
  have "permitted env ctx (ns_case y) (AddMaterial (evidence_material s))"
    using assms(4,6) admitted_material [of env s "cx_now ctx"]
    by (auto simp: intake_permitted_def time_ok_def) (auto simp: evidence_material_def)
  then obtain ev where "perform env ctx (ns_case y) (AddMaterial (evidence_material s)) = Inr (n, ev)"
    using perform_Inr [of env ctx "ns_case y" "AddMaterial (evidence_material s)" n] assms(3,4,5,8) now by auto
  then have "intakeProtocolizationEvidence env ctx (ns_case y) s =
      Inr \<lparr>it_case = n, it_receipt = receipt_of s n (nr_now r), it_caseEvent = ev,
        it_intakeEvent = received_event (receipt_of s n (nr_now r))\<rparr>" (is "_ = Inr ?t")
    using assms(3,4,5,6,8) now unfolding intake_Inr by simp
  note taken = this intake_receipt_for(2) [OF this]
  have "receipt_key (receipt_of s n (nr_now r)) = storageKey (nr_tenantId r) (es_intakeId s)"
    using assms(8) tenant by (simp add: receipt_key_def receipt_of_def with_material_def)
  then have "evidence_save env (ns_receipts y) (receipt_of s n (nr_now r)) = Inr (ns_receipts y @ [receipt_of s n (nr_now r)])"
    using taken(2) assms(7) by (simp add: evidence_save_Inr record_with_None)
  then show ?thesis using taken(1) assms(1,2) by (simp add: intake_step_def Let_def)
qed

lemma declaration_step:
  assumes "nr_action r = DeclarationAction s" "ctx = request_context cat r" "operable env ctx (ns_case y)"
    "time_ok env ctx (ns_case y)" "revisable (ns_case y)" "declaration_permitted env ctx (ns_case y) s"
    "storageKey (nr_tenantId r) (ds_declarationId s) \<notin> declaration_key ` set (ns_declarations y)"
    "n = effect (ns_case y) (AddMaterial (declaration_material s)) (nr_now r)"
  shows "intake_step env cat r y = y\<lparr>ns_case := n, ns_declarations := ns_declarations y @ [record_of s n (nr_now r)]\<rparr>"
proof -
  have now: "cx_now ctx = nr_now r" and tenant: "zc_tenantId (ns_case y) = nr_tenantId r"
    using assms(2,3) by (simp_all add: request_context_def operable_def)
  have "permitted env ctx (ns_case y) (AddMaterial (declaration_material s))"
    using assms(4,6) admitted_declaration_material [of env s "cx_now ctx"]
    by (auto simp: declaration_permitted_def time_ok_def) (auto simp: declaration_material_def)
  then obtain ev where "perform env ctx (ns_case y) (AddMaterial (declaration_material s)) = Inr (n, ev)"
    using perform_Inr [of env ctx "ns_case y" "AddMaterial (declaration_material s)" n] assms(3,4,5,8) now by auto
  then have done': "recordProtocolizationDeclaration env ctx (ns_case y) s =
      Inr \<lparr>dt_case = n, dt_record = record_of s n (nr_now r), dt_caseEvent = ev,
        dt_declarationEvent = recorded_event (record_of s n (nr_now r))\<rparr>"
    using assms(3,4,5,6,8) now unfolding record_declaration_Inr by simp
  then have valid: "record_valid env (record_of s n (nr_now r))" by (rule recorded_declaration_for) simp
  have "declaration_key (record_of s n (nr_now r)) = storageKey (nr_tenantId r) (ds_declarationId s)"
    using assms(8) tenant by (simp add: declaration_key_def record_of_def with_material_def)
  then have "declaration_save env (ns_declarations y) (record_of s n (nr_now r)) = Inr (ns_declarations y @ [record_of s n (nr_now r)])"
    using valid assms(7) by (simp add: declaration_save_Inr record_with_None)
  then show ?thesis using done' assms(1,2) by (simp add: intake_step_def Let_def)
qed

end
