(* ===== verification/RateLimit.thy ===== *)
theory RateLimit
  imports Canonical JsDate "HOL-Library.AList"
begin

text \<open>
  The in-memory registries of \<open>aoc/capabilities/runtime/consumeCapabilityAccess.ts\<close>: attempts per
  key and window (\<open>InMemoryRateLimitRegistry\<close>), and uses per consent
  (\<open>InMemoryConsentUsageRegistry\<close>), with the contracts their clients rely on.  A date is
  its time value in milliseconds; both numbers of a rate limit are the positive integers that
  \<open>validateRateLimitConfig\<close> lets through.
\<close>

record RateLimitConfig =
  rl_maxAttempts :: int
  rl_windowMs :: int

record RateLimitState =
  rs_key :: string
  rs_count :: int
  rs_windowStartedAt :: string

type_synonym RateLimitRegistry = "(string \<times> RateLimitState) list"

definition rate_get :: "RateLimitRegistry \<Rightarrow> string \<Rightarrow> RateLimitState option" where
  "rate_get states key = map_of states key"

text \<open>\<open>now - Date.parse(startedAt)\<close>; None stands for NaN.  The text was written by this registry.\<close>

definition elapsed :: "int \<Rightarrow> string \<Rightarrow> int option" where
  "elapsed now startedAt = map_option (\<lambda>t. now - t) (parse_iso_seconds startedAt)"

definition rate_increment ::
  "RateLimitRegistry \<Rightarrow> string \<Rightarrow> int \<Rightarrow> RateLimitConfig \<Rightarrow> RateLimitState \<times> RateLimitRegistry" where
  "rate_increment states key now config =
     (let current = map_of states key;
          shouldResetWindow =
            (case current of
               None \<Rightarrow> True
             | Some s \<Rightarrow> (case elapsed now (rs_windowStartedAt s) of None \<Rightarrow> False | Some e \<Rightarrow> e \<ge> rl_windowMs config));
          nxt =
            (if shouldResetWindow
             then \<lparr>rs_key = key, rs_count = 1, rs_windowStartedAt = iso_seconds now\<rparr>
             else \<lparr>rs_key = key, rs_count = rs_count (the current) + 1,
                   rs_windowStartedAt = rs_windowStartedAt (the current)\<rparr>)
      in (nxt, AList.update key nxt states))"

definition rate_isLimited :: "RateLimitRegistry \<Rightarrow> string \<Rightarrow> int \<Rightarrow> RateLimitConfig \<Rightarrow> bool" where
  "rate_isLimited states key now config =
     (case map_of states key of
        None \<Rightarrow> False
      | Some s \<Rightarrow>
          let withinWindow = (case elapsed now (rs_windowStartedAt s) of None \<Rightarrow> False | Some e \<Rightarrow> e < rl_windowMs config)
          in if \<not> withinWindow then False else rs_count s \<ge> rl_maxAttempts config)"

text \<open>One attempt, as the consumption code makes it: refused when limited, counted otherwise.\<close>

definition rate_attempt :: "RateLimitRegistry \<Rightarrow> string \<Rightarrow> int \<Rightarrow> RateLimitConfig \<Rightarrow> (RateLimitState \<times> RateLimitRegistry) option" where
  "rate_attempt states key now config =
     (if rate_isLimited states key now config then None else Some (rate_increment states key now config))"

subsection \<open>Consent usage\<close>

record ConsentUsageState =
  us_consentRef :: string
  us_usageCount :: int
  us_lastAccessedAt :: string
  us_lastAccessResult :: string

type_synonym ConsentUsageRegistry = "(string \<times> ConsentUsageState) list"

definition usage_get :: "ConsentUsageRegistry \<Rightarrow> string \<Rightarrow> ConsentUsageState option" where
  "usage_get states ref = map_of states ref"

definition usage_record ::
  "ConsentUsageRegistry \<Rightarrow> string \<Rightarrow> string \<Rightarrow> string \<Rightarrow> ConsentUsageState \<times> ConsentUsageRegistry" where
  "usage_record states ref res timestamp =
     (let current = map_of states ref;
          nxt = \<lparr>us_consentRef = ref,
                 us_usageCount = (case current of None \<Rightarrow> 0 | Some s \<Rightarrow> us_usageCount s) + (if res = ''allow'' then 1 else 0),
                 us_lastAccessedAt = timestamp, us_lastAccessResult = res\<rparr>
      in (nxt, AList.update ref nxt states))"

subsection \<open>What the registries promise\<close>

text \<open>A counter of uses: recording an allowed use adds one to its consent, and touches no other.\<close>

locale usage_counter =
  fixes count :: "'u \<Rightarrow> string \<Rightarrow> int"
    and use :: "'u \<Rightarrow> string \<Rightarrow> string \<Rightarrow> string \<Rightarrow> 'u"
  assumes use_same: "count (use u r res at) r = count u r + (if res = ''allow'' then 1 else 0)"
    and use_other: "q \<noteq> r \<Longrightarrow> count (use u r res at) q = count u q"
begin

fun uses :: "'u \<Rightarrow> (string \<times> string \<times> string) list \<Rightarrow> 'u" where
  "uses u [] = u"
| "uses u ((r, res, at) # rs) = uses (use u r res at) rs"

lemma uses_count:
  "count (uses u rs) q = count u q + int (length (filter (\<lambda>(r, res, at). r = q \<and> res = ''allow'') rs))"
proof (induction u rs rule: uses.induct)
  case (2 u r res at rs)
  then show ?case by (cases "r = q") (simp_all add: use_same use_other)
qed simp

end

definition usage_count :: "ConsentUsageRegistry \<Rightarrow> string \<Rightarrow> int" where
  "usage_count states ref = (case usage_get states ref of None \<Rightarrow> 0 | Some s \<Rightarrow> us_usageCount s)"

definition usage_put :: "ConsentUsageRegistry \<Rightarrow> string \<Rightarrow> string \<Rightarrow> string \<Rightarrow> ConsentUsageRegistry" where
  "usage_put states ref res at = snd (usage_record states ref res at)"

interpretation mem_usage: usage_counter usage_count usage_put
  by unfold_locales
    (auto simp: usage_count_def usage_put_def usage_record_def usage_get_def Let_def update_conv' split: option.splits)

text \<open>
  A limiter: while the clock stays within the window of a key, at most the configured number of
  attempts is let through.  \<open>used s k now c\<close> is the number of attempts counted in the window of
  \<open>k\<close> that is open at \<open>now\<close>.
\<close>

locale rate_limiter =
  fixes limited :: "'l \<Rightarrow> string \<Rightarrow> int \<Rightarrow> RateLimitConfig \<Rightarrow> bool"
    and bump :: "'l \<Rightarrow> string \<Rightarrow> int \<Rightarrow> RateLimitConfig \<Rightarrow> 'l"
    and used :: "'l \<Rightarrow> string \<Rightarrow> int \<Rightarrow> RateLimitConfig \<Rightarrow> int"
  assumes limited_used: "limited s k now c \<Longrightarrow> rl_maxAttempts c \<le> used s k now c"
    and not_limited_used: "\<not> limited s k now c \<Longrightarrow> 1 \<le> rl_maxAttempts c \<Longrightarrow> used s k now c < rl_maxAttempts c"
    and used_bump: "used (bump s k now c) k now c \<le> used s k now c + 1"
begin

lemma bump_bound: "1 \<le> rl_maxAttempts c \<Longrightarrow> \<not> limited s k now c \<Longrightarrow> used (bump s k now c) k now c \<le> rl_maxAttempts c"
  using not_limited_used [of s k now c] used_bump [of s k now c] by linarith

end

definition rate_used :: "RateLimitRegistry \<Rightarrow> string \<Rightarrow> int \<Rightarrow> RateLimitConfig \<Rightarrow> int" where
  "rate_used states key now config =
     (case rate_get states key of
        None \<Rightarrow> 0
      | Some s \<Rightarrow> (case elapsed now (rs_windowStartedAt s) of
                    Some e \<Rightarrow> if e < rl_windowMs config then rs_count s else 0 | None \<Rightarrow> 0))"

definition rate_bump :: "RateLimitRegistry \<Rightarrow> string \<Rightarrow> int \<Rightarrow> RateLimitConfig \<Rightarrow> RateLimitRegistry" where
  "rate_bump states key now config = snd (rate_increment states key now config)"

interpretation mem_rate: rate_limiter rate_isLimited rate_bump rate_used
proof
  fix s k now c
  show "rate_isLimited s k now c \<Longrightarrow> rl_maxAttempts c \<le> rate_used s k now c"
    by (auto simp: rate_isLimited_def rate_used_def rate_get_def Let_def split: option.splits if_splits)
  show "\<not> rate_isLimited s k now c \<Longrightarrow> 1 \<le> rl_maxAttempts c \<Longrightarrow> rate_used s k now c < rl_maxAttempts c"
    by (auto simp: rate_isLimited_def rate_used_def rate_get_def Let_def split: option.splits if_splits)
  show "rate_used (rate_bump s k now c) k now c \<le> rate_used s k now c + 1"
    by (auto simp: rate_bump_def rate_increment_def rate_used_def rate_get_def Let_def update_conv'
        split: option.splits if_splits)
qed

text \<open>A sequence of attempts at given times: the attempts that were let through.\<close>

fun rate_run :: "RateLimitConfig \<Rightarrow> string \<Rightarrow> RateLimitRegistry \<Rightarrow> int list \<Rightarrow> int list \<times> RateLimitRegistry" where
  "rate_run c k s [] = ([], s)"
| "rate_run c k s (t # ts) =
     (case rate_attempt s k t c of
        None \<Rightarrow> rate_run c k s ts
      | Some (st, s') \<Rightarrow> (let r = rate_run c k s' ts in (t # fst r, snd r)))"

definition window_open :: "RateLimitConfig \<Rightarrow> string \<Rightarrow> int \<Rightarrow> bool" where
  "window_open c startedAt t \<longleftrightarrow> (case elapsed t startedAt of Some e \<Rightarrow> e < rl_windowMs c | None \<Rightarrow> False)"

text \<open>In an open window exactly the attempts that are left are let through, the first ones.\<close>

lemma rate_run_window:
  assumes "map_of s k = Some st" "\<forall>t \<in> set ts. window_open c (rs_windowStartedAt st) t"
  shows "fst (rate_run c k s ts) = take (nat (rl_maxAttempts c - rs_count st)) ts"
  using assms
proof (induction ts arbitrary: s st)
  case (Cons t ts)
  have open_t: "window_open c (rs_windowStartedAt st) t" using Cons.prems(2) by simp
  show ?case
  proof (cases "rl_maxAttempts c \<le> rs_count st")
    case True
    then have "rate_attempt s k t c = None"
      using open_t Cons.prems(1)
      by (auto simp: rate_attempt_def rate_isLimited_def window_open_def Let_def split: option.splits)
    then show ?thesis using Cons.IH [OF Cons.prems(1)] Cons.prems(2) True by simp
  next
    case False
    let ?st = "\<lparr>rs_key = k, rs_count = rs_count st + 1, rs_windowStartedAt = rs_windowStartedAt st\<rparr>"
    have "rate_attempt s k t c = Some (?st, AList.update k ?st s)"
      using open_t Cons.prems(1) False
      by (auto simp: rate_attempt_def rate_isLimited_def rate_increment_def window_open_def Let_def split: option.splits)
    moreover have "fst (rate_run c k (AList.update k ?st s) ts) = take (nat (rl_maxAttempts c - rs_count ?st)) ts"
      by (rule Cons.IH) (use Cons.prems(2) in \<open>simp_all add: update_conv'\<close>)
    moreover have "nat (rl_maxAttempts c - rs_count st) = Suc (nat (rl_maxAttempts c - rs_count ?st))" using False by simp
    ultimately show ?thesis by (simp add: Let_def)
  qed
qed simp

text \<open>There is no window of the key, or the one there is has passed at \<open>t\<close>.\<close>

definition window_over :: "RateLimitConfig \<Rightarrow> RateLimitRegistry \<Rightarrow> string \<Rightarrow> int \<Rightarrow> bool" where
  "window_over c s k t \<longleftrightarrow>
     (\<forall>st. rate_get s k = Some st \<longrightarrow> (\<exists>e. elapsed t (rs_windowStartedAt st) = Some e \<and> rl_windowMs c \<le> e))"

lemma window_opens:
  assumes "window_over c s k t"
  shows "rate_attempt s k t c =
    Some (\<lparr>rs_key = k, rs_count = 1, rs_windowStartedAt = iso_seconds t\<rparr>,
      AList.update k \<lparr>rs_key = k, rs_count = 1, rs_windowStartedAt = iso_seconds t\<rparr> s)"
  using assms
  by (cases "map_of s k") (auto simp: window_over_def rate_get_def rate_attempt_def rate_isLimited_def rate_increment_def Let_def)

end
