(* ===== verification/Consumption.thy ===== *)
theory Consumption
  imports Access RateLimit
begin

text \<open>
  \<open>consumeCapabilityAccess\<close> of \<open>aoc/capabilities/runtime/\<close>, with \<open>consent/consentBinding.ts\<close>: one
  presentation of a capability, with binding, clock skew, access decision, rate
  limit, revocation, replay, payment, consumption and usage, in the order of the code.

  The registries of a request are the state: \<open>cs_nonce\<close>, \<open>cs_usage\<close> and \<open>cs_rate\<close> are absent when
  the request brings none; the revocation registry is a slot with the module's default.
  A step leaves with a decision, raises into the surrounding \<open>catch\<close>, or goes on.
\<close>

subsection \<open>Types\<close>

datatype consume_code =
    AccessCode reason_code
  | CAPABILITY_REVOKED | CAPABILITY_REPLAYED | REPLAY_PROTECTION_REQUIRED | RATE_LIMITED

record ConsumptionChecks = CapabilityAccessChecks +
  k_consent :: check_state
  k_revocation :: check_state
  k_replay :: check_state

record UsageOutput =
  uo_usageCount :: int
  uo_lastAccessedAt :: string
  uo_lastAccessResult :: string

record PaymentDecision =
  pay_required :: bool
  pay_amount :: js_num
  pay_currency :: string

record ConsumptionDecision =
  x_allowed :: bool
  x_reasonCode :: consume_code
  x_reason :: string
  x_evaluatedAt :: string
  x_checks :: ConsumptionChecks
  x_metadata :: metadata
  x_consumed :: bool
  x_replayChecked :: bool
  x_revocationChecked :: bool
  x_usage :: "UsageOutput option"
  x_payment :: "PaymentDecision option"

record ConsumptionRequest =
  w_capability :: "RawCapability option"
  w_consent :: "ConsentObject option"
  w_action :: string
  w_resource :: resource_arg
  w_marketMakerId :: "string option"
  w_now :: now_arg
  w_usageContext :: "metadata option"
  w_paid :: bool
  w_policyContext :: "metadata option"
  w_rateLimit :: "(js_num \<times> js_num) option"
  w_marketMakerRegistry :: "mm_view option"
  w_usageHook :: "access_hook option"
  w_policyHook :: "access_hook option"
  w_consume :: bool
  w_requireReplayProtection :: bool

text \<open>The methods of the registries; \<open>record\<close> of a usage registry may throw.\<close>

record ('n, 'r, 'u, 'l) consume_ops =
  co_reg :: "('n, 'r) registry_ops"
  co_usage_record :: "'u \<Rightarrow> string \<Rightarrow> string \<Rightarrow> string \<Rightarrow> (ConsentUsageState \<times> 'u) throws"
  co_rate_get :: "'l \<Rightarrow> string \<Rightarrow> RateLimitState option"
  co_rate_increment :: "'l \<Rightarrow> string \<Rightarrow> int \<Rightarrow> RateLimitConfig \<Rightarrow> RateLimitState \<times> 'l"
  co_rate_isLimited :: "'l \<Rightarrow> string \<Rightarrow> int \<Rightarrow> RateLimitConfig \<Rightarrow> bool"

record ('n, 'r, 'u, 'l) consume_state =
  cs_nonce :: "'n option"
  cs_rev :: "'r slot"
  cs_usage :: "'u option"
  cs_rate :: 'l

definition mem_consume_ops :: "(string set, string set, ConsentUsageRegistry, RateLimitRegistry) consume_ops" where
  "mem_consume_ops =
     \<lparr>co_reg = mem_ops, co_usage_record = (\<lambda>u ref res at. Inr (usage_record u ref res at)),
      co_rate_get = rate_get, co_rate_increment = rate_increment, co_rate_isLimited = rate_isLimited\<rparr>"

datatype 'a flow = Leave ConsumptionDecision | Raise string ConsumptionChecks | Go 'a

definition bind_flow :: "'a flow \<Rightarrow> ('a \<Rightarrow> 'b flow) \<Rightarrow> 'b flow" where
  "bind_flow s f = (case s of Leave d \<Rightarrow> Leave d | Raise m k \<Rightarrow> Raise m k | Go v \<Rightarrow> f v)"

subsection \<open>Normalization and checks\<close>

definition consume_makeChecks :: ConsumptionChecks where
  "consume_makeChecks =
     \<lparr>k_integrity = Fail, k_temporal = NotApplicable, k_action = Fail, k_resource = Fail,
      k_marketMaker = NotApplicable, k_usage = NotApplicable, k_policy = NotApplicable,
      k_consent = NotApplicable, k_revocation = NotApplicable, k_replay = NotApplicable\<rparr>"

definition consume_normalizeAction :: "string \<Rightarrow> string throws" where
  "consume_normalizeAction action =
     (let a = to_lower (trim action) in
      and_return
        (validateCapabilityActions [a]
          \<lparr>containerLabel = ''Requested actions'', itemLabel = ''Requested action'',
           emptyMessage = ''Requested action is required for access evaluation.'', maxEntries = 1\<rparr>) a)"

definition raw_resource :: "resource_arg \<Rightarrow> (string \<times> string) throws" where
  "raw_resource resource =
     (case resource of
        ResourceText s \<Rightarrow>
          (case split_on CHR '':'' (trim s) of
             [ty, rf] \<Rightarrow>
               if ty = [] \<or> rf = [] then Inl ''Requested resource must be a canonical \"type:ref\" string.''
               else Inr (ty, rf)
           | _ \<Rightarrow> Inl ''Requested resource must be a canonical \"type:ref\" string.'')
      | ResourceEntry e \<Rightarrow> Inr (trim (se_type e), trim (se_ref e))
      | ResourceOther \<Rightarrow> Inl ''Requested resource must include string type and ref fields.'')"

definition consume_normalizeResource :: "resource_arg \<Rightarrow> ScopeEntry throws" where
  "consume_normalizeResource resource =
     bind_throws (raw_resource resource) (\<lambda>(ty, rf).
       and_return
         (first_throw
           [throw_if (ty \<notin> {''field'', ''content'', ''pack''})
              ''Requested resource type must be one of: field, content, pack.'',
            throw_if (\<not> HASH_HEX_PATTERN rf) ''Requested resource ref must be 64 lowercase hex characters.''])
         \<lparr>se_type = ty, se_ref = rf\<rparr>)"

definition CLOCK_SKEW_SECONDS :: int where
  "CLOCK_SKEW_SECONDS = 300"

definition enforceTimestampWithinSkew :: "host_env \<Rightarrow> string \<Rightarrow> int \<Rightarrow> string \<Rightarrow> checked" where
  "enforceTimestampWithinSkew env timestamp now lbl =
     (case date_parse (e_date env) timestamp of
        None \<Rightarrow> throws (lbl @ '' must be a valid date.'')
      | Some t \<Rightarrow> throw_if (\<bar>t - now\<bar> > CLOCK_SKEW_SECONDS * 1000) (lbl @ '' exceeds allowed clock skew.''))"

definition enforceCapabilityTemporalIntegrity ::
  "host_env \<Rightarrow> RawCapability \<Rightarrow> ConsentObject option \<Rightarrow> int \<Rightarrow> checked" where
  "enforceCapabilityTemporalIntegrity env cap consent now =
     first_throw
       [enforceTimestampWithinSkew env (t_issued_at cap) now ''Capability issued_at'',
        (case t_not_before cap of
           None \<Rightarrow> returns
         | Some n \<Rightarrow> if n = [] then returns
                     else enforceTimestampWithinSkew env n now ''Capability not_before''),
        enforceTimestampWithinSkew env (t_expires_at cap) now ''Capability expires_at'',
        (case consent of
           None \<Rightarrow> returns
         | Some c \<Rightarrow> enforceTimestampWithinSkew env (c_issued_at c) now ''Consent issued_at'')]"

text \<open>\<open>consentBinding.ts\<close>\<close>

definition verifyCapabilityConsentBinding :: "'a CapabilityPayload_scheme \<Rightarrow> ConsentObject \<Rightarrow> checked" where
  "verifyCapabilityConsentBinding t c =
     first_throw
       [throw_if (t_consent_ref t \<noteq> c_consent_hash c)
          ''Capability consent_ref does not match parent consent consent_hash.'',
        throw_if (c_action c \<noteq> ''grant'') ''Parent consent action must be \"grant\".'',
        throw_if (t_subject t \<noteq> c_subject c) ''Capability subject does not match parent consent subject.'',
        throw_if (t_grantee t \<noteq> c_grantee c) ''Capability grantee does not match parent consent grantee.'',
        throw_if (t_marketMakerId t \<noteq> c_marketMakerId c)
          ''Capability marketMakerId does not match parent consent marketMakerId.'',
        check_each (\<lambda>i e. throw_if (scopeKey e \<notin> scopeKey ` set (c_scope c))
          ''Scope escalation: token scope entry not found in parent consent scope.'') 0 (t_scope t),
        check_each (\<lambda>i p. throw_if (p \<notin> set (c_permissions c))
          ''Permission escalation: token permission not found in parent consent permissions.'') 0 (t_permissions t)]"

text \<open>\<open>sanitizeMetadata\<close> keeps the named keys that are defined.\<close>

definition METADATA_KEYS :: "string set" where
  "METADATA_KEYS = {''capabilityHash'', ''tokenId'', ''rateLimitKey'', ''rateLimitWindowStartedAt'',
     ''rateLimitCount'', ''rateLimitMaxAttempts'', ''rateLimitWindowMs'', ''failureStage''}"

definition sanitizeMetadata :: "metadata \<Rightarrow> metadata" where
  "sanitizeMetadata m = (\<lambda>k. if k \<in> METADATA_KEYS \<and> m k \<noteq> Some JUndefined then m k else None)"

definition at_stage :: "metadata \<Rightarrow> string \<Rightarrow> metadata" where
  "at_stage m stage = sanitizeMetadata (m(''failureStage'' \<mapsto> JStr stage))"

definition buildPaymentDecision :: "ConsentObject option \<Rightarrow> bool \<Rightarrow> PaymentDecision option" where
  "buildPaymentDecision consent paid =
     (case Option.bind consent c_pricing of
        None \<Rightarrow> None
      | Some p \<Rightarrow> Some \<lparr>pay_required = (\<not> paid), pay_amount = pr_amount p, pay_currency = pr_currency p\<rparr>)"

definition consume_deny ::
  "string \<Rightarrow> consume_code \<Rightarrow> string \<Rightarrow> ConsumptionChecks \<Rightarrow> metadata \<Rightarrow> bool \<Rightarrow> bool \<Rightarrow> PaymentDecision option \<Rightarrow>
   ConsumptionDecision" where
  "consume_deny at code msg checks meta replayChecked revocationChecked payment =
     \<lparr>x_allowed = False, x_reasonCode = code, x_reason = msg, x_evaluatedAt = at, x_checks = checks,
      x_metadata = meta, x_consumed = False, x_replayChecked = replayChecked,
      x_revocationChecked = revocationChecked, x_usage = None, x_payment = payment\<rparr>"

definition validateRateLimitConfig :: "js_num \<Rightarrow> js_num \<Rightarrow> checked" where
  "validateRateLimitConfig maxAttempts windowMs =
     first_throw
       [throw_if (\<not> isInteger maxAttempts \<or> num_le_zero maxAttempts) ''rateLimit.maxAttempts must be a positive integer.'',
        throw_if (\<not> isInteger windowMs \<or> num_le_zero windowMs) ''rateLimit.windowMs must be a positive integer.'']"

definition int_of_num :: "js_num \<Rightarrow> int" where
  "int_of_num x = (case x of Dec m e \<Rightarrow> m * 10 ^ nat e | _ \<Rightarrow> 0)"

definition buildEvaluationRequest ::
  "ConsumptionRequest \<Rightarrow> RawCapability \<Rightarrow> string \<Rightarrow> ScopeEntry \<Rightarrow> string \<Rightarrow> AccessRequest" where
  "buildEvaluationRequest q cap action res at =
     \<lparr>q_capability = Some cap, q_consent = w_consent q, q_action = action, q_resource = ResourceEntry res,
      q_marketMakerId = w_marketMakerId q, q_now = NowText at, q_usageContext = w_usageContext q,
      q_policyContext = w_policyContext q, q_metadata = None, q_marketMakerRegistry = w_marketMakerRegistry q,
      q_usageHook = w_usageHook q, q_policyHook = w_policyHook q\<rparr>"

subsection \<open>\<open>consumeCapabilityAccess\<close>\<close>

text \<open>
  The first part of the \<open>try\<close> block: action, resource and token; an error raised there finds
  the checks as they were made.  A missing capability fails in \<open>validateCapabilityToken\<close>.
\<close>

definition consume_prepare :: "host_env \<Rightarrow> ConsumptionRequest \<Rightarrow> (RawCapability \<times> string \<times> ScopeEntry) throws" where
  "consume_prepare env q =
     bind_throws (consume_normalizeAction (w_action q)) (\<lambda>action.
     bind_throws (consume_normalizeResource (w_resource q)) (\<lambda>res.
     case w_capability q of
       None \<Rightarrow> Inl (''Cannot read properties of null (reading '' @ [CHR 0x27] @ ''version'' @ [CHR 0x27] @ '')'')
     | Some cap \<Rightarrow>
         and_return (validateCapabilityToken (e_sha env) (e_cmp env) (as_token cap) None) (cap, action, res)))"

definition base_metadata :: "RawCapability \<Rightarrow> metadata" where
  "base_metadata cap =
     sanitizeMetadata [''capabilityHash'' \<mapsto> JStr (t_capability_hash cap), ''tokenId'' \<mapsto> JStr (t_token_id cap)]"

definition consent_stage ::
  "host_env \<Rightarrow> ConsumptionRequest \<Rightarrow> RawCapability \<Rightarrow> string \<Rightarrow> ConsumptionChecks \<Rightarrow> ConsumptionChecks flow" where
  "consent_stage env q cap at checks =
     (case w_consent q of
        None \<Rightarrow> Go checks
      | Some c \<Rightarrow>
          (case validateConsentObject (e_sha env) (e_cmp env) c of
             Some msg \<Rightarrow> Leave (consume_deny at (AccessCode CONSENT_INVALID)
               (or_else msg ''Parent consent is invalid for capability consumption.'')
               (checks\<lparr>k_consent := Fail\<rparr>) (at_stage (base_metadata cap) ''integrity'') False False None)
           | None \<Rightarrow>
               (case verifyCapabilityConsentBinding cap c of
                  Some msg \<Rightarrow> Leave (consume_deny at (AccessCode CONSENT_MISMATCH)
                    (or_else msg ''Capability does not match the supplied parent consent.'')
                    (checks\<lparr>k_consent := Fail\<rparr>) (at_stage (base_metadata cap) ''integrity'') False False None)
                | None \<Rightarrow> Go (checks\<lparr>k_consent := Pass\<rparr>))))"

definition skew_stage ::
  "host_env \<Rightarrow> ConsumptionRequest \<Rightarrow> RawCapability \<Rightarrow> int \<Rightarrow> string \<Rightarrow> ConsumptionChecks \<Rightarrow> ConsumptionChecks flow" where
  "skew_stage env q cap now at checks =
     (case enforceCapabilityTemporalIntegrity env cap (w_consent q) now of
        Some msg \<Rightarrow> Leave (consume_deny at (AccessCode CAPABILITY_INVALID)
          (or_else msg ''Capability temporal validation failed.'')
          (checks\<lparr>k_temporal := Fail\<rparr>) (at_stage (base_metadata cap) ''temporal'') False False None)
      | None \<Rightarrow> Go (checks\<lparr>k_temporal := Pass\<rparr>))"

definition copy_checks :: "CapabilityAccessChecks \<Rightarrow> ConsumptionChecks \<Rightarrow> ConsumptionChecks" where
  "copy_checks k checks =
     checks\<lparr>k_temporal := k_temporal k, k_action := k_action k, k_resource := k_resource k,
            k_marketMaker := k_marketMaker k, k_usage := k_usage k, k_policy := k_policy k\<rparr>"

definition failure_stage_of :: "CapabilityAccessDecision \<Rightarrow> string" where
  "failure_stage_of d = (case d_metadata d ''failureStage'' of Some (JStr s) \<Rightarrow> s | _ \<Rightarrow> ''integrity'')"

definition access_stage ::
  "host_env \<Rightarrow> ConsumptionRequest \<Rightarrow> RawCapability \<Rightarrow> string \<Rightarrow> ScopeEntry \<Rightarrow> string \<Rightarrow> bool \<Rightarrow> int \<Rightarrow>
   ConsumptionChecks \<Rightarrow> ConsumptionChecks flow" where
  "access_stage env q cap action res at shouldCheckReplay clock checks =
     (let d = evaluateCapabilityAccess env (buildEvaluationRequest q cap action res at) clock;
          checks' = copy_checks (d_checks d) checks
      in if \<not> d_allowed d
         then Leave (consume_deny at (AccessCode (d_reasonCode d)) (d_reason d) checks'
                (at_stage (base_metadata cap) (failure_stage_of d)) shouldCheckReplay True
                (buildPaymentDecision (w_consent q) (w_paid q)))
         else Go checks')"

text \<open>The steps up to the access decision; none of them touches a registry.\<close>

definition before_registries ::
  "host_env \<Rightarrow> ConsumptionRequest \<Rightarrow> RawCapability \<Rightarrow> string \<Rightarrow> ScopeEntry \<Rightarrow> int \<Rightarrow> string \<Rightarrow> bool \<Rightarrow> int \<Rightarrow>
   ConsumptionChecks flow" where
  "before_registries env q cap action res now at shouldCheckReplay clock =
     bind_flow (consent_stage env q cap at
                 (consume_makeChecks\<lparr>k_integrity := Pass, k_action := Pass, k_resource := Pass\<rparr>)) (\<lambda>checks.
     bind_flow (skew_stage env q cap now at checks) (\<lambda>checks.
     access_stage env q cap action res at shouldCheckReplay clock checks))"

definition rate_metadata :: "string \<Rightarrow> RateLimitState option \<Rightarrow> RateLimitConfig \<Rightarrow> metadata" where
  "rate_metadata key s config =
     [''rateLimitKey'' \<mapsto> JStr key, ''rateLimitMaxAttempts'' \<mapsto> JNum (num_of_int (rl_maxAttempts config)),
      ''rateLimitWindowMs'' \<mapsto> JNum (num_of_int (rl_windowMs config))] ++
     (case s of None \<Rightarrow> Map.empty
      | Some st \<Rightarrow> [''rateLimitWindowStartedAt'' \<mapsto> JStr (rs_windowStartedAt st),
                     ''rateLimitCount'' \<mapsto> JNum (num_of_int (rs_count st))])"

definition rate_stage ::
  "('n, 'r, 'u, 'l) consume_ops \<Rightarrow> ConsumptionRequest \<Rightarrow> RawCapability \<Rightarrow> int \<Rightarrow> string \<Rightarrow> bool \<Rightarrow>
   ConsumptionChecks \<Rightarrow> 'l \<Rightarrow> metadata flow \<times> 'l" where
  "rate_stage ops q cap now at shouldCheckReplay checks l =
     (case w_rateLimit q of
        None \<Rightarrow> (Go (base_metadata cap), l)
      | Some (maxAttempts, windowMs) \<Rightarrow>
          (case validateRateLimitConfig maxAttempts windowMs of
             Some msg \<Rightarrow> (Raise msg checks, l)
           | None \<Rightarrow>
               (let key = t_consent_ref cap;
                    config = \<lparr>rl_maxAttempts = int_of_num maxAttempts, rl_windowMs = int_of_num windowMs\<rparr>
                in if co_rate_isLimited ops l key now config
                   then (Leave (consume_deny at RATE_LIMITED
                           (''Rate limit exceeded for consent_ref \"'' @ key @ ''\".'') checks
                           (at_stage (base_metadata cap ++ rate_metadata key (co_rate_get ops l key) config) ''rate_limit'')
                           shouldCheckReplay False None), l)
                   else (case co_rate_increment ops l key now config of
                           (st, l') \<Rightarrow> (Go (base_metadata cap ++ rate_metadata key (Some st) config), l')))))"

definition revocation_stage ::
  "('n, 'r, 'u, 'l) consume_ops \<Rightarrow> 'r slot \<Rightarrow> RawCapability \<Rightarrow> string \<Rightarrow> metadata \<Rightarrow> bool \<Rightarrow>
   ConsumptionChecks \<Rightarrow> ConsumptionChecks flow" where
  "revocation_stage ops rslot cap at meta shouldCheckReplay checks =
     (if isRevoked_in (co_reg ops) (in_use rslot) (t_capability_hash cap)
      then Leave (consume_deny at CAPABILITY_REVOKED ''Capability token has been revoked.''
             (checks\<lparr>k_revocation := Fail\<rparr>) (at_stage meta ''revocation'') shouldCheckReplay True None)
      else Go (checks\<lparr>k_revocation := Pass\<rparr>))"

definition replay_stage ::
  "('n, 'r, 'u, 'l) consume_ops \<Rightarrow> ConsumptionRequest \<Rightarrow> 'n option \<Rightarrow> RawCapability \<Rightarrow> int \<Rightarrow> string \<Rightarrow> metadata \<Rightarrow>
   ConsumptionChecks \<Rightarrow> ConsumptionChecks flow" where
  "replay_stage ops q nonce cap now at meta checks =
     (case (nonce, w_consume q) of
        (Some n, True) \<Rightarrow>
          if hasSeen (co_reg ops) n (t_token_id cap) (Some now)
          then Leave (consume_deny at CAPABILITY_REPLAYED
                 ''Capability token_id has already been presented (replay detected).''
                 (checks\<lparr>k_replay := Fail\<rparr>) (at_stage meta ''replay'') True True None)
          else Go (checks\<lparr>k_replay := Pass\<rparr>)
      | _ \<Rightarrow>
          if w_requireReplayProtection q
          then Leave (consume_deny at REPLAY_PROTECTION_REQUIRED
                 ''Replay protection is required for consumption but no nonce registry was supplied.''
                 (checks\<lparr>k_replay := Fail\<rparr>) (at_stage meta ''replay'') False True None)
          else Go checks)"

definition payment_stage ::
  "ConsumptionRequest \<Rightarrow> string \<Rightarrow> metadata \<Rightarrow> bool \<Rightarrow> ConsumptionChecks \<Rightarrow> ConsumptionChecks flow" where
  "payment_stage q at meta shouldCheckReplay checks =
     (if Option.bind (w_consent q) c_pricing \<noteq> None \<and> \<not> w_paid q
      then Leave (consume_deny at (AccessCode PAYMENT_REQUIRED)
             ''Payment is required before this capability can be consumed.'' checks
             (at_stage meta ''payment'') shouldCheckReplay True (buildPaymentDecision (w_consent q) (w_paid q)))
      else Go checks)"

text \<open>Marking the token, recording the use, and the decision to allow.\<close>

definition consume_nonce ::
  "('n, 'r, 'u, 'l) consume_ops \<Rightarrow> ConsumptionRequest \<Rightarrow> RawCapability \<Rightarrow> int \<Rightarrow> 'n option \<Rightarrow> 'n option \<times> bool" where
  "consume_nonce ops q cap now nonce =
     (case (nonce, w_consume q) of
        (Some n, True) \<Rightarrow>
          (Some (tidy_of (co_reg ops) (markSeen (co_reg ops) n (t_token_id cap) (t_expires_at cap)) (Some now)), True)
      | _ \<Rightarrow> (nonce, False))"

definition recordUsage ::
  "('n, 'r, 'u, 'l) consume_ops \<Rightarrow> RawCapability \<Rightarrow> string \<Rightarrow> string \<Rightarrow> 'u option \<Rightarrow> UsageOutput option \<times> 'u option" where
  "recordUsage ops cap res at usage =
     (case usage of
        None \<Rightarrow> (None, None)
      | Some u \<Rightarrow>
          if t_consent_ref cap = [] then (None, Some u)
          else (case co_usage_record ops u (t_consent_ref cap) res at of
                  Inl msg \<Rightarrow> (None, Some u)
                | Inr (st, u') \<Rightarrow>
                    (Some \<lparr>uo_usageCount = us_usageCount st, uo_lastAccessedAt = us_lastAccessedAt st,
                           uo_lastAccessResult = us_lastAccessResult st\<rparr>, Some u')))"

definition consume_finish ::
  "('n, 'r, 'u, 'l) consume_ops \<Rightarrow> ConsumptionRequest \<Rightarrow> RawCapability \<Rightarrow> int \<Rightarrow> string \<Rightarrow> metadata \<Rightarrow> bool \<Rightarrow>
   ConsumptionChecks \<Rightarrow> ('n, 'r, 'u, 'l) consume_state \<Rightarrow>
   ConsumptionDecision \<times> ('n, 'r, 'u, 'l) consume_state" where
  "consume_finish ops q cap now at meta shouldCheckReplay checks st =
     (case consume_nonce ops q cap now (cs_nonce st) of
        (nonce', consumed) \<Rightarrow>
          (case recordUsage ops cap ''allow'' at (cs_usage st) of
             (usage, usage') \<Rightarrow>
               (\<lparr>x_allowed = True, x_reasonCode = AccessCode ACCESS_ALLOWED,
                 x_reason = ''Capability consumption is authorized and all runtime enforcement checks passed.'',
                 x_evaluatedAt = at, x_checks = checks, x_metadata = at_stage meta ''completed'',
                 x_consumed = consumed, x_replayChecked = shouldCheckReplay, x_revocationChecked = True,
                 x_usage = usage, x_payment = buildPaymentDecision (w_consent q) (w_paid q)\<rparr>,
                st\<lparr>cs_nonce := nonce', cs_usage := usage'\<rparr>)))"

definition consume_catch :: "ConsumptionRequest \<Rightarrow> string \<Rightarrow> string \<Rightarrow> ConsumptionChecks \<Rightarrow> ConsumptionDecision" where
  "consume_catch q at msg checks =
     (let checks' = (if k_consent checks = NotApplicable \<and> w_consent q \<noteq> None then checks\<lparr>k_consent := Fail\<rparr> else checks)
      in consume_deny at (AccessCode CAPABILITY_INVALID) (or_else msg ''Capability consumption request is invalid.'')
           checks' (sanitizeMetadata [''failureStage'' \<mapsto> JStr ''integrity'']) False
           (k_revocation checks' \<noteq> NotApplicable) None)"

definition after_rate ::
  "('n, 'r, 'u, 'l) consume_ops \<Rightarrow> ConsumptionRequest \<Rightarrow> RawCapability \<Rightarrow> int \<Rightarrow> string \<Rightarrow> metadata \<Rightarrow> bool \<Rightarrow>
   ('n, 'r, 'u, 'l) consume_state \<Rightarrow> ConsumptionChecks \<Rightarrow> ConsumptionChecks flow" where
  "after_rate ops q cap now at meta shouldCheckReplay st checks =
     bind_flow (revocation_stage ops (cs_rev st) cap at meta shouldCheckReplay checks) (\<lambda>checks.
     bind_flow (replay_stage ops q (cs_nonce st) cap now at meta checks) (\<lambda>checks.
     payment_stage q at meta shouldCheckReplay checks))"

definition consume_at ::
  "host_env \<Rightarrow> ('n, 'r, 'u, 'l) consume_ops \<Rightarrow> ConsumptionRequest \<Rightarrow> int \<Rightarrow> int \<Rightarrow> ('n, 'r, 'u, 'l) consume_state \<Rightarrow>
   ConsumptionDecision \<times> ('n, 'r, 'u, 'l) consume_state" where
  "consume_at env ops q now clock st =
     (let at = iso_seconds now; shouldCheckReplay = (cs_nonce st \<noteq> None \<and> w_consume q) in
      case consume_prepare env q of
        Inl msg \<Rightarrow> (consume_catch q at msg consume_makeChecks, st)
      | Inr (cap, action, res) \<Rightarrow>
          (case before_registries env q cap action res now at shouldCheckReplay clock of
             Leave d \<Rightarrow> (d, st)
           | Raise msg k \<Rightarrow> (consume_catch q at msg k, st)
           | Go checks \<Rightarrow>
               (case rate_stage ops q cap now at shouldCheckReplay checks (cs_rate st) of
                  (Leave d, l) \<Rightarrow> (d, st\<lparr>cs_rate := l\<rparr>)
                | (Raise msg k, l) \<Rightarrow> (consume_catch q at msg k, st\<lparr>cs_rate := l\<rparr>)
                | (Go meta, l) \<Rightarrow>
                    (let st' = st\<lparr>cs_rate := l\<rparr> in
                     case after_rate ops q cap now at meta shouldCheckReplay st' checks of
                       Leave d \<Rightarrow> (d, st')
                     | Raise msg k \<Rightarrow> (consume_catch q at msg k, st')
                     | Go checks' \<Rightarrow> consume_finish ops q cap now at meta shouldCheckReplay checks' st'))))"

text \<open>\<open>normalizeNow\<close> is outside the \<open>try\<close>: an invalid date is thrown to the caller.\<close>

definition consumeCapabilityAccess ::
  "host_env \<Rightarrow> ('n, 'r, 'u, 'l) consume_ops \<Rightarrow> ConsumptionRequest \<Rightarrow> int \<Rightarrow> ('n, 'r, 'u, 'l) consume_state \<Rightarrow>
   (ConsumptionDecision \<times> ('n, 'r, 'u, 'l) consume_state) throws" where
  "consumeCapabilityAccess env ops q clock st =
     (case now_date env (w_now q) clock of
        None \<Rightarrow> Inl ''Evaluation timestamp must be a valid date.''
      | Some now \<Rightarrow> Inr (consume_at env ops q now clock st))"

subsection \<open>When a capability is consumed\<close>

lemma bind_flow_Go [simp]: "bind_flow s f = Go w \<longleftrightarrow> (\<exists>v. s = Go v \<and> f v = Go w)"
  by (auto simp: bind_flow_def split: flow.splits)

lemma consume_deny_simps [simp]:
  "\<not> x_allowed (consume_deny at c m k meta rc vc p)" "\<not> x_consumed (consume_deny at c m k meta rc vc p)"
  "x_reasonCode (consume_deny at c m k meta rc vc p) = c" "x_usage (consume_deny at c m k meta rc vc p) = None"
  by (simp_all add: consume_deny_def)

lemma consume_catch_denies [simp]: "\<not> x_allowed (consume_catch q at m k)" "\<not> x_consumed (consume_catch q at m k)"
  by (simp_all add: consume_catch_def Let_def)

text \<open>No stage leaves with permission.\<close>

definition leaves_denied :: "'a flow \<Rightarrow> bool" where
  "leaves_denied s \<longleftrightarrow> (\<forall>d. s = Leave d \<longrightarrow> \<not> x_allowed d \<and> \<not> x_consumed d)"

named_theorems stage_intros "stages that only leave with a denial"

lemma leaves_denied_bind [stage_intros]:
  "leaves_denied s \<Longrightarrow> (\<And>v. leaves_denied (f v)) \<Longrightarrow> leaves_denied (bind_flow s f)"
  by (auto simp: leaves_denied_def bind_flow_def split: flow.splits)

lemma consent_stage_denies [stage_intros]: "leaves_denied (consent_stage env q cap at k)"
  by (simp add: leaves_denied_def consent_stage_def split: option.splits)

lemma skew_stage_denies [stage_intros]: "leaves_denied (skew_stage env q cap now at k)"
  by (simp add: leaves_denied_def skew_stage_def split: option.splits)

lemma access_stage_denies [stage_intros]: "leaves_denied (access_stage env q cap a r at b clock k)"
  by (simp add: leaves_denied_def access_stage_def Let_def)

lemma revocation_stage_denies [stage_intros]: "leaves_denied (revocation_stage ops rv cap at meta b k)"
  by (simp add: leaves_denied_def revocation_stage_def)

lemma replay_stage_denies [stage_intros]: "leaves_denied (replay_stage ops q n cap now at meta k)"
  by (cases n; cases "w_consume q") (simp_all add: leaves_denied_def replay_stage_def)

lemma payment_stage_denies [stage_intros]: "leaves_denied (payment_stage q at meta b k)"
  by (simp add: leaves_denied_def payment_stage_def)

lemma rate_stage_denies [stage_intros]: "leaves_denied (fst (rate_stage ops q cap now at b k l))"
  by (auto simp: leaves_denied_def rate_stage_def Let_def split: option.splits prod.splits)

lemma before_registries_denies: "leaves_denied (before_registries env q cap a r now at b clock)"
  unfolding before_registries_def by (intro stage_intros)

lemma after_rate_denies: "leaves_denied (after_rate ops q cap now at meta b st k)"
  unfolding after_rate_def by (intro stage_intros)

text \<open>What the steps before the registries let through.\<close>

definition within_skew :: "host_env \<Rightarrow> string \<Rightarrow> int \<Rightarrow> bool" where
  "within_skew env s now \<longleftrightarrow> (\<exists>t. date_parse (e_date env) s = Some t \<and> \<bar>t - now\<bar> \<le> 300000)"

lemma enforceTimestampWithinSkew_returns [throws_simps]:
  "enforceTimestampWithinSkew env s now lbl = None \<longleftrightarrow> within_skew env s now"
  by (auto simp: enforceTimestampWithinSkew_def within_skew_def CLOCK_SKEW_SECONDS_def split: option.splits)

definition skew_ok :: "host_env \<Rightarrow> RawCapability \<Rightarrow> ConsentObject option \<Rightarrow> int \<Rightarrow> bool" where
  "skew_ok env cap consent now \<longleftrightarrow> within_skew env (t_issued_at cap) now \<and>
     (\<forall>n. t_not_before cap = Some n \<longrightarrow> n \<noteq> [] \<longrightarrow> within_skew env n now) \<and> within_skew env (t_expires_at cap) now \<and>
     (\<forall>c. consent = Some c \<longrightarrow> within_skew env (c_issued_at c) now)"

lemma enforceCapabilityTemporalIntegrity_returns [throws_simps]:
  "enforceCapabilityTemporalIntegrity env cap consent now = None \<longleftrightarrow> skew_ok env cap consent now"
  by (auto simp: enforceCapabilityTemporalIntegrity_def skew_ok_def throws_simps split: option.splits)

definition bound_to :: "'a CapabilityPayload_scheme \<Rightarrow> ConsentObject \<Rightarrow> bool" where
  "bound_to t c \<longleftrightarrow> t_consent_ref t = c_consent_hash c \<and> c_action c = ''grant'' \<and> t_subject t = c_subject c \<and>
     t_grantee t = c_grantee c \<and> t_marketMakerId t = c_marketMakerId c \<and>
     scopeKey ` set (t_scope t) \<subseteq> scopeKey ` set (c_scope c) \<and> set (t_permissions t) \<subseteq> set (c_permissions c)"

lemma verifyCapabilityConsentBinding_returns [throws_simps]:
  "verifyCapabilityConsentBinding t c = None \<longleftrightarrow> bound_to t c"
  by (auto simp: verifyCapabilityConsentBinding_def bound_to_def
      check_each_indep [where P = "\<lambda>e. scopeKey e \<in> scopeKey ` set (c_scope c)"]
      check_each_indep [where P = "\<lambda>p. p \<in> set (c_permissions c)"])

definition consent_ok :: "host_env \<Rightarrow> RawCapability \<Rightarrow> ConsentObject option \<Rightarrow> bool" where
  "consent_ok env cap consent \<longleftrightarrow>
     (\<forall>c. consent = Some c \<longrightarrow> validateConsentObject (e_sha env) (e_cmp env) c = None \<and> bound_to cap c)"

lemma consent_stage_Go: "consent_stage env q cap at k = Go k' \<longleftrightarrow> consent_ok env cap (w_consent q) \<and>
    k' = (if w_consent q = None then k else k\<lparr>k_consent := Pass\<rparr>)"
  by (auto simp: consent_stage_def consent_ok_def verifyCapabilityConsentBinding_returns [symmetric] split: option.splits)

lemma skew_stage_Go: "skew_stage env q cap now at k = Go k' \<longleftrightarrow>
    skew_ok env cap (w_consent q) now \<and> k' = k\<lparr>k_temporal := Pass\<rparr>"
  by (auto simp: skew_stage_def enforceCapabilityTemporalIntegrity_returns [symmetric] split: option.splits)

lemma access_stage_Go: "access_stage env q cap a r at b clock k = Go k' \<longleftrightarrow>
    d_allowed (evaluateCapabilityAccess env (buildEvaluationRequest q cap a r at) clock) \<and>
    k' = copy_checks (d_checks (evaluateCapabilityAccess env (buildEvaluationRequest q cap a r at) clock)) k"
  by (auto simp: access_stage_def Let_def)

definition revoked_now :: "('n, 'r, 'u, 'l) consume_ops \<Rightarrow> ('n, 'r, 'u, 'l) consume_state \<Rightarrow> string \<Rightarrow> bool" where
  "revoked_now ops st h = isRevoked_in (co_reg ops) (in_use (cs_rev st)) h"

lemma revocation_stage_Go: "revocation_stage ops (cs_rev st) cap at meta b k = Go k' \<longleftrightarrow>
    \<not> revoked_now ops st (t_capability_hash cap) \<and> k' = k\<lparr>k_revocation := Pass\<rparr>"
  by (auto simp: revocation_stage_def revoked_now_def)

definition replay_ok ::
  "('n, 'r, 'u, 'l) consume_ops \<Rightarrow> ConsumptionRequest \<Rightarrow> 'n option \<Rightarrow> string \<Rightarrow> int \<Rightarrow> bool" where
  "replay_ok ops q nonce tid now \<longleftrightarrow>
     (\<forall>n. nonce = Some n \<longrightarrow> w_consume q \<longrightarrow> \<not> hasSeen (co_reg ops) n tid (Some now)) \<and>
     (nonce = None \<or> \<not> w_consume q \<longrightarrow> \<not> w_requireReplayProtection q)"

lemma replay_stage_Go: "replay_stage ops q nonce cap now at meta k = Go k' \<longleftrightarrow>
    replay_ok ops q nonce (t_token_id cap) now \<and>
    k' = (if nonce \<noteq> None \<and> w_consume q then k\<lparr>k_replay := Pass\<rparr> else k)"
  by (cases nonce; cases "w_consume q") (auto simp: replay_stage_def replay_ok_def)

lemma payment_stage_Go: "payment_stage q at meta b k = Go k' \<longleftrightarrow>
    (Option.bind (w_consent q) c_pricing = None \<or> w_paid q) \<and> k' = k"
  by (auto simp: payment_stage_def)

definition rate_config :: "js_num \<times> js_num \<Rightarrow> RateLimitConfig" where
  "rate_config p = \<lparr>rl_maxAttempts = int_of_num (fst p), rl_windowMs = int_of_num (snd p)\<rparr>"

definition rate_ok ::
  "('n, 'r, 'u, 'l) consume_ops \<Rightarrow> ConsumptionRequest \<Rightarrow> string \<Rightarrow> int \<Rightarrow> 'l \<Rightarrow> bool" where
  "rate_ok ops q key now l \<longleftrightarrow>
     (\<forall>p. w_rateLimit q = Some p \<longrightarrow> validateRateLimitConfig (fst p) (snd p) = None \<and>
        \<not> co_rate_isLimited ops l key now (rate_config p))"

definition rate_after ::
  "('n, 'r, 'u, 'l) consume_ops \<Rightarrow> ConsumptionRequest \<Rightarrow> string \<Rightarrow> int \<Rightarrow> 'l \<Rightarrow> 'l" where
  "rate_after ops q key now l =
     (case w_rateLimit q of None \<Rightarrow> l | Some p \<Rightarrow> snd (co_rate_increment ops l key now (rate_config p)))"

lemma rate_stage_Go: "(\<exists>meta. rate_stage ops q cap now at b k l = (Go meta, l')) \<longleftrightarrow>
    rate_ok ops q (t_consent_ref cap) now l \<and> l' = rate_after ops q (t_consent_ref cap) now l"
  by (auto simp: rate_stage_def rate_ok_def rate_after_def rate_config_def Let_def split: option.splits prod.splits)

text \<open>The condition under which a presentation is allowed, and the state it leaves.\<close>

definition consumable ::
  "host_env \<Rightarrow> ('n, 'r, 'u, 'l) consume_ops \<Rightarrow> ConsumptionRequest \<Rightarrow> RawCapability \<Rightarrow> string \<Rightarrow> ScopeEntry \<Rightarrow>
   int \<Rightarrow> int \<Rightarrow> ('n, 'r, 'u, 'l) consume_state \<Rightarrow> bool" where
  "consumable env ops q cap a r now clock st \<longleftrightarrow>
     consent_ok env cap (w_consent q) \<and> skew_ok env cap (w_consent q) now \<and>
     d_allowed (evaluateCapabilityAccess env (buildEvaluationRequest q cap a r (iso_seconds now)) clock) \<and>
     rate_ok ops q (t_consent_ref cap) now (cs_rate st) \<and>
     \<not> revoked_now ops st (t_capability_hash cap) \<and>
     replay_ok ops q (cs_nonce st) (t_token_id cap) now \<and>
     (Option.bind (w_consent q) c_pricing = None \<or> w_paid q)"

definition consume_effect ::
  "('n, 'r, 'u, 'l) consume_ops \<Rightarrow> ConsumptionRequest \<Rightarrow> RawCapability \<Rightarrow> int \<Rightarrow>
   ('n, 'r, 'u, 'l) consume_state \<Rightarrow> ('n, 'r, 'u, 'l) consume_state" where
  "consume_effect ops q cap now st =
     st\<lparr>cs_rate := rate_after ops q (t_consent_ref cap) now (cs_rate st),
        cs_nonce := fst (consume_nonce ops q cap now (cs_nonce st)),
        cs_usage := snd (recordUsage ops cap ''allow'' (iso_seconds now) (cs_usage st))\<rparr>"

lemma before_registries_Go: "(\<exists>k. before_registries env q cap a r now at b clock = Go k) \<longleftrightarrow>
    consent_ok env cap (w_consent q) \<and> skew_ok env cap (w_consent q) now \<and>
    d_allowed (evaluateCapabilityAccess env (buildEvaluationRequest q cap a r at) clock)"
  by (auto simp: before_registries_def consent_stage_Go skew_stage_Go access_stage_Go)

lemma after_rate_Go: "(\<exists>k'. after_rate ops q cap now at meta b st k = Go k') \<longleftrightarrow>
    \<not> revoked_now ops st (t_capability_hash cap) \<and> replay_ok ops q (cs_nonce st) (t_token_id cap) now \<and>
    (Option.bind (w_consent q) c_pricing = None \<or> w_paid q)"
  by (simp only: after_rate_def bind_flow_Go revocation_stage_Go replay_stage_Go payment_stage_Go) blast

lemma consume_finish_simps [simp]:
  "x_allowed (fst (consume_finish ops q cap now at meta b k st))"
  "x_reasonCode (fst (consume_finish ops q cap now at meta b k st)) = AccessCode ACCESS_ALLOWED"
  "x_consumed (fst (consume_finish ops q cap now at meta b k st)) = (cs_nonce st \<noteq> None \<and> w_consume q)"
  "snd (consume_finish ops q cap now at meta b k st) =
     st\<lparr>cs_nonce := fst (consume_nonce ops q cap now (cs_nonce st)),
        cs_usage := snd (recordUsage ops cap ''allow'' at (cs_usage st))\<rparr>"
  by (cases "cs_nonce st"; cases "w_consume q"; simp add: consume_finish_def consume_nonce_def split: prod.splits)+

lemma revoked_now_rate [simp]: "revoked_now ops (st\<lparr>cs_rate := l\<rparr>) h = revoked_now ops st h"
  by (simp add: revoked_now_def)

text \<open>A denial changes no registry but the rate limiter's.\<close>

definition rate_only :: "('n, 'r, 'u, 'l) consume_state \<Rightarrow> ('n, 'r, 'u, 'l) consume_state \<Rightarrow> bool" where
  "rate_only st st' \<longleftrightarrow> (\<exists>l. st' = st\<lparr>cs_rate := l\<rparr>)"

lemma rate_only_intros [intro!, simp]: "rate_only st st" "rate_only st (st\<lparr>cs_rate := l\<rparr>)"
proof -
  have "st = st\<lparr>cs_rate := cs_rate st\<rparr>" by simp
  then show "rate_only st st" unfolding rate_only_def by blast
  show "rate_only st (st\<lparr>cs_rate := l\<rparr>)" unfolding rate_only_def by blast
qed

lemma consume_at_unfold:
  assumes "consume_prepare env q = Inr (cap, a, r)" "at = iso_seconds now" "b = (cs_nonce st \<noteq> None \<and> w_consume q)"
  shows "consume_at env ops q now clock st =
     (case before_registries env q cap a r now at b clock of
        Leave d \<Rightarrow> (d, st)
      | Raise msg k \<Rightarrow> (consume_catch q at msg k, st)
      | Go checks \<Rightarrow>
          (case rate_stage ops q cap now at b checks (cs_rate st) of
             (Leave d, l) \<Rightarrow> (d, st\<lparr>cs_rate := l\<rparr>)
           | (Raise msg k, l) \<Rightarrow> (consume_catch q at msg k, st\<lparr>cs_rate := l\<rparr>)
           | (Go meta, l) \<Rightarrow>
               (case after_rate ops q cap now at meta b (st\<lparr>cs_rate := l\<rparr>) checks of
                  Leave d \<Rightarrow> (d, st\<lparr>cs_rate := l\<rparr>)
                | Raise msg k \<Rightarrow> (consume_catch q at msg k, st\<lparr>cs_rate := l\<rparr>)
                | Go checks' \<Rightarrow> consume_finish ops q cap now at meta b checks' (st\<lparr>cs_rate := l\<rparr>))))"
  by (simp only: consume_at_def Let_def assms sum.case prod.case)

lemma consume_at_cases:
  "(x_allowed (fst (consume_at env ops q now clock st)) \<and>
      (\<exists>cap a r. consume_prepare env q = Inr (cap, a, r) \<and> consumable env ops q cap a r now clock st \<and>
         snd (consume_at env ops q now clock st) = consume_effect ops q cap now st \<and>
         x_reasonCode (fst (consume_at env ops q now clock st)) = AccessCode ACCESS_ALLOWED \<and>
         x_consumed (fst (consume_at env ops q now clock st)) = (cs_nonce st \<noteq> None \<and> w_consume q))) \<or>
   (\<not> x_allowed (fst (consume_at env ops q now clock st)) \<and> \<not> x_consumed (fst (consume_at env ops q now clock st)) \<and>
      rate_only st (snd (consume_at env ops q now clock st)) \<and>
      (\<forall>cap a r. consume_prepare env q = Inr (cap, a, r) \<longrightarrow> \<not> consumable env ops q cap a r now clock st))"
proof (cases "consume_prepare env q")
  case (Inl msg)
  then show ?thesis by (simp add: consume_at_def Let_def)
next
  case (Inr v)
  obtain cap a r where v: "v = (cap, a, r)" by (metis prod_cases3)
  define at where "at = iso_seconds now"
  define b where "b = (cs_nonce st \<noteq> None \<and> w_consume q)"
  note start = Inr [unfolded v]
  note unf = consume_at_unfold [OF start at_def b_def, of ops clock]
  show ?thesis
  proof (cases "before_registries env q cap a r now at b clock")
    case (Leave d)
    have "\<not> x_allowed d \<and> \<not> x_consumed d"
      using before_registries_denies [of env q cap a r now at b clock] Leave by (simp add: leaves_denied_def)
    moreover have "\<not> consumable env ops q cap a r now clock st"
      using before_registries_Go [of env q cap a r now at b clock] Leave by (auto simp: consumable_def at_def)
    ultimately show ?thesis using Leave by (simp add: unf start)
  next
    case (Raise m k)
    have "\<not> consumable env ops q cap a r now clock st"
      using before_registries_Go [of env q cap a r now at b clock] Raise by (auto simp: consumable_def at_def)
    then show ?thesis using Raise by (simp add: unf start)
  next
    case (Go k)
    have go: "consent_ok env cap (w_consent q)" "skew_ok env cap (w_consent q) now"
      "d_allowed (evaluateCapabilityAccess env (buildEvaluationRequest q cap a r at) clock)"
      using before_registries_Go [of env q cap a r now at b clock] Go by auto
    obtain f l where rate: "rate_stage ops q cap now at b k (cs_rate st) = (f, l)"
      by (metis surj_pair)
    note rg = rate_stage_Go [of ops q cap now at b k "cs_rate st" l] rate
    show ?thesis
    proof (cases f)
      case (Leave d)
      have "\<not> x_allowed d \<and> \<not> x_consumed d"
        using rate_stage_denies [of ops q cap now at b k "cs_rate st"] rate Leave by (simp add: leaves_denied_def)
      moreover have "\<not> rate_ok ops q (t_consent_ref cap) now (cs_rate st)"
        using rate_stage_Go [of ops q cap now at b k "cs_rate st"] rate Leave by auto
      ultimately show ?thesis using Leave Go rate by (simp add: unf start consumable_def)
    next
      case (Raise m k')
      have "\<not> rate_ok ops q (t_consent_ref cap) now (cs_rate st)"
        using rate_stage_Go [of ops q cap now at b k "cs_rate st"] rate Raise by auto
      then show ?thesis using Raise Go rate by (simp add: unf start consumable_def)
    next
      case (Go meta)
      then have ok: "rate_ok ops q (t_consent_ref cap) now (cs_rate st)"
        "l = rate_after ops q (t_consent_ref cap) now (cs_rate st)" using rg by auto
      let ?st = "st\<lparr>cs_rate := l\<rparr>"
      note after = after_rate_Go [of ops q cap now at meta b ?st k]
      have c: "consumable env ops q cap a r now clock st \<longleftrightarrow>
          (\<exists>k'. after_rate ops q cap now at meta b ?st k = Go k')"
        unfolding after using go ok(1) by (simp add: consumable_def at_def)
      have start2: "consume_at env ops q now clock st = (case after_rate ops q cap now at meta b ?st k of
          Leave d \<Rightarrow> (d, ?st) | Raise msg k' \<Rightarrow> (consume_catch q at msg k', ?st)
        | Go k' \<Rightarrow> consume_finish ops q cap now at meta b k' ?st)"
        using \<open>before_registries env q cap a r now at b clock = Go k\<close> rate Go
        by (simp add: unf start)
      show ?thesis
      proof (cases "after_rate ops q cap now at meta b ?st k")
        case (Leave d)
        have "\<not> x_allowed d \<and> \<not> x_consumed d"
          using after_rate_denies [of ops q cap now at meta b ?st k] Leave by (simp add: leaves_denied_def)
        with Leave c start2 start show ?thesis by simp
      next
        case (Raise m k')
        with c start2 start show ?thesis by simp
      next
        case (Go k')
        then show ?thesis using c start2 start ok(2)
          by (simp add: consume_effect_def at_def)
      qed
    qed
  qed
qed

subsection \<open>Sequences of presentations\<close>

inductive consume_run ::
  "host_env \<Rightarrow> ('n, 'r, 'u, 'l) consume_ops \<Rightarrow> ('n, 'r, 'u, 'l) consume_state \<Rightarrow>
   (ConsumptionRequest \<times> ConsumptionDecision) list \<Rightarrow> ('n, 'r, 'u, 'l) consume_state \<Rightarrow> bool"
  for env ops where
  no_more: "consume_run env ops st [] st"
| presented: "consumeCapabilityAccess env ops q clock st = Inr (d, st1) \<Longrightarrow> consume_run env ops st1 tr st2 \<Longrightarrow>
     consume_run env ops st ((q, d) # tr) st2"
| thrown: "consumeCapabilityAccess env ops q clock st = Inl msg \<Longrightarrow> consume_run env ops st tr st2 \<Longrightarrow>
     consume_run env ops st tr st2"

text \<open>The identifiers of the tokens consumed along a trace.\<close>

fun consumed_ids :: "(ConsumptionRequest \<times> ConsumptionDecision) list \<Rightarrow> string list" where
  "consumed_ids [] = []"
| "consumed_ids ((q, d) # tr) =
     (case w_capability q of
        Some cap \<Rightarrow> if x_consumed d then t_token_id cap # consumed_ids tr else consumed_ids tr
      | None \<Rightarrow> consumed_ids tr)"

lemma consume_prepare_capability: "consume_prepare env q = Inr (cap, a, r) \<Longrightarrow> w_capability q = Some cap"
  by (auto simp: consume_prepare_def split: option.splits)

lemma consume_nonce_state [simp]:
  "cs_nonce (consume_effect ops q cap now st) = fst (consume_nonce ops q cap now (cs_nonce st))"
  "cs_rev (consume_effect ops q cap now st) = cs_rev st"
  by (simp_all add: consume_effect_def)

lemma consume_step_cases:
  assumes "consumeCapabilityAccess env ops q clock st = Inr (d, st')"
  obtains now cap a r where "x_allowed d" "consume_prepare env q = Inr (cap, a, r)"
      "consumable env ops q cap a r now clock st" "st' = consume_effect ops q cap now st"
      "x_consumed d = (cs_nonce st \<noteq> None \<and> w_consume q)" "w_capability q = Some cap"
  | "\<not> x_allowed d" "\<not> x_consumed d" "rate_only st st'"
proof -
  obtain now where now: "now_date env (w_now q) clock = Some now" "consume_at env ops q now clock st = (d, st')"
    using assms by (auto simp: consumeCapabilityAccess_def split: option.splits)
  show ?thesis
  proof (cases "x_allowed d")
    case True
    then obtain cap a r where c: "consume_prepare env q = Inr (cap, a, r)"
      "consumable env ops q cap a r now clock st" "st' = consume_effect ops q cap now st"
      "x_consumed d = (cs_nonce st \<noteq> None \<and> w_consume q)"
      using consume_at_cases [of env ops q now clock st] unfolding now(2) fst_conv snd_conv by blast
    show ?thesis by (rule that(1) [OF True c consume_prepare_capability [OF c(1)]])
  next
    case False
    then show ?thesis
      using consume_at_cases [of env ops q now clock st] that(2) unfolding now(2) fst_conv snd_conv by blast
  qed
qed

context lawful_registries
begin

lemma tidy_mark_seen: "hasSeen ops (tidy_of ops (markSeen ops n t e) d) t now"
  by (rule nonce.seen_tidy [OF nonce.seen_mark])

lemma tidy_mark_keeps: "hasSeen ops n t now \<Longrightarrow> hasSeen ops (tidy_of ops (markSeen ops n u e) d) t now'"
  by (rule nonce.seen_tidy [OF nonce.seen_keeps])

lemma seen_anytime: "hasSeen ops n t now \<Longrightarrow> hasSeen ops n t now'"
  by (rule nonce.seen_always)

end

definition spent :: "('n, 'r, 'u, 'l) consume_ops \<Rightarrow> ('n, 'r, 'u, 'l) consume_state \<Rightarrow> string \<Rightarrow> bool" where
  "spent ops st tid \<longleftrightarrow> (\<exists>n. cs_nonce st = Some n \<and> (\<forall>now. hasSeen (co_reg ops) n tid now))"

lemma consume_nonce_spends:
  assumes "lawful_registries (co_reg ops)" "cs_nonce st \<noteq> None" "w_consume q"
  shows "spent ops (consume_effect ops q cap now st) (t_token_id cap)"
  using assms lawful_registries.tidy_mark_seen [OF assms(1)]
  by (auto simp: spent_def consume_nonce_def)

lemma consume_nonce_keeps_spent:
  assumes "lawful_registries (co_reg ops)" "spent ops st tid"
  shows "spent ops (consume_effect ops q cap now st) tid"
proof (cases "w_consume q")
  case True
  then show ?thesis
    using assms(2) lawful_registries.tidy_mark_keeps [OF assms(1)] by (auto simp: spent_def consume_nonce_def)
next
  case False
  then show ?thesis using assms(2) by (auto simp: spent_def consume_nonce_def)
qed

lemma rate_only_spent: "rate_only st st' \<Longrightarrow> spent ops st' tid = spent ops st tid"
  by (auto simp: rate_only_def spent_def)

lemma spent_not_consumed:
  "consume_run env ops st tr st' \<Longrightarrow> lawful_registries (co_reg ops) \<Longrightarrow> spent ops st tid \<Longrightarrow> tid \<notin> set (consumed_ids tr)"
proof (induction rule: consume_run.induct)
  case (presented q clock st d st1 tr st2)
  show ?case
    using presented.hyps(1)
  proof (cases rule: consume_step_cases)
    case (1 now cap a r)
    have "tid \<notin> set (consumed_ids tr)"
      by (rule presented.IH [OF presented.prems(1)])
        (use 1(4) consume_nonce_keeps_spent [OF presented.prems] in simp)
    moreover have "x_consumed d \<Longrightarrow> t_token_id cap \<noteq> tid"
      using 1 presented.prems(2) by (auto simp: consumable_def replay_ok_def spent_def)
    ultimately show ?thesis using 1(6) by auto
  next
    case 2
    then have "tid \<notin> set (consumed_ids tr)"
      using presented.IH [OF presented.prems(1)] presented.prems(2) rate_only_spent by blast
    then show ?thesis using 2(2) by (simp split: option.splits)
  qed
qed auto

lemma consumed_once:
  "consume_run env ops st tr st' \<Longrightarrow> lawful_registries (co_reg ops) \<Longrightarrow> distinct (consumed_ids tr)"
proof (induction rule: consume_run.induct)
  case (presented q clock st d st1 tr st2)
  note IH = presented.IH [OF presented.prems]
  show ?case
    using presented.hyps(1)
  proof (cases rule: consume_step_cases)
    case (1 now cap a r)
    have "x_consumed d \<Longrightarrow> t_token_id cap \<notin> set (consumed_ids tr)"
      using spent_not_consumed [OF presented.hyps(2) presented.prems] 1
        consume_nonce_spends [OF presented.prems] by auto
    then show ?thesis using IH 1(6) by auto
  next
    case 2
    then show ?thesis using IH by (simp split: option.splits)
  qed
qed auto

lemma run_keeps_revocations: "consume_run env ops st tr st' \<Longrightarrow> cs_rev st' = cs_rev st"
proof (induction rule: consume_run.induct)
  case (presented q clock st d st1 tr st2)
  from presented.hyps(1) have "cs_rev st1 = cs_rev st"
    by (cases rule: consume_step_cases) (auto simp: rate_only_def)
  with presented.IH show ?case by simp
qed auto

fun allowed_hashes :: "(ConsumptionRequest \<times> ConsumptionDecision) list \<Rightarrow> string list" where
  "allowed_hashes [] = []"
| "allowed_hashes ((q, d) # tr) =
     (case w_capability q of
        Some cap \<Rightarrow> if x_allowed d then t_capability_hash cap # allowed_hashes tr else allowed_hashes tr
      | None \<Rightarrow> allowed_hashes tr)"

lemma revoked_never_allowed:
  "consume_run env ops st tr st' \<Longrightarrow> revoked_now ops st h \<Longrightarrow> h \<notin> set (allowed_hashes tr)"
proof (induction rule: consume_run.induct)
  case (presented q clock st d st1 tr st2)
  show ?case
    using presented.hyps(1)
  proof (cases rule: consume_step_cases)
    case (1 now cap a r)
    have "revoked_now ops st1 h" using 1(4) presented.prems by (simp add: revoked_now_def)
    then have "h \<notin> set (allowed_hashes tr)" by (rule presented.IH)
    moreover have "t_capability_hash cap \<noteq> h" using 1(3) presented.prems by (auto simp: consumable_def)
    ultimately show ?thesis using 1(6) by auto
  next
    case 2
    have "revoked_now ops st1 h" using 2(3) presented.prems by (auto simp: rate_only_def)
    then show ?thesis using presented.IH 2(1) by (simp split: option.splits)
  qed
qed auto

end
