(* ===== verification/Storage.thy ===== *)
theory Storage
  imports Sem Canonical
begin

text \<open>
  \<open>storage/\<close>: storage pointers and their URIs (\<open>pointer.ts\<close>, \<open>canonical.ts\<close>), the local
  filesystem adapter (\<open>localFsAdapter.ts\<close>) and the Cloudflare R2 stub (\<open>r2Adapter.ts\<close>).
  A blob is a \<^typ>\<open>string\<close> of bytes.  The file system is the map from paths to file
  contents; an operating system error other than a missing file is not modelled.
  SHA-256 is the parameter \<open>sha256Hex\<close>.
\<close>

record StoragePointer =
  ptr_uri :: string
  ptr_backend :: string
  ptr_hash :: string

definition STORAGE_PREFIX :: string where
  "STORAGE_PREFIX = ''aoc://storage/''"

definition buildStoragePointer :: "string \<Rightarrow> string \<Rightarrow> StoragePointer throws" where
  "buildStoragePointer backend hashHex =
     and_return
       (first_throw
         [throw_if (\<not> BACKEND_PATTERN backend)
            ''Storage backend must match pattern: lowercase letters, digits, hyphens (e.g., \"local\", \"s3\", \"x-vendor\").'',
          throw_if (length backend > 64) ''Storage backend must be at most 64 characters.'',
          throw_if (\<not> HASH_HEX_PATTERN hashHex)
            ''Storage pointer hash must be 64 lowercase hex characters.''])
       \<lparr>ptr_uri = STORAGE_PREFIX @ backend @ ''/0x'' @ hashHex, ptr_backend = backend, ptr_hash = hashHex\<rparr>"

text \<open>
  \<open>STORAGE_URI_PATTERN.exec(uri)\<close>: the two groups of a match.  The second group has 64
  characters and ends the text, which fixes where the first one ends.
\<close>

definition storage_uri_match :: "string \<Rightarrow> (string \<times> string) option" where
  "storage_uri_match uri =
     (let rest = drop (length STORAGE_PREFIX) uri;
          n = length rest - 67;
          backend = take n rest;
          hash = drop (n + 3) rest
      in if starts_with uri STORAGE_PREFIX \<and> 67 \<le> length rest \<and> take 3 (drop n rest) = ''/0x'' \<and>
            BACKEND_PATTERN backend \<and> HASH_HEX_PATTERN hash
         then Some (backend, hash) else None)"

definition parseStorageUri :: "string \<Rightarrow> (string \<times> string) throws" where
  "parseStorageUri uri =
     (case storage_uri_match uri of
        None \<Rightarrow> Inl ''Storage URI must match pattern: aoc://storage/{backend}/0x{hash}''
      | Some (backend, hash) \<Rightarrow> Inr (backend, hash))"

definition canonicalizeStoragePointerPayload :: "string \<Rightarrow> string \<Rightarrow> string throws" where
  "canonicalizeStoragePointerPayload backend hash =
     canonical_bytes (JObj [(''backend'', JStr backend), (''hash'', JStr hash)])"

subsection \<open>Paths\<close>

text \<open>
  Node's \<open>path.join\<close> (POSIX): the arguments that are not empty joined with a slash, then
  the segments resolved: empty ones and dots dropped, a double dot removes the segment before it.
\<close>

fun normalize_segments :: "bool \<Rightarrow> string list \<Rightarrow> string list \<Rightarrow> string list" where
  "normalize_segments absolute acc [] = rev acc"
| "normalize_segments absolute acc (s # ss) =
     (if s = [] \<or> s = ''.'' then normalize_segments absolute acc ss
      else if s = ''..''
      then (case acc of
              [] \<Rightarrow> normalize_segments absolute (if absolute then [] else [s]) ss
            | t # ts \<Rightarrow> normalize_segments absolute (if t = ''..'' then s # acc else ts) ss)
      else normalize_segments absolute (s # acc) ss)"

definition path_normalize :: "string \<Rightarrow> string" where
  "path_normalize p =
     (if p = [] then ''.''
      else let absolute = (hd p = CHR ''/'');
               body = join_with CHR ''/'' (normalize_segments absolute [] (split_on CHR ''/'' p));
               body' = (if body = [] \<and> \<not> absolute then ''.'' else body);
               tail = (if last p = CHR ''/'' \<and> body \<noteq> [] then ''/'' else [])
           in (if absolute then ''/'' else []) @ body' @ tail)"

definition path_join :: "string list \<Rightarrow> string" where
  "path_join parts = path_normalize (join_with CHR ''/'' (filter (\<lambda>p. p \<noteq> []) parts))"

subsection \<open>The adapters\<close>

type_synonym file_system = "string \<Rightarrow> string option"

definition getFilePath :: "string \<Rightarrow> string \<Rightarrow> string" where
  "getFilePath baseDir hashHex = path_join [baseDir, ''.aoc_storage'', hashHex]"

definition fs_put :: "(string \<Rightarrow> string) \<Rightarrow> string \<Rightarrow> file_system \<Rightarrow> string \<Rightarrow> (StoragePointer \<times> file_system) throws" where
  "fs_put sha256Hex baseDir fs blob =
     (let hashHex = sha256Hex blob in
      bind_throws (buildStoragePointer ''local'' hashHex) (\<lambda>pointer.
        Inr (pointer, fs(getFilePath baseDir hashHex \<mapsto> blob))))"

definition fs_get :: "(string \<Rightarrow> string) \<Rightarrow> string \<Rightarrow> file_system \<Rightarrow> StoragePointer \<Rightarrow> string throws" where
  "fs_get sha256Hex baseDir fs pointer =
     (let filePath = getFilePath baseDir (ptr_hash pointer) in
      case fs filePath of
        None \<Rightarrow> Inl (''ENOENT: no such file or directory, open '' @ filePath)
      | Some data \<Rightarrow>
          (let decision = enforceStorageIntegrity sha256Hex (ptr_uri pointer) (ptr_hash pointer) data in
           if sem_decision decision = DENY then Inl (err_message (the (sem_error decision)))
           else Inr data))"

definition fs_delete :: "string \<Rightarrow> file_system \<Rightarrow> StoragePointer \<Rightarrow> file_system" where
  "fs_delete baseDir fs pointer = fs(getFilePath baseDir (ptr_hash pointer) := None)"

definition r2_put :: "(string \<Rightarrow> string) \<Rightarrow> string \<Rightarrow> StoragePointer throws" where
  "r2_put sha256Hex blob =
     bind_throws (buildStoragePointer ''r2'' (sha256Hex blob)) (\<lambda>pointer.
       Inl (''CloudflareR2Adapter not implemented for '' @ ptr_uri pointer @
            ''. Provide @aws-sdk/client-s3 and wire up put().''))"

definition r2_get :: "StoragePointer \<Rightarrow> string throws" where
  "r2_get pointer =
     Inl ''CloudflareR2Adapter not implemented. Provide @aws-sdk/client-s3 and wire up get().''"

definition r2_delete :: "StoragePointer \<Rightarrow> unit throws" where
  "r2_delete pointer =
     Inl ''CloudflareR2Adapter not implemented. Provide @aws-sdk/client-s3 and wire up delete().''"

subsection \<open>Pointers and URIs\<close>

lemma buildStoragePointer_Inr [throws_simps]:
  "buildStoragePointer b h = Inr p \<longleftrightarrow>
     BACKEND_PATTERN b \<and> length b \<le> 64 \<and> HASH_HEX_PATTERN h \<and>
     p = \<lparr>ptr_uri = STORAGE_PREFIX @ b @ ''/0x'' @ h, ptr_backend = b, ptr_hash = h\<rparr>"
  by (auto simp: buildStoragePointer_def)

lemma storage_uri_match_iff:
  "storage_uri_match uri = Some (b, h) \<longleftrightarrow>
     uri = STORAGE_PREFIX @ b @ ''/0x'' @ h \<and> BACKEND_PATTERN b \<and> HASH_HEX_PATTERN h"
proof
  assume m: "storage_uri_match uri = Some (b, h)"
  define rest where "rest = drop (length STORAGE_PREFIX) uri"
  define n where "n = length rest - 67"
  have p: "starts_with uri STORAGE_PREFIX" "take 3 (drop n rest) = ''/0x''" "BACKEND_PATTERN b" "HASH_HEX_PATTERN h"
    "b = take n rest" "h = drop (n + 3) rest"
    using m by (auto simp: storage_uri_match_def Let_def rest_def n_def split: if_splits)
  have "uri = STORAGE_PREFIX @ rest" using p(1) by (auto simp: starts_with_append rest_def)
  moreover have "rest = take n rest @ take 3 (drop n rest) @ drop 3 (drop n rest)" by (metis append_take_drop_id)
  ultimately show "uri = STORAGE_PREFIX @ b @ ''/0x'' @ h \<and> BACKEND_PATTERN b \<and> HASH_HEX_PATTERN h"
    using p by (metis add.commute drop_drop)
next
  assume u: "uri = STORAGE_PREFIX @ b @ ''/0x'' @ h \<and> BACKEND_PATTERN b \<and> HASH_HEX_PATTERN h"
  then have "length h = 64" by (simp add: HASH_HEX_PATTERN_def)
  with u show "storage_uri_match uri = Some (b, h)"
    by (auto simp: storage_uri_match_def Let_def starts_with_append)
qed

lemma parseStorageUri_Inr [throws_simps]:
  "parseStorageUri uri = Inr (b, h) \<longleftrightarrow>
     uri = STORAGE_PREFIX @ b @ ''/0x'' @ h \<and> BACKEND_PATTERN b \<and> HASH_HEX_PATTERN h"
  unfolding parseStorageUri_def storage_uri_match_iff [symmetric]
  by (cases "storage_uri_match uri") auto

subsection \<open>Two digests name two files\<close>

definition plain_segment :: "string \<Rightarrow> bool" where
  "plain_segment s \<longleftrightarrow> s \<noteq> [] \<and> s \<noteq> ''.'' \<and> s \<noteq> ''..'' \<and> CHR ''/'' \<notin> set s"

lemma hex_plain_segment: "HASH_HEX_PATTERN h \<Longrightarrow> plain_segment h"
  by (auto simp: plain_segment_def HASH_HEX_PATTERN_def list_all_iff is_hex_def is_digit_def char_code_def)

lemma normalize_segments_snoc:
  "plain_segment s \<Longrightarrow> normalize_segments a acc (ss @ [s]) = normalize_segments a acc ss @ [s]"
  by (induction a acc ss rule: normalize_segments.induct)
    (auto simp: plain_segment_def split: list.splits)

lemma split_on_append_sep: "split_on c (s @ c # t) = split_on c s @ split_on c t"
  by (induction s) (auto split: list.splits)

lemma join_with_snoc: "ws \<noteq> [] \<Longrightarrow> join_with c (ws @ [w]) = join_with c ws @ c # w"
proof (induction ws)
  case (Cons v ws)
  then show ?case by (cases ws) auto
qed simp

lemma getFilePath_hash:
  assumes "HASH_HEX_PATTERN h"
  shows "getFilePath d h =
    (let p = (if d = [] then [] else d @ ''/'') @ ''.aoc_storage'';
         a = (hd p = CHR ''/'');
         b = normalize_segments a [] (split_on CHR ''/'' p)
     in (if a then ''/'' else []) @ (if b = [] then [] else join_with CHR ''/'' b @ ''/'') @ h)"
proof -
  define p where "p = (if d = [] then [] else d @ ''/'') @ ''.aoc_storage''"
  define a where "a = (hd p = CHR ''/'')"
  define b where "b = normalize_segments a [] (split_on CHR ''/'' p)"
  have h: "plain_segment h" "h \<noteq> []" "CHR ''/'' \<notin> set h"
    using hex_plain_segment [OF assms] by (auto simp: plain_segment_def)
  have j: "join_with CHR ''/'' (filter (\<lambda>p. p \<noteq> []) [d, ''.aoc_storage'', h]) = p @ CHR ''/'' # h"
    using h by (auto simp: p_def)
  have s: "split_on CHR ''/'' (p @ CHR ''/'' # h) = split_on CHR ''/'' p @ [h]"
    using h by (simp add: split_on_append_sep split_on_single)
  have p0: "p \<noteq> []" by (simp add: p_def)
  have l: "last (p @ CHR ''/'' # h) \<noteq> CHR ''/''" using h(2,3) last_in_set [OF h(2)] by (simp, metis)
  have body: "join_with CHR ''/'' (b @ [h]) = (if b = [] then [] else join_with CHR ''/'' b @ ''/'') @ h"
    by (simp add: join_with_snoc)
  have "getFilePath d h = path_normalize (p @ CHR ''/'' # h)"
    unfolding getFilePath_def path_join_def j ..
  also have "\<dots> = (if a then ''/'' else []) @ (if b = [] then [] else join_with CHR ''/'' b @ ''/'') @ h"
    unfolding path_normalize_def Let_def s
    using p0 h l body by (simp add: normalize_segments_snoc a_def b_def)
  finally show ?thesis by (simp add: p_def a_def b_def Let_def)
qed

lemma getFilePath_inj:
  "HASH_HEX_PATTERN h \<Longrightarrow> HASH_HEX_PATTERN k \<Longrightarrow> getFilePath d h = getFilePath d k \<longleftrightarrow> h = k"
  by (simp add: getFilePath_hash Let_def)

subsection \<open>The adapter contract\<close>

text \<open>
  \<open>IStorageAdapter\<close>: what a client of \<open>put\<close>, \<open>get\<close> and \<open>delete\<close> relies on.  \<open>slot\<close> is the hash of
  a pointer, \<open>digest\<close> the hash function, \<open>issued\<close> the pointers a \<open>put\<close> returns.
\<close>

locale storage_adapter =
  fixes put :: "'s \<Rightarrow> string \<Rightarrow> ('p \<times> 's) throws"
    and get :: "'s \<Rightarrow> 'p \<Rightarrow> string throws"
    and del :: "'s \<Rightarrow> 'p \<Rightarrow> 's"
    and slot :: "'p \<Rightarrow> string"
    and issued :: "'p \<Rightarrow> bool"
    and digest :: "string \<Rightarrow> string"
  assumes put_issued: "put s b = Inr (p, s') \<Longrightarrow> issued p \<and> slot p = digest b"
    and put_get: "put s b = Inr (p, s') \<Longrightarrow> issued q \<Longrightarrow> slot q = slot p \<Longrightarrow> get s' q = Inr b"
    and put_frame: "put s b = Inr (p, s') \<Longrightarrow> issued q \<Longrightarrow> slot q \<noteq> slot p \<Longrightarrow> get s' q = get s q"
    and get_fits: "get s p = Inr b \<Longrightarrow> digest b = slot p"
    and del_get: "get (del s p) p \<noteq> Inr b"
    and del_frame: "issued p \<Longrightarrow> issued q \<Longrightarrow> slot q \<noteq> slot p \<Longrightarrow> get (del s p) q = get s q"
begin

fun puts :: "'s \<Rightarrow> string list \<Rightarrow> 's throws" where
  "puts s [] = Inr s"
| "puts s (b # bs) = bind_throws (put s b) (\<lambda>r. puts (snd r) bs)"

lemma puts_keep:
  "puts s bs = Inr s' \<Longrightarrow> issued q \<Longrightarrow> get s q = Inr b \<Longrightarrow> \<exists>b'. get s' q = Inr b' \<and> b' \<in> insert b (set bs) \<and> digest b' = slot q"
proof (induction bs arbitrary: s b)
  case Nil
  then show ?case using get_fits by auto
next
  case (Cons c bs)
  then obtain p s1 where p: "put s c = Inr (p, s1)" "puts s1 bs = Inr s'" by auto
  show ?case
  proof (cases "slot q = slot p")
    case True
    from Cons.IH [OF p(2) Cons.prems(2) put_get [OF p(1) Cons.prems(2) True]] show ?thesis by auto
  next
    case False
    with Cons.prems(3) have "get s1 q = Inr b" using put_frame [OF p(1) Cons.prems(2)] by simp
    from Cons.IH [OF p(2) Cons.prems(2) this] show ?thesis by auto
  qed
qed

text \<open>
  A blob is read back under its pointer after any further writes, unless one of them is another blob
  of the same digest.
\<close>

lemma put_puts_get:
  assumes "put s b = Inr (p, s1)" "puts s1 bs = Inr s'"
  shows "\<exists>b'. get s' p = Inr b' \<and> digest b' = digest b \<and> b' \<in> insert b (set bs)"
  using puts_keep [OF assms(2) _ put_get [OF assms(1)]] put_issued [OF assms(1)] by auto

end

definition local_pointer :: "StoragePointer \<Rightarrow> bool" where
  "local_pointer p \<longleftrightarrow> HASH_HEX_PATTERN (ptr_hash p)"

lemma fs_put_Inr:
  "fs_put sha d fs b = Inr (p, fs') \<longleftrightarrow>
     buildStoragePointer ''local'' (sha b) = Inr p \<and> fs' = fs(getFilePath d (sha b) \<mapsto> b)"
  by (auto simp: fs_put_def Let_def)

lemma fs_get_Inr:
  "fs_get sha d fs p = Inr b \<longleftrightarrow> fs (getFilePath d (ptr_hash p)) = Some b \<and> sha b = ptr_hash p"
  by (auto simp: fs_get_def Let_def enforceStorageIntegrity_allow split: option.splits)

lemma fs_get_same_file:
  "fs (getFilePath d (ptr_hash p)) = gs (getFilePath d (ptr_hash p)) \<Longrightarrow> fs_get sha d fs p = fs_get sha d gs p"
  by (simp add: fs_get_def)

interpretation local_fs: storage_adapter "fs_put sha d" "fs_get sha d" "fs_delete d" ptr_hash local_pointer sha
  for sha d
proof
  fix s b p s' q
  assume put: "fs_put sha d s b = Inr (p, s')"
  then show "local_pointer p \<and> ptr_hash p = sha b"
    by (auto simp: fs_put_Inr buildStoragePointer_Inr local_pointer_def)
  then show "fs_get sha d s' q = Inr b" if "local_pointer q" "ptr_hash q = ptr_hash p"
    using put that by (simp add: fs_get_Inr fs_put_Inr)
  show "fs_get sha d s' q = fs_get sha d s q" if "local_pointer q" "ptr_hash q \<noteq> ptr_hash p"
    using put that by (intro fs_get_same_file) (auto simp: fs_put_Inr buildStoragePointer_Inr local_pointer_def getFilePath_inj)
qed (auto simp: fs_get_Inr fs_delete_def local_pointer_def getFilePath_inj intro!: fs_get_same_file)

end
