(* ===== verification/Manifests.thy ===== *)
theory Manifests
  imports Storage JsDate
begin

text \<open>
  The manifests of the asset layer: \<open>field/\<close> (definition of a field), \<open>content/\<close> (a stored
  content object) and \<open>pack/\<close> (a list of field references): builders, canonical payloads
  and identifiers.  The date \<open>opts.now ?? new Date()\<close> and the system clock are arguments.
\<close>

definition hash_payload :: "(string \<Rightarrow> string) \<Rightarrow> string throws \<Rightarrow> string throws" where
  "hash_payload sha256Hex payload = bind_throws payload (\<lambda>bytes. Inr (sha256Hex bytes))"

definition blank_text :: "string \<Rightarrow> bool" where
  "blank_text s \<longleftrightarrow> trim s = []"

definition storage_json :: "StoragePointer \<Rightarrow> js" where
  "storage_json p = JObj [(''uri'', JStr (ptr_uri p)), (''backend'', JStr (ptr_backend p)), (''hash'', JStr (ptr_hash p))]"

definition pointer_uri :: "StoragePointer \<Rightarrow> string" where
  "pointer_uri p = ''aoc://storage/'' @ ptr_backend p @ ''/0x'' @ ptr_hash p"

subsection \<open>Fields\<close>

record FieldManifest =
  fm_version :: int
  fm_field_id :: string
  fm_data_type :: string
  fm_semantics :: string
  fm_created_at :: string
  fm_field_hash :: string

definition field_payload :: "int \<Rightarrow> string \<Rightarrow> string \<Rightarrow> string \<Rightarrow> string \<Rightarrow> js" where
  "field_payload v field_id data_type semantics created_at =
     JObj [(''version'', JNum (num_of_int v)), (''field_id'', JStr field_id), (''data_type'', JStr data_type),
           (''semantics'', JStr semantics), (''created_at'', JStr created_at)]"

definition canonicalizeFieldManifestPayload :: "js \<Rightarrow> string throws" where
  "canonicalizeFieldManifestPayload payload = canonical_bytes payload"

definition buildFieldManifest ::
  "(string \<Rightarrow> string) \<Rightarrow> string \<Rightarrow> string \<Rightarrow> string \<Rightarrow> js_date \<Rightarrow> FieldManifest throws" where
  "buildFieldManifest sha256Hex field_id data_type semantics now =
     and_then
       (first_throw
         [throw_if (blank_text field_id) ''Field field_id must be non-empty.'',
          throw_if (blank_text data_type) ''Field data_type must be non-empty.'',
          throw_if (blank_text semantics) ''Field semantics must be non-empty.''])
       (bind_throws (toISOString now) (\<lambda>created_at.
        bind_throws (hash_payload sha256Hex (canonicalizeFieldManifestPayload
                      (field_payload 1 (trim field_id) (trim data_type) (trim semantics) created_at)))
          (\<lambda>field_hash.
        Inr \<lparr>fm_version = 1, fm_field_id = trim field_id, fm_data_type = trim data_type,
             fm_semantics = trim semantics, fm_created_at = created_at, fm_field_hash = field_hash\<rparr>)))"

definition buildFieldId :: "(string \<Rightarrow> string) \<Rightarrow> FieldManifest \<Rightarrow> string throws" where
  "buildFieldId sha256Hex m =
     and_then
       (first_throw
         [throw_if (blank_text (fm_field_id m)) ''Field field_id must be non-empty.'',
          throw_if (blank_text (fm_data_type m)) ''Field data_type must be non-empty.'',
          throw_if (blank_text (fm_semantics m)) ''Field semantics must be non-empty.'',
          throw_if (blank_text (fm_created_at m)) ''Field created_at must be non-empty.'',
          throw_if (\<not> HASH_HEX_PATTERN (fm_field_hash m)) ''Field hash must be 64 lowercase hex characters.''])
       (buildAOCId sha256Hex ''field'' ''definition'' ''v1'' ''0''
         (JObj [(''field_id'', JStr (fm_field_id m)), (''data_type'', JStr (fm_data_type m)),
                (''semantics'', JStr (fm_semantics m)), (''created_at'', JStr (fm_created_at m)),
                (''field_hash'', JStr (fm_field_hash m))]))"

subsection \<open>Content\<close>

record ContentManifest =
  cm_version :: int
  cm_subject :: string
  cm_content_type :: string
  cm_bytes :: js_num
  cm_storage :: StoragePointer
  cm_created_at :: string
  cm_content_hash :: string

definition canonicalizeContentManifestPayload :: "js \<Rightarrow> string throws" where
  "canonicalizeContentManifestPayload payload = canonical_bytes payload"

definition content_payload :: "string \<Rightarrow> string \<Rightarrow> js_num \<Rightarrow> StoragePointer \<Rightarrow> string \<Rightarrow> js" where
  "content_payload subject content_type bytes storage created_at =
     JObj [(''version'', JNum (num_of_int 1)), (''subject'', JStr subject), (''content_type'', JStr content_type),
           (''bytes'', JNum bytes), (''storage'', storage_json storage), (''created_at'', JStr created_at)]"

definition buildContentManifest ::
  "(string \<Rightarrow> string) \<Rightarrow> string \<Rightarrow> string \<Rightarrow> js_num \<Rightarrow> StoragePointer \<Rightarrow> js_date \<Rightarrow> ContentManifest throws" where
  "buildContentManifest sha256Hex subject content_type bytes storage now =
     and_then
       (first_throw
         [throw_if (blank_text subject) ''Content subject must be non-empty.'',
          throw_if (blank_text content_type) ''Content content_type must be non-empty.'',
          throw_if (\<not> isInteger bytes \<or> num_le_zero bytes) ''Content bytes must be a positive integer.'',
          throw_if (blank_text (ptr_backend storage)) ''Content storage backend must be non-empty.'',
          throw_if (\<not> HASH_HEX_PATTERN (ptr_hash storage)) ''Content storage hash must be 64 lowercase hex characters.'',
          throw_if (ptr_uri storage \<noteq> pointer_uri storage) ''Content storage uri must match backend and hash.''])
       (bind_throws (toISOString now) (\<lambda>created_at.
        bind_throws (hash_payload sha256Hex (canonicalizeContentManifestPayload
                      (content_payload (trim subject) (trim content_type) bytes storage created_at)))
          (\<lambda>content_hash.
        Inr \<lparr>cm_version = 1, cm_subject = trim subject, cm_content_type = trim content_type, cm_bytes = bytes,
             cm_storage = storage, cm_created_at = created_at, cm_content_hash = content_hash\<rparr>)))"

definition buildContentId :: "(string \<Rightarrow> string) \<Rightarrow> ContentManifest \<Rightarrow> string throws" where
  "buildContentId sha256Hex m =
     and_then
       (first_throw
         [throw_if (blank_text (cm_subject m)) ''Content subject must be non-empty.'',
          throw_if (blank_text (cm_content_type m)) ''Content content_type must be non-empty.'',
          throw_if (\<not> isInteger (cm_bytes m) \<or> num_le_zero (cm_bytes m)) ''Content bytes must be a positive integer.'',
          throw_if (blank_text (cm_created_at m)) ''Content created_at must be non-empty.'',
          throw_if (\<not> HASH_HEX_PATTERN (cm_content_hash m)) ''Content hash must be 64 lowercase hex characters.''])
       (buildAOCId sha256Hex ''content'' ''object'' ''v1'' ''0''
         (JObj [(''version'', JNum (num_of_int (cm_version m))), (''subject'', JStr (cm_subject m)),
                (''content_type'', JStr (cm_content_type m)), (''bytes'', JNum (cm_bytes m)),
                (''storage'', storage_json (cm_storage m)), (''created_at'', JStr (cm_created_at m)),
                (''content_hash'', JStr (cm_content_hash m))]))"

subsection \<open>Packs\<close>

record FieldReference =
  fr_field_id :: string
  fr_content_id :: string
  fr_storage :: StoragePointer
  fr_bytes :: js_num

record PackManifest =
  pk_version :: string
  pk_subject :: string
  pk_created_at :: js_num
  pk_fields :: "FieldReference list"
  pk_hash :: string

definition MAX_SUBJECT_BYTES :: nat where "MAX_SUBJECT_BYTES = 512"
definition MAX_FIELDS :: nat where "MAX_FIELDS = 65535"
definition MAX_FIELD_ID_LENGTH :: nat where "MAX_FIELD_ID_LENGTH = 128"
definition CLOCK_SKEW_TOLERANCE_SECONDS :: int where "CLOCK_SKEW_TOLERANCE_SECONDS = 300"

definition pack_validateVersion :: "string \<Rightarrow> checked" where
  "pack_validateVersion version =
     throw_if (\<not> VERSION_PATTERN version) ''Pack version must match pattern MAJOR.MINOR (e.g., \"1.0\").''"

definition pack_validateSubject :: "string \<Rightarrow> checked" where
  "pack_validateSubject subject =
     first_throw
       [throw_if (blank_text subject) ''Pack subject must be non-empty.'',
        throw_if (length (utf8_encode subject) > MAX_SUBJECT_BYTES)
          (''Pack subject must be at most '' @ show_nat MAX_SUBJECT_BYTES @ '' bytes.'')]"

text \<open>\<open>x > n\<close> for a number and an integer; false on NaN.\<close>

definition num_gt_int :: "js_num \<Rightarrow> int \<Rightarrow> bool" where
  "num_gt_int x n =
     (case x of
        Dec m e \<Rightarrow> if 0 \<le> e then m * 10 ^ nat e > n else m > n * 10 ^ nat (- e)
      | NegZero \<Rightarrow> n < 0 | Infinity \<Rightarrow> True | _ \<Rightarrow> False)"

definition pack_validateCreatedAt :: "js_num \<Rightarrow> int \<Rightarrow> checked" where
  "pack_validateCreatedAt created_at nowSeconds =
     first_throw
       [throw_if (\<not> isInteger created_at \<or> num_le_zero created_at)
          ''Pack created_at must be a positive integer (Unix timestamp).'',
        throw_if (num_gt_int created_at (nowSeconds + CLOCK_SKEW_TOLERANCE_SECONDS))
          ''Pack created_at must not be in the future.'']"

definition ref_error :: "nat \<Rightarrow> string \<Rightarrow> string" where
  "ref_error i msg = ''Field reference '' @ show_nat i @ '': '' @ msg"

definition pack_validateFieldId :: "string \<Rightarrow> nat \<Rightarrow> checked" where
  "pack_validateFieldId field_id i =
     first_throw
       [throw_if (field_id = []) (ref_error i ''field_id must be non-empty.''),
        throw_if (length field_id > MAX_FIELD_ID_LENGTH)
          (ref_error i (''field_id must be at most '' @ show_nat MAX_FIELD_ID_LENGTH @ '' characters.'')),
        throw_if (\<not> FIELD_ID_PATTERN field_id) (ref_error i ''field_id must match pattern ^[a-z][a-z0-9_-]*$.'')]"

definition pack_validateContentId :: "string \<Rightarrow> nat \<Rightarrow> checked" where
  "pack_validateContentId content_id i =
     throw_if (\<not> HASH_HEX_PATTERN content_id) (ref_error i ''content_id must be 64 lowercase hex characters.'')"

definition pack_validateBytes :: "js_num \<Rightarrow> nat \<Rightarrow> checked" where
  "pack_validateBytes bytes i =
     throw_if (\<not> isInteger bytes \<or> num_le_zero bytes) (ref_error i ''bytes must be a positive integer.'')"

definition pack_validateStoragePointer :: "StoragePointer \<Rightarrow> nat \<Rightarrow> checked" where
  "pack_validateStoragePointer storage i =
     first_throw
       [throw_if (\<not> BACKEND_PATTERN (ptr_backend storage)) (ref_error i ''storage backend must match pattern.''),
        throw_if (\<not> HASH_HEX_PATTERN (ptr_hash storage)) (ref_error i ''storage hash must be 64 lowercase hex characters.''),
        throw_if (ptr_uri storage \<noteq> pointer_uri storage) (ref_error i ''storage uri must match backend and hash.'')]"

definition pack_validateFieldReference :: "FieldReference \<Rightarrow> nat \<Rightarrow> checked" where
  "pack_validateFieldReference r i =
     first_throw
       [pack_validateFieldId (fr_field_id r) i, pack_validateContentId (fr_content_id r) i,
        pack_validateBytes (fr_bytes r) i, pack_validateStoragePointer (fr_storage r) i]"

fun validate_fields_from :: "nat \<Rightarrow> string set \<Rightarrow> FieldReference list \<Rightarrow> checked" where
  "validate_fields_from i seen [] = returns"
| "validate_fields_from i seen (r # rs) =
     first_throw
       [pack_validateFieldReference r i,
        throw_if (fr_field_id r \<in> seen)
          (''Pack fields contain duplicate field_id: '' @ fr_field_id r @ ''.''),
        validate_fields_from (Suc i) (insert (fr_field_id r) seen) rs]"

definition pack_validateFields :: "FieldReference list \<Rightarrow> checked" where
  "pack_validateFields flds =
     first_throw
       [throw_if (flds = []) ''Pack fields must be a non-empty array.'',
        throw_if (length flds > MAX_FIELDS)
          (''Pack fields must not exceed '' @ show_nat MAX_FIELDS @ '' elements.''),
        validate_fields_from 0 {} flds]"

text \<open>
  The payload: the fields sorted by \<open>localeCompare\<close> of their identifiers, a function of the host
  that is a parameter.
\<close>

definition canonicalizeFieldReference :: "FieldReference \<Rightarrow> js" where
  "canonicalizeFieldReference r =
     JObj [(''bytes'', JNum (fr_bytes r)), (''content_id'', JStr (fr_content_id r)), (''field_id'', JStr (fr_field_id r)),
           (''storage'', JObj [(''backend'', JStr (ptr_backend (fr_storage r))), (''hash'', JStr (ptr_hash (fr_storage r))),
                             (''uri'', JStr (ptr_uri (fr_storage r)))])]"

definition canonicalizePackManifestPayload ::
  "(string \<Rightarrow> string \<Rightarrow> int) \<Rightarrow> string \<Rightarrow> string \<Rightarrow> js_num \<Rightarrow> FieldReference list \<Rightarrow> string throws" where
  "canonicalizePackManifestPayload localeCompare version subject created_at flds =
     (let sortedFields = sort_by (\<lambda>a b. localeCompare (fr_field_id a) (fr_field_id b)) flds in
      canonical_bytes
        (JObj [(''created_at'', JNum created_at), (''fields'', JArr (map canonicalizeFieldReference sortedFields)),
               (''subject'', JStr subject), (''version'', JStr version)]))"

definition seconds_of :: "js_date \<Rightarrow> js_num" where
  "seconds_of d = (case d of None \<Rightarrow> NaN | Some t \<Rightarrow> num_of_int (t div 1000))"

definition buildPackManifest ::
  "(string \<Rightarrow> string) \<Rightarrow> (string \<Rightarrow> string \<Rightarrow> int) \<Rightarrow> string \<Rightarrow> FieldReference list \<Rightarrow> js_date \<Rightarrow> int \<Rightarrow> PackManifest throws" where
  "buildPackManifest sha256Hex localeCompare subject flds now systemMillis =
     (let version = ''1.0'';
          created_at = seconds_of now;
          nowSeconds = systemMillis div 1000
      in and_then
           (first_throw
             [pack_validateVersion version, pack_validateSubject subject,
              pack_validateCreatedAt created_at nowSeconds, pack_validateFields flds])
           (bind_throws
             (hash_payload sha256Hex
               (canonicalizePackManifestPayload localeCompare version (trim subject) created_at flds))
             (\<lambda>pack_hash.
               Inr \<lparr>pk_version = version, pk_subject = trim subject, pk_created_at = created_at,
                    pk_fields = flds, pk_hash = pack_hash\<rparr>)))"

definition reference_json :: "FieldReference \<Rightarrow> js" where
  "reference_json r =
     JObj [(''field_id'', JStr (fr_field_id r)), (''content_id'', JStr (fr_content_id r)),
           (''storage'', storage_json (fr_storage r)), (''bytes'', JNum (fr_bytes r))]"

definition buildPackId :: "(string \<Rightarrow> string) \<Rightarrow> PackManifest \<Rightarrow> string throws" where
  "buildPackId sha256Hex m =
     and_then
       (first_throw
         [throw_if (blank_text (pk_subject m)) ''Pack subject must be non-empty.'',
          throw_if (\<not> VERSION_PATTERN (pk_version m)) ''Pack version must match pattern MAJOR.MINOR.'',
          throw_if (\<not> isInteger (pk_created_at m) \<or> num_le_zero (pk_created_at m))
            ''Pack created_at must be a positive integer.'',
          throw_if (pk_fields m = []) ''Pack fields must be a non-empty array.'',
          throw_if (\<not> HASH_HEX_PATTERN (pk_hash m)) ''Pack hash must be 64 lowercase hex characters.''])
       (buildAOCId sha256Hex ''pack'' ''object'' ''v1'' ''0''
         (JObj [(''version'', JStr (pk_version m)), (''subject'', JStr (pk_subject m)),
                (''created_at'', JNum (pk_created_at m)), (''fields'', JArr (map reference_json (pk_fields m))),
                (''pack_hash'', JStr (pk_hash m))]))"

subsection \<open>What the builders accept\<close>

lemma validate_fields_from_returns:
  "validate_fields_from i seen rs = None \<longleftrightarrow>
     (\<forall>k < length rs. pack_validateFieldReference (rs ! k) (i + k) = None) \<and>
     distinct (map fr_field_id rs) \<and> fr_field_id ` set rs \<inter> seen = {}"
proof (induction rs arbitrary: i seen)
  case (Cons r rs)
  have "(\<forall>k < length (r # rs). pack_validateFieldReference ((r # rs) ! k) (i + k) = None) \<longleftrightarrow>
      pack_validateFieldReference r i = None \<and>
      (\<forall>k < length rs. pack_validateFieldReference (rs ! k) (Suc i + k) = None)"
    by (auto simp: less_Suc_eq_0_disj)
  with Cons show ?case by auto
qed simp

definition valid_reference :: "FieldReference \<Rightarrow> bool" where
  "valid_reference r \<longleftrightarrow>
     FIELD_ID_PATTERN (fr_field_id r) \<and> length (fr_field_id r) \<le> 128 \<and> HASH_HEX_PATTERN (fr_content_id r) \<and>
     isInteger (fr_bytes r) \<and> \<not> num_le_zero (fr_bytes r) \<and> BACKEND_PATTERN (ptr_backend (fr_storage r)) \<and>
     HASH_HEX_PATTERN (ptr_hash (fr_storage r)) \<and> ptr_uri (fr_storage r) = pointer_uri (fr_storage r)"

lemma pack_validateFieldReference_returns:
  "pack_validateFieldReference r i = None \<longleftrightarrow> valid_reference r"
  by (auto simp: pack_validateFieldReference_def pack_validateFieldId_def pack_validateContentId_def
      pack_validateBytes_def pack_validateStoragePointer_def valid_reference_def MAX_FIELD_ID_LENGTH_def)

lemma pack_validateFields_returns [throws_simps]:
  "pack_validateFields rs = None \<longleftrightarrow>
     rs \<noteq> [] \<and> length rs \<le> 65535 \<and> (\<forall>r \<in> set rs. valid_reference r) \<and> distinct (map fr_field_id rs)"
  by (auto simp: pack_validateFields_def validate_fields_from_returns pack_validateFieldReference_returns
      all_set_conv_all_nth MAX_FIELDS_def)

text \<open>A built pointer passes the checks on field references and on content manifests.\<close>

lemma buildStoragePointer_valid:
  "buildStoragePointer b h = Inr p \<Longrightarrow> pack_validateStoragePointer p i = None \<and> ptr_uri p = pointer_uri p"
  by (auto simp: buildStoragePointer_Inr pack_validateStoragePointer_def pointer_uri_def STORAGE_PREFIX_def)

text \<open>The hash of a pack does not depend on the order in which its fields are listed.\<close>

lemma total_on_by_image:
  assumes t: "total_on_by cmp (f ` A)" and i: "inj_on f A"
  shows "total_on_by (\<lambda>a b. cmp (f a) (f b)) A"
  unfolding total_on_by_def
proof (intro conjI ballI impI)
  fix x y assume A: "x \<in> A" "y \<in> A"
  then show "cmp (f x) (f y) \<le> 0 \<or> cmp (f y) (f x) \<le> 0"
    using t unfolding total_on_by_def by blast
  show "x = y" if "cmp (f x) (f y) \<le> 0 \<and> cmp (f y) (f x) \<le> 0"
  proof (rule inj_onD [OF i _ A])
    show "f x = f y" using t A that unfolding total_on_by_def by blast
  qed
  fix z assume z: "z \<in> A" "cmp (f x) (f y) \<le> 0 \<and> cmp (f y) (f z) \<le> 0"
  have "\<forall>x \<in> f ` A. \<forall>y \<in> f ` A. \<forall>z \<in> f ` A. cmp x y \<le> 0 \<and> cmp y z \<le> 0 \<longrightarrow> cmp x z \<le> 0"
    by (rule conjunct2 [OF t [unfolded total_on_by_def]])
  from this [rule_format, OF imageI imageI imageI, OF A z(1) z(2)]
  show "cmp (f x) (f z) \<le> 0" .
qed

lemma field_order_total:
  assumes "total_on_by localeCompare (fr_field_id ` set rs)" "distinct (map fr_field_id rs)"
  shows "total_on_by (\<lambda>a b. localeCompare (fr_field_id a) (fr_field_id b)) (set rs)"
  by (rule total_on_by_image [of localeCompare fr_field_id "set rs"])
    (use assms in \<open>simp_all only: distinct_map\<close>)

lemma pack_payload_order:
  assumes "mset rs = mset rs'" "distinct (map fr_field_id rs)"
    "total_on_by localeCompare (fr_field_id ` set rs)"
  shows "canonicalizePackManifestPayload localeCompare v s c rs = canonicalizePackManifestPayload localeCompare v s c rs'"
  using sort_by_perm [OF assms(1) field_order_total [OF assms(3,2)]]
  by (simp add: canonicalizePackManifestPayload_def)

lemma buildPackManifest_Inr:
  "buildPackManifest sha cmp s flds now sys = Inr m \<longleftrightarrow>
     pack_validateSubject s = None \<and> pack_validateCreatedAt (seconds_of now) (sys div 1000) = None \<and>
     pack_validateFields flds = None \<and>
     (\<exists>b. canonicalizePackManifestPayload cmp ''1.0'' (trim s) (seconds_of now) flds = Inr b \<and>
        m = \<lparr>pk_version = ''1.0'', pk_subject = trim s, pk_created_at = seconds_of now,
             pk_fields = flds, pk_hash = sha b\<rparr>)"
proof -
  have "pack_validateVersion ''1.0'' = None"
    by (simp add: pack_validateVersion_def) code_simp
  then show ?thesis by (auto simp: buildPackManifest_def Let_def hash_payload_def)
qed

end
