(* ===== verification/Samples.thy ===== *)
theory Samples
  imports Consumption Manifests
begin

text \<open>
  Concrete inputs for the witnesses: a host whose hash is constant and whose \<open>localeCompare\<close>
  compares by code units, a consent, a token minted from it, and requests for it.
\<close>

definition hex_a :: string where "hex_a = replicate 64 CHR ''a''"
definition hex_b :: string where "hex_b = replicate 64 CHR ''b''"
definition hex_c :: string where "hex_c = replicate 64 CHR ''c''"

definition sample_sha :: "string \<Rightarrow> string" where
  "sample_sha bytes = hex_a"

definition sample_cmp :: "string \<Rightarrow> string \<Rightarrow> int" where
  "sample_cmp s t = (if s < t then - 1 else if s = t then 0 else 1)"

definition sample_env :: host_env where
  "sample_env = \<lparr>e_sha = sample_sha, e_cmp = sample_cmp, e_date = (\<lambda>s. None)\<rparr>"

text \<open>2025-01-15T12:00:00Z\<close>

definition noon :: int where "noon = 1736942400000"

definition sample_scope :: "ScopeEntry list" where
  "sample_scope = [\<lparr>se_type = ''content'', se_ref = hex_b\<rparr>, \<lparr>se_type = ''pack'', se_ref = hex_c\<rparr>]"

definition sample_options :: BuildConsentOptions where
  "sample_options = \<lparr>bo_expires_at = Some ''2026-01-15T12:00:00Z'', bo_prior_consent = None,
     bo_revoke_target = None, bo_marketMakerId = None, bo_pricing = None\<rparr>"

definition sample_consent :: ConsentObject where
  "sample_consent =
     with_hash (consent_payload ''did:aoc:alice'' ''did:aoc:bob'' ''grant'' sample_scope [''read'', ''store'']
                  sample_options ''2025-01-15T12:00:00Z'') hex_a"

definition sample_token :: CapabilityToken where
  "sample_token =
     with_capability_hash
       (mint_payload sample_consent [\<lparr>se_type = ''content'', se_ref = hex_b\<rparr>] [''read''] ''2025-01-15T12:04:00Z''
          None None ''2025-01-15T12:00:00Z'' hex_c) hex_a"

definition sample_capability :: RawCapability where
  "sample_capability = CapabilityToken.extend sample_token (RawCapability.fields None None None)"

definition sample_request :: ConsumptionRequest where
  "sample_request =
     \<lparr>w_capability = Some sample_capability, w_consent = Some sample_consent, w_action = ''read'',
      w_resource = ResourceEntry \<lparr>se_type = ''content'', se_ref = hex_b\<rparr>, w_marketMakerId = None,
      w_now = NowDate (Some (noon + 60000)), w_usageContext = None, w_paid = False, w_policyContext = None,
      w_rateLimit = None, w_marketMakerRegistry = None, w_usageHook = None, w_policyHook = None,
      w_consume = True, w_requireReplayProtection = True\<rparr>"

definition sample_state :: "(string set, string set, ConsentUsageRegistry, RateLimitRegistry) consume_state" where
  "sample_state = \<lparr>cs_nonce = Some {}, cs_rev = \<lparr>supplied = None, module_default = {}\<rparr>,
                   cs_usage = Some [], cs_rate = []\<rparr>"

text \<open>Unfolding of the samples for evaluation.\<close>

lemmas sample_defs = sample_env_def sample_consent_def sample_token_def sample_capability_def sample_request_def
  sample_state_def sample_options_def sample_scope_def

lemma sample_sha_hex: "HASH_HEX_PATTERN (sample_sha b)"
proof -
  have "HASH_HEX_PATTERN hex_a" by code_simp
  then show ?thesis by (simp add: sample_sha_def)
qed

subsection \<open>The samples are valid\<close>

lemma canonical_bytes_ok: "json_ok v \<Longrightarrow> \<exists>b. canonical_bytes v = Inr b"
  using canonicalizeJSON_accepts [of v] by (auto simp: canonical_bytes_def)

lemma sample_token_hash: "computeCapabilityHash sample_sha cmp p = Inr hex_a"
proof -
  have "json_ok (JObj (capability_json cmp p))"
    by (auto simp: capability_json_def opt_member_def nullable_def scope_json_def permissions_json_def
        canonicalizeScopeEntry_def list_all_iff split: option.splits)
  from canonical_bytes_ok [OF this] show ?thesis
    by (auto simp: computeCapabilityHash_def canonicalizeCapabilityPayload_def sample_sha_def)
qed

lemma sample_consent_hash:
  assumes "c_pricing p = None"
  shows "computeConsentHash sample_sha cmp p = Inr hex_a"
proof -
  have "json_ok (JObj (consent_json cmp p))"
    using assms by (auto simp: consent_json_def opt_member_def nullable_def scope_json_def permissions_json_def
        canonicalizeScopeEntry_def list_all_iff split: option.splits)
  from canonical_bytes_ok [OF this] show ?thesis
    by (auto simp: computeConsentHash_def canonicalizeConsentPayload_def sample_sha_def)
qed

lemma sample_hex: "HASH_HEX_PATTERN hex_a" "HASH_HEX_PATTERN hex_b" "HASH_HEX_PATTERN hex_c"
  by code_simp+

lemma sample_dids: "valid_did ''did:aoc:alice''" "valid_did ''did:aoc:bob''"
  by code_simp+

lemma sample_iso: "ISO8601_UTC_PATTERN ''2025-01-15T12:00:00Z''" "ISO8601_UTC_PATTERN ''2025-01-15T12:04:00Z''"
  "ISO8601_UTC_PATTERN ''2026-01-15T12:00:00Z''"
  by code_simp+

lemma sample_version: "VERSION_PATTERN ''1.0''"
  by code_simp

lemma sample_order: "''2025-01-15T12:00:00Z'' < ''2025-01-15T12:04:00Z''"
  "''2025-01-15T12:00:00Z'' < ''2026-01-15T12:00:00Z''" "''2025-01-15T12:04:00Z'' < ''2026-01-15T12:00:00Z''"
  by code_simp+

lemma hex_distinct [simp]: "hex_a \<noteq> hex_b" "hex_a \<noteq> hex_c" "hex_b \<noteq> hex_c"
  by (simp_all add: hex_a_def hex_b_def hex_c_def)

lemma sample_valid_payload:
  "valid_consent (consent_payload ''did:aoc:alice'' ''did:aoc:bob'' ''grant'' sample_scope [''read'', ''store'']
     sample_options ''2025-01-15T12:00:00Z'')"
proof -
  have "valid_scope sample_scope"
    using sample_hex by (simp add: valid_scope_def sample_scope_def valid_entry_def)
  moreover have "valid_permissions [''read'', ''store'']"
    by (simp add: valid_permissions_def canonicalCapabilityActions_def)
  ultimately show ?thesis
    using sample_dids sample_iso sample_version sample_order
    by (simp add: valid_consent_def valid_grant_def consent_payload_def sample_options_def)
qed

lemma sample_consent_valid: "validateConsentObject sample_sha sample_cmp sample_consent = None"
  unfolding validateConsentObject_returns sample_consent_def with_hash_consent with_hash_simps
  using sample_valid_payload sample_hex by (simp add: sample_consent_hash consent_payload_def sample_options_def)

lemma sample_consent_built:
  "buildConsentObject sample_sha sample_cmp ''did:aoc:alice'' ''did:aoc:bob'' ''grant'' sample_scope [''read'', ''store'']
     sample_options (Some noon) = Inr sample_consent"
proof -
  have "iso_now (Some noon) = Inr ''2025-01-15T12:00:00Z''" by code_simp
  then show ?thesis
    unfolding buildConsentObject_Inr sample_consent_def
    using sample_valid_payload by (auto simp: sample_consent_hash consent_payload_def sample_options_def)
qed

lemma sample_consent_simps [simp]:
  "c_subject sample_consent = ''did:aoc:alice''" "c_grantee sample_consent = ''did:aoc:bob''"
  "c_action sample_consent = ''grant''" "c_scope sample_consent = sample_scope"
  "c_permissions sample_consent = [''read'', ''store'']" "c_marketMakerId sample_consent = None"
  "c_pricing sample_consent = None" "c_issued_at sample_consent = ''2025-01-15T12:00:00Z''"
  "c_expires_at sample_consent = Some ''2026-01-15T12:00:00Z''" "c_consent_hash sample_consent = hex_a"
  by (simp_all add: sample_consent_def consent_payload_def sample_options_def)

lemma sample_token_simps [simp]:
  "t_version sample_token = ''1.0''" "t_subject sample_token = ''did:aoc:alice''" "t_grantee sample_token = ''did:aoc:bob''"
  "t_consent_ref sample_token = hex_a" "t_scope sample_token = [\<lparr>se_type = ''content'', se_ref = hex_b\<rparr>]"
  "t_permissions sample_token = [''read'']" "t_marketMakerId sample_token = None"
  "t_issued_at sample_token = ''2025-01-15T12:00:00Z''" "t_not_before sample_token = None"
  "t_expires_at sample_token = ''2025-01-15T12:04:00Z''" "t_token_id sample_token = hex_c"
  "t_capability_hash sample_token = hex_a"
  by (simp_all add: sample_token_def)

lemma sample_token_valid_payload: "valid_token sample_token"
proof -
  have "valid_scope (t_scope sample_token)"
    using sample_hex by (simp add: valid_scope_def valid_entry_def)
  moreover have "valid_permissions (t_permissions sample_token)"
    by (simp add: valid_permissions_def canonicalCapabilityActions_def)
  ultimately show ?thesis
    using sample_dids sample_iso sample_version sample_order sample_hex
    by (simp add: valid_token_def valid_times_def)
qed

lemma sample_token_valid: "validateCapabilityToken sample_sha sample_cmp sample_token None = None"
  using sample_token_valid_payload sample_hex by (simp add: validateCapabilityToken_returns sample_token_hash)

lemma sample_token_derived: "derived_from sample_token sample_consent"
  using sample_order by (simp add: derived_from_def times_within_def sample_scope_def less_imp_le)

lemma sample_token_minted:
  "mintCapabilityToken sample_sha sample_cmp sample_consent [\<lparr>se_type = ''content'', se_ref = hex_b\<rparr>] [''read'']
     ''2025-01-15T12:04:00Z'' None None (Some noon) hex_c = Inr sample_token"
proof -
  have "iso_now (Some noon) = Inr ''2025-01-15T12:00:00Z''" by code_simp
  then show ?thesis
    unfolding mintCapabilityToken_Inr
    using sample_token_derived sample_token_valid_payload by (auto simp: sample_token_def sample_token_hash)
qed

lemma as_token_sample [simp]: "as_token sample_capability = sample_token"
  by (cases sample_token) (simp add: as_token_def sample_capability_def CapabilityToken.defs RawCapability.defs)

lemma sample_capability_simps [simp]:
  "t_version sample_capability = t_version sample_token" "t_subject sample_capability = t_subject sample_token"
  "t_grantee sample_capability = t_grantee sample_token" "t_consent_ref sample_capability = t_consent_ref sample_token"
  "t_scope sample_capability = t_scope sample_token" "t_permissions sample_capability = t_permissions sample_token"
  "t_marketMakerId sample_capability = t_marketMakerId sample_token"
  "t_issued_at sample_capability = t_issued_at sample_token" "t_not_before sample_capability = t_not_before sample_token"
  "t_expires_at sample_capability = t_expires_at sample_token" "t_token_id sample_capability = t_token_id sample_token"
  "t_capability_hash sample_capability = t_capability_hash sample_token"
  "rc_status sample_capability = None" "rc_market_maker_id sample_capability = None" "rc_startsAt sample_capability = None"
  by (cases sample_token; simp add: sample_capability_def CapabilityToken.defs RawCapability.defs)+

lemma sample_env_simps [simp]: "e_sha sample_env = sample_sha" "e_cmp sample_env = sample_cmp"
  by (simp_all add: sample_env_def)

definition sample_entry :: ScopeEntry where
  "sample_entry = \<lparr>se_type = ''content'', se_ref = hex_b\<rparr>"

lemma sample_request_capability: "w_capability sample_request = Some sample_capability"
  by (simp add: sample_request_def)

lemma sample_prepare: "consume_prepare sample_env sample_request = Inr (sample_capability, ''read'', sample_entry)"
proof -
  have "consume_normalizeAction ''read'' = Inr ''read''" by code_simp
  moreover have "consume_normalizeResource (ResourceEntry \<lparr>se_type = ''content'', se_ref = hex_b\<rparr>) = Inr sample_entry"
    by code_simp
  ultimately show ?thesis
    by (simp add: consume_prepare_def sample_request_def sample_token_valid)
qed

definition sample_normalized :: NormalizedCapability where
  "sample_normalized =
     \<lparr>n_raw = sample_capability, n_permissions = [''read''], n_scope = [sample_entry], n_notBefore = None,
      n_expiresAt = ''2025-01-15T12:04:00Z'', n_status = None, n_marketMakerId = None, n_capabilityHash = hex_a,
      n_tokenId = hex_c, n_consentRef = hex_a\<rparr>"

lemma sample_normalize: "normalizeCapability sample_env (Some sample_capability) = Inr sample_normalized"
  by (simp add: normalizeCapability_def sample_token_valid sample_normalized_def sample_entry_def Let_def)

lemma sample_access:
  "d_allowed (evaluateCapabilityAccess sample_env
     (buildEvaluationRequest sample_request sample_capability ''read'' sample_entry (iso_seconds (noon + 60000))) clock)"
proof -
  define at where "at = ''2025-01-15T12:01:00Z''"
  have at: "iso_seconds (noon + 60000) = at" unfolding at_def by code_simp
  let ?q = "buildEvaluationRequest sample_request sample_capability ''read'' sample_entry at"
  have now: "normalizeEvaluationTime sample_env (NowText at) clock = Inr at"
  proof -
    have "date_parse (e_date sample_env) at = Some (noon + 60000)" unfolding at_def by code_simp
    then show ?thesis by (simp add: normalizeEvaluationTime_def now_date_def at)
  qed
  have act: "validated_action ''read'' = None" "trim ''read'' = ''read''" by code_simp+
  let ?r = "\<lparr>r_capability = sample_normalized, r_consent = Some sample_consent, r_action = ''read'',
      r_resource = sample_entry, r_marketMakerId = None, r_evaluatedAt = at, r_usageContext = None,
      r_policyContext = None, r_metadata = None\<rparr>"
  have nrm: "normalizeCapabilityAccessRequest sample_env ?q at = Inr ?r"
    using sample_iso act
    by (simp add: normalizeCapabilityAccessRequest_def buildEvaluationRequest_def sample_request_def sample_normalize
        validateIsoTimestamp_def validated_consent_def sample_consent_valid normalizeResource_def sample_entry_def
        sample_normalized_def)
  have times: "temporal_reason sample_env ?r = None"
  proof -
    have "date_parse (e_date sample_env) ''2025-01-15T12:04:00Z'' = Some (noon + 240000)"
      "date_parse (e_date sample_env) ''2025-01-15T12:00:00Z'' = Some noon"
      "date_parse (e_date sample_env) ''2026-01-15T12:00:00Z'' = Some (noon + 31536000000)"
      "date_parse (e_date sample_env) at = Some (noon + 60000)"
      unfolding at_def by code_simp+
    then show ?thesis
      by (simp add: temporal_reason_def sample_normalized_def parseTimestampOrNull_def date_le_def date_gt_def Let_def)
  qed
  have "request_authorized sample_env ?q ?r"
    using times
    by (simp add: request_authorized_def evaluateConsentBinding_def Let_def sample_normalized_def market_maker_ok_def
        hook_allows_def buildEvaluationRequest_def sample_request_def)
  then show ?thesis
    unfolding at evaluate_allowed using now nrm
    by (metis AccessRequest.select_convs(6) buildEvaluationRequest_def)
qed

lemma sample_consumable:
  "consumable sample_env mem_consume_ops sample_request sample_capability ''read'' sample_entry (noon + 60000) clock sample_state"
proof -
  have d: "date_parse (e_date sample_env) ''2025-01-15T12:04:00Z'' = Some (noon + 240000)"
    "date_parse (e_date sample_env) ''2025-01-15T12:00:00Z'' = Some noon"
    by code_simp+
  have skew: "skew_ok sample_env sample_capability (Some sample_consent) (noon + 60000)"
    using d by (simp add: skew_ok_def within_skew_def)
  have bound: "consent_ok sample_env sample_capability (Some sample_consent)"
    by (simp add: consent_ok_def sample_consent_valid bound_to_def sample_scope_def)
  show ?thesis
    unfolding consumable_def using sample_access skew bound
    by (simp add: sample_request_def sample_state_def rate_ok_def revoked_now_def replay_ok_def mem_consume_ops_def
        mem_isRevoked_def mem_hasSeen_def in_use_def)
qed

lemma sample_consumed:
  "\<exists>d st. consumeCapabilityAccess sample_env mem_consume_ops sample_request clock sample_state = Inr (d, st) \<and>
     x_allowed d \<and> x_consumed d \<and> hex_c \<in> the (cs_nonce st)"
proof -
  let ?r = "consume_at sample_env mem_consume_ops sample_request (noon + 60000) clock sample_state"
  have "now_date sample_env (w_now sample_request) clock = Some (noon + 60000)"
    by (simp add: now_date_def sample_request_def)
  then have r: "consumeCapabilityAccess sample_env mem_consume_ops sample_request clock sample_state = Inr (fst ?r, snd ?r)"
    by (simp add: consumeCapabilityAccess_def)
  have "x_allowed (fst ?r) \<and> snd ?r = consume_effect mem_consume_ops sample_request sample_capability (noon + 60000) sample_state \<and>
      x_consumed (fst ?r) = (cs_nonce sample_state \<noteq> None \<and> w_consume sample_request)"
    using consume_at_cases [of sample_env mem_consume_ops sample_request "noon + 60000" clock sample_state]
      sample_prepare sample_consumable [of clock] by auto
  then have "x_allowed (fst ?r) \<and> x_consumed (fst ?r) \<and> hex_c \<in> the (cs_nonce (snd ?r))"
    by (simp add: consume_nonce_def sample_state_def sample_request_def mem_consume_ops_def mem_markSeen_def mem_cleanup_def)
  with r show ?thesis by blast
qed

subsection \<open>A request without a consent\<close>

definition simple_request :: "RawCapability \<Rightarrow> string option \<Rightarrow> mm_view option \<Rightarrow> string \<Rightarrow> AccessRequest" where
  "simple_request cap m reg at =
     \<lparr>q_capability = Some cap, q_consent = None, q_action = ''read'', q_resource = ResourceEntry sample_entry,
      q_marketMakerId = m, q_now = NowText at, q_usageContext = None, q_policyContext = None, q_metadata = None,
      q_marketMakerRegistry = reg, q_usageHook = None, q_policyHook = None\<rparr>"

lemma simple_request_allowed:
  assumes "validateCapabilityToken sample_sha sample_cmp (as_token cap) None = None"
    "rc_status cap = None" "t_not_before cap = None" "rc_startsAt cap = None"
    "t_permissions cap = [''read'']" "t_scope cap = [sample_entry]" "ISO8601_UTC_PATTERN (t_expires_at cap)"
    "normalizeEvaluationTime sample_env (NowText at) clock = Inr at"
    "\<not> date_le (date_parse (e_date sample_env) (t_expires_at cap)) (date_parse (e_date sample_env) (t_issued_at cap))"
    "\<not> date_gt (date_parse (e_date sample_env) at) (date_parse (e_date sample_env) (t_expires_at cap))"
    "case (case t_marketMakerId cap of Some x \<Rightarrow> Some x | None \<Rightarrow> rc_market_maker_id cap) of None \<Rightarrow> True
     | Some x \<Rightarrow> m = Some x \<and> x \<noteq> [] \<and> (\<exists>v. reg = Some v \<and> mv_exists v x \<and>
         mv_getStatus v x \<notin> {Some ''deprecated'', Some ''revoked''})"
  shows "d_allowed (evaluateCapabilityAccess sample_env (simple_request cap m reg at) clock)"
proof -
  have act: "validated_action ''read'' = None" "trim ''read'' = ''read''" by code_simp+
  obtain n where n: "normalizeCapability sample_env (Some cap) = Inr n" "n_notBefore n = None" "n_status n = None"
    using assms(1-4) by (simp add: normalizeCapability_def Let_def)
  note N = normalizeCapability_Inr [OF n(1)]
  let ?r = "\<lparr>r_capability = n, r_consent = None, r_action = ''read'', r_resource = sample_entry, r_marketMakerId = m,
      r_evaluatedAt = at, r_usageContext = None, r_policyContext = None, r_metadata = None\<rparr>"
  have res: "normalizeResource (ResourceEntry sample_entry) = Inr sample_entry"
    by (simp add: normalizeResource_def sample_entry_def)
  have nrm: "normalizeCapabilityAccessRequest sample_env (simple_request cap m reg at) at = Inr ?r"
    using n N assms(7) act res
    by (simp add: normalizeCapabilityAccessRequest_def simple_request_def validateIsoTimestamp_def validated_consent_def)
  have "temporal_reason sample_env ?r = None"
    using n(2) N assms(9,10) by (simp add: temporal_reason_def parseTimestampOrNull_def Let_def)
  moreover have "market_maker_ok reg ?r"
    using assms(11) N by (auto simp: market_maker_ok_def split: option.splits)
  ultimately have "request_authorized sample_env (simple_request cap m reg at) ?r"
    using n(3) N assms(5,6)
    by (simp add: request_authorized_def evaluateConsentBinding_def hook_allows_def simple_request_def)
  then show ?thesis
    unfolding evaluate_allowed using assms(8) nrm by (auto simp: simple_request_def)
qed

text \<open>A capability whose expiry is a text of the right shape that is no date.\<close>

definition undated_capability :: RawCapability where
  "undated_capability = sample_capability\<lparr>t_expires_at := ''2025-99-99T99:99:99Z''\<rparr>"

definition bound_capability :: RawCapability where
  "bound_capability = sample_capability\<lparr>t_marketMakerId := Some ''mm-1''\<rparr>"

lemma raw_update_token:
  "as_token (c\<lparr>t_expires_at := e\<rparr>) = (as_token c)\<lparr>t_expires_at := e\<rparr>"
  "as_token (c\<lparr>t_marketMakerId := m\<rparr>) = (as_token c)\<lparr>t_marketMakerId := m\<rparr>"
  by (simp_all add: as_token_def CapabilityToken.defs)

lemma undated_token_valid: "validateCapabilityToken sample_sha sample_cmp (as_token undated_capability) None = None"
proof -
  have "ISO8601_UTC_PATTERN ''2025-99-99T99:99:99Z''" "''2025-01-15T12:00:00Z'' < ''2025-99-99T99:99:99Z''"
    by code_simp+
  then show ?thesis
    using sample_token_valid_payload sample_hex
    by (simp add: validateCapabilityToken_returns undated_capability_def raw_update_token sample_token_hash
        valid_token_def valid_times_def)
qed

lemma bound_token_valid: "validateCapabilityToken sample_sha sample_cmp (as_token bound_capability) None = None"
proof -
  have "MARKET_MAKER_ID_PATTERN ''mm-1''" by code_simp
  then show ?thesis
    using sample_token_valid_payload sample_hex
    by (simp add: validateCapabilityToken_returns bound_capability_def raw_update_token sample_token_hash
        valid_token_def valid_times_def)
qed

definition sample_maker :: MarketMaker where
  "sample_maker = \<lparr>mm_id = ''mm-1'', mm_name = ''One'', mm_version = ''1.0'', mm_capabilities = [''trade''],
     mm_endpoint = None, mm_publicKey = None, mm_status = ''active'', mm_created_at = ''2025-01-15T12:00:00Z''\<rparr>"

lemma sample_maker_registered: "mm_register_all [sample_maker] = [(''mm-1'', sample_maker)]"
proof -
  have "validateMarketMaker sample_maker = None" by code_simp
  then show ?thesis
    by (simp add: mm_register_all_def mm_register_def mm_empty_def) (simp add: sample_maker_def)
qed

end
