(* ===== verification/CaseSamples.thy ===== *)
theory CaseSamples
  imports CaseRuns IntakeRuns Samples
begin

text \<open>Inputs for the witnesses: a catalogued profile, a case of it and a run of two writers.\<close>

definition case_profile :: AssetProfile where
  "case_profile =
     \<lparr>ap_schemaVersion = ''aoc-asset-profile/1'', ap_profileId = ''art.print'', ap_version = ''1.0.0'',
      ap_assetCategory = ''art'', ap_scope = ''Global'', ap_jurisdictions = None,
      ap_requirements =
        [\<lparr>ar_id = ''origin'', ar_obligation = Required, ar_condition = None, ar_jurisdictions = None, ar_metadata = None,
          ar_shape = DeclarationShape \<lparr>ad_claimType = ''Origin'', ad_claimSubtype = None, ad_minimumCount = None\<rparr>\<rparr>,
         \<lparr>ar_id = ''expert.opinion'', ar_obligation = Required, ar_condition = None, ar_jurisdictions = None, ar_metadata = None,
          ar_shape = AttestationShape \<lparr>aa_acceptedTypes = [''Human''], aa_attester = None, aa_minimumCount = Some 2,
            aa_freshness = None\<rparr>\<rparr>],
      ap_metadata = None\<rparr>"

lemma case_profile_wf: "profile_wf sample_env case_profile"
  unfolding validate_profile [symmetric] by code_simp

definition case_catalog :: catalog_entries where
  "case_catalog = [(profile_key case_profile, case_profile)]"

lemma case_catalogued: "catalog_register sample_env [] case_profile = Inr case_catalog"
  by (simp add: case_profile_wf case_catalog_def)

definition case_context :: "string \<Rightarrow> CaseContext" where
  "case_context t = \<lparr>cx_catalog = catalog_get case_catalog, cx_now = t, cx_tenantId = ''gallery''\<rparr>"

definition case_input :: CreateCaseInput where
  "case_input =
     \<lparr>ic_caseId = ''case-1'', ic_profile = \<lparr>pr_profileId = ''art.print'', pr_profileVersion = ''1.0.0''\<rparr>,
      ic_subject = \<lparr>su_subjectRef = \<lparr>sj_sovereignAssetId = SOVEREIGN_ASSET_ID_PREFIX @ ''00000000-0000-4000-8000-000000000000'',
        sj_externalReference = None\<rparr>, su_contentIdentity = None\<rparr>,
      ic_correlationId = None\<rparr>"

definition noon_text :: string where "noon_text = ''2025-01-15T12:00:00.000Z''"
definition later_text :: string where "later_text = ''2025-01-15T12:30:00Z''"

definition first_case :: ProtocolizationCase where
  "first_case = initial_case (case_context noon_text) case_input case_profile noon_text"

lemma case_input_ok: "create_reasons case_input = []"
  by code_simp

lemma first_created:
  "createProtocolizationCase sample_env (case_context noon_text) case_input = Inr (first_case,
     CaseCreatedEvent (base_of first_case noon_text None) (su_subjectRef (ic_subject case_input)) [''origin'', ''expert.opinion''])"
proof -
  have sound: "catalog_sound sample_env case_catalog"
    using catalog.register_sound [OF _ case_catalogued] by (simp add: catalog_sound_def)
  have get: "catalog_get case_catalog ''art.print'' ''1.0.0'' = Some case_profile" by code_simp
  have tenant: "isValidProtocolizationTenantId ''gallery''" by code_simp
  have time: "isValidUtcDateTime sample_env noon_text" unfolding noon_text_def by code_simp
  from create_succeeds [OF sound, of "case_context noon_text" case_input case_profile]
  have "\<exists>ev. createProtocolizationCase sample_env (case_context noon_text) case_input = Inr (first_case, ev)"
    using get tenant time case_input_ok by (simp add: case_context_def first_case_def case_input_def)
  then show ?thesis
    by (auto simp: create_Inr first_case_def initial_case_def initial_state_def case_profile_def case_context_def case_input_def)
qed

lemma first_wf: "case_wf sample_env first_case"
  using iffD1 [OF create_Inr first_created] by blast

definition second_case :: ProtocolizationCase where
  "second_case = activated_case first_case later_text"

lemma second_activated:
  "\<exists>ev. perform sample_env (case_context later_text) first_case ActivateCase = Inr (second_case, ev)"
proof -
  have "isValidUtcDateTime sample_env later_text" unfolding later_text_def by code_simp
  moreover have "isNotBefore sample_env later_text noon_text" unfolding later_text_def noon_text_def by code_simp
  ultimately show ?thesis
    unfolding perform_Inr using first_wf
    by (simp add: operable_def time_ok_def revisable_def second_case_def first_case_def initial_case_def case_context_def
        INITIAL_PROTOCOLIZATION_CASE_STATE_def)
qed

text \<open>Writer 0 registers the profile and creates the case, writer 1 loads and activates it.\<close>

definition two_writers :: CaseSystem where
  "two_writers =
     \<lparr>ys_catalog = case_catalog, ys_entries = [key_of first_case \<mapsto> second_case],
      ys_held = [0 \<mapsto> first_case, 1 \<mapsto> second_case], ys_saved = [first_case, second_case]\<rparr>"

lemma two_writers_run: "case_run sample_env two_writers"
proof -
  let ?k = "key_of first_case"
  obtain ev where act: "perform sample_env (case_context later_text) first_case ActivateCase = Inr (second_case, ev)"
    using second_activated by blast
  have key: "key_of second_case = ?k" by (simp add: key_of_def second_case_def activated_case_def)
  have wf: "case_wf sample_env first_case" "case_wf sample_env second_case"
    using first_wf perform_wf [OF act] by simp_all
  have rev: "zc_revision first_case = 1" "zc_revision second_case = 2"
    by (simp_all add: second_case_def activated_case_def first_case_def initial_case_def)
  let ?s1 = "no_cases\<lparr>ys_catalog := case_catalog\<rparr>"
  have "case_run sample_env ?s1"
    using case_run.step [OF case_run.no_cases case_step.registered, of sample_env case_profile case_catalog] case_catalogued
    by (simp add: no_cases_def del: register_Inr)
  moreover have "case_step sample_env ?s1 (stored_by ?s1 0 first_case [?k \<mapsto> first_case])"
    by (rule case_step.created [OF _ first_created])
      (simp_all add: no_cases_def case_context_def wf rev next_revision_def key_of_def)
  ultimately have "case_run sample_env (stored_by ?s1 0 first_case [?k \<mapsto> first_case])" by (rule case_run.step)
  moreover let ?s2 = "(stored_by ?s1 0 first_case [?k \<mapsto> first_case])\<lparr>ys_held := [0 \<mapsto> first_case, 1 \<mapsto> first_case]\<rparr>"
  have "case_step sample_env (stored_by ?s1 0 first_case [?k \<mapsto> first_case]) ?s2"
    using case_step.loaded [of "stored_by ?s1 0 first_case [?k \<mapsto> first_case]" "zc_tenantId first_case" "zc_caseId first_case" first_case sample_env 1]
      wf_tenant [OF wf(1)]
    by (simp add: key_of_def no_cases_def)
  ultimately have "case_run sample_env ?s2" by (rule case_run.step)
  moreover have "case_step sample_env ?s2 (stored_by ?s2 1 second_case [?k \<mapsto> second_case])"
    by (rule case_step.committed [OF _ _ act])
      (use key in \<open>simp_all add: no_cases_def case_context_def wf rev next_revision_def key_of_def stored_by_def\<close>)
  ultimately have "case_run sample_env (stored_by ?s2 1 second_case [?k \<mapsto> second_case])" by (rule case_run.step)
  moreover have "stored_by ?s2 1 second_case [?k \<mapsto> second_case] = two_writers"
    by (simp add: stored_by_def no_cases_def two_writers_def)
  ultimately show ?thesis by simp
qed

text \<open>A document is taken in, and the declaration it supports recorded.\<close>

definition sample_evidence :: EvidenceSubmission where
  "sample_evidence =
     \<lparr>es_intakeId = ''intake-1'', es_caseId = ''case-1'', es_materialId = ''material-1'', es_categoryId = ''upload'',
      es_payload = ReferencedEvidence ''certificate-7'', es_requirementIds = [''expert.opinion''], es_observedAt = None,
      es_sourceRef = None, es_correlationId = None\<rparr>"

definition sample_declaration :: DeclarationSubmission where
  "sample_declaration =
     \<lparr>ds_declarationId = ''declaration-1'', ds_caseId = ''case-1'', ds_materialId = ''material-2'',
      ds_declarant = \<lparr>cp_id = ''artist'', cp_kind = ''Human''\<rparr>, ds_payload = ReferencedClaim ''claim-3'' ''Origin'',
      ds_claimSubtype = None, ds_statement = Some ''Printed by hand.'', ds_requirementIds = [''origin''],
      ds_supportingEvidenceRefs = Some [''certificate-7''], ds_declaredAt = None, ds_sourceRef = None,
      ds_correlationId = None\<rparr>"

definition sample_intakes :: "intake_request list" where
  "sample_intakes =
     [\<lparr>nr_now = later_text, nr_tenantId = ''gallery'', nr_action = EvidenceAction sample_evidence\<rparr>,
      \<lparr>nr_now = later_text, nr_tenantId = ''gallery'', nr_action = DeclarationAction sample_declaration\<rparr>]"

definition first_system :: IntakeSystem where
  "first_system = \<lparr>ns_case = first_case, ns_receipts = [], ns_declarations = []\<rparr>"

definition taken_in :: IntakeSystem where
  "taken_in = intake_run sample_env (catalog_get case_catalog) first_system sample_intakes"

lemma sample_submissions_ok:
  "validateProtocolizationEvidenceSubmission sample_env sample_evidence = []"
  "validateProtocolizationDeclarationSubmission sample_env sample_declaration = []"
  by (code_simp, code_simp)

lemma later_than_first: "isValidUtcDateTime sample_env later_text \<and> isNotBefore sample_env later_text noon_text"
  unfolding later_text_def noon_text_def by code_simp

lemma later_than_itself: "isNotBefore sample_env later_text later_text"
  unfolding later_text_def by code_simp

definition second_system :: IntakeSystem where
  "second_system =
     (let n = effect first_case (AddMaterial (evidence_material sample_evidence)) later_text
      in \<lparr>ns_case = n, ns_receipts = [receipt_of sample_evidence n later_text], ns_declarations = []\<rparr>)"

lemmas first_case_facts =
  first_case_def initial_case_def case_context_def case_input_def case_profile_def initial_state_def INITIAL_PROTOCOLIZATION_CASE_STATE_def

lemma evidence_taken_in:
  "intake_step sample_env (catalog_get case_catalog) (sample_intakes ! 0) first_system = second_system"
proof -
  let ?ctx = "request_context (catalog_get case_catalog) (sample_intakes ! 0)"
  have get: "catalog_get case_catalog ''art.print'' ''1.0.0'' = Some case_profile" by code_simp
  have held: "ns_case first_system = first_case" by (simp add: first_system_def)
  have "operable sample_env ?ctx first_case" "time_ok sample_env ?ctx first_case" "revisable first_case"
    using first_wf later_than_first
    by (simp_all add: operable_def time_ok_def revisable_def request_context_def sample_intakes_def first_case_facts)
  moreover have "intake_permitted sample_env ?ctx first_case sample_evidence"
    using sample_submissions_ok(1) get
    by (simp add: intake_permitted_def pinned_profile_def requirements_ok_def request_context_def first_case_def initial_case_def
        case_context_def case_input_def sample_evidence_def initial_state_def INITIAL_PROTOCOLIZATION_CASE_STATE_def)
      (simp add: case_profile_def)
  ultimately show ?thesis
    by (subst evidence_step [OF _ refl, of _ sample_evidence])
      (simp_all add: held, simp_all add: sample_intakes_def first_system_def second_system_def Let_def)
qed

lemma second_system_facts:
  "operable sample_env (request_context (catalog_get case_catalog) (sample_intakes ! 1)) (ns_case second_system)"
  "time_ok sample_env (request_context (catalog_get case_catalog) (sample_intakes ! 1)) (ns_case second_system)"
  "revisable (ns_case second_system)"
proof -
  have "intake_ok sample_env (catalog_get case_catalog) first_system"
    unfolding first_system_def by (rule created_ok [OF first_created])
  from intake_okD(1) [OF intake_step_ok [OF this], of "sample_intakes ! 0"]
  have "case_wf sample_env (ns_case second_system)" by (simp add: evidence_taken_in)
  then show "operable sample_env (request_context (catalog_get case_catalog) (sample_intakes ! 1)) (ns_case second_system)"
    by (simp add: operable_def request_context_def sample_intakes_def second_system_def Let_def with_material_def first_case_facts)
  show "time_ok sample_env (request_context (catalog_get case_catalog) (sample_intakes ! 1)) (ns_case second_system)"
    "revisable (ns_case second_system)"
    using later_than_first later_than_itself
    by (simp_all add: time_ok_def revisable_def request_context_def sample_intakes_def second_system_def Let_def with_material_def first_case_facts)
qed

lemma sample_declaration_permitted:
  "declaration_permitted sample_env (request_context (catalog_get case_catalog) (sample_intakes ! 1)) (ns_case second_system) sample_declaration"
proof -
  have get: "catalog_get case_catalog ''art.print'' ''1.0.0'' = Some case_profile" by code_simp
  have asks: "all_ask_for case_profile (ds_requirementIds sample_declaration) (submittedClaimType (ds_payload sample_declaration))
      (ds_claimSubtype sample_declaration)"
    by (simp add: all_ask_for_def sample_declaration_def case_profile_def requirements_by_id_def asks_for_def)
  have links: "links_resolve (ns_case second_system) (ds_supportingEvidenceRefs sample_declaration)"
    by (simp add: links_resolve_def if_present_def admitted_evidence_def sample_declaration_def second_system_def Let_def
        with_material_def material_of_def evidence_material_def sample_evidence_def)
  have rest: "ds_caseId sample_declaration = zc_caseId (ns_case second_system)" "zc_state (ns_case second_system) \<noteq> Cancelled"
    "ds_materialId sample_declaration \<notin> zm_materialId ` set (zc_materials (ns_case second_system))"
    "\<forall>m \<in> set (zc_materials (ns_case second_system)). zm_payload m \<noteq> DeclarationPayload (submittedClaimRef (ds_payload sample_declaration))"
    by (simp_all add: sample_declaration_def second_system_def Let_def with_material_def material_of_def evidence_material_def
        sample_evidence_def first_case_facts)
  have "pinned_profile (request_context (catalog_get case_catalog) (sample_intakes ! 1)) (ns_case second_system) = Some case_profile"
    using get by (simp add: pinned_profile_def request_context_def second_system_def Let_def with_material_def first_case_def initial_case_def case_input_def)
  moreover have "requirements_ok (ds_requirementIds sample_declaration) case_profile (ns_case second_system)"
    by (simp add: requirements_ok_def sample_declaration_def second_system_def Let_def with_material_def correlate_def first_case_facts)
  ultimately show ?thesis
    using sample_submissions_ok(2) rest asks links unfolding declaration_permitted_def by blast
qed

lemma taken_in_records:
  "map er_intakeId (ns_receipts taken_in) = [''intake-1''] \<and>
   map dr_declarationId (ns_declarations taken_in) = [''declaration-1'']"
proof -
  have run: "taken_in = intake_step sample_env (catalog_get case_catalog) (sample_intakes ! 1) second_system"
    using evidence_taken_in by (simp add: taken_in_def intake_run_def sample_intakes_def)
  have step: "nr_action (sample_intakes ! 1) = DeclarationAction sample_declaration" "nr_now (sample_intakes ! 1) = later_text"
    "ns_declarations second_system = []"
    by (simp_all add: sample_intakes_def second_system_def Let_def)
  have "\<exists>n. intake_step sample_env (catalog_get case_catalog) (sample_intakes ! 1) second_system =
      second_system\<lparr>ns_case := n, ns_declarations := [record_of sample_declaration n later_text]\<rparr>"
    using declaration_step [OF step(1) refl second_system_facts sample_declaration_permitted _ refl] step(2,3) by auto
  then show ?thesis
    by (auto simp: run second_system_def Let_def receipt_of_def sample_evidence_def record_of_def sample_declaration_def)
qed

end
