(* ===== verification/CaseProperties.thy ===== *)
theory CaseProperties
  imports CaseSamples
begin

text \<open>
  The properties of \<open>packages/asset-protocolization/src\<close>: profiles and their catalogue, the operations of a case,
  cases under interleaved writers.
\<close>

text \<open>
  C7: in every run of interleaved writers a stored case is well formed, has its times in order and lies under its own
  tenant and identifier; it is the last accepted save of its key, and its revision is the number of them.  An accepted
  save replaces exactly the case its writer held, so no update is lost.
\<close>

theorem case_store_history:
  assumes "case_run env s" "ys_entries s k = Some c"
  shows "case_wf env c \<and> in_order env c \<and> key_of c = k \<and> saves_of s k \<noteq> [] \<and> c = last (saves_of s k) \<and>
    zc_revision c = int (length (saves_of s k)) \<and>
    (\<forall>w d ctx cmd d' ev e. ys_held s w = Some d \<and> key_of d = k \<and> perform env ctx d cmd = Inr (d', ev) \<and>
       repository_save env (ys_entries s) d' = Inr e \<longrightarrow> d = c)"
proof -
  note inv = run_consistent [OF assms(1)]
  note saved = fetched_is_saved [OF inv assms(2)]
  have "zc_revision c = int (length (saves_of s k))"
    using saved_revision(1) [OF inv, of c k] saved by simp
  moreover have "case_wf env c \<and> in_order env c" using inv saved(1) by (auto simp: consistent_def)
  moreover have "d = c" if "ys_held s w = Some d" "key_of d = k" "perform env ctx d cmd = Inr (d', ev)"
    "repository_save env (ys_entries s) d' = Inr e" for w d ctx cmd d' ev e
    using save_replaces_held [OF inv that(1,3,4)] that(2) assms(2) by simp
  ultimately show ?thesis using saved by blast
qed

theorem case_store_history_witness:
  "case_wf sample_env second_case \<and> zc_revision second_case = 2 \<and> saves_of two_writers (key_of first_case) = [first_case, second_case]"
proof -
  have "ys_entries two_writers (key_of first_case) = Some second_case" by (simp add: two_writers_def)
  from case_store_history [OF two_writers_run this] have "case_wf sample_env second_case" by blast
  moreover have "key_of second_case = key_of first_case" by (simp add: key_of_def second_case_def activated_case_def)
  moreover have "zc_revision second_case = 2"
    by (simp add: second_case_def activated_case_def first_case_def initial_case_def)
  ultimately show ?thesis by (simp add: saves_of_def two_writers_def)
qed

text \<open>
  C25: the progress of a stored case against the profile catalogued under its reference has one entry for each
  requirement of the profile, in its order, whatever was registered or saved meanwhile; and nothing is pending exactly
  when every required and every conditional requirement has some material.
\<close>

theorem case_progress_complete:
  assumes "case_run env s" "ys_entries s k = Some c"
  shows "\<exists>p ps. catalog_get (ys_catalog s) (pr_profileId (zc_profile c)) (pr_profileVersion (zc_profile c)) = Some p \<and>
    listProtocolizationCaseRequirementProgress c p no_filter = Inr ps \<and>
    map gp_requirementId ps = map ar_id (ap_requirements p) \<and>
    (listProtocolizationCasePendingMaterialRequirements c p = Inr [] \<longleftrightarrow>
      (\<forall>q \<in> set (ap_requirements p). ar_obligation q = Required \<or> ar_obligation q = Conditional \<longrightarrow>
         (\<exists>m \<in> set (zc_materials c). ar_id q \<in> set (zm_requirementIds m))))"
proof -
  note inv = run_consistent [OF assms(1)]
  have "c \<in> set (ys_saved s)" by (rule fetched_is_saved(1) [OF inv assms(2)])
  then have wf: "case_wf env c" and "follows_profile (ys_catalog s) c" using inv by (auto simp: consistent_def)
  then obtain p where "catalog_get (ys_catalog s) (pr_profileId (zc_profile c)) (pr_profileVersion (zc_profile c)) = Some p"
    and p: "projects p c" by (auto simp: follows_profile_def)
  with progress_entries [OF p wf] pending_none [OF p wf] show ?thesis by blast
qed

theorem case_progress_complete_witness:
  "\<exists>ps. listProtocolizationCaseRequirementProgress second_case case_profile no_filter = Inr ps \<and>
     map gp_requirementId ps = [''origin'', ''expert.opinion'']"
proof -
  have get: "catalog_get case_catalog ''art.print'' ''1.0.0'' = Some case_profile" by code_simp
  have "ys_entries two_writers (key_of first_case) = Some second_case" by (simp add: two_writers_def)
  from case_progress_complete [OF two_writers_run this] get show ?thesis
    by (auto simp: two_writers_def second_case_def activated_case_def first_case_def initial_case_def case_input_def)
      (auto simp: case_profile_def)
qed

text \<open>
  C26: an operation on a case succeeds exactly when the case is well formed and the acting tenant's, the clock canonical
  and not before the case, its revision not exhausted, and the guards of the operation hold; the result is then the
  effect of the operation, well formed again, with the next revision, and its event names the case, its revision and
  the time.
\<close>

theorem case_operation_outcome:
  "(\<exists>ev. perform env ctx c cmd = Inr (c', ev) \<and> case_wf env c' \<and> zc_revision c' = zc_revision c + 1 \<and>
      ev_caseId (event_base ev) = zc_caseId c \<and> ev_tenantId (event_base ev) = cx_tenantId ctx \<and>
      ev_profile (event_base ev) = zc_profile c \<and>
      ev_caseRevision (event_base ev) = zc_revision c' \<and> ev_occurredAt (event_base ev) = cx_now ctx) \<longleftrightarrow>
   validateProtocolizationCase env c None = [] \<and> zc_tenantId c = cx_tenantId ctx \<and> time_ok env ctx c \<and> revisable c \<and>
   permitted env ctx c cmd \<and> c' = effect c cmd (cx_now ctx)"
proof -
  have "zc_tenantId c = cx_tenantId ctx \<and> c' = effect c cmd (cx_now ctx)" if "perform env ctx c cmd = Inr (c', ev)" for ev
    using perform_Inr [of env ctx c cmd c'] that by (auto simp: operable_def)
  then have tenant: "zc_tenantId c = cx_tenantId ctx" and revision: "zc_revision c' = zc_revision c + 1"
    if "perform env ctx c cmd = Inr (c', ev)" for ev
    using that by (blast, simp)
  have "(\<exists>ev. perform env ctx c cmd = Inr (c', ev)) \<longleftrightarrow>
      validateProtocolizationCase env c None = [] \<and> zc_tenantId c = cx_tenantId ctx \<and> time_ok env ctx c \<and> revisable c \<and>
      permitted env ctx c cmd \<and> c' = effect c cmd (cx_now ctx)"
    unfolding perform_Inr operable_def validate_wf by blast
  with perform_event perform_wf tenant revision show ?thesis by metis
qed

text \<open>
  C23: over any actions of tenants on a case, intakes of evidence and declarations, each committed with its record or
  not at all, every stored receipt and every stored declaration names material that is still in the case as it was
  added, at the time it was added; the declaration's supporting evidence is in the case and every requirement it is
  correlated with asks, in the pinned profile, for a declaration of its type and subtype; no two records share a
  revision of the case, and what is stored stays stored.
\<close>

theorem intake_history:
  assumes "createProtocolizationCase env ctx i = Inr (c, ev)"
    "y = intake_run env cat \<lparr>ns_case = c, ns_receipts = [], ns_declarations = []\<rparr> qs" "y' = intake_run env cat y qs'"
  shows "case_wf env (ns_case y) \<and>
    (\<forall>r \<in> set (ns_receipts y). \<exists>m \<in> set (zc_materials (ns_case y)).
       zm_materialId m = er_materialId r \<and> zm_payload m = EvidencePayload (er_evidenceRef r) \<and>
       zm_addedAt m = er_receivedAt r \<and> set (er_requirementIds r) \<subseteq> set (zm_requirementIds m)) \<and>
    (\<forall>d \<in> set (ns_declarations y).
       links_resolve (ns_case y) (dr_supportingEvidenceRefs d) \<and>
       (\<exists>p. cat (pr_profileId (zc_profile (ns_case y))) (pr_profileVersion (zc_profile (ns_case y))) = Some p \<and>
          all_ask_for p (dr_requirementIds d) (dr_claimType d) (dr_claimSubtype d)) \<and>
       (\<exists>m \<in> set (zc_materials (ns_case y)).
          zm_materialId m = dr_materialId d \<and> zm_payload m = DeclarationPayload (dr_claimRef d) \<and> zm_addedAt m = dr_recordedAt d)) \<and>
    distinct (map er_caseRevision (ns_receipts y) @ map dr_caseRevision (ns_declarations y)) \<and>
    (\<exists>rs ds. ns_receipts y' = ns_receipts y @ rs \<and> ns_declarations y' = ns_declarations y @ ds)"
proof -
  have ok: "intake_ok env cat y" unfolding assms(2) by (rule intake_run_ok [OF created_ok [OF assms(1)]])
  note facts = intake_okD [OF ok]
  have grows: "\<exists>rs ds. ns_receipts y' = ns_receipts y @ rs \<and> ns_declarations y' = ns_declarations y @ ds"
    unfolding assms(3) by (rule intake_run_grows)
  have receipt: "\<exists>m \<in> set (zc_materials (ns_case y)).
       zm_materialId m = er_materialId r \<and> zm_payload m = EvidencePayload (er_evidenceRef r) \<and>
       zm_addedAt m = er_receivedAt r \<and> set (er_requirementIds r) \<subseteq> set (zm_requirementIds m)"
    if "r \<in> set (ns_receipts y)" for r
    using facts(4) [OF that] unfolding receipt_for_def by blast
  have declared: "links_resolve (ns_case y) (dr_supportingEvidenceRefs d) \<and>
      (\<exists>p. cat (pr_profileId (zc_profile (ns_case y))) (pr_profileVersion (zc_profile (ns_case y))) = Some p \<and>
         all_ask_for p (dr_requirementIds d) (dr_claimType d) (dr_claimSubtype d)) \<and>
      (\<exists>m \<in> set (zc_materials (ns_case y)).
         zm_materialId m = dr_materialId d \<and> zm_payload m = DeclarationPayload (dr_claimRef d) \<and> zm_addedAt m = dr_recordedAt d)"
    if "d \<in> set (ns_declarations y)" for d
    using facts(5) [OF that] unfolding declared_for_def declaration_for_def by blast
  show ?thesis
    using facts(1,6) receipt declared grows unfolding made_revisions_def by blast
qed

theorem intake_history_witness:
  "\<exists>d \<in> set (ns_declarations taken_in). \<exists>m \<in> set (zc_materials (ns_case taken_in)).
     dr_declarationId d = ''declaration-1'' \<and> zm_payload m = DeclarationPayload (dr_claimRef d)"
proof -
  have "\<exists>d \<in> set (ns_declarations taken_in). dr_declarationId d = ''declaration-1''"
    using taken_in_records by (cases "ns_declarations taken_in") auto
  moreover note intake_history [OF first_created taken_in_def [unfolded first_system_def] refl]
  ultimately show ?thesis by blast
qed

end
