(* ===== verification/Verification.thy ===== *)
theory Verification
  imports CaseProgress Declarations
begin

text \<open>
  \<open>packages/asset-protocolization/src/verification/\<close>: the executions of a check and their results, the registry of
  checks, and the operations that run them (\<open>verification-operations.ts\<close>).

  A check is a function of its context that gives an execution or, where the executor throws or rejects, \<open>Inl\<close> of what
  it threw.  The clock may be read several times in a run, so it is a function of the number of readings before.
\<close>

subsection \<open>Executions and results\<close>

definition VERIFICATION_CHECK_OUTCOMES :: "string list" where
  "VERIFICATION_CHECK_OUTCOMES = [''Pass'', ''Fail'', ''Warning'', ''ManualReview'', ''Unavailable'']"

definition isVerificationCheckOutcome :: "string \<Rightarrow> bool" where
  "isVerificationCheckOutcome s \<longleftrightarrow> s \<in> set VERIFICATION_CHECK_OUTCOMES"

definition VerificationInputKinds :: "string list" where
  "VerificationInputKinds =
     [''Material'', ''Requirement'', ''EvidenceRecord'', ''ClaimRecord'', ''IntakeReceipt'', ''DeclarationRecord'', ''Subject'',
      ''RegistryEntry'', ''Observation'']"

definition isVerificationInputKind :: "string \<Rightarrow> bool" where
  "isVerificationInputKind s \<longleftrightarrow> s \<in> set VerificationInputKinds"

record VerificationInputRef =
  vi_kind :: string
  vi_ref :: string

record VerificationCheckExecution =
  xe_outcome :: string
  xe_reasonCode :: "string option"
  xe_summary :: "string option"
  xe_inputRefs :: "VerificationInputRef list option"
  xe_canonicalVerificationRef :: "string option"

definition PROTOCOLIZATION_VERIFICATION_RESULT_SCHEMA_VERSION :: string where
  "PROTOCOLIZATION_VERIFICATION_RESULT_SCHEMA_VERSION = ''aoc-protocolization-verification/1''"

record VerificationResult =
  vr_schemaVersion :: string
  vr_executionId :: string
  vr_tenantId :: string
  vr_caseId :: string
  vr_profile :: ProtocolizationProfileRef
  vr_requirementId :: string
  vr_checkId :: string
  vr_evaluatedCaseRevision :: int
  vr_outcome :: string
  vr_reasonCode :: "string option"
  vr_summary :: "string option"
  vr_inputRefs :: "VerificationInputRef list option"
  vr_executedAt :: string
  vr_canonicalVerificationRef :: "string option"
  vr_correlationId :: "string option"

record VerificationExecutedEvent =
  vv_executionId :: string
  vv_tenantId :: string
  vv_caseId :: string
  vv_profile :: ProtocolizationProfileRef
  vv_requirementId :: string
  vv_checkId :: string
  vv_evaluatedCaseRevision :: int
  vv_outcome :: string
  vv_reasonCode :: "string option"
  vv_occurredAt :: string
  vv_correlationId :: "string option"

subsection \<open>Validation\<close>

datatype VerificationReason =
    VERIFICATION_NOT_AN_OBJECT | VERIFICATION_UNKNOWN_FIELD | VERIFICATION_SCHEMA_VERSION_INVALID
  | VERIFICATION_EXECUTION_ID_INVALID | VERIFICATION_TENANT_ID_INVALID | VERIFICATION_CASE_ID_INVALID
  | VERIFICATION_PROFILE_REF_INVALID | VERIFICATION_REQUIREMENT_ID_INVALID | VERIFICATION_CHECK_ID_INVALID
  | VERIFICATION_CASE_REVISION_INVALID | VERIFICATION_OUTCOME_INVALID | VERIFICATION_REASON_CODE_INVALID
  | VERIFICATION_SUMMARY_INVALID | VERIFICATION_INPUT_REFS_INVALID | VERIFICATION_EXECUTED_AT_INVALID
  | VERIFICATION_CANONICAL_VERIFICATION_REF_INVALID | VERIFICATION_CORRELATION_ID_INVALID

definition SUMMARY_MAX_LENGTH :: nat where
  "SUMMARY_MAX_LENGTH = 1024"

definition INPUT_REFS_MAX_LENGTH :: nat where
  "INPUT_REFS_MAX_LENGTH = 256"

definition isValidVerificationExecutionId :: "string \<Rightarrow> bool" where
  "isValidVerificationExecutionId s \<longleftrightarrow> isProtocolizationInstanceIdentifier s"

definition isValidVerificationReasonCode :: "string \<Rightarrow> bool" where
  "isValidVerificationReasonCode s \<longleftrightarrow> isDottedToken s"

definition isValidSummary :: "string \<Rightarrow> bool" where
  "isValidSummary s \<longleftrightarrow> trim s \<noteq> [] \<and> length s \<le> SUMMARY_MAX_LENGTH"

definition isValidInputRefList :: "VerificationInputRef list \<Rightarrow> bool" where
  "isValidInputRefList rs \<longleftrightarrow>
     length rs \<le> INPUT_REFS_MAX_LENGTH \<and>
     list_all (\<lambda>r. isVerificationInputKind (vi_kind r) \<and> isCanonicalRecordId (vi_ref r)) rs"

definition validateVerificationCheckExecution :: "VerificationCheckExecution \<Rightarrow> VerificationReason list" where
  "validateVerificationCheckExecution x =
     unless_ok (isVerificationCheckOutcome (xe_outcome x)) VERIFICATION_OUTCOME_INVALID @
     unless_ok (if_present isValidVerificationReasonCode (xe_reasonCode x)) VERIFICATION_REASON_CODE_INVALID @
     unless_ok (if_present isValidSummary (xe_summary x)) VERIFICATION_SUMMARY_INVALID @
     unless_ok (if_present isValidInputRefList (xe_inputRefs x)) VERIFICATION_INPUT_REFS_INVALID @
     unless_ok (if_present isCanonicalRecordId (xe_canonicalVerificationRef x)) VERIFICATION_CANONICAL_VERIFICATION_REF_INVALID"

definition validateProtocolizationVerificationResult :: "host_env \<Rightarrow> VerificationResult \<Rightarrow> VerificationReason list" where
  "validateProtocolizationVerificationResult env r =
     unless_ok (vr_schemaVersion r = PROTOCOLIZATION_VERIFICATION_RESULT_SCHEMA_VERSION) VERIFICATION_SCHEMA_VERSION_INVALID @
     unless_ok (isValidVerificationExecutionId (vr_executionId r)) VERIFICATION_EXECUTION_ID_INVALID @
     unless_ok (isValidProtocolizationTenantId (vr_tenantId r)) VERIFICATION_TENANT_ID_INVALID @
     unless_ok (isValidProtocolizationCaseId (vr_caseId r)) VERIFICATION_CASE_ID_INVALID @
     unless_ok (isValidProtocolizationProfileRef (vr_profile r)) VERIFICATION_PROFILE_REF_INVALID @
     unless_ok (isValidAssetRequirementId (vr_requirementId r)) VERIFICATION_REQUIREMENT_ID_INVALID @
     unless_ok (isValidAssetVerificationCheckId (vr_checkId r)) VERIFICATION_CHECK_ID_INVALID @
     unless_ok (isSafeInteger (vr_evaluatedCaseRevision r) \<and> 1 \<le> vr_evaluatedCaseRevision r) VERIFICATION_CASE_REVISION_INVALID @
     unless_ok (isVerificationCheckOutcome (vr_outcome r)) VERIFICATION_OUTCOME_INVALID @
     unless_ok (if_present isValidVerificationReasonCode (vr_reasonCode r)) VERIFICATION_REASON_CODE_INVALID @
     unless_ok (if_present isValidSummary (vr_summary r)) VERIFICATION_SUMMARY_INVALID @
     unless_ok (if_present isValidInputRefList (vr_inputRefs r)) VERIFICATION_INPUT_REFS_INVALID @
     unless_ok (isValidUtcDateTime env (vr_executedAt r)) VERIFICATION_EXECUTED_AT_INVALID @
     unless_ok (if_present isCanonicalRecordId (vr_canonicalVerificationRef r)) VERIFICATION_CANONICAL_VERIFICATION_REF_INVALID @
     unless_ok (if_present isCanonicalRecordId (vr_correlationId r)) VERIFICATION_CORRELATION_ID_INVALID"

subsection \<open>Errors\<close>

datatype VerificationErrorCode =
    VERIFICATION_REQUEST_INVALID | VERIFICATION_TENANT_REQUIRED | VERIFICATION_TENANT_MISMATCH | VERIFICATION_CASE_MISMATCH
  | VERIFICATION_CASE_CANCELLED | VERIFICATION_REQUIREMENT_INCOMPATIBLE | VERIFICATION_CHECK_NOT_DECLARED
  | VERIFICATION_CHECK_NOT_REGISTERED | VERIFICATION_CHECK_REGISTRATION_INVALID | VERIFICATION_CHECK_DECLARED_TWICE
  | VERIFICATION_CHECK_EXECUTION_INVALID | VERIFICATION_RESULT_INVALID | VERIFICATION_RESULT_DUPLICATE
  | VERIFICATION_TIMESTAMP_INVALID

datatype verification_reason = VerificationReason VerificationReason | VerificationCode VerificationErrorCode

record VerificationErrorDetails =
  vd_reasonCodes :: "verification_reason list"
  vd_executionId :: "string option"
  vd_tenantId :: "string option"
  vd_caseId :: "string option"
  vd_requirementIds :: "string list option"
  vd_checkId :: "string option"

datatype verification_error =
    VerificationError VerificationErrorCode VerificationErrorDetails
  | VerificationCaseError ProtocolizationCaseError
  | CheckRejected string

definition verification_details :: "verification_reason list \<Rightarrow> VerificationErrorDetails" where
  "verification_details rs =
     \<lparr>vd_reasonCodes = rs, vd_executionId = None, vd_tenantId = None, vd_caseId = None, vd_requirementIds = None, vd_checkId = None\<rparr>"

text \<open>An error that names the case, and one that names its tenant too.\<close>

definition verification_case_fault :: "ProtocolizationCase \<Rightarrow> verification_reason list \<Rightarrow> VerificationErrorDetails" where
  "verification_case_fault c rs = (verification_details rs)\<lparr>vd_caseId := Some (zc_caseId c)\<rparr>"

definition verification_fault :: "ProtocolizationCase \<Rightarrow> verification_reason list \<Rightarrow> VerificationErrorDetails" where
  "verification_fault c rs = (verification_case_fault c rs)\<lparr>vd_tenantId := Some (zc_tenantId c)\<rparr>"

subsection \<open>Checks and their registry\<close>

datatype VerificationResolutionStatus = Resolved | NotFound | ResolutionUnavailable

record VerificationClaimResolution =
  cr_status :: VerificationResolutionStatus
  cr_claim :: "CanonicalClaim option"

record VerificationContentResolution =
  cr_contentStatus :: VerificationResolutionStatus
  cr_bytes :: "string option"

text \<open>A resolver may reject.\<close>

record VerificationResolvers =
  rv_claim :: "(string \<Rightarrow> string + VerificationClaimResolution) option"
  rv_content :: "(SovereignSubjectRef \<Rightarrow> string + VerificationContentResolution) option"

record VerificationCheckContext =
  vk_tenantId :: string
  vk_caseId :: string
  vk_profile :: ProtocolizationProfileRef
  vk_assetProfile :: AssetProfile
  vk_requirementId :: string
  vk_requirement :: AssetVerificationRequirement
  vk_checkId :: string
  vk_subject :: ProtocolizationCaseSubject
  vk_caseState :: ProtocolizationCaseState
  vk_caseRevision :: int
  vk_requirementProgress :: "ProtocolizationCaseRequirementProgress list"
  vk_materials :: "CaseMaterial list"
  vk_evidenceReceipts :: "EvidenceIntakeReceipt list"
  vk_declarations :: "DeclarationRecord list"
  vk_now :: string
  vk_resolvers :: VerificationResolvers

type_synonym check_execution = "VerificationCheckContext \<Rightarrow> string + VerificationCheckExecution"

record AssetVerificationCheck =
  vc_checkId :: string
  vc_execute :: check_execution

type_synonym check_entries = "AssetVerificationCheck list"

definition checks_get :: "check_entries \<Rightarrow> string \<Rightarrow> AssetVerificationCheck option" where
  "checks_get entries i = find (\<lambda>k. vc_checkId k = i) entries"

definition checks_has :: "check_entries \<Rightarrow> string \<Rightarrow> bool" where
  "checks_has entries i \<longleftrightarrow> i \<in> vc_checkId ` set entries"

definition registeredCheckIds :: "check_entries \<Rightarrow> string list" where
  "registeredCheckIds entries = sort (map vc_checkId entries)"

definition failRegistration :: "string option \<Rightarrow> verification_error" where
  "failRegistration checkId =
     VerificationError VERIFICATION_CHECK_REGISTRATION_INVALID
       ((verification_details [VerificationCode VERIFICATION_CHECK_REGISTRATION_INVALID])\<lparr>vd_checkId := checkId\<rparr>)"

definition checks_register :: "check_entries \<Rightarrow> AssetVerificationCheck \<Rightarrow> verification_error + check_entries" where
  "checks_register entries k =
     (if \<not> isValidAssetVerificationCheckId (vc_checkId k) then Inl (failRegistration None)
      else if checks_has entries (vc_checkId k) then Inl (failRegistration (Some (vc_checkId k)))
      else Inr (entries @ [k]))"

fun register_checks :: "check_entries \<Rightarrow> AssetVerificationCheck list \<Rightarrow> verification_error + check_entries" where
  "register_checks entries [] = Inr entries"
| "register_checks entries (k # ks) = bind_sum (checks_register entries k) (\<lambda>e. register_checks e ks)"

definition createVerificationCheckRegistry :: "AssetVerificationCheck list \<Rightarrow> verification_error + check_entries" where
  "createVerificationCheckRegistry ks = register_checks [] ks"

subsection \<open>Guards\<close>

record VerificationContext =
  vx_catalog :: "string \<Rightarrow> string \<Rightarrow> AssetProfile option"
  vx_clock :: "nat \<Rightarrow> string"
  vx_tenantId :: string
  vx_checks :: check_entries
  vx_resolvers :: "VerificationResolvers option"

record VerificationInputs =
  vn_evidenceReceipts :: "EvidenceIntakeReceipt list option"
  vn_declarations :: "DeclarationRecord list option"

definition or_empty :: "'a list option \<Rightarrow> 'a list" where
  "or_empty x = (case x of None \<Rightarrow> [] | Some xs \<Rightarrow> xs)"

definition verification_tenant_gate :: "VerificationContext \<Rightarrow> ProtocolizationCase \<Rightarrow> verification_error option" where
  "verification_tenant_gate ctx c =
     (if \<not> isValidProtocolizationTenantId (vx_tenantId ctx)
      then Some (VerificationError VERIFICATION_TENANT_REQUIRED (verification_details [VerificationCode VERIFICATION_TENANT_REQUIRED]))
      else failing (zc_tenantId c \<noteq> vx_tenantId ctx)
             (VerificationError VERIFICATION_TENANT_MISMATCH
                ((verification_case_fault c [VerificationCode VERIFICATION_TENANT_MISMATCH])\<lparr>vd_tenantId := Some (vx_tenantId ctx)\<rparr>)))"

definition assertReadableCase :: "host_env \<Rightarrow> ProtocolizationCase \<Rightarrow> verification_error option" where
  "assertReadableCase env c = map_option VerificationCaseError (invalid_case env c None)"

definition assertCaseAcceptsVerification :: "ProtocolizationCase \<Rightarrow> verification_error option" where
  "assertCaseAcceptsVerification c =
     failing (zc_state c = Cancelled)
       (VerificationError VERIFICATION_CASE_CANCELLED (verification_fault c [VerificationCode VERIFICATION_CASE_CANCELLED]))"

definition verification_profile :: "VerificationContext \<Rightarrow> ProtocolizationCase \<Rightarrow> verification_error + AssetProfile" where
  "verification_profile ctx c =
     (case vx_catalog ctx (pr_profileId (zc_profile c)) (pr_profileVersion (zc_profile c)) of
        None \<Rightarrow> Inl (VerificationCaseError (case_error CASE_PROFILE_NOT_FOUND
                  ((reasons_only [Code CASE_PROFILE_NOT_FOUND])\<lparr>cd_profile := Some (zc_profile c), cd_caseId := Some (zc_caseId c)\<rparr>)))
      | Some p \<Rightarrow> Inr p)"

definition resolveVerificationRequirement ::
  "AssetProfile \<Rightarrow> ProtocolizationCase \<Rightarrow> string \<Rightarrow> verification_error + AssetVerificationRequirement" where
  "resolveVerificationRequirement p c i =
     (case find (\<lambda>q. ar_id q = i) (ap_requirements p) of
        None \<Rightarrow> Inl (VerificationCaseError (case_error CASE_UNKNOWN_REQUIREMENT
                  ((reasons_only [Code CASE_UNKNOWN_REQUIREMENT])
                     \<lparr>cd_caseId := Some (zc_caseId c), cd_profile := Some (zc_profile c), cd_requirementIds := Some [i]\<rparr>)))
      | Some q \<Rightarrow>
          (case ar_shape q of
             VerificationShape v \<Rightarrow> Inr v
           | _ \<Rightarrow> Inl (VerificationError VERIFICATION_REQUIREMENT_INCOMPATIBLE
                    ((verification_fault c [VerificationCode VERIFICATION_REQUIREMENT_INCOMPATIBLE])\<lparr>vd_requirementIds := Some [ar_id q]\<rparr>))))"

definition declared_twice :: "ProtocolizationCase \<Rightarrow> string \<Rightarrow> string \<Rightarrow> verification_error" where
  "declared_twice c requirementId checkId =
     VerificationError VERIFICATION_CHECK_DECLARED_TWICE
       ((verification_case_fault c [VerificationCode VERIFICATION_CHECK_DECLARED_TWICE])
          \<lparr>vd_requirementIds := Some [requirementId], vd_checkId := Some checkId\<rparr>)"

definition assertCheckDeclared ::
  "string \<Rightarrow> AssetVerificationRequirement \<Rightarrow> ProtocolizationCase \<Rightarrow> string \<Rightarrow> verification_error option" where
  "assertCheckDeclared requirementId v c checkId =
     (let occurrences = length (filter (\<lambda>k. k = checkId) (av_checkIds v)) in
      if occurrences = 0
      then Some (VerificationError VERIFICATION_CHECK_NOT_DECLARED
             ((verification_fault c [VerificationCode VERIFICATION_CHECK_NOT_DECLARED])
                \<lparr>vd_requirementIds := Some [requirementId], vd_checkId := Some checkId\<rparr>))
      else failing (1 < occurrences) (declared_twice c requirementId checkId))"

definition assertInputsBelongToCase ::
  "VerificationContext \<Rightarrow> ProtocolizationCase \<Rightarrow> VerificationInputs \<Rightarrow> verification_error option" where
  "assertInputsBelongToCase ctx c i =
     (let rs = or_empty (vn_evidenceReceipts i); ds = or_empty (vn_declarations i);
          named = (\<lambda>code. VerificationError code
                     ((verification_case_fault c [VerificationCode code])\<lparr>vd_tenantId := Some (vx_tenantId ctx)\<rparr>)) in
      if list_ex (\<lambda>t. t \<noteq> vx_tenantId ctx) (map er_tenantId rs @ map dr_tenantId ds) then Some (named VERIFICATION_TENANT_MISMATCH)
      else failing (list_ex (\<lambda>k. k \<noteq> zc_caseId c) (map er_caseId rs @ map dr_caseId ds)) (named VERIFICATION_CASE_MISMATCH))"

definition verification_clock :: "host_env \<Rightarrow> string \<Rightarrow> ProtocolizationCase \<Rightarrow> verification_error + string" where
  "verification_clock env now c =
     unless_error (failing (\<not> isValidUtcDateTime env now)
                     (VerificationError VERIFICATION_TIMESTAMP_INVALID
                        (verification_details [VerificationCode VERIFICATION_TIMESTAMP_INVALID])))
    (unless_error (failing (date_gt (date_parse (e_date env) (zc_updatedAt c)) (date_parse (e_date env) now))
                     (VerificationError VERIFICATION_TIMESTAMP_INVALID
                        (verification_case_fault c [VerificationCode VERIFICATION_TIMESTAMP_INVALID])))
       (Inr now))"

record ExecuteVerificationInput =
  xi_executionId :: string
  xi_requirementId :: string
  xi_checkId :: string
  xi_correlationId :: "string option"
  xi_inputs :: VerificationInputs

definition MAX_CORRELATION_ID_LENGTH :: nat where
  "MAX_CORRELATION_ID_LENGTH = 128"

definition assertAdmissibleRequest :: "ProtocolizationCase \<Rightarrow> ExecuteVerificationInput \<Rightarrow> verification_error option" where
  "assertAdmissibleRequest c i =
     (let bad = VerificationCode VERIFICATION_REQUEST_INVALID;
          reasons = unless_ok (isValidVerificationExecutionId (xi_executionId i)) bad @
            unless_ok (isValidAssetRequirementId (xi_requirementId i)) bad @
            unless_ok (isValidAssetVerificationCheckId (xi_checkId i)) bad @
            unless_ok (if_present (\<lambda>k. trim k \<noteq> [] \<and> length k \<le> MAX_CORRELATION_ID_LENGTH) (xi_correlationId i)) bad in
      failing (reasons \<noteq> []) (VerificationError VERIFICATION_REQUEST_INVALID (verification_fault c reasons)))"

subsection \<open>Execution of a check\<close>

definition no_resolvers :: VerificationResolvers where
  "no_resolvers = \<lparr>rv_claim = None, rv_content = None\<rparr>"

definition buildCheckContext ::
  "VerificationContext \<Rightarrow> ProtocolizationCase \<Rightarrow> AssetProfile \<Rightarrow> string \<Rightarrow> AssetVerificationRequirement \<Rightarrow> string \<Rightarrow>
   VerificationInputs \<Rightarrow> string \<Rightarrow> verification_error + VerificationCheckContext" where
  "buildCheckContext ctx c p requirementId v checkId i now =
     bind_sum (map_error VerificationCaseError (listProtocolizationCaseRequirementProgress c p no_filter)) (\<lambda>progress. Inr
       \<lparr>vk_tenantId = zc_tenantId c, vk_caseId = zc_caseId c, vk_profile = zc_profile c, vk_assetProfile = p,
        vk_requirementId = requirementId, vk_requirement = v, vk_checkId = checkId, vk_subject = zc_subject c,
        vk_caseState = zc_state c, vk_caseRevision = zc_revision c, vk_requirementProgress = progress,
        vk_materials = zc_materials c, vk_evidenceReceipts = or_empty (vn_evidenceReceipts i),
        vk_declarations = or_empty (vn_declarations i), vk_now = now,
        vk_resolvers = (case vx_resolvers ctx of None \<Rightarrow> no_resolvers | Some r \<Rightarrow> r)\<rparr>)"

definition result_of ::
  "ProtocolizationCase \<Rightarrow> string \<Rightarrow> string \<Rightarrow> string \<Rightarrow> VerificationCheckExecution \<Rightarrow> string \<Rightarrow> string option \<Rightarrow> VerificationResult" where
  "result_of c requirementId checkId executionId x executedAt correlationId =
     \<lparr>vr_schemaVersion = PROTOCOLIZATION_VERIFICATION_RESULT_SCHEMA_VERSION, vr_executionId = executionId,
      vr_tenantId = zc_tenantId c, vr_caseId = zc_caseId c,
      vr_profile = \<lparr>pr_profileId = pr_profileId (zc_profile c), pr_profileVersion = pr_profileVersion (zc_profile c)\<rparr>,
      vr_requirementId = requirementId, vr_checkId = checkId, vr_evaluatedCaseRevision = zc_revision c,
      vr_outcome = xe_outcome x, vr_reasonCode = xe_reasonCode x, vr_summary = xe_summary x, vr_inputRefs = xe_inputRefs x,
      vr_executedAt = executedAt, vr_canonicalVerificationRef = xe_canonicalVerificationRef x, vr_correlationId = correlationId\<rparr>"

definition executed_event :: "VerificationResult \<Rightarrow> VerificationExecutedEvent" where
  "executed_event r =
     \<lparr>vv_executionId = vr_executionId r, vv_tenantId = vr_tenantId r, vv_caseId = vr_caseId r, vv_profile = vr_profile r,
      vv_requirementId = vr_requirementId r, vv_checkId = vr_checkId r, vv_evaluatedCaseRevision = vr_evaluatedCaseRevision r,
      vv_outcome = vr_outcome r, vv_reasonCode = vr_reasonCode r, vv_occurredAt = vr_executedAt r,
      vv_correlationId = vr_correlationId r\<rparr>"

type_synonym verification_transition = "VerificationResult \<times> VerificationExecutedEvent"

definition sealResult ::
  "host_env \<Rightarrow> ProtocolizationCase \<Rightarrow> string \<Rightarrow> string \<Rightarrow> string \<Rightarrow> VerificationCheckExecution \<Rightarrow> string \<Rightarrow> string option \<Rightarrow>
   verification_error + verification_transition" where
  "sealResult env c requirementId checkId executionId x executedAt correlationId =
     (let bad = validateVerificationCheckExecution x; r = result_of c requirementId checkId executionId x executedAt correlationId;
          wrong = validateProtocolizationVerificationResult env r in
      unless_error (failing (bad \<noteq> [])
                      (VerificationError VERIFICATION_CHECK_EXECUTION_INVALID
                         ((verification_fault c (map VerificationReason bad))
                            \<lparr>vd_requirementIds := Some [requirementId], vd_checkId := Some checkId, vd_executionId := Some executionId\<rparr>)))
     (unless_error (failing (wrong \<noteq> [])
                      (VerificationError VERIFICATION_RESULT_INVALID
                         ((verification_fault c (map VerificationReason wrong))
                            \<lparr>vd_checkId := Some checkId, vd_executionId := Some executionId\<rparr>)))
        (Inr (r, executed_event r))))"

definition executeProtocolizationVerificationCheck ::
  "host_env \<Rightarrow> VerificationContext \<Rightarrow> string \<Rightarrow> ProtocolizationCase \<Rightarrow> ExecuteVerificationInput \<Rightarrow>
   verification_error + verification_transition" where
  "executeProtocolizationVerificationCheck env ctx now c i =
     unless_error (verification_tenant_gate ctx c)
    (unless_error (assertReadableCase env c)
    (unless_error (assertAdmissibleRequest c i)
    (unless_error (assertCaseAcceptsVerification c)
    (bind_sum (verification_profile ctx c) (\<lambda>p.
     bind_sum (resolveVerificationRequirement p c (xi_requirementId i)) (\<lambda>v.
     unless_error (assertCheckDeclared (xi_requirementId i) v c (xi_checkId i))
    (case checks_get (vx_checks ctx) (xi_checkId i) of
       None \<Rightarrow> Inl (VerificationError VERIFICATION_CHECK_NOT_REGISTERED
                 ((verification_fault c [VerificationCode VERIFICATION_CHECK_NOT_REGISTERED])
                    \<lparr>vd_requirementIds := Some [xi_requirementId i], vd_checkId := Some (xi_checkId i)\<rparr>))
     | Some k \<Rightarrow>
         unless_error (assertInputsBelongToCase ctx c (xi_inputs i))
        (bind_sum (verification_clock env now c) (\<lambda>executedAt.
         bind_sum (buildCheckContext ctx c p (xi_requirementId i) v (xi_checkId i) (xi_inputs i) executedAt) (\<lambda>kx.
         bind_sum (map_error CheckRejected (vc_execute k kx)) (\<lambda>x.
         sealResult env c (xi_requirementId i) (xi_checkId i) (xi_executionId i) x executedAt (xi_correlationId i))))))))))))"

subsection \<open>The plan and a run of it\<close>

definition plan_entries :: "ProtocolizationCase \<Rightarrow> AssetRequirement \<Rightarrow> verification_error + (string \<times> string) list" where
  "plan_entries c q =
     (case ar_shape q of
        VerificationShape v \<Rightarrow>
          (case find (\<lambda>i. av_checkIds v ! i \<in> set (take i (av_checkIds v))) [0..<length (av_checkIds v)] of
             None \<Rightarrow> Inr (map (Pair (ar_id q)) (av_checkIds v))
           | Some i \<Rightarrow> Inl (declared_twice c (ar_id q) (av_checkIds v ! i)))
      | _ \<Rightarrow> Inr [])"

fun plan_all :: "ProtocolizationCase \<Rightarrow> AssetRequirement list \<Rightarrow> verification_error + (string \<times> string) list" where
  "plan_all c [] = Inr []"
| "plan_all c (q # qs) = bind_sum (plan_entries c q) (\<lambda>es. bind_sum (plan_all c qs) (\<lambda>rest. Inr (es @ rest)))"

definition listProtocolizationVerificationPlan ::
  "host_env \<Rightarrow> VerificationContext \<Rightarrow> ProtocolizationCase \<Rightarrow> verification_error + (string \<times> string) list" where
  "listProtocolizationVerificationPlan env ctx c =
     unless_error (verification_tenant_gate ctx c)
    (unless_error (assertReadableCase env c)
    (bind_sum (verification_profile ctx c) (\<lambda>p. plan_all c (ap_requirements p))))"

record RunVerificationInput =
  ri_executionIds :: "string list"
  ri_correlationId :: "string option"
  ri_inputs :: VerificationInputs

record VerificationRun =
  vu_results :: "VerificationResult list"
  vu_events :: "VerificationExecutedEvent list"
  vu_evaluatedCaseRevision :: int
  vu_executedAt :: string

text \<open>The loop over the plan: the \<open>n\<close>-th execution reads the clock for the \<open>n\<close>-th time.\<close>

fun run_entries ::
  "host_env \<Rightarrow> VerificationContext \<Rightarrow> ProtocolizationCase \<Rightarrow> RunVerificationInput \<Rightarrow> nat \<Rightarrow> (string \<times> string) list \<Rightarrow> string list \<Rightarrow>
   verification_error + verification_transition list" where
  "run_entries env ctx c i n ((q, k) # es) (x # xs) =
     bind_sum (executeProtocolizationVerificationCheck env ctx (vx_clock ctx n) c
                 \<lparr>xi_executionId = x, xi_requirementId = q, xi_checkId = k, xi_correlationId = ri_correlationId i,
                  xi_inputs = ri_inputs i\<rparr>)
       (\<lambda>t. bind_sum (run_entries env ctx c i (Suc n) es xs) (\<lambda>ts. Inr (t # ts)))"
| "run_entries env ctx c i n es xs = Inr []"

definition runProtocolizationVerification ::
  "host_env \<Rightarrow> VerificationContext \<Rightarrow> ProtocolizationCase \<Rightarrow> RunVerificationInput \<Rightarrow> verification_error + VerificationRun" where
  "runProtocolizationVerification env ctx c i =
     (let invalid = VerificationError VERIFICATION_REQUEST_INVALID (verification_fault c [VerificationCode VERIFICATION_REQUEST_INVALID]) in
      unless_error (verification_tenant_gate ctx c)
     (unless_error (assertReadableCase env c)
     (unless_error (assertCaseAcceptsVerification c)
     (bind_sum (listProtocolizationVerificationPlan env ctx c) (\<lambda>plan.
      unless_error (failing (length (ri_executionIds i) \<noteq> length plan) invalid)
     (unless_error (failing (\<not> distinct (ri_executionIds i)) invalid)
     (bind_sum (run_entries env ctx c i 0 plan (ri_executionIds i)) (\<lambda>ts.
      bind_sum (case ts of [] \<Rightarrow> verification_clock env (vx_clock ctx 0) c | t # _ \<Rightarrow> Inr (vr_executedAt (fst t))) (\<lambda>executedAt.
      Inr \<lparr>vu_results = map fst ts, vu_events = map snd ts, vu_evaluatedCaseRevision = zc_revision c, vu_executedAt = executedAt\<rparr>)))))))))"

definition reconstituteProtocolizationVerificationResult ::
  "host_env \<Rightarrow> VerificationResult \<Rightarrow> verification_error + VerificationResult" where
  "reconstituteProtocolizationVerificationResult env r =
     (let bad = validateProtocolizationVerificationResult env r in
      unless_error (failing (bad \<noteq> [])
                      (VerificationError VERIFICATION_RESULT_INVALID (verification_details (map VerificationReason bad))))
        (Inr r))"

end
