(* ===== verification/VerificationRuns.thy ===== *)
theory VerificationRuns
  imports Verification
begin

text \<open>
  What the operations of \<open>verification-operations.ts\<close> do: when the execution of a check gives a result, the plan of a
  case, and the run of the whole plan.
\<close>

subsection \<open>The guards\<close>

definition runnable :: "host_env \<Rightarrow> VerificationContext \<Rightarrow> ProtocolizationCase \<Rightarrow> bool" where
  "runnable env ctx c \<longleftrightarrow> case_wf env c \<and> zc_tenantId c = vx_tenantId ctx \<and> zc_state c \<noteq> Cancelled"

lemma verification_gates:
  "verification_tenant_gate ctx c = None \<and> assertReadableCase env c = None \<longleftrightarrow>
     case_wf env c \<and> zc_tenantId c = vx_tenantId ctx"
  using wf_tenant [of env c]
  by (auto simp: verification_tenant_gate_def assertReadableCase_def invalid_case_None)

definition catalogued :: "VerificationContext \<Rightarrow> ProtocolizationCase \<Rightarrow> AssetProfile option" where
  "catalogued ctx c = vx_catalog ctx (pr_profileId (zc_profile c)) (pr_profileVersion (zc_profile c))"

lemma verification_profile_Inr [simp]: "verification_profile ctx c = Inr p \<longleftrightarrow> catalogued ctx c = Some p"
  by (simp add: verification_profile_def catalogued_def split: option.split)

definition clock_ok :: "host_env \<Rightarrow> string \<Rightarrow> ProtocolizationCase \<Rightarrow> bool" where
  "clock_ok env now c \<longleftrightarrow> isValidUtcDateTime env now \<and> isNotBefore env now (zc_updatedAt c)"

lemma verification_clock_Inr:
  assumes "case_wf env c"
  shows "verification_clock env now c = Inr t \<longleftrightarrow> t = now \<and> clock_ok env now c"
proof -
  obtain u where u: "date_parse (e_date env) (zc_updatedAt c) = Some u"
    using valid_instant [OF wf_times(1) [OF assms]] by blast
  have "date_parse (e_date env) now = Some v \<Longrightarrow> \<not> date_gt (Some u) (Some v) \<longleftrightarrow> date_le (Some u) (Some v)" for v
    by (auto simp: date_gt_def date_le_def)
  then show ?thesis
    using valid_instant [of env now] by (auto simp: verification_clock_def clock_ok_def isNotBefore_def u)
qed

definition inputs_own :: "ProtocolizationCase \<Rightarrow> VerificationInputs \<Rightarrow> bool" where
  "inputs_own c i \<longleftrightarrow>
     (\<forall>r \<in> set (or_empty (vn_evidenceReceipts i)). er_tenantId r = zc_tenantId c \<and> er_caseId r = zc_caseId c) \<and>
     (\<forall>d \<in> set (or_empty (vn_declarations i)). dr_tenantId d = zc_tenantId c \<and> dr_caseId d = zc_caseId c)"

lemma inputs_None:
  assumes "zc_tenantId c = vx_tenantId ctx"
  shows "assertInputsBelongToCase ctx c i = None \<longleftrightarrow> inputs_own c i"
  using assms by (auto simp: assertInputsBelongToCase_def Let_def inputs_own_def list_ex_iff)

definition request_ok :: "ExecuteVerificationInput \<Rightarrow> bool" where
  "request_ok i \<longleftrightarrow>
     isValidVerificationExecutionId (xi_executionId i) \<and> isValidAssetRequirementId (xi_requirementId i) \<and>
     isValidAssetVerificationCheckId (xi_checkId i) \<and> if_present isCanonicalRecordId (xi_correlationId i)"

lemma request_None [simp]: "assertAdmissibleRequest c i = None \<longleftrightarrow> request_ok i"
  by (auto simp: assertAdmissibleRequest_def Let_def request_ok_def isCanonicalRecordId_def MAX_CORRELATION_ID_LENGTH_def
      ASSET_IDENTIFIER_MAX_LENGTH_def if_present_def split: option.splits)

definition declared_check :: "AssetProfile \<Rightarrow> string \<Rightarrow> string \<Rightarrow> AssetVerificationRequirement \<Rightarrow> bool" where
  "declared_check p i k v \<longleftrightarrow>
     (\<exists>q. find (\<lambda>q. ar_id q = i) (ap_requirements p) = Some q \<and> ar_shape q = VerificationShape v) \<and>
     length (filter (\<lambda>j. j = k) (av_checkIds v)) = 1"

lemma single: "xs \<noteq> [] \<Longrightarrow> \<not> Suc 0 < length xs \<Longrightarrow> length xs = Suc 0"
  by (cases xs) auto

lemma declared_check_iff:
  "resolveVerificationRequirement p c i = Inr v \<and> assertCheckDeclared i v c k = None \<longleftrightarrow> declared_check p i k v"
  by (auto simp: resolveVerificationRequirement_def assertCheckDeclared_def Let_def declared_check_def single
      split: option.splits RequirementShape.splits)

subsection \<open>Execution of a check\<close>

text \<open>What is sealed is valid: the second validation never refuses it.\<close>

lemma profile_copy [simp]: "\<lparr>pr_profileId = pr_profileId r, pr_profileVersion = pr_profileVersion r\<rparr> = r"
  by (cases r) simp

lemma sealed_result_valid:
  assumes "case_wf env c" "request_ok i" "validateVerificationCheckExecution x = []" "isValidUtcDateTime env t"
  shows "validateProtocolizationVerificationResult env
    (result_of c (xi_requirementId i) (xi_checkId i) (xi_executionId i) x t (xi_correlationId i)) = []"
  using assms
  by (auto simp: validateProtocolizationVerificationResult_def result_of_def validateVerificationCheckExecution_def
      request_ok_def case_wf_def header_ok_def)

definition answered ::
  "host_env \<Rightarrow> VerificationContext \<Rightarrow> string \<Rightarrow> ProtocolizationCase \<Rightarrow> ExecuteVerificationInput \<Rightarrow> AssetProfile \<Rightarrow>
   VerificationCheckExecution \<Rightarrow> bool" where
  "answered env ctx now c i p x \<longleftrightarrow>
     (\<exists>v k kx. declared_check p (xi_requirementId i) (xi_checkId i) v \<and> checks_get (vx_checks ctx) (xi_checkId i) = Some k \<and>
        buildCheckContext ctx c p (xi_requirementId i) v (xi_checkId i) (xi_inputs i) now = Inr kx \<and> vc_execute k kx = Inr x)"

lemma execute_Inr:
  "executeProtocolizationVerificationCheck env ctx now c i = Inr (r, ev) \<longleftrightarrow>
     runnable env ctx c \<and> request_ok i \<and> inputs_own c (xi_inputs i) \<and> clock_ok env now c \<and>
     (\<exists>p x. catalogued ctx c = Some p \<and> answered env ctx now c i p x \<and> validateVerificationCheckExecution x = [] \<and>
        r = result_of c (xi_requirementId i) (xi_checkId i) (xi_executionId i) x now (xi_correlationId i)) \<and>
     ev = executed_event r"
proof (cases "verification_tenant_gate ctx c = None \<and> assertReadableCase env c = None")
  case True
  then have wf: "case_wf env c" and tenant: "zc_tenantId c = vx_tenantId ctx" by (simp_all add: verification_gates)
  have check: "sealResult env c (xi_requirementId i) (xi_checkId i) (xi_executionId i) x now (xi_correlationId i) = Inr (r, ev) \<longleftrightarrow>
      validateVerificationCheckExecution x = [] \<and>
      r = result_of c (xi_requirementId i) (xi_checkId i) (xi_executionId i) x now (xi_correlationId i) \<and> ev = executed_event r"
    if "request_ok i" "clock_ok env now c" for x
    using sealed_result_valid [OF wf that(1), of x now] that(2) by (auto simp: sealResult_def Let_def clock_ok_def)
  have "executeProtocolizationVerificationCheck env ctx now c i = Inr (r, ev) \<longleftrightarrow>
      request_ok i \<and> zc_state c \<noteq> Cancelled \<and>
      (\<exists>p v k. catalogued ctx c = Some p \<and> declared_check p (xi_requirementId i) (xi_checkId i) v \<and>
         checks_get (vx_checks ctx) (xi_checkId i) = Some k \<and> inputs_own c (xi_inputs i) \<and> clock_ok env now c \<and>
         (\<exists>kx x. buildCheckContext ctx c p (xi_requirementId i) v (xi_checkId i) (xi_inputs i) now = Inr kx \<and>
            vc_execute k kx = Inr x \<and>
            sealResult env c (xi_requirementId i) (xi_checkId i) (xi_executionId i) x now (xi_correlationId i) = Inr (r, ev)))"
    using True inputs_None [OF tenant] verification_clock_Inr [OF wf]
    unfolding executeProtocolizationVerificationCheck_def declared_check_iff [symmetric, of _ _ _ _ c]
    by (auto simp: assertCaseAcceptsVerification_def split: option.splits)
  moreover have "runnable env ctx c \<longleftrightarrow> zc_state c \<noteq> Cancelled" using wf tenant by (simp add: runnable_def)
  ultimately show ?thesis
    by (cases "request_ok i \<and> clock_ok env now c") (auto simp: check answered_def, blast+)
next
  case False
  then have "executeProtocolizationVerificationCheck env ctx now c i \<noteq> Inr (r, ev)"
    by (auto simp: executeProtocolizationVerificationCheck_def)
  moreover have "\<not> runnable env ctx c" using False verification_gates [of ctx c env] by (auto simp: runnable_def)
  ultimately show ?thesis by blast
qed

subsection \<open>The plan\<close>

definition planned_of :: "AssetRequirement \<Rightarrow> (string \<times> string) list" where
  "planned_of q = (case ar_shape q of VerificationShape v \<Rightarrow> map (Pair (ar_id q)) (av_checkIds v) | _ \<Rightarrow> [])"

definition planned :: "AssetProfile \<Rightarrow> (string \<times> string) list" where
  "planned p = concat (map planned_of (ap_requirements p))"

definition once_each :: "AssetRequirement \<Rightarrow> bool" where
  "once_each q \<longleftrightarrow> (case ar_shape q of VerificationShape v \<Rightarrow> distinct (av_checkIds v) | _ \<Rightarrow> True)"

lemma repeated_None: "find (\<lambda>i. xs ! i \<in> set (take i xs)) [0..<length xs] = None \<longleftrightarrow> distinct xs"
proof -
  have "distinct xs \<longleftrightarrow> (\<forall>i < length xs. xs ! i \<notin> set (take i xs))"
  proof (induction xs rule: rev_induct)
    case (snoc x xs)
    have "(\<forall>i < length (xs @ [x]). (xs @ [x]) ! i \<notin> set (take i (xs @ [x]))) \<longleftrightarrow>
        (\<forall>i < length xs. xs ! i \<notin> set (take i xs)) \<and> x \<notin> set xs"
      by (auto simp: less_Suc_eq nth_append)
    then show ?case using snoc by auto
  qed simp
  then show ?thesis by (auto simp: find_None_iff)
qed

lemma plan_entries_Inr: "plan_entries c q = Inr es \<longleftrightarrow> once_each q \<and> es = planned_of q"
proof (cases "ar_shape q")
  case (VerificationShape v)
  with repeated_None [of "av_checkIds v"] show ?thesis
    by (cases "find (\<lambda>i. av_checkIds v ! i \<in> set (take i (av_checkIds v))) [0..<length (av_checkIds v)]")
      (auto simp: plan_entries_def once_each_def planned_of_def)
qed (auto simp: plan_entries_def once_each_def planned_of_def)

lemma plan_all_Inr: "plan_all c qs = Inr es \<longleftrightarrow> list_all once_each qs \<and> es = concat (map planned_of qs)"
  by (induction qs arbitrary: es) (auto simp: plan_entries_Inr)

lemma plan_Inr:
  "listProtocolizationVerificationPlan env ctx c = Inr es \<longleftrightarrow>
     case_wf env c \<and> zc_tenantId c = vx_tenantId ctx \<and>
     (\<exists>p. catalogued ctx c = Some p \<and> list_all once_each (ap_requirements p) \<and> es = planned p)"
  using verification_gates [of ctx c env]
  by (auto simp: listProtocolizationVerificationPlan_def plan_all_Inr planned_def)

lemma planned_once: "profile_wf env p \<Longrightarrow> list_all once_each (ap_requirements p)"
  by (auto simp: profile_wf_def list_all_iff once_each_def requirement_ok_def split: RequirementShape.split)

lemma find_by_id: "distinct (map ar_id qs) \<Longrightarrow> q \<in> set qs \<Longrightarrow> find (\<lambda>r. ar_id r = ar_id q) qs = Some q"
  by (induction qs) auto

lemma occurs_once: "distinct xs \<Longrightarrow> k \<in> set xs \<Longrightarrow> length (filter (\<lambda>j. j = k) xs) = 1"
  using distinct_length_filter [of xs "\<lambda>j. j = k"] by (simp add: Int_def Collect_conv_if cong: conj_cong)

lemma planned_declared:
  assumes "profile_wf env p" "(i, k) \<in> set (planned p)"
  shows "\<exists>v. declared_check p i k v" "isValidAssetRequirementId i" "isValidAssetVerificationCheckId k"
proof -
  from assms(2) obtain q where "q \<in> set (ap_requirements p)" "(i, k) \<in> set (planned_of q)"
    by (auto simp: planned_def)
  then obtain v where q: "q \<in> set (ap_requirements p)" "ar_shape q = VerificationShape v" "i = ar_id q" "k \<in> set (av_checkIds v)"
    by (cases "ar_shape q") (auto simp: planned_of_def)
  have ok: "distinct (map ar_id (ap_requirements p))" "requirement_ok env q"
    using assms(1) q(1) by (auto simp: profile_wf_def list_all_iff)
  then have v: "distinct (av_checkIds v)" "list_all isValidAssetVerificationCheckId (av_checkIds v)"
    using q(2) by (auto simp: requirement_ok_def)
  have "length (filter (\<lambda>j. j = k) (av_checkIds v)) = 1"
    using occurs_once v(1) q(4) .
  then show "\<exists>v. declared_check p i k v"
    using find_by_id [OF ok(1) q(1)] q(2,3) unfolding declared_check_def by blast
  show "isValidAssetRequirementId i" "isValidAssetVerificationCheckId k"
    using ok(2) v(2) q(3,4) by (auto simp: requirement_ok_def list_all_iff)
qed

subsection \<open>A run\<close>

definition entry_input :: "RunVerificationInput \<Rightarrow> string \<Rightarrow> string \<times> string \<Rightarrow> ExecuteVerificationInput" where
  "entry_input i x e =
     \<lparr>xi_executionId = x, xi_requirementId = fst e, xi_checkId = snd e, xi_correlationId = ri_correlationId i, xi_inputs = ri_inputs i\<rparr>"

lemma run_entries_Inr:
  assumes "length xs = length es"
  shows "run_entries env ctx c i n es xs = Inr ts \<longleftrightarrow>
    length ts = length es \<and>
    (\<forall>j < length es. executeProtocolizationVerificationCheck env ctx (vx_clock ctx (n + j)) c (entry_input i (xs ! j) (es ! j)) = Inr (ts ! j))"
  using assms
proof (induction xs es arbitrary: n ts rule: list_induct2)
  case (Cons x xs e es)
  obtain q k where e: "e = (q, k)" by (cases e)
  have split: "(\<forall>j < Suc m. P j) \<longleftrightarrow> P 0 \<and> (\<forall>j < m. P (Suc j))" for m P
    by (auto simp: less_Suc_eq_0_disj)
  show ?case
    by (cases ts) (auto simp: e Cons.IH entry_input_def split)
qed auto

lemma run_Inr:
  "runProtocolizationVerification env ctx c i = Inr u \<longleftrightarrow>
     runnable env ctx c \<and> distinct (ri_executionIds i) \<and>
     (\<exists>p ts. catalogued ctx c = Some p \<and> list_all once_each (ap_requirements p) \<and>
        length (ri_executionIds i) = length (planned p) \<and> length ts = length (planned p) \<and>
        (\<forall>j < length (planned p). executeProtocolizationVerificationCheck env ctx (vx_clock ctx j) c
            (entry_input i (ri_executionIds i ! j) (planned p ! j)) = Inr (ts ! j)) \<and>
        (ts = [] \<longrightarrow> clock_ok env (vx_clock ctx 0) c) \<and>
        u = \<lparr>vu_results = map fst ts, vu_events = map snd ts, vu_evaluatedCaseRevision = zc_revision c, vu_executedAt = vx_clock ctx 0\<rparr>)"
proof (cases "runnable env ctx c")
  case True
  then have wf: "case_wf env c" by (simp add: runnable_def)
  have gates: "verification_tenant_gate ctx c = None" "assertReadableCase env c = None" "assertCaseAcceptsVerification c = None"
    using True verification_gates [of ctx c env] by (auto simp: runnable_def assertCaseAcceptsVerification_def)
  have stamp: "vr_executedAt (fst t) = vx_clock ctx 0"
    if "executeProtocolizationVerificationCheck env ctx (vx_clock ctx 0) c j = Inr t" for t j
    using that by (cases t) (auto simp: execute_Inr result_of_def)
  have time: "(case ts of [] \<Rightarrow> verification_clock env (vx_clock ctx 0) c | t # _ \<Rightarrow> Inr (vr_executedAt (fst t))) = Inr s \<longleftrightarrow>
      s = vx_clock ctx 0 \<and> (ts = [] \<longrightarrow> clock_ok env (vx_clock ctx 0) c)"
    if "\<forall>j < length ts. executeProtocolizationVerificationCheck env ctx (vx_clock ctx j) c (f j) = Inr (ts ! j)" for ts s f
    using that stamp verification_clock_Inr [OF wf] by (cases ts) force+
  let ?made = "\<lambda>ts s. \<lparr>vu_results = map fst ts, vu_events = map snd ts, vu_evaluatedCaseRevision = zc_revision c, vu_executedAt = s\<rparr>"
  let ?time = "\<lambda>ts s. (case ts of [] \<Rightarrow> verification_clock env (vx_clock ctx 0) c | t # _ \<Rightarrow> Inr (vr_executedAt (fst t))) = Inr s"
  let ?fit = "\<lambda>p. catalogued ctx c = Some p \<and> list_all once_each (ap_requirements p) \<and>
      length (ri_executionIds i) = length (planned p)"
  let ?ran = "\<lambda>p ts. run_entries env ctx c i 0 (planned p) (ri_executionIds i) = Inr ts \<and> (\<exists>s. ?time ts s \<and> u = ?made ts s)"
  let ?met = "\<lambda>p ts. length ts = length (planned p) \<and>
      (\<forall>j < length (planned p). executeProtocolizationVerificationCheck env ctx (vx_clock ctx j) c
          (entry_input i (ri_executionIds i ! j) (planned p ! j)) = Inr (ts ! j))"
  have step: "?ran p ts \<longleftrightarrow> ?met p ts \<and> (ts = [] \<longrightarrow> clock_ok env (vx_clock ctx 0) c) \<and> u = ?made ts (vx_clock ctx 0)"
    if "?fit p" for p ts
  proof -
    have run: "run_entries env ctx c i 0 (planned p) (ri_executionIds i) = Inr ts \<longleftrightarrow> ?met p ts"
      using run_entries_Inr [of "ri_executionIds i" "planned p" env ctx c i 0 ts] that by simp
    have "?time ts s \<longleftrightarrow> s = vx_clock ctx 0 \<and> (ts = [] \<longrightarrow> clock_ok env (vx_clock ctx 0) c)" if "?met p ts" for s
      using time [of ts "\<lambda>j. entry_input i (ri_executionIds i ! j) (planned p ! j)"] that by simp
    then show ?thesis unfolding run by blast
  qed
  have "runProtocolizationVerification env ctx c i = Inr u \<longleftrightarrow>
      distinct (ri_executionIds i) \<and> (\<exists>p. ?fit p \<and> (\<exists>ts. ?ran p ts))"
    using True by (auto simp: runProtocolizationVerification_def Let_def gates plan_Inr runnable_def)
  also have "\<dots> \<longleftrightarrow> distinct (ri_executionIds i) \<and>
      (\<exists>p. ?fit p \<and> (\<exists>ts. ?met p ts \<and> (ts = [] \<longrightarrow> clock_ok env (vx_clock ctx 0) c) \<and> u = ?made ts (vx_clock ctx 0)))"
    by (intro conj_cong [OF refl], rule ex_cong1, rule conj_cong [OF refl], rule ex_cong1, rule step)
  finally show ?thesis using True by blast
next
  case False
  then have "verification_tenant_gate ctx c \<noteq> None \<or> assertReadableCase env c \<noteq> None \<or> assertCaseAcceptsVerification c \<noteq> None"
    using verification_gates [of ctx c env] by (auto simp: runnable_def assertCaseAcceptsVerification_def)
  then have "runProtocolizationVerification env ctx c i \<noteq> Inr u"
    by (auto simp: runProtocolizationVerification_def Let_def)
  with False show ?thesis by blast
qed

text \<open>What a run returns.\<close>

lemma run_results:
  assumes "runProtocolizationVerification env ctx c i = Inr u"
  obtains p where "catalogued ctx c = Some p"
    "map (\<lambda>r. (vr_requirementId r, vr_checkId r)) (vu_results u) = planned p"
    "map vr_executionId (vu_results u) = ri_executionIds i" "distinct (ri_executionIds i)"
    "map vr_executedAt (vu_results u) = map (vx_clock ctx) [0..<length (planned p)]"
    "vu_events u = map executed_event (vu_results u)"
    "\<forall>r \<in> set (vu_results u). validateProtocolizationVerificationResult env r = [] \<and> vr_tenantId r = zc_tenantId c \<and>
       vr_caseId r = zc_caseId c \<and> vr_profile r = zc_profile c \<and> vr_evaluatedCaseRevision r = zc_revision c \<and>
       isNotBefore env (vr_executedAt r) (zc_updatedAt c)"
proof -
  from assms obtain p ts where run: "runnable env ctx c" "distinct (ri_executionIds i)" "catalogued ctx c = Some p"
    "length (ri_executionIds i) = length (planned p)" "length ts = length (planned p)"
    and each: "\<And>j. j < length (planned p) \<Longrightarrow> executeProtocolizationVerificationCheck env ctx (vx_clock ctx j) c
        (entry_input i (ri_executionIds i ! j) (planned p ! j)) = Inr (ts ! j)"
    and u: "vu_results u = map fst ts" "vu_events u = map snd ts"
    unfolding run_Inr by auto
  have one: "vr_requirementId (fst (ts ! j)) = fst (planned p ! j) \<and> vr_checkId (fst (ts ! j)) = snd (planned p ! j) \<and>
      vr_executionId (fst (ts ! j)) = ri_executionIds i ! j \<and> vr_executedAt (fst (ts ! j)) = vx_clock ctx j \<and>
      snd (ts ! j) = executed_event (fst (ts ! j)) \<and>
      validateProtocolizationVerificationResult env (fst (ts ! j)) = [] \<and> vr_tenantId (fst (ts ! j)) = zc_tenantId c \<and>
      vr_caseId (fst (ts ! j)) = zc_caseId c \<and> vr_profile (fst (ts ! j)) = zc_profile c \<and>
      vr_evaluatedCaseRevision (fst (ts ! j)) = zc_revision c \<and>
      isNotBefore env (vr_executedAt (fst (ts ! j))) (zc_updatedAt c)"
    if "j < length (planned p)" for j
  proof -
    let ?i = "entry_input i (ri_executionIds i ! j) (planned p ! j)"
    obtain r ev where t: "ts ! j = (r, ev)" by (cases "ts ! j")
    with each [OF that] obtain x where x: "request_ok ?i" "clock_ok env (vx_clock ctx j) c" "validateVerificationCheckExecution x = []"
      "r = result_of c (xi_requirementId ?i) (xi_checkId ?i) (xi_executionId ?i) x (vx_clock ctx j) (xi_correlationId ?i)"
      "ev = executed_event r"
      unfolding t execute_Inr by blast
    have "validateProtocolizationVerificationResult env r = []"
      unfolding x(4) using sealed_result_valid [OF _ x(1,3)] run(1) x(2) by (simp add: runnable_def clock_ok_def)
    with x show ?thesis by (simp add: t result_of_def entry_input_def clock_ok_def)
  qed
  show ?thesis
  proof (rule that [OF run(3) _ _ run(2)])
    show "map (\<lambda>r. (vr_requirementId r, vr_checkId r)) (vu_results u) = planned p"
      "map vr_executionId (vu_results u) = ri_executionIds i"
      "map vr_executedAt (vu_results u) = map (vx_clock ctx) [0..<length (planned p)]"
      using one run(4,5) by (auto simp: u intro!: nth_equalityI)
    show "vu_events u = map executed_event (vu_results u)"
      unfolding u by (rule nth_equalityI) (use one run(5) in simp_all)
    show "\<forall>r \<in> set (vu_results u). validateProtocolizationVerificationResult env r = [] \<and> vr_tenantId r = zc_tenantId c \<and>
       vr_caseId r = zc_caseId c \<and> vr_profile r = zc_profile c \<and> vr_evaluatedCaseRevision r = zc_revision c \<and>
       isNotBefore env (vr_executedAt r) (zc_updatedAt c)"
    proof
      fix r assume "r \<in> set (vu_results u)"
      then obtain t where t: "t \<in> set ts" "r = fst t" unfolding u by auto
      from t(1) obtain j where "j < length ts" "ts ! j = t" unfolding in_set_conv_nth by blast
      then have "j < length (planned p)" "r = fst (ts ! j)" using run(5) t(2) by simp_all
      with one show "validateProtocolizationVerificationResult env r = [] \<and> vr_tenantId r = zc_tenantId c \<and>
         vr_caseId r = zc_caseId c \<and> vr_profile r = zc_profile c \<and> vr_evaluatedCaseRevision r = zc_revision c \<and>
         isNotBefore env (vr_executedAt r) (zc_updatedAt c)"
        by blast
    qed
  qed
qed

text \<open>A run against a catalogued profile succeeds when every planned check is registered and answers.\<close>

definition answers :: "AssetVerificationCheck \<Rightarrow> VerificationCheckContext \<Rightarrow> bool" where
  "answers k kx \<longleftrightarrow> (\<exists>x. vc_execute k kx = Inr x \<and> validateVerificationCheckExecution x = [])"

lemma context_exists:
  assumes "zc_profile c = profile_ref_of p"
  shows "\<exists>kx. buildCheckContext ctx c p q v k i now = Inr kx \<and> vk_assetProfile kx = p \<and> vk_subject kx = zc_subject c \<and>
    vk_materials kx = zc_materials c \<and> vk_evidenceReceipts kx = or_empty (vn_evidenceReceipts i) \<and>
    vk_declarations kx = or_empty (vn_declarations i) \<and> vk_requirementProgress kx =
      filter (passes_filter no_filter) (concat (map (requirement_progress c) (ap_requirements p)))"
  using assms
  by (simp add: buildCheckContext_def listProtocolizationCaseRequirementProgress_def assertPinnedProfile_def
      protocolizationProfileRefsEqual_def)

lemma run_succeeds:
  assumes "runnable env ctx c" "catalogued ctx c = Some p" "profile_wf env p" "zc_profile c = profile_ref_of p"
    "distinct (ri_executionIds i)" "length (ri_executionIds i) = length (planned p)"
    "list_all isValidVerificationExecutionId (ri_executionIds i)" "if_present isCanonicalRecordId (ri_correlationId i)"
    "inputs_own c (ri_inputs i)" "\<And>j. clock_ok env (vx_clock ctx j) c"
    "\<And>q k. (q, k) \<in> set (planned p) \<Longrightarrow> \<exists>chk. checks_get (vx_checks ctx) k = Some chk \<and>
       (\<forall>v now kx. buildCheckContext ctx c p q v k (ri_inputs i) now = Inr kx \<longrightarrow> answers chk kx)"
  shows "\<exists>u. runProtocolizationVerification env ctx c i = Inr u"
proof -
  let ?run = "\<lambda>j. executeProtocolizationVerificationCheck env ctx (vx_clock ctx j) c (entry_input i (ri_executionIds i ! j) (planned p ! j))"
  have "\<exists>t. ?run j = Inr t" if "j < length (planned p)" for j
  proof -
    obtain q k where e: "planned p ! j = (q, k)" by (cases "planned p ! j")
    then have mem: "(q, k) \<in> set (planned p)" using that by (metis nth_mem)
    from planned_declared [OF assms(3) mem] assms(11) [OF mem] obtain v chk where
      declared: "declared_check p q k v" "checks_get (vx_checks ctx) k = Some chk"
      and answer: "\<And>v now kx. buildCheckContext ctx c p q v k (ri_inputs i) now = Inr kx \<Longrightarrow> answers chk kx" by metis
    obtain kx where "buildCheckContext ctx c p q v k (ri_inputs i) (vx_clock ctx j) = Inr kx"
      using context_exists [OF assms(4)] by blast
    with answer [OF this] declared obtain x where "answered env ctx (vx_clock ctx j) c (entry_input i (ri_executionIds i ! j) (planned p ! j)) p x"
      "validateVerificationCheckExecution x = []"
      unfolding answered_def answers_def by (force simp: entry_input_def e)
    moreover have "request_ok (entry_input i (ri_executionIds i ! j) (planned p ! j))"
      using planned_declared(2,3) [OF assms(3) mem] assms(6,7,8) that by (simp add: request_ok_def entry_input_def e list_all_length)
    ultimately show ?thesis
      using assms(1,2,9,10) execute_Inr [of env ctx "vx_clock ctx j" c] by (fastforce simp: entry_input_def)
  qed
  then obtain f where f: "\<And>j. j < length (planned p) \<Longrightarrow> ?run j = Inr (f j)" by metis
  show ?thesis
    unfolding run_Inr using assms(1,2,5,6,10) planned_once [OF assms(3)] f
    by (intro exI conjI exI [of _ p] exI [of _ "map f [0..<length (planned p)]"]) auto
qed

end
