(* ===== verification/VerificationStore.thy ===== *)
theory VerificationStore
  imports VerificationRuns RecordStore "HOL-Library.AList"
begin

text \<open>
  \<open>packages/asset-protocolization/src/verification/\<close>: the repository of results (\<open>verification-repository.ts\<close>) and the
  projections of a history of results (\<open>verification-projections.ts\<close>).
\<close>

subsection \<open>The order of results\<close>

definition compareVerificationResults :: "host_env \<Rightarrow> VerificationResult \<Rightarrow> VerificationResult \<Rightarrow> int" where
  "compareVerificationResults env a b =
     (case (date_parse (e_date env) (vr_executedAt a), date_parse (e_date env) (vr_executedAt b)) of
        (Some s, Some t) \<Rightarrow>
          if s \<noteq> t then (if s < t then -1 else 1)
          else if vr_executionId a = vr_executionId b then 0
          else if vr_executionId a < vr_executionId b then -1 else 1
      | _ \<Rightarrow> 1)"

definition result_valid :: "host_env \<Rightarrow> VerificationResult \<Rightarrow> bool" where
  "result_valid env r \<longleftrightarrow> validateProtocolizationVerificationResult env r = []"

lemma valid_result_fields:
  assumes "result_valid env r"
  shows "isValidProtocolizationTenantId (vr_tenantId r)" "isValidUtcDateTime env (vr_executedAt r)"
    "isValidVerificationExecutionId (vr_executionId r)" "isValidAssetRequirementId (vr_requirementId r)"
    "vr_outcome r \<in> set VERIFICATION_CHECK_OUTCOMES"
  using assms by (simp_all add: result_valid_def validateProtocolizationVerificationResult_def isVerificationCheckOutcome_def)

text \<open>On valid results with different identifiers it is a total order.\<close>

definition order_key :: "host_env \<Rightarrow> VerificationResult \<Rightarrow> int \<times> string" where
  "order_key env r = (the (date_parse (e_date env) (vr_executedAt r)), vr_executionId r)"

definition key_le :: "int \<times> string \<Rightarrow> int \<times> string \<Rightarrow> bool" where
  "key_le a b \<longleftrightarrow> fst a < fst b \<or> fst a = fst b \<and> snd a \<le> snd b"

lemma compare_key:
  assumes "result_valid env a" "result_valid env b"
  shows "compareVerificationResults env a b \<le> 0 \<longleftrightarrow> key_le (order_key env a) (order_key env b)"
    "compareVerificationResults env a b < 0 \<longleftrightarrow> \<not> key_le (order_key env b) (order_key env a)"
proof -
  obtain s t where "date_parse (e_date env) (vr_executedAt a) = Some s" "date_parse (e_date env) (vr_executedAt b) = Some t"
    using valid_instant valid_result_fields(2) [OF assms(1)] valid_result_fields(2) [OF assms(2)] by meson
  then show "compareVerificationResults env a b \<le> 0 \<longleftrightarrow> key_le (order_key env a) (order_key env b)"
    "compareVerificationResults env a b < 0 \<longleftrightarrow> \<not> key_le (order_key env b) (order_key env a)"
    by (auto simp: compareVerificationResults_def order_key_def key_le_def)
qed

lemma compare_total:
  assumes "\<forall>r \<in> A. result_valid env r" "inj_on vr_executionId A"
  shows "total_on_by (compareVerificationResults env) A"
proof -
  have "a = b" if "a \<in> A" "b \<in> A" "key_le (order_key env a) (order_key env b)" "key_le (order_key env b) (order_key env a)" for a b
    using that inj_onD [OF assms(2)] by (auto simp: key_le_def order_key_def)
  moreover have "key_le (order_key env a) (order_key env b) \<or> key_le (order_key env b) (order_key env a)" for a b
    by (auto simp: key_le_def)
  moreover have "key_le x y \<Longrightarrow> key_le y z \<Longrightarrow> key_le x z" for x y z by (auto simp: key_le_def)
  ultimately show ?thesis
    using assms(1) compare_key(1) unfolding total_on_by_def by metis
qed

subsection \<open>The repository\<close>

type_synonym result_entries = "VerificationResult list"

definition result_key :: "VerificationResult \<Rightarrow> string" where
  "result_key r = storageKey (vr_tenantId r) (vr_executionId r)"

definition verification_assertTenant :: "string \<Rightarrow> verification_error option" where
  "verification_assertTenant t =
     failing (\<not> isValidProtocolizationTenantId t)
       (VerificationError VERIFICATION_TENANT_REQUIRED (verification_details [VerificationCode VERIFICATION_TENANT_REQUIRED]))"

definition verification_get :: "result_entries \<Rightarrow> string \<Rightarrow> string \<Rightarrow> verification_error + VerificationResult option" where
  "verification_get entries t i =
     unless_error (verification_assertTenant t) (Inr (record_with result_key entries (storageKey t i)))"

definition verification_exists :: "result_entries \<Rightarrow> string \<Rightarrow> string \<Rightarrow> verification_error + bool" where
  "verification_exists entries t i =
     unless_error (verification_assertTenant t) (Inr (record_with result_key entries (storageKey t i) \<noteq> None))"

definition results_for_case :: "host_env \<Rightarrow> result_entries \<Rightarrow> string \<Rightarrow> string \<Rightarrow> VerificationResult list" where
  "results_for_case env entries t c =
     sort_by (compareVerificationResults env) (filter (\<lambda>r. vr_tenantId r = t \<and> vr_caseId r = c) entries)"

definition verification_listByCase ::
  "host_env \<Rightarrow> result_entries \<Rightarrow> string \<Rightarrow> string \<Rightarrow> verification_error + VerificationResult list" where
  "verification_listByCase env entries t c =
     unless_error (verification_assertTenant t) (Inr (results_for_case env entries t c))"

definition verification_listByRequirementCheck ::
  "host_env \<Rightarrow> result_entries \<Rightarrow> string \<Rightarrow> string \<Rightarrow> string \<Rightarrow> string \<Rightarrow> verification_error + VerificationResult list" where
  "verification_listByRequirementCheck env entries t c requirementId checkId =
     unless_error (verification_assertTenant t)
       (Inr (filter (\<lambda>r. vr_requirementId r = requirementId \<and> vr_checkId r = checkId) (results_for_case env entries t c)))"

definition verification_save ::
  "host_env \<Rightarrow> result_entries \<Rightarrow> VerificationResult \<Rightarrow> verification_error + result_entries" where
  "verification_save env entries r =
     (let bad = validateProtocolizationVerificationResult env r in
      unless_error (failing (bad \<noteq> []) (VerificationError VERIFICATION_RESULT_INVALID (verification_details (map VerificationReason bad))))
     (unless_error (failing (record_with result_key entries (result_key r) \<noteq> None)
                      (VerificationError VERIFICATION_RESULT_DUPLICATE
                         ((verification_details [VerificationCode VERIFICATION_RESULT_DUPLICATE])
                            \<lparr>vd_executionId := Some (vr_executionId r), vd_tenantId := Some (vr_tenantId r),
                             vd_caseId := Some (vr_caseId r)\<rparr>)))
        (Inr (entries @ [r]))))"

lemma verification_save_Inr:
  "verification_save env entries r = Inr e \<longleftrightarrow>
     result_valid env r \<and> record_with result_key entries (result_key r) = None \<and> e = entries @ [r]"
  by (auto simp: verification_save_def Let_def result_valid_def)

interpretation results: record_store verification_get "verification_listByCase env" "verification_save env" id vr_tenantId
  vr_caseId vr_executionId "result_valid env" for env
proof
  fix r assume "result_valid env r"
  then show "isValidProtocolizationTenantId (vr_tenantId r)" by (rule valid_result_fields)
next
  fix s r s' assume "verification_save env s r = Inr s'"
  then show "result_valid env r \<and> id s' = id s @ [r] \<and>
      storageKey (vr_tenantId r) (vr_executionId r) \<notin> (\<lambda>r. storageKey (vr_tenantId r) (vr_executionId r)) ` set (id s)"
    by (simp add: verification_save_Inr record_with_None result_key_def)
qed (auto simp: verification_get_def verification_listByCase_def results_for_case_def verification_assertTenant_def
    result_key_def [abs_def])

text \<open>In a good store the results of a case are listed in the order of execution, each once.\<close>

lemma case_history:
  assumes "results.good env entries" "verification_listByCase env entries t c = Inr rs"
  shows "sorted_wrt (\<lambda>a b. compareVerificationResults env a b \<le> 0) rs" "distinct (map vr_executionId rs)"
    "set rs = {r \<in> set entries. vr_tenantId r = t \<and> vr_caseId r = c}" "list_all (result_valid env) rs"
proof -
  let ?own = "filter (\<lambda>r. vr_tenantId r = t \<and> vr_caseId r = c) entries"
  have rs: "rs = sort_by (compareVerificationResults env) ?own"
    using assms(2) by (auto simp: verification_listByCase_def results_for_case_def)
  have good: "list_all (result_valid env) entries" "distinct (map (\<lambda>r. storageKey (vr_tenantId r) (vr_executionId r)) entries)"
    using assms(1) by (simp_all add: results.good_def)
  have "distinct (map (\<lambda>r. storageKey (vr_tenantId r) (vr_executionId r)) ?own)" using good(2) by (rule distinct_map_filter)
  also have "map (\<lambda>r. storageKey (vr_tenantId r) (vr_executionId r)) ?own = map (storageKey t) (map vr_executionId ?own)" by simp
  finally have own: "distinct (map vr_executionId ?own)" by (simp only: distinct_map)
  have "mset (map vr_executionId rs) = mset (map vr_executionId ?own)" unfolding rs mset_map mset_sort_by ..
  from mset_eq_imp_distinct_iff [OF this] own show "distinct (map vr_executionId rs)" by blast
  show set: "set rs = {r \<in> set entries. vr_tenantId r = t \<and> vr_caseId r = c}" by (auto simp: rs)
  with good(1) show "list_all (result_valid env) rs" by (auto simp: list_all_iff)
  have "total_on_by (compareVerificationResults env) (set ?own)"
    using good(1) own by (intro compare_total) (auto simp: list_all_iff distinct_map inj_on_def)
  then show "sorted_wrt (\<lambda>a b. compareVerificationResults env a b \<le> 0) rs"
    unfolding rs by (rule sort_by_sorted)
qed

subsection \<open>Projections\<close>

definition isVerificationResultCurrentForRevision :: "VerificationResult \<Rightarrow> int \<Rightarrow> bool" where
  "isVerificationResultCurrentForRevision r n \<longleftrightarrow> vr_evaluatedCaseRevision r = n"

definition listVerificationResultsForRevision :: "host_env \<Rightarrow> VerificationResult list \<Rightarrow> int \<Rightarrow> VerificationResult list" where
  "listVerificationResultsForRevision env rs n =
     sort_by (compareVerificationResults env) (filter (\<lambda>r. isVerificationResultCurrentForRevision r n) rs)"

definition finding_key :: "VerificationResult \<Rightarrow> string" where
  "finding_key r = vr_requirementId r @ [CHR 10] @ vr_checkId r"

text \<open>The loop of \<open>listLatestVerificationResults\<close>: a key that is set again keeps its place in the map.\<close>

definition hold_later :: "host_env \<Rightarrow> VerificationResult \<Rightarrow> (string \<times> VerificationResult) list \<Rightarrow> (string \<times> VerificationResult) list" where
  "hold_later env r held =
     (case map_of held (finding_key r) of
        None \<Rightarrow> AList.update (finding_key r) r held
      | Some h \<Rightarrow> if compareVerificationResults env h r < 0 then AList.update (finding_key r) r held else held)"

definition listLatestVerificationResults :: "host_env \<Rightarrow> VerificationResult list \<Rightarrow> VerificationResult list" where
  "listLatestVerificationResults env rs =
     sort_by (compareVerificationResults env) (map snd (fold (hold_later env) rs []))"

definition count_one :: "VerificationResult \<Rightarrow> (string \<times> nat) list \<Rightarrow> (string \<times> nat) list" where
  "count_one r counts =
     AList.update (vr_outcome r) ((case map_of counts (vr_outcome r) of None \<Rightarrow> 0 | Some n \<Rightarrow> n) + 1) counts"

definition countVerificationOutcomes :: "VerificationResult list \<Rightarrow> (string \<times> nat) list" where
  "countVerificationOutcomes rs = fold count_one rs (map (\<lambda>o'. (o', 0)) VERIFICATION_CHECK_OUTCOMES)"

text \<open>The reference: of each requirement and check the result after which there is no other.\<close>

definition latest_in :: "host_env \<Rightarrow> VerificationResult set \<Rightarrow> VerificationResult \<Rightarrow> bool" where
  "latest_in env A r \<longleftrightarrow> r \<in> A \<and> (\<forall>q \<in> A. finding_key q = finding_key r \<longrightarrow> compareVerificationResults env q r \<le> 0)"

definition holds_latest :: "host_env \<Rightarrow> VerificationResult set \<Rightarrow> (string \<times> VerificationResult) list \<Rightarrow> bool" where
  "holds_latest env A held \<longleftrightarrow>
     distinct (map fst held) \<and> fst ` set held = finding_key ` A \<and>
     (\<forall>k r. map_of held k = Some r \<longrightarrow> finding_key r = k \<and> latest_in env A r)"

lemma key_le_total: "key_le a b \<or> key_le b a" by (auto simp: key_le_def)
lemma key_le_refl [simp]: "key_le a a" by (simp add: key_le_def)
lemma key_le_trans: "key_le a b \<Longrightarrow> key_le b d \<Longrightarrow> key_le a d" by (auto simp: key_le_def)
lemma key_le_antisym: "key_le a b \<Longrightarrow> key_le b a \<Longrightarrow> a = b" by (auto simp: key_le_def prod_eq_iff)

lemma latest_key:
  assumes "\<forall>x \<in> B. result_valid env x"
  shows "latest_in env B r \<longleftrightarrow>
    r \<in> B \<and> (\<forall>q \<in> B. finding_key q = finding_key r \<longrightarrow> key_le (order_key env q) (order_key env r))"
  using assms by (auto simp: latest_in_def compare_key)

lemma later_is_latest:
  assumes "\<forall>x \<in> insert r B. result_valid env x" "latest_in env B h" "finding_key h = finding_key r"
  shows "latest_in env (insert r B) (if compareVerificationResults env h r < 0 then r else h)"
proof -
  have valid: "\<forall>x \<in> B. result_valid env x" using assms(1) by simp
  have h: "h \<in> B" "\<And>x. x \<in> B \<Longrightarrow> finding_key x = finding_key r \<Longrightarrow> key_le (order_key env x) (order_key env h)"
    using assms(2,3) unfolding latest_key [OF valid] by auto
  have test: "compareVerificationResults env h r < 0 \<longleftrightarrow> \<not> key_le (order_key env r) (order_key env h)"
    using compare_key(2) [of env h r] assms(1) h(1) by simp
  show ?thesis
  proof (cases "key_le (order_key env r) (order_key env h)")
    case True
    then show ?thesis unfolding test latest_key [OF assms(1)] using h assms(3) by simp
  next
    case False
    then have "key_le (order_key env x) (order_key env r)" if "x \<in> B" "finding_key x = finding_key r" for x
      using key_le_trans [OF h(2) [OF that]] key_le_total by blast
    then show ?thesis unfolding test latest_key [OF assms(1)] using False by simp
  qed
qed

lemma latest_other: "finding_key q \<noteq> finding_key r \<Longrightarrow> latest_in env B q \<Longrightarrow> latest_in env (insert r B) q"
  by (auto simp: latest_in_def)

lemma hold_later_holds:
  assumes "\<forall>x \<in> insert r B. result_valid env x" "holds_latest env B held"
  shows "holds_latest env (insert r B) (hold_later env r held)"
proof -
  have held: "distinct (map fst held)" "fst ` set held = finding_key ` B"
    "\<And>k q. map_of held k = Some q \<Longrightarrow> finding_key q = k \<and> latest_in env B q"
    using assms(2) by (auto simp: holds_latest_def)
  obtain v where v: "map_of (hold_later env r held) = (map_of held)(finding_key r \<mapsto> v)"
    "finding_key v = finding_key r" "latest_in env (insert r B) v"
  proof (cases "map_of held (finding_key r)")
    case None
    then have "finding_key r \<notin> finding_key ` B" using held(2) by (simp add: map_of_eq_None_iff)
    then have "latest_in env (insert r B) r" unfolding latest_key [OF assms(1)] by (auto simp: image_iff)
    with None that show ?thesis by (simp add: hold_later_def update_conv')
  next
    case (Some h)
    note h = held(3) [OF Some]
    from later_is_latest [OF assms(1), of h] h Some that [of "if compareVerificationResults env h r < 0 then r else h"]
    show ?thesis by (auto simp: hold_later_def update_conv' map_upd_triv)
  qed
  have "distinct (map fst (hold_later env r held))"
    using held(1) by (simp add: hold_later_def distinct_update split: option.split)
  moreover have "fst ` set (hold_later env r held) = insert (finding_key r) (fst ` set held)"
    using v(1) by (metis dom_fun_upd dom_map_of_conv_image_fst option.discI)
  moreover have "finding_key q = k \<and> latest_in env (insert r B) q" if "map_of (hold_later env r held) k = Some q" for k q
    using that held(3) latest_other v by (cases "k = finding_key r") (auto simp: v(1))
  ultimately show ?thesis using held(2) by (simp add: holds_latest_def)
qed

lemma fold_holds:
  assumes "\<forall>x \<in> B \<union> set rs. result_valid env x" "holds_latest env B held"
  shows "holds_latest env (B \<union> set rs) (fold (hold_later env) rs held)"
  using assms
proof (induction rs arbitrary: B held)
  case (Cons r rs)
  from Cons.prems have "holds_latest env (insert r B) (hold_later env r held)" by (intro hold_later_holds) auto
  from Cons.IH [OF _ this] Cons.prems(1) show ?case by simp
qed simp

text \<open>The projection gives exactly the latest results, one for each finding, in the order of execution.\<close>

lemma latest_unique:
  assumes "\<forall>x \<in> A. result_valid env x" "inj_on vr_executionId A" "latest_in env A a" "latest_in env A b"
    "finding_key a = finding_key b"
  shows "a = b"
proof -
  have "a \<in> A" "b \<in> A" "key_le (order_key env a) (order_key env b)" "key_le (order_key env b) (order_key env a)"
    using assms(3,4,5) unfolding latest_key [OF assms(1)] by auto
  then have "vr_executionId a = vr_executionId b" using key_le_antisym by (metis order_key_def snd_conv)
  with \<open>a \<in> A\<close> \<open>b \<in> A\<close> assms(2) show ?thesis by (simp add: inj_onD)
qed

lemma latest_results:
  assumes "list_all (result_valid env) rs" "inj_on vr_executionId (set rs)"
  shows "set (listLatestVerificationResults env rs) = {r. latest_in env (set rs) r}"
    "distinct (map finding_key (listLatestVerificationResults env rs))"
    "sorted_wrt (\<lambda>a b. compareVerificationResults env a b \<le> 0) (listLatestVerificationResults env rs)"
proof -
  let ?held = "fold (hold_later env) rs []" and ?cmp = "compareVerificationResults env"
  have valid: "\<forall>x \<in> set rs. result_valid env x" using assms(1) by (simp add: list_all_iff)
  have "holds_latest env {} []" by (simp add: holds_latest_def)
  from fold_holds [OF _ this, of rs] valid have holds: "distinct (map fst ?held)" "fst ` set ?held = finding_key ` set rs"
    "\<And>k r. map_of ?held k = Some r \<Longrightarrow> finding_key r = k \<and> latest_in env (set rs) r"
    by (simp_all add: holds_latest_def)
  have pair: "fst e = finding_key (snd e) \<and> latest_in env (set rs) (snd e)" if "e \<in> set ?held" for e
    using holds(3) [of "fst e" "snd e"] holds(1) that by (cases e) simp
  have "\<exists>e \<in> set ?held. snd e = r" if latest: "latest_in env (set rs) r" for r
  proof -
    have "finding_key r \<in> fst ` set ?held" using latest holds(2) by (auto simp: latest_in_def)
    then obtain e where e: "e \<in> set ?held" "fst e = finding_key r" by auto
    have "snd e = r"
      by (rule latest_unique [OF valid assms(2) _ latest]) (use pair [OF e(1)] e(2) in simp_all)
    with e(1) show ?thesis by blast
  qed
  then have "{r. latest_in env (set rs) r} \<subseteq> snd ` set ?held" by blast
  moreover have "snd ` set ?held \<subseteq> {r. latest_in env (set rs) r}" using pair by blast
  ultimately have set: "snd ` set ?held = {r. latest_in env (set rs) r}" by (rule equalityI [rotated])
  then show "set (listLatestVerificationResults env rs) = {r. latest_in env (set rs) r}"
    by (simp add: listLatestVerificationResults_def)
  have "map finding_key (map snd ?held) = map fst ?held" using pair by simp
  then have "distinct (map finding_key (map snd ?held))" using holds(1) by (simp only:)
  moreover have "mset (map finding_key (listLatestVerificationResults env rs)) = mset (map finding_key (map snd ?held))"
    unfolding listLatestVerificationResults_def mset_map mset_sort_by ..
  ultimately show "distinct (map finding_key (listLatestVerificationResults env rs))"
    using mset_eq_imp_distinct_iff by blast
  have "set (map snd ?held) \<subseteq> set rs" using set by (auto simp: latest_in_def)
  then have "total_on_by ?cmp (set (map snd ?held))"
    using valid assms(2) by (intro compare_total) (auto intro: inj_on_subset)
  then show "sorted_wrt (\<lambda>a b. ?cmp a b \<le> 0) (listLatestVerificationResults env rs)"
    unfolding listLatestVerificationResults_def by (rule sort_by_sorted)
qed

text \<open>The counts are those of the outcomes; nothing is counted elsewhere.\<close>

lemma count_fold:
  "map_of (fold count_one rs counts) k =
     (if k \<in> vr_outcome ` set rs
      then Some ((case map_of counts k of None \<Rightarrow> 0 | Some n \<Rightarrow> n) + length (filter (\<lambda>r. vr_outcome r = k) rs))
      else map_of counts k)"
  by (induction rs arbitrary: counts) (auto simp: count_one_def update_conv' filter_empty_conv image_iff split: option.splits)

lemma outcome_counts:
  assumes "list_all (result_valid env) rs"
  shows "map_of (countVerificationOutcomes rs) k =
    (if k \<in> set VERIFICATION_CHECK_OUTCOMES then Some (length (filter (\<lambda>r. vr_outcome r = k) rs)) else None)"
proof -
  have start: "map_of (map (\<lambda>o'. (o', 0)) xs) k = (if k \<in> set xs then Some 0 else None)" for xs :: "string list"
    by (induction xs) auto
  have "vr_outcome ` set rs \<subseteq> set VERIFICATION_CHECK_OUTCOMES"
    using assms valid_result_fields(5) by (auto simp: list_all_iff)
  moreover have "length (filter (\<lambda>r. vr_outcome r = k) rs) = 0" if "k \<notin> vr_outcome ` set rs"
    using that by (auto simp: filter_empty_conv)
  ultimately show ?thesis
    unfolding countVerificationOutcomes_def count_fold start by auto
qed

text \<open>Findings and their keys correspond.\<close>

lemma finding_key_inj:
  assumes "result_valid env a" "result_valid env b"
  shows "finding_key a = finding_key b \<longleftrightarrow> vr_requirementId a = vr_requirementId b \<and> vr_checkId a = vr_checkId b"
  using append_sep_inj [of "CHR 10" "vr_requirementId a" "vr_requirementId b" "vr_checkId a" "vr_checkId b"]
    dotted_no_newline valid_result_fields(4) [OF assms(1)] valid_result_fields(4) [OF assms(2)]
  by (auto simp: finding_key_def isValidAssetRequirementId_def)

end
