(* ===== verification/VerificationChecks.thy ===== *)
theory VerificationChecks
  imports VerificationRuns "HOL-Library.AList"
begin

text \<open>
  \<open>packages/asset-protocolization/src/verification/verification-builtin-checks.ts\<close>: the checks that come with the
  package.  SHA-256 is a parameter; a resolver may reject, which rejects the check.
\<close>

subsection \<open>Findings\<close>

definition finding :: "string \<Rightarrow> string \<Rightarrow> string \<Rightarrow> VerificationInputRef list option \<Rightarrow> VerificationCheckExecution" where
  "finding outcome reason summary refs =
     \<lparr>xe_outcome = outcome, xe_reasonCode = Some reason, xe_summary = Some summary, xe_inputRefs = refs,
      xe_canonicalVerificationRef = None\<rparr>"

text \<open>Of an outcome outside of the table JavaScript compares with \<open>undefined\<close>, which no check does.\<close>

definition OUTCOME_PRECEDENCE :: "string \<Rightarrow> nat" where
  "OUTCOME_PRECEDENCE o' =
     (if o' = ''Fail'' then 4 else if o' = ''Unavailable'' then 3 else if o' = ''Warning'' then 2
      else if o' = ''ManualReview'' then 1 else 0)"

fun strongest_from :: "VerificationCheckExecution option \<Rightarrow> VerificationCheckExecution list \<Rightarrow> VerificationCheckExecution option" where
  "strongest_from held [] = held"
| "strongest_from None (f # fs) = strongest_from (Some f) fs"
| "strongest_from (Some h) (f # fs) =
     strongest_from (Some (if OUTCOME_PRECEDENCE (xe_outcome h) < OUTCOME_PRECEDENCE (xe_outcome f) then f else h)) fs"

definition strongest :: "VerificationCheckExecution list \<Rightarrow> VerificationCheckExecution \<Rightarrow> VerificationCheckExecution" where
  "strongest observations fallback = (case strongest_from None observations of None \<Rightarrow> fallback | Some f \<Rightarrow> f)"

definition input_ref :: "string \<Rightarrow> string \<Rightarrow> VerificationInputRef" where
  "input_ref kind ref = \<lparr>vi_kind = kind, vi_ref = ref\<rparr>"

definition requirementRefs :: "string list \<Rightarrow> VerificationInputRef list" where
  "requirementRefs ids = map (input_ref ''Requirement'') ids"

definition materialsFor :: "CaseMaterial list \<Rightarrow> string \<Rightarrow> ProtocolizationMaterialKind \<Rightarrow> CaseMaterial list" where
  "materialsFor ms requirementId kind =
     filter (\<lambda>m. payload_kind (zm_payload m) = kind \<and> requirementId \<in> set (zm_requirementIds m)) ms"

fun COUNTED_MATERIAL_KIND :: "AssetRequirementKind \<Rightarrow> ProtocolizationMaterialKind option" where
  "COUNTED_MATERIAL_KIND DeclarationRequirement = Some DeclarationMaterial"
| "COUNTED_MATERIAL_KIND EvidenceRequirement = Some EvidenceMaterial"
| "COUNTED_MATERIAL_KIND AttestationRequirement = Some AttestationMaterial"
| "COUNTED_MATERIAL_KIND k = None"

subsection \<open>Material\<close>

definition present_missing :: "VerificationCheckContext \<Rightarrow> string list" where
  "present_missing kx =
     map gp_requirementId (filter (\<lambda>g. gp_obligation g = Required \<and> gp_materialStatus g = Pending)
       (filter (\<lambda>g. gp_kind g \<noteq> VerificationRequirement) (vk_requirementProgress kx)))"

definition present_unresolved :: "VerificationCheckContext \<Rightarrow> string list" where
  "present_unresolved kx =
     map gp_requirementId (filter (\<lambda>g. gp_conditionStatus g = Unresolved \<and> gp_materialStatus g = Pending)
       (filter (\<lambda>g. gp_kind g \<noteq> VerificationRequirement) (vk_requirementProgress kx)))"

definition requiredMaterialPresent :: "VerificationCheckContext \<Rightarrow> VerificationCheckExecution" where
  "requiredMaterialPresent kx =
     (if present_missing kx \<noteq> []
      then finding ''Fail'' ''material.missing''
             (show_nat (length (present_missing kx)) @ '' required requirement(s) of the pinned profile have no material.'')
             (Some (requirementRefs (present_missing kx)))
      else if present_unresolved kx \<noteq> []
      then finding ''ManualReview'' ''condition.unresolved''
             (show_nat (length (present_unresolved kx)) @ '' conditional requirement(s) have no material and no evaluated condition.'')
             (Some (requirementRefs (present_unresolved kx)))
      else finding ''Pass'' ''material.present'' ''Every required requirement of the pinned profile has material associated.'' None)"

fun minimum_count :: "RequirementShape \<Rightarrow> int option" where
  "minimum_count (DeclarationShape d) = ad_minimumCount d"
| "minimum_count (EvidenceShape d) = ae_minimumCount d"
| "minimum_count (AttestationShape d) = aa_minimumCount d"
| "minimum_count s = None"

definition count_constrained :: "AssetRequirement \<Rightarrow> bool" where
  "count_constrained q \<longleftrightarrow>
     ar_obligation q = Required \<and> minimum_count (ar_shape q) \<noteq> None \<and> COUNTED_MATERIAL_KIND (ar_kind q) \<noteq> None"

definition falls_short :: "CaseMaterial list \<Rightarrow> AssetRequirement \<Rightarrow> bool" where
  "falls_short ms q \<longleftrightarrow>
     (case (COUNTED_MATERIAL_KIND (ar_kind q), minimum_count (ar_shape q)) of
        (Some k, Some n) \<Rightarrow> int (length (materialsFor ms (ar_id q) k)) < n
      | _ \<Rightarrow> False)"

definition minimumMaterialCount :: "VerificationCheckContext \<Rightarrow> VerificationCheckExecution" where
  "minimumMaterialCount kx =
     (let constrained = filter count_constrained (ap_requirements (vk_assetProfile kx));
          short = filter (falls_short (vk_materials kx)) constrained in
      if constrained = []
      then finding ''Pass'' ''count.not.constrained'' ''The pinned profile declares no minimum material count.'' None
      else if short \<noteq> []
      then finding ''Fail'' ''material.count.insufficient''
             (show_nat (length short) @ '' requirement(s) hold fewer materials than the pinned profile'' @ [CHR 39] @ ''s minimum.'')
             (Some (requirementRefs (map ar_id short)))
      else finding ''Pass'' ''count.satisfied'' ''Every declared minimum material count is met.''
             (Some (requirementRefs (map ar_id constrained))))"

subsection \<open>Identity\<close>

definition registryEntryConforms :: "CanonicalRegistryEntryRef \<Rightarrow> AssetRegistryConstraint \<Rightarrow> bool" where
  "registryEntryConforms e r \<longleftrightarrow>
     if_present (\<lambda>xs. rg_registryType e \<in> set xs) (rc_acceptedTypes r) \<and>
     if_present (\<lambda>xs. rg_authorityLevel e \<in> set xs) (rc_acceptedAuthorityLevels r) \<and>
     if_present (\<lambda>xs. rg_entryType e \<in> set xs) (rc_acceptedEntryTypes r) \<and>
     if_present (\<lambda>xs. rg_namespace e \<in> set xs) (rc_acceptedNamespaces r)"

definition evidencedStrategies :: "VerificationCheckContext \<Rightarrow> string \<Rightarrow> string set" where
  "evidencedStrategies kx requirementId =
     (let found = (\<lambda>k. materialsFor (vk_materials kx) requirementId k \<noteq> []) in
      (if su_contentIdentity (vk_subject kx) \<noteq> None \<or> found ContentIdentityMaterial then {''ContentIdentity''} else {}) \<union>
      (if sj_externalReference (su_subjectRef (vk_subject kx)) \<noteq> None \<or> found ExternalReferenceMaterial
       then {''ExternalReference''} else {}) \<union>
      (if found RegistryEntryMaterial then {''RegistryEntry''} else {}))"

fun non_conforming :: "AssetRegistryConstraint \<Rightarrow> CaseMaterial \<Rightarrow> bool" where
  "non_conforming r m = (case zm_payload m of RegistryEntryPayload e \<Rightarrow> \<not> registryEntryConforms e r | _ \<Rightarrow> False)"

definition identity_findings :: "VerificationCheckContext \<Rightarrow> string \<times> AssetIdentityRequirement \<Rightarrow> VerificationCheckExecution list" where
  "identity_findings kx e =
     (let (i, r) = e; evidenced = evidencedStrategies kx i;
          satisfied = (if ai_satisfaction r = ''All'' then list_all (\<lambda>s. s \<in> evidenced) (ai_acceptedStrategies r)
                       else list_ex (\<lambda>s. s \<in> evidenced) (ai_acceptedStrategies r)) in
      if \<not> satisfied
      then [finding ''Fail'' ''identity.strategy.unsatisfied''
              (''Requirement '' @ i @ '' is not evidenced by the strategies it accepts.'') (Some (requirementRefs [i]))]
      else
        (case ai_registry r of
           None \<Rightarrow> []
         | Some c \<Rightarrow>
             (let bad = filter (non_conforming c) (materialsFor (vk_materials kx) i RegistryEntryMaterial) in
              if bad = [] then []
              else [finding ''Fail'' ''identity.registry.mismatch''
                      (''Requirement '' @ i @ '' holds a registry entry outside the registry constraint it declares.'')
                      (Some (requirementRefs [i] @ map (\<lambda>m. input_ref ''Material'' (zm_materialId m)) bad))])))"

definition identity_requirement :: "AssetRequirement \<Rightarrow> (string \<times> AssetIdentityRequirement) list" where
  "identity_requirement q =
     (case ar_shape q of IdentityShape r \<Rightarrow> if ar_obligation q = Required then [(ar_id q, r)] else [] | _ \<Rightarrow> [])"

definition identityStrategy :: "VerificationCheckContext \<Rightarrow> VerificationCheckExecution" where
  "identityStrategy kx =
     (let required = concat (map identity_requirement (ap_requirements (vk_assetProfile kx))) in
      if required = []
      then finding ''Pass'' ''identity.not.constrained'' ''The pinned profile requires no identity material.'' None
      else strongest (concat (map (identity_findings kx) required))
             (finding ''Pass'' ''identity.strategy.satisfied''
                ''Every required identity requirement is evidenced by an accepted strategy.''
                (Some (requirementRefs (map fst required)))))"

subsection \<open>Freshness\<close>

text \<open>
  An age is compared in seconds, the quotient of milliseconds by 1000.  Instants have years of four digits, so the
  quotient, as a double, compares with an integer as the milliseconds do.  With an instant that does not parse the age
  is not a number and every comparison is false.
\<close>

definition age_millis :: "host_env \<Rightarrow> string \<Rightarrow> string \<Rightarrow> int option" where
  "age_millis env observedAt now =
     (case (date_parse (e_date env) now, date_parse (e_date env) observedAt) of (Some t, Some s) \<Rightarrow> Some (t - s) | _ \<Rightarrow> None)"

definition observed_in_future :: "host_env \<Rightarrow> string \<Rightarrow> string \<Rightarrow> bool" where
  "observed_in_future env observedAt now \<longleftrightarrow> (case age_millis env observedAt now of Some a \<Rightarrow> a < 0 | None \<Rightarrow> False)"

definition too_old :: "host_env \<Rightarrow> string \<Rightarrow> string \<Rightarrow> int option \<Rightarrow> bool" where
  "too_old env observedAt now maxAge \<longleftrightarrow>
     (case (age_millis env observedAt now, maxAge) of (Some a, Some n) \<Rightarrow> n * 1000 < a | _ \<Rightarrow> False)"

definition receipt_about :: "CaseMaterial \<Rightarrow> string \<Rightarrow> EvidenceIntakeReceipt \<Rightarrow> bool" where
  "receipt_about m e r \<longleftrightarrow> er_materialId r = zm_materialId m \<or> er_evidenceRef r = e"

text \<open>The findings of one material, and whether it was evaluated.\<close>

definition freshness_of ::
  "host_env \<Rightarrow> VerificationCheckContext \<Rightarrow> string \<Rightarrow> AssetFreshnessConstraint \<Rightarrow> CaseMaterial \<Rightarrow> VerificationCheckExecution list \<times> bool" where
  "freshness_of env kx i c m =
     (case zm_payload m of
        EvidencePayload e \<Rightarrow>
          (let refs = requirementRefs [i] @ [input_ref ''EvidenceRecord'' e];
               receipt = find (receipt_about m e) (vk_evidenceReceipts kx) in
           case Option.bind receipt er_observedAt of
             None \<Rightarrow>
               ([finding ''Unavailable'' ''freshness.observation.missing''
                   (''No observation instant is available for the evidence answering '' @ i @ ''.'') (Some refs)], False)
           | Some observedAt \<Rightarrow>
               (let basis = (case receipt of None \<Rightarrow> refs | Some r \<Rightarrow> refs @ [input_ref ''IntakeReceipt'' (er_intakeId r)]);
                    expiry = (if fr_mustNotBeExpired c = Some True
                              then [finding ''Unavailable'' ''dependency.unavailable''
                                      (''Expiry for the evidence answering '' @ i @
                                       '' is carried by a Protocol record this check cannot resolve.'') (Some basis)]
                              else []) in
                (expiry @
                 (if observed_in_future env observedAt (vk_now kx)
                  then [finding ''Warning'' ''freshness.observed.in.future''
                          (''The evidence answering '' @ i @ '' records an observation later than the execution instant.'') (Some basis)]
                  else if too_old env observedAt (vk_now kx) (fr_maxAgeSeconds c)
                  then [finding ''Fail'' ''freshness.exceeded''
                          (''The evidence answering '' @ i @ '' was observed longer ago than the pinned profile permits.'') (Some basis)]
                  else if (case fr_observedAfter c of
                             None \<Rightarrow> False
                           | Some earliest \<Rightarrow> date_gt (date_parse (e_date env) earliest) (date_parse (e_date env) observedAt))
                  then [finding ''Fail'' ''freshness.exceeded''
                          (''The evidence answering '' @ i @ '' was observed before the instant the pinned profile requires.'') (Some basis)]
                  else []), True)))
      | _ \<Rightarrow> ([], False))"

definition freshness_requirement :: "AssetRequirement \<Rightarrow> (string \<times> AssetFreshnessConstraint) list" where
  "freshness_requirement q =
     (case ar_shape q of
        EvidenceShape r \<Rightarrow> (case ae_freshness r of None \<Rightarrow> [] | Some c \<Rightarrow> [(ar_id q, c)])
      | _ \<Rightarrow> [])"

definition evidenceFreshness :: "host_env \<Rightarrow> VerificationCheckContext \<Rightarrow> VerificationCheckExecution" where
  "evidenceFreshness env kx =
     (let constrained = concat (map freshness_requirement (ap_requirements (vk_assetProfile kx)));
          each = concat (map (\<lambda>(i, c). map (freshness_of env kx i c) (materialsFor (vk_materials kx) i EvidenceMaterial)) constrained);
          evaluated = list_ex snd each in
      if constrained = []
      then finding ''Pass'' ''freshness.not.constrained'' ''The pinned profile declares no evidence freshness constraint.'' None
      else strongest (concat (map fst each))
             (finding ''Pass'' (if evaluated then ''freshness.satisfied'' else ''freshness.no.material'')
                (if evaluated then ''Every evaluable observation satisfies the freshness constraint the pinned profile declares.''
                 else ''No evidence is associated with the freshness-constrained requirements of the pinned profile.'') None))"

subsection \<open>Declarations\<close>

definition declaration_refs :: "DeclarationRecord \<Rightarrow> VerificationInputRef list" where
  "declaration_refs d = [input_ref ''DeclarationRecord'' (dr_declarationId d), input_ref ''ClaimRecord'' (dr_claimRef d)]"

definition claim_finding :: "DeclarationRecord \<Rightarrow> VerificationClaimResolution \<Rightarrow> VerificationCheckExecution list" where
  "claim_finding d res =
     (if cr_status res = ResolutionUnavailable
      then [finding ''Unavailable'' ''dependency.unavailable'' ''The claim source could not be consulted.'' (Some (declaration_refs d))]
      else if cr_status res = NotFound \<or> cr_claim res = None
      then [finding ''Unavailable'' ''claim.unresolved'' ''The named claim record could not be resolved, so its type is unchecked.''
              (Some (declaration_refs d))]
      else if map_option cc_type (cr_claim res) \<noteq> Some (dr_claimType d)
      then [finding ''Fail'' ''claim.type.mismatch'' ''A resolved claim record is of a different type than the declaration recorded.''
              (Some (declaration_refs d))]
      else [])"

fun claim_findings ::
  "(string \<Rightarrow> string + VerificationClaimResolution) \<Rightarrow> DeclarationRecord list \<Rightarrow> string + VerificationCheckExecution list" where
  "claim_findings resolve [] = Inr []"
| "claim_findings resolve (d # ds) =
     bind_sum (resolve (dr_claimRef d)) (\<lambda>res. bind_sum (claim_findings resolve ds) (\<lambda>fs. Inr (claim_finding d res @ fs)))"

definition declarationClaimType :: "VerificationCheckContext \<Rightarrow> string + VerificationCheckExecution" where
  "declarationClaimType kx =
     (if vk_declarations kx = []
      then Inr (finding ''Pass'' ''declaration.none'' ''This case holds no declaration to corroborate.'' None)
      else case rv_claim (vk_resolvers kx) of
        None \<Rightarrow>
          Inr (finding ''Unavailable'' ''claim.resolver.unavailable''
            ''No claim resolver is bound, so the recorded claim types cannot be corroborated.'' None)
      | Some resolve \<Rightarrow>
          bind_sum (claim_findings resolve (vk_declarations kx)) (\<lambda>fs. Inr
            (strongest fs
              (finding ''Pass'' ''claim.type.consistent'' ''Every resolved claim record carries the type its declaration recorded.''
                 (Some (map (\<lambda>d. input_ref ''DeclarationRecord'' (dr_declarationId d)) (vk_declarations kx)))))))"

definition declarantKey :: "CanonicalPrincipalRef \<Rightarrow> string" where
  "declarantKey p = cp_kind p @ [CHR 10] @ cp_id p"

text \<open>The Map of declarants by requirement, in the order in which a requirement was first named.\<close>

definition name_declarant ::
  "string set \<Rightarrow> string \<Rightarrow> string \<Rightarrow> (string \<times> string list) list \<Rightarrow> (string \<times> string list) list" where
  "name_declarant asked key i held =
     (if i \<notin> asked then held
      else AList.update i (List.insert key (case map_of held i of None \<Rightarrow> [] | Some ks \<Rightarrow> ks)) held)"

definition name_declarants :: "string set \<Rightarrow> DeclarationRecord \<Rightarrow> (string \<times> string list) list \<Rightarrow> (string \<times> string list) list" where
  "name_declarants asked d held = fold (name_declarant asked (declarantKey (dr_declarant d))) (dr_requirementIds d) held"

definition competing_requirements :: "VerificationCheckContext \<Rightarrow> string list" where
  "competing_requirements kx =
     (let asked = ar_id ` set (filter (\<lambda>q. ar_kind q = DeclarationRequirement) (ap_requirements (vk_assetProfile kx))) in
      map fst (filter (\<lambda>e. 1 < length (snd e)) (fold (name_declarants asked) (vk_declarations kx) [])))"

definition competingDeclaration :: "VerificationCheckContext \<Rightarrow> VerificationCheckExecution" where
  "competingDeclaration kx =
     (if competing_requirements kx \<noteq> []
      then finding ''ManualReview'' ''declaration.competing''
             (show_nat (length (competing_requirements kx)) @
              '' declaration requirement(s) carry assertions from more than one declarant; automation cannot adjudicate between them.'')
             (Some (requirementRefs (competing_requirements kx)))
      else finding ''Pass'' ''declaration.uncontested''
             ''No declaration requirement carries assertions from more than one declarant.'' None)"

subsection \<open>Content\<close>

definition digest_finding ::
  "(string \<Rightarrow> string) \<Rightarrow> VerificationInputRef list \<Rightarrow> ContentIdentity \<Rightarrow> VerificationContentResolution \<Rightarrow> VerificationCheckExecution" where
  "digest_finding sha refs expected res =
     (if cr_contentStatus res = ResolutionUnavailable
      then finding ''Unavailable'' ''dependency.unavailable'' ''The content source could not be consulted.'' (Some refs)
      else if cr_contentStatus res = NotFound \<or> cr_bytes res = None
      then finding ''Unavailable'' ''content.unavailable'' ''The subject bytes are not available, so no digest was computed.'' (Some refs)
      else case verifyContentIdentity sha (the (cr_bytes res)) expected of
        None \<Rightarrow>
          finding ''Pass'' ''digest.matches'' ''The subject bytes produce exactly the content identity this case pinned.'' (Some refs)
      | Some UNSUPPORTED_CONTENT_DIGEST_ALGORITHM \<Rightarrow>
          finding ''Unavailable'' ''digest.algorithm.unsupported''
            ''The pinned content identity names a digest algorithm this substrate cannot compute.'' (Some refs)
      | Some CONTENT_DIGEST_MISMATCH \<Rightarrow>
          finding ''Fail'' ''digest.mismatch'' ''The subject bytes do not produce the content identity this case pinned.'' (Some refs))"

definition contentDigest :: "(string \<Rightarrow> string) \<Rightarrow> VerificationCheckContext \<Rightarrow> string + VerificationCheckExecution" where
  "contentDigest sha kx =
     (let refs = [input_ref ''Subject'' (sj_sovereignAssetId (su_subjectRef (vk_subject kx)))] in
      case su_contentIdentity (vk_subject kx) of
        None \<Rightarrow>
          Inr (finding ''Unavailable'' ''content.identity.absent''
            ''This case binds no content identity, so there is no digest to compare.'' (Some refs))
      | Some expected \<Rightarrow>
          (case rv_content (vk_resolvers kx) of
             None \<Rightarrow>
               Inr (finding ''Unavailable'' ''content.resolver.unavailable''
                 ''No content resolver is bound, so the subject bytes cannot be read.'' (Some refs))
           | Some readContent \<Rightarrow>
               bind_sum (readContent (su_subjectRef (vk_subject kx))) (\<lambda>res. Inr (digest_finding sha refs expected res))))"

definition BUILT_IN_VERIFICATION_CHECKS :: "(string \<Rightarrow> string) \<Rightarrow> host_env \<Rightarrow> AssetVerificationCheck list" where
  "BUILT_IN_VERIFICATION_CHECKS sha env =
     [\<lparr>vc_checkId = ''check.material.present'', vc_execute = (\<lambda>kx. Inr (requiredMaterialPresent kx))\<rparr>,
      \<lparr>vc_checkId = ''check.material.minimum-count'', vc_execute = (\<lambda>kx. Inr (minimumMaterialCount kx))\<rparr>,
      \<lparr>vc_checkId = ''check.identity.strategy'', vc_execute = (\<lambda>kx. Inr (identityStrategy kx))\<rparr>,
      \<lparr>vc_checkId = ''check.evidence.freshness'', vc_execute = (\<lambda>kx. Inr (evidenceFreshness env kx))\<rparr>,
      \<lparr>vc_checkId = ''check.declaration.claim-type'', vc_execute = declarationClaimType\<rparr>,
      \<lparr>vc_checkId = ''check.declaration.competing'', vc_execute = (\<lambda>kx. Inr (competingDeclaration kx))\<rparr>,
      \<lparr>vc_checkId = ''check.content.digest'', vc_execute = contentDigest sha\<rparr>]"

end
