(* ===== verification/CheckVerdicts.thy ===== *)
theory CheckVerdicts
  imports VerificationChecks
begin

text \<open>
  What the built-in checks say: their findings are admitted by the engine as long as they name at most
  \<open>INPUT_REFS_MAX_LENGTH\<close> inputs, and the outcome of each means what its summary says.
\<close>

subsection \<open>Admitted findings\<close>

definition admitted :: "VerificationCheckExecution \<Rightarrow> bool" where
  "admitted x \<longleftrightarrow> validateVerificationCheckExecution x = []"

lemma finding_admitted [simp]:
  "admitted (finding o' r s refs) \<longleftrightarrow>
     isVerificationCheckOutcome o' \<and> isDottedToken r \<and> isValidSummary s \<and> if_present isValidInputRefList refs"
  by (simp add: admitted_def validateVerificationCheckExecution_def finding_def isValidVerificationReasonCode_def)

lemma outcomes_ok [simp]:
  "isVerificationCheckOutcome ''Pass''" "isVerificationCheckOutcome ''Fail''" "isVerificationCheckOutcome ''Warning''"
  "isVerificationCheckOutcome ''ManualReview''" "isVerificationCheckOutcome ''Unavailable''"
  by code_simp+

lemma reasons_ok [simp]:
  "isDottedToken ''material.missing''" "isDottedToken ''condition.unresolved''" "isDottedToken ''material.present''"
  "isDottedToken ''count.not.constrained''" "isDottedToken ''material.count.insufficient''" "isDottedToken ''count.satisfied''"
  "isDottedToken ''identity.not.constrained''" "isDottedToken ''identity.strategy.unsatisfied''"
  "isDottedToken ''identity.registry.mismatch''" "isDottedToken ''identity.strategy.satisfied''"
  "isDottedToken ''freshness.not.constrained''" "isDottedToken ''freshness.observation.missing''"
  "isDottedToken ''dependency.unavailable''" "isDottedToken ''freshness.observed.in.future''" "isDottedToken ''freshness.exceeded''"
  "isDottedToken ''freshness.satisfied''" "isDottedToken ''freshness.no.material''" "isDottedToken ''declaration.none''"
  "isDottedToken ''claim.resolver.unavailable''" "isDottedToken ''claim.unresolved''" "isDottedToken ''claim.type.mismatch''"
  "isDottedToken ''claim.type.consistent''" "isDottedToken ''declaration.competing''" "isDottedToken ''declaration.uncontested''"
  "isDottedToken ''content.identity.absent''" "isDottedToken ''content.resolver.unavailable''" "isDottedToken ''content.unavailable''"
  "isDottedToken ''digest.matches''" "isDottedToken ''digest.algorithm.unsupported''" "isDottedToken ''digest.mismatch''"
  by code_simp+

lemma summary_ok:
  assumes "s \<noteq> []" "\<not> is_space (hd s)" "length s \<le> 1024"
  shows "isValidSummary s"
  using assms by (cases s) (auto simp: isValidSummary_def SUMMARY_MAX_LENGTH_def trim_nil)

lemma text_ok [simp]:
  "\<not> is_space c \<Longrightarrow> length s \<le> 1023 \<Longrightarrow> isValidSummary (c # s)"
  by (rule summary_ok) simp_all

lemma digits_ok: "length (show_nat n) \<le> n + 1 \<and> show_nat n \<noteq> [] \<and> \<not> is_space (hd (show_nat n))"
proof (induction n rule: show_nat.induct)
  case (1 n)
  have digit: "\<not> is_space (digit_char k)" if "k < 10" for k
  proof -
    have "k \<in> {0, 1, 2, 3, 4, 5, 6, 7, 8, 9}" using that by auto
    then show ?thesis by (auto simp: digit_char_def is_space_def char_code_def)
  qed
  show ?case
  proof (cases "n < 10")
    case True
    then show ?thesis using digit by (subst (1 2 3) show_nat.simps) simp
  next
    case False
    moreover have "n div 10 + 2 \<le> n + 1" using False by linarith
    ultimately show ?thesis using 1 by (subst (1 2 3) show_nat.simps) simp
  qed
qed

lemma counted_text_ok: "n \<le> 256 \<Longrightarrow> length s \<le> 200 \<Longrightarrow> isValidSummary (show_nat n @ s)"
  using digits_ok [of n] by (intro summary_ok) auto

lemma canonical_first: "length s \<le> 128 \<Longrightarrow> x \<in> set s \<Longrightarrow> \<not> is_space x \<Longrightarrow> isCanonicalRecordId s"
  by (auto simp: isCanonicalRecordId_def ASSET_IDENTIFIER_MAX_LENGTH_def trim_nil list_all_iff)

lemma dotted_canonical: "isDottedToken s \<Longrightarrow> isCanonicalRecordId s"
proof -
  assume s: "isDottedToken s"
  then obtain x where x: "x \<in> set s"
    by (cases s) (auto simp: isDottedToken_def DOTTED_TOKEN_PATTERN_def)
  from dotted_char [OF s x] have "\<not> is_space x"
    by (auto simp: alnum_char_def is_lower_def is_digit_def is_space_def char_code_def)
  with x s show ?thesis by (auto simp: isDottedToken_def ASSET_IDENTIFIER_MAX_LENGTH_def intro: canonical_first)
qed

lemma instance_canonical: "isProtocolizationInstanceIdentifier s \<Longrightarrow> isCanonicalRecordId s"
  using canonical_first [of s "hd s"]
  by (cases s) (auto simp: isProtocolizationInstanceIdentifier_def ASSET_IDENTIFIER_MAX_LENGTH_def instance_head_def is_lower_def
      is_upper_def is_digit_def is_space_def)

lemma requirement_refs_ok:
  assumes "list_all isValidAssetRequirementId ids" "length ids \<le> 256"
  shows "isValidInputRefList (requirementRefs ids)"
  using assms dotted_canonical
  by (auto simp: isValidInputRefList_def INPUT_REFS_MAX_LENGTH_def requirementRefs_def input_ref_def list_all_iff
      isVerificationInputKind_def VerificationInputKinds_def isValidAssetRequirementId_def)

lemma ref_kinds_ok [simp]:
  "isVerificationInputKind ''Material''" "isVerificationInputKind ''Requirement''" "isVerificationInputKind ''EvidenceRecord''"
  "isVerificationInputKind ''ClaimRecord''" "isVerificationInputKind ''IntakeReceipt''"
  "isVerificationInputKind ''DeclarationRecord''" "isVerificationInputKind ''Subject''"
  by (simp_all add: isVerificationInputKind_def VerificationInputKinds_def)

subsection \<open>What a check is given\<close>

text \<open>
  The context of a check of a well-formed case: valid records, and no more of them than a finding may name.
\<close>

definition context_ok :: "host_env \<Rightarrow> VerificationCheckContext \<Rightarrow> bool" where
  "context_ok env kx \<longleftrightarrow>
     list_all (requirement_ok env) (ap_requirements (vk_assetProfile kx)) \<and> length (ap_requirements (vk_assetProfile kx)) \<le> 256 \<and>
     list_all (isValidProtocolizationCaseMaterial env) (vk_materials kx) \<and> length (vk_materials kx) \<le> 255 \<and>
     list_all (\<lambda>r. validateEvidenceIntakeReceipt env r = []) (vk_evidenceReceipts kx) \<and>
     list_all (\<lambda>d. validateProtocolizationDeclarationRecord env d = []) (vk_declarations kx) \<and> length (vk_declarations kx) \<le> 256 \<and>
     isValidProtocolizationCaseSubject (vk_subject kx) \<and>
     list_all (\<lambda>g. isValidAssetRequirementId (gp_requirementId g)) (vk_requirementProgress kx) \<and>
     length (vk_requirementProgress kx) \<le> 256"

lemma strongest_in: "strongest fs f \<in> insert f (set fs)"
proof -
  have "strongest_from h fs = Some x \<Longrightarrow> x \<in> set fs \<or> h = Some x" for h x
    by (induction h fs rule: strongest_from.induct) (auto split: if_splits)
  from this [of None] show ?thesis by (auto simp: strongest_def split: option.split)
qed

lemma strongest_admitted: "list_all admitted fs \<Longrightarrow> admitted f \<Longrightarrow> admitted (strongest fs f)"
  using strongest_in [of fs f] by (auto simp: list_all_iff)

lemma present_admitted: "context_ok env kx \<Longrightarrow> admitted (requiredMaterialPresent kx)"
  by (auto simp: requiredMaterialPresent_def present_missing_def present_unresolved_def context_ok_def is_space_def char_code_def
      intro!: counted_text_ok requirement_refs_ok order.trans [OF length_filter_le] order.trans [OF le_trans [OF length_filter_le length_filter_le]])
    (auto simp: list_all_iff)

lemma split_on_length: "sum_list (map length (split_on c s)) + length (split_on c s) = length s + 1"
  by (induction c s rule: split_on.induct) (auto split: list.splits)

lemma asset_id_canonical:
  assumes "isValidSovereignAssetId s"
  shows "isCanonicalRecordId s"
proof -
  let ?uuid = "drop (length SOVEREIGN_ASSET_ID_PREFIX) s"
  have prefix: "starts_with s SOVEREIGN_ASSET_ID_PREFIX" and uuid: "UUID_PATTERN ?uuid"
    using assms by (simp_all add: isValidSovereignAssetId_def)
  obtain a b c d e where parts: "split_on CHR ''-'' ?uuid = [a, b, c, d, e]"
    using uuid by (auto simp: UUID_PATTERN_def split: list.splits)
  then have "length ?uuid \<le> 36"
    using uuid split_on_length [of "CHR ''-''" ?uuid] by (simp add: UUID_PATTERN_def)
  then have "length s \<le> 128" by (simp add: SOVEREIGN_ASSET_ID_PREFIX_def)
  moreover have "CHR ''a'' \<in> set s"
    using prefix by (cases s) (auto simp: SOVEREIGN_ASSET_ID_PREFIX_def)
  ultimately show ?thesis by (rule canonical_first) (simp add: is_space_def char_code_def)
qed

lemma context_okD:
  assumes "context_ok env kx"
  shows "q \<in> set (ap_requirements (vk_assetProfile kx)) \<Longrightarrow> isDottedToken (ar_id q)"
    "m \<in> set (vk_materials kx) \<Longrightarrow> isCanonicalRecordId (zm_materialId m)"
    "m \<in> set (vk_materials kx) \<Longrightarrow> zm_payload m = EvidencePayload e \<Longrightarrow> isCanonicalRecordId e"
    "r \<in> set (vk_evidenceReceipts kx) \<Longrightarrow> isCanonicalRecordId (er_intakeId r)"
    "d \<in> set (vk_declarations kx) \<Longrightarrow> isCanonicalRecordId (dr_declarationId d) \<and> isCanonicalRecordId (dr_claimRef d)"
    "isCanonicalRecordId (sj_sovereignAssetId (su_subjectRef (vk_subject kx)))"
proof -
  note ok = assms [unfolded context_ok_def]
  show "isDottedToken (ar_id q)" if "q \<in> set (ap_requirements (vk_assetProfile kx))"
    using ok that by (auto simp: list_all_iff requirement_ok_def isValidAssetRequirementId_def)
  have valid: "isValidProtocolizationCaseMaterial env m" if "m \<in> set (vk_materials kx)" for m
    using ok that by (auto simp: list_all_iff)
  show "isCanonicalRecordId (zm_materialId m)" if "m \<in> set (vk_materials kx)"
    using valid [OF that] instance_canonical
    by (simp add: isValidProtocolizationCaseMaterial_def isValidProtocolizationMaterialId_def)
  show "isCanonicalRecordId e" if "m \<in> set (vk_materials kx)" "zm_payload m = EvidencePayload e"
    using valid [OF that(1)] that(2) by (simp add: isValidProtocolizationCaseMaterial_def)
  show "isCanonicalRecordId (er_intakeId r)" if "r \<in> set (vk_evidenceReceipts kx)"
    using ok that instance_canonical
    by (auto simp: list_all_iff validateEvidenceIntakeReceipt_def isValidEvidenceIntakeId_def)
  show "isCanonicalRecordId (dr_declarationId d) \<and> isCanonicalRecordId (dr_claimRef d)" if "d \<in> set (vk_declarations kx)"
    using ok that instance_canonical
    by (auto simp: list_all_iff validateProtocolizationDeclarationRecord_def isValidDeclarationId_def)
  show "isCanonicalRecordId (sj_sovereignAssetId (su_subjectRef (vk_subject kx)))"
    using ok asset_id_canonical
    by (simp add: isValidProtocolizationCaseSubject_def isValidSovereignSubjectRef_def)
qed

lemma refs_ok [simp]:
  "isValidInputRefList rs \<longleftrightarrow> length rs \<le> 256 \<and> (\<forall>r \<in> set rs. isVerificationInputKind (vi_kind r) \<and> isCanonicalRecordId (vi_ref r))"
  by (simp add: isValidInputRefList_def INPUT_REFS_MAX_LENGTH_def list_all_iff)

lemma input_ref_fields [simp]: "vi_kind (input_ref k r) = k" "vi_ref (input_ref k r) = r"
  by (simp_all add: input_ref_def)

lemma requirement_refs_simps [simp]:
  "length (requirementRefs ids) = length ids" "set (requirementRefs ids) = input_ref ''Requirement'' ` set ids"
  by (simp_all add: requirementRefs_def)

lemma token_length: "isDottedToken s \<Longrightarrow> length s \<le> 128"
  by (simp add: isDottedToken_def ASSET_IDENTIFIER_MAX_LENGTH_def)

lemma minimum_admitted:
  assumes "context_ok env kx"
  shows "admitted (minimumMaterialCount kx)"
proof -
  let ?qs = "ap_requirements (vk_assetProfile kx)"
  have "length (filter P ?qs) \<le> 256" for P
    using assms order.trans [OF length_filter_le, of ?qs 256 P] by (simp add: context_ok_def)
  moreover have "length (filter P (filter Q ?qs)) \<le> 256" for P Q
    using order.trans [OF length_filter_le calculation] .
  ultimately show ?thesis
    using context_okD(1) [OF assms] dotted_canonical
    by (auto simp: minimumMaterialCount_def Let_def is_space_def char_code_def intro!: counted_text_ok)
qed

lemma identity_admitted:
  assumes "context_ok env kx"
  shows "admitted (identityStrategy kx)"
proof -
  define required where "required = concat (map identity_requirement (ap_requirements (vk_assetProfile kx)))"
  have len: "length (concat (map identity_requirement qs)) \<le> length qs" for qs
    by (induction qs) (auto simp: identity_requirement_def split: RequirementShape.split)
  have small: "length required \<le> 256"
    using len [of "ap_requirements (vk_assetProfile kx)"] assms by (simp add: required_def context_ok_def)
  have token: "isDottedToken i" if "(i, r) \<in> set required" for i r
    using that context_okD(1) [OF assms]
    by (auto simp: required_def identity_requirement_def split: RequirementShape.splits if_splits)
  have few: "length (filter P (materialsFor (vk_materials kx) i k)) \<le> 255" for P i k
    using assms order.trans [OF length_filter_le, of _ 255 P] order.trans [OF length_filter_le, of "vk_materials kx" 255]
    by (simp add: context_ok_def materialsFor_def)
  have "admitted f" if f: "f \<in> set (identity_findings kx (i, r))" and i: "(i, r) \<in> set required" for f i r
  proof -
    have members: "isCanonicalRecordId (zm_materialId m)" if "m \<in> set (filter P (materialsFor (vk_materials kx) i k))" for m P k
      using that context_okD(2) [OF assms] by (auto simp: materialsFor_def)
    show ?thesis
      using f token_length [OF token [OF i]] dotted_canonical [OF token [OF i]] few members
      by (auto simp: identity_findings_def Let_def is_space_def char_code_def split: option.splits if_splits)
  qed
  then show ?thesis
    using small token dotted_canonical
    by (auto simp: identityStrategy_def Let_def required_def [symmetric] list_all_iff is_space_def char_code_def intro!: strongest_admitted)
qed

lemma freshness_admitted:
  assumes "context_ok env kx"
  shows "admitted (evidenceFreshness env kx)"
proof -
  define constrained where "constrained = concat (map freshness_requirement (ap_requirements (vk_assetProfile kx)))"
  define each where "each = concat (map (\<lambda>(i, c). map (freshness_of env kx i c) (materialsFor (vk_materials kx) i EvidenceMaterial)) constrained)"
  have token: "isDottedToken i" if "(i, c) \<in> set constrained" for i c
    using that context_okD(1) [OF assms]
    by (auto simp: constrained_def freshness_requirement_def split: RequirementShape.splits option.splits)
  have one: "admitted f" if f: "f \<in> set (fst (freshness_of env kx i c m))" and i: "(i, c) \<in> set constrained" and m: "m \<in> set (vk_materials kx)"
    for f i c m
  proof (cases "zm_payload m")
    case (EvidencePayload e)
    have e: "isCanonicalRecordId e" using context_okD(3) [OF assms m EvidencePayload] .
    have receipt: "isCanonicalRecordId (er_intakeId r)" if "find (receipt_about m e) (vk_evidenceReceipts kx) = Some r" for r
      using that context_okD(4) [OF assms, of r] by (auto simp: find_Some_iff)
    show ?thesis
      using f e receipt token_length [OF token [OF i]] dotted_canonical [OF token [OF i]]
      by (cases "find (receipt_about m e) (vk_evidenceReceipts kx)")
        (auto simp: freshness_of_def EvidencePayload Let_def is_space_def char_code_def split: option.splits if_splits)
  qed (use f in \<open>simp_all add: freshness_of_def\<close>)
  have "admitted f" if f: "f \<in> set (concat (map fst each))" for f
  proof -
    from f obtain e where e: "e \<in> set each" "f \<in> set (fst e)" by auto
    from e(1) obtain i c m where "(i, c) \<in> set constrained" "m \<in> set (vk_materials kx)" "e = freshness_of env kx i c m"
      by (auto simp: each_def materialsFor_def)
    with e(2) show ?thesis using one by simp
  qed
  then have "list_all admitted (concat (map fst each))" by (simp add: list_all_iff)
  then show ?thesis
    unfolding evidenceFreshness_def Let_def constrained_def [symmetric] each_def [symmetric]
    by (auto intro!: strongest_admitted simp: is_space_def char_code_def)
qed

lemma claim_admitted:
  assumes "context_ok env kx" "declarationClaimType kx = Inr x"
  shows "admitted x"
proof -
  have ids: "isCanonicalRecordId (dr_declarationId d) \<and> isCanonicalRecordId (dr_claimRef d)" if "d \<in> set (vk_declarations kx)" for d
    using context_okD(5) [OF assms(1) that] .
  have one: "admitted f" if "f \<in> set (claim_finding d res)" "d \<in> set (vk_declarations kx)" for f d res
    using that ids [of d]
    by (auto simp: claim_finding_def declaration_refs_def is_space_def char_code_def split: if_splits)
  have all: "list_all admitted fs" if "claim_findings resolve ds = Inr fs" "set ds \<subseteq> set (vk_declarations kx)" for resolve ds fs
    using that
  proof (induction ds arbitrary: fs)
    case (Cons d ds)
    then obtain res gs where "claim_findings resolve ds = Inr gs" "fs = claim_finding d res @ gs" by auto
    with Cons one [of _ d res] show ?case by (auto simp: list_all_iff)
  qed simp
  have few: "length (vk_declarations kx) \<le> 256" using assms(1) by (simp add: context_ok_def)
  show ?thesis
    using assms(2) few ids all [OF _ subset_refl]
    by (auto simp: declarationClaimType_def is_space_def char_code_def intro!: strongest_admitted split: if_splits option.splits)
qed

text \<open>The map of declarants has the requirements asked for as keys, each once.\<close>

lemma named_keys:
  assumes "distinct (map fst held)" "fst ` set held \<subseteq> asked"
  shows "distinct (map fst (fold (name_declarants asked) ds held)) \<and> fst ` set (fold (name_declarants asked) ds held) \<subseteq> asked"
proof -
  have one: "distinct (map fst (name_declarant asked k i h)) \<and> fst ` set (name_declarant asked k i h) \<subseteq> asked"
    if "distinct (map fst h) \<and> fst ` set h \<subseteq> asked" for k i h
    using that update_keys [of i _ h] by (auto simp: name_declarant_def distinct_update dom_update)
  have many: "distinct (map fst (fold (name_declarant asked k) is h)) \<and> fst ` set (fold (name_declarant asked k) is h) \<subseteq> asked"
    if "distinct (map fst h) \<and> fst ` set h \<subseteq> asked" for k "is" h
    using that one by (induction "is" arbitrary: h) auto
  show ?thesis
    using assms many by (induction ds arbitrary: held) (auto simp: name_declarants_def)
qed

lemma competing_admitted:
  assumes "context_ok env kx"
  shows "admitted (competingDeclaration kx)"
proof -
  let ?qs = "ap_requirements (vk_assetProfile kx)"
  define asked where "asked = ar_id ` set (filter (\<lambda>q. ar_kind q = DeclarationRequirement) ?qs)"
  note keys = named_keys [of "[]" asked "vk_declarations kx"]
  have competing: "competing_requirements kx = map fst (filter (\<lambda>e. 1 < length (snd e)) (fold (name_declarants asked) (vk_declarations kx) []))"
    by (simp only: competing_requirements_def Let_def asked_def)
  have ids: "set (competing_requirements kx) \<subseteq> asked" "distinct (competing_requirements kx)"
    unfolding competing using keys by (auto intro!: distinct_map_filter)
  have "card asked \<le> card (ar_id ` set ?qs)" by (intro card_mono) (auto simp: asked_def)
  also have "\<dots> \<le> length ?qs" by (rule le_trans [OF card_image_le card_length]) simp
  finally have "card asked \<le> length ?qs" .
  moreover have "length (competing_requirements kx) \<le> card asked"
    using ids card_mono [of asked "set (competing_requirements kx)"] distinct_card [OF ids(2)] by (simp add: asked_def)
  ultimately have "length (competing_requirements kx) \<le> 256" using assms by (simp add: context_ok_def)
  moreover have "isCanonicalRecordId i" if "i \<in> set (competing_requirements kx)" for i
    using that ids(1) context_okD(1) [OF assms] dotted_canonical by (auto simp: asked_def)
  ultimately show ?thesis
    by (auto simp: competingDeclaration_def is_space_def char_code_def intro!: counted_text_ok)
qed

lemma digest_admitted:
  assumes "context_ok env kx" "contentDigest sha kx = Inr x"
  shows "admitted x"
proof -
  let ?refs = "[input_ref ''Subject'' (sj_sovereignAssetId (su_subjectRef (vk_subject kx)))]"
  have refs: "isValidInputRefList ?refs" using context_okD(6) [OF assms(1)] by simp
  have "admitted (digest_finding sha ?refs expected res)" for expected res
    using refs unfolding digest_finding_def
    by (auto simp: is_space_def char_code_def split: option.split ContentMismatch.split)
  with refs assms(2) show ?thesis
    by (auto simp: contentDigest_def Let_def is_space_def char_code_def split: option.splits)
qed

text \<open>A built-in check answers unless a resolver rejects.\<close>

definition resolvers_answer :: "VerificationCheckContext \<Rightarrow> bool" where
  "resolvers_answer kx \<longleftrightarrow>
     (\<forall>f i. rv_claim (vk_resolvers kx) = Some f \<longrightarrow> (\<exists>x. f i = Inr x)) \<and>
     (\<forall>f r. rv_content (vk_resolvers kx) = Some f \<longrightarrow> (\<exists>x. f r = Inr x))"

lemma built_in_answers:
  assumes "context_ok env kx" "resolvers_answer kx" "k \<in> set (BUILT_IN_VERIFICATION_CHECKS sha env)"
  shows "answers k kx"
proof -
  have findings: "\<exists>fs. claim_findings f ds = Inr fs" if "rv_claim (vk_resolvers kx) = Some f" for f ds
    using that assms(2) by (induction ds) (auto simp: resolvers_answer_def)
  have claim: "\<exists>x. declarationClaimType kx = Inr x"
    using findings by (auto simp: declarationClaimType_def split: option.split)
  have digest: "\<exists>x. contentDigest sha kx = Inr x"
    using assms(2) by (fastforce simp: contentDigest_def Let_def resolvers_answer_def split: option.split)
  show ?thesis
    using assms(3) claim digest claim_admitted [OF assms(1)] digest_admitted [OF assms(1)]
      present_admitted [OF assms(1)] minimum_admitted [OF assms(1)] identity_admitted [OF assms(1)]
      freshness_admitted [OF assms(1)] competing_admitted [OF assms(1)]
    unfolding BUILT_IN_VERIFICATION_CHECKS_def answers_def admitted_def by fastforce
qed

text \<open>The registry of the built-in checks.\<close>

definition BUILT_IN_CHECK_IDS :: "string list" where
  "BUILT_IN_CHECK_IDS =
     [''check.material.present'', ''check.material.minimum-count'', ''check.identity.strategy'', ''check.evidence.freshness'',
      ''check.declaration.claim-type'', ''check.declaration.competing'', ''check.content.digest'']"

lemma built_in_ids: "map vc_checkId (BUILT_IN_VERIFICATION_CHECKS sha env) = BUILT_IN_CHECK_IDS"
  by (simp add: BUILT_IN_VERIFICATION_CHECKS_def BUILT_IN_CHECK_IDS_def)

lemma built_in_ids_ok: "list_all isValidAssetVerificationCheckId BUILT_IN_CHECK_IDS \<and> distinct BUILT_IN_CHECK_IDS"
  by code_simp

lemma registered:
  "register_checks entries ks = Inr e \<longleftrightarrow>
     e = entries @ ks \<and> list_all isValidAssetVerificationCheckId (map vc_checkId ks) \<and> distinct (map vc_checkId ks) \<and>
     vc_checkId ` set entries \<inter> vc_checkId ` set ks = {}"
  by (induction entries ks arbitrary: e rule: register_checks.induct)
    (auto simp: checks_register_def checks_has_def failRegistration_def)

lemma built_in_registry: "createVerificationCheckRegistry (BUILT_IN_VERIFICATION_CHECKS sha env) = Inr (BUILT_IN_VERIFICATION_CHECKS sha env)"
  using built_in_ids_ok by (simp add: createVerificationCheckRegistry_def registered built_in_ids)

lemma built_in_found:
  assumes "i \<in> set BUILT_IN_CHECK_IDS"
  obtains k where "checks_get (BUILT_IN_VERIFICATION_CHECKS sha env) i = Some k" "k \<in> set (BUILT_IN_VERIFICATION_CHECKS sha env)"
proof -
  have "i \<in> set (map vc_checkId (BUILT_IN_VERIFICATION_CHECKS sha env))"
    using assms unfolding built_in_ids .
  then have "find (\<lambda>k. vc_checkId k = i) (BUILT_IN_VERIFICATION_CHECKS sha env) \<noteq> None" by (auto simp: find_None_iff)
  then obtain k where k: "find (\<lambda>k. vc_checkId k = i) (BUILT_IN_VERIFICATION_CHECKS sha env) = Some k" by blast
  moreover from k have "k \<in> set (BUILT_IN_VERIFICATION_CHECKS sha env)" by (metis find_Some_iff nth_mem)
  ultimately show ?thesis using that by (simp add: checks_get_def)
qed

text \<open>The context of a check on a well-formed case of a valid profile, with valid inputs and within the bounds.\<close>

definition inputs_sound :: "host_env \<Rightarrow> VerificationInputs \<Rightarrow> bool" where
  "inputs_sound env i \<longleftrightarrow>
     list_all (\<lambda>r. validateEvidenceIntakeReceipt env r = []) (or_empty (vn_evidenceReceipts i)) \<and>
     list_all (\<lambda>d. validateProtocolizationDeclarationRecord env d = []) (or_empty (vn_declarations i)) \<and>
     length (or_empty (vn_declarations i)) \<le> 256"

lemma context_of_case:
  assumes "case_wf env c" "profile_wf env p" "projects p c" "inputs_sound env i"
    "length (ap_requirements p) \<le> 256" "length (zc_materials c) \<le> 255"
    "buildCheckContext ctx c p q v k i now = Inr kx"
  shows "context_ok env kx"
proof -
  obtain ps where ps: "listProtocolizationCaseRequirementProgress c p no_filter = Inr ps"
    "map gp_requirementId ps = map ar_id (ap_requirements p)"
    using progress_entries [OF assms(3,1)] by blast
  have ids: "\<forall>j \<in> ar_id ` set (ap_requirements p). isValidAssetRequirementId j"
    using assms(2) by (auto simp: profile_wf_def list_all_iff requirement_ok_def)
  have "gp_requirementId ` set ps = ar_id ` set (ap_requirements p)" using ps(2) by (metis list.set_map)
  with ids have "\<forall>j \<in> gp_requirementId ` set ps. isValidAssetRequirementId j" by simp
  then have "list_all (\<lambda>g. isValidAssetRequirementId (gp_requirementId g)) ps" by (simp add: list_all_iff)
  moreover have "length ps = length (ap_requirements p)" using ps(2) by (metis length_map)
  ultimately show ?thesis
    using assms ps(1)
    by (auto simp: context_ok_def buildCheckContext_def inputs_sound_def profile_wf_def case_wf_def header_ok_def materials_ok_def
        list_all_iff)
qed

subsection \<open>What a pass means\<close>

abbreviation passes :: "VerificationCheckExecution \<Rightarrow> bool" where
  "passes x \<equiv> xe_outcome x = ''Pass''"

lemma finding_outcome [simp]: "xe_outcome (finding o' r s refs) = o'"
  by (simp add: finding_def)

text \<open>The strongest finding: no other takes precedence; without any the check passes.\<close>

lemma strongest_from_max:
  "strongest_from h fs = Some x \<Longrightarrow>
     (\<forall>f \<in> set fs. OUTCOME_PRECEDENCE (xe_outcome f) \<le> OUTCOME_PRECEDENCE (xe_outcome x)) \<and>
     (\<forall>g. h = Some g \<longrightarrow> OUTCOME_PRECEDENCE (xe_outcome g) \<le> OUTCOME_PRECEDENCE (xe_outcome x))"
  by (induction h fs rule: strongest_from.induct) (auto split: if_splits)

lemma strongest_from_None: "strongest_from h fs = None \<longleftrightarrow> h = None \<and> fs = []"
  by (induction h fs rule: strongest_from.induct) simp_all

lemma strongest_max:
  assumes "g \<in> set fs"
  shows "strongest fs f \<in> set fs \<and> OUTCOME_PRECEDENCE (xe_outcome g) \<le> OUTCOME_PRECEDENCE (xe_outcome (strongest fs f))"
proof -
  have "strongest_from None fs \<noteq> None" using assms by (auto simp: strongest_from_None)
  moreover have "x \<in> set fs" if "strongest_from None fs = Some x" for x
  proof -
    have "strongest_from h fs = Some x \<Longrightarrow> x \<in> set fs \<or> h = Some x" for h
      by (induction h fs rule: strongest_from.induct) (auto split: if_splits)
    with that show ?thesis by blast
  qed
  ultimately show ?thesis
    using strongest_from_max [of None fs] assms by (auto simp: strongest_def split: option.split)
qed

lemma strongest_passes:
  assumes "\<forall>g \<in> set fs. \<not> passes g" "passes f"
  shows "passes (strongest fs f) \<longleftrightarrow> fs = []"
proof (cases "fs = []")
  case False
  then have "strongest fs f \<in> set fs" using strongest_max [of "hd fs" fs f] by simp
  with assms False show ?thesis by auto
qed (simp add: strongest_def assms(2))

lemma present_passes:
  "passes (requiredMaterialPresent kx) \<longleftrightarrow>
     (\<forall>g \<in> set (vk_requirementProgress kx). gp_kind g \<noteq> VerificationRequirement \<and> gp_materialStatus g = Pending \<longrightarrow>
        gp_obligation g \<noteq> Required \<and> gp_conditionStatus g \<noteq> Unresolved)"
  by (auto simp: requiredMaterialPresent_def present_missing_def present_unresolved_def filter_empty_conv)

lemma minimum_passes:
  "passes (minimumMaterialCount kx) \<longleftrightarrow>
     (\<forall>q \<in> set (ap_requirements (vk_assetProfile kx)). \<forall>k n. ar_obligation q = Required \<and>
        COUNTED_MATERIAL_KIND (ar_kind q) = Some k \<and> minimum_count (ar_shape q) = Some n \<longrightarrow>
        n \<le> int (length (materialsFor (vk_materials kx) (ar_id q) k)))"
proof -
  have "count_constrained q \<and> falls_short ms q \<longleftrightarrow> ar_obligation q = Required \<and>
      (\<exists>k n. COUNTED_MATERIAL_KIND (ar_kind q) = Some k \<and> minimum_count (ar_shape q) = Some n \<and>
         int (length (materialsFor ms (ar_id q) k)) < n)" for ms q
    by (auto simp: count_constrained_def falls_short_def split: option.splits)
  moreover have "passes (minimumMaterialCount kx) \<longleftrightarrow>
      (\<forall>q \<in> set (ap_requirements (vk_assetProfile kx)). \<not> (count_constrained q \<and> falls_short (vk_materials kx) q))"
    by (auto simp: minimumMaterialCount_def Let_def filter_empty_conv)
  ultimately show ?thesis by (auto simp: not_less)
qed

definition identity_satisfied :: "VerificationCheckContext \<Rightarrow> string \<Rightarrow> AssetIdentityRequirement \<Rightarrow> bool" where
  "identity_satisfied kx i r \<longleftrightarrow>
     (if ai_satisfaction r = ''All'' then set (ai_acceptedStrategies r) \<subseteq> evidencedStrategies kx i
      else set (ai_acceptedStrategies r) \<inter> evidencedStrategies kx i \<noteq> {}) \<and>
     (\<forall>c. ai_registry r = Some c \<longrightarrow>
        (\<forall>m \<in> set (vk_materials kx). \<forall>e. zm_payload m = RegistryEntryPayload e \<and> i \<in> set (zm_requirementIds m) \<longrightarrow>
           registryEntryConforms e c))"

lemma non_conforming_iff:
  "non_conforming c m \<longleftrightarrow> (\<exists>e. zm_payload m = RegistryEntryPayload e \<and> \<not> registryEntryConforms e c)"
  by (cases "zm_payload m") simp_all

lemma identity_findings_none: "identity_findings kx (i, r) = [] \<longleftrightarrow> identity_satisfied kx i r"
proof -
  have "filter (non_conforming c) (materialsFor (vk_materials kx) i RegistryEntryMaterial) = [] \<longleftrightarrow>
      (\<forall>m \<in> set (vk_materials kx). \<forall>e. zm_payload m = RegistryEntryPayload e \<and> i \<in> set (zm_requirementIds m) \<longrightarrow>
         registryEntryConforms e c)" for c
    unfolding filter_empty_conv materialsFor_def non_conforming_iff by auto
  moreover have "(if ai_satisfaction r = ''All'' then list_all (\<lambda>s. s \<in> E) (ai_acceptedStrategies r)
      else list_ex (\<lambda>s. s \<in> E) (ai_acceptedStrategies r)) \<longleftrightarrow>
      (if ai_satisfaction r = ''All'' then set (ai_acceptedStrategies r) \<subseteq> E else set (ai_acceptedStrategies r) \<inter> E \<noteq> {})" for E
    by (auto simp: list_all_iff list_ex_iff)
  ultimately show ?thesis
    by (cases "ai_registry r") (simp_all add: identity_findings_def Let_def identity_satisfied_def del: non_conforming.simps)
qed

lemma identity_findings_fail: "f \<in> set (identity_findings kx e) \<Longrightarrow> \<not> passes f"
  by (auto simp: identity_findings_def Let_def split: prod.splits option.splits if_splits)

lemma identity_passes:
  "passes (identityStrategy kx) \<longleftrightarrow>
     (\<forall>q \<in> set (ap_requirements (vk_assetProfile kx)). \<forall>r. ar_obligation q = Required \<and> ar_shape q = IdentityShape r \<longrightarrow>
        identity_satisfied kx (ar_id q) r)"
proof -
  define required where "required = concat (map identity_requirement (ap_requirements (vk_assetProfile kx)))"
  have members: "(i, r) \<in> set required \<longleftrightarrow>
      (\<exists>q \<in> set (ap_requirements (vk_assetProfile kx)). ar_obligation q = Required \<and> ar_shape q = IdentityShape r \<and> i = ar_id q)" for i r
  proof -
    have "(i, r) \<in> set (identity_requirement q) \<longleftrightarrow> ar_obligation q = Required \<and> ar_shape q = IdentityShape r \<and> i = ar_id q" for q
      by (cases "ar_shape q") (auto simp: identity_requirement_def)
    then show ?thesis by (auto simp: required_def)
  qed
  have "passes (identityStrategy kx) \<longleftrightarrow> concat (map (identity_findings kx) required) = []"
    unfolding identityStrategy_def Let_def required_def [symmetric]
    using strongest_passes [of "concat (map (identity_findings kx) required)"] identity_findings_fail by auto
  also have "\<dots> \<longleftrightarrow> (\<forall>i r. (i, r) \<in> set required \<longrightarrow> identity_satisfied kx i r)"
    using identity_findings_none by (auto simp: case_prod_beta)
  finally show ?thesis unfolding members by blast
qed

definition fresh_enough ::
  "host_env \<Rightarrow> VerificationCheckContext \<Rightarrow> AssetFreshnessConstraint \<Rightarrow> CaseMaterial \<Rightarrow> string \<Rightarrow> bool" where
  "fresh_enough env kx c m e \<longleftrightarrow>
     (\<exists>r t. find (receipt_about m e) (vk_evidenceReceipts kx) = Some r \<and> er_observedAt r = Some t \<and>
        fr_mustNotBeExpired c \<noteq> Some True \<and> \<not> observed_in_future env t (vk_now kx) \<and>
        \<not> too_old env t (vk_now kx) (fr_maxAgeSeconds c) \<and>
        (\<forall>a. fr_observedAfter c = Some a \<longrightarrow> \<not> date_gt (date_parse (e_date env) a) (date_parse (e_date env) t)))"

lemma freshness_none:
  "fst (freshness_of env kx i c m) = [] \<longleftrightarrow> (\<forall>e. zm_payload m = EvidencePayload e \<longrightarrow> fresh_enough env kx c m e)"
  by (cases "zm_payload m")
    (auto simp: freshness_of_def Let_def fresh_enough_def split: option.splits bind_splits)

lemma freshness_fails: "f \<in> set (fst (freshness_of env kx i c m)) \<Longrightarrow> \<not> passes f"
  by (cases "zm_payload m") (auto simp: freshness_of_def Let_def split: option.splits if_splits)

lemma freshness_passes:
  "passes (evidenceFreshness env kx) \<longleftrightarrow>
     (\<forall>q \<in> set (ap_requirements (vk_assetProfile kx)). \<forall>r c. ar_shape q = EvidenceShape r \<and> ae_freshness r = Some c \<longrightarrow>
        (\<forall>m \<in> set (vk_materials kx). \<forall>e. zm_payload m = EvidencePayload e \<and> ar_id q \<in> set (zm_requirementIds m) \<longrightarrow>
           fresh_enough env kx c m e))"
proof -
  define constrained where "constrained = concat (map freshness_requirement (ap_requirements (vk_assetProfile kx)))"
  define each where "each = concat (map (\<lambda>(i, c). map (freshness_of env kx i c) (materialsFor (vk_materials kx) i EvidenceMaterial)) constrained)"
  have "(i, c) \<in> set (freshness_requirement q) \<longleftrightarrow>
      (\<exists>r. ar_shape q = EvidenceShape r \<and> ae_freshness r = Some c) \<and> i = ar_id q" for i c q
    by (cases "ar_shape q") (auto simp: freshness_requirement_def split: option.split)
  then have members: "(i, c) \<in> set constrained \<longleftrightarrow>
      (\<exists>q \<in> set (ap_requirements (vk_assetProfile kx)). (\<exists>r. ar_shape q = EvidenceShape r \<and> ae_freshness r = Some c) \<and> i = ar_id q)" for i c
    by (auto simp: constrained_def)
  have fails: "\<forall>f \<in> set (concat (map fst each)). \<not> passes f"
  proof
    fix f assume "f \<in> set (concat (map fst each))"
    then obtain e where e: "e \<in> set each" "f \<in> set (fst e)" by auto
    from e(1) obtain i c m where "e = freshness_of env kx i c m" by (auto simp: each_def)
    with e(2) show "\<not> passes f" using freshness_fails by simp
  qed
  have "passes (evidenceFreshness env kx) \<longleftrightarrow> concat (map fst each) = []"
    unfolding evidenceFreshness_def Let_def constrained_def [symmetric] each_def [symmetric]
    using strongest_passes [OF fails] by (auto simp: each_def)
  also have "\<dots> \<longleftrightarrow> (\<forall>i c. (i, c) \<in> set constrained \<longrightarrow>
      (\<forall>m \<in> set (materialsFor (vk_materials kx) i EvidenceMaterial). fst (freshness_of env kx i c m) = []))"
  proof -
    have each_in: "e \<in> set each \<longleftrightarrow> (\<exists>i c. (i, c) \<in> set constrained \<and>
        (\<exists>m \<in> set (materialsFor (vk_materials kx) i EvidenceMaterial). e = freshness_of env kx i c m))" for e
      unfolding each_def by force
    have "concat (map fst each) = [] \<longleftrightarrow> (\<forall>e. e \<in> set each \<longrightarrow> fst e = [])" by auto
    then show ?thesis unfolding each_in by blast
  qed
  finally show ?thesis
    unfolding members freshness_none by (fastforce simp: materialsFor_def)
qed

definition corroborated :: "(string \<Rightarrow> string + VerificationClaimResolution) \<Rightarrow> DeclarationRecord \<Rightarrow> bool" where
  "corroborated f d \<longleftrightarrow>
     (\<exists>res c. f (dr_claimRef d) = Inr res \<and> cr_status res = Resolved \<and> cr_claim res = Some c \<and> cc_type c = dr_claimType d)"

lemma claim_finding_none:
  "claim_finding d res = [] \<longleftrightarrow> cr_status res = Resolved \<and> (\<exists>c. cr_claim res = Some c \<and> cc_type c = dr_claimType d)"
  by (cases "cr_status res") (auto simp: claim_finding_def)

lemma claim_passes:
  assumes "declarationClaimType kx = Inr x"
  shows "passes x \<longleftrightarrow> vk_declarations kx = [] \<or>
    (\<exists>f. rv_claim (vk_resolvers kx) = Some f \<and> (\<forall>d \<in> set (vk_declarations kx). corroborated f d))"
proof -
  have none: "fs = [] \<longleftrightarrow> (\<forall>d \<in> set ds. corroborated f d)" if "claim_findings f ds = Inr fs" for f ds fs
    using that by (induction ds arbitrary: fs) (auto simp: claim_finding_none corroborated_def)
  have fails: "\<forall>g \<in> set fs. \<not> passes g" if "claim_findings f ds = Inr fs" for f ds fs
    using that by (induction ds arbitrary: fs) (auto simp: claim_finding_def split: if_splits)
  show ?thesis
    using assms none strongest_passes [OF fails]
    by (auto simp: declarationClaimType_def split: if_splits option.splits)
qed

lemma digest_passes:
  assumes "contentDigest sha kx = Inr x"
  shows "passes x \<longleftrightarrow>
    (\<exists>expected f res bytes. su_contentIdentity (vk_subject kx) = Some expected \<and> rv_content (vk_resolvers kx) = Some f \<and>
       f (su_subjectRef (vk_subject kx)) = Inr res \<and> cr_contentStatus res = Resolved \<and> cr_bytes res = Some bytes \<and>
       ci_algorithm expected = Sha256_algorithm \<and> sha bytes = ci_digest expected)"
proof -
  have "passes (digest_finding sha refs expected res) \<longleftrightarrow> cr_contentStatus res = Resolved \<and>
      (\<exists>bytes. cr_bytes res = Some bytes \<and> ci_algorithm expected = Sha256_algorithm \<and> sha bytes = ci_digest expected)"
    for refs expected res
    by (cases "cr_contentStatus res"; cases "cr_bytes res")
      (auto simp: digest_finding_def verifyContentIdentity_def computeContentIdentity_def)
  with assms show ?thesis by (auto simp: contentDigest_def Let_def split: option.splits)
qed

text \<open>The declarants that name a requirement.\<close>

definition declarants :: "DeclarationRecord list \<Rightarrow> string \<Rightarrow> string set" where
  "declarants ds i = {declarantKey (dr_declarant d) |d. d \<in> set ds \<and> i \<in> set (dr_requirementIds d)}"

definition held_names :: "(string \<times> string list) list \<Rightarrow> string \<Rightarrow> string set" where
  "held_names h i = (case map_of h i of None \<Rightarrow> {} | Some ks \<Rightarrow> set ks)"

lemma named_one:
  "held_names (name_declarant asked k j h) i = (if i = j \<and> j \<in> asked then insert k (held_names h i) else held_names h i)"
  by (auto simp: held_names_def name_declarant_def update_conv' split: option.split)

lemma named_many:
  "held_names (fold (name_declarant asked k) js h) i =
     (if i \<in> set js \<and> i \<in> asked then insert k (held_names h i) else held_names h i)"
  by (induction js arbitrary: h) (auto simp: named_one)

lemma named_all:
  "held_names (fold (name_declarants asked) ds h) i = held_names h i \<union> (if i \<in> asked then declarants ds i else {})"
  by (induction ds arbitrary: h) (auto simp: name_declarants_def named_many declarants_def)

lemma names_distinct:
  assumes "distinct (map fst h)" "\<forall>e \<in> set h. distinct (snd e)"
  shows "\<forall>e \<in> set (fold (name_declarants asked) ds h). distinct (snd e)"
proof -
  have one: "distinct (map fst (name_declarant asked k j h)) \<and> (\<forall>e \<in> set (name_declarant asked k j h). distinct (snd e))"
    if "distinct (map fst h) \<and> (\<forall>e \<in> set h. distinct (snd e))" for k j h
  proof -
    have kept: "distinct (case map_of h j of None \<Rightarrow> [] | Some ks \<Rightarrow> ks)"
      using that by (force split: option.split dest: map_of_SomeD)
    have updated: "\<forall>e \<in> set (AList.update j v g). distinct (snd e)" if "distinct v" "\<forall>e \<in> set g. distinct (snd e)" for v g
      using that by (induction g) auto
    have "\<forall>e \<in> set (AList.update j (List.insert k (case map_of h j of None \<Rightarrow> [] | Some ks \<Rightarrow> ks)) h). distinct (snd e)"
      by (rule updated) (simp only: distinct_insert kept, rule conjunct2 [OF that])
    then show ?thesis
      using that by (simp add: name_declarant_def distinct_update)
  qed
  have many: "distinct (map fst (fold (name_declarant asked k) js h)) \<and> (\<forall>e \<in> set (fold (name_declarant asked k) js h). distinct (snd e))"
    if "distinct (map fst h) \<and> (\<forall>e \<in> set h. distinct (snd e))" for k js h
    using that
  proof (induction js arbitrary: h)
    case (Cons j js)
    show ?case unfolding fold_Cons comp_apply by (rule Cons.IH [OF one [OF Cons.prems]])
  qed simp
  show ?thesis
    using assms
  proof (induction ds arbitrary: h)
    case (Cons d ds)
    have "distinct (map fst (name_declarants asked d h)) \<and> (\<forall>e \<in> set (name_declarants asked d h). distinct (snd e))"
      unfolding name_declarants_def by (rule many [OF conjI [OF Cons.prems]])
    then show ?case unfolding fold_Cons comp_apply by (elim conjE) (rule Cons.IH)
  qed simp
qed

lemma two_names: "distinct xs \<Longrightarrow> 1 < length xs \<longleftrightarrow> (\<exists>a \<in> set xs. \<exists>b \<in> set xs. a \<noteq> b)"
  by (cases xs; cases "tl xs") auto

lemma competing_passes:
  "passes (competingDeclaration kx) \<longleftrightarrow>
     (\<forall>q \<in> set (ap_requirements (vk_assetProfile kx)). ar_kind q = DeclarationRequirement \<longrightarrow>
        (\<forall>a \<in> declarants (vk_declarations kx) (ar_id q). \<forall>b \<in> declarants (vk_declarations kx) (ar_id q). a = b))"
proof -
  define asked where "asked = ar_id ` set (filter (\<lambda>q. ar_kind q = DeclarationRequirement) (ap_requirements (vk_assetProfile kx)))"
  define held where "held = fold (name_declarants asked) (vk_declarations kx) []"
  have keys: "distinct (map fst held)" "\<forall>e \<in> set held. distinct (snd e)"
    using named_keys [of "[]" asked "vk_declarations kx"] names_distinct [of "[]" asked "vk_declarations kx"] by (auto simp: held_def)
  have names: "held_names held i = (if i \<in> asked then declarants (vk_declarations kx) i else {})" for i
    by (simp add: held_def named_all) (simp add: held_names_def)
  have entry: "set (snd e) = held_names held (fst e)" if "e \<in> set held" for e
  proof -
    have "map_of held (fst e) = Some (snd e)" using map_of_is_SomeI [OF keys(1)] that by simp
    then show ?thesis by (simp add: held_names_def)
  qed
  have "competing_requirements kx = map fst (filter (\<lambda>e. 1 < length (snd e)) held)"
    by (simp only: competing_requirements_def Let_def asked_def held_def)
  then have "passes (competingDeclaration kx) \<longleftrightarrow> (\<forall>e \<in> set held. \<not> 1 < length (snd e))"
    by (auto simp: competingDeclaration_def filter_empty_conv)
  also have "\<dots> \<longleftrightarrow> (\<forall>e \<in> set held. \<forall>a \<in> held_names held (fst e). \<forall>b \<in> held_names held (fst e). a = b)"
    using two_names keys(2) entry by (metis (no_types, lifting))
  also have "\<dots> \<longleftrightarrow> (\<forall>i. \<forall>a \<in> held_names held i. \<forall>b \<in> held_names held i. a = b)"
  proof -
    have "\<exists>e \<in> set held. fst e = i" if "a \<in> held_names held i" for a i
      using that by (force simp: held_names_def split: option.splits dest!: map_of_SomeD)
    then show ?thesis by metis
  qed
  finally show ?thesis by (auto simp: names asked_def split: if_splits)
qed

text \<open>The condition behind each check identifier, and the verdict of an execution.\<close>

definition check_condition :: "(string \<Rightarrow> string) \<Rightarrow> host_env \<Rightarrow> string \<Rightarrow> VerificationCheckContext \<Rightarrow> bool" where
  "check_condition sha env i kx \<longleftrightarrow>
     (i = ''check.material.present'' \<longrightarrow>
        (\<forall>g \<in> set (vk_requirementProgress kx). gp_kind g \<noteq> VerificationRequirement \<and> gp_materialStatus g = Pending \<longrightarrow>
           gp_obligation g \<noteq> Required \<and> gp_conditionStatus g \<noteq> Unresolved)) \<and>
     (i = ''check.material.minimum-count'' \<longrightarrow>
        (\<forall>q \<in> set (ap_requirements (vk_assetProfile kx)). \<forall>k n. ar_obligation q = Required \<and>
           COUNTED_MATERIAL_KIND (ar_kind q) = Some k \<and> minimum_count (ar_shape q) = Some n \<longrightarrow>
           n \<le> int (length (materialsFor (vk_materials kx) (ar_id q) k)))) \<and>
     (i = ''check.identity.strategy'' \<longrightarrow>
        (\<forall>q \<in> set (ap_requirements (vk_assetProfile kx)). \<forall>r. ar_obligation q = Required \<and> ar_shape q = IdentityShape r \<longrightarrow>
           identity_satisfied kx (ar_id q) r)) \<and>
     (i = ''check.evidence.freshness'' \<longrightarrow>
        (\<forall>q \<in> set (ap_requirements (vk_assetProfile kx)). \<forall>r c. ar_shape q = EvidenceShape r \<and> ae_freshness r = Some c \<longrightarrow>
           (\<forall>m \<in> set (vk_materials kx). \<forall>e. zm_payload m = EvidencePayload e \<and> ar_id q \<in> set (zm_requirementIds m) \<longrightarrow>
              fresh_enough env kx c m e))) \<and>
     (i = ''check.declaration.claim-type'' \<longrightarrow>
        vk_declarations kx = [] \<or>
        (\<exists>f. rv_claim (vk_resolvers kx) = Some f \<and> (\<forall>d \<in> set (vk_declarations kx). corroborated f d))) \<and>
     (i = ''check.declaration.competing'' \<longrightarrow>
        (\<forall>q \<in> set (ap_requirements (vk_assetProfile kx)). ar_kind q = DeclarationRequirement \<longrightarrow>
           (\<forall>a \<in> declarants (vk_declarations kx) (ar_id q). \<forall>b \<in> declarants (vk_declarations kx) (ar_id q). a = b))) \<and>
     (i = ''check.content.digest'' \<longrightarrow>
        (\<exists>expected f res bytes. su_contentIdentity (vk_subject kx) = Some expected \<and> rv_content (vk_resolvers kx) = Some f \<and>
           f (su_subjectRef (vk_subject kx)) = Inr res \<and> cr_contentStatus res = Resolved \<and> cr_bytes res = Some bytes \<and>
           ci_algorithm expected = Sha256_algorithm \<and> sha bytes = ci_digest expected))"

lemma built_in_cases:
  assumes "checks_get (BUILT_IN_VERIFICATION_CHECKS sha env) i = Some k"
  shows "i = ''check.material.present'' \<and> vc_execute k = (\<lambda>kx. Inr (requiredMaterialPresent kx)) \<or>
    i = ''check.material.minimum-count'' \<and> vc_execute k = (\<lambda>kx. Inr (minimumMaterialCount kx)) \<or>
    i = ''check.identity.strategy'' \<and> vc_execute k = (\<lambda>kx. Inr (identityStrategy kx)) \<or>
    i = ''check.evidence.freshness'' \<and> vc_execute k = (\<lambda>kx. Inr (evidenceFreshness env kx)) \<or>
    i = ''check.declaration.claim-type'' \<and> vc_execute k = declarationClaimType \<or>
    i = ''check.declaration.competing'' \<and> vc_execute k = (\<lambda>kx. Inr (competingDeclaration kx)) \<or>
    i = ''check.content.digest'' \<and> vc_execute k = contentDigest sha"
proof -
  from assms have "k \<in> set (BUILT_IN_VERIFICATION_CHECKS sha env)" "vc_checkId k = i"
    by (auto simp: checks_get_def find_Some_iff)
  then show ?thesis
    unfolding BUILT_IN_VERIFICATION_CHECKS_def list.set insert_iff empty_iff
    by (elim disjE FalseE; hypsubst; simp only: AssetVerificationCheck.simps simp_thms)
qed

lemma verdict_condition:
  assumes "checks_get (BUILT_IN_VERIFICATION_CHECKS sha env) i = Some k" "vc_execute k kx = Inr x"
  shows "passes x \<longleftrightarrow> check_condition sha env i kx"
  using built_in_cases [OF assms(1)]
proof (elim disjE conjE)
  assume c: "i = ''check.material.present''" "vc_execute k = (\<lambda>kx. Inr (requiredMaterialPresent kx))"
  from c(2) assms(2) have "x = requiredMaterialPresent kx" by simp
  then show ?thesis unfolding check_condition_def c(1) using present_passes [of kx] by simp
next
  assume c: "i = ''check.material.minimum-count''" "vc_execute k = (\<lambda>kx. Inr (minimumMaterialCount kx))"
  from c(2) assms(2) have "x = minimumMaterialCount kx" by simp
  then show ?thesis unfolding check_condition_def c(1) using minimum_passes [of kx] by simp
next
  assume c: "i = ''check.identity.strategy''" "vc_execute k = (\<lambda>kx. Inr (identityStrategy kx))"
  from c(2) assms(2) have "x = identityStrategy kx" by simp
  then show ?thesis unfolding check_condition_def c(1) using identity_passes [of kx] by simp
next
  assume c: "i = ''check.evidence.freshness''" "vc_execute k = (\<lambda>kx. Inr (evidenceFreshness env kx))"
  from c(2) assms(2) have "x = evidenceFreshness env kx" by simp
  then show ?thesis unfolding check_condition_def c(1) using freshness_passes [of env kx] by simp
next
  assume c: "i = ''check.declaration.claim-type''" "vc_execute k = declarationClaimType"
  from c(2) assms(2) have "declarationClaimType kx = Inr x" by simp
  from claim_passes [OF this] show ?thesis unfolding check_condition_def c(1) by simp
next
  assume c: "i = ''check.declaration.competing''" "vc_execute k = (\<lambda>kx. Inr (competingDeclaration kx))"
  from c(2) assms(2) have "x = competingDeclaration kx" by simp
  then show ?thesis unfolding check_condition_def c(1) using competing_passes [of kx] by simp
next
  assume c: "i = ''check.content.digest''" "vc_execute k = contentDigest sha"
  from c(2) assms(2) have "contentDigest sha kx = Inr x" by simp
  from digest_passes [OF this] show ?thesis unfolding check_condition_def c(1) by simp
qed

text \<open>
  The summary of the claim-type check names every declaration: when all of more than 256 are corroborated, the engine
  refuses what the check returns.
\<close>

lemma many_declarations_refused:
  assumes "declarationClaimType kx = Inr x" "passes x" "256 < length (vk_declarations kx)"
  shows "\<not> admitted x"
proof -
  obtain f where f: "rv_claim (vk_resolvers kx) = Some f" "\<forall>d \<in> set (vk_declarations kx). corroborated f d"
    using claim_passes [OF assms(1)] assms(2,3) by auto
  have none: "claim_findings f ds = Inr []" if "\<forall>d \<in> set ds. corroborated f d" for ds
    using that by (induction ds) (auto simp: corroborated_def claim_finding_none)
  have "vk_declarations kx \<noteq> []" using assms(3) by auto
  then have "xe_inputRefs x = Some (map (\<lambda>d. input_ref ''DeclarationRecord'' (dr_declarationId d)) (vk_declarations kx))"
    using assms(1) f(1) none [OF f(2)] by (auto simp: declarationClaimType_def strongest_def finding_def)
  then show ?thesis
    using assms(3) by (simp add: admitted_def validateVerificationCheckExecution_def isValidInputRefList_def INPUT_REFS_MAX_LENGTH_def)
qed

end
