(* ===== verification/VerificationProperties.thy ===== *)
theory VerificationProperties
  imports VerificationStore CheckVerdicts CaseSamples
begin

text \<open>
  The properties of the verification of a case: what a run of the plan returns, what the built-in checks mean, and the
  latest results of a history.
\<close>

subsection \<open>A profile with automatic checks\<close>

definition checked_profile :: AssetProfile where
  "checked_profile =
     \<lparr>ap_schemaVersion = ''aoc-asset-profile/1'', ap_profileId = ''art.checked'', ap_version = ''1.0.0'',
      ap_assetCategory = ''art'', ap_scope = ''Global'', ap_jurisdictions = None,
      ap_requirements =
        [\<lparr>ar_id = ''origin'', ar_obligation = Optional, ar_condition = None, ar_jurisdictions = None, ar_metadata = None,
          ar_shape = DeclarationShape \<lparr>ad_claimType = ''Origin'', ad_claimSubtype = None, ad_minimumCount = None\<rparr>\<rparr>,
         \<lparr>ar_id = ''automatic'', ar_obligation = Required, ar_condition = None, ar_jurisdictions = None, ar_metadata = None,
          ar_shape = VerificationShape
            \<lparr>av_checkIds = [''check.material.present'', ''check.declaration.competing''], av_satisfaction = ''All'',
             av_freshness = None\<rparr>\<rparr>],
      ap_metadata = None\<rparr>"

lemma checked_profile_wf: "profile_wf sample_env checked_profile"
  unfolding validate_profile [symmetric] by code_simp

definition checked_catalog :: catalog_entries where
  "checked_catalog = [(profile_key checked_profile, checked_profile)]"

definition checked_input :: CreateCaseInput where
  "checked_input = case_input\<lparr>ic_profile := \<lparr>pr_profileId = ''art.checked'', pr_profileVersion = ''1.0.0''\<rparr>\<rparr>"

definition checked_context :: CaseContext where
  "checked_context = \<lparr>cx_catalog = catalog_get checked_catalog, cx_now = noon_text, cx_tenantId = ''gallery''\<rparr>"

definition checked_case :: ProtocolizationCase where
  "checked_case = initial_case checked_context checked_input checked_profile noon_text"

lemma checked_get: "catalog_get checked_catalog ''art.checked'' ''1.0.0'' = Some checked_profile"
  by code_simp

lemma checked_wf: "case_wf sample_env checked_case"
proof -
  have "catalog_register sample_env [] checked_profile = Inr checked_catalog"
    by (simp add: checked_profile_wf checked_catalog_def)
  then have sound: "catalog_sound sample_env checked_catalog"
    using checked_profile_wf by (simp add: catalog_sound_def checked_catalog_def)
  have tenant: "isValidProtocolizationTenantId ''gallery''" by code_simp
  have time: "isValidUtcDateTime sample_env noon_text" unfolding noon_text_def by code_simp
  have ok: "create_reasons checked_input = []" by code_simp
  from create_succeeds [OF sound, of checked_context checked_input checked_profile]
  have "\<exists>ev. createProtocolizationCase sample_env checked_context checked_input = Inr (checked_case, ev)"
    using checked_get tenant time ok by (simp add: checked_context_def checked_case_def checked_input_def)
  then show ?thesis by (auto simp: create_Inr)
qed

definition checked_verification :: VerificationContext where
  "checked_verification =
     \<lparr>vx_catalog = catalog_get checked_catalog, vx_clock = (\<lambda>n. later_text), vx_tenantId = ''gallery'',
      vx_checks = BUILT_IN_VERIFICATION_CHECKS id sample_env, vx_resolvers = None\<rparr>"

definition checked_run :: RunVerificationInput where
  "checked_run =
     \<lparr>ri_executionIds = [''exec-1'', ''exec-2''], ri_correlationId = None,
      ri_inputs = \<lparr>vn_evidenceReceipts = None, vn_declarations = None\<rparr>\<rparr>"

lemma checked_case_facts [simp]:
  "zc_tenantId checked_case = ''gallery''" "zc_state checked_case = Draft" "zc_updatedAt checked_case = noon_text"
  "zc_profile checked_case = \<lparr>pr_profileId = ''art.checked'', pr_profileVersion = ''1.0.0''\<rparr>" "zc_materials checked_case = []"
  by (simp_all add: checked_case_def initial_case_def checked_context_def checked_input_def INITIAL_PROTOCOLIZATION_CASE_STATE_def)

lemma checked_runnable: "runnable sample_env checked_verification checked_case"
  by (simp add: runnable_def checked_wf checked_verification_def)

lemma built_in_run:
  assumes "runnable env ctx c" "listProtocolizationVerificationPlan env ctx c = Inr es"
    "createVerificationCheckRegistry (BUILT_IN_VERIFICATION_CHECKS sha env) = Inr (vx_checks ctx)"
    "snd ` set es \<subseteq> set BUILT_IN_CHECK_IDS"
    "catalogued ctx c = Some p" "profile_wf env p" "projects p c"
    "length (ap_requirements p) \<le> 256" "length (zc_materials c) \<le> 255"
    "inputs_own c (ri_inputs i)" "inputs_sound env (ri_inputs i)"
    "length (ri_executionIds i) = length es" "distinct (ri_executionIds i)"
    "list_all isValidVerificationExecutionId (ri_executionIds i)" "if_present isCanonicalRecordId (ri_correlationId i)"
    "\<forall>n. clock_ok env (vx_clock ctx n) c"
    "\<forall>r f j. vx_resolvers ctx = Some r \<and> rv_claim r = Some f \<longrightarrow> (\<exists>x. f j = Inr x)"
    "\<forall>r f j. vx_resolvers ctx = Some r \<and> rv_content r = Some f \<longrightarrow> (\<exists>x. f j = Inr x)"
  shows "es = planned p" "\<exists>u. runProtocolizationVerification env ctx c i = Inr u"
proof -
  have wf: "case_wf env c" using assms(1) by (simp add: runnable_def)
  show es: "es = planned p" using assms(2,5) by (auto simp: plan_Inr)
  have reg: "vx_checks ctx = BUILT_IN_VERIFICATION_CHECKS sha env" using assms(3) by (simp add: built_in_registry)
  have checks: "\<exists>k. checks_get (vx_checks ctx) j = Some k \<and>
      (\<forall>v now kx. buildCheckContext ctx c p q v j (ri_inputs i) now = Inr kx \<longrightarrow> answers k kx)"
    if planned: "(q, j) \<in> set (planned p)" for q j
  proof -
    have "j \<in> set BUILT_IN_CHECK_IDS" using planned assms(4) unfolding es by force
    then obtain k where k: "checks_get (vx_checks ctx) j = Some k" "k \<in> set (BUILT_IN_VERIFICATION_CHECKS sha env)"
      unfolding reg by (rule built_in_found)
    have "answers k kx" if made: "buildCheckContext ctx c p q v j (ri_inputs i) now = Inr kx" for v now kx
    proof (rule built_in_answers [OF context_of_case [OF wf assms(6,7,11,8,9) made] _ k(2)])
      have "vk_resolvers kx = (case vx_resolvers ctx of None \<Rightarrow> no_resolvers | Some r \<Rightarrow> r)"
        using made by (auto simp: buildCheckContext_def)
      then show "resolvers_answer kx"
        using assms(17,18) by (auto simp: resolvers_answer_def no_resolvers_def split: option.splits)
    qed
    with k(1) show ?thesis by blast
  qed
  have pinned: "zc_profile c = profile_ref_of p" using assms(7) by (simp add: projects_def)
  show "\<exists>u. runProtocolizationVerification env ctx c i = Inr u"
    using run_succeeds [OF assms(1,5,6) pinned assms(13) assms(12) [unfolded es] assms(14,15,10) _ checks] assms(16) by blast
qed

text \<open>The run of the example.\<close>

lemma checked_plan:
  "catalogued checked_verification checked_case = Some checked_profile"
  "listProtocolizationVerificationPlan sample_env checked_verification checked_case =
     Inr [(''automatic'', ''check.material.present''), (''automatic'', ''check.declaration.competing'')]"
  "projects checked_profile checked_case"
proof -
  show p: "catalogued checked_verification checked_case = Some checked_profile"
    by (simp add: catalogued_def checked_verification_def checked_get)
  have "planned checked_profile = [(''automatic'', ''check.material.present''), (''automatic'', ''check.declaration.competing'')]"
    by (simp add: checked_profile_def planned_def planned_of_def)
  then show "listProtocolizationVerificationPlan sample_env checked_verification checked_case =
     Inr [(''automatic'', ''check.material.present''), (''automatic'', ''check.declaration.competing'')]"
    using p checked_wf planned_once [OF checked_profile_wf] by (simp add: plan_Inr checked_verification_def)
  show "projects checked_profile checked_case"
    unfolding checked_case_def by (rule initial_projects) (simp_all add: checked_profile_def checked_input_def)
qed

lemma checked_ids: "list_all isValidVerificationExecutionId (ri_executionIds checked_run)"
  by code_simp

lemma checked_bounds:
  "length (ap_requirements checked_profile) \<le> 256"
  "createVerificationCheckRegistry (BUILT_IN_VERIFICATION_CHECKS id sample_env) = Inr (vx_checks checked_verification)"
  "clock_ok sample_env (vx_clock checked_verification n) checked_case" "vx_resolvers checked_verification = None"
  "inputs_own checked_case (ri_inputs checked_run)" "inputs_sound sample_env (ri_inputs checked_run)"
  "ri_executionIds checked_run = [''exec-1'', ''exec-2'']" "ri_correlationId checked_run = None"
  by (simp_all add: checked_profile_def checked_verification_def built_in_registry clock_ok_def later_than_first checked_run_def
      inputs_own_def inputs_sound_def or_empty_def)

lemma checked_planned_ids:
  "snd ` set [(''automatic'', ''check.material.present''), (''automatic'', ''check.declaration.competing'')] \<subseteq> set BUILT_IN_CHECK_IDS"
  by (simp add: BUILT_IN_CHECK_IDS_def)

lemma checked_materials: "length (zc_materials checked_case) \<le> 255"
  by simp

lemma checked_lengths:
  "length (ri_executionIds checked_run) =
     length [(''automatic'', ''check.material.present''), (''automatic'', ''check.declaration.competing'')]"
  "distinct (ri_executionIds checked_run)"
  by (simp_all add: checked_run_def)

lemma checked_correlation: "if_present isCanonicalRecordId (ri_correlationId checked_run)"
  by (simp add: checked_run_def if_present_def)

lemma checked_clocks: "\<forall>n. clock_ok sample_env (vx_clock checked_verification n) checked_case"
  using checked_bounds(3) by blast

lemma checked_resolvers:
  "\<forall>r f j. vx_resolvers checked_verification = Some r \<and> rv_claim r = Some f \<longrightarrow> (\<exists>x. f j = Inr x)"
  "\<forall>r f j. vx_resolvers checked_verification = Some r \<and> rv_content r = Some f \<longrightarrow> (\<exists>x. f j = Inr x)"
  by (simp_all add: checked_bounds(4))

lemma checked_first:
  "\<exists>r ev. executeProtocolizationVerificationCheck sample_env checked_verification later_text checked_case
     (entry_input checked_run ''exec-1'' (''automatic'', ''check.material.present'')) = Inr (r, ev)"
proof -
  obtain u where "runProtocolizationVerification sample_env checked_verification checked_case checked_run = Inr u"
    using built_in_run(2) [OF checked_runnable checked_plan(2) checked_bounds(2) checked_planned_ids checked_plan(1)
        checked_profile_wf checked_plan(3) checked_bounds(1) checked_materials checked_bounds(5,6) checked_lengths checked_ids
        checked_correlation checked_clocks checked_resolvers] by (elim exE)
  then obtain p ts where run: "catalogued checked_verification checked_case = Some p"
    "\<forall>j < length (planned p). executeProtocolizationVerificationCheck sample_env checked_verification (vx_clock checked_verification j)
       checked_case (entry_input checked_run (ri_executionIds checked_run ! j) (planned p ! j)) = Inr (ts ! j)"
    unfolding run_Inr by (elim conjE exE) (rule that; assumption)
  have "p = checked_profile" using run(1) checked_plan(1) by simp
  moreover have "planned checked_profile = [(''automatic'', ''check.material.present''), (''automatic'', ''check.declaration.competing'')]"
    by (simp add: checked_profile_def planned_def planned_of_def)
  ultimately have "executeProtocolizationVerificationCheck sample_env checked_verification later_text checked_case
      (entry_input checked_run ''exec-1'' (''automatic'', ''check.material.present'')) = Inr (ts ! 0)"
    using run(2) [rule_format, of 0] by (simp add: checked_verification_def checked_run_def)
  then show ?thesis by (cases "ts ! 0") (intro exI, simp only:)
qed

lemma checked_progress:
  assumes "listProtocolizationCaseRequirementProgress checked_case checked_profile no_filter = Inr ps" "g \<in> set ps"
    "gp_kind g \<noteq> VerificationRequirement"
  shows "gp_obligation g \<noteq> Required \<and> gp_conditionStatus g \<noteq> Unresolved"
proof -
  obtain q s where "q \<in> set (ap_requirements checked_profile)" "s \<in> set (zc_requirementStates checked_case)"
    "zr_requirementId s = ar_id q" "g = progress_of q s"
    using progress_entries [OF checked_plan(3) checked_wf] assms(1,2) by auto
  then show ?thesis
    using assms(3) by (auto simp: checked_profile_def checked_case_def initial_case_def initial_state_def progress_of_def ar_kind_def shape_kind.simps)
qed

text \<open>Two results of one check.\<close>

definition result_at :: "string \<Rightarrow> string \<Rightarrow> VerificationResult" where
  "result_at x t =
     \<lparr>vr_schemaVersion = PROTOCOLIZATION_VERIFICATION_RESULT_SCHEMA_VERSION, vr_executionId = x, vr_tenantId = ''gallery'',
      vr_caseId = ''case-1'', vr_profile = \<lparr>pr_profileId = ''art.checked'', pr_profileVersion = ''1.0.0''\<rparr>,
      vr_requirementId = ''automatic'', vr_checkId = ''check.material.present'', vr_evaluatedCaseRevision = 1,
      vr_outcome = ''Pass'', vr_reasonCode = None, vr_summary = None, vr_inputRefs = None, vr_executedAt = t,
      vr_canonicalVerificationRef = None, vr_correlationId = None\<rparr>"

definition two_results :: result_entries where
  "two_results = [result_at ''exec-1'' noon_text, result_at ''exec-2'' later_text]"

lemma result_at_fields [simp]:
  "vr_tenantId (result_at x t) = ''gallery''" "vr_caseId (result_at x t) = ''case-1''" "vr_executionId (result_at x t) = x"
  "vr_requirementId (result_at x t) = ''automatic''" "vr_checkId (result_at x t) = ''check.material.present''"
  "vr_executedAt (result_at x t) = t"
  by (simp_all add: result_at_def)

lemma two_results_good: "results.good sample_env two_results"
proof -
  have "result_valid sample_env (result_at ''exec-1'' noon_text)" "result_valid sample_env (result_at ''exec-2'' later_text)"
    unfolding result_valid_def by code_simp+
  then show ?thesis by (simp add: results.good_def two_results_def storageKey_def)
qed

subsection \<open>The properties\<close>

text \<open>
  C19: a run of the plan with the built-in checks succeeds: on a well-formed case of a valid profile that demands built-in
  checks only, with own and valid inputs within the bounds, as many different identifiers as planned checks, a clock not
  before the case and resolvers that answer.  The results answer the plan entry by entry, in its order, under the given
  identifiers and at the successive readings of the clock; each is valid, and bound to the case, its profile and its
  revision.
\<close>

theorem verification_run_complete:
  assumes "runnable env ctx c" "listProtocolizationVerificationPlan env ctx c = Inr es"
    "createVerificationCheckRegistry (BUILT_IN_VERIFICATION_CHECKS sha env) = Inr (vx_checks ctx)"
    "snd ` set es \<subseteq> set BUILT_IN_CHECK_IDS"
    "catalogued ctx c = Some p" "profile_wf env p" "projects p c"
    "length (ap_requirements p) \<le> 256" "length (zc_materials c) \<le> 255"
    "inputs_own c (ri_inputs i)" "inputs_sound env (ri_inputs i)"
    "length (ri_executionIds i) = length es" "distinct (ri_executionIds i)"
    "list_all isValidVerificationExecutionId (ri_executionIds i)" "if_present isCanonicalRecordId (ri_correlationId i)"
    "\<forall>n. clock_ok env (vx_clock ctx n) c"
    "\<forall>r f j. vx_resolvers ctx = Some r \<and> rv_claim r = Some f \<longrightarrow> (\<exists>x. f j = Inr x)"
    "\<forall>r f j. vx_resolvers ctx = Some r \<and> rv_content r = Some f \<longrightarrow> (\<exists>x. f j = Inr x)"
  shows "\<exists>u. runProtocolizationVerification env ctx c i = Inr u \<and>
    map (\<lambda>r. (vr_requirementId r, vr_checkId r)) (vu_results u) = es \<and>
    map vr_executionId (vu_results u) = ri_executionIds i \<and>
    map vr_executedAt (vu_results u) = map (vx_clock ctx) [0..<length es] \<and>
    (\<forall>r \<in> set (vu_results u). validateProtocolizationVerificationResult env r = [] \<and> vr_tenantId r = zc_tenantId c \<and>
       vr_caseId r = zc_caseId c \<and> vr_profile r = zc_profile c \<and> vr_evaluatedCaseRevision r = zc_revision c)"
proof -
  obtain u where u: "runProtocolizationVerification env ctx c i = Inr u" using built_in_run(2) [OF assms] by blast
  note es = built_in_run(1) [OF assms]
  obtain p' where "catalogued ctx c = Some p'"
    "map (\<lambda>r. (vr_requirementId r, vr_checkId r)) (vu_results u) = planned p'"
    "map vr_executionId (vu_results u) = ri_executionIds i"
    "map vr_executedAt (vu_results u) = map (vx_clock ctx) [0..<length (planned p')]"
    "\<forall>r \<in> set (vu_results u). validateProtocolizationVerificationResult env r = [] \<and> vr_tenantId r = zc_tenantId c \<and>
       vr_caseId r = zc_caseId c \<and> vr_profile r = zc_profile c \<and> vr_evaluatedCaseRevision r = zc_revision c \<and>
       isNotBefore env (vr_executedAt r) (zc_updatedAt c)"
    by (rule run_results [OF u]) (rule that; assumption)
  moreover have "p' = p" using calculation(1) assms(5) by simp
  ultimately show ?thesis using u es by blast
qed

theorem verification_run_complete_witness:
  "\<exists>u. runProtocolizationVerification sample_env checked_verification checked_case checked_run = Inr u \<and>
     map vr_checkId (vu_results u) = [''check.material.present'', ''check.declaration.competing''] \<and>
     map vr_executionId (vu_results u) = [''exec-1'', ''exec-2'']"
proof -
  obtain u where u: "runProtocolizationVerification sample_env checked_verification checked_case checked_run = Inr u"
    "map (\<lambda>r. (vr_requirementId r, vr_checkId r)) (vu_results u) =
       [(''automatic'', ''check.material.present''), (''automatic'', ''check.declaration.competing'')]"
    "map vr_executionId (vu_results u) = [''exec-1'', ''exec-2'']"
    using verification_run_complete [OF checked_runnable checked_plan(2) checked_bounds(2) checked_planned_ids checked_plan(1)
        checked_profile_wf checked_plan(3) checked_bounds(1) checked_materials checked_bounds(5,6) checked_lengths checked_ids
        checked_correlation checked_clocks checked_resolvers]
    unfolding checked_bounds(7) by (elim exE conjE) (rule that; assumption)
  have "map vr_checkId (vu_results u) = map snd (map (\<lambda>r. (vr_requirementId r, vr_checkId r)) (vu_results u))" by simp
  then have "map vr_checkId (vu_results u) = [''check.material.present'', ''check.declaration.competing'']"
    by (simp only: u(2) list.map snd_conv)
  with u(1,3) show ?thesis by (intro exI [of _ u] conjI)
qed

text \<open>
  C21: a built-in check passes exactly when its condition holds of the case it was executed on, with the records it was
  given, at the reading of the clock, for the profile catalogued under the pinned reference.
\<close>

theorem check_pass_meaning:
  assumes "executeProtocolizationVerificationCheck env ctx now c i = Inr (r, ev)"
    "createVerificationCheckRegistry (BUILT_IN_VERIFICATION_CHECKS sha env) = Inr (vx_checks ctx)"
  shows "\<exists>p kx. catalogued ctx c = Some p \<and> vk_assetProfile kx = p \<and> vk_subject kx = zc_subject c \<and>
    vk_materials kx = zc_materials c \<and> vk_evidenceReceipts kx = or_empty (vn_evidenceReceipts (xi_inputs i)) \<and>
    vk_declarations kx = or_empty (vn_declarations (xi_inputs i)) \<and> vk_now kx = now \<and>
    listProtocolizationCaseRequirementProgress c p no_filter = Inr (vk_requirementProgress kx) \<and>
    (vr_outcome r = ''Pass'' \<longleftrightarrow> check_condition sha env (xi_checkId i) kx)"
proof -
  have reg: "vx_checks ctx = BUILT_IN_VERIFICATION_CHECKS sha env" using assms(2) by (simp add: built_in_registry)
  from assms(1) obtain p x where p: "catalogued ctx c = Some p" "answered env ctx now c i p x"
    "r = result_of c (xi_requirementId i) (xi_checkId i) (xi_executionId i) x now (xi_correlationId i)"
    unfolding execute_Inr by blast
  then obtain v k kx where k: "checks_get (BUILT_IN_VERIFICATION_CHECKS sha env) (xi_checkId i) = Some k" "vc_execute k kx = Inr x"
    and made: "buildCheckContext ctx c p (xi_requirementId i) v (xi_checkId i) (xi_inputs i) now = Inr kx"
    unfolding answered_def reg by blast
  have "vr_outcome r = xe_outcome x" by (simp add: p(3) result_of_def)
  with verdict_condition [OF k] p(1) made show ?thesis
    by (intro exI [of _ p] exI [of _ kx]) (auto simp: buildCheckContext_def)
qed

theorem check_pass_meaning_witness:
  "\<exists>r ev. executeProtocolizationVerificationCheck sample_env checked_verification later_text checked_case
     (entry_input checked_run ''exec-1'' (''automatic'', ''check.material.present'')) = Inr (r, ev) \<and> vr_outcome r = ''Pass''"
proof -
  let ?i = "entry_input checked_run ''exec-1'' (''automatic'', ''check.material.present'')"
  obtain r ev where ran: "executeProtocolizationVerificationCheck sample_env checked_verification later_text checked_case ?i = Inr (r, ev)"
    using checked_first by blast
  from check_pass_meaning [OF ran checked_bounds(2)] obtain kx where
    progress: "listProtocolizationCaseRequirementProgress checked_case checked_profile no_filter = Inr (vk_requirementProgress kx)"
    and verdict: "vr_outcome r = ''Pass'' \<longleftrightarrow> check_condition id sample_env (xi_checkId ?i) kx"
    unfolding checked_plan(1) by blast
  have "check_condition id sample_env ''check.material.present'' kx"
    using checked_progress [OF progress] by (simp add: check_condition_def)
  with verdict have "vr_outcome r = ''Pass''" by (simp add: entry_input_def)
  with ran show ?thesis by (intro exI conjI)
qed

text \<open>
  C9: in a store of results reached by accepted saves, the latest results of a case are exactly those no later one of the
  same requirement and check follows: one for each requirement and check executed, in the order of execution.
\<close>

theorem latest_results_exact:
  assumes "results.good env entries" "verification_listByCase env entries t c = Inr rs"
  shows "set (listLatestVerificationResults env rs) =
      {r \<in> set entries. vr_tenantId r = t \<and> vr_caseId r = c \<and>
         (\<forall>q \<in> set entries. vr_tenantId q = t \<and> vr_caseId q = c \<and> vr_requirementId q = vr_requirementId r \<and>
            vr_checkId q = vr_checkId r \<longrightarrow> compareVerificationResults env q r \<le> 0)} \<and>
    distinct (map (\<lambda>r. (vr_requirementId r, vr_checkId r)) (listLatestVerificationResults env rs)) \<and>
    sorted_wrt (\<lambda>a b. compareVerificationResults env a b \<le> 0) (listLatestVerificationResults env rs) \<and>
    (\<forall>o'. map_of (countVerificationOutcomes rs) o' =
       (if o' \<in> set VERIFICATION_CHECK_OUTCOMES then Some (length (filter (\<lambda>r. vr_outcome r = o') rs)) else None)) \<and>
    (\<forall>r entries'. verification_save env entries r = Inr entries' \<longrightarrow> results.good env entries')"
proof -
  note history = case_history [OF assms]
  have valid: "result_valid env r" if "r \<in> set rs" for r using history(4) that by (simp add: list_all_iff)
  note latest = latest_results [OF history(4)]
  have inj: "inj_on vr_executionId (set rs)" using history(2) by (simp add: distinct_map)
  let ?pair = "\<lambda>r. (vr_requirementId r, vr_checkId r)"
  have same: "finding_key q = finding_key r \<longleftrightarrow> ?pair q = ?pair r" if "q \<in> set rs" "r \<in> set rs" for q r
    using finding_key_inj [OF valid [OF that(1)] valid [OF that(2)]] by simp
  have "set (listLatestVerificationResults env rs) \<subseteq> set rs" unfolding latest(1) [OF inj] by (auto simp: latest_in_def)
  then have "inj_on ?pair (set (listLatestVerificationResults env rs)) \<and> distinct (listLatestVerificationResults env rs)"
    using latest(2) [OF inj] same unfolding distinct_map inj_on_def by (meson subsetD)
  then have "distinct (map ?pair (listLatestVerificationResults env rs))" by (simp add: distinct_map)
  moreover have "latest_in env (set rs) r \<longleftrightarrow> r \<in> set rs \<and>
      (\<forall>q \<in> set rs. vr_requirementId q = vr_requirementId r \<and> vr_checkId q = vr_checkId r \<longrightarrow> compareVerificationResults env q r \<le> 0)" for r
    using same [of _ r] unfolding latest_in_def by auto
  ultimately show ?thesis
    using latest(1,3) [OF inj] history(3) outcome_counts [OF history(4)] results.store_good [OF assms(1)] by auto
qed

theorem latest_results_exact_witness:
  "results.good sample_env two_results \<and>
   (\<exists>rs. verification_listByCase sample_env two_results ''gallery'' ''case-1'' = Inr rs \<and>
      set (listLatestVerificationResults sample_env rs) = {result_at ''exec-2'' later_text})"
proof -
  have "isValidProtocolizationTenantId ''gallery''" by code_simp
  then obtain rs where rs: "verification_listByCase sample_env two_results ''gallery'' ''case-1'' = Inr rs"
    using results.listed_answers by blast
  have order: "compareVerificationResults sample_env (result_at ''exec-1'' noon_text) (result_at ''exec-2'' later_text) = -1"
    "compareVerificationResults sample_env (result_at ''exec-2'' later_text) (result_at ''exec-1'' noon_text) = 1"
    "compareVerificationResults sample_env (result_at ''exec-2'' later_text) (result_at ''exec-2'' later_text) = 0"
    by code_simp+
  have only: "{r \<in> {a, b}. Q r} = {b}" if "\<not> Q a" "Q b" for a b :: VerificationResult and Q
    using that by auto
  have "set (listLatestVerificationResults sample_env rs) = {result_at ''exec-2'' later_text}"
    unfolding conjunct1 [OF latest_results_exact [OF two_results_good rs]] two_results_def list.set
    by (rule only) (simp_all add: order)
  with rs two_results_good show ?thesis by (intro conjI exI)
qed

end
