(* ===== verification/Reviews.thy ===== *)
theory Reviews
  imports Verification
begin

text \<open>
  \<open>packages/asset-protocolization/src/attestation/\<close>: the records of professional review (scopes, requests, decisions),
  their validation, and the preparation of a canonical attestation.

  Of a credential, a proof and an attestation the members the code reads or writes are modelled.  The two tables of
  codes share texts, so one datatype has the codes of both and the texts the operations report beside them.
\<close>

subsection \<open>Records\<close>

datatype CanonicalSource = TextSource string | SourceRef CanonicalReferenceSource

record CanonicalProofRef =
  pf_id :: string
  pf_type :: string
  pf_source :: CanonicalSource

record CanonicalCredentialRef =
  cd_id :: string
  cd_type :: string
  cd_status :: "string option"

record CanonicalAttestation =
  ca_id :: string
  ca_type :: string
  ca_attester :: CanonicalPrincipalRef
  ca_claimRef :: string
  ca_statement :: string
  ca_issuedAt :: string
  ca_credentialRefs :: "CanonicalCredentialRef list option"
  ca_proofRefs :: "CanonicalProofRef list option"

definition ProofTypes :: "string list" where
  "ProofTypes =
     [''HashProof'', ''SignatureProof'', ''AttestationProof'', ''IntegrityProof'', ''ChainProof'', ''CredentialProof'',
      ''AuditProof'', ''TraceProof'', ''Custom'']"

definition ProfessionalReviewBasisKinds :: "string list" where
  "ProfessionalReviewBasisKinds =
     [''Material'', ''Requirement'', ''IntakeReceipt'', ''EvidenceRecord'', ''DeclarationRecord'', ''ClaimRecord'',
      ''VerificationResult'', ''Subject'']"

definition isProfessionalReviewBasisKind :: "string \<Rightarrow> bool" where
  "isProfessionalReviewBasisKind k \<longleftrightarrow> k \<in> set ProfessionalReviewBasisKinds"

record ProfessionalReviewBasisRef =
  pb_kind :: string
  pb_ref :: string

record ProfessionalReviewScope =
  sp_requirementId :: string
  sp_attestationType :: string
  sp_subjectRef :: SovereignSubjectRef
  sp_caseRevision :: int
  sp_propositionRefs :: "ProfessionalReviewBasisRef list"
  sp_scopeStatement :: "string option"
  sp_limitations :: "string list option"

definition PROFESSIONAL_REVIEW_ACTIONS :: "string list" where
  "PROFESSIONAL_REVIEW_ACTIONS = [''Attest'', ''Reject'', ''RequestMoreEvidence'', ''Abstain'']"

definition isProfessionalReviewAction :: "string \<Rightarrow> bool" where
  "isProfessionalReviewAction a \<longleftrightarrow> a \<in> set PROFESSIONAL_REVIEW_ACTIONS"

definition PROFESSIONAL_REVIEW_REQUEST_SCHEMA_VERSION :: string where
  "PROFESSIONAL_REVIEW_REQUEST_SCHEMA_VERSION = ''aoc-protocolization-professional-review-request/1''"

definition PROFESSIONAL_REVIEW_DECISION_SCHEMA_VERSION :: string where
  "PROFESSIONAL_REVIEW_DECISION_SCHEMA_VERSION = ''aoc-protocolization-professional-review-decision/1''"

record ProfessionalReviewRequest =
  rq_schemaVersion :: string
  rq_reviewRequestId :: string
  rq_tenantId :: string
  rq_caseId :: string
  rq_profile :: ProtocolizationProfileRef
  rq_attestationRequirementId :: string
  rq_requestedAttestationType :: string
  rq_requestedScope :: ProfessionalReviewScope
  rq_reviewBasisRevision :: int
  rq_requestedAt :: string
  rq_correlationId :: "string option"

record ProfessionalReviewMaterialRequest =
  mr_requirementId :: "string option"
  mr_evidenceCategoryId :: "string option"
  mr_reasonCode :: string
  mr_note :: "string option"

record ProfessionalReviewDecision =
  rd_schemaVersion :: string
  rd_decisionId :: string
  rd_reviewRequestId :: string
  rd_tenantId :: string
  rd_caseId :: string
  rd_profile :: ProtocolizationProfileRef
  rd_attestationRequirementId :: string
  rd_reviewer :: CanonicalPrincipalRef
  rd_reviewerCredentialRefs :: "CanonicalCredentialRef list option"
  rd_action :: string
  rd_scope :: "ProfessionalReviewScope option"
  rd_reviewBasisRevision :: int
  rd_resultingCaseRevision :: "int option"
  rd_reviewedRefs :: "ProfessionalReviewBasisRef list option"
  rd_reasonCode :: "string option"
  rd_requestedMaterial :: "ProfessionalReviewMaterialRequest list option"
  rd_note :: "string option"
  rd_canonicalAttestationRef :: "string option"
  rd_attestationMaterialId :: "string option"
  rd_decidedAt :: string
  rd_correlationId :: "string option"

subsection \<open>Errors\<close>

datatype ReviewCode =
    REVIEW_NOT_AN_OBJECT | REVIEW_UNKNOWN_FIELD | REVIEW_SCHEMA_VERSION_INVALID | REVIEW_REQUEST_ID_INVALID
  | REVIEW_DECISION_ID_INVALID | REVIEW_TENANT_ID_INVALID | REVIEW_CASE_ID_INVALID | REVIEW_PROFILE_REF_INVALID
  | REVIEW_REQUIREMENT_ID_INVALID | REVIEW_ATTESTATION_TYPE_INVALID | REVIEW_SCOPE_INVALID | REVIEW_BASIS_REVISION_INVALID
  | REVIEW_RESULTING_REVISION_INVALID | REVIEW_REQUESTED_AT_INVALID | REVIEW_DECIDED_AT_INVALID | REVIEW_REVIEWER_INVALID
  | REVIEW_CREDENTIAL_REFS_INVALID | REVIEW_ACTION_INVALID | REVIEW_REVIEWED_REFS_INVALID | REVIEW_REASON_CODE_INVALID
  | REVIEW_REQUESTED_MATERIAL_INVALID | REVIEW_NOTE_INVALID | REVIEW_ATTESTATION_REF_INVALID | REVIEW_MATERIAL_ID_INVALID
  | REVIEW_CORRELATION_ID_INVALID | REVIEW_ACTION_FIELD_UNEXPECTED | REVIEW_ACTION_FIELD_MISSING
  | REVIEW_REQUEST_INVALID | REVIEW_TENANT_REQUIRED | REVIEW_TENANT_MISMATCH | REVIEW_CASE_MISMATCH | REVIEW_PROFILE_MISMATCH
  | REVIEW_CASE_CANCELLED | REVIEW_REQUIREMENT_INCOMPATIBLE | REVIEW_ATTESTATION_TYPE_INCOMPATIBLE | REVIEWER_REQUIRED
  | REVIEWER_INVALID | REVIEWER_CREDENTIAL_REQUIRED | REVIEWER_CREDENTIAL_INCOMPATIBLE | REVIEW_SCOPE_REQUIRED
  | REVIEW_REASON_CODE_REQUIRED | REVIEW_MORE_EVIDENCE_EMPTY | REVIEW_ATTESTATION_CANNOT_BE_CONSTRUCTED
  | REVIEW_SIGNATURE_UNAVAILABLE | REVIEW_REQUEST_RECORD_INVALID | REVIEW_DECISION_INVALID | REVIEW_REQUEST_DUPLICATE
  | REVIEW_DECISION_DUPLICATE | REVIEW_REQUEST_ALREADY_DECIDED | REVIEW_INPUTS_INVALID | REVIEW_TIMESTAMP_INVALID
  | SCOPE_REQUIREMENT_MISMATCH | SCOPE_ATTESTATION_TYPE_MISMATCH | SCOPE_REVISION_MISMATCH | SCOPE_SUBJECT_MISMATCH
  | REVIEWED_REFS_REQUIRED | REQUESTED_MATERIAL_UNEXPECTED | SCOPE_UNEXPECTED | ATTESTATION_UNEXPECTED
  | ATTESTATION_ID_INVALID | ATTESTATION_CLAIM_REF_INVALID | ATTESTATION_STATEMENT_INVALID | ATTESTATION_ISSUED_AT_INVALID
  | ATTESTATION_PROOF_REFS_REQUIRED | ATTESTATION_PROOF_REFS_INVALID

record ProfessionalReviewErrorDetails =
  rw_reasonCodes :: "ReviewCode list"
  rw_reviewRequestId :: "string option"
  rw_decisionId :: "string option"
  rw_tenantId :: "string option"
  rw_caseId :: "string option"
  rw_requirementIds :: "string list option"

datatype review_error =
    ProfessionalReviewError ReviewCode ProfessionalReviewErrorDetails
  | ReviewCaseError ProtocolizationCaseError

definition review_details :: "ReviewCode list \<Rightarrow> ProfessionalReviewErrorDetails" where
  "review_details rs =
     \<lparr>rw_reasonCodes = rs, rw_reviewRequestId = None, rw_decisionId = None, rw_tenantId = None, rw_caseId = None,
      rw_requirementIds = None\<rparr>"

subsection \<open>Validation\<close>

definition NOTE_MAX_LENGTH :: nat where "NOTE_MAX_LENGTH = 2048"
definition SCOPE_STATEMENT_MAX_LENGTH :: nat where "SCOPE_STATEMENT_MAX_LENGTH = 2048"
definition LIMITATION_MAX_LENGTH :: nat where "LIMITATION_MAX_LENGTH = 512"
definition LIMITATIONS_MAX_COUNT :: nat where "LIMITATIONS_MAX_COUNT = 32"
definition BASIS_REFS_MAX_COUNT :: nat where "BASIS_REFS_MAX_COUNT = 512"
definition MATERIAL_REQUESTS_MAX_COUNT :: nat where "MATERIAL_REQUESTS_MAX_COUNT = 64"
definition CREDENTIAL_REFS_MAX_COUNT :: nat where "CREDENTIAL_REFS_MAX_COUNT = 16"

definition isBoundedText :: "string \<Rightarrow> nat \<Rightarrow> bool" where
  "isBoundedText s n \<longleftrightarrow> trim s \<noteq> [] \<and> length s \<le> n"

definition isCaseRevision :: "int \<Rightarrow> bool" where
  "isCaseRevision n \<longleftrightarrow> isSafeInteger n \<and> 1 \<le> n"

definition isAttestationType :: "string \<Rightarrow> bool" where
  "isAttestationType t \<longleftrightarrow> t \<in> set AttestationTypes"

definition isValidProfessionalReviewRequestId :: "string \<Rightarrow> bool" where
  "isValidProfessionalReviewRequestId s \<longleftrightarrow> isProtocolizationInstanceIdentifier s"

definition isValidProfessionalReviewDecisionId :: "string \<Rightarrow> bool" where
  "isValidProfessionalReviewDecisionId s \<longleftrightarrow> isProtocolizationInstanceIdentifier s"

definition isValidProfessionalReviewReasonCode :: "string \<Rightarrow> bool" where
  "isValidProfessionalReviewReasonCode s \<longleftrightarrow> isDottedToken s"

definition isUsablePrincipalRef :: "CanonicalPrincipalRef \<Rightarrow> bool" where
  "isUsablePrincipalRef p \<longleftrightarrow> isCanonicalRecordId (cp_id p) \<and> cp_kind p \<in> set PrincipalKinds"

definition isUsableCredentialRef :: "CanonicalCredentialRef \<Rightarrow> bool" where
  "isUsableCredentialRef r \<longleftrightarrow> isCanonicalRecordId (cd_id r) \<and> cd_type r \<in> set CredentialTypes"

definition isValidBasisRefList :: "ProfessionalReviewBasisRef list \<Rightarrow> bool" where
  "isValidBasisRefList rs \<longleftrightarrow>
     rs \<noteq> [] \<and> length rs \<le> BASIS_REFS_MAX_COUNT \<and>
     list_all (\<lambda>r. isProfessionalReviewBasisKind (pb_kind r) \<and> isCanonicalRecordId (pb_ref r)) rs"

definition isValidCredentialRefList :: "CanonicalCredentialRef list \<Rightarrow> bool" where
  "isValidCredentialRefList rs \<longleftrightarrow> rs \<noteq> [] \<and> length rs \<le> CREDENTIAL_REFS_MAX_COUNT \<and> list_all isUsableCredentialRef rs"

definition isValidMaterialRequestList :: "ProfessionalReviewMaterialRequest list \<Rightarrow> bool" where
  "isValidMaterialRequestList rs \<longleftrightarrow>
     rs \<noteq> [] \<and> length rs \<le> MATERIAL_REQUESTS_MAX_COUNT \<and>
     list_all (\<lambda>r. isValidProfessionalReviewReasonCode (mr_reasonCode r) \<and>
       if_present isValidAssetRequirementId (mr_requirementId r) \<and>
       if_present isValidEvidenceIntakeCategoryId (mr_evidenceCategoryId r) \<and>
       (mr_requirementId r \<noteq> None \<or> mr_evidenceCategoryId r \<noteq> None) \<and>
       if_present (\<lambda>s. isBoundedText s NOTE_MAX_LENGTH) (mr_note r)) rs"

definition validateProfessionalReviewScope :: "ProfessionalReviewScope \<Rightarrow> ReviewCode list" where
  "validateProfessionalReviewScope s =
     unless_ok (isValidAssetRequirementId (sp_requirementId s)) REVIEW_REQUIREMENT_ID_INVALID @
     unless_ok (isAttestationType (sp_attestationType s)) REVIEW_ATTESTATION_TYPE_INVALID @
     unless_ok (isValidSovereignSubjectRef (sp_subjectRef s)) REVIEW_SCOPE_INVALID @
     unless_ok (isCaseRevision (sp_caseRevision s)) REVIEW_BASIS_REVISION_INVALID @
     unless_ok (isValidBasisRefList (sp_propositionRefs s)) REVIEW_SCOPE_INVALID @
     unless_ok (if_present (\<lambda>t. isBoundedText t SCOPE_STATEMENT_MAX_LENGTH) (sp_scopeStatement s)) REVIEW_SCOPE_INVALID @
     unless_ok (if_present (\<lambda>ls. ls \<noteq> [] \<and> length ls \<le> LIMITATIONS_MAX_COUNT \<and>
       list_all (\<lambda>l. isBoundedText l LIMITATION_MAX_LENGTH) ls) (sp_limitations s)) REVIEW_SCOPE_INVALID"

definition isValidProfessionalReviewScope :: "ProfessionalReviewScope \<Rightarrow> bool" where
  "isValidProfessionalReviewScope s \<longleftrightarrow> validateProfessionalReviewScope s = []"

definition validateProfessionalReviewRequest :: "host_env \<Rightarrow> ProfessionalReviewRequest \<Rightarrow> ReviewCode list" where
  "validateProfessionalReviewRequest env r =
     (let scope = rq_requestedScope r; admitted = isValidProfessionalReviewScope scope in
      unless_ok (rq_schemaVersion r = PROFESSIONAL_REVIEW_REQUEST_SCHEMA_VERSION) REVIEW_SCHEMA_VERSION_INVALID @
      unless_ok (isValidProfessionalReviewRequestId (rq_reviewRequestId r)) REVIEW_REQUEST_ID_INVALID @
      unless_ok (isValidProtocolizationTenantId (rq_tenantId r)) REVIEW_TENANT_ID_INVALID @
      unless_ok (isValidProtocolizationCaseId (rq_caseId r)) REVIEW_CASE_ID_INVALID @
      unless_ok (isValidProtocolizationProfileRef (rq_profile r)) REVIEW_PROFILE_REF_INVALID @
      unless_ok (isValidAssetRequirementId (rq_attestationRequirementId r)) REVIEW_REQUIREMENT_ID_INVALID @
      unless_ok (isAttestationType (rq_requestedAttestationType r)) REVIEW_ATTESTATION_TYPE_INVALID @
      unless_ok admitted REVIEW_SCOPE_INVALID @
      unless_ok (isCaseRevision (rq_reviewBasisRevision r)) REVIEW_BASIS_REVISION_INVALID @
      unless_ok (\<not> (admitted \<and> isCaseRevision (rq_reviewBasisRevision r) \<and> sp_caseRevision scope \<noteq> rq_reviewBasisRevision r))
        REVIEW_SCOPE_INVALID @
      unless_ok (\<not> (admitted \<and> sp_requirementId scope \<noteq> rq_attestationRequirementId r)) REVIEW_SCOPE_INVALID @
      unless_ok (\<not> (admitted \<and> sp_attestationType scope \<noteq> rq_requestedAttestationType r)) REVIEW_SCOPE_INVALID @
      unless_ok (isValidUtcDateTime env (rq_requestedAt r)) REVIEW_REQUESTED_AT_INVALID @
      unless_ok (if_present isCanonicalRecordId (rq_correlationId r)) REVIEW_CORRELATION_ID_INVALID)"

text \<open>
  The fields an action requires and forbids; \<open>has_field\<close> is \<open>hasOwn\<close> on a decision, of which an optional member is there
  when it has a value.
\<close>

definition has_field :: "ProfessionalReviewDecision \<Rightarrow> string \<Rightarrow> bool" where
  "has_field d f \<longleftrightarrow>
     f = ''scope'' \<and> rd_scope d \<noteq> None \<or> f = ''reviewedRefs'' \<and> rd_reviewedRefs d \<noteq> None \<or>
     f = ''requestedMaterial'' \<and> rd_requestedMaterial d \<noteq> None \<or> f = ''reasonCode'' \<and> rd_reasonCode d \<noteq> None \<or>
     f = ''canonicalAttestationRef'' \<and> rd_canonicalAttestationRef d \<noteq> None \<or>
     f = ''attestationMaterialId'' \<and> rd_attestationMaterialId d \<noteq> None \<or>
     f = ''resultingCaseRevision'' \<and> rd_resultingCaseRevision d \<noteq> None"

definition ACTION_REQUIRED :: "string \<Rightarrow> string list" where
  "ACTION_REQUIRED a =
     (if a = ''Attest'' then [''scope'', ''reviewedRefs'']
      else if a = ''RequestMoreEvidence'' then [''reasonCode'', ''requestedMaterial'']
      else [''reasonCode''])"

definition ACTION_FORBIDDEN :: "string \<Rightarrow> string list" where
  "ACTION_FORBIDDEN a =
     (if a = ''Attest'' then [''requestedMaterial'']
      else if a = ''RequestMoreEvidence''
      then [''scope'', ''canonicalAttestationRef'', ''attestationMaterialId'', ''resultingCaseRevision'']
      else [''scope'', ''requestedMaterial'', ''canonicalAttestationRef'', ''attestationMaterialId'', ''resultingCaseRevision''])"

definition action_reasons :: "ProfessionalReviewDecision \<Rightarrow> ReviewCode list" where
  "action_reasons d =
     (if \<not> isProfessionalReviewAction (rd_action d) then []
      else
        unless_ok (list_all (has_field d) (ACTION_REQUIRED (rd_action d))) REVIEW_ACTION_FIELD_MISSING @
        unless_ok (\<not> list_ex (has_field d) (ACTION_FORBIDDEN (rd_action d))) REVIEW_ACTION_FIELD_UNEXPECTED @
        unless_ok ((rd_canonicalAttestationRef d \<noteq> None) = (rd_attestationMaterialId d \<noteq> None) \<and>
          (rd_canonicalAttestationRef d \<noteq> None) = (rd_resultingCaseRevision d \<noteq> None)) REVIEW_ACTION_FIELD_MISSING @
        unless_ok (\<not> (rd_action d = ''Attest'' \<and> isCaseRevision (rd_reviewBasisRevision d) \<and>
          (case rd_scope d of None \<Rightarrow> False | Some s \<Rightarrow> isValidProfessionalReviewScope s \<and>
             (sp_caseRevision s \<noteq> rd_reviewBasisRevision d \<or> sp_requirementId s \<noteq> rd_attestationRequirementId d))))
          REVIEW_SCOPE_INVALID)"

definition validateProfessionalReviewDecision :: "host_env \<Rightarrow> ProfessionalReviewDecision \<Rightarrow> ReviewCode list" where
  "validateProfessionalReviewDecision env d =
     unless_ok (rd_schemaVersion d = PROFESSIONAL_REVIEW_DECISION_SCHEMA_VERSION) REVIEW_SCHEMA_VERSION_INVALID @
     unless_ok (isValidProfessionalReviewDecisionId (rd_decisionId d)) REVIEW_DECISION_ID_INVALID @
     unless_ok (isValidProfessionalReviewRequestId (rd_reviewRequestId d)) REVIEW_REQUEST_ID_INVALID @
     unless_ok (isValidProtocolizationTenantId (rd_tenantId d)) REVIEW_TENANT_ID_INVALID @
     unless_ok (isValidProtocolizationCaseId (rd_caseId d)) REVIEW_CASE_ID_INVALID @
     unless_ok (isValidProtocolizationProfileRef (rd_profile d)) REVIEW_PROFILE_REF_INVALID @
     unless_ok (isValidAssetRequirementId (rd_attestationRequirementId d)) REVIEW_REQUIREMENT_ID_INVALID @
     unless_ok (isUsablePrincipalRef (rd_reviewer d)) REVIEW_REVIEWER_INVALID @
     unless_ok (if_present isValidCredentialRefList (rd_reviewerCredentialRefs d)) REVIEW_CREDENTIAL_REFS_INVALID @
     unless_ok (isProfessionalReviewAction (rd_action d)) REVIEW_ACTION_INVALID @
     unless_ok (if_present isValidProfessionalReviewScope (rd_scope d)) REVIEW_SCOPE_INVALID @
     unless_ok (isCaseRevision (rd_reviewBasisRevision d)) REVIEW_BASIS_REVISION_INVALID @
     unless_ok (if_present (\<lambda>n. isCaseRevision n \<and> isCaseRevision (rd_reviewBasisRevision d) \<and> rd_reviewBasisRevision d < n)
       (rd_resultingCaseRevision d)) REVIEW_RESULTING_REVISION_INVALID @
     unless_ok (if_present isValidBasisRefList (rd_reviewedRefs d)) REVIEW_REVIEWED_REFS_INVALID @
     unless_ok (if_present isValidProfessionalReviewReasonCode (rd_reasonCode d)) REVIEW_REASON_CODE_INVALID @
     unless_ok (if_present isValidMaterialRequestList (rd_requestedMaterial d)) REVIEW_REQUESTED_MATERIAL_INVALID @
     unless_ok (if_present (\<lambda>s. isBoundedText s NOTE_MAX_LENGTH) (rd_note d)) REVIEW_NOTE_INVALID @
     unless_ok (if_present isCanonicalRecordId (rd_canonicalAttestationRef d)) REVIEW_ATTESTATION_REF_INVALID @
     unless_ok (if_present isValidProtocolizationMaterialId (rd_attestationMaterialId d)) REVIEW_MATERIAL_ID_INVALID @
     unless_ok (isValidUtcDateTime env (rd_decidedAt d)) REVIEW_DECIDED_AT_INVALID @
     unless_ok (if_present isCanonicalRecordId (rd_correlationId d)) REVIEW_CORRELATION_ID_INVALID @
     action_reasons d"

subsection \<open>The attestation\<close>

definition STATEMENT_MAX :: nat where "STATEMENT_MAX = 4096"
definition PROOF_REFS_MAX_COUNT :: nat where "PROOF_REFS_MAX_COUNT = 8"

definition isUsableProofRef :: "CanonicalProofRef \<Rightarrow> bool" where
  "isUsableProofRef p \<longleftrightarrow>
     isCanonicalRecordId (pf_id p) \<and> pf_type p \<in> set ProofTypes \<and>
     (case pf_source p of TextSource s \<Rightarrow> trim s \<noteq> [] | SourceRef r \<Rightarrow> True)"

record PrepareCanonicalAttestationInput =
  pa_attestationId :: string
  pa_attestationType :: string
  pa_attester :: CanonicalPrincipalRef
  pa_claimRef :: string
  pa_statement :: string
  pa_issuedAt :: string
  pa_credentialRefs :: "CanonicalCredentialRef list option"
  pa_proofRefs :: "CanonicalProofRef list"

definition preparation_reasons :: "host_env \<Rightarrow> PrepareCanonicalAttestationInput \<Rightarrow> ReviewCode list" where
  "preparation_reasons env i =
     unless_ok (isCanonicalRecordId (pa_attestationId i)) ATTESTATION_ID_INVALID @
     unless_ok (isCanonicalRecordId (pa_claimRef i)) ATTESTATION_CLAIM_REF_INVALID @
     unless_ok (trim (pa_statement i) \<noteq> [] \<and> length (pa_statement i) \<le> STATEMENT_MAX) ATTESTATION_STATEMENT_INVALID @
     unless_ok (isValidUtcDateTime env (pa_issuedAt i)) ATTESTATION_ISSUED_AT_INVALID @
     (if pa_proofRefs i = [] then [ATTESTATION_PROOF_REFS_REQUIRED]
      else unless_ok (length (pa_proofRefs i) \<le> PROOF_REFS_MAX_COUNT \<and> list_all isUsableProofRef (pa_proofRefs i))
             ATTESTATION_PROOF_REFS_INVALID)"

definition attestation_of :: "PrepareCanonicalAttestationInput \<Rightarrow> CanonicalAttestation" where
  "attestation_of i =
     \<lparr>ca_id = pa_attestationId i, ca_type = pa_attestationType i, ca_attester = pa_attester i, ca_claimRef = pa_claimRef i,
      ca_statement = pa_statement i, ca_issuedAt = pa_issuedAt i, ca_credentialRefs = pa_credentialRefs i,
      ca_proofRefs = Some (pa_proofRefs i)\<rparr>"

definition prepareCanonicalAttestationFromReview ::
  "host_env \<Rightarrow> PrepareCanonicalAttestationInput \<Rightarrow> review_error + CanonicalAttestation" where
  "prepareCanonicalAttestationFromReview env i =
     (let reasons = preparation_reasons env i in
      unless_error (failing (reasons \<noteq> [])
                      (ProfessionalReviewError REVIEW_ATTESTATION_CANNOT_BE_CONSTRUCTED (review_details reasons)))
        (Inr (attestation_of i)))"

text \<open>An attestation is prepared exactly from usable inputs, and never without a usable proof.\<close>

lemma prepared_Inr:
  "prepareCanonicalAttestationFromReview env i = Inr a \<longleftrightarrow>
     a = attestation_of i \<and> isCanonicalRecordId (pa_attestationId i) \<and> isCanonicalRecordId (pa_claimRef i) \<and>
     trim (pa_statement i) \<noteq> [] \<and> length (pa_statement i) \<le> STATEMENT_MAX \<and> isValidUtcDateTime env (pa_issuedAt i) \<and>
     pa_proofRefs i \<noteq> [] \<and> length (pa_proofRefs i) \<le> PROOF_REFS_MAX_COUNT \<and> list_all isUsableProofRef (pa_proofRefs i)"
  by (auto simp: prepareCanonicalAttestationFromReview_def Let_def preparation_reasons_def)

end
