(* ===== verification/ReviewOperations.thy ===== *)
theory ReviewOperations
  imports Reviews VerificationStore
begin

text \<open>
  \<open>packages/asset-protocolization/src/attestation/review-operations.ts\<close>: a request for professional review, the packet a
  reviewer is given (\<open>review-packet.ts\<close>), and the recording of a decision with the attestation it may produce; the events
  (\<open>review-events.ts\<close>) and the signer (\<open>attestation-signer.ts\<close>), which gives a proof or rejects.

  The clock may be read twice, so it is a function of the number of readings before.  A request is of its type, so its
  reviewer is never absent.
\<close>

subsection \<open>Context, inputs and events\<close>

record AttestationSigningRequest =
  sg_tenantId :: string
  sg_caseId :: string
  sg_reviewRequestId :: string
  sg_decisionId :: string
  sg_attestationId :: string
  sg_attestationType :: string
  sg_attester :: CanonicalPrincipalRef
  sg_claimRef :: string
  sg_statement :: string
  sg_issuedAt :: string

record ReviewContext =
  px_catalog :: "string \<Rightarrow> string \<Rightarrow> AssetProfile option"
  px_clock :: "nat \<Rightarrow> string"
  px_tenantId :: string
  px_signer :: "(AttestationSigningRequest \<Rightarrow> string + CanonicalProofRef) option"

definition case_context_at :: "ReviewContext \<Rightarrow> nat \<Rightarrow> CaseContext" where
  "case_context_at ctx n = \<lparr>cx_catalog = px_catalog ctx, cx_now = px_clock ctx n, cx_tenantId = px_tenantId ctx\<rparr>"

record CreateReviewRequestInput =
  iq_reviewRequestId :: string
  iq_attestationRequirementId :: string
  iq_requestedAttestationType :: string
  iq_requestedScope :: ProfessionalReviewScope
  iq_correlationId :: "string option"

record ReviewPacketInputs =
  ip_evidenceReceipts :: "EvidenceIntakeReceipt list option"
  ip_declarations :: "DeclarationRecord list option"
  ip_verificationResults :: "VerificationResult list option"

record ProfessionalAttestationInput =
  ia_attestationId :: string
  ia_claimRef :: string
  ia_statement :: string
  ia_materialId :: string
  ia_proofRefs :: "CanonicalProofRef list option"

record RecordReviewDecisionInput =
  id_decisionId :: string
  id_reviewer :: CanonicalPrincipalRef
  id_reviewerCredentialRefs :: "CanonicalCredentialRef list option"
  id_action :: string
  id_scope :: "ProfessionalReviewScope option"
  id_reviewedRefs :: "ProfessionalReviewBasisRef list option"
  id_reasonCode :: "string option"
  id_requestedMaterial :: "ProfessionalReviewMaterialRequest list option"
  id_note :: "string option"
  id_attestation :: "ProfessionalAttestationInput option"
  id_correlationId :: "string option"

record ReviewRequestedEvent =
  qe_reviewRequestId :: string
  qe_tenantId :: string
  qe_caseId :: string
  qe_profile :: ProtocolizationProfileRef
  qe_attestationRequirementId :: string
  qe_requestedAttestationType :: string
  qe_reviewBasisRevision :: int
  qe_occurredAt :: string
  qe_correlationId :: "string option"

record DecisionRecordedEvent =
  re_decisionId :: string
  re_reviewRequestId :: string
  re_tenantId :: string
  re_caseId :: string
  re_profileRef :: ProtocolizationProfileRef
  re_attestationRequirementId :: string
  re_reviewer :: CanonicalPrincipalRef
  re_action :: string
  re_reasonCode :: "string option"
  re_reviewBasisRevision :: int
  re_resultingCaseRevision :: "int option"
  re_canonicalAttestationRef :: "string option"
  re_occurredAt :: string
  re_correlationId :: "string option"

record AttestationRecordedEvent =
  ta_decisionId :: string
  ta_reviewRequestId :: string
  ta_tenantId :: string
  ta_caseId :: string
  ta_profile :: ProtocolizationProfileRef
  ta_attestationRequirementId :: string
  ta_canonicalAttestationRef :: string
  ta_attestationType :: string
  ta_attester :: CanonicalPrincipalRef
  ta_materialId :: string
  ta_reviewBasisRevision :: int
  ta_resultingCaseRevision :: int
  ta_occurredAt :: string
  ta_correlationId :: "string option"

text \<open>What a decision with an artifact changes: the case, the event of the case, the artifact and its event.\<close>

record ProducedAttestation =
  pt_case :: ProtocolizationCase
  pt_caseEvent :: ProtocolizationCaseEvent
  pt_attestation :: CanonicalAttestation
  pt_attestationEvent :: AttestationRecordedEvent

record ReviewDecisionTransition =
  tr_decision :: ProfessionalReviewDecision
  tr_decisionEvent :: DecisionRecordedEvent
  tr_produced :: "ProducedAttestation option"

subsection \<open>Guards\<close>

definition failReview ::
  "ReviewCode \<Rightarrow> ReviewCode list \<Rightarrow> ProtocolizationCase \<Rightarrow> string option \<Rightarrow> string list option \<Rightarrow> review_error" where
  "failReview code reasons c requestId requirementIds =
     ProfessionalReviewError code
       ((review_details reasons)
          \<lparr>rw_caseId := Some (zc_caseId c), rw_tenantId := Some (zc_tenantId c), rw_reviewRequestId := requestId,
           rw_requirementIds := requirementIds\<rparr>)"

definition review_tenant_gate :: "ReviewContext \<Rightarrow> ProtocolizationCase \<Rightarrow> review_error option" where
  "review_tenant_gate ctx c =
     (if \<not> isValidProtocolizationTenantId (px_tenantId ctx)
      then Some (ProfessionalReviewError REVIEW_TENANT_REQUIRED (review_details [REVIEW_TENANT_REQUIRED]))
      else failing (zc_tenantId c \<noteq> px_tenantId ctx)
             (ProfessionalReviewError REVIEW_TENANT_MISMATCH
                ((review_details [REVIEW_TENANT_MISMATCH])\<lparr>rw_caseId := Some (zc_caseId c), rw_tenantId := Some (px_tenantId ctx)\<rparr>)))"

definition review_readable :: "host_env \<Rightarrow> ProtocolizationCase \<Rightarrow> review_error option" where
  "review_readable env c = map_option ReviewCaseError (invalid_case env c None)"

definition assertCaseAcceptsReview :: "ProtocolizationCase \<Rightarrow> review_error option" where
  "assertCaseAcceptsReview c =
     failing (zc_state c = Cancelled) (failReview REVIEW_CASE_CANCELLED [REVIEW_CASE_CANCELLED] c None None)"

definition review_profile :: "ReviewContext \<Rightarrow> ProtocolizationCase \<Rightarrow> review_error + AssetProfile" where
  "review_profile ctx c =
     (case px_catalog ctx (pr_profileId (zc_profile c)) (pr_profileVersion (zc_profile c)) of
        None \<Rightarrow> Inl (ReviewCaseError (case_error CASE_PROFILE_NOT_FOUND
                  ((reasons_only [Code CASE_PROFILE_NOT_FOUND])\<lparr>cd_profile := Some (zc_profile c), cd_caseId := Some (zc_caseId c)\<rparr>)))
      | Some p \<Rightarrow> Inr p)"

definition resolveAttestationRequirement ::
  "AssetProfile \<Rightarrow> ProtocolizationCase \<Rightarrow> string \<Rightarrow> review_error + (AssetRequirement \<times> AssetAttestationRequirement)" where
  "resolveAttestationRequirement p c i =
     (case find (\<lambda>q. ar_id q = i) (ap_requirements p) of
        None \<Rightarrow> Inl (ReviewCaseError (case_error CASE_UNKNOWN_REQUIREMENT
                  ((reasons_only [Code CASE_UNKNOWN_REQUIREMENT])
                     \<lparr>cd_caseId := Some (zc_caseId c), cd_profile := Some (zc_profile c), cd_requirementIds := Some [i]\<rparr>)))
      | Some q \<Rightarrow>
          (case ar_shape q of
             AttestationShape r \<Rightarrow> Inr (q, r)
           | _ \<Rightarrow> Inl (failReview REVIEW_REQUIREMENT_INCOMPATIBLE [REVIEW_REQUIREMENT_INCOMPATIBLE] c None (Some [ar_id q]))))"

definition assertAttestationTypeAccepted ::
  "string \<Rightarrow> AssetAttestationRequirement \<Rightarrow> ProtocolizationCase \<Rightarrow> string \<Rightarrow> review_error option" where
  "assertAttestationTypeAccepted i r c attestationType =
     failing (attestationType \<notin> set (aa_acceptedTypes r))
       (failReview REVIEW_ATTESTATION_TYPE_INCOMPATIBLE [REVIEW_ATTESTATION_TYPE_INCOMPATIBLE] c None (Some [i]))"

definition externalAgrees :: "SovereignExternalReference option \<Rightarrow> SovereignExternalReference option \<Rightarrow> bool" where
  "externalAgrees a b \<longleftrightarrow>
     (case (a, b) of
        (None, None) \<Rightarrow> True
      | (Some x, Some y) \<Rightarrow> xf_namespace x = xf_namespace y \<and> xf_id x = xf_id y
      | _ \<Rightarrow> False)"

definition scope_mismatches ::
  "ProtocolizationCase \<Rightarrow> string \<Rightarrow> string \<Rightarrow> int \<Rightarrow> ProfessionalReviewScope \<Rightarrow> ReviewCode list" where
  "scope_mismatches c i attestationType basisRevision s =
     unless_ok (sp_requirementId s = i) SCOPE_REQUIREMENT_MISMATCH @
     unless_ok (sp_attestationType s = attestationType) SCOPE_ATTESTATION_TYPE_MISMATCH @
     unless_ok (sp_caseRevision s = basisRevision) SCOPE_REVISION_MISMATCH @
     unless_ok (sj_sovereignAssetId (sp_subjectRef s) = sj_sovereignAssetId (su_subjectRef (zc_subject c))) SCOPE_SUBJECT_MISMATCH @
     unless_ok (externalAgrees (sj_externalReference (su_subjectRef (zc_subject c))) (sj_externalReference (sp_subjectRef s)))
       SCOPE_SUBJECT_MISMATCH"

definition assertScopeMatchesCase ::
  "ProtocolizationCase \<Rightarrow> string \<Rightarrow> string \<Rightarrow> int \<Rightarrow> ProfessionalReviewScope \<Rightarrow> review_error option" where
  "assertScopeMatchesCase c i attestationType basisRevision s =
     (let admission = validateProfessionalReviewScope s; reasons = scope_mismatches c i attestationType basisRevision s in
      if admission \<noteq> [] then Some (failReview REVIEW_SCOPE_INVALID admission c None (Some [i]))
      else failing (reasons \<noteq> []) (failReview REVIEW_SCOPE_INVALID reasons c None (Some [i])))"

definition review_clock :: "host_env \<Rightarrow> string \<Rightarrow> ProtocolizationCase \<Rightarrow> review_error + string" where
  "review_clock env now c =
     unless_error (failing (\<not> isValidUtcDateTime env now)
                     (ProfessionalReviewError REVIEW_TIMESTAMP_INVALID (review_details [REVIEW_TIMESTAMP_INVALID])))
    (unless_error (failing (date_gt (date_parse (e_date env) (zc_updatedAt c)) (date_parse (e_date env) now))
                     (ProfessionalReviewError REVIEW_TIMESTAMP_INVALID
                        ((review_details [REVIEW_TIMESTAMP_INVALID])\<lparr>rw_caseId := Some (zc_caseId c)\<rparr>)))
       (Inr now))"

definition isUsableCorrelationId :: "string option \<Rightarrow> bool" where
  "isUsableCorrelationId i \<longleftrightarrow> if_present (\<lambda>k. trim k \<noteq> [] \<and> length k \<le> MAX_CORRELATION_ID_LENGTH) i"

definition assertCaseIsAtBasisRevision :: "ProtocolizationCase \<Rightarrow> ProfessionalReviewRequest \<Rightarrow> review_error option" where
  "assertCaseIsAtBasisRevision c r =
     failing (zc_revision c \<noteq> rq_reviewBasisRevision r)
       (failReview REVIEW_BASIS_REVISION_INVALID [REVIEW_BASIS_REVISION_INVALID] c (Some (rq_reviewRequestId r)) None)"

definition assertRequestBelongsToCase ::
  "ReviewContext \<Rightarrow> ProtocolizationCase \<Rightarrow> ProfessionalReviewRequest \<Rightarrow> review_error option" where
  "assertRequestBelongsToCase ctx c r =
     (let named = (\<lambda>code requestId. ProfessionalReviewError code
            ((review_details [code])
               \<lparr>rw_reviewRequestId := requestId, rw_caseId := Some (zc_caseId c), rw_tenantId := Some (px_tenantId ctx)\<rparr>)) in
      if rq_tenantId r \<noteq> px_tenantId ctx then Some (named REVIEW_TENANT_MISMATCH None)
      else if rq_caseId r \<noteq> zc_caseId c then Some (named REVIEW_CASE_MISMATCH (Some (rq_reviewRequestId r)))
      else failing (\<not> protocolizationProfileRefsEqual (rq_profile r) (zc_profile c))
             (named REVIEW_PROFILE_MISMATCH (Some (rq_reviewRequestId r))))"

definition review_inputs_gate :: "ReviewContext \<Rightarrow> ProtocolizationCase \<Rightarrow> ReviewPacketInputs \<Rightarrow> review_error option" where
  "review_inputs_gate ctx c i =
     (let rs = or_empty (ip_evidenceReceipts i); ds = or_empty (ip_declarations i); vs = or_empty (ip_verificationResults i);
          named = (\<lambda>code. ProfessionalReviewError code
            ((review_details [code])\<lparr>rw_caseId := Some (zc_caseId c), rw_tenantId := Some (px_tenantId ctx)\<rparr>)) in
      if list_ex (\<lambda>t. t \<noteq> px_tenantId ctx) (map er_tenantId rs @ map dr_tenantId ds @ map vr_tenantId vs)
      then Some (named REVIEW_TENANT_MISMATCH)
      else failing (list_ex (\<lambda>k. k \<noteq> zc_caseId c) (map er_caseId rs @ map dr_caseId ds @ map vr_caseId vs))
             (named REVIEW_INPUTS_INVALID))"

subsection \<open>A request\<close>

definition request_reasons :: "CreateReviewRequestInput \<Rightarrow> ReviewCode list" where
  "request_reasons i =
     unless_ok (isValidProfessionalReviewRequestId (iq_reviewRequestId i)) REVIEW_REQUEST_ID_INVALID @
     unless_ok (isValidAssetRequirementId (iq_attestationRequirementId i)) REVIEW_REQUIREMENT_ID_INVALID @
     unless_ok (isUsableCorrelationId (iq_correlationId i)) REVIEW_CORRELATION_ID_INVALID"

definition request_of :: "ProtocolizationCase \<Rightarrow> string \<Rightarrow> CreateReviewRequestInput \<Rightarrow> string \<Rightarrow> ProfessionalReviewRequest" where
  "request_of c requirementId i now =
     \<lparr>rq_schemaVersion = PROFESSIONAL_REVIEW_REQUEST_SCHEMA_VERSION, rq_reviewRequestId = iq_reviewRequestId i,
      rq_tenantId = zc_tenantId c, rq_caseId = zc_caseId c, rq_profile = zc_profile c,
      rq_attestationRequirementId = requirementId, rq_requestedAttestationType = iq_requestedAttestationType i,
      rq_requestedScope = iq_requestedScope i, rq_reviewBasisRevision = zc_revision c, rq_requestedAt = now,
      rq_correlationId = iq_correlationId i\<rparr>"

definition requested_event :: "ProfessionalReviewRequest \<Rightarrow> ReviewRequestedEvent" where
  "requested_event r =
     \<lparr>qe_reviewRequestId = rq_reviewRequestId r, qe_tenantId = rq_tenantId r, qe_caseId = rq_caseId r,
      qe_profile = rq_profile r, qe_attestationRequirementId = rq_attestationRequirementId r,
      qe_requestedAttestationType = rq_requestedAttestationType r, qe_reviewBasisRevision = rq_reviewBasisRevision r,
      qe_occurredAt = rq_requestedAt r, qe_correlationId = rq_correlationId r\<rparr>"

definition createProfessionalReviewRequest ::
  "host_env \<Rightarrow> ReviewContext \<Rightarrow> ProtocolizationCase \<Rightarrow> CreateReviewRequestInput \<Rightarrow>
     review_error + (ProfessionalReviewRequest \<times> ReviewRequestedEvent)" where
  "createProfessionalReviewRequest env ctx c i =
     unless_error (review_tenant_gate ctx c)
    (unless_error (review_readable env c)
    (unless_error (failing (request_reasons i \<noteq> []) (failReview REVIEW_REQUEST_INVALID (request_reasons i) c None None))
    (unless_error (assertCaseAcceptsReview c)
    (bind_sum (review_profile ctx c) (\<lambda>p.
     bind_sum (resolveAttestationRequirement p c (iq_attestationRequirementId i)) (\<lambda>(q, r).
     unless_error (assertAttestationTypeAccepted (ar_id q) r c (iq_requestedAttestationType i))
    (unless_error (assertScopeMatchesCase c (ar_id q) (iq_requestedAttestationType i) (zc_revision c) (iq_requestedScope i))
    (bind_sum (review_clock env (px_clock ctx 0) c) (\<lambda>now.
       let request = request_of c (ar_id q) i now; bad = validateProfessionalReviewRequest env request in
       unless_error (failing (bad \<noteq> []) (failReview REVIEW_REQUEST_RECORD_INVALID bad c (Some (iq_reviewRequestId i)) None))
         (Inr (request, requested_event request)))))))))))"

subsection \<open>The packet\<close>

record ReviewParticipant =
  rp_principal :: CanonicalPrincipalRef
  rp_roles :: "string list"
  rp_declarationIds :: "string list"

record ReviewDeclarationEntry =
  nd_declarationId :: string
  nd_declarant :: CanonicalPrincipalRef
  nd_claimType :: string
  nd_claimSubtype :: "string option"
  nd_claimRef :: string
  nd_materialId :: string
  nd_requirementIds :: "string list"
  nd_supportingEvidenceRefs :: "string list option"
  nd_statement :: "string option"
  nd_declaredAt :: "string option"
  nd_recordedAt :: string
  nd_sourceRef :: "CanonicalReferenceSource option"
  nd_caseRevision :: int

record ReviewEvidenceEntry =
  ne_intakeId :: string
  ne_categoryId :: string
  ne_evidenceRef :: string
  ne_materialId :: string
  ne_requirementIds :: "string list"
  ne_receivedAt :: string
  ne_observedAt :: "string option"
  ne_sourceRef :: "CanonicalReferenceSource option"
  ne_caseRevision :: int

record ReviewCheckEntry =
  nc_executionId :: string
  nc_requirementId :: string
  nc_checkId :: string
  nc_outcome :: string
  nc_reasonCode :: "string option"
  nc_summary :: "string option"
  nc_inputRefs :: "VerificationInputRef list option"
  nc_evaluatedCaseRevision :: int
  nc_currentForReviewBasis :: bool
  nc_executedAt :: string

record ReviewExceptions =
  nx_failedCheckExecutionIds :: "string list"
  nx_warningCheckExecutionIds :: "string list"
  nx_manualReviewCheckExecutionIds :: "string list"
  nx_unavailableCheckExecutionIds :: "string list"
  nx_staleCheckExecutionIds :: "string list"
  nx_unexecutedChecks :: "(string \<times> string) list"
  nx_pendingMaterialRequirementIds :: "string list"
  nx_unresolvedConditionalRequirementIds :: "string list"

record ReviewAttestationRequested =
  na_requirementId :: string
  na_obligation :: AssetRequirementObligation
  na_acceptedTypes :: "string list"
  na_requestedAttestationType :: string
  na_minimumCount :: "int option"
  na_attester :: "AssetAttesterConstraint option"
  na_jurisdictions :: "JurisdictionRef list option"
  na_freshness :: "AssetFreshnessConstraint option"

record ReviewPacket =
  pk_schemaVersion :: string
  pk_reviewRequestId :: string
  pk_tenantId :: string
  pk_caseId :: string
  pk_profile :: ProtocolizationProfileRef
  pk_reviewBasisRevision :: int
  pk_subject :: ProtocolizationCaseSubject
  pk_caseState :: ProtocolizationCaseState
  pk_participants :: "ReviewParticipant list"
  pk_declarations :: "ReviewDeclarationEntry list"
  pk_evidence :: "ReviewEvidenceEntry list"
  pk_automatedChecks :: "ReviewCheckEntry list"
  pk_exceptions :: ReviewExceptions
  pk_attestationRequested :: ReviewAttestationRequested
  pk_scope :: ProfessionalReviewScope

definition PROFESSIONAL_REVIEW_PACKET_SCHEMA_VERSION :: string where
  "PROFESSIONAL_REVIEW_PACKET_SCHEMA_VERSION = ''aoc-protocolization-professional-review-packet/1''"

definition withinBasis :: "int \<Rightarrow> int \<Rightarrow> bool" where
  "withinBasis recorded basisRevision \<longleftrightarrow> recorded \<le> basisRevision"

text \<open>By revision, then by identifier; the result \<open>left.caseRevision - right.caseRevision\<close> has the sign given here.\<close>

definition by_revision :: "int \<Rightarrow> string \<Rightarrow> int \<Rightarrow> string \<Rightarrow> int" where
  "by_revision m i n j = (if m = n then (if i < j then -1 else if i > j then 1 else 0) else m - n)"

definition compareResultRecency :: "host_env \<Rightarrow> VerificationResult \<Rightarrow> VerificationResult \<Rightarrow> int" where
  "compareResultRecency env a b =
     (if vr_evaluatedCaseRevision a \<noteq> vr_evaluatedCaseRevision b
      then (if vr_evaluatedCaseRevision a < vr_evaluatedCaseRevision b then -1 else 1)
      else compareVerificationResults env a b)"

definition select_later ::
  "host_env \<Rightarrow> VerificationResult \<Rightarrow> (string \<times> VerificationResult) list \<Rightarrow> (string \<times> VerificationResult) list" where
  "select_later env r held =
     (case map_of held (finding_key r) of
        None \<Rightarrow> AList.update (finding_key r) r held
      | Some h \<Rightarrow> if compareResultRecency env h r < 0 then AList.update (finding_key r) r held else held)"

definition selectResultsForBasis :: "host_env \<Rightarrow> VerificationResult list \<Rightarrow> int \<Rightarrow> VerificationResult list" where
  "selectResultsForBasis env rs basisRevision =
     sort_by (compareResultRecency env)
       (map snd (fold (select_later env) (filter (\<lambda>r. withinBasis (vr_evaluatedCaseRevision r) basisRevision) rs) []))"

definition participant_key :: "CanonicalPrincipalRef \<Rightarrow> string" where
  "participant_key p = cp_kind p @ [CHR 10] @ cp_id p"

definition add_participant ::
  "DeclarationRecord \<Rightarrow> (string \<times> CanonicalPrincipalRef \<times> string list) list \<Rightarrow>
     (string \<times> CanonicalPrincipalRef \<times> string list) list" where
  "add_participant d held =
     (case map_of held (participant_key (dr_declarant d)) of
        None \<Rightarrow> AList.update (participant_key (dr_declarant d)) (dr_declarant d, [dr_declarationId d]) held
      | Some (p, ids) \<Rightarrow> AList.update (participant_key (dr_declarant d)) (p, ids @ [dr_declarationId d]) held)"

definition projectParticipants :: "DeclarationRecord list \<Rightarrow> ReviewParticipant list" where
  "projectParticipants ds =
     map (\<lambda>e. \<lparr>rp_principal = fst (snd e), rp_roles = [''Declarant''], rp_declarationIds = snd (snd e)\<rparr>)
       (fold add_participant ds [])"

definition planned_checks :: "AssetProfile \<Rightarrow> (string \<times> string) list" where
  "planned_checks p =
     concat (map (\<lambda>q. case ar_shape q of VerificationShape v \<Rightarrow> map (\<lambda>k. (ar_id q, k)) (av_checkIds v) | _ \<Rightarrow> [])
       (ap_requirements p))"

definition projectExceptions ::
  "ProtocolizationCase \<Rightarrow> AssetProfile \<Rightarrow> ReviewCheckEntry list \<Rightarrow> review_error + ReviewExceptions" where
  "projectExceptions c p checks =
     (let withOutcome = (\<lambda>o'. map nc_executionId (filter (\<lambda>e. nc_outcome e = o') checks));
          executed = set (map (\<lambda>e. nc_requirementId e @ [CHR 10] @ nc_checkId e) checks) in
      bind_sum (map_error ReviewCaseError (listProtocolizationCaseRequirementProgress c p no_filter)) (\<lambda>progress.
        Inr \<lparr>nx_failedCheckExecutionIds = withOutcome ''Fail'', nx_warningCheckExecutionIds = withOutcome ''Warning'',
             nx_manualReviewCheckExecutionIds = withOutcome ''ManualReview'',
             nx_unavailableCheckExecutionIds = withOutcome ''Unavailable'',
             nx_staleCheckExecutionIds = map nc_executionId (filter (\<lambda>e. \<not> nc_currentForReviewBasis e) checks),
             nx_unexecutedChecks = filter (\<lambda>e. fst e @ [CHR 10] @ snd e \<notin> executed) (planned_checks p),
             nx_pendingMaterialRequirementIds =
               map gp_requirementId (filter (\<lambda>g. gp_materialStatus g = Pending \<and> gp_obligation g \<noteq> NotRequired) progress),
             nx_unresolvedConditionalRequirementIds =
               map gp_requirementId (filter (\<lambda>g. gp_conditionStatus g = Unresolved) progress)\<rparr>))"

definition declaration_entry :: "DeclarationRecord \<Rightarrow> ReviewDeclarationEntry" where
  "declaration_entry d =
     \<lparr>nd_declarationId = dr_declarationId d, nd_declarant = dr_declarant d, nd_claimType = dr_claimType d,
      nd_claimSubtype = dr_claimSubtype d, nd_claimRef = dr_claimRef d, nd_materialId = dr_materialId d,
      nd_requirementIds = dr_requirementIds d, nd_supportingEvidenceRefs = dr_supportingEvidenceRefs d,
      nd_statement = dr_statement d, nd_declaredAt = dr_declaredAt d, nd_recordedAt = dr_recordedAt d,
      nd_sourceRef = dr_sourceRef d, nd_caseRevision = dr_caseRevision d\<rparr>"

definition evidence_entry :: "EvidenceIntakeReceipt \<Rightarrow> ReviewEvidenceEntry" where
  "evidence_entry r =
     \<lparr>ne_intakeId = er_intakeId r, ne_categoryId = er_categoryId r, ne_evidenceRef = er_evidenceRef r,
      ne_materialId = er_materialId r, ne_requirementIds = er_requirementIds r, ne_receivedAt = er_receivedAt r,
      ne_observedAt = er_observedAt r, ne_sourceRef = er_sourceRef r, ne_caseRevision = er_caseRevision r\<rparr>"

definition check_entry :: "int \<Rightarrow> VerificationResult \<Rightarrow> ReviewCheckEntry" where
  "check_entry basisRevision r =
     \<lparr>nc_executionId = vr_executionId r, nc_requirementId = vr_requirementId r, nc_checkId = vr_checkId r,
      nc_outcome = vr_outcome r, nc_reasonCode = vr_reasonCode r, nc_summary = vr_summary r, nc_inputRefs = vr_inputRefs r,
      nc_evaluatedCaseRevision = vr_evaluatedCaseRevision r,
      nc_currentForReviewBasis = isVerificationResultCurrentForRevision r basisRevision, nc_executedAt = vr_executedAt r\<rparr>"

definition packet_declarations :: "ReviewPacketInputs \<Rightarrow> int \<Rightarrow> DeclarationRecord list" where
  "packet_declarations i n =
     sort_by (\<lambda>a b. by_revision (dr_caseRevision a) (dr_declarationId a) (dr_caseRevision b) (dr_declarationId b))
       (filter (\<lambda>d. withinBasis (dr_caseRevision d) n) (or_empty (ip_declarations i)))"

definition packet_receipts :: "ReviewPacketInputs \<Rightarrow> int \<Rightarrow> EvidenceIntakeReceipt list" where
  "packet_receipts i n =
     sort_by (\<lambda>a b. by_revision (er_caseRevision a) (er_intakeId a) (er_caseRevision b) (er_intakeId b))
       (filter (\<lambda>r. withinBasis (er_caseRevision r) n) (or_empty (ip_evidenceReceipts i)))"

definition packet_of ::
  "host_env \<Rightarrow> ProtocolizationCase \<Rightarrow> ProfessionalReviewRequest \<Rightarrow> ReviewPacketInputs \<Rightarrow> AssetRequirement \<Rightarrow>
     AssetAttestationRequirement \<Rightarrow> ReviewExceptions \<Rightarrow> ReviewPacket" where
  "packet_of env c r i q a ex =
     (let n = rq_reviewBasisRevision r; ds = packet_declarations i n in
      \<lparr>pk_schemaVersion = PROFESSIONAL_REVIEW_PACKET_SCHEMA_VERSION, pk_reviewRequestId = rq_reviewRequestId r,
       pk_tenantId = rq_tenantId r, pk_caseId = rq_caseId r, pk_profile = rq_profile r, pk_reviewBasisRevision = n,
       pk_subject = zc_subject c, pk_caseState = zc_state c, pk_participants = projectParticipants ds,
       pk_declarations = map declaration_entry ds, pk_evidence = map evidence_entry (packet_receipts i n),
       pk_automatedChecks = map (check_entry n) (selectResultsForBasis env (or_empty (ip_verificationResults i)) n),
       pk_exceptions = ex,
       pk_attestationRequested =
         \<lparr>na_requirementId = ar_id q, na_obligation = ar_obligation q, na_acceptedTypes = aa_acceptedTypes a,
          na_requestedAttestationType = rq_requestedAttestationType r, na_minimumCount = aa_minimumCount a,
          na_attester = aa_attester a, na_jurisdictions = ar_jurisdictions q, na_freshness = aa_freshness a\<rparr>,
       pk_scope = rq_requestedScope r\<rparr>)"

definition buildProfessionalReviewPacket ::
  "host_env \<Rightarrow> ReviewContext \<Rightarrow> ProtocolizationCase \<Rightarrow> ProfessionalReviewRequest \<Rightarrow> ReviewPacketInputs \<Rightarrow>
     review_error + ReviewPacket" where
  "buildProfessionalReviewPacket env ctx c r i =
     unless_error (review_tenant_gate ctx c)
    (unless_error (review_readable env c)
    (unless_error (assertRequestBelongsToCase ctx c r)
    (unless_error (assertCaseIsAtBasisRevision c r)
    (unless_error (review_inputs_gate ctx c i)
    (bind_sum (review_profile ctx c) (\<lambda>p.
     bind_sum (resolveAttestationRequirement p c (rq_attestationRequirementId r)) (\<lambda>(q, a).
     bind_sum (projectExceptions c p
                 (map (check_entry (rq_reviewBasisRevision r))
                    (selectResultsForBasis env (or_empty (ip_verificationResults i)) (rq_reviewBasisRevision r)))) (\<lambda>ex.
       Inr (packet_of env c r i q a ex)))))))))"

subsection \<open>The reviewer and the action\<close>

definition assertReviewerSatisfiesConstraints ::
  "ProtocolizationCase \<Rightarrow> string \<Rightarrow> AssetAttestationRequirement \<Rightarrow> CanonicalPrincipalRef \<Rightarrow> CanonicalCredentialRef list option \<Rightarrow>
     review_error option" where
  "assertReviewerSatisfiesConstraints c i r reviewer credentialRefs =
     (let refuse = (\<lambda>code. Some (failReview code [code] c None (Some [i]))) in
      case aa_attester r of
        None \<Rightarrow> None
      | Some at \<Rightarrow>
          if \<not> if_present (\<lambda>ks. cp_kind reviewer \<in> set ks) (at_acceptedPrincipalKinds at) then refuse REVIEWER_INVALID
          else
            (case at_credential at of
               None \<Rightarrow> None
             | Some k \<Rightarrow>
                 if or_empty credentialRefs = [] then refuse REVIEWER_CREDENTIAL_REQUIRED
                 else
                   (let typeMatches = filter (\<lambda>x. cd_type x \<in> set (cc_acceptedTypes k)) (or_empty credentialRefs) in
                    if typeMatches = [] then refuse REVIEWER_CREDENTIAL_INCOMPATIBLE
                    else if \<not> if_present (\<lambda>ss. list_ex (\<lambda>x. case cd_status x of None \<Rightarrow> False | Some s \<Rightarrow> s \<in> set ss) typeMatches)
                              (cc_acceptedStatuses k)
                    then refuse REVIEWER_CREDENTIAL_INCOMPATIBLE
                    else None)))"

definition claim_in_case :: "ProtocolizationCase \<Rightarrow> string \<Rightarrow> bool" where
  "claim_in_case c claimRef \<longleftrightarrow> list_ex (\<lambda>m. zm_payload m = DeclarationPayload claimRef) (zc_materials c)"

definition assertClaimIsInCase :: "ProtocolizationCase \<Rightarrow> ProfessionalReviewRequest \<Rightarrow> string \<Rightarrow> review_error option" where
  "assertClaimIsInCase c r claimRef =
     failing (\<not> claim_in_case c claimRef)
       (failReview REVIEW_ATTESTATION_CANNOT_BE_CONSTRUCTED [REVIEW_ATTESTATION_CANNOT_BE_CONSTRUCTED] c
          (Some (rq_reviewRequestId r)) (Some [rq_attestationRequirementId r]))"

definition nonempty_list :: "'a list option \<Rightarrow> bool" where
  "nonempty_list x \<longleftrightarrow> (case x of None \<Rightarrow> False | Some xs \<Rightarrow> xs \<noteq> [])"

definition assertActionShape ::
  "ProtocolizationCase \<Rightarrow> ProfessionalReviewRequest \<Rightarrow> RecordReviewDecisionInput \<Rightarrow> review_error option" where
  "assertActionShape c r i =
     (let refuse = (\<lambda>code reasons. Some (failReview code reasons c (Some (rq_reviewRequestId r)) None));
          unexpected = (\<lambda>reasons. if reasons = [] then None else refuse REVIEW_ACTION_FIELD_UNEXPECTED reasons) in
      if \<not> isProfessionalReviewAction (id_action i) then refuse REVIEW_ACTION_INVALID [REVIEW_ACTION_INVALID]
      else if id_action i = ''Attest''
      then if id_scope i = None then refuse REVIEW_SCOPE_REQUIRED [REVIEW_SCOPE_REQUIRED]
           else unexpected (unless_ok (nonempty_list (id_reviewedRefs i)) REVIEWED_REFS_REQUIRED @
                  unless_ok (id_requestedMaterial i = None) REQUESTED_MATERIAL_UNEXPECTED)
      else if id_reasonCode i = None then refuse REVIEW_REASON_CODE_REQUIRED [REVIEW_REASON_CODE_REQUIRED]
      else if id_action i = ''RequestMoreEvidence'' \<and> \<not> nonempty_list (id_requestedMaterial i)
      then refuse REVIEW_MORE_EVIDENCE_EMPTY [REVIEW_MORE_EVIDENCE_EMPTY]
      else unexpected
             (unless_ok (id_scope i = None) SCOPE_UNEXPECTED @ unless_ok (id_attestation i = None) ATTESTATION_UNEXPECTED @
              unless_ok (id_action i = ''RequestMoreEvidence'' \<or> id_requestedMaterial i = None) REQUESTED_MATERIAL_UNEXPECTED))"

subsection \<open>A decision\<close>

definition signing_request ::
  "ProtocolizationCase \<Rightarrow> ProfessionalReviewRequest \<Rightarrow> RecordReviewDecisionInput \<Rightarrow> ProfessionalAttestationInput \<Rightarrow> string \<Rightarrow>
     AttestationSigningRequest" where
  "signing_request c r i w issuedAt =
     \<lparr>sg_tenantId = zc_tenantId c, sg_caseId = zc_caseId c, sg_reviewRequestId = rq_reviewRequestId r,
      sg_decisionId = id_decisionId i, sg_attestationId = ia_attestationId w,
      sg_attestationType = rq_requestedAttestationType r, sg_attester = id_reviewer i, sg_claimRef = ia_claimRef w,
      sg_statement = ia_statement w, sg_issuedAt = issuedAt\<rparr>"

definition signature_unavailable ::
  "ProtocolizationCase \<Rightarrow> ProfessionalReviewRequest \<Rightarrow> RecordReviewDecisionInput \<Rightarrow> string list option \<Rightarrow> review_error" where
  "signature_unavailable c r i requirementIds =
     ProfessionalReviewError REVIEW_SIGNATURE_UNAVAILABLE
       ((review_details [REVIEW_SIGNATURE_UNAVAILABLE])
          \<lparr>rw_reviewRequestId := Some (rq_reviewRequestId r), rw_decisionId := Some (id_decisionId i),
           rw_caseId := Some (zc_caseId c), rw_tenantId := Some (zc_tenantId c), rw_requirementIds := requirementIds\<rparr>)"

definition collectProofRefs ::
  "ReviewContext \<Rightarrow> ProtocolizationCase \<Rightarrow> ProfessionalReviewRequest \<Rightarrow> RecordReviewDecisionInput \<Rightarrow>
     ProfessionalAttestationInput \<Rightarrow> string \<Rightarrow> review_error + CanonicalProofRef list" where
  "collectProofRefs ctx c r i w issuedAt =
     (let supplied = or_empty (ia_proofRefs w) in
      case px_signer ctx of
        None \<Rightarrow>
          (if supplied = [] then Inl (signature_unavailable c r i (Some [rq_attestationRequirementId r])) else Inr supplied)
      | Some sign \<Rightarrow>
          (case sign (signing_request c r i w issuedAt) of
             Inl cause \<Rightarrow> Inl (signature_unavailable c r i None)
           | Inr signed \<Rightarrow>
               (if \<not> isUsableProofRef signed then Inl (signature_unavailable c r i None) else Inr (supplied @ [signed]))))"

definition decision_reasons :: "RecordReviewDecisionInput \<Rightarrow> ReviewCode list" where
  "decision_reasons i =
     unless_ok (isValidProfessionalReviewDecisionId (id_decisionId i)) REVIEW_DECISION_ID_INVALID @
     unless_ok (isUsableCorrelationId (id_correlationId i)) REVIEW_CORRELATION_ID_INVALID"

definition preparation_input ::
  "ProfessionalReviewRequest \<Rightarrow> RecordReviewDecisionInput \<Rightarrow> ProfessionalAttestationInput \<Rightarrow> string \<Rightarrow> CanonicalProofRef list \<Rightarrow>
     PrepareCanonicalAttestationInput" where
  "preparation_input r i w decidedAt proofRefs =
     \<lparr>pa_attestationId = ia_attestationId w, pa_attestationType = rq_requestedAttestationType r, pa_attester = id_reviewer i,
      pa_claimRef = ia_claimRef w, pa_statement = ia_statement w, pa_issuedAt = decidedAt,
      pa_credentialRefs = id_reviewerCredentialRefs i, pa_proofRefs = proofRefs\<rparr>"

definition attestation_material ::
  "string \<Rightarrow> RecordReviewDecisionInput \<Rightarrow> ProfessionalAttestationInput \<Rightarrow> CanonicalAttestation \<Rightarrow> MaterialInput" where
  "attestation_material requirementId i w a =
     \<lparr>im_materialId = ia_materialId w, im_requirementIds = [requirementId], im_correlationId = id_correlationId i,
      im_payload = AttestationPayload (ca_id a)\<rparr>"

text \<open>The artifact and the case with its material, where the decision is to attest and asks for one.\<close>

definition produce_attestation ::
  "host_env \<Rightarrow> ReviewContext \<Rightarrow> ProtocolizationCase \<Rightarrow> ProfessionalReviewRequest \<Rightarrow> RecordReviewDecisionInput \<Rightarrow> string \<Rightarrow> string \<Rightarrow>
     review_error + (ProfessionalAttestationInput \<times> CanonicalAttestation \<times> case_transition) option" where
  "produce_attestation env ctx c r i requirementId decidedAt =
     (case id_attestation i of
        None \<Rightarrow> Inr None
      | Some w \<Rightarrow>
          (if id_action i \<noteq> ''Attest'' then Inr None
           else unless_error (assertClaimIsInCase c r (ia_claimRef w))
               (bind_sum (collectProofRefs ctx c r i w decidedAt) (\<lambda>proofRefs.
                bind_sum (prepareCanonicalAttestationFromReview env (preparation_input r i w decidedAt proofRefs)) (\<lambda>a.
                bind_sum (map_error ReviewCaseError
                            (addProtocolizationCaseMaterial env (case_context_at ctx 1) c (attestation_material requirementId i w a)))
                  (\<lambda>t. Inr (Some (w, a, t))))))))"

definition decision_of ::
  "ProtocolizationCase \<Rightarrow> ProfessionalReviewRequest \<Rightarrow> RecordReviewDecisionInput \<Rightarrow> string \<Rightarrow> string \<Rightarrow>
     (ProfessionalAttestationInput \<times> CanonicalAttestation \<times> case_transition) option \<Rightarrow> ProfessionalReviewDecision" where
  "decision_of c r i requirementId decidedAt produced =
     \<lparr>rd_schemaVersion = PROFESSIONAL_REVIEW_DECISION_SCHEMA_VERSION, rd_decisionId = id_decisionId i,
      rd_reviewRequestId = rq_reviewRequestId r, rd_tenantId = zc_tenantId c, rd_caseId = zc_caseId c,
      rd_profile = rq_profile r, rd_attestationRequirementId = requirementId, rd_reviewer = id_reviewer i,
      rd_reviewerCredentialRefs = id_reviewerCredentialRefs i, rd_action = id_action i, rd_scope = id_scope i,
      rd_reviewBasisRevision = rq_reviewBasisRevision r,
      rd_resultingCaseRevision = map_option (\<lambda>(w, a, t). zc_revision (fst t)) produced,
      rd_reviewedRefs = id_reviewedRefs i, rd_reasonCode = id_reasonCode i, rd_requestedMaterial = id_requestedMaterial i,
      rd_note = id_note i, rd_canonicalAttestationRef = map_option (\<lambda>(w, a, t). ca_id a) produced,
      rd_attestationMaterialId = map_option (\<lambda>(w, a, t). ia_materialId w) produced, rd_decidedAt = decidedAt,
      rd_correlationId = id_correlationId i\<rparr>"

definition decision_event :: "ProfessionalReviewDecision \<Rightarrow> DecisionRecordedEvent" where
  "decision_event d =
     \<lparr>re_decisionId = rd_decisionId d, re_reviewRequestId = rd_reviewRequestId d, re_tenantId = rd_tenantId d,
      re_caseId = rd_caseId d, re_profileRef = rd_profile d, re_attestationRequirementId = rd_attestationRequirementId d,
      re_reviewer = rd_reviewer d, re_action = rd_action d, re_reasonCode = rd_reasonCode d,
      re_reviewBasisRevision = rd_reviewBasisRevision d, re_resultingCaseRevision = rd_resultingCaseRevision d,
      re_canonicalAttestationRef = rd_canonicalAttestationRef d, re_occurredAt = rd_decidedAt d,
      re_correlationId = rd_correlationId d\<rparr>"

definition attestation_event ::
  "ProfessionalReviewDecision \<Rightarrow> ProfessionalAttestationInput \<Rightarrow> CanonicalAttestation \<Rightarrow> ProtocolizationCase \<Rightarrow> AttestationRecordedEvent" where
  "attestation_event d w a c' =
     \<lparr>ta_decisionId = rd_decisionId d, ta_reviewRequestId = rd_reviewRequestId d, ta_tenantId = rd_tenantId d,
      ta_caseId = rd_caseId d, ta_profile = rd_profile d, ta_attestationRequirementId = rd_attestationRequirementId d,
      ta_canonicalAttestationRef = ca_id a, ta_attestationType = ca_type a, ta_attester = rd_reviewer d,
      ta_materialId = ia_materialId w, ta_reviewBasisRevision = rd_reviewBasisRevision d,
      ta_resultingCaseRevision = zc_revision c', ta_occurredAt = rd_decidedAt d, ta_correlationId = rd_correlationId d\<rparr>"

definition decision_transition ::
  "ProfessionalReviewDecision \<Rightarrow> (ProfessionalAttestationInput \<times> CanonicalAttestation \<times> case_transition) option \<Rightarrow>
     ReviewDecisionTransition" where
  "decision_transition d produced =
     \<lparr>tr_decision = d, tr_decisionEvent = decision_event d,
      tr_produced = map_option (\<lambda>(w, a, t).
        \<lparr>pt_case = fst t, pt_caseEvent = snd t, pt_attestation = a, pt_attestationEvent = attestation_event d w a (fst t)\<rparr>) produced\<rparr>"

definition recordProfessionalReviewDecision ::
  "host_env \<Rightarrow> ReviewContext \<Rightarrow> ProtocolizationCase \<Rightarrow> ProfessionalReviewRequest \<Rightarrow> RecordReviewDecisionInput \<Rightarrow>
     review_error + ReviewDecisionTransition" where
  "recordProfessionalReviewDecision env ctx c r i =
     unless_error (review_tenant_gate ctx c)
    (unless_error (review_readable env c)
    (unless_error (assertRequestBelongsToCase ctx c r)
    (unless_error (assertCaseIsAtBasisRevision c r)
    (unless_error (failing (decision_reasons i \<noteq> [])
                     (failReview REVIEW_REQUEST_INVALID (decision_reasons i) c (Some (rq_reviewRequestId r)) None))
    (unless_error (assertCaseAcceptsReview c)
    (bind_sum (review_profile ctx c) (\<lambda>p.
     bind_sum (resolveAttestationRequirement p c (rq_attestationRequirementId r)) (\<lambda>(q, a).
     unless_error (assertActionShape c r i)
    (unless_error (assertReviewerSatisfiesConstraints c (ar_id q) a (id_reviewer i) (id_reviewerCredentialRefs i))
    (unless_error (case id_scope i of
                     None \<Rightarrow> None
                   | Some s \<Rightarrow>
                       if id_action i \<noteq> ''Attest'' then None
                       else assertScopeMatchesCase c (ar_id q) (rq_requestedAttestationType r) (rq_reviewBasisRevision r) s)
    (bind_sum (review_clock env (px_clock ctx 0) c) (\<lambda>decidedAt.
     bind_sum (produce_attestation env ctx c r i (ar_id q) decidedAt) (\<lambda>produced.
       let d = decision_of c r i (ar_id q) decidedAt produced; bad = validateProfessionalReviewDecision env d in
       unless_error (failing (bad \<noteq> [])
                       (ProfessionalReviewError REVIEW_DECISION_INVALID
                          ((review_details bad)
                             \<lparr>rw_decisionId := Some (id_decisionId i), rw_reviewRequestId := Some (rq_reviewRequestId r),
                              rw_caseId := Some (zc_caseId c), rw_tenantId := Some (zc_tenantId c)\<rparr>)))
         (Inr (decision_transition d produced)))))))))))))))"

definition reconstituteProfessionalReviewRequest ::
  "host_env \<Rightarrow> ProfessionalReviewRequest \<Rightarrow> review_error + ProfessionalReviewRequest" where
  "reconstituteProfessionalReviewRequest env r =
     (let bad = validateProfessionalReviewRequest env r in
      unless_error (failing (bad \<noteq> []) (ProfessionalReviewError REVIEW_REQUEST_RECORD_INVALID (review_details bad))) (Inr r))"

definition reconstituteProfessionalReviewDecision ::
  "host_env \<Rightarrow> ProfessionalReviewDecision \<Rightarrow> review_error + ProfessionalReviewDecision" where
  "reconstituteProfessionalReviewDecision env d =
     (let bad = validateProfessionalReviewDecision env d in
      unless_error (failing (bad \<noteq> []) (ProfessionalReviewError REVIEW_DECISION_INVALID (review_details bad))) (Inr d))"

end
