(* ===== verification/ReviewStore.thy ===== *)
theory ReviewStore
  imports Reviews RecordStore VerificationStore
begin

text \<open>
  \<open>packages/asset-protocolization/src/attestation/review-repository.ts\<close>: the repositories of professional review
  requests and decisions.  The second keeps an index from requests to decisions beside the decisions.
\<close>

subsection \<open>Order\<close>

text \<open>Both comparisons are by the instant, then by the identifier; where an instant cannot be read they answer \<open>1\<close>.\<close>

definition by_instant :: "host_env \<Rightarrow> string \<Rightarrow> string \<Rightarrow> string \<Rightarrow> string \<Rightarrow> int" where
  "by_instant env s i t j =
     (case (date_parse (e_date env) s, date_parse (e_date env) t) of
        (Some x, Some y) \<Rightarrow> if x \<noteq> y then (if x < y then -1 else 1) else if i = j then 0 else if i < j then -1 else 1
      | _ \<Rightarrow> 1)"

definition compareProfessionalReviewRequests ::
  "host_env \<Rightarrow> ProfessionalReviewRequest \<Rightarrow> ProfessionalReviewRequest \<Rightarrow> int" where
  "compareProfessionalReviewRequests env a b =
     by_instant env (rq_requestedAt a) (rq_reviewRequestId a) (rq_requestedAt b) (rq_reviewRequestId b)"

definition compareProfessionalReviewDecisions ::
  "host_env \<Rightarrow> ProfessionalReviewDecision \<Rightarrow> ProfessionalReviewDecision \<Rightarrow> int" where
  "compareProfessionalReviewDecisions env a b =
     by_instant env (rd_decidedAt a) (rd_decisionId a) (rd_decidedAt b) (rd_decisionId b)"

lemma by_instant_total:
  assumes "\<forall>x \<in> A. isValidUtcDateTime env (at x)" "inj_on ident A"
  shows "total_on_by (\<lambda>a b. by_instant env (at a) (ident a) (at b) (ident b)) A"
proof -
  define k where "k x = (the (date_parse (e_date env) (at x)), ident x)" for x
  have le: "by_instant env (at a) (ident a) (at b) (ident b) \<le> 0 \<longleftrightarrow> key_le (k a) (k b)" if "a \<in> A" "b \<in> A" for a b
    using assms(1) that valid_instant [of env "at a"] valid_instant [of env "at b"]
    by (auto simp: by_instant_def k_def key_le_def split: if_splits)
  have "a = b" if "a \<in> A" "b \<in> A" "key_le (k a) (k b)" "key_le (k b) (k a)" for a b
    using that(1,2) inj_onD [OF assms(2)] key_le_antisym [OF that(3,4)] by (simp add: k_def)
  then show ?thesis
    using le key_le_total key_le_trans unfolding total_on_by_def by metis
qed

subsection \<open>Requests\<close>

type_synonym request_entries = "ProfessionalReviewRequest list"

definition request_key :: "ProfessionalReviewRequest \<Rightarrow> string" where
  "request_key r = storageKey (rq_tenantId r) (rq_reviewRequestId r)"

definition review_assertTenant :: "string \<Rightarrow> review_error option" where
  "review_assertTenant t =
     failing (\<not> isValidProtocolizationTenantId t) (ProfessionalReviewError REVIEW_TENANT_REQUIRED (review_details [REVIEW_TENANT_REQUIRED]))"

definition request_get :: "request_entries \<Rightarrow> string \<Rightarrow> string \<Rightarrow> review_error + ProfessionalReviewRequest option" where
  "request_get entries t i = unless_error (review_assertTenant t) (Inr (record_with request_key entries (storageKey t i)))"

definition request_exists :: "request_entries \<Rightarrow> string \<Rightarrow> string \<Rightarrow> review_error + bool" where
  "request_exists entries t i =
     unless_error (review_assertTenant t) (Inr (record_with request_key entries (storageKey t i) \<noteq> None))"

definition request_listByCase ::
  "host_env \<Rightarrow> request_entries \<Rightarrow> string \<Rightarrow> string \<Rightarrow> review_error + ProfessionalReviewRequest list" where
  "request_listByCase env entries t c =
     unless_error (review_assertTenant t)
       (Inr (sort_by (compareProfessionalReviewRequests env) (filter (\<lambda>r. rq_tenantId r = t \<and> rq_caseId r = c) entries)))"

definition request_save :: "host_env \<Rightarrow> request_entries \<Rightarrow> ProfessionalReviewRequest \<Rightarrow> review_error + request_entries" where
  "request_save env entries r =
     (let bad = validateProfessionalReviewRequest env r in
      unless_error (failing (bad \<noteq> []) (ProfessionalReviewError REVIEW_REQUEST_RECORD_INVALID (review_details bad)))
     (unless_error (failing (record_with request_key entries (request_key r) \<noteq> None)
                      (ProfessionalReviewError REVIEW_REQUEST_DUPLICATE
                         ((review_details [REVIEW_REQUEST_DUPLICATE])
                            \<lparr>rw_reviewRequestId := Some (rq_reviewRequestId r), rw_tenantId := Some (rq_tenantId r),
                             rw_caseId := Some (rq_caseId r)\<rparr>)))
        (Inr (entries @ [r]))))"

definition request_valid :: "host_env \<Rightarrow> ProfessionalReviewRequest \<Rightarrow> bool" where
  "request_valid env r \<longleftrightarrow> validateProfessionalReviewRequest env r = []"

lemma request_save_Inr:
  "request_save env entries r = Inr e \<longleftrightarrow>
     request_valid env r \<and> record_with request_key entries (request_key r) = None \<and> e = entries @ [r]"
  by (auto simp: request_save_def Let_def request_valid_def)

interpretation requests: record_store request_get "request_listByCase env" "request_save env" id rq_tenantId rq_caseId
  rq_reviewRequestId "request_valid env" for env
proof
  fix r assume "request_valid env r"
  then show "isValidProtocolizationTenantId (rq_tenantId r)"
    by (simp add: request_valid_def validateProfessionalReviewRequest_def Let_def)
next
  fix s r s' assume "request_save env s r = Inr s'"
  then show "request_valid env r \<and> id s' = id s @ [r] \<and>
      storageKey (rq_tenantId r) (rq_reviewRequestId r) \<notin> (\<lambda>r. storageKey (rq_tenantId r) (rq_reviewRequestId r)) ` set (id s)"
    by (simp add: request_save_Inr record_with_None request_key_def)
qed (auto simp: request_get_def request_listByCase_def review_assertTenant_def request_key_def [abs_def])

subsection \<open>Decisions\<close>

record decision_entries =
  de_entries :: "ProfessionalReviewDecision list"
  de_byRequest :: "string \<rightharpoonup> string"

definition decision_key :: "ProfessionalReviewDecision \<Rightarrow> string" where
  "decision_key d = storageKey (rd_tenantId d) (rd_decisionId d)"

definition decided_key :: "ProfessionalReviewDecision \<Rightarrow> string" where
  "decided_key d = storageKey (rd_tenantId d) (rd_reviewRequestId d)"

definition decision_get :: "decision_entries \<Rightarrow> string \<Rightarrow> string \<Rightarrow> review_error + ProfessionalReviewDecision option" where
  "decision_get s t i = unless_error (review_assertTenant t) (Inr (record_with decision_key (de_entries s) (storageKey t i)))"

definition decision_exists :: "decision_entries \<Rightarrow> string \<Rightarrow> string \<Rightarrow> review_error + bool" where
  "decision_exists s t i =
     unless_error (review_assertTenant t) (Inr (record_with decision_key (de_entries s) (storageKey t i) \<noteq> None))"

definition decision_listByCase ::
  "host_env \<Rightarrow> decision_entries \<Rightarrow> string \<Rightarrow> string \<Rightarrow> review_error + ProfessionalReviewDecision list" where
  "decision_listByCase env s t c =
     unless_error (review_assertTenant t)
       (Inr (sort_by (compareProfessionalReviewDecisions env)
               (filter (\<lambda>d. rd_tenantId d = t \<and> rd_caseId d = c) (de_entries s))))"

definition decision_getByRequest ::
  "decision_entries \<Rightarrow> string \<Rightarrow> string \<Rightarrow> review_error + ProfessionalReviewDecision option" where
  "decision_getByRequest s t i =
     unless_error (review_assertTenant t)
       (Inr (case de_byRequest s (storageKey t i) of
               None \<Rightarrow> None
             | Some d \<Rightarrow> record_with decision_key (de_entries s) (storageKey t d)))"

definition decision_save :: "host_env \<Rightarrow> decision_entries \<Rightarrow> ProfessionalReviewDecision \<Rightarrow> review_error + decision_entries" where
  "decision_save env s d =
     (let bad = validateProfessionalReviewDecision env d in
      unless_error (failing (bad \<noteq> []) (ProfessionalReviewError REVIEW_DECISION_INVALID (review_details bad)))
     (unless_error (failing (record_with decision_key (de_entries s) (decision_key d) \<noteq> None)
                      (ProfessionalReviewError REVIEW_DECISION_DUPLICATE
                         ((review_details [REVIEW_DECISION_DUPLICATE])
                            \<lparr>rw_decisionId := Some (rd_decisionId d), rw_tenantId := Some (rd_tenantId d),
                             rw_caseId := Some (rd_caseId d)\<rparr>)))
     (unless_error (failing (de_byRequest s (decided_key d) \<noteq> None)
                      (ProfessionalReviewError REVIEW_REQUEST_ALREADY_DECIDED
                         ((review_details [REVIEW_REQUEST_ALREADY_DECIDED])
                            \<lparr>rw_decisionId := Some (rd_decisionId d), rw_reviewRequestId := Some (rd_reviewRequestId d),
                             rw_tenantId := Some (rd_tenantId d), rw_caseId := Some (rd_caseId d)\<rparr>)))
        (Inr \<lparr>de_entries = de_entries s @ [d], de_byRequest = (de_byRequest s)(decided_key d \<mapsto> rd_decisionId d)\<rparr>))))"

definition decision_valid :: "host_env \<Rightarrow> ProfessionalReviewDecision \<Rightarrow> bool" where
  "decision_valid env d \<longleftrightarrow> validateProfessionalReviewDecision env d = []"

lemma decision_save_Inr:
  "decision_save env s d = Inr s' \<longleftrightarrow>
     decision_valid env d \<and> record_with decision_key (de_entries s) (decision_key d) = None \<and>
     de_byRequest s (decided_key d) = None \<and>
     s' = \<lparr>de_entries = de_entries s @ [d], de_byRequest = (de_byRequest s)(decided_key d \<mapsto> rd_decisionId d)\<rparr>"
  by (auto simp: decision_save_def Let_def decision_valid_def)

text \<open>The index is that of the decisions.\<close>

definition index_of :: "decision_entries \<Rightarrow> bool" where
  "index_of s \<longleftrightarrow>
     (\<forall>k. de_byRequest s k = map_option rd_decisionId (record_with decided_key (de_entries s) k))"

lemma index_of_save: "decision_save env s d = Inr s' \<Longrightarrow> index_of s \<Longrightarrow> index_of s'"
  by (auto simp: decision_save_Inr index_of_def split: option.split)

lemma index_basis: "decision_save env s d = Inr s' \<Longrightarrow> index_of s \<Longrightarrow> decided_key d \<notin> decided_key ` set (de_entries s)"
  by (auto simp: decision_save_Inr index_of_def record_with_None)

interpretation decisions: indexed_store decision_get "decision_listByCase env" "decision_save env" de_entries rd_tenantId
  rd_caseId rd_decisionId "decision_valid env" decided_key index_of for env
proof
  fix d assume "decision_valid env d"
  then show "isValidProtocolizationTenantId (rd_tenantId d)"
    by (simp add: decision_valid_def validateProfessionalReviewDecision_def)
next
  fix s d s' assume "decision_save env s d = Inr s'"
  then show "decision_valid env d \<and> de_entries s' = de_entries s @ [d] \<and>
      storageKey (rd_tenantId d) (rd_decisionId d) \<notin> (\<lambda>d. storageKey (rd_tenantId d) (rd_decisionId d)) ` set (de_entries s)"
    by (simp add: decision_save_Inr record_with_None decision_key_def)
next
  fix s d s' assume "decision_save env s d = Inr s'" "index_of s"
  then show "index_of s'" by (rule index_of_save)
next
  fix s d s' assume "decision_save env s d = Inr s'" "index_of s"
  then show "decided_key d \<notin> decided_key ` set (de_entries s)" by (rule index_basis)
qed (auto simp: decision_get_def decision_listByCase_def review_assertTenant_def decision_key_def [abs_def])

text \<open>The decision of a request is the one decision recorded for it.\<close>

lemma decision_of_request:
  assumes "decisions.indexed_good env s" "isValidProtocolizationTenantId t"
  shows "decision_getByRequest s t i = Inr (Some d) \<longleftrightarrow>
    d \<in> set (de_entries s) \<and> rd_tenantId d = t \<and> rd_reviewRequestId d = i"
proof -
  have s: "index_of s" "list_all (decision_valid env) (de_entries s)"
    "distinct (map decision_key (de_entries s))" "distinct (map decided_key (de_entries s))"
    using assms(1) by (simp_all add: decisions.indexed_good_def decisions.good_def decision_key_def [abs_def])
  have tenant: "isValidProtocolizationTenantId (rd_tenantId d)" if "d \<in> set (de_entries s)" for d
    using s(2) that decisions.valid_tenant by (auto simp: list_all_iff)
  have answer: "decision_getByRequest s t i =
      Inr (case record_with decided_key (de_entries s) (storageKey t i) of
             None \<Rightarrow> None | Some d \<Rightarrow> record_with decision_key (de_entries s) (storageKey t (rd_decisionId d)))"
    using assms(2) s(1) by (auto simp: decision_getByRequest_def review_assertTenant_def index_of_def split: option.split)
  have own: "record_with decision_key (de_entries s) (storageKey t (rd_decisionId d)) = Some d"
    "rd_tenantId d = t" "rd_reviewRequestId d = i" "d \<in> set (de_entries s)"
    if "record_with decided_key (de_entries s) (storageKey t i) = Some d" for d
  proof -
    from record_with_Some [OF that] have d: "d \<in> set (de_entries s)" "storageKey (rd_tenantId d) (rd_reviewRequestId d) = storageKey t i"
      by (simp_all add: decided_key_def)
    then show "rd_tenantId d = t" "rd_reviewRequestId d = i" "d \<in> set (de_entries s)"
      using storageKey_inj [OF tenant [OF d(1)] assms(2)] by blast+
    with record_with_unique [OF s(3) d(1)]
    show "record_with decision_key (de_entries s) (storageKey t (rd_decisionId d)) = Some d"
      by (simp add: decision_key_def)
  qed
  have found: "record_with decided_key (de_entries s) (storageKey t i) = Some d"
    if "d \<in> set (de_entries s)" "rd_tenantId d = t" "rd_reviewRequestId d = i"
    using record_with_unique [OF s(4) that(1)] that(2,3) by (simp add: decided_key_def)
  show ?thesis
  proof
    assume "decision_getByRequest s t i = Inr (Some d)"
    then obtain d' where d': "record_with decided_key (de_entries s) (storageKey t i) = Some d'"
      "record_with decision_key (de_entries s) (storageKey t (rd_decisionId d')) = Some d"
      by (auto simp: answer split: option.splits)
    from own(1) [OF d'(1)] d'(2) have "d' = d" by simp
    with own(2-4) [OF d'(1)] show "d \<in> set (de_entries s) \<and> rd_tenantId d = t \<and> rd_reviewRequestId d = i" by simp
  next
    assume "d \<in> set (de_entries s) \<and> rd_tenantId d = t \<and> rd_reviewRequestId d = i"
    then have "record_with decided_key (de_entries s) (storageKey t i) = Some d" by (intro found) simp_all
    with own(1) [OF this] show "decision_getByRequest s t i = Inr (Some d)" by (simp add: answer)
  qed
qed

text \<open>Requests and decisions of a case are listed in order, each once.\<close>

lemma decision_history:
  assumes "decisions.good env s" "decision_listByCase env s t c = Inr ds"
  shows "sorted_wrt (\<lambda>a b. compareProfessionalReviewDecisions env a b \<le> 0) ds" "distinct (map rd_decisionId ds)"
    "set ds = {d \<in> set (de_entries s). rd_tenantId d = t \<and> rd_caseId d = c}" "list_all (decision_valid env) ds"
proof -
  let ?own = "filter (\<lambda>d. rd_tenantId d = t \<and> rd_caseId d = c) (de_entries s)"
  have ds: "ds = sort_by (compareProfessionalReviewDecisions env) ?own"
    using assms(2) by (auto simp: decision_listByCase_def)
  have good: "list_all (decision_valid env) (de_entries s)" "distinct (map (\<lambda>d. storageKey (rd_tenantId d) (rd_decisionId d)) (de_entries s))"
    using assms(1) by (simp_all add: decisions.good_def)
  have "distinct (map (\<lambda>d. storageKey (rd_tenantId d) (rd_decisionId d)) ?own)" using good(2) by (rule distinct_map_filter)
  also have "map (\<lambda>d. storageKey (rd_tenantId d) (rd_decisionId d)) ?own = map (storageKey t) (map rd_decisionId ?own)" by simp
  finally have own: "distinct (map rd_decisionId ?own)" by (simp only: distinct_map)
  have "mset (map rd_decisionId ds) = mset (map rd_decisionId ?own)" unfolding ds mset_map mset_sort_by ..
  from mset_eq_imp_distinct_iff [OF this] own show "distinct (map rd_decisionId ds)" by blast
  show set: "set ds = {d \<in> set (de_entries s). rd_tenantId d = t \<and> rd_caseId d = c}" by (auto simp: ds)
  with good(1) show "list_all (decision_valid env) ds" by (auto simp: list_all_iff)
  have "isValidUtcDateTime env (rd_decidedAt d)" if "decision_valid env d" for d
    using that by (simp add: decision_valid_def validateProfessionalReviewDecision_def)
  then have "total_on_by (\<lambda>a b. by_instant env (rd_decidedAt a) (rd_decisionId a) (rd_decidedAt b) (rd_decisionId b)) (set ?own)"
    using good(1) own by (intro by_instant_total) (auto simp: list_all_iff distinct_map inj_on_def)
  then have "total_on_by (compareProfessionalReviewDecisions env) (set ?own)"
    by (simp only: compareProfessionalReviewDecisions_def [abs_def])
  then show "sorted_wrt (\<lambda>a b. compareProfessionalReviewDecisions env a b \<le> 0) ds"
    unfolding ds by (rule sort_by_sorted)
qed

end
