(* ===== verification/ReviewRuns.thy ===== *)
theory ReviewRuns
  imports ReviewOperations ReviewStore
begin

text \<open>
  What the operations of review accept and produce, and a case together with its requests, decisions and attestations:
  the operations return the next case and the records together, and the caller commits all of them, or none when a
  repository refuses one.
\<close>

subsection \<open>Requests\<close>

definition scope_describes :: "ProtocolizationCase \<Rightarrow> string \<Rightarrow> string \<Rightarrow> int \<Rightarrow> ProfessionalReviewScope \<Rightarrow> bool" where
  "scope_describes c i attestationType n s \<longleftrightarrow>
     isValidProfessionalReviewScope s \<and> sp_requirementId s = i \<and> sp_attestationType s = attestationType \<and> sp_caseRevision s = n \<and>
     sj_sovereignAssetId (sp_subjectRef s) = sj_sovereignAssetId (su_subjectRef (zc_subject c)) \<and>
     externalAgrees (sj_externalReference (su_subjectRef (zc_subject c))) (sj_externalReference (sp_subjectRef s))"

lemma scope_None [simp]: "assertScopeMatchesCase c i t n s = None \<longleftrightarrow> scope_describes c i t n s"
  by (auto simp: assertScopeMatchesCase_def Let_def scope_describes_def scope_mismatches_def isValidProfessionalReviewScope_def)

lemma review_gate_None [simp]:
  "review_tenant_gate ctx c = None \<longleftrightarrow> isValidProtocolizationTenantId (px_tenantId ctx) \<and> zc_tenantId c = px_tenantId ctx"
  by (auto simp: review_tenant_gate_def)

lemma review_readable_None [simp]: "review_readable env c = None \<longleftrightarrow> case_wf env c"
  by (simp add: review_readable_def invalid_case_None)

lemma review_accepts_None [simp]: "assertCaseAcceptsReview c = None \<longleftrightarrow> zc_state c \<noteq> Cancelled"
  by (simp add: assertCaseAcceptsReview_def)

lemma belongs_None [simp]:
  "assertRequestBelongsToCase ctx c r = None \<longleftrightarrow>
     rq_tenantId r = px_tenantId ctx \<and> rq_caseId r = zc_caseId c \<and> rq_profile r = zc_profile c"
  by (auto simp: assertRequestBelongsToCase_def Let_def protocolizationProfileRefsEqual_def)

lemma basis_None [simp]: "assertCaseIsAtBasisRevision c r = None \<longleftrightarrow> zc_revision c = rq_reviewBasisRevision r"
  by (simp add: assertCaseIsAtBasisRevision_def)

lemma review_clock_Inr [simp]:
  "review_clock env now c = Inr t \<longleftrightarrow>
     t = now \<and> isValidUtcDateTime env now \<and> \<not> date_gt (date_parse (e_date env) (zc_updatedAt c)) (date_parse (e_date env) now)"
  by (auto simp: review_clock_def)

definition attestation_requirement :: "ReviewContext \<Rightarrow> ProtocolizationCase \<Rightarrow> string \<Rightarrow> AssetAttestationRequirement \<Rightarrow> bool" where
  "attestation_requirement ctx c i r \<longleftrightarrow>
     (\<exists>p q. px_catalog ctx (pr_profileId (zc_profile c)) (pr_profileVersion (zc_profile c)) = Some p \<and>
        find (\<lambda>q. ar_id q = i) (ap_requirements p) = Some q \<and> ar_shape q = AttestationShape r)"

lemma requirement_found: "find (\<lambda>q. ar_id q = i) qs = Some q \<Longrightarrow> q \<in> set qs \<and> ar_id q = i"
  by (auto simp: find_Some_iff)

lemma resolve_Inr:
  "resolveAttestationRequirement p c i = Inr (q, r) \<longleftrightarrow>
     find (\<lambda>q. ar_id q = i) (ap_requirements p) = Some q \<and> ar_shape q = AttestationShape r"
  by (auto simp: resolveAttestationRequirement_def split: option.splits RequirementShape.splits)

lemma review_profile_Inr:
  "review_profile ctx c = Inr p \<longleftrightarrow> px_catalog ctx (pr_profileId (zc_profile c)) (pr_profileVersion (zc_profile c)) = Some p"
  by (auto simp: review_profile_def split: option.split)

text \<open>A request is made exactly about an attestation requirement of the profile, at the revision of the case.\<close>

lemma request_create_Inr:
  "createProfessionalReviewRequest env ctx c i = Inr (q, ev) \<longleftrightarrow>
     isValidProtocolizationTenantId (px_tenantId ctx) \<and> zc_tenantId c = px_tenantId ctx \<and> case_wf env c \<and> zc_state c \<noteq> Cancelled \<and>
     request_reasons i = [] \<and>
     (\<exists>r. attestation_requirement ctx c (iq_attestationRequirementId i) r \<and> iq_requestedAttestationType i \<in> set (aa_acceptedTypes r)) \<and>
     scope_describes c (iq_attestationRequirementId i) (iq_requestedAttestationType i) (zc_revision c) (iq_requestedScope i) \<and>
     isValidUtcDateTime env (px_clock ctx 0) \<and>
     \<not> date_gt (date_parse (e_date env) (zc_updatedAt c)) (date_parse (e_date env) (px_clock ctx 0)) \<and>
     q = request_of c (iq_attestationRequirementId i) i (px_clock ctx 0) \<and> request_valid env q \<and> ev = requested_event q"
  (is "_ \<longleftrightarrow> ?rhs")
proof -
  have expand: "createProfessionalReviewRequest env ctx c i = Inr (q, ev) \<longleftrightarrow>
     (isValidProtocolizationTenantId (px_tenantId ctx) \<and> zc_tenantId c = px_tenantId ctx) \<and> case_wf env c \<and>
     request_reasons i = [] \<and> zc_state c \<noteq> Cancelled \<and>
     (\<exists>p x r. px_catalog ctx (pr_profileId (zc_profile c)) (pr_profileVersion (zc_profile c)) = Some p \<and>
        (find (\<lambda>q. ar_id q = iq_attestationRequirementId i) (ap_requirements p) = Some x \<and> ar_shape x = AttestationShape r) \<and>
        iq_requestedAttestationType i \<in> set (aa_acceptedTypes r) \<and>
        scope_describes c (ar_id x) (iq_requestedAttestationType i) (zc_revision c) (iq_requestedScope i) \<and>
        isValidUtcDateTime env (px_clock ctx 0) \<and>
        \<not> date_gt (date_parse (e_date env) (zc_updatedAt c)) (date_parse (e_date env) (px_clock ctx 0)) \<and>
        request_valid env (request_of c (ar_id x) i (px_clock ctx 0)) \<and>
        (request_of c (ar_id x) i (px_clock ctx 0), requested_event (request_of c (ar_id x) i (px_clock ctx 0))) = (q, ev))"
    by (simp add: createProfessionalReviewRequest_def review_profile_Inr resolve_Inr assertAttestationTypeAccepted_def
        request_valid_def Let_def split_paired_Ex cong: conj_cong)
  show ?thesis
  proof
    assume made: "createProfessionalReviewRequest env ctx c i = Inr (q, ev)"
    then obtain p x r where x: "px_catalog ctx (pr_profileId (zc_profile c)) (pr_profileVersion (zc_profile c)) = Some p"
      "find (\<lambda>q. ar_id q = iq_attestationRequirementId i) (ap_requirements p) = Some x" "ar_shape x = AttestationShape r"
      "iq_requestedAttestationType i \<in> set (aa_acceptedTypes r)"
      unfolding expand by blast
    have id: "ar_id x = iq_attestationRequirementId i" using requirement_found [OF x(2)] by simp
    have "\<exists>r. attestation_requirement ctx c (iq_attestationRequirementId i) r \<and> iq_requestedAttestationType i \<in> set (aa_acceptedTypes r)"
      using x by (auto simp: attestation_requirement_def)
    then show "?rhs" using made x(1,2) id unfolding expand by auto
  next
    assume rhs: "?rhs"
    then obtain p x r where x: "px_catalog ctx (pr_profileId (zc_profile c)) (pr_profileVersion (zc_profile c)) = Some p"
      "find (\<lambda>q. ar_id q = iq_attestationRequirementId i) (ap_requirements p) = Some x" "ar_shape x = AttestationShape r"
      "iq_requestedAttestationType i \<in> set (aa_acceptedTypes r)"
      unfolding attestation_requirement_def by blast
    have id: "ar_id x = iq_attestationRequirementId i" using requirement_found [OF x(2)] by simp
    show "createProfessionalReviewRequest env ctx c i = Inr (q, ev)"
      unfolding expand using rhs x by (auto simp: id)
  qed
qed

subsection \<open>Decisions\<close>

definition reviewer_accepted :: "AssetAttestationRequirement \<Rightarrow> CanonicalPrincipalRef \<Rightarrow> CanonicalCredentialRef list \<Rightarrow> bool" where
  "reviewer_accepted r reviewer credentials \<longleftrightarrow>
     (\<forall>at. aa_attester r = Some at \<longrightarrow>
        if_present (\<lambda>ks. cp_kind reviewer \<in> set ks) (at_acceptedPrincipalKinds at) \<and>
        (\<forall>k. at_credential at = Some k \<longrightarrow>
           (\<exists>x \<in> set credentials. cd_type x \<in> set (cc_acceptedTypes k) \<and>
              if_present (\<lambda>ss. \<exists>s. cd_status x = Some s \<and> s \<in> set ss) (cc_acceptedStatuses k))))"

lemma reviewer_None [simp]:
  "assertReviewerSatisfiesConstraints c i r reviewer credentials = None \<longleftrightarrow> reviewer_accepted r reviewer (or_empty credentials)"
proof (cases "aa_attester r")
  case (Some at)
  show ?thesis
  proof (cases "at_credential at")
    case (Some k)
    show ?thesis
      using \<open>aa_attester r = Some at\<close> Some
      by (cases "cc_acceptedStatuses k")
        (auto simp: assertReviewerSatisfiesConstraints_def reviewer_accepted_def Let_def list_ex_iff filter_empty_conv
          split: option.splits if_splits)
  qed (simp add: assertReviewerSatisfiesConstraints_def reviewer_accepted_def Some)
qed (simp add: assertReviewerSatisfiesConstraints_def reviewer_accepted_def)

definition action_shaped :: "RecordReviewDecisionInput \<Rightarrow> bool" where
  "action_shaped i \<longleftrightarrow>
     isProfessionalReviewAction (id_action i) \<and>
     (if id_action i = ''Attest''
      then id_scope i \<noteq> None \<and> nonempty_list (id_reviewedRefs i) \<and> id_requestedMaterial i = None
      else id_reasonCode i \<noteq> None \<and> id_scope i = None \<and> id_attestation i = None \<and>
           (if id_action i = ''RequestMoreEvidence'' then nonempty_list (id_requestedMaterial i) else id_requestedMaterial i = None))"

lemma shaped_None [simp]: "assertActionShape c r i = None \<longleftrightarrow> action_shaped i"
  by (auto simp: assertActionShape_def action_shaped_def Let_def)

definition proofs_collected ::
  "ReviewContext \<Rightarrow> ProtocolizationCase \<Rightarrow> ProfessionalReviewRequest \<Rightarrow> RecordReviewDecisionInput \<Rightarrow>
     ProfessionalAttestationInput \<Rightarrow> string \<Rightarrow> CanonicalProofRef list \<Rightarrow> bool" where
  "proofs_collected ctx c r i w t ps \<longleftrightarrow>
     (case px_signer ctx of
        None \<Rightarrow> ps = or_empty (ia_proofRefs w) \<and> ps \<noteq> []
      | Some sign \<Rightarrow>
          (\<exists>p. sign (signing_request c r i w t) = Inr p \<and> isUsableProofRef p \<and> ps = or_empty (ia_proofRefs w) @ [p]))"

lemma proofs_collect_Inr: "collectProofRefs ctx c r i w t = Inr ps \<longleftrightarrow> proofs_collected ctx c r i w t ps"
  by (auto simp: collectProofRefs_def proofs_collected_def Let_def split: option.split sum.splits)

text \<open>The artifact of a decision: about a claim of the case, with usable proofs, and the case moved by its material.\<close>

definition produces ::
  "host_env \<Rightarrow> ReviewContext \<Rightarrow> ProtocolizationCase \<Rightarrow> ProfessionalReviewRequest \<Rightarrow> RecordReviewDecisionInput \<Rightarrow>
     ProfessionalAttestationInput \<times> CanonicalAttestation \<times> case_transition \<Rightarrow> bool" where
  "produces env ctx c r i pr \<longleftrightarrow>
     (\<exists>w ps a t. pr = (w, a, t) \<and> id_attestation i = Some w \<and> id_action i = ''Attest'' \<and> claim_in_case c (ia_claimRef w) \<and>
        proofs_collected ctx c r i w (px_clock ctx 0) ps \<and>
        prepareCanonicalAttestationFromReview env (preparation_input r i w (px_clock ctx 0) ps) = Inr a \<and>
        perform env (case_context_at ctx 1) c (AddMaterial (attestation_material (rq_attestationRequirementId r) i w a)) = Inr t)"

lemma produce_Inr:
  "produce_attestation env ctx c r i (rq_attestationRequirementId r) (px_clock ctx 0) = Inr None \<longleftrightarrow>
     id_attestation i = None \<or> id_action i \<noteq> ''Attest''"
  "produce_attestation env ctx c r i (rq_attestationRequirementId r) (px_clock ctx 0) = Inr (Some pr) \<longleftrightarrow> produces env ctx c r i pr"
proof -
  show "produce_attestation env ctx c r i (rq_attestationRequirementId r) (px_clock ctx 0) = Inr None \<longleftrightarrow>
     id_attestation i = None \<or> id_action i \<noteq> ''Attest''"
    by (auto simp: produce_attestation_def split: option.split)
  show "produce_attestation env ctx c r i (rq_attestationRequirementId r) (px_clock ctx 0) = Inr (Some pr) \<longleftrightarrow> produces env ctx c r i pr"
    by (auto simp: produce_attestation_def produces_def proofs_collect_Inr assertClaimIsInCase_def split: option.split)
qed

lemma record_Inr:
  assumes "recordProfessionalReviewDecision env ctx c r i = Inr t"
  obtains a produced where "zc_tenantId c = px_tenantId ctx" "case_wf env c" "zc_state c \<noteq> Cancelled"
    "rq_tenantId r = zc_tenantId c" "rq_caseId r = zc_caseId c" "rq_profile r = zc_profile c" "rq_reviewBasisRevision r = zc_revision c"
    "attestation_requirement ctx c (rq_attestationRequirementId r) a" "action_shaped i"
    "reviewer_accepted a (id_reviewer i) (or_empty (id_reviewerCredentialRefs i))"
    "\<forall>s. id_action i = ''Attest'' \<and> id_scope i = Some s \<longrightarrow>
       scope_describes c (rq_attestationRequirementId r) (rq_requestedAttestationType r) (zc_revision c) s"
    "produced = None \<and> (id_attestation i = None \<or> id_action i \<noteq> ''Attest'') \<or> (\<exists>pr. produced = Some pr \<and> produces env ctx c r i pr)"
    "tr_decision t = decision_of c r i (rq_attestationRequirementId r) (px_clock ctx 0) produced"
    "decision_valid env (tr_decision t)" "t = decision_transition (tr_decision t) produced"
proof -
  obtain p q a produced where facts: "zc_tenantId c = px_tenantId ctx" "case_wf env c" "rq_tenantId r = px_tenantId ctx"
    "rq_caseId r = zc_caseId c" "rq_profile r = zc_profile c" "zc_revision c = rq_reviewBasisRevision r" "zc_state c \<noteq> Cancelled"
    "px_catalog ctx (pr_profileId (zc_profile c)) (pr_profileVersion (zc_profile c)) = Some p"
    "find (\<lambda>q. ar_id q = rq_attestationRequirementId r) (ap_requirements p) = Some q" "ar_shape q = AttestationShape a"
    "action_shaped i" "reviewer_accepted a (id_reviewer i) (or_empty (id_reviewerCredentialRefs i))"
    "\<forall>s. id_action i = ''Attest'' \<and> id_scope i = Some s \<longrightarrow>
       scope_describes c (ar_id q) (rq_requestedAttestationType r) (rq_reviewBasisRevision r) s"
    "produce_attestation env ctx c r i (ar_id q) (px_clock ctx 0) = Inr produced"
    "decision_valid env (decision_of c r i (ar_id q) (px_clock ctx 0) produced)"
    "t = decision_transition (decision_of c r i (ar_id q) (px_clock ctx 0) produced) produced"
    using assms
    by (auto simp: recordProfessionalReviewDecision_def review_profile_Inr resolve_Inr decision_valid_def Let_def
        split: option.splits if_splits)
  have id: "ar_id q = rq_attestationRequirementId r" using requirement_found [OF facts(9)] by blast
  have "produced = None \<and> (id_attestation i = None \<or> id_action i \<noteq> ''Attest'') \<or> (\<exists>pr. produced = Some pr \<and> produces env ctx c r i pr)"
    using produce_Inr facts(14) by (cases produced) (auto simp: id)
  moreover have "attestation_requirement ctx c (rq_attestationRequirementId r) a"
    using facts(8-10) by (auto simp: attestation_requirement_def)
  moreover have "tr_decision t = decision_of c r i (rq_attestationRequirementId r) (px_clock ctx 0) produced"
    using facts(16) by (simp add: decision_transition_def id)
  ultimately show ?thesis
    using that [of a produced] facts by (simp add: id)
qed

text \<open>Conversely these conditions suffice.\<close>

lemma record_succeeds:
  assumes "zc_tenantId c = px_tenantId ctx" "case_wf env c" "zc_state c \<noteq> Cancelled"
    "rq_tenantId r = zc_tenantId c" "rq_caseId r = zc_caseId c" "rq_profile r = zc_profile c" "rq_reviewBasisRevision r = zc_revision c"
    "decision_reasons i = []" "attestation_requirement ctx c (rq_attestationRequirementId r) a" "action_shaped i"
    "reviewer_accepted a (id_reviewer i) (or_empty (id_reviewerCredentialRefs i))"
    "\<forall>s. id_action i = ''Attest'' \<and> id_scope i = Some s \<longrightarrow>
       scope_describes c (rq_attestationRequirementId r) (rq_requestedAttestationType r) (zc_revision c) s"
    "isValidUtcDateTime env (px_clock ctx 0)" "\<not> date_gt (date_parse (e_date env) (zc_updatedAt c)) (date_parse (e_date env) (px_clock ctx 0))"
    "produced = None \<and> (id_attestation i = None \<or> id_action i \<noteq> ''Attest'') \<or> (\<exists>pr. produced = Some pr \<and> produces env ctx c r i pr)"
    "decision_valid env (decision_of c r i (rq_attestationRequirementId r) (px_clock ctx 0) produced)"
  shows "recordProfessionalReviewDecision env ctx c r i =
    Inr (decision_transition (decision_of c r i (rq_attestationRequirementId r) (px_clock ctx 0) produced) produced)"
proof -
  obtain p q where q: "px_catalog ctx (pr_profileId (zc_profile c)) (pr_profileVersion (zc_profile c)) = Some p"
    "find (\<lambda>q. ar_id q = rq_attestationRequirementId r) (ap_requirements p) = Some q" "ar_shape q = AttestationShape a"
    using assms(9) by (auto simp: attestation_requirement_def)
  have id: "ar_id q = rq_attestationRequirementId r" using requirement_found [OF q(2)] by simp
  have produced: "produce_attestation env ctx c r i (rq_attestationRequirementId r) (px_clock ctx 0) = Inr produced"
    using assms(15) produce_Inr by auto
  have profile: "review_profile ctx c = Inr p" using q(1) by (simp add: review_profile_Inr)
  have resolved: "resolveAttestationRequirement p c (rq_attestationRequirementId r) = Inr (q, a)" using q(2,3) by (simp add: resolve_Inr)
  have clock: "review_clock env (px_clock ctx 0) c = Inr (px_clock ctx 0)" using assms(13,14) by simp
  have scope: "(case id_scope i of
       None \<Rightarrow> None
     | Some s \<Rightarrow>
         if id_action i \<noteq> ''Attest'' then None
         else assertScopeMatchesCase c (ar_id q) (rq_requestedAttestationType r) (rq_reviewBasisRevision r) s) = None"
    using assms(7,12) by (auto simp: id split: option.split)
  have gates: "review_tenant_gate ctx c = None" "review_readable env c = None" "assertRequestBelongsToCase ctx c r = None"
    "assertCaseIsAtBasisRevision c r = None" "assertCaseAcceptsReview c = None" "assertActionShape c r i = None"
    "assertReviewerSatisfiesConstraints c (rq_attestationRequirementId r) a (id_reviewer i) (id_reviewerCredentialRefs i) = None"
    using assms(1-7,10,11) wf_tenant [OF assms(2)] by simp_all
  show ?thesis
    using assms(8,16)
    by (simp add: recordProfessionalReviewDecision_def gates profile resolved id scope clock produced decision_valid_def failing_def Let_def
        del: review_clock_Inr)
qed

subsection \<open>A case and its reviews\<close>

record ReviewSystem =
  ws_case :: ProtocolizationCase
  ws_requests :: request_entries
  ws_decisions :: decision_entries
  ws_attestations :: "CanonicalAttestation list"

definition committed :: "ReviewSystem \<Rightarrow> ReviewDecisionTransition \<Rightarrow> decision_entries \<Rightarrow> ReviewSystem" where
  "committed s t ds =
     (case tr_produced t of
        None \<Rightarrow> s\<lparr>ws_decisions := ds\<rparr>
      | Some pt \<Rightarrow> s\<lparr>ws_case := pt_case pt, ws_decisions := ds, ws_attestations := ws_attestations s @ [pt_attestation pt]\<rparr>)"

inductive review_step ::
  "host_env \<Rightarrow> (string \<Rightarrow> string \<Rightarrow> AssetProfile option) \<Rightarrow> ReviewSystem \<Rightarrow> ReviewSystem \<Rightarrow> bool" for env cat where
  changed: "perform env kx (ws_case s) cmd = Inr (c', ev) \<Longrightarrow> cx_catalog kx = cat \<Longrightarrow> review_step env cat s (s\<lparr>ws_case := c'\<rparr>)"
| requested: "createProfessionalReviewRequest env ctx (ws_case s) i = Inr (q, ev) \<Longrightarrow> px_catalog ctx = cat \<Longrightarrow>
    request_save env (ws_requests s) q = Inr qs \<Longrightarrow> review_step env cat s (s\<lparr>ws_requests := qs\<rparr>)"
| decided: "r \<in> set (ws_requests s) \<Longrightarrow> recordProfessionalReviewDecision env ctx (ws_case s) r i = Inr t \<Longrightarrow> px_catalog ctx = cat \<Longrightarrow>
    decision_save env (ws_decisions s) (tr_decision t) = Inr ds \<Longrightarrow> review_step env cat s (committed s t ds)"

definition no_reviews :: "ProtocolizationCase \<Rightarrow> ReviewSystem" where
  "no_reviews c = \<lparr>ws_case = c, ws_requests = [], ws_decisions = \<lparr>de_entries = [], de_byRequest = (\<lambda>k. None)\<rparr>, ws_attestations = []\<rparr>"

inductive review_run :: "host_env \<Rightarrow> (string \<Rightarrow> string \<Rightarrow> AssetProfile option) \<Rightarrow> ReviewSystem \<Rightarrow> bool" for env cat where
  start: "case_wf env c \<Longrightarrow> review_run env cat (no_reviews c)"
| step: "review_run env cat s \<Longrightarrow> review_step env cat s s' \<Longrightarrow> review_run env cat s'"

subsection \<open>The invariant\<close>

text \<open>An artifact a case holds: it carries usable proofs, and is about a claim that was declared in the case.\<close>

definition artifact_in :: "ProtocolizationCase \<Rightarrow> CanonicalAttestation list \<Rightarrow> ProfessionalReviewDecision \<Rightarrow> string \<Rightarrow> bool" where
  "artifact_in c as d ref \<longleftrightarrow>
     (\<exists>a \<in> set as. ca_id a = ref \<and> ca_attester a = rd_reviewer d \<and> ca_issuedAt a = rd_decidedAt d \<and>
        (\<exists>ps. ca_proofRefs a = Some ps \<and> ps \<noteq> [] \<and> list_all isUsableProofRef ps) \<and> claim_in_case c (ca_claimRef a)) \<and>
     (\<exists>m \<in> set (zc_materials c). rd_attestationMaterialId d = Some (zm_materialId m) \<and> zm_payload m = AttestationPayload ref \<and>
        rd_attestationRequirementId d \<in> set (zm_requirementIds m))"

text \<open>The reviewer met the constraints of a requirement of the pinned profile.\<close>

definition reviewer_qualified :: "(string \<Rightarrow> string \<Rightarrow> AssetProfile option) \<Rightarrow> ProfessionalReviewDecision \<Rightarrow> bool" where
  "reviewer_qualified cat d \<longleftrightarrow>
     (\<exists>p q r. cat (pr_profileId (rd_profile d)) (pr_profileVersion (rd_profile d)) = Some p \<and> q \<in> set (ap_requirements p) \<and>
        ar_id q = rd_attestationRequirementId d \<and> ar_shape q = AttestationShape r \<and>
        reviewer_accepted r (rd_reviewer d) (or_empty (rd_reviewerCredentialRefs d)))"

definition decision_for ::
  "(string \<Rightarrow> string \<Rightarrow> AssetProfile option) \<Rightarrow> ProtocolizationCase \<Rightarrow> request_entries \<Rightarrow> CanonicalAttestation list \<Rightarrow>
     ProfessionalReviewDecision \<Rightarrow> bool" where
  "decision_for cat c qs as d \<longleftrightarrow>
     rd_tenantId d = zc_tenantId c \<and> rd_caseId d = zc_caseId c \<and> rd_profile d = zc_profile c \<and>
     rd_reviewBasisRevision d \<le> zc_revision c \<and> reviewer_qualified cat d \<and>
     (\<exists>r \<in> set qs. rq_reviewRequestId r = rd_reviewRequestId d \<and> rq_attestationRequirementId r = rd_attestationRequirementId d \<and>
        rq_reviewBasisRevision r = rd_reviewBasisRevision d) \<and>
     (case rd_canonicalAttestationRef d of
        None \<Rightarrow> rd_resultingCaseRevision d = None
      | Some ref \<Rightarrow>
          rd_action d = ''Attest'' \<and> artifact_in c as d ref \<and> rd_resultingCaseRevision d = Some (rd_reviewBasisRevision d + 1) \<and>
          rd_reviewBasisRevision d + 1 \<le> zc_revision c)"

definition review_ok :: "host_env \<Rightarrow> (string \<Rightarrow> string \<Rightarrow> AssetProfile option) \<Rightarrow> ReviewSystem \<Rightarrow> bool" where
  "review_ok env cat s \<longleftrightarrow>
     case_wf env (ws_case s) \<and> requests.good env (ws_requests s) \<and> decisions.indexed_good env (ws_decisions s) \<and>
     (\<forall>d \<in> set (de_entries (ws_decisions s)). decision_for cat (ws_case s) (ws_requests s) (ws_attestations s) d) \<and>
     (\<forall>d \<in> set (de_entries (ws_decisions s)). \<forall>e \<in> set (de_entries (ws_decisions s)).
        rd_resultingCaseRevision d \<noteq> None \<and> rd_resultingCaseRevision d = rd_resultingCaseRevision e \<longrightarrow> d = e)"

lemma claim_kept:
  assumes "claim_in_case c k" "perform env ctx c cmd = Inr (c', ev)"
  shows "claim_in_case c' k"
  using assms(1) performed_keeps [OF assms(2)] unfolding claim_in_case_def list_ex_iff by metis

lemma artifact_kept:
  assumes "artifact_in c as d ref" "perform env ctx c cmd = Inr (c', ev)"
  shows "artifact_in c' (as @ bs) d ref"
proof -
  obtain m where m: "m \<in> set (zc_materials c)" "rd_attestationMaterialId d = Some (zm_materialId m)"
    "zm_payload m = AttestationPayload ref" "rd_attestationRequirementId d \<in> set (zm_requirementIds m)"
    using assms(1) by (auto simp: artifact_in_def)
  from performed_keeps [OF assms(2) m(1)] obtain m' where "m' \<in> set (zc_materials c')" "zm_materialId m' = zm_materialId m"
    "zm_payload m' = zm_payload m" "set (zm_requirementIds m) \<subseteq> set (zm_requirementIds m')"
    by metis
  with m have "\<exists>m \<in> set (zc_materials c'). rd_attestationMaterialId d = Some (zm_materialId m) \<and> zm_payload m = AttestationPayload ref \<and>
      rd_attestationRequirementId d \<in> set (zm_requirementIds m)"
    by (intro bexI [of _ m']) auto
  then show ?thesis using assms(1) claim_kept [OF _ assms(2)] unfolding artifact_in_def by fastforce
qed

lemma decision_kept:
  assumes "decision_for cat c qs as d" "perform env ctx c cmd = Inr (c', ev)"
  shows "decision_for cat c' qs (as @ bs) d"
proof (cases "rd_canonicalAttestationRef d")
  case None
  then show ?thesis using assms(1) performed_header [OF assms(2)] by (auto simp: decision_for_def)
next
  case (Some ref)
  then have "artifact_in c as d ref" using assms(1) by (simp add: decision_for_def)
  from artifact_kept [OF this assms(2)] Some show ?thesis
    using assms(1) performed_header [OF assms(2)] by (auto simp: decision_for_def)
qed

lemma more_requests: "decision_for cat c qs as d \<Longrightarrow> set qs \<subseteq> set qs' \<Longrightarrow> decision_for cat c qs' as d"
  by (auto simp: decision_for_def split: option.splits)

lemma no_reviews_ok: "case_wf env c \<Longrightarrow> review_ok env cat (no_reviews c)"
  by (simp add: review_ok_def no_reviews_def requests.good_def decisions.indexed_good_def decisions.good_def index_of_def record_with_def)

text \<open>What a decision adds.\<close>

lemma recorded_decision_for:
  assumes "recordProfessionalReviewDecision env ctx c r i = Inr t" "r \<in> set qs" "px_catalog ctx = cat"
  shows "\<exists>c' bs. (tr_produced t = None \<and> c' = c \<and> bs = [] \<and> rd_resultingCaseRevision (tr_decision t) = None \<or>
      (\<exists>pt kx cmd. tr_produced t = Some pt \<and> pt_case pt = c' \<and> bs = [pt_attestation pt] \<and>
         perform env kx c cmd = Inr (c', pt_caseEvent pt) \<and> rd_resultingCaseRevision (tr_decision t) = Some (zc_revision c'))) \<and>
    decision_for cat c' qs (as @ bs) (tr_decision t)"
proof -
  obtain a produced where f: "zc_tenantId c = px_tenantId ctx" "rq_tenantId r = zc_tenantId c" "rq_caseId r = zc_caseId c"
    "rq_profile r = zc_profile c" "rq_reviewBasisRevision r = zc_revision c"
    "attestation_requirement ctx c (rq_attestationRequirementId r) a"
    "reviewer_accepted a (id_reviewer i) (or_empty (id_reviewerCredentialRefs i))"
    "produced = None \<and> (id_attestation i = None \<or> id_action i \<noteq> ''Attest'') \<or> (\<exists>pr. produced = Some pr \<and> produces env ctx c r i pr)"
    "tr_decision t = decision_of c r i (rq_attestationRequirementId r) (px_clock ctx 0) produced"
    "t = decision_transition (tr_decision t) produced"
    by (rule record_Inr [OF assms(1)]) (rule that; assumption)
  have fields: "rd_tenantId (tr_decision t) = zc_tenantId c" "rd_caseId (tr_decision t) = zc_caseId c"
    "rd_profile (tr_decision t) = zc_profile c" "rd_reviewBasisRevision (tr_decision t) = zc_revision c"
    "rd_reviewRequestId (tr_decision t) = rq_reviewRequestId r"
    "rd_attestationRequirementId (tr_decision t) = rq_attestationRequirementId r"
    "rd_reviewer (tr_decision t) = id_reviewer i" "rd_decidedAt (tr_decision t) = px_clock ctx 0"
    "rd_action (tr_decision t) = id_action i" "rd_reviewerCredentialRefs (tr_decision t) = id_reviewerCredentialRefs i"
    unfolding f(9) by (simp_all add: decision_of_def f(4,5))
  have reviewer: "reviewer_qualified cat (tr_decision t)"
    using f(6,7) requirement_found assms(3) unfolding reviewer_qualified_def attestation_requirement_def fields by metis
  have request: "\<exists>x \<in> set qs. rq_reviewRequestId x = rd_reviewRequestId (tr_decision t) \<and>
      rq_attestationRequirementId x = rd_attestationRequirementId (tr_decision t) \<and> rq_reviewBasisRevision x = rd_reviewBasisRevision (tr_decision t)"
    using assms(2) by (intro bexI [of _ r]) (simp_all add: fields f(5))
  show ?thesis
  proof (cases produced)
    case None
    then have "rd_canonicalAttestationRef (tr_decision t) = None" "rd_resultingCaseRevision (tr_decision t) = None"
      unfolding f(9) by (simp_all add: decision_of_def)
    moreover have "tr_produced t = None" by (subst f(10)) (simp add: decision_transition_def None)
    ultimately show ?thesis
      using fields reviewer request by (intro exI [of _ c] exI [of _ "[]"]) (simp add: decision_for_def)
  next
    case (Some pr)
    then obtain w ps c' ev where pr: "pr = (w, attestation_of (preparation_input r i w (px_clock ctx 0) ps), c', ev)"
      "id_action i = ''Attest''" "claim_in_case c (ia_claimRef w)" "ps \<noteq> []" "list_all isUsableProofRef ps"
      "perform env (case_context_at ctx 1) c
          (AddMaterial (attestation_material (rq_attestationRequirementId r) i w (attestation_of (preparation_input r i w (px_clock ctx 0) ps)))) =
        Inr (c', ev)"
      using f(8) by (cases pr) (auto simp: produces_def prepared_Inr preparation_input_def simp del: perform.simps)
    let ?a = "attestation_of (preparation_input r i w (px_clock ctx 0) ps)"
    have d: "rd_canonicalAttestationRef (tr_decision t) = Some (ca_id ?a)" "rd_resultingCaseRevision (tr_decision t) = Some (zc_revision c')"
      "rd_attestationMaterialId (tr_decision t) = Some (ia_materialId w)"
      unfolding f(9) Some pr(1) by (simp_all add: decision_of_def)
    have produced: "tr_produced t = Some \<lparr>pt_case = c', pt_caseEvent = ev, pt_attestation = ?a,
        pt_attestationEvent = attestation_event (tr_decision t) w ?a c'\<rparr>"
      by (subst f(10)) (simp add: decision_transition_def Some pr(1))
    have c': "c' = effect c (AddMaterial (attestation_material (rq_attestationRequirementId r) i w ?a)) (px_clock ctx 1)"
      using iffD1 [OF perform_Inr exI, OF pr(6)] by (simp add: case_context_at_def)
    have "artifact_in c' (as @ [?a]) (tr_decision t) (ca_id ?a)"
      using pr(4,5) claim_kept [OF pr(3) pr(6)] unfolding artifact_in_def d fields
      by (simp add: attestation_of_def preparation_input_def c' with_material_def material_of_def attestation_material_def)
    moreover have header: "zc_tenantId c' = zc_tenantId c \<and> zc_caseId c' = zc_caseId c \<and> zc_profile c' = zc_profile c \<and>
        zc_revision c' = zc_revision c + 1"
      using performed_header [OF pr(6)] by blast
    ultimately have made: "decision_for cat c' qs (as @ [?a]) (tr_decision t)"
      using reviewer request pr(2) d(1,2) unfolding decision_for_def by (simp add: fields)
    obtain pt where pt: "tr_produced t = Some pt" "pt_case pt = c'" "pt_attestation pt = ?a" "pt_caseEvent pt = ev"
      using that [OF produced] by simp
    have "perform env (case_context_at ctx 1) c (AddMaterial (attestation_material (rq_attestationRequirementId r) i w ?a)) =
        Inr (c', pt_caseEvent pt)"
      unfolding pt(4) by (rule pr(6))
    moreover have "decision_for cat c' qs (as @ [pt_attestation pt]) (tr_decision t)" unfolding pt(3) by (rule made)
    ultimately show ?thesis
      by (intro exI conjI disjI2) (rule pt(1), rule pt(2), rule refl, assumption, rule d(2), assumption)
  qed
qed

lemma review_step_ok:
  assumes "review_step env cat s s'" "review_ok env cat s"
  shows "review_ok env cat s'"
  using assms(1)
proof cases
  case (changed kx cmd c' ev)
  have s': "ws_case s' = c'" "ws_requests s' = ws_requests s" "ws_decisions s' = ws_decisions s"
    "ws_attestations s' = ws_attestations s @ []"
    by (simp_all add: changed(1))
  show ?thesis
    using assms(2) performed_header [OF changed(2)] decision_kept [OF _ changed(2)] unfolding review_ok_def s' by blast
next
  case (requested ctx i q ev qs)
  have "requests.good env qs"
    using assms(2) requests.store_good [OF _ requested(4)] by (simp add: review_ok_def)
  moreover have "set (ws_requests s) \<subseteq> set qs" using requested(4) by (auto simp: request_save_Inr)
  ultimately show ?thesis
    using assms(2) more_requests requested(1) by (auto simp: review_ok_def)
next
  case (decided r ctx i t ds)
  let ?d = "tr_decision t"
  obtain c' bs where f: "tr_produced t = None \<and> c' = ws_case s \<and> bs = [] \<and> rd_resultingCaseRevision ?d = None \<or>
      (\<exists>pt kx cmd. tr_produced t = Some pt \<and> pt_case pt = c' \<and> bs = [pt_attestation pt] \<and>
         perform env kx (ws_case s) cmd = Inr (c', pt_caseEvent pt) \<and> rd_resultingCaseRevision ?d = Some (zc_revision c'))"
    "decision_for cat c' (ws_requests s) (ws_attestations s @ bs) ?d"
    using recorded_decision_for [OF decided(3,2,4), of "ws_attestations s"] by blast
  have s': "ws_case s' = c'" "ws_requests s' = ws_requests s" "ws_decisions s' = ds" "ws_attestations s' = ws_attestations s @ bs"
    using f(1) by (auto simp: decided(1) committed_def)
  have ds: "de_entries ds = de_entries (ws_decisions s) @ [?d]" using decided(5) by (simp add: decision_save_Inr)
  have good: "decisions.indexed_good env ds"
    using assms(2) decisions.indexed_store_good [OF _ decided(5)] by (simp add: review_ok_def)
  have old: "decision_for cat (ws_case s) (ws_requests s) (ws_attestations s) d" if "d \<in> set (de_entries (ws_decisions s))" for d
    using assms(2) that by (simp add: review_ok_def)
  then have kept: "decision_for cat c' (ws_requests s) (ws_attestations s @ bs) d" if "d \<in> set (de_entries (ws_decisions s))" for d
    using f(1) that decision_kept [OF old [OF that]] by auto
  have bound: "n \<le> zc_revision (ws_case s)" if "d \<in> set (de_entries (ws_decisions s))" "rd_resultingCaseRevision d = Some n" for d n
    using old [OF that(1)] that(2) by (auto simp: decision_for_def split: option.splits)
  have fresh: "rd_resultingCaseRevision d \<noteq> rd_resultingCaseRevision ?d"
    if "d \<in> set (de_entries (ws_decisions s))" "rd_resultingCaseRevision ?d \<noteq> None" for d
  proof
    assume same: "rd_resultingCaseRevision d = rd_resultingCaseRevision ?d"
    from f(1) that(2) obtain kx cmd ev where p: "perform env kx (ws_case s) cmd = Inr (c', ev)" "rd_resultingCaseRevision ?d = Some (zc_revision c')"
      by auto
    have "zc_revision c' \<le> zc_revision (ws_case s)" using bound [OF that(1)] same p(2) by simp
    then show False using performed_header [OF p(1)] by simp
  qed
  have apart: "d = e" if "d \<in> set (de_entries ds)" "e \<in> set (de_entries ds)" "rd_resultingCaseRevision d \<noteq> None"
    "rd_resultingCaseRevision d = rd_resultingCaseRevision e" for d e
  proof -
    have "d \<in> set (de_entries (ws_decisions s)) \<or> d = ?d" "e \<in> set (de_entries (ws_decisions s)) \<or> e = ?d"
      using that(1,2) by (auto simp: ds)
    moreover have "\<forall>d \<in> set (de_entries (ws_decisions s)). \<forall>e \<in> set (de_entries (ws_decisions s)).
        rd_resultingCaseRevision d \<noteq> None \<and> rd_resultingCaseRevision d = rd_resultingCaseRevision e \<longrightarrow> d = e"
      using assms(2) unfolding review_ok_def by (elim conjE)
    ultimately show ?thesis using fresh that(3,4) by metis
  qed
  have "case_wf env c'" using f(1) assms(2) performed_header unfolding review_ok_def by blast
  moreover have "decision_for cat c' (ws_requests s) (ws_attestations s @ bs) d" if "d \<in> set (de_entries ds)" for d
    using that kept f(2) by (auto simp: ds)
  moreover have "requests.good env (ws_requests s)" using assms(2) unfolding review_ok_def by (elim conjE)
  ultimately show ?thesis
    using good apart unfolding review_ok_def s' by blast
qed

lemma review_run_ok: "review_run env cat s \<Longrightarrow> review_ok env cat s"
  by (induction rule: review_run.induct) (simp_all add: no_reviews_ok review_step_ok)

end
