(* ===== verification/Readiness.thy ===== *)
theory Readiness
  imports VerificationChecks VerificationStore Reviews
begin

text \<open>
  \<open>packages/asset-protocolization/src/state-machine/\<close>: the readiness of a case.  The codes of reasons
  (\<open>readiness-reason.ts\<close>), the states and their precedence (\<open>readiness-state.ts\<close>), the assessment of a requirement
  (\<open>requirement-assessment.ts\<close>), the evaluators of the five kinds of requirement (\<open>readiness-evaluators.ts\<close>), the
  guards (\<open>readiness-validation.ts\<close>), the evaluation (\<open>readiness-operations.ts\<close>) and its projections
  (\<open>readiness-projections.ts\<close>).

  A \<open>Set\<close> is the list of its members in the order of insertion, a \<open>Map\<close> the list of its entries in the order in which
  their keys were first set.
\<close>

subsection \<open>Codes\<close>

datatype BlockerCode =
    LIFECYCLE_CANCELLED | CONDITION_UNRESOLVED | MATERIAL_MISSING | MATERIAL_INSUFFICIENT | MATERIAL_INCOMPATIBLE
  | CHECK_MISSING | CHECK_FAIL | CHECK_STALE | CHECK_UNAVAILABLE | CHECK_MANUAL_REVIEW
  | ATTESTATION_MISSING | ATTESTATION_DECISION_MISSING | ATTESTATION_UNPROVEN_ARTIFACT | ATTESTATION_TYPE_INCOMPATIBLE
  | ATTESTATION_CURRENCY_UNRESOLVED | CONSTRAINT_UNEVALUATED | REVIEW_PENDING | REVIEW_MORE_EVIDENCE_REQUIRED
  | REVIEW_REJECTED | REVIEW_CONFLICTING

datatype WarningCode = CHECK_WARNING | OPTIONAL_UNSATISFIED | CONSTRAINT_DELEGATED

datatype ReasonCode = BlockerReason BlockerCode | WarningReason WarningCode

fun blocker_text :: "BlockerCode \<Rightarrow> string" where
  "blocker_text LIFECYCLE_CANCELLED = ''lifecycle.cancelled''"
| "blocker_text CONDITION_UNRESOLVED = ''requirement.condition.unresolved''"
| "blocker_text MATERIAL_MISSING = ''requirement.material.missing''"
| "blocker_text MATERIAL_INSUFFICIENT = ''requirement.material.insufficient''"
| "blocker_text MATERIAL_INCOMPATIBLE = ''requirement.material.incompatible''"
| "blocker_text CHECK_MISSING = ''verification.missing''"
| "blocker_text CHECK_FAIL = ''verification.fail''"
| "blocker_text CHECK_STALE = ''verification.stale''"
| "blocker_text CHECK_UNAVAILABLE = ''verification.unavailable''"
| "blocker_text CHECK_MANUAL_REVIEW = ''verification.manual-review''"
| "blocker_text ATTESTATION_MISSING = ''attestation.missing''"
| "blocker_text ATTESTATION_DECISION_MISSING = ''attestation.decision.missing''"
| "blocker_text ATTESTATION_UNPROVEN_ARTIFACT = ''attestation.unproven-artifact''"
| "blocker_text ATTESTATION_TYPE_INCOMPATIBLE = ''attestation.type-incompatible''"
| "blocker_text ATTESTATION_CURRENCY_UNRESOLVED = ''attestation.currency.unresolved''"
| "blocker_text CONSTRAINT_UNEVALUATED = ''requirement.constraint.unevaluated''"
| "blocker_text REVIEW_PENDING = ''review.pending''"
| "blocker_text REVIEW_MORE_EVIDENCE_REQUIRED = ''review.more-evidence-required''"
| "blocker_text REVIEW_REJECTED = ''review.rejected''"
| "blocker_text REVIEW_CONFLICTING = ''review.conflicting''"

fun warning_text :: "WarningCode \<Rightarrow> string" where
  "warning_text CHECK_WARNING = ''verification.warning''"
| "warning_text OPTIONAL_UNSATISFIED = ''requirement.optional.unsatisfied''"
| "warning_text CONSTRAINT_DELEGATED = ''requirement.constraint.delegated''"

record ReadinessReason =
  zx_reasonCode :: ReasonCode
  zx_requirementId :: "string option"
  zx_checkId :: "string option"
  zx_executionIds :: "string list option"
  zx_decisionIds :: "string list option"
  zx_materialIds :: "string list option"
  zx_evidenceRefs :: "string list option"
  zx_attestationRefs :: "string list option"
  zx_constraint :: "string option"
  zx_required :: "int option"
  zx_observed :: "int option"
  zx_atCaseRevision :: "int option"

definition plain_reason :: "ReasonCode \<Rightarrow> ReadinessReason" where
  "plain_reason code =
     \<lparr>zx_reasonCode = code, zx_requirementId = None, zx_checkId = None, zx_executionIds = None, zx_decisionIds = None,
      zx_materialIds = None, zx_evidenceRefs = None, zx_attestationRefs = None, zx_constraint = None, zx_required = None,
      zx_observed = None, zx_atCaseRevision = None\<rparr>"

text \<open>\<open>reason\<close>; what the code spreads into the object is an update of it.\<close>

definition reason_at :: "ReasonCode \<Rightarrow> string \<Rightarrow> ReadinessReason" where
  "reason_at code requirementId = (plain_reason code)\<lparr>zx_requirementId := Some requirementId\<rparr>"

definition blocker_at :: "BlockerCode \<Rightarrow> string \<Rightarrow> ReadinessReason" where
  "blocker_at code requirementId = reason_at (BlockerReason code) requirementId"

subsection \<open>States\<close>

datatype ReadinessState =
    Ineligible | ReadinessRejected | ReadinessBlocked | MoreEvidenceRequired | EvidencePending | VerificationPending
  | ReviewPending | Ready

datatype RequirementApplicability = Applicable | ApplicabilityNone | ApplicabilityUnresolved

datatype RequirementStatus = StatusNotApplicable | StatusPending | StatusBlocked | Satisfied | SatisfiedWithWarning

definition READINESS_STATE_PRECEDENCE :: "(ReadinessState \<times> BlockerCode list) list" where
  "READINESS_STATE_PRECEDENCE =
     [(Ineligible, [LIFECYCLE_CANCELLED]),
      (ReadinessRejected, [REVIEW_REJECTED]),
      (ReadinessBlocked, [REVIEW_CONFLICTING]),
      (MoreEvidenceRequired, [REVIEW_MORE_EVIDENCE_REQUIRED]),
      (EvidencePending,
         [MATERIAL_MISSING, MATERIAL_INSUFFICIENT, MATERIAL_INCOMPATIBLE, CONSTRAINT_UNEVALUATED, CONDITION_UNRESOLVED]),
      (VerificationPending, [CHECK_MISSING, CHECK_FAIL, CHECK_STALE, CHECK_UNAVAILABLE]),
      (ReviewPending,
         [CHECK_MANUAL_REVIEW, ATTESTATION_MISSING, ATTESTATION_DECISION_MISSING, ATTESTATION_UNPROVEN_ARTIFACT,
          ATTESTATION_TYPE_INCOMPATIBLE, ATTESTATION_CURRENCY_UNRESOLVED, REVIEW_PENDING])]"

definition deriveProtocolizationReadinessState :: "ReadinessReason list \<Rightarrow> ReadinessState" where
  "deriveProtocolizationReadinessState blockers =
     (case find (\<lambda>e. list_ex (\<lambda>k. BlockerReason k \<in> zx_reasonCode ` set blockers) (snd e)) READINESS_STATE_PRECEDENCE of
        None \<Rightarrow> Ready
      | Some e \<Rightarrow> fst e)"

subsection \<open>The findings of a requirement\<close>

text \<open>The members of canonical evidence that only readiness reads.\<close>

record HeldEvidence = CanonicalEvidence +
  he_credentialRefs :: "CanonicalCredentialRef list option"
  he_registryRefs :: "CanonicalRegistryEntryRef list option"

record RequirementFindings =
  rf_materialIds :: "string list"
  rf_blockers :: "ReadinessReason list"
  rf_warnings :: "ReadinessReason list"
  rf_verificationExecutionIds :: "string list option"
  rf_reviewDecisionIds :: "string list option"
  rf_attestationRefs :: "string list option"

definition findings :: "string list \<Rightarrow> ReadinessReason list \<Rightarrow> ReadinessReason list \<Rightarrow> RequirementFindings" where
  "findings ids bs ws =
     \<lparr>rf_materialIds = ids, rf_blockers = bs, rf_warnings = ws, rf_verificationExecutionIds = None,
      rf_reviewDecisionIds = None, rf_attestationRefs = None\<rparr>"

record RequirementEvaluationContext =
  re_case :: ProtocolizationCase
  re_profile :: AssetProfile
  re_revision :: int
  re_declarations :: "DeclarationRecord list"
  re_verificationResults :: "VerificationResult list"
  re_reviewRequests :: "ProfessionalReviewRequest list"
  re_reviewDecisions :: "ProfessionalReviewDecision list"
  re_attestationsById :: "string \<rightharpoonup> CanonicalAttestation"
  re_evidenceById :: "string \<rightharpoonup> HeldEvidence"

definition js_set :: "'a list \<Rightarrow> 'a list" where
  "js_set xs = rev (remdups (rev xs))"

lemma js_set [simp]: "set (js_set xs) = set xs" "distinct (js_set xs)" "js_set xs = [] \<longleftrightarrow> xs = []"
  "length (js_set xs) = card (set xs)"
  by (simp_all add: js_set_def length_remdups_card_conv)

text \<open>Values collected under keys, each key where it was first met.\<close>

definition noted :: "'k \<Rightarrow> 'v \<Rightarrow> ('k \<times> 'v list) list \<Rightarrow> ('k \<times> 'v list) list" where
  "noted k v held = AList.update k ((case map_of held k of None \<Rightarrow> [] | Some vs \<Rightarrow> vs) @ [v]) held"

definition grouped :: "('k \<times> 'v) list \<Rightarrow> ('k \<times> 'v list) list" where
  "grouped kvs = fold (\<lambda>e. noted (fst e) (snd e)) kvs []"

definition minimumOf :: "int option \<Rightarrow> int" where
  "minimumOf declared = (case declared of Some n \<Rightarrow> if 0 < n then n else 1 | None \<Rightarrow> 1)"

definition unevaluatedConstraint :: "string \<Rightarrow> string \<Rightarrow> ReadinessReason" where
  "unevaluatedConstraint requirementId constraint =
     (blocker_at CONSTRAINT_UNEVALUATED requirementId)\<lparr>zx_constraint := Some constraint\<rparr>"

definition materials_for :: "RequirementEvaluationContext \<Rightarrow> string \<Rightarrow> ProtocolizationMaterialKind \<Rightarrow> CaseMaterial list" where
  "materials_for rx requirementId kind = materialsFor (zc_materials (re_case rx)) requirementId kind"

text \<open>\<open>required\<close> and \<open>observed\<close> of a count that falls short.\<close>

definition counted :: "BlockerCode \<Rightarrow> string \<Rightarrow> int \<Rightarrow> nat \<Rightarrow> ReadinessReason" where
  "counted code requirementId required observed =
     (blocker_at code requirementId)\<lparr>zx_required := Some required, zx_observed := Some (int observed)\<rparr>"

definition shortfall :: "string \<Rightarrow> int \<Rightarrow> nat \<Rightarrow> bool \<Rightarrow> ReadinessReason list" where
  "shortfall requirementId required observed nothing =
     (if nothing then [counted MATERIAL_MISSING requirementId required 0]
      else if int observed < required then [counted MATERIAL_INSUFFICIENT requirementId required observed]
      else [])"

subsection \<open>Identity\<close>

definition by_strategy :: "string \<Rightarrow> ProtocolizationMaterialKind option" where
  "by_strategy s =
     (if s = ''ContentIdentity'' then Some ContentIdentityMaterial
      else if s = ''ExternalReference'' then Some ExternalReferenceMaterial
      else if s = ''RegistryEntry'' then Some RegistryEntryMaterial
      else None)"

definition found_by :: "RequirementEvaluationContext \<Rightarrow> string \<Rightarrow> string \<Rightarrow> CaseMaterial list" where
  "found_by rx requirementId s =
     (case by_strategy s of None \<Rightarrow> [] | Some k \<Rightarrow> materials_for rx requirementId k)"

definition entry_conforms :: "AssetIdentityRequirement \<Rightarrow> string \<Rightarrow> CaseMaterial \<Rightarrow> bool" where
  "entry_conforms r s m \<longleftrightarrow>
     s = ''RegistryEntry'' \<longrightarrow>
       if_present (\<lambda>c. case zm_payload m of RegistryEntryPayload e \<Rightarrow> registryEntryConforms e c | _ \<Rightarrow> False) (ai_registry r)"

definition strategy_evidenced :: "RequirementEvaluationContext \<Rightarrow> string \<Rightarrow> AssetIdentityRequirement \<Rightarrow> string \<Rightarrow> bool" where
  "strategy_evidenced rx requirementId r s \<longleftrightarrow>
     list_ex (entry_conforms r s) (found_by rx requirementId s) \<or>
     s = ''ContentIdentity'' \<and> su_contentIdentity (zc_subject (re_case rx)) \<noteq> None \<or>
     s = ''ExternalReference'' \<and> sj_externalReference (su_subjectRef (zc_subject (re_case rx))) \<noteq> None"

definition evaluateIdentityRequirement ::
  "RequirementEvaluationContext \<Rightarrow> string \<Rightarrow> AssetIdentityRequirement \<Rightarrow> RequirementFindings" where
  "evaluateIdentityRequirement rx i r =
     (let strategies = ai_acceptedStrategies r;
          materials = concat (map (found_by rx i) strategies);
          nonConforming = concat (map (\<lambda>s. map zm_materialId (filter (\<lambda>m. \<not> entry_conforms r s m) (found_by rx i s))) strategies);
          evidenced = js_set (filter (strategy_evidenced rx i r) strategies);
          required = (if ai_satisfaction r = ''All'' then length strategies else 1)
      in findings (map zm_materialId materials)
           ((if nonConforming = [] then []
             else [(blocker_at MATERIAL_INCOMPATIBLE i)\<lparr>zx_constraint := Some ''registry'', zx_materialIds := Some nonConforming\<rparr>]) @
            (if ai_freshness r = None then [] else [unevaluatedConstraint i ''freshness'']) @
            shortfall i (int required) (length evidenced) (evidenced = []))
           [])"

subsection \<open>Declarations\<close>

definition claim_of :: "CaseMaterial \<Rightarrow> string" where
  "claim_of m = (case zm_payload m of DeclarationPayload k \<Rightarrow> k | _ \<Rightarrow> [])"

definition recordsByClaim :: "RequirementEvaluationContext \<Rightarrow> string \<Rightarrow> string \<rightharpoonup> DeclarationRecord" where
  "recordsByClaim rx i =
     map_of (rev (map (\<lambda>d. (dr_claimRef d, d)) (filter (\<lambda>d. i \<in> set (dr_requirementIds d)) (re_declarations rx))))"

definition claim_matches :: "AssetDeclarationRequirement \<Rightarrow> DeclarationRecord \<Rightarrow> bool" where
  "claim_matches r d \<longleftrightarrow>
     dr_claimType d = ad_claimType r \<and> (ad_claimSubtype r = None \<or> dr_claimSubtype d = ad_claimSubtype r)"

definition evaluateDeclarationRequirement ::
  "RequirementEvaluationContext \<Rightarrow> string \<Rightarrow> AssetDeclarationRequirement \<Rightarrow> RequirementFindings" where
  "evaluateDeclarationRequirement rx i r =
     (let materials = materials_for rx i DeclarationMaterial;
          fits = (\<lambda>m. if_present (claim_matches r) (recordsByClaim rx i (claim_of m)));
          incompatible = js_set (map zm_materialId (filter (\<lambda>m. \<not> fits m) materials));
          qualifying = js_set (map claim_of (filter fits materials))
      in findings (map zm_materialId materials)
           ((if incompatible = [] then [] else [(blocker_at MATERIAL_INCOMPATIBLE i)\<lparr>zx_materialIds := Some incompatible\<rparr>]) @
            shortfall i (minimumOf (ad_minimumCount r)) (length qualifying) (qualifying = []))
           [])"

subsection \<open>Standing of a check\<close>

record CheckStanding =
  st_satisfied :: bool
  st_blocker :: "ReadinessReason option"
  st_warning :: "ReadinessReason option"
  st_executionIds :: "string list"

definition standing_blocked :: "ReadinessReason \<Rightarrow> string list \<Rightarrow> CheckStanding" where
  "standing_blocked b ids = \<lparr>st_satisfied = False, st_blocker = Some b, st_warning = None, st_executionIds = ids\<rparr>"

definition standingForOutcome :: "string \<Rightarrow> VerificationResult \<Rightarrow> (ReadinessReason \<Rightarrow> ReadinessReason) \<Rightarrow> CheckStanding" where
  "standingForOutcome reportAgainst result extra =
     (let ids = [vr_executionId result];
          at = (\<lambda>code. extra ((reason_at code reportAgainst)\<lparr>zx_checkId := Some (vr_checkId result), zx_executionIds := Some ids\<rparr>));
          blocked = (\<lambda>code. standing_blocked (at (BlockerReason code)) ids);
          outcome = vr_outcome result
      in if outcome = ''Pass'' then \<lparr>st_satisfied = True, st_blocker = None, st_warning = None, st_executionIds = ids\<rparr>
         else if outcome = ''Warning''
         then \<lparr>st_satisfied = True, st_blocker = None, st_warning = Some (at (WarningReason CHECK_WARNING)), st_executionIds = ids\<rparr>
         else if outcome = ''Fail'' then blocked CHECK_FAIL
         else if outcome = ''ManualReview'' then blocked CHECK_MANUAL_REVIEW
         else if outcome = ''Unavailable'' then blocked CHECK_UNAVAILABLE
         else blocked CHECK_MISSING)"

definition results_of_pair :: "RequirementEvaluationContext \<Rightarrow> string \<Rightarrow> string \<Rightarrow> VerificationResult list" where
  "results_of_pair rx requirementId checkId =
     filter (\<lambda>r. vr_requirementId r = requirementId \<and> vr_checkId r = checkId) (re_verificationResults rx)"

definition current_results :: "host_env \<Rightarrow> RequirementEvaluationContext \<Rightarrow> string \<Rightarrow> string \<Rightarrow> VerificationResult list" where
  "current_results env rx requirementId checkId =
     listLatestVerificationResults env
       (filter (\<lambda>r. isVerificationResultCurrentForRevision r (re_revision rx)) (results_of_pair rx requirementId checkId))"

definition resolveCheckStanding ::
  "host_env \<Rightarrow> RequirementEvaluationContext \<Rightarrow> string \<Rightarrow> string \<Rightarrow> string \<Rightarrow> (ReadinessReason \<Rightarrow> ReadinessReason) \<Rightarrow> CheckStanding" where
  "resolveCheckStanding env rx declaring checkId reportAgainst extra =
     (case current_results env rx declaring checkId of
        r # rs \<Rightarrow> standingForOutcome reportAgainst r extra
      | [] \<Rightarrow>
          (let ids = map vr_executionId (results_of_pair rx declaring checkId) in
           if ids \<noteq> []
           then standing_blocked
                  (extra ((blocker_at CHECK_STALE reportAgainst)
                     \<lparr>zx_checkId := Some checkId, zx_executionIds := Some ids, zx_atCaseRevision := Some (re_revision rx)\<rparr>)) ids
           else standing_blocked (extra ((blocker_at CHECK_MISSING reportAgainst)\<lparr>zx_checkId := Some checkId\<rparr>)) []))"

definition list_of_option :: "'a option \<Rightarrow> 'a list" where
  "list_of_option x = (case x of None \<Rightarrow> [] | Some v \<Rightarrow> [v])"

subsection \<open>Evidence\<close>

definition EVIDENCE_FRESHNESS_CHECK_ID :: string where
  "EVIDENCE_FRESHNESS_CHECK_ID = ''check.evidence.freshness''"

definition declares_check :: "string \<Rightarrow> AssetRequirement \<Rightarrow> bool" where
  "declares_check checkId q \<longleftrightarrow> (case ar_shape q of VerificationShape v \<Rightarrow> checkId \<in> set (av_checkIds v) | _ \<Rightarrow> False)"

definition freshness_standings :: "host_env \<Rightarrow> RequirementEvaluationContext \<Rightarrow> string \<Rightarrow> CheckStanding list" where
  "freshness_standings env rx i =
     map (\<lambda>q. resolveCheckStanding env rx (ar_id q) EVIDENCE_FRESHNESS_CHECK_ID i (zx_constraint_update (\<lambda>x. Some ''freshness'')))
       (filter (declares_check EVIDENCE_FRESHNESS_CHECK_ID) (ap_requirements (re_profile rx)))"

text \<open>Blockers and warnings.\<close>

definition dischargeEvidenceFreshness ::
  "host_env \<Rightarrow> RequirementEvaluationContext \<Rightarrow> string \<Rightarrow> ReadinessReason list \<times> ReadinessReason list" where
  "dischargeEvidenceFreshness env rx i =
     (let standings = freshness_standings env rx i in
      if standings = [] then ([unevaluatedConstraint i ''freshness''], [])
      else
        (case find st_satisfied standings of
           Some discharged \<Rightarrow>
             ([], (reason_at (WarningReason CONSTRAINT_DELEGATED) i)
                    \<lparr>zx_constraint := Some ''freshness'', zx_checkId := Some EVIDENCE_FRESHNESS_CHECK_ID,
                     zx_executionIds := Some (st_executionIds discharged)\<rparr> #
                  concat (map (\<lambda>s. list_of_option (st_warning s)) standings))
         | None \<Rightarrow> (concat (map (\<lambda>s. list_of_option (st_blocker s)) standings), [])))"

definition evidenceCredentialConforms :: "HeldEvidence \<Rightarrow> AssetCredentialConstraint \<Rightarrow> bool" where
  "evidenceCredentialConforms e k \<longleftrightarrow>
     (let typeMatches = filter (\<lambda>c. cd_type c \<in> set (cc_acceptedTypes k)) (or_empty (he_credentialRefs e)) in
      typeMatches \<noteq> [] \<and>
      (case cc_acceptedStatuses k of
         None \<Rightarrow> True
       | Some ss \<Rightarrow> list_ex (\<lambda>c. case cd_status c of None \<Rightarrow> False | Some s \<Rightarrow> s \<in> set ss) typeMatches))"

definition evidenceRegistryConforms :: "HeldEvidence \<Rightarrow> AssetRegistryConstraint \<Rightarrow> bool" where
  "evidenceRegistryConforms e k \<longleftrightarrow> list_ex (\<lambda>g. registryEntryConforms g k) (or_empty (he_registryRefs e))"

definition evidence_of :: "CaseMaterial \<Rightarrow> string" where
  "evidence_of m = (case zm_payload m of EvidencePayload k \<Rightarrow> k | _ \<Rightarrow> [])"

definition unestablished :: "RequirementEvaluationContext \<Rightarrow> AssetEvidenceRequirement \<Rightarrow> string \<Rightarrow> string list" where
  "unestablished rx r ref =
     (if re_evidenceById rx ref = None
      then [''acceptedTypes''] @ (if ae_registry r = None then [] else [''registry'']) @
             (if ae_credential r = None then [] else [''credential''])
      else [])"

definition incompatibilities :: "RequirementEvaluationContext \<Rightarrow> AssetEvidenceRequirement \<Rightarrow> string \<Rightarrow> string list" where
  "incompatibilities rx r ref =
     (case re_evidenceById rx ref of
        None \<Rightarrow> []
      | Some e \<Rightarrow>
          unless_ok (ce_type e \<in> set (ae_acceptedTypes r)) ''acceptedTypes'' @
          unless_ok (if_present (evidenceRegistryConforms e) (ae_registry r)) ''registry'' @
          unless_ok (if_present (evidenceCredentialConforms e) (ae_credential r)) ''credential'')"

definition evidence_qualifies :: "RequirementEvaluationContext \<Rightarrow> AssetEvidenceRequirement \<Rightarrow> string \<Rightarrow> bool" where
  "evidence_qualifies rx r ref \<longleftrightarrow> re_evidenceById rx ref \<noteq> None \<and> incompatibilities rx r ref = []"

definition evaluateEvidenceRequirement ::
  "host_env \<Rightarrow> RequirementEvaluationContext \<Rightarrow> string \<Rightarrow> AssetEvidenceRequirement \<Rightarrow> RequirementFindings" where
  "evaluateEvidenceRequirement env rx i r =
     (let materials = materials_for rx i EvidenceMaterial;
          present = js_set (map evidence_of materials);
          freshness = (if ae_freshness r = None then ([], []) else dischargeEvidenceFreshness env rx i);
          pairs = (\<lambda>f. concat (map (\<lambda>ref. map (\<lambda>k. (k, ref)) (f ref)) present));
          qualifying = filter (evidence_qualifies rx r) present
      in findings (map zm_materialId materials)
           (fst freshness @
            (if ae_acceptedSubtypes r = None then [] else [unevaluatedConstraint i ''acceptedSubtypes'']) @
            map (\<lambda>e. (unevaluatedConstraint i (fst e))\<lparr>zx_evidenceRefs := Some (snd e)\<rparr>) (grouped (pairs (unestablished rx r))) @
            map (\<lambda>e. (blocker_at MATERIAL_INCOMPATIBLE i)\<lparr>zx_constraint := Some (fst e), zx_evidenceRefs := Some (snd e)\<rparr>)
              (grouped (pairs (incompatibilities rx r))) @
            shortfall i (minimumOf (ae_minimumCount r)) (length qualifying) (present = []))
           (snd freshness))"

subsection \<open>Verification\<close>

definition evaluateVerificationRequirement ::
  "host_env \<Rightarrow> RequirementEvaluationContext \<Rightarrow> string \<Rightarrow> AssetVerificationRequirement \<Rightarrow> RequirementFindings" where
  "evaluateVerificationRequirement env rx i r =
     (let standings = map (\<lambda>k. resolveCheckStanding env rx i k i id) (av_checkIds r);
          satisfiedCount = length (filter st_satisfied standings);
          satisfied = (if av_satisfaction r = ''All'' then satisfiedCount = length (av_checkIds r) else 0 < satisfiedCount);
          warnings = concat (map (\<lambda>s. list_of_option (st_warning s)) standings);
          freshnessBlockers = (if av_freshness r = None then [] else [unevaluatedConstraint i ''freshness'']);
          unsatisfiedReasons = concat (map (\<lambda>s. if st_satisfied s then [] else list_of_option (st_blocker s)) standings)
      in (findings []
            (if satisfied then freshnessBlockers else freshnessBlockers @ unsatisfiedReasons)
            (if satisfied then warnings @ unsatisfiedReasons else warnings))
           \<lparr>rf_verificationExecutionIds := Some (concat (map st_executionIds standings))\<rparr>)"

subsection \<open>Attestation\<close>

definition attestation_ref :: "CaseMaterial \<Rightarrow> string" where
  "attestation_ref m = (case zm_payload m of AttestationPayload k \<Rightarrow> k | _ \<Rightarrow> [])"

definition decision_behind :: "string \<Rightarrow> CaseMaterial \<Rightarrow> ProfessionalReviewDecision \<Rightarrow> bool" where
  "decision_behind i m d \<longleftrightarrow>
     rd_action d = ''Attest'' \<and> rd_attestationRequirementId d = i \<and> rd_attestationMaterialId d = Some (zm_materialId m) \<and>
     rd_canonicalAttestationRef d = Some (attestation_ref m) \<and> map_option sp_requirementId (rd_scope d) = Some i"

definition proven :: "RequirementEvaluationContext \<Rightarrow> string \<Rightarrow> bool" where
  "proven rx ref \<longleftrightarrow>
     (case re_attestationsById rx ref of
        None \<Rightarrow> False
      | Some a \<Rightarrow> (case ca_proofRefs a of None \<Rightarrow> False | Some ps \<Rightarrow> ps \<noteq> [] \<and> list_all isUsableProofRef ps))"

definition qualifyingAttestation ::
  "RequirementEvaluationContext \<Rightarrow> string \<Rightarrow> AssetAttestationRequirement \<Rightarrow> CaseMaterial \<Rightarrow>
     BlockerCode + ProfessionalReviewDecision" where
  "qualifyingAttestation rx i r m =
     (if payload_kind (zm_payload m) \<noteq> AttestationMaterial then Inl ATTESTATION_DECISION_MISSING
      else case find (decision_behind i m) (re_reviewDecisions rx) of
        None \<Rightarrow> Inl ATTESTATION_DECISION_MISSING
      | Some d \<Rightarrow>
          (if (case rd_scope d of None \<Rightarrow> True | Some s \<Rightarrow> sp_attestationType s \<notin> set (aa_acceptedTypes r))
           then Inl ATTESTATION_TYPE_INCOMPATIBLE
           else if \<not> proven rx (attestation_ref m) then Inl ATTESTATION_UNPROVEN_ARTIFACT
           else Inr d))"

definition coversCurrentRevision :: "RequirementEvaluationContext \<Rightarrow> string \<Rightarrow> int \<Rightarrow> bool" where
  "coversCurrentRevision rx i coveredThrough \<longleftrightarrow>
     list_all (\<lambda>n. list_ex (\<lambda>d. rd_action d = ''Attest'' \<and> rd_attestationRequirementId d \<noteq> i \<and> rd_resultingCaseRevision d = Some n)
                     (re_reviewDecisions rx))
       [coveredThrough + 1 .. re_revision rx]"

definition coveredThrough :: "ProfessionalReviewDecision \<Rightarrow> int" where
  "coveredThrough d = (case rd_resultingCaseRevision d of Some n \<Rightarrow> n | None \<Rightarrow> rd_reviewBasisRevision d)"

definition currentDecisions :: "RequirementEvaluationContext \<Rightarrow> string \<Rightarrow> ProfessionalReviewDecision list" where
  "currentDecisions rx i =
     (let forRequirement = filter (\<lambda>d. rd_attestationRequirementId d = i) (re_reviewDecisions rx) in
      filter (\<lambda>d. rd_reviewBasisRevision d = Max (set (map rd_reviewBasisRevision forRequirement))) forRequirement)"

text \<open>The qualifying material with its decision, and the material that does not qualify under its code.\<close>

definition attested :: "RequirementEvaluationContext \<Rightarrow> string \<Rightarrow> AssetAttestationRequirement \<Rightarrow> (CaseMaterial \<times> ProfessionalReviewDecision) list" where
  "attested rx i r =
     concat (map (\<lambda>m. case qualifyingAttestation rx i r m of Inr d \<Rightarrow> [(m, d)] | Inl k \<Rightarrow> [])
       (materials_for rx i AttestationMaterial))"

definition unqualified :: "RequirementEvaluationContext \<Rightarrow> string \<Rightarrow> AssetAttestationRequirement \<Rightarrow> (BlockerCode \<times> string) list" where
  "unqualified rx i r =
     concat (map (\<lambda>m. case qualifyingAttestation rx i r m of Inr d \<Rightarrow> [] | Inl k \<Rightarrow> [(k, zm_materialId m)])
       (materials_for rx i AttestationMaterial))"

definition position_reasons :: "string \<Rightarrow> ProfessionalReviewDecision list \<Rightarrow> ReadinessReason list" where
  "position_reasons i current =
     (let actions = js_set (map rd_action current);
          named = (\<lambda>code. (blocker_at code i)\<lparr>zx_decisionIds := Some (map rd_decisionId current)\<rparr>)
      in if 1 < length actions
         then [(named REVIEW_CONFLICTING)\<lparr>zx_atCaseRevision := Some (rd_reviewBasisRevision (hd current))\<rparr>]
         else if ''Reject'' \<in> set actions then [named REVIEW_REJECTED]
         else if ''RequestMoreEvidence'' \<in> set actions then [named REVIEW_MORE_EVIDENCE_REQUIRED]
         else if ''Abstain'' \<in> set actions then [named REVIEW_PENDING]
         else [])"

definition undecided_requests :: "RequirementEvaluationContext \<Rightarrow> string \<Rightarrow> ProfessionalReviewRequest list" where
  "undecided_requests rx i =
     filter (\<lambda>q. rq_attestationRequirementId q = i \<and>
        \<not> list_ex (\<lambda>d. rd_reviewRequestId d = rq_reviewRequestId q) (re_reviewDecisions rx)) (re_reviewRequests rx)"

definition evaluateAttestationRequirement ::
  "RequirementEvaluationContext \<Rightarrow> string \<Rightarrow> AssetAttestationRequirement \<Rightarrow> RequirementFindings" where
  "evaluateAttestationRequirement rx i r =
     (let materials = materials_for rx i AttestationMaterial;
          minimum = minimumOf (aa_minimumCount r);
          qualified = attested rx i r;
          covers = (\<lambda>e. coversCurrentRevision rx i (coveredThrough (snd e)));
          currentRefs = js_set (map (\<lambda>e. attestation_ref (fst e)) (filter covers qualified));
          stale = filter (\<lambda>e. \<not> covers e) qualified;
          short = int (length currentRefs) < minimum;
          current = currentDecisions rx i;
          decisionIds = js_set (map rd_decisionId current @ js_set (map (\<lambda>e. rd_decisionId (snd e)) qualified))
      in (findings (map zm_materialId materials)
            ((if aa_freshness r = None then [] else [unevaluatedConstraint i ''freshness'']) @
             map (\<lambda>e. (blocker_at (fst e) i)\<lparr>zx_materialIds := Some (snd e)\<rparr>) (grouped (unqualified rx i r)) @
             (if short \<and> stale \<noteq> []
              then [(blocker_at ATTESTATION_CURRENCY_UNRESOLVED i)
                      \<lparr>zx_decisionIds := Some (map (\<lambda>e. rd_decisionId (snd e)) stale),
                       zx_attestationRefs := Some (map (\<lambda>e. attestation_ref (fst e)) stale),
                       zx_atCaseRevision := Some (Max (set (map (\<lambda>e. coveredThrough (snd e)) stale)))\<rparr>]
              else []) @
             position_reasons i current @
             (if short
              then (if materials = [] then [counted ATTESTATION_MISSING i minimum 0]
                    else if currentRefs \<noteq> [] then [counted ATTESTATION_MISSING i minimum (length currentRefs)]
                    else []) @
                   (if undecided_requests rx i \<noteq> [] then [blocker_at REVIEW_PENDING i] else [])
              else []))
            [])
           \<lparr>rf_reviewDecisionIds := (if decisionIds = [] then None else Some decisionIds),
            rf_attestationRefs := (if currentRefs = [] then None else Some currentRefs)\<rparr>)"

definition evaluateRequirement ::
  "host_env \<Rightarrow> RequirementEvaluationContext \<Rightarrow> AssetRequirement \<Rightarrow> RequirementFindings" where
  "evaluateRequirement env rx q =
     (case ar_shape q of
        IdentityShape r \<Rightarrow> evaluateIdentityRequirement rx (ar_id q) r
      | DeclarationShape r \<Rightarrow> evaluateDeclarationRequirement rx (ar_id q) r
      | EvidenceShape r \<Rightarrow> evaluateEvidenceRequirement env rx (ar_id q) r
      | VerificationShape r \<Rightarrow> evaluateVerificationRequirement env rx (ar_id q) r
      | AttestationShape r \<Rightarrow> evaluateAttestationRequirement rx (ar_id q) r)"

end
