(* ===== verification/ReadinessEvaluation.thy ===== *)
theory ReadinessEvaluation
  imports Readiness
begin

text \<open>
  \<open>packages/asset-protocolization/src/state-machine/\<close>: the guards of an evaluation (\<open>readiness-validation.ts\<close>,
  \<open>readiness-errors.ts\<close>), the assessment of a requirement and the evaluation of a case (\<open>readiness-operations.ts\<close>,
  \<open>requirement-assessment.ts\<close>, \<open>readiness-evaluation.ts\<close>), and the projections of an evaluation
  (\<open>readiness-projections.ts\<close>).
\<close>

subsection \<open>Errors\<close>

datatype ReadinessErrorCode =
    READINESS_TENANT_REQUIRED | READINESS_TENANT_MISMATCH | READINESS_CASE_INVALID | READINESS_PROFILE_NOT_FOUND
  | READINESS_PROFILE_MISMATCH | READINESS_INPUT_TENANT_MISMATCH | READINESS_INPUT_CASE_MISMATCH
  | READINESS_INPUT_PROFILE_MISMATCH | READINESS_REQUIREMENT_KIND_UNSUPPORTED | READINESS_TIMESTAMP_INVALID

datatype readiness_reason = ReadinessIssue CaseIssue | ReadinessCode ReadinessErrorCode

record ReadinessErrorDetails =
  rz_reasonCodes :: "readiness_reason list"
  rz_tenantId :: "string option"
  rz_caseId :: "string option"
  rz_profile :: "ProtocolizationProfileRef option"
  rz_requirementIds :: "string list option"

datatype readiness_error = ReadinessError ReadinessErrorCode ReadinessErrorDetails

text \<open>\<open>fail\<close>, with the code alone and with what it says of the case.\<close>

definition readiness_fault :: "ReadinessErrorCode \<Rightarrow> readiness_error" where
  "readiness_fault code =
     ReadinessError code
       \<lparr>rz_reasonCodes = [ReadinessCode code], rz_tenantId = None, rz_caseId = None, rz_profile = None, rz_requirementIds = None\<rparr>"

definition readiness_case_fault ::
  "ReadinessErrorCode \<Rightarrow> string \<Rightarrow> string \<Rightarrow> ProtocolizationProfileRef option \<Rightarrow> readiness_error" where
  "readiness_case_fault code tenantId caseId profile =
     ReadinessError code
       \<lparr>rz_reasonCodes = [ReadinessCode code], rz_tenantId = Some tenantId, rz_caseId = Some caseId, rz_profile = profile,
        rz_requirementIds = None\<rparr>"

subsection \<open>Guards\<close>

record ReadinessInputs =
  rn_evidenceReceipts :: "EvidenceIntakeReceipt list option"
  rn_evidence :: "HeldEvidence list option"
  rn_declarations :: "DeclarationRecord list option"
  rn_verificationResults :: "VerificationResult list option"
  rn_reviewRequests :: "ProfessionalReviewRequest list option"
  rn_reviewDecisions :: "ProfessionalReviewDecision list option"
  rn_attestations :: "CanonicalAttestation list option"

definition readiness_tenant_gate :: "CaseContext \<Rightarrow> ProtocolizationCase \<Rightarrow> readiness_error option" where
  "readiness_tenant_gate ctx c =
     (if \<not> isValidProtocolizationTenantId (cx_tenantId ctx) then Some (readiness_fault READINESS_TENANT_REQUIRED)
      else failing (zc_tenantId c \<noteq> cx_tenantId ctx)
             (readiness_case_fault READINESS_TENANT_MISMATCH (cx_tenantId ctx) (zc_caseId c) None))"

definition readiness_case_gate :: "host_env \<Rightarrow> ProtocolizationCase \<Rightarrow> AssetProfile \<Rightarrow> readiness_error option" where
  "readiness_case_gate env c p =
     (let issues = validateProtocolizationCase env c (Some p) in
      failing (issues \<noteq> [])
        (ReadinessError READINESS_CASE_INVALID
           \<lparr>rz_reasonCodes = map (\<lambda>i. ReadinessIssue (fst i)) issues, rz_tenantId = Some (zc_tenantId c),
            rz_caseId = Some (zc_caseId c), rz_profile = Some (zc_profile c), rz_requirementIds = None\<rparr>))"

definition readiness_profile :: "CaseContext \<Rightarrow> ProtocolizationCase \<Rightarrow> readiness_error + AssetProfile" where
  "readiness_profile ctx c =
     (case cx_catalog ctx (pr_profileId (zc_profile c)) (pr_profileVersion (zc_profile c)) of
        None \<Rightarrow> Inl (readiness_case_fault READINESS_PROFILE_NOT_FOUND (zc_tenantId c) (zc_caseId c) (Some (zc_profile c)))
      | Some p \<Rightarrow>
          unless_error (failing (\<not> protocolizationProfileRefsEqual (zc_profile c) (profile_ref_of p))
                          (readiness_case_fault READINESS_PROFILE_MISMATCH (zc_tenantId c) (zc_caseId c) (Some (zc_profile c))))
            (Inr p))"

definition scopedRecords :: "ReadinessInputs \<Rightarrow> (string \<times> string \<times> ProtocolizationProfileRef) list" where
  "scopedRecords i =
     map (\<lambda>r. (er_tenantId r, er_caseId r, er_profile r)) (or_empty (rn_evidenceReceipts i)) @
     map (\<lambda>r. (dr_tenantId r, dr_caseId r, dr_profile r)) (or_empty (rn_declarations i)) @
     map (\<lambda>r. (vr_tenantId r, vr_caseId r, vr_profile r)) (or_empty (rn_verificationResults i)) @
     map (\<lambda>r. (rq_tenantId r, rq_caseId r, rq_profile r)) (or_empty (rn_reviewRequests i)) @
     map (\<lambda>r. (rd_tenantId r, rd_caseId r, rd_profile r)) (or_empty (rn_reviewDecisions i))"

definition readiness_inputs_gate :: "CaseContext \<Rightarrow> ProtocolizationCase \<Rightarrow> ReadinessInputs \<Rightarrow> readiness_error option" where
  "readiness_inputs_gate ctx c i =
     (let records = scopedRecords i; named = (\<lambda>code. readiness_case_fault code (cx_tenantId ctx) (zc_caseId c)) in
      if list_ex (\<lambda>r. fst r \<noteq> cx_tenantId ctx) records then Some (named READINESS_INPUT_TENANT_MISMATCH None)
      else if list_ex (\<lambda>r. fst (snd r) \<noteq> zc_caseId c) records then Some (named READINESS_INPUT_CASE_MISMATCH None)
      else failing (list_ex (\<lambda>r. \<not> protocolizationProfileRefsEqual (snd (snd r)) (zc_profile c)) records)
             (named READINESS_INPUT_PROFILE_MISMATCH (Some (zc_profile c))))"

definition readEvaluationInstant :: "host_env \<Rightarrow> CaseContext \<Rightarrow> ProtocolizationCase \<Rightarrow> readiness_error + string" where
  "readEvaluationInstant env ctx c =
     unless_error (failing (\<not> isValidUtcDateTime env (cx_now ctx))
                     (readiness_case_fault READINESS_TIMESTAMP_INVALID (zc_tenantId c) (zc_caseId c) None))
       (Inr (cx_now ctx))"

definition withinEvaluatedRevision :: "int \<Rightarrow> int \<Rightarrow> bool" where
  "withinEvaluatedRevision recorded evaluated \<longleftrightarrow> recorded \<le> evaluated"

subsection \<open>Assessments\<close>

record RequirementAssessment =
  qa_requirementId :: string
  qa_kind :: AssetRequirementKind
  qa_obligation :: AssetRequirementObligation
  qa_applicability :: RequirementApplicability
  qa_materialStatus :: MaterialStatus
  qa_status :: RequirementStatus
  qa_materialIds :: "string list"
  qa_verificationExecutionIds :: "string list option"
  qa_reviewDecisionIds :: "string list option"
  qa_attestationRefs :: "string list option"
  qa_blockers :: "ReadinessReason list"
  qa_warnings :: "ReadinessReason list"

definition AFFIRMATIVELY_BLOCKING :: "BlockerCode list" where
  "AFFIRMATIVELY_BLOCKING = [CHECK_FAIL, REVIEW_REJECTED, REVIEW_CONFLICTING]"

definition QUALIFIES_SATISFACTION :: "WarningCode list" where
  "QUALIFIES_SATISFACTION = [CHECK_WARNING]"

fun applicabilityOf :: "AssetRequirementObligation \<Rightarrow> RequirementApplicability" where
  "applicabilityOf NotRequired = ApplicabilityNone"
| "applicabilityOf Conditional = ApplicabilityUnresolved"
| "applicabilityOf obligation = Applicable"

definition materialStatusOf :: "ProtocolizationCase \<Rightarrow> string \<Rightarrow> MaterialStatus" where
  "materialStatusOf c i =
     (case find (\<lambda>s. zr_requirementId s = i) (zc_requirementStates c) of None \<Rightarrow> Pending | Some s \<Rightarrow> zr_materialStatus s)"

definition statusFor :: "ReadinessReason list \<Rightarrow> ReadinessReason list \<Rightarrow> RequirementStatus" where
  "statusFor blockers warnings =
     (if blockers \<noteq> []
      then if list_ex (\<lambda>b. zx_reasonCode b \<in> BlockerReason ` set AFFIRMATIVELY_BLOCKING) blockers then StatusBlocked else StatusPending
      else if list_ex (\<lambda>w. zx_reasonCode w \<in> WarningReason ` set QUALIFIES_SATISFACTION) warnings then SatisfiedWithWarning
      else Satisfied)"

definition assess :: "ProtocolizationCase \<Rightarrow> AssetRequirement \<Rightarrow> RequirementFindings \<Rightarrow> RequirementAssessment" where
  "assess c q f =
     (let answer = (\<lambda>status blockers warnings.
            \<lparr>qa_requirementId = ar_id q, qa_kind = ar_kind q, qa_obligation = ar_obligation q,
             qa_applicability = applicabilityOf (ar_obligation q), qa_materialStatus = materialStatusOf c (ar_id q),
             qa_status = status, qa_materialIds = rf_materialIds f,
             qa_verificationExecutionIds =
               (if rf_verificationExecutionIds f = Some [] then None else rf_verificationExecutionIds f),
             qa_reviewDecisionIds = rf_reviewDecisionIds f, qa_attestationRefs = rf_attestationRefs f,
             qa_blockers = blockers, qa_warnings = warnings\<rparr>)
      in if applicabilityOf (ar_obligation q) = ApplicabilityNone then answer StatusNotApplicable [] []
         else if ar_obligation q = Conditional
         then answer StatusPending [blocker_at CONDITION_UNRESOLVED (ar_id q)] (rf_warnings f @ rf_blockers f)
         else if ar_obligation q = Optional
         then (let unmet = rf_blockers f \<noteq> [];
                   warnings = (if unmet
                               then reason_at (WarningReason OPTIONAL_UNSATISFIED) (ar_id q) # rf_warnings f @ rf_blockers f
                               else rf_warnings f)
               in answer (if unmet then StatusPending else statusFor [] warnings) [] warnings)
         else answer (statusFor (rf_blockers f) (rf_warnings f)) (rf_blockers f) (rf_warnings f))"

definition isBlockingObligation :: "AssetRequirementObligation \<Rightarrow> bool" where
  "isBlockingObligation obligation \<longleftrightarrow> obligation = Required \<or> obligation = Conditional"

subsection \<open>The evaluation\<close>

definition indexAttestations :: "CanonicalAttestation list \<Rightarrow> string \<rightharpoonup> CanonicalAttestation" where
  "indexAttestations xs = map_of (map (\<lambda>a. (ca_id a, a)) xs)"

definition indexEvidence :: "HeldEvidence list \<Rightarrow> string \<rightharpoonup> HeldEvidence" where
  "indexEvidence xs = map_of (map (\<lambda>e. (ce_id e, e)) xs)"

definition evaluation_context :: "ProtocolizationCase \<Rightarrow> AssetProfile \<Rightarrow> ReadinessInputs \<Rightarrow> RequirementEvaluationContext" where
  "evaluation_context c p i =
     (let n = zc_revision c in
      \<lparr>re_case = c, re_profile = p, re_revision = n,
       re_declarations = filter (\<lambda>r. withinEvaluatedRevision (dr_caseRevision r) n) (or_empty (rn_declarations i)),
       re_verificationResults = filter (\<lambda>r. withinEvaluatedRevision (vr_evaluatedCaseRevision r) n) (or_empty (rn_verificationResults i)),
       re_reviewRequests = filter (\<lambda>r. withinEvaluatedRevision (rq_reviewBasisRevision r) n) (or_empty (rn_reviewRequests i)),
       re_reviewDecisions = filter (\<lambda>r. withinEvaluatedRevision (rd_reviewBasisRevision r) n) (or_empty (rn_reviewDecisions i)),
       re_attestationsById = indexAttestations (or_empty (rn_attestations i)),
       re_evidenceById = indexEvidence (or_empty (rn_evidence i))\<rparr>)"

record ReadinessEvaluation =
  rl_schemaVersion :: string
  rl_tenantId :: string
  rl_caseId :: string
  rl_profile :: ProtocolizationProfileRef
  rl_caseState :: ProtocolizationCaseState
  rl_evaluatedCaseRevision :: int
  rl_state :: ReadinessState
  rl_ready :: bool
  rl_requirementAssessments :: "RequirementAssessment list"
  rl_blockers :: "ReadinessReason list"
  rl_warnings :: "ReadinessReason list"
  rl_evaluatedAt :: string

definition PROTOCOLIZATION_READINESS_EVALUATION_SCHEMA_VERSION :: string where
  "PROTOCOLIZATION_READINESS_EVALUATION_SCHEMA_VERSION = ''aoc-protocolization-readiness/1''"

definition evaluation_of ::
  "host_env \<Rightarrow> ProtocolizationCase \<Rightarrow> AssetProfile \<Rightarrow> ReadinessInputs \<Rightarrow> string \<Rightarrow> ReadinessEvaluation" where
  "evaluation_of env c p i now =
     (let rx = evaluation_context c p i;
          assessments = map (\<lambda>q. assess c q (evaluateRequirement env rx q)) (ap_requirements p);
          lifecycle = (if zc_state c = Cancelled then [plain_reason (BlockerReason LIFECYCLE_CANCELLED)] else []);
          blockers = lifecycle @ concat (map qa_blockers assessments);
          state = deriveProtocolizationReadinessState blockers
      in \<lparr>rl_schemaVersion = PROTOCOLIZATION_READINESS_EVALUATION_SCHEMA_VERSION, rl_tenantId = zc_tenantId c,
          rl_caseId = zc_caseId c, rl_profile = zc_profile c, rl_caseState = zc_state c,
          rl_evaluatedCaseRevision = zc_revision c, rl_state = state, rl_ready = (state = Ready),
          rl_requirementAssessments = assessments, rl_blockers = blockers,
          rl_warnings = concat (map qa_warnings assessments), rl_evaluatedAt = now\<rparr>)"

definition evaluateProtocolizationReadiness ::
  "host_env \<Rightarrow> CaseContext \<Rightarrow> ProtocolizationCase \<Rightarrow> ReadinessInputs \<Rightarrow> readiness_error + ReadinessEvaluation" where
  "evaluateProtocolizationReadiness env ctx c i =
     unless_error (readiness_tenant_gate ctx c)
     (bind_sum (readiness_profile ctx c) (\<lambda>p.
      unless_error (readiness_case_gate env c p)
     (unless_error (readiness_inputs_gate ctx c i)
     (bind_sum (readEvaluationInstant env ctx c) (\<lambda>now. Inr (evaluation_of env c p i now))))))"

subsection \<open>Projections\<close>

definition getProtocolizationRequirementAssessment :: "ReadinessEvaluation \<Rightarrow> string \<Rightarrow> RequirementAssessment option" where
  "getProtocolizationRequirementAssessment e i = find (\<lambda>a. qa_requirementId a = i) (rl_requirementAssessments e)"

record ReadinessReasonFilter =
  rm_requirementId :: "string option"
  rm_reasonCode :: "ReasonCode option"

definition passes_reason_filter :: "ReadinessReasonFilter \<Rightarrow> ReadinessReason \<Rightarrow> bool" where
  "passes_reason_filter f b \<longleftrightarrow>
     (rm_requirementId f = None \<or> zx_requirementId b = rm_requirementId f) \<and>
     if_present (\<lambda>k. zx_reasonCode b = k) (rm_reasonCode f)"

definition listProtocolizationReadinessBlockers :: "ReadinessEvaluation \<Rightarrow> ReadinessReasonFilter \<Rightarrow> ReadinessReason list" where
  "listProtocolizationReadinessBlockers e f = filter (passes_reason_filter f) (rl_blockers e)"

definition listProtocolizationReadinessWarnings :: "ReadinessEvaluation \<Rightarrow> ReadinessReasonFilter \<Rightarrow> ReadinessReason list" where
  "listProtocolizationReadinessWarnings e f = filter (passes_reason_filter f) (rl_warnings e)"

definition isProtocolizationReadinessCurrentForCase :: "ReadinessEvaluation \<Rightarrow> ProtocolizationCase \<Rightarrow> bool" where
  "isProtocolizationReadinessCurrentForCase e c \<longleftrightarrow>
     rl_tenantId e = zc_tenantId c \<and> rl_caseId e = zc_caseId c \<and> protocolizationProfileRefsEqual (rl_profile e) (zc_profile c) \<and>
     rl_evaluatedCaseRevision e = zc_revision c"

subsection \<open>What an evaluation needs\<close>

definition inputs_of_case :: "ProtocolizationCase \<Rightarrow> ReadinessInputs \<Rightarrow> bool" where
  "inputs_of_case c i \<longleftrightarrow>
     (\<forall>r \<in> set (scopedRecords i). r = (zc_tenantId c, zc_caseId c, zc_profile c))"

lemma same_profile_ref [simp]: "protocolizationProfileRefsEqual a b \<longleftrightarrow> a = b"
  by (auto simp: protocolizationProfileRefsEqual_def)

lemma tenant_gate_None [simp]:
  "readiness_tenant_gate ctx c = None \<longleftrightarrow> isValidProtocolizationTenantId (cx_tenantId ctx) \<and> zc_tenantId c = cx_tenantId ctx"
  by (auto simp: readiness_tenant_gate_def)

lemma case_gate_None [simp]: "readiness_case_gate env c p = None \<longleftrightarrow> isValidProtocolizationCase env c (Some p)"
  by (simp add: readiness_case_gate_def Let_def isValidProtocolizationCase_def)

lemma inputs_gate_None:
  "zc_tenantId c = cx_tenantId ctx \<Longrightarrow> readiness_inputs_gate ctx c i = None \<longleftrightarrow> inputs_of_case c i"
  by (auto simp: readiness_inputs_gate_def Let_def inputs_of_case_def list_ex_iff prod_eq_iff)

lemma evaluate_Inr:
  "evaluateProtocolizationReadiness env ctx c i = Inr e \<longleftrightarrow>
     (\<exists>p. isValidProtocolizationTenantId (zc_tenantId c) \<and> zc_tenantId c = cx_tenantId ctx \<and>
        cx_catalog ctx (pr_profileId (zc_profile c)) (pr_profileVersion (zc_profile c)) = Some p \<and> zc_profile c = profile_ref_of p \<and>
        isValidProtocolizationCase env c (Some p) \<and> inputs_of_case c i \<and> isValidUtcDateTime env (cx_now ctx) \<and>
        e = evaluation_of env c p i (cx_now ctx))"
proof (cases "zc_tenantId c = cx_tenantId ctx")
  case True
  then show ?thesis
    by (auto simp: evaluateProtocolizationReadiness_def bind_sum_Inr readiness_profile_def readEvaluationInstant_def
        inputs_gate_None split: option.splits)
qed (simp add: evaluateProtocolizationReadiness_def)

end
