(* ===== verification/ReadinessMeaning.thy ===== *)
theory ReadinessMeaning
  imports ReadinessEvaluation ReviewStore
begin

text \<open>
  What the readiness of a case means: an abstract specification of each kind of requirement over the case and its
  records, that the evaluators have blockers exactly where the specification fails, and what follows for the state.
\<close>

subsection \<open>Blockers are blockers\<close>

definition blocks :: "ReadinessReason \<Rightarrow> bool" where
  "blocks b \<longleftrightarrow> (\<exists>k. zx_reasonCode b = BlockerReason k)"

named_theorems reason_codes "the code of a reason the evaluators build"

lemma reason_code [reason_codes]:
  "zx_reasonCode (plain_reason k) = k" "zx_reasonCode (reason_at k i) = k" "zx_reasonCode (blocker_at b i) = BlockerReason b"
  "zx_reasonCode (counted b i m n) = BlockerReason b" "zx_reasonCode (unevaluatedConstraint i s) = BlockerReason CONSTRAINT_UNEVALUATED"
  by (simp_all add: plain_reason_def reason_at_def blocker_at_def counted_def unevaluatedConstraint_def)

definition present_code :: "BlockerCode \<Rightarrow> ReadinessReason list \<Rightarrow> bool" where
  "present_code k bs \<longleftrightarrow> BlockerReason k \<in> zx_reasonCode ` set bs"

lemma not_ready:
  assumes "present_code k bs"
  shows "deriveProtocolizationReadinessState bs \<noteq> Ready"
proof -
  have k: "BlockerReason k \<in> zx_reasonCode ` set bs" using assms by (simp add: present_code_def)
  have "\<exists>e \<in> set READINESS_STATE_PRECEDENCE. k \<in> set (snd e)"
    by (cases k) (simp_all add: READINESS_STATE_PRECEDENCE_def)
  then obtain e where "e \<in> set READINESS_STATE_PRECEDENCE" "k \<in> set (snd e)" by blast
  with k have "find (\<lambda>e. list_ex (\<lambda>k. BlockerReason k \<in> zx_reasonCode ` set bs) (snd e)) READINESS_STATE_PRECEDENCE \<noteq> None"
    unfolding find_None_iff list_ex_iff by blast
  then obtain e where e: "find (\<lambda>e. list_ex (\<lambda>k. BlockerReason k \<in> zx_reasonCode ` set bs) (snd e)) READINESS_STATE_PRECEDENCE = Some e"
    by auto
  then have "e \<in> set READINESS_STATE_PRECEDENCE" by (auto simp: find_Some_iff)
  moreover have "deriveProtocolizationReadinessState bs = fst e" by (simp only: deriveProtocolizationReadinessState_def e option.case)
  ultimately show ?thesis by (auto simp: READINESS_STATE_PRECEDENCE_def)
qed

lemma state_ready:
  assumes "list_all blocks bs"
  shows "deriveProtocolizationReadinessState bs = Ready \<longleftrightarrow> bs = []"
proof (cases bs)
  case Nil
  then show ?thesis by (simp add: deriveProtocolizationReadinessState_def READINESS_STATE_PRECEDENCE_def)
next
  case (Cons b bs')
  then obtain k where "zx_reasonCode b = BlockerReason k" using assms by (auto simp: blocks_def)
  with Cons have "present_code k bs" by (simp add: present_code_def)
  from not_ready [OF this] Cons show ?thesis by simp
qed

lemma state_precedence:
  "deriveProtocolizationReadinessState bs = Ineligible \<longleftrightarrow> present_code LIFECYCLE_CANCELLED bs"
  "deriveProtocolizationReadinessState bs = ReadinessRejected \<longleftrightarrow>
     \<not> present_code LIFECYCLE_CANCELLED bs \<and> present_code REVIEW_REJECTED bs"
  "deriveProtocolizationReadinessState bs = ReadinessBlocked \<longleftrightarrow>
     \<not> present_code LIFECYCLE_CANCELLED bs \<and> \<not> present_code REVIEW_REJECTED bs \<and> present_code REVIEW_CONFLICTING bs"
  "deriveProtocolizationReadinessState bs = MoreEvidenceRequired \<longleftrightarrow>
     \<not> present_code LIFECYCLE_CANCELLED bs \<and> \<not> present_code REVIEW_REJECTED bs \<and> \<not> present_code REVIEW_CONFLICTING bs \<and>
     present_code REVIEW_MORE_EVIDENCE_REQUIRED bs"
  by (simp_all add: deriveProtocolizationReadinessState_def READINESS_STATE_PRECEDENCE_def present_code_def del: image_iff)

lemma shortfall_code: "present_code k (shortfall i m n nothing) \<Longrightarrow> k = MATERIAL_MISSING \<or> k = MATERIAL_INSUFFICIENT"
  by (auto simp: shortfall_def present_code_def reason_codes split: if_splits)

lemma shortfall_blocks [simp]: "list_all blocks (shortfall i m n nothing)"
  by (simp add: shortfall_def blocks_def reason_codes)

lemma shortfall_nil [simp]: "shortfall i m n nothing = [] \<longleftrightarrow> \<not> nothing \<and> m \<le> int n"
  by (simp add: shortfall_def)

lemma present_append [simp]:
  "present_code k (xs @ ys) \<longleftrightarrow> present_code k xs \<or> present_code k ys" "\<not> present_code k []"
  "present_code k (b # bs) \<longleftrightarrow> zx_reasonCode b = BlockerReason k \<or> present_code k bs"
  by (auto simp: present_code_def)

lemma found: "find P xs = Some x \<Longrightarrow> x \<in> set xs \<and> P x"
  by (auto simp: find_Some_iff)

lemma present_concat: "present_code k (concat bss) \<longleftrightarrow> (\<exists>bs \<in> set bss. present_code k bs)"
  by (auto simp: present_code_def)

lemma minimum_positive: "1 \<le> minimumOf n"
  by (simp add: minimumOf_def split: option.split)

subsection \<open>Identity\<close>

definition identity_met :: "RequirementEvaluationContext \<Rightarrow> string \<Rightarrow> AssetIdentityRequirement \<Rightarrow> bool" where
  "identity_met rx i r \<longleftrightarrow>
     ai_freshness r = None \<and>
     (\<forall>s \<in> set (ai_acceptedStrategies r). \<forall>m \<in> set (found_by rx i s). entry_conforms r s m) \<and>
     (if ai_satisfaction r = ''All'' then \<forall>s \<in> set (ai_acceptedStrategies r). strategy_evidenced rx i r s
      else \<exists>s \<in> set (ai_acceptedStrategies r). strategy_evidenced rx i r s)"

lemma all_members:
  "finite A \<Longrightarrow> card A \<le> card {x \<in> A. P x} \<longleftrightarrow> (\<forall>x \<in> A. P x)"
proof
  assume "finite A" "card A \<le> card {x \<in> A. P x}"
  then have "{x \<in> A. P x} = A" by (intro card_seteq) auto
  then show "\<forall>x \<in> A. P x" by blast
next
  assume "\<forall>x \<in> A. P x"
  then have "{x \<in> A. P x} = A" by blast
  then show "card A \<le> card {x \<in> A. P x}" by simp
qed

lemma identity_blockers:
  assumes "distinct (ai_acceptedStrategies r)" "ai_acceptedStrategies r \<noteq> []"
  shows "rf_blockers (evaluateIdentityRequirement rx i r) = [] \<longleftrightarrow> identity_met rx i r"
    "list_all blocks (rf_blockers (evaluateIdentityRequirement rx i r))"
proof -
  let ?strategies = "ai_acceptedStrategies r"
  let ?evidenced = "js_set (filter (strategy_evidenced rx i r) ?strategies)"
  let ?required = "if ai_satisfaction r = ''All'' then length ?strategies else 1"
  have conform: "concat (map (\<lambda>s. map zm_materialId (filter (\<lambda>m. \<not> entry_conforms r s m) (found_by rx i s))) ?strategies) = [] \<longleftrightarrow>
      (\<forall>s \<in> set ?strategies. \<forall>m \<in> set (found_by rx i s). entry_conforms r s m)"
    by (auto simp: filter_empty_conv)
  have len: "length ?evidenced = card {s \<in> set ?strategies. strategy_evidenced rx i r s}" by simp
  have "card (set ?strategies) = length ?strategies" using assms(1) by (rule distinct_card)
  then have all: "int (length ?strategies) \<le> int (length ?evidenced) \<longleftrightarrow> (\<forall>s \<in> set ?strategies. strategy_evidenced rx i r s)"
    unfolding len using all_members [of "set ?strategies" "strategy_evidenced rx i r"] by simp
  have some: "?evidenced \<noteq> [] \<longleftrightarrow> (\<exists>s \<in> set ?strategies. strategy_evidenced rx i r s)"
    by (simp add: filter_empty_conv)
  have one: "?evidenced \<noteq> [] \<longleftrightarrow> 1 \<le> int (length ?evidenced)"
    by (cases ?evidenced) auto
  have count: "shortfall i (int ?required) (length ?evidenced) (?evidenced = []) = [] \<longleftrightarrow>
      (if ai_satisfaction r = ''All'' then \<forall>s \<in> set ?strategies. strategy_evidenced rx i r s
       else \<exists>s \<in> set ?strategies. strategy_evidenced rx i r s)"
  proof (cases "ai_satisfaction r = ''All''")
    case True
    then show ?thesis unfolding shortfall_nil using all some assms(2) by (auto simp del: js_set)
  next
    case False
    then show ?thesis unfolding shortfall_nil using some one by (auto simp del: js_set)
  qed
  show "rf_blockers (evaluateIdentityRequirement rx i r) = [] \<longleftrightarrow> identity_met rx i r"
    using conform count
    by (simp add: evaluateIdentityRequirement_def Let_def findings_def identity_met_def del: js_set concat_eq_Nil_conv shortfall_nil)
  show "list_all blocks (rf_blockers (evaluateIdentityRequirement rx i r))"
    by (simp add: evaluateIdentityRequirement_def Let_def findings_def) (simp add: blocks_def reason_codes)
qed

subsection \<open>Declarations\<close>

text \<open>
  Nothing that is recorded of a declaration of the requirement contradicts it, and there are enough different claims.
\<close>

definition declaration_met :: "RequirementEvaluationContext \<Rightarrow> string \<Rightarrow> AssetDeclarationRequirement \<Rightarrow> bool" where
  "declaration_met rx i r \<longleftrightarrow>
     (\<forall>m \<in> set (materials_for rx i DeclarationMaterial). if_present (claim_matches r) (recordsByClaim rx i (claim_of m))) \<and>
     minimumOf (ad_minimumCount r) \<le> int (card (claim_of ` set (materials_for rx i DeclarationMaterial)))"

lemma declaration_blockers:
  "rf_blockers (evaluateDeclarationRequirement rx i r) = [] \<longleftrightarrow> declaration_met rx i r"
  "list_all blocks (rf_blockers (evaluateDeclarationRequirement rx i r))"
proof -
  let ?ms = "materials_for rx i DeclarationMaterial"
  let ?fits = "\<lambda>m. if_present (claim_matches r) (recordsByClaim rx i (claim_of m))"
  have nonempty: "?ms \<noteq> []" if "minimumOf (ad_minimumCount r) \<le> int (card (claim_of ` set ?ms))"
    using that minimum_positive [of "ad_minimumCount r"] by auto
  show "rf_blockers (evaluateDeclarationRequirement rx i r) = [] \<longleftrightarrow> declaration_met rx i r"
  proof (cases "\<forall>m \<in> set ?ms. ?fits m")
    case True
    then have fits: "{m \<in> set ?ms. ?fits m} = set ?ms" "filter (\<lambda>m. \<not> ?fits m) ?ms = []" by (auto simp: filter_empty_conv)
    show ?thesis
      using nonempty True by (auto simp: evaluateDeclarationRequirement_def Let_def findings_def declaration_met_def fits)
  next
    case False
    then have "filter (\<lambda>m. \<not> ?fits m) ?ms \<noteq> []" by (simp add: filter_empty_conv)
    then show ?thesis
      using False by (simp add: evaluateDeclarationRequirement_def Let_def findings_def declaration_met_def del: filter_empty_conv)
  qed
  show "list_all blocks (rf_blockers (evaluateDeclarationRequirement rx i r))"
    by (simp add: evaluateDeclarationRequirement_def Let_def findings_def) (simp add: blocks_def reason_codes)
qed

subsection \<open>Checks\<close>

text \<open>A check passes where the latest result of it at the revision evaluated is a pass, or a pass with a warning.\<close>

definition results_at :: "RequirementEvaluationContext \<Rightarrow> string \<Rightarrow> string \<Rightarrow> VerificationResult set" where
  "results_at rx requirementId checkId =
     {r \<in> set (re_verificationResults rx).
        vr_requirementId r = requirementId \<and> vr_checkId r = checkId \<and> vr_evaluatedCaseRevision r = re_revision rx}"

definition check_passes :: "host_env \<Rightarrow> RequirementEvaluationContext \<Rightarrow> string \<Rightarrow> string \<Rightarrow> bool" where
  "check_passes env rx requirementId checkId \<longleftrightarrow>
     (\<exists>r. latest_in env (results_at rx requirementId checkId) r \<and> vr_outcome r \<in> {''Pass'', ''Warning''})"

definition results_recorded :: "host_env \<Rightarrow> VerificationResult list \<Rightarrow> bool" where
  "results_recorded env rs \<longleftrightarrow> list_all (result_valid env) rs \<and> distinct (map vr_executionId rs)"

lemma current_result:
  assumes "results_recorded env (re_verificationResults rx)"
  shows "current_results env rx q k = [] \<longleftrightarrow> \<not> (\<exists>r. latest_in env (results_at rx q k) r)"
    "current_results env rx q k = r # rs \<Longrightarrow> latest_in env (results_at rx q k) x \<longleftrightarrow> x = r"
proof -
  let ?rs = "filter (\<lambda>r. isVerificationResultCurrentForRevision r (re_revision rx)) (results_of_pair rx q k)"
  have at: "set ?rs = results_at rx q k"
    by (auto simp: results_of_pair_def results_at_def isVerificationResultCurrentForRevision_def)
  have "list_all (result_valid env) ?rs" "inj_on vr_executionId (set ?rs)"
    using assms by (auto simp: results_recorded_def list_all_iff distinct_map results_of_pair_def intro: inj_on_subset)
  note latest = latest_results [OF this, unfolded at]
  have current: "set (current_results env rx q k) = {r. latest_in env (results_at rx q k) r}"
    "distinct (map finding_key (current_results env rx q k))"
    unfolding current_results_def by (rule latest(1), rule latest(2))
  show "current_results env rx q k = [] \<longleftrightarrow> \<not> (\<exists>r. latest_in env (results_at rx q k) r)"
    using current(1) by (cases "current_results env rx q k") auto
  assume r: "current_results env rx q k = r # rs"
  have key: "finding_key x = q @ [CHR 10] @ k" if "x \<in> set (r # rs)" for x
    using that current(1) unfolding r by (auto simp: latest_in_def results_at_def finding_key_def)
  have "rs = []"
  proof (cases rs)
    case (Cons y ys)
    then show ?thesis using current(2) key [of r] key [of y] unfolding r by simp
  qed simp
  then show "latest_in env (results_at rx q k) x \<longleftrightarrow> x = r" using current(1) unfolding r by auto
qed

definition keeps_code :: "(ReadinessReason \<Rightarrow> ReadinessReason) \<Rightarrow> bool" where
  "keeps_code extra \<longleftrightarrow> (\<forall>b. zx_reasonCode (extra b) = zx_reasonCode b)"

lemma keeps_code_simps [simp]: "keeps_code id" "keeps_code (zx_constraint_update f)"
  by (simp_all add: keeps_code_def)

definition checks_code :: "BlockerCode \<Rightarrow> bool" where
  "checks_code k \<longleftrightarrow> k \<in> {CHECK_MISSING, CHECK_FAIL, CHECK_STALE, CHECK_UNAVAILABLE, CHECK_MANUAL_REVIEW}"

lemma standing_blocker:
  assumes "keeps_code extra"
  shows "st_satisfied (resolveCheckStanding env rx q k i extra) \<Longrightarrow> st_blocker (resolveCheckStanding env rx q k i extra) = None"
    "\<not> st_satisfied (resolveCheckStanding env rx q k i extra) \<Longrightarrow>
       \<exists>b c. st_blocker (resolveCheckStanding env rx q k i extra) = Some b \<and> zx_reasonCode b = BlockerReason c \<and> checks_code c"
  using assms
  by (auto simp: resolveCheckStanding_def standingForOutcome_def standing_blocked_def Let_def keeps_code_def reason_codes
      checks_code_def split: list.splits if_splits)

lemma standing_satisfied:
  assumes "results_recorded env (re_verificationResults rx)"
  shows "st_satisfied (resolveCheckStanding env rx q k i extra) \<longleftrightarrow> check_passes env rx q k"
proof (cases "current_results env rx q k")
  case Nil
  then have "\<not> check_passes env rx q k" using current_result(1) [OF assms] by (simp add: check_passes_def)
  with Nil show ?thesis by (simp add: resolveCheckStanding_def standing_blocked_def Let_def)
next
  case (Cons r rs)
  have "check_passes env rx q k \<longleftrightarrow> vr_outcome r \<in> {''Pass'', ''Warning''}"
    using current_result(2) [OF assms Cons] by (simp add: check_passes_def)
  moreover have "st_satisfied (standingForOutcome i r extra) \<longleftrightarrow> vr_outcome r \<in> {''Pass'', ''Warning''}"
    by (auto simp: standingForOutcome_def standing_blocked_def Let_def)
  ultimately show ?thesis using Cons by (simp add: resolveCheckStanding_def)
qed

lemma standing_blocks:
  assumes "keeps_code extra"
  shows "list_all blocks (list_of_option (st_blocker (resolveCheckStanding env rx q k i extra)))"
    "list_of_option (st_blocker (resolveCheckStanding env rx q k i extra)) = [] \<longleftrightarrow> st_satisfied (resolveCheckStanding env rx q k i extra)"
    "present_code c (list_of_option (st_blocker (resolveCheckStanding env rx q k i extra))) \<Longrightarrow> checks_code c"
  using standing_blocker [OF assms, of env rx q k i]
  by (cases "st_satisfied (resolveCheckStanding env rx q k i extra)",
      auto simp: list_of_option_def blocks_def present_code_def)+

subsection \<open>Verification\<close>

definition verification_met :: "host_env \<Rightarrow> RequirementEvaluationContext \<Rightarrow> string \<Rightarrow> AssetVerificationRequirement \<Rightarrow> bool" where
  "verification_met env rx i r \<longleftrightarrow>
     av_freshness r = None \<and>
     (if av_satisfaction r = ''All'' then \<forall>k \<in> set (av_checkIds r). check_passes env rx i k
      else \<exists>k \<in> set (av_checkIds r). check_passes env rx i k)"

lemma unsatisfied_reasons:
  assumes "\<And>s. s \<in> set ss \<Longrightarrow> \<exists>k. s = resolveCheckStanding env rx q k i extra" "keeps_code extra"
  shows "concat (map (\<lambda>s. if st_satisfied s then [] else list_of_option (st_blocker s)) ss) = [] \<longleftrightarrow> list_all st_satisfied ss"
    "list_all blocks (concat (map (\<lambda>s. if st_satisfied s then [] else list_of_option (st_blocker s)) ss))"
    "present_code c (concat (map (\<lambda>s. if st_satisfied s then [] else list_of_option (st_blocker s)) ss)) \<Longrightarrow> checks_code c"
proof -
  have one: "list_of_option (st_blocker s) = [] \<longleftrightarrow> st_satisfied s" "list_all blocks (list_of_option (st_blocker s))"
    "present_code c (list_of_option (st_blocker s)) \<Longrightarrow> checks_code c" if "s \<in> set ss" for s
    using assms(1) [OF that] standing_blocks [OF assms(2)] by auto
  have "map (\<lambda>s. if st_satisfied s then [] else list_of_option (st_blocker s)) ss = map (\<lambda>s. list_of_option (st_blocker s)) ss"
    by (intro map_cong refl) (simp add: one(1) [THEN iffD2])
  then have all: "concat (map (\<lambda>s. if st_satisfied s then [] else list_of_option (st_blocker s)) ss) =
      concat (map (\<lambda>s. list_of_option (st_blocker s)) ss)"
    by (simp only:)
  show "concat (map (\<lambda>s. if st_satisfied s then [] else list_of_option (st_blocker s)) ss) = [] \<longleftrightarrow> list_all st_satisfied ss"
    "list_all blocks (concat (map (\<lambda>s. if st_satisfied s then [] else list_of_option (st_blocker s)) ss))"
    unfolding all using one(1,2) by (auto simp: list_all_iff)
  assume "present_code c (concat (map (\<lambda>s. if st_satisfied s then [] else list_of_option (st_blocker s)) ss))"
  then obtain s where "s \<in> set ss" "present_code c (list_of_option (st_blocker s))"
    unfolding all by (auto simp: present_code_def)
  then show "checks_code c" by (rule one(3))
qed

lemma filter_full: "length (filter P xs) = length xs \<longleftrightarrow> list_all P xs"
proof
  assume full: "length (filter P xs) = length xs"
  show "list_all P xs"
  proof (rule ccontr)
    assume "\<not> list_all P xs"
    then obtain x where "x \<in> set xs" "\<not> P x" by (auto simp: list_all_iff)
    from length_filter_less [of x xs P, OF this] full show False by simp
  qed
qed (simp add: list_all_iff)

lemma verification_blockers:
  assumes "results_recorded env (re_verificationResults rx)" "av_checkIds r \<noteq> []"
  shows "rf_blockers (evaluateVerificationRequirement env rx i r) = [] \<longleftrightarrow> verification_met env rx i r"
    "list_all blocks (rf_blockers (evaluateVerificationRequirement env rx i r))"
proof -
  let ?standing = "\<lambda>k. resolveCheckStanding env rx i k i id"
  let ?ss = "map ?standing (av_checkIds r)"
  let ?count = "length (filter st_satisfied ?ss)"
  have pass: "st_satisfied (?standing k) \<longleftrightarrow> check_passes env rx i k" for k
    by (rule standing_satisfied [OF assms(1)])
  have reasons: "concat (map (\<lambda>s. if st_satisfied s then [] else list_of_option (st_blocker s)) ?ss) = [] \<longleftrightarrow> list_all st_satisfied ?ss"
    "list_all blocks (concat (map (\<lambda>s. if st_satisfied s then [] else list_of_option (st_blocker s)) ?ss))"
    by (rule unsatisfied_reasons [of _ env rx i i id]; auto)+
  have all: "?count = length (av_checkIds r) \<longleftrightarrow> list_all st_satisfied ?ss"
    using filter_full [of st_satisfied ?ss] by (simp only: length_map)
  have some: "0 < ?count \<longleftrightarrow> list_ex st_satisfied ?ss"
    by (auto simp: list_ex_iff filter_empty_conv)
  have shape: "rf_blockers (evaluateVerificationRequirement env rx i r) = [] \<longleftrightarrow>
      av_freshness r = None \<and>
      ((if av_satisfaction r = ''All'' then ?count = length (av_checkIds r) else 0 < ?count) \<or> list_all st_satisfied ?ss)"
    unfolding reasons(1) [symmetric]
    by (simp add: evaluateVerificationRequirement_def Let_def findings_def del: concat_eq_Nil_conv map_map)
  have "list_all st_satisfied ?ss \<Longrightarrow> list_ex st_satisfied ?ss"
    using assms(2) by (cases "av_checkIds r") auto
  then show "rf_blockers (evaluateVerificationRequirement env rx i r) = [] \<longleftrightarrow> verification_met env rx i r"
    unfolding shape all some verification_met_def by (auto simp: list_all_iff list_ex_iff pass)
  show "list_all blocks (rf_blockers (evaluateVerificationRequirement env rx i r))"
    using reasons(2)
    by (simp add: evaluateVerificationRequirement_def Let_def findings_def) (simp add: blocks_def reason_codes)
qed

subsection \<open>Evidence\<close>

text \<open>Freshness is decided by a check of it that the profile demands.\<close>

definition freshness_met :: "host_env \<Rightarrow> RequirementEvaluationContext \<Rightarrow> bool" where
  "freshness_met env rx \<longleftrightarrow>
     (\<exists>q \<in> set (ap_requirements (re_profile rx)).
        declares_check EVIDENCE_FRESHNESS_CHECK_ID q \<and> check_passes env rx (ar_id q) EVIDENCE_FRESHNESS_CHECK_ID)"

lemma freshness_blockers:
  assumes "results_recorded env (re_verificationResults rx)"
  shows "fst (dischargeEvidenceFreshness env rx i) = [] \<longleftrightarrow> freshness_met env rx"
    "list_all blocks (fst (dischargeEvidenceFreshness env rx i))"
    "present_code c (fst (dischargeEvidenceFreshness env rx i)) \<Longrightarrow> c = CONSTRAINT_UNEVALUATED \<or> checks_code c"
proof -
  let ?standing = "\<lambda>q. resolveCheckStanding env rx (ar_id q) EVIDENCE_FRESHNESS_CHECK_ID i (zx_constraint_update (\<lambda>x. Some ''freshness''))"
  let ?declaring = "filter (declares_check EVIDENCE_FRESHNESS_CHECK_ID) (ap_requirements (re_profile rx))"
  have ss: "freshness_standings env rx i = map ?standing ?declaring" by (simp add: freshness_standings_def)
  have pass: "st_satisfied (?standing q) \<longleftrightarrow> check_passes env rx (ar_id q) EVIDENCE_FRESHNESS_CHECK_ID" for q
    by (rule standing_satisfied [OF assms])
  have one: "list_of_option (st_blocker (?standing q)) = [] \<longleftrightarrow> st_satisfied (?standing q)"
    "list_all blocks (list_of_option (st_blocker (?standing q)))"
    "present_code c (list_of_option (st_blocker (?standing q))) \<Longrightarrow> checks_code c" for q
    by (rule standing_blocks; simp)+
  show "fst (dischargeEvidenceFreshness env rx i) = [] \<longleftrightarrow> freshness_met env rx"
  proof (cases "find st_satisfied (freshness_standings env rx i)")
    case None
    then have none: "\<not> st_satisfied (?standing q)" if "q \<in> set ?declaring" for q
      using that by (auto simp: find_None_iff ss)
    then have "\<not> freshness_met env rx" using pass by (auto simp: freshness_met_def)
    moreover have "concat (map (\<lambda>s. list_of_option (st_blocker s)) (map ?standing ?declaring)) \<noteq> []" if "?declaring \<noteq> []"
      using that none one(1) by (cases ?declaring) auto
    ultimately show ?thesis using None by (simp add: dischargeEvidenceFreshness_def Let_def ss del: map_map)
  next
    case (Some s)
    then have "s \<in> set (map ?standing ?declaring)" "st_satisfied s" unfolding ss by (blast dest: found)+
    then obtain q where "q \<in> set ?declaring" "st_satisfied (?standing q)" by auto
    then have "freshness_met env rx" using pass by (auto simp: freshness_met_def)
    moreover have "freshness_standings env rx i \<noteq> []" using Some by auto
    ultimately show ?thesis using Some by (simp add: dischargeEvidenceFreshness_def Let_def)
  qed
  show "list_all blocks (fst (dischargeEvidenceFreshness env rx i))"
    using one(2) by (auto simp: dischargeEvidenceFreshness_def Let_def ss list_all_iff blocks_def reason_codes split: option.split)
  show "c = CONSTRAINT_UNEVALUATED \<or> checks_code c" if present: "present_code c (fst (dischargeEvidenceFreshness env rx i))"
  proof (cases "find st_satisfied (freshness_standings env rx i)")
    case None
    show ?thesis
    proof (cases "?declaring = []")
      case True
      then show ?thesis using present by (simp add: dischargeEvidenceFreshness_def ss reason_codes)
    next
      case False
      then have "fst (dischargeEvidenceFreshness env rx i) = concat (map (\<lambda>s. list_of_option (st_blocker s)) (map ?standing ?declaring))"
        using None by (simp add: dischargeEvidenceFreshness_def Let_def ss del: map_map filter_empty_conv)
      with present obtain q :: AssetRequirement where "present_code c (list_of_option (st_blocker (?standing q)))" by (auto simp: present_concat)
      then show ?thesis using one(3) by blast
    qed
  next
    case (Some s)
    then have "fst (dischargeEvidenceFreshness env rx i) = []" by (auto simp: dischargeEvidenceFreshness_def Let_def)
    with present show ?thesis by simp
  qed
qed

lemma grouped_keys: "fst ` set (grouped kvs) = fst ` set kvs"
proof -
  have "fst ` set (fold (\<lambda>e. noted (fst e) (snd e)) kvs held) = fst ` set held \<union> fst ` set kvs" for held
  proof (induction kvs arbitrary: held)
    case (Cons e kvs)
    have "fst ` set (noted k v held) = insert k (fst ` set held)" for k :: 'a and v :: 'b
      by (simp add: noted_def dom_update)
    with Cons show ?case by simp
  qed simp
  then show ?thesis by (simp add: grouped_def)
qed

lemma grouped_nil [simp]: "grouped kvs = [] \<longleftrightarrow> kvs = []"
  using grouped_keys [of kvs] by (metis image_is_empty set_empty)

definition evidence_met :: "host_env \<Rightarrow> RequirementEvaluationContext \<Rightarrow> string \<Rightarrow> AssetEvidenceRequirement \<Rightarrow> bool" where
  "evidence_met env rx i r \<longleftrightarrow>
     (ae_freshness r = None \<or> freshness_met env rx) \<and> ae_acceptedSubtypes r = None \<and>
     (\<forall>m \<in> set (materials_for rx i EvidenceMaterial). evidence_qualifies rx r (evidence_of m)) \<and>
     minimumOf (ae_minimumCount r) \<le> int (card (evidence_of ` set (materials_for rx i EvidenceMaterial)))"

lemma evidence_qualifies_iff:
  "evidence_qualifies rx r ref \<longleftrightarrow>
     (\<exists>e. re_evidenceById rx ref = Some e \<and> ce_type e \<in> set (ae_acceptedTypes r) \<and>
        if_present (evidenceRegistryConforms e) (ae_registry r) \<and> if_present (evidenceCredentialConforms e) (ae_credential r))"
  by (auto simp: evidence_qualifies_def incompatibilities_def)

lemma qualifies_unnoted:
  "evidence_qualifies rx r ref \<longleftrightarrow> unestablished rx r ref = [] \<and> incompatibilities rx r ref = []"
  by (auto simp: evidence_qualifies_def unestablished_def incompatibilities_def)

lemma evidence_blockers:
  assumes "results_recorded env (re_verificationResults rx)"
  shows "rf_blockers (evaluateEvidenceRequirement env rx i r) = [] \<longleftrightarrow> evidence_met env rx i r"
    "list_all blocks (rf_blockers (evaluateEvidenceRequirement env rx i r))"
proof -
  let ?ms = "materials_for rx i EvidenceMaterial"
  let ?present = "js_set (map evidence_of ?ms)"
  have pairs: "concat (map (\<lambda>ref. map (\<lambda>k. (k, ref)) (f ref)) ?present) = [] \<longleftrightarrow> (\<forall>m \<in> set ?ms. f (evidence_of m) = [])" for f :: "string \<Rightarrow> string list"
    by auto
  have count: "shortfall i (minimumOf (ae_minimumCount r)) (length (filter (evidence_qualifies rx r) ?present)) (?present = []) = [] \<longleftrightarrow>
      minimumOf (ae_minimumCount r) \<le> int (card (evidence_of ` set ?ms))"
    if "\<forall>m \<in> set ?ms. evidence_qualifies rx r (evidence_of m)"
  proof -
    have "filter (evidence_qualifies rx r) ?present = ?present" using that by (auto simp: filter_id_conv)
    moreover have "?ms \<noteq> []" if "minimumOf (ae_minimumCount r) \<le> int (card (evidence_of ` set ?ms))"
      using that minimum_positive [of "ae_minimumCount r"] by auto
    ultimately show ?thesis by auto
  qed
  have "rf_blockers (evaluateEvidenceRequirement env rx i r) = [] \<longleftrightarrow>
      (ae_freshness r = None \<or> freshness_met env rx) \<and> ae_acceptedSubtypes r = None \<and>
      (\<forall>m \<in> set ?ms. unestablished rx r (evidence_of m) = []) \<and> (\<forall>m \<in> set ?ms. incompatibilities rx r (evidence_of m) = []) \<and>
      shortfall i (minimumOf (ae_minimumCount r)) (length (filter (evidence_qualifies rx r) ?present)) (?present = []) = []"
    using freshness_blockers(1) [OF assms, of i] unfolding evaluateEvidenceRequirement_def Let_def findings_def
    by (cases "ae_freshness r") (simp_all add: pairs del: concat_eq_Nil_conv js_set shortfall_nil)
  then show "rf_blockers (evaluateEvidenceRequirement env rx i r) = [] \<longleftrightarrow> evidence_met env rx i r"
    using count unfolding evidence_met_def qualifies_unnoted by blast
  show "list_all blocks (rf_blockers (evaluateEvidenceRequirement env rx i r))"
    using freshness_blockers(2) [OF assms]
    by (simp add: evaluateEvidenceRequirement_def Let_def findings_def) (simp add: blocks_def reason_codes list_all_iff)
qed

subsection \<open>Attestation\<close>

text \<open>The positions of the latest basis on which the requirement was reviewed.\<close>

definition current_position :: "RequirementEvaluationContext \<Rightarrow> string \<Rightarrow> string set" where
  "current_position rx i =
     {rd_action d | d. d \<in> set (re_reviewDecisions rx) \<and> rd_attestationRequirementId d = i \<and>
        (\<forall>e \<in> set (re_reviewDecisions rx). rd_attestationRequirementId e = i \<longrightarrow> rd_reviewBasisRevision e \<le> rd_reviewBasisRevision d)}"

lemma current_decisions:
  "d \<in> set (currentDecisions rx i) \<longleftrightarrow>
     d \<in> set (re_reviewDecisions rx) \<and> rd_attestationRequirementId d = i \<and>
     (\<forall>e \<in> set (re_reviewDecisions rx). rd_attestationRequirementId e = i \<longrightarrow> rd_reviewBasisRevision e \<le> rd_reviewBasisRevision d)"
proof (cases "d \<in> set (re_reviewDecisions rx) \<and> rd_attestationRequirementId d = i")
  case True
  let ?A = "{x \<in> set (re_reviewDecisions rx). rd_attestationRequirementId x = i}"
  have fin: "finite (rd_reviewBasisRevision ` ?A)" "rd_reviewBasisRevision ` ?A \<noteq> {}" using True by auto
  have "rd_reviewBasisRevision d = Max (rd_reviewBasisRevision ` ?A) \<longleftrightarrow> (\<forall>e \<in> ?A. rd_reviewBasisRevision e \<le> rd_reviewBasisRevision d)"
    unfolding eq_Max_iff [OF fin] using True by blast
  with True show ?thesis by (auto simp: currentDecisions_def Let_def)
qed (auto simp: currentDecisions_def Let_def)

lemma position_actions: "rd_action ` set (currentDecisions rx i) = current_position rx i"
  by (auto simp: current_decisions current_position_def)

definition actions_valid :: "RequirementEvaluationContext \<Rightarrow> bool" where
  "actions_valid rx \<longleftrightarrow> list_all (\<lambda>d. isProfessionalReviewAction (rd_action d)) (re_reviewDecisions rx)"

lemma singleton_position:
  fixes A :: "'a set"
  assumes "finite A" "\<not> 1 < card A"
  shows "a \<in> A \<longleftrightarrow> A = {a}"
proof -
  have "A = {} \<or> (\<exists>b. A = {b})"
  proof (cases "card A = 0")
    case False
    then have "card A = 1" using assms(2) by linarith
    then show ?thesis by (auto simp: card_1_singleton_iff)
  qed (use assms(1) in auto)
  then show ?thesis by auto
qed

lemma position_facts:
  "list_all blocks (position_reasons i (currentDecisions rx i))"
  "present_code REVIEW_CONFLICTING (position_reasons i (currentDecisions rx i)) \<longleftrightarrow> 1 < card (current_position rx i)"
  "present_code REVIEW_REJECTED (position_reasons i (currentDecisions rx i)) \<longleftrightarrow> current_position rx i = {''Reject''}"
  "present_code REVIEW_MORE_EVIDENCE_REQUIRED (position_reasons i (currentDecisions rx i)) \<longleftrightarrow>
     current_position rx i = {''RequestMoreEvidence''}"
  "present_code c (position_reasons i (currentDecisions rx i)) \<Longrightarrow>
     c \<in> {REVIEW_CONFLICTING, REVIEW_REJECTED, REVIEW_MORE_EVIDENCE_REQUIRED, REVIEW_PENDING}"
  "actions_valid rx \<Longrightarrow> position_reasons i (currentDecisions rx i) = [] \<longleftrightarrow> current_position rx i \<subseteq> {''Attest''}"
proof -
  let ?position = "current_position rx i"
  have fin: "finite ?position" unfolding position_actions [symmetric] by simp
  have count: "length (js_set (map rd_action (currentDecisions rx i))) = card ?position" by (simp add: position_actions)
  have set: "set (js_set (map rd_action (currentDecisions rx i))) = ?position" by (simp add: position_actions)
  note one = singleton_position [OF fin]
  show "list_all blocks (position_reasons i (currentDecisions rx i))"
    "present_code REVIEW_CONFLICTING (position_reasons i (currentDecisions rx i)) \<longleftrightarrow> 1 < card ?position"
    "present_code c (position_reasons i (currentDecisions rx i)) \<Longrightarrow>
       c \<in> {REVIEW_CONFLICTING, REVIEW_REJECTED, REVIEW_MORE_EVIDENCE_REQUIRED, REVIEW_PENDING}"
    by (auto simp: position_reasons_def Let_def count set reason_codes blocks_def simp del: js_set split: if_splits)
  show "present_code REVIEW_REJECTED (position_reasons i (currentDecisions rx i)) \<longleftrightarrow> ?position = {''Reject''}"
    using one [of "''Reject''"]
    by (auto simp: position_reasons_def Let_def count set reason_codes simp del: js_set)
  show "present_code REVIEW_MORE_EVIDENCE_REQUIRED (position_reasons i (currentDecisions rx i)) \<longleftrightarrow> ?position = {''RequestMoreEvidence''}"
    using one [of "''RequestMoreEvidence''"] one [of "''Reject''"]
    by (auto simp: position_reasons_def Let_def count set reason_codes simp del: js_set)
  assume "actions_valid rx"
  then have actions: "?position \<subseteq> {''Attest'', ''Reject'', ''RequestMoreEvidence'', ''Abstain''}"
    by (auto simp: current_position_def actions_valid_def list_all_iff isProfessionalReviewAction_def PROFESSIONAL_REVIEW_ACTIONS_def)
  have "position_reasons i (currentDecisions rx i) = [] \<longleftrightarrow>
      \<not> 1 < card ?position \<and> ''Reject'' \<notin> ?position \<and> ''RequestMoreEvidence'' \<notin> ?position \<and> ''Abstain'' \<notin> ?position"
    by (simp add: position_reasons_def Let_def count set del: js_set)
  also have "\<dots> \<longleftrightarrow> ?position \<subseteq> {''Attest''}"
  proof
    assume "?position \<subseteq> {''Attest''}"
    moreover from card_mono [OF _ this] have "card ?position \<le> 1" by simp
    ultimately show "\<not> 1 < card ?position \<and> ''Reject'' \<notin> ?position \<and> ''RequestMoreEvidence'' \<notin> ?position \<and> ''Abstain'' \<notin> ?position"
      by auto
  qed (use actions in auto)
  finally show "position_reasons i (currentDecisions rx i) = [] \<longleftrightarrow> ?position \<subseteq> {''Attest''}" .
qed

text \<open>
  The attestations that count: their material is that of an \<open>Attest\<close> decision for the requirement, of an accepted type,
  with an artifact that carries usable proofs, and no later change of the case is unaccounted for.
\<close>

definition attests :: "RequirementEvaluationContext \<Rightarrow> string \<Rightarrow> AssetAttestationRequirement \<Rightarrow> CaseMaterial \<Rightarrow> bool" where
  "attests rx i r m \<longleftrightarrow> (\<exists>d. qualifyingAttestation rx i r m = Inr d)"

definition counting_refs :: "RequirementEvaluationContext \<Rightarrow> string \<Rightarrow> AssetAttestationRequirement \<Rightarrow> string set" where
  "counting_refs rx i r =
     {attestation_ref m | m d. m \<in> set (materials_for rx i AttestationMaterial) \<and> qualifyingAttestation rx i r m = Inr d \<and>
        coversCurrentRevision rx i (coveredThrough d)}"

definition attestation_met :: "RequirementEvaluationContext \<Rightarrow> string \<Rightarrow> AssetAttestationRequirement \<Rightarrow> bool" where
  "attestation_met rx i r \<longleftrightarrow>
     aa_freshness r = None \<and> (\<forall>m \<in> set (materials_for rx i AttestationMaterial). attests rx i r m) \<and>
     minimumOf (aa_minimumCount r) \<le> int (card (counting_refs rx i r)) \<and> current_position rx i \<subseteq> {''Attest''}"

lemma attested_set:
  "set (attested rx i r) = {(m, d). m \<in> set (materials_for rx i AttestationMaterial) \<and> qualifyingAttestation rx i r m = Inr d}"
  by (auto simp: attested_def split: sum.splits)

lemma unqualified_nil: "unqualified rx i r = [] \<longleftrightarrow> (\<forall>m \<in> set (materials_for rx i AttestationMaterial). attests rx i r m)"
  by (auto simp: unqualified_def attests_def split: sum.splits) (metis sum.exhaust)

lemma unqualified_codes:
  "fst ` set (grouped (unqualified rx i r)) \<subseteq> {ATTESTATION_DECISION_MISSING, ATTESTATION_TYPE_INCOMPATIBLE, ATTESTATION_UNPROVEN_ARTIFACT}"
  unfolding grouped_keys
  by (auto simp: unqualified_def qualifyingAttestation_def split: sum.splits option.splits if_splits)

lemma current_refs:
  "attestation_ref ` fst ` set (filter (\<lambda>e. coversCurrentRevision rx i (coveredThrough (snd e))) (attested rx i r)) = counting_refs rx i r"
  by (force simp: counting_refs_def attested_set)

lemma attestation_blockers:
  "actions_valid rx \<Longrightarrow> rf_blockers (evaluateAttestationRequirement rx i r) = [] \<longleftrightarrow> attestation_met rx i r"
  "list_all blocks (rf_blockers (evaluateAttestationRequirement rx i r))"
  "c \<in> {REVIEW_CONFLICTING, REVIEW_REJECTED, REVIEW_MORE_EVIDENCE_REQUIRED, LIFECYCLE_CANCELLED} \<Longrightarrow>
     present_code c (rf_blockers (evaluateAttestationRequirement rx i r)) \<longleftrightarrow>
     present_code c (position_reasons i (currentDecisions rx i))"
proof -
  let ?ms = "materials_for rx i AttestationMaterial"
  let ?covers = "\<lambda>e. coversCurrentRevision rx i (coveredThrough (snd e))"
  let ?refs = "js_set (map (\<lambda>e. attestation_ref (fst e)) (filter ?covers (attested rx i r)))"
  let ?stale = "filter (\<lambda>e. \<not> ?covers e) (attested rx i r)"
  let ?short = "int (length ?refs) < minimumOf (aa_minimumCount r)"
  define currency where "currency = (if ?short \<and> ?stale \<noteq> []
    then [(blocker_at ATTESTATION_CURRENCY_UNRESOLVED i)
            \<lparr>zx_decisionIds := Some (map (\<lambda>e. rd_decisionId (snd e)) ?stale),
             zx_attestationRefs := Some (map (\<lambda>e. attestation_ref (fst e)) ?stale),
             zx_atCaseRevision := Some (Max (set (map (\<lambda>e. coveredThrough (snd e)) ?stale)))\<rparr>]
    else [])"
  define missing where "missing = (if ?short
    then (if ?ms = [] then [counted ATTESTATION_MISSING i (minimumOf (aa_minimumCount r)) 0]
          else if ?refs \<noteq> [] then [counted ATTESTATION_MISSING i (minimumOf (aa_minimumCount r)) (length ?refs)]
          else []) @
         (if undecided_requests rx i \<noteq> [] then [blocker_at REVIEW_PENDING i] else [])
    else [])"
  define rejected where "rejected = map (\<lambda>e. (blocker_at (fst e) i)\<lparr>zx_materialIds := Some (snd e)\<rparr>) (grouped (unqualified rx i r))"
  let ?fresh = "if aa_freshness r = None then [] else [unevaluatedConstraint i ''freshness'']"
  have bs: "rf_blockers (evaluateAttestationRequirement rx i r) =
      ?fresh @ rejected @ currency @ position_reasons i (currentDecisions rx i) @ missing"
    unfolding evaluateAttestationRequirement_def Let_def findings_def currency_def missing_def rejected_def by simp
  have len: "length ?refs = card (counting_refs rx i r)"
    unfolding current_refs [symmetric] by (simp add: image_image)
  have met: "minimumOf (aa_minimumCount r) \<le> int (card (counting_refs rx i r)) \<longleftrightarrow> \<not> ?short" unfolding len by linarith
  have nil: "currency = [] \<and> missing = []" if "\<not> ?short" using that by (simp add: currency_def missing_def)
  have some: "currency \<noteq> [] \<or> missing \<noteq> []" if short: "?short" and all: "\<forall>m \<in> set ?ms. attests rx i r m"
  proof (cases "?ms = [] \<or> ?refs \<noteq> []")
    case True
    then show ?thesis using short by (auto simp: missing_def simp del: js_set)
  next
    case False
    then obtain m where "m \<in> set ?ms" by (cases ?ms) auto
    with all obtain d where "(m, d) \<in> set (attested rx i r)" by (auto simp: attests_def attested_set)
    moreover have "filter ?covers (attested rx i r) = []" using False by simp
    ultimately have "?stale \<noteq> []" by (auto simp: filter_empty_conv)
    then show ?thesis using short by (simp add: currency_def)
  qed
  have rejected: "rejected = [] \<longleftrightarrow> (\<forall>m \<in> set ?ms. attests rx i r m)" by (simp add: rejected_def unqualified_nil)
  show "rf_blockers (evaluateAttestationRequirement rx i r) = [] \<longleftrightarrow> attestation_met rx i r" if "actions_valid rx"
    unfolding bs attestation_met_def met using rejected nil some position_facts(6) [OF that, of i] by (auto simp del: js_set)
  have "list_all blocks rejected" "list_all blocks currency" "list_all blocks missing"
    by (auto simp: rejected_def currency_def missing_def list_all_iff blocks_def reason_codes)
  then show "list_all blocks (rf_blockers (evaluateAttestationRequirement rx i r))"
    unfolding bs using position_facts(1) by (simp add: blocks_def reason_codes)
  assume c: "c \<in> {REVIEW_CONFLICTING, REVIEW_REJECTED, REVIEW_MORE_EVIDENCE_REQUIRED, LIFECYCLE_CANCELLED}"
  then have "\<not> present_code c rejected" using unqualified_codes [of rx i r]
    by (force simp: rejected_def present_code_def reason_codes)
  moreover have "\<not> present_code c currency" "\<not> present_code c missing" "\<not> present_code c ?fresh"
    using c by (auto simp: currency_def missing_def reason_codes)
  ultimately show "present_code c (rf_blockers (evaluateAttestationRequirement rx i r)) \<longleftrightarrow>
      present_code c (position_reasons i (currentDecisions rx i))"
    unfolding bs by simp
qed

subsection \<open>The case\<close>

definition requirement_met :: "host_env \<Rightarrow> RequirementEvaluationContext \<Rightarrow> AssetRequirement \<Rightarrow> bool" where
  "requirement_met env rx q \<longleftrightarrow>
     (case ar_shape q of
        IdentityShape r \<Rightarrow> identity_met rx (ar_id q) r
      | DeclarationShape r \<Rightarrow> declaration_met rx (ar_id q) r
      | EvidenceShape r \<Rightarrow> evidence_met env rx (ar_id q) r
      | VerificationShape r \<Rightarrow> verification_met env rx (ar_id q) r
      | AttestationShape r \<Rightarrow> attestation_met rx (ar_id q) r)"

text \<open>The inputs come from the repositories.\<close>

definition inputs_recorded :: "host_env \<Rightarrow> ReadinessInputs \<Rightarrow> bool" where
  "inputs_recorded env i \<longleftrightarrow>
     results_recorded env (or_empty (rn_verificationResults i)) \<and> list_all (decision_valid env) (or_empty (rn_reviewDecisions i))"

lemma valid_action: "decision_valid env d \<Longrightarrow> isProfessionalReviewAction (rd_action d)"
  by (simp add: decision_valid_def validateProfessionalReviewDecision_def)

lemma recorded_context:
  assumes "inputs_recorded env i"
  shows "results_recorded env (re_verificationResults (evaluation_context c p i))" "actions_valid (evaluation_context c p i)"
  using assms valid_action
  by (auto simp: inputs_recorded_def results_recorded_def evaluation_context_def Let_def list_all_iff actions_valid_def
      intro: distinct_map_filter)

lemma requirement_blockers:
  assumes "results_recorded env (re_verificationResults rx)" "shape_ok env (ar_obligation q) (ar_shape q)"
  shows "actions_valid rx \<Longrightarrow> rf_blockers (evaluateRequirement env rx q) = [] \<longleftrightarrow> requirement_met env rx q"
    "list_all blocks (rf_blockers (evaluateRequirement env rx q))"
  using assms identity_blockers declaration_blockers evidence_blockers verification_blockers attestation_blockers(1,2)
  by (cases "ar_shape q"; simp add: evaluateRequirement_def requirement_met_def isNonEmptyUniqueMemberList_def)+

lemma assessed_blockers:
  assumes "results_recorded env (re_verificationResults rx)" "shape_ok env (ar_obligation q) (ar_shape q)"
  shows "actions_valid rx \<Longrightarrow> qa_blockers (assess c q (evaluateRequirement env rx q)) = [] \<longleftrightarrow>
      (ar_obligation q = Required \<longrightarrow> requirement_met env rx q) \<and> ar_obligation q \<noteq> Conditional"
    "list_all blocks (qa_blockers (assess c q (evaluateRequirement env rx q)))"
  using requirement_blockers [OF assms]
  by (cases "ar_obligation q"; simp add: assess_def Let_def blocks_def reason_codes)+

lemma profile_shapes:
  "profile_wf env p \<Longrightarrow> q \<in> set (ap_requirements p) \<Longrightarrow> shape_ok env (ar_obligation q) (ar_shape q)"
  by (auto simp: profile_wf_def list_all_iff requirement_ok_def)

lemma ready_meaning:
  assumes "profile_wf env p" "inputs_recorded env i"
  shows "rl_ready (evaluation_of env c p i now) \<longleftrightarrow> rl_blockers (evaluation_of env c p i now) = []"
    "rl_blockers (evaluation_of env c p i now) = [] \<longleftrightarrow>
       zc_state c \<noteq> Cancelled \<and>
       (\<forall>q \<in> set (ap_requirements p).
          (ar_obligation q = Required \<longrightarrow> requirement_met env (evaluation_context c p i) q) \<and> ar_obligation q \<noteq> Conditional)"
proof -
  let ?rx = "evaluation_context c p i"
  note recorded = recorded_context [OF assms(2), of c p]
  have one: "qa_blockers (assess c q (evaluateRequirement env ?rx q)) = [] \<longleftrightarrow>
      (ar_obligation q = Required \<longrightarrow> requirement_met env ?rx q) \<and> ar_obligation q \<noteq> Conditional"
    "list_all blocks (qa_blockers (assess c q (evaluateRequirement env ?rx q)))" if "q \<in> set (ap_requirements p)" for q
    using assessed_blockers [OF recorded(1) profile_shapes [OF assms(1) that]] recorded(2) by blast+
  have "list_all blocks (rl_blockers (evaluation_of env c p i now))"
    using one(2) by (auto simp: evaluation_of_def Let_def list_all_iff blocks_def reason_codes)
  from state_ready [OF this]
  show "rl_ready (evaluation_of env c p i now) \<longleftrightarrow> rl_blockers (evaluation_of env c p i now) = []"
    by (simp add: evaluation_of_def Let_def)
  show "rl_blockers (evaluation_of env c p i now) = [] \<longleftrightarrow>
       zc_state c \<noteq> Cancelled \<and>
       (\<forall>q \<in> set (ap_requirements p).
          (ar_obligation q = Required \<longrightarrow> requirement_met env ?rx q) \<and> ar_obligation q \<noteq> Conditional)"
    using one(1) by (auto simp: evaluation_of_def Let_def)
qed

subsection \<open>Review outcomes\<close>

text \<open>The codes of review come from the current positions on required attestation requirements alone.\<close>

definition position_of :: "RequirementEvaluationContext \<Rightarrow> AssetProfile \<Rightarrow> string set \<Rightarrow> bool" where
  "position_of rx p A \<longleftrightarrow>
     (\<exists>q \<in> set (ap_requirements p). ar_obligation q = Required \<and> ar_kind q = AttestationRequirement \<and> current_position rx (ar_id q) = A)"

definition contested :: "RequirementEvaluationContext \<Rightarrow> AssetProfile \<Rightarrow> bool" where
  "contested rx p \<longleftrightarrow>
     (\<exists>q \<in> set (ap_requirements p). ar_obligation q = Required \<and> ar_kind q = AttestationRequirement \<and>
        1 < card (current_position rx (ar_id q)))"

lemma no_review_code:
  assumes "results_recorded env (re_verificationResults rx)" "c \<in> {REVIEW_CONFLICTING, REVIEW_REJECTED, REVIEW_MORE_EVIDENCE_REQUIRED, LIFECYCLE_CANCELLED}"
  shows "\<not> present_code c (rf_blockers (evaluateIdentityRequirement rx i ir))"
    "\<not> present_code c (rf_blockers (evaluateDeclarationRequirement rx i dr))"
    "\<not> present_code c (rf_blockers (evaluateEvidenceRequirement env rx i er))"
    "\<not> present_code c (rf_blockers (evaluateVerificationRequirement env rx i vr))"
proof -
  have short: "\<not> present_code c (shortfall j m n b)" for j m n b
    using shortfall_code [of c j m n b] assms(2) by blast
  have other: "\<not> checks_code c" "c \<noteq> CONSTRAINT_UNEVALUATED" "c \<noteq> MATERIAL_INCOMPATIBLE"
    using assms(2) by (auto simp: checks_code_def)
  show "\<not> present_code c (rf_blockers (evaluateIdentityRequirement rx i ir))"
    "\<not> present_code c (rf_blockers (evaluateDeclarationRequirement rx i dr))"
    using short other by (auto simp: evaluateIdentityRequirement_def evaluateDeclarationRequirement_def Let_def findings_def reason_codes
        simp del: js_set)
  have "\<not> present_code c (fst (dischargeEvidenceFreshness env rx i))" using freshness_blockers(3) [OF assms(1)] other by blast
  moreover have "\<not> present_code c (map (\<lambda>e. (unevaluatedConstraint i (fst e))\<lparr>zx_evidenceRefs := Some (snd e)\<rparr>) xs)"
    "\<not> present_code c (map (\<lambda>e. (blocker_at MATERIAL_INCOMPATIBLE i)\<lparr>zx_constraint := Some (fst e), zx_evidenceRefs := Some (snd e)\<rparr>) xs)" for xs
    using other by (auto simp: present_code_def reason_codes)
  ultimately show "\<not> present_code c (rf_blockers (evaluateEvidenceRequirement env rx i er))"
    using short other(2,3) by (simp add: evaluateEvidenceRequirement_def Let_def findings_def reason_codes)
  let ?ss = "map (\<lambda>k. resolveCheckStanding env rx i k i id) (av_checkIds vr)"
  have "\<not> present_code c (concat (map (\<lambda>s. if st_satisfied s then [] else list_of_option (st_blocker s)) ?ss))"
    using unsatisfied_reasons(3) [of ?ss env rx i i id c] other(1) by auto
  then show "\<not> present_code c (rf_blockers (evaluateVerificationRequirement env rx i vr))"
    using other(2) by (simp add: evaluateVerificationRequirement_def Let_def findings_def reason_codes del: map_map)
qed

lemma review_code:
  assumes "results_recorded env (re_verificationResults rx)" "k \<in> {REVIEW_CONFLICTING, REVIEW_REJECTED, REVIEW_MORE_EVIDENCE_REQUIRED, LIFECYCLE_CANCELLED}"
  shows "present_code k (qa_blockers (assess c q (evaluateRequirement env rx q))) \<longleftrightarrow>
    ar_obligation q = Required \<and> ar_kind q = AttestationRequirement \<and>
    present_code k (position_reasons (ar_id q) (currentDecisions rx (ar_id q)))"
proof -
  have finding: "present_code k (rf_blockers (evaluateRequirement env rx q)) \<longleftrightarrow>
      ar_kind q = AttestationRequirement \<and> present_code k (position_reasons (ar_id q) (currentDecisions rx (ar_id q)))"
    using no_review_code [OF assms] attestation_blockers(3) [OF assms(2)]
    by (cases "ar_shape q") (simp_all add: evaluateRequirement_def ar_kind_def)
  have "k \<noteq> CONDITION_UNRESOLVED" using assms(2) by auto
  then show ?thesis
    using finding by (cases "ar_obligation q") (auto simp: assess_def Let_def reason_codes)
qed

lemma state_meaning:
  assumes "inputs_recorded env i"
  shows "rl_state (evaluation_of env c p i now) = Ineligible \<longleftrightarrow> zc_state c = Cancelled"
    "rl_state (evaluation_of env c p i now) = ReadinessRejected \<longleftrightarrow>
       zc_state c \<noteq> Cancelled \<and> position_of (evaluation_context c p i) p {''Reject''}"
    "rl_state (evaluation_of env c p i now) = ReadinessBlocked \<longleftrightarrow>
       zc_state c \<noteq> Cancelled \<and> \<not> position_of (evaluation_context c p i) p {''Reject''} \<and> contested (evaluation_context c p i) p"
    "rl_state (evaluation_of env c p i now) = MoreEvidenceRequired \<longleftrightarrow>
       zc_state c \<noteq> Cancelled \<and> \<not> position_of (evaluation_context c p i) p {''Reject''} \<and>
       \<not> contested (evaluation_context c p i) p \<and> position_of (evaluation_context c p i) p {''RequestMoreEvidence''}"
proof -
  let ?rx = "evaluation_context c p i"
  let ?bs = "rl_blockers (evaluation_of env c p i now)"
  note recorded = recorded_context(1) [OF assms, of c p]
  have state: "rl_state (evaluation_of env c p i now) = deriveProtocolizationReadinessState ?bs"
    by (simp add: evaluation_of_def Let_def)
  have no_lifecycle: "\<not> present_code LIFECYCLE_CANCELLED (qa_blockers (assess c q (evaluateRequirement env ?rx q)))" for q
    using review_code [OF recorded, of LIFECYCLE_CANCELLED] position_facts(5) by blast
  have cancelled: "present_code LIFECYCLE_CANCELLED ?bs \<longleftrightarrow> zc_state c = Cancelled"
    using no_lifecycle by (auto simp: evaluation_of_def Let_def present_concat reason_codes)
  have code: "present_code k ?bs \<longleftrightarrow>
      (\<exists>q \<in> set (ap_requirements p). ar_obligation q = Required \<and> ar_kind q = AttestationRequirement \<and>
         present_code k (position_reasons (ar_id q) (currentDecisions ?rx (ar_id q))))"
    if "k \<in> {REVIEW_CONFLICTING, REVIEW_REJECTED, REVIEW_MORE_EVIDENCE_REQUIRED}" for k
    using review_code [OF recorded, of k] that by (auto simp: evaluation_of_def Let_def present_concat reason_codes)
  note codes = code [of REVIEW_REJECTED] code [of REVIEW_CONFLICTING] code [of REVIEW_MORE_EVIDENCE_REQUIRED]
  show "rl_state (evaluation_of env c p i now) = Ineligible \<longleftrightarrow> zc_state c = Cancelled"
    "rl_state (evaluation_of env c p i now) = ReadinessRejected \<longleftrightarrow> zc_state c \<noteq> Cancelled \<and> position_of ?rx p {''Reject''}"
    "rl_state (evaluation_of env c p i now) = ReadinessBlocked \<longleftrightarrow>
       zc_state c \<noteq> Cancelled \<and> \<not> position_of ?rx p {''Reject''} \<and> contested ?rx p"
    "rl_state (evaluation_of env c p i now) = MoreEvidenceRequired \<longleftrightarrow>
       zc_state c \<noteq> Cancelled \<and> \<not> position_of ?rx p {''Reject''} \<and> \<not> contested ?rx p \<and> position_of ?rx p {''RequestMoreEvidence''}"
    unfolding state state_precedence cancelled using codes by (auto simp: position_facts position_of_def contested_def)
qed

end
