(* ===== verification/ReviewCurrency.thy ===== *)
theory ReviewCurrency
  imports ReviewRuns ReadinessMeaning
begin

text \<open>
  Which of the attestations recorded in a run of reviews count for the readiness of the case: a revision of the case
  after an attestation is accounted for only by an attestation of another requirement.
\<close>

subsection \<open>Attestations that count\<close>

lemma qualifying_decision:
  assumes "qualifyingAttestation rx i r m = Inr d"
  shows "d \<in> set (re_reviewDecisions rx)" "rd_action d = ''Attest''" "rd_attestationRequirementId d = i"
    "rd_canonicalAttestationRef d = Some (attestation_ref m)"
proof -
  have "find (decision_behind i m) (re_reviewDecisions rx) = Some d"
    using assms by (auto simp: qualifyingAttestation_def split: option.splits if_splits)
  from found [OF this]
  show "d \<in> set (re_reviewDecisions rx)" "rd_action d = ''Attest''" "rd_attestationRequirementId d = i"
    "rd_canonicalAttestationRef d = Some (attestation_ref m)"
    by (simp_all add: decision_behind_def)
qed

text \<open>
  The decisions of an evaluation make their artifacts in one order: a decision with an artifact has a revision it results
  in, no later than the one evaluated, and shares it with no other.
\<close>

definition one_order :: "RequirementEvaluationContext \<Rightarrow> bool" where
  "one_order rx \<longleftrightarrow>
     (\<forall>d \<in> set (re_reviewDecisions rx). rd_canonicalAttestationRef d \<noteq> None \<longrightarrow>
        (\<exists>n. rd_resultingCaseRevision d = Some n \<and> n \<le> re_revision rx)) \<and>
     (\<forall>d \<in> set (re_reviewDecisions rx). \<forall>e \<in> set (re_reviewDecisions rx).
        rd_resultingCaseRevision d \<noteq> None \<and> rd_resultingCaseRevision d = rd_resultingCaseRevision e \<longrightarrow> d = e)"

text \<open>A later artifact of the same requirement is a revision the earlier one does not cover.\<close>

lemma later_stales:
  assumes "one_order rx" "qualifyingAttestation rx i r m = Inr d" "qualifyingAttestation rx i r m' = Inr d'"
    "coversCurrentRevision rx i (coveredThrough d)"
  shows "coveredThrough d' \<le> coveredThrough d"
proof (rule ccontr)
  note q = qualifying_decision [OF assms(2)] and q' = qualifying_decision [OF assms(3)]
  have "\<exists>n. rd_resultingCaseRevision d' = Some n \<and> n \<le> re_revision rx"
    using assms(1) q'(1,4) unfolding one_order_def by simp
  then obtain n where n: "rd_resultingCaseRevision d' = Some n" "n \<le> re_revision rx" by blast
  assume "\<not> coveredThrough d' \<le> coveredThrough d"
  then have "n \<in> set [coveredThrough d + 1 .. re_revision rx]" using n by (simp add: coveredThrough_def)
  then obtain e where e: "e \<in> set (re_reviewDecisions rx)" "rd_attestationRequirementId e \<noteq> i" "rd_resultingCaseRevision e = Some n"
    using assms(4) unfolding coversCurrentRevision_def list_all_iff list_ex_iff by blast
  have "e = d'" using assms(1) e(1,3) q'(1) n(1) unfolding one_order_def by simp
  with e(2) q'(3) show False by simp
qed

lemma one_counts:
  assumes "one_order rx"
  shows "card (counting_refs rx i r) \<le> 1"
proof -
  let ?ms = "set (materials_for rx i AttestationMaterial)"
  have same: "x = y" if x: "x \<in> counting_refs rx i r" and y: "y \<in> counting_refs rx i r" for x y
  proof -
    obtain m d where d: "x = attestation_ref m" "qualifyingAttestation rx i r m = Inr d" "coversCurrentRevision rx i (coveredThrough d)"
      using x by (auto simp: counting_refs_def)
    obtain m' d' where d': "y = attestation_ref m'" "qualifyingAttestation rx i r m' = Inr d'" "coversCurrentRevision rx i (coveredThrough d')"
      using y by (auto simp: counting_refs_def)
    have at: "coveredThrough d = coveredThrough d'"
      using later_stales [OF assms d(2) d'(2) d(3)] later_stales [OF assms d'(2) d(2) d'(3)] by simp
    note q = qualifying_decision [OF d(2)] and q' = qualifying_decision [OF d'(2)]
    have made: "\<exists>n. rd_resultingCaseRevision k = Some n" if "k \<in> {d, d'}" for k
      using assms that q(1,4) q'(1,4) unfolding one_order_def by auto
    from made [of d] made [of d'] at have "rd_resultingCaseRevision d \<noteq> None \<and> rd_resultingCaseRevision d = rd_resultingCaseRevision d'"
      by (auto simp: coveredThrough_def)
    then have "d = d'" using assms q(1) q'(1) unfolding one_order_def by blast
    then show "x = y" using q(4) q'(4) d(1) d'(1) by simp
  qed
  have "counting_refs rx i r \<subseteq> attestation_ref ` ?ms" by (auto simp: counting_refs_def)
  then have "finite (counting_refs rx i r)" by (rule finite_subset) simp
  then show ?thesis using same by (simp add: card_le_Suc0_iff_eq)
qed

text \<open>The case as its profile describes it.\<close>

lemma valid_for_profile:
  "isValidProtocolizationCase env c (Some p) \<longleftrightarrow>
     case_wf env c \<and> zc_profile c = profile_ref_of p \<and>
     set (map zr_requirementId (zc_requirementStates c)) \<subseteq> ar_id ` set (ap_requirements p)"
proof -
  have parts: "validateProtocolizationCase env c (Some p) = validateProtocolizationCase env c None @ profile_issues env c (Some p)"
    by (simp add: validateProtocolizationCase_def profile_issues_def)
  have "profile_issues env c (Some p) = [] \<longleftrightarrow> zc_profile c = profile_ref_of p \<and>
      set (map zr_requirementId (zc_requirementStates c)) \<subseteq> ar_id ` set (ap_requirements p)" if wf: "case_wf env c"
  proof -
    have "filter (isValidRequirementStateShape env) (zc_requirementStates c) = zc_requirementStates c"
      using wf by (simp add: case_wf_def states_ok_def list_all_iff filter_id_conv)
    moreover have "isValidProtocolizationProfileRef (zc_profile c)" using wf by (simp add: case_wf_def header_ok_def)
    ultimately show ?thesis by (auto simp: profile_issues_def projected_ids_def)
  qed
  then show ?thesis unfolding isValidProtocolizationCase_def parts append_is_Nil_conv validate_wf by blast
qed

text \<open>The decisions of a run are in one order.\<close>

lemma run_one_order:
  assumes "review_ok env cat s" "set (or_empty (rn_reviewDecisions i)) \<subseteq> set (de_entries (ws_decisions s))"
  shows "one_order (evaluation_context (ws_case s) p i)" "actions_valid (evaluation_context (ws_case s) p i)"
proof -
  let ?rx = "evaluation_context (ws_case s) p i"
  have own: "set (re_reviewDecisions ?rx) \<subseteq> set (de_entries (ws_decisions s))" "re_revision ?rx = zc_revision (ws_case s)"
    using assms(2) by (auto simp: evaluation_context_def Let_def)
  have made: "rd_canonicalAttestationRef d \<noteq> None \<longrightarrow> (\<exists>n. rd_resultingCaseRevision d = Some n \<and> n \<le> zc_revision (ws_case s))"
    if "d \<in> set (de_entries (ws_decisions s))" for d
    using assms(1) that by (auto simp: review_ok_def decision_for_def split: option.splits)
  have apart: "\<forall>d \<in> set (de_entries (ws_decisions s)). \<forall>e \<in> set (de_entries (ws_decisions s)).
      rd_resultingCaseRevision d \<noteq> None \<and> rd_resultingCaseRevision d = rd_resultingCaseRevision e \<longrightarrow> d = e"
    using assms(1) unfolding review_ok_def by (elim conjE)
  show "one_order ?rx" unfolding one_order_def own(2) using own(1) made apart by blast
  have "list_all (decision_valid env) (de_entries (ws_decisions s))"
    using assms(1) by (simp add: review_ok_def decisions.indexed_good_def decisions.good_def)
  then show "actions_valid ?rx" using own(1) valid_action by (auto simp: actions_valid_def list_all_iff)
qed

lemma unmet_not_ready:
  assumes "actions_valid (evaluation_context c p i)" "q \<in> set (ap_requirements p)" "ar_obligation q = Required"
    "ar_shape q = AttestationShape r" "\<not> attestation_met (evaluation_context c p i) (ar_id q) r"
  shows "rl_state (evaluation_of env c p i now) \<noteq> Ready"
proof -
  let ?rx = "evaluation_context c p i"
  let ?f = "evaluateAttestationRequirement ?rx (ar_id q) r"
  have "rf_blockers ?f \<noteq> []" "list_all blocks (rf_blockers ?f)" using attestation_blockers(1) [OF assms(1)] attestation_blockers(2) assms(5) by auto
  then obtain b bs k where "rf_blockers ?f = b # bs" "zx_reasonCode b = BlockerReason k"
    by (cases "rf_blockers ?f") (auto simp: blocks_def)
  then have "present_code k (rf_blockers ?f)" by (simp add: present_code_def)
  then have "present_code k (qa_blockers (assess c q (evaluateRequirement env ?rx q)))"
    using assms(3,4) by (simp add: assess_def Let_def evaluateRequirement_def)
  then have "present_code k (rl_blockers (evaluation_of env c p i now))"
    using assms(2) by (auto simp: evaluation_of_def Let_def present_concat)
  from not_ready [OF this] show ?thesis by (simp add: evaluation_of_def Let_def)
qed

end
