(* ===== verification/ReviewSamples.thy ===== *)
theory ReviewSamples
  imports ReviewRuns ReadinessMeaning CaseSamples
begin

text \<open>A case with a declaration, and two experts who are asked for, and give, the opinion its profile requires twice.\<close>

subsection \<open>The dossier\<close>

definition claim_material :: MaterialInput where
  "claim_material =
     \<lparr>im_materialId = ''material-2'', im_requirementIds = [''origin''], im_correlationId = None,
      im_payload = DeclarationPayload ''claim-3''\<rparr>"

definition dossier :: ProtocolizationCase where
  "dossier = effect first_case (AddMaterial claim_material) later_text"

lemma sample_profile: "catalog_get case_catalog ''art.print'' ''1.0.0'' = Some case_profile"
  by code_simp

lemma dossier_made: "\<exists>ev. perform sample_env (case_context later_text) first_case (AddMaterial claim_material) = Inr (dossier, ev)"
proof -
  have "isValidProtocolizationCaseMaterial sample_env (material_of claim_material later_text)"
    unfolding later_text_def by code_simp
  moreover have "operable sample_env (case_context later_text) first_case" "time_ok sample_env (case_context later_text) first_case"
    "revisable first_case"
    using first_wf later_than_first by (simp_all add: operable_def time_ok_def revisable_def first_case_facts)
  moreover have "pinned_profile (case_context later_text) first_case = Some case_profile"
    using sample_profile by (simp add: pinned_profile_def case_context_def first_case_def initial_case_def case_input_def)
  moreover have "requirements_ok (im_requirementIds claim_material) case_profile first_case"
    by (simp add: requirements_ok_def claim_material_def first_case_facts)
  moreover have "zc_state first_case \<noteq> Cancelled" "zc_materials first_case = []"
    by (simp_all add: first_case_def initial_case_def INITIAL_PROTOCOLIZATION_CASE_STATE_def)
  ultimately show ?thesis
    unfolding perform_Inr dossier_def by (simp add: case_context_def [of later_text])
qed

text \<open>A case of the sample profile that can be reviewed, with the revision and the material it has.\<close>

definition reviewable :: "ProtocolizationCase \<Rightarrow> int \<Rightarrow> string list \<Rightarrow> bool" where
  "reviewable c n ids \<longleftrightarrow>
     case_wf sample_env c \<and> zc_tenantId c = ''gallery'' \<and> zc_caseId c = ''case-1'' \<and>
     zc_profile c = \<lparr>pr_profileId = ''art.print'', pr_profileVersion = ''1.0.0''\<rparr> \<and> zc_subject c = ic_subject case_input \<and>
     zc_state c = Draft \<and> zc_updatedAt c = later_text \<and> zc_revision c = n \<and> 1 \<le> n \<and> n < 100 \<and> claim_in_case c ''claim-3'' \<and>
     map zm_materialId (zc_materials c) = ids \<and> map zr_requirementId (zc_requirementStates c) = [''origin'', ''expert.opinion'']"

lemma dossier_reviewable: "reviewable dossier 2 [''material-2'']"
proof -
  obtain ev where p: "perform sample_env (case_context later_text) first_case (AddMaterial claim_material) = Inr (dossier, ev)"
    using dossier_made by blast
  have "case_wf sample_env dossier" by (rule perform_wf [OF p])
  then show ?thesis
    by (simp add: reviewable_def dossier_def with_material_def material_of_def claim_material_def claim_in_case_def correlate_def
        correlate_one_def first_case_facts del: effect_fields)
qed

subsection \<open>A review\<close>

definition review_context :: ReviewContext where
  "review_context =
     \<lparr>px_catalog = catalog_get case_catalog, px_clock = (\<lambda>n. later_text), px_tenantId = ''gallery'', px_signer = None\<rparr>"

definition opinion_basis :: "ProfessionalReviewBasisRef list" where
  "opinion_basis = [\<lparr>pb_kind = ''Material'', pb_ref = ''material-2''\<rparr>]"

definition opinion_scope :: "int \<Rightarrow> ProfessionalReviewScope" where
  "opinion_scope n =
     \<lparr>sp_requirementId = ''expert.opinion'', sp_attestationType = ''Human'', sp_subjectRef = su_subjectRef (ic_subject case_input),
      sp_caseRevision = n, sp_propositionRefs = opinion_basis, sp_scopeStatement = None, sp_limitations = None\<rparr>"

definition opinion_request :: "string \<Rightarrow> int \<Rightarrow> CreateReviewRequestInput" where
  "opinion_request k n =
     \<lparr>iq_reviewRequestId = ''request-'' @ k, iq_attestationRequirementId = ''expert.opinion'',
      iq_requestedAttestationType = ''Human'', iq_requestedScope = opinion_scope n, iq_correlationId = None\<rparr>"

definition opinion :: "string \<Rightarrow> ProfessionalAttestationInput" where
  "opinion k =
     \<lparr>ia_attestationId = ''opinion-'' @ k, ia_claimRef = ''claim-3'', ia_statement = ''Printed by the artist.'',
      ia_materialId = ''review-'' @ k,
      ia_proofRefs = Some [\<lparr>pf_id = ''proof-'' @ k, pf_type = ''SignatureProof'', pf_source = TextSource ''registry''\<rparr>]\<rparr>"

definition opinion_decision :: "string \<Rightarrow> int \<Rightarrow> RecordReviewDecisionInput" where
  "opinion_decision k n =
     \<lparr>id_decisionId = ''decision-'' @ k, id_reviewer = \<lparr>cp_id = ''expert-'' @ k, cp_kind = ''Human''\<rparr>,
      id_reviewerCredentialRefs = None, id_action = ''Attest'', id_scope = Some (opinion_scope n),
      id_reviewedRefs = Some opinion_basis, id_reasonCode = None, id_requestedMaterial = None, id_note = None,
      id_attestation = Some (opinion k), id_correlationId = None\<rparr>"

definition named_ok :: "string \<Rightarrow> bool" where
  "named_ok k \<longleftrightarrow>
     isProtocolizationInstanceIdentifier (''request-'' @ k) \<and> isProtocolizationInstanceIdentifier (''decision-'' @ k) \<and>
     isValidProtocolizationMaterialId (''review-'' @ k) \<and> isCanonicalRecordId (''opinion-'' @ k) \<and>
     isCanonicalRecordId (''proof-'' @ k) \<and> isCanonicalRecordId (''expert-'' @ k)"

lemma names_ok: "named_ok ''1''" "named_ok ''2''"
  by (code_simp, code_simp)

lemma opinion_facts:
  "isValidAssetRequirementId ''expert.opinion''" "isAttestationType ''Human''"
  "isValidSovereignSubjectRef (su_subjectRef (ic_subject case_input))" "isValidBasisRefList opinion_basis"
  "isValidProtocolizationTenantId ''gallery''" "isValidProtocolizationCaseId ''case-1''"
  "isValidProtocolizationProfileRef \<lparr>pr_profileId = ''art.print'', pr_profileVersion = ''1.0.0''\<rparr>"
  "isCanonicalRecordId ''claim-3''" "trim ''Printed by the artist.'' \<noteq> []" "trim ''registry'' \<noteq> []" "isValidRequirementIdList [''expert.opinion'']"
  by (code_simp, code_simp, code_simp, code_simp, code_simp, code_simp, code_simp, code_simp, code_simp, code_simp, code_simp)

lemma opinion_scope_ok: "1 \<le> n \<Longrightarrow> n < 100 \<Longrightarrow> validateProfessionalReviewScope (opinion_scope n) = []"
  using opinion_facts by (simp add: validateProfessionalReviewScope_def opinion_scope_def isCaseRevision_def isSafeInteger_def)

lemma later_on_time:
  "isValidUtcDateTime sample_env later_text"
  "\<not> date_gt (date_parse (e_date sample_env) later_text) (date_parse (e_date sample_env) later_text)"
  using later_than_first by (simp_all add: date_gt_def split: option.split)


subsection \<open>Asking for an opinion\<close>

definition asked :: "ProtocolizationCase \<Rightarrow> string \<Rightarrow> int \<Rightarrow> ProfessionalReviewRequest" where
  "asked c k n = request_of c ''expert.opinion'' (opinion_request k n) later_text"

lemma expert_requirement:
  assumes "reviewable c n ids"
  shows "attestation_requirement review_context c ''expert.opinion''
    \<lparr>aa_acceptedTypes = [''Human''], aa_attester = None, aa_minimumCount = Some 2, aa_freshness = None\<rparr>"
  unfolding attestation_requirement_def
  by (intro exI [of _ case_profile] exI [of _ "ap_requirements case_profile ! 1"])
    (use assms sample_profile in \<open>simp add: reviewable_def review_context_def\<close>, simp add: case_profile_def)

lemma scope_of_case:
  assumes "reviewable c n ids"
  shows "scope_describes c ''expert.opinion'' ''Human'' n (opinion_scope n)"
  using assms opinion_scope_ok [of n]
  by (simp add: scope_describes_def isValidProfessionalReviewScope_def reviewable_def)
    (simp add: opinion_scope_def case_input_def externalAgrees_def)

lemma asked_valid:
  assumes "reviewable c n ids" "named_ok k"
  shows "request_valid sample_env (asked c k n)"
  using assms opinion_scope_ok [of n] opinion_facts later_on_time(1)
  by (simp add: request_valid_def validateProfessionalReviewRequest_def Let_def isValidProfessionalReviewScope_def asked_def
      request_of_def opinion_request_def named_ok_def isValidProfessionalReviewRequestId_def reviewable_def isCaseRevision_def isSafeInteger_def)
    (simp add: opinion_scope_def)

lemma opinion_asked:
  assumes "reviewable c n ids" "named_ok k"
  shows "createProfessionalReviewRequest sample_env review_context c (opinion_request k n) =
    Inr (asked c k n, requested_event (asked c k n))"
proof -
  have reasons: "request_reasons (opinion_request k n) = []"
    using assms(2) opinion_facts(1)
    by (simp add: request_reasons_def opinion_request_def named_ok_def isValidProfessionalReviewRequestId_def isUsableCorrelationId_def)
  have input: "iq_attestationRequirementId (opinion_request k n) = ''expert.opinion''"
    "iq_requestedAttestationType (opinion_request k n) = ''Human''" "iq_requestedScope (opinion_request k n) = opinion_scope n"
    by (simp_all add: opinion_request_def)
  have ctx: "px_tenantId review_context = ''gallery''" "px_clock review_context 0 = later_text" by (simp_all add: review_context_def)
  have held: "zc_tenantId c = ''gallery''" "case_wf sample_env c" "zc_state c \<noteq> Cancelled" "zc_revision c = n" "zc_updatedAt c = later_text"
    using assms(1) by (simp_all add: reviewable_def)
  have type: "\<exists>r. attestation_requirement review_context c ''expert.opinion'' r \<and> ''Human'' \<in> set (aa_acceptedTypes r)"
    by (rule exI, rule conjI, rule expert_requirement [OF assms(1)]) simp
  show ?thesis
    unfolding request_create_Inr input ctx held(4,5) asked_def [symmetric]
    using held(1-3) reasons type scope_of_case [OF assms(1)] asked_valid [OF assms] later_on_time opinion_facts(5)
    by (intro conjI) (assumption | rule refl)+
qed


subsection \<open>Giving it\<close>

definition given :: "ProtocolizationCase \<Rightarrow> string \<Rightarrow> int \<Rightarrow> CanonicalAttestation" where
  "given c k n =
     attestation_of (preparation_input (asked c k n) (opinion_decision k n) (opinion k) later_text (the (ia_proofRefs (opinion k))))"

definition opinion_material :: "string \<Rightarrow> MaterialInput" where
  "opinion_material k =
     \<lparr>im_materialId = ''review-'' @ k, im_requirementIds = [''expert.opinion''], im_correlationId = None,
      im_payload = AttestationPayload (''opinion-'' @ k)\<rparr>"

definition with_opinion :: "ProtocolizationCase \<Rightarrow> string \<Rightarrow> ProtocolizationCase" where
  "with_opinion c k = effect c (AddMaterial (opinion_material k)) later_text"

lemma given_fields:
  "ca_id (given c k n) = ''opinion-'' @ k" "ca_proofRefs (given c k n) = ia_proofRefs (opinion k)"
  "attestation_material ''expert.opinion'' (opinion_decision k n) (opinion k) (given c k n) = opinion_material k"
  by (simp_all add: given_def attestation_of_def preparation_input_def opinion_def attestation_material_def opinion_decision_def opinion_material_def)

lemma opinion_prepared:
  assumes "named_ok k"
  shows "prepareCanonicalAttestationFromReview sample_env
    (preparation_input (asked c k n) (opinion_decision k n) (opinion k) later_text (the (ia_proofRefs (opinion k)))) = Inr (given c k n)"
  using assms opinion_facts(8-10) later_on_time(1)
  by (simp add: prepared_Inr given_def preparation_input_def opinion_def named_ok_def isUsableProofRef_def ProofTypes_def
      STATEMENT_MAX_def PROOF_REFS_MAX_COUNT_def)

lemma opinion_added:
  assumes "reviewable c n ids" "named_ok k" "''review-'' @ k \<notin> set ids"
  shows "\<exists>ev. perform sample_env (case_context_at review_context 1) c (AddMaterial (opinion_material k)) = Inr (with_opinion c k, ev)"
proof -
  define x where "x = case_context_at review_context 1"
  have ctx: "cx_now x = later_text" "cx_tenantId x = ''gallery''"
    "cx_catalog x = catalog_get case_catalog"
    by (simp_all add: x_def case_context_at_def review_context_def)
  have "isValidProtocolizationCaseMaterial sample_env (material_of (opinion_material k) later_text)"
    using assms(2) opinion_facts(11) later_on_time(1)
    by (simp add: isValidProtocolizationCaseMaterial_def material_of_def opinion_material_def named_ok_def isNonEmptyUniqueMemberList_def)
  moreover have "operable sample_env x c" "time_ok sample_env x c" "revisable c"
    using assms(1) later_on_time(1) later_than_itself by (simp_all add: operable_def time_ok_def revisable_def reviewable_def ctx)
  moreover have "pinned_profile x c = Some case_profile"
    using assms(1) sample_profile by (simp add: pinned_profile_def ctx reviewable_def)
  moreover have "requirements_ok (im_requirementIds (opinion_material k)) case_profile c"
  proof -
    have "''expert.opinion'' \<in> set (map zr_requirementId (zc_requirementStates c))" using assms(1) by (simp add: reviewable_def)
    then show ?thesis by (simp add: requirements_ok_def opinion_material_def) (simp add: case_profile_def)
  qed
  moreover have "zc_state c \<noteq> Cancelled" "im_materialId (opinion_material k) \<notin> zm_materialId ` set (zc_materials c)"
    using assms(1,3) by (auto simp: reviewable_def opinion_material_def)
  ultimately show ?thesis unfolding x_def [symmetric] perform_Inr with_opinion_def by (simp add: ctx(1))
qed

lemma with_opinion_reviewable:
  assumes "reviewable c n ids" "named_ok k" "''review-'' @ k \<notin> set ids" "n < 99"
  shows "reviewable (with_opinion c k) (n + 1) (ids @ [''review-'' @ k])"
proof -
  obtain ev where p: "perform sample_env (case_context_at review_context 1) c (AddMaterial (opinion_material k)) = Inr (with_opinion c k, ev)"
    using opinion_added [OF assms(1-3)] by blast
  have "case_wf sample_env (with_opinion c k)" "claim_in_case (with_opinion c k) ''claim-3''"
    using perform_wf [OF p] claim_kept [OF _ p] assms(1) by (simp_all add: reviewable_def)
  moreover have "map zr_requirementId (correlate ss xs m t) = map zr_requirementId ss" for ss xs m t
    by (simp add: correlate_def correlate_one_def)
  ultimately show ?thesis
    using assms(1,4) by (simp add: reviewable_def with_opinion_def with_material_def material_of_def opinion_material_def del: map_map)
qed


definition decided :: "ProtocolizationCase \<Rightarrow> string \<Rightarrow> int \<Rightarrow> ProfessionalReviewDecision" where
  "decided c k n =
     (decision_of c (asked c k n) (opinion_decision k n) ''expert.opinion'' later_text None)
       \<lparr>rd_resultingCaseRevision := Some (n + 1), rd_canonicalAttestationRef := Some (''opinion-'' @ k),
        rd_attestationMaterialId := Some (''review-'' @ k)\<rparr>"

lemma decided_of:
  assumes "reviewable c n ids"
  shows "decision_of c (asked c k n) (opinion_decision k n) ''expert.opinion'' later_text
      (Some (opinion k, given c k n, with_opinion c k, ev)) = decided c k n"
  using assms effect_fields(1) [of c "AddMaterial (opinion_material k)" later_text]
  by (simp add: decided_def decision_of_def given_fields(1) with_opinion_def [symmetric] reviewable_def opinion_def del: effect.simps)

lemma decided_fields:
  assumes "reviewable c n ids"
  shows "rd_schemaVersion (decided c k n) = PROFESSIONAL_REVIEW_DECISION_SCHEMA_VERSION" "rd_decisionId (decided c k n) = ''decision-'' @ k"
    "rd_reviewRequestId (decided c k n) = ''request-'' @ k" "rd_tenantId (decided c k n) = ''gallery''" "rd_caseId (decided c k n) = ''case-1''"
    "rd_profile (decided c k n) = \<lparr>pr_profileId = ''art.print'', pr_profileVersion = ''1.0.0''\<rparr>"
    "rd_attestationRequirementId (decided c k n) = ''expert.opinion''" "rd_reviewer (decided c k n) = \<lparr>cp_id = ''expert-'' @ k, cp_kind = ''Human''\<rparr>"
    "rd_reviewerCredentialRefs (decided c k n) = None" "rd_action (decided c k n) = ''Attest''" "rd_scope (decided c k n) = Some (opinion_scope n)"
    "rd_reviewBasisRevision (decided c k n) = n" "rd_resultingCaseRevision (decided c k n) = Some (n + 1)"
    "rd_reviewedRefs (decided c k n) = Some opinion_basis" "rd_reasonCode (decided c k n) = None" "rd_requestedMaterial (decided c k n) = None"
    "rd_note (decided c k n) = None" "rd_canonicalAttestationRef (decided c k n) = Some (''opinion-'' @ k)"
    "rd_attestationMaterialId (decided c k n) = Some (''review-'' @ k)" "rd_decidedAt (decided c k n) = later_text"
    "rd_correlationId (decided c k n) = None"
  using assms by (simp_all add: decided_def decision_of_def opinion_decision_def asked_def request_of_def opinion_request_def reviewable_def)

lemma decided_valid:
  assumes "reviewable c n ids" "named_ok k"
  shows "decision_valid sample_env (decided c k n)"
proof -
  have "action_reasons (decided c k n) = []"
    using decided_fields [OF assms(1)]
    by (simp add: action_reasons_def isProfessionalReviewAction_def PROFESSIONAL_REVIEW_ACTIONS_def ACTION_REQUIRED_def ACTION_FORBIDDEN_def
        has_field_def) (simp add: opinion_scope_def)
  moreover have "isUsablePrincipalRef \<lparr>cp_id = ''expert-'' @ k, cp_kind = ''Human''\<rparr>"
    using assms(2) by (simp add: isUsablePrincipalRef_def named_ok_def PrincipalKinds_def)
  moreover have "isCaseRevision n" "isCaseRevision (n + 1)" using assms(1) by (simp_all add: reviewable_def isCaseRevision_def isSafeInteger_def)
  moreover have "isValidProfessionalReviewScope (opinion_scope n)"
    using assms(1) opinion_scope_ok [of n] by (simp add: isValidProfessionalReviewScope_def reviewable_def)
  moreover have "isProfessionalReviewAction ''Attest''" by (simp add: isProfessionalReviewAction_def PROFESSIONAL_REVIEW_ACTIONS_def)
  moreover note opinion_facts later_on_time(1)
  moreover have "n < n + 1" by simp
  ultimately show ?thesis
    using assms(2) unfolding decision_valid_def validateProfessionalReviewDecision_def decided_fields [OF assms(1)] if_present_def option.case
      named_ok_def isValidProfessionalReviewDecisionId_def isValidProfessionalReviewRequestId_def
    by (simp only: unless_ok_def simp_thms if_True append.simps option.case)
qed


lemma opinion_recorded:
  assumes "reviewable c n ids" "named_ok k" "''review-'' @ k \<notin> set ids"
  shows "\<exists>t. recordProfessionalReviewDecision sample_env review_context c (asked c k n) (opinion_decision k n) = Inr t \<and>
    tr_decision t = decided c k n \<and>
    (\<exists>pt. tr_produced t = Some pt \<and> pt_case pt = with_opinion c k \<and> pt_attestation pt = given c k n)"
proof -
  let ?r = "asked c k n" and ?i = "opinion_decision k n"
  obtain ev where p: "perform sample_env (case_context_at review_context 1) c (AddMaterial (opinion_material k)) = Inr (with_opinion c k, ev)"
    using opinion_added [OF assms] by blast
  let ?made = "Some (opinion k, given c k n, with_opinion c k, ev)"
  have held: "zc_tenantId c = px_tenantId review_context" "case_wf sample_env c" "zc_state c \<noteq> Cancelled" "zc_revision c = n"
    "zc_updatedAt c = later_text" "claim_in_case c (ia_claimRef (opinion k))"
    using assms(1) by (simp_all add: reviewable_def review_context_def opinion_def)
  have request: "rq_tenantId ?r = zc_tenantId c" "rq_caseId ?r = zc_caseId c" "rq_profile ?r = zc_profile c"
    "rq_reviewBasisRevision ?r = zc_revision c" "rq_attestationRequirementId ?r = ''expert.opinion''" "rq_requestedAttestationType ?r = ''Human''"
    by (simp_all add: asked_def request_of_def opinion_request_def)
  have input: "id_action ?i = ''Attest''" "id_scope ?i = Some (opinion_scope n)" "id_attestation ?i = Some (opinion k)"
    "id_reviewerCredentialRefs ?i = None"
    by (simp_all add: opinion_decision_def)
  have reasons: "decision_reasons ?i = []"
    using assms(2) by (simp add: decision_reasons_def opinion_decision_def named_ok_def isValidProfessionalReviewDecisionId_def isUsableCorrelationId_def)
  have shaped: "action_shaped ?i"
    by (simp add: action_shaped_def opinion_decision_def isProfessionalReviewAction_def PROFESSIONAL_REVIEW_ACTIONS_def nonempty_list_def opinion_basis_def)
  have clock: "px_clock review_context m = later_text" for m by (simp add: review_context_def)
  have proofs: "proofs_collected review_context c ?r ?i (opinion k) later_text (the (ia_proofRefs (opinion k)))"
    by (simp add: proofs_collected_def review_context_def opinion_def or_empty_def)
  have "produces sample_env review_context c ?r ?i (opinion k, given c k n, with_opinion c k, ev)"
    unfolding produces_def clock
    by (intro exI conjI) (rule refl, rule input(3), rule input(1), rule held(6), rule proofs, rule opinion_prepared [OF assms(2)],
      simp only: request(5) given_fields(3), rule p)
  then have made: "?made = None \<and> (id_attestation ?i = None \<or> id_action ?i \<noteq> ''Attest'') \<or>
      (\<exists>pr. ?made = Some pr \<and> produces sample_env review_context c ?r ?i pr)" by blast
  have scope: "\<forall>s. id_action ?i = ''Attest'' \<and> id_scope ?i = Some s \<longrightarrow>
      scope_describes c (rq_attestationRequirementId ?r) (rq_requestedAttestationType ?r) (zc_revision c) s"
    using scope_of_case [OF assms(1)] by (simp add: input request held(4))
  have accepted: "reviewer_accepted \<lparr>aa_acceptedTypes = [''Human''], aa_attester = None, aa_minimumCount = Some 2, aa_freshness = None\<rparr>
      (id_reviewer ?i) (or_empty (id_reviewerCredentialRefs ?i))"
    by (simp add: reviewer_accepted_def)
  have valid: "decision_valid sample_env (decision_of c ?r ?i (rq_attestationRequirementId ?r) (px_clock review_context 0) ?made)"
    unfolding request(5) clock decided_of [OF assms(1)] by (rule decided_valid [OF assms(1,2)])
  have time: "isValidUtcDateTime sample_env (px_clock review_context 0)"
    "\<not> date_gt (date_parse (e_date sample_env) (zc_updatedAt c)) (date_parse (e_date sample_env) (px_clock review_context 0))"
    unfolding clock held(5) by (rule later_on_time)+
  have requirement: "attestation_requirement review_context c (rq_attestationRequirementId ?r)
      \<lparr>aa_acceptedTypes = [''Human''], aa_attester = None, aa_minimumCount = Some 2, aa_freshness = None\<rparr>"
    unfolding request(5) by (rule expert_requirement [OF assms(1)])
  note recorded = record_succeeds [OF held(1-3) request(1-4) reasons requirement shaped accepted scope time made valid]
  show ?thesis
    unfolding recorded request(5) clock decided_of [OF assms(1)] by (simp add: decision_transition_def)
qed

subsection \<open>Two opinions\<close>

lemma review_pair:
  assumes "review_run sample_env (catalog_get case_catalog) s" "reviewable (ws_case s) n ids" "named_ok k" "''review-'' @ k \<notin> set ids"
    "\<forall>r \<in> set (ws_requests s). rq_reviewRequestId r \<noteq> ''request-'' @ k"
    "\<forall>d \<in> set (de_entries (ws_decisions s)). rd_decisionId d \<noteq> ''decision-'' @ k \<and> rd_reviewRequestId d \<noteq> ''request-'' @ k"
  shows "\<exists>s'. review_run sample_env (catalog_get case_catalog) s' \<and> ws_case s' = with_opinion (ws_case s) k \<and>
    ws_requests s' = ws_requests s @ [asked (ws_case s) k n] \<and>
    de_entries (ws_decisions s') = de_entries (ws_decisions s) @ [decided (ws_case s) k n] \<and>
    ws_attestations s' = ws_attestations s @ [given (ws_case s) k n]"
proof -
  let ?c = "ws_case s"
  let ?r = "asked ?c k n" and ?d = "decided ?c k n"
  note ok = review_run_ok [OF assms(1), unfolded review_ok_def]
  have tenants: "\<forall>r \<in> set (ws_requests s). isValidProtocolizationTenantId (rq_tenantId r)"
    "\<forall>d \<in> set (de_entries (ws_decisions s)). isValidProtocolizationTenantId (rd_tenantId d)"
    using ok requests.valid_tenant decisions.valid_tenant
    by (auto simp: requests.good_def decisions.indexed_good_def decisions.good_def list_all_iff)
  have index: "index_of (ws_decisions s)" using ok by (simp add: decisions.indexed_good_def)
  have request: "rq_tenantId ?r = ''gallery''" "rq_reviewRequestId ?r = ''request-'' @ k"
    using assms(2) by (simp_all add: asked_def request_of_def opinion_request_def reviewable_def)
  note decision = decided_fields(2-4) [OF assms(2), of k]
  have apart: "storageKey t i \<noteq> storageKey ''gallery'' j" if "isValidProtocolizationTenantId t" "i \<noteq> j" for t i j
    using storageKey_inj [OF that(1) opinion_facts(5)] that(2) by blast
  have "record_with request_key (ws_requests s) (request_key ?r) = None"
    using tenants(1) assms(5) apart by (simp add: record_with_None request_key_def request image_iff) metis
  then have saved: "request_save sample_env (ws_requests s) ?r = Inr (ws_requests s @ [?r])"
    using asked_valid [OF assms(2,3)] by (simp add: request_save_Inr)
  let ?s1 = "s\<lparr>ws_requests := ws_requests s @ [?r]\<rparr>"
  have "px_catalog review_context = catalog_get case_catalog" by (simp add: review_context_def)
  from review_step.requested [OF opinion_asked [OF assms(2,3)] this saved]
  have run1: "review_run sample_env (catalog_get case_catalog) ?s1" using assms(1) by (rule review_run.step [rotated])
  let ?ds = "\<lparr>de_entries = de_entries (ws_decisions s) @ [?d], de_byRequest = (de_byRequest (ws_decisions s))(decided_key ?d \<mapsto> rd_decisionId ?d)\<rparr>"
  have "record_with decision_key (de_entries (ws_decisions s)) (decision_key ?d) = None"
    using tenants(2) assms(6) apart by (simp add: record_with_None decision_key_def decision image_iff) metis
  moreover have "record_with decided_key (de_entries (ws_decisions s)) (decided_key ?d) = None"
    using tenants(2) assms(6) apart by (simp add: record_with_None decided_key_def decision image_iff) metis
  then have "de_byRequest (ws_decisions s) (decided_key ?d) = None" using index by (simp add: index_of_def)
  ultimately have kept: "decision_save sample_env (ws_decisions ?s1) ?d = Inr ?ds"
    using decided_valid [OF assms(2,3)] by (simp add: decision_save_Inr)
  obtain t pt where t: "recordProfessionalReviewDecision sample_env review_context (ws_case ?s1) ?r (opinion_decision k n) = Inr t"
    "tr_decision t = ?d" "tr_produced t = Some pt" "pt_case pt = with_opinion ?c k" "pt_attestation pt = given ?c k n"
    using opinion_recorded [OF assms(2-4)] by auto
  have "review_step sample_env (catalog_get case_catalog) ?s1 (committed ?s1 t ?ds)"
    by (rule review_step.decided [OF _ t(1)]) (simp_all add: kept [simplified] t(2) review_context_def)
  then have "review_run sample_env (catalog_get case_catalog) (committed ?s1 t ?ds)" using run1 by (rule review_run.step [rotated])
  then show ?thesis by (intro exI conjI, assumption) (simp_all add: committed_def t(3-5))
qed


lemma first_reviewed: "reviewable (with_opinion dossier ''1'') 3 [''material-2'', ''review-1'']"
  using with_opinion_reviewable [OF dossier_reviewable names_ok(1)] by simp

lemma two_reviewed: "reviewable (with_opinion (with_opinion dossier ''1'') ''2'') 4 [''material-2'', ''review-1'', ''review-2'']"
  using with_opinion_reviewable [OF first_reviewed names_ok(2)] by simp

lemma two_opinions:
  "\<exists>s. review_run sample_env (catalog_get case_catalog) s \<and> ws_case s = with_opinion (with_opinion dossier ''1'') ''2'' \<and>
     de_entries (ws_decisions s) = [decided dossier ''1'' 2, decided (with_opinion dossier ''1'') ''2'' 3] \<and>
     ws_attestations s = [given dossier ''1'' 2, given (with_opinion dossier ''1'') ''2'' 3]"
proof -
  let ?cat = "catalog_get case_catalog"
  have "case_wf sample_env dossier" using dossier_reviewable by (simp add: reviewable_def)
  then have "review_run sample_env ?cat (no_reviews dossier)" by (rule review_run.start)
  from review_pair [OF this, of 2 "[''material-2'']" "''1''"] dossier_reviewable names_ok(1)
  obtain s where s: "review_run sample_env ?cat s" "ws_case s = with_opinion dossier ''1''" "ws_requests s = [asked dossier ''1'' 2]"
    "de_entries (ws_decisions s) = [decided dossier ''1'' 2]" "ws_attestations s = [given dossier ''1'' 2]"
    by (auto simp: no_reviews_def)
  have follows: "reviewable (ws_case s) 3 [''material-2'', ''review-1'']" using first_reviewed by (simp add: s(2))
  have asked: "rq_reviewRequestId (asked dossier ''1'' 2) = ''request-1''" by (simp add: asked_def request_of_def opinion_request_def)
  from review_pair [OF s(1) follows names_ok(2)] show ?thesis
    by (auto simp: s(2-5) asked decided_fields(2,3) [OF dossier_reviewable])
qed

end
