(* ===== verification/ReviewProperties.thy ===== *)
theory ReviewProperties
  imports ReviewCurrency ReviewSamples
begin

text \<open>
  The properties of \<open>packages/asset-protocolization/src/attestation\<close> and \<open>state-machine\<close>: what every run of reviews keeps,
  what the readiness of a case means, and which attestations count for it.
\<close>

subsection \<open>Evaluations of the sample case\<close>

lemma reviewable_valid:
  assumes "reviewable c n ids"
  shows "isValidProtocolizationCase sample_env c (Some case_profile)"
  using assms by (simp add: valid_for_profile reviewable_def) (simp add: case_profile_def profile_ref_of_def)

definition review_inputs :: "ProfessionalReviewDecision list \<Rightarrow> CanonicalAttestation list \<Rightarrow> ReadinessInputs" where
  "review_inputs ds as =
     \<lparr>rn_evidenceReceipts = None, rn_evidence = None, rn_declarations = None, rn_verificationResults = None, rn_reviewRequests = None,
      rn_reviewDecisions = Some ds, rn_attestations = Some as\<rparr>"

lemma sample_evaluated:
  assumes "reviewable c n ids" "\<forall>d \<in> set ds. rd_tenantId d = zc_tenantId c \<and> rd_caseId d = zc_caseId c \<and> rd_profile d = zc_profile c"
  shows "evaluateProtocolizationReadiness sample_env (case_context later_text) c (review_inputs ds as) =
    Inr (evaluation_of sample_env c case_profile (review_inputs ds as) later_text)"
proof -
  have "zc_profile c = profile_ref_of case_profile"
    using reviewable_valid [OF assms(1)] by (simp add: valid_for_profile)
  moreover have "inputs_of_case c (review_inputs ds as)"
    using assms(2) by (auto simp: inputs_of_case_def scopedRecords_def review_inputs_def or_empty_def)
  ultimately show ?thesis
    unfolding evaluate_Inr
    using assms(1) reviewable_valid [OF assms(1)] sample_profile opinion_facts(5) later_on_time(1)
    by (intro exI [of _ case_profile]) (simp add: reviewable_def case_context_def)
qed

subsection \<open>Runs of reviews\<close>

text \<open>
  C13: in every run over a case of operations on it, requests for review and decisions, whoever commits them in whatever order, a
  decision with an artifact is an approval of the request it answers, at the revision that was asked about, by a reviewer
  who meets the requirement's constraints in the pinned profile; it is the only decision on its request.  The artifact
  carries usable proofs and is about a claim that is declared in the case, and the case holds it as material of the
  requirement since the revision right after the one reviewed.
\<close>

theorem attestation_provenance:
  assumes "review_run env cat s" "d \<in> set (de_entries (ws_decisions s))" "rd_canonicalAttestationRef d = Some ref"
  shows "rd_action d = ''Attest'' \<and>
    (\<exists>r \<in> set (ws_requests s). rq_reviewRequestId r = rd_reviewRequestId d \<and>
       rq_attestationRequirementId r = rd_attestationRequirementId d \<and> rq_reviewBasisRevision r = rd_reviewBasisRevision d) \<and>
    (\<forall>e \<in> set (de_entries (ws_decisions s)). rd_reviewRequestId e = rd_reviewRequestId d \<longrightarrow> e = d) \<and>
    (\<exists>p q r. cat (pr_profileId (zc_profile (ws_case s))) (pr_profileVersion (zc_profile (ws_case s))) = Some p \<and>
       q \<in> set (ap_requirements p) \<and> ar_id q = rd_attestationRequirementId d \<and> ar_shape q = AttestationShape r \<and>
       reviewer_accepted r (rd_reviewer d) (or_empty (rd_reviewerCredentialRefs d))) \<and>
    (\<exists>a \<in> set (ws_attestations s). ca_id a = ref \<and> ca_attester a = rd_reviewer d \<and> ca_issuedAt a = rd_decidedAt d \<and>
       (\<exists>ps. ca_proofRefs a = Some ps \<and> ps \<noteq> [] \<and> list_all isUsableProofRef ps) \<and> claim_in_case (ws_case s) (ca_claimRef a)) \<and>
    (\<exists>m \<in> set (zc_materials (ws_case s)). rd_attestationMaterialId d = Some (zm_materialId m) \<and> zm_payload m = AttestationPayload ref \<and>
       rd_attestationRequirementId d \<in> set (zm_requirementIds m)) \<and>
    rd_resultingCaseRevision d = Some (rd_reviewBasisRevision d + 1) \<and> rd_reviewBasisRevision d < zc_revision (ws_case s)"
proof -
  note ok = review_run_ok [OF assms(1)]
  have entries: "decision_for cat (ws_case s) (ws_requests s) (ws_attestations s) e" if "e \<in> set (de_entries (ws_decisions s))" for e
    using ok that by (simp add: review_ok_def)
  have inj: "inj_on decided_key (set (de_entries (ws_decisions s)))"
    using ok by (simp add: review_ok_def decisions.indexed_good_def distinct_map)
  have "e = d" if "e \<in> set (de_entries (ws_decisions s))" "rd_reviewRequestId e = rd_reviewRequestId d" for e
  proof (rule inj_onD [OF inj _ that(1) assms(2)])
    show "decided_key e = decided_key d"
      using that(2) entries [OF that(1)] entries [OF assms(2)] by (simp add: decided_key_def decision_for_def)
  qed
  moreover have "rd_profile d = zc_profile (ws_case s)" using entries [OF assms(2)] by (simp add: decision_for_def)
  moreover have "reviewer_qualified cat d" using entries [OF assms(2)] by (simp add: decision_for_def)
  ultimately show ?thesis
    using entries [OF assms(2)] assms(3) unfolding decision_for_def artifact_in_def by (simp add: reviewer_qualified_def)
qed

theorem attestation_provenance_witness:
  "\<exists>s d. review_run sample_env (catalog_get case_catalog) s \<and> d \<in> set (de_entries (ws_decisions s)) \<and>
     rd_canonicalAttestationRef d = Some ''opinion-1'' \<and> claim_in_case (ws_case s) ''claim-3'' \<and>
     (\<exists>a \<in> set (ws_attestations s). ca_id a = ''opinion-1'' \<and> claim_in_case (ws_case s) (ca_claimRef a))"
proof -
  obtain s where s: "review_run sample_env (catalog_get case_catalog) s" "decided dossier ''1'' 2 \<in> set (de_entries (ws_decisions s))"
    "ws_case s = with_opinion (with_opinion dossier ''1'') ''2''"
    using two_opinions by force
  have ref: "rd_canonicalAttestationRef (decided dossier ''1'' 2) = Some ''opinion-1''"
    using decided_fields(18) [OF dossier_reviewable] by simp
  have "claim_in_case (ws_case s) ''claim-3''" using two_reviewed s(3) by (simp add: reviewable_def)
  with attestation_provenance [OF s(1,2) ref] s(1,2) ref show ?thesis by blast
qed


subsection \<open>Readiness\<close>

text \<open>
  C4: an evaluation is ready exactly when it has no blocker, and that is exactly when the case is not cancelled, its
  profile leaves no condition open, and every required requirement is met by what is recorded: the identity strategies
  are evidenced, the declarations and the evidence are there in number, of the right kind and fresh, the named checks
  pass by their latest result at this revision, and the attestations that count are enough and uncontested.
\<close>

theorem readiness_meaning:
  assumes "evaluateProtocolizationReadiness env ctx c i = Inr e" "inputs_recorded env i"
    "cx_catalog ctx (pr_profileId (zc_profile c)) (pr_profileVersion (zc_profile c)) = Some p" "profile_wf env p"
  shows "(rl_ready e \<longleftrightarrow> rl_state e = Ready) \<and> (rl_ready e \<longleftrightarrow> rl_blockers e = []) \<and>
    (rl_ready e \<longleftrightarrow>
       zc_state c \<noteq> Cancelled \<and>
       (\<forall>q \<in> set (ap_requirements p).
          ar_obligation q \<noteq> Conditional \<and> (ar_obligation q = Required \<longrightarrow> requirement_met env (evaluation_context c p i) q)))"
proof -
  have e: "e = evaluation_of env c p i (cx_now ctx)" using assms(1,3) by (auto simp: evaluate_Inr)
  have "rl_ready e \<longleftrightarrow> rl_state e = Ready" unfolding e by (simp add: evaluation_of_def Let_def)
  then show ?thesis using ready_meaning [OF assms(4,2), of c "cx_now ctx"] unfolding e by blast
qed

theorem readiness_meaning_witness:
  "\<exists>e. evaluateProtocolizationReadiness sample_env (case_context later_text) dossier (review_inputs [] []) = Inr e \<and> \<not> rl_ready e"
proof -
  let ?i = "review_inputs [] []"
  let ?q = "ap_requirements case_profile ! 1"
  have e: "evaluateProtocolizationReadiness sample_env (case_context later_text) dossier ?i =
      Inr (evaluation_of sample_env dossier case_profile ?i later_text)"
    by (rule sample_evaluated [OF dossier_reviewable]) simp
  have recorded: "inputs_recorded sample_env ?i"
    by (simp add: inputs_recorded_def results_recorded_def review_inputs_def or_empty_def)
  have get: "cx_catalog (case_context later_text) (pr_profileId (zc_profile dossier)) (pr_profileVersion (zc_profile dossier)) = Some case_profile"
    using dossier_reviewable sample_profile by (simp add: reviewable_def case_context_def)
  have "materials_for (evaluation_context dossier case_profile ?i) ''expert.opinion'' AttestationMaterial = []"
    by (simp add: materials_for_def evaluation_context_def Let_def dossier_def with_material_def material_of_def claim_material_def)
      (simp add: first_case_def initial_case_def materialsFor_def)
  then have "counting_refs (evaluation_context dossier case_profile ?i) ''expert.opinion'' r = {}" for r by (simp add: counting_refs_def)
  then have "\<not> requirement_met sample_env (evaluation_context dossier case_profile ?i) ?q" "?q \<in> set (ap_requirements case_profile)"
    "ar_obligation ?q = Required"
    by (simp_all add: requirement_met_def attestation_met_def minimumOf_def case_profile_def)
  then have "\<not> rl_ready (evaluation_of sample_env dossier case_profile ?i later_text)"
    using readiness_meaning [OF e recorded get case_profile_wf] by blast
  with e show ?thesis by blast
qed

text \<open>
  C39: the state of an evaluation that is stopped by the case or its reviews: a cancelled case is ineligible; else a
  required attestation whose latest positions are all to reject makes it rejected; else positions at the same revision that
  differ make it blocked, whatever else is recorded; else a request for more evidence makes it wait for more evidence.
  Positions taken at an earlier revision than the latest have no part in it.
\<close>

theorem review_outcome_precedence:
  assumes "evaluateProtocolizationReadiness env ctx c i = Inr e" "inputs_recorded env i"
    "cx_catalog ctx (pr_profileId (zc_profile c)) (pr_profileVersion (zc_profile c)) = Some p"
  shows "(rl_state e = Ineligible \<longleftrightarrow> zc_state c = Cancelled) \<and>
    (rl_state e = ReadinessRejected \<longleftrightarrow> zc_state c \<noteq> Cancelled \<and> position_of (evaluation_context c p i) p {''Reject''}) \<and>
    (rl_state e = ReadinessBlocked \<longleftrightarrow>
       zc_state c \<noteq> Cancelled \<and> \<not> position_of (evaluation_context c p i) p {''Reject''} \<and> contested (evaluation_context c p i) p) \<and>
    (rl_state e = MoreEvidenceRequired \<longleftrightarrow>
       zc_state c \<noteq> Cancelled \<and> \<not> position_of (evaluation_context c p i) p {''Reject''} \<and>
       \<not> contested (evaluation_context c p i) p \<and> position_of (evaluation_context c p i) p {''RequestMoreEvidence''})"
proof -
  have "e = evaluation_of env c p i (cx_now ctx)" using assms(1,3) by (auto simp: evaluate_Inr)
  then show ?thesis using state_meaning [OF assms(2)] by simp
qed

definition refusal :: ProfessionalReviewDecision where
  "refusal =
     (decided dossier ''1'' 2)
       \<lparr>rd_action := ''Reject'', rd_scope := None, rd_reviewedRefs := None, rd_reasonCode := Some ''not.genuine'',
        rd_resultingCaseRevision := None, rd_canonicalAttestationRef := None, rd_attestationMaterialId := None\<rparr>"

lemma refusal_valid: "decision_valid sample_env refusal"
proof -
  note facts = opinion_facts later_on_time(1) names_ok(1) [unfolded named_ok_def] decided_fields [OF dossier_reviewable]
  have "isValidProfessionalReviewReasonCode ''not.genuine''" by code_simp
  then show ?thesis
    using facts
    by (simp add: decision_valid_def validateProfessionalReviewDecision_def refusal_def action_reasons_def isProfessionalReviewAction_def
        PROFESSIONAL_REVIEW_ACTIONS_def ACTION_REQUIRED_def ACTION_FORBIDDEN_def has_field_def isUsablePrincipalRef_def PrincipalKinds_def
        isCaseRevision_def isSafeInteger_def isValidProfessionalReviewDecisionId_def isValidProfessionalReviewRequestId_def)
qed

theorem review_outcome_precedence_witness:
  "\<exists>e. evaluateProtocolizationReadiness sample_env (case_context later_text) dossier (review_inputs [refusal] []) = Inr e \<and>
     rl_state e = ReadinessRejected"
proof -
  let ?i = "review_inputs [refusal] []"
  let ?rx = "evaluation_context dossier case_profile ?i"
  note fields = decided_fields [OF dossier_reviewable]
  have held: "zc_tenantId dossier = ''gallery''" "zc_caseId dossier = ''case-1''" "zc_state dossier \<noteq> Cancelled" "zc_revision dossier = 2"
    "zc_profile dossier = \<lparr>pr_profileId = ''art.print'', pr_profileVersion = ''1.0.0''\<rparr>"
    using dossier_reviewable by (simp_all add: reviewable_def)
  have e: "evaluateProtocolizationReadiness sample_env (case_context later_text) dossier ?i =
      Inr (evaluation_of sample_env dossier case_profile ?i later_text)"
    by (rule sample_evaluated [OF dossier_reviewable]) (simp add: refusal_def fields held)
  have recorded: "inputs_recorded sample_env ?i"
    by (simp add: inputs_recorded_def results_recorded_def review_inputs_def or_empty_def refusal_valid)
  have get: "cx_catalog (case_context later_text) (pr_profileId (zc_profile dossier)) (pr_profileVersion (zc_profile dossier)) = Some case_profile"
    using sample_profile by (simp add: held case_context_def)
  have "re_reviewDecisions ?rx = [refusal]"
    by (simp add: evaluation_context_def Let_def review_inputs_def or_empty_def withinEvaluatedRevision_def refusal_def fields held)
  then have "current_position ?rx ''expert.opinion'' = {''Reject''}"
    by (auto simp: current_position_def refusal_def fields)
  then have "position_of ?rx case_profile {''Reject''}"
    unfolding position_of_def by (intro bexI [of _ "ap_requirements case_profile ! 1"]) (simp_all add: case_profile_def ar_kind_def)
  then show ?thesis using review_outcome_precedence [OF e recorded get] e held(3) by blast
qed

subsection \<open>A second attestation\<close>

text \<open>
  C17: a required attestation requirement that asks for two or more attestations is never met: in every run of reviews, and for any
  of the decisions recorded in it, an evaluation of the case is not ready.  A later attestation of the requirement is a
  revision the earlier one does not account for, so at most one counts.
\<close>

theorem second_attestation_never_counts:
  assumes "review_run env cat s" "set (or_empty (rn_reviewDecisions i)) \<subseteq> set (de_entries (ws_decisions s))"
    "evaluateProtocolizationReadiness env ctx (ws_case s) i = Inr e"
    "cx_catalog ctx (pr_profileId (zc_profile (ws_case s))) (pr_profileVersion (zc_profile (ws_case s))) = Some p"
    "q \<in> set (ap_requirements p)" "ar_obligation q = Required" "ar_shape q = AttestationShape r" "aa_minimumCount r = Some n" "2 \<le> n"
  shows "\<not> rl_ready e \<and> rl_state e \<noteq> Ready"
proof -
  let ?rx = "evaluation_context (ws_case s) p i"
  note run = run_one_order [OF review_run_ok [OF assms(1)] assms(2), of p]
  have "card (counting_refs ?rx (ar_id q) r) \<le> 1" by (rule one_counts [OF run(1)])
  then have "\<not> attestation_met ?rx (ar_id q) r" using assms(8,9) by (simp add: attestation_met_def minimumOf_def)
  from unmet_not_ready [OF run(2) assms(5-7) this]
  have "rl_state (evaluation_of env (ws_case s) p i (cx_now ctx)) \<noteq> Ready" .
  moreover have "e = evaluation_of env (ws_case s) p i (cx_now ctx)" using assms(3,4) by (auto simp: evaluate_Inr)
  ultimately show ?thesis by (simp add: evaluation_of_def Let_def)
qed

text \<open>Two experts approve, with proofs, the work of a profile that requires two; the case is not ready.\<close>

theorem second_attestation_never_counts_witness:
  "\<exists>s e. review_run sample_env (catalog_get case_catalog) s \<and>
     map rd_canonicalAttestationRef (de_entries (ws_decisions s)) = [Some ''opinion-1'', Some ''opinion-2''] \<and>
     evaluateProtocolizationReadiness sample_env (case_context later_text) (ws_case s)
       (review_inputs (de_entries (ws_decisions s)) (ws_attestations s)) = Inr e \<and> \<not> rl_ready e"
proof -
  obtain s where s: "review_run sample_env (catalog_get case_catalog) s" "ws_case s = with_opinion (with_opinion dossier ''1'') ''2''"
    "de_entries (ws_decisions s) = [decided dossier ''1'' 2, decided (with_opinion dossier ''1'') ''2'' 3]"
    using two_opinions by blast
  note fields = decided_fields [OF dossier_reviewable] decided_fields [OF first_reviewed]
  let ?q = "ap_requirements case_profile ! 1"
  have reviewed: "reviewable (ws_case s) 4 [''material-2'', ''review-1'', ''review-2'']" unfolding s(2) by (rule two_reviewed)
  then have held: "zc_tenantId (ws_case s) = ''gallery''" "zc_caseId (ws_case s) = ''case-1''"
    "zc_profile (ws_case s) = \<lparr>pr_profileId = ''art.print'', pr_profileVersion = ''1.0.0''\<rparr>"
    by (simp_all add: reviewable_def)
  let ?i = "review_inputs (de_entries (ws_decisions s)) (ws_attestations s)"
  have e: "evaluateProtocolizationReadiness sample_env (case_context later_text) (ws_case s) ?i =
      Inr (evaluation_of sample_env (ws_case s) case_profile ?i later_text)"
    by (rule sample_evaluated [OF reviewed]) (simp add: s(3) fields held)
  have get: "cx_catalog (case_context later_text) (pr_profileId (zc_profile (ws_case s))) (pr_profileVersion (zc_profile (ws_case s))) = Some case_profile"
    using sample_profile by (simp add: held case_context_def)
  have own: "set (or_empty (rn_reviewDecisions ?i)) \<subseteq> set (de_entries (ws_decisions s))" by (simp add: review_inputs_def or_empty_def)
  have q: "?q \<in> set (ap_requirements case_profile)" "ar_obligation ?q = Required"
    "ar_shape ?q = AttestationShape \<lparr>aa_acceptedTypes = [''Human''], aa_attester = None, aa_minimumCount = Some 2, aa_freshness = None\<rparr>"
    by (simp_all add: case_profile_def)
  have "\<not> rl_ready (evaluation_of sample_env (ws_case s) case_profile ?i later_text)"
    using second_attestation_never_counts [OF s(1) own e get q] by simp
  moreover have "map rd_canonicalAttestationRef (de_entries (ws_decisions s)) = [Some ''opinion-1'', Some ''opinion-2'']"
    by (simp add: s(3) fields)
  ultimately show ?thesis by (intro exI conjI) (rule s(1), assumption, rule e, assumption)
qed

end
