(* ===== verification/Protocolization.thy ===== *)
theory Protocolization
  imports ReadinessEvaluation
begin

text \<open>
  \<open>packages/asset-protocolization/src/execution/\<close>: the execution of a protocolization from a ready evaluation.  The result
  (\<open>protocolization-result.ts\<close>), the request and the event, the validation and the gates (\<open>execution-validation.ts\<close>), the
  operation (\<open>execution-operations.ts\<close>) and the projections.

  On values of the interfaces: an evaluation and a request are of their types, so they have no unknown members, and of
  their enumerations the states and kinds are always known.  An evaluation may be absent.
\<close>

subsection \<open>Records\<close>

definition isValidProtocolizationResultId :: "string \<Rightarrow> bool" where
  "isValidProtocolizationResultId s \<longleftrightarrow> isProtocolizationInstanceIdentifier s"

definition PROTOCOLIZATION_EXECUTION_RESULT_SCHEMA_VERSION :: string where
  "PROTOCOLIZATION_EXECUTION_RESULT_SCHEMA_VERSION = ''aoc-protocolization-execution/1''"

record ExecutionRequest =
  jq_resultId :: string
  jq_expectedCaseRevision :: "int option"
  jq_correlationId :: "string option"

record ReadinessBasis =
  jb_evaluationSchemaVersion :: string
  jb_state :: ReadinessState
  jb_evaluatedCaseRevision :: int
  jb_caseState :: ProtocolizationCaseState
  jb_evaluatedAt :: string
  jb_blockerCount :: nat
  jb_warnings :: "ReadinessReason list"
  jb_verificationExecutionIds :: "string list"
  jb_reviewDecisionIds :: "string list"
  jb_attestationRefs :: "string list"

record ExecutionMaterialRef =
  jm_materialId :: string
  jm_kind :: ProtocolizationMaterialKind
  jm_requirementIds :: "string list"
  jm_ref :: "string option"

record ProtocolizationResult =
  jr_schemaVersion :: string
  jr_resultId :: string
  jr_tenantId :: string
  jr_caseId :: string
  jr_profile :: ProtocolizationProfileRef
  jr_subject :: ProtocolizationCaseSubject
  jr_executedCaseRevision :: int
  jr_readinessBasis :: ReadinessBasis
  jr_materialRefs :: "ExecutionMaterialRef list"
  jr_executedAt :: string
  jr_correlationId :: "string option"

record ExecutedEvent =
  je_resultId :: string
  je_tenantId :: string
  je_caseId :: string
  je_profile :: ProtocolizationProfileRef
  je_executedCaseRevision :: int
  je_occurredAt :: string
  je_correlationId :: "string option"

fun protocolizationMaterialRecordRef :: "MaterialPayload \<Rightarrow> string option" where
  "protocolizationMaterialRecordRef (RegistryEntryPayload r) = Some (rg_id r)"
| "protocolizationMaterialRecordRef (DeclarationPayload s) = Some s"
| "protocolizationMaterialRecordRef (EvidencePayload s) = Some s"
| "protocolizationMaterialRecordRef (VerificationPayload s) = Some s"
| "protocolizationMaterialRecordRef (AttestationPayload s) = Some s"
| "protocolizationMaterialRecordRef (CredentialPayload s) = Some s"
| "protocolizationMaterialRecordRef p = None"

subsection \<open>Errors\<close>

datatype ExecutionErrorCode =
    EXECUTION_TENANT_REQUIRED | EXECUTION_TENANT_MISMATCH | EXECUTION_CASE_INVALID | EXECUTION_CASE_NOT_EXECUTABLE
  | EXECUTION_PROFILE_NOT_FOUND | EXECUTION_PROFILE_MISMATCH | EXECUTION_READINESS_REQUIRED | EXECUTION_READINESS_MALFORMED
  | EXECUTION_NOT_READY | EXECUTION_READINESS_MISMATCH | EXECUTION_READINESS_STALE | EXECUTION_REVISION_MISMATCH
  | EXECUTION_RESULT_ID_REFUSED | EXECUTION_REQUEST_INVALID | EXECUTION_TIMESTAMP_INVALID | EXECUTION_RESULT_INVALID
  | EXECUTION_RESULT_DUPLICATE | EXECUTION_BASIS_ALREADY_EXECUTED

datatype ExecutionValidationCode =
    EXECUTION_SCHEMA_VERSION_INVALID | EXECUTION_RESULT_ID_INVALID | EXECUTION_TENANT_ID_INVALID | EXECUTION_CASE_ID_INVALID
  | EXECUTION_PROFILE_REF_INVALID | EXECUTION_SUBJECT_INVALID | EXECUTION_CASE_REVISION_INVALID
  | EXECUTION_READINESS_BASIS_INVALID | EXECUTION_READINESS_BASIS_REVISION_MISMATCH | EXECUTION_MATERIAL_REFS_INVALID
  | EXECUTION_EXECUTED_AT_INVALID | EXECUTION_CORRELATION_ID_INVALID | EXECUTION_EXPECTED_CASE_REVISION_INVALID
  | EXECUTION_READINESS_SCHEMA_VERSION_INVALID | EXECUTION_READINESS_TENANT_ID_INVALID | EXECUTION_READINESS_CASE_ID_INVALID
  | EXECUTION_READINESS_PROFILE_REF_INVALID | EXECUTION_READINESS_CASE_REVISION_INVALID
  | EXECUTION_READINESS_READY_FLAG_INCONSISTENT | EXECUTION_READINESS_BLOCKERS_INCONSISTENT
  | EXECUTION_READINESS_REASONS_INVALID | EXECUTION_READINESS_ASSESSMENTS_INVALID | EXECUTION_READINESS_EVALUATED_AT_INVALID

datatype execution_reason =
    ExecutionCode ExecutionErrorCode | ExecutionIssue ExecutionValidationCode | ExecutionCaseIssue CaseIssue
  | ExecutionBlocker ReasonCode

record ExecutionErrorDetails =
  jx_reasonCodes :: "execution_reason list"
  jx_tenantId :: "string option"
  jx_caseId :: "string option"
  jx_profile :: "ProtocolizationProfileRef option"
  jx_resultId :: "string option"
  jx_executedCaseRevision :: "int option"
  jx_evaluatedCaseRevision :: "int option"

datatype execution_error = ProtocolizationExecutionError ExecutionErrorCode ExecutionErrorDetails

text \<open>The details that say nothing of a case, and those that name it.\<close>

definition execution_details :: "execution_reason list \<Rightarrow> ExecutionErrorDetails" where
  "execution_details rs =
     \<lparr>jx_reasonCodes = rs, jx_tenantId = None, jx_caseId = None, jx_profile = None, jx_resultId = None,
      jx_executedCaseRevision = None, jx_evaluatedCaseRevision = None\<rparr>"

definition details_of_case :: "execution_reason list \<Rightarrow> ProtocolizationCase \<Rightarrow> ExecutionErrorDetails" where
  "details_of_case rs c = (execution_details rs)\<lparr>jx_tenantId := Some (zc_tenantId c), jx_caseId := Some (zc_caseId c)\<rparr>"

text \<open>\<open>fail\<close> with the default reason codes, naming the case and its profile.\<close>

definition execution_fault :: "ExecutionErrorCode \<Rightarrow> ProtocolizationCase \<Rightarrow> execution_error" where
  "execution_fault code c =
     ProtocolizationExecutionError code ((details_of_case [ExecutionCode code] c)\<lparr>jx_profile := Some (zc_profile c)\<rparr>)"

subsection \<open>Validation\<close>

definition REFERENCE_LIST_MAX_LENGTH :: nat where "REFERENCE_LIST_MAX_LENGTH = 4096"

definition isBoundedIdList :: "string list \<Rightarrow> bool" where
  "isBoundedIdList ids \<longleftrightarrow> length ids \<le> REFERENCE_LIST_MAX_LENGTH \<and> list_all isCanonicalRecordId ids"

text \<open>\<open>isReadinessReason\<close>: a blocker has the code of a blocker, a warning any.\<close>

definition isReadinessReason :: "bool \<Rightarrow> ReadinessReason \<Rightarrow> bool" where
  "isReadinessReason as_blocker b \<longleftrightarrow>
     (as_blocker \<longrightarrow> (case zx_reasonCode b of BlockerReason k \<Rightarrow> True | WarningReason k \<Rightarrow> False)) \<and>
     if_present isValidAssetRequirementId (zx_requirementId b)"

definition isReasonList :: "bool \<Rightarrow> ReadinessReason list \<Rightarrow> bool" where
  "isReasonList as_blocker bs \<longleftrightarrow> length bs \<le> REFERENCE_LIST_MAX_LENGTH \<and> list_all (isReadinessReason as_blocker) bs"

definition assessments_well_formed :: "RequirementAssessment list \<Rightarrow> bool" where
  "assessments_well_formed as \<longleftrightarrow>
     length as \<le> REFERENCE_LIST_MAX_LENGTH \<and>
     list_all (\<lambda>a. isValidAssetRequirementId (qa_requirementId a) \<and> isReasonList True (qa_blockers a) \<and>
       isReasonList False (qa_warnings a)) as"

definition validateProtocolizationReadinessForExecution ::
  "host_env \<Rightarrow> ReadinessEvaluation \<Rightarrow> ExecutionValidationCode list" where
  "validateProtocolizationReadinessForExecution env e =
     (let blockersWellFormed = isReasonList True (rl_blockers e); warningsWellFormed = isReasonList False (rl_warnings e);
          assessments = rl_requirementAssessments e; assessmentsWellFormed = assessments_well_formed assessments in
      unless_ok (rl_schemaVersion e = PROTOCOLIZATION_READINESS_EVALUATION_SCHEMA_VERSION)
        EXECUTION_READINESS_SCHEMA_VERSION_INVALID @
      unless_ok (isValidProtocolizationTenantId (rl_tenantId e)) EXECUTION_READINESS_TENANT_ID_INVALID @
      unless_ok (isValidProtocolizationCaseId (rl_caseId e)) EXECUTION_READINESS_CASE_ID_INVALID @
      unless_ok (isValidProtocolizationProfileRef (rl_profile e)) EXECUTION_READINESS_PROFILE_REF_INVALID @
      unless_ok (isSafeInteger (rl_evaluatedCaseRevision e) \<and> 1 \<le> rl_evaluatedCaseRevision e)
        EXECUTION_READINESS_CASE_REVISION_INVALID @
      unless_ok (isValidUtcDateTime env (rl_evaluatedAt e)) EXECUTION_READINESS_EVALUATED_AT_INVALID @
      unless_ok (blockersWellFormed \<and> warningsWellFormed) EXECUTION_READINESS_REASONS_INVALID @
      unless_ok (rl_ready e = (rl_state e = Ready)) EXECUTION_READINESS_READY_FLAG_INCONSISTENT @
      unless_ok assessmentsWellFormed EXECUTION_READINESS_ASSESSMENTS_INVALID @
      unless_ok (\<not> (assessmentsWellFormed \<and> warningsWellFormed \<and>
          sum_list (map (\<lambda>a. length (qa_warnings a)) assessments) \<noteq> length (rl_warnings e)))
        EXECUTION_READINESS_ASSESSMENTS_INVALID @
      unless_ok (\<not> (rl_state e = Ready \<and>
          (0 < (if blockersWellFormed then length (rl_blockers e) else 0) \<or>
           0 < (if assessmentsWellFormed then sum_list (map (\<lambda>a. length (qa_blockers a)) assessments) else 0))))
        EXECUTION_READINESS_BLOCKERS_INCONSISTENT)"

definition validateProtocolizationExecutionRequest :: "ExecutionRequest \<Rightarrow> ExecutionValidationCode list" where
  "validateProtocolizationExecutionRequest q =
     unless_ok (isValidProtocolizationResultId (jq_resultId q)) EXECUTION_RESULT_ID_INVALID @
     unless_ok (if_present (\<lambda>n. isSafeInteger n \<and> 1 \<le> n) (jq_expectedCaseRevision q)) EXECUTION_EXPECTED_CASE_REVISION_INVALID @
     unless_ok (if_present isCanonicalRecordId (jq_correlationId q)) EXECUTION_CORRELATION_ID_INVALID"

definition isAdmissibleProtocolizationExecutionRequest :: "ExecutionRequest \<Rightarrow> bool" where
  "isAdmissibleProtocolizationExecutionRequest q \<longleftrightarrow> validateProtocolizationExecutionRequest q = []"

definition isReadinessBasis :: "host_env \<Rightarrow> ReadinessBasis \<Rightarrow> bool" where
  "isReadinessBasis env b \<longleftrightarrow>
     jb_evaluationSchemaVersion b = PROTOCOLIZATION_READINESS_EVALUATION_SCHEMA_VERSION \<and> jb_state b = Ready \<and>
     isSafeInteger (jb_evaluatedCaseRevision b) \<and> 1 \<le> jb_evaluatedCaseRevision b \<and> jb_caseState b \<noteq> Cancelled \<and>
     isValidUtcDateTime env (jb_evaluatedAt b) \<and> jb_blockerCount b = 0 \<and> isReasonList False (jb_warnings b) \<and>
     isBoundedIdList (jb_verificationExecutionIds b) \<and> isBoundedIdList (jb_reviewDecisionIds b) \<and>
     isBoundedIdList (jb_attestationRefs b)"

definition isMaterialRefList :: "ExecutionMaterialRef list \<Rightarrow> bool" where
  "isMaterialRefList ms \<longleftrightarrow>
     length ms \<le> REFERENCE_LIST_MAX_LENGTH \<and>
     list_all (\<lambda>m. isValidProtocolizationMaterialId (jm_materialId m) \<and> jm_requirementIds m \<noteq> [] \<and>
       list_all isValidAssetRequirementId (jm_requirementIds m) \<and> if_present isCanonicalRecordId (jm_ref m)) ms"

definition validateProtocolizationResult :: "host_env \<Rightarrow> ProtocolizationResult \<Rightarrow> ExecutionValidationCode list" where
  "validateProtocolizationResult env r =
     unless_ok (jr_schemaVersion r = PROTOCOLIZATION_EXECUTION_RESULT_SCHEMA_VERSION) EXECUTION_SCHEMA_VERSION_INVALID @
     unless_ok (isValidProtocolizationResultId (jr_resultId r)) EXECUTION_RESULT_ID_INVALID @
     unless_ok (isValidProtocolizationTenantId (jr_tenantId r)) EXECUTION_TENANT_ID_INVALID @
     unless_ok (isValidProtocolizationCaseId (jr_caseId r)) EXECUTION_CASE_ID_INVALID @
     unless_ok (isValidProtocolizationProfileRef (jr_profile r)) EXECUTION_PROFILE_REF_INVALID @
     unless_ok (isValidProtocolizationCaseSubject (jr_subject r)) EXECUTION_SUBJECT_INVALID @
     unless_ok (isSafeInteger (jr_executedCaseRevision r) \<and> 1 \<le> jr_executedCaseRevision r) EXECUTION_CASE_REVISION_INVALID @
     (if \<not> isReadinessBasis env (jr_readinessBasis r) then [EXECUTION_READINESS_BASIS_INVALID]
      else unless_ok (jb_evaluatedCaseRevision (jr_readinessBasis r) = jr_executedCaseRevision r)
             EXECUTION_READINESS_BASIS_REVISION_MISMATCH) @
     unless_ok (isMaterialRefList (jr_materialRefs r)) EXECUTION_MATERIAL_REFS_INVALID @
     unless_ok (isValidUtcDateTime env (jr_executedAt r)) EXECUTION_EXECUTED_AT_INVALID @
     unless_ok (if_present isCanonicalRecordId (jr_correlationId r)) EXECUTION_CORRELATION_ID_INVALID"

definition isValidProtocolizationResult :: "host_env \<Rightarrow> ProtocolizationResult \<Rightarrow> bool" where
  "isValidProtocolizationResult env r \<longleftrightarrow> validateProtocolizationResult env r = []"

subsection \<open>Gates\<close>

definition assertExecutingTenantOwnsCase :: "CaseContext \<Rightarrow> ProtocolizationCase \<Rightarrow> execution_error option" where
  "assertExecutingTenantOwnsCase ctx c =
     (if \<not> isValidProtocolizationTenantId (cx_tenantId ctx)
      then Some (ProtocolizationExecutionError EXECUTION_TENANT_REQUIRED (execution_details [ExecutionCode EXECUTION_TENANT_REQUIRED]))
      else failing (zc_tenantId c \<noteq> cx_tenantId ctx)
             (ProtocolizationExecutionError EXECUTION_TENANT_MISMATCH
                ((execution_details [ExecutionCode EXECUTION_TENANT_MISMATCH])
                   \<lparr>jx_tenantId := Some (cx_tenantId ctx), jx_caseId := Some (zc_caseId c)\<rparr>)))"

definition resolveExecutionProfile :: "CaseContext \<Rightarrow> ProtocolizationCase \<Rightarrow> execution_error + AssetProfile" where
  "resolveExecutionProfile ctx c =
     (case cx_catalog ctx (pr_profileId (zc_profile c)) (pr_profileVersion (zc_profile c)) of
        None \<Rightarrow> Inl (execution_fault EXECUTION_PROFILE_NOT_FOUND c)
      | Some p \<Rightarrow>
          unless_error (failing (\<not> protocolizationProfileRefsEqual (zc_profile c) (profile_ref_of p))
                          (execution_fault EXECUTION_PROFILE_MISMATCH c))
            (Inr p))"

definition assertCaseIsExecutable :: "host_env \<Rightarrow> ProtocolizationCase \<Rightarrow> AssetProfile \<Rightarrow> execution_error option" where
  "assertCaseIsExecutable env c p =
     (let issues = validateProtocolizationCase env c (Some p) in
      if issues \<noteq> []
      then Some (ProtocolizationExecutionError EXECUTION_CASE_INVALID
                   ((details_of_case (map (\<lambda>i. ExecutionCaseIssue (fst i)) issues) c)\<lparr>jx_profile := Some (zc_profile c)\<rparr>))
      else failing (zc_state c = Cancelled) (execution_fault EXECUTION_CASE_NOT_EXECUTABLE c))"

definition both_revisions :: "ExecutionErrorDetails \<Rightarrow> ProtocolizationCase \<Rightarrow> ReadinessEvaluation \<Rightarrow> ExecutionErrorDetails" where
  "both_revisions d c e =
     d\<lparr>jx_executedCaseRevision := Some (zc_revision c), jx_evaluatedCaseRevision := Some (rl_evaluatedCaseRevision e)\<rparr>"

definition readiness_stale :: "ProtocolizationCase \<Rightarrow> ReadinessEvaluation \<Rightarrow> execution_error" where
  "readiness_stale c e =
     ProtocolizationExecutionError EXECUTION_READINESS_STALE
       (both_revisions ((details_of_case [ExecutionCode EXECUTION_READINESS_STALE] c)\<lparr>jx_profile := Some (zc_profile c)\<rparr>) c e)"

definition assertReadinessAuthorizesExecution ::
  "host_env \<Rightarrow> ProtocolizationCase \<Rightarrow> ReadinessEvaluation option \<Rightarrow> execution_error + ReadinessEvaluation" where
  "assertReadinessAuthorizesExecution env c evaluation =
     (case evaluation of
        None \<Rightarrow> Inl (ProtocolizationExecutionError EXECUTION_READINESS_REQUIRED
                     (details_of_case [ExecutionCode EXECUTION_READINESS_REQUIRED] c))
      | Some e \<Rightarrow>
          (let reasons = validateProtocolizationReadinessForExecution env e in
           if reasons \<noteq> []
           then Inl (ProtocolizationExecutionError EXECUTION_READINESS_MALFORMED (details_of_case (map ExecutionIssue reasons) c))
           else if rl_state e \<noteq> Ready
           then Inl (ProtocolizationExecutionError EXECUTION_NOT_READY
                  ((details_of_case (ExecutionCode EXECUTION_NOT_READY # map (\<lambda>b. ExecutionBlocker (zx_reasonCode b)) (rl_blockers e)) c)
                     \<lparr>jx_profile := Some (zc_profile c)\<rparr>))
           else if rl_tenantId e \<noteq> zc_tenantId c \<or> rl_caseId e \<noteq> zc_caseId c \<or>
                   \<not> protocolizationProfileRefsEqual (rl_profile e) (zc_profile c) \<or> rl_caseState e \<noteq> zc_state c
           then Inl (execution_fault EXECUTION_READINESS_MISMATCH c)
           else if rl_evaluatedCaseRevision e \<noteq> zc_revision c then Inl (readiness_stale c e)
           else if \<not> isProtocolizationReadinessCurrentForCase e c then Inl (readiness_stale c e)
           else Inr e))"

definition assertExpectedRevision ::
  "ProtocolizationCase \<Rightarrow> ReadinessEvaluation \<Rightarrow> int option \<Rightarrow> execution_error option" where
  "assertExpectedRevision c e expected =
     (case expected of
        None \<Rightarrow> None
      | Some n \<Rightarrow>
          failing (n \<noteq> zc_revision c \<or> n \<noteq> rl_evaluatedCaseRevision e)
            (ProtocolizationExecutionError EXECUTION_REVISION_MISMATCH
               (both_revisions (details_of_case [ExecutionCode EXECUTION_REVISION_MISMATCH] c) c e)))"

definition readExecutionInstant :: "host_env \<Rightarrow> CaseContext \<Rightarrow> ProtocolizationCase \<Rightarrow> execution_error + string" where
  "readExecutionInstant env ctx c =
     unless_error (failing (\<not> isValidUtcDateTime env (cx_now ctx))
                     (ProtocolizationExecutionError EXECUTION_TIMESTAMP_INVALID
                        (details_of_case [ExecutionCode EXECUTION_TIMESTAMP_INVALID] c)))
       (Inr (cx_now ctx))"

subsection \<open>The execution\<close>

definition collectRefs :: "ReadinessEvaluation \<Rightarrow> (RequirementAssessment \<Rightarrow> string list option) \<Rightarrow> string list" where
  "collectRefs e select = js_set (concat (map (\<lambda>a. or_empty (select a)) (rl_requirementAssessments e)))"

definition quoteReadiness :: "ReadinessEvaluation \<Rightarrow> ReadinessBasis" where
  "quoteReadiness e =
     \<lparr>jb_evaluationSchemaVersion = rl_schemaVersion e, jb_state = Ready, jb_evaluatedCaseRevision = rl_evaluatedCaseRevision e,
      jb_caseState = rl_caseState e, jb_evaluatedAt = rl_evaluatedAt e, jb_blockerCount = length (rl_blockers e),
      jb_warnings = rl_warnings e, jb_verificationExecutionIds = collectRefs e qa_verificationExecutionIds,
      jb_reviewDecisionIds = collectRefs e qa_reviewDecisionIds, jb_attestationRefs = collectRefs e qa_attestationRefs\<rparr>"

definition quoteMaterial :: "ProtocolizationCase \<Rightarrow> ExecutionMaterialRef list" where
  "quoteMaterial c =
     map (\<lambda>m. \<lparr>jm_materialId = zm_materialId m, jm_kind = payload_kind (zm_payload m), jm_requirementIds = zm_requirementIds m,
               jm_ref = protocolizationMaterialRecordRef (zm_payload m)\<rparr>) (zc_materials c)"

definition executed_result ::
  "ProtocolizationCase \<Rightarrow> ReadinessEvaluation \<Rightarrow> ExecutionRequest \<Rightarrow> string \<Rightarrow> ProtocolizationResult" where
  "executed_result c e q now =
     \<lparr>jr_schemaVersion = PROTOCOLIZATION_EXECUTION_RESULT_SCHEMA_VERSION, jr_resultId = jq_resultId q,
      jr_tenantId = zc_tenantId c, jr_caseId = zc_caseId c, jr_profile = zc_profile c, jr_subject = zc_subject c,
      jr_executedCaseRevision = zc_revision c, jr_readinessBasis = quoteReadiness e, jr_materialRefs = quoteMaterial c,
      jr_executedAt = now, jr_correlationId = jq_correlationId q\<rparr>"

definition execution_event :: "ProtocolizationResult \<Rightarrow> ExecutedEvent" where
  "execution_event r =
     \<lparr>je_resultId = jr_resultId r, je_tenantId = jr_tenantId r, je_caseId = jr_caseId r, je_profile = jr_profile r,
      je_executedCaseRevision = jr_executedCaseRevision r, je_occurredAt = jr_executedAt r, je_correlationId = jr_correlationId r\<rparr>"

definition executeProtocolization ::
  "host_env \<Rightarrow> CaseContext \<Rightarrow> ProtocolizationCase \<Rightarrow> ReadinessEvaluation option \<Rightarrow> ExecutionRequest \<Rightarrow>
     execution_error + (ProtocolizationResult \<times> ExecutedEvent)" where
  "executeProtocolization env ctx c evaluation q =
     unless_error (assertExecutingTenantOwnsCase ctx c)
    (bind_sum (resolveExecutionProfile ctx c) (\<lambda>p.
     unless_error (assertCaseIsExecutable env c p)
    (let bad = validateProtocolizationExecutionRequest q in
     unless_error (failing (bad \<noteq> [])
                     (ProtocolizationExecutionError
                        (if EXECUTION_RESULT_ID_INVALID \<in> set bad then EXECUTION_RESULT_ID_REFUSED else EXECUTION_REQUEST_INVALID)
                        (details_of_case (map ExecutionIssue bad) c)))
    (bind_sum (assertReadinessAuthorizesExecution env c evaluation) (\<lambda>e.
     unless_error (assertExpectedRevision c e (jq_expectedCaseRevision q))
    (bind_sum (readExecutionInstant env ctx c) (\<lambda>now.
       let r = executed_result c e q now; issues = validateProtocolizationResult env r in
       unless_error (failing (issues \<noteq> [])
                       (ProtocolizationExecutionError EXECUTION_RESULT_INVALID
                          ((details_of_case (map ExecutionIssue issues) c)\<lparr>jx_resultId := Some (jq_resultId q)\<rparr>)))
         (Inr (r, execution_event r)))))))))"

definition reconstituteProtocolizationResult :: "host_env \<Rightarrow> ProtocolizationResult \<Rightarrow> execution_error + ProtocolizationResult" where
  "reconstituteProtocolizationResult env r =
     (let bad = validateProtocolizationResult env r in
      unless_error (failing (bad \<noteq> [])
                      (ProtocolizationExecutionError EXECUTION_RESULT_INVALID (execution_details (map ExecutionIssue bad))))
        (Inr r))"

definition isProtocolizationResultCurrentForCase :: "ProtocolizationResult \<Rightarrow> ProtocolizationCase \<Rightarrow> bool" where
  "isProtocolizationResultCurrentForCase r c \<longleftrightarrow>
     jr_tenantId r = zc_tenantId c \<and> jr_caseId r = zc_caseId c \<and> protocolizationProfileRefsEqual (jr_profile r) (zc_profile c) \<and>
     jr_executedCaseRevision r = zc_revision c"

definition listProtocolizationResultsForRevision ::
  "ProtocolizationResult list \<Rightarrow> ProtocolizationCase \<Rightarrow> ProtocolizationResult list" where
  "listProtocolizationResultsForRevision rs c = filter (\<lambda>r. isProtocolizationResultCurrentForCase r c) rs"

end
