(* ===== verification/ProtocolizationStore.thy ===== *)
theory ProtocolizationStore
  imports Protocolization ReviewStore
begin

text \<open>
  \<open>packages/asset-protocolization/src/execution/execution-repository.ts\<close>: the history of protocolizations, with the index
  that admits one result for each basis, the tenant, case, pinned profile and revision.
\<close>

record result_entries =
  pe_entries :: "ProtocolizationResult list"
  pe_byBasis :: "string \<rightharpoonup> string"

definition protocolization_key :: "ProtocolizationResult \<Rightarrow> string" where
  "protocolization_key r = storageKey (jr_tenantId r) (jr_resultId r)"

text \<open>A revision in a template literal, within the safe integers.\<close>

definition revision_text :: "int \<Rightarrow> string" where
  "revision_text n = (if n < 0 then CHR ''-'' # show_nat (nat (- n)) else show_nat (nat n))"

definition basisKey :: "string \<Rightarrow> string \<Rightarrow> ProtocolizationProfileRef \<Rightarrow> int \<Rightarrow> string" where
  "basisKey tenantId caseId profile n =
     tenantId @ CHR 10 # caseId @ CHR 10 # pr_profileId profile @ CHR 10 # pr_profileVersion profile @ CHR 10 # revision_text n"

definition result_basis :: "ProtocolizationResult \<Rightarrow> string" where
  "result_basis r = basisKey (jr_tenantId r) (jr_caseId r) (jr_profile r) (jr_executedCaseRevision r)"

definition execution_assertTenant :: "string \<Rightarrow> execution_error option" where
  "execution_assertTenant t =
     failing (\<not> isValidProtocolizationTenantId t)
       (ProtocolizationExecutionError EXECUTION_TENANT_REQUIRED (execution_details [ExecutionCode EXECUTION_TENANT_REQUIRED]))"

definition compareProtocolizationResults :: "host_env \<Rightarrow> ProtocolizationResult \<Rightarrow> ProtocolizationResult \<Rightarrow> int" where
  "compareProtocolizationResults env a b = by_instant env (jr_executedAt a) (jr_resultId a) (jr_executedAt b) (jr_resultId b)"

definition result_get :: "result_entries \<Rightarrow> string \<Rightarrow> string \<Rightarrow> execution_error + ProtocolizationResult option" where
  "result_get s t i = unless_error (execution_assertTenant t) (Inr (record_with protocolization_key (pe_entries s) (storageKey t i)))"

definition result_exists :: "result_entries \<Rightarrow> string \<Rightarrow> string \<Rightarrow> execution_error + bool" where
  "result_exists s t i =
     unless_error (execution_assertTenant t) (Inr (record_with protocolization_key (pe_entries s) (storageKey t i) \<noteq> None))"

definition result_listByCase ::
  "host_env \<Rightarrow> result_entries \<Rightarrow> string \<Rightarrow> string \<Rightarrow> execution_error + ProtocolizationResult list" where
  "result_listByCase env s t c =
     unless_error (execution_assertTenant t)
       (Inr (sort_by (compareProtocolizationResults env) (filter (\<lambda>r. jr_tenantId r = t \<and> jr_caseId r = c) (pe_entries s))))"

definition result_getByBasis ::
  "result_entries \<Rightarrow> string \<Rightarrow> string \<Rightarrow> ProtocolizationProfileRef \<Rightarrow> int \<Rightarrow> execution_error + ProtocolizationResult option" where
  "result_getByBasis s t c profile n =
     unless_error (execution_assertTenant t)
       (Inr (case pe_byBasis s (basisKey t c profile n) of
               None \<Rightarrow> None
             | Some i \<Rightarrow>
                 (case record_with protocolization_key (pe_entries s) (storageKey t i) of
                    None \<Rightarrow> None
                  | Some r \<Rightarrow> if protocolizationProfileRefsEqual (jr_profile r) profile then Some r else None)))"

definition details_of_result :: "ExecutionErrorCode \<Rightarrow> ProtocolizationResult \<Rightarrow> ExecutionErrorDetails" where
  "details_of_result code r =
     (execution_details [ExecutionCode code])
       \<lparr>jx_tenantId := Some (jr_tenantId r), jx_caseId := Some (jr_caseId r), jx_resultId := Some (jr_resultId r)\<rparr>"

definition result_save :: "host_env \<Rightarrow> result_entries \<Rightarrow> ProtocolizationResult \<Rightarrow> execution_error + result_entries" where
  "result_save env s r =
     (let bad = validateProtocolizationResult env r in
      unless_error (failing (bad \<noteq> [])
                      (ProtocolizationExecutionError EXECUTION_RESULT_INVALID (execution_details (map ExecutionIssue bad))))
     (unless_error (failing (record_with protocolization_key (pe_entries s) (protocolization_key r) \<noteq> None)
                      (ProtocolizationExecutionError EXECUTION_RESULT_DUPLICATE (details_of_result EXECUTION_RESULT_DUPLICATE r)))
     (unless_error (failing (pe_byBasis s (result_basis r) \<noteq> None)
                      (ProtocolizationExecutionError EXECUTION_BASIS_ALREADY_EXECUTED
                         ((details_of_result EXECUTION_BASIS_ALREADY_EXECUTED r)
                            \<lparr>jx_profile := Some (jr_profile r), jx_executedCaseRevision := Some (jr_executedCaseRevision r)\<rparr>)))
        (Inr \<lparr>pe_entries = pe_entries s @ [r], pe_byBasis = (pe_byBasis s)(result_basis r \<mapsto> jr_resultId r)\<rparr>))))"

definition no_results :: result_entries where
  "no_results = \<lparr>pe_entries = [], pe_byBasis = (\<lambda>k. None)\<rparr>"

subsection \<open>The interface\<close>

lemma result_save_Inr:
  "result_save env s r = Inr s' \<longleftrightarrow>
     isValidProtocolizationResult env r \<and> record_with protocolization_key (pe_entries s) (protocolization_key r) = None \<and>
     pe_byBasis s (result_basis r) = None \<and>
     s' = \<lparr>pe_entries = pe_entries s @ [r], pe_byBasis = (pe_byBasis s)(result_basis r \<mapsto> jr_resultId r)\<rparr>"
  by (auto simp: result_save_def Let_def isValidProtocolizationResult_def)

definition basis_index :: "result_entries \<Rightarrow> bool" where
  "basis_index s \<longleftrightarrow> (\<forall>k. pe_byBasis s k = map_option jr_resultId (record_with result_basis (pe_entries s) k))"

lemma basis_index_save: "result_save env s r = Inr s' \<Longrightarrow> basis_index s \<Longrightarrow> basis_index s'"
  by (auto simp: result_save_Inr basis_index_def split: option.split)

lemma basis_fresh: "result_save env s r = Inr s' \<Longrightarrow> basis_index s \<Longrightarrow> result_basis r \<notin> result_basis ` set (pe_entries s)"
  by (auto simp: result_save_Inr basis_index_def record_with_None)

interpretation results: indexed_store result_get "result_listByCase env" "result_save env" pe_entries jr_tenantId jr_caseId
  jr_resultId "isValidProtocolizationResult env" result_basis basis_index for env
proof
  fix r assume "isValidProtocolizationResult env r"
  then show "isValidProtocolizationTenantId (jr_tenantId r)"
    by (simp add: isValidProtocolizationResult_def validateProtocolizationResult_def)
next
  fix s r s' assume "result_save env s r = Inr s'"
  then show "isValidProtocolizationResult env r \<and> pe_entries s' = pe_entries s @ [r] \<and>
      storageKey (jr_tenantId r) (jr_resultId r) \<notin> (\<lambda>r. storageKey (jr_tenantId r) (jr_resultId r)) ` set (pe_entries s)"
    by (simp add: result_save_Inr record_with_None protocolization_key_def)
next
  fix s r s' assume "result_save env s r = Inr s'" "basis_index s"
  then show "basis_index s'" by (rule basis_index_save)
next
  fix s r s' assume "result_save env s r = Inr s'" "basis_index s"
  then show "result_basis r \<notin> result_basis ` set (pe_entries s)" by (rule basis_fresh)
qed (auto simp: result_get_def result_listByCase_def execution_assertTenant_def protocolization_key_def [abs_def])

lemma no_results_good: "results.indexed_good env no_results"
  by (simp add: results.indexed_good_def results.good_def no_results_def basis_index_def record_with_def)

subsection \<open>Bases\<close>

lemma result_valid_fields:
  assumes "isValidProtocolizationResult env r"
  shows "isValidProtocolizationTenantId (jr_tenantId r)" "isValidProtocolizationCaseId (jr_caseId r)"
    "isValidProtocolizationProfileRef (jr_profile r)" "1 \<le> jr_executedCaseRevision r" "isValidUtcDateTime env (jr_executedAt r)"
  using assms by (simp_all add: isValidProtocolizationResult_def validateProtocolizationResult_def)

lemma version_no_newline: "isValidAssetProfileVersion s \<Longrightarrow> CHR 10 \<notin> set s"
proof
  assume s: "isValidAssetProfileVersion s" "CHR 10 \<in> set s"
  then obtain w where w: "w \<in> set (split_on CHR ''.'' s)" "CHR 10 \<in> set w"
    using split_on_chars [of "CHR 10" s "CHR ''.''"] by auto
  then have "list_all is_digit w"
    using s(1) by (auto simp: isValidAssetProfileVersion_def ASSET_PROFILE_VERSION_PATTERN_def split: list.splits)
  with w(2) show False by (auto simp: list_all_iff is_digit_def char_code_def)
qed

text \<open>The separator is in none of the parts, so a key stands for one basis.\<close>

lemma basisKey_inj:
  assumes "isValidProtocolizationTenantId t" "isValidProtocolizationCaseId c" "isValidProtocolizationProfileRef p"
    "isValidProtocolizationTenantId t'" "isValidProtocolizationCaseId c'" "isValidProtocolizationProfileRef p'" "1 \<le> n" "1 \<le> n'"
  shows "basisKey t c p n = basisKey t' c' p' n' \<longleftrightarrow> t = t' \<and> c = c' \<and> p = p' \<and> n = n'"
proof
  assume same: "basisKey t c p n = basisKey t' c' p' n'"
  have free: "CHR 10 \<notin> set t" "CHR 10 \<notin> set t'" "CHR 10 \<notin> set c" "CHR 10 \<notin> set c'" "CHR 10 \<notin> set (pr_profileId p)"
    "CHR 10 \<notin> set (pr_profileId p')" "CHR 10 \<notin> set (pr_profileVersion p)" "CHR 10 \<notin> set (pr_profileVersion p')"
    using assms(1-6) tenant_no_newline instance_no_newline dotted_no_newline version_no_newline
    by (auto simp: isValidProtocolizationCaseId_def isValidProtocolizationProfileRef_def isValidAssetProfileId_def)
  note one = append_sep_inj [OF free(1,2) same [unfolded basisKey_def]]
  note two = append_sep_inj [OF free(3,4) conjunct2 [OF one]]
  note three = append_sep_inj [OF free(5,6) conjunct2 [OF two]]
  note four = append_sep_inj [OF free(7,8) conjunct2 [OF three]]
  have "show_nat (nat n) = show_nat (nat n')" using conjunct2 [OF four] assms(7,8) by (simp add: revision_text_def)
  then have "nat_of_digits (show_nat (nat n)) = nat_of_digits (show_nat (nat n'))" by (rule arg_cong)
  then show "t = t' \<and> c = c' \<and> p = p' \<and> n = n'" using one two three four assms(7,8) by simp
qed simp

text \<open>What is found for a basis is the one result recorded for it.\<close>

lemma basis_of:
  assumes "results.indexed_good env s" "isValidProtocolizationTenantId t" "isValidProtocolizationCaseId c"
    "isValidProtocolizationProfileRef p" "1 \<le> n" "q \<in> set (pe_entries s)"
  shows "result_basis q = basisKey t c p n \<longleftrightarrow>
    jr_tenantId q = t \<and> jr_caseId q = c \<and> jr_profile q = p \<and> jr_executedCaseRevision q = n"
proof -
  have "isValidProtocolizationResult env q"
    using assms(1,6) by (auto simp: results.indexed_good_def results.good_def list_all_iff)
  then show ?thesis unfolding result_basis_def by (intro basisKey_inj result_valid_fields assms(2-5))
qed

lemma found_by_basis:
  assumes "results.indexed_good env s" "isValidProtocolizationTenantId t" "isValidProtocolizationCaseId c"
    "isValidProtocolizationProfileRef p" "1 \<le> n"
  shows "result_getByBasis s t c p n = Inr (record_with result_basis (pe_entries s) (basisKey t c p n))"
proof -
  have s: "basis_index s" "distinct (map protocolization_key (pe_entries s))"
    using assms(1) by (simp_all add: results.indexed_good_def results.good_def protocolization_key_def [abs_def])
  have index: "pe_byBasis s (basisKey t c p n) = map_option jr_resultId (record_with result_basis (pe_entries s) (basisKey t c p n))"
    using s(1) by (simp add: basis_index_def)
  show ?thesis
  proof (cases "record_with result_basis (pe_entries s) (basisKey t c p n)")
    case None
    with index assms(2) show ?thesis by (simp add: result_getByBasis_def execution_assertTenant_def)
  next
    case (Some q)
    then have q: "q \<in> set (pe_entries s)" "result_basis q = basisKey t c p n" using record_with_Some [OF Some] by simp_all
    have "record_with protocolization_key (pe_entries s) (storageKey t (jr_resultId q)) = Some q"
      using record_with_unique [OF s(2) q(1)] basis_of [OF assms q(1)] q(2) by (simp add: protocolization_key_def)
    with index Some basis_of [OF assms q(1)] q(2) assms(2) show ?thesis by (simp add: result_getByBasis_def execution_assertTenant_def)
  qed
qed

lemma result_of_basis:
  assumes "results.indexed_good env s" "isValidProtocolizationTenantId t" "isValidProtocolizationCaseId c"
    "isValidProtocolizationProfileRef p" "1 \<le> n"
  shows "result_getByBasis s t c p n = Inr (Some r) \<longleftrightarrow>
    r \<in> set (pe_entries s) \<and> jr_tenantId r = t \<and> jr_caseId r = c \<and> jr_profile r = p \<and> jr_executedCaseRevision r = n"
proof -
  have s: "distinct (map result_basis (pe_entries s))" using assms(1) by (simp add: results.indexed_good_def)
  have "record_with result_basis (pe_entries s) (basisKey t c p n) = Some r \<longleftrightarrow>
      r \<in> set (pe_entries s) \<and> result_basis r = basisKey t c p n"
  proof
    assume "record_with result_basis (pe_entries s) (basisKey t c p n) = Some r"
    then show "r \<in> set (pe_entries s) \<and> result_basis r = basisKey t c p n" by (rule record_with_Some)
  next
    assume r: "r \<in> set (pe_entries s) \<and> result_basis r = basisKey t c p n"
    from record_with_unique [OF s conjunct1 [OF r]] r
    show "record_with result_basis (pe_entries s) (basisKey t c p n) = Some r" by simp
  qed
  with found_by_basis [OF assms] have answer: "result_getByBasis s t c p n = Inr (Some r) \<longleftrightarrow>
      r \<in> set (pe_entries s) \<and> result_basis r = basisKey t c p n" by simp
  show ?thesis
  proof (cases "r \<in> set (pe_entries s)")
    case True
    show ?thesis unfolding answer basis_of [OF assms True] by (simp only: True)
  qed (simp add: answer)
qed

text \<open>A valid result is stored exactly when its identifier and its basis are free.\<close>

lemma result_saved:
  assumes "results.indexed_good env s" "isValidProtocolizationResult env r"
  shows "(\<exists>s'. result_save env s r = Inr s') \<longleftrightarrow>
    result_get s (jr_tenantId r) (jr_resultId r) = Inr None \<and>
    result_getByBasis s (jr_tenantId r) (jr_caseId r) (jr_profile r) (jr_executedCaseRevision r) = Inr None"
proof -
  note fields = result_valid_fields [OF assms(2)]
  have "basis_index s" using assms(1) by (simp add: results.indexed_good_def)
  then have "pe_byBasis s (result_basis r) = None \<longleftrightarrow> record_with result_basis (pe_entries s) (result_basis r) = None"
    by (simp add: basis_index_def)
  also have "\<dots> \<longleftrightarrow> result_getByBasis s (jr_tenantId r) (jr_caseId r) (jr_profile r) (jr_executedCaseRevision r) = Inr None"
    using found_by_basis [OF assms(1) fields(1-4)] by (simp add: result_basis_def)
  moreover have "record_with protocolization_key (pe_entries s) (protocolization_key r) = None \<longleftrightarrow>
      result_get s (jr_tenantId r) (jr_resultId r) = Inr None"
    using fields(1) by (simp add: result_get_def execution_assertTenant_def protocolization_key_def)
  ultimately show ?thesis using assms(2) by (simp add: result_save_Inr)
qed

end
