(* ===== verification/ProtocolizationRuns.thy ===== *)
theory ProtocolizationRuns
  imports ProtocolizationStore ReadinessMeaning
begin

text \<open>
  When an execution succeeds and what it records, and a case with its versions, the evaluations made of them and the
  history of protocolizations as a step relation.  Evaluations and executions may be of an older version of the case than
  the current one: both take the case as an argument.
\<close>

subsection \<open>The execution\<close>

lemma executing_tenant_None [simp]:
  "assertExecutingTenantOwnsCase ctx c = None \<longleftrightarrow> isValidProtocolizationTenantId (cx_tenantId ctx) \<and> zc_tenantId c = cx_tenantId ctx"
  by (auto simp: assertExecutingTenantOwnsCase_def)

lemma execution_profile_Inr [simp]:
  "resolveExecutionProfile ctx c = Inr p \<longleftrightarrow>
     cx_catalog ctx (pr_profileId (zc_profile c)) (pr_profileVersion (zc_profile c)) = Some p \<and> zc_profile c = profile_ref_of p"
  by (auto simp: resolveExecutionProfile_def split: option.splits)

lemma executable_None [simp]:
  "assertCaseIsExecutable env c p = None \<longleftrightarrow> isValidProtocolizationCase env c (Some p) \<and> zc_state c \<noteq> Cancelled"
  by (simp add: assertCaseIsExecutable_def Let_def isValidProtocolizationCase_def)

definition authorizes :: "host_env \<Rightarrow> ReadinessEvaluation \<Rightarrow> ProtocolizationCase \<Rightarrow> bool" where
  "authorizes env e c \<longleftrightarrow>
     validateProtocolizationReadinessForExecution env e = [] \<and> rl_state e = Ready \<and> rl_caseState e = zc_state c \<and>
     isProtocolizationReadinessCurrentForCase e c"

lemma authorizes_Inr [simp]:
  "assertReadinessAuthorizesExecution env c evaluation = Inr e \<longleftrightarrow> evaluation = Some e \<and> authorizes env e c"
  by (auto simp: assertReadinessAuthorizesExecution_def authorizes_def isProtocolizationReadinessCurrentForCase_def Let_def
      split: option.splits)

lemma expected_None [simp]:
  "assertExpectedRevision c e n = None \<longleftrightarrow> n = None \<or> n = Some (zc_revision c) \<and> rl_evaluatedCaseRevision e = zc_revision c"
  by (cases n) (auto simp: assertExpectedRevision_def)

lemma execution_instant_Inr [simp]:
  "readExecutionInstant env ctx c = Inr now \<longleftrightarrow> now = cx_now ctx \<and> isValidUtcDateTime env (cx_now ctx)"
  by (auto simp: readExecutionInstant_def)

definition executable :: "host_env \<Rightarrow> CaseContext \<Rightarrow> ProtocolizationCase \<Rightarrow> ReadinessEvaluation \<Rightarrow> ExecutionRequest \<Rightarrow> bool" where
  "executable env ctx c e q \<longleftrightarrow>
     isValidProtocolizationTenantId (zc_tenantId c) \<and> zc_tenantId c = cx_tenantId ctx \<and>
     (\<exists>p. cx_catalog ctx (pr_profileId (zc_profile c)) (pr_profileVersion (zc_profile c)) = Some p \<and>
        zc_profile c = profile_ref_of p \<and> isValidProtocolizationCase env c (Some p)) \<and>
     zc_state c \<noteq> Cancelled \<and> isAdmissibleProtocolizationExecutionRequest q \<and> authorizes env e c \<and>
     (jq_expectedCaseRevision q = None \<or> jq_expectedCaseRevision q = Some (zc_revision c)) \<and> isValidUtcDateTime env (cx_now ctx)"

lemma protocolization_Inr:
  "executeProtocolization env ctx c evaluation q = Inr (r, ev) \<longleftrightarrow>
     (\<exists>e. evaluation = Some e \<and> executable env ctx c e q \<and> r = executed_result c e q (cx_now ctx) \<and>
        isValidProtocolizationResult env r \<and> ev = execution_event r)"
  (is "_ \<longleftrightarrow> ?rhs")
proof -
  have revision: "rl_evaluatedCaseRevision e = zc_revision c" if "authorizes env e c" for e
    using that by (simp add: authorizes_def isProtocolizationReadinessCurrentForCase_def)
  have one_value: "(\<exists>v. (v = t \<and> P) \<and> Q v) \<longleftrightarrow> P \<and> Q t" for t :: string and P Q
    by blast
  have "executeProtocolization env ctx c evaluation q = Inr (r, ev) \<longleftrightarrow>
     (isValidProtocolizationTenantId (cx_tenantId ctx) \<and> zc_tenantId c = cx_tenantId ctx) \<and>
     (\<exists>p. (cx_catalog ctx (pr_profileId (zc_profile c)) (pr_profileVersion (zc_profile c)) = Some p \<and> zc_profile c = profile_ref_of p) \<and>
        (isValidProtocolizationCase env c (Some p) \<and> zc_state c \<noteq> Cancelled) \<and>
        isAdmissibleProtocolizationExecutionRequest q \<and>
        (\<exists>e. (evaluation = Some e \<and> authorizes env e c) \<and>
           (jq_expectedCaseRevision q = None \<or>
              jq_expectedCaseRevision q = Some (zc_revision c) \<and> rl_evaluatedCaseRevision e = zc_revision c) \<and>
           isValidUtcDateTime env (cx_now ctx) \<and> isValidProtocolizationResult env (executed_result c e q (cx_now ctx)) \<and>
           (executed_result c e q (cx_now ctx), execution_event (executed_result c e q (cx_now ctx))) = (r, ev)))"
    unfolding executeProtocolization_def isAdmissibleProtocolizationExecutionRequest_def isValidProtocolizationResult_def Let_def
    by (simp only: bind_sum_Inr unless_error_Inr failing_None executing_tenant_None execution_profile_Inr executable_None
        authorizes_Inr expected_None execution_instant_Inr not_not sum.inject one_value)
  also have "\<dots> \<longleftrightarrow> ?rhs"
    by (auto simp: executable_def revision)
  finally show ?thesis .
qed

subsection \<open>A case and its protocolizations\<close>

text \<open>The latest version first.\<close>

record ProtocolizationSystem =
  hs_versions :: "ProtocolizationCase list"
  hs_evaluations :: "ReadinessEvaluation list"
  hs_results :: result_entries

inductive protocolization_step ::
  "host_env \<Rightarrow> (string \<Rightarrow> string \<Rightarrow> AssetProfile option) \<Rightarrow> ProtocolizationSystem \<Rightarrow> ProtocolizationSystem \<Rightarrow> bool" for env cat where
  changed: "hs_versions s = c # cs \<Longrightarrow> perform env kx c cmd = Inr (c', ev) \<Longrightarrow> cx_catalog kx = cat \<Longrightarrow>
    protocolization_step env cat s (s\<lparr>hs_versions := c' # hs_versions s\<rparr>)"
| evaluated: "c \<in> set (hs_versions s) \<Longrightarrow> evaluateProtocolizationReadiness env kx c i = Inr e \<Longrightarrow> cx_catalog kx = cat \<Longrightarrow>
    inputs_recorded env i \<Longrightarrow> protocolization_step env cat s (s\<lparr>hs_evaluations := e # hs_evaluations s\<rparr>)"
| executed: "c \<in> set (hs_versions s) \<Longrightarrow> e \<in> set (hs_evaluations s) \<Longrightarrow>
    executeProtocolization env kx c (Some e) q = Inr (r, ev) \<Longrightarrow> cx_catalog kx = cat \<Longrightarrow>
    result_save env (hs_results s) r = Inr rs \<Longrightarrow> protocolization_step env cat s (s\<lparr>hs_results := rs\<rparr>)"

definition unexecuted :: "ProtocolizationCase \<Rightarrow> ProtocolizationSystem" where
  "unexecuted c = \<lparr>hs_versions = [c], hs_evaluations = [], hs_results = no_results\<rparr>"

inductive protocolization_run ::
  "host_env \<Rightarrow> (string \<Rightarrow> string \<Rightarrow> AssetProfile option) \<Rightarrow> ProtocolizationSystem \<Rightarrow> bool" for env cat where
  start: "case_wf env c \<Longrightarrow> protocolization_run env cat (unexecuted c)"
| step: "protocolization_run env cat s \<Longrightarrow> protocolization_step env cat s s' \<Longrightarrow> protocolization_run env cat s'"

text \<open>The versions are of one case, each of another revision.\<close>

definition same_case :: "ProtocolizationCase \<Rightarrow> ProtocolizationCase \<Rightarrow> bool" where
  "same_case a b \<longleftrightarrow> zc_tenantId a = zc_tenantId b \<and> zc_caseId a = zc_caseId b \<and> zc_profile a = zc_profile b"

definition versions_ok :: "host_env \<Rightarrow> ProtocolizationCase list \<Rightarrow> bool" where
  "versions_ok env cs \<longleftrightarrow>
     cs \<noteq> [] \<and> list_all (case_wf env) cs \<and> sorted_wrt (\<lambda>a b. zc_revision b < zc_revision a) cs \<and>
     (\<forall>a \<in> set cs. \<forall>b \<in> set cs. same_case a b)"

definition evaluation_about ::
  "host_env \<Rightarrow> (string \<Rightarrow> string \<Rightarrow> AssetProfile option) \<Rightarrow> ReadinessEvaluation \<Rightarrow> ProtocolizationCase \<Rightarrow> bool" where
  "evaluation_about env cat e c \<longleftrightarrow>
     (\<exists>kx i. cx_catalog kx = cat \<and> inputs_recorded env i \<and> evaluateProtocolizationReadiness env kx c i = Inr e)"

definition result_about ::
  "host_env \<Rightarrow> (string \<Rightarrow> string \<Rightarrow> AssetProfile option) \<Rightarrow> ReadinessEvaluation list \<Rightarrow> ProtocolizationResult \<Rightarrow>
     ProtocolizationCase \<Rightarrow> bool" where
  "result_about env cat evaluations r c \<longleftrightarrow>
     (\<exists>e \<in> set evaluations. \<exists>q. evaluation_about env cat e c \<and> rl_state e = Ready \<and> r = executed_result c e q (jr_executedAt r))"

definition protocolization_ok ::
  "host_env \<Rightarrow> (string \<Rightarrow> string \<Rightarrow> AssetProfile option) \<Rightarrow> ProtocolizationSystem \<Rightarrow> bool" where
  "protocolization_ok env cat s \<longleftrightarrow>
     versions_ok env (hs_versions s) \<and>
     (\<forall>e \<in> set (hs_evaluations s). \<exists>c \<in> set (hs_versions s). evaluation_about env cat e c) \<and>
     results.indexed_good env (hs_results s) \<and>
     (\<forall>r \<in> set (pe_entries (hs_results s)). \<exists>c \<in> set (hs_versions s). result_about env cat (hs_evaluations s) r c)"

lemma one_version:
  assumes "versions_ok env cs" "a \<in> set cs" "b \<in> set cs" "zc_revision a = zc_revision b"
  shows "a = b"
proof -
  have "sorted_wrt (\<lambda>a b. zc_revision b < zc_revision a) cs" using assms(1) by (simp add: versions_ok_def)
  then show ?thesis using assms(2-4) by (induction cs) auto
qed

lemma next_version:
  assumes "versions_ok env (c # cs)" "perform env kx c cmd = Inr (c', ev)"
  shows "versions_ok env (c' # c # cs)"
proof -
  have header: "same_case c' c" "zc_revision c' = zc_revision c + 1" "case_wf env c'"
    using performed_header [OF assms(2)] by (simp_all add: same_case_def)
  have old: "list_all (case_wf env) (c # cs)" "sorted_wrt (\<lambda>a b. zc_revision b < zc_revision a) (c # cs)"
    "\<forall>a \<in> set (c # cs). \<forall>b \<in> set (c # cs). same_case a b"
    using assms(1) unfolding versions_ok_def by blast+
  have same: "same_case c' a" if "a \<in> set (c # cs)" for a
    using old(3) header(1) that by (auto simp: same_case_def)
  have "same_case a c'" if "a \<in> set (c # cs)" for a using same [OF that] by (simp add: same_case_def)
  moreover have "same_case c' c'" by (simp add: same_case_def)
  ultimately have "\<forall>a \<in> set (c' # c # cs). \<forall>b \<in> set (c' # c # cs). same_case a b" using old(3) same by simp
  moreover have "\<forall>b \<in> set (c # cs). zc_revision b < zc_revision c'" using old(2) header(2) by auto
  ultimately show ?thesis using old(1,2) header(3) by (simp add: versions_ok_def)
qed

lemma unexecuted_ok: "case_wf env c \<Longrightarrow> protocolization_ok env cat (unexecuted c)"
  using no_results_good by (simp add: protocolization_ok_def unexecuted_def versions_ok_def same_case_def) (simp add: no_results_def)

lemma evaluation_header:
  "evaluation_about env cat e c \<Longrightarrow> rl_evaluatedCaseRevision e = zc_revision c"
  by (auto simp: evaluation_about_def evaluate_Inr evaluation_of_def Let_def)

lemma result_about_more: "result_about env cat es r c \<Longrightarrow> set es \<subseteq> set es' \<Longrightarrow> result_about env cat es' r c"
  unfolding result_about_def by blast

lemma protocolization_step_ok:
  assumes "protocolization_step env cat s s'" "protocolization_ok env cat s"
  shows "protocolization_ok env cat s'"
  using assms(1)
proof cases
  case (changed c cs kx cmd c' ev)
  have "versions_ok env (c' # hs_versions s)"
    using assms(2) next_version [OF _ changed(3)] unfolding changed(2) protocolization_ok_def by blast
  then show ?thesis using assms(2) unfolding protocolization_ok_def changed(1) by auto
next
  case (evaluated c kx i e)
  have "evaluation_about env cat e c" using evaluated(3-5) unfolding evaluation_about_def by blast
  then have "\<exists>d \<in> set (hs_versions s). evaluation_about env cat e d" using evaluated(2) by blast
  moreover have "\<exists>d \<in> set (hs_versions s). result_about env cat (e # hs_evaluations s) r d"
    if r: "r \<in> set (pe_entries (hs_results s))" for r
  proof -
    obtain d where "d \<in> set (hs_versions s)" "result_about env cat (hs_evaluations s) r d"
      using assms(2) r unfolding protocolization_ok_def by blast
    moreover from this(2) have "result_about env cat (e # hs_evaluations s) r d" by (rule result_about_more) auto
    ultimately show ?thesis by blast
  qed
  ultimately show ?thesis using assms(2) unfolding protocolization_ok_def evaluated(1) by simp
next
  case (executed c e kx q r ev rs)
  have e: "authorizes env e c" "r = executed_result c e q (cx_now kx)" using executed(4) by (auto simp: protocolization_Inr executable_def)
  have ok: "versions_ok env (hs_versions s)" using assms(2) by (simp add: protocolization_ok_def)
  obtain d where d: "d \<in> set (hs_versions s)" "evaluation_about env cat e d"
    using assms(2) executed(3) unfolding protocolization_ok_def by blast
  have "zc_revision d = zc_revision c"
    using e(1) evaluation_header [OF d(2)] by (simp add: authorizes_def isProtocolizationReadinessCurrentForCase_def)
  with one_version [OF ok d(1) executed(2)] d(2) have about: "evaluation_about env cat e c" by simp
  have "result_about env cat (hs_evaluations s) r c"
    unfolding result_about_def using about e by (intro bexI [OF _ executed(3)] exI [of _ q]) (simp add: authorizes_def executed_result_def)
  moreover have "pe_entries rs = pe_entries (hs_results s) @ [r]" using executed(6) by (simp add: result_save_Inr)
  moreover have "results.indexed_good env rs"
    using assms(2) results.indexed_store_good [OF _ executed(6)] by (simp add: protocolization_ok_def)
  ultimately show ?thesis using assms(2) executed(2) unfolding protocolization_ok_def executed(1) by auto
qed

lemma protocolization_run_ok: "protocolization_run env cat s \<Longrightarrow> protocolization_ok env cat s"
  by (induction rule: protocolization_run.induct) (simp_all add: unexecuted_ok protocolization_step_ok)

text \<open>Results of one revision are one result.\<close>

lemma result_fields:
  assumes "result_about env cat es r c"
  shows "jr_tenantId r = zc_tenantId c" "jr_caseId r = zc_caseId c" "jr_profile r = zc_profile c"
    "jr_executedCaseRevision r = zc_revision c" "jr_subject r = zc_subject c" "jr_materialRefs r = quoteMaterial c"
proof -
  obtain e q where r: "r = executed_result c e q (jr_executedAt r)" using assms by (auto simp: result_about_def)
  show "jr_tenantId r = zc_tenantId c" "jr_caseId r = zc_caseId c" "jr_profile r = zc_profile c"
    "jr_executedCaseRevision r = zc_revision c" "jr_subject r = zc_subject c" "jr_materialRefs r = quoteMaterial c"
    by (subst r, simp add: executed_result_def)+
qed

lemma one_result:
  assumes "protocolization_ok env cat s" "r \<in> set (pe_entries (hs_results s))" "r' \<in> set (pe_entries (hs_results s))"
    "jr_executedCaseRevision r' = jr_executedCaseRevision r"
  shows "r' = r"
proof -
  obtain c c' where c: "c \<in> set (hs_versions s)" "result_about env cat (hs_evaluations s) r c"
    "c' \<in> set (hs_versions s)" "result_about env cat (hs_evaluations s) r' c'"
    using assms(1-3) unfolding protocolization_ok_def by blast
  have "same_case c' c" using assms(1) c(1,3) unfolding protocolization_ok_def versions_ok_def by blast
  then have "result_basis r' = result_basis r"
    using assms(4) unfolding result_basis_def result_fields(1-3) [OF c(2)] result_fields(1-3) [OF c(4)] by (simp add: same_case_def)
  moreover have "results.indexed_good env (hs_results s)" using assms(1) by (simp add: protocolization_ok_def)
  ultimately show ?thesis using results.same_basis_same_record assms(2,3) by blast
qed

end
