(* ===== verification/ProtocolizationOutcome.thy ===== *)
theory ProtocolizationOutcome
  imports ProtocolizationRuns CheckVerdicts
begin

text \<open>
  A ready evaluation of the case as it stands passes the validation of the execution, and the result it gives is valid,
  within the bound the code sets on the lists it records.
\<close>

subsection \<open>Reasons name their requirement\<close>

definition about :: "string \<Rightarrow> ReadinessReason list \<Rightarrow> bool" where
  "about i bs \<longleftrightarrow> list_all (\<lambda>b. zx_requirementId b = Some i) bs"

lemma about_list [simp]:
  "about i []" "about i (b # bs) \<longleftrightarrow> zx_requirementId b = Some i \<and> about i bs" "about i (bs @ cs) \<longleftrightarrow> about i bs \<and> about i cs"
  "about i (map f xs) \<longleftrightarrow> (\<forall>x \<in> set xs. zx_requirementId (f x) = Some i)" "about i (concat bss) \<longleftrightarrow> (\<forall>bs \<in> set bss. about i bs)"
  "about i (list_of_option x) \<longleftrightarrow> if_present (\<lambda>b. zx_requirementId b = Some i) x"
  by (auto simp: about_def list_all_iff list_of_option_def if_present_def split: option.split)

lemma reason_id [simp]:
  "zx_requirementId (reason_at k i) = Some i" "zx_requirementId (blocker_at b i) = Some i"
  "zx_requirementId (counted b i m n) = Some i" "zx_requirementId (unevaluatedConstraint i s) = Some i"
  by (simp_all add: reason_at_def blocker_at_def counted_def unevaluatedConstraint_def)

lemma about_shortfall [simp]: "about i (shortfall i m n nothing)"
  by (simp add: shortfall_def)

lemma about_position [simp]: "about i (position_reasons i ds)"
  by (simp add: position_reasons_def Let_def)

definition keeps_id :: "(ReadinessReason \<Rightarrow> ReadinessReason) \<Rightarrow> bool" where
  "keeps_id extra \<longleftrightarrow> (\<forall>b. zx_requirementId (extra b) = zx_requirementId b)"

lemma keeps_id_simps [simp]: "keeps_id id" "keeps_id (zx_constraint_update f)"
  by (simp_all add: keeps_id_def)

lemma standing_id:
  assumes "keeps_id extra"
  shows "if_present (\<lambda>b. zx_requirementId b = Some i) (st_blocker (resolveCheckStanding env rx q k i extra))"
    "if_present (\<lambda>b. zx_requirementId b = Some i) (st_warning (resolveCheckStanding env rx q k i extra))"
  using assms
  by (auto simp: resolveCheckStanding_def standingForOutcome_def standing_blocked_def Let_def keeps_id_def if_present_def
      split: list.split)

lemma about_freshness: "about i (fst (dischargeEvidenceFreshness env rx i))" "about i (snd (dischargeEvidenceFreshness env rx i))"
  using standing_id [of "zx_constraint_update (\<lambda>x. Some ''freshness'')" i env rx]
  by (auto simp: dischargeEvidenceFreshness_def freshness_standings_def Let_def split: option.split)

lemma finding_ids:
  "about (ar_id q) (rf_blockers (evaluateRequirement env rx q))" "about (ar_id q) (rf_warnings (evaluateRequirement env rx q))"
proof -
  have identity: "about i (rf_blockers (evaluateIdentityRequirement rx i r))" "rf_warnings (evaluateIdentityRequirement rx i r) = []" for i r
    by (simp_all add: evaluateIdentityRequirement_def Let_def findings_def del: js_set concat_eq_Nil_conv)
  have declared: "about i (rf_blockers (evaluateDeclarationRequirement rx i r))" "rf_warnings (evaluateDeclarationRequirement rx i r) = []" for i r
    by (simp_all add: evaluateDeclarationRequirement_def Let_def findings_def)
  have evidence: "about i (rf_blockers (evaluateEvidenceRequirement env rx i r))" "about i (rf_warnings (evaluateEvidenceRequirement env rx i r))" for i r
    using about_freshness by (simp_all add: evaluateEvidenceRequirement_def Let_def findings_def)
  have verification: "about i (rf_blockers (evaluateVerificationRequirement env rx i r))"
    "about i (rf_warnings (evaluateVerificationRequirement env rx i r))" for i r
    using standing_id [of id i env rx] by (auto simp: evaluateVerificationRequirement_def Let_def findings_def)
  have attestation: "about i (rf_blockers (evaluateAttestationRequirement rx i r))" "rf_warnings (evaluateAttestationRequirement rx i r) = []" for i r
    by (simp_all add: evaluateAttestationRequirement_def Let_def findings_def)
  show "about (ar_id q) (rf_blockers (evaluateRequirement env rx q))" "about (ar_id q) (rf_warnings (evaluateRequirement env rx q))"
    using identity declared evidence verification attestation by (cases "ar_shape q"; simp add: evaluateRequirement_def)+
qed

lemma assessed_ids:
  "qa_requirementId (assess c q f) = ar_id q"
  "about (ar_id q) (qa_warnings (assess c q (evaluateRequirement env rx q)))"
  using finding_ids [of q env rx] by (cases "ar_obligation q"; simp add: assess_def Let_def)+

subsection \<open>What an evaluation cites\<close>

lemma standing_executions:
  assumes "results_recorded env (re_verificationResults rx)"
  shows "set (st_executionIds (resolveCheckStanding env rx q k i extra)) \<subseteq> vr_executionId ` set (re_verificationResults rx)"
proof -
  have "r \<in> set (re_verificationResults rx)" if "current_results env rx q k = r # rs" for r rs
    using current_result(2) [OF assms that, of r] by (simp add: latest_in_def results_at_def)
  then show ?thesis
    by (auto simp: resolveCheckStanding_def standingForOutcome_def standing_blocked_def Let_def results_of_pair_def split: list.split)
qed

definition canonical_refs :: "string list option \<Rightarrow> bool" where
  "canonical_refs ids \<longleftrightarrow> if_present (list_all isCanonicalRecordId) ids"

lemma execution_id_canonical: "result_valid env r \<Longrightarrow> isCanonicalRecordId (vr_executionId r)"
  using valid_result_fields(3) instance_canonical by (auto simp: isValidVerificationExecutionId_def)

lemma decision_id_canonical: "decision_valid env d \<Longrightarrow> isCanonicalRecordId (rd_decisionId d)"
  using instance_canonical
  by (simp add: decision_valid_def validateProfessionalReviewDecision_def isValidProfessionalReviewDecisionId_def)

lemma attestation_ref_canonical:
  assumes "case_wf env (re_case rx)" "m \<in> set (materials_for rx i AttestationMaterial)"
  shows "isCanonicalRecordId (attestation_ref m)"
proof -
  have m: "isValidMaterialPayload (zm_payload m)" "payload_kind (zm_payload m) = AttestationMaterial"
    using assms by (auto simp: case_wf_def materials_ok_def list_all_iff materials_for_def materialsFor_def isValidProtocolizationCaseMaterial_def)
  then show ?thesis by (cases "zm_payload m") (simp_all add: attestation_ref_def)
qed

lemma attested_member: "e \<in> set (attested rx i r) \<Longrightarrow> fst e \<in> set (materials_for rx i AttestationMaterial) \<and> snd e \<in> set (re_reviewDecisions rx)"
proof -
  have member: "d \<in> set (re_reviewDecisions rx)" if "qualifyingAttestation rx i r m = Inr d" for m d
    using that found [of "decision_behind i m" "re_reviewDecisions rx" d]
    by (auto simp: qualifyingAttestation_def split: option.splits if_splits)
  assume "e \<in> set (attested rx i r)"
  then show ?thesis using member by (auto simp: attested_def split: sum.splits)
qed

lemma cited_canonical:
  assumes "results_recorded env (re_verificationResults rx)" "list_all (decision_valid env) (re_reviewDecisions rx)" "case_wf env (re_case rx)"
  shows "canonical_refs (rf_verificationExecutionIds (evaluateRequirement env rx q))"
    "canonical_refs (rf_reviewDecisionIds (evaluateRequirement env rx q))"
    "canonical_refs (rf_attestationRefs (evaluateRequirement env rx q))"
proof -
  have "isCanonicalRecordId (vr_executionId r)" if "r \<in> set (re_verificationResults rx)" for r
    using assms(1) that execution_id_canonical by (auto simp: results_recorded_def list_all_iff)
  then have executions: "isCanonicalRecordId x" if "x \<in> set (st_executionIds (resolveCheckStanding env rx q k i id))" for x q k i
    using standing_executions [OF assms(1), of q k i id] that by auto
  have decisions: "isCanonicalRecordId (rd_decisionId d)" if "d \<in> set (re_reviewDecisions rx)" for d
    using assms(2) that decision_id_canonical by (auto simp: list_all_iff)
  have refs: "isCanonicalRecordId (attestation_ref (fst e)) \<and> isCanonicalRecordId (rd_decisionId (snd e))" if "e \<in> set (attested rx i r)" for e i r
    using attested_member [OF that] attestation_ref_canonical [OF assms(3)] decisions by blast
  have current: "isCanonicalRecordId (rd_decisionId d)" if "d \<in> set (currentDecisions rx i)" for d i
    using that decisions by (auto simp: currentDecisions_def Let_def)
  have none: "canonical_refs None" by (simp add: canonical_refs_def if_present_def)
  have attestation: "canonical_refs (rf_reviewDecisionIds (evaluateAttestationRequirement rx i r))"
    "canonical_refs (rf_attestationRefs (evaluateAttestationRequirement rx i r))" for i r
    using refs current by (auto simp: evaluateAttestationRequirement_def Let_def canonical_refs_def if_present_def list_all_iff)
  have verification: "canonical_refs (rf_verificationExecutionIds (evaluateVerificationRequirement env rx i r))" for i r
    using executions by (auto simp: evaluateVerificationRequirement_def Let_def canonical_refs_def if_present_def list_all_iff)
  show "canonical_refs (rf_verificationExecutionIds (evaluateRequirement env rx q))"
    "canonical_refs (rf_reviewDecisionIds (evaluateRequirement env rx q))"
    "canonical_refs (rf_attestationRefs (evaluateRequirement env rx q))"
    using attestation verification none
    by (cases "ar_shape q"; simp add: evaluateRequirement_def evaluateIdentityRequirement_def evaluateDeclarationRequirement_def
        evaluateEvidenceRequirement_def evaluateVerificationRequirement_def evaluateAttestationRequirement_def findings_def Let_def)+
qed

lemma assessed_canonical:
  assumes "results_recorded env (re_verificationResults rx)" "list_all (decision_valid env) (re_reviewDecisions rx)" "case_wf env (re_case rx)"
  shows "canonical_refs (qa_verificationExecutionIds (assess c q (evaluateRequirement env rx q)))"
    "canonical_refs (qa_reviewDecisionIds (assess c q (evaluateRequirement env rx q)))"
    "canonical_refs (qa_attestationRefs (assess c q (evaluateRequirement env rx q)))"
  using cited_canonical [OF assms, of q]
  by (cases "ar_obligation q"; simp add: assess_def Let_def canonical_refs_def if_present_def)+

subsection \<open>A ready evaluation authorizes\<close>

text \<open>The bound on the lists.\<close>

definition sizes_ok :: "ProtocolizationCase \<Rightarrow> AssetProfile \<Rightarrow> ReadinessEvaluation \<Rightarrow> bool" where
  "sizes_ok c p e \<longleftrightarrow>
     length (zc_materials c) \<le> REFERENCE_LIST_MAX_LENGTH \<and> length (ap_requirements p) \<le> REFERENCE_LIST_MAX_LENGTH \<and>
     length (rl_warnings e) \<le> REFERENCE_LIST_MAX_LENGTH \<and>
     length (collectRefs e qa_verificationExecutionIds) \<le> REFERENCE_LIST_MAX_LENGTH \<and>
     length (collectRefs e qa_reviewDecisionIds) \<le> REFERENCE_LIST_MAX_LENGTH \<and>
     length (collectRefs e qa_attestationRefs) \<le> REFERENCE_LIST_MAX_LENGTH"

lemma sum_lengths: "length (concat (map f xs)) = sum_list (map (\<lambda>x. length (f x)) xs)"
  by (induction xs) simp_all

lemma part_length: "x \<in> set xs \<Longrightarrow> length (f x) \<le> length (concat (map f xs))"
  by (induction xs) auto

lemma about_reasons:
  "about i bs \<Longrightarrow> isValidAssetRequirementId i \<Longrightarrow> length bs \<le> REFERENCE_LIST_MAX_LENGTH \<Longrightarrow> isReasonList False bs"
  by (auto simp: isReasonList_def isReadinessReason_def about_def list_all_iff if_present_def)

lemma evaluation_fields:
  "rl_schemaVersion (evaluation_of env c p i now) = PROTOCOLIZATION_READINESS_EVALUATION_SCHEMA_VERSION"
  "rl_tenantId (evaluation_of env c p i now) = zc_tenantId c" "rl_caseId (evaluation_of env c p i now) = zc_caseId c"
  "rl_profile (evaluation_of env c p i now) = zc_profile c" "rl_caseState (evaluation_of env c p i now) = zc_state c"
  "rl_evaluatedCaseRevision (evaluation_of env c p i now) = zc_revision c" "rl_evaluatedAt (evaluation_of env c p i now) = now"
  "rl_ready (evaluation_of env c p i now) = (rl_state (evaluation_of env c p i now) = Ready)"
  "rl_requirementAssessments (evaluation_of env c p i now) =
     map (\<lambda>q. assess c q (evaluateRequirement env (evaluation_context c p i) q)) (ap_requirements p)"
  "rl_warnings (evaluation_of env c p i now) = concat (map qa_warnings (rl_requirementAssessments (evaluation_of env c p i now)))"
  by (simp_all add: evaluation_of_def Let_def)

lemma ready_reasons:
  assumes "e = evaluation_of env c p i now" "rl_blockers e = []" "profile_wf env p" "sizes_ok c p e"
  shows "isReasonList False (rl_warnings e)" "assessments_well_formed (rl_requirementAssessments e)"
    "sum_list (map (\<lambda>a. length (qa_warnings a)) (rl_requirementAssessments e)) = length (rl_warnings e)"
    "sum_list (map (\<lambda>a. length (qa_blockers a)) (rl_requirementAssessments e)) = 0"
proof -
  have warnings: "rl_warnings e = concat (map qa_warnings (rl_requirementAssessments e))" unfolding assms(1) by (rule evaluation_fields(10))
  then show sum: "sum_list (map (\<lambda>a. length (qa_warnings a)) (rl_requirementAssessments e)) = length (rl_warnings e)"
    by (simp add: sum_lengths)
  have blockers: "qa_blockers a = []" if "a \<in> set (rl_requirementAssessments e)" for a
  proof -
    have "concat (map qa_blockers (rl_requirementAssessments e)) = []"
      using assms(2) unfolding assms(1) by (simp add: evaluation_of_def Let_def)
    with that show ?thesis by simp
  qed
  then show "sum_list (map (\<lambda>a. length (qa_blockers a)) (rl_requirementAssessments e)) = 0" by simp
  have one: "isValidAssetRequirementId (qa_requirementId a) \<and> about (qa_requirementId a) (qa_warnings a)"
    if a: "a \<in> set (rl_requirementAssessments e)" for a
  proof -
    obtain q where q: "q \<in> set (ap_requirements p)" "a = assess c q (evaluateRequirement env (evaluation_context c p i) q)"
      using a unfolding assms(1) evaluation_fields(9) by auto
    have "isValidAssetRequirementId (ar_id q)" using assms(3) q(1) by (auto simp: profile_wf_def requirement_ok_def list_all_iff)
    then show ?thesis using assessed_ids q(2) by simp
  qed
  have each: "isReasonList False (qa_warnings a)" if "a \<in> set (rl_requirementAssessments e)" for a
    using one [OF that] part_length [OF that, of qa_warnings] assms(4) about_reasons unfolding sizes_ok_def warnings
    by (meson order_trans)
  have "b \<in> set (rl_warnings e) \<Longrightarrow> isReadinessReason False b" for b
    using each unfolding warnings by (auto simp: isReasonList_def list_all_iff)
  then show "isReasonList False (rl_warnings e)" using assms(4) by (simp add: isReasonList_def list_all_iff sizes_ok_def)
  have "length (rl_requirementAssessments e) \<le> REFERENCE_LIST_MAX_LENGTH"
    using assms(4) unfolding assms(1) evaluation_fields(9) by (simp add: sizes_ok_def)
  then show "assessments_well_formed (rl_requirementAssessments e)"
    using one each blockers by (simp add: assessments_well_formed_def list_all_iff isReasonList_def)
qed

lemma wf_header:
  assumes "case_wf env c"
  shows "isValidProtocolizationTenantId (zc_tenantId c)" "isValidProtocolizationCaseId (zc_caseId c)"
    "isValidProtocolizationProfileRef (zc_profile c)" "isValidProtocolizationCaseSubject (zc_subject c)"
    "isSafeInteger (zc_revision c)" "1 \<le> zc_revision c"
  using assms by (simp_all add: case_wf_def header_ok_def)

lemma ready_authorizes:
  assumes "e = evaluation_of env c p i now" "rl_ready e" "profile_wf env p" "sizes_ok c p e" "case_wf env c"
    "inputs_recorded env i" "isValidUtcDateTime env now"
  shows "authorizes env e c"
proof -
  have "rl_blockers e = []" using ready_meaning(1) [OF assms(3,6)] assms(2) unfolding assms(1) by blast
  note ok = ready_reasons [OF assms(1) this assms(3,4)]
  have fields: "rl_schemaVersion e = PROTOCOLIZATION_READINESS_EVALUATION_SCHEMA_VERSION" "rl_tenantId e = zc_tenantId c"
    "rl_caseId e = zc_caseId c" "rl_profile e = zc_profile c" "rl_caseState e = zc_state c" "rl_evaluatedCaseRevision e = zc_revision c"
    "rl_evaluatedAt e = now" "rl_ready e = (rl_state e = Ready)"
    unfolding assms(1) by (rule evaluation_fields)+
  have "isReasonList True (rl_blockers e)" using \<open>rl_blockers e = []\<close> by (simp add: isReasonList_def)
  then have "validateProtocolizationReadinessForExecution env e = []"
    using ok fields assms(2,7) wf_header [OF assms(5)] \<open>rl_blockers e = []\<close>
    by (simp add: validateProtocolizationReadinessForExecution_def Let_def)
  then show ?thesis using fields assms(2) by (simp add: authorizes_def isProtocolizationReadinessCurrentForCase_def)
qed

subsection \<open>Its result is valid\<close>

lemma collected_bounded:
  assumes "\<And>a. a \<in> set (rl_requirementAssessments e) \<Longrightarrow> canonical_refs (select a)"
    "length (collectRefs e select) \<le> REFERENCE_LIST_MAX_LENGTH"
  shows "isBoundedIdList (collectRefs e select)"
proof -
  have "isCanonicalRecordId x" if x: "x \<in> set (collectRefs e select)" for x
  proof -
    obtain a where a: "a \<in> set (rl_requirementAssessments e)" "x \<in> set (or_empty (select a))"
      using x by (auto simp: collectRefs_def)
    then show ?thesis using assms(1) [OF a(1)]
      by (auto simp: canonical_refs_def if_present_def or_empty_def list_all_iff split: option.splits)
  qed
  with assms(2) show ?thesis by (simp add: isBoundedIdList_def list_all_iff)
qed

lemma quoted_materials:
  assumes "case_wf env c" "length (zc_materials c) \<le> REFERENCE_LIST_MAX_LENGTH"
  shows "isMaterialRefList (quoteMaterial c)"
proof -
  have payload: "if_present isCanonicalRecordId (protocolizationMaterialRecordRef x)" if "isValidMaterialPayload x" for x
    using that by (cases x) (simp_all add: if_present_def isUsableRegistryEntryRef_def)
  have "isValidProtocolizationCaseMaterial env m" if "m \<in> set (zc_materials c)" for m
    using assms(1) that by (auto simp: case_wf_def materials_ok_def list_all_iff)
  then show ?thesis
    using assms(2) payload
    by (auto simp: isMaterialRefList_def quoteMaterial_def list_all_iff isValidProtocolizationCaseMaterial_def isValidRequirementIdList_def)
qed

lemma ready_result_valid:
  assumes "e = evaluation_of env c p i now" "rl_ready e" "profile_wf env p" "sizes_ok c p e" "case_wf env c"
    "inputs_recorded env i" "isValidUtcDateTime env now" "isAdmissibleProtocolizationExecutionRequest q" "isValidUtcDateTime env t"
    "zc_state c \<noteq> Cancelled"
  shows "isValidProtocolizationResult env (executed_result c e q t)"
proof -
  have blockers: "rl_blockers e = []" using ready_meaning(1) [OF assms(3,6)] assms(2) unfolding assms(1) by blast
  note warnings = ready_reasons(1) [OF assms(1) blockers assms(3,4)]
  have fields: "rl_schemaVersion e = PROTOCOLIZATION_READINESS_EVALUATION_SCHEMA_VERSION"
    "rl_caseState e = zc_state c" "rl_evaluatedCaseRevision e = zc_revision c" "rl_evaluatedAt e = now"
    unfolding assms(1) by (rule evaluation_fields)+
  have "list_all (decision_valid env) (re_reviewDecisions (evaluation_context c p i))"
    using assms(6) by (auto simp: inputs_recorded_def evaluation_context_def Let_def list_all_iff)
  note cited = assessed_canonical [OF recorded_context(1) [OF assms(6)] this]
  have "case_wf env (re_case (evaluation_context c p i))" using assms(5) by (simp add: evaluation_context_def Let_def)
  note cited = cited [OF this]
  have a: "canonical_refs (qa_verificationExecutionIds a) \<and> canonical_refs (qa_reviewDecisionIds a) \<and> canonical_refs (qa_attestationRefs a)"
    if "a \<in> set (rl_requirementAssessments e)" for a
    using that cited unfolding assms(1) evaluation_fields(9) by auto
  have "isBoundedIdList (collectRefs e qa_verificationExecutionIds)" "isBoundedIdList (collectRefs e qa_reviewDecisionIds)"
    "isBoundedIdList (collectRefs e qa_attestationRefs)"
    using a assms(4) by (auto intro!: collected_bounded simp: sizes_ok_def)
  then have "isReadinessBasis env (quoteReadiness e)"
    using fields warnings blockers assms(7,10) wf_header [OF assms(5)] by (simp add: isReadinessBasis_def quoteReadiness_def)
  moreover have "isMaterialRefList (quoteMaterial c)" using assms(4,5) quoted_materials by (simp add: sizes_ok_def)
  moreover have "isValidProtocolizationResultId (jq_resultId q)" "if_present isCanonicalRecordId (jq_correlationId q)"
    using assms(8) by (simp_all add: isAdmissibleProtocolizationExecutionRequest_def validateProtocolizationExecutionRequest_def)
  moreover have "jb_evaluatedCaseRevision (quoteReadiness e) = zc_revision c" by (simp add: quoteReadiness_def fields)
  ultimately show ?thesis
    using wf_header [OF assms(5)] assms(9)
    by (simp add: isValidProtocolizationResult_def validateProtocolizationResult_def executed_result_def)
qed

end
