(* ===== verification/ProtocolizationProperties.thy ===== *)
theory ProtocolizationProperties
  imports ProtocolizationOutcome ReviewCurrency ReviewSamples
begin

text \<open>
  The properties of \<open>packages/asset-protocolization/src/execution\<close>: what a protocolization records over all runs, and when
  one can be executed and recorded.
\<close>

subsection \<open>A case that is ready\<close>

definition sketch_profile :: AssetProfile where
  "sketch_profile = case_profile\<lparr>ap_profileId := ''art.sketch'', ap_requirements := [ap_requirements case_profile ! 0]\<rparr>"

lemma sketch_profile_wf: "profile_wf sample_env sketch_profile"
  unfolding validate_profile [symmetric] by code_simp

definition sketch_catalog :: catalog_entries where
  "sketch_catalog = [(profile_key sketch_profile, sketch_profile)]"

definition sketch_context :: "string \<Rightarrow> CaseContext" where
  "sketch_context t = \<lparr>cx_catalog = catalog_get sketch_catalog, cx_now = t, cx_tenantId = ''gallery''\<rparr>"

definition sketch_ref :: ProtocolizationProfileRef where
  "sketch_ref = \<lparr>pr_profileId = ''art.sketch'', pr_profileVersion = ''1.0.0''\<rparr>"

definition sketch_input :: CreateCaseInput where
  "sketch_input = case_input\<lparr>ic_profile := sketch_ref\<rparr>"

definition blank_sketch :: ProtocolizationCase where
  "blank_sketch = initial_case (sketch_context noon_text) sketch_input sketch_profile noon_text"

lemma sketch_get: "catalog_get sketch_catalog (pr_profileId sketch_ref) (pr_profileVersion sketch_ref) = Some sketch_profile"
  by code_simp

lemma sketch_catalog_wf: "\<forall>i v p. catalog_get sketch_catalog i v = Some p \<longrightarrow> profile_wf sample_env p"
  by (auto simp: catalog_get_def sketch_catalog_def sketch_profile_wf split: if_splits)

lemma sketch_header:
  "zc_tenantId blank_sketch = ''gallery''" "zc_caseId blank_sketch = ''case-1''" "zc_profile blank_sketch = sketch_ref"
  "zc_state blank_sketch = Draft" "zc_updatedAt blank_sketch = noon_text" "zc_materials blank_sketch = []"
  "zc_revision blank_sketch = 1" "map zr_requirementId (zc_requirementStates blank_sketch) = [''origin'']"
  by (simp_all add: blank_sketch_def initial_case_def sketch_context_def sketch_input_def case_input_def sketch_profile_def
      case_profile_def initial_state_def INITIAL_PROTOCOLIZATION_CASE_STATE_def)

lemma blank_sketch_wf: "case_wf sample_env blank_sketch"
proof -
  have sound: "catalog_sound sample_env sketch_catalog"
    using catalog.register_sound [of sample_env "[]" sketch_profile sketch_catalog]
    by (simp add: catalog_sound_def sketch_profile_wf sketch_catalog_def)
  have "create_reasons sketch_input = []" by code_simp
  moreover have "isValidUtcDateTime sample_env noon_text" unfolding noon_text_def by code_simp
  moreover have "ic_profile sketch_input = sketch_ref" by (simp add: sketch_input_def)
  ultimately obtain ev where "createProtocolizationCase sample_env (sketch_context noon_text) sketch_input = Inr (blank_sketch, ev)"
    using create_succeeds [OF sound, of "sketch_context noon_text" sketch_input sketch_profile] sketch_get opinion_facts(5)
    by (auto simp: sketch_context_def blank_sketch_def)
  then show ?thesis by (auto simp: create_Inr)
qed

definition sketch :: ProtocolizationCase where
  "sketch = effect blank_sketch (AddMaterial claim_material) later_text"

lemma sketch_made: "\<exists>ev. perform sample_env (sketch_context later_text) blank_sketch (AddMaterial claim_material) = Inr (sketch, ev)"
proof -
  have "isValidProtocolizationCaseMaterial sample_env (material_of claim_material later_text)"
    unfolding later_text_def by code_simp
  moreover have "operable sample_env (sketch_context later_text) blank_sketch" "time_ok sample_env (sketch_context later_text) blank_sketch"
    "revisable blank_sketch"
    using blank_sketch_wf later_than_first by (simp_all add: operable_def time_ok_def revisable_def sketch_header sketch_context_def)
  moreover have "pinned_profile (sketch_context later_text) blank_sketch = Some sketch_profile"
    using sketch_get by (simp add: pinned_profile_def sketch_context_def sketch_header)
  moreover have "requirements_ok (im_requirementIds claim_material) sketch_profile blank_sketch"
  proof -
    have "''origin'' \<in> set (map zr_requirementId (zc_requirementStates blank_sketch))" by (simp add: sketch_header)
    then show ?thesis by (simp add: requirements_ok_def claim_material_def) (simp add: sketch_profile_def case_profile_def)
  qed
  ultimately show ?thesis
    unfolding perform_Inr sketch_def by (simp add: sketch_header) (simp add: sketch_context_def)
qed

lemma sketch_facts:
  "case_wf sample_env sketch" "zc_tenantId sketch = ''gallery''" "zc_caseId sketch = ''case-1''" "zc_profile sketch = sketch_ref"
  "zc_state sketch = Draft" "zc_revision sketch = 2" "zc_materials sketch = [material_of claim_material later_text]"
  "map zr_requirementId (zc_requirementStates sketch) = [''origin'']"
proof -
  obtain ev where p: "perform sample_env (sketch_context later_text) blank_sketch (AddMaterial claim_material) = Inr (sketch, ev)"
    using sketch_made by blast
  show "case_wf sample_env sketch" by (rule perform_wf [OF p])
  have "map zr_requirementId (correlate ss xs m t) = map zr_requirementId ss" for ss xs m t
    by (simp add: correlate_def correlate_one_def)
  then show "zc_tenantId sketch = ''gallery''" "zc_caseId sketch = ''case-1''" "zc_profile sketch = sketch_ref"
    "zc_state sketch = Draft" "zc_revision sketch = 2" "zc_materials sketch = [material_of claim_material later_text]"
    "map zr_requirementId (zc_requirementStates sketch) = [''origin'']"
    by (simp_all add: sketch_def with_material_def sketch_header del: map_map)
qed

subsection \<open>Its evaluation\<close>

definition sketch_inputs :: ReadinessInputs where
  "sketch_inputs =
     \<lparr>rn_evidenceReceipts = None, rn_evidence = None, rn_declarations = None, rn_verificationResults = None, rn_reviewRequests = None,
      rn_reviewDecisions = None, rn_attestations = None\<rparr>"

definition sketch_evaluation :: ReadinessEvaluation where
  "sketch_evaluation = evaluation_of sample_env sketch sketch_profile sketch_inputs later_text"

lemma sketch_recorded: "inputs_recorded sample_env sketch_inputs"
  by (simp add: inputs_recorded_def results_recorded_def sketch_inputs_def or_empty_def)

lemma sketch_valid: "isValidProtocolizationCase sample_env sketch (Some sketch_profile)"
  "sketch_ref = profile_ref_of sketch_profile"
  using sketch_facts(1,8)
  by (simp_all add: valid_for_profile sketch_facts(4))
    (simp_all add: sketch_profile_def case_profile_def profile_ref_of_def sketch_ref_def)

lemma sketch_evaluated:
  "evaluateProtocolizationReadiness sample_env (sketch_context later_text) sketch sketch_inputs = Inr sketch_evaluation"
proof -
  have "inputs_of_case sketch sketch_inputs"
    by (simp add: inputs_of_case_def scopedRecords_def sketch_inputs_def or_empty_def)
  then show ?thesis
    unfolding evaluate_Inr
    using sketch_facts(2,4) sketch_valid sketch_get opinion_facts(5) later_on_time(1)
    by (intro exI [of _ sketch_profile]) (simp add: sketch_context_def sketch_evaluation_def)
qed

lemma sketch_requirements:
  "ap_requirements sketch_profile =
     [\<lparr>ar_id = ''origin'', ar_obligation = Required, ar_condition = None, ar_jurisdictions = None, ar_metadata = None,
       ar_shape = DeclarationShape \<lparr>ad_claimType = ''Origin'', ad_claimSubtype = None, ad_minimumCount = None\<rparr>\<rparr>]"
  by (simp add: sketch_profile_def case_profile_def)

lemma sketch_ready: "rl_ready sketch_evaluation" "sizes_ok sketch sketch_profile sketch_evaluation"
proof -
  let ?rx = "evaluation_context sketch sketch_profile sketch_inputs"
  have "materials_for ?rx ''origin'' DeclarationMaterial = [material_of claim_material later_text]"
    by (simp add: materials_for_def materialsFor_def evaluation_context_def Let_def sketch_facts(7))
      (simp add: material_of_def claim_material_def)
  moreover have "recordsByClaim ?rx ''origin'' k = None" for k
    by (simp add: recordsByClaim_def evaluation_context_def Let_def sketch_inputs_def or_empty_def)
  ultimately have met: "declaration_met ?rx ''origin'' \<lparr>ad_claimType = ''Origin'', ad_claimSubtype = None, ad_minimumCount = None\<rparr>"
    by (simp add: declaration_met_def if_present_def minimumOf_def)
  show "rl_ready sketch_evaluation"
    using ready_meaning [OF sketch_profile_wf sketch_recorded, of sketch later_text] met
    by (simp add: sketch_evaluation_def sketch_facts(5) sketch_requirements requirement_met_def)
  have "qa_warnings (assess sketch q f) = rf_warnings f \<and> qa_verificationExecutionIds (assess sketch q f) = None \<and>
      qa_reviewDecisionIds (assess sketch q f) = None \<and> qa_attestationRefs (assess sketch q f) = None"
    if "ar_obligation q = Required" "rf_verificationExecutionIds f = None" "rf_reviewDecisionIds f = None" "rf_attestationRefs f = None" for q f
    using that by (simp add: assess_def Let_def)
  moreover have "rf_warnings (evaluateDeclarationRequirement rx i r) = [] \<and> rf_verificationExecutionIds (evaluateDeclarationRequirement rx i r) = None \<and>
      rf_reviewDecisionIds (evaluateDeclarationRequirement rx i r) = None \<and> rf_attestationRefs (evaluateDeclarationRequirement rx i r) = None" for rx i r
    by (simp add: evaluateDeclarationRequirement_def findings_def Let_def)
  ultimately have one: "\<forall>a \<in> set (rl_requirementAssessments sketch_evaluation).
      qa_warnings a = [] \<and> qa_verificationExecutionIds a = None \<and> qa_reviewDecisionIds a = None \<and> qa_attestationRefs a = None"
    unfolding sketch_evaluation_def evaluation_fields(9) sketch_requirements by (simp add: evaluateRequirement_def)
  then have "rl_warnings sketch_evaluation = []"
    unfolding sketch_evaluation_def evaluation_fields(10) by simp
  moreover have "collectRefs sketch_evaluation select = []"
    if "\<forall>a \<in> set (rl_requirementAssessments sketch_evaluation). select a = None" for select
    using that by (simp add: collectRefs_def or_empty_def)
  ultimately show "sizes_ok sketch sketch_profile sketch_evaluation"
    using one by (simp add: sizes_ok_def sketch_facts(7) sketch_requirements REFERENCE_LIST_MAX_LENGTH_def)
qed

definition sketch_request :: ExecutionRequest where
  "sketch_request = \<lparr>jq_resultId = ''result-1'', jq_expectedCaseRevision = Some 2, jq_correlationId = None\<rparr>"

lemma sketch_request_ok: "isAdmissibleProtocolizationExecutionRequest sketch_request"
  by code_simp

subsection \<open>A ready case can be protocolized\<close>

text \<open>
  An admissible request on a case as it was evaluated is executed and recorded exactly when the evaluation is ready, and
  neither the identifier of the request nor the basis, this revision of the case, is taken.
\<close>

theorem protocolization_exactly_ready:
  assumes "evaluateProtocolizationReadiness env ctx c i = Inr e" "inputs_recorded env i"
    "cx_catalog ctx (pr_profileId (zc_profile c)) (pr_profileVersion (zc_profile c)) = Some p" "profile_wf env p" "sizes_ok c p e"
    "cx_catalog kx = cx_catalog ctx" "cx_tenantId kx = cx_tenantId ctx" "isValidUtcDateTime env (cx_now kx)"
    "isAdmissibleProtocolizationExecutionRequest q" "jq_expectedCaseRevision q \<in> {None, Some (zc_revision c)}"
    "results.indexed_good env s"
  shows "(\<exists>r ev s'. executeProtocolization env kx c (Some e) q = Inr (r, ev) \<and> result_save env s r = Inr s') \<longleftrightarrow>
    rl_ready e \<and> result_get s (zc_tenantId c) (jq_resultId q) = Inr None \<and>
    result_getByBasis s (zc_tenantId c) (zc_caseId c) (zc_profile c) (zc_revision c) = Inr None"
proof -
  let ?r = "executed_result c e q (cx_now kx)"
  have c: "isValidProtocolizationTenantId (zc_tenantId c)" "zc_tenantId c = cx_tenantId ctx" "zc_profile c = profile_ref_of p"
    "isValidProtocolizationCase env c (Some p)" "isValidUtcDateTime env (cx_now ctx)" and e: "e = evaluation_of env c p i (cx_now ctx)"
    using assms(1,3) by (auto simp: evaluate_Inr)
  have wf: "case_wf env c" using c(4) by (simp add: valid_for_profile)
  have fields: "jr_tenantId ?r = zc_tenantId c" "jr_resultId ?r = jq_resultId q" "jr_caseId ?r = zc_caseId c" "jr_profile ?r = zc_profile c"
    "jr_executedCaseRevision ?r = zc_revision c"
    by (simp_all add: executed_result_def)
  have executes: "executeProtocolization env kx c (Some e) q = Inr (?r, execution_event ?r) \<and> isValidProtocolizationResult env ?r" if "rl_ready e"
  proof -
    have "zc_state c \<noteq> Cancelled" using that ready_meaning [OF assms(4,2)] unfolding e by blast
    moreover have "authorizes env e c" by (rule ready_authorizes [OF e that assms(4,5) wf assms(2) c(5)])
    moreover have "isValidProtocolizationResult env ?r"
      by (rule ready_result_valid [OF e that assms(4,5) wf assms(2) c(5) assms(9,8) \<open>zc_state c \<noteq> Cancelled\<close>])
    ultimately show ?thesis using assms(3,6-10) c by (auto simp: protocolization_Inr executable_def)
  qed
  have only: "rl_ready e \<and> r = ?r" if "executeProtocolization env kx c (Some e) q = Inr (r, ev)" for r ev
  proof -
    have "rl_state e = Ready" "r = ?r" using that by (auto simp: protocolization_Inr executable_def authorizes_def)
    then show ?thesis unfolding e by (simp add: evaluation_fields)
  qed
  have saved: "(\<exists>s'. result_save env s ?r = Inr s') \<longleftrightarrow>
      result_get s (zc_tenantId c) (jq_resultId q) = Inr None \<and>
      result_getByBasis s (zc_tenantId c) (zc_caseId c) (zc_profile c) (zc_revision c) = Inr None" if "rl_ready e"
    using result_saved [OF assms(11) conjunct2 [OF executes [OF that]]] unfolding fields .
  show ?thesis
  proof
    assume "\<exists>r ev s'. executeProtocolization env kx c (Some e) q = Inr (r, ev) \<and> result_save env s r = Inr s'"
    then obtain r ev s' where r: "executeProtocolization env kx c (Some e) q = Inr (r, ev)" "result_save env s r = Inr s'" by blast
    from only [OF r(1)] have "rl_ready e" "r = ?r" by simp_all
    with saved r(2) show "rl_ready e \<and> result_get s (zc_tenantId c) (jq_resultId q) = Inr None \<and>
        result_getByBasis s (zc_tenantId c) (zc_caseId c) (zc_profile c) (zc_revision c) = Inr None" by blast
  next
    assume free: "rl_ready e \<and> result_get s (zc_tenantId c) (jq_resultId q) = Inr None \<and>
        result_getByBasis s (zc_tenantId c) (zc_caseId c) (zc_profile c) (zc_revision c) = Inr None"
    with saved obtain s' where "result_save env s ?r = Inr s'" by blast
    with executes free show "\<exists>r ev s'. executeProtocolization env kx c (Some e) q = Inr (r, ev) \<and> result_save env s r = Inr s'" by blast
  qed
qed

definition sketch_result :: ProtocolizationResult where
  "sketch_result = executed_result sketch sketch_evaluation sketch_request later_text"

lemma sketch_executed:
  "\<exists>ev s'. executeProtocolization sample_env (sketch_context later_text) sketch (Some sketch_evaluation) sketch_request =
     Inr (sketch_result, ev) \<and> result_save sample_env no_results sketch_result = Inr s'"
proof -
  have "cx_catalog (sketch_context later_text) (pr_profileId (zc_profile sketch)) (pr_profileVersion (zc_profile sketch)) = Some sketch_profile"
    using sketch_get by (simp add: sketch_facts(4) sketch_context_def)
  note exactly = protocolization_exactly_ready [OF sketch_evaluated sketch_recorded this sketch_profile_wf sketch_ready(2) refl refl _
      sketch_request_ok _ no_results_good]
  have "isValidUtcDateTime sample_env (cx_now (sketch_context later_text))" using later_on_time(1) by (simp add: sketch_context_def)
  note exactly = exactly [OF this]
  have "jq_expectedCaseRevision sketch_request \<in> {None, Some (zc_revision sketch)}" by (simp add: sketch_request_def sketch_facts(6))
  note exactly = exactly [OF this]
  have "result_get no_results t k = Inr None" "result_getByBasis no_results t k' x n = Inr None" if "isValidProtocolizationTenantId t" for t k k' x n
    using that by (simp_all add: result_get_def result_getByBasis_def execution_assertTenant_def no_results_def record_with_def)
  then have "result_get no_results (zc_tenantId sketch) k = Inr None" "result_getByBasis no_results (zc_tenantId sketch) k' x n = Inr None" for k k' x n
    using opinion_facts(5) by (simp_all add: sketch_facts(2))
  then obtain r ev s' where r: "executeProtocolization sample_env (sketch_context later_text) sketch (Some sketch_evaluation) sketch_request = Inr (r, ev)"
    "result_save sample_env no_results r = Inr s'"
    using exactly sketch_ready(1) by blast
  then have "r = sketch_result" by (auto simp: protocolization_Inr sketch_result_def sketch_context_def)
  with r show ?thesis by blast
qed

theorem protocolization_exactly_ready_witness:
  "\<exists>r ev s'. executeProtocolization sample_env (sketch_context later_text) sketch (Some sketch_evaluation) sketch_request = Inr (r, ev) \<and>
     result_save sample_env no_results r = Inr s'"
  using sketch_executed by blast

subsection \<open>Every protocolization is of a ready case\<close>

text \<open>
  C10: in every run over a case of operations on it, evaluations of any of its versions and executions of any version with any
  of the evaluations made, under a catalogue of well-formed profiles, a recorded protocolization is of one version of the
  case, names its tenant, pinned profile, subject and material, and is the only one of its revision.  It quotes one of the
  evaluations made, which is ready and is what \<open>evaluateProtocolizationReadiness\<close> gave for that very version.  The version
  was not cancelled, its profile left no condition open, and every required requirement of the profile was met by the
  records that evaluation was given.
\<close>

theorem protocolization_provenance:
  assumes "protocolization_run env cat s" "r \<in> set (pe_entries (hs_results s))" "\<forall>i v p. cat i v = Some p \<longrightarrow> profile_wf env p"
  shows "\<exists>c \<in> set (hs_versions s). \<exists>e \<in> set (hs_evaluations s). \<exists>kx p i.
    (\<forall>d \<in> set (hs_versions s). zc_revision d = jr_executedCaseRevision r \<longleftrightarrow> d = c) \<and>
    (\<forall>r' \<in> set (pe_entries (hs_results s)). jr_executedCaseRevision r' = jr_executedCaseRevision r \<longrightarrow> r' = r) \<and>
    jr_tenantId r = zc_tenantId c \<and> jr_caseId r = zc_caseId c \<and> jr_profile r = zc_profile c \<and> jr_subject r = zc_subject c \<and>
    jr_materialRefs r = quoteMaterial c \<and> jr_readinessBasis r = quoteReadiness e \<and>
    cx_catalog kx = cat \<and> evaluateProtocolizationReadiness env kx c i = Inr e \<and> rl_state e = Ready \<and>
    cat (pr_profileId (zc_profile c)) (pr_profileVersion (zc_profile c)) = Some p \<and> inputs_recorded env i \<and> zc_state c \<noteq> Cancelled \<and>
    (\<forall>q \<in> set (ap_requirements p).
       ar_obligation q \<noteq> Conditional \<and> (ar_obligation q = Required \<longrightarrow> requirement_met env (evaluation_context c p i) q))"
proof -
  note ok = protocolization_run_ok [OF assms(1)]
  obtain c where c: "c \<in> set (hs_versions s)" "result_about env cat (hs_evaluations s) r c"
    using ok assms(2) unfolding protocolization_ok_def by blast
  obtain e q where q: "e \<in> set (hs_evaluations s)" "evaluation_about env cat e c" "rl_state e = Ready"
    "r = executed_result c e q (jr_executedAt r)"
    using c(2) unfolding result_about_def by blast
  obtain kx i where i: "cx_catalog kx = cat" "inputs_recorded env i" "evaluateProtocolizationReadiness env kx c i = Inr e"
    using q(2) unfolding evaluation_about_def by blast
  obtain p where p: "cat (pr_profileId (zc_profile c)) (pr_profileVersion (zc_profile c)) = Some p"
    "e = evaluation_of env c p i (cx_now kx)"
    using i(1,3) by (auto simp: evaluate_Inr)
  have "rl_ready (evaluation_of env c p i (cx_now kx))" using q(3) by (simp add: p(2) evaluation_fields)
  then have met: "zc_state c \<noteq> Cancelled \<and>
      (\<forall>q \<in> set (ap_requirements p). ar_obligation q \<noteq> Conditional \<and>
         (ar_obligation q = Required \<longrightarrow> requirement_met env (evaluation_context c p i) q))"
    using ready_meaning [OF _ i(2)] assms(3) p(1) by blast
  have basis: "jr_readinessBasis r = quoteReadiness e" by (subst q(4), simp add: executed_result_def)
  have "versions_ok env (hs_versions s)" using ok by (simp add: protocolization_ok_def)
  then have "\<forall>d \<in> set (hs_versions s). zc_revision d = jr_executedCaseRevision r \<longleftrightarrow> d = c"
    using one_version c(1) result_fields(4) [OF c(2)] by metis
  moreover have "\<forall>r' \<in> set (pe_entries (hs_results s)). jr_executedCaseRevision r' = jr_executedCaseRevision r \<longrightarrow> r' = r"
    using one_result [OF ok assms(2)] by blast
  ultimately show ?thesis
    using met result_fields [OF c(2)] basis i p(1) q(3)
    by (intro bexI [OF _ c(1)] bexI [OF _ q(1)] exI [of _ kx] exI [of _ p] exI [of _ i] conjI) simp_all
qed

theorem protocolization_provenance_witness:
  "\<exists>s. protocolization_run sample_env (catalog_get sketch_catalog) s \<and> pe_entries (hs_results s) = [sketch_result] \<and>
     jr_materialRefs sketch_result = [\<lparr>jm_materialId = ''material-2'', jm_kind = DeclarationMaterial, jm_requirementIds = [''origin''],
       jm_ref = Some ''claim-3''\<rparr>] \<and>
     (\<exists>i. \<forall>q \<in> set (ap_requirements sketch_profile). requirement_met sample_env (evaluation_context sketch sketch_profile i) q)"
proof -
  let ?cat = "catalog_get sketch_catalog"
  let ?s1 = "unexecuted blank_sketch"
  let ?s2 = "?s1\<lparr>hs_versions := sketch # hs_versions ?s1\<rparr>"
  let ?s3 = "?s2\<lparr>hs_evaluations := sketch_evaluation # hs_evaluations ?s2\<rparr>"
  obtain ev where p: "perform sample_env (sketch_context later_text) blank_sketch (AddMaterial claim_material) = Inr (sketch, ev)"
    using sketch_made by blast
  obtain x rs where e: "executeProtocolization sample_env (sketch_context later_text) sketch (Some sketch_evaluation) sketch_request =
      Inr (sketch_result, x)" "result_save sample_env no_results sketch_result = Inr rs"
    using sketch_executed by blast
  have cat: "cx_catalog (sketch_context later_text) = ?cat" by (simp add: sketch_context_def)
  have "protocolization_step sample_env ?cat ?s1 ?s2"
    by (rule protocolization_step.changed [OF _ p cat]) (simp add: unexecuted_def)
  moreover have "protocolization_step sample_env ?cat ?s2 ?s3"
    by (rule protocolization_step.evaluated [OF _ sketch_evaluated cat sketch_recorded]) simp
  moreover have "protocolization_step sample_env ?cat ?s3 (?s3\<lparr>hs_results := rs\<rparr>)"
    by (rule protocolization_step.executed [OF _ _ e(1) cat]) (simp_all add: unexecuted_def e(2))
  ultimately have run: "protocolization_run sample_env ?cat (?s3\<lparr>hs_results := rs\<rparr>)"
    using protocolization_run.start [OF blank_sketch_wf] protocolization_run.step by metis
  have rs: "pe_entries rs = [sketch_result]" using e(2) by (simp add: result_save_Inr no_results_def)
  define S where "S = ?s3\<lparr>hs_results := rs\<rparr>"
  have S: "sketch_result \<in> set (pe_entries (hs_results S))" "sketch \<in> set (hs_versions S)" by (simp_all add: S_def rs)
  from protocolization_provenance [OF run [folded S_def] S(1) sketch_catalog_wf]
  obtain c p i where c: "\<forall>d \<in> set (hs_versions S). zc_revision d = jr_executedCaseRevision sketch_result \<longleftrightarrow> d = c"
    "jr_materialRefs sketch_result = quoteMaterial c" "?cat (pr_profileId (zc_profile c)) (pr_profileVersion (zc_profile c)) = Some p"
    "\<forall>q \<in> set (ap_requirements p).
       ar_obligation q \<noteq> Conditional \<and> (ar_obligation q = Required \<longrightarrow> requirement_met sample_env (evaluation_context c p i) q)"
    by (elim bexE exE conjE) (rule that; assumption)
  have "zc_revision sketch = jr_executedCaseRevision sketch_result" by (simp add: sketch_result_def executed_result_def)
  with bspec [OF c(1) S(2)] have "c = sketch" by simp
  moreover from this have "p = sketch_profile" using c(3) sketch_get by (simp add: sketch_facts(4))
  ultimately have "\<forall>q \<in> set (ap_requirements sketch_profile). requirement_met sample_env (evaluation_context sketch sketch_profile i) q"
    "jr_materialRefs sketch_result = quoteMaterial sketch"
    using c(2,4) by (simp_all add: sketch_requirements)
  moreover have "quoteMaterial sketch = [\<lparr>jm_materialId = ''material-2'', jm_kind = DeclarationMaterial, jm_requirementIds = [''origin''],
       jm_ref = Some ''claim-3''\<rparr>]"
    by (simp add: quoteMaterial_def sketch_facts(7)) (simp add: material_of_def claim_material_def)
  ultimately show ?thesis using run rs by (intro exI [of _ S] conjI exI [of _ i]) (simp_all add: S_def)
qed

end
