(* ===== verification/Sdl.thy ===== *)
theory Sdl
  imports JsText
begin

text \<open>
  \<open>sdl/\<close>: parsing and validation of the dot-separated paths of the Sovereign Data Language, and the
  pattern by which \<open>vault/vault.ts\<close> recognises them.
\<close>

record SDLScopeSegment =
  seg_value :: string
  seg_index :: nat

record SDLPath =
  sdl_raw :: string
  sdl_segments :: "SDLScopeSegment list"
  sdl_domain :: string
  sdl_attribute :: string

datatype SDLErrorCode =
  EMPTY_INPUT | INVALID_SEGMENT | EMPTY_SEGMENT | TOO_FEW_SEGMENTS | LEADING_DOT | TRAILING_DOT | INVALID_TYPE

record SDLParseError =
  sdle_input :: string
  sdle_code :: SDLErrorCode
  sdle_message :: string

definition sdl_fail :: "string \<Rightarrow> SDLErrorCode \<Rightarrow> string \<Rightarrow> SDLParseError + SDLPath" where
  "sdl_fail input code message = Inl \<lparr>sdle_input = input, sdle_code = code, sdle_message = message\<rparr>"

definition number_segments :: "string list \<Rightarrow> SDLScopeSegment list" where
  "number_segments vs = map (\<lambda>(i, v). \<lparr>seg_value = v, seg_index = i\<rparr>) (enumerate 0 vs)"

definition sdl_path :: "string \<Rightarrow> string list \<Rightarrow> SDLPath" where
  "sdl_path raw vs =
     \<lparr>sdl_raw = raw, sdl_segments = number_segments vs, sdl_domain = hd vs, sdl_attribute = last vs\<rparr>"

text \<open>The loops return at the first offending segment: \<open>find\<close> over the numbered segments.\<close>

definition parseSDLPath :: "string \<Rightarrow> SDLParseError + SDLPath" where
  "parseSDLPath input =
     (if trim input = [] then sdl_fail input EMPTY_INPUT ''SDL path must be a non-empty string.''
      else
        let trimmed = trim input in
        if starts_with trimmed ''.'' then sdl_fail trimmed LEADING_DOT ''SDL path must not start with a dot.''
        else if ends_with trimmed ''.'' then sdl_fail trimmed TRAILING_DOT ''SDL path must not end with a dot.''
        else
          let rawSegments = split_on CHR ''.'' trimmed in
          case find (\<lambda>(i, s). s = []) (enumerate 0 rawSegments) of
            Some (i, s) \<Rightarrow>
              sdl_fail trimmed EMPTY_SEGMENT (''SDL path contains an empty segment at position '' @ show_nat i @ ''.'')
          | None \<Rightarrow>
              if length rawSegments < 2
              then sdl_fail trimmed TOO_FEW_SEGMENTS
                     ''SDL path must contain at least two segments (domain + attribute).''
              else
                case find (\<lambda>(i, s). \<not> SEGMENT_PATTERN s) (enumerate 0 rawSegments) of
                  Some (i, s) \<Rightarrow>
                    sdl_fail trimmed INVALID_SEGMENT
                      (''SDL segment \"'' @ s @ ''\" at position '' @ show_nat i @
                       '' is invalid. Segments must start with a lowercase letter and contain only lowercase letters, digits, or hyphens.'')
                | None \<Rightarrow> Inr (sdl_path trimmed rawSegments))"

text \<open>\<open>CANONICAL_DOMAINS\<close> is exported and not consulted by the validation.\<close>

definition CANONICAL_DOMAINS :: "string list" where
  "CANONICAL_DOMAINS =
     [''person'', ''identity'', ''contact'', ''location'', ''work'', ''education'', ''health'', ''finance'', ''legal'',
      ''biometric'', ''device'', ''reputation'', ''credential'', ''preference'', ''consent'']"

definition segment_errors :: "string \<Rightarrow> SDLScopeSegment \<Rightarrow> SDLParseError list" where
  "segment_errors raw s =
     (if seg_value s = []
      then [\<lparr>sdle_input = raw, sdle_code = EMPTY_SEGMENT,
              sdle_message = ''SDL path contains an empty segment at position '' @ show_nat (seg_index s) @ ''.''\<rparr>]
      else if \<not> SEGMENT_PATTERN (seg_value s)
      then [\<lparr>sdle_input = raw, sdle_code = INVALID_SEGMENT,
              sdle_message = ''SDL segment \"'' @ seg_value s @ ''\" at position '' @ show_nat (seg_index s) @ '' is invalid.''\<rparr>]
      else [])"

definition validateSDLPath :: "SDLPath \<Rightarrow> SDLParseError list + SDLPath" where
  "validateSDLPath p =
     (let errors =
            (if length (sdl_segments p) < 2
             then [\<lparr>sdle_input = sdl_raw p, sdle_code = TOO_FEW_SEGMENTS,
                     sdle_message = ''SDL path must contain at least two segments (domain + attribute).''\<rparr>]
             else []) @
            concat (map (segment_errors (sdl_raw p)) (sdl_segments p));
          values = map seg_value (sdl_segments p)
      in if errors \<noteq> [] then Inl errors
         else Inr (sdl_path (join_with CHR ''.'' values) values))"

definition parseAndValidateSDLPath :: "string \<Rightarrow> SDLParseError list + SDLPath" where
  "parseAndValidateSDLPath input =
     (case parseSDLPath input of Inl e \<Rightarrow> Inl [e] | Inr p \<Rightarrow> validateSDLPath p)"

subsection \<open>The vault's check\<close>

definition validateSdlPath :: "string \<Rightarrow> checked" where
  "validateSdlPath p =
     first_throw
       [throw_if (trim p = [])
          (''Invalid SDL path: \"'' @ p @ ''\". Must be a non-empty dot-separated path with at least 2 segments.''),
        throw_if (\<not> SDL_PATH_PATTERN (trim p))
          (''Invalid SDL path: \"'' @ p @ ''\". Must be dot-separated lowercase segments allowing digits and hyphens.'')]"

subsection \<open>What parses\<close>

definition sdl_segments_ok :: "string list \<Rightarrow> bool" where
  "sdl_segments_ok vs \<longleftrightarrow> 2 \<le> length vs \<and> list_all SEGMENT_PATTERN vs"

lemma find_none_enumerate: "find (\<lambda>(i, s). P s) (enumerate n xs) = None \<longleftrightarrow> (\<forall>x \<in> set xs. \<not> P x)"
  by (induction xs arbitrary: n) auto

lemma segment_chars:
  assumes "SEGMENT_PATTERN s" "c \<in> set s"
  shows "c \<noteq> CHR ''.'' \<and> \<not> is_space c"
proof -
  have "kebab_char c"
    using assms by (cases s) (auto simp: kebab_char_def list_all_iff)
  then show ?thesis
    by (auto simp: kebab_char_def is_lower_def is_digit_def is_space_def char_code_def)
qed

lemma segment_nonempty: "SEGMENT_PATTERN s \<Longrightarrow> s \<noteq> []"
  by auto

lemma split_join_segments: "sdl_segments_ok vs \<Longrightarrow> split_on CHR ''.'' (join_with CHR ''.'' vs) = vs"
  by (rule split_join) (auto simp: sdl_segments_ok_def list_all_iff dest: segment_chars)

lemma set_join_with: "c \<in> set (join_with sep ws) \<Longrightarrow> c = sep \<or> (\<exists>w \<in> set ws. c \<in> set w)"
  by (induction sep ws rule: join_with.induct) auto

lemma trim_join_segments:
  assumes "sdl_segments_ok vs"
  shows "trim (join_with CHR ''.'' vs) = join_with CHR ''.'' vs"
proof (rule list_all_not_space_trim)
  have "\<not> is_space CHR ''.''" by (simp add: is_space_def char_code_def)
  then show "list_all (\<lambda>c. \<not> is_space c) (join_with CHR ''.'' vs)"
    using assms by (auto simp: list_all_iff sdl_segments_ok_def dest!: set_join_with segment_chars)
qed

lemma join_ends:
  assumes "sdl_segments_ok vs"
  shows "\<not> starts_with (join_with CHR ''.'' vs) ''.''" "\<not> ends_with (join_with CHR ''.'' vs) ''.''"
    "join_with CHR ''.'' vs \<noteq> []"
proof -
  have free: "v \<noteq> []" "CHR ''.'' \<notin> set v" if "v \<in> set vs" for v
    using that assms by (auto simp: sdl_segments_ok_def list_all_iff dest: segment_chars segment_nonempty)
  have head: "\<exists>c t. join_with CHR ''.'' vs = c # t \<and> c \<noteq> CHR ''.''"
    using free by (cases vs; cases "hd vs"; cases "tl vs") (use assms in \<open>auto simp: sdl_segments_ok_def is_lower_def char_code_def\<close>)
  have "vs \<noteq> [] \<Longrightarrow> (\<And>v. v \<in> set vs \<Longrightarrow> v \<noteq> [] \<and> CHR ''.'' \<notin> set v) \<Longrightarrow>
      last (join_with CHR ''.'' vs) \<noteq> CHR ''.'' \<and> join_with CHR ''.'' vs \<noteq> []" for vs
    by (induction "CHR ''.''" vs rule: join_with.induct) (auto dest: last_in_set)
  note l = this [of vs, THEN conjunct1]
  have "vs \<noteq> []" using assms by (auto simp: sdl_segments_ok_def)
  with free have l: "last (join_with CHR ''.'' vs) \<noteq> CHR ''.''" by (intro l) auto
  show "\<not> starts_with (join_with CHR ''.'' vs) ''.''" "join_with CHR ''.'' vs \<noteq> []"
    using head by auto
  then show "\<not> ends_with (join_with CHR ''.'' vs) ''.''"
    using l by (auto simp: ends_with_def starts_with_append rev_eq_Cons_iff)
qed

text \<open>The accepted texts are, up to white space around them, the dotted lists of two or more segments.\<close>

lemma parseSDLPath_Inr:
  "parseSDLPath input = Inr p \<longleftrightarrow>
     (\<exists>vs. sdl_segments_ok vs \<and> trim input = join_with CHR ''.'' vs \<and> p = sdl_path (trim input) vs)"
proof
  assume "parseSDLPath input = Inr p"
  then have "sdl_segments_ok (split_on CHR ''.'' (trim input)) \<and> p = sdl_path (trim input) (split_on CHR ''.'' (trim input))"
    by (auto simp: parseSDLPath_def sdl_fail_def Let_def find_none_enumerate sdl_segments_ok_def list_all_iff
        split: if_splits option.splits)
  then show "\<exists>vs. sdl_segments_ok vs \<and> trim input = join_with CHR ''.'' vs \<and> p = sdl_path (trim input) vs"
    by (intro exI [of _ "split_on CHR ''.'' (trim input)"]) simp
next
  assume "\<exists>vs. sdl_segments_ok vs \<and> trim input = join_with CHR ''.'' vs \<and> p = sdl_path (trim input) vs"
  then obtain vs where vs: "sdl_segments_ok vs" "trim input = join_with CHR ''.'' vs" "p = sdl_path (trim input) vs" by blast
  have "find (\<lambda>(i, s). s = []) (enumerate 0 vs) = None" "find (\<lambda>(i, s). \<not> SEGMENT_PATTERN s) (enumerate 0 vs) = None"
    using vs(1) by (auto simp: find_none_enumerate sdl_segments_ok_def list_all_iff)
  then show "parseSDLPath input = Inr p"
    using vs join_ends [OF vs(1)] split_join_segments [OF vs(1)]
    by (simp add: parseSDLPath_def Let_def sdl_segments_ok_def)
qed

lemma map_seg_value [simp]: "map seg_value (number_segments vs) = vs"
  by (simp add: number_segments_def enumerate_eq_zip comp_def case_prod_unfold)

lemma length_number_segments [simp]: "length (number_segments vs) = length vs"
  by (simp add: number_segments_def)

lemma validateSDLPath_Inr:
  "validateSDLPath p = Inr q \<longleftrightarrow>
     sdl_segments_ok (map seg_value (sdl_segments p)) \<and>
     q = sdl_path (join_with CHR ''.'' (map seg_value (sdl_segments p))) (map seg_value (sdl_segments p))"
proof -
  have "concat (map (segment_errors raw) ss) = [] \<longleftrightarrow> list_all SEGMENT_PATTERN (map seg_value ss)" for raw ss
    by (induction ss) (auto simp: segment_errors_def)
  then show ?thesis by (auto simp: validateSDLPath_def Let_def sdl_segments_ok_def)
qed

text \<open>A parsed path is normalized already.\<close>

lemma parse_validates: "parseSDLPath input = Inr p \<Longrightarrow> validateSDLPath p = Inr p"
  by (auto simp: parseSDLPath_Inr validateSDLPath_Inr sdl_path_def)

lemma validate_idempotent: "validateSDLPath p = Inr q \<Longrightarrow> validateSDLPath q = Inr q"
  by (auto simp: validateSDLPath_Inr sdl_path_def)

lemma parseAndValidateSDLPath_Inr: "parseAndValidateSDLPath input = Inr p \<longleftrightarrow> parseSDLPath input = Inr p"
  by (auto simp: parseAndValidateSDLPath_def parse_validates split: sum.splits)

text \<open>The vault accepts the texts that parse.\<close>

lemma SDL_PATH_PATTERN_iff: "SDL_PATH_PATTERN s \<longleftrightarrow> (\<exists>vs. sdl_segments_ok vs \<and> s = join_with CHR ''.'' vs)"
proof
  assume "SDL_PATH_PATTERN s"
  then have "sdl_segments_ok (split_on CHR ''.'' s)" by (simp add: SDL_PATH_PATTERN_def sdl_segments_ok_def Let_def)
  then show "\<exists>vs. sdl_segments_ok vs \<and> s = join_with CHR ''.'' vs"
    by (intro exI [of _ "split_on CHR ''.'' s"]) simp
qed (auto simp: SDL_PATH_PATTERN_def split_join_segments Let_def sdl_segments_ok_def)

lemma validateSdlPath_parses: "validateSdlPath p = None \<longleftrightarrow> (\<exists>q. parseSDLPath p = Inr q)"
proof -
  have "validateSdlPath p = None \<longleftrightarrow> trim p \<noteq> [] \<and> (\<exists>vs. sdl_segments_ok vs \<and> trim p = join_with CHR ''.'' vs)"
    by (simp add: validateSdlPath_def SDL_PATH_PATTERN_iff)
  also have "\<dots> \<longleftrightarrow> (\<exists>vs. sdl_segments_ok vs \<and> trim p = join_with CHR ''.'' vs)"
    using join_ends(3) by metis
  finally show ?thesis by (simp add: parseSDLPath_Inr)
qed

end
