(* ===== verification/Resolver.thy ===== *)
theory Resolver
  imports Sdl Manifests
begin

text \<open>
  \<open>resolver/resolve.ts\<close>: looking up parsed SDL paths in an index of field manifests.  The index is a
  JavaScript \<open>Map\<close> from field identifiers; \<open>localeCompare\<close> is a parameter.
\<close>

record SDLFieldRef =
  ref_path :: SDLPath
  ref_field_id :: string

record ResolvedField =
  rf_ref :: SDLFieldRef
  rf_manifest :: FieldManifest

record UnresolvedField =
  uf_path :: SDLPath
  uf_code :: string
  uf_message :: string

record SDLResolutionResult =
  resolved_fields :: "ResolvedField list"
  unresolved_fields :: "UnresolvedField list"

definition resolve_step ::
  "(string \<times> FieldManifest) list \<Rightarrow> SDLPath \<Rightarrow> SDLResolutionResult \<Rightarrow> SDLResolutionResult" where
  "resolve_step fieldIndex p acc =
     (case map_of fieldIndex (sdl_raw p) of
        Some manifest \<Rightarrow>
          acc\<lparr>resolved_fields := resolved_fields acc @
                [\<lparr>rf_ref = \<lparr>ref_path = p, ref_field_id = fm_field_id manifest\<rparr>, rf_manifest = manifest\<rparr>]\<rparr>
      | None \<Rightarrow>
          acc\<lparr>unresolved_fields := unresolved_fields acc @
                [\<lparr>uf_path = p, uf_code = ''FIELD_NOT_FOUND'',
                  uf_message = ''No field manifest found for SDL path \"'' @ sdl_raw p @ ''\".''\<rparr>]\<rparr>)"

definition resolveSDLToFields ::
  "(string \<Rightarrow> string \<Rightarrow> int) \<Rightarrow> SDLPath list \<Rightarrow> (string \<times> FieldManifest) list \<Rightarrow> SDLResolutionResult" where
  "resolveSDLToFields localeCompare paths fieldIndex =
     fold (resolve_step fieldIndex) (sort_by (\<lambda>a b. localeCompare (sdl_raw a) (sdl_raw b)) paths)
       \<lparr>resolved_fields = [], unresolved_fields = []\<rparr>"

subsection \<open>The loop as a partition\<close>

lemma fold_resolve:
  "map (ref_path \<circ> rf_ref) (resolved_fields (fold (resolve_step ix) ps acc)) =
     map (ref_path \<circ> rf_ref) (resolved_fields acc) @ filter (\<lambda>p. map_of ix (sdl_raw p) \<noteq> None) ps"
  "map uf_path (unresolved_fields (fold (resolve_step ix) ps acc)) =
     map uf_path (unresolved_fields acc) @ filter (\<lambda>p. map_of ix (sdl_raw p) = None) ps"
  by (induction ps arbitrary: acc) (simp_all add: resolve_step_def split: option.splits)

lemma fold_resolve_found:
  assumes "\<forall>r \<in> set (resolved_fields acc). map_of ix (sdl_raw (ref_path (rf_ref r))) = Some (rf_manifest r)"
  shows "\<forall>r \<in> set (resolved_fields (fold (resolve_step ix) ps acc)).
    map_of ix (sdl_raw (ref_path (rf_ref r))) = Some (rf_manifest r)"
  using assms
proof (induction ps arbitrary: acc)
  case (Cons p ps)
  have "\<forall>r \<in> set (resolved_fields (resolve_step ix p acc)). map_of ix (sdl_raw (ref_path (rf_ref r))) = Some (rf_manifest r)"
    using Cons.prems by (auto simp: resolve_step_def split: option.splits)
  from Cons.IH [OF this] show ?case by simp
qed simp

lemma resolved_from_index:
  "r \<in> set (resolved_fields (resolveSDLToFields cmp ps ix)) \<Longrightarrow>
     map_of ix (sdl_raw (ref_path (rf_ref r))) = Some (rf_manifest r)"
  using fold_resolve_found [of "\<lparr>resolved_fields = [], unresolved_fields = []\<rparr>"]
  unfolding resolveSDLToFields_def by simp

lemma resolve_partition:
  "mset (map (ref_path \<circ> rf_ref) (resolved_fields (resolveSDLToFields cmp ps ix))) +
     mset (map uf_path (unresolved_fields (resolveSDLToFields cmp ps ix))) = mset ps"
proof -
  let ?s = "sort_by (\<lambda>a b. cmp (sdl_raw a) (sdl_raw b)) ps"
  have "mset (filter (\<lambda>p. map_of ix (sdl_raw p) \<noteq> None) ?s) + mset (filter (\<lambda>p. \<not> map_of ix (sdl_raw p) \<noteq> None) ?s) = mset ?s"
    unfolding mset_filter by (rule multiset_partition [symmetric])
  then show ?thesis unfolding resolveSDLToFields_def fold_resolve by simp
qed

text \<open>
  When \<open>localeCompare\<close> is a total order on the texts, the lists do not depend on the order of the paths
  asked for, as long as no path is asked for under two shapes.
\<close>

lemma resolve_order:
  assumes "mset ps = mset qs" "inj_on sdl_raw (set ps)" "total_on_by cmp (sdl_raw ` set ps)"
  shows "resolveSDLToFields cmp ps ix = resolveSDLToFields cmp qs ix"
proof -
  have "total_on_by (\<lambda>a b. cmp (sdl_raw a) (sdl_raw b)) (set ps)"
    using assms(2,3) unfolding total_on_by_def inj_on_def by blast
  from sort_by_perm [OF assms(1) this] show ?thesis by (simp add: resolveSDLToFields_def)
qed

end
