(* ===== verification/Enforcer.thy ===== *)
theory Enforcer
  imports Consumption
begin

text \<open>
  \<open>aoc/capabilities/legacy/capabilityEnforcer.ts\<close>: the bridge that the vault and other read flows
  call.  It takes the scope apart, presents the capability to \<open>consumeCapabilityAccess\<close> and
  translates the reason codes.  The codes are the texts of the source.
\<close>

record EnforceCapabilityInput =
  ei_required_scope :: string
  ei_token :: RawCapability
  ei_consent :: "ConsentObject option"
  ei_now :: now_arg
  ei_contextMarketMakerId :: "string option"
  ei_rateLimit :: "(js_num \<times> js_num) option"
  ei_consume :: bool
  ei_action :: "string option"
  ei_usageHook :: "access_hook option"
  ei_policyHook :: "access_hook option"
  ei_marketMakerRegistry :: "mm_view option"

record EnforceCapabilityDecision =
  en_allowed :: bool
  en_reasonCode :: consume_code
  en_code :: string
  en_reason :: string
  en_metadata :: "metadata option"

definition enforce_deny :: "string \<Rightarrow> string \<Rightarrow> EnforceCapabilityDecision" where
  "enforce_deny code reason =
     \<lparr>en_allowed = False, en_reasonCode = AccessCode CAPABILITY_INVALID, en_code = code, en_reason = reason,
      en_metadata = None\<rparr>"

fun mapReasonCode :: "consume_code \<Rightarrow> string" where
  "mapReasonCode (AccessCode ACCESS_ALLOWED) = ''OK''"
| "mapReasonCode (AccessCode CAPABILITY_EXPIRED) = ''EXPIRED''"
| "mapReasonCode (AccessCode CONSENT_EXPIRED) = ''EXPIRED''"
| "mapReasonCode (AccessCode CAPABILITY_NOT_YET_VALID) = ''NOT_YET_VALID''"
| "mapReasonCode (AccessCode RESOURCE_NOT_ALLOWED) = ''SCOPE_MISMATCH''"
| "mapReasonCode (AccessCode RESOURCE_MISSING) = ''INVALID_SCOPE''"
| "mapReasonCode (AccessCode CAPABILITY_INVALID) = ''INVALID_CAPABILITY''"
| "mapReasonCode (AccessCode CAPABILITY_MISSING) = ''INVALID_CAPABILITY''"
| "mapReasonCode (AccessCode ACTION_MISSING) = ''INVALID_CAPABILITY''"
| "mapReasonCode (AccessCode ACTION_NOT_ALLOWED) = ''INVALID_CAPABILITY''"
| "mapReasonCode (AccessCode CAPABILITY_INACTIVE) = ''MALFORMED_CAPABILITY''"
| "mapReasonCode (AccessCode CONSENT_INVALID) = ''CONSENT_MISMATCH''"
| "mapReasonCode (AccessCode CONSENT_MISMATCH) = ''CONSENT_MISMATCH''"
| "mapReasonCode (AccessCode EXPIRATION_MISMATCH) = ''CONSENT_MISMATCH''"
| "mapReasonCode (AccessCode MARKET_MAKER_REQUIRED) = ''REQUEST_CONTEXT_MISMATCH''"
| "mapReasonCode (AccessCode MARKET_MAKER_MISMATCH) = ''REQUEST_CONTEXT_MISMATCH''"
| "mapReasonCode (AccessCode UNKNOWN_MARKET_MAKER) = ''REQUEST_CONTEXT_MISMATCH''"
| "mapReasonCode (AccessCode MARKET_MAKER_DEPRECATED) = ''REQUEST_CONTEXT_MISMATCH''"
| "mapReasonCode (AccessCode MARKET_MAKER_REVOKED) = ''REQUEST_CONTEXT_MISMATCH''"
| "mapReasonCode (AccessCode MARKET_MAKER_TRUST_UNVERIFIABLE) = ''REQUEST_CONTEXT_MISMATCH''"
| "mapReasonCode (AccessCode POLICY_DENIED) = ''RESOURCE_RESTRICTION_FAILED''"
| "mapReasonCode (AccessCode USAGE_DENIED) = ''RESOURCE_RESTRICTION_FAILED''"
| "mapReasonCode (AccessCode PAYMENT_REQUIRED) = ''RESOURCE_RESTRICTION_FAILED''"
| "mapReasonCode RATE_LIMITED = ''RESOURCE_RESTRICTION_FAILED''"
| "mapReasonCode _ = ''INTERNAL_DENY''"

definition enforced_action :: "EnforceCapabilityInput \<Rightarrow> string" where
  "enforced_action i = (case ei_action i of Some a \<Rightarrow> a | None \<Rightarrow> ''read'')"

text \<open>
  The request given on: \<open>buildLegacyAccessRequest\<close> with the members added to it.  The metadata of
  the bridge are not read by \<open>consumeCapabilityAccess\<close>, and no payment context is passed.
\<close>

definition buildLegacyAccessRequest :: "EnforceCapabilityInput \<Rightarrow> string \<Rightarrow> string \<Rightarrow> ConsumptionRequest" where
  "buildLegacyAccessRequest i ty rf =
     \<lparr>w_capability = Some (ei_token i), w_consent = ei_consent i, w_action = enforced_action i,
      w_resource = ResourceEntry \<lparr>se_type = ty, se_ref = rf\<rparr>, w_marketMakerId = ei_contextMarketMakerId i,
      w_now = ei_now i, w_usageContext = None, w_paid = False, w_policyContext = None,
      w_rateLimit = ei_rateLimit i, w_marketMakerRegistry = ei_marketMakerRegistry i,
      w_usageHook = ei_usageHook i, w_policyHook = ei_policyHook i, w_consume = ei_consume i,
      w_requireReplayProtection = False\<rparr>"

definition enforcement_code :: "ConsumptionDecision \<Rightarrow> string" where
  "enforcement_code d =
     (if x_allowed d then ''OK''
      else if x_reasonCode d = CAPABILITY_REVOKED then ''REVOKED''
      else if x_reasonCode d = CAPABILITY_REPLAYED then ''REPLAY''
      else mapReasonCode (x_reasonCode d))"

definition enforcement_result :: "EnforceCapabilityInput \<Rightarrow> ConsumptionDecision \<Rightarrow> EnforceCapabilityDecision" where
  "enforcement_result i d =
     \<lparr>en_allowed = x_allowed d, en_reasonCode = x_reasonCode d, en_code = enforcement_code d,
      en_reason = x_reason d,
      en_metadata = Some ((x_metadata d)(''legacyBridgeAction'' \<mapsto> JStr (enforced_action i),
        ''replayChecked'' \<mapsto> JBool (x_replayChecked d), ''revocationChecked'' \<mapsto> JBool (x_revocationChecked d),
        ''consumed'' \<mapsto> JBool (x_consumed d)))\<rparr>"

text \<open>\<open>const [type, ref, ...rest] = required_scope.split(':')\<close>, with neither part empty.\<close>

definition type_and_ref :: "string \<Rightarrow> (string \<times> string) option" where
  "type_and_ref s =
     (case split_on CHR '':'' s of
        [ty, rf] \<Rightarrow> if ty = [] \<or> rf = [] then None else Some (ty, rf)
      | _ \<Rightarrow> None)"

definition enforceCapability ::
  "host_env \<Rightarrow> ('n, 'r, 'u, 'l) consume_ops \<Rightarrow> EnforceCapabilityInput \<Rightarrow> int \<Rightarrow> ('n, 'r, 'u, 'l) consume_state \<Rightarrow>
   (EnforceCapabilityDecision \<times> ('n, 'r, 'u, 'l) consume_state) throws" where
  "enforceCapability env ops i clock st =
     (case type_and_ref (ei_required_scope i) of
        None \<Rightarrow> Inr (enforce_deny ''INVALID_SCOPE'' ''required_scope must be a \"type:ref\" string.'', st)
      | Some (ty, rf) \<Rightarrow>
          bind_throws (consumeCapabilityAccess env ops (buildLegacyAccessRequest i ty rf) clock st)
            (\<lambda>(d, st'). Inr (enforcement_result i d, st')))"

subsection \<open>What the bridge allows\<close>

lemma type_and_ref_prefix:
  assumes "CHR '':'' \<notin> set t" "type_and_ref (t @ CHR '':'' # c) = Some (ty, rf)"
  shows "ty = t \<and> rf = c"
proof -
  have "split_on CHR '':'' c = [rf]" "ty = t"
    using assms by (auto simp: type_and_ref_def split_on_prefix split: list.splits if_splits)
  then show ?thesis using join_split [of "CHR '':''" c] by simp
qed

lemma type_and_ref_append:
  "\<lbrakk>ty \<noteq> []; rf \<noteq> []; CHR '':'' \<notin> set ty; CHR '':'' \<notin> set rf\<rbrakk> \<Longrightarrow> type_and_ref (ty @ CHR '':'' # rf) = Some (ty, rf)"
  by (simp add: type_and_ref_def split_on_prefix split_on_single)

lemma enforcement_code_OK: "enforcement_code d = ''OK'' \<longleftrightarrow> x_allowed d \<or> x_reasonCode d = AccessCode ACCESS_ALLOWED"
  by (cases "x_reasonCode d" rule: mapReasonCode.cases) (auto simp: enforcement_code_def)

lemma enforceCapability_allowed:
  assumes "enforceCapability env ops i clock st = Inr (d, st')" "en_allowed d"
  shows "\<exists>ty rf x. type_and_ref (ei_required_scope i) = Some (ty, rf) \<and>
    consumeCapabilityAccess env ops (buildLegacyAccessRequest i ty rf) clock st = Inr (x, st') \<and> x_allowed x"
  using assms by (auto simp: enforceCapability_def enforce_deny_def enforcement_result_def split: option.splits)

text \<open>What an allowed presentation says about the token.\<close>

lemma consumable_within:
  assumes "consumable env ops q cap a r now clock st"
  shows "trim a \<in> set (t_permissions cap)" "scopeKey r \<in> scopeKey ` set (t_scope cap)"
    "validateCapabilityToken (e_sha env) (e_cmp env) (as_token cap) None = None"
    "t_marketMakerId cap = Some m \<Longrightarrow> w_marketMakerId q = Some m \<and> w_marketMakerRegistry q \<noteq> None"
proof -
  obtain at n where n: "normalizeCapabilityAccessRequest env (buildEvaluationRequest q cap a r (iso_seconds now)) at = Inr n"
    "request_authorized env (buildEvaluationRequest q cap a r (iso_seconds now)) n"
    using assms unfolding consumable_def evaluate_allowed by blast
  from n(1) have m: "normalizeCapability env (Some cap) = Inr (r_capability n)" "r_action n = trim a" "r_resource n = r"
    "r_marketMakerId n = w_marketMakerId q"
    by (auto simp: normalizeCapabilityAccessRequest_def buildEvaluationRequest_def normalizeResource_def)
  note c = normalizeCapability_Inr [OF m(1)]
  have reg: "q_marketMakerRegistry (buildEvaluationRequest q cap a r (iso_seconds now)) = w_marketMakerRegistry q"
    by (simp add: buildEvaluationRequest_def)
  show "trim a \<in> set (t_permissions cap)" "scopeKey r \<in> scopeKey ` set (t_scope cap)"
    "validateCapabilityToken (e_sha env) (e_cmp env) (as_token cap) None = None"
    using n(2) c m by (simp_all add: request_authorized_def)
  show "t_marketMakerId cap = Some m \<Longrightarrow> w_marketMakerId q = Some m \<and> w_marketMakerRegistry q \<noteq> None"
    using n(2) c m by (auto simp: request_authorized_def market_maker_ok_def reg)
qed

lemma enforcement_request [simp]:
  "w_capability (buildLegacyAccessRequest i ty rf) = Some (ei_token i)"
  "w_consent (buildLegacyAccessRequest i ty rf) = ei_consent i"
  "w_consume (buildLegacyAccessRequest i ty rf) = ei_consume i"
  "w_rateLimit (buildLegacyAccessRequest i ty rf) = ei_rateLimit i"
  "w_marketMakerId (buildLegacyAccessRequest i ty rf) = ei_contextMarketMakerId i"
  "w_marketMakerRegistry (buildLegacyAccessRequest i ty rf) = ei_marketMakerRegistry i"
  by (simp_all add: buildLegacyAccessRequest_def)

text \<open>The bridge allows what the presentation allows, and a refusal leaves the registries alone.\<close>

lemma enforceCapability_cases:
  assumes "enforceCapability env ops i clock st = Inr (d, st')"
  obtains now ty rf a r where "en_allowed d" "type_and_ref (ei_required_scope i) = Some (ty, rf)"
      "consume_normalizeAction (enforced_action i) = Inr a"
      "consume_normalizeResource (ResourceEntry \<lparr>se_type = ty, se_ref = rf\<rparr>) = Inr r"
      "consumable env ops (buildLegacyAccessRequest i ty rf) (ei_token i) a r now clock st"
      "st' = consume_effect ops (buildLegacyAccessRequest i ty rf) (ei_token i) now st"
  | "\<not> en_allowed d" "rate_only st st'"
proof (cases "type_and_ref (ei_required_scope i)")
  case None
  then show ?thesis using assms by (intro that(2)) (auto simp: enforceCapability_def enforce_deny_def)
next
  case (Some p)
  then obtain ty rf where s: "type_and_ref (ei_required_scope i) = Some (ty, rf)" by (cases p) auto
  then obtain x where x: "consumeCapabilityAccess env ops (buildLegacyAccessRequest i ty rf) clock st = Inr (x, st')"
    "d = enforcement_result i x"
    using assms by (auto simp: enforceCapability_def)
  from x(1) show ?thesis
  proof (cases rule: consume_step_cases)
    case (1 now cap a r)
    have "cap = ei_token i" using 1(6) by simp
    moreover have "consume_normalizeAction (enforced_action i) = Inr a"
      "consume_normalizeResource (ResourceEntry \<lparr>se_type = ty, se_ref = rf\<rparr>) = Inr r"
      using 1(2) by (auto simp: consume_prepare_def buildLegacyAccessRequest_def split: option.splits)
    ultimately show ?thesis
      using that(1) [of ty rf a r now] 1 x(2) s by (simp add: enforcement_result_def)
  next
    case 2
    then show ?thesis using that(2) x(2) by (simp add: enforcement_result_def)
  qed
qed

end
