(* ===== verification/Vault.thy ===== *)
theory Vault
  imports Enforcer Sdl Manifests
begin

text \<open>
  \<open>vault/vault.ts\<close>: the in-memory vault.  Its state is the record \<open>vault\<close>: the four maps of the store and
  the states of its two registries; the closures of \<open>createInMemoryVault\<close> are functions from the state to
  the result and the new state.  An operation that throws leaves the state as it was.

  A request reads the system clock once in the model; the paths of a request are judged at that time.
\<close>

subsection \<open>Data\<close>

record VaultError =
  ve_code :: string
  ve_message :: string
  ve_path :: "string option"

record VaultResolvedField =
  vr_sdl_path :: string
  vr_field_id :: string
  vr_content_id :: string

record VaultUnresolvedField =
  vu_sdl_path :: string
  vu_error :: VaultError

record VaultAccessRequest =
  va_capability_token :: RawCapability
  va_sdl_paths :: "string list"
  va_pack_ref :: string

record VaultAccessResult =
  vx_decision :: sem_verdict
  vx_reason_codes :: "string list"
  vx_resolved :: "VaultResolvedField list"
  vx_unresolved :: "VaultUnresolvedField list"

record ('n, 'r) vault =
  v_packs :: "(string \<times> PackManifest) list"
  v_consents :: "(string \<times> ConsentObject) list"
  v_capabilities :: "(string \<times> CapabilityToken) list"
  v_sdl_mappings :: "(string \<times> string) list"
  v_nonce :: 'n
  v_rev :: 'r

definition createInMemoryVault :: "'n \<Rightarrow> 'r \<Rightarrow> ('n, 'r) vault" where
  "createInMemoryVault nonceRegistry revocationRegistry =
     \<lparr>v_packs = [], v_consents = [], v_capabilities = [], v_sdl_mappings = [],
      v_nonce = nonceRegistry, v_rev = revocationRegistry\<rparr>"

definition mapCapabilityDenyCode :: "string \<Rightarrow> string" where
  "mapCapabilityDenyCode code =
     (if code = ''SCOPE_MISMATCH'' \<or> code = ''INVALID_SCOPE'' then ''SCOPE_ESCALATION''
      else if code = ''MALFORMED_CAPABILITY'' then ''INVALID_CAPABILITY''
      else code)"

definition denyAccess :: "string list \<Rightarrow> VaultAccessResult" where
  "denyAccess codes = \<lparr>vx_decision = DENY, vx_reason_codes = codes, vx_resolved = [], vx_unresolved = []\<rparr>"

definition allowAccess :: "VaultResolvedField list \<Rightarrow> VaultUnresolvedField list \<Rightarrow> VaultAccessResult" where
  "allowAccess rs us = \<lparr>vx_decision = ALLOW, vx_reason_codes = [], vx_resolved = rs, vx_unresolved = us\<rparr>"

subsection \<open>The store\<close>

definition storePack :: "host_env \<Rightarrow> PackManifest \<Rightarrow> ('n, 'r) vault \<Rightarrow> (string \<times> ('n, 'r) vault) throws" where
  "storePack env pack v =
     bind_throws
       (hash_payload (e_sha env)
         (canonicalizePackManifestPayload (e_cmp env) (pk_version pack) (pk_subject pack) (pk_created_at pack) (pk_fields pack)))
       (\<lambda>expectedHash.
         and_return (throw_if (pk_hash pack \<noteq> expectedHash) ''Pack pack_hash does not match canonical payload hash.'')
           (pk_hash pack, v\<lparr>v_packs := AList.update (pk_hash pack) pack (v_packs v)\<rparr>))"

text \<open>\<open>capRevokeToken(hash, revocationRegistry)\<close> on the registry of the vault.\<close>

definition vault_revoke :: "('n, 'r) registry_ops \<Rightarrow> string \<Rightarrow> ('n, 'r) vault \<Rightarrow> ('n, 'r) vault throws" where
  "vault_revoke ops h v = and_return (validateCapabilityHash h) (v\<lparr>v_rev := revoke_in ops (v_rev v) h\<rparr>)"

definition revoke_by_consent ::
  "('n, 'r) registry_ops \<Rightarrow> ConsentObject \<Rightarrow> ('n, 'r) vault \<Rightarrow> ('n, 'r) vault throws" where
  "revoke_by_consent ops consent v =
     (case c_revoke_target consent of
        None \<Rightarrow> Inl (''Cannot read properties of undefined (reading '' @ [CHR 0x27] @ ''capability_hash'' @ [CHR 0x27] @ '')'')
      | Some target \<Rightarrow>
          (case map_of (v_capabilities v) target of
             None \<Rightarrow> Inl (''Capability not found: '' @ target)
           | Some targetCapability \<Rightarrow>
               and_then
                 (throw_if
                   (case map_of (v_consents v) (t_consent_ref targetCapability) of
                      None \<Rightarrow> True | Some originalConsent \<Rightarrow> c_subject originalConsent \<noteq> c_subject consent)
                   ''Consent subject must match revoked capability subject.'')
                 (vault_revoke ops target v)))"

definition applyConsent ::
  "host_env \<Rightarrow> ('n, 'r) registry_ops \<Rightarrow> ConsentObject \<Rightarrow> ('n, 'r) vault \<Rightarrow> (string \<times> ('n, 'r) vault) throws" where
  "applyConsent env ops consent v =
     and_then (validateConsentObject (e_sha env) (e_cmp env) consent)
       (bind_throws (if c_action consent = ''revoke'' then revoke_by_consent ops consent v else Inr v) (\<lambda>v'.
          Inr (c_consent_hash consent,
               v'\<lparr>v_consents := AList.update (c_consent_hash consent) consent (v_consents v')\<rparr>)))"

definition storeConsent ::
  "host_env \<Rightarrow> ('n, 'r) registry_ops \<Rightarrow> ConsentObject \<Rightarrow> ('n, 'r) vault \<Rightarrow> (string \<times> ('n, 'r) vault) throws" where
  "storeConsent env ops consent v = applyConsent env ops consent v"

definition vault_mintCapability ::
  "host_env \<Rightarrow> string \<Rightarrow> ScopeEntry list \<Rightarrow> string list \<Rightarrow> string \<Rightarrow> string option \<Rightarrow> js_date \<Rightarrow> string \<Rightarrow>
   ('n, 'r) vault \<Rightarrow> (CapabilityToken \<times> ('n, 'r) vault) throws" where
  "vault_mintCapability env consent_hash scope permissions expires_at not_before now token_id v =
     (case map_of (v_consents v) consent_hash of
        None \<Rightarrow> Inl (''Consent not found: '' @ consent_hash)
      | Some consent \<Rightarrow>
          bind_throws
            (mintCapabilityToken (e_sha env) (e_cmp env) consent scope permissions expires_at not_before None now token_id)
            (\<lambda>token.
              Inr (token, v\<lparr>v_capabilities := AList.update (t_capability_hash token) token (v_capabilities v)\<rparr>)))"

definition registerSdlMapping :: "string \<Rightarrow> string \<Rightarrow> ('n, 'r) vault \<Rightarrow> ('n, 'r) vault throws" where
  "registerSdlMapping path field_id v =
     and_return (validateSdlPath path) (v\<lparr>v_sdl_mappings := AList.update path field_id (v_sdl_mappings v)\<rparr>)"

definition revokeCapability :: "('n, 'r) registry_ops \<Rightarrow> string \<Rightarrow> ('n, 'r) vault \<Rightarrow> ('n, 'r) vault throws" where
  "revokeCapability ops h v = vault_revoke ops h v"

subsection \<open>Access\<close>

text \<open>The vault hands its two registries to the enforcement, and no rate limiter or usage registry.\<close>

definition vault_ops :: "('n, 'r) registry_ops \<Rightarrow> ('n, 'r, unit, unit) consume_ops" where
  "vault_ops ops =
     \<lparr>co_reg = ops, co_usage_record = (\<lambda>u ref res at. Inl []), co_rate_get = (\<lambda>l k. None),
      co_rate_increment = (\<lambda>l k now c. (\<lparr>rs_key = k, rs_count = 0, rs_windowStartedAt = []\<rparr>, l)),
      co_rate_isLimited = (\<lambda>l k now c. False)\<rparr>"

definition vault_registries :: "('n, 'r) vault \<Rightarrow> ('n, 'r, unit, unit) consume_state" where
  "vault_registries v =
     \<lparr>cs_nonce = Some (v_nonce v), cs_rev = \<lparr>supplied = Some (v_rev v), module_default = v_rev v\<rparr>,
      cs_usage = None, cs_rate = ()\<rparr>"

text \<open>\<open>fieldByFieldId\<close>: a later field of the pack replaces an earlier one of the same identifier.\<close>

definition field_index :: "FieldReference list \<Rightarrow> (string \<times> FieldReference) list" where
  "field_index flds = fold (\<lambda>f. AList.update (fr_field_id f) f) flds []"

definition unresolved_field :: "string \<Rightarrow> string \<Rightarrow> string \<Rightarrow> VaultUnresolvedField" where
  "unresolved_field path code msg =
     \<lparr>vu_sdl_path = path, vu_error = \<lparr>ve_code = code, ve_message = msg, ve_path = Some path\<rparr>\<rparr>"

definition locate_field ::
  "(string \<times> string) list \<Rightarrow> (string \<times> FieldReference) list \<Rightarrow> string \<Rightarrow> string \<Rightarrow>
   VaultUnresolvedField + FieldReference" where
  "locate_field mappings index pack_ref path =
     (case validateSdlPath path of
        Some msg \<Rightarrow> Inl (unresolved_field path ''INVALID_SDL_PATH'' msg)
      | None \<Rightarrow>
          (case map_of mappings path of
             None \<Rightarrow> Inl (unresolved_field path ''UNRESOLVED_FIELD'' (''No mapping found for SDL path: '' @ path))
           | Some field_id \<Rightarrow>
               if field_id = []
               then Inl (unresolved_field path ''UNRESOLVED_FIELD'' (''No mapping found for SDL path: '' @ path))
               else
                 (case map_of index field_id of
                    None \<Rightarrow>
                      Inl (unresolved_field path ''UNRESOLVED_FIELD''
                             (''Field \"'' @ field_id @ ''\" not present in pack '' @ pack_ref))
                  | Some fieldRef \<Rightarrow> Inr fieldRef)))"

definition vault_enforcement ::
  "VaultAccessRequest \<Rightarrow> ConsentObject \<Rightarrow> now_arg \<Rightarrow> string \<Rightarrow> bool \<Rightarrow> EnforceCapabilityInput" where
  "vault_enforcement req consent now required_scope consume =
     \<lparr>ei_required_scope = required_scope, ei_token = va_capability_token req, ei_consent = Some consent, ei_now = now,
      ei_contextMarketMakerId = None, ei_rateLimit = None, ei_consume = consume, ei_action = None,
      ei_usageHook = None, ei_policyHook = None, ei_marketMakerRegistry = None\<rparr>"

text \<open>The content is asked for first; the pack, when only the scope stands against it.\<close>

definition enforce_field ::
  "host_env \<Rightarrow> ('n, 'r) registry_ops \<Rightarrow> VaultAccessRequest \<Rightarrow> ConsentObject \<Rightarrow> now_arg \<Rightarrow> int \<Rightarrow> FieldReference \<Rightarrow>
   bool \<Rightarrow> ('n, 'r, unit, unit) consume_state \<Rightarrow>
   (EnforceCapabilityDecision \<times> ('n, 'r, unit, unit) consume_state) throws" where
  "enforce_field env ops req consent now clock fieldRef tokenConsumed st =
     bind_throws
       (enforceCapability env (vault_ops ops)
         (vault_enforcement req consent now (''content:'' @ fr_content_id fieldRef) (\<not> tokenConsumed)) clock st)
       (\<lambda>(d, st').
         if en_allowed d \<or> en_code d \<noteq> ''SCOPE_MISMATCH'' then Inr (d, st')
         else enforceCapability env (vault_ops ops)
                (vault_enforcement req consent now (''pack:'' @ va_pack_ref req) (\<not> tokenConsumed)) clock st')"

fun resolve_paths ::
  "host_env \<Rightarrow> ('n, 'r) registry_ops \<Rightarrow> VaultAccessRequest \<Rightarrow> ConsentObject \<Rightarrow> now_arg \<Rightarrow> int \<Rightarrow>
   (string \<Rightarrow> VaultUnresolvedField + FieldReference) \<Rightarrow> string list \<Rightarrow> bool \<Rightarrow> ('n, 'r, unit, unit) consume_state \<Rightarrow>
   VaultResolvedField list \<Rightarrow> VaultUnresolvedField list \<Rightarrow>
   (VaultAccessResult \<times> ('n, 'r, unit, unit) consume_state) throws" where
  "resolve_paths env ops req consent now clock locate [] tokenConsumed st resolved unresolved =
     Inr (allowAccess resolved unresolved, st)"
| "resolve_paths env ops req consent now clock locate (p # ps) tokenConsumed st resolved unresolved =
     (case locate p of
        Inl u \<Rightarrow> resolve_paths env ops req consent now clock locate ps tokenConsumed st resolved (unresolved @ [u])
      | Inr fieldRef \<Rightarrow>
          bind_throws (enforce_field env ops req consent now clock fieldRef tokenConsumed st) (\<lambda>(d, st').
            if \<not> en_allowed d then Inr (denyAccess [mapCapabilityDenyCode (en_code d)], st')
            else resolve_paths env ops req consent now clock locate ps True st'
                   (resolved @ [\<lparr>vr_sdl_path = p, vr_field_id = fr_field_id fieldRef,
                                 vr_content_id = fr_content_id fieldRef\<rparr>]) unresolved))"

definition keep_registries :: "('n, 'r, unit, unit) consume_state \<Rightarrow> ('n, 'r) vault \<Rightarrow> ('n, 'r) vault" where
  "keep_registries st v =
     v\<lparr>v_nonce := (case cs_nonce st of Some n \<Rightarrow> n | None \<Rightarrow> v_nonce v), v_rev := in_use (cs_rev st)\<rparr>"

definition requestAccess ::
  "host_env \<Rightarrow> ('n, 'r) registry_ops \<Rightarrow> VaultAccessRequest \<Rightarrow> now_arg \<Rightarrow> int \<Rightarrow> ('n, 'r) vault \<Rightarrow>
   (VaultAccessResult \<times> ('n, 'r) vault) throws" where
  "requestAccess env ops req now clock v =
     (let consent = map_of (v_consents v) (t_consent_ref (va_capability_token req));
          consentDecision = enforceConsentPresent consent;
          pack = map_of (v_packs v) (va_pack_ref req);
          packDecision = enforcePackPresent (pack \<noteq> None) (va_pack_ref req)
      in if sem_decision consentDecision = DENY then Inr (denyAccess (sem_reason_codes consentDecision), v)
         else if sem_decision packDecision = DENY then Inr (denyAccess (sem_reason_codes packDecision), v)
         else
           bind_throws
             (resolve_paths env ops req (the consent) now clock
               (locate_field (v_sdl_mappings v) (field_index (pk_fields (the pack))) (va_pack_ref req))
               (sort (va_sdl_paths req)) False (vault_registries v) [] [])
             (\<lambda>(res, st). Inr (res, keep_registries st v)))"

subsection \<open>What an access lets through\<close>

lemma rate_only_unit: "rate_only st (st' :: ('n, 'r, 'u, unit) consume_state) \<Longrightarrow> st' = st"
  by (auto simp: rate_only_def)

definition covers :: "RawCapability \<Rightarrow> string \<Rightarrow> string \<Rightarrow> bool" where
  "covers cap pack_ref content_id \<longleftrightarrow>
     ''content:'' @ trim content_id \<in> scopeKey ` set (t_scope cap) \<or>
     ''pack:'' @ trim pack_ref \<in> scopeKey ` set (t_scope cap)"

lemma resource_key:
  "consume_normalizeResource (ResourceEntry \<lparr>se_type = ty, se_ref = rf\<rparr>) = Inr r \<Longrightarrow>
     scopeKey r = trim ty @ '':'' @ trim rf"
  by (auto simp: consume_normalizeResource_def raw_resource_def scopeKey_def)

text \<open>One presentation by the vault.\<close>

lemma vault_enforcement_cases:
  assumes "enforceCapability env (vault_ops ops)
      (vault_enforcement req consent now (t @ CHR '':'' # c) consume) clock st = Inr (d, st')"
    "CHR '':'' \<notin> set t" "trim t = t"
  obtains nw where "en_allowed d" "t @ '':'' @ trim c \<in> scopeKey ` set (t_scope (va_capability_token req))"
      "''read'' \<in> set (t_permissions (va_capability_token req))"
      "\<not> revoked_now (vault_ops ops) st (t_capability_hash (va_capability_token req))"
      "\<And>n. cs_nonce st = Some n \<Longrightarrow> consume \<Longrightarrow> \<not> hasSeen ops n (t_token_id (va_capability_token req)) (Some nw)"
      "cs_rev st' = cs_rev st" "\<And>n. cs_nonce st = Some n \<Longrightarrow> cs_nonce st' =
        Some (if consume then tidy_of ops (markSeen ops n (t_token_id (va_capability_token req))
          (t_expires_at (va_capability_token req))) (Some nw) else n)"
      "cs_usage st = None \<Longrightarrow> cs_usage st' = None"
      "validateCapabilityToken (e_sha env) (e_cmp env) (as_token (va_capability_token req)) None = None"
      "t_marketMakerId (va_capability_token req) = None" "bound_to (va_capability_token req) consent"
  | "\<not> en_allowed d" "st' = st"
  using assms(1)
proof (cases rule: enforceCapability_cases)
  case (1 nw ty rf a r)
  let ?i = "vault_enforcement req consent now (t @ CHR '':'' # c) consume"
  let ?q = "buildLegacyAccessRequest ?i ty rf"
  have i: "ei_token ?i = va_capability_token req" "ei_consent ?i = Some consent" "ei_consume ?i = consume"
    "ei_rateLimit ?i = None" "ei_required_scope ?i = t @ CHR '':'' # c" "enforced_action ?i = ''read''"
    "ei_contextMarketMakerId ?i = None"
    by (simp_all add: vault_enforcement_def enforced_action_def)
  have t: "ty = t" "rf = c" using type_and_ref_prefix [OF assms(2)] 1(2) i by auto
  have "consume_normalizeAction ''read'' = Inr ''read''" by code_simp
  then have a: "a = ''read''" using 1(3) i by simp
  have "trim ''read'' = ''read''" by code_simp
  note within = consumable_within [OF 1(5)]
  have "scopeKey r = t @ '':'' @ trim c" using resource_key [OF 1(4)] t assms(3) by simp
  note ok = 1(5) [unfolded consumable_def]
  show ?thesis
  proof (rule that(1))
    show "en_allowed d" by (rule 1(1))
    show "t @ '':'' @ trim c \<in> scopeKey ` set (t_scope (va_capability_token req))"
      using within(2) \<open>scopeKey r = _\<close> i by simp
    show "''read'' \<in> set (t_permissions (va_capability_token req))"
      using within(1) a i \<open>trim ''read'' = ''read''\<close> by simp
    show "\<not> revoked_now (vault_ops ops) st (t_capability_hash (va_capability_token req))" using ok i by simp
    show "\<And>n. cs_nonce st = Some n \<Longrightarrow> consume \<Longrightarrow> \<not> hasSeen ops n (t_token_id (va_capability_token req)) (Some nw)"
      using ok i by (simp add: replay_ok_def vault_ops_def)
    show "validateCapabilityToken (e_sha env) (e_cmp env) (as_token (va_capability_token req)) None = None"
      using within(3) i by simp
    show "t_marketMakerId (va_capability_token req) = None"
    proof (rule ccontr)
      assume "t_marketMakerId (va_capability_token req) \<noteq> None"
      then obtain m where "t_marketMakerId (ei_token ?i) = Some m" using i by auto
      from within(4) [OF this] i show False by simp
    qed
    show "bound_to (va_capability_token req) consent" using ok i by (simp add: consent_ok_def)
    show "cs_rev st' = cs_rev st" using 1(6) by simp
    show "\<And>n. cs_nonce st = Some n \<Longrightarrow> cs_nonce st' =
        Some (if consume then tidy_of ops (markSeen ops n (t_token_id (va_capability_token req))
          (t_expires_at (va_capability_token req))) (Some nw) else n)"
      using 1(6) i by (simp add: consume_nonce_def vault_ops_def)
    show "cs_usage st = None \<Longrightarrow> cs_usage st' = None"
      using 1(6) by (simp add: consume_effect_def recordUsage_def)
  qed
next
  case 2
  then show ?thesis using that(2) rate_only_unit by blast
qed

text \<open>
  The token is good for the vault: valid, readable, not bound to a market maker, bound to the stored
  consent, and not revoked.
\<close>

definition good_for ::
  "host_env \<Rightarrow> ('n, 'r) registry_ops \<Rightarrow> RawCapability \<Rightarrow> ConsentObject \<Rightarrow> 'r \<Rightarrow> bool" where
  "good_for env ops cap consent rv \<longleftrightarrow>
     validateCapabilityToken (e_sha env) (e_cmp env) (as_token cap) None = None \<and> ''read'' \<in> set (t_permissions cap) \<and>
     t_marketMakerId cap = None \<and> bound_to cap consent \<and> \<not> isRevoked_in ops rv (t_capability_hash cap)"

definition redeems :: "('n, 'r) registry_ops \<Rightarrow> RawCapability \<Rightarrow> 'n \<Rightarrow> 'n \<Rightarrow> bool" where
  "redeems ops cap n n' \<longleftrightarrow>
     (\<exists>nw. \<not> hasSeen ops n (t_token_id cap) (Some nw) \<and>
        n' = tidy_of ops (markSeen ops n (t_token_id cap) (t_expires_at cap)) (Some nw))"

lemma enforce_field_cases:
  assumes "enforce_field env ops req consent now clock f consumed st = Inr (d, st')" "cs_nonce st = Some n"
  obtains "en_allowed d" "covers (va_capability_token req) (va_pack_ref req) (fr_content_id f)"
      "good_for env ops (va_capability_token req) consent (in_use (cs_rev st))" "cs_rev st' = cs_rev st"
      "if consumed then cs_nonce st' = Some n
       else \<exists>n'. cs_nonce st' = Some n' \<and> redeems ops (va_capability_token req) n n'"
  | "\<not> en_allowed d" "st' = st"
proof -
  let ?enf = "\<lambda>t c st. enforceCapability env (vault_ops ops)
      (vault_enforcement req consent now (t @ CHR '':'' # c) (\<not> consumed)) clock st"
  note result = that
  have single: thesis
    if *: "?enf t c st = Inr (d, st')" "CHR '':'' \<notin> set t" "trim t = t"
      "t @ '':'' @ trim c \<in> scopeKey ` set (t_scope (va_capability_token req)) \<Longrightarrow>
        covers (va_capability_token req) (va_pack_ref req) (fr_content_id f)" for t c
  proof (rule vault_enforcement_cases [OF *(1-3)], goal_cases)
    case (1 nw)
    show ?case
    proof (rule result(1))
      have "revoked_now (vault_ops ops) st h = isRevoked_in ops (in_use (cs_rev st)) h" for h
        by (simp add: revoked_now_def vault_ops_def)
      with 1 show "good_for env ops (va_capability_token req) consent (in_use (cs_rev st))"
        by (simp add: good_for_def)
      show "if consumed then cs_nonce st' = Some n
          else \<exists>n'. cs_nonce st' = Some n' \<and> redeems ops (va_capability_token req) n n'"
        using 1(5,7) [OF assms(2)] by (auto simp: redeems_def)
    qed (use 1 *(4) in auto)
  next
    case 2
    then show ?case using result(2) by blast
  qed
  have str: "''content:'' @ x = ''content'' @ CHR '':'' # x" "''pack:'' @ x = ''pack'' @ CHR '':'' # x" for x :: string
    by simp_all
  have c: "CHR '':'' \<notin> set ''content''" "trim ''content'' = ''content''" "CHR '':'' \<notin> set ''pack''" "trim ''pack'' = ''pack''"
    by code_simp+
  obtain d1 st1 where d1: "?enf ''content'' (fr_content_id f) st = Inr (d1, st1)"
    "(if en_allowed d1 \<or> en_code d1 \<noteq> ''SCOPE_MISMATCH'' then Inr (d1, st1) else ?enf ''pack'' (va_pack_ref req) st1) = Inr (d, st')"
    using assms(1) unfolding enforce_field_def str bind_throws_Inr by (auto simp del: append.simps)
  show ?thesis
  proof (cases "en_allowed d1 \<or> en_code d1 \<noteq> ''SCOPE_MISMATCH''")
    case True
    with d1 have "?enf ''content'' (fr_content_id f) st = Inr (d, st')" by simp
    then show ?thesis using single [OF _ c(1,2)] by (simp add: covers_def)
  next
    case False
    have "st1 = st"
      using d1(1) c(1,2) by (cases rule: vault_enforcement_cases) (use False in auto)
    then have "?enf ''pack'' (va_pack_ref req) st = Inr (d, st')" using d1(2) False by simp
    then show ?thesis using single [OF _ c(3,4)] by (simp add: covers_def)
  qed
qed

text \<open>The fields a request hands out.\<close>

definition released ::
  "VaultAccessRequest \<Rightarrow> (string \<Rightarrow> VaultUnresolvedField + FieldReference) \<Rightarrow> VaultResolvedField \<Rightarrow> bool" where
  "released req locate r \<longleftrightarrow>
     (\<exists>f. locate (vr_sdl_path r) = Inr f \<and> vr_field_id r = fr_field_id f \<and> vr_content_id r = fr_content_id f \<and>
        vr_sdl_path r \<in> set (va_sdl_paths req) \<and>
        covers (va_capability_token req) (va_pack_ref req) (fr_content_id f))"

lemma resolve_paths_released:
  assumes "resolve_paths env ops req consent now clock locate ps consumed st rs us = Inr (res, st')"
    "cs_nonce st = Some n" "set ps \<subseteq> set (va_sdl_paths req)" "\<forall>r \<in> set rs. released req locate r"
  shows "\<forall>r \<in> set (vx_resolved res). released req locate r"
  using assms
proof (induction ps arbitrary: consumed st n rs us)
  case Nil
  then show ?case by (auto simp: allowAccess_def)
next
  case (Cons p ps)
  show ?case
  proof (cases "locate p")
    case (Inl u)
    with Cons show ?thesis by simp
  next
    case (Inr f)
    then obtain d st1 where d: "enforce_field env ops req consent now clock f consumed st = Inr (d, st1)"
      "(if \<not> en_allowed d then Inr (denyAccess [mapCapabilityDenyCode (en_code d)], st1)
        else resolve_paths env ops req consent now clock locate ps True st1
          (rs @ [\<lparr>vr_sdl_path = p, vr_field_id = fr_field_id f, vr_content_id = fr_content_id f\<rparr>]) us) = Inr (res, st')"
      using Cons.prems(1) by auto
    from d(1) Cons.prems(2) show ?thesis
    proof (cases rule: enforce_field_cases)
      case 1
      obtain n1 where n1: "cs_nonce st1 = Some n1" using 1(5) by (auto split: if_splits)
      have "released req locate \<lparr>vr_sdl_path = p, vr_field_id = fr_field_id f, vr_content_id = fr_content_id f\<rparr>"
        using Inr 1(2) Cons.prems(3) by (simp add: released_def)
      then have rs: "\<forall>r \<in> set (rs @ [\<lparr>vr_sdl_path = p, vr_field_id = fr_field_id f, vr_content_id = fr_content_id f\<rparr>]).
          released req locate r"
        using Cons.prems(4) by simp
      show ?thesis
        by (rule Cons.IH [OF _ n1 _ rs]) (use d(2) 1(1) Cons.prems(3) in simp_all)
    next
      case 2
      then have "res = denyAccess [mapCapabilityDenyCode (en_code d)]" using d(2) by simp
      then show ?thesis by (simp add: denyAccess_def)
    qed
  qed
qed

text \<open>Once the token is consumed, the rest of the request leaves the registries alone.\<close>

lemma resolve_paths_consumed:
  assumes "resolve_paths env ops req consent now clock locate ps True st rs us = Inr (res, st')" "cs_nonce st = Some n"
  shows "cs_nonce st' = Some n \<and> cs_rev st' = cs_rev st"
  using assms
proof (induction ps arbitrary: st rs us)
  case (Cons p ps)
  show ?case
  proof (cases "locate p")
    case (Inr f)
    then obtain d st1 where d: "enforce_field env ops req consent now clock f True st = Inr (d, st1)"
      "(if \<not> en_allowed d then Inr (denyAccess [mapCapabilityDenyCode (en_code d)], st1)
        else resolve_paths env ops req consent now clock locate ps True st1
          (rs @ [\<lparr>vr_sdl_path = p, vr_field_id = fr_field_id f, vr_content_id = fr_content_id f\<rparr>]) us) = Inr (res, st')"
      using Cons.prems(1) by auto
    from d(1) Cons.prems(2) show ?thesis
    proof (cases rule: enforce_field_cases)
      case 1
      then show ?thesis using Cons.IH d(2) by simp
    qed (use d(2) Cons.prems(2) in auto)
  qed (use Cons in simp)
qed simp

lemma resolve_paths_redeems:
  assumes "resolve_paths env ops req consent now clock locate ps False st [] us = Inr (res, st')" "cs_nonce st = Some n"
  shows "cs_rev st' = cs_rev st \<and>
    (cs_nonce st' = Some n \<and> vx_resolved res = [] \<or>
     (\<exists>n'. cs_nonce st' = Some n' \<and> redeems ops (va_capability_token req) n n') \<and>
     good_for env ops (va_capability_token req) consent (in_use (cs_rev st)))"
  using assms
proof (induction ps arbitrary: us)
  case Nil
  then show ?case by (auto simp: allowAccess_def)
next
  case (Cons p ps)
  show ?case
  proof (cases "locate p")
    case (Inr f)
    then obtain d st1 where d: "enforce_field env ops req consent now clock f False st = Inr (d, st1)"
      "(if \<not> en_allowed d then Inr (denyAccess [mapCapabilityDenyCode (en_code d)], st1)
        else resolve_paths env ops req consent now clock locate ps True st1
          ([] @ [\<lparr>vr_sdl_path = p, vr_field_id = fr_field_id f, vr_content_id = fr_content_id f\<rparr>]) us) = Inr (res, st')"
      using Cons.prems(1) by auto
    from d(1) Cons.prems(2) show ?thesis
    proof (cases rule: enforce_field_cases)
      case 1
      then obtain n' where n': "cs_nonce st1 = Some n'" "redeems ops (va_capability_token req) n n'" by auto
      have "cs_nonce st' = Some n' \<and> cs_rev st' = cs_rev st1"
        using d(2) 1(1) by (intro resolve_paths_consumed [OF _ n'(1)]) simp
      then show ?thesis using n' 1 by auto
    next
      case 2
      then show ?thesis using d(2) Cons.prems(2) by (auto simp: denyAccess_def)
    qed
  qed (use Cons in simp)
qed

lemma keep_vault_registries: "keep_registries (vault_registries v) v = v"
  by (simp add: keep_registries_def vault_registries_def in_use_def)

lemma requestAccess_cases:
  assumes "requestAccess env ops req now clock v = Inr (res, v')"
  obtains (idle) "v' = v" "vx_resolved res = []"
  | (redeemed) consent pack where
      "map_of (v_consents v) (t_consent_ref (va_capability_token req)) = Some consent"
      "map_of (v_packs v) (va_pack_ref req) = Some pack"
      "redeems ops (va_capability_token req) (v_nonce v) (v_nonce v')"
      "good_for env ops (va_capability_token req) consent (v_rev v)"
      "v' = v\<lparr>v_nonce := v_nonce v'\<rparr>"
      "\<forall>r \<in> set (vx_resolved res). released req
        (locate_field (v_sdl_mappings v) (field_index (pk_fields pack)) (va_pack_ref req)) r"
proof (cases "map_of (v_consents v) (t_consent_ref (va_capability_token req)) = None \<or>
    map_of (v_packs v) (va_pack_ref req) = None")
  case True
  then have "v' = v \<and> vx_resolved res = []"
    using assms by (auto simp: requestAccess_def Let_def enforceConsentPresent_def enforcePackPresent_def denyAccess_def
        split: if_splits)
  then show ?thesis using idle by blast
next
  case False
  then obtain consent pack where
    f: "map_of (v_consents v) (t_consent_ref (va_capability_token req)) = Some consent"
      "map_of (v_packs v) (va_pack_ref req) = Some pack" by auto
  let ?loc = "locate_field (v_sdl_mappings v) (field_index (pk_fields pack)) (va_pack_ref req)"
  obtain st where r: "resolve_paths env ops req consent now clock ?loc (sort (va_sdl_paths req)) False
      (vault_registries v) [] [] = Inr (res, st)" "v' = keep_registries st v"
    using assms f by (auto simp: requestAccess_def Let_def enforceConsentPresent_def enforcePackPresent_def)
  have n: "cs_nonce (vault_registries v) = Some (v_nonce v)" "in_use (cs_rev (vault_registries v)) = v_rev v"
    by (simp_all add: vault_registries_def in_use_def)
  note res = resolve_paths_redeems [OF r(1) n(1)]
  have rv: "in_use (cs_rev st) = v_rev v" using res n(2) by simp
  have rel: "\<forall>r \<in> set (vx_resolved res). released req ?loc r"
    by (rule resolve_paths_released [OF r(1) n(1)]) simp_all
  show ?thesis
  proof (cases "cs_nonce st = Some (v_nonce v) \<and> vx_resolved res = []")
    case True
    then show ?thesis using r(2) rv by (intro idle) (simp_all add: keep_registries_def)
  next
    case False
    then obtain n' where "cs_nonce st = Some n'" "redeems ops (va_capability_token req) (v_nonce v) n'"
      "good_for env ops (va_capability_token req) consent (v_rev v)"
      using res n(2) by auto
    then show ?thesis using f r(2) rv rel by (intro redeemed [of consent pack]) (simp_all add: keep_registries_def)
  qed
qed

subsection \<open>Sequences of calls\<close>

datatype vault_call =
    StorePack PackManifest
  | ApplyConsent ConsentObject
  | MintCapability string "ScopeEntry list" "string list" string "string option" js_date string
  | RegisterSdlMapping string string
  | RevokeCapability string
  | RequestAccess VaultAccessRequest now_arg int

datatype vault_answer =
    Hash string | Token CapabilityToken | Done | Access VaultAccessResult | Thrown string

definition answers :: "('a \<Rightarrow> vault_answer) \<Rightarrow> ('a \<times> ('n, 'r) vault) throws \<Rightarrow> ('n, 'r) vault \<Rightarrow> vault_answer \<times> ('n, 'r) vault" where
  "answers f r v = (case r of Inl msg \<Rightarrow> (Thrown msg, v) | Inr (x, v') \<Rightarrow> (f x, v'))"

definition no_value :: "'a throws \<Rightarrow> (unit \<times> 'a) throws" where
  "no_value r = bind_throws r (\<lambda>v. Inr ((), v))"

fun serve :: "host_env \<Rightarrow> ('n, 'r) registry_ops \<Rightarrow> vault_call \<Rightarrow> ('n, 'r) vault \<Rightarrow> vault_answer \<times> ('n, 'r) vault" where
  "serve env ops (StorePack m) v = answers Hash (storePack env m v) v"
| "serve env ops (ApplyConsent c) v = answers Hash (applyConsent env ops c v) v"
| "serve env ops (MintCapability h es ps e n now tid) v =
     answers Token (vault_mintCapability env h es ps e n now tid v) v"
| "serve env ops (RegisterSdlMapping p f) v = answers (\<lambda>u. Done) (no_value (registerSdlMapping p f v)) v"
| "serve env ops (RevokeCapability h) v = answers (\<lambda>u. Done) (no_value (revokeCapability ops h v)) v"
| "serve env ops (RequestAccess q now clock) v = answers Access (requestAccess env ops q now clock v) v"

fun vault_run ::
  "host_env \<Rightarrow> ('n, 'r) registry_ops \<Rightarrow> vault_call list \<Rightarrow> ('n, 'r) vault \<Rightarrow>
   (vault_call \<times> vault_answer) list \<times> ('n, 'r) vault" where
  "vault_run env ops [] v = ([], v)"
| "vault_run env ops (c # cs) v =
     (case serve env ops c v of (a, v1) \<Rightarrow>
        case vault_run env ops cs v1 of (tr, v2) \<Rightarrow> ((c, a) # tr, v2))"

subsection \<open>The invariant of the store\<close>

definition sealed_pack :: "host_env \<Rightarrow> PackManifest \<Rightarrow> bool" where
  "sealed_pack env m \<longleftrightarrow>
     hash_payload (e_sha env) (canonicalizePackManifestPayload (e_cmp env) (pk_version m) (pk_subject m)
       (pk_created_at m) (pk_fields m)) = Inr (pk_hash m)"

definition minted_from :: "host_env \<Rightarrow> CapabilityToken \<Rightarrow> ConsentObject \<Rightarrow> bool" where
  "minted_from env t c \<longleftrightarrow> valid_token t \<and> derived_from t c \<and>
     computeCapabilityHash (e_sha env) (e_cmp env) t = Inr (t_capability_hash t)"

text \<open>
  Every entry is stored under its own hash; packs are sealed by it, consents validate, tokens are minted from
  a consent that validates and whose hash is stored, and the mapped paths parse.
\<close>

definition vault_inv :: "host_env \<Rightarrow> ('n, 'r) vault \<Rightarrow> bool" where
  "vault_inv env v \<longleftrightarrow>
     (\<forall>h m. map_of (v_packs v) h = Some m \<longrightarrow> pk_hash m = h \<and> sealed_pack env m) \<and>
     (\<forall>h c. map_of (v_consents v) h = Some c \<longrightarrow>
        c_consent_hash c = h \<and> validateConsentObject (e_sha env) (e_cmp env) c = None) \<and>
     (\<forall>h t. map_of (v_capabilities v) h = Some t \<longrightarrow> t_capability_hash t = h \<and>
        map_of (v_consents v) (t_consent_ref t) \<noteq> None \<and>
        (\<exists>c. validateConsentObject (e_sha env) (e_cmp env) c = None \<and> minted_from env t c)) \<and>
     (\<forall>p f. map_of (v_sdl_mappings v) p = Some f \<longrightarrow> (\<exists>q. parseSDLPath p = Inr q))"

lemma vault_inv_create: "vault_inv env (createInMemoryVault n r)"
  by (simp add: vault_inv_def createInMemoryVault_def)

lemma vault_inv_registries: "vault_inv env (v\<lparr>v_nonce := n, v_rev := r\<rparr>) = vault_inv env v"
  by (simp add: vault_inv_def)

lemma revoke_by_consent_frame:
  "revoke_by_consent ops c v = Inr v' \<Longrightarrow> \<exists>r. v' = v\<lparr>v_rev := r\<rparr>"
  by (auto simp: revoke_by_consent_def vault_revoke_def split: option.splits)

lemma storePack_inv: "storePack env m v = Inr (h, v') \<Longrightarrow> vault_inv env v \<Longrightarrow> vault_inv env v'"
  by (auto simp: storePack_def vault_inv_def sealed_pack_def update_conv' split: if_splits)

lemma applyConsent_inv:
  assumes "applyConsent env ops c v = Inr (h, v')" "vault_inv env v"
  shows "vault_inv env v'"
proof -
  obtain r where r: "validateConsentObject (e_sha env) (e_cmp env) c = None"
    "v' = v\<lparr>v_rev := r, v_consents := AList.update (c_consent_hash c) c (v_consents v)\<rparr>"
  proof (cases "c_action c = ''revoke''")
    case True
    then obtain v1 where "revoke_by_consent ops c v = Inr v1" "validateConsentObject (e_sha env) (e_cmp env) c = None"
      "v' = v1\<lparr>v_consents := AList.update (c_consent_hash c) c (v_consents v1)\<rparr>"
      using assms(1) by (auto simp: applyConsent_def)
    then show ?thesis using that revoke_by_consent_frame by fastforce
  next
    case False
    then show ?thesis using assms(1) that [of "v_rev v"] by (auto simp: applyConsent_def)
  qed
  then show ?thesis using assms(2) by (auto simp: vault_inv_def update_conv' split: if_splits)
qed

lemma vault_mint_inv:
  assumes "vault_mintCapability env h es ps e n now tid v = Inr (t, v')" "vault_inv env v"
  shows "vault_inv env v'"
proof -
  obtain c where c: "map_of (v_consents v) h = Some c"
    "mintCapabilityToken (e_sha env) (e_cmp env) c es ps e n None now tid = Inr t"
    "v' = v\<lparr>v_capabilities := AList.update (t_capability_hash t) t (v_capabilities v)\<rparr>"
    using assms(1) by (auto simp: vault_mintCapability_def split: option.splits)
  have "c_consent_hash c = h" "validateConsentObject (e_sha env) (e_cmp env) c = None"
    using c(1) assms(2) by (auto simp: vault_inv_def)
  moreover have m: "minted_from env t c"
    using c(2) by (auto simp: mintCapabilityToken_Inr minted_from_def)
  moreover have "t_consent_ref t = c_consent_hash c" using m by (simp add: minted_from_def derived_from_def)
  ultimately have "map_of (v_consents v) (t_consent_ref t) \<noteq> None"
    "\<exists>c. validateConsentObject (e_sha env) (e_cmp env) c = None \<and> minted_from env t c"
    using c(1) by auto
  then show ?thesis
    using assms(2) unfolding vault_inv_def c(3) by (simp add: update_conv')
qed

lemma vault_register_inv: "registerSdlMapping p f v = Inr v' \<Longrightarrow> vault_inv env v \<Longrightarrow> vault_inv env v'"
  by (auto simp: registerSdlMapping_def vault_inv_def update_conv' validateSdlPath_parses split: if_splits)

lemma requestAccess_inv:
  assumes "requestAccess env ops q now clock v = Inr (res, v')" "vault_inv env v"
  shows "vault_inv env v'"
  using assms(1)
proof (cases rule: requestAccess_cases)
  case (redeemed consent pack)
  have "vault_inv env (v\<lparr>v_nonce := v_nonce v'\<rparr>)" using assms(2) by (simp add: vault_inv_def)
  with redeemed(5) show ?thesis by simp
qed (use assms(2) in simp)

lemma serve_inv: "vault_inv env v \<Longrightarrow> vault_inv env (snd (serve env ops c v))"
proof (cases c)
  case (RevokeCapability h)
  assume "vault_inv env v"
  then show ?thesis
    by (auto simp: RevokeCapability answers_def no_value_def revokeCapability_def vault_revoke_def vault_inv_def
        split: sum.splits)
qed (auto simp: answers_def no_value_def storePack_inv applyConsent_inv vault_mint_inv vault_register_inv
    requestAccess_inv split: sum.splits)

lemma vault_run_inv: "vault_inv env v \<Longrightarrow> vault_inv env (snd (vault_run env ops cs v))"
proof (induction cs arbitrary: v)
  case (Cons c cs)
  have "vault_inv env (snd (serve env ops c v))" by (rule serve_inv [OF Cons.prems])
  then have "vault_inv env (snd (vault_run env ops cs (snd (serve env ops c v))))" by (rule Cons.IH)
  then show ?case by (simp add: case_prod_unfold)
qed simp

subsection \<open>Tokens over a sequence of calls\<close>

text \<open>The accesses of a trace that handed out a field.\<close>

fun redeemed_tokens :: "(vault_call \<times> vault_answer) list \<Rightarrow> RawCapability list" where
  "redeemed_tokens [] = []"
| "redeemed_tokens ((RequestAccess q now clock, Access res) # tr) =
     (if vx_resolved res = [] then redeemed_tokens tr else va_capability_token q # redeemed_tokens tr)"
| "redeemed_tokens (x # tr) = redeemed_tokens tr"

lemma redeemed_tokens_Cons:
  "redeemed_tokens ((c, a) # tr) =
     (case (c, a) of
        (RequestAccess q now clock, Access res) \<Rightarrow>
          if vx_resolved res = [] then redeemed_tokens tr else va_capability_token q # redeemed_tokens tr
      | _ \<Rightarrow> redeemed_tokens tr)"
  by (cases c; cases a) auto

context lawful_registries
begin

lemma redeems_seen: "redeems ops cap n n' \<Longrightarrow> hasSeen ops n' (t_token_id cap) now"
  by (auto simp: redeems_def tidy_mark_seen)

lemma redeems_keeps: "redeems ops cap n n' \<Longrightarrow> hasSeen ops n t now \<Longrightarrow> hasSeen ops n' t now'"
  by (auto simp: redeems_def tidy_mark_keeps)

lemma redeems_fresh: "redeems ops cap n n' \<Longrightarrow> \<not> hasSeen ops n (t_token_id cap) now"
  using seen_anytime by (auto simp: redeems_def)

text \<open>One call: what it does to the registries, and what it hands out.\<close>

lemma serve_frame:
  assumes "serve env ops c v = (a, v')"
  shows "(v_nonce v' = v_nonce v \<or>
      (\<exists>q now clock res. c = RequestAccess q now clock \<and> a = Access res \<and>
         redeems ops (va_capability_token q) (v_nonce v) (v_nonce v') \<and>
         \<not> isRevoked_in ops (v_rev v) (t_capability_hash (va_capability_token q)))) \<and>
    (isRevoked_in ops (v_rev v) h \<longrightarrow> isRevoked_in ops (v_rev v') h)"
proof (cases c)
  case (StorePack m)
  then show ?thesis using assms by (auto simp: answers_def storePack_def split: sum.splits)
next
  case (ApplyConsent m)
  then show ?thesis using assms
    by (auto simp: answers_def applyConsent_def revoke_by_consent_def vault_revoke_def revo.rev_rvk
        split: sum.splits if_splits option.splits)
next
  case (MintCapability x1 x2 x3 x4 x5 x6 x7)
  then show ?thesis using assms by (auto simp: answers_def vault_mintCapability_def split: sum.splits option.splits)
next
  case (RegisterSdlMapping x1 x2)
  then show ?thesis using assms by (auto simp: answers_def no_value_def registerSdlMapping_def split: sum.splits)
next
  case (RevokeCapability x)
  then show ?thesis using assms
    by (auto simp: answers_def no_value_def revokeCapability_def vault_revoke_def revo.rev_rvk split: sum.splits)
next
  case (RequestAccess q now clock)
  show ?thesis
  proof (cases "requestAccess env ops q now clock v")
    case (Inl m)
    then show ?thesis using assms RequestAccess by (simp add: answers_def)
  next
    case (Inr y)
    obtain res v1 where y: "y = (res, v1)" by (cases y)
    then have e: "requestAccess env ops q now clock v = Inr (res, v1)" "a = Access res" "v1 = v'"
      using Inr assms RequestAccess by (simp_all add: answers_def)
    from e(1) show ?thesis
    proof (cases rule: requestAccess_cases)
      case idle
      then show ?thesis using e by simp
    next
      case (redeemed consent pack)
      have "v_rev v' = v_rev v" using redeemed(5) e(3) by (metis vault.surjective vault.update_convs(5) vault.select_convs(6))
      then show ?thesis using redeemed(3,4) RequestAccess e(2,3) by (auto simp: good_for_def)
    qed
  qed
qed

lemma serve_redeems:
  assumes "serve env ops (RequestAccess q now clock) v = (Access res, v')" "vx_resolved res \<noteq> []"
  shows "redeems ops (va_capability_token q) (v_nonce v) (v_nonce v') \<and>
    \<not> isRevoked_in ops (v_rev v) (t_capability_hash (va_capability_token q))"
proof -
  have "requestAccess env ops q now clock v = Inr (res, v')"
    using assms(1) by (auto simp: answers_def split: sum.splits)
  then show ?thesis
    by (cases rule: requestAccess_cases) (use assms(2) in \<open>auto simp: good_for_def\<close>)
qed

lemma vault_run_spent:
  assumes "vault_run env ops cs v = (tr, v')" "\<And>now. hasSeen ops (v_nonce v) tid now"
  shows "tid \<notin> t_token_id ` set (redeemed_tokens tr)"
  using assms
proof (induction cs arbitrary: v tr)
  case (Cons c cs)
  obtain a v1 tr1 where s: "serve env ops c v = (a, v1)" "vault_run env ops cs v1 = (tr1, v')" "tr = (c, a) # tr1"
    using Cons.prems(1) by (auto split: prod.splits)
  have "hasSeen ops (v_nonce v1) tid now" for now
    using serve_frame [OF s(1)] Cons.prems(2) redeems_keeps by metis
  from Cons.IH [OF s(2) this] have IH: "tid \<notin> t_token_id ` set (redeemed_tokens tr1)" .
  have "t_token_id (va_capability_token q) \<noteq> tid"
    if "c = RequestAccess q n k" "a = Access res" "vx_resolved res \<noteq> []" for q n k res
    using serve_redeems s(1) that redeems_fresh Cons.prems(2) by metis
  then show ?case using IH by (auto simp: s(3) redeemed_tokens_Cons split: vault_call.splits vault_answer.splits)
qed simp

lemma vault_run_redeems_once:
  assumes "vault_run env ops cs v = (tr, v')"
  shows "distinct (map t_token_id (redeemed_tokens tr))"
  using assms
proof (induction cs arbitrary: v tr)
  case (Cons c cs)
  obtain a v1 tr1 where s: "serve env ops c v = (a, v1)" "vault_run env ops cs v1 = (tr1, v')" "tr = (c, a) # tr1"
    using Cons.prems(1) by (auto split: prod.splits)
  note IH = Cons.IH [OF s(2)]
  have *: "t_token_id (va_capability_token q) \<notin> t_token_id ` set (redeemed_tokens tr1)"
    if "c = RequestAccess q n k" "a = Access res" "vx_resolved res \<noteq> []" for q n k res
    using serve_redeems [of env q n k v res v1] s(1) that redeems_seen vault_run_spent [OF s(2)] by metis
  show ?case
  proof (cases "\<exists>q n k res. c = RequestAccess q n k \<and> a = Access res \<and> vx_resolved res \<noteq> []")
    case True
    then obtain q n k res where "c = RequestAccess q n k" "a = Access res" "vx_resolved res \<noteq> []" by blast
    with * [OF this] show ?thesis using IH by (simp add: s(3))
  next
    case False
    then have "redeemed_tokens tr = redeemed_tokens tr1"
      by (auto simp: s(3) redeemed_tokens_Cons split: vault_call.splits vault_answer.splits)
    with IH show ?thesis by simp
  qed
qed simp

lemma vault_run_revoked:
  assumes "vault_run env ops cs v = (tr, v')" "isRevoked_in ops (v_rev v) h"
  shows "h \<notin> t_capability_hash ` set (redeemed_tokens tr) \<and> isRevoked_in ops (v_rev v') h"
  using assms
proof (induction cs arbitrary: v tr)
  case (Cons c cs)
  obtain a v1 tr1 where s: "serve env ops c v = (a, v1)" "vault_run env ops cs v1 = (tr1, v')" "tr = (c, a) # tr1"
    using Cons.prems(1) by (auto split: prod.splits)
  have "isRevoked_in ops (v_rev v1) h" using serve_frame [OF s(1)] Cons.prems(2) by blast
  from Cons.IH [OF s(2) this] have IH: "h \<notin> t_capability_hash ` set (redeemed_tokens tr1) \<and> isRevoked_in ops (v_rev v') h" .
  have "t_capability_hash (va_capability_token q) \<noteq> h"
    if "c = RequestAccess q n k" "a = Access res" "vx_resolved res \<noteq> []" for q n k res
    using serve_redeems [of env q n k v res v1] s(1) that Cons.prems(2) by metis
  then show ?case using IH by (auto simp: s(3) redeemed_tokens_Cons split: vault_call.splits vault_answer.splits)
qed simp

end

end
