(* ===== verification/Interpreter.thy ===== *)
theory Interpreter
  imports Consumption
begin

text \<open>
  The deterministic interpreter: \<open>interpreter/aiInterpreter.ts\<close>, the variant of
  \<open>aoc/capabilities/interpreter/interpretWithCapability.ts\<close> that the SDK flow calls after the consumption, and the
  flow itself, \<open>aoc/sdk/executeCapabilityFlow.ts\<close>.

  The data of a request are JSON values (\<open>js\<close>); an object is the list of its entries.
\<close>

subsection \<open>Serialization\<close>

text \<open>
  \<open>JSON.stringify\<close> gives no text for \<open>undefined\<close>: the empty text as an item of a joined array, the word
  \<open>undefined\<close> in a template literal.
\<close>

definition joined :: "string option \<Rightarrow> string" where
  "joined t = (case t of None \<Rightarrow> [] | Some s \<Rightarrow> s)"

definition template :: "string option \<Rightarrow> string" where
  "template t = (case t of None \<Rightarrow> ''undefined'' | Some s \<Rightarrow> s)"

fun stableSerialize :: "(string \<Rightarrow> string \<Rightarrow> int) \<Rightarrow> js \<Rightarrow> string option" where
  "stableSerialize cmp JUndefined = None"
| "stableSerialize cmp JNull = Some ''null''"
| "stableSerialize cmp (JBool b) = Some (if b then ''true'' else ''false'')"
| "stableSerialize cmp (JNum x) = Some (if isFinite x then num_text x else ''null'')"
| "stableSerialize cmp (JStr s) = Some (json_string s)"
| "stableSerialize cmp (JArr vs) =
     Some (CHR ''['' # join_with CHR '','' (map joined (map (stableSerialize cmp) vs)) @ '']'')"
| "stableSerialize cmp (JObj kvs) =
     Some (CHR ''{'' # join_with CHR '',''
       (map (\<lambda>(k, t). json_string k @ CHR '':'' # template t)
         (sort_by (\<lambda>a b. cmp (fst a) (fst b)) (map (\<lambda>p. (fst p, stableSerialize cmp (snd p))) kvs))) @ ''}'')"

definition DETERMINISTIC_GUARDRAIL :: string where
  "DETERMINISTIC_GUARDRAIL =
     ''You are a deterministic interpreter. Only use provided data. Do not infer beyond given facts.''"

definition runInterpreter :: "(string \<Rightarrow> string \<Rightarrow> int) \<Rightarrow> string \<Rightarrow> js \<Rightarrow> string" where
  "runInterpreter cmp query data =
     (let normalizedQuery = trim query;
          serializedData = stableSerialize cmp data
      in template (stableSerialize cmp
           (JObj [(''instruction'', JStr DETERMINISTIC_GUARDRAIL), (''query'', JStr normalizedQuery), (''facts'', data),
                  (''conclusion'',
                   JStr (''Deterministic interpretation for \"'' @ normalizedQuery @ ''\" based only on provided data: '' @
                         template serializedData))])))"

subsection \<open>Finding the data\<close>

definition interpreter_normalizeResource :: "string \<Rightarrow> (string \<times> string) throws" where
  "interpreter_normalizeResource resource =
     (case split_on CHR '':'' (trim resource) of
        [ty, rf] \<Rightarrow>
          if ty = [] \<or> rf = [] then Inl ''Interpreter resource must be a canonical \"type:ref\" string.''
          else Inr (ty, rf)
      | _ \<Rightarrow> Inl ''Interpreter resource must be a canonical \"type:ref\" string.'')"

definition ai_normalizeResource :: "string \<Rightarrow> (string \<times> string) throws" where
  "ai_normalizeResource resource =
     bind_throws (interpreter_normalizeResource resource) (\<lambda>(ty, rf).
       and_return (throw_if (ty \<notin> {''field'', ''content'', ''pack''})
         ''Interpreter resource type must be one of: field, content, pack.'') (ty, rf))"

type_synonym json_record = "(string \<times> js) list"

definition object_entries :: "js option \<Rightarrow> json_record option" where
  "object_entries v = (case v of Some (JObj kvs) \<Rightarrow> Some kvs | _ \<Rightarrow> None)"

definition found_in :: "json_record option \<Rightarrow> string \<Rightarrow> js option" where
  "found_in m key = Option.bind m (\<lambda>kvs. map_of kvs key)"

definition resolveCapabilityData :: "json_record option \<Rightarrow> string \<Rightarrow> js throws" where
  "resolveCapabilityData ctx key =
     (let context = (case ctx of Some c \<Rightarrow> c | None \<Rightarrow> []) in
      case found_in (object_entries (map_of context ''resources'')) key of
        Some v \<Rightarrow> Inr v
      | None \<Rightarrow>
          (case map_of context key of
             Some v \<Rightarrow> Inr v
           | None \<Rightarrow>
               (case found_in (object_entries (map_of context ''hrkeyReference'')) key of
                  Some v \<Rightarrow> Inr v
                | None \<Rightarrow> Inl (''No capability-resolved data found for resource '' @ key @ ''.''))))"

definition data_source :: "json_record option \<Rightarrow> string" where
  "data_source ctx =
     (case Option.bind ctx (\<lambda>c. map_of c ''hrkeyReference'') of
        None \<Rightarrow> ''capability-context'' | Some JUndefined \<Rightarrow> ''capability-context'' | Some v \<Rightarrow> ''hrkey-reference'')"

subsection \<open>Responses\<close>

datatype interpreter_code = ReasonCode consume_code | INTERPRETER_EXECUTION_FAILED

record InterpreterResult =
  ir_interpretation :: string
  ir_resource :: string
  ir_source :: string

record AIInterpreterResponse =
  ar_allowed :: bool
  ar_result :: "InterpreterResult option"
  ar_error :: "(interpreter_code \<times> string) option"
  ar_usageCount :: int
  ar_payment :: "PaymentDecision option"

definition ai_denyResponse ::
  "interpreter_code \<Rightarrow> string \<Rightarrow> int \<Rightarrow> PaymentDecision option \<Rightarrow> AIInterpreterResponse" where
  "ai_denyResponse code msg usageCount payment =
     \<lparr>ar_allowed = False, ar_result = None, ar_error = Some (code, msg), ar_usageCount = usageCount, ar_payment = payment\<rparr>"

definition normalizeUsageCount :: "UsageOutput option \<Rightarrow> int" where
  "normalizeUsageCount u = (case u of None \<Rightarrow> 0 | Some o' \<Rightarrow> uo_usageCount o')"

definition interpreted :: "(string \<Rightarrow> string \<Rightarrow> int) \<Rightarrow> string \<Rightarrow> json_record option \<Rightarrow> string \<Rightarrow> js \<Rightarrow> InterpreterResult" where
  "interpreted cmp query ctx key data =
     \<lparr>ir_interpretation = runInterpreter cmp query data, ir_resource = key, ir_source = data_source ctx\<rparr>"

text \<open>The variant of the SDK: the decision has been made before.\<close>

definition flow_interpretWithCapability ::
  "(string \<Rightarrow> string \<Rightarrow> int) \<Rightarrow> string \<Rightarrow> string \<Rightarrow> json_record option \<Rightarrow> AIInterpreterResponse" where
  "flow_interpretWithCapability cmp resource query ctx =
     (case bind_throws (interpreter_normalizeResource resource) (\<lambda>(ty, rf).
              bind_throws (resolveCapabilityData ctx (ty @ '':'' @ rf)) (\<lambda>data. Inr (ty @ '':'' @ rf, data))) of
        Inl msg \<Rightarrow> ai_denyResponse INTERPRETER_EXECUTION_FAILED msg 0 None
      | Inr (key, data) \<Rightarrow>
          \<lparr>ar_allowed = True, ar_result = Some (interpreted cmp query ctx key data), ar_error = None,
           ar_usageCount = 0, ar_payment = None\<rparr>)"

subsection \<open>\<open>interpretWithCapability\<close>\<close>

record AIInterpreterRequest =
  ai_capability :: RawCapability
  ai_consent :: "ConsentObject option"
  ai_action :: string
  ai_resource :: string
  ai_paid :: bool
  ai_query :: string
  ai_context :: "json_record option"
  ai_now :: "string option"

record InterpreterDependencies =
  dep_marketMakerRegistry :: "mm_view option"
  dep_usageHook :: "access_hook option"
  dep_policyHook :: "access_hook option"

definition text_now :: "string option \<Rightarrow> now_arg" where
  "text_now n = (case n of None \<Rightarrow> NowUndefined | Some s \<Rightarrow> NowText s)"

definition ai_access_request ::
  "AIInterpreterRequest \<Rightarrow> InterpreterDependencies \<Rightarrow> ScopeEntry \<Rightarrow> AccessRequest" where
  "ai_access_request q deps res =
     \<lparr>q_capability = Some (ai_capability q), q_consent = ai_consent q, q_action = ai_action q,
      q_resource = ResourceEntry res, q_marketMakerId = None, q_now = text_now (ai_now q), q_usageContext = None,
      q_policyContext = None, q_metadata = None, q_marketMakerRegistry = dep_marketMakerRegistry deps,
      q_usageHook = dep_usageHook deps, q_policyHook = dep_policyHook deps\<rparr>"

definition ai_consumption_request ::
  "AIInterpreterRequest \<Rightarrow> InterpreterDependencies \<Rightarrow> ScopeEntry \<Rightarrow> ConsumptionRequest" where
  "ai_consumption_request q deps res =
     \<lparr>w_capability = Some (ai_capability q), w_consent = ai_consent q, w_action = ai_action q,
      w_resource = ResourceEntry res, w_marketMakerId = None, w_now = text_now (ai_now q), w_usageContext = None,
      w_paid = ai_paid q, w_policyContext = None, w_rateLimit = None,
      w_marketMakerRegistry = dep_marketMakerRegistry deps, w_usageHook = dep_usageHook deps,
      w_policyHook = dep_policyHook deps, w_consume = False, w_requireReplayProtection = False\<rparr>"

text \<open>The use is recorded at the text of the request, or at the time of the clock.\<close>

definition ai_record ::
  "('n, 'r, 'u, 'l) consume_ops \<Rightarrow> AIInterpreterRequest \<Rightarrow> int \<Rightarrow> 'u option \<Rightarrow>
   (ConsentUsageState option \<times> 'u option) throws" where
  "ai_record ops q clock usage =
     (case usage of
        None \<Rightarrow> Inr (None, None)
      | Some u \<Rightarrow>
          bind_throws
            (co_usage_record ops u (t_consent_ref (ai_capability q)) ''allow''
              (case ai_now q of Some n \<Rightarrow> n | None \<Rightarrow> iso_seconds clock))
            (\<lambda>(s, u'). Inr (Some s, Some u')))"

definition ai_execute ::
  "host_env \<Rightarrow> ('n, 'r, 'u, 'l) consume_ops \<Rightarrow> AIInterpreterRequest \<Rightarrow> string \<Rightarrow> int \<Rightarrow> ConsumptionDecision \<Rightarrow>
   'u option \<Rightarrow> (AIInterpreterResponse \<times> 'u option) throws" where
  "ai_execute env ops q key clock d usage =
     bind_throws (resolveCapabilityData (ai_context q) key) (\<lambda>data.
     bind_throws (ai_record ops q clock usage) (\<lambda>(usageState, usage').
       Inr (\<lparr>ar_allowed = True, ar_result = Some (interpreted (e_cmp env) (ai_query q) (ai_context q) key data),
             ar_error = None,
             ar_usageCount = (case usageState of Some s \<Rightarrow> us_usageCount s | None \<Rightarrow> normalizeUsageCount (x_usage d)),
             ar_payment = x_payment d\<rparr>, usage')))"

text \<open>
  The body of the \<open>try\<close>; the usage registry is not handed to \<open>consumeCapabilityAccess\<close>, and the token is not
  consumed.
\<close>

definition ai_body ::
  "host_env \<Rightarrow> ('n, 'r, 'u, 'l) consume_ops \<Rightarrow> AIInterpreterRequest \<Rightarrow> InterpreterDependencies \<Rightarrow> int \<Rightarrow>
   ('n, 'r, 'u, 'l) consume_state \<Rightarrow> (AIInterpreterResponse \<times> ('n, 'r, 'u, 'l) consume_state) throws" where
  "ai_body env ops q deps clock st =
     bind_throws (ai_normalizeResource (ai_resource q)) (\<lambda>(ty, rf).
       let res = \<lparr>se_type = ty, se_ref = rf\<rparr>;
           access = evaluateCapabilityAccess env (ai_access_request q deps res) clock;
           payment = buildPaymentDecision (ai_consent q) (ai_paid q)
       in if \<not> d_allowed access
          then Inr (ai_denyResponse (ReasonCode (AccessCode (d_reasonCode access))) (d_reason access) 0 None, st)
          else if payment \<noteq> None \<and> pay_required (the payment)
          then Inr (ai_denyResponse (ReasonCode (AccessCode PAYMENT_REQUIRED))
                      ''Payment is required before interpreter execution.'' 0 payment, st)
          else bind_throws (consumeCapabilityAccess env ops (ai_consumption_request q deps res) clock (st\<lparr>cs_usage := None\<rparr>))
                 (\<lambda>(d, st').
                    let st1 = st'\<lparr>cs_usage := cs_usage st\<rparr> in
                    if \<not> x_allowed d
                    then Inr (ai_denyResponse (ReasonCode (x_reasonCode d)) (x_reason d)
                                (normalizeUsageCount (x_usage d)) (x_payment d), st1)
                    else bind_throws (ai_execute env ops q (ty @ '':'' @ rf) clock d (cs_usage st))
                           (\<lambda>(r, usage'). Inr (r, st1\<lparr>cs_usage := usage'\<rparr>))))"

definition interpretWithCapability ::
  "host_env \<Rightarrow> ('n, 'r, 'u, 'l) consume_ops \<Rightarrow> AIInterpreterRequest \<Rightarrow> InterpreterDependencies \<Rightarrow> int \<Rightarrow>
   ('n, 'r, 'u, 'l) consume_state \<Rightarrow> AIInterpreterResponse \<times> ('n, 'r, 'u, 'l) consume_state" where
  "interpretWithCapability env ops q deps clock st =
     (case ai_body env ops q deps clock st of
        Inr r \<Rightarrow> r
      | Inl msg \<Rightarrow>
          (ai_denyResponse (ReasonCode (AccessCode INTERNAL_EVALUATION_ERROR))
             (or_else msg ''Interpreter execution failed.'') 0 None, st))"

subsection \<open>\<open>executeCapabilityFlow\<close>\<close>

record ExecuteCapabilityFlowRequest =
  fl_capability :: RawCapability
  fl_consent :: "ConsentObject option"
  fl_action :: string
  fl_resource :: resource_arg
  fl_marketMakerId :: "string option"
  fl_marketMakerRegistry :: "mm_view option"
  fl_now :: now_arg
  fl_paid :: bool
  fl_rateLimit :: "(js_num \<times> js_num) option"
  fl_usageHook :: "access_hook option"
  fl_policyHook :: "access_hook option"
  fl_interpreter :: "(bool \<times> string \<times> json_record option) option"

record ExecuteCapabilityFlowResponse =
  fx_allowed :: bool
  fx_stage :: string
  fx_evaluation :: CapabilityAccessDecision
  fx_consumption :: "ConsumptionDecision option"
  fx_interpretation :: "AIInterpreterResponse option"
  fx_reasonCode :: interpreter_code
  fx_reason :: string

definition normalizeResourceForInterpreter :: "resource_arg \<Rightarrow> string" where
  "normalizeResourceForInterpreter resource =
     (case resource of
        ResourceText s \<Rightarrow> s
      | ResourceEntry e \<Rightarrow> se_type e @ '':'' @ se_ref e
      | ResourceOther \<Rightarrow> ''undefined:undefined'')"

definition flow_access_request :: "ExecuteCapabilityFlowRequest \<Rightarrow> AccessRequest" where
  "flow_access_request q =
     \<lparr>q_capability = Some (fl_capability q), q_consent = fl_consent q, q_action = fl_action q,
      q_resource = fl_resource q, q_marketMakerId = fl_marketMakerId q, q_now = fl_now q, q_usageContext = None,
      q_policyContext = None, q_metadata = None, q_marketMakerRegistry = fl_marketMakerRegistry q,
      q_usageHook = fl_usageHook q, q_policyHook = fl_policyHook q\<rparr>"

definition flow_consumption_request :: "ExecuteCapabilityFlowRequest \<Rightarrow> ConsumptionRequest" where
  "flow_consumption_request q =
     \<lparr>w_capability = Some (fl_capability q), w_consent = fl_consent q, w_action = fl_action q,
      w_resource = fl_resource q, w_marketMakerId = fl_marketMakerId q, w_now = fl_now q, w_usageContext = None,
      w_paid = fl_paid q, w_policyContext = None, w_rateLimit = fl_rateLimit q,
      w_marketMakerRegistry = fl_marketMakerRegistry q, w_usageHook = fl_usageHook q,
      w_policyHook = fl_policyHook q, w_consume = True, w_requireReplayProtection = False\<rparr>"

definition FLOW_ALLOWED_REASON :: string where
  "FLOW_ALLOWED_REASON = ''Capability flow succeeded after evaluation and runtime consumption.''"

definition flow_stopped ::
  "string \<Rightarrow> CapabilityAccessDecision \<Rightarrow> ConsumptionDecision option \<Rightarrow> interpreter_code \<Rightarrow> string \<Rightarrow>
   ExecuteCapabilityFlowResponse" where
  "flow_stopped stage evaluation consumption code reason =
     \<lparr>fx_allowed = False, fx_stage = stage, fx_evaluation = evaluation, fx_consumption = consumption,
      fx_interpretation = None, fx_reasonCode = code, fx_reason = reason\<rparr>"

definition flow_finish ::
  "host_env \<Rightarrow> ExecuteCapabilityFlowRequest \<Rightarrow> CapabilityAccessDecision \<Rightarrow> ConsumptionDecision \<Rightarrow>
   ExecuteCapabilityFlowResponse" where
  "flow_finish env q evaluation consumption =
     (case fl_interpreter q of
        Some (True, query, ctx) \<Rightarrow>
          (let i = flow_interpretWithCapability (e_cmp env) (normalizeResourceForInterpreter (fl_resource q)) query ctx in
           \<lparr>fx_allowed = ar_allowed i, fx_stage = ''interpretation'', fx_evaluation = evaluation,
            fx_consumption = Some consumption, fx_interpretation = Some i,
            fx_reasonCode = (if ar_allowed i then ReasonCode (AccessCode ACCESS_ALLOWED)
              else case ar_error i of Some (code, msg) \<Rightarrow> code | None \<Rightarrow> INTERPRETER_EXECUTION_FAILED),
            fx_reason = (if ar_allowed i then FLOW_ALLOWED_REASON
              else case ar_error i of Some (code, msg) \<Rightarrow> msg | None \<Rightarrow> ''Interpreter execution failed.'')\<rparr>)
      | _ \<Rightarrow>
          \<lparr>fx_allowed = True, fx_stage = ''consumption'', fx_evaluation = evaluation, fx_consumption = Some consumption,
           fx_interpretation = None, fx_reasonCode = ReasonCode (AccessCode ACCESS_ALLOWED), fx_reason = FLOW_ALLOWED_REASON\<rparr>)"

text \<open>The evaluation and the consumption read the clock one after the other.\<close>

definition executeCapabilityFlow ::
  "host_env \<Rightarrow> ('n, 'r, 'u, 'l) consume_ops \<Rightarrow> ExecuteCapabilityFlowRequest \<Rightarrow> int \<Rightarrow> int \<Rightarrow>
   ('n, 'r, 'u, 'l) consume_state \<Rightarrow>
   (ExecuteCapabilityFlowResponse \<times> ('n, 'r, 'u, 'l) consume_state) throws" where
  "executeCapabilityFlow env ops q clock1 clock2 st =
     (let evaluation = evaluateCapabilityAccess env (flow_access_request q) clock1 in
      if \<not> d_allowed evaluation
      then Inr (flow_stopped ''evaluation'' evaluation None (ReasonCode (AccessCode (d_reasonCode evaluation)))
                  (d_reason evaluation), st)
      else bind_throws (consumeCapabilityAccess env ops (flow_consumption_request q) clock2 st) (\<lambda>(consumption, st').
        if \<not> x_allowed consumption
        then Inr (flow_stopped ''consumption'' evaluation (Some consumption) (ReasonCode (x_reasonCode consumption))
                    (x_reason consumption), st')
        else Inr (flow_finish env q evaluation consumption, st')))"

end
