(* ===== verification/MemoryTaxonomy.thy ===== *)
theory MemoryTaxonomy
  imports JsDate Canonical
begin

text \<open>
  \<open>vault/memoryTaxonomy.ts\<close>: classification of memory by flags and keywords, and the retention, decay,
  compression and audit rules derived from the categories.  A JavaScript \<open>Set\<close> is the list of its
  elements in the order they were added; an absent flag is \<open>False\<close>.
\<close>

datatype MemoryCategory =
    RAW_INTERACTION | OPERATIONAL_SIGNAL | DECISION | APPROVAL | POLICY | IDENTITY | PERMISSION
  | EXECUTIVE_SYNTHESIS | RELATIONSHIP_SIGNAL | RISK_SIGNAL | TRANSIENT_CONTEXT | EMOTIONAL_CONTEXT
  | AI_GENERATED_ARTIFACT | COMPLIANCE_RECORD | AUDIT_EVENT

datatype RetentionClass = EPHEMERAL | STANDARD | GOVERNED | PERMANENT

datatype GovernanceCriticality = LOW | MEDIUM | HIGH | CRITICAL

record MemoryMetadata =
  mem_createdAt :: string
  mem_lastReferencedAt :: string
  mem_confidenceScore :: js_num
  mem_relevanceScore :: js_num
  mem_governanceCriticality :: GovernanceCriticality
  mem_retentionClass :: RetentionClass
  mem_memoryWeight :: js_num
  mem_decayEligible :: bool
  mem_compressible :: bool
  mem_auditRequired :: bool

record ClassifyMemoryInput =
  cm_kind :: "string option"
  cm_source :: "string option"
  cm_tags :: "string list"
  cm_actorType :: "string option"
  cm_approved :: bool
  cm_decisionRecorded :: bool
  cm_policyRelated :: bool
  cm_identityRelated :: bool
  cm_permissionRelated :: bool
  cm_riskRelated :: bool
  cm_complianceRelated :: bool
  cm_auditRelated :: bool
  cm_emotionalSignal :: bool
  cm_relationshipRelated :: bool
  cm_transient :: bool

definition KEYWORD_CATEGORY_MAP :: "(string \<times> MemoryCategory) list" where
  "KEYWORD_CATEGORY_MAP =
     [(''policy'', POLICY), (''approval'', APPROVAL), (''decision'', DECISION), (''identity'', IDENTITY),
      (''permission'', PERMISSION), (''risk'', RISK_SIGNAL), (''compliance'', COMPLIANCE_RECORD), (''audit'', AUDIT_EVENT),
      (''relationship'', RELATIONSHIP_SIGNAL), (''emotion'', EMOTIONAL_CONTEXT), (''synthesis'', EXECUTIVE_SYNTHESIS),
      (''operational'', OPERATIONAL_SIGNAL)]"

definition normalizeSignals :: "ClassifyMemoryInput \<Rightarrow> string list" where
  "normalizeSignals i =
     filter (\<lambda>s. s \<noteq> [])
       (map (\<lambda>s. to_lower (trim s)) (List.map_filter id [cm_kind i, cm_source i] @ cm_tags i))"

definition set_add :: "'a \<Rightarrow> 'a list \<Rightarrow> 'a list" where
  "set_add x xs = (if x \<in> set xs then xs else xs @ [x])"

definition add_if :: "bool \<Rightarrow> 'a \<Rightarrow> 'a list \<Rightarrow> 'a list" where
  "add_if b x xs = (if b then set_add x xs else xs)"

definition signal_categories :: "string \<Rightarrow> MemoryCategory list \<Rightarrow> MemoryCategory list" where
  "signal_categories signal cs =
     add_if (str_includes signal ''transient'' \<or> str_includes signal ''session'') TRANSIENT_CONTEXT
       (add_if (str_includes signal ''runtime'' \<or> str_includes signal ''telemetry'') OPERATIONAL_SIGNAL
         (add_if (str_includes signal ''executive'' \<or> str_includes signal ''summary'') EXECUTIVE_SYNTHESIS
           (fold (\<lambda>(keyword, category). add_if (str_includes signal keyword) category) KEYWORD_CATEGORY_MAP cs)))"

definition flag_categories :: "ClassifyMemoryInput \<Rightarrow> string list \<Rightarrow> MemoryCategory list" where
  "flag_categories i signals =
     fold (\<lambda>(b, c). add_if b c)
       [(cm_actorType i = Some ''ai'' \<or>
           (\<exists>s \<in> set signals. str_includes s ''ai-generated'' \<or> str_includes s ''generated''), AI_GENERATED_ARTIFACT),
        (cm_approved i \<or> (\<exists>s \<in> set signals. str_includes s ''approval'' \<or> str_includes s ''approved''), APPROVAL),
        (cm_decisionRecorded i \<or> (\<exists>s \<in> set signals. str_includes s ''decision''), DECISION),
        (cm_policyRelated i, POLICY), (cm_identityRelated i, IDENTITY), (cm_permissionRelated i, PERMISSION),
        (cm_riskRelated i, RISK_SIGNAL), (cm_complianceRelated i, COMPLIANCE_RECORD), (cm_auditRelated i, AUDIT_EVENT),
        (cm_relationshipRelated i, RELATIONSHIP_SIGNAL), (cm_emotionalSignal i, EMOTIONAL_CONTEXT),
        (cm_transient i, TRANSIENT_CONTEXT)]
       (set_add RAW_INTERACTION [])"

definition classifyMemory :: "ClassifyMemoryInput \<Rightarrow> MemoryCategory list" where
  "classifyMemory i =
     (let signals = normalizeSignals i in fold signal_categories signals (flag_categories i signals))"

definition inferRetentionClass :: "MemoryCategory list \<Rightarrow> RetentionClass" where
  "inferRetentionClass cs =
     (if AUDIT_EVENT \<in> set cs \<or> COMPLIANCE_RECORD \<in> set cs then PERMANENT
      else if POLICY \<in> set cs \<or> DECISION \<in> set cs \<or> APPROVAL \<in> set cs \<or> PERMISSION \<in> set cs then GOVERNED
      else if TRANSIENT_CONTEXT \<in> set cs then EPHEMERAL
      else STANDARD)"

definition inferDecayEligibility :: "MemoryCategory list \<Rightarrow> bool" where
  "inferDecayEligibility cs \<longleftrightarrow>
     \<not> (\<exists>c \<in> set cs. c \<in> {AUDIT_EVENT, COMPLIANCE_RECORD, POLICY, DECISION, APPROVAL})"

definition inferCompressionEligibility :: "MemoryCategory list \<Rightarrow> bool" where
  "inferCompressionEligibility cs \<longleftrightarrow>
     \<not> (\<exists>c \<in> set cs. c \<in> {AUDIT_EVENT, COMPLIANCE_RECORD, IDENTITY, PERMISSION})"

text \<open>\<open>now.toISOString()\<close> throws on an invalid date.\<close>

definition createMemoryMetadata :: "MemoryCategory list \<Rightarrow> js_date \<Rightarrow> MemoryMetadata throws" where
  "createMemoryMetadata cs now =
     bind_throws (toISOString now) (\<lambda>at.
       let retentionClass = inferRetentionClass cs;
           criticality = (if retentionClass = PERMANENT then CRITICAL else if retentionClass = GOVERNED then HIGH else MEDIUM)
       in Inr \<lparr>mem_createdAt = at, mem_lastReferencedAt = at, mem_confidenceScore = Dec 8 (- 1),
               mem_relevanceScore = Dec 7 (- 1), mem_governanceCriticality = criticality,
               mem_retentionClass = retentionClass,
               mem_memoryWeight = (if criticality = CRITICAL then Dec 1 0 else if criticality = HIGH then Dec 9 (- 1) else Dec 6 (- 1)),
               mem_decayEligible = inferDecayEligibility cs, mem_compressible = inferCompressionEligibility cs,
               mem_auditRequired = (AUDIT_EVENT \<in> set cs \<or> COMPLIANCE_RECORD \<in> set cs)\<rparr>)"

subsection \<open>What the classification guarantees\<close>

lemma set_add_if: "set (add_if b x xs) = (if b then insert x (set xs) else set xs)"
  by (auto simp: add_if_def set_add_def)

lemma distinct_add_if: "distinct xs \<Longrightarrow> distinct (add_if b x xs)"
  by (auto simp: add_if_def set_add_def)

lemma set_fold_add_if: "set (fold (\<lambda>x. add_if (P x) (g x)) bs xs) = set xs \<union> g ` {x \<in> set bs. P x}"
  by (induction bs arbitrary: xs) (auto simp: set_add_if split: if_splits)

lemma distinct_fold_add_if: "distinct xs \<Longrightarrow> distinct (fold (\<lambda>x. add_if (P x) (g x)) bs xs)"
  by (induction bs arbitrary: xs) (auto simp: distinct_add_if)

lemma signal_categories_distinct: "distinct cs \<Longrightarrow> distinct (signal_categories s cs)"
  using distinct_fold_add_if [of cs "\<lambda>x. str_includes s (fst x)" snd KEYWORD_CATEGORY_MAP]
  by (simp add: signal_categories_def distinct_add_if case_prod_unfold)

lemma signal_categories_set:
  "set (signal_categories s cs) =
     set cs \<union> snd ` {x \<in> set KEYWORD_CATEGORY_MAP. str_includes s (fst x)} \<union>
     (if str_includes s ''executive'' \<or> str_includes s ''summary'' then {EXECUTIVE_SYNTHESIS} else {}) \<union>
     (if str_includes s ''runtime'' \<or> str_includes s ''telemetry'' then {OPERATIONAL_SIGNAL} else {}) \<union>
     (if str_includes s ''transient'' \<or> str_includes s ''session'' then {TRANSIENT_CONTEXT} else {})"
  unfolding signal_categories_def set_add_if case_prod_unfold set_fold_add_if by auto

lemma signal_categories_keeps: "set cs \<subseteq> set (signal_categories s cs)"
  unfolding signal_categories_set by blast

lemma fold_signals_keeps: "set cs \<subseteq> set (fold signal_categories ss cs)"
proof (induction ss arbitrary: cs)
  case (Cons s ss)
  show ?case using signal_categories_keeps [of cs s] Cons.IH [of "signal_categories s cs"] by simp
qed simp

lemma fold_signals_distinct: "distinct cs \<Longrightarrow> distinct (fold signal_categories ss cs)"
  by (induction ss arbitrary: cs) (simp_all add: signal_categories_distinct)

lemma classifyMemory_distinct: "distinct (classifyMemory i)"
proof -
  have "distinct (flag_categories i ss)" for ss
    unfolding flag_categories_def case_prod_unfold by (intro distinct_fold_add_if) (simp add: set_add_def)
  then show ?thesis by (simp add: classifyMemory_def Let_def fold_signals_distinct)
qed

lemma classifyMemory_flags: "set (flag_categories i (normalizeSignals i)) \<subseteq> set (classifyMemory i)"
  unfolding classifyMemory_def Let_def by (rule fold_signals_keeps)

end
