(* ===== verification/VaultProperties.thy ===== *)
theory VaultProperties
  imports Samples Resolver Vault Interpreter MemoryTaxonomy
begin

text \<open>
  The properties of the vault, of the Sovereign Data Language and of the capability flow, with a
  concrete vault for the witnesses.
\<close>

section \<open>Paths\<close>

text \<open>
  C27: the paths of the Sovereign Data Language are, up to white space around them, the dotted lists of
  at least two lower-case segments; a text parses to the list it is written from, what parses is
  normalized, and the vault accepts exactly the texts that parse.
\<close>

theorem sdl_paths_roundtrip:
  "(parseAndValidateSDLPath input = Inr p \<longleftrightarrow>
      (\<exists>vs. sdl_segments_ok vs \<and> trim input = join_with CHR ''.'' vs \<and> p = sdl_path (trim input) vs)) \<and>
   (validateSdlPath input = None \<longleftrightarrow> (\<exists>p. parseAndValidateSDLPath input = Inr p)) \<and>
   (parseSDLPath (join_with CHR ''.'' vs) = Inr (sdl_path (join_with CHR ''.'' vs) vs) \<longleftrightarrow> sdl_segments_ok vs)"
proof -
  have "sdl_segments_ok vs \<Longrightarrow> parseSDLPath (join_with CHR ''.'' vs) = Inr (sdl_path (join_with CHR ''.'' vs) vs)"
    using trim_join_segments [of vs] by (subst parseSDLPath_Inr) auto
  moreover have "sdl_segments_ok vs" if "parseSDLPath (join_with CHR ''.'' vs) = Inr (sdl_path (join_with CHR ''.'' vs) vs)"
  proof -
    from that obtain ws where "sdl_segments_ok ws" "sdl_path (join_with CHR ''.'' vs) vs = sdl_path (trim (join_with CHR ''.'' vs)) ws"
      by (auto simp: parseSDLPath_Inr)
    then have "map seg_value (number_segments vs) = map seg_value (number_segments ws)" "sdl_segments_ok ws"
      by (simp_all add: sdl_path_def)
    then show ?thesis by simp
  qed
  ultimately show ?thesis
    by (auto simp: parseAndValidateSDLPath_Inr parseSDLPath_Inr validateSdlPath_parses)
qed

section \<open>The vault\<close>

text \<open>
  C28: at every moment of any sequence of calls of the vault, every entry of its store lies under its own
  hash, packs are sealed by it, consents validate, tokens are minted from a valid consent that is
  stored, and the mapped paths parse.
\<close>

theorem vault_invariant:
  "vault_inv env (snd (vault_run env ops calls (createInMemoryVault nonces revocations)))"
  by (rule vault_run_inv [OF vault_inv_create])

text \<open>
  C29: a field handed out by \<open>requestAccess\<close> was asked for by a path that is mapped to it, lies in the pack of the
  request, and is covered by the scope of the token, as content or by its pack; the token is valid,
  readable, bound to the stored consent and to no market maker, not revoked, and its identifier had not been
  seen and is marked afterwards; nothing else of the vault changes.
\<close>

theorem vault_access_safe:
  assumes "requestAccess env ops req now clock v = Inr (res, v')" "r \<in> set (vx_resolved res)"
  shows "\<exists>consent pack. map_of (v_consents v) (t_consent_ref (va_capability_token req)) = Some consent \<and>
    map_of (v_packs v) (va_pack_ref req) = Some pack \<and>
    good_for env ops (va_capability_token req) consent (v_rev v) \<and>
    redeems ops (va_capability_token req) (v_nonce v) (v_nonce v') \<and> v' = v\<lparr>v_nonce := v_nonce v'\<rparr> \<and>
    released req (locate_field (v_sdl_mappings v) (field_index (pk_fields pack)) (va_pack_ref req)) r"
  using assms(1) by (cases rule: requestAccess_cases) (use assms(2) in auto)

text \<open>A vault with one pack, one consent and one mapping, and a request for its only field.\<close>

definition sample_field :: FieldReference where
  "sample_field = \<lparr>fr_field_id = ''name'', fr_content_id = hex_b,
     fr_storage = \<lparr>ptr_uri = ''aoc://storage/local/0x'' @ hex_b, ptr_backend = ''local'', ptr_hash = hex_b\<rparr>, fr_bytes = Dec 5 0\<rparr>"

definition sample_vault :: "(string set, string set) vault" where
  "sample_vault =
     \<lparr>v_packs = [(hex_c, \<lparr>pk_version = ''1.0'', pk_subject = ''did:aoc:alice'', pk_created_at = Dec 1736942400 0,
                           pk_fields = [sample_field], pk_hash = hex_c\<rparr>)],
      v_consents = [(hex_a, sample_consent)], v_capabilities = [], v_sdl_mappings = [(''person.name'', ''name'')],
      v_nonce = {}, v_rev = {}\<rparr>"

definition sample_access :: VaultAccessRequest where
  "sample_access = \<lparr>va_capability_token = sample_capability, va_sdl_paths = [''person.name''], va_pack_ref = hex_c\<rparr>"

definition sample_resolved :: VaultResolvedField where
  "sample_resolved = \<lparr>vr_sdl_path = ''person.name'', vr_field_id = ''name'', vr_content_id = hex_b\<rparr>"

lemma sample_enforcement:
  "\<exists>d st. enforce_field sample_env mem_ops sample_access sample_consent (NowDate (Some (noon + 60000))) clock sample_field
     False (vault_registries sample_vault) = Inr (d, st) \<and> en_allowed d"
proof -
  let ?i = "vault_enforcement sample_access sample_consent (NowDate (Some (noon + 60000))) (''content:'' @ hex_b) True"
  let ?q = "buildLegacyAccessRequest ?i ''content'' hex_b"
  let ?st = "vault_registries sample_vault"
  have scope: "type_and_ref (''content:'' @ hex_b) = Some (''content'', hex_b)" by code_simp
  have act: "consume_normalizeAction ''read'' = Inr ''read''" by code_simp
  have res: "consume_normalizeResource (ResourceEntry \<lparr>se_type = ''content'', se_ref = hex_b\<rparr>) = Inr sample_entry"
    by code_simp
  have tok: "va_capability_token sample_access = sample_capability" by (simp add: sample_access_def)
  have prep: "consume_prepare sample_env ?q = Inr (sample_capability, ''read'', sample_entry)"
    using act res
    by (simp add: consume_prepare_def buildLegacyAccessRequest_def vault_enforcement_def enforced_action_def tok sample_token_valid)
  have same: "buildEvaluationRequest ?q sample_capability ''read'' sample_entry at =
      buildEvaluationRequest sample_request sample_capability ''read'' sample_entry at" for at
    by (simp add: buildEvaluationRequest_def buildLegacyAccessRequest_def vault_enforcement_def sample_request_def)
  have ok: "consumable sample_env (vault_ops mem_ops) ?q sample_capability ''read'' sample_entry (noon + 60000) clock ?st"
    using sample_consumable [of clock] unfolding consumable_def same
    by (simp add: buildLegacyAccessRequest_def vault_enforcement_def sample_request_def rate_ok_def revoked_now_def
        replay_ok_def vault_ops_def vault_registries_def sample_vault_def in_use_def mem_isRevoked_def mem_hasSeen_def)
  let ?r = "consume_at sample_env (vault_ops mem_ops) ?q (noon + 60000) clock ?st"
  have "now_date sample_env (w_now ?q) clock = Some (noon + 60000)"
    by (simp add: now_date_def buildLegacyAccessRequest_def vault_enforcement_def)
  then have r: "consumeCapabilityAccess sample_env (vault_ops mem_ops) ?q clock ?st = Inr (fst ?r, snd ?r)"
    by (simp add: consumeCapabilityAccess_def)
  have allowed: "x_allowed (fst ?r)"
    using consume_at_cases [of sample_env "vault_ops mem_ops" ?q "noon + 60000" clock ?st] prep ok by auto
  have i: "ei_required_scope ?i = ''content:'' @ hex_b" by (simp add: vault_enforcement_def)
  have e: "enforceCapability sample_env (vault_ops mem_ops) ?i clock ?st = Inr (enforcement_result ?i (fst ?r), snd ?r)"
    unfolding enforceCapability_def i scope by (simp add: r case_prod_unfold del: append.simps)
  have f: "fr_content_id sample_field = hex_b" by (simp add: sample_field_def)
  have d: "en_allowed (enforcement_result ?i (fst ?r))" using allowed by (simp add: enforcement_result_def)
  have "enforce_field sample_env mem_ops sample_access sample_consent (NowDate (Some (noon + 60000))) clock sample_field
     False ?st = Inr (enforcement_result ?i (fst ?r), snd ?r)"
    unfolding enforce_field_def f by (simp add: e d del: append.simps)
  with d show ?thesis by blast
qed

lemma sample_granted:
  "\<exists>res v'. requestAccess sample_env mem_ops sample_access (NowDate (Some (noon + 60000))) clock sample_vault = Inr (res, v') \<and>
     vx_resolved res = [sample_resolved]"
proof -
  obtain d st where e: "enforce_field sample_env mem_ops sample_access sample_consent (NowDate (Some (noon + 60000))) clock
      sample_field False (vault_registries sample_vault) = Inr (d, st)" "en_allowed d"
    using sample_enforcement by blast
  have path: "validateSdlPath ''person.name'' = None" by code_simp
  have loc: "locate_field [(''person.name'', ''name'')] (field_index [sample_field]) hex_c ''person.name'' = Inr sample_field"
    by (simp add: locate_field_def path field_index_def sample_field_def)
  let ?loc = "locate_field [(''person.name'', ''name'')] (field_index [sample_field]) hex_c"
  have "resolve_paths sample_env mem_ops sample_access sample_consent (NowDate (Some (noon + 60000))) clock ?loc
      [''person.name''] False (vault_registries sample_vault) [] [] =
      Inr (allowAccess [sample_resolved] [], st)"
    using loc e by (simp add: sample_resolved_def sample_field_def)
  moreover have "map_of (v_consents sample_vault) (t_consent_ref (va_capability_token sample_access)) = Some sample_consent"
    "va_pack_ref sample_access = hex_c" "va_sdl_paths sample_access = [''person.name'']"
    "v_sdl_mappings sample_vault = [(''person.name'', ''name'')]"
    "\<exists>m. map_of (v_packs sample_vault) hex_c = Some m \<and> pk_fields m = [sample_field]"
    by (simp_all add: sample_vault_def sample_access_def)
  ultimately show ?thesis
    unfolding requestAccess_def Let_def
    by (auto simp del: resolve_paths.simps simp: enforceConsentPresent_def enforcePackPresent_def allowAccess_def)
qed

theorem vault_access_safe_witness:
  "\<exists>res v'. requestAccess sample_env mem_ops sample_access (NowDate (Some (noon + 60000))) noon sample_vault = Inr (res, v') \<and>
     sample_resolved \<in> set (vx_resolved res) \<and> redeems mem_ops sample_capability (v_nonce sample_vault) (v_nonce v')"
proof -
  obtain res v' where r: "requestAccess sample_env mem_ops sample_access (NowDate (Some (noon + 60000))) noon sample_vault = Inr (res, v')"
    "vx_resolved res = [sample_resolved]" using sample_granted by blast
  then have m: "sample_resolved \<in> set (vx_resolved res)" by simp
  have "redeems mem_ops (va_capability_token sample_access) (v_nonce sample_vault) (v_nonce v')"
    using vault_access_safe [OF r(1) m] by blast
  with r(1) m show ?thesis by (auto simp: sample_access_def)
qed

text \<open>
  C30: over any sequence of calls of the vault, in any order and with failures in between, no two accesses that
  hand out a field present the same token identifier, for every nonce registry that remembers what it
  marked, and none presents a token whose hash was revoked before the sequence.
\<close>

theorem vault_redeems_once:
  assumes "lawful_registries ops" "vault_run env ops calls v = (tr, v')"
  shows "distinct (map t_token_id (redeemed_tokens tr)) \<and>
    (\<forall>t \<in> set (redeemed_tokens tr). \<not> isRevoked_in ops (v_rev v) (t_capability_hash t))"
  using lawful_registries.vault_run_redeems_once [OF assms] lawful_registries.vault_run_revoked [OF assms] by blast

theorem vault_redeems_once_witness:
  "\<exists>tr v'. vault_run sample_env mem_ops [RequestAccess sample_access (NowDate (Some (noon + 60000))) noon,
        RequestAccess sample_access (NowDate (Some (noon + 60000))) noon] sample_vault = (tr, v') \<and>
     redeemed_tokens tr = [sample_capability]"
proof -
  let ?c = "RequestAccess sample_access (NowDate (Some (noon + 60000))) noon"
  obtain tr v' where run: "vault_run sample_env mem_ops [?c, ?c] sample_vault = (tr, v')" by (rule prod.exhaust)
  obtain res v1 where r: "requestAccess sample_env mem_ops sample_access (NowDate (Some (noon + 60000))) noon sample_vault = Inr (res, v1)"
    "vx_resolved res = [sample_resolved]" using sample_granted by blast
  obtain a where tr: "tr = [(?c, Access res), (?c, a)]"
    using run r(1) by (auto simp: answers_def split: prod.splits)
  have tok: "va_capability_token sample_access = sample_capability" by (simp add: sample_access_def)
  have d: "distinct (map t_token_id (redeemed_tokens tr))"
    using vault_redeems_once [OF mem.lawful_registries_axioms run] by blast
  have "redeemed_tokens [(?c, a)] = [] \<or> redeemed_tokens [(?c, a)] = [sample_capability]"
    by (cases a) (auto simp: tok)
  then have "redeemed_tokens tr = [sample_capability]"
    using d r(2) by (auto simp: tr tok)
  with run show ?thesis by blast
qed

section \<open>The capability flow\<close>

text \<open>
  C31: the capability flow returns for every request, also when the time of the request is no date, and it
  allows exactly when the access decision allows, the consumption allows, and, when an interpretation is
  asked for, the resource is a \<open>type:ref\<close> text under which the context has data.
\<close>

theorem capability_flow_outcome:
  "\<exists>x st'. executeCapabilityFlow env ops q clock1 clock2 st = Inr (x, st') \<and>
     (fx_allowed x \<longleftrightarrow>
        d_allowed (evaluateCapabilityAccess env (flow_access_request q) clock1) \<and>
        (\<exists>d. consumeCapabilityAccess env ops (flow_consumption_request q) clock2 st = Inr (d, st') \<and> x_allowed d) \<and>
        (case fl_interpreter q of
           Some (True, query, ctx) \<Rightarrow>
             \<exists>ty rf data. interpreter_normalizeResource (normalizeResourceForInterpreter (fl_resource q)) = Inr (ty, rf) \<and>
               resolveCapabilityData ctx (ty @ '':'' @ rf) = Inr data
         | _ \<Rightarrow> True))"
proof (cases "d_allowed (evaluateCapabilityAccess env (flow_access_request q) clock1)")
  case False
  then show ?thesis by (simp add: executeCapabilityFlow_def flow_stopped_def Let_def)
next
  case True
  then have "now_date env (fl_now q) clock1 \<noteq> None"
    unfolding evaluate_allowed by (auto simp: normalizeEvaluationTime_def flow_access_request_def split: option.splits)
  then have "now_date env (w_now (flow_consumption_request q)) clock2 \<noteq> None"
    by (auto simp: now_date_def flow_consumption_request_def split: now_arg.splits)
  then obtain d st' where d: "consumeCapabilityAccess env ops (flow_consumption_request q) clock2 st = Inr (d, st')"
    by (auto simp: consumeCapabilityAccess_def split: option.splits) (metis prod.exhaust)
  have fin: "fx_allowed (flow_finish env q e d) \<longleftrightarrow>
      (case fl_interpreter q of
         Some (True, query, ctx) \<Rightarrow>
           \<exists>ty rf data. interpreter_normalizeResource (normalizeResourceForInterpreter (fl_resource q)) = Inr (ty, rf) \<and>
             resolveCapabilityData ctx (ty @ '':'' @ rf) = Inr data
       | _ \<Rightarrow> True)" for e
    by (auto simp: flow_finish_def flow_interpretWithCapability_def ai_denyResponse_def Let_def
        split: option.splits bool.splits sum.splits prod.splits)
  show ?thesis
    using True d fin by (cases "x_allowed d") (simp_all add: executeCapabilityFlow_def flow_stopped_def Let_def)
qed

end
