(* ===== verification/Revocation.thy ===== *)
theory Revocation
  imports JsDate Canonical
begin

text \<open>
  \<open>protocol/revocation/\<close>: the tri-state revocation status, its constructors, the fail-closed gate, the port by
  which callers ask, and the telemetry of the port.

  A port is a function from the subject asked about to what the call gives: it may throw, answer a status, or,
  when it comes from untyped code, an object with another status text or no status at all.  A \<open>Date\<close> given as
  \<open>now\<close> is a valid one; an absent \<open>now\<close> is the time of the clock.
\<close>

subsection \<open>Statuses\<close>

datatype RevocableSubjectType =
    AgentIdentity | AgentPassport | PublicKey | CredentialSubject | ConsentGrant | DelegationSubject | CapabilityGrant
  | ExecutionGrant | ServiceIdentity | IssuerAuthority | TrustDomainMembership

datatype RevocationErrorCode =
    REVOCATION_STATUS_UNAVAILABLE | REVOCATION_LOOKUP_FAILED | REVOCATION_LOOKUP_TIMEOUT
  | REVOCATION_PERMISSION_DENIED | REVOCATION_RECORD_MALFORMED | REVOCATION_AUTHORITY_MISMATCH
  | REVOCATION_TRUST_DOMAIN_MISMATCH | REVOCATION_SUBJECT_MISMATCH | REVOCATION_UNSUPPORTED_VERSION

datatype RevocationFailureCategory =
    NotChecked | LookupError | LookupTimeout | PermissionDenied | MalformedRecord | UnsupportedVersion
  | AuthorityMismatch | TrustDomainMismatch | SubjectMismatch | Unavailable

record VerifiedNotRevokedStatus =
  vn_subjectId :: string
  vn_subjectType :: RevocableSubjectType
  vn_checkedAt :: string
  vn_sourceVersion :: string

record RevokedStatus =
  rv_subjectId :: string
  rv_subjectType :: RevocableSubjectType
  rv_revocationId :: string
  rv_reasonCode :: string
  rv_revokedAt :: string
  rv_checkedAt :: string

record UnknownRevocationStatus =
  uk_subjectId :: "string option"
  uk_subjectType :: "RevocableSubjectType option"
  uk_checkedAt :: string
  uk_errorCode :: RevocationErrorCode
  uk_category :: RevocationFailureCategory
  uk_retryable :: bool

datatype RevocationStatus =
    VerifiedNotRevoked VerifiedNotRevokedStatus
  | Revoked RevokedStatus
  | UnknownRevocation UnknownRevocationStatus

datatype MaterialActionDecision = AllowAction | BlockAction

definition resolveMaterialActionDecision :: "RevocationStatus \<Rightarrow> MaterialActionDecision" where
  "resolveMaterialActionDecision s = (case s of VerifiedNotRevoked v \<Rightarrow> AllowAction | _ \<Rightarrow> BlockAction)"

definition isRevocationBlocking :: "RevocationStatus \<Rightarrow> bool" where
  "isRevocationBlocking s \<longleftrightarrow> resolveMaterialActionDecision s = BlockAction"

definition nowIso :: "int option \<Rightarrow> int \<Rightarrow> string" where
  "nowIso now clock = iso_millis (case now of Some t \<Rightarrow> t | None \<Rightarrow> clock)"

definition verifiedNotRevokedStatus ::
  "string \<Rightarrow> RevocableSubjectType \<Rightarrow> int option \<Rightarrow> string option \<Rightarrow> int \<Rightarrow> VerifiedNotRevokedStatus" where
  "verifiedNotRevokedStatus subjectId subjectType now sourceVersion clock =
     \<lparr>vn_subjectId = subjectId, vn_subjectType = subjectType, vn_checkedAt = nowIso now clock,
      vn_sourceVersion = (case sourceVersion of Some v \<Rightarrow> v | None \<Rightarrow> ''v1'')\<rparr>"

definition revokedStatus ::
  "string \<Rightarrow> RevocableSubjectType \<Rightarrow> string \<Rightarrow> string \<Rightarrow> string \<Rightarrow> int option \<Rightarrow> int \<Rightarrow> RevokedStatus" where
  "revokedStatus subjectId subjectType revocationId reasonCode revokedAt now clock =
     \<lparr>rv_subjectId = subjectId, rv_subjectType = subjectType, rv_revocationId = revocationId,
      rv_reasonCode = reasonCode, rv_revokedAt = revokedAt, rv_checkedAt = nowIso now clock\<rparr>"

text \<open>The argument of the constructors of \<open>unknown\<close>: the subject, where one is named, and the time.\<close>

record unknown_input =
  in_subjectId :: "string option"
  in_subjectType :: "RevocableSubjectType option"
  in_now :: "int option"

definition unknownStatus ::
  "RevocationErrorCode \<Rightarrow> RevocationFailureCategory \<Rightarrow> bool \<Rightarrow> unknown_input option \<Rightarrow> int \<Rightarrow> UnknownRevocationStatus" where
  "unknownStatus errorCode category retryable i clock =
     \<lparr>uk_subjectId = Option.bind i in_subjectId, uk_subjectType = Option.bind i in_subjectType,
      uk_checkedAt = nowIso (Option.bind i in_now) clock, uk_errorCode = errorCode, uk_category = category,
      uk_retryable = retryable\<rparr>"

definition unavailableRevocationStatus :: "unknown_input option \<Rightarrow> int \<Rightarrow> UnknownRevocationStatus" where
  "unavailableRevocationStatus = unknownStatus REVOCATION_STATUS_UNAVAILABLE NotChecked False"

definition revocationLookupFailedStatus :: "unknown_input option \<Rightarrow> int \<Rightarrow> UnknownRevocationStatus" where
  "revocationLookupFailedStatus = unknownStatus REVOCATION_LOOKUP_FAILED LookupError True"

definition revocationLookupTimeoutStatus :: "unknown_input option \<Rightarrow> int \<Rightarrow> UnknownRevocationStatus" where
  "revocationLookupTimeoutStatus = unknownStatus REVOCATION_LOOKUP_TIMEOUT LookupTimeout True"

definition revocationPermissionDeniedStatus :: "unknown_input option \<Rightarrow> int \<Rightarrow> UnknownRevocationStatus" where
  "revocationPermissionDeniedStatus = unknownStatus REVOCATION_PERMISSION_DENIED PermissionDenied False"

definition revocationRecordMalformedStatus :: "unknown_input option \<Rightarrow> int \<Rightarrow> UnknownRevocationStatus" where
  "revocationRecordMalformedStatus = unknownStatus REVOCATION_RECORD_MALFORMED MalformedRecord False"

definition revocationAuthorityMismatchStatus :: "unknown_input option \<Rightarrow> int \<Rightarrow> UnknownRevocationStatus" where
  "revocationAuthorityMismatchStatus = unknownStatus REVOCATION_AUTHORITY_MISMATCH AuthorityMismatch False"

definition revocationTrustDomainMismatchStatus :: "unknown_input option \<Rightarrow> int \<Rightarrow> UnknownRevocationStatus" where
  "revocationTrustDomainMismatchStatus = unknownStatus REVOCATION_TRUST_DOMAIN_MISMATCH TrustDomainMismatch False"

definition revocationSubjectMismatchStatus :: "unknown_input option \<Rightarrow> int \<Rightarrow> UnknownRevocationStatus" where
  "revocationSubjectMismatchStatus = unknownStatus REVOCATION_SUBJECT_MISMATCH SubjectMismatch False"

definition revocationUnsupportedVersionStatus :: "unknown_input option \<Rightarrow> int \<Rightarrow> UnknownRevocationStatus" where
  "revocationUnsupportedVersionStatus = unknownStatus REVOCATION_UNSUPPORTED_VERSION UnsupportedVersion False"

fun HTTP_STATUS_BY_ERROR_CODE :: "RevocationErrorCode \<Rightarrow> nat" where
  "HTTP_STATUS_BY_ERROR_CODE REVOCATION_STATUS_UNAVAILABLE = 503"
| "HTTP_STATUS_BY_ERROR_CODE REVOCATION_LOOKUP_FAILED = 503"
| "HTTP_STATUS_BY_ERROR_CODE REVOCATION_LOOKUP_TIMEOUT = 503"
| "HTTP_STATUS_BY_ERROR_CODE REVOCATION_PERMISSION_DENIED = 403"
| "HTTP_STATUS_BY_ERROR_CODE REVOCATION_RECORD_MALFORMED = 503"
| "HTTP_STATUS_BY_ERROR_CODE REVOCATION_AUTHORITY_MISMATCH = 403"
| "HTTP_STATUS_BY_ERROR_CODE REVOCATION_TRUST_DOMAIN_MISMATCH = 403"
| "HTTP_STATUS_BY_ERROR_CODE REVOCATION_SUBJECT_MISMATCH = 403"
| "HTTP_STATUS_BY_ERROR_CODE REVOCATION_UNSUPPORTED_VERSION = 503"

definition mapRevocationStatusToHttpStatus :: "RevocationStatus \<Rightarrow> nat" where
  "mapRevocationStatusToHttpStatus s =
     (case s of VerifiedNotRevoked v \<Rightarrow> 200 | Revoked r \<Rightarrow> 403 | UnknownRevocation u \<Rightarrow> HTTP_STATUS_BY_ERROR_CODE (uk_errorCode u))"

subsection \<open>Telemetry\<close>

datatype RevocationTelemetryEvent =
    CHECK_STARTED | CHECK_NOT_REVOKED | CHECK_REVOKED | CHECK_UNKNOWN | CHECK_FAILED | COMMAND_STARTED
  | COMMAND_COMPLETED | COMMAND_FAILED | CASCADE_STARTED | CASCADE_COMPLETED | IDEMPOTENCY_REPLAYED
  | IDEMPOTENCY_CONFLICT | BILLING_OVERRIDE

definition sep_between :: "string \<Rightarrow> string \<Rightarrow> string \<Rightarrow> bool" where
  "sep_between a b s \<longleftrightarrow> str_includes s (a @ b) \<or> str_includes s (a @ ''_'' @ b) \<or> str_includes s (a @ ''-'' @ b)"

text \<open>
  \<^verbatim>\<open>/secret|private[_-]?key|password|token$|credential$|raw[_-]?claims|raw[_-]?passport/i\<close>
\<close>

definition FORBIDDEN_PAYLOAD_KEY_PATTERN :: "string \<Rightarrow> bool" where
  "FORBIDDEN_PAYLOAD_KEY_PATTERN key \<longleftrightarrow>
     (let k = to_lower key in
      str_includes k ''secret'' \<or> sep_between ''private'' ''key'' k \<or> str_includes k ''password'' \<or>
      ends_with k ''token'' \<or> ends_with k ''credential'' \<or> sep_between ''raw'' ''claims'' k \<or>
      sep_between ''raw'' ''passport'' k)"

definition redactRevocationTelemetryPayload :: "(string \<times> js) list \<Rightarrow> (string \<times> js) list" where
  "redactRevocationTelemetryPayload payload =
     map (\<lambda>(key, v). (key, if FORBIDDEN_PAYLOAD_KEY_PATTERN key then JStr ''[redacted]'' else v)) payload"

type_synonym telemetry_hook = "RevocationTelemetryEvent \<Rightarrow> (string \<times> js) list \<Rightarrow> checked"

definition emitRevocationTelemetry ::
  "telemetry_hook option \<Rightarrow> RevocationTelemetryEvent \<Rightarrow> (string \<times> js) list \<Rightarrow> checked" where
  "emitRevocationTelemetry hook event payload =
     (case hook of None \<Rightarrow> None | Some h \<Rightarrow> h event (redactRevocationTelemetryPayload payload))"

subsection \<open>Ports\<close>

record RevocationSubjectRef =
  sr_subjectId :: string
  sr_subjectType :: RevocableSubjectType

datatype port_answer = Status RevocationStatus | OtherStatus string | NoStatus

type_synonym RevocationCheckPort = "RevocationSubjectRef \<Rightarrow> port_answer throws"

datatype registry_answer = Bool bool | NotBoolean

definition subject_input :: "RevocationSubjectRef \<Rightarrow> int option \<Rightarrow> unknown_input option" where
  "subject_input s now =
     Some \<lparr>in_subjectId = Some (sr_subjectId s), in_subjectType = Some (sr_subjectType s), in_now = now\<rparr>"

fun subject_type_text :: "RevocableSubjectType \<Rightarrow> string" where
  "subject_type_text AgentIdentity = ''agent_identity''"
| "subject_type_text AgentPassport = ''agent_passport''"
| "subject_type_text PublicKey = ''public_key''"
| "subject_type_text CredentialSubject = ''credential''"
| "subject_type_text ConsentGrant = ''consent_grant''"
| "subject_type_text DelegationSubject = ''delegation''"
| "subject_type_text CapabilityGrant = ''capability_grant''"
| "subject_type_text ExecutionGrant = ''execution_grant''"
| "subject_type_text ServiceIdentity = ''service_identity''"
| "subject_type_text IssuerAuthority = ''issuer_authority''"
| "subject_type_text TrustDomainMembership = ''trust_domain_membership''"

fun error_code_text :: "RevocationErrorCode \<Rightarrow> string" where
  "error_code_text REVOCATION_STATUS_UNAVAILABLE = ''REVOCATION_STATUS_UNAVAILABLE''"
| "error_code_text REVOCATION_LOOKUP_FAILED = ''REVOCATION_LOOKUP_FAILED''"
| "error_code_text REVOCATION_LOOKUP_TIMEOUT = ''REVOCATION_LOOKUP_TIMEOUT''"
| "error_code_text REVOCATION_PERMISSION_DENIED = ''REVOCATION_PERMISSION_DENIED''"
| "error_code_text REVOCATION_RECORD_MALFORMED = ''REVOCATION_RECORD_MALFORMED''"
| "error_code_text REVOCATION_AUTHORITY_MISMATCH = ''REVOCATION_AUTHORITY_MISMATCH''"
| "error_code_text REVOCATION_TRUST_DOMAIN_MISMATCH = ''REVOCATION_TRUST_DOMAIN_MISMATCH''"
| "error_code_text REVOCATION_SUBJECT_MISMATCH = ''REVOCATION_SUBJECT_MISMATCH''"
| "error_code_text REVOCATION_UNSUPPORTED_VERSION = ''REVOCATION_UNSUPPORTED_VERSION''"

definition check_payload :: "RevocationSubjectRef \<Rightarrow> string option \<Rightarrow> (string \<times> js) list" where
  "check_payload s errorCode =
     [(''subjectId'', JStr (sr_subjectId s)), (''subjectType'', JStr (subject_type_text (sr_subjectType s)))] @
     (case errorCode of None \<Rightarrow> [] | Some c \<Rightarrow> [(''errorCode'', JStr c)])"

text \<open>The registry may throw or answer something that is no boolean; the telemetry hook may throw.\<close>

definition createRegistryRevocationCheck ::
  "(string \<Rightarrow> registry_answer throws) \<Rightarrow> string option \<Rightarrow> telemetry_hook option \<Rightarrow> int \<Rightarrow> RevocationCheckPort" where
  "createRegistryRevocationCheck isRevoked sourceVersion telemetry clock s =
     and_then (emitRevocationTelemetry telemetry CHECK_STARTED (check_payload s None))
       (case isRevoked (sr_subjectId s) of
          Inl m \<Rightarrow>
            and_return (emitRevocationTelemetry telemetry CHECK_FAILED (check_payload s (Some (error_code_text REVOCATION_LOOKUP_FAILED))))
              (Status (UnknownRevocation (revocationLookupFailedStatus (subject_input s (Some clock)) clock)))
        | Inr NotBoolean \<Rightarrow>
            and_return (emitRevocationTelemetry telemetry CHECK_UNKNOWN (check_payload s (Some (error_code_text REVOCATION_LOOKUP_FAILED))))
              (Status (UnknownRevocation (revocationLookupFailedStatus (subject_input s (Some clock)) clock)))
        | Inr (Bool True) \<Rightarrow>
            and_return (emitRevocationTelemetry telemetry CHECK_REVOKED (check_payload s None))
              (Status (Revoked (revokedStatus (sr_subjectId s) (sr_subjectType s) (sr_subjectId s) ''REVOKED''
                 (iso_millis clock) (Some clock) clock)))
        | Inr (Bool False) \<Rightarrow>
            and_return (emitRevocationTelemetry telemetry CHECK_NOT_REVOKED (check_payload s None))
              (Status (VerifiedNotRevoked
                 (verifiedNotRevokedStatus (sr_subjectId s) (sr_subjectType s) (Some clock) sourceVersion clock))))"

definition ALWAYS_UNKNOWN_REVOCATION_CHECK :: "int \<Rightarrow> RevocationCheckPort" where
  "ALWAYS_UNKNOWN_REVOCATION_CHECK clock s =
     Inr (Status (UnknownRevocation (revocationLookupFailedStatus (subject_input s None) clock)))"

definition createStaticRevocationCheck :: "RevocationStatus \<Rightarrow> RevocationCheckPort" where
  "createStaticRevocationCheck status s = Inr (Status status)"

text \<open>
  The race of an asynchronous check with its timer, given what the check does when it settles before the timer
  fires: it throws, rejects or resolves; \<open>None\<close> when the timer is first.
\<close>

definition withRevocationTimeout ::
  "(RevocationSubjectRef \<Rightarrow> RevocationStatus throws option) \<Rightarrow> int \<Rightarrow> RevocationSubjectRef \<Rightarrow> RevocationStatus" where
  "withRevocationTimeout check clock s =
     (case check s of
        None \<Rightarrow> UnknownRevocation (revocationLookupTimeoutStatus (subject_input s None) clock)
      | Some (Inl m) \<Rightarrow> UnknownRevocation (revocationLookupFailedStatus (subject_input s None) clock)
      | Some (Inr status) \<Rightarrow> status)"

text \<open>
  How the evaluations of \<open>protocol/consent\<close> and \<open>protocol/capability\<close> ask a port
  (\<open>resolveConsentRevocationStatus\<close>, \<open>resolveCapabilityRevocationStatus\<close>): a throw and a missing status become
  \<open>unknown\<close>; a status text of another spelling is passed on.
\<close>

definition ask_port :: "RevocationCheckPort \<Rightarrow> RevocationSubjectRef \<Rightarrow> int \<Rightarrow> port_answer" where
  "ask_port port s clock =
     (case port s of
        Inl m \<Rightarrow> Status (UnknownRevocation (revocationLookupFailedStatus (subject_input s None) clock))
      | Inr NoStatus \<Rightarrow> Status (UnknownRevocation (revocationLookupFailedStatus (subject_input s None) clock))
      | Inr a \<Rightarrow> a)"

fun status_text :: "port_answer \<Rightarrow> string" where
  "status_text (Status (VerifiedNotRevoked v)) = ''verified_not_revoked''"
| "status_text (Status (Revoked r)) = ''revoked''"
| "status_text (Status (UnknownRevocation u)) = ''unknown''"
| "status_text (OtherStatus t) = t"
| "status_text NoStatus = []"

definition port_clears :: "port_answer \<Rightarrow> bool" where
  "port_clears a \<longleftrightarrow> status_text a \<noteq> ''revoked'' \<and> status_text a \<noteq> ''unknown''"

text \<open>The \<open>errorCode\<close> in a template literal.\<close>

fun answer_error :: "port_answer \<Rightarrow> string" where
  "answer_error (Status (UnknownRevocation u)) = error_code_text (uk_errorCode u)"
| "answer_error _ = ''undefined''"

subsection \<open>Fail-closed\<close>

lemma resolve_allows: "resolveMaterialActionDecision s = AllowAction \<longleftrightarrow> (\<exists>v. s = VerifiedNotRevoked v)"
  by (simp add: resolveMaterialActionDecision_def split: RevocationStatus.splits)

lemma http_allows: "mapRevocationStatusToHttpStatus s = 200 \<longleftrightarrow> resolveMaterialActionDecision s = AllowAction"
proof -
  have "HTTP_STATUS_BY_ERROR_CODE c \<noteq> 200" for c by (cases c) simp_all
  then show ?thesis
    by (simp add: mapRevocationStatusToHttpStatus_def resolveMaterialActionDecision_def split: RevocationStatus.splits)
qed

lemma timeout_allows:
  "resolveMaterialActionDecision (withRevocationTimeout check clock s) = AllowAction \<longleftrightarrow>
     (\<exists>v. check s = Some (Inr (VerifiedNotRevoked v)))"
  by (auto simp: withRevocationTimeout_def resolve_allows split: option.splits sum.splits)

text \<open>The evaluations compare the text of the status: an answer that is neither of the two refusals passes.\<close>

lemma status_text_cases:
  "status_text (Status s) = ''verified_not_revoked'' \<longleftrightarrow> (\<exists>v. s = VerifiedNotRevoked v)"
  by (cases s) simp_all

lemma ask_port_clears:
  "port_clears (ask_port port s clock) \<longleftrightarrow> (\<exists>a. port s = Inr a \<and> a \<noteq> NoStatus \<and> port_clears a)"
  by (auto simp: ask_port_def port_clears_def split: sum.splits port_answer.splits)

lemma ask_port_some: "ask_port port s clock \<noteq> NoStatus"
  by (simp add: ask_port_def split: sum.splits port_answer.splits)

lemma registry_check_clears:
  "port_clears (ask_port (createRegistryRevocationCheck isRevoked v None clock) s clock') \<longleftrightarrow>
     isRevoked (sr_subjectId s) = Inr (Bool False)"
  unfolding ask_port_clears
  by (auto simp: port_clears_def createRegistryRevocationCheck_def emitRevocationTelemetry_def
      split: sum.splits registry_answer.splits bool.splits)

text \<open>A hook that throws can only take an answer away.\<close>

lemma registry_check_hook:
  "port_clears (ask_port (createRegistryRevocationCheck isRevoked v hook clock) s clock') \<Longrightarrow>
     isRevoked (sr_subjectId s) = Inr (Bool False)"
  unfolding ask_port_clears
  by (auto simp: port_clears_def createRegistryRevocationCheck_def
      split: sum.splits registry_answer.splits bool.splits)

lemma redact_hides:
  assumes "(k, v) \<in> set (redactRevocationTelemetryPayload p)" "FORBIDDEN_PAYLOAD_KEY_PATTERN k"
  shows "v = JStr ''[redacted]''"
  using assms by (auto simp: redactRevocationTelemetryPayload_def)

end
