(* ===== verification/JsonInput.thy ===== *)
theory JsonInput
  imports JsDate Canonical Consent
begin

text \<open>
  Values of type \<open>unknown\<close>, as the parsers under \<open>protocol/\<close> take them: reading a member, the run-time type
  tests, and the errors the engine raises when the code goes on with a value of another type than the cast
  says.  An object has the members of its list, and \<open>JUndefined\<close> for the others.
\<close>

definition member :: "(string \<times> js) list \<Rightarrow> string \<Rightarrow> js" where
  "member rec f = (case map_of rec f of None \<Rightarrow> JUndefined | Some v \<Rightarrow> v)"

definition quoted :: "string \<Rightarrow> string" where
  "quoted s = CHR 0x22 # s @ [CHR 0x22]"

text \<open>\<open>typeof v === 'object' && v !== null && !Array.isArray(v)\<close>\<close>

definition as_object :: "string \<Rightarrow> js \<Rightarrow> (string \<times> js) list throws" where
  "as_object msg v = (case v of JObj kvs \<Rightarrow> Inr kvs | _ \<Rightarrow> Inl msg)"

definition as_text :: "string \<Rightarrow> js \<Rightarrow> string throws" where
  "as_text msg v = (case v of JStr s \<Rightarrow> Inr s | _ \<Rightarrow> Inl msg)"

definition as_nonempty_array :: "string \<Rightarrow> js \<Rightarrow> js list throws" where
  "as_nonempty_array msg v = (case v of JArr vs \<Rightarrow> if vs = [] then Inl msg else Inr vs | _ \<Rightarrow> Inl msg)"

text \<open>\<open>v.name\<close> on a value that may be no object.\<close>

definition get_property :: "js \<Rightarrow> string \<Rightarrow> js throws" where
  "get_property v f =
     (case v of
        JUndefined \<Rightarrow> Inl (''Cannot read properties of undefined (reading '' @ [CHR 0x27] @ f @ [CHR 0x27] @ '')'')
      | JNull \<Rightarrow> Inl (''Cannot read properties of null (reading '' @ [CHR 0x27] @ f @ [CHR 0x27] @ '')'')
      | JObj kvs \<Rightarrow> Inr (member kvs f)
      | _ \<Rightarrow> Inr JUndefined)"

text \<open>\<open>value.trim()\<close> on a value that may be no text.\<close>

definition trim_value :: "js \<Rightarrow> string throws" where
  "trim_value v =
     (case v of
        JStr s \<Rightarrow> Inr (trim s)
      | JUndefined \<Rightarrow> Inl (''Cannot read properties of undefined (reading '' @ [CHR 0x27] @ ''trim'' @ [CHR 0x27] @ '')'')
      | JNull \<Rightarrow> Inl (''Cannot read properties of null (reading '' @ [CHR 0x27] @ ''trim'' @ [CHR 0x27] @ '')'')
      | _ \<Rightarrow> Inl ''value.trim is not a function'')"

definition opt_entry :: "string \<Rightarrow> js option \<Rightarrow> (string \<times> js) list" where
  "opt_entry k v = (case v of None \<Rightarrow> [] | Some x \<Rightarrow> [(k, x)])"

definition text_or_null :: "string option \<Rightarrow> js" where
  "text_or_null t = (case t of None \<Rightarrow> JNull | Some s \<Rightarrow> JStr s)"

definition entry_value :: "ScopeEntry \<Rightarrow> js" where
  "entry_value e = JObj [(''type'', JStr (se_type e)), (''ref'', JStr (se_ref e))]"

text \<open>The key of a scope entry, \<open>type:ref\<close>, is \<open>scopeKey\<close>; the comparison by type and then by reference.\<close>

definition by_type_and_ref :: "(string \<Rightarrow> string \<Rightarrow> int) \<Rightarrow> ScopeEntry \<Rightarrow> ScopeEntry \<Rightarrow> int" where
  "by_type_and_ref localeCompare a b =
     (if localeCompare (se_type a) (se_type b) \<noteq> 0 then localeCompare (se_type a) (se_type b)
      else localeCompare (se_ref a) (se_ref b))"

text \<open>\<^verbatim>\<open>/^[a-z0-9-]+$/\<close>\<close>

definition PERMISSION_PATTERN :: "string \<Rightarrow> bool" where
  "PERMISSION_PATTERN s \<longleftrightarrow> s \<noteq> [] \<and> list_all kebab_char s"

definition VALID_SCOPE_TYPES :: "string list" where
  "VALID_SCOPE_TYPES = [''field'', ''content'', ''pack'']"

subsection \<open>Facts\<close>

lemma set_VALID_SCOPE_TYPES [simp]: "set VALID_SCOPE_TYPES = {''field'', ''content'', ''pack''}"
  by (auto simp: VALID_SCOPE_TYPES_def)

lemma as_object_Inr [simp]: "as_object msg v = Inr kvs \<longleftrightarrow> v = JObj kvs"
  by (simp add: as_object_def split: js.splits)

lemma as_text_Inr [simp]: "as_text msg v = Inr s \<longleftrightarrow> v = JStr s"
  by (simp add: as_text_def split: js.splits)

lemma as_nonempty_array_Inr [simp]: "as_nonempty_array msg v = Inr vs \<longleftrightarrow> v = JArr vs \<and> vs \<noteq> []"
  by (auto simp: as_nonempty_array_def split: js.splits)

lemma trim_value_Inr [simp]: "trim_value v = Inr t \<longleftrightarrow> (\<exists>s. v = JStr s \<and> t = trim s)"
  by (auto simp: trim_value_def split: js.splits)

lemma get_property_Inr: "get_property v f = Inr (JStr s) \<longleftrightarrow> (\<exists>kvs. v = JObj kvs \<and> member kvs f = JStr s)"
  by (auto simp: get_property_def split: js.splits)

lemma member_simps [simp]:
  "member [] f = JUndefined"
  "member ((k, v) # rec) f = (if k = f then v else member rec f)"
  "member (opt_entry k w @ rec) f = (if k = f \<and> w \<noteq> None then the w else member rec f)"
  by (auto simp: member_def opt_entry_def split: option.splits)

lemma member_opt_entry [simp]: "member (opt_entry k w) f = (if k = f \<and> w \<noteq> None then the w else JUndefined)"
  by (auto simp: member_def opt_entry_def split: option.splits)

lemma text_or_null_simps [simp]:
  "text_or_null t \<noteq> JUndefined" "text_or_null t = JNull \<longleftrightarrow> t = None" "text_or_null t = JStr s \<longleftrightarrow> t = Some s"
  "text_or_null None = JNull" "text_or_null (Some s) = JStr s"
  by (auto simp: text_or_null_def split: option.splits)

lemma char_code_lower:
  "char_code (lower_char c) =
     (let n = char_code c in if (65 \<le> n \<and> n \<le> 90) \<or> (192 \<le> n \<and> n \<le> 222 \<and> n \<noteq> 215) then n + 32 else n)"
  by (simp add: lower_char_def Let_def char_code_def)

lemma lower_char_space [simp]: "is_space (lower_char c) = is_space c"
  by (auto simp: is_space_def char_code_lower Let_def)

lemma trim_to_lower: "trim (to_lower s) = to_lower (trim s)"
  by (simp add: trim_def trim_start_def to_lower_def dropWhile_map rev_map comp_def)

lemma lower_char_idem [simp]: "lower_char (lower_char c) = lower_char c"
  by (auto simp: char_code_inj [symmetric] char_code_lower Let_def)

lemma to_lower_idem [simp]: "to_lower (to_lower s) = to_lower s"
  by (simp add: to_lower_def)

end
