(* ===== verification/ProtocolConsent.thy ===== *)
theory ProtocolConsent
  imports Revocation JsonInput Access
begin

text \<open>
  \<open>protocol/consent/\<close>: parsing and normalization of untyped consents, their validation, the state of a
  consent at a time under a revocation port, and what a consent allows.

  The parser takes a JSON value and gives the members of the object back unchanged, as the cast in the source
  does; the normalizer builds the typed record, and raises a \<open>TypeError\<close> where a member has another type.
  Members that the interface does not name are dropped.
\<close>

record ProtocolConsent =
  pc_version :: string
  pc_subject :: string
  pc_grantee :: string
  pc_action :: string
  pc_scope :: "ScopeEntry list"
  pc_permissions :: "string list"
  pc_pricing :: "js option"
  pc_marketMakerId :: "string option"
  pc_revoke_target :: "string option"
  pc_issued_at :: string
  pc_expires_at :: "string option"
  pc_prior_consent :: "string option"
  pc_consent_hash :: string

definition consent_members :: "ProtocolConsent \<Rightarrow> (string \<times> js) list" where
  "consent_members c =
     [(''version'', JStr (pc_version c)), (''subject'', JStr (pc_subject c)), (''grantee'', JStr (pc_grantee c)),
      (''action'', JStr (pc_action c)), (''scope'', JArr (map entry_value (pc_scope c))),
      (''permissions'', JArr (map JStr (pc_permissions c)))] @
     opt_entry ''pricing'' (pc_pricing c) @ opt_entry ''marketMakerId'' (map_option JStr (pc_marketMakerId c)) @
     opt_entry ''revoke_target'' (map_option (\<lambda>h. JObj [(''capability_hash'', JStr h)]) (pc_revoke_target c)) @
     [(''issued_at'', JStr (pc_issued_at c)), (''expires_at'', text_or_null (pc_expires_at c)),
      (''prior_consent'', text_or_null (pc_prior_consent c)), (''consent_hash'', JStr (pc_consent_hash c))]"

subsection \<open>Parsing\<close>

definition consent_parseStringField :: "(string \<times> js) list \<Rightarrow> string \<Rightarrow> string throws" where
  "consent_parseStringField rec f = as_text (''Consent field '' @ quoted f @ '' must be a string.'') (member rec f)"

definition consent_parseNonEmpty :: "(string \<times> js) list \<Rightarrow> string \<Rightarrow> string throws" where
  "consent_parseNonEmpty rec f =
     bind_throws (consent_parseStringField rec f) (\<lambda>s.
       and_return (throw_if (trim s = []) (''Consent field '' @ quoted f @ '' must be non-empty.'')) s)"

definition consent_parseDateField :: "host_env \<Rightarrow> (string \<times> js) list \<Rightarrow> string \<Rightarrow> string throws" where
  "consent_parseDateField env rec f =
     bind_throws (consent_parseStringField rec f) (\<lambda>s.
       and_return (throw_if (date_parse (e_date env) s = None)
         (''Consent field '' @ quoted f @ '' must be a parseable ISO date string.'')) s)"

definition ignore_value :: "'a throws \<Rightarrow> checked" where
  "ignore_value r = (case r of Inl m \<Rightarrow> Some m | Inr v \<Rightarrow> None)"

definition consent_parse_entry :: "nat \<Rightarrow> js \<Rightarrow> checked" where
  "consent_parse_entry i entry =
     ignore_value
       (bind_throws (as_object (''Consent scope entry '' @ show_nat i @ '' must be a JSON object.'') entry) (\<lambda>rec.
        bind_throws (consent_parseStringField rec ''type'') (\<lambda>ty.
        bind_throws (consent_parseStringField rec ''ref'') (\<lambda>rf.
          and_return (throw_if (trim rf = []) (''Consent scope entry '' @ show_nat i @ '' ref must be non-empty.'')) ()))))"

definition consent_parseScope :: "(string \<times> js) list \<Rightarrow> checked" where
  "consent_parseScope rec =
     (case as_nonempty_array ''Consent field \"scope\" must be a non-empty array.'' (member rec ''scope'') of
        Inl m \<Rightarrow> Some m
      | Inr scope \<Rightarrow> check_each consent_parse_entry 0 scope)"

definition consent_parse_permission :: "nat \<Rightarrow> js \<Rightarrow> checked" where
  "consent_parse_permission i p =
     throw_if (case p of JStr s \<Rightarrow> trim s = [] | _ \<Rightarrow> True)
       (''Consent permission '' @ show_nat i @ '' must be a non-empty string.'')"

definition consent_parsePermissions :: "(string \<times> js) list \<Rightarrow> checked" where
  "consent_parsePermissions rec =
     (case as_nonempty_array ''Consent field \"permissions\" must be a non-empty array.'' (member rec ''permissions'') of
        Inl m \<Rightarrow> Some m
      | Inr permissions \<Rightarrow> check_each consent_parse_permission 0 permissions)"

definition parseConsent :: "host_env \<Rightarrow> js \<Rightarrow> (string \<times> js) list throws" where
  "parseConsent env i =
     bind_throws (as_object ''Consent must be a non-null JSON object.'' i) (\<lambda>rec.
     bind_throws (consent_parseNonEmpty rec ''subject'') (\<lambda>subject.
     bind_throws (consent_parseNonEmpty rec ''grantee'') (\<lambda>grantee.
     bind_throws (consent_parseStringField rec ''action'') (\<lambda>action.
     and_then (throw_if (action \<noteq> ''grant'' \<and> action \<noteq> ''revoke'')
                 ''Consent field \"action\" must be one of: grant, revoke.'')
     (and_then (consent_parseScope rec)
     (and_then (consent_parsePermissions rec)
     (bind_throws (consent_parseDateField env rec ''issued_at'') (\<lambda>issued.
     bind_throws (consent_parseNonEmpty rec ''consent_hash'') (\<lambda>h. Inr rec)))))))))"

subsection \<open>Normalization\<close>

text \<open>The parse has seen that \<open>type\<close> is a text.\<close>

definition normalize_entry :: "js \<Rightarrow> ScopeEntry throws" where
  "normalize_entry v =
     bind_throws (get_property v ''type'') (\<lambda>ty.
     bind_throws (bind_throws (get_property v ''ref'') trim_value) (\<lambda>rf.
     bind_throws (as_text ''entry.type is no text'' ty) (\<lambda>t.
       Inr \<lparr>se_type = t, se_ref = to_lower rf\<rparr>)))"

definition items :: "js \<Rightarrow> js list" where
  "items v = (case v of JArr vs \<Rightarrow> vs | _ \<Rightarrow> [])"

definition normalize_optional :: "js \<Rightarrow> string option throws" where
  "normalize_optional v = (if v = JNull then Inr None else bind_throws (trim_value v) (\<lambda>s. Inr (Some s)))"

definition if_defined :: "js \<Rightarrow> (js \<Rightarrow> 'a throws) \<Rightarrow> 'a option throws" where
  "if_defined v f = (if v = JUndefined then Inr None else bind_throws (f v) (\<lambda>x. Inr (Some x)))"

definition normalizeConsent :: "host_env \<Rightarrow> js \<Rightarrow> ProtocolConsent throws" where
  "normalizeConsent env i =
     bind_throws (parseConsent env i) (\<lambda>rec.
     bind_throws (trim_value (member rec ''version'')) (\<lambda>version.
     bind_throws (trim_value (member rec ''subject'')) (\<lambda>subject.
     bind_throws (trim_value (member rec ''grantee'')) (\<lambda>grantee.
     bind_throws (consent_parseStringField rec ''action'') (\<lambda>action.
     bind_throws (collect (map normalize_entry (items (member rec ''scope'')))) (\<lambda>scope.
     bind_throws (collect (map trim_value (items (member rec ''permissions'')))) (\<lambda>permissions.
     bind_throws (trim_value (member rec ''issued_at'')) (\<lambda>issued.
     bind_throws (normalize_optional (member rec ''expires_at'')) (\<lambda>expires.
     bind_throws (normalize_optional (member rec ''prior_consent'')) (\<lambda>prior.
     bind_throws (trim_value (member rec ''consent_hash'')) (\<lambda>h.
     bind_throws (if_defined (member rec ''marketMakerId'') trim_value) (\<lambda>mm.
     bind_throws (if_defined (member rec ''revoke_target'')
                    (\<lambda>t. bind_throws (get_property t ''capability_hash'') trim_value)) (\<lambda>target.
       Inr \<lparr>pc_version = version, pc_subject = subject, pc_grantee = grantee, pc_action = action,
            pc_scope = sort_by (by_type_and_ref (e_cmp env)) scope,
            pc_permissions = sort (map to_lower permissions),
            pc_pricing = (if member rec ''pricing'' = JUndefined then None else Some (member rec ''pricing'')),
            pc_marketMakerId = mm, pc_revoke_target = map_option to_lower target, pc_issued_at = issued,
            pc_expires_at = expires, pc_prior_consent = map_option to_lower prior, pc_consent_hash = to_lower h\<rparr>)))))))))))))"

subsection \<open>Validation\<close>

definition pc_MAX_SCOPE_ENTRIES :: nat where "pc_MAX_SCOPE_ENTRIES = 10000"
definition pc_MAX_PERMISSIONS :: nat where "pc_MAX_PERMISSIONS = 100"

definition error_if :: "bool \<Rightarrow> string \<Rightarrow> string list" where
  "error_if c msg = (if c then [msg] else [])"

fun pc_scope_errors :: "nat \<Rightarrow> string set \<Rightarrow> ScopeEntry list \<Rightarrow> string list" where
  "pc_scope_errors i seen [] = []"
| "pc_scope_errors i seen (e # es) =
     error_if (se_type e \<notin> set VALID_SCOPE_TYPES) (''Consent scope entry '' @ show_nat i @ '' has invalid type.'') @
     error_if (\<not> HASH_HEX_PATTERN (se_ref e)) (''Consent scope entry '' @ show_nat i @ '' ref must be 64 lowercase hex.'') @
     error_if (scopeKey e \<in> seen) (''Consent scope entry '' @ show_nat i @ '' is duplicated.'') @
     pc_scope_errors (Suc i) (insert (scopeKey e) seen) es"

fun pc_permission_errors :: "nat \<Rightarrow> string set \<Rightarrow> string list \<Rightarrow> string list" where
  "pc_permission_errors i seen [] = []"
| "pc_permission_errors i seen (p # ps) =
     error_if (\<not> PERMISSION_PATTERN p)
       (''Consent permission '' @ show_nat i @ '' must be lowercase alphanumeric with hyphens.'') @
     error_if (p \<in> seen) (''Consent permission '' @ show_nat i @ '' is duplicated.'') @
     pc_permission_errors (Suc i) (insert p seen) ps"

definition pc_time_errors :: "ProtocolConsent \<Rightarrow> string list" where
  "pc_time_errors c =
     (case pc_expires_at c of
        None \<Rightarrow> []
      | Some e \<Rightarrow>
          if \<not> ISO8601_UTC_PATTERN e then [''Consent expires_at must be ISO8601 UTC or null.'']
          else error_if (e \<le> pc_issued_at c) ''Consent expires_at must be greater than issued_at.'') @
     (case pc_prior_consent c of
        None \<Rightarrow> []
      | Some p \<Rightarrow> error_if (\<not> HASH_HEX_PATTERN p) ''Consent prior_consent must be 64 lowercase hex or null.'')"

definition pc_action_errors :: "ProtocolConsent \<Rightarrow> string list" where
  "pc_action_errors c =
     (if pc_action c = ''grant''
      then error_if (pc_revoke_target c \<noteq> None) ''Consent revoke_target is only valid for revoke actions.''
      else if pc_action c = ''revoke''
      then error_if (case pc_revoke_target c of None \<Rightarrow> True | Some h \<Rightarrow> \<not> HASH_HEX_PATTERN h)
             ''Consent revoke_target.capability_hash must be 64 lowercase hex.'' @
           error_if (pc_expires_at c \<noteq> None) ''Consent revoke action must have expires_at = null.''
      else [])"

text \<open>\<open>validateConsent\<close>: the errors; the consent is valid when there are none.\<close>

definition validateConsent :: "host_env \<Rightarrow> ProtocolConsent \<Rightarrow> string list" where
  "validateConsent env c =
     (case parseConsent env (JObj (consent_members c)) of
        Inl m \<Rightarrow> [m]
      | Inr rec \<Rightarrow>
          error_if (\<not> VERSION_PATTERN (pc_version c)) ''Consent version must match MAJOR.MINOR.'' @
          error_if (\<not> DID_PATTERN (pc_subject c)) ''Consent subject must be a valid DID.'' @
          error_if (\<not> DID_PATTERN (pc_grantee c)) ''Consent grantee must be a valid DID.'' @
          error_if (pc_action c \<notin> {''grant'', ''revoke''}) ''Consent action must be grant or revoke.'' @
          error_if (\<not> ISO8601_UTC_PATTERN (pc_issued_at c)) ''Consent issued_at must be ISO8601 UTC with second precision.'' @
          error_if (\<not> HASH_HEX_PATTERN (pc_consent_hash c)) ''Consent consent_hash must be 64 lowercase hex.'' @
          error_if (length (pc_scope c) > pc_MAX_SCOPE_ENTRIES)
            (''Consent scope must not exceed '' @ show_nat pc_MAX_SCOPE_ENTRIES @ '' entries.'') @
          pc_scope_errors 0 {} (pc_scope c) @
          error_if (length (pc_permissions c) > pc_MAX_PERMISSIONS)
            (''Consent permissions must not exceed '' @ show_nat pc_MAX_PERMISSIONS @ '' entries.'') @
          pc_permission_errors 0 {} (pc_permissions c) @ pc_time_errors c @ pc_action_errors c)"

subsection \<open>State\<close>

datatype ConsentState = ConsentActive | ConsentExpired | ConsentRevoked | ConsentRevocationUnknown | ConsentInactive | ConsentInvalid

record ConsentStateResult =
  cst_state :: ConsentState
  cst_reasons :: "string list"
  cst_revocation :: "port_answer option"

definition consent_state :: "ConsentState \<Rightarrow> string list \<Rightarrow> port_answer option \<Rightarrow> ConsentStateResult" where
  "consent_state s rs a = \<lparr>cst_state = s, cst_reasons = rs, cst_revocation = a\<rparr>"

definition resolveConsentRevocationStatus :: "ProtocolConsent \<Rightarrow> RevocationCheckPort \<Rightarrow> int \<Rightarrow> port_answer" where
  "resolveConsentRevocationStatus c port clock =
     ask_port port \<lparr>sr_subjectId = pc_consent_hash c, sr_subjectType = ConsentGrant\<rparr> clock"

text \<open>A given \<open>now\<close> may be an invalid \<open>Date\<close>: its comparisons are false.\<close>

definition given_or_clock :: "js_date option \<Rightarrow> int \<Rightarrow> js_date" where
  "given_or_clock now clock = (case now of None \<Rightarrow> Some clock | Some d \<Rightarrow> d)"

definition evaluateConsentState ::
  "host_env \<Rightarrow> ProtocolConsent \<Rightarrow> js_date option \<Rightarrow> RevocationCheckPort \<Rightarrow> int \<Rightarrow> ConsentStateResult" where
  "evaluateConsentState env c now_opt port clock =
     (let errors = validateConsent env c;
          revocationStatus = resolveConsentRevocationStatus c port clock;
          now = given_or_clock now_opt clock;
          issuedAt = date_parse (e_date env) (pc_issued_at c)
      in if pc_action c \<noteq> ''grant'' \<and> pc_action c \<noteq> ''revoke''
         then consent_state ConsentInvalid [''Consent action is invalid.''] None
         else if errors \<noteq> [] then consent_state ConsentInvalid errors None
         else if pc_action c \<noteq> ''grant''
         then consent_state ConsentInvalid [''Consent action must be grant for active evaluation.''] None
         else if status_text revocationStatus = ''revoked''
         then consent_state ConsentRevoked [''Consent was revoked.''] (Some revocationStatus)
         else if status_text revocationStatus = ''unknown''
         then consent_state ConsentRevocationUnknown
                [''Consent revocation status could not be verified ('' @ answer_error revocationStatus @ '').'']
                (Some revocationStatus)
         else if issuedAt = None then consent_state ConsentInvalid [''Consent issued_at is not parseable.''] None
         else if date_gt issuedAt now
         then consent_state ConsentInactive [''Consent issued_at is in the future for evaluation time.'']
                (Some revocationStatus)
         else
           (case pc_expires_at c of
              None \<Rightarrow> consent_state ConsentActive [] (Some revocationStatus)
            | Some e \<Rightarrow>
                if date_parse (e_date env) e = None
                then consent_state ConsentInvalid [''Consent expires_at is not parseable.''] None
                else if date_le (date_parse (e_date env) e) now
                then consent_state ConsentExpired [''Consent is expired.''] (Some revocationStatus)
                else consent_state ConsentActive [] (Some revocationStatus)))"

definition isConsentActive :: "host_env \<Rightarrow> ProtocolConsent \<Rightarrow> js_date option \<Rightarrow> RevocationCheckPort \<Rightarrow> int \<Rightarrow> bool" where
  "isConsentActive env c now port clock \<longleftrightarrow> cst_state (evaluateConsentState env c now port clock) = ConsentActive"

definition isConsentRevoked :: "host_env \<Rightarrow> ProtocolConsent \<Rightarrow> js_date option \<Rightarrow> RevocationCheckPort \<Rightarrow> int \<Rightarrow> bool" where
  "isConsentRevoked env c now port clock \<longleftrightarrow> cst_state (evaluateConsentState env c now port clock) = ConsentRevoked"

record ConsentScopeRequest =
  csr_scope :: "ScopeEntry list"
  csr_permissions :: "string list"
  csr_subject :: "string option"
  csr_grantee :: "string option"
  csr_marketMakerId :: "string option"
  csr_now :: "js_date option"

definition differs :: "string option \<Rightarrow> string \<Rightarrow> bool" where
  "differs asked actual \<longleftrightarrow> asked \<noteq> None \<and> asked \<noteq> Some actual"

definition doesConsentAllowScope ::
  "host_env \<Rightarrow> ProtocolConsent \<Rightarrow> ConsentScopeRequest \<Rightarrow> RevocationCheckPort \<Rightarrow> int \<Rightarrow> bool" where
  "doesConsentAllowScope env c q port clock =
     (if cst_state (evaluateConsentState env c (csr_now q) port clock) \<noteq> ConsentActive then False
      else if csr_scope q = [] then False
      else if csr_permissions q = [] then False
      else if differs (csr_subject q) (pc_subject c) then False
      else if differs (csr_grantee q) (pc_grantee c) then False
      else if csr_marketMakerId q \<noteq> None \<and> pc_marketMakerId c \<noteq> None \<and> csr_marketMakerId q \<noteq> pc_marketMakerId c
      then False
      else
        (let allowedScope = scopeKey ` set (pc_scope c); allowedPermissions = set (pc_permissions c) in
         list_all (\<lambda>e. trim (se_ref e) \<noteq> [] \<and> scopeKey e \<in> allowedScope) (csr_scope q) \<and>
         list_all (\<lambda>p. trim p \<noteq> [] \<and> p \<in> allowedPermissions) (csr_permissions q)))"

subsection \<open>What is valid\<close>

lemma error_if_nil [simp]: "error_if c msg = [] \<longleftrightarrow> \<not> c"
  by (simp add: error_if_def)

lemma ignore_value_None [simp]: "ignore_value r = None \<longleftrightarrow> (\<exists>v. r = Inr v)"
  by (simp add: ignore_value_def split: sum.splits)

lemma pc_scope_errors_nil:
  "pc_scope_errors i seen es = [] \<longleftrightarrow>
     (\<forall>e \<in> set es. valid_entry e \<and> scopeKey e \<notin> seen) \<and>
     distinct (map scopeKey es)"
proof (induction i seen es rule: pc_scope_errors.induct)
  case (2 i seen e es)
  then show ?case by (simp add: image_iff valid_entry_def) (rule iffI; force)
qed simp

lemma pc_permission_errors_nil:
  "pc_permission_errors i seen ps = [] \<longleftrightarrow>
     (\<forall>p \<in> set ps. PERMISSION_PATTERN p \<and> p \<notin> seen) \<and> distinct ps"
proof (induction i seen ps rule: pc_permission_errors.induct)
  case (2 i seen p ps)
  then show ?case by simp (rule iffI; force)
qed simp

text \<open>The well-formed consents.\<close>

definition consent_wf :: "host_env \<Rightarrow> ProtocolConsent \<Rightarrow> bool" where
  "consent_wf env c \<longleftrightarrow>
     VERSION_PATTERN (pc_version c) \<and> DID_PATTERN (pc_subject c) \<and> DID_PATTERN (pc_grantee c) \<and>
     HASH_HEX_PATTERN (pc_consent_hash c) \<and> ISO8601_UTC_PATTERN (pc_issued_at c) \<and>
     date_parse (e_date env) (pc_issued_at c) \<noteq> None \<and>
     pc_scope c \<noteq> [] \<and> length (pc_scope c) \<le> pc_MAX_SCOPE_ENTRIES \<and> distinct (map scopeKey (pc_scope c)) \<and>
     list_all valid_entry (pc_scope c) \<and>
     pc_permissions c \<noteq> [] \<and> length (pc_permissions c) \<le> pc_MAX_PERMISSIONS \<and> distinct (pc_permissions c) \<and>
     (\<forall>p \<in> set (pc_permissions c). PERMISSION_PATTERN p) \<and>
     (\<forall>e. pc_expires_at c = Some e \<longrightarrow> ISO8601_UTC_PATTERN e \<and> pc_issued_at c < e) \<and>
     (\<forall>p. pc_prior_consent c = Some p \<longrightarrow> HASH_HEX_PATTERN p) \<and>
     (pc_action c = ''grant'' \<and> pc_revoke_target c = None \<or>
      pc_action c = ''revoke'' \<and> (\<exists>h. pc_revoke_target c = Some h \<and> HASH_HEX_PATTERN h) \<and> pc_expires_at c = None)"

lemma class_no_space:
  "is_hex c \<Longrightarrow> \<not> is_space c" "kebab_char c \<Longrightarrow> \<not> is_space c" "did_method_char c \<Longrightarrow> \<not> is_space c"
  "did_id_char c \<Longrightarrow> \<not> is_space c"
  by (auto simp: is_hex_def kebab_char_def did_method_char_def did_id_char_def is_digit_def is_lower_def is_upper_def
      is_space_def char_code_def)

lemma pattern_no_space:
  "HASH_HEX_PATTERN s \<Longrightarrow> list_all (\<lambda>c. \<not> is_space c) s \<and> s \<noteq> []"
  "PERMISSION_PATTERN s \<Longrightarrow> list_all (\<lambda>c. \<not> is_space c) s \<and> s \<noteq> []"
  by (auto simp: HASH_HEX_PATTERN_def PERMISSION_PATTERN_def list_all_iff class_no_space)

lemma did_no_space: "DID_PATTERN s \<Longrightarrow> list_all (\<lambda>c. \<not> is_space c) s \<and> s \<noteq> []"
proof -
  assume "DID_PATTERN s"
  then obtain m d where split: "split_on CHR '':'' s = [''did'', m, d]" "list_all did_method_char m" "list_all did_id_char d"
    by (auto simp: DID_PATTERN_def split: list.splits)
  have "s = join_with CHR '':'' [''did'', m, d]" using split(1) join_split by metis
  then have "s = ''did:'' @ m @ '':'' @ d" by simp
  moreover have "list_all (\<lambda>c. \<not> is_space c) ''did:''" "list_all (\<lambda>c. \<not> is_space c) '':''" by code_simp+
  moreover have "list_all (\<lambda>c. \<not> is_space c) m" "list_all (\<lambda>c. \<not> is_space c) d"
    using split(2,3) by (auto simp: list_all_iff class_no_space)
  ultimately show ?thesis by (simp del: append.simps)
qed

lemmas no_space = pattern_no_space did_no_space

lemma no_space_trim [simp]:
  "HASH_HEX_PATTERN s \<Longrightarrow> trim s = s" "PERMISSION_PATTERN s \<Longrightarrow> trim s = s" "DID_PATTERN s \<Longrightarrow> trim s = s"
  by (simp_all add: no_space list_all_not_space_trim)

lemma no_space_nonempty [simp]: "\<not> HASH_HEX_PATTERN []" "\<not> PERMISSION_PATTERN []" "\<not> DID_PATTERN []"
  using no_space by blast+

lemma consent_members_simps [simp]:
  "member (consent_members c) ''version'' = JStr (pc_version c)"
  "member (consent_members c) ''subject'' = JStr (pc_subject c)"
  "member (consent_members c) ''grantee'' = JStr (pc_grantee c)"
  "member (consent_members c) ''action'' = JStr (pc_action c)"
  "member (consent_members c) ''scope'' = JArr (map entry_value (pc_scope c))"
  "member (consent_members c) ''permissions'' = JArr (map JStr (pc_permissions c))"
  "member (consent_members c) ''issued_at'' = JStr (pc_issued_at c)"
  "member (consent_members c) ''expires_at'' = text_or_null (pc_expires_at c)"
  "member (consent_members c) ''prior_consent'' = text_or_null (pc_prior_consent c)"
  "member (consent_members c) ''consent_hash'' = JStr (pc_consent_hash c)"
  by (simp_all add: consent_members_def)

lemma consent_parse_members:
  "(\<exists>rec. parseConsent env (JObj (consent_members c)) = Inr rec) \<longleftrightarrow>
     trim (pc_subject c) \<noteq> [] \<and> trim (pc_grantee c) \<noteq> [] \<and> pc_action c \<in> {''grant'', ''revoke''} \<and>
     pc_scope c \<noteq> [] \<and> (\<forall>e \<in> set (pc_scope c). trim (se_ref e) \<noteq> []) \<and>
     pc_permissions c \<noteq> [] \<and> (\<forall>p \<in> set (pc_permissions c). trim p \<noteq> []) \<and>
     date_parse (e_date env) (pc_issued_at c) \<noteq> None \<and> trim (pc_consent_hash c) \<noteq> []"
proof -
  have entry: "consent_parse_entry i (entry_value e) = None \<longleftrightarrow> trim (se_ref e) \<noteq> []" for i e
    by (simp add: consent_parse_entry_def entry_value_def consent_parseStringField_def)
  have scope: "consent_parseScope (consent_members c) = None \<longleftrightarrow>
      pc_scope c \<noteq> [] \<and> (\<forall>e \<in> set (pc_scope c). trim (se_ref e) \<noteq> [])"
    by (auto simp: consent_parseScope_def as_nonempty_array_def check_each_returns entry all_set_conv_all_nth)
  have perms: "consent_parsePermissions (consent_members c) = None \<longleftrightarrow>
      pc_permissions c \<noteq> [] \<and> (\<forall>p \<in> set (pc_permissions c). trim p \<noteq> [])"
    by (auto simp: consent_parsePermissions_def as_nonempty_array_def check_each_returns consent_parse_permission_def
        all_set_conv_all_nth)
  show ?thesis
    by (auto simp: parseConsent_def consent_parseNonEmpty_def consent_parseStringField_def consent_parseDateField_def
        scope perms)
qed

lemma validateConsent_valid: "validateConsent env c = [] \<longleftrightarrow> consent_wf env c"
proof -
  have split: "validateConsent env c = [] \<longleftrightarrow> (\<exists>rec. parseConsent env (JObj (consent_members c)) = Inr rec) \<and>
      VERSION_PATTERN (pc_version c) \<and> DID_PATTERN (pc_subject c) \<and> DID_PATTERN (pc_grantee c) \<and>
      pc_action c \<in> {''grant'', ''revoke''} \<and> ISO8601_UTC_PATTERN (pc_issued_at c) \<and> HASH_HEX_PATTERN (pc_consent_hash c) \<and>
      length (pc_scope c) \<le> pc_MAX_SCOPE_ENTRIES \<and> pc_scope_errors 0 {} (pc_scope c) = [] \<and>
      length (pc_permissions c) \<le> pc_MAX_PERMISSIONS \<and> pc_permission_errors 0 {} (pc_permissions c) = [] \<and>
      pc_time_errors c = [] \<and> pc_action_errors c = []"
    by (auto simp: validateConsent_def split: sum.splits)
  have time: "pc_time_errors c = [] \<longleftrightarrow>
      (\<forall>e. pc_expires_at c = Some e \<longrightarrow> ISO8601_UTC_PATTERN e \<and> pc_issued_at c < e) \<and>
      (\<forall>p. pc_prior_consent c = Some p \<longrightarrow> HASH_HEX_PATTERN p)"
    by (auto simp: pc_time_errors_def not_le split: option.splits)
  have act: "pc_action c \<in> {''grant'', ''revoke''} \<and> pc_action_errors c = [] \<longleftrightarrow>
      (pc_action c = ''grant'' \<and> pc_revoke_target c = None \<or>
       pc_action c = ''revoke'' \<and> (\<exists>h. pc_revoke_target c = Some h \<and> HASH_HEX_PATTERN h) \<and> pc_expires_at c = None)"
    by (auto simp: pc_action_errors_def split: option.splits)
  have ne: "DID_PATTERN x \<Longrightarrow> trim x \<noteq> []" "HASH_HEX_PATTERN x \<Longrightarrow> trim x \<noteq> []" "PERMISSION_PATTERN x \<Longrightarrow> trim x \<noteq> []" for x
    by auto
  show ?thesis
    unfolding split consent_parse_members time pc_scope_errors_nil pc_permission_errors_nil consent_wf_def
    using act ne by (auto simp: list_all_iff valid_entry_def)
qed

text \<open>When a consent is active.\<close>

definition consent_current :: "host_env \<Rightarrow> ProtocolConsent \<Rightarrow> js_date \<Rightarrow> bool" where
  "consent_current env c now \<longleftrightarrow>
     (\<exists>i. date_parse (e_date env) (pc_issued_at c) = Some i \<and> \<not> date_gt (Some i) now) \<and>
     (\<forall>e. pc_expires_at c = Some e \<longrightarrow>
        (\<exists>x. date_parse (e_date env) e = Some x \<and> \<not> date_le (Some x) now))"

lemma consent_active:
  "cst_state (evaluateConsentState env c now port clock) = ConsentActive \<longleftrightarrow>
     consent_wf env c \<and> pc_action c = ''grant'' \<and> port_clears (resolveConsentRevocationStatus c port clock) \<and>
     consent_current env c (given_or_clock now clock)"
  unfolding evaluateConsentState_def Let_def consent_state_def consent_current_def port_clears_def
  by (auto simp: validateConsent_valid [symmetric] split: option.splits)

end
