(* ===== verification/ProtocolCapability.thy ===== *)
theory ProtocolCapability
  imports ProtocolConsent
begin

text \<open>
  \<open>protocol/capability/\<close>: parsing, hashing, minting and verification of capabilities, their state at a
  time under a revocation port, and the access they give.
\<close>

record ProtocolCapability =
  cap_capability_hash :: string
  cap_parent_consent_hash :: string
  cap_subject :: string
  cap_grantee :: string
  cap_scope :: "ScopeEntry list"
  cap_permissions :: "string list"
  cap_issued_at :: string
  cap_expires_at :: string
  cap_not_before :: "string option"
  cap_marketMakerId :: "string option"
  cap_metadata :: "(string \<times> js) list option"

definition capability_members :: "ProtocolCapability \<Rightarrow> (string \<times> js) list" where
  "capability_members c =
     [(''capability_hash'', JStr (cap_capability_hash c)), (''parent_consent_hash'', JStr (cap_parent_consent_hash c)),
      (''subject'', JStr (cap_subject c)), (''grantee'', JStr (cap_grantee c)),
      (''scope'', JArr (map entry_value (cap_scope c))), (''permissions'', JArr (map JStr (cap_permissions c))),
      (''issued_at'', JStr (cap_issued_at c)), (''expires_at'', JStr (cap_expires_at c))] @
     opt_entry ''not_before'' (map_option JStr (cap_not_before c)) @
     opt_entry ''marketMakerId'' (map_option JStr (cap_marketMakerId c)) @
     opt_entry ''metadata'' (map_option JObj (cap_metadata c))"

subsection \<open>Parsing\<close>

definition cap_parseStringField :: "(string \<times> js) list \<Rightarrow> string \<Rightarrow> string throws" where
  "cap_parseStringField rec f = as_text (''Capability field '' @ quoted f @ '' must be a string.'') (member rec f)"

definition cap_parseDateField :: "(string \<times> js) list \<Rightarrow> string \<Rightarrow> string throws" where
  "cap_parseDateField rec f =
     bind_throws (cap_parseStringField rec f) (\<lambda>s.
       and_return (throw_if (\<not> ISO8601_UTC_PATTERN s)
         (''Capability field '' @ quoted f @ '' must be ISO8601 UTC with second precision.'')) s)"

definition cap_parse_entry :: "nat \<times> js \<Rightarrow> ScopeEntry throws" where
  "cap_parse_entry p =
     (case p of (i, entry) \<Rightarrow>
        bind_throws (as_object (''Capability scope entry '' @ show_nat i @ '' must be a JSON object.'') entry) (\<lambda>rec.
        bind_throws (cap_parseStringField rec ''type'') (\<lambda>ty.
        bind_throws (cap_parseStringField rec ''ref'') (\<lambda>rf.
          and_return
            (first_throw
              [throw_if (ty \<notin> set VALID_SCOPE_TYPES) (''Capability scope entry '' @ show_nat i @ '' has invalid type.''),
               throw_if (\<not> HASH_HEX_PATTERN (to_lower (trim rf)))
                 (''Capability scope entry '' @ show_nat i @ '' ref must be 64 lowercase hex.'')])
            \<lparr>se_type = ty, se_ref = to_lower (trim rf)\<rparr>))))"

definition cap_parseScope :: "(string \<times> js) list \<Rightarrow> ScopeEntry list throws" where
  "cap_parseScope rec =
     bind_throws (as_nonempty_array ''Capability field \"scope\" must be a non-empty array.'' (member rec ''scope''))
       (\<lambda>scope. collect (map cap_parse_entry (enumerate 0 scope)))"

definition cap_parse_permission :: "nat \<times> js \<Rightarrow> string throws" where
  "cap_parse_permission p =
     (case p of (i, permission) \<Rightarrow>
        bind_throws (as_text (''Capability permission '' @ show_nat i @ '' must be a string.'') permission) (\<lambda>s.
          and_return (throw_if (\<not> PERMISSION_PATTERN (to_lower (trim s)))
              (''Capability permission '' @ show_nat i @ '' must be lowercase alphanumeric with hyphens.''))
            (to_lower (trim s))))"

definition cap_parsePermissions :: "(string \<times> js) list \<Rightarrow> string list throws" where
  "cap_parsePermissions rec =
     bind_throws (as_nonempty_array ''Capability field \"permissions\" must be a non-empty array.'' (member rec ''permissions''))
       (\<lambda>permissions. collect (map cap_parse_permission (enumerate 0 permissions)))"

definition cap_normalizeScope :: "(string \<Rightarrow> string \<Rightarrow> int) \<Rightarrow> ScopeEntry list \<Rightarrow> ScopeEntry list" where
  "cap_normalizeScope localeCompare scope = sort_by (by_type_and_ref localeCompare) scope"

definition uniqueStrings :: "string list \<Rightarrow> string list" where
  "uniqueStrings values = rev (remdups (rev values))"

definition cap_parse_not_before :: "js \<Rightarrow> string throws" where
  "cap_parse_not_before v =
     (case v of
        JStr s \<Rightarrow> and_return (throw_if (\<not> ISO8601_UTC_PATTERN s)
                    ''Capability not_before must be ISO8601 UTC with second precision.'') s
      | _ \<Rightarrow> Inl ''Capability not_before must be ISO8601 UTC with second precision.'')"

definition cap_parse_marketMakerId :: "js \<Rightarrow> string throws" where
  "cap_parse_marketMakerId v =
     (case v of
        JStr s \<Rightarrow> and_return (throw_if (trim s = [])
                    ''Capability marketMakerId must be a non-empty string when provided.'') (trim s)
      | _ \<Rightarrow> Inl ''Capability marketMakerId must be a non-empty string when provided.'')"

definition parseCapability :: "host_env \<Rightarrow> js \<Rightarrow> ProtocolCapability throws" where
  "parseCapability env i =
     bind_throws (as_object ''Capability must be a non-null JSON object.'' i) (\<lambda>rec.
     bind_throws (cap_parseStringField rec ''capability_hash'') (\<lambda>h0.
     bind_throws (cap_parseStringField rec ''parent_consent_hash'') (\<lambda>p0.
     bind_throws (cap_parseStringField rec ''subject'') (\<lambda>subject.
     bind_throws (cap_parseStringField rec ''grantee'') (\<lambda>grantee.
     bind_throws (cap_parseDateField rec ''issued_at'') (\<lambda>issued.
     bind_throws (cap_parseDateField rec ''expires_at'') (\<lambda>expires.
     let h = to_lower (trim h0); p = to_lower (trim p0) in
     and_then
       (first_throw
         [throw_if (\<not> HASH_HEX_PATTERN h) ''Capability capability_hash must be 64 lowercase hex.'',
          throw_if (\<not> HASH_HEX_PATTERN p) ''Capability parent_consent_hash must be 64 lowercase hex.'',
          throw_if (\<not> DID_PATTERN (trim subject)) ''Capability subject must be a valid DID.'',
          throw_if (\<not> DID_PATTERN (trim grantee)) ''Capability grantee must be a valid DID.''])
     (bind_throws (cap_parseScope rec) (\<lambda>scope.
     bind_throws (cap_parsePermissions rec) (\<lambda>permissions.
     bind_throws (if_defined (member rec ''not_before'') cap_parse_not_before) (\<lambda>nb.
     bind_throws (if_defined (member rec ''marketMakerId'') cap_parse_marketMakerId) (\<lambda>mm.
     bind_throws (if_defined (member rec ''metadata'')
                    (as_object ''Capability metadata must be a JSON object when provided.'')) (\<lambda>meta.
       Inr \<lparr>cap_capability_hash = h, cap_parent_consent_hash = p, cap_subject = trim subject, cap_grantee = trim grantee,
            cap_scope = cap_normalizeScope (e_cmp env) scope, cap_permissions = sort (uniqueStrings permissions),
            cap_issued_at = issued, cap_expires_at = expires, cap_not_before = nb, cap_marketMakerId = mm,
            cap_metadata = meta\<rparr>)))))))))))))"

subsection \<open>The hash\<close>

definition toCanonicalCapabilityHashPayload :: "(string \<Rightarrow> string \<Rightarrow> int) \<Rightarrow> ProtocolCapability \<Rightarrow> js" where
  "toCanonicalCapabilityHashPayload localeCompare c =
     JObj [(''parent_consent_hash'', JStr (cap_parent_consent_hash c)), (''subject'', JStr (cap_subject c)),
           (''grantee'', JStr (cap_grantee c)),
           (''scope'', JArr (map entry_value (cap_normalizeScope localeCompare (cap_scope c)))),
           (''permissions'', JArr (map JStr (sort (cap_permissions c)))),
           (''issued_at'', JStr (cap_issued_at c)), (''expires_at'', JStr (cap_expires_at c)),
           (''not_before'', text_or_null (cap_not_before c)), (''marketMakerId'', text_or_null (cap_marketMakerId c))]"

definition computeCapabilityDeterministicHash :: "host_env \<Rightarrow> ProtocolCapability \<Rightarrow> string throws" where
  "computeCapabilityDeterministicHash env c =
     bind_throws (canonical_bytes (toCanonicalCapabilityHashPayload (e_cmp env) c)) (\<lambda>b. Inr (e_sha env b))"

subsection \<open>Verification\<close>

definition verifyTemporal :: "ProtocolCapability \<Rightarrow> string list" where
  "verifyTemporal c =
     error_if (cap_expires_at c \<le> cap_issued_at c) ''Capability expires_at must be strictly greater than issued_at.'' @
     error_if (case cap_not_before c of None \<Rightarrow> False | Some n \<Rightarrow> n < cap_issued_at c)
       ''Capability not_before cannot be earlier than issued_at.'' @
     error_if (case cap_not_before c of None \<Rightarrow> False | Some n \<Rightarrow> cap_expires_at c \<le> n)
       ''Capability not_before must be earlier than expires_at.''"

text \<open>The errors, or the normalized capability; the hash always exists (\<open>capability_hash_exists\<close>).\<close>

definition verifyCapability :: "host_env \<Rightarrow> js \<Rightarrow> string list + ProtocolCapability" where
  "verifyCapability env i =
     (case parseCapability env i of
        Inl m \<Rightarrow> Inl [m]
      | Inr c \<Rightarrow>
          (let errors = verifyTemporal c @
                 error_if (computeCapabilityDeterministicHash env c \<noteq> Inr (cap_capability_hash c))
                   ''Capability hash integrity mismatch.''
           in if errors \<noteq> [] then Inl errors else Inr c))"

subsection \<open>Minting\<close>

record MintCapabilityInput =
  mi_consent :: js
  mi_requested_scope :: "ScopeEntry list"
  mi_requested_permissions :: "string list"
  mi_issued_at :: string
  mi_expires_at :: "string option"
  mi_not_before :: "string option"
  mi_marketMakerId :: "string option"
  mi_metadata :: "(string \<times> js) list option"

fun consent_state_text :: "ConsentState \<Rightarrow> string" where
  "consent_state_text ConsentActive = ''active''"
| "consent_state_text ConsentExpired = ''expired''"
| "consent_state_text ConsentRevoked = ''revoked''"
| "consent_state_text ConsentRevocationUnknown = ''revocation_unknown''"
| "consent_state_text ConsentInactive = ''inactive''"
| "consent_state_text ConsentInvalid = ''invalid''"

fun join_text :: "string \<Rightarrow> string list \<Rightarrow> string" where
  "join_text sep [] = []"
| "join_text sep [w] = w"
| "join_text sep (w # ws) = w @ sep @ join_text sep ws"

definition assertConsentReady ::
  "host_env \<Rightarrow> js \<Rightarrow> int \<Rightarrow> RevocationCheckPort \<Rightarrow> int \<Rightarrow> ProtocolConsent throws" where
  "assertConsentReady env consent now port clock =
     bind_throws (parseConsent env consent) (\<lambda>parsed.
     bind_throws (normalizeConsent env (JObj parsed)) (\<lambda>normalized.
       let errors = validateConsent env normalized;
           state = cst_state (evaluateConsentState env normalized (Some (Some now)) port clock)
       in and_return
            (first_throw
              [throw_if (errors \<noteq> []) (''Consent is invalid: '' @ join_text '' | '' errors),
               throw_if (state \<noteq> ConsentActive)
                 (''Consent must be ACTIVE to mint capability. Current state: '' @ consent_state_text state @ ''.'')])
            normalized))"

definition assertIsoTimestamp :: "string \<Rightarrow> string \<Rightarrow> checked" where
  "assertIsoTimestamp v fieldName =
     throw_if (\<not> ISO8601_UTC_PATTERN v) (fieldName @ '' must be ISO8601 UTC with second precision.'')"

definition mint_scope :: "(string \<Rightarrow> string \<Rightarrow> int) \<Rightarrow> ScopeEntry list \<Rightarrow> ScopeEntry list" where
  "mint_scope localeCompare es =
     sort_by (\<lambda>a b. localeCompare (scopeKey a) (scopeKey b))
       (map (\<lambda>e. \<lparr>se_type = se_type e, se_ref = to_lower (trim (se_ref e))\<rparr>) es)"

definition mint_permissions :: "string list \<Rightarrow> string list" where
  "mint_permissions ps = sort (uniqueStrings (map (\<lambda>p. to_lower (trim p)) ps))"

definition check_mint_request :: "MintCapabilityInput \<Rightarrow> ProtocolConsent \<Rightarrow> ScopeEntry list \<Rightarrow> string list \<Rightarrow> checked" where
  "check_mint_request i consent scope permissions =
     first_throw
       [throw_if (mi_requested_scope i = []) ''requested_scope must be a non-empty array.'',
        throw_if (mi_requested_permissions i = []) ''requested_permissions must be a non-empty array.'',
        throw_if (\<not> list_all (\<lambda>e. scopeKey e \<in> scopeKey ` set (pc_scope consent)) scope)
          ''requested_scope must be a subset of consent.scope.'',
        throw_if (\<not> list_all (\<lambda>p. p \<in> set (pc_permissions consent)) permissions)
          ''requested_permissions must be a subset of consent.permissions.'',
        throw_if (pc_marketMakerId consent \<noteq> None \<and> mi_marketMakerId i \<noteq> None \<and>
                  mi_marketMakerId i \<noteq> pc_marketMakerId consent)
          ''marketMakerId must match consent.marketMakerId when consent is bound.'',
        throw_if (pc_marketMakerId consent = None \<and> mi_marketMakerId i \<noteq> None)
          ''marketMakerId cannot be introduced if consent is unbound.'']"

definition check_mint_times :: "MintCapabilityInput \<Rightarrow> ProtocolConsent \<Rightarrow> string \<Rightarrow> checked" where
  "check_mint_times i consent expires_at =
     first_throw
       ([assertIsoTimestamp expires_at ''expires_at'',
         throw_if (expires_at \<le> mi_issued_at i) ''expires_at must be strictly greater than issued_at.'',
         throw_if (case pc_expires_at consent of None \<Rightarrow> False | Some e \<Rightarrow> e < expires_at)
           ''expires_at cannot exceed consent.expires_at.''] @
        (case mi_not_before i of
           None \<Rightarrow> []
         | Some n \<Rightarrow>
             [assertIsoTimestamp n ''not_before'',
              throw_if (n < mi_issued_at i) ''not_before cannot be earlier than issued_at.'',
              throw_if (expires_at \<le> n) ''not_before must be earlier than expires_at.'']))"

definition capability_base ::
  "MintCapabilityInput \<Rightarrow> ProtocolConsent \<Rightarrow> ScopeEntry list \<Rightarrow> string list \<Rightarrow> string \<Rightarrow> ProtocolCapability" where
  "capability_base i consent scope permissions expires_at =
     \<lparr>cap_capability_hash = [], cap_parent_consent_hash = pc_consent_hash consent, cap_subject = pc_subject consent,
      cap_grantee = pc_grantee consent, cap_scope = scope, cap_permissions = permissions,
      cap_issued_at = mi_issued_at i, cap_expires_at = expires_at, cap_not_before = mi_not_before i,
      cap_marketMakerId = pc_marketMakerId consent, cap_metadata = mi_metadata i\<rparr>"

definition mintCapability ::
  "host_env \<Rightarrow> MintCapabilityInput \<Rightarrow> RevocationCheckPort \<Rightarrow> int \<Rightarrow> ProtocolCapability throws" where
  "mintCapability env i port clock =
     and_then (assertIsoTimestamp (mi_issued_at i) ''issued_at'')
       (case date_parse (e_date env) (mi_issued_at i) of
          None \<Rightarrow> Inl ''issued_at must be parseable date.''
        | Some mintNow \<Rightarrow>
            bind_throws (assertConsentReady env (mi_consent i) mintNow port clock) (\<lambda>consent.
              let scope = mint_scope (e_cmp env) (mi_requested_scope i);
                  permissions = mint_permissions (mi_requested_permissions i)
              in and_then (check_mint_request i consent scope permissions)
                   (case (case mi_expires_at i of Some e \<Rightarrow> Some e | None \<Rightarrow> pc_expires_at consent) of
                      None \<Rightarrow> Inl ''expires_at is required when consent.expires_at is null.''
                    | Some expires_at \<Rightarrow>
                        and_then (check_mint_times i consent expires_at)
                          (let base = capability_base i consent scope permissions expires_at in
                           bind_throws (computeCapabilityDeterministicHash env base)
                             (\<lambda>h. Inr (base\<lparr>cap_capability_hash := h\<rparr>))))))"

subsection \<open>State and access\<close>

datatype CapabilityState =
    CapabilityActive | CapabilityExpired | CapabilityNotYetActive | CapabilityRevoked | CapabilityRevocationUnknown
  | CapabilityInvalid

record CapabilityStateResult =
  kst_state :: CapabilityState
  kst_reasons :: "string list"
  kst_revocation :: "port_answer option"

definition capability_state :: "CapabilityState \<Rightarrow> string list \<Rightarrow> port_answer option \<Rightarrow> CapabilityStateResult" where
  "capability_state s rs a = \<lparr>kst_state = s, kst_reasons = rs, kst_revocation = a\<rparr>"

definition resolveCapabilityRevocationStatus :: "ProtocolCapability \<Rightarrow> RevocationCheckPort \<Rightarrow> int \<Rightarrow> port_answer" where
  "resolveCapabilityRevocationStatus c port clock =
     ask_port port \<lparr>sr_subjectId = cap_capability_hash c, sr_subjectType = CapabilityGrant\<rparr> clock"

text \<open>The times are compared as texts, the time of the evaluation with its milliseconds; an invalid \<open>now\<close> throws.\<close>

definition evaluateCapabilityState ::
  "host_env \<Rightarrow> js \<Rightarrow> js_date option \<Rightarrow> RevocationCheckPort \<Rightarrow> int \<Rightarrow> CapabilityStateResult throws" where
  "evaluateCapabilityState env i now port clock =
     (case verifyCapability env i of
        Inl errors \<Rightarrow> Inr (capability_state CapabilityInvalid errors None)
      | Inr c \<Rightarrow>
          (let revocationStatus = resolveCapabilityRevocationStatus c port clock in
           if status_text revocationStatus = ''revoked''
           then Inr (capability_state CapabilityRevoked [''Capability was revoked.''] (Some revocationStatus))
           else if status_text revocationStatus = ''unknown''
           then Inr (capability_state CapabilityRevocationUnknown
                  [''Capability revocation status could not be verified ('' @ answer_error revocationStatus @ '').'']
                  (Some revocationStatus))
           else
             bind_throws (toISOString (given_or_clock now clock)) (\<lambda>at.
               if (case cap_not_before c of None \<Rightarrow> False | Some n \<Rightarrow> at < n)
               then Inr (capability_state CapabilityNotYetActive [''Capability not_before is in the future.'']
                      (Some revocationStatus))
               else if cap_expires_at c \<le> at
               then Inr (capability_state CapabilityExpired [''Capability is expired.''] (Some revocationStatus))
               else Inr (capability_state CapabilityActive [] (Some revocationStatus)))))"

record CapabilityAccessRequest =
  kar_scope :: "ScopeEntry list"
  kar_permissions :: "string list"
  kar_subject :: "string option"
  kar_grantee :: "string option"
  kar_marketMakerId :: "string option"
  kar_now :: "js_date option"

definition capability_grants :: "ProtocolCapability \<Rightarrow> CapabilityAccessRequest \<Rightarrow> bool" where
  "capability_grants c q \<longleftrightarrow>
     \<not> differs (kar_subject q) (cap_subject c) \<and> \<not> differs (kar_grantee q) (cap_grantee c) \<and>
     \<not> (kar_marketMakerId q \<noteq> None \<and> kar_marketMakerId q \<noteq> cap_marketMakerId c) \<and>
     list_all (\<lambda>e. trim (se_ref e) \<noteq> [] \<and>
        scopeKey \<lparr>se_type = se_type e, se_ref = to_lower (trim (se_ref e))\<rparr> \<in> scopeKey ` set (cap_scope c)) (kar_scope q) \<and>
     list_all (\<lambda>p. trim p \<noteq> [] \<and> to_lower (trim p) \<in> set (cap_permissions c)) (kar_permissions q)"

definition protocol_evaluateCapabilityAccess ::
  "host_env \<Rightarrow> js \<Rightarrow> CapabilityAccessRequest \<Rightarrow> RevocationCheckPort \<Rightarrow> int \<Rightarrow> bool throws" where
  "protocol_evaluateCapabilityAccess env i q port clock =
     bind_throws (evaluateCapabilityState env i (kar_now q) port clock) (\<lambda>state.
       if kst_state state \<noteq> CapabilityActive then Inr False
       else if kar_scope q = [] then Inr False
       else if kar_permissions q = [] then Inr False
       else
         (case verifyCapability env i of
            Inl errors \<Rightarrow> Inr False
          | Inr c \<Rightarrow> Inr (capability_grants c q)))"

subsection \<open>Well-formed capabilities\<close>

definition cap_wf :: "ProtocolCapability \<Rightarrow> bool" where
  "cap_wf c \<longleftrightarrow>
     HASH_HEX_PATTERN (cap_capability_hash c) \<and> HASH_HEX_PATTERN (cap_parent_consent_hash c) \<and>
     DID_PATTERN (cap_subject c) \<and> DID_PATTERN (cap_grantee c) \<and>
     ISO8601_UTC_PATTERN (cap_issued_at c) \<and> ISO8601_UTC_PATTERN (cap_expires_at c) \<and>
     cap_scope c \<noteq> [] \<and> list_all valid_entry (cap_scope c) \<and>
     cap_permissions c \<noteq> [] \<and> list_all PERMISSION_PATTERN (cap_permissions c) \<and>
     (\<forall>n. cap_not_before c = Some n \<longrightarrow> ISO8601_UTC_PATTERN n) \<and>
     (\<forall>m. cap_marketMakerId c = Some m \<longrightarrow> m \<noteq> [] \<and> trim m = m)"

lemma set_uniqueStrings [simp]: "set (uniqueStrings ps) = set ps"
  by (simp add: uniqueStrings_def)

lemma distinct_uniqueStrings [simp]: "distinct (uniqueStrings ps)"
  by (simp add: uniqueStrings_def)

lemma uniqueStrings_distinct [simp]: "distinct ps \<Longrightarrow> uniqueStrings ps = ps"
  by (simp add: uniqueStrings_def distinct_remdups_id)

lemma list_all_same_set: "set xs = set ys \<Longrightarrow> list_all P xs = list_all P ys"
  by (simp add: list_all_iff)

lemma to_lower_patterns [simp]:
  "HASH_HEX_PATTERN s \<Longrightarrow> to_lower s = s" "PERMISSION_PATTERN s \<Longrightarrow> to_lower s = s"
  by (auto simp: HASH_HEX_PATTERN_def PERMISSION_PATTERN_def list_all_iff to_lower_def lower_char_def Let_def is_hex_def
      kebab_char_def is_digit_def is_lower_def char_code_def intro!: map_idI)

lemma collect_enumerate:
  "collect (map f (enumerate n vs)) = Inr xs \<longleftrightarrow>
     length xs = length vs \<and> (\<forall>k < length vs. f (n + k, vs ! k) = Inr (xs ! k))"
  by (auto simp: collect_Inr list_eq_iff_nth_eq nth_enumerate_eq)

lemma cap_parse_entry_Inr:
  "cap_parse_entry (i, v) = Inr e \<longleftrightarrow>
     (\<exists>kvs ty rf. v = JObj kvs \<and> member kvs ''type'' = JStr ty \<and> member kvs ''ref'' = JStr rf \<and>
        e = \<lparr>se_type = ty, se_ref = to_lower (trim rf)\<rparr> \<and> valid_entry e)"
  by (auto simp: cap_parse_entry_def cap_parseStringField_def valid_entry_def)

lemma cap_parse_permission_Inr:
  "cap_parse_permission (i, v) = Inr p \<longleftrightarrow> (\<exists>s. v = JStr s \<and> p = to_lower (trim s) \<and> PERMISSION_PATTERN p)"
  by (auto simp: cap_parse_permission_def)

lemma cap_parse_entry_value: "valid_entry e \<Longrightarrow> cap_parse_entry (i, entry_value e) = Inr e"
  by (cases e) (simp add: cap_parse_entry_Inr entry_value_def valid_entry_def)

lemma cap_parse_permission_value: "PERMISSION_PATTERN p \<Longrightarrow> cap_parse_permission (i, JStr p) = Inr p"
  by (simp add: cap_parse_permission_Inr)

lemma if_defined_Inr:
  "if_defined v f = Inr x \<longleftrightarrow> (v = JUndefined \<and> x = None) \<or> (v \<noteq> JUndefined \<and> (\<exists>y. f v = Inr y \<and> x = Some y))"
  by (auto simp: if_defined_def)

lemma parseCapability_wf:
  assumes "parseCapability env i = Inr c"
  shows "cap_wf c" "\<exists>es. list_all valid_entry es \<and> cap_scope c = cap_normalizeScope (e_cmp env) es"
    "\<exists>ps. cap_permissions c = sort (uniqueStrings ps)"
proof -
  obtain rec es ps where r: "cap_parseScope rec = Inr es" "cap_parsePermissions rec = Inr ps"
    "cap_scope c = cap_normalizeScope (e_cmp env) es" "cap_permissions c = sort (uniqueStrings ps)"
    "HASH_HEX_PATTERN (cap_capability_hash c)" "HASH_HEX_PATTERN (cap_parent_consent_hash c)"
    "DID_PATTERN (cap_subject c)" "DID_PATTERN (cap_grantee c)"
    "ISO8601_UTC_PATTERN (cap_issued_at c)" "ISO8601_UTC_PATTERN (cap_expires_at c)"
    "if_defined (member rec ''not_before'') cap_parse_not_before = Inr (cap_not_before c)"
    "if_defined (member rec ''marketMakerId'') cap_parse_marketMakerId = Inr (cap_marketMakerId c)"
    using assms by (auto simp: parseCapability_def Let_def cap_parseDateField_def)
  have es: "es \<noteq> []" "list_all valid_entry es"
    using r(1) by (auto simp: cap_parseScope_def collect_enumerate cap_parse_entry_Inr list_all_length)
  have ps: "ps \<noteq> []" "list_all PERMISSION_PATTERN ps"
    using r(2) by (auto simp: cap_parsePermissions_def collect_enumerate cap_parse_permission_Inr list_all_length)
  have "set (cap_scope c) = set es" "set (cap_permissions c) = set ps" by (simp_all add: r cap_normalizeScope_def)
  then have sets: "cap_scope c \<noteq> []" "list_all valid_entry (cap_scope c)" "cap_permissions c \<noteq> []"
    "list_all PERMISSION_PATTERN (cap_permissions c)"
    using es ps by (auto simp: list_all_iff simp flip: set_empty)
  have "ISO8601_UTC_PATTERN n" if "cap_not_before c = Some n" for n
    using r(11) that by (auto simp: if_defined_Inr cap_parse_not_before_def split: js.splits)
  moreover have "m \<noteq> [] \<and> trim m = m" if "cap_marketMakerId c = Some m" for m
    using r(12) that by (auto simp: if_defined_Inr cap_parse_marketMakerId_def split: js.splits)
  ultimately show "cap_wf c" using r sets by (simp add: cap_wf_def)
  show "\<exists>es. list_all valid_entry es \<and> cap_scope c = cap_normalizeScope (e_cmp env) es"
    "\<exists>ps. cap_permissions c = sort (uniqueStrings ps)"
    using r es by blast+
qed

lemma capability_members_simps [simp]:
  "member (capability_members c) ''capability_hash'' = JStr (cap_capability_hash c)"
  "member (capability_members c) ''parent_consent_hash'' = JStr (cap_parent_consent_hash c)"
  "member (capability_members c) ''subject'' = JStr (cap_subject c)"
  "member (capability_members c) ''grantee'' = JStr (cap_grantee c)"
  "member (capability_members c) ''scope'' = JArr (map entry_value (cap_scope c))"
  "member (capability_members c) ''permissions'' = JArr (map JStr (cap_permissions c))"
  "member (capability_members c) ''issued_at'' = JStr (cap_issued_at c)"
  "member (capability_members c) ''expires_at'' = JStr (cap_expires_at c)"
  "member (capability_members c) ''not_before'' = (case cap_not_before c of None \<Rightarrow> JUndefined | Some n \<Rightarrow> JStr n)"
  "member (capability_members c) ''marketMakerId'' = (case cap_marketMakerId c of None \<Rightarrow> JUndefined | Some n \<Rightarrow> JStr n)"
  "member (capability_members c) ''metadata'' = (case cap_metadata c of None \<Rightarrow> JUndefined | Some n \<Rightarrow> JObj n)"
  by (simp_all add: capability_members_def split: option.splits)

lemma parse_members:
  assumes "cap_wf c"
  shows "parseCapability env (JObj (capability_members c)) =
    Inr (c\<lparr>cap_scope := cap_normalizeScope (e_cmp env) (cap_scope c),
           cap_permissions := sort (uniqueStrings (cap_permissions c))\<rparr>)"
proof -
  have scope: "cap_parseScope (capability_members c) = Inr (cap_scope c)"
    using assms
    by (auto simp: cap_wf_def cap_parseScope_def as_nonempty_array_def collect_enumerate cap_parse_entry_value list_all_length)
  have perms: "cap_parsePermissions (capability_members c) = Inr (cap_permissions c)"
    using assms
    by (auto simp: cap_wf_def cap_parsePermissions_def as_nonempty_array_def collect_enumerate cap_parse_permission_value
        list_all_length)
  have nb: "if_defined (member (capability_members c) ''not_before'') cap_parse_not_before = Inr (cap_not_before c)"
    using assms by (auto simp: cap_wf_def if_defined_def cap_parse_not_before_def split: option.splits)
  have mm: "if_defined (member (capability_members c) ''marketMakerId'') cap_parse_marketMakerId = Inr (cap_marketMakerId c)"
    using assms by (auto simp: cap_wf_def if_defined_def cap_parse_marketMakerId_def split: option.splits)
  have meta: "if_defined (member (capability_members c) ''metadata'')
      (as_object ''Capability metadata must be a JSON object when provided.'') = Inr (cap_metadata c)"
    by (auto simp: if_defined_def as_object_def split: option.splits)
  show ?thesis
    using assms nb mm meta scope perms unfolding parseCapability_def
    by (cases c) (simp add: cap_parseStringField_def cap_parseDateField_def Let_def cap_wf_def)
qed

subsection \<open>Verification accepts what it returns\<close>

lemma insort_by_first: "\<forall>y \<in> set ys. cmp x y \<le> 0 \<Longrightarrow> insort_by cmp x ys = x # ys"
  by (cases ys) simp_all

lemma sort_by_id: "sorted_wrt (\<lambda>a b. cmp a b \<le> 0) xs \<Longrightarrow> sort_by cmp xs = xs"
  by (induction xs) (simp_all add: sort_by_def insort_by_first)

lemma sort_by_twice: "total_on_by cmp (set xs) \<Longrightarrow> sort_by cmp (sort_by cmp xs) = sort_by cmp xs"
  by (rule sort_by_id [OF sort_by_sorted])

definition ordered_scope :: "host_env \<Rightarrow> ScopeEntry list \<Rightarrow> bool" where
  "ordered_scope env es \<longleftrightarrow> total_on_by (by_type_and_ref (e_cmp env)) (set es)"

lemma normalizeScope_twice:
  "ordered_scope env es \<Longrightarrow>
     cap_normalizeScope (e_cmp env) (cap_normalizeScope (e_cmp env) es) = cap_normalizeScope (e_cmp env) es"
  by (simp add: ordered_scope_def cap_normalizeScope_def sort_by_twice)

lemma capability_hash_exists: "\<exists>h. computeCapabilityDeterministicHash env c = Inr h"
proof -
  have "json_ok (toCanonicalCapabilityHashPayload (e_cmp env) c)"
    by (auto simp: toCanonicalCapabilityHashPayload_def entry_value_def list_all_iff text_or_null_def split: option.splits)
  then show ?thesis
    using canonicalizeJSON_accepts by (auto simp: computeCapabilityDeterministicHash_def canonical_bytes_def)
qed

lemma hash_of_payload:
  assumes "toCanonicalCapabilityHashPayload (e_cmp env) c = toCanonicalCapabilityHashPayload (e_cmp env) d"
  shows "computeCapabilityDeterministicHash env c = computeCapabilityDeterministicHash env d"
  by (simp add: computeCapabilityDeterministicHash_def assms)

definition times_ordered :: "ProtocolCapability \<Rightarrow> bool" where
  "times_ordered c \<longleftrightarrow> cap_issued_at c < cap_expires_at c \<and>
     (\<forall>n. cap_not_before c = Some n \<longrightarrow> cap_issued_at c \<le> n \<and> n < cap_expires_at c)"

lemma verifyTemporal_nil: "verifyTemporal c = [] \<longleftrightarrow> times_ordered c"
  by (auto simp: verifyTemporal_def times_ordered_def not_le not_less split: option.splits)

lemma verifyCapability_Inr:
  "verifyCapability env i = Inr c \<longleftrightarrow>
     parseCapability env i = Inr c \<and> times_ordered c \<and>
     computeCapabilityDeterministicHash env c = Inr (cap_capability_hash c)"
  by (auto simp: verifyCapability_def verifyTemporal_nil [symmetric] Let_def split: sum.splits)

lemma capability_update_same:
  "cap_scope c = es \<Longrightarrow> cap_permissions c = ps \<Longrightarrow> c\<lparr>cap_scope := es, cap_permissions := ps\<rparr> = c"
  by (cases c) simp

lemma verify_again:
  assumes "verifyCapability env i = Inr c" "ordered_scope env (cap_scope c)"
  shows "verifyCapability env (JObj (capability_members c)) = Inr c"
proof -
  note v = assms(1) [unfolded verifyCapability_Inr]
  have wf: "cap_wf c" using parseCapability_wf(1) v by blast
  obtain es where es: "cap_scope c = cap_normalizeScope (e_cmp env) es" using parseCapability_wf(2) v by blast
  obtain ps where ps: "cap_permissions c = sort (uniqueStrings ps)" using parseCapability_wf(3) v by blast
  have "ordered_scope env es" using assms(2) by (simp add: es ordered_scope_def cap_normalizeScope_def)
  then have "cap_normalizeScope (e_cmp env) (cap_scope c) = cap_scope c" by (simp add: es normalizeScope_twice)
  moreover have "sort (uniqueStrings (cap_permissions c)) = cap_permissions c" by (simp add: ps sorted_sort_id)
  ultimately have "parseCapability env (JObj (capability_members c)) = Inr c"
    using parse_members [OF wf, of env] by (simp add: capability_update_same)
  with v show ?thesis by (simp add: verifyCapability_Inr)
qed

subsection \<open>Minting\<close>

text \<open>What minting promises: the capability is contained in its consent.\<close>

definition contained_in :: "ProtocolCapability \<Rightarrow> ProtocolConsent \<Rightarrow> bool" where
  "contained_in c consent \<longleftrightarrow>
     cap_parent_consent_hash c = pc_consent_hash consent \<and> cap_subject c = pc_subject consent \<and>
     cap_grantee c = pc_grantee consent \<and> set (cap_scope c) \<subseteq> set (pc_scope consent) \<and>
     set (cap_permissions c) \<subseteq> set (pc_permissions consent) \<and> cap_marketMakerId c = pc_marketMakerId consent \<and>
     (\<forall>e. pc_expires_at consent = Some e \<longrightarrow> cap_expires_at c \<le> e)"

lemma scopeKey_valid: "valid_entry e \<Longrightarrow> scopeKey d = scopeKey e \<Longrightarrow> d = e"
proof -
  assume v: "valid_entry e" and k: "scopeKey d = scopeKey e"
  have free: "CHR '':'' \<notin> set (se_type e)" "CHR '':'' \<notin> set (se_ref e)"
    using v by (auto simp: valid_entry_def HASH_HEX_PATTERN_def list_all_iff is_hex_def is_digit_def char_code_def)
  have e: "split_on CHR '':'' (scopeKey e) = [se_type e, se_ref e]"
    using free by (simp add: scopeKey_def split_on_prefix split_on_single)
  have "count_list (scopeKey e) CHR '':'' = 1" using free by (simp add: scopeKey_def count_list_0_iff)
  then have "count_list (scopeKey d) CHR '':'' = 1" unfolding k .
  then have "count_list (se_type d) CHR '':'' = 0" "count_list (se_ref d) CHR '':'' = 0"
    by (simp_all add: scopeKey_def)
  then have "CHR '':'' \<notin> set (se_type d)" "CHR '':'' \<notin> set (se_ref d)"
    by (simp_all add: count_list_0_iff)
  then have "split_on CHR '':'' (scopeKey d) = [se_type d, se_ref d]"
    by (simp add: scopeKey_def split_on_prefix split_on_single)
  then have "[se_type d, se_ref d] = [se_type e, se_ref e]" by (simp only: k e)
  then show "d = e" by simp
qed

lemma assertConsentReady_Inr:
  "assertConsentReady env v now port clock = Inr consent \<longleftrightarrow>
     normalizeConsent env v = Inr consent \<and> consent_wf env consent \<and> pc_action consent = ''grant'' \<and>
     port_clears (resolveConsentRevocationStatus consent port clock) \<and> consent_current env consent (Some now)"
proof -
  have again: "normalizeConsent env (JObj rec) = normalizeConsent env v" if "parseConsent env v = Inr rec" for rec
  proof -
    have "v = JObj rec" using that by (auto simp: parseConsent_def)
    then show ?thesis by simp
  qed
  have "normalizeConsent env v = Inr consent \<Longrightarrow> \<exists>rec. parseConsent env v = Inr rec"
    by (auto simp: normalizeConsent_def)
  then show ?thesis
    using again
    by (auto simp: assertConsentReady_def Let_def validateConsent_valid consent_active given_or_clock_def)
qed

lemma mint_Inr:
  assumes "mintCapability env i port clock = Inr c"
  obtains mintNow consent where
    "date_parse (e_date env) (mi_issued_at i) = Some mintNow" "ISO8601_UTC_PATTERN (mi_issued_at i)"
    "normalizeConsent env (mi_consent i) = Inr consent" "consent_wf env consent" "pc_action consent = ''grant''"
    "port_clears (resolveConsentRevocationStatus consent port clock)" "consent_current env consent (Some mintNow)"
    "contained_in c consent" "times_ordered c" "ISO8601_UTC_PATTERN (cap_expires_at c)" "cap_issued_at c = mi_issued_at i"
    "\<forall>n. cap_not_before c = Some n \<longrightarrow> ISO8601_UTC_PATTERN n" "cap_metadata c = mi_metadata i"
    "cap_scope c \<noteq> []" "cap_permissions c = mint_permissions (mi_requested_permissions i)" "cap_permissions c \<noteq> []"
    "computeCapabilityDeterministicHash env c = Inr (cap_capability_hash c)"
proof -
  obtain mintNow consent e h where m: "date_parse (e_date env) (mi_issued_at i) = Some mintNow"
    "ISO8601_UTC_PATTERN (mi_issued_at i)" "assertConsentReady env (mi_consent i) mintNow port clock = Inr consent"
    "check_mint_request i consent (mint_scope (e_cmp env) (mi_requested_scope i))
       (mint_permissions (mi_requested_permissions i)) = None"
    "check_mint_times i consent e = None"
    "computeCapabilityDeterministicHash env (capability_base i consent (mint_scope (e_cmp env) (mi_requested_scope i))
       (mint_permissions (mi_requested_permissions i)) e) = Inr h"
    "c = capability_base i consent (mint_scope (e_cmp env) (mi_requested_scope i))
       (mint_permissions (mi_requested_permissions i)) e\<lparr>cap_capability_hash := h\<rparr>"
    using assms by (auto simp: mintCapability_def Let_def assertIsoTimestamp_def split: option.splits)
  note consent = m(3) [unfolded assertConsentReady_Inr]
  have scope: "set (mint_scope (e_cmp env) (mi_requested_scope i)) \<subseteq> set (pc_scope consent)"
  proof
    fix x assume "x \<in> set (mint_scope (e_cmp env) (mi_requested_scope i))"
    then obtain y where y: "y \<in> set (pc_scope consent)" "scopeKey x = scopeKey y"
      using m(4) by (auto simp: check_mint_request_def list_all_iff)
    then have "valid_entry y" using consent by (auto simp: consent_wf_def list_all_iff)
    with y scopeKey_valid show "x \<in> set (pc_scope consent)" by metis
  qed
  have times: "times_ordered c" "ISO8601_UTC_PATTERN (cap_expires_at c)"
    "\<forall>n. cap_not_before c = Some n \<longrightarrow> ISO8601_UTC_PATTERN n"
    "\<forall>x. pc_expires_at consent = Some x \<longrightarrow> cap_expires_at c \<le> x"
    using m(5) by (auto simp: check_mint_times_def m(7) capability_base_def assertIsoTimestamp_def times_ordered_def not_le not_less
        split: option.splits)
  have "computeCapabilityDeterministicHash env c = Inr (cap_capability_hash c)"
  proof -
    have "toCanonicalCapabilityHashPayload (e_cmp env) c = toCanonicalCapabilityHashPayload (e_cmp env)
        (capability_base i consent (mint_scope (e_cmp env) (mi_requested_scope i)) (mint_permissions (mi_requested_permissions i)) e)"
      by (simp add: m(7) toCanonicalCapabilityHashPayload_def)
    from hash_of_payload [OF this] m(6) show ?thesis by (simp add: m(7))
  qed
  moreover have "contained_in c consent"
    using scope m(4) times(4) by (auto simp: contained_in_def m(7) capability_base_def check_mint_request_def list_all_iff)
  moreover have "cap_scope c \<noteq> []" "cap_permissions c \<noteq> []"
    using m(4) by (auto simp: m(7) capability_base_def check_mint_request_def mint_scope_def mint_permissions_def
        simp flip: set_empty)
  ultimately show ?thesis
    using that [of mintNow consent] m consent times by (simp add: capability_base_def)
qed

text \<open>A minted capability verifies, up to the order of its scope, when its market maker is not the empty text.\<close>

lemma minted_verifies:
  assumes "mintCapability env i port clock = Inr c" "\<And>b. HASH_HEX_PATTERN (e_sha env b)"
    "ordered_scope env (cap_scope c)" "cap_marketMakerId c \<noteq> Some []"
  shows "verifyCapability env (JObj (capability_members c)) =
    Inr (c\<lparr>cap_scope := cap_normalizeScope (e_cmp env) (cap_scope c)\<rparr>)"
  using assms(1)
proof (cases rule: mint_Inr)
  case (1 mintNow consent)
  note wf = 1(4) [unfolded consent_wf_def] and contained = 1(8) [unfolded contained_in_def]
  have mm: "m \<noteq> [] \<and> trim m = m" if "cap_marketMakerId c = Some m" for m
  proof -
    have "pc_marketMakerId consent = Some m" using that contained by simp
    then obtain v where "if_defined v trim_value = Inr (Some m)" using 1(3) by (auto simp: normalizeConsent_def)
    then show ?thesis using assms(4) that by (auto simp: if_defined_Inr)
  qed
  obtain b where "e_sha env b = cap_capability_hash c"
    using 1(17) by (auto simp: computeCapabilityDeterministicHash_def)
  then have "HASH_HEX_PATTERN (cap_capability_hash c)" using assms(2) [of b] by simp
  then have cwf: "cap_wf c"
    unfolding cap_wf_def using 1 wf contained mm by (auto simp: list_all_iff)
  have ps: "sort (uniqueStrings (cap_permissions c)) = cap_permissions c" using 1(15) by (simp add: mint_permissions_def sorted_sort_id)
  let ?d = "c\<lparr>cap_scope := cap_normalizeScope (e_cmp env) (cap_scope c)\<rparr>"
  have d: "parseCapability env (JObj (capability_members c)) = Inr ?d"
    using parse_members [OF cwf, of env] ps by simp
  have "toCanonicalCapabilityHashPayload (e_cmp env) ?d = toCanonicalCapabilityHashPayload (e_cmp env) c"
    by (simp add: toCanonicalCapabilityHashPayload_def normalizeScope_twice [OF assms(3)])
  from hash_of_payload [OF this] have "computeCapabilityDeterministicHash env ?d = Inr (cap_capability_hash ?d)"
    using 1(17) by simp
  then show ?thesis using d 1(9) by (simp add: verifyCapability_Inr times_ordered_def)
qed

subsection \<open>The window of a capability\<close>

text \<open>
  A text with milliseconds and one without differ first at the full stop, which comes before the \<open>Z\<close>: a time
  with milliseconds is less than the timestamp of its own second.
\<close>

lemma iso_millis_less:
  assumes "iso_range t" "iso_range u"
  shows "iso_millis t < iso_seconds u \<longleftrightarrow> t div 1000 \<le> u div 1000"
proof -
  define p where "p x = day_text (x div 86400000) @ ''T'' @ clock_text (x mod 86400000 div 1000)" for x
  have m: "iso_millis x = p x @ ''.'' @ pad_nat 3 (nat (x mod 1000)) @ ''Z''" for x
    by (simp add: iso_millis_def p_def)
  have s: "iso_seconds x = p x @ ''Z''" for x
    by (simp add: iso_seconds_text p_def)
  have len: "length (p t) = length (p u)"
    using assms by (simp add: p_def length_day_text iso_range_day)
  have dot: "CHR ''.'' # v < ''Z''" for v
    by (simp add: char_code_less char_code_def)
  have "iso_millis t < iso_seconds u \<longleftrightarrow> p t < p u \<or> p t = p u"
    using dot by (simp add: m s less_append_same_length [OF len])
  moreover have "p x < p y \<longleftrightarrow> iso_seconds x < iso_seconds y" if "length (p x) = length (p y)" for x y
    by (simp add: s less_append_same_length [OF that])
  then have "p t < p u \<longleftrightarrow> t div 1000 < u div 1000" "p u < p t \<longleftrightarrow> u div 1000 < t div 1000"
    using len iso_seconds_less_iff assms by simp_all
  ultimately show ?thesis by (metis linorder_less_linear not_less order_le_less)
qed

definition before_start :: "ProtocolCapability \<Rightarrow> int \<Rightarrow> bool" where
  "before_start c t \<longleftrightarrow> (\<exists>b. cap_not_before c = Some (iso_seconds b) \<and> iso_range b \<and> t div 1000 \<le> b div 1000)"

lemma capability_state_at:
  assumes "verifyCapability env i = Inr c" "port_clears (resolveCapabilityRevocationStatus c port clock)"
    "iso_range t" "cap_expires_at c = iso_seconds x" "iso_range x"
    "\<And>n. cap_not_before c = Some n \<Longrightarrow> \<exists>b. n = iso_seconds b \<and> iso_range b"
  shows "\<exists>r. evaluateCapabilityState env i (Some (Some t)) port clock = Inr r \<and>
    kst_state r =
      (if before_start c t then CapabilityNotYetActive
       else if t div 1000 \<le> x div 1000 then CapabilityActive else CapabilityExpired)"
proof -
  have early: "(case cap_not_before c of None \<Rightarrow> False | Some n \<Rightarrow> iso_millis t < n) \<longleftrightarrow> before_start c t"
    unfolding before_start_def using assms(6) iso_millis_less [OF assms(3)] by (cases "cap_not_before c") fastforce+
  have late: "cap_expires_at c \<le> iso_millis t \<longleftrightarrow> \<not> t div 1000 \<le> x div 1000"
    using iso_millis_less [OF assms(3,5)] by (simp add: assms(4) not_less [symmetric])
  show ?thesis
    using assms(1,2) early late
    by (simp add: evaluateCapabilityState_def Let_def port_clears_def toISOString_def given_or_clock_def capability_state_def)
qed

lemma capability_active:
  "evaluateCapabilityState env i now port clock = Inr r \<Longrightarrow> kst_state r = CapabilityActive \<longleftrightarrow>
     (\<exists>c t. verifyCapability env i = Inr c \<and> port_clears (resolveCapabilityRevocationStatus c port clock) \<and>
        given_or_clock now clock = Some t \<and> (\<forall>n. cap_not_before c = Some n \<longrightarrow> \<not> iso_millis t < n) \<and>
        iso_millis t < cap_expires_at c)"
  unfolding evaluateCapabilityState_def Let_def port_clears_def
  by (auto simp: capability_state_def toISOString_def not_le not_less split: sum.splits option.splits if_splits)

end
