(* ===== verification/Enforcement.thy ===== *)
theory Enforcement
  imports ProtocolCapability
begin

text \<open>
  \<open>protocol/enforcement/\<close>: parsing of a request, and the decision on it under a revocation port.

  A request is an object: its members as JSON values, and \<open>now\<close>, which is no JSON value.  A request whose
  parse fails is denied; a \<open>now\<close> that gives no time makes the denial itself throw.
\<close>

datatype request_now = NoNow | NullNow | DateNow js_date | OtherNow

record RawRequest =
  raw_members :: "(string \<times> js) list"
  raw_now :: request_now

record EnforcementRequest =
  eq_capability :: js
  eq_requested_scope :: "ScopeEntry list"
  eq_requested_permissions :: "string list"
  eq_subject :: "string option"
  eq_grantee :: "string option"
  eq_marketMakerId :: "string option"
  eq_resource :: "ScopeEntry option option"
  eq_action_context :: "(string \<times> js) list option"
  eq_now :: "int option"

subsection \<open>Parsing\<close>

text \<open>The parsers of the execution requests are the same up to the name in the messages, \<open>what\<close>.\<close>

definition req_nonEmptyString :: "string \<Rightarrow> js \<Rightarrow> string \<Rightarrow> string throws" where
  "req_nonEmptyString what v f =
     (case v of
        JStr s \<Rightarrow> and_return (throw_if (trim s = []) (what @ '' field '' @ quoted f @ '' must be a non-empty string.'')) (trim s)
      | _ \<Rightarrow> Inl (what @ '' field '' @ quoted f @ '' must be a non-empty string.''))"

definition req_scopeEntry :: "nat \<times> js \<Rightarrow> ScopeEntry throws" where
  "req_scopeEntry p =
     (case p of (i, v) \<Rightarrow>
        bind_throws (as_object (''Enforcement scope entry '' @ show_nat i @ '' must be a JSON object.'') v) (\<lambda>rec.
        bind_throws (req_nonEmptyString ''Enforcement'' (member rec ''type'') (''requested_scope['' @ show_nat i @ ''].type'')) (\<lambda>ty.
        bind_throws (req_nonEmptyString ''Enforcement'' (member rec ''ref'') (''requested_scope['' @ show_nat i @ ''].ref'')) (\<lambda>rf.
          and_return (throw_if (ty \<notin> set VALID_SCOPE_TYPES) (''Enforcement scope entry '' @ show_nat i @ '' has invalid type.''))
            \<lparr>se_type = ty, se_ref = to_lower rf\<rparr>))))"

definition parseRequestedScope :: "js \<Rightarrow> ScopeEntry list throws" where
  "parseRequestedScope v =
     bind_throws (as_nonempty_array ''Enforcement field \"requested_scope\" must be a non-empty array.'' v)
       (\<lambda>vs. collect (map req_scopeEntry (enumerate 0 vs)))"

definition req_permission :: "nat \<times> js \<Rightarrow> string throws" where
  "req_permission p =
     (case p of (i, v) \<Rightarrow>
        (case v of
           JStr s \<Rightarrow> and_return (throw_if (trim s = [])
                       (''Enforcement permission '' @ show_nat i @ '' must be a non-empty string.'')) (to_lower (trim s))
         | _ \<Rightarrow> Inl (''Enforcement permission '' @ show_nat i @ '' must be a non-empty string.'')))"

definition parseRequestedPermissions :: "js \<Rightarrow> string list throws" where
  "parseRequestedPermissions v =
     bind_throws (as_nonempty_array ''Enforcement field \"requested_permissions\" must be a non-empty array.'' v)
       (\<lambda>vs. collect (map req_permission (enumerate 0 vs)))"

definition parseOptionalBinding :: "string \<Rightarrow> (string \<times> js) list \<Rightarrow> string \<Rightarrow> string option throws" where
  "parseOptionalBinding what rec f = if_defined (member rec f) (\<lambda>v. req_nonEmptyString what v f)"

definition parseResource :: "string \<Rightarrow> js \<Rightarrow> ScopeEntry option option throws" where
  "parseResource what v =
     if_defined v (\<lambda>w.
       if w = JNull then Inr None
       else
         bind_throws (as_object (what @ '' field \"resource\" must be an object or null when provided.'') w) (\<lambda>rec.
         bind_throws (req_nonEmptyString what (member rec ''type'') ''resource.type'') (\<lambda>ty.
         and_then (throw_if (ty \<notin> set VALID_SCOPE_TYPES) (what @ '' resource.type is invalid.''))
           (bind_throws (req_nonEmptyString what (member rec ''ref'') ''resource.ref'') (\<lambda>rf.
             Inr (Some \<lparr>se_type = ty, se_ref = to_lower rf\<rparr>))))))"

definition parseNow :: "string \<Rightarrow> request_now \<Rightarrow> int option throws" where
  "parseNow what n =
     (case n of
        NoNow \<Rightarrow> Inr None
      | DateNow (Some t) \<Rightarrow> Inr (Some t)
      | _ \<Rightarrow> Inl (what @ '' field \"now\" must be a valid Date when provided.''))"

definition parseActionContext :: "string \<Rightarrow> js \<Rightarrow> (string \<times> js) list option throws" where
  "parseActionContext what v =
     if_defined v (as_object (what @ '' field \"action_context\" must be a JSON object when provided.''))"

definition parseEnforcementRequest :: "RawRequest \<Rightarrow> EnforcementRequest throws" where
  "parseEnforcementRequest q =
     (let rec = raw_members q in
      and_then (throw_if (map_of rec ''capability'' = None) ''Enforcement field \"capability\" is required.'')
      (bind_throws (parseRequestedScope (member rec ''requested_scope'')) (\<lambda>scope.
       bind_throws (parseRequestedPermissions (member rec ''requested_permissions'')) (\<lambda>permissions.
       bind_throws (parseOptionalBinding ''Enforcement'' rec ''subject'') (\<lambda>subject.
       bind_throws (parseOptionalBinding ''Enforcement'' rec ''grantee'') (\<lambda>grantee.
       bind_throws (parseOptionalBinding ''Enforcement'' rec ''marketMakerId'') (\<lambda>mm.
       bind_throws (parseResource ''Enforcement'' (member rec ''resource'')) (\<lambda>resource.
       bind_throws (parseActionContext ''Enforcement'' (member rec ''action_context'')) (\<lambda>ctx.
       bind_throws (parseNow ''Enforcement'' (raw_now q)) (\<lambda>now.
         Inr \<lparr>eq_capability = member rec ''capability'', eq_requested_scope = scope,
              eq_requested_permissions = permissions, eq_subject = subject, eq_grantee = grantee,
              eq_marketMakerId = mm, eq_resource = resource, eq_action_context = ctx, eq_now = now\<rparr>))))))))))"

text \<open>The \<open>Map\<close> keeps the place of the first entry of a key.\<close>

definition dedupeScope :: "(string \<Rightarrow> string \<Rightarrow> int) \<Rightarrow> ScopeEntry list \<Rightarrow> ScopeEntry list" where
  "dedupeScope localeCompare scope =
     sort_by (by_type_and_ref localeCompare) (map snd (fold (\<lambda>e. AList.update (scopeKey e) e) scope []))"

definition normalizeEnforcementRequest :: "host_env \<Rightarrow> EnforcementRequest \<Rightarrow> EnforcementRequest" where
  "normalizeEnforcementRequest env q =
     q\<lparr>eq_requested_scope := dedupeScope (e_cmp env) (eq_requested_scope q),
       eq_requested_permissions := mint_permissions (eq_requested_permissions q)\<rparr>"

subsection \<open>Decisions\<close>

datatype EnforcementReasonCode =
    ENF_CAPABILITY_INVALID | ENF_CAPABILITY_EXPIRED | ENF_CAPABILITY_REVOKED | ENF_CAPABILITY_REVOCATION_UNKNOWN
  | ENF_CAPABILITY_NOT_YET_ACTIVE | ENF_SCOPE_NOT_ALLOWED | ENF_PERMISSION_NOT_ALLOWED | ENF_SUBJECT_MISMATCH | ENF_GRANTEE_MISMATCH
  | ENF_MARKET_MAKER_MISMATCH | ENF_REQUEST_INVALID | ENFORCEMENT_ALLOW

record EnforcementDecision =
  ed_allowed :: bool
  ed_reason_code :: EnforcementReasonCode
  ed_reasons :: "string list"
  ed_evaluated_at :: string
  ed_request :: "EnforcementRequest option"
  ed_capability :: "ProtocolCapability option"
  ed_matched_scope :: "ScopeEntry list option"
  ed_matched_permissions :: "string list option"

fun mapCapabilityStateToReason :: "CapabilityState \<Rightarrow> EnforcementReasonCode" where
  "mapCapabilityStateToReason CapabilityExpired = ENF_CAPABILITY_EXPIRED"
| "mapCapabilityStateToReason CapabilityRevoked = ENF_CAPABILITY_REVOKED"
| "mapCapabilityStateToReason CapabilityRevocationUnknown = ENF_CAPABILITY_REVOCATION_UNKNOWN"
| "mapCapabilityStateToReason CapabilityNotYetActive = ENF_CAPABILITY_NOT_YET_ACTIVE"
| "mapCapabilityStateToReason CapabilityInvalid = ENF_CAPABILITY_INVALID"
| "mapCapabilityStateToReason CapabilityActive = ENFORCEMENT_ALLOW"

text \<open>\<open>now.toISOString()\<close> of the \<open>now\<close> of the request, or of the time of the clock.\<close>

definition buildDecisionTimestamp :: "request_now \<Rightarrow> int \<Rightarrow> string throws" where
  "buildDecisionTimestamp n clock =
     (case n of
        DateNow d \<Rightarrow> toISOString d
      | OtherNow \<Rightarrow> Inl ''date.toISOString is not a function''
      | _ \<Rightarrow> Inr (iso_millis clock))"

record DecisionContext =
  dc_request :: "EnforcementRequest option"
  dc_capability :: "ProtocolCapability option"
  dc_matched_scope :: "ScopeEntry list option"
  dc_matched_permissions :: "string list option"

definition no_context :: DecisionContext where
  "no_context = \<lparr>dc_request = None, dc_capability = None, dc_matched_scope = None, dc_matched_permissions = None\<rparr>"

definition build_decision ::
  "bool \<Rightarrow> EnforcementReasonCode \<Rightarrow> string list \<Rightarrow> string throws \<Rightarrow> DecisionContext \<Rightarrow> EnforcementDecision throws" where
  "build_decision allowed code reasons at ctx =
     bind_throws at (\<lambda>t.
       Inr \<lparr>ed_allowed = allowed, ed_reason_code = code, ed_reasons = reasons, ed_evaluated_at = t,
            ed_request = dc_request ctx, ed_capability = dc_capability ctx, ed_matched_scope = dc_matched_scope ctx,
            ed_matched_permissions = dc_matched_permissions ctx\<rparr>)"

definition buildDenyDecision ::
  "EnforcementReasonCode \<Rightarrow> string list \<Rightarrow> string throws \<Rightarrow> DecisionContext \<Rightarrow> EnforcementDecision throws" where
  "buildDenyDecision = build_decision False"

definition buildAllowDecision :: "string throws \<Rightarrow> DecisionContext \<Rightarrow> EnforcementDecision throws" where
  "buildAllowDecision = build_decision True ENFORCEMENT_ALLOW [''Enforcement checks passed.'']"

fun find_mismatch :: "('a \<Rightarrow> bool) \<Rightarrow> 'a list \<Rightarrow> 'a list \<times> 'a option" where
  "find_mismatch ok [] = ([], None)"
| "find_mismatch ok (x # xs) =
     (if \<not> ok x then ([], Some x) else (case find_mismatch ok xs of (matched, m) \<Rightarrow> (x # matched, m)))"

definition findScopeMismatch :: "EnforcementRequest \<Rightarrow> ScopeEntry list \<Rightarrow> ScopeEntry list \<times> ScopeEntry option" where
  "findScopeMismatch q allowed = find_mismatch (\<lambda>e. scopeKey e \<in> scopeKey ` set allowed) (eq_requested_scope q)"

definition findPermissionMismatch :: "EnforcementRequest \<Rightarrow> string list \<Rightarrow> string list \<times> string option" where
  "findPermissionMismatch q allowed = find_mismatch (\<lambda>p. p \<in> set allowed) (eq_requested_permissions q)"

definition enforcement_access_request :: "EnforcementRequest \<Rightarrow> int \<Rightarrow> CapabilityAccessRequest" where
  "enforcement_access_request q now =
     \<lparr>kar_scope = eq_requested_scope q, kar_permissions = eq_requested_permissions q, kar_subject = eq_subject q,
      kar_grantee = eq_grantee q, kar_marketMakerId = eq_marketMakerId q, kar_now = Some (Some now)\<rparr>"

text \<open>The checks on a verified capability that is active, from the scope on.\<close>

definition enforce_request ::
  "host_env \<Rightarrow> EnforcementRequest \<Rightarrow> ProtocolCapability \<Rightarrow> int \<Rightarrow> string throws \<Rightarrow> RevocationCheckPort \<Rightarrow> int \<Rightarrow>
   EnforcementDecision throws" where
  "enforce_request env q c now at port clock =
     (case findScopeMismatch q (cap_scope c) of (matchedScope, scopeMismatch) \<Rightarrow>
      case findPermissionMismatch q (cap_permissions c) of (matchedPermissions, permissionMismatch) \<Rightarrow>
        let scoped = \<lparr>dc_request = Some q, dc_capability = Some c, dc_matched_scope = Some matchedScope,
                      dc_matched_permissions = None\<rparr>;
            ctx = scoped\<lparr>dc_matched_permissions := Some matchedPermissions\<rparr>
        in if scopeMismatch \<noteq> None
           then buildDenyDecision ENF_SCOPE_NOT_ALLOWED
                  [''Requested scope is not allowed: '' @ scopeKey (the scopeMismatch) @ ''.''] at scoped
           else if permissionMismatch \<noteq> None
           then buildDenyDecision ENF_PERMISSION_NOT_ALLOWED
                  [''Requested permission is not allowed: '' @ the permissionMismatch @ ''.''] at ctx
           else if differs (eq_subject q) (cap_subject c)
           then buildDenyDecision ENF_SUBJECT_MISMATCH [''Request subject does not match capability subject.''] at ctx
           else if differs (eq_grantee q) (cap_grantee c)
           then buildDenyDecision ENF_GRANTEE_MISMATCH [''Request grantee does not match capability grantee.''] at ctx
           else if eq_marketMakerId q \<noteq> None \<and> eq_marketMakerId q \<noteq> cap_marketMakerId c
           then buildDenyDecision ENF_MARKET_MAKER_MISMATCH
                  [''Request market maker binding does not match capability marketMakerId.''] at ctx
           else
             bind_throws (protocol_evaluateCapabilityAccess env (JObj (capability_members c))
                            (enforcement_access_request q now) port clock) (\<lambda>accessAllowed.
               if \<not> accessAllowed
               then buildDenyDecision ENF_REQUEST_INVALID [''Capability access evaluation denied the request.''] at ctx
               else buildAllowDecision at ctx))"

definition evaluateEnforcement ::
  "host_env \<Rightarrow> RawRequest \<Rightarrow> RevocationCheckPort \<Rightarrow> int \<Rightarrow> EnforcementDecision throws" where
  "evaluateEnforcement env request port clock =
     (let at = buildDecisionTimestamp (raw_now request) clock in
      case map_sum id (normalizeEnforcementRequest env) (parseEnforcementRequest request) of
        Inl msg \<Rightarrow> buildDenyDecision ENF_REQUEST_INVALID [msg] at no_context
      | Inr q \<Rightarrow>
          (let now = (case eq_now q of Some t \<Rightarrow> t | None \<Rightarrow> clock) in
           case verifyCapability env (eq_capability q) of
             Inl errors \<Rightarrow> buildDenyDecision ENF_CAPABILITY_INVALID errors at (no_context\<lparr>dc_request := Some q\<rparr>)
           | Inr c \<Rightarrow>
               bind_throws (evaluateCapabilityState env (JObj (capability_members c)) (Some (Some now)) port clock) (\<lambda>state.
                 if kst_state state \<noteq> CapabilityActive
                 then buildDenyDecision (mapCapabilityStateToReason (kst_state state)) (kst_reasons state) at
                        (no_context\<lparr>dc_request := Some q, dc_capability := Some c\<rparr>)
                 else enforce_request env q c now at port clock)))"

subsection \<open>When a request is allowed\<close>

lemma find_mismatch_spec:
  "find_mismatch ok xs = (takeWhile ok xs, find (\<lambda>x. \<not> ok x) xs)"
  by (induction xs) simp_all

lemma no_mismatch:
  "snd (find_mismatch ok xs) = None \<longleftrightarrow> list_all ok xs"
  by (auto simp: find_mismatch_spec find_None_iff list_all_iff)

lemma req_nonEmptyString_Inr [simp]:
  "req_nonEmptyString what v f = Inr t \<longleftrightarrow> (\<exists>s. v = JStr s \<and> trim s \<noteq> [] \<and> t = trim s)"
  by (auto simp: req_nonEmptyString_def split: js.splits)

lemma parseNow_Inr:
  "parseNow what n = Inr r \<longleftrightarrow> n = NoNow \<and> r = None \<or> (\<exists>t. n = DateNow (Some t) \<and> r = Some t)"
  by (cases n) (auto simp: parseNow_def split: option.splits)

lemma parsed_time:
  assumes "parseEnforcementRequest request = Inr q"
  shows "eq_now q = (case raw_now request of DateNow d \<Rightarrow> d | _ \<Rightarrow> None)"
    "buildDecisionTimestamp (raw_now request) clock = Inr (iso_millis (case eq_now q of Some t \<Rightarrow> t | None \<Rightarrow> clock))"
proof -
  have "parseNow ''Enforcement'' (raw_now request) = Inr (eq_now q)"
    using assms by (auto simp: parseEnforcementRequest_def Let_def)
  then have "raw_now request = NoNow \<and> eq_now q = None \<or> (\<exists>t. raw_now request = DateNow (Some t) \<and> eq_now q = Some t)"
    by (auto simp: parseNow_Inr)
  then show "eq_now q = (case raw_now request of DateNow d \<Rightarrow> d | _ \<Rightarrow> None)"
    "buildDecisionTimestamp (raw_now request) clock = Inr (iso_millis (case eq_now q of Some t \<Rightarrow> t | None \<Rightarrow> clock))"
    by (auto simp: buildDecisionTimestamp_def toISOString_def)
qed

text \<open>The request asks for no more than the capability gives.\<close>

definition within_capability :: "EnforcementRequest \<Rightarrow> ProtocolCapability \<Rightarrow> bool" where
  "within_capability q c \<longleftrightarrow>
     scopeKey ` set (eq_requested_scope q) \<subseteq> scopeKey ` set (cap_scope c) \<and>
     set (eq_requested_permissions q) \<subseteq> set (cap_permissions c) \<and>
     \<not> differs (eq_subject q) (cap_subject c) \<and> \<not> differs (eq_grantee q) (cap_grantee c) \<and>
     (eq_marketMakerId q = None \<or> eq_marketMakerId q = cap_marketMakerId c)"

definition active_at :: "ProtocolCapability \<Rightarrow> RevocationCheckPort \<Rightarrow> int \<Rightarrow> int \<Rightarrow> bool" where
  "active_at c port clock t \<longleftrightarrow>
     port_clears (resolveCapabilityRevocationStatus c port clock) \<and>
     (\<forall>n. cap_not_before c = Some n \<longrightarrow> \<not> iso_millis t < n) \<and> iso_millis t < cap_expires_at c"

lemma capability_state_total: "\<exists>r. evaluateCapabilityState env v (Some (Some t)) port clock = Inr r"
  by (simp add: evaluateCapabilityState_def Let_def given_or_clock_def toISOString_def split: sum.splits)

lemma capability_state_active:
  assumes "verifyCapability env v = Inr c" "evaluateCapabilityState env v (Some (Some t)) port clock = Inr r"
  shows "kst_state r = CapabilityActive \<longleftrightarrow> active_at c port clock t"
  unfolding capability_active [OF assms(2)] active_at_def using assms(1) by (auto simp: given_or_clock_def)

lemma set_alist_update: "set (AList.update k v al) \<subseteq> insert (k, v) (set al)"
  by (induction al) auto

lemma alist_update_nonempty: "AList.update k v al \<noteq> []"
  by (cases al) auto

lemma dedupe_values:
  "p \<in> set (fold (\<lambda>e. AList.update (scopeKey e) e) es al) \<Longrightarrow> p \<in> set al \<or> (\<exists>e \<in> set es. p = (scopeKey e, e))"
proof (induction es arbitrary: al)
  case (Cons e es)
  then show ?case using set_alist_update [of "scopeKey e" e al] by fastforce
qed simp

lemma fold_update_nonempty: "fold (\<lambda>e. AList.update (scopeKey e) e) es al = [] \<longleftrightarrow> es = [] \<and> al = []"
proof (induction es arbitrary: al)
  case (Cons e es)
  then show ?case using alist_update_nonempty [of "scopeKey e" e al] by simp
qed simp

lemma dedupeScope_facts:
  "set (dedupeScope cmp es) \<subseteq> set es" "dedupeScope cmp es = [] \<longleftrightarrow> es = []"
proof -
  show "set (dedupeScope cmp es) \<subseteq> set es"
    using dedupe_values [of _ es "[]"] by (auto simp: dedupeScope_def)
  have "dedupeScope cmp es = [] \<longleftrightarrow> set (dedupeScope cmp es) = {}" by simp
  then show "dedupeScope cmp es = [] \<longleftrightarrow> es = []"
    by (simp add: dedupeScope_def fold_update_nonempty)
qed

text \<open>The texts of a parsed request are trimmed, in lower case and not empty.\<close>

definition request_wf :: "EnforcementRequest \<Rightarrow> bool" where
  "request_wf q \<longleftrightarrow> eq_requested_scope q \<noteq> [] \<and> eq_requested_permissions q \<noteq> [] \<and>
     list_all (\<lambda>e. se_ref e \<noteq> [] \<and> to_lower (se_ref e) = se_ref e \<and> trim (se_ref e) = se_ref e) (eq_requested_scope q) \<and>
     list_all (\<lambda>p. p \<noteq> [] \<and> to_lower p = p \<and> trim p = p) (eq_requested_permissions q)"

lemma lower_trim: "trim s \<noteq> [] \<Longrightarrow> to_lower (trim s) \<noteq> [] \<and> to_lower (to_lower (trim s)) = to_lower (trim s) \<and>
    trim (to_lower (trim s)) = to_lower (trim s)"
  by (simp add: trim_to_lower) (simp add: to_lower_def)

lemma req_scopeEntry_Inr:
  assumes "req_scopeEntry (i, v) = Inr e"
  shows "se_ref e \<noteq> [] \<and> to_lower (se_ref e) = se_ref e \<and> trim (se_ref e) = se_ref e"
proof -
  obtain s where "se_ref e = to_lower (trim s)" "trim s \<noteq> []"
    using assms by (auto simp: req_scopeEntry_def)
  then show ?thesis using lower_trim [of s] by simp
qed

lemma req_permission_Inr:
  assumes "req_permission (i, v) = Inr p"
  shows "p \<noteq> [] \<and> to_lower p = p \<and> trim p = p"
proof -
  obtain s where "p = to_lower (trim s)" "trim s \<noteq> []"
    using assms by (auto simp: req_permission_def split: js.splits)
  then show ?thesis using lower_trim [of s] by simp
qed

lemma parsed_request_wf:
  assumes "parseEnforcementRequest request = Inr q0"
  shows "request_wf (normalizeEnforcementRequest env q0)"
proof -
  obtain v w where p: "parseRequestedScope v = Inr (eq_requested_scope q0)"
    "parseRequestedPermissions w = Inr (eq_requested_permissions q0)"
    using assms by (auto simp: parseEnforcementRequest_def Let_def)
  have s: "eq_requested_scope q0 \<noteq> []" "list_all (\<lambda>e. se_ref e \<noteq> [] \<and> to_lower (se_ref e) = se_ref e \<and>
      trim (se_ref e) = se_ref e) (eq_requested_scope q0)"
    using p(1) by (auto simp: parseRequestedScope_def collect_enumerate list_all_length dest!: req_scopeEntry_Inr)
  have r: "eq_requested_permissions q0 \<noteq> []" "list_all (\<lambda>p. p \<noteq> [] \<and> to_lower p = p \<and> trim p = p)
      (eq_requested_permissions q0)"
    using p(2) by (auto simp: parseRequestedPermissions_def collect_enumerate list_all_length dest!: req_permission_Inr)
  have "map (\<lambda>p. to_lower (trim p)) (eq_requested_permissions q0) = eq_requested_permissions q0"
    using r(2) by (auto simp: list_all_iff intro!: map_idI)
  then have "set (mint_permissions (eq_requested_permissions q0)) = set (eq_requested_permissions q0)"
    by (simp add: mint_permissions_def)
  then have "mint_permissions (eq_requested_permissions q0) \<noteq> []" "list_all (\<lambda>p. p \<noteq> [] \<and> to_lower p = p \<and> trim p = p)
      (mint_permissions (eq_requested_permissions q0))"
    using r by (auto simp: list_all_iff simp flip: set_empty)
  moreover have "list_all (\<lambda>e. se_ref e \<noteq> [] \<and> to_lower (se_ref e) = se_ref e \<and> trim (se_ref e) = se_ref e)
      (dedupeScope (e_cmp env) (eq_requested_scope q0))"
    using s(2) dedupeScope_facts(1) by (auto simp: list_all_iff)
  ultimately show ?thesis
    using s(1) by (simp add: request_wf_def normalizeEnforcementRequest_def dedupeScope_facts(2))
qed

text \<open>The last check of the code, a second evaluation of the same facts, never refuses.\<close>

lemma access_check_redundant:
  assumes "verifyCapability env v = Inr c" "ordered_scope env (cap_scope c)" "active_at c port clock t"
    "request_wf q" "within_capability q c"
  shows "protocol_evaluateCapabilityAccess env (JObj (capability_members c)) (enforcement_access_request q t) port clock = Inr True"
proof -
  note again = verify_again [OF assms(1,2)]
  obtain r where r: "evaluateCapabilityState env (JObj (capability_members c)) (Some (Some t)) port clock = Inr r"
    using capability_state_total by blast
  have "kst_state r = CapabilityActive" using capability_state_active [OF again r] assms(3) by simp
  moreover have "scopeKey \<lparr>se_type = se_type e, se_ref = se_ref e\<rparr> = scopeKey e" for e by (simp add: scopeKey_def)
  then have "capability_grants c (enforcement_access_request q t)"
    using assms(4,5)
    by (auto simp: capability_grants_def enforcement_access_request_def within_capability_def request_wf_def list_all_iff)
  ultimately show ?thesis
    using r again assms(4)
    by (simp add: protocol_evaluateCapabilityAccess_def enforcement_access_request_def request_wf_def)
qed

lemma enforce_request_Inr:
  assumes "verifyCapability env v = Inr c" "ordered_scope env (cap_scope c)" "active_at c port clock t" "request_wf q"
  shows "\<exists>d. enforce_request env q c t (Inr at) port clock = Inr d \<and> (ed_allowed d \<longleftrightarrow> within_capability q c) \<and>
    ed_capability d = Some c \<and> ed_request d = Some q \<and> ed_evaluated_at d = at"
proof (cases "within_capability q c")
  case True
  note access = access_check_redundant [OF assms True]
  have "list_all (\<lambda>e. scopeKey e \<in> scopeKey ` set (cap_scope c)) (eq_requested_scope q)"
    "list_all (\<lambda>p. p \<in> set (cap_permissions c)) (eq_requested_permissions q)"
    using True by (auto simp: within_capability_def list_all_iff)
  then have m: "snd (findScopeMismatch q (cap_scope c)) = None" "snd (findPermissionMismatch q (cap_permissions c)) = None"
    by (simp_all add: findScopeMismatch_def findPermissionMismatch_def no_mismatch)
  have b: "\<not> differs (eq_subject q) (cap_subject c)" "\<not> differs (eq_grantee q) (cap_grantee c)"
    "\<not> (eq_marketMakerId q \<noteq> None \<and> eq_marketMakerId q \<noteq> cap_marketMakerId c)"
    using True by (auto simp: within_capability_def)
  show ?thesis
    unfolding enforce_request_def Let_def case_prod_unfold m access using b True
    by (auto simp: buildAllowDecision_def build_decision_def)
next
  case False
  have "snd (findScopeMismatch q (cap_scope c)) = None \<longleftrightarrow>
      scopeKey ` set (eq_requested_scope q) \<subseteq> scopeKey ` set (cap_scope c)"
    by (auto simp: findScopeMismatch_def no_mismatch list_all_iff)
  moreover have "snd (findPermissionMismatch q (cap_permissions c)) = None \<longleftrightarrow>
      set (eq_requested_permissions q) \<subseteq> set (cap_permissions c)"
    by (auto simp: findPermissionMismatch_def no_mismatch list_all_iff)
  ultimately have "\<not> (snd (findScopeMismatch q (cap_scope c)) = None \<and> snd (findPermissionMismatch q (cap_permissions c)) = None \<and>
      \<not> differs (eq_subject q) (cap_subject c) \<and> \<not> differs (eq_grantee q) (cap_grantee c) \<and>
      \<not> (eq_marketMakerId q \<noteq> None \<and> eq_marketMakerId q \<noteq> cap_marketMakerId c))"
    using False unfolding within_capability_def by argo
  then consider "snd (findScopeMismatch q (cap_scope c)) \<noteq> None"
    | "snd (findScopeMismatch q (cap_scope c)) = None" "snd (findPermissionMismatch q (cap_permissions c)) \<noteq> None"
    | "snd (findScopeMismatch q (cap_scope c)) = None" "snd (findPermissionMismatch q (cap_permissions c)) = None"
      "differs (eq_subject q) (cap_subject c)"
    | "snd (findScopeMismatch q (cap_scope c)) = None" "snd (findPermissionMismatch q (cap_permissions c)) = None"
      "\<not> differs (eq_subject q) (cap_subject c)" "differs (eq_grantee q) (cap_grantee c)"
    | "snd (findScopeMismatch q (cap_scope c)) = None" "snd (findPermissionMismatch q (cap_permissions c)) = None"
      "\<not> differs (eq_subject q) (cap_subject c)" "\<not> differs (eq_grantee q) (cap_grantee c)"
      "eq_marketMakerId q \<noteq> None" "eq_marketMakerId q \<noteq> cap_marketMakerId c"
    by argo
  then show ?thesis
    unfolding enforce_request_def Let_def case_prod_unfold buildDenyDecision_def build_decision_def
    by cases (simp_all add: False)
qed

lemma evaluateEnforcement_Inr:
  assumes "raw_now request \<notin> {DateNow None, OtherNow}"
    "\<And>q c. parseEnforcementRequest request = Inr q \<Longrightarrow> verifyCapability env (eq_capability q) = Inr c \<Longrightarrow>
       ordered_scope env (cap_scope c)"
  shows "\<exists>d. evaluateEnforcement env request port clock = Inr d \<and>
    (ed_allowed d \<longleftrightarrow>
      (\<exists>q c. parseEnforcementRequest request = Inr q \<and> verifyCapability env (eq_capability q) = Inr c \<and>
         active_at c port clock (case eq_now q of Some t \<Rightarrow> t | None \<Rightarrow> clock) \<and>
         within_capability (normalizeEnforcementRequest env q) c)) \<and>
    (ed_allowed d \<longrightarrow>
      (\<exists>q. parseEnforcementRequest request = Inr q \<and> ed_request d = Some (normalizeEnforcementRequest env q) \<and>
         (\<exists>c. ed_capability d = Some c \<and> verifyCapability env (eq_capability q) = Inr c)))"
proof (cases "parseEnforcementRequest request")
  case (Inl m)
  have "\<exists>at. buildDecisionTimestamp (raw_now request) clock = Inr at"
    using assms(1) by (cases "raw_now request") (auto simp: buildDecisionTimestamp_def toISOString_def split: option.splits)
  then show ?thesis
    using Inl by (auto simp: evaluateEnforcement_def Let_def buildDenyDecision_def build_decision_def)
next
  case (Inr q)
  let ?n = "normalizeEnforcementRequest env q"
  let ?t = "case eq_now q of Some t \<Rightarrow> t | None \<Rightarrow> clock"
  have n: "eq_capability ?n = eq_capability q" "eq_now ?n = eq_now q"
    by (simp_all add: normalizeEnforcementRequest_def)
  note at = parsed_time(2) [OF Inr, of clock]
  show ?thesis
  proof (cases "verifyCapability env (eq_capability q)")
    case (Inl errors)
    then show ?thesis
      using Inr at by (simp add: evaluateEnforcement_def Let_def n buildDenyDecision_def build_decision_def)
  next
    case (Inr c)
    note parsed = \<open>parseEnforcementRequest request = Inr q\<close>
    have ord: "ordered_scope env (cap_scope c)" by (rule assms(2) [OF parsed Inr])
    note again = verify_again [OF Inr ord]
    obtain r where r: "evaluateCapabilityState env (JObj (capability_members c)) (Some (Some ?t)) port clock = Inr r"
      using capability_state_total by blast
    have active: "kst_state r = CapabilityActive \<longleftrightarrow> active_at c port clock ?t"
      by (rule capability_state_active [OF again r])
    show ?thesis
    proof (cases "active_at c port clock ?t")
      case True
      obtain d where d: "enforce_request env ?n c ?t (Inr (iso_millis ?t)) port clock = Inr d"
        "ed_allowed d \<longleftrightarrow> within_capability ?n c" "ed_capability d = Some c" "ed_request d = Some ?n"
        using enforce_request_Inr [OF again ord True parsed_request_wf [OF parsed, of env]] by blast
      then have "evaluateEnforcement env request port clock = Inr d"
        using parsed Inr at r active True by (simp add: evaluateEnforcement_def Let_def n)
      then show ?thesis using d parsed Inr True by simp
    next
      case False
      then show ?thesis
        using parsed Inr at r active
        by (simp add: evaluateEnforcement_def Let_def n buildDenyDecision_def build_decision_def)
    qed
  qed
qed

end
