(* ===== verification/Execution.thy ===== *)
theory Execution
  imports Enforcement
begin

text \<open>
  \<open>protocol/execution/\<close>: parsing of an execution request, its authorization by the enforcement, and the
  contract an authorized execution gets.
\<close>

record ExecutionTarget =
  et_adapter :: string
  et_operation :: string

record ExecutionRequest =
  xq_enforcement :: EnforcementRequest
  xq_target :: ExecutionTarget
  xq_payload :: "(string \<times> js) list option option"

subsection \<open>Parsing\<close>

definition parseExecutionTarget :: "js \<Rightarrow> ExecutionTarget throws" where
  "parseExecutionTarget v =
     bind_throws (as_object ''Execution field \"execution_target\" must be a JSON object.'' v) (\<lambda>rec.
     bind_throws (req_nonEmptyString ''Execution'' (member rec ''adapter'') ''execution_target.adapter'') (\<lambda>adapter.
     bind_throws (req_nonEmptyString ''Execution'' (member rec ''operation'') ''execution_target.operation'') (\<lambda>operation.
       Inr \<lparr>et_adapter = adapter, et_operation = operation\<rparr>)))"

definition parsePayload :: "js \<Rightarrow> (string \<times> js) list option option throws" where
  "parsePayload v =
     if_defined v (\<lambda>w.
       if w = JNull then Inr None
       else bind_throws (as_object ''Execution field \"payload\" must be a JSON object or null when provided.'' w)
              (\<lambda>rec. Inr (Some rec)))"

text \<open>\<open>undefined\<close> members of an object literal are members.\<close>

definition opt_text :: "string option \<Rightarrow> js" where
  "opt_text t = (case t of None \<Rightarrow> JUndefined | Some s \<Rightarrow> JStr s)"

definition resource_value :: "ScopeEntry option option \<Rightarrow> js" where
  "resource_value r = (case r of None \<Rightarrow> JUndefined | Some None \<Rightarrow> JNull | Some (Some e) \<Rightarrow> entry_value e)"

definition context_value :: "(string \<times> js) list option \<Rightarrow> js" where
  "context_value c = (case c of None \<Rightarrow> JUndefined | Some kvs \<Rightarrow> JObj kvs)"

definition parseExecutionRequest :: "RawRequest \<Rightarrow> ExecutionRequest throws" where
  "parseExecutionRequest q =
     (let rec = raw_members q in
      and_then (throw_if (map_of rec ''capability'' = None) ''Execution field \"capability\" is required.'')
      (bind_throws (parseOptionalBinding ''Execution'' rec ''subject'') (\<lambda>subject.
       bind_throws (parseOptionalBinding ''Execution'' rec ''grantee'') (\<lambda>grantee.
       bind_throws (parseOptionalBinding ''Execution'' rec ''marketMakerId'') (\<lambda>mm.
       bind_throws (parseResource ''Execution'' (member rec ''resource'')) (\<lambda>resource.
       bind_throws (parseActionContext ''Execution'' (member rec ''action_context'')) (\<lambda>ctx.
       bind_throws (parseNow ''Execution'' (raw_now q)) (\<lambda>now.
       bind_throws (parseEnforcementRequest
         \<lparr>raw_members =
            [(''capability'', member rec ''capability''), (''requested_scope'', member rec ''requested_scope''),
             (''requested_permissions'', member rec ''requested_permissions''), (''subject'', opt_text subject),
             (''grantee'', opt_text grantee), (''marketMakerId'', opt_text mm), (''resource'', resource_value resource),
             (''action_context'', context_value ctx)],
          raw_now = (case now of None \<Rightarrow> NoNow | Some t \<Rightarrow> DateNow (Some t))\<rparr>) (\<lambda>enforcement.
       bind_throws (parseExecutionTarget (member rec ''execution_target'')) (\<lambda>target.
       bind_throws (parsePayload (member rec ''payload'')) (\<lambda>payload.
         Inr \<lparr>xq_enforcement = enforcement, xq_target = target, xq_payload = payload\<rparr>)))))))))))"

definition normalizeExecutionRequest :: "host_env \<Rightarrow> ExecutionRequest \<Rightarrow> ExecutionRequest" where
  "normalizeExecutionRequest env q =
     \<lparr>xq_enforcement = normalizeEnforcementRequest env (xq_enforcement q),
      xq_target = \<lparr>et_adapter = trim (et_adapter (xq_target q)), et_operation = trim (et_operation (xq_target q))\<rparr>,
      xq_payload = xq_payload q\<rparr>"

subsection \<open>Results\<close>

datatype ExecutionReasonCode =
    EnforcementReason EnforcementReasonCode | EXECUTION_REQUEST_INVALID | EXECUTION_AUTHORIZED

record ExecutionContract =
  ec_adapter :: string
  ec_operation :: string
  ec_subject :: string
  ec_grantee :: string
  ec_allowed_scope :: "ScopeEntry list"
  ec_allowed_permissions :: "string list"
  ec_capability_hash :: string
  ec_parent_consent_hash :: string
  ec_marketMakerId :: "string option"
  ec_resource :: "ScopeEntry option option"
  ec_action_context :: "(string \<times> js) list option"
  ec_issued_at :: string

record ExecutionAuthorizationResult =
  xr_authorized :: bool
  xr_reason_code :: ExecutionReasonCode
  xr_reasons :: "string list"
  xr_evaluated_at :: string
  xr_target :: ExecutionTarget
  xr_request :: "ExecutionRequest option"
  xr_decision :: "EnforcementDecision option"
  xr_contract :: "ExecutionContract option"

definition buildExecutionContract :: "ExecutionRequest \<Rightarrow> ProtocolCapability \<Rightarrow> string \<Rightarrow> ExecutionContract" where
  "buildExecutionContract q c issued_at =
     \<lparr>ec_adapter = et_adapter (xq_target q), ec_operation = et_operation (xq_target q), ec_subject = cap_subject c,
      ec_grantee = cap_grantee c, ec_allowed_scope = eq_requested_scope (xq_enforcement q),
      ec_allowed_permissions = eq_requested_permissions (xq_enforcement q),
      ec_capability_hash = cap_capability_hash c, ec_parent_consent_hash = cap_parent_consent_hash c,
      ec_marketMakerId = eq_marketMakerId (xq_enforcement q), ec_resource = eq_resource (xq_enforcement q),
      ec_action_context = eq_action_context (xq_enforcement q), ec_issued_at = issued_at\<rparr>"

definition buildRejectedExecutionResult ::
  "ExecutionReasonCode \<Rightarrow> string list \<Rightarrow> string throws \<Rightarrow> ExecutionTarget \<Rightarrow> ExecutionRequest option \<Rightarrow>
   EnforcementDecision option \<Rightarrow> ExecutionAuthorizationResult throws" where
  "buildRejectedExecutionResult code reasons at target q decision =
     bind_throws at (\<lambda>t.
       Inr \<lparr>xr_authorized = False, xr_reason_code = code, xr_reasons = reasons, xr_evaluated_at = t, xr_target = target,
            xr_request = q, xr_decision = decision, xr_contract = None\<rparr>)"

definition buildAuthorizedExecutionResult ::
  "string throws \<Rightarrow> ExecutionTarget \<Rightarrow> ExecutionRequest \<Rightarrow> EnforcementDecision \<Rightarrow> ExecutionContract \<Rightarrow>
   ExecutionAuthorizationResult throws" where
  "buildAuthorizedExecutionResult at target q decision contract =
     bind_throws at (\<lambda>t.
       Inr \<lparr>xr_authorized = True, xr_reason_code = EXECUTION_AUTHORIZED,
            xr_reasons = [''Execution request authorized by canonical enforcement runtime.''], xr_evaluated_at = t,
            xr_target = target, xr_request = Some q, xr_decision = Some decision, xr_contract = Some contract\<rparr>)"

definition text_or_unknown :: "js \<Rightarrow> string" where
  "text_or_unknown v = (case v of JStr s \<Rightarrow> if trim s = [] then ''unknown'' else trim s | _ \<Rightarrow> ''unknown'')"

definition resolveExecutionTarget :: "js \<Rightarrow> ExecutionTarget" where
  "resolveExecutionTarget v =
     (case v of
        JObj rec \<Rightarrow> \<lparr>et_adapter = text_or_unknown (member rec ''adapter''),
                     et_operation = text_or_unknown (member rec ''operation'')\<rparr>
      | _ \<Rightarrow> \<lparr>et_adapter = ''unknown'', et_operation = ''unknown''\<rparr>)"

text \<open>The request handed to the enforcement; its \<open>now\<close> is that of the request or of the clock.\<close>

definition execution_enforcement :: "EnforcementRequest \<Rightarrow> int \<Rightarrow> RawRequest" where
  "execution_enforcement q clock =
     \<lparr>raw_members =
        [(''capability'', eq_capability q), (''requested_scope'', JArr (map entry_value (eq_requested_scope q))),
         (''requested_permissions'', JArr (map JStr (eq_requested_permissions q))), (''subject'', opt_text (eq_subject q)),
         (''grantee'', opt_text (eq_grantee q)), (''marketMakerId'', opt_text (eq_marketMakerId q)),
         (''resource'', resource_value (eq_resource q)), (''action_context'', context_value (eq_action_context q))],
      raw_now = DateNow (Some (case eq_now q of Some t \<Rightarrow> t | None \<Rightarrow> clock))\<rparr>"

definition authorizeExecution ::
  "host_env \<Rightarrow> RawRequest \<Rightarrow> RevocationCheckPort \<Rightarrow> int \<Rightarrow> ExecutionAuthorizationResult throws" where
  "authorizeExecution env request port clock =
     (let at = buildDecisionTimestamp (raw_now request) clock;
          fallbackTarget = resolveExecutionTarget (member (raw_members request) ''execution_target'')
      in case map_sum id (normalizeExecutionRequest env) (parseExecutionRequest request) of
           Inl msg \<Rightarrow> buildRejectedExecutionResult EXECUTION_REQUEST_INVALID [msg] at fallbackTarget None None
         | Inr q \<Rightarrow>
             bind_throws (evaluateEnforcement env (execution_enforcement (xq_enforcement q) clock) port clock) (\<lambda>decision.
               if \<not> ed_allowed decision \<or> ed_capability decision = None
               then buildRejectedExecutionResult (EnforcementReason (ed_reason_code decision)) (ed_reasons decision) at
                      (xq_target q) (Some q) (Some decision)
               else
                 bind_throws at (\<lambda>issued_at.
                   buildAuthorizedExecutionResult at (xq_target q) q decision
                     (buildExecutionContract q (the (ed_capability decision)) issued_at))))"

subsection \<open>When an execution is authorized\<close>

lemma opt_text_undefined: "opt_text t = JUndefined \<longleftrightarrow> t = None"
  by (simp add: opt_text_def split: option.splits)

text \<open>What authorization guarantees, read off the contract.\<close>

definition contract_within :: "ExecutionContract \<Rightarrow> ProtocolCapability \<Rightarrow> bool" where
  "contract_within k c \<longleftrightarrow>
     ec_capability_hash k = cap_capability_hash c \<and> ec_parent_consent_hash k = cap_parent_consent_hash c \<and>
     ec_subject k = cap_subject c \<and> ec_grantee k = cap_grantee c \<and>
     ec_allowed_scope k \<noteq> [] \<and> set (ec_allowed_scope k) \<subseteq> set (cap_scope c) \<and>
     ec_allowed_permissions k \<noteq> [] \<and> set (ec_allowed_permissions k) \<subseteq> set (cap_permissions c) \<and>
     (ec_marketMakerId k = None \<or> ec_marketMakerId k = cap_marketMakerId c)"

text \<open>The texts of a parsed request are such that a second parse leaves them as they are.\<close>

definition binding_ok :: "string option \<Rightarrow> bool" where
  "binding_ok t \<longleftrightarrow> (\<forall>s. t = Some s \<longrightarrow> s \<noteq> [] \<and> trim s = s)"

definition entry_parsed :: "ScopeEntry \<Rightarrow> bool" where
  "entry_parsed e \<longleftrightarrow> se_type e \<in> set VALID_SCOPE_TYPES \<and> se_ref e \<noteq> [] \<and> to_lower (se_ref e) = se_ref e \<and> trim (se_ref e) = se_ref e"

definition request_parsed :: "EnforcementRequest \<Rightarrow> bool" where
  "request_parsed q \<longleftrightarrow> request_wf q \<and> list_all entry_parsed (eq_requested_scope q) \<and>
     binding_ok (eq_subject q) \<and> binding_ok (eq_grantee q) \<and> binding_ok (eq_marketMakerId q) \<and>
     (\<forall>e. eq_resource q = Some (Some e) \<longrightarrow> entry_parsed e)"

lemma trim_types [simp]: "trim ''field'' = ''field''" "trim ''content'' = ''content''" "trim ''pack'' = ''pack''"
  by code_simp+

lemma valid_type_trim: "ty \<in> set VALID_SCOPE_TYPES \<Longrightarrow> trim ty = ty \<and> ty \<noteq> []"
  by auto

lemma scopeEntry_parsed: "req_scopeEntry (i, v) = Inr e \<Longrightarrow> entry_parsed e"
  using req_scopeEntry_Inr [of i v e] by (auto simp: entry_parsed_def req_scopeEntry_def)

lemma scopeEntry_again: "entry_parsed e \<Longrightarrow> req_scopeEntry (i, entry_value e) = Inr e"
  using valid_type_trim [of "se_type e"]
  by (cases e) (auto simp: entry_parsed_def req_scopeEntry_def entry_value_def as_object_def)

lemma binding_parsed: "parseOptionalBinding what rec f = Inr t \<Longrightarrow> binding_ok t"
  by (auto simp: parseOptionalBinding_def if_defined_Inr binding_ok_def)

lemma binding_again: "member rec f = opt_text t \<Longrightarrow> binding_ok t \<Longrightarrow> parseOptionalBinding what rec f = Inr t"
  by (cases t) (auto simp: parseOptionalBinding_def if_defined_def binding_ok_def opt_text_def)

lemma resource_parsed: "parseResource what v = Inr (Some (Some e)) \<Longrightarrow> entry_parsed e"
  using lower_trim by (auto simp: parseResource_def if_defined_Inr entry_parsed_def trim_to_lower split: if_splits)

lemma resource_again:
  assumes "\<forall>e. r = Some (Some e) \<longrightarrow> entry_parsed e"
  shows "parseResource what (resource_value r) = Inr r"
proof (cases "\<exists>e. r = Some (Some e)")
  case True
  then obtain e where r: "r = Some (Some e)" "entry_parsed e" using assms by blast
  then show ?thesis using valid_type_trim [of "se_type e"]
    by (cases e) (auto simp: resource_value_def parseResource_def if_defined_def entry_value_def as_object_def entry_parsed_def)
next
  case False
  then show ?thesis
    by (cases r) (auto simp: resource_value_def parseResource_def if_defined_def split: option.splits)
qed

lemma parsed_enforcement:
  assumes "parseEnforcementRequest request = Inr q"
  shows "request_parsed (normalizeEnforcementRequest env q)"
proof -
  obtain v rec where p: "parseRequestedScope v = Inr (eq_requested_scope q)"
    "parseOptionalBinding ''Enforcement'' rec ''subject'' = Inr (eq_subject q)"
    "parseOptionalBinding ''Enforcement'' rec ''grantee'' = Inr (eq_grantee q)"
    "parseOptionalBinding ''Enforcement'' rec ''marketMakerId'' = Inr (eq_marketMakerId q)"
    "parseResource ''Enforcement'' (member rec ''resource'') = Inr (eq_resource q)"
    using assms by (auto simp: parseEnforcementRequest_def Let_def)
  have "list_all entry_parsed (eq_requested_scope q)"
    using p(1) by (auto simp: parseRequestedScope_def collect_enumerate list_all_length dest!: scopeEntry_parsed)
  then have "list_all entry_parsed (dedupeScope (e_cmp env) (eq_requested_scope q))"
    using dedupeScope_facts(1) by (auto simp: list_all_iff)
  then show ?thesis
    using parsed_request_wf [OF assms, of env] p(2-5) binding_parsed resource_parsed
    by (auto simp: request_parsed_def normalizeEnforcementRequest_def)
qed

lemma parse_again:
  assumes "request_parsed q"
  shows "parseEnforcementRequest (execution_enforcement q clock) =
    Inr (q\<lparr>eq_now := Some (case eq_now q of Some t \<Rightarrow> t | None \<Rightarrow> clock)\<rparr>)"
proof -
  let ?rec = "raw_members (execution_enforcement q clock)"
  have m: "member ?rec ''capability'' = eq_capability q" "map_of ?rec ''capability'' = Some (eq_capability q)"
    "member ?rec ''requested_scope'' = JArr (map entry_value (eq_requested_scope q))"
    "member ?rec ''requested_permissions'' = JArr (map JStr (eq_requested_permissions q))"
    "member ?rec ''subject'' = opt_text (eq_subject q)" "member ?rec ''grantee'' = opt_text (eq_grantee q)"
    "member ?rec ''marketMakerId'' = opt_text (eq_marketMakerId q)" "member ?rec ''resource'' = resource_value (eq_resource q)"
    "member ?rec ''action_context'' = context_value (eq_action_context q)"
    "raw_now (execution_enforcement q clock) = DateNow (Some (case eq_now q of Some t \<Rightarrow> t | None \<Rightarrow> clock))"
    by (simp_all add: execution_enforcement_def)
  have scope: "parseRequestedScope (JArr (map entry_value (eq_requested_scope q))) = Inr (eq_requested_scope q)"
    using assms
    by (auto simp: request_parsed_def request_wf_def parseRequestedScope_def as_nonempty_array_def collect_enumerate
        scopeEntry_again list_all_length)
  have perm: "to_lower p = p \<Longrightarrow> trim p = p \<Longrightarrow> p \<noteq> [] \<Longrightarrow> req_permission (i, JStr p) = Inr p" for i p
    by (simp add: req_permission_def)
  have perms: "parseRequestedPermissions (JArr (map JStr (eq_requested_permissions q))) = Inr (eq_requested_permissions q)"
    using assms
    by (auto simp: request_parsed_def request_wf_def parseRequestedPermissions_def as_nonempty_array_def collect_enumerate
        perm list_all_length)
  have ctx: "parseActionContext ''Enforcement'' (context_value (eq_action_context q)) = Inr (eq_action_context q)"
    by (cases "eq_action_context q") (auto simp: parseActionContext_def context_value_def if_defined_def as_object_def)
  have res: "parseResource ''Enforcement'' (resource_value (eq_resource q)) = Inr (eq_resource q)"
    using assms by (intro resource_again) (simp add: request_parsed_def)
  have bind: "parseOptionalBinding ''Enforcement'' ?rec ''subject'' = Inr (eq_subject q)"
    "parseOptionalBinding ''Enforcement'' ?rec ''grantee'' = Inr (eq_grantee q)"
    "parseOptionalBinding ''Enforcement'' ?rec ''marketMakerId'' = Inr (eq_marketMakerId q)"
    using assms binding_again m by (simp_all add: request_parsed_def)
  show ?thesis
    unfolding parseEnforcementRequest_def Let_def m
    by (simp add: scope perms ctx res bind parseNow_Inr)
qed

subsection \<open>What an authorization means\<close>

lemma fold_update_keys:
  "fst ` set (fold (\<lambda>e. AList.update (scopeKey e) e) es al) = scopeKey ` set es \<union> fst ` set al"
  by (induction es arbitrary: al) (simp_all add: dom_update)

lemma dedupe_keys: "scopeKey ` set (dedupeScope cmp es) = scopeKey ` set es"
proof
  show "scopeKey ` set (dedupeScope cmp es) \<subseteq> scopeKey ` set es"
    using dedupeScope_facts(1) by (rule image_mono)
  show "scopeKey ` set es \<subseteq> scopeKey ` set (dedupeScope cmp es)"
  proof
    fix k assume "k \<in> scopeKey ` set es"
    then have "k \<in> fst ` set (fold (\<lambda>e. AList.update (scopeKey e) e) es [])"
      by (simp add: fold_update_keys)
    then obtain p where p: "p \<in> set (fold (\<lambda>e. AList.update (scopeKey e) e) es [])" "k = fst p" by blast
    then have "scopeKey (snd p) = k" using dedupe_values [OF p(1)] by auto
    moreover have "snd p \<in> set (dedupeScope cmp es)" using p(1) by (simp add: dedupeScope_def)
    ultimately show "k \<in> scopeKey ` set (dedupeScope cmp es)" by blast
  qed
qed

lemma within_normalized:
  assumes "request_wf q"
  shows "within_capability (normalizeEnforcementRequest env (q\<lparr>eq_now := n\<rparr>)) c \<longleftrightarrow> within_capability q c"
proof -
  have "map (\<lambda>p. to_lower (trim p)) (eq_requested_permissions q) = eq_requested_permissions q"
    using assms by (auto simp: request_wf_def list_all_iff intro!: map_idI)
  then show ?thesis
    by (simp add: within_capability_def normalizeEnforcementRequest_def dedupe_keys mint_permissions_def)
qed

lemma contract_from_request:
  assumes "verifyCapability env v = Inr c" "request_wf (xq_enforcement q)" "within_capability (xq_enforcement q) c"
  shows "contract_within (buildExecutionContract q c at) c"
proof -
  have valid: "list_all valid_entry (cap_scope c)"
    using assms(1) parseCapability_wf(1) by (auto simp: verifyCapability_Inr cap_wf_def)
  have "set (eq_requested_scope (xq_enforcement q)) \<subseteq> set (cap_scope c)"
  proof
    fix e assume "e \<in> set (eq_requested_scope (xq_enforcement q))"
    then obtain f where f: "f \<in> set (cap_scope c)" "scopeKey e = scopeKey f"
      using assms(3) by (auto simp: within_capability_def)
    with valid have "valid_entry f" by (simp add: list_all_iff)
    with f scopeKey_valid show "e \<in> set (cap_scope c)" by metis
  qed
  with assms(2,3) show ?thesis
    by (auto simp: contract_within_def buildExecutionContract_def within_capability_def request_wf_def)
qed

definition execution_time :: "ExecutionRequest \<Rightarrow> int \<Rightarrow> int" where
  "execution_time q clock = (case eq_now (xq_enforcement q) of Some t \<Rightarrow> t | None \<Rightarrow> clock)"

lemma parseExecution_now:
  assumes "parseExecutionRequest request = Inr q"
  shows "buildDecisionTimestamp (raw_now request) clock = Inr (iso_millis (execution_time q clock))"
    "\<exists>r. parseEnforcementRequest r = Inr (xq_enforcement q)"
proof -
  obtain n r where n: "parseNow ''Execution'' (raw_now request) = Inr n" "parseEnforcementRequest r = Inr (xq_enforcement q)"
    "raw_now r = (case n of None \<Rightarrow> NoNow | Some t \<Rightarrow> DateNow (Some t))"
    using assms by (auto simp: parseExecutionRequest_def Let_def)
  have "eq_now (xq_enforcement q) = n" using parsed_time(1) [OF n(2)] n(3) by (auto split: option.splits)
  then show "buildDecisionTimestamp (raw_now request) clock = Inr (iso_millis (execution_time q clock))"
    using n(1) by (auto simp: parseNow_Inr buildDecisionTimestamp_def execution_time_def toISOString_def)
  show "\<exists>r. parseEnforcementRequest r = Inr (xq_enforcement q)" using n(2) by blast
qed

lemma authorizeExecution_Inr:
  assumes "raw_now request \<notin> {DateNow None, OtherNow}"
    "\<And>q c. parseExecutionRequest request = Inr q \<Longrightarrow> verifyCapability env (eq_capability (xq_enforcement q)) = Inr c \<Longrightarrow>
       ordered_scope env (cap_scope c)"
  shows "\<exists>r. authorizeExecution env request port clock = Inr r \<and>
    (xr_authorized r \<longleftrightarrow>
      (\<exists>q c. parseExecutionRequest request = Inr q \<and> verifyCapability env (eq_capability (xq_enforcement q)) = Inr c \<and>
         active_at c port clock (execution_time q clock) \<and>
         within_capability (normalizeEnforcementRequest env (xq_enforcement q)) c)) \<and>
    (xr_authorized r \<longrightarrow>
      (\<exists>q c k. parseExecutionRequest request = Inr q \<and> verifyCapability env (eq_capability (xq_enforcement q)) = Inr c \<and>
         xr_contract r = Some k \<and> contract_within k c \<and> ec_issued_at k = iso_millis (execution_time q clock)))"
proof (cases "parseExecutionRequest request")
  case (Inl m)
  have "\<exists>at. buildDecisionTimestamp (raw_now request) clock = Inr at"
    using assms(1) by (cases "raw_now request") (auto simp: buildDecisionTimestamp_def toISOString_def split: option.splits)
  then show ?thesis
    using Inl by (auto simp: authorizeExecution_def Let_def buildRejectedExecutionResult_def)
next
  case (Inr q)
  note at = parseExecution_now(1) [OF Inr, of clock]
  obtain raw where "parseEnforcementRequest raw = Inr (xq_enforcement q)" using parseExecution_now(2) [OF Inr] by blast
  note parsed = parsed_enforcement [OF this, of env]
  let ?n = "normalizeExecutionRequest env q" and ?e = "normalizeEnforcementRequest env (xq_enforcement q)"
  have n: "xq_enforcement ?n = ?e" "eq_capability ?e = eq_capability (xq_enforcement q)" "eq_now ?e = eq_now (xq_enforcement q)"
    by (simp_all add: normalizeExecutionRequest_def normalizeEnforcementRequest_def)
  note again = parse_again [OF parsed, of clock]
  have wf: "request_wf ?e" using parsed by (simp add: request_parsed_def)
  let ?q = "?e\<lparr>eq_now := Some (execution_time q clock)\<rparr>"
  have parse: "parseEnforcementRequest (execution_enforcement ?e clock) = Inr ?q"
    using again n by (simp add: execution_time_def)
  have now: "raw_now (execution_enforcement ?e clock) \<notin> {DateNow None, OtherNow}"
    by (simp add: execution_enforcement_def)
  have ord: "ordered_scope env (cap_scope c)"
    if "parseEnforcementRequest (execution_enforcement ?e clock) = Inr r" "verifyCapability env (eq_capability r) = Inr c" for r c
    using assms(2) [OF Inr] that parse n by auto
  obtain d where d0: "evaluateEnforcement env (execution_enforcement ?e clock) port clock = Inr d"
    "ed_allowed d \<longleftrightarrow>
      (\<exists>r c. parseEnforcementRequest (execution_enforcement ?e clock) = Inr r \<and>
         verifyCapability env (eq_capability r) = Inr c \<and>
         active_at c port clock (case eq_now r of Some t \<Rightarrow> t | None \<Rightarrow> clock) \<and>
         within_capability (normalizeEnforcementRequest env r) c)"
    "ed_allowed d \<longrightarrow>
      (\<exists>r. parseEnforcementRequest (execution_enforcement ?e clock) = Inr r \<and> ed_request d = Some (normalizeEnforcementRequest env r) \<and>
         (\<exists>c. ed_capability d = Some c \<and> verifyCapability env (eq_capability r) = Inr c))"
  proof -
    have "\<exists>d. evaluateEnforcement env (execution_enforcement ?e clock) port clock = Inr d \<and>
        (ed_allowed d \<longleftrightarrow>
          (\<exists>r c. parseEnforcementRequest (execution_enforcement ?e clock) = Inr r \<and>
             verifyCapability env (eq_capability r) = Inr c \<and>
             active_at c port clock (case eq_now r of Some t \<Rightarrow> t | None \<Rightarrow> clock) \<and>
             within_capability (normalizeEnforcementRequest env r) c)) \<and>
        (ed_allowed d \<longrightarrow>
          (\<exists>r. parseEnforcementRequest (execution_enforcement ?e clock) = Inr r \<and> ed_request d = Some (normalizeEnforcementRequest env r) \<and>
             (\<exists>c. ed_capability d = Some c \<and> verifyCapability env (eq_capability r) = Inr c)))"
      by (rule evaluateEnforcement_Inr [OF now]) (rule ord)
    then show ?thesis using that by (elim exE conjE)
  qed
  have d: "evaluateEnforcement env (execution_enforcement ?e clock) port clock = Inr d"
    "ed_allowed d \<longleftrightarrow>
      (\<exists>c. verifyCapability env (eq_capability (xq_enforcement q)) = Inr c \<and> active_at c port clock (execution_time q clock) \<and>
         within_capability ?e c)"
    "ed_allowed d \<longrightarrow> (\<exists>c. ed_capability d = Some c \<and> verifyCapability env (eq_capability (xq_enforcement q)) = Inr c)"
    using d0 unfolding parse by (simp_all add: within_normalized [OF wf] n)
  show ?thesis
  proof (cases "ed_allowed d")
    case False
    then have "\<not> (\<exists>c. verifyCapability env (eq_capability (xq_enforcement q)) = Inr c \<and>
        active_at c port clock (execution_time q clock) \<and> within_capability ?e c)"
      using d(2) by blast
    with False show ?thesis
      using Inr at d(1) n by (simp add: authorizeExecution_def Let_def buildRejectedExecutionResult_def)
  next
    case True
    then obtain c where c: "ed_capability d = Some c" "verifyCapability env (eq_capability (xq_enforcement q)) = Inr c"
      "active_at c port clock (execution_time q clock)" "within_capability ?e c"
      using d(2,3) by auto
    have "contract_within (buildExecutionContract ?n c at) c" for at
      using contract_from_request [OF c(2)] wf c(4) n by simp
    moreover have "ec_issued_at (buildExecutionContract ?n c at) = at" for at by (simp add: buildExecutionContract_def)
    ultimately show ?thesis
      using Inr at d(1) n True c
      by (auto simp: authorizeExecution_def Let_def buildAuthorizedExecutionResult_def)
  qed
qed

end
