(* ===== verification/ProtocolSamples.thy ===== *)
theory ProtocolSamples
  imports Samples Execution
begin

text \<open>
  Concrete inputs for the witnesses over \<open>protocol/\<close>: a consent, the capability minted from it, a registry that
  knows of one revocation, and an execution request that presents the capability.
\<close>

definition sample_pc :: ProtocolConsent where
  "sample_pc = \<lparr>pc_version = ''1.0'', pc_subject = ''did:aoc:alice'', pc_grantee = ''did:aoc:bob'', pc_action = ''grant'',
     pc_scope = [sample_entry], pc_permissions = [''read''], pc_pricing = None, pc_marketMakerId = None,
     pc_revoke_target = None, pc_issued_at = ''2025-01-15T12:00:00Z'', pc_expires_at = Some ''2026-01-15T12:00:00Z'',
     pc_prior_consent = None, pc_consent_hash = hex_a\<rparr>"

definition sample_mint :: MintCapabilityInput where
  "sample_mint = \<lparr>mi_consent = JObj (consent_members sample_pc), mi_requested_scope = [sample_entry],
     mi_requested_permissions = [''read''], mi_issued_at = ''2025-01-15T12:00:00Z'',
     mi_expires_at = Some ''2025-01-15T12:04:00Z'', mi_not_before = None, mi_marketMakerId = None, mi_metadata = None\<rparr>"

definition sample_isRevoked :: "string \<Rightarrow> string + registry_answer" where
  "sample_isRevoked h = Inr (Bool (h = hex_b))"

definition sample_port :: RevocationCheckPort where
  "sample_port = createRegistryRevocationCheck sample_isRevoked None None noon"

definition sample_cap :: ProtocolCapability where
  "sample_cap = (capability_base sample_mint sample_pc [sample_entry] [''read''] ''2025-01-15T12:04:00Z'')
     \<lparr>cap_capability_hash := hex_a\<rparr>"

definition sample_execution :: RawRequest where
  "sample_execution =
     \<lparr>raw_members = [(''capability'', JObj (capability_members sample_cap)),
        (''requested_scope'', JArr [entry_value sample_entry]), (''requested_permissions'', JArr [JStr ''read'']),
        (''execution_target'', JObj [(''adapter'', JStr ''vault''), (''operation'', JStr ''read'')])],
      raw_now = DateNow (Some (noon + 60000))\<rparr>"

lemma sample_port_clears [simp]: "port_clears (ask_port sample_port s clock) \<longleftrightarrow> sr_subjectId s \<noteq> hex_b"
  by (simp add: sample_port_def registry_check_clears sample_isRevoked_def)

lemma sample_env_date [simp]: "e_date sample_env s = None"
  by (simp add: sample_env_def)

lemma sample_entry_valid: "valid_entry sample_entry"
  using sample_hex by (simp add: sample_entry_def valid_entry_def)

lemma sample_dates:
  "date_parse (\<lambda>s. None) ''2025-01-15T12:00:00Z'' = Some noon"
  "date_parse (\<lambda>s. None) ''2026-01-15T12:00:00Z'' = Some (noon + 31536000000)"
  by code_simp+

lemma sample_date_env: "date_parse (e_date sample_env) s = date_parse (\<lambda>s. None) s"
  by (simp add: sample_env_def)

lemma sample_permission: "PERMISSION_PATTERN ''read''"
  by code_simp

lemma sample_pc_dids: "DID_PATTERN ''did:aoc:alice''" "DID_PATTERN ''did:aoc:bob''"
  by code_simp+

lemma sample_pc_wf: "consent_wf sample_env sample_pc"
  using sample_version sample_pc_dids sample_hex sample_iso sample_order sample_entry_valid sample_permission
  by (simp add: consent_wf_def sample_pc_def sample_date_env sample_dates pc_MAX_SCOPE_ENTRIES_def pc_MAX_PERMISSIONS_def)

lemma sample_pc_normal: "normalizeConsent sample_env (JObj (consent_members sample_pc)) = Inr sample_pc"
  by code_simp

lemma sample_pc_current: "consent_current sample_env sample_pc (Some noon)"
  by (simp add: consent_current_def sample_pc_def sample_date_env sample_dates)

lemma sample_ready: "assertConsentReady sample_env (JObj (consent_members sample_pc)) noon sample_port clock = Inr sample_pc"
  unfolding assertConsentReady_Inr resolveConsentRevocationStatus_def
  using sample_pc_wf sample_pc_normal sample_pc_current by (simp add: sample_pc_def)

lemma sample_cap_hash: "computeCapabilityDeterministicHash sample_env c = Inr hex_a"
  using capability_hash_exists [of sample_env c] by (auto simp: computeCapabilityDeterministicHash_def sample_sha_def)

lemma sample_minted: "mintCapability sample_env sample_mint sample_port clock = Inr sample_cap"
proof -
  have scope: "mint_scope (e_cmp sample_env) [sample_entry] = [sample_entry]" by code_simp
  have perms: "mint_permissions [''read''] = [''read'']" by code_simp
  have req: "check_mint_request sample_mint sample_pc [sample_entry] [''read''] = None" by code_simp
  have times: "check_mint_times sample_mint sample_pc ''2025-01-15T12:04:00Z'' = None" by code_simp
  have fields: "mi_consent sample_mint = JObj (consent_members sample_pc)" "mi_requested_scope sample_mint = [sample_entry]"
    "mi_requested_permissions sample_mint = [''read'']" "mi_issued_at sample_mint = ''2025-01-15T12:00:00Z''"
    "mi_expires_at sample_mint = Some ''2025-01-15T12:04:00Z''"
    by (simp_all add: sample_mint_def)
  have date: "date_parse (e_date sample_env) ''2025-01-15T12:00:00Z'' = Some noon"
    unfolding sample_date_env by (rule sample_dates(1))
  show ?thesis
    unfolding mintCapability_def fields scope perms date
    using sample_iso(1) sample_ready req times
    by (simp add: assertIsoTimestamp_def Let_def sample_cap_hash sample_cap_def)
qed

lemma single_ordered: "ordered_scope sample_env [e]"
  by (simp add: ordered_scope_def total_on_by_def by_type_and_ref_def sample_cmp_def)

lemma sample_cap_scope: "cap_scope sample_cap = [sample_entry]"
  by (simp add: sample_cap_def capability_base_def)

lemma sample_cap_digest [simp]: "cap_capability_hash sample_cap = hex_a"
  by (simp add: sample_cap_def)

lemma sample_cap_verified: "verifyCapability sample_env (JObj (capability_members sample_cap)) = Inr sample_cap"
proof -
  have "cap_normalizeScope (e_cmp sample_env) [sample_entry] = [sample_entry]"
    by (simp add: cap_normalizeScope_def sort_by_def)
  moreover have "cap_marketMakerId sample_cap \<noteq> Some []" by (simp add: sample_cap_def capability_base_def sample_pc_def)
  moreover have "HASH_HEX_PATTERN (e_sha sample_env b)" for b using sample_sha_hex by simp
  ultimately show ?thesis
    using minted_verifies [OF sample_minted]
    by (simp add: sample_cap_scope single_ordered capability_update_same [of sample_cap])
qed

end
