(* ===== verification/Relationships.thy ===== *)
theory Relationships
  imports Access
begin

text \<open>
  \<open>protocol/relationships/\<close>: relationships between actors, their lifecycle, their policy bindings, their
  validity at a time, and the audit events of their transitions.

  Every operation gives a new relationship.  An absent time (\<open>at\<close>) is the time of the clock, an argument
  here.  The lifecycle is also a step relation, over whose runs the invariants are proved.
\<close>

subsection \<open>Data\<close>

datatype RelationshipState =
  RelProposed | RelPending | RelActive | RelSuspended | RelExpired | RelRevoked | RelDisputed

datatype RelationshipActorRole =
  RoleSubject | RoleBrand | RoleOrganization | RoleApp | RoleAiAgent | RoleDelegate

record RelationshipActor =
  ra_actorId :: string
  ra_actorType :: string
  ra_role :: RelationshipActorRole

record HoursUtc =
  hr_startHour :: js_num
  hr_endHour :: js_num

record RelationshipTemporalConstraints =
  tc_startsAt :: "string option"
  tc_expiresAt :: "string option"
  tc_validDaysOfWeek :: "js_num list option"
  tc_validHoursUtc :: "HoursUtc option"

record RelationshipCommunicationLimits =
  cl_maxMessagesPerDay :: "js_num option"
  cl_quietHoursUtc :: "HoursUtc option"

record AIDelegationBoundary =
  db_delegatedAiActorIds :: "string list option"
  db_allowedPurposes :: "string list option"
  db_blockedCategories :: "string list option"
  db_requiresHumanReview :: "bool option"

record RelationshipScope =
  rs_categories :: "string list option"
  rs_purposes :: "string list option"
  rs_allowedBrands :: "string list option"
  rs_allowedChannels :: "string list option"
  rs_allowedActions :: "string list option"
  rs_temporalConstraints :: "RelationshipTemporalConstraints option"
  rs_communicationLimits :: "RelationshipCommunicationLimits option"
  rs_aiDelegation :: "AIDelegationBoundary option"

record RelationshipPolicyBinding =
  pb_policyId :: string
  pb_attachedAt :: string
  pb_active :: bool
  pb_version :: "string option"

record RelationshipAuditReference =
  au_auditEventIds :: "string list"
  au_lastEvaluatedAt :: "string option"
  au_lastPolicyTraceId :: "string option"

record Relationship =
  re_id :: string
  re_type :: string
  re_state :: RelationshipState
  re_actors :: "RelationshipActor list"
  re_scope :: "RelationshipScope option"
  re_policyBindings :: "RelationshipPolicyBinding list option"
  re_audit :: "RelationshipAuditReference option"
  re_createdAt :: string
  re_updatedAt :: string
  re_startsAt :: "string option"
  re_expiresAt :: "string option"
  re_suspendedAt :: "string option"
  re_revokedAt :: "string option"

text \<open>An optional text is truthy when it is there and not empty.\<close>

definition truthy :: "string option \<Rightarrow> bool" where
  "truthy t \<longleftrightarrow> t \<noteq> None \<and> t \<noteq> Some []"

lemma truthy_simps [simp]: "\<not> truthy None" "truthy (Some s) \<longleftrightarrow> s \<noteq> []"
  by (simp_all add: truthy_def)

subsection \<open>Validity at a time\<close>

definition isRelationshipCurrentlyValid :: "host_env \<Rightarrow> Relationship \<Rightarrow> js_date \<Rightarrow> bool" where
  "isRelationshipCurrentlyValid env r now =
     (if re_state r \<noteq> RelActive then False
      else if truthy (re_revokedAt r) then False
      else if truthy (re_startsAt r) \<and> date_gt (date_parse (e_date env) (the (re_startsAt r))) now then False
      else if truthy (re_expiresAt r) \<and> date_le (date_parse (e_date env) (the (re_expiresAt r))) now then False
      else True)"

subsection \<open>Lifecycle\<close>

definition isoNow :: "string option \<Rightarrow> int \<Rightarrow> string" where
  "isoNow at clock = (case at of Some t \<Rightarrow> t | None \<Rightarrow> iso_millis clock)"

definition assertHasSubjectActor :: "RelationshipActor list \<Rightarrow> checked" where
  "assertHasSubjectActor actors =
     throw_if (\<not> list_ex (\<lambda>a. ra_role a = RoleSubject) actors) ''Relationship must include at least one subject actor''"

definition applyState :: "Relationship \<Rightarrow> RelationshipState \<Rightarrow> string option \<Rightarrow> int \<Rightarrow> Relationship" where
  "applyState r nextState at clock = r\<lparr>re_state := nextState, re_updatedAt := isoNow at clock\<rparr>"

record CreateRelationshipInput =
  cr_id :: string
  cr_type :: string
  cr_actors :: "RelationshipActor list"
  cr_startsAt :: "string option"
  cr_expiresAt :: "string option"
  cr_scope :: "RelationshipScope option"
  cr_pending :: "bool option"

text \<open>The \<open>state\<close> of the input is absent, \<open>proposed\<close> or \<open>pending\<close>: \<open>None\<close>, \<open>Some False\<close>, \<open>Some True\<close>.\<close>

definition createRelationship :: "CreateRelationshipInput \<Rightarrow> int \<Rightarrow> Relationship throws" where
  "createRelationship i clock =
     and_return (assertHasSubjectActor (cr_actors i))
       \<lparr>re_id = cr_id i, re_type = cr_type i,
        re_state = (case cr_pending i of Some True \<Rightarrow> RelPending | _ \<Rightarrow> RelProposed),
        re_actors = cr_actors i, re_scope = cr_scope i, re_policyBindings = Some [],
        re_audit = Some \<lparr>au_auditEventIds = [], au_lastEvaluatedAt = None, au_lastPolicyTraceId = None\<rparr>,
        re_createdAt = iso_millis clock, re_updatedAt = iso_millis clock,
        re_startsAt = cr_startsAt i, re_expiresAt = cr_expiresAt i, re_suspendedAt = None, re_revokedAt = None\<rparr>"

definition activateRelationship :: "Relationship \<Rightarrow> string option \<Rightarrow> int \<Rightarrow> Relationship throws" where
  "activateRelationship r at clock =
     (if re_state r = RelRevoked then Inl ''Revoked relationships cannot be reactivated''
      else if re_state r = RelExpired then Inl ''Expired relationships cannot transition to active''
      else if re_state r = RelSuspended then Inl ''Suspended relationships require an explicit restore path''
      else Inr (applyState r RelActive at clock))"

definition suspendRelationship :: "Relationship \<Rightarrow> string option \<Rightarrow> int \<Rightarrow> Relationship" where
  "suspendRelationship r at clock =
     (let suspended = applyState r RelSuspended at clock in suspended\<lparr>re_suspendedAt := Some (re_updatedAt suspended)\<rparr>)"

definition revokeRelationship :: "Relationship \<Rightarrow> string option \<Rightarrow> int \<Rightarrow> Relationship" where
  "revokeRelationship r at clock =
     (let revoked = applyState r RelRevoked at clock in revoked\<lparr>re_revokedAt := Some (re_updatedAt revoked)\<rparr>)"

definition expireRelationship :: "Relationship \<Rightarrow> string option \<Rightarrow> int \<Rightarrow> Relationship" where
  "expireRelationship r at clock =
     (let expired = applyState r RelExpired at clock in expired\<lparr>re_expiresAt := Some (re_updatedAt expired)\<rparr>)"

definition disputeRelationship :: "Relationship \<Rightarrow> string option \<Rightarrow> int \<Rightarrow> Relationship" where
  "disputeRelationship r at clock = applyState r RelDisputed at clock"

subsection \<open>Policy bindings\<close>

definition bindings :: "Relationship \<Rightarrow> RelationshipPolicyBinding list" where
  "bindings r = (case re_policyBindings r of Some bs \<Rightarrow> bs | None \<Rightarrow> [])"

definition attach_binding :: "string \<Rightarrow> string option \<Rightarrow> string \<Rightarrow> RelationshipPolicyBinding \<Rightarrow> RelationshipPolicyBinding" where
  "attach_binding policyId version attachedAt b =
     (if pb_policyId b = policyId
      then b\<lparr>pb_active := True, pb_version := (case version of Some v \<Rightarrow> Some v | None \<Rightarrow> pb_version b),
             pb_attachedAt := attachedAt\<rparr>
      else b)"

definition attachPolicy :: "Relationship \<Rightarrow> string \<Rightarrow> string option \<Rightarrow> string option \<Rightarrow> int \<Rightarrow> Relationship" where
  "attachPolicy r policyId version at clock =
     (let attachedAt = isoNow at clock;
          nextBindings = map (attach_binding policyId version attachedAt) (bindings r)
      in r\<lparr>re_policyBindings :=
             Some (if list_ex (\<lambda>b. pb_policyId b = policyId) nextBindings then nextBindings
                   else nextBindings @ [\<lparr>pb_policyId = policyId, pb_attachedAt = attachedAt, pb_active = True,
                                         pb_version = version\<rparr>]),
           re_updatedAt := attachedAt\<rparr>)"

definition detachPolicy :: "Relationship \<Rightarrow> string \<Rightarrow> string option \<Rightarrow> int \<Rightarrow> Relationship" where
  "detachPolicy r policyId at clock =
     r\<lparr>re_policyBindings := Some (map (\<lambda>b. if pb_policyId b = policyId then b\<lparr>pb_active := False\<rparr> else b) (bindings r)),
       re_updatedAt := isoNow at clock\<rparr>"

definition listActivePolicies :: "Relationship \<Rightarrow> RelationshipPolicyBinding list" where
  "listActivePolicies r = filter pb_active (bindings r)"

subsection \<open>Audit events\<close>

datatype RelationshipAuditEventType =
    RelationshipCreated | RelationshipActivated | RelationshipSuspended | RelationshipRevoked | RelationshipExpired
  | RelationshipDisputed | PolicyAttached | PolicyDetached

definition audit_type_text :: "RelationshipAuditEventType \<Rightarrow> string" where
  "audit_type_text t = (case t of
     RelationshipCreated \<Rightarrow> ''relationship_created'' | RelationshipActivated \<Rightarrow> ''relationship_activated''
   | RelationshipSuspended \<Rightarrow> ''relationship_suspended'' | RelationshipRevoked \<Rightarrow> ''relationship_revoked''
   | RelationshipExpired \<Rightarrow> ''relationship_expired'' | RelationshipDisputed \<Rightarrow> ''relationship_disputed''
   | PolicyAttached \<Rightarrow> ''policy_attached'' | PolicyDetached \<Rightarrow> ''policy_detached'')"

record RelationshipAuditInput =
  ai_relationshipId :: string
  ai_actorId :: "string option"
  ai_occurredAt :: "string option"
  ai_policyTraceId :: "string option"
  ai_metadata :: "js option"

record RelationshipAuditEvent =
  ae_eventId :: string
  ae_type :: RelationshipAuditEventType
  ae_relationshipId :: string
  ae_actorId :: "string option"
  ae_occurredAt :: string
  ae_policyTraceId :: "string option"
  ae_metadata :: "js option"

definition buildEvent :: "RelationshipAuditEventType \<Rightarrow> RelationshipAuditInput \<Rightarrow> int \<Rightarrow> RelationshipAuditEvent" where
  "buildEvent t i clock =
     (let occurredAt = isoNow (ai_occurredAt i) clock in
      \<lparr>ae_eventId = audit_type_text t @ '':'' @ ai_relationshipId i @ '':'' @ occurredAt, ae_type = t,
       ae_relationshipId = ai_relationshipId i, ae_actorId = ai_actorId i, ae_occurredAt = occurredAt,
       ae_policyTraceId = ai_policyTraceId i, ae_metadata = ai_metadata i\<rparr>)"

definition emitRelationshipCreated :: "RelationshipAuditInput \<Rightarrow> int \<Rightarrow> RelationshipAuditEvent" where
  "emitRelationshipCreated i clock = buildEvent RelationshipCreated i clock"

definition emitRelationshipActivated :: "RelationshipAuditInput \<Rightarrow> int \<Rightarrow> RelationshipAuditEvent" where
  "emitRelationshipActivated i clock = buildEvent RelationshipActivated i clock"

definition emitRelationshipSuspended :: "RelationshipAuditInput \<Rightarrow> int \<Rightarrow> RelationshipAuditEvent" where
  "emitRelationshipSuspended i clock = buildEvent RelationshipSuspended i clock"

definition emitRelationshipRevoked :: "RelationshipAuditInput \<Rightarrow> int \<Rightarrow> RelationshipAuditEvent" where
  "emitRelationshipRevoked i clock = buildEvent RelationshipRevoked i clock"

definition emitRelationshipExpired :: "RelationshipAuditInput \<Rightarrow> int \<Rightarrow> RelationshipAuditEvent" where
  "emitRelationshipExpired i clock = buildEvent RelationshipExpired i clock"

definition emitRelationshipDisputed :: "RelationshipAuditInput \<Rightarrow> int \<Rightarrow> RelationshipAuditEvent" where
  "emitRelationshipDisputed i clock = buildEvent RelationshipDisputed i clock"

definition emitPolicyAttached :: "RelationshipAuditInput \<Rightarrow> int \<Rightarrow> RelationshipAuditEvent" where
  "emitPolicyAttached i clock = buildEvent PolicyAttached i clock"

definition emitPolicyDetached :: "RelationshipAuditInput \<Rightarrow> int \<Rightarrow> RelationshipAuditEvent" where
  "emitPolicyDetached i clock = buildEvent PolicyDetached i clock"

subsection \<open>The lifecycle as a step relation\<close>

datatype RelationshipEvent =
    DoActivate "string option"
  | DoSuspend "string option"
  | DoRevoke "string option"
  | DoExpire "string option"
  | DoDispute "string option"
  | DoAttach string "string option" "string option"
  | DoDetach string "string option"

fun event_at :: "RelationshipEvent \<Rightarrow> string option" where
  "event_at (DoActivate at) = at"
| "event_at (DoSuspend at) = at"
| "event_at (DoRevoke at) = at"
| "event_at (DoExpire at) = at"
| "event_at (DoDispute at) = at"
| "event_at (DoAttach p v at) = at"
| "event_at (DoDetach p at) = at"

inductive relationship_step :: "Relationship \<Rightarrow> RelationshipEvent \<Rightarrow> Relationship \<Rightarrow> bool" where
  activate: "activateRelationship r at clock = Inr r' \<Longrightarrow> relationship_step r (DoActivate at) r'"
| suspend: "relationship_step r (DoSuspend at) (suspendRelationship r at clock)"
| revoke: "relationship_step r (DoRevoke at) (revokeRelationship r at clock)"
| expire: "relationship_step r (DoExpire at) (expireRelationship r at clock)"
| dispute: "relationship_step r (DoDispute at) (disputeRelationship r at clock)"
| attach: "relationship_step r (DoAttach p v at) (attachPolicy r p v at clock)"
| detach: "relationship_step r (DoDetach p at) (detachPolicy r p at clock)"

inductive_cases revoke_stepE: "relationship_step r (DoRevoke at) r'"

inductive relationship_run :: "Relationship \<Rightarrow> RelationshipEvent list \<Rightarrow> Relationship \<Rightarrow> bool" where
  none: "relationship_run r [] r"
| more: "relationship_step r e r1 \<Longrightarrow> relationship_run r1 es r2 \<Longrightarrow> relationship_run r (e # es) r2"

lemmas transition_defs = applyState_def suspendRelationship_def revokeRelationship_def expireRelationship_def
  disputeRelationship_def attachPolicy_def detachPolicy_def Let_def

lemma activate_Inr:
  "activateRelationship r at clock = Inr r' \<longleftrightarrow>
   re_state r \<notin> {RelRevoked, RelExpired, RelSuspended} \<and> r' = applyState r RelActive at clock"
  by (auto simp: activateRelationship_def)

lemma iso_millis_nonempty [simp]: "iso_millis t \<noteq> []"
  by (simp add: iso_millis_def)

lemma isoNow_nonempty: "at \<noteq> Some [] \<Longrightarrow> isoNow at clock \<noteq> []"
  by (auto simp: isoNow_def split: option.splits)

subsection \<open>What every run keeps\<close>

text \<open>
  A well-formed relationship has a subject, binds each policy once, and a suspended, revoked or expired one
  says since when.
\<close>

definition relationship_ok :: "Relationship \<Rightarrow> bool" where
  "relationship_ok r \<longleftrightarrow>
     list_ex (\<lambda>a. ra_role a = RoleSubject) (re_actors r) \<and>
     distinct (map pb_policyId (bindings r)) \<and>
     (re_state r = RelSuspended \<longrightarrow> re_suspendedAt r \<noteq> None) \<and>
     (re_state r = RelRevoked \<longrightarrow> re_revokedAt r \<noteq> None) \<and>
     (re_state r = RelExpired \<longrightarrow> re_expiresAt r \<noteq> None)"

definition same_parties :: "Relationship \<Rightarrow> Relationship \<Rightarrow> bool" where
  "same_parties r r' \<longleftrightarrow>
     re_id r' = re_id r \<and> re_type r' = re_type r \<and> re_actors r' = re_actors r \<and> re_scope r' = re_scope r \<and>
     re_createdAt r' = re_createdAt r \<and> re_startsAt r' = re_startsAt r"

lemma create_ok: "createRelationship i clock = Inr r \<Longrightarrow> relationship_ok r"
  by (auto simp: createRelationship_def assertHasSubjectActor_def relationship_ok_def bindings_def
      split: option.splits bool.splits)

lemma pb_policyId_attach [simp]: "pb_policyId (attach_binding p v t b) = pb_policyId b"
  by (simp add: attach_binding_def)

lemma bindings_updated [simp]: "bindings (r\<lparr>re_policyBindings := Some bs, re_updatedAt := t\<rparr>) = bs"
  by (simp add: bindings_def)

lemma attach_ids:
  "map pb_policyId (bindings (attachPolicy r p v at clock)) =
   (if p \<in> pb_policyId ` set (bindings r) then map pb_policyId (bindings r) else map pb_policyId (bindings r) @ [p])"
  by (auto simp: attachPolicy_def Let_def comp_def list_ex_iff image_iff)

lemma detach_ids: "map pb_policyId (bindings (detachPolicy r p at clock)) = map pb_policyId (bindings r)"
  by (auto simp: detachPolicy_def comp_def)

lemma step_keeps:
  assumes "relationship_step r e r'"
  shows "same_parties r r' \<and> (relationship_ok r \<longrightarrow> relationship_ok r')"
  using assms
proof cases
  case (attach p v at clock)
  have "distinct (map pb_policyId (bindings r)) \<Longrightarrow> distinct (map pb_policyId (bindings r'))"
    unfolding attach attach_ids by auto
  moreover have "same_parties r r'" by (simp add: attach same_parties_def attachPolicy_def Let_def)
  ultimately show ?thesis by (simp add: relationship_ok_def attach attachPolicy_def Let_def)
next
  case (detach p at clock)
  have ids: "map pb_policyId (bindings r') = map pb_policyId (bindings r)" unfolding detach by (rule detach_ids)
  show ?thesis unfolding relationship_ok_def ids by (simp add: same_parties_def detach detachPolicy_def)
qed (auto simp: relationship_ok_def same_parties_def activate_Inr transition_defs bindings_def)

lemma run_keeps:
  assumes "relationship_run r es r'"
  shows "same_parties r r' \<and> (relationship_ok r \<longrightarrow> relationship_ok r')"
  using assms
proof induction
  case (more r e r1 es r2)
  then show ?case using step_keeps [OF more(1)] by (simp add: same_parties_def)
qed (simp add: same_parties_def)

subsection \<open>Revocation is final for validity\<close>

lemma revoked_not_valid: "truthy (re_revokedAt r) \<Longrightarrow> \<not> isRelationshipCurrentlyValid env r now"
  by (simp add: isRelationshipCurrentlyValid_def)

lemma step_keeps_revokedAt:
  assumes "relationship_step r e r'" "event_at e \<noteq> Some []" "truthy (re_revokedAt r)"
  shows "truthy (re_revokedAt r')"
  using assms by cases (auto simp: activate_Inr transition_defs isoNow_nonempty)

lemma run_keeps_revokedAt:
  assumes "relationship_run r es r'" "\<forall>e \<in> set es. event_at e \<noteq> Some []" "truthy (re_revokedAt r)"
  shows "truthy (re_revokedAt r')"
  using assms by (induction) (simp_all add: step_keeps_revokedAt)

lemma revoke_step_marks:
  assumes "relationship_step r (DoRevoke at) r'" "at \<noteq> Some []"
  shows "truthy (re_revokedAt r')"
  using assms by (elim revoke_stepE) (simp add: transition_defs isoNow_nonempty)

lemma run_after_revoke:
  assumes "relationship_run r es r'" "\<forall>e \<in> set es. event_at e \<noteq> Some []" "DoRevoke at \<in> set es"
  shows "truthy (re_revokedAt r')"
  using assms
proof induction
  case (more r e r1 es r2)
  show ?case
  proof (cases "e = DoRevoke at")
    case True
    with more.hyps(1) more.prems(1) have "truthy (re_revokedAt r1)" by (auto intro: revoke_step_marks)
    with more.hyps(2) more.prems(1) show ?thesis by (simp add: run_keeps_revokedAt)
  qed (use more in simp)
qed simp

subsection \<open>Which states can be reached\<close>

text \<open>
  \<open>proposed\<close> and \<open>pending\<close> are never entered again.  Every other state can be reached from every state:
  \<open>active\<close> through \<open>disputed\<close>, for a dispute may be raised in every state and an activation is refused only
  from \<open>revoked\<close>, \<open>expired\<close> and \<open>suspended\<close>.
\<close>

definition early_state :: "RelationshipState \<Rightarrow> bool" where
  "early_state s \<longleftrightarrow> s = RelProposed \<or> s = RelPending"

lemma step_state:
  assumes "relationship_step r e r'"
  shows "re_state r' = re_state r \<or> \<not> early_state (re_state r')"
  using assms by cases (auto simp: activate_Inr transition_defs early_state_def)

lemma run_state:
  assumes "relationship_run r es r'"
  shows "re_state r' = re_state r \<or> \<not> early_state (re_state r')"
  using assms
proof induction
  case (more r e r1 es r2)
  then show ?case using step_state [OF more(1)] by auto
qed simp

lemma run_single: "relationship_step r e r' \<Longrightarrow> relationship_run r [e] r'"
  by (rule relationship_run.more [OF _ relationship_run.none])

lemma activate_after_dispute:
  "relationship_run r [DoDispute at, DoActivate at']
     (applyState (disputeRelationship r at clock) RelActive at' clock)"
  by (intro relationship_run.more [OF relationship_step.dispute [of r at clock]] run_single relationship_step.activate)
     (simp add: activate_Inr disputeRelationship_def applyState_def)

lemma every_later_state_reached:
  assumes "\<not> early_state s"
  shows "\<exists>es r'. length es \<le> 2 \<and> relationship_run r es r' \<and> re_state r' = s"
proof (cases s)
  case RelActive
  show ?thesis
    by (intro exI conjI, rule_tac [2] activate_after_dispute) (simp_all add: applyState_def RelActive)
next
  case RelSuspended
  show ?thesis
    by (intro exI conjI, rule_tac [2] run_single [OF relationship_step.suspend]) (simp_all add: transition_defs RelSuspended)
next
  case RelExpired
  show ?thesis
    by (intro exI conjI, rule_tac [2] run_single [OF relationship_step.expire]) (simp_all add: transition_defs RelExpired)
next
  case RelRevoked
  show ?thesis
    by (intro exI conjI, rule_tac [2] run_single [OF relationship_step.revoke]) (simp_all add: transition_defs RelRevoked)
next
  case RelDisputed
  show ?thesis
    by (intro exI conjI, rule_tac [2] run_single [OF relationship_step.dispute]) (simp_all add: transition_defs RelDisputed)
qed (use assms in \<open>simp_all add: early_state_def\<close>)

text \<open>So the rule that a revoked relationship cannot be activated does not keep it from the state \<open>active\<close>.\<close>

lemma revoked_reaches_active:
  "\<exists>r'. relationship_run (revokeRelationship r at clock) [DoDispute at, DoActivate at] r' \<and> re_state r' = RelActive"
  by (intro exI conjI, rule activate_after_dispute [of _ _ _ clock]) (simp add: applyState_def)

subsection \<open>Validity as a window\<close>

definition in_window :: "host_env \<Rightarrow> Relationship \<Rightarrow> int \<Rightarrow> bool" where
  "in_window env r now \<longleftrightarrow>
     (\<forall>s t. re_startsAt r = Some s \<longrightarrow> s \<noteq> [] \<longrightarrow> date_parse (e_date env) s = Some t \<longrightarrow> t \<le> now) \<and>
     (\<forall>s t. re_expiresAt r = Some s \<longrightarrow> s \<noteq> [] \<longrightarrow> date_parse (e_date env) s = Some t \<longrightarrow> now < t)"

lemma date_after_iff: "date_gt d (Some now) \<longleftrightarrow> (\<exists>t. d = Some t \<and> now < t)"
  by (cases d) auto

lemma date_until_iff: "date_le d (Some now) \<longleftrightarrow> (\<exists>t. d = Some t \<and> t \<le> now)"
  by (cases d) auto

lemma valid_iff:
  "isRelationshipCurrentlyValid env r (Some now) \<longleftrightarrow>
   re_state r = RelActive \<and> \<not> truthy (re_revokedAt r) \<and> in_window env r now"
  by (cases "re_startsAt r"; cases "re_expiresAt r")
     (auto simp: isRelationshipCurrentlyValid_def in_window_def date_after_iff date_until_iff)

end
