(* ===== verification/Policy.thy ===== *)
theory Policy
  imports Relationships "HOL-Library.Mapping"
begin

text \<open>
  \<open>protocol/policy/\<close>: the policy decision point, its trace store and its audit hook.

  A trace identifier is made of the clock and a random text, which is an argument.  The store is the
  \<open>Map\<close> of \<open>decision-trace.ts\<close>; the events a registered hook receives are returned beside the decision.
  Members of actor, resource and context that no code reads (\<open>metadata\<close>, \<open>runtime\<close>, \<open>request\<close>,
  \<open>environment\<close>) are left out of the records.
\<close>

subsection \<open>Data\<close>

datatype ActorType = HumanActor | OrganizationActor | BrandActor | AppActor | AiAgentActor

record Actor =
  at_id :: string
  at_type :: ActorType
  at_organizationId :: "string option"
  at_brandId :: "string option"

record Resource =
  rc_id :: string
  rc_type :: string
  rc_ownerActorId :: "string option"
  rc_ownerOrganizationId :: "string option"
  rc_brandId :: "string option"
  rc_category :: "string option"
  rc_dataClassification :: "string option"

record PermissionFrequency =
  fq_maxCount :: js_num
  fq_windowSeconds :: js_num

record ScopedPermission =
  pm_action :: string
  pm_category :: "string option"
  pm_purpose :: "string option"
  pm_allowedBrands :: "string list option"
  pm_allowedActions :: "string list option"
  pm_frequency :: "PermissionFrequency option"
  pm_expiresAt :: "string option"
  pm_dataClassification :: "string option"

record PolicyDecision =
  pd_allow :: bool
  pd_reason :: string
  pd_obligations :: "string list option"
  pd_traceId :: string
  pd_evaluatedPolicies :: "string list"

record PolicyEvaluationInput =
  pi_actor :: Actor
  pi_resource :: Resource
  pi_action :: string
  pi_permission :: ScopedPermission
  pi_now :: "string option"

record PolicyDecisionTrace =
  tr_traceId :: string
  tr_evaluatedAt :: string
  tr_evaluatedPolicies :: "string list"
  tr_decisionReason :: string
  tr_actorId :: string
  tr_resourceId :: string

record PolicyAuditEvent =
  pe_traceId :: string
  pe_actorId :: string
  pe_resourceId :: string
  pe_action :: string
  pe_allow :: bool
  pe_reason :: string
  pe_obligations :: "string list option"
  pe_evaluatedPolicies :: "string list"

subsection \<open>Traces\<close>

type_synonym trace_store = "(string, PolicyDecisionTrace) mapping"

definition recordDecisionTrace :: "PolicyDecisionTrace \<Rightarrow> trace_store \<Rightarrow> trace_store" where
  "recordDecisionTrace t m = Mapping.update (tr_traceId t) t m"

definition getDecisionTrace :: "string \<Rightarrow> trace_store \<Rightarrow> PolicyDecisionTrace option" where
  "getDecisionTrace traceId m = Mapping.lookup m traceId"

definition createTraceId :: "int \<Rightarrow> string \<Rightarrow> string" where
  "createTraceId clock random = ''pdp_'' @ num_text (num_of_int clock) @ ''_'' @ random"

definition POLICY_EXPIRATION :: string where "POLICY_EXPIRATION = ''policy.permission.expiration''"
definition POLICY_ACTION_MATCH :: string where "POLICY_ACTION_MATCH = ''policy.permission.action_match''"
definition POLICY_CATEGORY_MATCH :: string where "POLICY_CATEGORY_MATCH = ''policy.permission.category_match''"
definition POLICY_BRAND_ALIGNMENT :: string where "POLICY_BRAND_ALIGNMENT = ''policy.permission.brand_alignment''"
definition POLICY_ACTOR_RESOURCE_ALIGNMENT :: string where
  "POLICY_ACTOR_RESOURCE_ALIGNMENT = ''policy.actor_resource.alignment''"

subsection \<open>The decision\<close>

text \<open>What a call leaves: the decision, the traces, and the events the registered hook was called with.\<close>

type_synonym pdp_result = "PolicyDecision \<times> trace_store \<times> PolicyAuditEvent list"

definition pdp_finish ::
  "bool \<Rightarrow> bool \<Rightarrow> string \<Rightarrow> string list option \<Rightarrow> string \<Rightarrow> string list \<Rightarrow> PolicyEvaluationInput \<Rightarrow> string list option \<Rightarrow>
   bool \<Rightarrow> int \<Rightarrow> trace_store \<Rightarrow> pdp_result" where
  "pdp_finish allow audited reason obligations traceId evaluated i audited_obligations hook clock m =
     (\<lparr>pd_allow = allow, pd_reason = reason, pd_obligations = obligations, pd_traceId = traceId,
       pd_evaluatedPolicies = evaluated\<rparr>,
      recordDecisionTrace \<lparr>tr_traceId = traceId, tr_evaluatedAt = iso_millis clock, tr_evaluatedPolicies = evaluated,
        tr_decisionReason = reason, tr_actorId = at_id (pi_actor i), tr_resourceId = rc_id (pi_resource i)\<rparr> m,
      if hook
      then [\<lparr>pe_traceId = traceId, pe_actorId = at_id (pi_actor i), pe_resourceId = rc_id (pi_resource i),
             pe_action = pi_action i, pe_allow = audited, pe_reason = reason, pe_obligations = audited_obligations,
             pe_evaluatedPolicies = evaluated\<rparr>]
      else [])"

definition pdp_deny ::
  "string \<Rightarrow> string list \<Rightarrow> string \<Rightarrow> PolicyEvaluationInput \<Rightarrow> bool \<Rightarrow> int \<Rightarrow> trace_store \<Rightarrow> pdp_result" where
  "pdp_deny traceId evaluated reason i hook clock m =
     pdp_finish False True reason None traceId evaluated i None hook clock m"

definition pdp_allow :: "string \<Rightarrow> string list \<Rightarrow> PolicyEvaluationInput \<Rightarrow> bool \<Rightarrow> int \<Rightarrow> trace_store \<Rightarrow> pdp_result" where
  "pdp_allow traceId evaluated i hook clock m =
     (let obligations =
        (if pm_frequency (pi_permission i) \<noteq> None then [''OBLIGATION_ENFORCE_FREQUENCY_OUTSIDE_PDP''] else []) @
        (if truthy (pm_purpose (pi_permission i)) then [''OBLIGATION_ASSERT_PURPOSE_AT_PEP''] else [])
      in pdp_finish True False ''ALLOW_BASELINE_POLICY_CHECKS_PASSED''
           (if obligations \<noteq> [] then Some obligations else None) traceId evaluated i (Some obligations) hook clock m)"

text \<open>The checks: each pushes its policy, when it applies, and may leave with a denial.\<close>

definition pdp_expiration :: "host_env \<Rightarrow> PolicyEvaluationInput \<Rightarrow> js_date \<Rightarrow> bool" where
  "pdp_expiration env i now \<longleftrightarrow>
     date_parse (e_date env) (the (pm_expiresAt (pi_permission i))) \<noteq> None \<and>
     date_gt now (date_parse (e_date env) (the (pm_expiresAt (pi_permission i))))"

definition pdp_allowedActions :: "ScopedPermission \<Rightarrow> string list" where
  "pdp_allowedActions p = (case pm_allowedActions p of Some as \<Rightarrow> as | None \<Rightarrow> [pm_action p])"

definition pdp_brand :: "PolicyEvaluationInput \<Rightarrow> string option" where
  "pdp_brand i = (case rc_brandId (pi_resource i) of Some b \<Rightarrow> Some b | None \<Rightarrow> at_brandId (pi_actor i))"

definition restricts_brands :: "ScopedPermission \<Rightarrow> bool" where
  "restricts_brands p \<longleftrightarrow> pm_allowedBrands p \<noteq> None \<and> pm_allowedBrands p \<noteq> Some []"

definition policy_now :: "host_env \<Rightarrow> PolicyEvaluationInput \<Rightarrow> int \<Rightarrow> js_date" where
  "policy_now env i clock = (if truthy (pi_now i) then date_parse (e_date env) (the (pi_now i)) else Some clock)"

definition policy_evaluateAccess ::
  "host_env \<Rightarrow> PolicyEvaluationInput \<Rightarrow> bool \<Rightarrow> string \<Rightarrow> int \<Rightarrow> trace_store \<Rightarrow> pdp_result" where
  "policy_evaluateAccess env i hook random clock m =
     (let traceId = createTraceId clock random; now = policy_now env i clock; p = pi_permission i;
          e1 = (if truthy (pm_expiresAt p) then [POLICY_EXPIRATION] else []);
          e2 = e1 @ [POLICY_ACTION_MATCH];
          e3 = (if truthy (pm_category p) then e2 @ [POLICY_CATEGORY_MATCH] else e2);
          e4 = (if restricts_brands p then e3 @ [POLICY_BRAND_ALIGNMENT] else e3);
          e5 = e4 @ [POLICY_ACTOR_RESOURCE_ALIGNMENT]
      in if truthy (pm_expiresAt p) \<and> pdp_expiration env i now
         then pdp_deny traceId e1 ''DENY_PERMISSION_EXPIRED'' i hook clock m
         else if pi_action i \<notin> set (pdp_allowedActions p)
         then pdp_deny traceId e2 ''DENY_ACTION_NOT_ALLOWED'' i hook clock m
         else if truthy (pm_category p) \<and> rc_category (pi_resource i) \<noteq> pm_category p
         then pdp_deny traceId e3 ''DENY_CATEGORY_MISMATCH'' i hook clock m
         else if restricts_brands p \<and>
                 (\<not> truthy (pdp_brand i) \<or> the (pdp_brand i) \<notin> set (the (pm_allowedBrands p)))
         then pdp_deny traceId e4 ''DENY_BRAND_NOT_ALLOWED'' i hook clock m
         else if truthy (rc_ownerActorId (pi_resource i)) \<and> rc_ownerActorId (pi_resource i) \<noteq> Some (at_id (pi_actor i))
         then pdp_deny traceId e5 ''DENY_ACTOR_RESOURCE_MISMATCH'' i hook clock m
         else pdp_allow traceId e5 i hook clock m)"

subsection \<open>What a decision says\<close>

text \<open>The permission as a predicate on the request, at the time of the evaluation.\<close>

definition permission_covers :: "host_env \<Rightarrow> PolicyEvaluationInput \<Rightarrow> js_date \<Rightarrow> bool" where
  "permission_covers env i now \<longleftrightarrow>
     (let p = pi_permission i; r = pi_resource i in
      (\<forall>e t x. pm_expiresAt p = Some e \<longrightarrow> e \<noteq> [] \<longrightarrow> date_parse (e_date env) e = Some x \<longrightarrow> now = Some t \<longrightarrow> t \<le> x) \<and>
      pi_action i \<in> set (pdp_allowedActions p) \<and>
      (\<forall>c. pm_category p = Some c \<longrightarrow> c \<noteq> [] \<longrightarrow> rc_category r = Some c) \<and>
      (restricts_brands p \<longrightarrow> (\<exists>b. pdp_brand i = Some b \<and> b \<noteq> [] \<and> b \<in> set (the (pm_allowedBrands p)))) \<and>
      (\<forall>a. rc_ownerActorId r = Some a \<longrightarrow> a \<noteq> [] \<longrightarrow> a = at_id (pi_actor i)))"

lemmas pdp_finish_defs = pdp_deny_def pdp_allow_def pdp_finish_def Let_def

lemma expiration_ok_iff:
  "\<not> (truthy (pm_expiresAt (pi_permission i)) \<and> pdp_expiration env i now) \<longleftrightarrow>
   (\<forall>e t x. pm_expiresAt (pi_permission i) = Some e \<longrightarrow> e \<noteq> [] \<longrightarrow> date_parse (e_date env) e = Some x \<longrightarrow>
      now = Some t \<longrightarrow> t \<le> x)"
  by (cases "pm_expiresAt (pi_permission i)"; cases now;
      cases "date_parse (e_date env) (the (pm_expiresAt (pi_permission i)))")
     (simp_all add: pdp_expiration_def linorder_not_less, auto)

lemma category_ok_iff: "\<not> (truthy c \<and> x \<noteq> c) \<longleftrightarrow> (\<forall>s. c = Some s \<longrightarrow> s \<noteq> [] \<longrightarrow> x = Some s)"
  by (cases c) auto

lemma brand_ok_iff: "\<not> (\<not> truthy b \<or> the b \<notin> S) \<longleftrightarrow> (\<exists>s. b = Some s \<and> s \<noteq> [] \<and> s \<in> S)"
  by (cases b) auto

lemma owner_ok_iff: "\<not> (truthy a \<and> a \<noteq> Some x) \<longleftrightarrow> (\<forall>s. a = Some s \<longrightarrow> s \<noteq> [] \<longrightarrow> s = x)"
  by (cases a) auto

lemma covers_iff:
  "permission_covers env i now \<longleftrightarrow>
     \<not> (truthy (pm_expiresAt (pi_permission i)) \<and> pdp_expiration env i now) \<and>
     pi_action i \<in> set (pdp_allowedActions (pi_permission i)) \<and>
     \<not> (truthy (pm_category (pi_permission i)) \<and> rc_category (pi_resource i) \<noteq> pm_category (pi_permission i)) \<and>
     \<not> (restricts_brands (pi_permission i) \<and>
         (\<not> truthy (pdp_brand i) \<or> the (pdp_brand i) \<notin> set (the (pm_allowedBrands (pi_permission i))))) \<and>
     \<not> (truthy (rc_ownerActorId (pi_resource i)) \<and> rc_ownerActorId (pi_resource i) \<noteq> Some (at_id (pi_actor i)))"
  unfolding permission_covers_def Let_def expiration_ok_iff [symmetric] category_ok_iff [symmetric]
    brand_ok_iff [symmetric] owner_ok_iff [symmetric] by blast

text \<open>Every evaluation ends in a denial or in the allowance, with the trace identifier of the call.\<close>

lemma policy_cases:
  assumes "\<And>evaluated reason. P (pdp_deny (createTraceId clock random) evaluated reason i hook clock m)"
    "\<And>evaluated. P (pdp_allow (createTraceId clock random) evaluated i hook clock m)"
  shows "P (policy_evaluateAccess env i hook random clock m)"
  unfolding policy_evaluateAccess_def Let_def by (simp split: if_split add: assms)

lemma pdp_allow_deny [simp]:
  "\<not> pd_allow (fst (pdp_deny t e r i hook clock m))" "pd_allow (fst (pdp_allow t e i hook clock m))"
  by (simp_all add: pdp_finish_defs)

lemma policy_allow_iff:
  "pd_allow (fst (policy_evaluateAccess env i hook random clock m)) \<longleftrightarrow> permission_covers env i (policy_now env i clock)"
  unfolding covers_iff policy_evaluateAccess_def Let_def by (simp split: if_split) argo

lemma policy_trace:
  "\<exists>t. fst (snd (policy_evaluateAccess env i hook random clock m)) =
        Mapping.update (pd_traceId (fst (policy_evaluateAccess env i hook random clock m))) t m \<and>
     pd_traceId (fst (policy_evaluateAccess env i hook random clock m)) = createTraceId clock random \<and>
     tr_decisionReason t = pd_reason (fst (policy_evaluateAccess env i hook random clock m)) \<and>
     tr_evaluatedPolicies t = pd_evaluatedPolicies (fst (policy_evaluateAccess env i hook random clock m)) \<and>
     tr_actorId t = at_id (pi_actor i) \<and> tr_resourceId t = rc_id (pi_resource i)"
  by (rule policy_cases) (simp_all add: pdp_finish_defs recordDecisionTrace_def, auto)

text \<open>The events of the hook say the opposite of the decision.\<close>

lemma audit_event_inverts:
  "map pe_allow (snd (snd (policy_evaluateAccess env i True random clock m))) =
   [\<not> pd_allow (fst (policy_evaluateAccess env i True random clock m))]"
  by (rule policy_cases) (simp_all add: pdp_finish_defs)

end
