(* ===== verification/ProtocolProperties.thy ===== *)
theory ProtocolProperties
  imports ProtocolSamples Policy
begin

text \<open>
  The properties of \<open>protocol/\<close>: consents and capabilities of the protocol layer, the enforcement of execution
  requests with the revocation port, relationships and the policy decision point.
\<close>

section \<open>Consents and capabilities\<close>

text \<open>
  C32: a protocol consent is active at a time exactly when it is well formed (patterns, bounds, no duplicates,
  ordered times), a grant, cleared by the revocation port, issued by then and not yet expired.  With an
  invalid \<open>now\<close> the comparisons with the time are vacuous, so an expired consent is active.
\<close>

theorem consent_active_exactly:
  "isConsentActive env c now port clock \<longleftrightarrow>
     consent_wf env c \<and> pc_action c = ''grant'' \<and>
     (\<exists>a. port \<lparr>sr_subjectId = pc_consent_hash c, sr_subjectType = ConsentGrant\<rparr> = Inr a \<and> a \<noteq> NoStatus \<and> port_clears a) \<and>
     consent_current env c (given_or_clock now clock)"
  unfolding isConsentActive_def consent_active resolveConsentRevocationStatus_def ask_port_clears by (rule refl)

text \<open>
  C33: a minted capability is contained in the consent it was minted from: it names its hash, subject, grantee
  and market maker, its scope and permissions are among those of the consent, and it does not outlive it.  The
  consent was well formed and active at the time of issue.  The capability verifies, up to the order of its scope,
  unless the consent's market maker is a blank text.
\<close>

theorem minted_capability_contained:
  assumes "mintCapability env i port clock = Inr c"
    "\<And>b. HASH_HEX_PATTERN (e_sha env b)" "ordered_scope env (cap_scope c)"
  shows "\<exists>consent t. normalizeConsent env (mi_consent i) = Inr consent \<and> date_parse (e_date env) (mi_issued_at i) = Some t \<and>
    isConsentActive env consent (Some (Some t)) port clock \<and> contained_in c consent \<and>
    (cap_marketMakerId c \<noteq> Some [] \<longrightarrow>
      verifyCapability env (JObj (capability_members c)) =
        Inr (c\<lparr>cap_scope := cap_normalizeScope (e_cmp env) (cap_scope c)\<rparr>))"
  using assms(1)
proof (cases rule: mint_Inr)
  case (1 t consent)
  have "isConsentActive env consent (Some (Some t)) port clock"
    unfolding isConsentActive_def consent_active using 1 by (simp add: given_or_clock_def)
  with 1 minted_verifies [OF assms] show ?thesis by blast
qed

theorem minted_capability_contained_witness:
  "contained_in sample_cap sample_pc \<and>
   verifyCapability sample_env (JObj (capability_members sample_cap)) =
     Inr (sample_cap\<lparr>cap_scope := cap_normalizeScope sample_cmp (cap_scope sample_cap)\<rparr>)"
proof -
  have hex: "HASH_HEX_PATTERN (e_sha sample_env b)" for b using sample_sha_hex by simp
  have ord: "ordered_scope sample_env (cap_scope sample_cap)" by (simp add: sample_cap_scope single_ordered)
  have mm: "cap_marketMakerId sample_cap \<noteq> Some []" by (simp add: sample_cap_def capability_base_def sample_pc_def)
  have consent: "mi_consent sample_mint = JObj (consent_members sample_pc)" by (simp add: sample_mint_def)
  from minted_capability_contained [OF sample_minted hex ord, of noon] mm show ?thesis
    unfolding consent by (auto simp: sample_pc_normal)
qed

text \<open>
  C34: a verified and cleared capability whose times are those of \<open>toISOString\<close> without milliseconds goes
  through its states in order as the clock advances: not yet active through the second of its \<open>not_before\<close>, then
  active through the whole second of its \<open>expires_at\<close>, then expired for ever.  The code compares texts, and the
  text of the time carries milliseconds: both ends are up to one second late.
\<close>

theorem capability_window:
  assumes "verifyCapability env i = Inr c" "port_clears (resolveCapabilityRevocationStatus c port clock)"
    "iso_range t" "cap_expires_at c = iso_seconds x" "iso_range x"
    "cap_not_before c = None \<or> (\<exists>b. cap_not_before c = Some (iso_seconds b) \<and> iso_range b)"
  shows "\<exists>r. evaluateCapabilityState env i (Some (Some t)) port clock = Inr r \<and>
    kst_state r =
      (if before_start c t then CapabilityNotYetActive
       else if t div 1000 \<le> x div 1000 then CapabilityActive else CapabilityExpired)"
  by (rule capability_state_at [OF assms(1-5)]) (use assms(6) in auto)

theorem capability_window_witness:
  "(\<exists>r. evaluateCapabilityState sample_env (JObj (capability_members sample_cap)) (Some (Some (noon + 240999))) sample_port noon
      = Inr r \<and> kst_state r = CapabilityActive) \<and>
   (\<exists>r. evaluateCapabilityState sample_env (JObj (capability_members sample_cap)) (Some (Some (noon + 241000))) sample_port noon
      = Inr r \<and> kst_state r = CapabilityExpired)"
proof -
  have x: "cap_expires_at sample_cap = iso_seconds (noon + 240000)"
  proof -
    have "iso_seconds (noon + 240000) = ''2025-01-15T12:04:00Z''" by code_simp
    then show ?thesis by (simp add: sample_cap_def capability_base_def)
  qed
  have nb: "cap_not_before sample_cap = None" by (simp add: sample_cap_def capability_base_def sample_mint_def)
  have clears: "port_clears (resolveCapabilityRevocationStatus sample_cap sample_port noon)"
    by (simp add: resolveCapabilityRevocationStatus_def)
  have range: "iso_range (noon + 240999)" "iso_range (noon + 241000)" "iso_range (noon + 240000)"
    by (simp_all add: iso_range_def noon_def)
  note w = capability_window [OF sample_cap_verified clears _ x range(3) disjI1 [OF nb]]
  show ?thesis
    using w [OF range(1)] w [OF range(2)] by (simp add: before_start_def nb noon_def)
qed

section \<open>Execution requests\<close>

text \<open>The host compares the references of the presented scope in a total order.\<close>

definition ordered_presentation :: "host_env \<Rightarrow> RawRequest \<Rightarrow> bool" where
  "ordered_presentation env request \<longleftrightarrow>
     (\<forall>q c. parseExecutionRequest request = Inr q \<longrightarrow> verifyCapability env (eq_capability (xq_enforcement q)) = Inr c \<longrightarrow>
        ordered_scope env (cap_scope c))"

definition authorized_by :: "host_env \<Rightarrow> RawRequest \<Rightarrow> RevocationCheckPort \<Rightarrow> int \<Rightarrow> ProtocolCapability \<Rightarrow> bool" where
  "authorized_by env request port clock c \<longleftrightarrow>
     (\<exists>q. parseExecutionRequest request = Inr q \<and> verifyCapability env (eq_capability (xq_enforcement q)) = Inr c \<and>
        active_at c port clock (execution_time q clock) \<and>
        within_capability (normalizeEnforcementRequest env (xq_enforcement q)) c)"

lemma authorize_outcome:
  assumes "raw_now request \<notin> {DateNow None, OtherNow}" "ordered_presentation env request"
  shows "\<exists>r. authorizeExecution env request port clock = Inr r \<and>
    (xr_authorized r \<longleftrightarrow> (\<exists>c. authorized_by env request port clock c)) \<and>
    (xr_authorized r \<longrightarrow>
      (\<exists>q c k. parseExecutionRequest request = Inr q \<and> verifyCapability env (eq_capability (xq_enforcement q)) = Inr c \<and>
         xr_contract r = Some k \<and> contract_within k c \<and> ec_issued_at k = iso_millis (execution_time q clock)))"
proof -
  have ord: "ordered_scope env (cap_scope c)" if "parseExecutionRequest request = Inr q"
    "verifyCapability env (eq_capability (xq_enforcement q)) = Inr c" for q c
    using assms(2) that by (simp add: ordered_presentation_def)
  have swap: "(\<exists>c. authorized_by env request port clock c) \<longleftrightarrow>
      (\<exists>q c. parseExecutionRequest request = Inr q \<and> verifyCapability env (eq_capability (xq_enforcement q)) = Inr c \<and>
         active_at c port clock (execution_time q clock) \<and>
         within_capability (normalizeEnforcementRequest env (xq_enforcement q)) c)"
    unfolding authorized_by_def by blast
  show ?thesis unfolding swap by (rule authorizeExecution_Inr [OF assms(1)]) (rule ord)
qed

text \<open>
  C35: for a request whose \<open>now\<close> is absent or a valid date, \<open>authorizeExecution\<close> returns.  It authorizes exactly
  when the request parses, its capability verifies, is cleared by the revocation port and in its window, and the
  requested scope, permissions and bindings are within it.  The contract it then issues never exceeds the
  capability and bears the time of the evaluation.
\<close>

theorem execution_outcome:
  assumes "raw_now request \<notin> {DateNow None, OtherNow}" "ordered_presentation env request"
  shows "\<exists>r. authorizeExecution env request port clock = Inr r \<and>
    (xr_authorized r \<longleftrightarrow> (\<exists>c. authorized_by env request port clock c)) \<and>
    (xr_authorized r \<longrightarrow>
      (\<exists>q c k. parseExecutionRequest request = Inr q \<and> verifyCapability env (eq_capability (xq_enforcement q)) = Inr c \<and>
         xr_contract r = Some k \<and> contract_within k c \<and> ec_issued_at k = iso_millis (execution_time q clock)))"
  by (rule authorize_outcome [OF assms])

definition sample_parsed :: ExecutionRequest where
  "sample_parsed =
     \<lparr>xq_enforcement =
        \<lparr>eq_capability = JObj (capability_members sample_cap), eq_requested_scope = [sample_entry],
         eq_requested_permissions = [''read''], eq_subject = None, eq_grantee = None, eq_marketMakerId = None,
         eq_resource = None, eq_action_context = None, eq_now = Some (noon + 60000)\<rparr>,
      xq_target = \<lparr>et_adapter = ''vault'', et_operation = ''read''\<rparr>, xq_payload = None\<rparr>"

lemma sample_parsed: "parseExecutionRequest sample_execution = Inr sample_parsed"
  by code_simp

lemma sample_parsed_simps [simp]:
  "eq_capability (xq_enforcement sample_parsed) = JObj (capability_members sample_cap)"
  "execution_time sample_parsed clock = noon + 60000"
  by (simp_all add: sample_parsed_def execution_time_def)

lemma sample_within: "within_capability (normalizeEnforcementRequest sample_env (xq_enforcement sample_parsed)) sample_cap"
proof -
  have "mint_permissions [''read''] = [''read'']" by code_simp
  moreover have "cap_permissions sample_cap = [''read'']" by (simp add: sample_cap_def capability_base_def)
  ultimately show ?thesis
    by (simp add: within_capability_def normalizeEnforcementRequest_def sample_parsed_def dedupeScope_def sort_by_def
        sample_cap_scope differs_def)
qed

lemma sample_active: "active_at sample_cap sample_port clock (noon + 60000)"
proof -
  have "iso_millis (noon + 60000) < ''2025-01-15T12:04:00Z''" by code_simp
  then show ?thesis
    by (simp add: active_at_def resolveCapabilityRevocationStatus_def sample_cap_def capability_base_def sample_mint_def)
qed

lemma sample_execution_ok:
  "raw_now sample_execution \<notin> {DateNow None, OtherNow}" "ordered_presentation sample_env sample_execution"
proof -
  show "raw_now sample_execution \<notin> {DateNow None, OtherNow}" by (simp add: sample_execution_def)
  show "ordered_presentation sample_env sample_execution"
    by (auto simp: ordered_presentation_def sample_parsed sample_cap_verified sample_cap_scope single_ordered)
qed

lemma sample_authorized: "authorized_by sample_env sample_execution sample_port noon sample_cap"
  using sample_active sample_within by (auto simp: authorized_by_def sample_parsed sample_cap_verified)

theorem execution_outcome_witness:
  "\<exists>r k. authorizeExecution sample_env sample_execution sample_port noon = Inr r \<and> xr_authorized r \<and>
     xr_contract r = Some k \<and> contract_within k sample_cap"
proof -
  from execution_outcome [OF sample_execution_ok, where port = sample_port and clock = noon]
  obtain r where r: "authorizeExecution sample_env sample_execution sample_port noon = Inr r"
    "xr_authorized r \<longleftrightarrow> (\<exists>c. authorized_by sample_env sample_execution sample_port noon c)"
    "xr_authorized r \<longrightarrow> (\<exists>k. xr_contract r = Some k \<and> contract_within k sample_cap)"
    by (auto simp: sample_parsed sample_cap_verified)
  then show ?thesis using sample_authorized by blast
qed

text \<open>
  C36: with the revocation check of a registry, execution is fail-closed: whatever hook is installed, a request is
  only authorized when the registry answered \<open>false\<close> for the hash of its capability.  A revocation, an answer
  that is no boolean and an exception all lead to a rejection.
\<close>

theorem execution_fail_closed:
  assumes "authorizeExecution env request (createRegistryRevocationCheck ask version hook clock) clock' = Inr r"
    "xr_authorized r" "raw_now request \<notin> {DateNow None, OtherNow}" "ordered_presentation env request"
  shows "\<exists>q c. parseExecutionRequest request = Inr q \<and> verifyCapability env (eq_capability (xq_enforcement q)) = Inr c \<and>
    ask (cap_capability_hash c) = Inr (Bool False)"
proof -
  let ?port = "createRegistryRevocationCheck ask version hook clock"
  obtain c where "authorized_by env request ?port clock' c"
    using authorize_outcome [OF assms(3,4), where port = ?port and clock = clock'] assms(1,2) by auto
  then obtain q where q: "parseExecutionRequest request = Inr q" "verifyCapability env (eq_capability (xq_enforcement q)) = Inr c"
    and active: "active_at c ?port clock' (execution_time q clock')"
    by (auto simp: authorized_by_def)
  from active have "ask (cap_capability_hash c) = Inr (Bool False)"
    unfolding active_at_def resolveCapabilityRevocationStatus_def by (auto dest: registry_check_hook)
  with q show ?thesis by blast
qed

theorem execution_fail_closed_witness:
  "\<exists>r q c. authorizeExecution sample_env sample_execution sample_port noon = Inr r \<and> xr_authorized r \<and>
     parseExecutionRequest sample_execution = Inr q \<and> verifyCapability sample_env (eq_capability (xq_enforcement q)) = Inr c \<and>
     sample_isRevoked (cap_capability_hash c) = Inr (Bool False)"
proof -
  obtain r where r: "authorizeExecution sample_env sample_execution sample_port noon = Inr r" "xr_authorized r"
    using authorize_outcome [OF sample_execution_ok, where port = sample_port and clock = noon] sample_authorized by blast
  with execution_fail_closed [OF r [unfolded sample_port_def] sample_execution_ok] show ?thesis by blast
qed

section \<open>Relationships\<close>

text \<open>
  C37: from its creation on, every run of the lifecycle and of the policy bindings keeps a relationship well
  formed: it has a subject among its actors, binds each policy at most once, and says since when it is suspended,
  revoked or expired; its identity, parties, scope, creation time and start never change.
\<close>

theorem relationship_invariant:
  assumes "createRelationship i clock = Inr r" "relationship_run r es r'"
  shows "relationship_ok r' \<and> same_parties r r'"
  using run_keeps [OF assms(2)] create_ok [OF assms(1)] by blast

definition sample_relationship :: CreateRelationshipInput where
  "sample_relationship =
     \<lparr>cr_id = ''rel-1'', cr_type = ''membership'',
      cr_actors = [\<lparr>ra_actorId = ''alice'', ra_actorType = ''human'', ra_role = RoleSubject\<rparr>,
                   \<lparr>ra_actorId = ''acme'', ra_actorType = ''brand'', ra_role = RoleBrand\<rparr>],
      cr_startsAt = None, cr_expiresAt = None, cr_scope = None, cr_pending = None\<rparr>"

lemma sample_relationship_created: "\<exists>r. createRelationship sample_relationship noon = Inr r"
  by (simp add: createRelationship_def assertHasSubjectActor_def sample_relationship_def)

theorem relationship_invariant_witness:
  "\<exists>r r'. createRelationship sample_relationship noon = Inr r \<and>
     relationship_run r [DoRevoke None, DoDispute None, DoActivate None] r' \<and> relationship_ok r'"
proof -
  obtain r where r: "createRelationship sample_relationship noon = Inr r" using sample_relationship_created by blast
  obtain r' where "relationship_run (revokeRelationship r None noon) [DoDispute None, DoActivate None] r'"
    using revoked_reaches_active by blast
  then have run: "relationship_run r [DoRevoke None, DoDispute None, DoActivate None] r'"
    by (rule relationship_run.more [OF relationship_step.revoke])
  with r relationship_invariant [OF r run] show ?thesis by blast
qed

text \<open>
  C38: after a revocation a relationship is never valid again, at no time and whatever transitions follow, provided
  no transition is given the empty text as its time (the code tests \<open>revokedAt\<close> for truth).
\<close>

theorem relationship_revocation_final:
  assumes "relationship_run r es r'" "\<forall>e \<in> set es. event_at e \<noteq> Some []" "DoRevoke at \<in> set es"
  shows "\<not> isRelationshipCurrentlyValid env r' now"
  by (rule revoked_not_valid [OF run_after_revoke [OF assms]])

theorem relationship_revocation_final_witness:
  "\<exists>r r'. createRelationship sample_relationship noon = Inr r \<and>
     relationship_run r [DoRevoke None, DoDispute None, DoActivate None] r' \<and> re_state r' = RelActive \<and>
     \<not> isRelationshipCurrentlyValid sample_env r' (Some noon)"
proof -
  obtain r where r: "createRelationship sample_relationship noon = Inr r" using sample_relationship_created by blast
  obtain r' where r': "relationship_run (revokeRelationship r None noon) [DoDispute None, DoActivate None] r'"
    "re_state r' = RelActive"
    using revoked_reaches_active by blast
  from r'(1) have run: "relationship_run r [DoRevoke None, DoDispute None, DoActivate None] r'"
    by (rule relationship_run.more [OF relationship_step.revoke])
  from relationship_revocation_final [OF run, of None] run r r'(2) show ?thesis by auto
qed

text \<open>
  Every relationship can reach every state but \<open>proposed\<close> and \<open>pending\<close> in at most two transitions, the
  state \<open>active\<close> too, also from \<open>revoked\<close>, \<open>expired\<close> and \<open>suspended\<close>: a dispute may be raised anywhere and
  an activation is accepted from it.  No run enters \<open>proposed\<close> or \<open>pending\<close>.
\<close>

theorem relationship_reachability:
  "(early_state s \<or> (\<exists>es r'. length es \<le> 2 \<and> relationship_run r es r' \<and> re_state r' = s)) \<and>
   (\<nexists>es r'. relationship_run r es r' \<and> re_state r' \<noteq> re_state r \<and> early_state (re_state r'))"
  using every_later_state_reached [of s r] run_state by blast

section \<open>Policy decisions\<close>

text \<open>
  C40: the policy decision point allows exactly when the permission covers the request: not expired, the action
  among those allowed, the category of the resource, a brand among those allowed and the owner of the resource.
  The decision is recorded under its trace identifier with its reason, and the registered audit hook
  receives one event, whose \<open>allow\<close> is the negation of the decision's.
\<close>

theorem policy_decision:
  "pd_allow (fst (policy_evaluateAccess env i hook random clock m)) = permission_covers env i (policy_now env i clock) \<and>
   (\<exists>t. getDecisionTrace (createTraceId clock random) (fst (snd (policy_evaluateAccess env i hook random clock m))) = Some t \<and>
      tr_decisionReason t = pd_reason (fst (policy_evaluateAccess env i hook random clock m))) \<and>
   map pe_allow (snd (snd (policy_evaluateAccess env i True random clock m))) =
     [\<not> pd_allow (fst (policy_evaluateAccess env i True random clock m))]"
  using policy_trace [of env i hook random clock m]
  by (auto simp: policy_allow_iff audit_event_inverts getDecisionTrace_def)

end
