(* ===== verification/Spec2Isabelle.thy ===== *)
theory Spec2Isabelle
  imports CaseProperties EvidenceStore VerificationProperties ReviewProperties ProtocolizationProperties VaultProperties ProtocolProperties
begin

text \<open>
  Soberania Protocol: the sovereign-data core of the repository.

  A subject describes personal data in small steps: a \<^emph>\<open>content\<close> or \<^emph>\<open>field\<close> manifest fixes one datum, a
  storage pointer says where its bytes lie, a \<^emph>\<open>pack\<close> collects fields.  A \<^emph>\<open>consent\<close> grants a grantee
  permissions on a scope of such objects, a \<^emph>\<open>capability token\<close> is minted from a consent and is what the
  grantee presents.  The presentation is judged by the access decision (\<open>evaluateCapabilityAccess\<close>) and,
  at run time, by \<open>consumeCapabilityAccess\<close>, which adds clock skew, rate limiting, revocation, replay
  protection and payment around that decision.  All objects are identified by the SHA-256 digest of
  their canonical JSON text, so the canonical text is at the bottom of the development.

  \<^bold>\<open>Theories, bottom up, and the sources they model.\<close>
  \<^item> \<open>Prelude\<close>: results that may throw (\<open>checked\<close>, \<open>throws\<close>, \<open>first_throw\<close>, \<open>and_return\<close>), the rule
    collections \<open>throws_simps\<close> and others, stable sorting by a comparator.
  \<^item> \<open>JsText\<close>, \<open>JsDate\<close>: the parts of the JavaScript library the code uses: trimming, splitting, decimal
    text, the regular expressions as boolean functions, UTF-8, dates as milliseconds, \<open>toISOString\<close> and the
    parsing of ISO texts.
  \<^item> \<open>Canonical\<close>: \<open>packages/protocol/src/canonical/canonicalize.ts\<close> (re-exported by \<open>canonicalize.ts\<close> and
    \<open>crypto/canonicalize.ts\<close>) and \<open>aocId.ts\<close>.
  \<^item> \<open>Sem\<close>: \<open>enforcement/sem.ts\<close>.  \<open>Shared\<close>: \<open>shared/*.ts\<close>, the market maker registry.
  \<^item> \<open>Storage\<close>: \<open>storage/*.ts\<close>.  \<open>Manifests\<close>: \<open>field/*.ts\<close>, \<open>content/*.ts\<close>, \<open>pack/*.ts\<close>.
  \<^item> \<open>Consent\<close>: \<open>consent/*.ts\<close>.  \<open>Registries\<close>: \<open>capability/registries/*.ts\<close>, \<open>capability/revocation.ts\<close>.
  \<^item> \<open>Capability\<close>: \<open>capability/*.ts\<close>, the redemption in \<open>enforcement/sem.ts\<close>.
  \<^item> \<open>Access\<close>: \<open>aoc/capabilities/core/*.ts\<close>, \<open>aoc/capabilities/consent/consentBinding.ts\<close>.
  \<^item> \<open>RateLimit\<close>, \<open>Consumption\<close>: \<open>aoc/capabilities/runtime/consumeCapabilityAccess.ts\<close>.
  \<^item> \<open>Sdl\<close>: \<open>sdl/*.ts\<close>.  \<open>Resolver\<close>: \<open>resolver/resolve.ts\<close>.  \<open>Enforcer\<close>:
    \<open>aoc/capabilities/legacy/capabilityEnforcer.ts\<close>.  \<open>Vault\<close>: \<open>vault/vault.ts\<close>, its store and its calls as a run.
    \<open>Interpreter\<close>: \<open>interpreter/*.ts\<close>, \<open>aoc/sdk/executeCapabilityFlow.ts\<close>.  \<open>MemoryTaxonomy\<close>:
    \<open>vault/memoryTaxonomy.ts\<close>.
  \<^item> \<open>Revocation\<close>: \<open>protocol/revocation/*.ts\<close>, the tri-state status and the port by which it is asked for.
    \<open>JsonInput\<close>: reading unknown JSON values, shared by the parsers that follow.
  \<^item> \<open>ProtocolConsent\<close>, \<open>ProtocolCapability\<close>, \<open>Enforcement\<close>, \<open>Execution\<close>: \<open>protocol/consent\<close>,
    \<open>protocol/capability\<close>, \<open>protocol/enforcement\<close> and \<open>protocol/execution\<close>, each resting on the one before.
  \<^item> \<open>Relationships\<close>: \<open>protocol/relationships/*.ts\<close>, also as a step relation.  \<open>Policy\<close>: \<open>protocol/policy/*.ts\<close>.
  \<^item> \<open>SubjectIdentity\<close>: \<open>packages/protocol/src/identity/*.ts\<close>.  \<open>AssetVocabulary\<close>, \<open>AssetProfiles\<close>,
    \<open>ProfileCatalog\<close>: under \<open>packages/asset-protocolization/src\<close>, the identifiers, the profiles (\<open>profile.ts\<close>,
    \<open>requirements.ts\<close>, \<open>constraints.ts\<close>, \<open>profile-validation.ts\<close> and what they name) and their catalogue.
  \<^item> \<open>AssetCase\<close>, \<open>CaseOperations\<close>, \<open>CaseProgress\<close>, \<open>CaseStore\<close>: \<open>packages/asset-protocolization/src/case/*.ts\<close>: the
    aggregate with its validation, its operations, its progress against the pinned profile, its repository.
    \<open>CaseInvariant\<close>: what the operations establish.  \<open>CaseRuns\<close>: writers over one catalogue and one repository.
  \<^item> \<open>EvidenceIntake\<close>, \<open>EvidenceStore\<close>: \<open>evidence/*.ts\<close> of the same package.  \<open>Declarations\<close>, \<open>DeclarationStore\<close>:
    \<open>declarations/*.ts\<close>.  \<open>RecordStore\<close>: what their append-only repositories share.  \<open>IntakeRuns\<close>: both kinds of intake
    on one case, each committed with its record or not at all.
  \<^item> \<open>Verification\<close>: \<open>verification/*.ts\<close> but the following.  \<open>VerificationRuns\<close>: when an execution, the plan and a run
    succeed and what they return.  \<open>VerificationStore\<close>: \<open>verification-repository.ts\<close>, \<open>verification-projections.ts\<close>.
    \<open>VerificationChecks\<close>: \<open>verification-builtin-checks.ts\<close>.  \<open>CheckVerdicts\<close>: what its checks return and mean.
  \<^item> \<open>Reviews\<close>, \<open>ReviewOperations\<close>, \<open>ReviewStore\<close>: \<open>attestation/*.ts\<close>: the records of professional review with their
    validation, the request, the packet and the decision with the attestation it may produce, the two repositories.
    \<open>ReviewRuns\<close>: when the operations succeed, and a case with its requests, decisions and attestations as a step relation.
  \<^item> \<open>Readiness\<close>, \<open>ReadinessEvaluation\<close>: \<open>state-machine/*.ts\<close>: the evaluators of the five kinds of requirement, the
    evaluation of a case and its projections.  \<open>ReadinessMeaning\<close>: an abstract specification of each evaluator
    (\<open>requirement_met\<close>) and of the states.  \<open>ReviewCurrency\<close>: which recorded attestations count.
  \<^item> \<open>Protocolization\<close>: \<open>execution/*.ts\<close> but the following: the request to protocolize a case, the recorded result with
    its validation, the gates and the operation, which quotes a stored evaluation of readiness and never evaluates one.
    \<open>ProtocolizationStore\<close>: \<open>execution-repository.ts\<close>.  \<open>ProtocolizationRuns\<close>: the operation and its two writes as a step
    relation over one case.  \<open>ProtocolizationOutcome\<close>: when the gates pass and the result is valid.
  \<^item> \<open>Samples\<close>, \<open>ProtocolSamples\<close>, \<open>CaseSamples\<close>, \<open>ReviewSamples\<close>: concrete consents, tokens, requests, cases and reviews
    for the witnesses.
  \<^item> \<open>Spec2Isabelle\<close>, \<open>VaultProperties\<close>, \<open>ProtocolProperties\<close>, \<open>CaseProperties\<close>, \<open>VerificationProperties\<close>,
    \<open>ReviewProperties\<close>, \<open>ProtocolizationProperties\<close>: the properties.

  \<^bold>\<open>How the code is represented.\<close>  A function that throws an \<open>Error\<close> returns \<open>Inl\<close> of its message; a
  function called for its exceptions only is \<open>checked\<close>, the message if it throws.  An optional or nullable
  member is an \<open>option\<close>; enumerations that the code checks at run time stay texts, so that the branch that
  rejects them is a branch of the model.  The typed records of the source are records here, and the \<open>typeof\<close>
  guards on members whose type is fixed by the interface hold for every value of the record.  A JavaScript
  \<open>Map\<close> is an association list, a \<open>Set\<close> a set.  Numbers are shortest decimals with \<open>NaN\<close>, the infinities
  and the negative zero (\<open>NegZero\<close>, written \<open>0\<close> by \<open>String\<close> and \<open>JSON.stringify\<close>) in \<open>js_num\<close>, with their text as
  ECMAScript writes it; characters are code units below 256.  A handler is cut
  at its early returns into stages (\<open>status_stage\<close>, \<open>temporal_stage\<close>, \<dots>), and a stage leaves with the denial
  the code returns there or passes the checks on; \<open>run_stages\<close> and \<open>consume_at\<close> compose them in the order
  of the code.  Registries are given as records of operations on a state (\<open>registry_ops\<close>, \<open>consume_ops\<close>), as
  the source takes them as interfaces, and \<open>slot\<close> is \<open>opts.x ?? default\<close>.  An argument of type \<open>unknown\<close> is a JSON
  value (\<open>js\<close>); the message of an error that the engine itself throws is that of V8.  A \<open>Date\<close> is \<open>js_date\<close>, an
  optional number of milliseconds, \<open>None\<close> being the invalid date, whose comparisons are false.  A vault request
  reads the clock once.  A revocation port is a function to what its call gives: an exception, a status, or,
  from untyped code, an object with another status text or none (\<open>port_answer\<close>).

  \<^bold>\<open>Parameters.\<close>  SHA-256 (\<open>sha\<close>), \<open>localeCompare\<close> (\<open>cmp\<close>) and the host's parsing of date texts that are not in ISO
  form (\<open>e_date\<close>) are not code of the repository.  No property assumes more of them than it states:
  that digests are 64 hexadecimal digits, or that the comparison is a total order on the texts at hand.
  The system clock, the random token identifier and the random UUID of an asset are arguments.

  \<^bold>\<open>Interfaces as locales.\<close>  \<open>market_maker_view\<close>, \<open>storage_adapter\<close>, \<open>nonce_registry\<close>, \<open>revocation_registry\<close>,
  \<open>lawful_registries\<close>, \<open>usage_counter\<close>, \<open>rate_limiter\<close>, \<open>profile_catalog\<close> and \<open>case_repository\<close> state what the clients
  rely on; each is interpreted on the model of the in-memory (or local) implementation of the repository.
  \<open>record_store\<close> is the contract of the append-only repositories, interpreted for receipts, declarations, results and
  requests for review; \<open>indexed_store\<close> extends it by an index of which no key is taken twice, interpreted for decisions of
  review and for the results of protocolization.

  \<^bold>\<open>What is shown.\<close>  C1-C3, C5, C6: which presentations are consumed, that a token is consumed at most once and never
  after its revocation, the bound of skew, and which attempts the rate limiter lets through in any window.  C7, C25, C26: cases
  of protocolization, their history under interleaved writers, their progress and their operations.  C23: the intake of
  evidence and declarations into a case.  C9, C19, C21: verification of a case, its latest results, its runs, the meaning
  of its built-in checks.  C4, C39: what the readiness of a case means and which outcome of review prevails.  C13, C17:
  the provenance of every attestation over runs of reviews, and that a requirement for two attestations is never met.
  C10: whatever the interleaving of operations, evaluations and executions over a case, every recorded protocolization is
  of one version of it, the only one of its revision, and quotes a ready evaluation made of that version, which met every
  required requirement of its profile.
  C8: the access decision as a conjunction.  C11, C12, C14-C16: verification of tokens, replay, attenuation by
  minting, and different tokens have different hashed texts.  C18: consents.  C20, C22: two values have one canonical
  text exactly when they agree up to the order of members and the sign of a zero; timestamps are faithful.  C24: storage.
  C27-C31: paths, the invariant of the vault over all runs, its accesses, the flow of the SDK, which always returns.
  C32-C36: consents and capabilities of the protocol layer, their windows, and the authorization of executions,
  which is fail-closed over the registry's answers.  C37, C38: relationships, their invariant and the finality of
  revocation.  C40: policy decisions and what they record.

  \<^bold>\<open>Not modelled.\<close>  Objects with getters, symbols or cycles, and values whose static type is violated other than
  where the code checks it; operating-system errors other than a missing file; code units above 255.  The
  manifest lists the parts of the repository that have no theory.
\<close>

lemma sample_presented: "\<exists>d st'. consumeCapabilityAccess env ops sample_request clock st = Inr (d, st')"
proof -
  obtain d st' where r: "consume_at env ops sample_request (noon + 60000) clock st = (d, st')"
    by (rule prod.exhaust)
  have "now_date env (w_now sample_request) clock = Some (noon + 60000)"
    by (simp add: now_date_def sample_request_def)
  with r show ?thesis by (simp add: consumeCapabilityAccess_def)
qed

section \<open>Consumption of capabilities\<close>

text \<open>
  C1: a presentation to \<open>consumeCapabilityAccess\<close> is allowed exactly when the request is well formed and
  every check passes: the parent consent (when one is given) is valid and binds the token, all
  timestamps are within the clock skew, the access decision allows, the rate limit is not exhausted, the
  token is not revoked, it has not been seen (and replay protection is there when it is required), and
  a priced consent is paid.  An allowed presentation marks the token, counts the attempt and records the
  use; a token is reported as consumed exactly when a nonce registry took it.
\<close>

theorem consumption_allowed:
  assumes "consumeCapabilityAccess env ops q clock st = Inr (d, st')"
  shows "x_allowed d \<longleftrightarrow>
    (\<exists>now cap a r. now_date env (w_now q) clock = Some now \<and> consume_prepare env q = Inr (cap, a, r) \<and>
       consumable env ops q cap a r now clock st \<and> st' = consume_effect ops q cap now st \<and>
       x_consumed d = (cs_nonce st \<noteq> None \<and> w_consume q))"
proof -
  obtain now where n: "now_date env (w_now q) clock = Some now" "consume_at env ops q now clock st = (d, st')"
    using assms by (auto simp: consumeCapabilityAccess_def split: option.splits)
  show ?thesis
    using consume_at_cases [of env ops q now clock st] unfolding n fst_conv snd_conv by auto
qed

theorem consumption_allowed_witness:
  "\<exists>d st'. consumeCapabilityAccess sample_env mem_consume_ops sample_request noon sample_state = Inr (d, st') \<and> x_allowed d \<and>
     (\<exists>now cap a r. consumable sample_env mem_consume_ops sample_request cap a r now noon sample_state)"
proof -
  obtain d st' where r: "consumeCapabilityAccess sample_env mem_consume_ops sample_request noon sample_state = Inr (d, st')"
    "x_allowed d" using sample_consumed [of noon] by blast
  with consumption_allowed [OF r(1)] show ?thesis by blast
qed

text \<open>
  C2: over any sequence of presentations, with denials and thrown errors in between, no token
  identifier is consumed twice, for every nonce registry that remembers what it marked.
\<close>

theorem consumption_at_most_once:
  assumes "lawful_registries (co_reg ops)" "consume_run env ops st tr st'"
  shows "distinct (consumed_ids tr)"
  by (rule consumed_once [OF assms(2,1)])

theorem consumption_at_most_once_witness:
  "\<exists>d st'. consume_run sample_env mem_consume_ops sample_state [(sample_request, d)] st' \<and>
     consumed_ids [(sample_request, d)] = [hex_c] \<and> distinct (consumed_ids [(sample_request, d)])"
proof -
  obtain d st' where r: "consumeCapabilityAccess sample_env mem_consume_ops sample_request noon sample_state = Inr (d, st')"
    "x_consumed d" using sample_consumed [of noon] by blast
  have run: "consume_run sample_env mem_consume_ops sample_state [(sample_request, d)] st'"
    by (rule consume_run.presented [OF r(1) consume_run.no_more])
  have "lawful_registries (co_reg mem_consume_ops)"
    by (simp add: mem_consume_ops_def mem.lawful_registries_axioms)
  from consumption_at_most_once [OF this run]
  have "distinct (consumed_ids [(sample_request, d)])" .
  moreover have "consumed_ids [(sample_request, d)] = [hex_c]"
    using r(2) by (simp add: sample_request_capability)
  ultimately show ?thesis using run by (intro exI [of _ d] exI [of _ st'] conjI)
qed

text \<open>
  C3: a token whose hash is revoked is not allowed by any presentation that follows, whatever the
  requests, and no presentation changes the revocation registry.
\<close>

theorem revoked_capability_never_allowed:
  assumes "revoked_now ops st h" "consume_run env ops st tr st'"
  shows "h \<notin> set (allowed_hashes tr) \<and> revoked_now ops st' h"
  using revoked_never_allowed [OF assms(2,1)] run_keeps_revocations [OF assms(2)] assms(1)
  by (simp add: revoked_now_def)

theorem revoked_capability_never_allowed_witness:
  "\<exists>d st'. consume_run sample_env mem_consume_ops
        (sample_state\<lparr>cs_rev := \<lparr>supplied = None, module_default = {hex_a}\<rparr>\<rparr>) [(sample_request, d)] st' \<and>
     hex_a \<notin> set (allowed_hashes [(sample_request, d)])"
proof -
  let ?st = "sample_state\<lparr>cs_rev := \<lparr>supplied = None, module_default = {hex_a}\<rparr>\<rparr>"
  obtain d st' where "consumeCapabilityAccess sample_env mem_consume_ops sample_request noon ?st = Inr (d, st')"
    using sample_presented by blast
  then have run: "consume_run sample_env mem_consume_ops ?st [(sample_request, d)] st'"
    by (rule consume_run.presented [OF _ consume_run.no_more])
  have "revoked_now mem_consume_ops ?st hex_a"
    by (simp add: revoked_now_def mem_consume_ops_def mem_isRevoked_def in_use_def)
  from revoked_capability_never_allowed [OF this run] run show ?thesis by blast
qed

text \<open>
  A presentation that is denied consumes nothing: the nonce, usage and revocation registries
  are as before, and only the attempt counter of the rate limiter may have moved.
\<close>

theorem denial_keeps_registries:
  assumes "consumeCapabilityAccess env ops q clock st = Inr (d, st')" "\<not> x_allowed d"
  shows "\<not> x_consumed d \<and> cs_nonce st' = cs_nonce st \<and> cs_usage st' = cs_usage st \<and> cs_rev st' = cs_rev st"
  using assms(1) by (cases rule: consume_step_cases) (use assms(2) in \<open>auto simp: rate_only_def\<close>)

definition unknown_action_request :: ConsumptionRequest where
  "unknown_action_request = sample_request\<lparr>w_action := ''erase''\<rparr>"

theorem denial_keeps_registries_witness:
  "\<exists>d st'. consumeCapabilityAccess sample_env mem_consume_ops unknown_action_request noon sample_state = Inr (d, st') \<and>
     \<not> x_allowed d \<and> cs_nonce st' = Some {}"
proof -
  have p: "\<exists>m. consume_prepare sample_env unknown_action_request = Inl m"
  proof -
    have "case consume_normalizeAction ''erase'' of Inl m \<Rightarrow> True | Inr a \<Rightarrow> False" by code_simp
    then have "\<exists>m. consume_normalizeAction ''erase'' = Inl m" by (simp split: sum.splits)
    then show ?thesis by (auto simp: consume_prepare_def unknown_action_request_def)
  qed
  have "now_date sample_env (w_now unknown_action_request) noon = Some (noon + 60000)"
    by (simp add: now_date_def unknown_action_request_def sample_request_def)
  with p obtain d st' where
    r: "consumeCapabilityAccess sample_env mem_consume_ops unknown_action_request noon sample_state = Inr (d, st')" "\<not> x_allowed d"
    by (auto simp: consumeCapabilityAccess_def consume_at_def Let_def)
  from denial_keeps_registries [OF r] r show ?thesis by (auto simp: sample_state_def)
qed

text \<open>
  C5: a capability can only be consumed within five minutes of each of its timestamps, so a token whose
  lifetime is longer than ten minutes is refused at every clock.
\<close>

theorem long_lived_capability_refused:
  assumes "w_capability q = Some cap" "date_parse (e_date env) (t_issued_at cap) = Some i"
    "date_parse (e_date env) (t_expires_at cap) = Some e" "e - i > 600000"
    "consumeCapabilityAccess env ops q clock st = Inr (d, st')"
  shows "\<not> x_allowed d"
proof
  assume "x_allowed d"
  with assms(5) obtain now a r where "skew_ok env cap (w_consent q) now"
    by (cases rule: consume_step_cases) (use assms(1) in \<open>auto simp: consumable_def\<close>)
  then show False using assms(2-4) by (auto simp: skew_ok_def within_skew_def)
qed

definition long_lived_request :: ConsumptionRequest where
  "long_lived_request =
     sample_request\<lparr>w_capability := Some (sample_capability\<lparr>t_expires_at := ''2025-06-15T12:00:00Z''\<rparr>)\<rparr>"

theorem long_lived_capability_refused_witness:
  "\<exists>d st'. consumeCapabilityAccess sample_env mem_consume_ops long_lived_request noon sample_state = Inr (d, st') \<and>
     \<not> x_allowed d"
proof -
  let ?cap = "sample_capability\<lparr>t_expires_at := ''2025-06-15T12:00:00Z''\<rparr>"
  have cap: "w_capability long_lived_request = Some ?cap" by (simp add: long_lived_request_def)
  have dates: "date_parse (e_date sample_env) ''2025-01-15T12:00:00Z'' = Some noon"
    "date_parse (e_date sample_env) ''2025-06-15T12:00:00Z'' = Some (noon + 13046400000)" by code_simp+
  have i: "date_parse (e_date sample_env) (t_issued_at ?cap) = Some noon" using dates by simp
  have e: "date_parse (e_date sample_env) (t_expires_at ?cap) = Some (noon + 13046400000)" using dates by simp
  have gt: "(noon + 13046400000) - noon > 600000" by simp
  obtain d st' where r: "consumeCapabilityAccess sample_env mem_consume_ops long_lived_request noon sample_state = Inr (d, st')"
  proof -
    obtain d st' where "consume_at sample_env mem_consume_ops long_lived_request (noon + 60000) noon sample_state = (d, st')"
      by (rule prod.exhaust)
    moreover have "now_date sample_env (w_now long_lived_request) noon = Some (noon + 60000)"
      by (simp add: now_date_def long_lived_request_def sample_request_def)
    ultimately show ?thesis using that by (simp add: consumeCapabilityAccess_def)
  qed
  from long_lived_capability_refused [OF cap i e gt r] r show ?thesis by blast
qed

text \<open>
  C6: what the in-memory rate limiter lets through of a key, from any state of its registry.  While the window of the
  key is open, whatever the times and their order, it lets through exactly the first attempts up to the configured
  number, less those already counted.  When the key has no window, or its window has passed, the attempt at \<open>t\<close> opens
  one, reckoned from the second \<open>t\<close> falls in, and of it and the attempts within \<open>windowMs\<close> from there exactly the
  first \<open>maxAttempts\<close> are let through: so never more in one window, be it the first of the key or a later one.
\<close>

theorem rate_limit_bound:
  assumes "iso_range t" "1 \<le> rl_maxAttempts c"
  shows "(\<forall>st. rate_get s k = Some st \<and> (\<forall>u \<in> set ts. window_open c (rs_windowStartedAt st) u) \<longrightarrow>
      fst (rate_run c k s ts) = take (nat (rl_maxAttempts c - rs_count st)) ts) \<and>
    (window_over c s k t \<and> (\<forall>u \<in> set ts. u - 1000 * (t div 1000) < rl_windowMs c) \<longrightarrow>
      fst (rate_run c k s (t # ts)) = take (nat (rl_maxAttempts c)) (t # ts))"
proof (intro conjI allI impI; elim conjE)
  fix st assume "rate_get s k = Some st" "\<forall>u \<in> set ts. window_open c (rs_windowStartedAt st) u"
  then show "fst (rate_run c k s ts) = take (nat (rl_maxAttempts c - rs_count st)) ts"
    by (intro rate_run_window) (simp_all add: rate_get_def)
next
  assume over: "window_over c s k t" and times: "\<forall>u \<in> set ts. u - 1000 * (t div 1000) < rl_windowMs c"
  define st where "st = \<lparr>rs_key = k, rs_count = 1, rs_windowStartedAt = iso_seconds t\<rparr>"
  have "\<forall>u \<in> set ts. window_open c (rs_windowStartedAt st) u"
    using times parse_iso_seconds_roundtrip [OF assms(1)] by (simp add: window_open_def elapsed_def st_def)
  then have "fst (rate_run c k (AList.update k st s) ts) = take (nat (rl_maxAttempts c - rs_count st)) ts"
    by (intro rate_run_window) (simp_all add: update_conv')
  moreover have "nat (rl_maxAttempts c) = Suc (nat (rl_maxAttempts c - rs_count st))" using assms(2) by (simp add: st_def)
  ultimately show "fst (rate_run c k s (t # ts)) = take (nat (rl_maxAttempts c)) (t # ts)"
    using window_opens [OF over] by (simp add: st_def Let_def)
qed

text \<open>The second window of a key: the first was used up, and has passed when the next attempt comes.\<close>

theorem rate_limit_bound_witness:
  "fst (rate_run \<lparr>rl_maxAttempts = 2, rl_windowMs = 60000\<rparr> ''k''
       [(''k'', \<lparr>rs_key = ''k'', rs_count = 2, rs_windowStartedAt = iso_seconds noon\<rparr>)]
       [noon + 61000, noon + 61001, noon + 61002, noon + 61003]) = [noon + 61000, noon + 61001]"
proof -
  let ?c = "\<lparr>rl_maxAttempts = 2, rl_windowMs = 60000\<rparr>"
  let ?s = "[(''k'', \<lparr>rs_key = ''k'', rs_count = 2, rs_windowStartedAt = iso_seconds noon\<rparr>)]"
  have range: "iso_range noon" "iso_range (noon + 61000)" by (simp_all add: iso_range_def noon_def)
  have "window_over ?c ?s ''k'' (noon + 61000)"
    using parse_iso_seconds_roundtrip [OF range(1)] by (simp add: window_over_def rate_get_def elapsed_def noon_def)
  moreover have "1000 * ((noon + 61000) div 1000) = noon + 61000" by (simp add: noon_def)
  ultimately show ?thesis
    using rate_limit_bound [OF range(2), of ?c ?s "''k''" "[noon + 61001, noon + 61002, noon + 61003]"] by simp
qed

text \<open>
  A window shorter than the part of its second that has already passed limits nothing: the start
  of the window is rounded down to the second, so the attempt itself is already outside of its window.
\<close>

theorem short_window_never_limits:
  assumes "iso_range t" "rl_windowMs c \<le> t mod 1000" "\<forall>u \<in> set ts. u = t" "rate_get s k = None"
  shows "fst (rate_run c k s ts) = ts"
proof -
  have gone: "elapsed t (iso_seconds t) = Some (t mod 1000)"
    using parse_iso_seconds_roundtrip [OF assms(1)] by (simp add: elapsed_def minus_mult_div_eq_mod)
  have "\<lbrakk>\<forall>u \<in> set ts. u = t; \<forall>st. rate_get s k = Some st \<longrightarrow> rs_windowStartedAt st = iso_seconds t\<rbrakk> \<Longrightarrow>
      fst (rate_run c k s ts) = ts" for ts
  proof (induction ts arbitrary: s)
    case (Cons u ts)
    let ?st = "\<lparr>rs_key = k, rs_count = 1, rs_windowStartedAt = iso_seconds t\<rparr>"
    have "rate_attempt s k u c = Some (?st, AList.update k ?st s)"
      using Cons.prems gone assms(2)
      by (auto simp: rate_attempt_def rate_isLimited_def rate_increment_def rate_get_def Let_def split: option.splits)
    moreover have "fst (rate_run c k (AList.update k ?st s) ts) = ts"
      by (rule Cons.IH) (use Cons.prems in \<open>simp_all add: rate_get_def update_conv'\<close>)
    ultimately show ?case by (simp add: Let_def)
  qed simp
  then show ?thesis using assms(3,4) by simp
qed

theorem short_window_never_limits_witness:
  "fst (rate_run \<lparr>rl_maxAttempts = 1, rl_windowMs = 500\<rparr> ''k'' [] [noon + 600, noon + 600, noon + 600]) =
     [noon + 600, noon + 600, noon + 600]"
  by (rule short_window_never_limits [of "noon + 600"])
    (simp_all add: iso_range_def rate_get_def noon_def)

section \<open>The access decision\<close>

text \<open>
  C8: \<open>evaluateCapabilityAccess\<close> allows exactly when the clock is a valid date, the request normalizes
  (action, capability and its hash, consent, resource), the consent binding holds, the status is absent or
  active, no temporal rule refuses, the action is among the permissions, the resource in the
  scope, a bound market maker is known, not deprecated or revoked, and named by the request, and
  both hooks allow.
\<close>

theorem access_decision:
  "d_allowed (evaluateCapabilityAccess env input clock) \<longleftrightarrow>
     (\<exists>at r. normalizeEvaluationTime env (q_now input) clock = Inr at \<and>
        normalizeCapabilityAccessRequest env input at = Inr r \<and>
        evaluateConsentBinding r = None \<and> n_status (r_capability r) \<in> {None, Some ''active''} \<and>
        temporal_reason env r = None \<and> r_action r \<in> set (n_permissions (r_capability r)) \<and>
        scopeKey (r_resource r) \<in> scopeKey ` set (n_scope (r_capability r)) \<and>
        market_maker_ok (q_marketMakerRegistry input) r \<and>
        hook_allows (q_usageHook input) r \<and> hook_allows (q_policyHook input) r)"
  unfolding evaluate_allowed request_authorized_def ..

text \<open>
  Fail closed on market makers.  When the registry given to the decision is a
  \<open>MarketMakerRegistry\<close> filled by any sequence of registrations, access by a capability bound to a
  market maker is allowed only if the first valid registration of that identifier is active and the
  request names it; without a registry it is never allowed.
\<close>

definition registry_view :: "MarketMakerRegistry \<Rightarrow> mm_view" where
  "registry_view r = \<lparr>mv_exists = mm_exists r, mv_getStatus = mm_getStatus r\<rparr>"

theorem market_maker_fail_closed:
  assumes "d_allowed (evaluateCapabilityAccess env input clock)" "q_capability input = Some c"
    "t_marketMakerId c = Some m" "q_marketMakerRegistry input = map_option (registry_view \<circ> mm_register_all) ms"
  shows "\<exists>regs. ms = Some regs \<and> mm_isTrusted (mm_register_all regs) m \<and> q_marketMakerId input = Some m"
proof -
  obtain at r where n: "normalizeCapabilityAccessRequest env input at = Inr r"
    "market_maker_ok (q_marketMakerRegistry input) r"
    using assms(1) unfolding evaluate_allowed request_authorized_def by blast
  have cap: "normalizeCapability env (Some c) = Inr (r_capability r)" "r_marketMakerId r = q_marketMakerId input"
    using n(1) assms(2) by (auto simp: normalizeCapabilityAccessRequest_def)
  have "n_marketMakerId (r_capability r) = Some m"
    using normalizeCapability_Inr [OF cap(1)] assms(3) by simp
  then obtain regs where regs: "ms = Some regs" "mm_exists (mm_register_all regs) m"
    "mm_getStatus (mm_register_all regs) m \<notin> {Some ''deprecated'', Some ''revoked''}" "q_marketMakerId input = Some m"
    using n(2) cap(2) assms(4) by (auto simp: market_maker_ok_def registry_view_def)
  then obtain e where e: "map_of (mm_register_all regs) m = Some e" by (auto simp: mm_exists_def)
  have "validateMarketMaker e = None"
    using mm_register_all_inv [of regs] map_of_SomeD [OF e] by (auto simp: mm_inv_def)
  then have "mm_status e \<in> {''active'', ''deprecated'', ''revoked''}" by (simp add: validateMarketMaker_def)
  with regs(3) e have "mm_getStatus (mm_register_all regs) m = Some ''active''"
    by (auto simp: mm_getStatus_def)
  with regs(1,4) show ?thesis by (simp add: mm.trusted_status)
qed

theorem market_maker_fail_closed_witness:
  "mm_isTrusted (mm_register_all [sample_maker]) ''mm-1'' \<and>
   d_allowed (evaluateCapabilityAccess sample_env (simple_request bound_capability (Some ''mm-1'')
     (Some (registry_view (mm_register_all [sample_maker]))) ''2025-01-15T12:01:00Z'') noon)"
proof -
  let ?v = "registry_view (mm_register_all [sample_maker])"
  let ?q = "simple_request bound_capability (Some ''mm-1'') (Some ?v) ''2025-01-15T12:01:00Z''"
  have d: "date_parse (e_date sample_env) ''2025-01-15T12:04:00Z'' = Some (noon + 240000)"
    "date_parse (e_date sample_env) ''2025-01-15T12:00:00Z'' = Some noon"
    "date_parse (e_date sample_env) ''2025-01-15T12:01:00Z'' = Some (noon + 60000)" by code_simp+
  have at: "normalizeEvaluationTime sample_env (NowText ''2025-01-15T12:01:00Z'') noon = Inr ''2025-01-15T12:01:00Z''"
    by code_simp
  have "mm_status sample_maker = ''active''" by (simp add: sample_maker_def)
  then have v: "mv_exists ?v ''mm-1''" "mv_getStatus ?v ''mm-1'' = Some ''active''"
    by (simp_all add: sample_maker_registered registry_view_def mm_exists_def mm_getStatus_def)
  have a: "d_allowed (evaluateCapabilityAccess sample_env ?q noon)"
    by (rule simple_request_allowed [OF bound_token_valid _ _ _ _ _ _ at])
      (use d sample_iso v in \<open>simp_all add: bound_capability_def sample_entry_def\<close>)
  have "\<exists>regs. Some [sample_maker] = Some regs \<and> mm_isTrusted (mm_register_all regs) ''mm-1'' \<and>
      q_marketMakerId ?q = Some ''mm-1''"
    by (rule market_maker_fail_closed [OF a, where c = bound_capability]) (simp_all add: simple_request_def bound_capability_def)
  with a show ?thesis by simp
qed

text \<open>
  A capability whose \<open>expires_at\<close> has the shape of a timestamp but is no date of the calendar never expires: when it
  has no start, and no consent and no hooks are given, the access decision is the same at every evaluation time, since
  every comparison with the invalid date is false.
\<close>

theorem undated_expiry_never_expires:
  assumes "q_capability input = Some c" "date_parse (e_date env) (t_expires_at c) = None" "t_not_before c = None"
    "rc_startsAt c = None" "q_consent input = None" "q_usageHook input = None" "q_policyHook input = None"
    "normalizeEvaluationTime env t clock = Inr at" "normalizeEvaluationTime env u clock' = Inr at'"
  shows "d_allowed (evaluateCapabilityAccess env (input\<lparr>q_now := t\<rparr>) clock) \<longleftrightarrow>
    d_allowed (evaluateCapabilityAccess env (input\<lparr>q_now := u\<rparr>) clock')"
proof -
  have timeless: "request_authorized env (input\<lparr>q_now := u\<rparr>) (r\<lparr>r_evaluatedAt := at'\<rparr>)"
    if "normalizeCapabilityAccessRequest env (input\<lparr>q_now := t\<rparr>) at = Inr r" "request_authorized env (input\<lparr>q_now := t\<rparr>) r" for t u r at at'
  proof -
    have cap: "normalizeCapability env (Some c) = Inr (r_capability r)" "r_consent r = None"
      using that(1) assms(1,5) by (auto simp: normalizeCapabilityAccessRequest_def)
    have "n_expiresAt (r_capability r) = t_expires_at c" "n_notBefore (r_capability r) = None"
      using normalizeCapability_Inr [OF cap(1)] assms(3,4) by simp_all
    then have "temporal_reason env (r\<lparr>r_evaluatedAt := at'\<rparr>) = None"
      using assms(2) cap(2) by (simp add: temporal_reason_def parseTimestampOrNull_def Let_def)
    then show ?thesis
      using that(2) assms(6,7)
      by (simp add: request_authorized_def hook_allows_def evaluateConsentBinding_def market_maker_ok_def cap(2) cong: option.case_cong)
  qed
  have renormalized: "normalizeCapabilityAccessRequest env (input\<lparr>q_now := u\<rparr>) at' = Inr (r\<lparr>r_evaluatedAt := at'\<rparr>)"
    if "normalizeCapabilityAccessRequest env (input\<lparr>q_now := t\<rparr>) at = Inr r" for t u r at at'
    using that by (auto simp: normalizeCapabilityAccessRequest_def)
  show ?thesis
    unfolding evaluate_allowed using assms(8,9) timeless renormalized by (simp add: evaluate_allowed) blast
qed

theorem undated_expiry_never_expires_witness:
  "d_allowed (evaluateCapabilityAccess sample_env
     (simple_request undated_capability None None ''2025-01-15T12:01:00Z''\<lparr>q_now := NowText ''2199-01-01T00:00:00Z''\<rparr>) noon)"
proof -
  let ?q = "simple_request undated_capability None None ''2025-01-15T12:01:00Z''"
  have none: "date_parse (e_date sample_env) ''2025-99-99T99:99:99Z'' = None" by code_simp
  have iso: "ISO8601_UTC_PATTERN ''2025-99-99T99:99:99Z''" by code_simp
  have at: "normalizeEvaluationTime sample_env (NowText ''2025-01-15T12:01:00Z'') noon = Inr ''2025-01-15T12:01:00Z''"
    "normalizeEvaluationTime sample_env (NowText ''2199-01-01T00:00:00Z'') noon = Inr ''2199-01-01T00:00:00Z''"
    by code_simp+
  have "d_allowed (evaluateCapabilityAccess sample_env ?q noon)"
    by (rule simple_request_allowed [OF undated_token_valid _ _ _ _ _ _ at(1)])
      (use none iso in \<open>simp_all add: undated_capability_def sample_entry_def\<close>)
  moreover have "?q\<lparr>q_now := NowText ''2025-01-15T12:01:00Z''\<rparr> = ?q" by (simp add: simple_request_def)
  ultimately show ?thesis
    using undated_expiry_never_expires [of ?q undated_capability sample_env, OF _ _ _ _ _ _ _ at] none
    by (simp add: undated_capability_def simple_request_def)
qed

section \<open>Capability tokens\<close>

text \<open>
  C11: \<open>verifyCapabilityToken\<close> returns exactly when the clock is valid, the token is well formed and its
  hash is the hash of its payload, it derives from the consent (bound to it, no wider in scope,
  permissions or time), the clock lies between its start and its expiry, it is not revoked and its
  identifier was not seen; it then marks the identifier, and changes nothing else.
\<close>

theorem verification_accepts:
  "verifyCapabilityToken sha cmp ops t c now regs = Inr regs' \<longleftrightarrow>
     (\<exists>at. iso_now now = Inr at \<and> valid_token t \<and> HASH_HEX_PATTERN (t_capability_hash t) \<and>
        computeCapabilityHash sha cmp t = Inr (t_capability_hash t) \<and> derived_from t c \<and>
        effective_start t \<le> at \<and> at \<le> t_expires_at t \<and>
        \<not> isRevoked ops regs (t_capability_hash t) \<and> \<not> nonce_seen ops regs (t_token_id t) now) \<and>
     regs' = nonce_mark ops regs (t_token_id t) (t_expires_at t) now"
  unfolding verifyCapabilityToken_Inr acceptable_def by blast

text \<open>
  C12: over any sequence of verifications and revocations, accepted tokens have distinct identifiers:
  a token is accepted at most once.
\<close>

theorem verification_at_most_once:
  assumes "lawful_registries ops" "cap_run sha cmp ops regs evs regs'"
  shows "distinct (map t_token_id (accepted evs))"
  by (rule lawful_registries.run_accepts_once [OF assms])

lemma sample_token_accepted:
  "verifyCapabilityToken sample_sha sample_cmp mem_ops sample_token sample_consent (Some noon) default_registries =
     Inr (nonce_mark mem_ops default_registries hex_c ''2025-01-15T12:04:00Z'' (Some noon))"
proof -
  have "iso_now (Some noon) = Inr ''2025-01-15T12:00:00Z''" by code_simp
  then show ?thesis
    using sample_token_valid_payload sample_token_derived sample_hex sample_order
    by (auto simp: verifyCapabilityToken_Inr acceptable_def sample_token_hash effective_start_def isRevoked_def
        nonce_seen_def default_registries_def in_use_def mem_isRevoked_def mem_hasSeen_def less_imp_le)
qed

theorem verification_at_most_once_witness:
  "\<exists>regs'. cap_run sample_sha sample_cmp mem_ops default_registries [Accepted sample_token] regs' \<and>
     distinct (map t_token_id (accepted [Accepted sample_token]))"
proof -
  let ?regs = "nonce_mark mem_ops default_registries hex_c ''2025-01-15T12:04:00Z'' (Some noon)"
  have "cap_run sample_sha sample_cmp mem_ops default_registries [Accepted sample_token] ?regs"
    by (rule cap_run.step [OF cap_step.accept [OF sample_token_accepted] cap_run.finish])
  from verification_at_most_once [OF mem.lawful_registries_axioms this] this show ?thesis by blast
qed

text \<open>After a revocation, no token of that hash is accepted by any later verification.\<close>

theorem revocation_is_final:
  assumes "lawful_registries ops" "cap_run sha cmp ops regs (cap_event.Revoked h # evs) regs'"
  shows "h \<notin> t_capability_hash ` set (accepted evs)"
  by (rule lawful_registries.run_revoke_final [OF assms])

theorem revocation_is_final_witness:
  "\<exists>msg regs'. cap_run sample_sha sample_cmp mem_ops default_registries [cap_event.Revoked hex_a, Rejected sample_token msg] regs' \<and>
     hex_a \<notin> t_capability_hash ` set (accepted [Rejected sample_token msg])"
proof -
  obtain regs1 where r: "revokeCapabilityToken mem_ops default_registries hex_a = Inr regs1"
    using sample_hex by (auto simp: revokeCapabilityToken_def validateCapabilityHash_def)
  have "isRevoked mem_ops regs1 hex_a" using mem.revoke_revoked [OF r] by simp
  then obtain msg where "verifyCapabilityToken sample_sha sample_cmp mem_ops sample_token sample_consent (Some noon) regs1 = Inl msg"
    by (cases "verifyCapabilityToken sample_sha sample_cmp mem_ops sample_token sample_consent (Some noon) regs1")
      (auto simp: verifyCapabilityToken_Inr acceptable_def)
  then have "cap_run sample_sha sample_cmp mem_ops default_registries [cap_event.Revoked hex_a, Rejected sample_token msg] regs1"
    by (rule cap_run.step [OF cap_step.revoke [OF r] cap_run.step [OF cap_step.reject cap_run.finish]])
  from revocation_is_final [OF mem.lawful_registries_axioms this] this show ?thesis by blast
qed

text \<open>
  C14: minting attenuates.  A minted token is bound to its consent, carries exactly the scope and the
  permissions asked for, which are among the consent's, the consent's market maker, and lies within
  the times of the consent; only a grant can be minted from.
\<close>

theorem minting_attenuates:
  assumes "mintCapabilityToken sha cmp c es ps e n req now tid = Inr t"
  shows "derived_from t c \<and> valid_token t \<and> t_scope t = es \<and> t_permissions t = ps \<and> t_expires_at t = e \<and>
    t_not_before t = n \<and> t_token_id t = tid \<and> iso_now now = Inr (t_issued_at t) \<and>
    computeCapabilityHash sha cmp t = Inr (t_capability_hash t)"
  using assms by (auto simp: mintCapabilityToken_Inr)

theorem minting_attenuates_witness:
  "derived_from sample_token sample_consent \<and> t_permissions sample_token = [''read'']"
  using minting_attenuates [OF sample_token_minted] by simp

text \<open>
  C15: a minted token is accepted against its consent at any clock between its start and its expiry,
  when it is not revoked and was not presented before.
\<close>

theorem minted_token_verifies:
  assumes "\<And>b. HASH_HEX_PATTERN (sha b)" "mintCapabilityToken sha cmp c es ps e n req now tid = Inr t"
    "iso_now later = Inr at" "at \<le> e" "effective_start t \<le> at"
    "\<not> isRevoked ops regs (t_capability_hash t)" "\<not> nonce_seen ops regs tid later"
  shows "verifyCapabilityToken sha cmp ops t c later regs = Inr (nonce_mark ops regs tid e later)"
proof -
  have m: "t_not_before t = n" "t_token_id t = tid" "t_expires_at t = e"
    using assms(2) by (auto simp: mintCapabilityToken_Inr)
  have "acceptable sha cmp ops t c at later regs"
    by (rule mint_acceptable [OF assms(1-4)]) (use assms(5-7) m in \<open>auto simp: effective_start_def split: option.splits\<close>)
  with assms(3) m show ?thesis by (auto simp: verifyCapabilityToken_Inr)
qed

theorem minted_token_verifies_witness:
  "verifyCapabilityToken sample_sha sample_cmp mem_ops sample_token sample_consent (Some (noon + 60000)) default_registries =
     Inr (nonce_mark mem_ops default_registries hex_c ''2025-01-15T12:04:00Z'' (Some (noon + 60000)))"
proof -
  have at: "iso_now (Some (noon + 60000)) = Inr ''2025-01-15T12:01:00Z''" by code_simp
  have "''2025-01-15T12:01:00Z'' < ''2025-01-15T12:04:00Z''" "''2025-01-15T12:00:00Z'' < ''2025-01-15T12:01:00Z''" by code_simp+
  then show ?thesis
    by (intro minted_token_verifies [OF sample_sha_hex sample_token_minted at])
      (auto simp: effective_start_def isRevoked_def nonce_seen_def default_registries_def in_use_def mem_isRevoked_def
        mem_hasSeen_def less_imp_le)
qed

text \<open>
  C16: tamper evidence.  The hashes of two tokens are the digests of two byte strings, and tokens that differ in anything
  but the order of scope and permissions have different byte strings.  So two such tokens with the same capability hash
  are a collision of SHA-256 at these two byte strings.
\<close>

theorem capability_hash_is_binding:
  assumes "computeCapabilityHash sha cmp p = Inr h" "computeCapabilityHash sha cmp q = Inr k"
  shows "\<exists>s t. canonicalizeCapabilityPayload cmp p = Inr s \<and> canonicalizeCapabilityPayload cmp q = Inr t \<and>
    h = sha s \<and> k = sha t \<and> (\<not> same_token p q \<longrightarrow> s \<noteq> t)"
  using capability_hash_binds [OF assms] by blast

theorem capability_hash_is_binding_witness:
  "canonicalizeCapabilityPayload sample_cmp sample_token \<noteq>
     canonicalizeCapabilityPayload sample_cmp (sample_token\<lparr>t_permissions := [''read'', ''share'']\<rparr>)"
proof -
  let ?q = "sample_token\<lparr>t_permissions := [''read'', ''share'']\<rparr>"
  have "\<not> same_token sample_token ?q" by (auto simp: same_token_def)
  with capability_hash_is_binding [OF sample_token_hash [of sample_cmp sample_token] sample_token_hash [of sample_cmp ?q]]
  show ?thesis by auto
qed

section \<open>Consents\<close>

text \<open>
  What \<open>buildConsentObject\<close> returns is accepted by \<open>validateConsentObject\<close>, for every hash function
  that yields 64 hexadecimal digits.
\<close>

theorem built_consent_validates:
  assumes "\<And>b. HASH_HEX_PATTERN (sha b)" "buildConsentObject sha cmp s g a es ps opts now = Inr c"
  shows "validateConsentObject sha cmp c = None"
  by (rule buildConsentObject_validates [OF assms])

theorem built_consent_validates_witness:
  "validateConsentObject sample_sha sample_cmp sample_consent = None"
  by (rule built_consent_validates [OF sample_sha_hex sample_consent_built])

text \<open>
  C18: \<open>validateConsentObject\<close> accepts exactly the well-formed consents (a grant with scope, canonical
  permissions and an expiry after its issue, or a bare revocation with a target) whose hash is
  that of their payload and that do not refer to themselves.
\<close>

theorem consent_validation:
  "validateConsentObject sha cmp c = None \<longleftrightarrow>
     VERSION_PATTERN (c_version c) \<and> valid_did (c_subject c) \<and> valid_did (c_grantee c) \<and>
     ISO8601_UTC_PATTERN (c_issued_at c) \<and> (\<forall>h. c_prior_consent c = Some h \<longrightarrow> HASH_HEX_PATTERN h) \<and>
     (valid_grant c \<or> valid_revocation c) \<and> HASH_HEX_PATTERN (c_consent_hash c) \<and>
     computeConsentHash sha cmp c = Inr (c_consent_hash c) \<and> c_prior_consent c \<noteq> Some (c_consent_hash c)"
  unfolding validateConsentObject_returns valid_consent_def by blast

theorem consent_validation_witness:
  "validateConsentObject sample_sha sample_cmp sample_consent = None \<and> valid_grant sample_consent"
  using consent_validation [of sample_sha sample_cmp sample_consent] sample_consent_valid
  by (auto simp: valid_revocation_def)

text \<open>
  Consents that differ in their terms (the order of scope and permissions and the sign of a zero price apart) are hashed
  over different byte strings.
\<close>

theorem consent_hash_is_binding:
  assumes "computeConsentHash sha cmp p = Inr h" "computeConsentHash sha cmp q = Inr k" "payload_nums p" "payload_nums q"
  shows "\<exists>s t. canonicalizeConsentPayload cmp p = Inr s \<and> canonicalizeConsentPayload cmp q = Inr t \<and>
    h = sha s \<and> k = sha t \<and> (\<not> same_terms p q \<longrightarrow> s \<noteq> t)"
  using consent_hash_binds [OF assms] by blast

theorem consent_hash_is_binding_witness:
  "\<exists>s. canonicalizeConsentPayload sample_cmp sample_consent = Inr s \<and> c_consent_hash sample_consent = sample_sha s"
proof -
  have p: "c_pricing sample_consent = None" by simp
  note h = sample_consent_hash [where cmp = sample_cmp, OF p]
  from consent_hash_is_binding [OF h h] p show ?thesis by (auto simp: payload_nums_def)
qed

section \<open>Canonical text\<close>

text \<open>
  C20: the canonical text determines the value: two values with the same text are equal up to the order of the members
  of their objects and the signs of their zeros, and values equal in this sense have the same text.
\<close>

theorem canonical_text_injective:
  assumes "canonicalizeJSON v = Inr s" "json_nums v" "json_nums w"
  shows "canonicalizeJSON w = Inr s \<longleftrightarrow> json_norm w = json_norm v"
  by (rule canonicalizeJSON_same [OF assms])

theorem canonical_text_injective_witness:
  "canonicalizeJSON (JObj [(''a'', JNum (Dec 79 (- 11))), (''b'', JNum (Dec 0 0))]) = Inr ''{\"a\":7.9e-10,\"b\":0}'' \<and>
   canonicalizeJSON (JObj [(''a'', JNum (Dec 79 (- 1))), (''b'', JNum (Dec 0 0))]) \<noteq> Inr ''{\"a\":7.9e-10,\"b\":0}''"
proof -
  have v: "canonicalizeJSON (JObj [(''b'', JNum NegZero), (''a'', JNum (Dec 79 (- 11)))]) = Inr ''{\"a\":7.9e-10,\"b\":0}''" by code_simp
  have n: "json_norm (JObj [(''a'', JNum (Dec 79 (- 11))), (''b'', JNum (Dec 0 0))]) =
      json_norm (JObj [(''b'', JNum NegZero), (''a'', JNum (Dec 79 (- 11)))])"
    "json_norm (JObj [(''a'', JNum (Dec 79 (- 1))), (''b'', JNum (Dec 0 0))]) \<noteq>
      json_norm (JObj [(''b'', JNum NegZero), (''a'', JNum (Dec 79 (- 11)))])"
    by (code_simp, code_simp)
  show ?thesis
    using canonical_text_injective [OF v, of "JObj [(''a'', JNum (Dec 79 (- 11))), (''b'', JNum (Dec 0 0))]"]
      canonical_text_injective [OF v, of "JObj [(''a'', JNum (Dec 79 (- 1))), (''b'', JNum (Dec 0 0))]"] n
    by (simp add: canonical_num_def del: canonicalizeJSON.simps json_norm.simps)
qed

text \<open>
  \<open>canonicalizeJSON\<close> returns a text exactly for the values without undefined and without
  non-finite numbers, and the text of a number reads back as the number, that of \<open>-0\<close> as \<open>0\<close>.
\<close>

theorem canonical_text_total:
  "((\<exists>s. canonicalizeJSON v = Inr s) \<longleftrightarrow> json_ok v) \<and>
   (\<forall>x. canonical_num x \<and> isFinite x \<longrightarrow> (\<exists>t. canonicalizeJSON (JNum x) = Inr t \<and> Number t = unsigned_zero x))"
  using canonicalizeJSON_accepts Number_num_text by simp

theorem canonical_text_total_witness:
  "\<exists>t. canonicalizeJSON (JNum (Dec 79 (- 11))) = Inr t \<and> Number t = Dec 79 (- 11)"
  using canonical_text_total [of JNull] by (simp add: canonical_num_def isFinite_def)

section \<open>Dates\<close>

text \<open>
  C22: the timestamps the code writes parse back to the second they were written for, have the shape
  the validators ask for, and compare as texts (as the code compares them) the way
  their instants compare.
\<close>

theorem timestamps_faithful:
  assumes "iso_range t" "iso_range u"
  shows "ISO8601_UTC_PATTERN (iso_seconds t) \<and> parse_iso_seconds (iso_seconds t) = Some (1000 * (t div 1000)) \<and>
    (iso_seconds t < iso_seconds u \<longleftrightarrow> t div 1000 < u div 1000)"
  using iso_seconds_pattern parse_iso_seconds_roundtrip iso_seconds_less_iff assms by blast

theorem timestamps_faithful_witness:
  "parse_iso_seconds (iso_seconds noon) = Some noon \<and> iso_seconds noon < iso_seconds (noon + 1000)"
proof -
  have r: "iso_range noon" "iso_range (noon + 1000)" by (simp_all add: iso_range_def noon_def)
  have "1000 * (noon div 1000) = noon" "noon div 1000 < (noon + 1000) div 1000" by (simp_all add: noon_def)
  with timestamps_faithful [OF r] show ?thesis by simp
qed

section \<open>Storage\<close>

text \<open>
  \<open>buildStoragePointer\<close> and \<open>parseStorageUri\<close> are inverse: the URI of a built pointer parses to its
  backend and hash, and a URI that parses to a backend of at most 64 characters is the URI of
  the pointer built from the parts.
\<close>

theorem storage_uri_roundtrip:
  "(\<forall>b h p. buildStoragePointer b h = Inr p \<longrightarrow> parseStorageUri (ptr_uri p) = Inr (b, h)) \<and>
   (\<forall>uri b h. parseStorageUri uri = Inr (b, h) \<and> length b \<le> 64 \<longrightarrow>
      (\<exists>p. buildStoragePointer b h = Inr p \<and> ptr_uri p = uri))"
  by (auto simp: buildStoragePointer_Inr parseStorageUri_Inr)

theorem storage_uri_roundtrip_witness:
  "\<exists>p. buildStoragePointer ''local'' hex_a = Inr p \<and> parseStorageUri (ptr_uri p) = Inr (''local'', hex_a)"
proof -
  have "BACKEND_PATTERN ''local''" by code_simp
  then obtain p where "buildStoragePointer ''local'' hex_a = Inr p"
    using sample_hex by (auto simp: buildStoragePointer_Inr)
  with storage_uri_roundtrip show ?thesis by blast
qed

text \<open>
  C24: the local adapter keeps what it stores.  A blob put into the file system is read back under its pointer
  after any further puts, unless one of them is another blob with the same digest; in every case the
  bytes returned have the digest of the pointer.
\<close>

theorem local_storage_keeps:
  assumes "fs_put sha d fs b = Inr (p, fs1)" "local_fs.puts sha d fs1 bs = Inr fs2"
  shows "\<exists>b'. fs_get sha d fs2 p = Inr b' \<and> sha b' = sha b \<and> b' \<in> insert b (set bs)"
  by (rule local_fs.put_puts_get [OF assms])

theorem local_storage_keeps_witness:
  "\<exists>p fs1 b'. fs_put sample_sha ''/data'' Map.empty ''blob'' = Inr (p, fs1) \<and> fs_get sample_sha ''/data'' fs1 p = Inr b' \<and>
     b' \<in> {''blob''}"
proof -
  have "BACKEND_PATTERN ''local''" by code_simp
  moreover have "HASH_HEX_PATTERN (sample_sha ''blob'')" by (rule sample_sha_hex)
  ultimately obtain p fs1 where p: "fs_put sample_sha ''/data'' Map.empty ''blob'' = Inr (p, fs1)"
    by (auto simp: fs_put_Inr buildStoragePointer_Inr)
  have "local_fs.puts sample_sha ''/data'' fs1 [] = Inr fs1" by simp
  from local_storage_keeps [OF p this] p show ?thesis by auto
qed

section \<open>Packs\<close>

text \<open>
  \<open>buildPackManifest\<close> does not depend on the order in which the fields are listed: a
  permutation of the fields gives the same version, subject, time and hash, whenever \<open>localeCompare\<close>
  is a total order on the field identifiers.
\<close>

theorem pack_hash_order_free:
  assumes "buildPackManifest sha cmp s rs now sys = Inr m" "mset rs = mset rs'"
    "total_on_by cmp (fr_field_id ` set rs)"
  shows "buildPackManifest sha cmp s rs' now sys = Inr (m\<lparr>pk_fields := rs'\<rparr>)"
proof -
  have v: "pack_validateFields rs = None" using assms(1) by (simp add: buildPackManifest_Inr)
  then have d: "distinct (map fr_field_id rs)" by (simp add: pack_validateFields_returns)
  have set: "set rs = set rs'" "length rs = length rs'"
    using assms(2) by (metis set_mset_mset, metis size_mset)
  have "mset (map fr_field_id rs) = mset (map fr_field_id rs')" using assms(2) by simp
  then have "distinct (map fr_field_id rs')" using d by (metis mset_eq_imp_distinct_iff)
  with v set have "pack_validateFields rs' = None" by (auto simp: pack_validateFields_returns)
  then show ?thesis
    using assms(1) pack_payload_order [OF assms(2) d assms(3)] by (auto simp: buildPackManifest_Inr)
qed

definition sample_reference :: "string \<Rightarrow> FieldReference" where
  "sample_reference i =
     \<lparr>fr_field_id = i, fr_content_id = hex_b,
      fr_storage = \<lparr>ptr_uri = ''aoc://storage/local/0x'' @ hex_a, ptr_backend = ''local'', ptr_hash = hex_a\<rparr>,
      fr_bytes = Dec 128 0\<rparr>"

lemma sample_pack:
  "\<exists>m. buildPackManifest sample_sha sample_cmp ''did:aoc:alice'' [sample_reference ''email'', sample_reference ''name'']
     (Some noon) noon = Inr m"
proof -
  have "pack_validateSubject ''did:aoc:alice'' = None" "pack_validateCreatedAt (seconds_of (Some noon)) (noon div 1000) = None"
    "FIELD_ID_PATTERN ''email''" "FIELD_ID_PATTERN ''name''" "BACKEND_PATTERN ''local''" by code_simp+
  moreover have "seconds_of (Some noon) = Dec 17369424 2" by code_simp
  moreover have "json_ok (canonicalizeFieldReference (sample_reference i))" for i
    by (simp add: canonicalizeFieldReference_def sample_reference_def isFinite_def)
  then have "\<exists>b. canonicalizePackManifestPayload sample_cmp v s (Dec 17369424 2)
      [sample_reference ''email'', sample_reference ''name''] = Inr b" for v s
    unfolding canonicalizePackManifestPayload_def Let_def
    by (intro canonical_bytes_ok) (simp add: list_all_iff isFinite_def)
  ultimately show ?thesis
    using sample_hex
    by (simp add: buildPackManifest_Inr pack_validateFields_returns valid_reference_def sample_reference_def
        pointer_uri_def isInteger_def num_le_zero_def)
qed

theorem pack_hash_order_free_witness:
  "\<exists>m. buildPackManifest sample_sha sample_cmp ''did:aoc:alice'' [sample_reference ''name'', sample_reference ''email'']
     (Some noon) noon = Inr m"
proof -
  obtain m where m: "buildPackManifest sample_sha sample_cmp ''did:aoc:alice''
      [sample_reference ''email'', sample_reference ''name''] (Some noon) noon = Inr m"
    using sample_pack by blast
  have "total_on_by sample_cmp (fr_field_id ` set [sample_reference ''email'', sample_reference ''name''])"
    by (auto simp: total_on_by_def sample_cmp_def sample_reference_def)
  from pack_hash_order_free [OF m _ this, of "[sample_reference ''name'', sample_reference ''email'']"]
  show ?thesis by auto
qed

section \<open>Uses\<close>

text \<open>
  The in-memory usage registry counts: after any sequence of records, the count of a consent has
  grown by the number of its records that say allow.
\<close>

theorem usage_counts:
  "usage_count (mem_usage.uses u rs) q =
     usage_count u q + int (length (filter (\<lambda>(r, res, at). r = q \<and> res = ''allow'') rs))"
  by (rule mem_usage.uses_count)

end
